(* ===== verification/Noetl_Prelude.thy ===== *)
theory Noetl_Prelude
  imports Main "HOL-Library.AList" "HOL-Library.Char_ord" "HOL-Library.List_Lexorder"
    "HOL-Library.Multiset"
begin

text \<open>
  Shared vocabulary of the development: Python exceptions as values (\<open>py_error\<close>, a result
  type \<open>'a res\<close> and its sequencing \<open>rbind\<close>, \<open>rmap\<close>, \<open>rfold\<close>), Python dictionaries as
  association lists in insertion order (reading is \<open>map_of\<close>, \<open>d[k] = v\<close> is
  \<open>AList.update\<close>), and the lemma collections \<open>res_simps\<close> and \<open>dict_simps\<close> the component
  theories simplify with.
\<close>

named_theorems res_simps
named_theorems dict_simps

section \<open>Exceptions as values\<close>

text \<open>
  The constructors are the exception classes the modelled code raises or catches; the string is
  the message where the source has a literal one, and a tag where it interpolates values.
\<close>

datatype py_error =
    KeyError string
  | TypeError string
  | ValueError string
  | RuntimeError string
  | IndexError string
  | AttributeError string
  | UnboundLocalError string

type_synonym 'a res = "py_error + 'a"

text \<open>\<open>rbind m f\<close>: run \<open>m\<close>; an exception propagates, a value is handed to \<open>f\<close>.\<close>

definition rbind :: "'a res \<Rightarrow> ('a \<Rightarrow> 'b res) \<Rightarrow> 'b res" where
  "rbind m f = (case m of Inl e \<Rightarrow> Inl e | Inr x \<Rightarrow> f x)"

lemma rbind_simps [simp, res_simps]:
  "rbind (Inl e) f = Inl e"
  "rbind (Inr x) f = f x"
  by (simp_all add: rbind_def)

lemma rbind_Inr_iff [res_simps]: "rbind m f = Inr y \<longleftrightarrow> (\<exists>x. m = Inr x \<and> f x = Inr y)"
  by (cases m) auto

lemma rbind_InrE:
  assumes "rbind m f = Inr y"
  obtains x where "m = Inr x" and "f x = Inr y"
  using assms by (auto simp: rbind_Inr_iff)

lemma rbind_assoc [res_simps]: "rbind (rbind m f) g = rbind m (\<lambda>x. rbind (f x) g)"
  by (cases m) auto

lemma rbind_cong [fundef_cong]:
  assumes "m = m'" and "\<And>x. m' = Inr x \<Longrightarrow> f x = f' x"
  shows "rbind m f = rbind m' f'"
  using assms by (cases m') (auto simp: rbind_def)

text \<open>A \<open>for\<close> loop over a state whose body may raise.\<close>

fun rfold :: "('s \<Rightarrow> 'a \<Rightarrow> 's res) \<Rightarrow> 's \<Rightarrow> 'a list \<Rightarrow> 's res" where
  "rfold f s [] = Inr s"
| "rfold f s (x # xs) = rbind (f s x) (\<lambda>s'. rfold f s' xs)"

lemma rfold_append [res_simps]: "rfold f s (xs @ ys) = rbind (rfold f s xs) (\<lambda>s'. rfold f s' ys)"
  by (induction xs arbitrary: s) (auto simp: rbind_assoc)

lemma rfold_cong [fundef_cong]:
  assumes "xs = ys" and "s = t" and "\<And>u x. x \<in> set ys \<Longrightarrow> f u x = g u x"
  shows "rfold f s xs = rfold g t ys"
proof -
  have "rfold f t ys = rfold g t ys"
    using assms(3)
  proof (induction ys arbitrary: t)
    case (Cons y ys)
    then have "\<And>u. rfold f u ys = rfold g u ys" by simp
    with Cons.prems show ?case by (simp add: rbind_def split: sum.split)
  qed simp
  with assms(1,2) show ?thesis by simp
qed

text \<open>The loop rule: an invariant the body keeps holds for the state the loop returns.\<close>

lemma rfold_invariant:
  assumes "rfold f s xs = Inr t" and "I s"
    and "\<And>u x v. x \<in> set xs \<Longrightarrow> I u \<Longrightarrow> f u x = Inr v \<Longrightarrow> I v"
  shows "I t"
  using assms
proof (induction xs arbitrary: s)
  case (Cons x xs)
  from Cons.prems(1) obtain s' where s': "f s x = Inr s'" and r: "rfold f s' xs = Inr t"
    by (auto elim: rbind_InrE)
  have "I s'" using Cons.prems(2,3) s' by auto
  then show ?case using Cons.IH [OF r] Cons.prems(3) by auto
qed simp

lemma rfold_total:
  assumes "I s" and "\<And>u x. x \<in> set xs \<Longrightarrow> I u \<Longrightarrow> \<exists>v. f u x = Inr v \<and> I v"
  shows "\<exists>t. rfold f s xs = Inr t \<and> I t"
  using assms
proof (induction xs arbitrary: s)
  case (Cons x xs)
  from Cons.prems obtain s' where s': "f s x = Inr s'" and I: "I s'"
    by (meson list.set_intros(1))
  have "\<exists>t. rfold f s' xs = Inr t \<and> I t"
    by (rule Cons.IH [OF I]) (simp add: Cons.prems(2))
  then show ?case by (simp add: s')
qed simp

text \<open>A comprehension whose element expression may raise.\<close>

fun rmap :: "('a \<Rightarrow> 'b res) \<Rightarrow> 'a list \<Rightarrow> 'b list res" where
  "rmap f [] = Inr []"
| "rmap f (x # xs) = rbind (f x) (\<lambda>y. rbind (rmap f xs) (\<lambda>ys. Inr (y # ys)))"

lemma rmap_cong [fundef_cong]:
  assumes "xs = ys" and "\<And>x. x \<in> set ys \<Longrightarrow> f x = g x"
  shows "rmap f xs = rmap g ys"
proof -
  have "rmap f ys = rmap g ys"
    using assms(2)
  proof (induction ys)
    case (Cons y ys)
    then have "rmap f ys = rmap g ys" by simp
    with Cons.prems show ?case by simp
  qed simp
  with assms(1) show ?thesis by simp
qed

lemma rmap_Inr_map: "(\<And>x. x \<in> set xs \<Longrightarrow> f x = Inr (g x)) \<Longrightarrow> rmap f xs = Inr (map g xs)"
  by (induction xs) auto

lemma rmap_list_all2:
  "rmap f xs = Inr ys \<Longrightarrow> list_all2 (\<lambda>x y. f x = Inr y) xs ys"
  by (induction xs arbitrary: ys) (auto elim!: rbind_InrE)

lemma rmap_member: "rmap f xs = Inr ys \<Longrightarrow> x \<in> set xs \<Longrightarrow> \<exists>y \<in> set ys. f x = Inr y"
  by (induction xs arbitrary: ys) (auto elim!: rbind_InrE)

lemma rmap_source: "rmap f xs = Inr ys \<Longrightarrow> y \<in> set ys \<Longrightarrow> \<exists>x \<in> set xs. f x = Inr y"
  by (induction xs arbitrary: ys) (auto elim!: rbind_InrE)

lemma rmap_total: "(\<And>x. x \<in> set xs \<Longrightarrow> \<exists>y. f x = Inr y) \<Longrightarrow> \<exists>ys. rmap f xs = Inr ys"
  by (induction xs) (auto, metis rbind_simps(2))

lemma rmap_length: "rmap f xs = Inr ys \<Longrightarrow> length ys = length xs"
  by (auto dest!: rmap_list_all2 list_all2_lengthD)

section \<open>Dictionaries in insertion order\<close>

text \<open>
  \<open>d.setdefault(k, v)\<close> adds the default at the end when the key is absent; \<open>d.pop(k, None)\<close> is
  \<open>AList.delete\<close>; \<open>d.update(e)\<close> writes the pairs of \<open>e\<close> in order.
\<close>

definition dict_setdefault :: "'k \<Rightarrow> 'v \<Rightarrow> ('k \<times> 'v) list \<Rightarrow> ('k \<times> 'v) list" where
  "dict_setdefault k v d = (case map_of d k of None \<Rightarrow> d @ [(k, v)] | Some _ \<Rightarrow> d)"

definition dict_merge :: "('k \<times> 'v) list \<Rightarrow> ('k \<times> 'v) list \<Rightarrow> ('k \<times> 'v) list" where
  "dict_merge d e = foldl (\<lambda>acc (k, v). AList.update k v acc) d e"

definition dict_keys :: "('k \<times> 'v) list \<Rightarrow> 'k list" where
  "dict_keys d = map fst d"

text \<open>A dictionary has each key once; every operation keeps it so.\<close>

definition dict_wf :: "('k \<times> 'v) list \<Rightarrow> bool" where
  "dict_wf d = distinct (map fst d)"

lemma update_absent: "map_of d k = None \<Longrightarrow> AList.update k v d = d @ [(k, v)]"
  by (induction d) (auto split: if_splits)

lemma dict_wf_nil [simp, dict_simps]: "dict_wf []"
  by (simp add: dict_wf_def)

lemma map_of_update [simp, dict_simps]: "map_of (AList.update k v d) = (map_of d)(k \<mapsto> v)"
  by (simp add: update_conv')

lemma dict_wf_update [simp, dict_simps]: "dict_wf d \<Longrightarrow> dict_wf (AList.update k v d)"
  by (simp add: dict_wf_def distinct_update)

lemma dict_wf_delete [simp, dict_simps]: "dict_wf d \<Longrightarrow> dict_wf (AList.delete k d)"
  by (simp add: dict_wf_def distinct_delete)

lemma map_of_delete [simp, dict_simps]: "map_of (AList.delete k d) = (map_of d)(k := None)"
  by (simp add: delete_conv')

lemma map_of_setdefault [dict_simps]:
  "map_of (dict_setdefault k v d) =
     (case map_of d k of None \<Rightarrow> (map_of d)(k \<mapsto> v) | Some _ \<Rightarrow> map_of d)"
  by (auto simp: dict_setdefault_def map_add_def fun_eq_iff split: option.splits)

lemma dict_wf_setdefault [simp, dict_simps]: "dict_wf d \<Longrightarrow> dict_wf (dict_setdefault k v d)"
  by (auto simp: dict_setdefault_def dict_wf_def map_of_eq_None_iff split: option.splits)

lemma map_of_merge [dict_simps]: "map_of (dict_merge d e) = map_of d ++ map_of (rev e)"
proof (induction e arbitrary: d)
  case (Cons p e)
  obtain k v where p: "p = (k, v)" by force
  have "map_of (dict_merge d (p # e)) = map_of (dict_merge (AList.update k v d) e)"
    by (simp add: dict_merge_def p)
  also have "\<dots> = map_of d ++ map_of (rev (p # e))"
    by (simp add: Cons.IH p map_add_def fun_eq_iff split: option.splits)
  finally show ?case .
qed (simp add: dict_merge_def)

lemma dict_wf_merge [simp, dict_simps]: "dict_wf d \<Longrightarrow> dict_wf (dict_merge d e)"
  by (induction e arbitrary: d) (auto simp: dict_merge_def)

lemma set_update_subset: "set (AList.update k v d) \<subseteq> insert (k, v) (set d)"
  by (induction d) auto

lemma dict_keys_update: "set (map fst (AList.update k v d)) = insert k (set (map fst d))"
  by (induction d) auto

lemma update_update_same [simp, dict_simps]:
  "AList.update k v (AList.update k w d) = AList.update k v d"
  by (induction d) auto

lemma update_current: "map_of d k = Some v \<Longrightarrow> AList.update k v d = d"
  by (induction d) auto

text \<open>
  A keyed table of records is changed by \<open>dict_modify\<close>: the entry under \<open>k\<close> (created from
  \<open>dflt\<close> when absent, as \<open>setdefault\<close> does) is replaced by the body's result.
\<close>

definition dict_modify ::
  "'k \<Rightarrow> 'v \<Rightarrow> ('v \<Rightarrow> 'v res) \<Rightarrow> ('k \<times> 'v) list \<Rightarrow> ('k \<times> 'v) list res" where
  "dict_modify k dflt f d =
     rbind (f (case map_of d k of None \<Rightarrow> dflt | Some v \<Rightarrow> v))
       (\<lambda>v'. Inr (AList.update k v' d))"

lemma dict_modify_wf: "dict_modify k dflt f d = Inr d' \<Longrightarrow> dict_wf d \<Longrightarrow> dict_wf d'"
  by (auto simp: dict_modify_def elim!: rbind_InrE)

lemma dict_modify_Inr:
  assumes "dict_modify k dflt f d = Inr d'"
  obtains v where "f (case map_of d k of None \<Rightarrow> dflt | Some v \<Rightarrow> v) = Inr v"
    and "d' = AList.update k v d"
  using assms by (auto simp: dict_modify_def elim!: rbind_InrE)

lemma dict_modify_values:
  assumes "dict_modify k dflt f d = Inr d'" and "\<forall>(k', v) \<in> set d. P k' v" and "P k dflt"
    and "\<And>v v'. P k v \<Longrightarrow> f v = Inr v' \<Longrightarrow> P k v'"
  shows "\<forall>(k', v) \<in> set d'. P k' v"
proof -
  obtain v where v: "f (case map_of d k of None \<Rightarrow> dflt | Some v \<Rightarrow> v) = Inr v"
    and d': "d' = AList.update k v d"
    using assms(1) by (rule dict_modify_Inr)
  have "P k (case map_of d k of None \<Rightarrow> dflt | Some v \<Rightarrow> v)"
    using assms(2,3) by (auto split: option.splits dest!: map_of_SomeD)
  then have "P k v" using v assms(4) by blast
  then show ?thesis using assms(2) d' set_update_subset [of k v d] by fastforce
qed

section \<open>Stable sorting\<close>

lemma sort_key_append_le:
  assumes "\<And>x y. x \<in> set xs \<Longrightarrow> y \<in> set ys \<Longrightarrow> f x \<le> f y"
  shows "sort_key f (xs @ ys) = sort_key f xs @ sort_key f ys"
proof (rule properties_for_sort_key)
  show "mset (sort_key f xs @ sort_key f ys) = mset (xs @ ys)" by simp
  show "sorted (map f (sort_key f xs @ sort_key f ys))"
    using assms by (auto simp: sorted_append)
  show "\<And>k. k \<in> set (sort_key f xs @ sort_key f ys) \<Longrightarrow>
      filter (\<lambda>x. f k = f x) (sort_key f xs @ sort_key f ys) = filter (\<lambda>x. f k = f x) (xs @ ys)"
    by (subst (1 2) eq_commute) (simp add: sort_key_stable)
qed

end
