(* ===== verification/PyValue.thy ===== *)
theory PyValue
  imports Noetl_Prelude
begin

text \<open>
  The Python values the modelled code reads from events, JSON columns and playbooks
  (\<open>Any\<close> in the sources): \<open>None\<close>, booleans, unbounded integers, strings, lists and dictionaries
  with string keys. What the code does with them is defined on every value: truth (\<open>truthy\<close>),
  \<open>a or b\<close> (\<open>py_or\<close>), \<open>str(x)\<close> (\<open>py_str\<close>), \<open>int(x)\<close> with its two exceptions (\<open>py_int\<close>),
  \<open>d.get(k)\<close> (\<open>py_get\<close>), and the string methods \<open>strip\<close>, \<open>lower\<close>, \<open>upper\<close>, \<open>startswith\<close>,
  \<open>endswith\<close>, \<open>removeprefix\<close>, \<open>split\<close>, \<open>join\<close>. Strings are ASCII text, one \<open>char\<close> a character.
  Floats are not among the values; the delays of a retry, which the code computes as floats, are
  rationals (\<open>Task_Sequence\<close>).
\<close>

datatype pyval =
    VNone
  | VBool bool
  | VInt int
  | VStr string
  | VList "pyval list"
  | VDict "(string \<times> pyval) list"

type_synonym pydict = "(string \<times> pyval) list"

section \<open>Truth and dictionaries\<close>

fun truthy :: "pyval \<Rightarrow> bool" where
  "truthy VNone = False"
| "truthy (VBool b) = b"
| "truthy (VInt i) = (i \<noteq> 0)"
| "truthy (VStr s) = (s \<noteq> [])"
| "truthy (VList xs) = (xs \<noteq> [])"
| "truthy (VDict d) = (d \<noteq> [])"

definition py_or :: "pyval \<Rightarrow> pyval \<Rightarrow> pyval" where
  "py_or a b = (if truthy a then a else b)"

text \<open>\<open>d.get(k)\<close> and \<open>d.get(k, default)\<close>; \<open>isinstance(v, dict)\<close> with the dictionary it finds.\<close>

definition py_get :: "pydict \<Rightarrow> string \<Rightarrow> pyval" where
  "py_get d k = (case map_of d k of None \<Rightarrow> VNone | Some v \<Rightarrow> v)"

definition py_get_default :: "pydict \<Rightarrow> string \<Rightarrow> pyval \<Rightarrow> pyval" where
  "py_get_default d k dflt = (case map_of d k of None \<Rightarrow> dflt | Some v \<Rightarrow> v)"

definition has_key :: "pydict \<Rightarrow> string \<Rightarrow> bool" where
  "has_key d k = (map_of d k \<noteq> None)"

fun as_dict :: "pyval \<Rightarrow> pydict option" where
  "as_dict (VDict d) = Some d"
| "as_dict _ = None"

fun as_list :: "pyval \<Rightarrow> pyval list option" where
  "as_list (VList xs) = Some xs"
| "as_list _ = None"

text \<open>\<open>x if isinstance(x, dict) else {}\<close>\<close>

definition dict_or_empty :: "pyval \<Rightarrow> pydict" where
  "dict_or_empty v = (case as_dict v of None \<Rightarrow> [] | Some d \<Rightarrow> d)"

fun is_dict :: "pyval \<Rightarrow> bool" where
  "is_dict (VDict _) = True"
| "is_dict _ = False"

fun is_list :: "pyval \<Rightarrow> bool" where
  "is_list (VList _) = True"
| "is_list _ = False"

text \<open>Encoders of optional fields (\<open>None\<close> is a value in a dictionary).\<close>

definition enc_str :: "string option \<Rightarrow> pyval" where
  "enc_str x = (case x of None \<Rightarrow> VNone | Some s \<Rightarrow> VStr s)"

definition enc_int :: "int option \<Rightarrow> pyval" where
  "enc_int x = (case x of None \<Rightarrow> VNone | Some i \<Rightarrow> VInt i)"

lemma py_get_simps [simp]:
  "py_get [] k = VNone"
  "py_get ((k', v) # d) k = (if k' = k then v else py_get d k)"
  by (simp_all add: py_get_def)

lemma as_dict_Some_iff [simp]: "as_dict v = Some d \<longleftrightarrow> v = VDict d"
  by (cases v) auto

lemma as_list_Some_iff [simp]: "as_list v = Some d \<longleftrightarrow> v = VList d"
  by (cases v) auto

lemma truthy_py_or [simp]: "truthy (py_or a b) = (truthy a \<or> truthy b)"
  by (simp add: py_or_def)

lemma py_or_id_right: "truthy a \<Longrightarrow> py_or a b = a"
  by (simp add: py_or_def)

section \<open>Strings\<close>

text \<open>Python's whitespace within ASCII: tab to carriage return, 0x1C to 0x1F, space.\<close>

definition is_space :: "char \<Rightarrow> bool" where
  "is_space c = (let n = of_char c :: nat in (9 \<le> n \<and> n \<le> 13) \<or> (28 \<le> n \<and> n \<le> 32))"

definition lstrip :: "string \<Rightarrow> string" where
  "lstrip s = dropWhile is_space s"

definition strip :: "string \<Rightarrow> string" where
  "strip s = rev (dropWhile is_space (rev (dropWhile is_space s)))"

definition lower_char :: "char \<Rightarrow> char" where
  "lower_char c = (let n = of_char c :: nat in if 65 \<le> n \<and> n \<le> 90 then char_of (n + 32) else c)"

definition upper_char :: "char \<Rightarrow> char" where
  "upper_char c = (let n = of_char c :: nat in if 97 \<le> n \<and> n \<le> 122 then char_of (n - 32) else c)"

definition lower :: "string \<Rightarrow> string" where
  "lower s = map lower_char s"

definition upper :: "string \<Rightarrow> string" where
  "upper s = map upper_char s"

definition startswith :: "string \<Rightarrow> string \<Rightarrow> bool" where
  "startswith s p = (take (length p) s = p)"

definition endswith :: "string \<Rightarrow> string \<Rightarrow> bool" where
  "endswith s p = (length p \<le> length s \<and> drop (length s - length p) s = p)"

definition removeprefix :: "string \<Rightarrow> string \<Rightarrow> string" where
  "removeprefix s p = (if startswith s p then drop (length p) s else s)"

text \<open>\<open>s.split(c)\<close> for a one-character separator: always at least one part.\<close>

fun split_on :: "char \<Rightarrow> string \<Rightarrow> string list" where
  "split_on c [] = [[]]"
| "split_on c (x # xs) =
     (if x = c then [] # split_on c xs
      else (case split_on c xs of [] \<Rightarrow> [[x]] | p # ps \<Rightarrow> (x # p) # ps))"

fun join :: "string \<Rightarrow> string list \<Rightarrow> string" where
  "join sep [] = []"
| "join sep [x] = x"
| "join sep (x # y # ys) = x @ sep @ join sep (y # ys)"

lemma startswith_append [simp]: "startswith (p @ s) p"
  by (simp add: startswith_def)

lemma startswith_iff: "startswith s p \<longleftrightarrow> (\<exists>r. s = p @ r)"
  by (auto simp: startswith_def) (metis append_take_drop_id)

lemma endswith_iff: "endswith s p \<longleftrightarrow> (\<exists>r. s = r @ p)"
  by (auto simp: endswith_def) (metis append_take_drop_id)

lemma removeprefix_append [simp]: "removeprefix (p @ s) p = s"
  by (simp add: removeprefix_def)

lemma split_on_nonempty [simp]: "split_on c s \<noteq> []"
  by (induction c s rule: split_on.induct) (auto split: list.split)

lemma split_on_no_sep: "c \<notin> set s \<Longrightarrow> split_on c s = [s]"
  by (induction s) auto

lemma split_on_append_sep: "c \<notin> set p \<Longrightarrow> split_on c (p @ c # s) = p # split_on c s"
  by (induction p) (auto split: list.splits)

lemma split_on_parts_no_sep: "p \<in> set (split_on c s) \<Longrightarrow> c \<notin> set p"
  by (induction c s arbitrary: p rule: split_on.induct)
    (fastforce split: if_splits list.splits)+

lemma join_split_on: "join [c] (split_on c s) = s"
proof (induction c s rule: split_on.induct)
  case (2 c x xs)
  obtain p ps where sp: "split_on c xs = p # ps"
    using split_on_nonempty [of c xs] by (cases "split_on c xs") auto
  show ?case using 2 sp by (cases ps) auto
qed simp

lemma split_on_join:
  assumes "parts \<noteq> []" and "\<forall>p \<in> set parts. c \<notin> set p"
  shows "split_on c (join [c] parts) = parts"
  using assms
proof (induction "[c]" parts rule: join.induct)
  case (2 x)
  then show ?case by (simp add: split_on_no_sep)
next
  case (3 x y ys)
  then show ?case by (simp add: split_on_append_sep)
qed simp

lemma strip_no_space_ends: "s = [] \<or> (\<not> is_space (hd s) \<and> \<not> is_space (last s)) \<Longrightarrow> strip s = s"
proof -
  assume a: "s = [] \<or> (\<not> is_space (hd s) \<and> \<not> is_space (last s))"
  have 1: "dropWhile is_space s = s" using a by (cases s) auto
  have 2: "dropWhile is_space (rev s) = rev s" using a
    by (cases s rule: rev_cases) auto
  show ?thesis by (simp add: strip_def 1 2)
qed

lemma hd_dropWhile_not: "dropWhile P xs \<noteq> [] \<Longrightarrow> \<not> P (hd (dropWhile P xs))"
  by (induction xs) auto

lemma strip_ends:
  assumes "strip s \<noteq> []"
  shows "\<not> is_space (hd (strip s)) \<and> \<not> is_space (last (strip s))"
proof -
  define t where "t = dropWhile is_space s"
  define u where "u = dropWhile is_space (rev t)"
  have st: "strip s = rev u" by (simp add: strip_def t_def u_def)
  with assms have un: "u \<noteq> []" by simp
  have l: "\<not> is_space (last (strip s))"
    using hd_dropWhile_not [of is_space "rev t"] un by (simp add: st last_rev u_def)
  have "rev t = takeWhile is_space (rev t) @ u" by (simp add: u_def)
  then have "t = rev u @ rev (takeWhile is_space (rev t))"
    by (metis rev_append rev_rev_ident)
  then have "hd t = hd (rev u)" and "t \<noteq> []" using un
    by (metis Nil_is_rev_conv hd_append2, auto)
  then have "\<not> is_space (hd (strip s))"
    using hd_dropWhile_not [of is_space s] by (simp add: st t_def)
  with l show ?thesis by simp
qed

lemma strip_strip [simp]: "strip (strip s) = strip s"
  using strip_ends [of s] by (cases "strip s = []") (auto intro: strip_no_space_ends)

end
