(* ===== verification/PyText.thy ===== *)
theory PyText
  imports PyValue
begin

text \<open>
  Text forms of Python values: \<open>str(x)\<close> and \<open>repr(x)\<close> (\<open>py_str\<close>, \<open>py_repr\<close>), \<open>int(x)\<close> on every
  value (\<open>py_int\<close>: a string is stripped, may carry a sign and single underscores between digits,
  and anything else raises \<open>ValueError\<close>; \<open>None\<close>, lists and dictionaries raise \<open>TypeError\<close>), and
  the round trip between the two on integers. CPython's limit of 4300 digits for these
  conversions is left out.
\<close>

section \<open>Decimal text\<close>

definition digit_char :: "nat \<Rightarrow> char" where
  "digit_char d = char_of (48 + d)"

definition is_digit :: "char \<Rightarrow> bool" where
  "is_digit c = (let n = of_char c :: nat in 48 \<le> n \<and> n \<le> 57)"

definition digit_val :: "char \<Rightarrow> nat" where
  "digit_val c = of_char c - 48"

definition isdigit :: "string \<Rightarrow> bool" where
  "isdigit s = (s \<noteq> [] \<and> list_all is_digit s)"

fun show_nat :: "nat \<Rightarrow> string" where
  "show_nat n = (if n < 10 then [digit_char n] else show_nat (n div 10) @ [digit_char (n mod 10)])"

declare show_nat.simps [simp del]

definition show_int :: "int \<Rightarrow> string" where
  "show_int i = (if i < 0 then CHR ''-'' # show_nat (nat (- i)) else show_nat (nat i))"

fun parse_digits :: "nat \<Rightarrow> bool \<Rightarrow> string \<Rightarrow> nat option" where
  "parse_digits acc prev [] = (if prev then Some acc else None)"
| "parse_digits acc prev (c # cs) =
     (if is_digit c then parse_digits (acc * 10 + digit_val c) True cs
      else if c = CHR ''_'' \<and> prev then parse_digits acc False cs
      else None)"

definition parse_int :: "string \<Rightarrow> int option" where
  "parse_int s =
     (case strip s of
        [] \<Rightarrow> None
      | c # cs \<Rightarrow>
          (if c = CHR ''-'' then map_option (\<lambda>n. - int n) (parse_digits 0 False cs)
           else if c = CHR ''+'' then map_option int (parse_digits 0 False cs)
           else map_option int (parse_digits 0 False (c # cs))))"

lemma of_char_digit [simp]: "d < 10 \<Longrightarrow> (of_char (digit_char d) :: nat) = 48 + d"
  by (simp add: digit_char_def of_char_of)

lemma is_digit_digit_char [simp]: "d < 10 \<Longrightarrow> is_digit (digit_char d)"
  by (simp add: is_digit_def)

lemma digit_val_digit_char [simp]: "d < 10 \<Longrightarrow> digit_val (digit_char d) = d"
  by (simp add: digit_val_def)

lemma show_nat_digits: "c \<in> set (show_nat n) \<Longrightarrow> is_digit c"
proof (induction n rule: show_nat.induct)
  case (1 n)
  then show ?case
    by (cases "n < 10") (auto simp: show_nat.simps [of n])
qed

lemma show_nat_nonempty [simp]: "show_nat n \<noteq> []"
  by (subst show_nat.simps) simp

lemma parse_digits_snoc:
  assumes "parse_digits acc prev s = Some m" and "is_digit d"
  shows "parse_digits acc prev (s @ [d]) = Some (m * 10 + digit_val d)"
  using assms by (induction acc prev s rule: parse_digits.induct) (auto split: if_splits)

lemma parse_digits_show_nat: "parse_digits 0 False (show_nat n) = Some n"
proof (induction n rule: show_nat.induct)
  case (1 n)
  show ?case
  proof (cases "n < 10")
    case True
    then show ?thesis by (simp add: show_nat.simps [of n])
  next
    case False
    then have "parse_digits 0 False (show_nat (n div 10) @ [digit_char (n mod 10)])
        = Some (n div 10 * 10 + n mod 10)"
      using 1 by (subst parse_digits_snoc) auto
    with False show ?thesis by (simp add: show_nat.simps [of n])
  qed
qed

lemma digit_not_space: "is_digit c \<Longrightarrow> \<not> is_space c"
  by (simp add: is_digit_def is_space_def Let_def)

lemma digit_not_sign: "is_digit c \<Longrightarrow> c \<noteq> CHR ''-'' \<and> c \<noteq> CHR ''+'' \<and> c \<noteq> CHR ''/'' \<and> c \<noteq> CHR '':''"
  by (auto simp: is_digit_def)

lemma parse_int_show_int [simp]: "parse_int (show_int i) = Some i"
proof (cases "i < 0")
  case True
  have "last (show_nat (nat (- i))) \<in> set (show_nat (nat (- i)))" by simp
  then have "\<not> is_space (last (show_nat (nat (- i))))"
    by (meson digit_not_space show_nat_digits)
  then have "strip (CHR ''-'' # show_nat (nat (- i))) = CHR ''-'' # show_nat (nat (- i))"
    by (intro strip_no_space_ends) (simp add: is_space_def)
  with True show ?thesis
    by (simp add: parse_int_def show_int_def parse_digits_show_nat)
next
  case False
  define s where "s = show_nat (nat i)"
  obtain c cs where s: "s = c # cs" by (cases s) (auto simp: s_def)
  have d: "is_digit c" "is_digit (last s)"
    using s show_nat_digits [of _ "nat i"] last_in_set [of s] by (auto simp: s_def [symmetric])
  have "strip s = s" using s d by (intro strip_no_space_ends) (simp add: digit_not_space)
  moreover have "parse_digits 0 False s = Some (nat i)"
    by (simp add: s_def parse_digits_show_nat)
  ultimately show ?thesis using False d(1) digit_not_sign [of c]
    by (simp add: parse_int_def show_int_def s_def [symmetric] s)
qed

lemma show_int_inject [simp]: "show_int i = show_int j \<longleftrightarrow> i = j"
  by (metis option.inject parse_int_show_int)

lemma show_int_chars: "c \<in> set (show_int i) \<Longrightarrow> is_digit c \<or> c = CHR ''-''"
  by (auto simp: show_int_def dest: show_nat_digits split: if_splits)

lemma show_int_nonempty [simp]: "show_int i \<noteq> []"
  by (simp add: show_int_def)

lemma show_int_no_slash: "CHR ''/'' \<notin> set (show_int i)"
  by (auto dest!: show_int_chars simp: is_digit_def)

section \<open>str and repr\<close>

definition hex_digit :: "nat \<Rightarrow> char" where
  "hex_digit d = (if d < 10 then char_of (48 + d) else char_of (87 + d))"

definition repr_char :: "char \<Rightarrow> char \<Rightarrow> string" where
  "repr_char q c =
     (let n = of_char c :: nat in
      if c = q \<or> n = 0x5C then [CHR 0x5C, c]
      else if n = 9 then [CHR 0x5C, CHR ''t'']
      else if n = 10 then [CHR 0x5C, CHR ''n'']
      else if n = 13 then [CHR 0x5C, CHR ''r'']
      else if n < 32 \<or> n = 127 then [CHR 0x5C, CHR ''x'', hex_digit (n div 16), hex_digit (n mod 16)]
      else [c])"

definition repr_str :: "string \<Rightarrow> string" where
  "repr_str s =
     (let q = (if CHR 0x27 \<in> set s \<and> CHR 0x22 \<notin> set s then CHR 0x22 else CHR 0x27)
      in [q] @ concat (map (repr_char q) s) @ [q])"

primrec py_repr :: "pyval \<Rightarrow> string" where
  "py_repr VNone = ''None''"
| "py_repr (VBool b) = (if b then ''True'' else ''False'')"
| "py_repr (VInt i) = show_int i"
| "py_repr (VStr s) = repr_str s"
| "py_repr (VList xs) = ''['' @ join '', '' (map py_repr xs) @ '']''"
| "py_repr (VDict d) =
     ''{'' @ join '', '' (map (\<lambda>(k, t). repr_str k @ '': '' @ t) (map (map_prod id py_repr) d)) @ ''}''"

definition py_str :: "pyval \<Rightarrow> string" where
  "py_str v = (case v of VStr s \<Rightarrow> s | _ \<Rightarrow> py_repr v)"

lemma py_str_simps [simp]:
  "py_str VNone = ''None''"
  "py_str (VInt i) = show_int i"
  "py_str (VStr s) = s"
  "py_str (VBool b) = (if b then ''True'' else ''False'')"
  by (simp_all add: py_str_def)

lemma py_str_truthy_nonempty: "truthy v \<Longrightarrow> py_str v \<noteq> []"
  by (cases v) (auto simp: py_str_def)

fun py_int :: "pyval \<Rightarrow> int res" where
  "py_int VNone = Inl (TypeError ''int() argument'')"
| "py_int (VBool b) = Inr (if b then 1 else 0)"
| "py_int (VInt i) = Inr i"
| "py_int (VStr s) =
     (case parse_int s of None \<Rightarrow> Inl (ValueError ''invalid literal for int()'') | Some i \<Rightarrow> Inr i)"
| "py_int (VList xs) = Inl (TypeError ''int() argument'')"
| "py_int (VDict d) = Inl (TypeError ''int() argument'')"

text \<open>\<open>int(x)\<close> inside \<open>try ... except (TypeError, ValueError): return None\<close>.\<close>

definition py_int_opt :: "pyval \<Rightarrow> int option" where
  "py_int_opt v = (case py_int v of Inl _ \<Rightarrow> None | Inr i \<Rightarrow> Some i)"

lemma py_int_opt_simps [simp]:
  "py_int_opt VNone = None"
  "py_int_opt (VInt i) = Some i"
  by (simp_all add: py_int_opt_def)

lemma py_int_py_str: "py_int (VStr (py_str (VInt i))) = Inr i"
  by simp

text \<open>\<open>str(x) if x is not None else None\<close>\<close>

definition str_opt :: "pyval \<Rightarrow> string option" where
  "str_opt v = (if v = VNone then None else Some (py_str v))"

text \<open>\<open>int(x) if x is not None else None\<close>\<close>

definition int_or_none :: "pyval \<Rightarrow> int option res" where
  "int_or_none v = (if v = VNone then Inr None else rbind (py_int v) (\<lambda>i. Inr (Some i)))"

text \<open>\<open>int(x or 0)\<close>\<close>

definition int_or_zero :: "pyval \<Rightarrow> int res" where
  "int_or_zero v = py_int (py_or v (VInt 0))"

lemma str_opt_enc [simp]: "str_opt (enc_str x) = x"
  by (cases x) (simp_all add: str_opt_def enc_str_def)

lemma int_or_none_enc [simp]: "int_or_none (enc_int x) = Inr x"
  by (cases x) (simp_all add: int_or_none_def enc_int_def)

lemma int_or_zero_int [simp]: "int_or_zero (VInt i) = Inr i"
  by (simp add: int_or_zero_def py_or_def)

text \<open>\<open>isinstance(x, int)\<close> holds of booleans as well.\<close>

fun is_int :: "pyval \<Rightarrow> bool" where
  "is_int (VInt _) = True"
| "is_int (VBool _) = True"
| "is_int _ = False"

text \<open>\<open>p in s\<close> for strings, and \<open>\bw\b\<close> for a word \<open>w\<close> of word characters.\<close>

fun contains :: "string \<Rightarrow> string \<Rightarrow> bool" where
  "contains [] p = (p = [])"
| "contains (c # s) p = (startswith (c # s) p \<or> contains s p)"

definition is_word :: "char \<Rightarrow> bool" where
  "is_word c = (let n = of_char c :: nat in
     (48 \<le> n \<and> n \<le> 57) \<or> (65 \<le> n \<and> n \<le> 90) \<or> (97 \<le> n \<and> n \<le> 122) \<or> n = 95)"

fun word_in :: "string \<Rightarrow> bool \<Rightarrow> string \<Rightarrow> bool" where
  "word_in w prev [] = False"
| "word_in w prev (c # s) =
     ((\<not> prev \<and> startswith (c # s) w
       \<and> (case drop (length w) (c # s) of [] \<Rightarrow> True | d # _ \<Rightarrow> \<not> is_word d))
      \<or> word_in w (is_word c) s)"

end
