(* ===== verification/Canonical_Json.thy ===== *)
theory Canonical_Json
  imports PyText "HOL-Library.Word"
begin

text \<open>
  The canonical serialisation behind every checksum of the program,
  \<open>json.dumps(value, sort_keys=True, separators=(",", ":"))\<close> (\<open>canon_json\<close>), SHA-256 in
  hexadecimal (\<open>sha256_hex\<close>), and their composition \<open>canonical_checksum\<close>
  (\<open>_canonical_checksum\<close>, \<open>canonical_event_checksum\<close>, \<open>projection_checksum\<close> and the digest of the
  upcaster registry). The lemma that carries the determinism claims is \<open>same_value_json\<close>:
  values that Python compares equal up to the insertion order of their dictionaries have the
  same canonical text, hence the same checksum.
\<close>

unbundle bit_operations_syntax

section \<open>Canonical JSON text\<close>

definition json_char :: "char \<Rightarrow> string" where
  "json_char c =
     (let n = of_char c :: nat in
      if n = 0x22 \<or> n = 0x5C then [CHR 0x5C, c]
      else if n = 8 then [CHR 0x5C, CHR ''b'']
      else if n = 9 then [CHR 0x5C, CHR ''t'']
      else if n = 10 then [CHR 0x5C, CHR ''n'']
      else if n = 12 then [CHR 0x5C, CHR ''f'']
      else if n = 13 then [CHR 0x5C, CHR ''r'']
      else if n < 32 \<or> 126 < n
        then [CHR 0x5C, CHR ''u'', CHR ''0'', CHR ''0'', hex_digit (n div 16), hex_digit (n mod 16)]
      else [c])"

definition json_str :: "string \<Rightarrow> string" where
  "json_str s = [CHR 0x22] @ concat (map json_char s) @ [CHR 0x22]"

primrec canon_json :: "pyval \<Rightarrow> string" where
  "canon_json VNone = ''null''"
| "canon_json (VBool b) = (if b then ''true'' else ''false'')"
| "canon_json (VInt i) = show_int i"
| "canon_json (VStr s) = json_str s"
| "canon_json (VList xs) = ''['' @ join '','' (map canon_json xs) @ '']''"
| "canon_json (VDict d) =
     ''{'' @ join '','' (map (\<lambda>(k, t). json_str k @ '':'' @ t)
        (sort_key fst (map (map_prod id canon_json) d))) @ ''}''"

text \<open>
  Equality of Python values: dictionaries compare by key, whatever their insertion order.
\<close>

inductive same_value :: "pyval \<Rightarrow> pyval \<Rightarrow> bool" where
  same_atom: "same_value v v"
| same_list: "list_all2 same_value xs ys \<Longrightarrow> same_value (VList xs) (VList ys)"
| same_dict: "dict_wf d \<Longrightarrow> dict_wf e \<Longrightarrow> mset (map fst d) = mset (map fst e) \<Longrightarrow>
    (\<And>k v w. map_of d k = Some v \<Longrightarrow> map_of e k = Some w \<Longrightarrow> same_value v w) \<Longrightarrow>
    same_value (VDict d) (VDict e)"

lemma sort_key_fst_unique:
  assumes "distinct (map fst d)" and "distinct (map fst e)"
    and "mset d = mset e"
  shows "sort_key fst d = sort_key fst (e :: (('a :: linorder) \<times> 'b) list)"
proof (rule properties_for_sort_key)
  show "mset (sort_key fst e) = mset d" using assms(3) by simp
  show "sorted (map fst (sort_key fst e))" by simp
  fix p assume "p \<in> set (sort_key fst e)"
  have one: "filter (\<lambda>x. fst p = fst x) zs = [p]"
    if "distinct (map fst zs)" and "p \<in> set zs" for zs :: "('a \<times> 'b) list"
    using that by (induction zs) (auto simp: filter_empty_conv rev_image_eqI)
  have "mset (sort_key fst e) = mset e" by simp
  then have "distinct (map fst (sort_key fst e))"
    using assms(2) by (metis distinct_map mset_eq_imp_distinct_iff mset_map)
  moreover have "p \<in> set d"
    using \<open>p \<in> set (sort_key fst e)\<close> assms(3) mset_eq_setD by auto
  ultimately show "filter (\<lambda>x. fst p = fst x) (sort_key fst e) = filter (\<lambda>x. fst p = fst x) d"
    using one assms(1) \<open>p \<in> set (sort_key fst e)\<close> by metis
qed

lemma dict_mset_eqI:
  assumes "dict_wf d" and "dict_wf e" and "mset (map fst d) = mset (map fst e)"
    and "\<And>k v w. map_of d k = Some v \<Longrightarrow> map_of e k = Some w \<Longrightarrow> f v = f w"
  shows "mset (map (map_prod id f) d) = mset (map (map_prod id f) e)"
proof -
  let ?D = "map (map_prod id f) d" and ?E = "map (map_prod id f) e"
  have fsts: "map fst ?D = map fst d" "map fst ?E = map fst e" by auto
  have ks: "set (map fst d) = set (map fst e)" using assms(3) by (rule mset_eq_setD)
  have m: "map_of ?D = map_of ?E"
  proof
    fix k
    show "map_of ?D k = map_of ?E k"
    proof (cases "map_of d k")
      case None
      then have "map_of e k = None" using ks by (simp add: map_of_eq_None_iff)
      with None show ?thesis by (simp add: map_of_map map_prod_def id_def)
    next
      case (Some v)
      then have "k \<in> set (map fst e)" using ks by (force dest: map_of_SomeD)
      then obtain w where "map_of e k = Some w" by (force dest: weak_map_of_SomeI)
      with Some assms(4) show ?thesis by (simp add: map_of_map map_prod_def id_def)
    qed
  qed
  have "distinct ?D" "distinct ?E"
    using assms(1,2) fsts unfolding dict_wf_def by (metis distinct_map)+
  moreover have "set ?D = set ?E"
    using m assms(1,2) fsts unfolding dict_wf_def by (metis map_of_inject_set)
  ultimately show ?thesis by (metis set_eq_iff_mset_eq_distinct)
qed

lemma same_value_json: "same_value v w \<Longrightarrow> canon_json v = canon_json w"
proof (induction rule: same_value.induct)
  case (same_list xs ys)
  then have "map canon_json xs = map canon_json ys"
    by (induction rule: list_all2_induct) auto
  then show ?case by simp
next
  case (same_dict d e)
  have "mset (map (map_prod id canon_json) d) = mset (map (map_prod id canon_json) e)"
    using same_dict by (intro dict_mset_eqI) auto
  then have "sort_key fst (map (map_prod id canon_json) d)
      = sort_key fst (map (map_prod id canon_json) e)"
    using same_dict(1,2) by (intro sort_key_fst_unique) (simp_all add: dict_wf_def)
  then show ?case by simp
qed simp

section \<open>SHA-256\<close>

type_synonym u32 = "32 word"

definition sha_k :: "u32 list" where
  "sha_k = [
     1116352408, 1899447441, 3049323471, 3921009573, 961987163, 1508970993,
     2453635748, 2870763221, 3624381080, 310598401, 607225278, 1426881987,
     1925078388, 2162078206, 2614888103, 3248222580, 3835390401, 4022224774,
     264347078, 604807628, 770255983, 1249150122, 1555081692, 1996064986,
     2554220882, 2821834349, 2952996808, 3210313671, 3336571891, 3584528711,
     113926993, 338241895, 666307205, 773529912, 1294757372, 1396182291,
     1695183700, 1986661051, 2177026350, 2456956037, 2730485921, 2820302411,
     3259730800, 3345764771, 3516065817, 3600352804, 4094571909, 275423344,
     430227734, 506948616, 659060556, 883997877, 958139571, 1322822218,
     1537002063, 1747873779, 1955562222, 2024104815, 2227730452, 2361852424,
     2428436474, 2756734187, 3204031479, 3329325298]"

definition sha_h :: "u32 list" where
  "sha_h = [
     1779033703, 3144134277, 1013904242, 2773480762, 1359893119, 2600822924,
     528734635, 1541459225]"

definition sha_pad :: "nat list \<Rightarrow> nat list" where
  "sha_pad bs =
     (let n = length bs; bits = n * 8 in
      bs @ [128] @ replicate ((119 - n mod 64) mod 64) 0
        @ map (\<lambda>i. (bits div 256 ^ (7 - i)) mod 256) [0..<8])"

fun be_words :: "nat list \<Rightarrow> u32 list" where
  "be_words (a # b # c # d # rest) =
     of_nat (a * 2 ^ 24 + b * 2 ^ 16 + c * 2 ^ 8 + d) # be_words rest"
| "be_words _ = []"

definition sha_sig :: "nat \<Rightarrow> nat \<Rightarrow> nat \<Rightarrow> u32 \<Rightarrow> u32" where
  "sha_sig a b c x = (word_rotr a x XOR word_rotr b x) XOR drop_bit c x"

definition sha_big :: "nat \<Rightarrow> nat \<Rightarrow> nat \<Rightarrow> u32 \<Rightarrow> u32" where
  "sha_big a b c x = (word_rotr a x XOR word_rotr b x) XOR word_rotr c x"

text \<open>The schedule is kept newest word first.\<close>

fun sha_schedule :: "nat \<Rightarrow> u32 list \<Rightarrow> u32 list" where
  "sha_schedule 0 ws = rev ws"
| "sha_schedule (Suc n) ws =
     sha_schedule n
       ((sha_sig 17 19 10 (ws ! 1) + ws ! 6 + sha_sig 7 18 3 (ws ! 14) + ws ! 15) # ws)"

fun sha_round :: "u32 list \<Rightarrow> u32 \<times> u32 \<Rightarrow> u32 list" where
  "sha_round [a, b, c, d, e, f, g, h] (k, w) =
     (let t1 = h + sha_big 6 11 25 e + ((e AND f) XOR (NOT e AND g)) + k + w;
          t2 = sha_big 2 13 22 a + ((a AND b) XOR ((a AND c) XOR (b AND c)))
      in [t1 + t2, a, b, c, d + t1, e, f, g])"
| "sha_round xs _ = xs"

definition sha_block :: "u32 list \<Rightarrow> u32 list \<Rightarrow> u32 list" where
  "sha_block h ws =
     map (\<lambda>(x, y). x + y) (zip h (foldl sha_round h (zip sha_k (sha_schedule 48 (rev ws)))))"

function sha_blocks :: "u32 list \<Rightarrow> u32 list \<Rightarrow> u32 list" where
  "sha_blocks h ws =
     (if length ws < 16 then h else sha_blocks (sha_block h (take 16 ws)) (drop 16 ws))"
  by pat_completeness auto
termination by (relation "measure (\<lambda>(h, ws). length ws)") auto

declare sha_blocks.simps [simp del]

definition hex_byte :: "nat \<Rightarrow> string" where
  "hex_byte n = [hex_digit (n div 16), hex_digit (n mod 16)]"

definition hex_word :: "u32 \<Rightarrow> string" where
  "hex_word w = concat (map (\<lambda>i. hex_byte (unat (drop_bit (8 * i) w) mod 256)) [3, 2, 1, 0])"

definition sha256_hex :: "string \<Rightarrow> string" where
  "sha256_hex s =
     concat (map hex_word (sha_blocks sha_h (be_words (sha_pad (map of_char s)))))"

definition canonical_checksum :: "pyval \<Rightarrow> string" where
  "canonical_checksum v = sha256_hex (canon_json v)"

lemma canonical_checksum_same: "same_value v w \<Longrightarrow> canonical_checksum v = canonical_checksum w"
  by (simp add: canonical_checksum_def same_value_json)

end
