(* ===== verification/Replay_Fold.thy ===== *)
theory Replay_Fold
  imports Canonical_Json
begin

text \<open>
  The event fold of \<^verbatim>\<open>src/noetl/server/api/replay/service.py\<close> (\<open>fold_replay_state\<close>): canonical
  events, read as Python dictionaries, are folded into the replay state. An event is a
  \<open>pydict\<close>; the dictionaries the fold itself builds with fixed keys (execution, stage, frame,
  command, business object, loop) are records whose fields are those keys; tables keyed by an
  identifier are association lists in insertion order. A field the code fills with whatever the
  event carries is a \<open>pyval\<close>. Each block of the loop body is one step function, in the source's
  order, and \<open>int(...)\<close> of a malformed value makes the fold raise.
\<close>

section \<open>Reading an event\<close>

definition meta_of :: "pydict \<Rightarrow> pydict" where
  "meta_of ev = dict_or_empty (py_get ev ''meta'')"

definition payload_ref_of :: "pydict \<Rightarrow> pyval" where
  "payload_ref_of ev =
     (if py_get ev ''payload_ref'' \<noteq> VNone then py_get ev ''payload_ref''
      else case py_get ev ''result'' of
        VDict result \<Rightarrow> py_get result ''reference''
      | _ \<Rightarrow> VNone)"

record payload_summary =
  ps_sha256 :: pyval
  ps_schema_digest :: pyval
  ps_row_count :: pyval
  ps_media_type :: pyval
  ps_ref :: pyval

definition payload_summary_of :: "pyval \<Rightarrow> payload_summary" where
  "payload_summary_of reference =
     (case reference of
        VDict r \<Rightarrow>
          (let rows_ref = dict_or_empty (py_get r ''rows_ref'');
               rows_meta = dict_or_empty (py_get rows_ref ''meta'');
               rows_ipc = dict_or_empty (py_get rows_ref ''ipc'');
               pick = (\<lambda>k. py_or (py_get r k) (py_or (py_get rows_meta k) (py_get rows_ipc k)))
           in \<lparr>ps_sha256 = py_or (py_get r ''sha256'') (py_or (py_get rows_meta ''sha256'')
                 (py_or (py_get rows_ipc ''sha256'') (py_get r ''digest''))),
               ps_schema_digest = pick ''schema_digest'',
               ps_row_count = pick ''row_count'',
               ps_media_type = pick ''media_type'',
               ps_ref = py_or (py_get r ''ref'') (py_or (py_get rows_ref ''ref'') (py_get r ''uri''))\<rparr>)
      | _ \<Rightarrow> \<lparr>ps_sha256 = VNone, ps_schema_digest = VNone, ps_row_count = VNone,
               ps_media_type = VNone, ps_ref = VNone\<rparr>)"

definition event_id_of :: "pydict \<Rightarrow> int option" where
  "event_id_of ev =
     (if py_get ev ''event_id'' = VNone then None else py_int_opt (py_get ev ''event_id''))"

definition frame_id_of :: "pydict \<Rightarrow> string option" where
  "frame_id_of ev =
     (if py_get ev ''frame_id'' \<noteq> VNone then Some (py_str (py_get ev ''frame_id''))
      else if py_get ev ''aggregate_type'' = VStr ''frame'' \<and> truthy (py_get ev ''aggregate_id'')
        then Some (removeprefix (py_str (py_get ev ''aggregate_id'')) ''frame/'')
      else str_opt (py_get (meta_of ev) ''frame_id''))"

definition stage_id_of :: "pydict \<Rightarrow> string option" where
  "stage_id_of ev =
     (if py_get ev ''stage_id'' \<noteq> VNone then Some (py_str (py_get ev ''stage_id''))
      else if py_get ev ''aggregate_type'' = VStr ''stage'' \<and> truthy (py_get ev ''aggregate_id'')
        then Some (removeprefix (py_str (py_get ev ''aggregate_id'')) ''stage/'')
      else str_opt (py_get (meta_of ev) ''stage_id''))"

definition loop_id_of :: "pydict \<Rightarrow> string option" where
  "loop_id_of ev =
     (let meta = meta_of ev in
      case filter (\<lambda>k. py_get meta k \<noteq> VNone) [''loop_id'', ''loop_event_id'', ''__loop_epoch_id''] of
        [] \<Rightarrow> None
      | k # _ \<Rightarrow> Some (py_str (py_get meta k)))"

definition command_id_of :: "pydict \<Rightarrow> string option" where
  "command_id_of ev =
     (if py_get ev ''command_id'' \<noteq> VNone then Some (py_str (py_get ev ''command_id''))
      else str_opt (py_get (meta_of ev) ''command_id''))"

text \<open>\<open>if stage_id:\<close> also rejects the empty string.\<close>

definition nonempty_id :: "string option \<Rightarrow> string option" where
  "nonempty_id x = (if x = Some [] then None else x)"

definition business_object_identity :: "pydict \<Rightarrow> (string \<times> string \<times> string) option" where
  "business_object_identity ev =
     (let meta = meta_of ev;
          business = dict_or_empty (py_get meta ''business_object'');
          object_type = py_or (py_get business ''object_type'') (py_or (py_get business ''type'')
            (py_or (py_get meta ''business_object_type'') (py_get meta ''object_type'')));
          object_id = py_or (py_get business ''object_id'') (py_or (py_get business ''id'')
            (py_or (py_get meta ''business_object_id'') (py_get meta ''object_id'')));
          aggregate_type = py_str (py_or (py_get ev ''aggregate_type'') (VStr ''''));
          aggregate_id = py_get ev ''aggregate_id'';
          (otype, oid) =
            (if aggregate_type = ''business_object'' \<and> aggregate_id \<noteq> VNone then
               (let parts0 = filter (\<lambda>p. p \<noteq> []) (split_on CHR ''/'' (py_str aggregate_id));
                    parts = (if take 1 parts0 = [''business_object''] then drop 1 parts0 else parts0)
                in (if 2 \<le> length parts
                    then (py_or object_type (VStr (parts ! 0)),
                          py_or object_id (VStr (join ''/'' (drop 1 parts))))
                    else (py_or object_type (VStr ''business_object''),
                          py_or object_id (VStr (py_str aggregate_id)))))
             else (object_type, object_id))
      in (if otype = VNone \<or> oid = VNone then None
          else Some (py_str otype @ ''/'' @ py_str oid, py_str otype, py_str oid)))"

definition business_object_status :: "string \<Rightarrow> pyval \<Rightarrow> string option" where
  "business_object_status event_type status =
     (if status \<noteq> VNone then Some (py_str status)
      else (let lowered = lower event_type in
        if endswith lowered ''.deleted'' \<or> endswith lowered ''.removed'' then Some ''DELETED''
        else if endswith lowered ''.created'' \<or> endswith lowered ''.updated''
            \<or> endswith lowered ''.upserted'' then Some ''ACTIVE''
        else None))"

section \<open>The replay state\<close>

record exec_proj =
  ex_status :: string
  ex_last_node_name :: pyval
  ex_payload_refs :: "(int option \<times> pyval) list"

record stage_proj =
  st_stage_id :: string
  st_status :: pyval
  st_kind :: pyval
  st_step_name :: pyval
  st_parent_stage_id :: pyval
  st_loop_event_id :: "string option"
  st_opened_event_id :: "int option"
  st_closed_event_id :: "int option"
  st_frame_count :: int
  st_row_count :: int
  st_events_emitted :: int
  st_failed_count :: int
  st_last_event_id :: "int option"

record frame_proj =
  fr_frame_id :: string
  fr_stage_id :: "string option"
  fr_parent_frame_id :: pyval
  fr_command_id :: "string option"
  fr_claimed_event_id :: "int option"
  fr_terminal_event_id :: "int option"
  fr_status :: pyval
  fr_row_count :: int
  fr_attempts :: int
  fr_last_event_id :: "int option"
  fr_output_ref :: pyval
  fr_output_ref_summary :: payload_summary
  fr_cursor :: pyval
  fr_events_emitted :: int

record command_proj =
  cm_command_id :: string
  cm_stage_id :: "string option"
  cm_frame_id :: "string option"
  cm_parent_command_id :: "string option"
  cm_worker_id :: "string option"
  cm_worker_locator :: "string option"
  cm_locality :: pydict
  cm_source_locality :: pydict
  cm_placement :: pydict
  cm_fanout_reduce :: pydict
  cm_status :: pyval
  cm_issued_event_id :: "int option"
  cm_claimed_event_id :: "int option"
  cm_started_event_id :: "int option"
  cm_terminal_event_id :: "int option"
  cm_last_event_id :: "int option"

record payload_entry =
  pe_event_id :: "int option"
  pe_reference :: pyval
  pe_summary :: payload_summary

record business_proj =
  bo_object_key :: string
  bo_object_type :: string
  bo_object_id :: string
  bo_status :: string
  bo_version :: int
  bo_event_count :: int
  bo_first_event_id :: "int option"
  bo_last_event_id :: "int option"
  bo_deleted_event_id :: "int option"
  bo_last_event_type :: "string option"
  bo_last_payload_ref :: "payload_entry option"
  bo_payload_refs :: "payload_entry list"
  bo_attributes :: pydict

record loop_proj =
  lp_loop_id :: string
  lp_step_name :: pyval
  lp_total :: pyval
  lp_done :: int
  lp_failed :: int
  lp_completed :: bool
  lp_last_event_id :: "int option"

text \<open>\<open>state["replay_snapshot"]\<close>: where the seed of an incremental replay came from.\<close>

record snapshot_info =
  si_aggregate_id :: string
  si_aggregate_type :: string
  si_version :: int
  si_checksum :: string
  si_meta :: pydict

text \<open>The surfaces the loop body updates.\<close>

record replay_core =
  rc_event_count :: int
  rc_last_event_id :: "int option"
  rc_last_event_type :: "string option"
  rc_execution :: exec_proj
  rc_stages :: "(string \<times> stage_proj) list"
  rc_frames :: "(string \<times> frame_proj) list"
  rc_commands :: "(string \<times> command_proj) list"
  rc_business_objects :: "(string \<times> business_proj) list"
  rc_loops :: "(string \<times> loop_proj) list"

definition initial_execution :: exec_proj where
  "initial_execution = \<lparr>ex_status = ''UNKNOWN'', ex_last_node_name = VNone, ex_payload_refs = []\<rparr>"

definition initial_core :: replay_core where
  "initial_core = \<lparr>rc_event_count = 0, rc_last_event_id = None, rc_last_event_type = None,
     rc_execution = initial_execution, rc_stages = [], rc_frames = [], rc_commands = [],
     rc_business_objects = [], rc_loops = []\<rparr>"

section \<open>One event\<close>

definition event_type_of :: "pydict \<Rightarrow> string" where
  "event_type_of ev = py_str (py_or (py_get ev ''event_type'') (VStr ''''))"

definition status_of :: "pydict \<Rightarrow> pyval" where
  "status_of ev = py_get ev ''status''"

text \<open>\<open>int(meta.get(k) or old or 0)\<close>\<close>

definition count_from :: "pydict \<Rightarrow> string \<Rightarrow> int \<Rightarrow> int res" where
  "count_from meta k old = py_int (py_or (py_get meta k) (py_or (VInt old) (VInt 0)))"

text \<open>\<open>str(meta.get(k))\<close> when the key holds something other than \<open>None\<close>, else the old value.\<close>

definition keep_str :: "pyval \<Rightarrow> pyval \<Rightarrow> pyval" where
  "keep_str v old = (if v \<noteq> VNone then VStr (py_str v) else old)"

definition execution_step :: "pydict \<Rightarrow> replay_core \<Rightarrow> replay_core" where
  "execution_step ev s =
     (let eid = event_id_of ev; etype = event_type_of ev; x = rc_execution s; ref = payload_ref_of ev;
          st = (if etype \<in> {''playbook.completed'', ''workflow.completed'', ''execution.completed''}
                then ''COMPLETED''
                else if etype \<in> {''playbook.failed'', ''workflow.failed'', ''execution.failed'', ''command.failed''}
                then ''FAILED''
                else if etype \<in> {''playbook.initialized'', ''execution.started'', ''stage.opened'', ''frame.dispatched''}
                then ''RUNNING''
                else ex_status x)
      in s\<lparr>rc_event_count := rc_event_count s + 1,
           rc_last_event_id := eid,
           rc_last_event_type := Some etype,
           rc_execution := \<lparr>ex_status = st, ex_last_node_name = py_get ev ''node_name'',
             ex_payload_refs = ex_payload_refs x @ (if ref \<noteq> VNone then [(eid, ref)] else [])\<rparr>\<rparr>)"

definition new_stage :: "pydict \<Rightarrow> string \<Rightarrow> stage_proj" where
  "new_stage ev sid =
     (let meta = meta_of ev in
      \<lparr>st_stage_id = sid, st_status = VStr ''UNKNOWN'', st_kind = py_get meta ''kind'',
       st_step_name = py_or (py_get ev ''node_name'') (py_get meta ''step_name''),
       st_parent_stage_id = py_get meta ''parent_stage_id'', st_loop_event_id = None,
       st_opened_event_id = None, st_closed_event_id = None, st_frame_count = 0, st_row_count = 0,
       st_events_emitted = 0, st_failed_count = 0, st_last_event_id = None\<rparr>)"

definition stage_touch :: "pydict \<Rightarrow> stage_proj \<Rightarrow> stage_proj" where
  "stage_touch ev st =
     st\<lparr>st_last_event_id := event_id_of ev,
        st_parent_stage_id := keep_str (py_get (meta_of ev) ''parent_stage_id'') (st_parent_stage_id st),
        st_loop_event_id :=
          (case nonempty_id (loop_id_of ev) of None \<Rightarrow> st_loop_event_id st | Some l \<Rightarrow> Some l)\<rparr>"

definition stage_body :: "pydict \<Rightarrow> stage_proj \<Rightarrow> stage_proj res" where
  "stage_body ev st0 =
     (let meta = meta_of ev; eid = event_id_of ev; etype = event_type_of ev; status = status_of ev;
          st = stage_touch ev st0
      in if etype = ''stage.opened'' then
           Inr (st\<lparr>st_status := VStr ''OPEN'', st_opened_event_id := eid\<rparr>)
         else if etype = ''stage.closed'' then
           rbind (count_from meta ''frame_count'' (st_frame_count st)) (\<lambda>fc.
           rbind (count_from meta ''row_count'' (st_row_count st)) (\<lambda>rc.
           rbind (count_from meta ''events_emitted'' (st_events_emitted st)) (\<lambda>ec.
           rbind (count_from meta ''failed_count'' (st_failed_count st)) (\<lambda>xc.
             Inr (st\<lparr>st_status := py_or status (VStr ''CLOSED''), st_closed_event_id := eid,
                     st_frame_count := fc, st_row_count := rc, st_events_emitted := ec,
                     st_failed_count := xc\<rparr>)))))
         else if truthy status then Inr (st\<lparr>st_status := VStr (py_str status)\<rparr>)
         else Inr st)"

definition stage_step :: "pydict \<Rightarrow> replay_core \<Rightarrow> replay_core res" where
  "stage_step ev s =
     (case nonempty_id (stage_id_of ev) of
        None \<Rightarrow> Inr s
      | Some sid \<Rightarrow>
          rbind (dict_modify sid (new_stage ev sid) (stage_body ev) (rc_stages s))
            (\<lambda>d. Inr (s\<lparr>rc_stages := d\<rparr>)))"

definition new_frame :: "pydict \<Rightarrow> string \<Rightarrow> frame_proj" where
  "new_frame ev fid =
     \<lparr>fr_frame_id = fid, fr_stage_id = stage_id_of ev,
      fr_parent_frame_id = py_get (meta_of ev) ''parent_frame_id'', fr_command_id = None,
      fr_claimed_event_id = None, fr_terminal_event_id = None, fr_status = VStr ''UNKNOWN'',
      fr_row_count = 0, fr_attempts = 0, fr_last_event_id = None, fr_output_ref = VNone,
      fr_output_ref_summary = payload_summary_of VNone, fr_cursor = VDict [], fr_events_emitted = 0\<rparr>"

definition frame_touch :: "pydict \<Rightarrow> frame_proj \<Rightarrow> frame_proj" where
  "frame_touch ev fr =
     fr\<lparr>fr_last_event_id := event_id_of ev,
        fr_stage_id := (case stage_id_of ev of None \<Rightarrow> fr_stage_id fr | Some sid \<Rightarrow> Some sid),
        fr_parent_frame_id := keep_str (py_get (meta_of ev) ''parent_frame_id'') (fr_parent_frame_id fr),
        fr_command_id :=
          (case nonempty_id (command_id_of ev) of None \<Rightarrow> fr_command_id fr | Some c \<Rightarrow> Some c)\<rparr>"

text \<open>The fields \<open>frame.committed\<close> and \<open>frame.failed\<close> both write.\<close>

definition frame_terminal :: "pydict \<Rightarrow> frame_proj \<Rightarrow> frame_proj res" where
  "frame_terminal ev fr =
     (let meta = meta_of ev; ref = payload_ref_of ev in
      rbind (count_from meta ''events_emitted'' (fr_events_emitted fr)) (\<lambda>ec.
        Inr (fr\<lparr>fr_output_ref := ref, fr_output_ref_summary := payload_summary_of ref,
               fr_cursor := py_or (py_get meta ''cursor'') (py_or (fr_cursor fr) (VDict [])),
               fr_events_emitted := ec, fr_terminal_event_id := event_id_of ev\<rparr>)))"

definition frame_body :: "pydict \<Rightarrow> frame_proj \<Rightarrow> frame_proj res" where
  "frame_body ev fr0 =
     (let meta = meta_of ev; eid = event_id_of ev; etype = event_type_of ev; status = status_of ev;
          fr = frame_touch ev fr0
      in if etype = ''frame.dispatched'' then
           rbind (py_int (py_get_default meta ''attempt'' (VInt 1))) (\<lambda>a.
             Inr (fr\<lparr>fr_status := VStr ''CLAIMED'', fr_claimed_event_id := eid,
                     fr_attempts := max (fr_attempts fr) a\<rparr>))
         else if etype = ''frame.started'' then Inr (fr\<lparr>fr_status := VStr ''RUNNING''\<rparr>)
         else if etype = ''frame.abandoned'' then Inr (fr\<lparr>fr_status := py_or status (VStr ''ABANDONED'')\<rparr>)
         else if etype = ''frame.committed'' then
           rbind (count_from meta ''row_count'' (fr_row_count fr)) (\<lambda>rc.
             frame_terminal ev (fr\<lparr>fr_status := py_or status (VStr ''COMPLETED''), fr_row_count := rc\<rparr>))
         else if etype = ''frame.failed'' then
           frame_terminal ev (fr\<lparr>fr_status := py_or status (VStr ''FAILED'')\<rparr>)
         else if truthy status then Inr (fr\<lparr>fr_status := VStr (py_str status)\<rparr>)
         else Inr fr)"

definition frame_step :: "pydict \<Rightarrow> replay_core \<Rightarrow> replay_core res" where
  "frame_step ev s =
     (case nonempty_id (frame_id_of ev) of
        None \<Rightarrow> Inr s
      | Some fid \<Rightarrow>
          rbind (dict_modify fid (new_frame ev fid) (frame_body ev) (rc_frames s))
            (\<lambda>d. Inr (s\<lparr>rc_frames := d\<rparr>)))"

definition new_command :: "pydict \<Rightarrow> string \<Rightarrow> command_proj" where
  "new_command ev cid =
     \<lparr>cm_command_id = cid, cm_stage_id = stage_id_of ev, cm_frame_id = frame_id_of ev,
      cm_parent_command_id = None, cm_worker_id = None, cm_worker_locator = None,
      cm_locality = [], cm_source_locality = [], cm_placement = [], cm_fanout_reduce = [],
      cm_status = VStr ''UNKNOWN'', cm_issued_event_id = None, cm_claimed_event_id = None,
      cm_started_event_id = None, cm_terminal_event_id = None, cm_last_event_id = None\<rparr>"

definition keep_opt :: "pyval \<Rightarrow> string option \<Rightarrow> string option" where
  "keep_opt v old = (if v \<noteq> VNone then Some (py_str v) else old)"

definition keep_dict :: "pyval \<Rightarrow> pydict \<Rightarrow> pydict" where
  "keep_dict v old = (case as_dict v of None \<Rightarrow> old | Some d \<Rightarrow> d)"

definition command_touch :: "pydict \<Rightarrow> command_proj \<Rightarrow> command_proj" where
  "command_touch ev c =
     (let meta = meta_of ev in
      c\<lparr>cm_last_event_id := event_id_of ev,
        cm_stage_id := (case stage_id_of ev of None \<Rightarrow> cm_stage_id c | Some sid \<Rightarrow> Some sid),
        cm_frame_id := (case nonempty_id (frame_id_of ev) of None \<Rightarrow> cm_frame_id c | Some f \<Rightarrow> Some f),
        cm_parent_command_id := keep_opt (py_get meta ''parent_command_id'') (cm_parent_command_id c),
        cm_worker_id := keep_opt (py_or (py_get ev ''worker_id'') (py_get meta ''worker_id'')) (cm_worker_id c),
        cm_worker_locator := keep_opt (py_get meta ''worker_locator'') (cm_worker_locator c),
        cm_locality := keep_dict (py_get meta ''locality'') (cm_locality c),
        cm_source_locality := keep_dict (py_get meta ''source_locality'') (cm_source_locality c),
        cm_placement := keep_dict (py_get meta ''placement'') (cm_placement c),
        cm_fanout_reduce := keep_dict (py_get meta ''fanout_reduce'') (cm_fanout_reduce c)\<rparr>)"

definition command_body :: "pydict \<Rightarrow> command_proj \<Rightarrow> command_proj" where
  "command_body ev c0 =
     (let eid = event_id_of ev; etype = event_type_of ev; status = status_of ev; c = command_touch ev c0
      in if etype = ''command.issued'' then
           c\<lparr>cm_status := py_or status (VStr ''PENDING''), cm_issued_event_id := eid\<rparr>
         else if etype = ''command.claimed'' then
           c\<lparr>cm_status := py_or status (VStr ''CLAIMED''), cm_claimed_event_id := eid\<rparr>
         else if etype = ''command.started'' then
           c\<lparr>cm_status := py_or status (VStr ''RUNNING''), cm_started_event_id := eid\<rparr>
         else if etype \<in> {''command.completed'', ''command.failed'', ''command.cancelled''} then
           c\<lparr>cm_status := py_or status (VStr (upper (removeprefix etype ''command.''))),
             cm_terminal_event_id := eid\<rparr>
         else if startswith etype ''command.'' \<and> truthy status then c\<lparr>cm_status := VStr (py_str status)\<rparr>
         else c)"

definition command_step :: "pydict \<Rightarrow> replay_core \<Rightarrow> replay_core res" where
  "command_step ev s =
     (case nonempty_id (command_id_of ev) of
        None \<Rightarrow> Inr s
      | Some cid \<Rightarrow>
          rbind (dict_modify cid (new_command ev cid) (\<lambda>c. Inr (command_body ev c)) (rc_commands s))
            (\<lambda>d. Inr (s\<lparr>rc_commands := d\<rparr>)))"

definition new_business :: "pydict \<Rightarrow> string \<Rightarrow> string \<Rightarrow> string \<Rightarrow> business_proj" where
  "new_business ev key otype oid =
     \<lparr>bo_object_key = key, bo_object_type = otype, bo_object_id = oid, bo_status = ''UNKNOWN'',
      bo_version = 0, bo_event_count = 0, bo_first_event_id = event_id_of ev,
      bo_last_event_id = None, bo_deleted_event_id = None, bo_last_event_type = None,
      bo_last_payload_ref = None, bo_payload_refs = [], bo_attributes = []\<rparr>"

definition business_attributes :: "pydict \<Rightarrow> pydict \<Rightarrow> pydict" where
  "business_attributes business_meta old =
     (let base = keep_dict (py_get business_meta ''state'') old
      in (case as_dict (py_or (py_get business_meta ''patch'') (py_get business_meta ''attributes'')) of
            None \<Rightarrow> base
          | Some patch \<Rightarrow> dict_merge base patch))"

definition business_body :: "pydict \<Rightarrow> business_proj \<Rightarrow> business_proj res" where
  "business_body ev b =
     (let meta = meta_of ev; business_meta = dict_or_empty (py_get meta ''business_object'');
          eid = event_id_of ev; etype = event_type_of ev; n = bo_event_count b + 1;
          ref = payload_ref_of ev;
          entry = \<lparr>pe_event_id = eid, pe_reference = ref, pe_summary = payload_summary_of ref\<rparr>;
          st = (case nonempty_id (business_object_status etype (status_of ev)) of
                  None \<Rightarrow> bo_status b | Some x \<Rightarrow> x);
          deleted = (business_object_status etype (status_of ev) = Some ''DELETED'')
      in rbind (py_int (py_or (py_get business_meta ''version'')
                 (py_or (py_get meta ''business_object_version'') (VInt n)))) (\<lambda>ver.
           Inr (b\<lparr>bo_last_event_id := eid, bo_last_event_type := Some etype,
                  bo_event_count := n, bo_version := ver, bo_status := st,
                  bo_deleted_event_id := (if deleted then eid else bo_deleted_event_id b),
                  bo_attributes := business_attributes business_meta (bo_attributes b),
                  bo_payload_refs := bo_payload_refs b @ (if ref \<noteq> VNone then [entry] else []),
                  bo_last_payload_ref := (if ref \<noteq> VNone then Some entry else bo_last_payload_ref b)\<rparr>)))"

definition business_step :: "pydict \<Rightarrow> replay_core \<Rightarrow> replay_core res" where
  "business_step ev s =
     (case business_object_identity ev of
        None \<Rightarrow> Inr s
      | Some (key, otype, oid) \<Rightarrow>
          rbind (dict_modify key (new_business ev key otype oid) (business_body ev) (rc_business_objects s))
            (\<lambda>d. Inr (s\<lparr>rc_business_objects := d\<rparr>)))"

definition new_loop :: "pydict \<Rightarrow> string \<Rightarrow> loop_proj" where
  "new_loop ev lid =
     \<lparr>lp_loop_id = lid, lp_step_name = py_get ev ''node_name'',
      lp_total = py_or (py_get (meta_of ev) ''collection_size'') (py_get (meta_of ev) ''total''),
      lp_done = 0, lp_failed = 0, lp_completed = False, lp_last_event_id = None\<rparr>"

definition loop_body :: "pydict \<Rightarrow> loop_proj \<Rightarrow> loop_proj" where
  "loop_body ev l0 =
     (let etype = event_type_of ev; l = l0\<lparr>lp_last_event_id := event_id_of ev\<rparr>
      in if etype \<in> {''command.completed'', ''loop.shard.done''} then l\<lparr>lp_done := lp_done l + 1\<rparr>
         else if etype \<in> {''command.failed'', ''loop.shard.failed''} then l\<lparr>lp_failed := lp_failed l + 1\<rparr>
         else if etype \<in> {''loop.done'', ''loop.fanin.completed''} then l\<lparr>lp_completed := True\<rparr>
         else l)"

definition loop_step :: "pydict \<Rightarrow> replay_core \<Rightarrow> replay_core res" where
  "loop_step ev s =
     (case nonempty_id (loop_id_of ev) of
        None \<Rightarrow> Inr s
      | Some lid \<Rightarrow>
          rbind (dict_modify lid (new_loop ev lid) (\<lambda>l. Inr (loop_body ev l)) (rc_loops s))
            (\<lambda>d. Inr (s\<lparr>rc_loops := d\<rparr>)))"

text \<open>The loop body, and the loop over the events in event-id order.\<close>

definition fold_event :: "replay_core \<Rightarrow> pydict \<Rightarrow> replay_core res" where
  "fold_event s ev =
     rbind (stage_step ev (execution_step ev s)) (\<lambda>s1.
     rbind (frame_step ev s1) (\<lambda>s2.
     rbind (command_step ev s2) (\<lambda>s3.
     rbind (business_step ev s3) (loop_step ev))))"

definition event_order :: "pydict \<Rightarrow> int" where
  "event_order ev = (case event_id_of ev of None \<Rightarrow> 0 | Some i \<Rightarrow> i)"

definition ordered_events :: "pydict list \<Rightarrow> pydict list" where
  "ordered_events evs = sort_key event_order evs"

definition fold_core :: "replay_core \<Rightarrow> pydict list \<Rightarrow> replay_core res" where
  "fold_core s evs = rfold fold_event s (ordered_events evs)"

end
