(* ===== verification/Replay_Rows.thy ===== *)
theory Replay_Rows
  imports Replay_Fold
begin

text \<open>
  Projection rows of \<^verbatim>\<open>src/noetl/server/api/replay/service.py\<close>: the dictionaries the folded
  records stand for (\<open>enc_*\<close>, key for key as the fold builds them), the normal form of a row of
  each surface, the ordering of rows by identifier (\<open>sort_key_of\<close>, a linear order), and the two
  checksum bundles, of a replayed state and of live rows read from a store.
\<close>

section \<open>Ordering of row identifiers\<close>

text \<open>The tuple \<open>(0, int)\<close> or \<open>(1, text)\<close> of \<open>_projection_sort_key\<close>.\<close>

datatype sort_key = KInt int | KStr string

fun sort_key_le :: "sort_key \<Rightarrow> sort_key \<Rightarrow> bool" where
  "sort_key_le (KInt i) (KInt j) = (i \<le> j)"
| "sort_key_le (KInt _) (KStr _) = True"
| "sort_key_le (KStr _) (KInt _) = False"
| "sort_key_le (KStr s) (KStr t) = (s \<le> t)"

instantiation sort_key :: linorder
begin

definition less_eq_sort_key :: "sort_key \<Rightarrow> sort_key \<Rightarrow> bool" where
  "less_eq_sort_key a b = sort_key_le a b"

definition less_sort_key :: "sort_key \<Rightarrow> sort_key \<Rightarrow> bool" where
  "less_sort_key a b = (sort_key_le a b \<and> \<not> sort_key_le b a)"

instance
proof
  fix a b c :: sort_key
  show "(a < b) = (a \<le> b \<and> \<not> b \<le> a)"
    by (simp add: less_eq_sort_key_def less_sort_key_def)
  show "a \<le> a"
    by (cases a) (simp_all add: less_eq_sort_key_def)
  show "a \<le> b \<Longrightarrow> b \<le> c \<Longrightarrow> a \<le> c"
    by (cases a; cases b; cases c) (auto simp: less_eq_sort_key_def)
  show "a \<le> b \<Longrightarrow> b \<le> a \<Longrightarrow> a = b"
    by (cases a; cases b) (auto simp: less_eq_sort_key_def)
  show "a \<le> b \<or> b \<le> a"
    by (cases a; cases b) (auto simp: less_eq_sort_key_def)
qed

end

definition sort_key_of :: "pyval \<Rightarrow> sort_key" where
  "sort_key_of v =
     (let text = (if v = VNone then [] else py_str v)
      in (case parse_int text of Some i \<Rightarrow> KInt i | None \<Rightarrow> KStr text))"

lemma sort_key_of_int: "sort_key_of (VStr (show_int i)) = KInt i"
  by (simp add: sort_key_of_def)

section \<open>The dictionaries behind the records\<close>

definition enc_summary :: "payload_summary \<Rightarrow> pyval" where
  "enc_summary p = VDict [(''sha256'', ps_sha256 p), (''schema_digest'', ps_schema_digest p),
     (''row_count'', ps_row_count p), (''media_type'', ps_media_type p), (''ref'', ps_ref p)]"

definition enc_stage :: "stage_proj \<Rightarrow> pydict" where
  "enc_stage st =
     [(''stage_id'', VStr (st_stage_id st)), (''status'', st_status st), (''kind'', st_kind st),
      (''step_name'', st_step_name st), (''parent_stage_id'', st_parent_stage_id st),
      (''loop_event_id'', enc_str (st_loop_event_id st)),
      (''opened_event_id'', enc_int (st_opened_event_id st)),
      (''closed_event_id'', enc_int (st_closed_event_id st)),
      (''frame_count'', VInt (st_frame_count st)), (''row_count'', VInt (st_row_count st)),
      (''events_emitted'', VInt (st_events_emitted st)), (''failed_count'', VInt (st_failed_count st)),
      (''last_event_id'', enc_int (st_last_event_id st))]"

definition enc_frame :: "frame_proj \<Rightarrow> pydict" where
  "enc_frame fr =
     [(''frame_id'', VStr (fr_frame_id fr)), (''stage_id'', enc_str (fr_stage_id fr)),
      (''parent_frame_id'', fr_parent_frame_id fr), (''command_id'', enc_str (fr_command_id fr)),
      (''claimed_event_id'', enc_int (fr_claimed_event_id fr)),
      (''terminal_event_id'', enc_int (fr_terminal_event_id fr)), (''status'', fr_status fr),
      (''row_count'', VInt (fr_row_count fr)), (''attempts'', VInt (fr_attempts fr)),
      (''last_event_id'', enc_int (fr_last_event_id fr)), (''output_ref'', fr_output_ref fr),
      (''output_ref_summary'', enc_summary (fr_output_ref_summary fr)), (''cursor'', fr_cursor fr),
      (''events_emitted'', VInt (fr_events_emitted fr))]"

definition enc_command :: "command_proj \<Rightarrow> pydict" where
  "enc_command c =
     [(''command_id'', VStr (cm_command_id c)), (''stage_id'', enc_str (cm_stage_id c)),
      (''frame_id'', enc_str (cm_frame_id c)), (''parent_command_id'', enc_str (cm_parent_command_id c)),
      (''worker_id'', enc_str (cm_worker_id c)), (''worker_locator'', enc_str (cm_worker_locator c)),
      (''locality'', VDict (cm_locality c)), (''source_locality'', VDict (cm_source_locality c)),
      (''placement'', VDict (cm_placement c)), (''fanout_reduce'', VDict (cm_fanout_reduce c)),
      (''status'', cm_status c), (''issued_event_id'', enc_int (cm_issued_event_id c)),
      (''claimed_event_id'', enc_int (cm_claimed_event_id c)),
      (''started_event_id'', enc_int (cm_started_event_id c)),
      (''terminal_event_id'', enc_int (cm_terminal_event_id c)),
      (''last_event_id'', enc_int (cm_last_event_id c))]"

definition enc_entry :: "payload_entry \<Rightarrow> pyval" where
  "enc_entry e = VDict [(''event_id'', enc_int (pe_event_id e)), (''reference'', pe_reference e),
     (''summary'', enc_summary (pe_summary e))]"

definition enc_business :: "business_proj \<Rightarrow> pydict" where
  "enc_business b =
     [(''object_key'', VStr (bo_object_key b)), (''object_type'', VStr (bo_object_type b)),
      (''object_id'', VStr (bo_object_id b)), (''status'', VStr (bo_status b)),
      (''version'', VInt (bo_version b)), (''event_count'', VInt (bo_event_count b)),
      (''first_event_id'', enc_int (bo_first_event_id b)),
      (''last_event_id'', enc_int (bo_last_event_id b)),
      (''deleted_event_id'', enc_int (bo_deleted_event_id b)),
      (''last_event_type'', enc_str (bo_last_event_type b)),
      (''last_payload_ref'', (case bo_last_payload_ref b of None \<Rightarrow> VNone | Some e \<Rightarrow> enc_entry e)),
      (''payload_refs'', VList (map enc_entry (bo_payload_refs b))),
      (''attributes'', VDict (bo_attributes b))]"

definition enc_loop :: "loop_proj \<Rightarrow> pydict" where
  "enc_loop l =
     [(''loop_id'', VStr (lp_loop_id l)), (''step_name'', lp_step_name l), (''total'', lp_total l),
      (''done'', VInt (lp_done l)), (''failed'', VInt (lp_failed l)),
      (''completed'', VBool (lp_completed l)), (''last_event_id'', enc_int (lp_last_event_id l))]"

definition enc_execution :: "exec_proj \<Rightarrow> pydict" where
  "enc_execution x =
     [(''status'', VStr (ex_status x)), (''last_node_name'', ex_last_node_name x),
      (''payload_refs'', VList (map (\<lambda>(eid, ref). VDict [(''event_id'', enc_int eid), (''reference'', ref)])
         (ex_payload_refs x)))]"

definition enc_table :: "('a \<Rightarrow> pydict) \<Rightarrow> (string \<times> 'a) list \<Rightarrow> pyval" where
  "enc_table enc t = VDict (map (\<lambda>(k, x). (k, VDict (enc x))) t)"

definition enc_snapshot_info :: "snapshot_info \<Rightarrow> pyval" where
  "enc_snapshot_info i = VDict [(''aggregate_id'', VStr (si_aggregate_id i)),
     (''aggregate_type'', VStr (si_aggregate_type i)), (''version'', VInt (si_version i)),
     (''checksum'', VStr (si_checksum i)), (''meta'', VDict (si_meta i))]"

section \<open>Rows in normal form\<close>

definition row_str :: "pydict \<Rightarrow> string \<Rightarrow> pyval" where
  "row_str row k = VStr (py_str (py_get row k))"

definition row_str_opt :: "pydict \<Rightarrow> string \<Rightarrow> pyval" where
  "row_str_opt row k = enc_str (str_opt (py_get row k))"

definition row_int_opt :: "pydict \<Rightarrow> string \<Rightarrow> pyval res" where
  "row_int_opt row k = rbind (int_or_none (py_get row k)) (\<lambda>i. Inr (enc_int i))"

definition row_count_of :: "pydict \<Rightarrow> string \<Rightarrow> pyval res" where
  "row_count_of row k = rbind (int_or_zero (py_get row k)) (\<lambda>i. Inr (VInt i))"

definition row_or_empty :: "pydict \<Rightarrow> string \<Rightarrow> pyval" where
  "row_or_empty row k = py_or (py_get row k) (VDict [])"

definition frame_row :: "pydict \<Rightarrow> pydict res" where
  "frame_row row =
     rbind (row_int_opt row ''claimed_event_id'') (\<lambda>claimed.
     rbind (row_int_opt row ''terminal_event_id'') (\<lambda>terminal.
     rbind (row_count_of row ''row_count'') (\<lambda>rc.
     rbind (row_count_of row ''events_emitted'') (\<lambda>ec.
       Inr [(''frame_id'', row_str row ''frame_id''), (''stage_id'', row_str_opt row ''stage_id''),
            (''parent_frame_id'', row_str_opt row ''parent_frame_id''),
            (''command_id'', row_str_opt row ''command_id''),
            (''claimed_event_id'', claimed), (''terminal_event_id'', terminal),
            (''status'', py_get row ''status''), (''row_count'', rc),
            (''cursor'', row_or_empty row ''cursor''), (''events_emitted'', ec),
            (''output_ref_summary'', enc_summary (payload_summary_of (py_get row ''output_ref'')))]))))"

text \<open>
  The replayed form of a frame row differs from the live one in two fields: the identifier falls
  back to the table key, and the summary the fold stored is used when there is one.
\<close>

definition replayed_frame_row :: "string \<Rightarrow> pydict \<Rightarrow> pydict res" where
  "replayed_frame_row key fr =
     rbind (row_int_opt fr ''claimed_event_id'') (\<lambda>claimed.
     rbind (row_int_opt fr ''terminal_event_id'') (\<lambda>terminal.
     rbind (row_count_of fr ''row_count'') (\<lambda>rc.
     rbind (row_count_of fr ''events_emitted'') (\<lambda>ec.
       Inr [(''frame_id'', VStr (py_str (py_or (py_get fr ''frame_id'') (VStr key)))),
            (''stage_id'', row_str_opt fr ''stage_id''),
            (''parent_frame_id'', row_str_opt fr ''parent_frame_id''),
            (''command_id'', row_str_opt fr ''command_id''),
            (''claimed_event_id'', claimed), (''terminal_event_id'', terminal),
            (''status'', py_get fr ''status''), (''row_count'', rc),
            (''cursor'', row_or_empty fr ''cursor''), (''events_emitted'', ec),
            (''output_ref_summary'', py_or (py_get fr ''output_ref_summary'')
               (enc_summary (payload_summary_of (py_get fr ''output_ref''))))]))))"

definition stage_row :: "pydict \<Rightarrow> pydict res" where
  "stage_row row =
     rbind (row_int_opt row ''opened_event_id'') (\<lambda>opened.
     rbind (row_int_opt row ''closed_event_id'') (\<lambda>closed.
     rbind (row_count_of row ''frame_count'') (\<lambda>fc.
     rbind (row_count_of row ''row_count'') (\<lambda>rc.
     rbind (row_count_of row ''events_emitted'') (\<lambda>ec.
     rbind (row_count_of row ''failed_count'') (\<lambda>xc.
     rbind (row_int_opt row ''last_event_id'') (\<lambda>last.
       Inr [(''stage_id'', row_str row ''stage_id''), (''status'', py_get row ''status''),
            (''kind'', py_get row ''kind''), (''step_name'', py_get row ''step_name''),
            (''parent_stage_id'', row_str_opt row ''parent_stage_id''),
            (''loop_event_id'', row_str_opt row ''loop_event_id''),
            (''opened_event_id'', opened), (''closed_event_id'', closed), (''frame_count'', fc),
            (''row_count'', rc), (''events_emitted'', ec), (''failed_count'', xc),
            (''last_event_id'', last)])))))))"

definition command_row :: "pydict \<Rightarrow> pydict res" where
  "command_row row =
     rbind (row_int_opt row ''issued_event_id'') (\<lambda>issued.
     rbind (row_int_opt row ''claimed_event_id'') (\<lambda>claimed.
     rbind (row_int_opt row ''started_event_id'') (\<lambda>started.
     rbind (row_int_opt row ''terminal_event_id'') (\<lambda>terminal.
       Inr [(''command_id'', row_str row ''command_id''), (''stage_id'', row_str_opt row ''stage_id''),
            (''frame_id'', row_str_opt row ''frame_id''),
            (''parent_command_id'', row_str_opt row ''parent_command_id''),
            (''worker_id'', row_str_opt row ''worker_id''),
            (''worker_locator'', row_str_opt row ''worker_locator''),
            (''locality'', row_or_empty row ''locality''),
            (''source_locality'', row_or_empty row ''source_locality''),
            (''placement'', row_or_empty row ''placement''),
            (''fanout_reduce'', row_or_empty row ''fanout_reduce''),
            (''status'', py_get row ''status''), (''issued_event_id'', issued),
            (''claimed_event_id'', claimed), (''started_event_id'', started),
            (''terminal_event_id'', terminal)]))))"

text \<open>\<open>len(row.get("payload_refs") or [])\<close>; \<open>len\<close> of a number or a boolean raises.\<close>

fun py_len :: "pyval \<Rightarrow> int res" where
  "py_len (VStr s) = Inr (int (length s))"
| "py_len (VList xs) = Inr (int (length xs))"
| "py_len (VDict d) = Inr (int (length d))"
| "py_len _ = Inl (TypeError ''object has no len()'')"

definition business_row :: "pydict \<Rightarrow> pydict res" where
  "business_row row =
     rbind (row_count_of row ''version'') (\<lambda>ver.
     rbind (row_count_of row ''event_count'') (\<lambda>n.
     rbind (row_int_opt row ''first_event_id'') (\<lambda>first.
     rbind (row_int_opt row ''last_event_id'') (\<lambda>last.
     rbind (row_int_opt row ''deleted_event_id'') (\<lambda>deleted.
     rbind (py_len (py_or (py_get row ''payload_refs'') (VList []))) (\<lambda>refs.
       Inr [(''object_key'', row_str row ''object_key''), (''object_type'', row_str row ''object_type''),
            (''object_id'', row_str row ''object_id''), (''status'', py_get row ''status''),
            (''version'', ver), (''event_count'', n), (''first_event_id'', first),
            (''last_event_id'', last), (''deleted_event_id'', deleted),
            (''last_event_type'', py_get row ''last_event_type''),
            (''last_payload_ref_summary'',
               enc_summary (payload_summary_of
                 (case py_get row ''last_payload_ref'' of
                    VDict d \<Rightarrow> py_get d ''reference'' | v \<Rightarrow> v))),
            (''payload_ref_count'', VInt refs),
            (''attributes'', row_or_empty row ''attributes'')]))))))"

definition loop_row :: "pydict \<Rightarrow> pydict res" where
  "loop_row row =
     rbind (row_int_opt row ''total'') (\<lambda>total.
     rbind (row_count_of row ''done'') (\<lambda>dn.
     rbind (row_count_of row ''failed'') (\<lambda>fl.
     rbind (row_int_opt row ''last_event_id'') (\<lambda>last.
       Inr [(''loop_id'', row_str row ''loop_id''), (''step_name'', py_get row ''step_name''),
            (''total'', total), (''done'', dn), (''failed'', fl),
            (''completed'', VBool (truthy (py_get row ''completed''))), (''last_event_id'', last)]))))"

definition execution_row :: "pydict \<Rightarrow> pydict res" where
  "execution_row row =
     (let execution = dict_or_empty (py_get row ''execution'');
          refs0 = (if py_get row ''payload_refs'' = VNone then py_get execution ''payload_refs''
                   else py_get row ''payload_refs'');
          refs = (case as_list refs0 of None \<Rightarrow> [] | Some xs \<Rightarrow> xs);
          last0 = py_get row ''last_payload_ref'';
          last_ref = (if last0 = VNone \<and> refs \<noteq> [] then last refs else last0);
          reference = (case last_ref of VDict d \<Rightarrow> py_get d ''reference'' | v \<Rightarrow> v)
      in rbind (py_int (py_get row ''execution_id'')) (\<lambda>xid.
         rbind (row_count_of row ''event_count'') (\<lambda>n.
         rbind (row_int_opt row ''last_event_id'') (\<lambda>lst.
           Inr [(''execution_id'', VInt xid),
                (''tenant_id'', VStr (py_str (py_or (py_get row ''tenant_id'') (VStr ''default'')))),
                (''organization_id'',
                   VStr (py_str (py_or (py_get row ''organization_id'') (VStr ''default'')))),
                (''projection'', VStr (py_str (py_or (py_get row ''projection'') (VStr ''all'')))),
                (''status'', py_or (py_get row ''status'') (py_get execution ''status'')),
                (''last_node_name'',
                   py_or (py_get row ''last_node_name'') (py_get execution ''last_node_name'')),
                (''event_count'', n), (''last_event_id'', lst),
                (''last_event_type'', py_get row ''last_event_type''),
                (''payload_ref_count'', VInt (int (length refs))),
                (''last_payload_ref_summary'', enc_summary (payload_summary_of reference)),
                (''upcaster_registry_digest'', py_get row ''upcaster_registry_digest'')]))))"
end
