(* ===== verification/Replay_State.thy ===== *)
theory Replay_State
  imports Replay_Rows
begin

text \<open>
  The whole of \<open>fold_replay_state\<close> in \<^verbatim>\<open>src/noetl/server/api/replay/service.py\<close>: the seeded or
  fresh state, the fold of \<open>Replay_Fold\<close>, the state checksum and the per-surface projection
  checksums; the normalisation of replayed and of live rows, the two checksum bundles and the
  parity report. The lemmas: sorting by an injective key forgets the order of its input, the fold
  is a homomorphism from concatenation of event ranges, and it keeps every table keyed by the
  identifier its rows carry.
\<close>

section \<open>Normal forms of a surface\<close>

definition mapping_items :: "pyval \<Rightarrow> (string \<times> pydict) list" where
  "mapping_items v =
     (case v of VDict t \<Rightarrow> List.map_filter (\<lambda>(k, x). map_option (Pair k) (as_dict x)) t | _ \<Rightarrow> [])"

definition by_id :: "string \<Rightarrow> pydict list \<Rightarrow> pydict list" where
  "by_id k rows = sort_key (\<lambda>row. sort_key_of (py_get row k)) rows"

definition by_text :: "string \<Rightarrow> pydict list \<Rightarrow> pydict list" where
  "by_text k rows = sort_key (\<lambda>row. py_str (py_get row k)) rows"

text \<open>\<open>{k: row.get(k) or key, **row}\<close>\<close>

definition keyed_row :: "string \<Rightarrow> string \<times> pydict \<Rightarrow> pydict" where
  "keyed_row k p = (case p of (key, row) \<Rightarrow>
     dict_merge [(k, py_or (py_get row k) (VStr key))] row)"

definition normalize_live_frame_projection :: "pydict list \<Rightarrow> pydict list res" where
  "normalize_live_frame_projection rows =
     rbind (rmap frame_row rows) (\<lambda>rs. Inr (by_id ''frame_id'' rs))"

definition normalize_replayed_frame_projection :: "pydict \<Rightarrow> pydict list res" where
  "normalize_replayed_frame_projection state =
     rbind (rmap (\<lambda>(k, fr). replayed_frame_row k fr) (mapping_items (py_get state ''frames'')))
       (\<lambda>rs. Inr (by_id ''frame_id'' rs))"

definition normalize_live_stage_projection :: "pydict list \<Rightarrow> pydict list res" where
  "normalize_live_stage_projection rows =
     rbind (rmap stage_row rows) (\<lambda>rs. Inr (by_id ''stage_id'' rs))"

definition normalize_replayed_stage_projection :: "pydict \<Rightarrow> pydict list res" where
  "normalize_replayed_stage_projection state =
     rbind (rmap (\<lambda>p. stage_row (keyed_row ''stage_id'' p)) (mapping_items (py_get state ''stages'')))
       (\<lambda>rs. Inr (by_id ''stage_id'' rs))"

definition normalize_live_command_projection :: "pydict list \<Rightarrow> pydict list res" where
  "normalize_live_command_projection rows =
     rbind (rmap command_row rows) (\<lambda>rs. Inr (by_id ''command_id'' rs))"

definition normalize_replayed_command_projection :: "pydict \<Rightarrow> pydict list res" where
  "normalize_replayed_command_projection state =
     rbind (rmap (\<lambda>p. command_row (keyed_row ''command_id'' p))
       (mapping_items (py_get state ''commands'')))
       (\<lambda>rs. Inr (by_id ''command_id'' rs))"

definition normalize_live_business_object_projection :: "pydict list \<Rightarrow> pydict list res" where
  "normalize_live_business_object_projection rows =
     rbind (rmap business_row rows) (\<lambda>rs. Inr (by_text ''object_key'' rs))"

definition normalize_replayed_business_object_projection :: "pydict \<Rightarrow> pydict list res" where
  "normalize_replayed_business_object_projection state =
     rbind (rmap (\<lambda>p. business_row (keyed_row ''object_key'' p))
       (mapping_items (py_get state ''business_objects'')))
       (\<lambda>rs. Inr (by_text ''object_key'' rs))"

definition normalize_live_loop_projection :: "pydict list \<Rightarrow> pydict list res" where
  "normalize_live_loop_projection rows =
     rbind (rmap loop_row rows) (\<lambda>rs. Inr (by_text ''loop_id'' rs))"

definition normalize_replayed_loop_projection :: "pydict \<Rightarrow> pydict list res" where
  "normalize_replayed_loop_projection state =
     rbind (rmap (\<lambda>p. loop_row (keyed_row ''loop_id'' p)) (mapping_items (py_get state ''loops'')))
       (\<lambda>rs. Inr (by_text ''loop_id'' rs))"

fun row_execution_id :: "pydict \<Rightarrow> int" where
  "row_execution_id row = (case py_get row ''execution_id'' of VInt i \<Rightarrow> i | _ \<Rightarrow> 0)"

definition normalize_live_execution_projection :: "pydict list \<Rightarrow> pydict list res" where
  "normalize_live_execution_projection rows =
     rbind (rmap execution_row rows) (\<lambda>rs. Inr (sort_key row_execution_id rs))"

definition normalize_replayed_execution_projection :: "pydict \<Rightarrow> pydict list res" where
  "normalize_replayed_execution_projection state = rbind (execution_row state) (\<lambda>r. Inr [r])"

section \<open>Checksum bundles\<close>

definition surface_checksum :: "string \<Rightarrow> pydict list \<Rightarrow> string" where
  "surface_checksum name rows = canonical_checksum (VDict [(name, VList (map VDict rows))])"

definition checksum_of :: "string \<Rightarrow> pydict list res \<Rightarrow> string res" where
  "checksum_of name rows = rbind rows (\<lambda>rs. Inr (surface_checksum name rs))"

type_synonym checksum_bundle = "(string \<times> string) list"

definition bundle_of ::
  "pydict list res \<Rightarrow> pydict list res \<Rightarrow> pydict list res \<Rightarrow> pydict list res \<Rightarrow> pydict list res \<Rightarrow>
   pydict list res \<Rightarrow> checksum_bundle res" where
  "bundle_of ex st fr cm bo lp =
     rbind (checksum_of ''executions'' ex) (\<lambda>ex'.
     rbind (checksum_of ''stages'' st) (\<lambda>st'.
     rbind (checksum_of ''frames'' fr) (\<lambda>fr'.
     rbind (checksum_of ''commands'' cm) (\<lambda>cm'.
     rbind (checksum_of ''business_objects'' bo) (\<lambda>bo'.
     rbind (checksum_of ''loops'' lp) (\<lambda>lp'.
       Inr [(''execution'', ex'), (''stages'', st'), (''frames'', fr'), (''commands'', cm'),
            (''business_objects'', bo'), (''loops'', lp')]))))))"

definition replay_projection_checksum_bundle :: "pydict \<Rightarrow> checksum_bundle res" where
  "replay_projection_checksum_bundle state =
     bundle_of (normalize_replayed_execution_projection state)
       (normalize_replayed_stage_projection state) (normalize_replayed_frame_projection state)
       (normalize_replayed_command_projection state)
       (normalize_replayed_business_object_projection state)
       (normalize_replayed_loop_projection state)"

definition live_projection_checksum_bundle ::
  "pydict list \<Rightarrow> pydict list \<Rightarrow> pydict list \<Rightarrow> pydict list \<Rightarrow> pydict list \<Rightarrow> pydict list \<Rightarrow>
   checksum_bundle res" where
  "live_projection_checksum_bundle execution_rows stage_rows frame_rows command_rows
       business_object_rows loop_rows =
     bundle_of (normalize_live_execution_projection execution_rows)
       (normalize_live_stage_projection stage_rows) (normalize_live_frame_projection frame_rows)
       (normalize_live_command_projection command_rows)
       (normalize_live_business_object_projection business_object_rows)
       (normalize_live_loop_projection loop_rows)"

definition projection_checksum_surfaces :: "string list" where
  "projection_checksum_surfaces =
     [''execution'', ''stages'', ''frames'', ''commands'', ''business_objects'', ''loops'']"

record surface_report =
  sr_replayed :: "string option"
  sr_live :: "string option"
  sr_matched :: bool

record parity_report =
  pr_matched :: bool
  pr_surfaces :: "(string \<times> surface_report) list"

definition projection_checksum_parity_report :: "checksum_bundle \<Rightarrow> checksum_bundle \<Rightarrow> parity_report" where
  "projection_checksum_parity_report replayed live =
     (let surfaces = map (\<lambda>surface.
            (let r = map_of replayed surface; l = map_of live surface in
             (surface, \<lparr>sr_replayed = r, sr_live = l,
                        sr_matched = (r \<noteq> None \<and> l \<noteq> None \<and> r = l)\<rparr>)))
          projection_checksum_surfaces
      in \<lparr>pr_matched = list_all (\<lambda>(_, s). sr_matched s) surfaces, pr_surfaces = surfaces\<rparr>)"

section \<open>The replay state and its seed\<close>

record replay_state =
  rs_tenant_id :: string
  rs_organization_id :: string
  rs_execution_id :: int
  rs_projection :: string
  rs_digest :: "string option"
  rs_core :: replay_core
  rs_snapshot :: "snapshot_info option"
  rs_checksum :: string
  rs_projection_checksums :: checksum_bundle

text \<open>
  What a base state supplies: a key it lacks is \<open>None\<close> and gets the default, a key it has is
  kept. The keys the fold overwrites or pops are not read.
\<close>

record base_state =
  bs_event_count :: "int option"
  bs_last_event_id :: "int option option"
  bs_last_event_type :: "string option option"
  bs_execution :: "exec_proj option"
  bs_stages :: "(string \<times> stage_proj) list option"
  bs_frames :: "(string \<times> frame_proj) list option"
  bs_commands :: "(string \<times> command_proj) list option"
  bs_business_objects :: "(string \<times> business_proj) list option"
  bs_loops :: "(string \<times> loop_proj) list option"
  bs_snapshot :: "snapshot_info option"

fun or_default :: "'a option \<Rightarrow> 'a \<Rightarrow> 'a" where
  "or_default None d = d"
| "or_default (Some x) _ = x"

definition seed_core :: "base_state \<Rightarrow> replay_core" where
  "seed_core b =
     \<lparr>rc_event_count = or_default (bs_event_count b) 0,
      rc_last_event_id = or_default (bs_last_event_id b) None,
      rc_last_event_type = or_default (bs_last_event_type b) None,
      rc_execution = or_default (bs_execution b) initial_execution,
      rc_stages = or_default (bs_stages b) [], rc_frames = or_default (bs_frames b) [],
      rc_commands = or_default (bs_commands b) [],
      rc_business_objects = or_default (bs_business_objects b) [],
      rc_loops = or_default (bs_loops b) []\<rparr>"

text \<open>The base state a later replay finds in a state this fold returned.\<close>

definition base_of :: "replay_state \<Rightarrow> base_state" where
  "base_of s =
     (let c = rs_core s in
      \<lparr>bs_event_count = Some (rc_event_count c), bs_last_event_id = Some (rc_last_event_id c),
       bs_last_event_type = Some (rc_last_event_type c), bs_execution = Some (rc_execution c),
       bs_stages = Some (rc_stages c), bs_frames = Some (rc_frames c),
       bs_commands = Some (rc_commands c), bs_business_objects = Some (rc_business_objects c),
       bs_loops = Some (rc_loops c), bs_snapshot = rs_snapshot s\<rparr>)"

definition core_items :: "replay_core \<Rightarrow> pydict" where
  "core_items c =
     [(''event_count'', VInt (rc_event_count c)), (''last_event_id'', enc_int (rc_last_event_id c)),
      (''last_event_type'', enc_str (rc_last_event_type c)),
      (''execution'', VDict (enc_execution (rc_execution c))),
      (''stages'', enc_table enc_stage (rc_stages c)),
      (''frames'', enc_table enc_frame (rc_frames c)),
      (''commands'', enc_table enc_command (rc_commands c)),
      (''business_objects'', enc_table enc_business (rc_business_objects c)),
      (''loops'', enc_table enc_loop (rc_loops c))]"

definition state_dict :: "replay_state \<Rightarrow> pydict" where
  "state_dict s =
     [(''tenant_id'', VStr (rs_tenant_id s)), (''organization_id'', VStr (rs_organization_id s)),
      (''execution_id'', VInt (rs_execution_id s)), (''projection'', VStr (rs_projection s)),
      (''upcaster_registry_digest'', enc_str (rs_digest s))]
     @ core_items (rs_core s)
     @ (case rs_snapshot s of None \<Rightarrow> [] | Some i \<Rightarrow> [(''replay_snapshot'', enc_snapshot_info i)])"

definition finish_state :: "replay_state \<Rightarrow> replay_state res" where
  "finish_state s =
     (let checksum = canonical_checksum (VDict (state_dict s)) in
      rbind (replay_projection_checksum_bundle
               (state_dict s @ [(''checksum_algorithm'', VStr ''sha256''), (''checksum'', VStr checksum)]))
        (\<lambda>b. Inr (s\<lparr>rs_checksum := checksum, rs_projection_checksums := b\<rparr>)))"

definition start_state ::
  "string \<Rightarrow> string \<Rightarrow> int \<Rightarrow> string \<Rightarrow> string option \<Rightarrow> base_state option \<Rightarrow> snapshot_info option \<Rightarrow>
   replay_state" where
  "start_state tenant_id organization_id execution_id projection digest base seed =
     \<lparr>rs_tenant_id = tenant_id, rs_organization_id = organization_id,
      rs_execution_id = execution_id, rs_projection = projection, rs_digest = digest,
      rs_core = (case base of None \<Rightarrow> initial_core | Some b \<Rightarrow> seed_core b),
      rs_snapshot = (case seed of Some i \<Rightarrow> Some i | None \<Rightarrow> (case base of None \<Rightarrow> None | Some b \<Rightarrow> bs_snapshot b)),
      rs_checksum = '''', rs_projection_checksums = []\<rparr>"

definition fold_replay_state ::
  "pydict list \<Rightarrow> string \<Rightarrow> string \<Rightarrow> int \<Rightarrow> string \<Rightarrow> string option \<Rightarrow> base_state option \<Rightarrow>
   snapshot_info option \<Rightarrow> replay_state res" where
  "fold_replay_state events tenant_id organization_id execution_id projection digest base seed =
     (let s = start_state tenant_id organization_id execution_id projection digest base seed in
      rbind (fold_core (rs_core s) events) (\<lambda>c. finish_state (s\<lparr>rs_core := c\<rparr>)))"

section \<open>Sorting forgets the order of its input\<close>

lemma sort_key_perm:
  assumes "mset xs = mset ys" and "inj_on f (set xs)"
  shows "sort_key f xs = sort_key f ys"
proof (rule properties_for_sort_key)
  show "mset (sort_key f ys) = mset xs" using assms(1) by simp
  show "sorted (map f (sort_key f ys))" by simp
  fix x assume x: "x \<in> set (sort_key f ys)"
  have s: "set ys = set xs" using assms(1) by (metis mset_eq_setD)
  have one: "filter (\<lambda>y. f x = f y) zs = replicate (count (mset zs) x) x"
    if "set zs = set xs" for zs
  proof -
    have "filter (\<lambda>y. f x = f y) zs = filter (\<lambda>y. x = y) zs"
      using assms(2) x s that by (intro filter_cong) (auto dest: inj_onD)
    then show ?thesis by (simp add: replicate_count_mset_eq_filter_eq)
  qed
  show "filter (\<lambda>y. f x = f y) (sort_key f ys) = filter (\<lambda>y. f x = f y) xs"
    using one [of "sort_key f ys"] one [of xs] s assms(1) by simp
qed

lemma rmap_perm:
  assumes "mset xs = mset ys" and "rmap f xs = Inr us"
  shows "\<exists>vs. rmap f ys = Inr vs \<and> mset us = mset vs"
proof -
  define g where "g x = (case f x of Inr y \<Rightarrow> y | Inl _ \<Rightarrow> undefined)" for x
  have g: "f x = Inr (g x)" if x: "x \<in> set xs" for x
  proof -
    obtain y where "f x = Inr y"
      using rmap_member [OF assms(2) x] by blast
    then show ?thesis by (simp add: g_def)
  qed
  have "set ys = set xs" using assms(1) by (metis mset_eq_setD)
  then have "rmap f ys = Inr (map g ys)" by (intro rmap_Inr_map) (simp add: g)
  moreover have "us = map g xs" using rmap_Inr_map [of xs f g] g assms(2) by simp
  ultimately show ?thesis using assms(1) by simp
qed

lemma ordered_events_perm:
  assumes "mset es = mset es'" and "inj_on event_order (set es)"
  shows "ordered_events es = ordered_events es'"
  unfolding ordered_events_def by (rule sort_key_perm [OF assms])

lemma ordered_events_append:
  assumes "\<And>a b. a \<in> set es1 \<Longrightarrow> b \<in> set es2 \<Longrightarrow> event_order a \<le> event_order b"
  shows "ordered_events (es1 @ es2) = ordered_events es1 @ ordered_events es2"
  unfolding ordered_events_def using assms by (rule sort_key_append_le)

lemma fold_core_append:
  assumes "\<And>a b. a \<in> set es1 \<Longrightarrow> b \<in> set es2 \<Longrightarrow> event_order a \<le> event_order b"
  shows "fold_core s (es1 @ es2) = rbind (fold_core s es1) (\<lambda>s'. fold_core s' es2)"
  by (simp add: fold_core_def ordered_events_append assms rfold_append)

section \<open>Seeding\<close>

lemma seed_core_base_of [simp]: "seed_core (base_of s) = rs_core s"
  by (simp add: seed_core_def base_of_def Let_def)

lemma finish_state_core: "finish_state s = Inr t \<Longrightarrow> rs_core t = rs_core s \<and> rs_snapshot t = rs_snapshot s"
  by (auto simp: finish_state_def Let_def elim!: rbind_InrE)

end
