(* ===== verification/Replay_Invariants.thy ===== *)
theory Replay_Invariants
  imports Replay_State
begin

text \<open>
  The invariant of the replay state (\<open>core_wf\<close>): every table has each key once and files each
  row under the identifier the row carries; a frame's stored output summary is the summary of its
  output reference; a business object's last payload reference is the last of its references, of
  which it has at most one for each of its events; a loop has counted at most one outcome for
  each folded event. Every step of the fold keeps it. Properties: the invariant itself, the event
  count and last event of a fold, and what a fold does to the execution status.
\<close>

section \<open>Tables\<close>

definition table_ok :: "('k \<Rightarrow> 'v \<Rightarrow> bool) \<Rightarrow> ('k \<times> 'v) list \<Rightarrow> bool" where
  "table_ok P t = (dict_wf t \<and> list_all (\<lambda>(k, v). P k v) t)"

lemma table_ok_nil [simp]: "table_ok P []"
  by (simp add: table_ok_def)

lemma table_ok_mono: "table_ok P t \<Longrightarrow> (\<And>k v. P k v \<Longrightarrow> Q k v) \<Longrightarrow> table_ok Q t"
  by (auto simp: table_ok_def list_all_iff)

lemma table_ok_lookup: "table_ok P t \<Longrightarrow> map_of t k = Some v \<Longrightarrow> P k v"
  by (auto simp: table_ok_def list_all_iff dest!: map_of_SomeD)

lemma table_ok_modify:
  assumes "dict_modify k dflt f t = Inr t'" and "table_ok P t" and "Q k dflt"
    and "\<And>k' v. P k' v \<Longrightarrow> Q k' v"
    and "\<And>v v'. P k v \<or> v = dflt \<Longrightarrow> f v = Inr v' \<Longrightarrow> Q k v'"
  shows "table_ok Q t'"
proof -
  obtain v where v: "f (case map_of t k of None \<Rightarrow> dflt | Some v \<Rightarrow> v) = Inr v"
    and t': "t' = AList.update k v t"
    using assms(1) by (rule dict_modify_Inr)
  have "P k (case map_of t k of None \<Rightarrow> dflt | Some v \<Rightarrow> v) \<or>
      (case map_of t k of None \<Rightarrow> dflt | Some v \<Rightarrow> v) = dflt"
    using assms(2) by (auto split: option.splits dest: table_ok_lookup)
  then have "Q k v" using v assms(5) by blast
  moreover have "Q k' w" if "(k', w) \<in> set t" for k' w
    using that assms(2,4) by (auto simp: table_ok_def list_all_iff)
  ultimately show ?thesis
    using assms(2) t' set_update_subset [of k v t]
    by (fastforce simp: table_ok_def list_all_iff)
qed

section \<open>The invariant\<close>

definition stage_ok :: "string \<Rightarrow> stage_proj \<Rightarrow> bool" where
  "stage_ok k st = (st_stage_id st = k \<and> k \<noteq> [])"

definition frame_ok :: "string \<Rightarrow> frame_proj \<Rightarrow> bool" where
  "frame_ok k fr = (fr_frame_id fr = k \<and> k \<noteq> [] \<and>
     fr_output_ref_summary fr = payload_summary_of (fr_output_ref fr))"

definition command_ok :: "string \<Rightarrow> command_proj \<Rightarrow> bool" where
  "command_ok k c = (cm_command_id c = k \<and> k \<noteq> [])"

definition business_ok :: "string \<Rightarrow> business_proj \<Rightarrow> bool" where
  "business_ok k b =
     (bo_object_key b = k \<and> k = bo_object_type b @ ''/'' @ bo_object_id b \<and>
      int (length (bo_payload_refs b)) \<le> bo_event_count b \<and>
      bo_last_payload_ref b = (if bo_payload_refs b = [] then None else Some (last (bo_payload_refs b))))"

definition loop_ok :: "int \<Rightarrow> string \<Rightarrow> loop_proj \<Rightarrow> bool" where
  "loop_ok n k l = (lp_loop_id l = k \<and> k \<noteq> [] \<and> 0 \<le> lp_done l \<and> 0 \<le> lp_failed l \<and>
     lp_done l + lp_failed l \<le> n)"

definition core_wf :: "replay_core \<Rightarrow> bool" where
  "core_wf s =
     (0 \<le> rc_event_count s \<and> table_ok stage_ok (rc_stages s) \<and> table_ok frame_ok (rc_frames s) \<and>
      table_ok command_ok (rc_commands s) \<and> table_ok business_ok (rc_business_objects s) \<and>
      table_ok (loop_ok (rc_event_count s)) (rc_loops s))"

lemma core_wf_initial: "core_wf initial_core"
  by (simp add: core_wf_def initial_core_def)

lemma nonempty_id_Some: "nonempty_id x = Some k \<longleftrightarrow> x = Some k \<and> k \<noteq> []"
  by (auto simp: nonempty_id_def)

subsection \<open>Each step changes its own table and keeps it well formed\<close>

lemma new_stage_ok: "k \<noteq> [] \<Longrightarrow> stage_ok k (new_stage ev k)"
  by (simp add: stage_ok_def new_stage_def Let_def)

lemma stage_body_ok: "stage_ok k st \<Longrightarrow> stage_body ev st = Inr st' \<Longrightarrow> stage_ok k st'"
  by (auto simp: stage_ok_def stage_body_def stage_touch_def Let_def elim!: rbind_InrE
      split: if_splits)

lemma stage_step_ok:
  assumes "stage_step ev s = Inr s'" and "table_ok stage_ok (rc_stages s)"
  shows "\<exists>d. s' = s\<lparr>rc_stages := d\<rparr> \<and> table_ok stage_ok d"
proof (cases "nonempty_id (stage_id_of ev)")
  case None
  with assms have "s' = s\<lparr>rc_stages := rc_stages s\<rparr>" by (simp add: stage_step_def)
  with assms(2) show ?thesis by blast
next
  case (Some k)
  then obtain d where d: "dict_modify k (new_stage ev k) (stage_body ev) (rc_stages s) = Inr d"
    and s': "s' = s\<lparr>rc_stages := d\<rparr>"
    using assms(1) by (auto simp: stage_step_def elim!: rbind_InrE)
  have n: "stage_ok k (new_stage ev k)" using Some by (simp add: nonempty_id_Some new_stage_ok)
  have "table_ok stage_ok d"
    by (rule table_ok_modify [where P = stage_ok and Q = stage_ok, OF d assms(2) n]) (use n stage_body_ok in blast)+
  with s' show ?thesis by blast
qed

lemma new_frame_ok: "k \<noteq> [] \<Longrightarrow> frame_ok k (new_frame ev k)"
  by (simp add: frame_ok_def new_frame_def Let_def)

lemma frame_terminal_ok:
  "frame_terminal ev fr = Inr fr' \<Longrightarrow> fr_frame_id fr' = fr_frame_id fr \<and>
   fr_output_ref_summary fr' = payload_summary_of (fr_output_ref fr')"
  by (auto simp: frame_terminal_def Let_def elim!: rbind_InrE)

lemma frame_body_ok: "frame_ok k fr \<Longrightarrow> frame_body ev fr = Inr fr' \<Longrightarrow> frame_ok k fr'"
  unfolding frame_body_def Let_def
  by (auto simp: frame_ok_def frame_touch_def elim!: rbind_InrE
      dest!: frame_terminal_ok split: if_splits)

lemma frame_step_ok:
  assumes "frame_step ev s = Inr s'" and "table_ok frame_ok (rc_frames s)"
  shows "\<exists>d. s' = s\<lparr>rc_frames := d\<rparr> \<and> table_ok frame_ok d"
proof (cases "nonempty_id (frame_id_of ev)")
  case None
  with assms have "s' = s\<lparr>rc_frames := rc_frames s\<rparr>" by (simp add: frame_step_def)
  with assms(2) show ?thesis by blast
next
  case (Some k)
  then obtain d where d: "dict_modify k (new_frame ev k) (frame_body ev) (rc_frames s) = Inr d"
    and s': "s' = s\<lparr>rc_frames := d\<rparr>"
    using assms(1) by (auto simp: frame_step_def elim!: rbind_InrE)
  have n: "frame_ok k (new_frame ev k)" using Some by (simp add: nonempty_id_Some new_frame_ok)
  have "table_ok frame_ok d"
    by (rule table_ok_modify [where P = frame_ok and Q = frame_ok, OF d assms(2) n]) (use n frame_body_ok in blast)+
  with s' show ?thesis by blast
qed

lemma new_command_ok: "k \<noteq> [] \<Longrightarrow> command_ok k (new_command ev k)"
  by (simp add: command_ok_def new_command_def)

lemma command_body_ok: "command_ok k c \<Longrightarrow> command_ok k (command_body ev c)"
  by (simp add: command_ok_def command_body_def command_touch_def Let_def)

lemma command_step_ok:
  assumes "command_step ev s = Inr s'" and "table_ok command_ok (rc_commands s)"
  shows "\<exists>d. s' = s\<lparr>rc_commands := d\<rparr> \<and> table_ok command_ok d"
proof (cases "nonempty_id (command_id_of ev)")
  case None
  with assms have "s' = s\<lparr>rc_commands := rc_commands s\<rparr>" by (simp add: command_step_def)
  with assms(2) show ?thesis by blast
next
  case (Some k)
  then obtain d where
    d: "dict_modify k (new_command ev k) (\<lambda>c. Inr (command_body ev c)) (rc_commands s) = Inr d"
    and s': "s' = s\<lparr>rc_commands := d\<rparr>"
    using assms(1) by (auto simp: command_step_def elim!: rbind_InrE)
  have n: "command_ok k (new_command ev k)" using Some by (simp add: nonempty_id_Some new_command_ok)
  have "table_ok command_ok d"
    by (rule table_ok_modify [where P = command_ok and Q = command_ok, OF d assms(2) n]) (use n command_body_ok in auto)
  with s' show ?thesis by blast
qed

lemma business_body_ok: "business_ok k b \<Longrightarrow> business_body ev b = Inr b' \<Longrightarrow> business_ok k b'"
  by (auto simp: business_ok_def business_body_def Let_def elim!: rbind_InrE split: if_splits)

lemma business_identity_key:
  "business_object_identity ev = Some (key, otype, oid) \<Longrightarrow> key = otype @ ''/'' @ oid"
  by (auto simp: business_object_identity_def Let_def split: prod.splits if_splits)

lemma new_business_ok:
  "business_object_identity ev = Some (key, otype, oid) \<Longrightarrow>
   business_ok key (new_business ev key otype oid)"
  by (auto simp: business_ok_def new_business_def dest: business_identity_key)

lemma business_step_ok:
  assumes "business_step ev s = Inr s'" and "table_ok business_ok (rc_business_objects s)"
  shows "\<exists>d. s' = s\<lparr>rc_business_objects := d\<rparr> \<and> table_ok business_ok d"
proof (cases "business_object_identity ev")
  case None
  with assms have "s' = s\<lparr>rc_business_objects := rc_business_objects s\<rparr>"
    by (simp add: business_step_def)
  with assms(2) show ?thesis by blast
next
  case (Some p)
  obtain k otype oid where p: "p = (k, otype, oid)" by (cases p)
  with Some obtain d where
    d: "dict_modify k (new_business ev k otype oid) (business_body ev) (rc_business_objects s) = Inr d"
    and s': "s' = s\<lparr>rc_business_objects := d\<rparr>"
    using assms(1) by (auto simp: business_step_def elim!: rbind_InrE)
  have n: "business_ok k (new_business ev k otype oid)" using Some p by (simp add: new_business_ok)
  have "table_ok business_ok d"
    by (rule table_ok_modify [where P = business_ok and Q = business_ok, OF d assms(2) n]) (use n business_body_ok in blast)+
  with s' show ?thesis by blast
qed

lemma new_loop_ok: "k \<noteq> [] \<Longrightarrow> 0 \<le> n \<Longrightarrow> loop_ok n k (new_loop ev k)"
  by (simp add: loop_ok_def new_loop_def)

lemma loop_body_ok: "loop_ok n k l \<Longrightarrow> loop_ok (n + 1) k (loop_body ev l)"
  by (simp add: loop_ok_def loop_body_def Let_def)

lemma loop_step_ok:
  assumes "loop_step ev s = Inr s'" and "table_ok (loop_ok n) (rc_loops s)" and "0 \<le> n"
  shows "\<exists>d. s' = s\<lparr>rc_loops := d\<rparr> \<and> table_ok (loop_ok (n + 1)) d"
proof (cases "nonempty_id (loop_id_of ev)")
  case None
  with assms have "s' = s\<lparr>rc_loops := rc_loops s\<rparr>" by (simp add: loop_step_def)
  moreover have "table_ok (loop_ok (n + 1)) (rc_loops s)"
    using assms(2) by (rule table_ok_mono) (simp add: loop_ok_def)
  ultimately show ?thesis by blast
next
  case (Some k)
  then obtain d where
    d: "dict_modify k (new_loop ev k) (\<lambda>l. Inr (loop_body ev l)) (rc_loops s) = Inr d"
    and s': "s' = s\<lparr>rc_loops := d\<rparr>"
    using assms(1) by (auto simp: loop_step_def elim!: rbind_InrE)
  have n: "loop_ok n k (new_loop ev k)"
    using Some assms(3) by (simp add: nonempty_id_Some new_loop_ok)
  have "table_ok (loop_ok (n + 1)) d"
  proof (rule table_ok_modify [OF d assms(2)])
    show "loop_ok (n + 1) k (new_loop ev k)" using n by (simp add: loop_ok_def)
  qed (use n loop_body_ok in \<open>auto simp: loop_ok_def\<close>)
  with s' show ?thesis by blast
qed

lemma fold_event_wf:
  assumes "fold_event s ev = Inr t" and "core_wf s"
  shows "core_wf t \<and> rc_event_count t = rc_event_count s + 1 \<and>
    rc_last_event_id t = event_id_of ev \<and> rc_last_event_type t = Some (event_type_of ev) \<and>
    rc_execution t = rc_execution (execution_step ev s)"
proof -
  define s0 where "s0 = execution_step ev s"
  have s0: "rc_stages s0 = rc_stages s" "rc_frames s0 = rc_frames s" "rc_commands s0 = rc_commands s"
    "rc_business_objects s0 = rc_business_objects s" "rc_loops s0 = rc_loops s"
    "rc_event_count s0 = rc_event_count s + 1" "rc_last_event_id s0 = event_id_of ev"
    "rc_last_event_type s0 = Some (event_type_of ev)"
    by (simp_all add: s0_def execution_step_def Let_def)
  obtain s1 s2 s3 s4 where
    steps: "stage_step ev s0 = Inr s1" "frame_step ev s1 = Inr s2" "command_step ev s2 = Inr s3"
      "business_step ev s3 = Inr s4" "loop_step ev s4 = Inr t"
    using assms(1) by (auto simp: fold_event_def s0_def elim!: rbind_InrE)
  note wf = assms(2) [unfolded core_wf_def]
  obtain d1 where d1: "s1 = s0\<lparr>rc_stages := d1\<rparr>" "table_ok stage_ok d1"
    using stage_step_ok [OF steps(1)] wf s0 by auto
  obtain d2 where d2: "s2 = s1\<lparr>rc_frames := d2\<rparr>" "table_ok frame_ok d2"
    using frame_step_ok [OF steps(2)] wf s0 d1 by auto
  obtain d3 where d3: "s3 = s2\<lparr>rc_commands := d3\<rparr>" "table_ok command_ok d3"
    using command_step_ok [OF steps(3)] wf s0 d1 d2 by auto
  obtain d4 where d4: "s4 = s3\<lparr>rc_business_objects := d4\<rparr>" "table_ok business_ok d4"
    using business_step_ok [OF steps(4)] wf s0 d1 d2 d3 by auto
  have l4: "table_ok (loop_ok (rc_event_count s)) (rc_loops s4)"
    using wf s0 d1 d2 d3 d4 by simp
  obtain d5 where d5: "t = s4\<lparr>rc_loops := d5\<rparr>" "table_ok (loop_ok (rc_event_count s + 1)) d5"
    using loop_step_ok [OF steps(5) l4] wf by auto
  show ?thesis using wf s0 d1 d2 d3 d4 d5 by (simp add: core_wf_def s0_def)
qed

lemma rfold_fold_event_wf:
  "rfold fold_event s evs = Inr t \<Longrightarrow> core_wf s \<Longrightarrow>
   core_wf t \<and> rc_event_count t = rc_event_count s + int (length evs)"
proof (induction evs arbitrary: s)
  case (Cons ev evs)
  from Cons.prems(1) obtain s' where s': "fold_event s ev = Inr s'" and r: "rfold fold_event s' evs = Inr t"
    by (auto elim: rbind_InrE)
  show ?case using Cons.IH [OF r] fold_event_wf [OF s' Cons.prems(2)] by simp
qed simp

lemma fold_core_wf:
  assumes "fold_core s evs = Inr t" and "core_wf s"
  shows "core_wf t" and "rc_event_count t = rc_event_count s + int (length evs)"
  using rfold_fold_event_wf [of s "ordered_events evs" t] assms
  by (simp_all add: fold_core_def ordered_events_def)

end
