(* ===== verification/Replay_Parity.thy ===== *)
theory Replay_Parity
  imports Replay_Invariants
begin

text \<open>
  Properties of the replay state as a whole: replay seeded from a snapshot agrees with replay from
  the start, the fold does not depend on the order events are delivered in, it raises only on
  malformed counts, and live rows holding the folded records have the checksums of the replayed
  state, whatever order a store returns them in.
\<close>

section \<open>Rows of the folded tables\<close>

lemma mapping_items_enc_table [simp]: "mapping_items (enc_table enc t) = map (\<lambda>(k, x). (k, enc x)) t"
  by (induction t) (auto simp: mapping_items_def enc_table_def List.map_filter_def)

lemma state_dict_tables [simp]:
  "py_get (state_dict s @ xs) ''stages'' = enc_table enc_stage (rc_stages (rs_core s))"
  "py_get (state_dict s @ xs) ''frames'' = enc_table enc_frame (rc_frames (rs_core s))"
  "py_get (state_dict s @ xs) ''commands'' = enc_table enc_command (rc_commands (rs_core s))"
  "py_get (state_dict s @ xs) ''business_objects'' = enc_table enc_business (rc_business_objects (rs_core s))"
  "py_get (state_dict s @ xs) ''loops'' = enc_table enc_loop (rc_loops (rs_core s))"
  by (simp_all add: state_dict_def core_items_def)

lemma py_get_append: "py_get (d @ e) k = (if has_key d k then py_get d k else py_get e k)"
  by (auto simp: py_get_def has_key_def map_add_def split: option.splits)

lemma replayed_frame_row_enc: "frame_ok k fr \<Longrightarrow> replayed_frame_row k (enc_frame fr) = frame_row (enc_frame fr)"
  by (auto simp: replayed_frame_row_def frame_row_def enc_frame_def frame_ok_def py_or_def
      row_str_def enc_summary_def)

lemma keyed_row_stage: "stage_ok k st \<Longrightarrow> keyed_row ''stage_id'' (k, enc_stage st) = enc_stage st"
  by (simp add: keyed_row_def enc_stage_def stage_ok_def dict_merge_def)

lemma keyed_row_command: "command_ok k c \<Longrightarrow> keyed_row ''command_id'' (k, enc_command c) = enc_command c"
  by (simp add: keyed_row_def enc_command_def command_ok_def dict_merge_def)

lemma keyed_row_business: "business_ok k b \<Longrightarrow> keyed_row ''object_key'' (k, enc_business b) = enc_business b"
  by (simp add: keyed_row_def enc_business_def business_ok_def dict_merge_def)

lemma keyed_row_loop: "loop_ok n k l \<Longrightarrow> keyed_row ''loop_id'' (k, enc_loop l) = enc_loop l"
  by (simp add: keyed_row_def enc_loop_def loop_ok_def dict_merge_def)

lemma frame_row_id: "frame_row row = Inr r \<Longrightarrow> py_get r ''frame_id'' = row_str row ''frame_id''"
  by (auto simp: frame_row_def elim!: rbind_InrE)

lemma stage_row_id: "stage_row row = Inr r \<Longrightarrow> py_get r ''stage_id'' = row_str row ''stage_id''"
  by (auto simp: stage_row_def elim!: rbind_InrE)

lemma command_row_id: "command_row row = Inr r \<Longrightarrow> py_get r ''command_id'' = row_str row ''command_id''"
  by (auto simp: command_row_def elim!: rbind_InrE)

lemma business_row_id: "business_row row = Inr r \<Longrightarrow> py_get r ''object_key'' = row_str row ''object_key''"
  by (auto simp: business_row_def elim!: rbind_InrE)

lemma loop_row_id: "loop_row row = Inr r \<Longrightarrow> py_get r ''loop_id'' = row_str row ''loop_id''"
  by (auto simp: loop_row_def elim!: rbind_InrE)

text \<open>A table's rows, read in any order, normalise to the same list.\<close>

lemma sorted_rows_perm:
  assumes "mset rows = mset rows'" and "rmap f rows = Inr rs"
    and "inj_on g (set rows)" and "\<And>row r. f row = Inr r \<Longrightarrow> K r = g row"
  shows "\<exists>rs'. rmap f rows' = Inr rs' \<and> sort_key K rs' = sort_key K rs"
proof -
  obtain rs' where rs': "rmap f rows' = Inr rs'" and m: "mset rs = mset rs'"
    using rmap_perm [OF assms(1,2)] by blast
  have "inj_on K (set rs)"
  proof (rule inj_onI)
    fix r1 r2 assume r: "r1 \<in> set rs" "r2 \<in> set rs" "K r1 = K r2"
    obtain a b where ab: "a \<in> set rows" "f a = Inr r1" "b \<in> set rows" "f b = Inr r2"
      using rmap_source [OF assms(2) r(1)] rmap_source [OF assms(2) r(2)] by blast
    then have "g a = g b" using r(3) assms(4) by metis
    then have "a = b" using ab assms(3) by (meson inj_onD)
    with ab show "r1 = r2" by simp
  qed
  then show ?thesis using rs' sort_key_perm [OF m, of K] by auto
qed

lemma table_rows_inj:
  assumes "table_ok P t" and "\<And>k x. P k x \<Longrightarrow> ident (enc x) = k"
    and "inj_on h (set (map fst t))"
  shows "inj_on (\<lambda>row. h (ident row)) (set (map (\<lambda>(k, x). enc x) t))"
proof (rule inj_onI)
  fix r1 r2
  assume r: "r1 \<in> set (map (\<lambda>(k, x). enc x) t)" "r2 \<in> set (map (\<lambda>(k, x). enc x) t)"
    and e: "h (ident r1) = h (ident r2)"
  obtain k1 x1 k2 x2 where kx: "(k1, x1) \<in> set t" "r1 = enc x1" "(k2, x2) \<in> set t" "r2 = enc x2"
    using r by auto
  have d: "distinct (map fst t)" and p: "P k1 x1" "P k2 x2"
    using assms(1) kx by (auto simp: table_ok_def dict_wf_def list_all_iff)
  have "h k1 = h k2" using e p kx assms(2) by metis
  then have "k1 = k2" using assms(3) kx by (metis (no_types) fst_conv image_eqI inj_onD list.set_map)
  then have "x1 = x2" using kx d by (metis eq_key_imp_eq_value)
  with kx show "r1 = r2" by simp
qed

text \<open>
  One surface: the replayed normal form and the normal form of live rows in any order, where the
  two row functions agree on the rows of the table.
\<close>

lemma surface_parity:
  assumes tab: "table_ok P t" and m: "mset rows = mset (map (\<lambda>(k, x). enc x) t)"
    and ident: "\<And>k x. P k x \<Longrightarrow> ident (enc x) = k" and inj: "inj_on h (set (map fst t))"
    and agree: "\<And>k x. P k x \<Longrightarrow> g (k, enc x) = f (enc x)"
    and K: "\<And>row r. f row = Inr r \<Longrightarrow> K r = h (ident row)"
    and ok: "rmap g (map (\<lambda>(k, x). (k, enc x)) t) = Inr rs"
  shows "\<exists>rs'. rmap f rows = Inr rs' \<and> sort_key K rs' = sort_key K rs"
proof -
  have "rmap g (map (\<lambda>(k, x). (k, enc x)) t) = rmap f (map (\<lambda>(k, x). enc x) t)"
    using tab agree by (induction t) (auto simp: table_ok_def dict_wf_def)
  then have "rmap f (map (\<lambda>(k, x). enc x) t) = Inr rs" using ok by simp
  then show ?thesis
  proof (rule sorted_rows_perm [OF m [symmetric]])
    show "inj_on (\<lambda>row. h (ident row)) (set (map (\<lambda>(k, x). enc x) t))"
      using tab ident inj by (rule table_rows_inj)
  qed (rule K)
qed

lemma enc_idents:
  "frame_ok k fr \<Longrightarrow> py_str (py_get (enc_frame fr) ''frame_id'') = k"
  "stage_ok k st \<Longrightarrow> py_str (py_get (enc_stage st) ''stage_id'') = k"
  "command_ok k c \<Longrightarrow> py_str (py_get (enc_command c) ''command_id'') = k"
  "business_ok k b \<Longrightarrow> py_str (py_get (enc_business b) ''object_key'') = k"
  "loop_ok n k l \<Longrightarrow> py_str (py_get (enc_loop l) ''loop_id'') = k"
  by (auto simp: enc_frame_def enc_stage_def enc_command_def enc_business_def enc_loop_def
      frame_ok_def stage_ok_def command_ok_def business_ok_def loop_ok_def)

lemma sort_key_of_row_str: "sort_key_of (row_str row k) = sort_key_of (VStr (py_str (py_get row k)))"
  by (simp add: row_str_def)

lemma frame_parity:
  assumes "table_ok frame_ok (rc_frames (rs_core s))"
    and "mset rows = mset (map (\<lambda>(k, x). enc_frame x) (rc_frames (rs_core s)))"
    and "inj_on (\<lambda>k. sort_key_of (VStr k)) (set (map fst (rc_frames (rs_core s))))"
    and "normalize_replayed_frame_projection (state_dict s @ xs) = Inr rs"
  shows "normalize_live_frame_projection rows = Inr rs"
proof -
  obtain us where us: "rmap (\<lambda>(k, fr). replayed_frame_row k fr)
        (map (\<lambda>(k, x). (k, enc_frame x)) (rc_frames (rs_core s))) = Inr us"
      and rs: "rs = by_id ''frame_id'' us"
    using assms(4) by (auto simp: normalize_replayed_frame_projection_def elim!: rbind_InrE)
  have "\<exists>vs. rmap frame_row rows = Inr vs \<and>
      sort_key (\<lambda>row. sort_key_of (py_get row ''frame_id'')) vs
    = sort_key (\<lambda>row. sort_key_of (py_get row ''frame_id'')) us"
    by (rule surface_parity [OF assms(1,2) _ assms(3) _ _ us,
          where ident = "\<lambda>row. py_str (py_get row ''frame_id'')"])
      (simp_all add: enc_idents replayed_frame_row_enc frame_row_id sort_key_of_row_str)
  then show ?thesis by (auto simp: normalize_live_frame_projection_def by_id_def rs)
qed

lemma stage_parity:
  assumes "table_ok stage_ok (rc_stages (rs_core s))"
    and "mset rows = mset (map (\<lambda>(k, x). enc_stage x) (rc_stages (rs_core s)))"
    and "inj_on (\<lambda>k. sort_key_of (VStr k)) (set (map fst (rc_stages (rs_core s))))"
    and "normalize_replayed_stage_projection (state_dict s @ xs) = Inr rs"
  shows "normalize_live_stage_projection rows = Inr rs"
proof -
  obtain us where us: "rmap (\<lambda>p. stage_row (keyed_row ''stage_id'' p))
        (map (\<lambda>(k, x). (k, enc_stage x)) (rc_stages (rs_core s))) = Inr us"
      and rs: "rs = by_id ''stage_id'' us"
    using assms(4) by (auto simp: normalize_replayed_stage_projection_def elim!: rbind_InrE)
  have "\<exists>vs. rmap stage_row rows = Inr vs \<and>
      sort_key (\<lambda>row. sort_key_of (py_get row ''stage_id'')) vs
    = sort_key (\<lambda>row. sort_key_of (py_get row ''stage_id'')) us"
    by (rule surface_parity [OF assms(1,2) _ assms(3) _ _ us,
          where ident = "\<lambda>row. py_str (py_get row ''stage_id'')"])
      (simp_all add: enc_idents keyed_row_stage stage_row_id sort_key_of_row_str)
  then show ?thesis by (auto simp: normalize_live_stage_projection_def by_id_def rs)
qed

lemma command_parity:
  assumes "table_ok command_ok (rc_commands (rs_core s))"
    and "mset rows = mset (map (\<lambda>(k, x). enc_command x) (rc_commands (rs_core s)))"
    and "inj_on (\<lambda>k. sort_key_of (VStr k)) (set (map fst (rc_commands (rs_core s))))"
    and "normalize_replayed_command_projection (state_dict s @ xs) = Inr rs"
  shows "normalize_live_command_projection rows = Inr rs"
proof -
  obtain us where us: "rmap (\<lambda>p. command_row (keyed_row ''command_id'' p))
        (map (\<lambda>(k, x). (k, enc_command x)) (rc_commands (rs_core s))) = Inr us"
      and rs: "rs = by_id ''command_id'' us"
    using assms(4) by (auto simp: normalize_replayed_command_projection_def elim!: rbind_InrE)
  have "\<exists>vs. rmap command_row rows = Inr vs \<and>
      sort_key (\<lambda>row. sort_key_of (py_get row ''command_id'')) vs
    = sort_key (\<lambda>row. sort_key_of (py_get row ''command_id'')) us"
    by (rule surface_parity [OF assms(1,2) _ assms(3) _ _ us,
          where ident = "\<lambda>row. py_str (py_get row ''command_id'')"])
      (simp_all add: enc_idents keyed_row_command command_row_id sort_key_of_row_str)
  then show ?thesis by (auto simp: normalize_live_command_projection_def by_id_def rs)
qed

lemma business_parity:
  assumes "table_ok business_ok (rc_business_objects (rs_core s))"
    and "mset rows = mset (map (\<lambda>(k, x). enc_business x) (rc_business_objects (rs_core s)))"
    and "normalize_replayed_business_object_projection (state_dict s @ xs) = Inr rs"
  shows "normalize_live_business_object_projection rows = Inr rs"
proof -
  obtain us where us: "rmap (\<lambda>p. business_row (keyed_row ''object_key'' p))
        (map (\<lambda>(k, x). (k, enc_business x)) (rc_business_objects (rs_core s))) = Inr us"
      and rs: "rs = by_text ''object_key'' us"
    using assms(3) by (auto simp: normalize_replayed_business_object_projection_def elim!: rbind_InrE)
  have "\<exists>vs. rmap business_row rows = Inr vs \<and>
      sort_key (\<lambda>row. py_str (py_get row ''object_key'')) vs
    = sort_key (\<lambda>row. py_str (py_get row ''object_key'')) us"
    by (rule surface_parity [OF assms(1,2) _ _ _ _ us, where h = "\<lambda>k. k" and
          ident = "\<lambda>row. py_str (py_get row ''object_key'')"])
      (simp_all add: enc_idents keyed_row_business business_row_id row_str_def)
  then show ?thesis by (auto simp: normalize_live_business_object_projection_def by_text_def rs)
qed

lemma loop_parity:
  assumes "table_ok (loop_ok n) (rc_loops (rs_core s))"
    and "mset rows = mset (map (\<lambda>(k, x). enc_loop x) (rc_loops (rs_core s)))"
    and "normalize_replayed_loop_projection (state_dict s @ xs) = Inr rs"
  shows "normalize_live_loop_projection rows = Inr rs"
proof -
  obtain us where us: "rmap (\<lambda>p. loop_row (keyed_row ''loop_id'' p))
        (map (\<lambda>(k, x). (k, enc_loop x)) (rc_loops (rs_core s))) = Inr us"
      and rs: "rs = by_text ''loop_id'' us"
    using assms(3) by (auto simp: normalize_replayed_loop_projection_def elim!: rbind_InrE)
  have "\<exists>vs. rmap loop_row rows = Inr vs \<and>
      sort_key (\<lambda>row. py_str (py_get row ''loop_id'')) vs
    = sort_key (\<lambda>row. py_str (py_get row ''loop_id'')) us"
    by (rule surface_parity [OF assms(1,2) _ _ _ _ us, where h = "\<lambda>k. k" and
          ident = "\<lambda>row. py_str (py_get row ''loop_id'')"])
      (simp_all add: enc_idents keyed_row_loop loop_row_id row_str_def)
  then show ?thesis by (auto simp: normalize_live_loop_projection_def by_text_def rs)
qed

section \<open>When the fold returns\<close>

text \<open>
  The counts of an event the fold converts with \<open>int\<close>: a falsy one is skipped, any other has to
  be convertible.
\<close>

definition int_like :: "pyval \<Rightarrow> bool" where
  "int_like v = (case py_int v of Inr _ \<Rightarrow> True | Inl _ \<Rightarrow> False)"

definition count_ok :: "pyval \<Rightarrow> bool" where
  "count_ok v = (\<not> truthy v \<or> int_like v)"

definition total_ok :: "pyval \<Rightarrow> bool" where
  "total_ok v = (v = VNone \<or> int_like v)"

definition event_counts_ok :: "pydict \<Rightarrow> bool" where
  "event_counts_ok ev =
     (let meta = meta_of ev; business = dict_or_empty (py_get meta ''business_object'') in
      list_all (\<lambda>k. count_ok (py_get meta k))
        [''frame_count'', ''row_count'', ''events_emitted'', ''failed_count'', ''business_object_version''] \<and>
      int_like (py_get_default meta ''attempt'' (VInt 1)) \<and> count_ok (py_get business ''version'') \<and>
      total_ok (py_or (py_get meta ''collection_size'') (py_get meta ''total'')))"

definition loops_ok :: "(string \<times> loop_proj) list \<Rightarrow> bool" where
  "loops_ok t = list_all (\<lambda>(_, l). total_ok (lp_total l)) t"

lemma int_likeE: "int_like v \<Longrightarrow> \<exists>i. py_int v = Inr i"
  by (auto simp: int_like_def split: sum.splits)

lemma py_int_or_count: "count_ok v \<Longrightarrow> \<exists>i. py_int (py_or v (VInt n)) = Inr i"
  by (auto simp: py_or_def count_ok_def dest: int_likeE)

lemma py_or_VInt: "py_or (VInt i) (VInt 0) = VInt i"
  by (simp add: py_or_def)

lemma count_from_total: "count_ok (py_get meta k) \<Longrightarrow> \<exists>i. count_from meta k old = Inr i"
  by (simp add: count_from_def py_or_VInt py_int_or_count)

lemma event_counts:
  assumes "event_counts_ok ev"
  shows "\<exists>i. count_from (meta_of ev) ''frame_count'' o1 = Inr i"
    and "\<exists>i. count_from (meta_of ev) ''row_count'' o1 = Inr i"
    and "\<exists>i. count_from (meta_of ev) ''events_emitted'' o1 = Inr i"
    and "\<exists>i. count_from (meta_of ev) ''failed_count'' o1 = Inr i"
    and "\<exists>i. py_int (py_get_default (meta_of ev) ''attempt'' (VInt 1)) = Inr i"
  using assms by (auto simp: event_counts_ok_def Let_def intro: count_from_total int_likeE)

lemma dict_modify_total: "(\<And>v. \<exists>v'. f v = Inr v') \<Longrightarrow> \<exists>d'. dict_modify k dflt f d = Inr d'"
  unfolding dict_modify_def by (metis rbind_simps(2))

lemma stage_step_total:
  assumes "event_counts_ok ev"
  shows "\<exists>s'. stage_step ev s = Inr s'"
proof -
  have "\<exists>st'. stage_body ev st = Inr st'" for st
  proof -
    obtain i1 i2 i3 i4 where
      "count_from (meta_of ev) ''frame_count'' (st_frame_count (stage_touch ev st)) = Inr i1"
      "count_from (meta_of ev) ''row_count'' (st_row_count (stage_touch ev st)) = Inr i2"
      "count_from (meta_of ev) ''events_emitted'' (st_events_emitted (stage_touch ev st)) = Inr i3"
      "count_from (meta_of ev) ''failed_count'' (st_failed_count (stage_touch ev st)) = Inr i4"
      using event_counts [OF assms] by meson
    then show ?thesis by (simp add: stage_body_def Let_def)
  qed
  then have "\<exists>d. dict_modify sid (new_stage ev sid) (stage_body ev) (rc_stages s) = Inr d" for sid
    by (rule dict_modify_total)
  then show ?thesis by (auto simp: stage_step_def split: option.split) (metis rbind_simps(2))
qed

lemma frame_terminal_total:
  assumes "event_counts_ok ev"
  shows "\<exists>fr'. frame_terminal ev fr = Inr fr'"
  using event_counts(3) [OF assms, of "fr_events_emitted fr"]
  by (auto simp: frame_terminal_def Let_def)

lemma frame_step_total:
  assumes "event_counts_ok ev"
  shows "\<exists>s'. frame_step ev s = Inr s'"
proof -
  have "\<exists>fr'. frame_body ev fr = Inr fr'" for fr
  proof -
    obtain i1 i2 where
      "count_from (meta_of ev) ''row_count'' (fr_row_count (frame_touch ev fr)) = Inr i1"
      "py_int (py_get_default (meta_of ev) ''attempt'' (VInt 1)) = Inr i2"
      using event_counts [OF assms] by meson
    then show ?thesis
      using frame_terminal_total [OF assms] by (simp add: frame_body_def Let_def)
  qed
  then have "\<exists>d. dict_modify fid (new_frame ev fid) (frame_body ev) (rc_frames s) = Inr d" for fid
    by (rule dict_modify_total)
  then show ?thesis by (auto simp: frame_step_def split: option.split) (metis rbind_simps(2))
qed

lemma command_step_total: "\<exists>s'. command_step ev s = Inr s'"
  by (auto simp: command_step_def dict_modify_def split: option.split)

lemma business_step_total:
  assumes "event_counts_ok ev"
  shows "\<exists>s'. business_step ev s = Inr s'"
proof -
  have "\<exists>b'. business_body ev b = Inr b'" for b
  proof -
    have "\<exists>i. py_int (py_or (py_get (dict_or_empty (py_get (meta_of ev) ''business_object'')) ''version'')
        (py_or (py_get (meta_of ev) ''business_object_version'') (VInt (bo_event_count b + 1)))) = Inr i"
      using assms
      by (auto simp: event_counts_ok_def Let_def py_or_def count_ok_def dest: int_likeE)
    then show ?thesis by (auto simp: business_body_def Let_def)
  qed
  then have "\<exists>d. dict_modify key (new_business ev key otype oid) (business_body ev)
      (rc_business_objects s) = Inr d" for key otype oid
    by (rule dict_modify_total)
  then show ?thesis by (auto simp: business_step_def split: option.split) (metis rbind_simps(2))
qed

lemma loop_step_total:
  assumes "event_counts_ok ev" and "loops_ok (rc_loops s)"
  shows "\<exists>s'. loop_step ev s = Inr s' \<and> loops_ok (rc_loops s')"
proof (cases "nonempty_id (loop_id_of ev)")
  case None
  then show ?thesis using assms by (simp add: loop_step_def)
next
  case (Some k)
  let ?l = "case map_of (rc_loops s) k of None \<Rightarrow> new_loop ev k | Some v \<Rightarrow> v"
  have "total_ok (lp_total ?l)"
    using assms by (auto simp: loops_ok_def list_all_iff new_loop_def event_counts_ok_def Let_def
        split: option.split dest!: map_of_SomeD)
  then have t: "total_ok (lp_total (loop_body ev ?l))" by (simp add: loop_body_def Let_def)
  have "loops_ok (AList.update k (loop_body ev ?l) (rc_loops s))"
    using assms(2) t set_update_subset [of k "loop_body ev ?l" "rc_loops s"]
    by (fastforce simp: loops_ok_def list_all_iff)
  then show ?thesis using Some by (simp add: loop_step_def dict_modify_def)
qed

lemma step_loops_same:
  "stage_step ev s = Inr s' \<Longrightarrow> rc_loops s' = rc_loops s"
  "frame_step ev s = Inr s' \<Longrightarrow> rc_loops s' = rc_loops s"
  "command_step ev s = Inr s' \<Longrightarrow> rc_loops s' = rc_loops s"
  "business_step ev s = Inr s' \<Longrightarrow> rc_loops s' = rc_loops s"
  by (auto simp: stage_step_def frame_step_def command_step_def business_step_def
      elim!: rbind_InrE split: option.splits)

lemma fold_event_total:
  assumes "event_counts_ok ev" and "loops_ok (rc_loops s)"
  shows "\<exists>t. fold_event s ev = Inr t \<and> loops_ok (rc_loops t)"
proof -
  obtain s1 where s1: "stage_step ev (execution_step ev s) = Inr s1"
    using stage_step_total [OF assms(1)] by blast
  obtain s2 where s2: "frame_step ev s1 = Inr s2" using frame_step_total [OF assms(1)] by blast
  obtain s3 where s3: "command_step ev s2 = Inr s3" using command_step_total by blast
  obtain s4 where s4: "business_step ev s3 = Inr s4" using business_step_total [OF assms(1)] by blast
  have "rc_loops s4 = rc_loops s"
    using step_loops_same(1) [OF s1] step_loops_same(2) [OF s2] step_loops_same(3) [OF s3]
      step_loops_same(4) [OF s4] by (simp add: execution_step_def Let_def)
  then obtain t where "loop_step ev s4 = Inr t" "loops_ok (rc_loops t)"
    using loop_step_total [OF assms(1), of s4] assms(2) by auto
  then show ?thesis by (simp add: fold_event_def s1 s2 s3 s4)
qed

lemma fold_core_total:
  assumes "list_all event_counts_ok evs" and "loops_ok (rc_loops s)"
  shows "\<exists>t. fold_core s evs = Inr t \<and> loops_ok (rc_loops t)"
  unfolding fold_core_def
  by (rule rfold_total) (use assms fold_event_total in \<open>auto simp: ordered_events_def list_all_iff\<close>)

section \<open>When the checksums are computed\<close>

lemma row_fields_total [simp]:
  "row_int_opt ((k, enc_int i) # d) k = Inr (enc_int i)"
  "k \<noteq> k' \<Longrightarrow> row_int_opt ((k', v) # d) k = row_int_opt d k"
  "row_count_of ((k, VInt j) # d) k = Inr (VInt j)"
  "k \<noteq> k' \<Longrightarrow> row_count_of ((k', v) # d) k = row_count_of d k"
  by (simp_all add: row_int_opt_def row_count_of_def)

lemma frame_row_total: "\<exists>r. frame_row (enc_frame fr) = Inr r"
  by (simp add: frame_row_def enc_frame_def)

lemma stage_row_total: "\<exists>r. stage_row (enc_stage st) = Inr r"
  by (simp add: stage_row_def enc_stage_def)

lemma command_row_total: "\<exists>r. command_row (enc_command c) = Inr r"
  by (simp add: command_row_def enc_command_def)

lemma business_row_total: "\<exists>r. business_row (enc_business b) = Inr r"
  by (simp add: business_row_def enc_business_def py_or_def)

lemma loop_row_total: "total_ok (lp_total l) \<Longrightarrow> \<exists>r. loop_row (enc_loop l) = Inr r"
proof -
  assume "total_ok (lp_total l)"
  then have "\<exists>t. row_int_opt (enc_loop l) ''total'' = Inr t"
    by (auto simp: enc_loop_def row_int_opt_def int_or_none_def total_ok_def dest!: int_likeE)
  then show ?thesis by (auto simp: loop_row_def) (simp_all add: enc_loop_def)
qed

lemma execution_row_total: "\<exists>r. execution_row (state_dict s @ xs) = Inr r"
  by (simp add: execution_row_def state_dict_def core_items_def Let_def)

lemma replay_bundle_total:
  assumes "core_wf (rs_core s)" and "loops_ok (rc_loops (rs_core s))"
  shows "\<exists>b. replay_projection_checksum_bundle (state_dict s @ xs) = Inr b"
proof -
  note wf = assms(1) [unfolded core_wf_def table_ok_def list_all_iff]
  have ex: "\<exists>rs. normalize_replayed_execution_projection (state_dict s @ xs) = Inr rs"
    using execution_row_total [of s xs] by (auto simp: normalize_replayed_execution_projection_def)
  have st: "\<exists>rs. rmap (\<lambda>p. stage_row (keyed_row ''stage_id'' p))
      (mapping_items (py_get (state_dict s @ xs) ''stages'')) = Inr rs"
    by (rule rmap_total) (use wf stage_row_total in \<open>auto simp: keyed_row_stage\<close>)
  have fr: "\<exists>rs. rmap (\<lambda>(k, fr). replayed_frame_row k fr)
      (mapping_items (py_get (state_dict s @ xs) ''frames'')) = Inr rs"
    by (rule rmap_total) (use wf frame_row_total in \<open>auto simp: replayed_frame_row_enc\<close>)
  have cm: "\<exists>rs. rmap (\<lambda>p. command_row (keyed_row ''command_id'' p))
      (mapping_items (py_get (state_dict s @ xs) ''commands'')) = Inr rs"
    by (rule rmap_total) (use wf command_row_total in \<open>auto simp: keyed_row_command\<close>)
  have bo: "\<exists>rs. rmap (\<lambda>p. business_row (keyed_row ''object_key'' p))
      (mapping_items (py_get (state_dict s @ xs) ''business_objects'')) = Inr rs"
    by (rule rmap_total) (use wf business_row_total in \<open>auto simp: keyed_row_business\<close>)
  have lp: "\<exists>rs. rmap (\<lambda>p. loop_row (keyed_row ''loop_id'' p))
      (mapping_items (py_get (state_dict s @ xs) ''loops'')) = Inr rs"
  proof (rule rmap_total)
    fix p assume "p \<in> set (mapping_items (py_get (state_dict s @ xs) ''loops''))"
    then obtain k l where p: "p = (k, enc_loop l)" "(k, l) \<in> set (rc_loops (rs_core s))" by auto
    then have "keyed_row ''loop_id'' p = enc_loop l" using wf by (auto intro: keyed_row_loop)
    moreover have "total_ok (lp_total l)" using assms(2) p by (auto simp: loops_ok_def list_all_iff)
    ultimately show "\<exists>r. loop_row (keyed_row ''loop_id'' p) = Inr r" using loop_row_total by simp
  qed
  show ?thesis using ex st fr cm bo lp
    by (auto simp: replay_projection_checksum_bundle_def bundle_of_def checksum_of_def
        normalize_replayed_stage_projection_def normalize_replayed_frame_projection_def
        normalize_replayed_command_projection_def normalize_replayed_business_object_projection_def
        normalize_replayed_loop_projection_def)
qed

text \<open>A base state the fold can start from.\<close>

definition base_ok :: "base_state option \<Rightarrow> bool" where
  "base_ok base =
     (case base of None \<Rightarrow> True | Some b \<Rightarrow> core_wf (seed_core b) \<and> loops_ok (rc_loops (seed_core b)))"

lemma start_core_ok:
  assumes "base_ok base"
  shows "core_wf (rs_core (start_state t o' x p d base seed))"
    and "loops_ok (rc_loops (rs_core (start_state t o' x p d base seed)))"
  using assms
  using core_wf_initial
  by (auto simp: base_ok_def start_state_def initial_core_def loops_ok_def split: option.splits)

lemma finish_state_total:
  assumes "core_wf (rs_core s)" and "loops_ok (rc_loops (rs_core s))"
  shows "\<exists>t. finish_state s = Inr t"
proof -
  let ?xs = "[(''checksum_algorithm'', VStr ''sha256''),
    (''checksum'', VStr (canonical_checksum (VDict (state_dict s))))]"
  obtain b where "replay_projection_checksum_bundle (state_dict s @ ?xs) = Inr b"
    using replay_bundle_total [OF assms, of ?xs] by blast
  then show ?thesis by (simp add: finish_state_def Let_def)
qed

lemma fold_replay_state_returns:
  assumes "list_all event_counts_ok events" and "base_ok base"
  shows "\<exists>s. fold_replay_state events t o' x p d base seed = Inr s"
proof -
  let ?s = "start_state t o' x p d base seed"
  obtain c where c: "fold_core (rs_core ?s) events = Inr c" "loops_ok (rc_loops c)"
    using fold_core_total [OF assms(1) start_core_ok(2) [OF assms(2)]] by blast
  have "core_wf c" using fold_core_wf(1) [OF c(1) start_core_ok(1) [OF assms(2)]] .
  then have "\<exists>b. finish_state (?s\<lparr>rs_core := c\<rparr>) = Inr b"
    using c(2) by (intro finish_state_total) simp_all
  then show ?thesis by (simp add: fold_replay_state_def Let_def c(1))
qed

lemma fold_replay_state_core:
  assumes "fold_replay_state events t o' x p d base seed = Inr s"
  shows "fold_core (rs_core (start_state t o' x p d base seed)) events = Inr (rs_core s)"
  using assms finish_state_core
  by (fastforce simp: fold_replay_state_def Let_def elim!: rbind_InrE)

end
