(* ===== verification/Replay_Theorems.thy ===== *)
theory Replay_Theorems
  imports Replay_Parity
begin

text \<open>
  The properties of \<open>fold_replay_state\<close>: equality of incremental and full replay, independence of
  delivery order, the invariant of the folded state with its counters, parity of live rows with
  the replayed projection, and totality on events whose counts are numbers.
\<close>

section \<open>The checksums of a state do not see its snapshot origin\<close>

definition same_projection :: "replay_state \<Rightarrow> replay_state \<Rightarrow> bool" where
  "same_projection s u =
     (rs_tenant_id s = rs_tenant_id u \<and> rs_organization_id s = rs_organization_id u \<and>
      rs_execution_id s = rs_execution_id u \<and> rs_projection s = rs_projection u \<and>
      rs_digest s = rs_digest u \<and> rs_core s = rs_core u)"

lemma same_projection_execution_row:
  assumes "same_projection s u"
  shows "execution_row (state_dict s @ [(''checksum_algorithm'', a), (''checksum'', c)])
       = execution_row (state_dict u @ [(''checksum_algorithm'', a'), (''checksum'', c')])"
proof -
  let ?a = "state_dict s @ [(''checksum_algorithm'', a), (''checksum'', c)]"
  let ?b = "state_dict u @ [(''checksum_algorithm'', a'), (''checksum'', c')]"
  have "py_get ?a ''execution'' = py_get ?b ''execution''"
    "py_get ?a ''payload_refs'' = VNone" "py_get ?b ''payload_refs'' = VNone"
    "py_get ?a ''last_payload_ref'' = VNone" "py_get ?b ''last_payload_ref'' = VNone"
    "py_get ?a ''status'' = VNone" "py_get ?b ''status'' = VNone"
    "py_get ?a ''last_node_name'' = VNone" "py_get ?b ''last_node_name'' = VNone"
    "py_get ?a ''execution_id'' = py_get ?b ''execution_id''"
    "py_get ?a ''event_count'' = py_get ?b ''event_count''"
    "py_get ?a ''last_event_id'' = py_get ?b ''last_event_id''"
    "py_get ?a ''last_event_type'' = py_get ?b ''last_event_type''"
    "py_get ?a ''tenant_id'' = py_get ?b ''tenant_id''"
    "py_get ?a ''organization_id'' = py_get ?b ''organization_id''"
    "py_get ?a ''projection'' = py_get ?b ''projection''"
    "py_get ?a ''upcaster_registry_digest'' = py_get ?b ''upcaster_registry_digest''"
    using assms
    by (cases "rs_snapshot s"; cases "rs_snapshot u";
        simp add: same_projection_def state_dict_def core_items_def enc_snapshot_info_def)+
  then show ?thesis by (simp only: execution_row_def row_count_of_def row_int_opt_def)
qed

lemma same_projection_bundle:
  assumes "same_projection s u"
  shows "replay_projection_checksum_bundle
           (state_dict s @ [(''checksum_algorithm'', a), (''checksum'', c)])
       = replay_projection_checksum_bundle
           (state_dict u @ [(''checksum_algorithm'', a'), (''checksum'', c')])"
proof -
  have c: "rs_core s = rs_core u" using assms by (simp add: same_projection_def)
  show ?thesis
    unfolding replay_projection_checksum_bundle_def normalize_replayed_execution_projection_def
      normalize_replayed_stage_projection_def normalize_replayed_frame_projection_def
      normalize_replayed_command_projection_def normalize_replayed_business_object_projection_def
      normalize_replayed_loop_projection_def
    by (simp add: same_projection_execution_row [OF assms, of a c a' c'] c)
qed

definition state_view :: "replay_state \<Rightarrow> replay_core \<times> checksum_bundle" where
  "state_view s = (rs_core s, rs_projection_checksums s)"

lemma finish_state_view:
  assumes "same_projection s u"
  shows "rbind (finish_state s) (\<lambda>t. Inr (state_view t)) = rbind (finish_state u) (\<lambda>t. Inr (state_view t))"
proof -
  have c: "rs_core s = rs_core u" using assms by (simp add: same_projection_def)
  show ?thesis
    using same_projection_bundle [OF assms]
    by (simp add: finish_state_def Let_def rbind_assoc state_view_def c) (metis (no_types, lifting))
qed

section \<open>Incremental replay\<close>

lemma fold_seeded:
  assumes "\<forall>a \<in> set es1. \<forall>b \<in> set es2. event_order a \<le> event_order b"
    and "fold_replay_state es1 t org x p d base origin = Inr s1"
  shows "fold_core (rs_core (start_state t org x p d base origin)) (es1 @ es2)
       = fold_core (rs_core (start_state t org x p d (Some (base_of s1)) seed)) es2"
    and "rs_snapshot s1 = rs_snapshot (start_state t org x p d base origin)"
proof -
  let ?s0 = "start_state t org x p d base origin"
  have f1: "fold_core (rs_core ?s0) es1 = Inr (rs_core s1)"
    using assms(2) by (rule fold_replay_state_core)
  show "fold_core (rs_core ?s0) (es1 @ es2)
      = fold_core (rs_core (start_state t org x p d (Some (base_of s1)) seed)) es2"
    using assms(1) by (simp add: fold_core_append f1) (simp add: start_state_def)
  show "rs_snapshot s1 = rs_snapshot ?s0"
    using assms(2) finish_state_core by (fastforce simp: fold_replay_state_def Let_def elim!: rbind_InrE)
qed

lemma fold_seeded_view:
  assumes "\<forall>a \<in> set es1. \<forall>b \<in> set es2. event_order a \<le> event_order b"
    and "fold_replay_state es1 t org x p d base origin = Inr s1"
  shows "rbind (fold_replay_state es2 t org x p d (Some (base_of s1)) seed) (\<lambda>s. Inr (state_view s))
       = rbind (fold_replay_state (es1 @ es2) t org x p d base origin) (\<lambda>s. Inr (state_view s))"
proof -
  let ?s0 = "start_state t org x p d base origin"
  let ?s2 = "start_state t org x p d (Some (base_of s1)) seed"
  have "rbind (finish_state (?s0\<lparr>rs_core := c\<rparr>)) (\<lambda>s. Inr (state_view s))
      = rbind (finish_state (?s2\<lparr>rs_core := c\<rparr>)) (\<lambda>s. Inr (state_view s))" for c
    by (rule finish_state_view) (simp add: same_projection_def start_state_def)
  then show ?thesis
    by (simp add: fold_replay_state_def Let_def fold_seeded(1) [OF assms, of seed] rbind_assoc)
qed

text \<open>
  C10. Snapshots are accelerators: when the events of a later range follow those already folded
  in event-id order, folding the later range from the state folded before it gives the state of
  folding everything, and the same exception where that raises. With the seed recorded in the
  state the tables, counters and projection checksums agree; with no seed to record the two
  states agree in every field, the state checksum included.
\<close>
theorem replay_from_snapshot:
  assumes "\<forall>a \<in> set es1. \<forall>b \<in> set es2. event_order a \<le> event_order b"
    and "fold_replay_state es1 t org x p d base origin = Inr s1"
  shows "rbind (fold_replay_state es2 t org x p d (Some (base_of s1)) seed) (\<lambda>s. Inr (state_view s))
       = rbind (fold_replay_state (es1 @ es2) t org x p d base origin) (\<lambda>s. Inr (state_view s))
     \<and> (seed = None \<longrightarrow>
          fold_replay_state es2 t org x p d (Some (base_of s1)) seed
        = fold_replay_state (es1 @ es2) t org x p d base origin)"
proof -
  have "(start_state t org x p d base origin)\<lparr>rs_core := c\<rparr>
      = (start_state t org x p d (Some (base_of s1)) None)\<lparr>rs_core := c\<rparr>" for c
    using fold_seeded(2) [OF assms] by (simp add: start_state_def base_of_def Let_def)
  then show ?thesis
    using fold_seeded_view [OF assms, of seed]
    by (auto simp: fold_replay_state_def Let_def fold_seeded(1) [OF assms, of None])
qed

definition sample_opened :: pydict where
  "sample_opened = [(''event_id'', VInt 1), (''event_type'', VStr ''stage.opened''),
     (''stage_id'', VStr ''10''), (''node_name'', VStr ''fetch'')]"

definition sample_committed :: pydict where
  "sample_committed = [(''event_id'', VInt 2), (''event_type'', VStr ''frame.committed''),
     (''frame_id'', VStr ''7''), (''stage_id'', VStr ''10''),
     (''meta'', VDict [(''row_count'', VStr ''3''), (''loop_id'', VStr ''l1''), (''total'', VInt 4)]),
     (''result'', VDict [(''reference'', VDict [(''sha256'', VStr ''ab'')])])]"

lemma sample_counts: "list_all event_counts_ok [sample_opened, sample_committed]"
  by code_simp

lemma sample_orders: "event_order sample_opened = 1" "event_order sample_committed = 2"
  by code_simp+

lemma replay_from_snapshot_witness:
  "\<exists>s1 s. fold_replay_state [sample_opened] ''t'' ''o'' 5 ''all'' None None None = Inr s1
    \<and> fold_replay_state [sample_opened, sample_committed] ''t'' ''o'' 5 ''all'' None None None = Inr s
    \<and> fold_replay_state [sample_committed] ''t'' ''o'' 5 ''all'' None (Some (base_of s1)) None = Inr s"
proof -
  obtain s1 where s1: "fold_replay_state [sample_opened] ''t'' ''o'' 5 ''all'' None None None = Inr s1"
    using fold_replay_state_returns [of "[sample_opened]" None] sample_counts by (force simp: base_ok_def)
  obtain s where
    s: "fold_replay_state [sample_opened, sample_committed] ''t'' ''o'' 5 ''all'' None None None = Inr s"
    using fold_replay_state_returns [OF sample_counts, of None] by (force simp: base_ok_def)
  have "\<forall>a \<in> set [sample_opened]. \<forall>b \<in> set [sample_committed]. event_order a \<le> event_order b"
    by (simp add: sample_orders)
  from replay_from_snapshot [OF this s1, of None] s s1 show ?thesis by auto
qed

section \<open>Delivery order\<close>

text \<open>
  C11. The fold is deterministic in the set of events: whatever order a reader delivers events
  with distinct ids in, the result is the same, checksums and exceptions included.
\<close>
theorem replay_order_independent:
  assumes "mset es = mset es'" and "inj_on event_order (set es)"
  shows "fold_replay_state es t org x p d base seed = fold_replay_state es' t org x p d base seed"
  by (simp add: fold_replay_state_def fold_core_def ordered_events_perm [OF assms])

lemma replay_order_independent_witness:
  "fold_replay_state [sample_opened, sample_committed] ''t'' ''o'' 5 ''all'' None None None
   = fold_replay_state [sample_committed, sample_opened] ''t'' ''o'' 5 ''all'' None None None"
proof (rule replay_order_independent)
  show "mset [sample_opened, sample_committed] = mset [sample_committed, sample_opened]" by simp
  show "inj_on event_order (set [sample_opened, sample_committed])"
    by (auto simp: inj_on_def sample_orders)
qed

section \<open>The invariant of the folded state\<close>

text \<open>
  C12. A replay that returns has a well-formed state (every table keyed by the identifier its rows
  carry, frame summaries taken from their references, loop outcomes and object payload references
  bounded by the events) and has counted each of its events once on top of its base.
\<close>
theorem replay_state_well_formed:
  assumes "fold_replay_state es t org x p d base seed = Inr s" and "base_ok base"
  shows "core_wf (rs_core s) \<and>
    rc_event_count (rs_core s)
      = (case base of None \<Rightarrow> 0 | Some b \<Rightarrow> rc_event_count (seed_core b)) + int (length es)"
proof -
  have f: "fold_core (rs_core (start_state t org x p d base seed)) es = Inr (rs_core s)"
    using assms(1) by (rule fold_replay_state_core)
  show ?thesis
    using fold_core_wf [OF f start_core_ok(1) [OF assms(2)]]
    by (auto simp: start_state_def initial_core_def split: option.splits)
qed

lemma replay_state_well_formed_witness:
  "\<exists>s. fold_replay_state [sample_opened, sample_committed] ''t'' ''o'' 5 ''all'' None None None = Inr s
    \<and> core_wf (rs_core s) \<and> rc_event_count (rs_core s) = 2"
proof -
  obtain s where
    s: "fold_replay_state [sample_opened, sample_committed] ''t'' ''o'' 5 ''all'' None None None = Inr s"
    using fold_replay_state_returns [OF sample_counts, of None] by (force simp: base_ok_def)
  from replay_state_well_formed [OF this] show ?thesis by (simp add: base_ok_def s)
qed

section \<open>Parity with live rows\<close>

lemma live_bundle_agrees:
  assumes wf: "core_wf (rs_core s)"
    and b: "replay_projection_checksum_bundle (state_dict s @ xs) = Inr b"
    and st: "mset stage_rows = mset (map (\<lambda>(k, r). enc_stage r) (rc_stages (rs_core s)))"
    and fr: "mset frame_rows = mset (map (\<lambda>(k, r). enc_frame r) (rc_frames (rs_core s)))"
    and cm: "mset command_rows = mset (map (\<lambda>(k, r). enc_command r) (rc_commands (rs_core s)))"
    and bo: "mset object_rows = mset (map (\<lambda>(k, r). enc_business r) (rc_business_objects (rs_core s)))"
    and lp: "mset loop_rows = mset (map (\<lambda>(k, r). enc_loop r) (rc_loops (rs_core s)))"
    and ids: "inj_on (\<lambda>k. sort_key_of (VStr k)) (set (map fst (rc_stages (rs_core s))))"
      "inj_on (\<lambda>k. sort_key_of (VStr k)) (set (map fst (rc_frames (rs_core s))))"
      "inj_on (\<lambda>k. sort_key_of (VStr k)) (set (map fst (rc_commands (rs_core s))))"
  shows "live_projection_checksum_bundle [state_dict s @ xs] stage_rows frame_rows command_rows
    object_rows loop_rows = Inr b"
proof -
  note w = wf [unfolded core_wf_def]
  obtain e1 e2 e3 e4 e5 e6 where e:
    "normalize_replayed_execution_projection (state_dict s @ xs) = Inr e1"
    "normalize_replayed_stage_projection (state_dict s @ xs) = Inr e2"
    "normalize_replayed_frame_projection (state_dict s @ xs) = Inr e3"
    "normalize_replayed_command_projection (state_dict s @ xs) = Inr e4"
    "normalize_replayed_business_object_projection (state_dict s @ xs) = Inr e5"
    "normalize_replayed_loop_projection (state_dict s @ xs) = Inr e6"
    using b unfolding replay_projection_checksum_bundle_def bundle_of_def checksum_of_def
    by (auto elim!: rbind_InrE)
  have l1: "normalize_live_execution_projection [state_dict s @ xs] = Inr e1"
    using e(1) by (auto simp: normalize_live_execution_projection_def
        normalize_replayed_execution_projection_def elim!: rbind_InrE)
  have l2: "normalize_live_stage_projection stage_rows = Inr e2"
    using stage_parity [OF _ st ids(1) e(2)] w by blast
  have l3: "normalize_live_frame_projection frame_rows = Inr e3"
    using frame_parity [OF _ fr ids(2) e(3)] w by blast
  have l4: "normalize_live_command_projection command_rows = Inr e4"
    using command_parity [OF _ cm ids(3) e(4)] w by blast
  have l5: "normalize_live_business_object_projection object_rows = Inr e5"
    using business_parity [OF _ bo e(5)] w by blast
  have l6: "normalize_live_loop_projection loop_rows = Inr e6"
    using loop_parity [OF _ lp e(6)] w by blast
  show ?thesis
    using b e l1 l2 l3 l4 l5 l6
    by (simp add: live_projection_checksum_bundle_def replay_projection_checksum_bundle_def)
qed

lemma parity_report_self:
  assumes "bundle_of a1 a2 a3 a4 a5 a6 = Inr b"
  shows "pr_matched (projection_checksum_parity_report b b)"
  using assms
  by (auto simp: bundle_of_def projection_checksum_parity_report_def
      projection_checksum_surfaces_def Let_def elim!: rbind_InrE)

text \<open>
  C13. Parity: live tables that hold the folded records, in whatever order the store returns
  their rows, have the projection checksums of the replayed state and the parity report matches.
  Stage, frame and command identifiers must not collide under the numeric reading the rows are
  sorted by (as "1" and "01" would).
\<close>
theorem live_rows_match_replay:
  assumes "fold_replay_state es t org x p d base seed = Inr s" and "base_ok base"
    and "mset stage_rows = mset (map (\<lambda>(k, r). enc_stage r) (rc_stages (rs_core s)))"
    and "mset frame_rows = mset (map (\<lambda>(k, r). enc_frame r) (rc_frames (rs_core s)))"
    and "mset command_rows = mset (map (\<lambda>(k, r). enc_command r) (rc_commands (rs_core s)))"
    and "mset object_rows = mset (map (\<lambda>(k, r). enc_business r) (rc_business_objects (rs_core s)))"
    and "mset loop_rows = mset (map (\<lambda>(k, r). enc_loop r) (rc_loops (rs_core s)))"
    and "inj_on (\<lambda>k. sort_key_of (VStr k)) (set (map fst (rc_stages (rs_core s))))"
    and "inj_on (\<lambda>k. sort_key_of (VStr k)) (set (map fst (rc_frames (rs_core s))))"
    and "inj_on (\<lambda>k. sort_key_of (VStr k)) (set (map fst (rc_commands (rs_core s))))"
  shows "\<exists>live. live_projection_checksum_bundle [state_dict s] stage_rows frame_rows command_rows
      object_rows loop_rows = Inr live \<and> live = rs_projection_checksums s \<and>
      pr_matched (projection_checksum_parity_report (rs_projection_checksums s) live)"
proof -
  have f: "fold_core (rs_core (start_state t org x p d base seed)) es = Inr (rs_core s)"
    using assms(1) by (rule fold_replay_state_core)
  have wf: "core_wf (rs_core s)"
    using fold_core_wf(1) [OF f start_core_ok(1) [OF assms(2)]] .
  obtain u where u: "finish_state u = Inr s"
    using assms(1) by (auto simp: fold_replay_state_def Let_def elim!: rbind_InrE)
  define c where "c = canonical_checksum (VDict (state_dict u))"
  let ?xs = "[(''checksum_algorithm'', VStr ''sha256''), (''checksum'', VStr c)]"
  have b: "replay_projection_checksum_bundle (state_dict u @ ?xs) = Inr (rs_projection_checksums s)"
    and d: "state_dict u = state_dict s" "same_projection u s"
    using u by (auto simp: finish_state_def Let_def c_def state_dict_def same_projection_def
        elim!: rbind_InrE)
  have same: "execution_row (state_dict s) = execution_row (state_dict s @ ?xs)"
    by (cases "rs_snapshot s")
      (simp_all add: execution_row_def state_dict_def core_items_def row_int_opt_def row_count_of_def)
  have "live_projection_checksum_bundle [state_dict s @ ?xs] stage_rows frame_rows command_rows
      object_rows loop_rows = Inr (rs_projection_checksums s)"
    by (rule live_bundle_agrees [OF wf]) (use b d assms(3-10) in simp_all)
  then have live: "live_projection_checksum_bundle [state_dict s] stage_rows frame_rows command_rows
      object_rows loop_rows = Inr (rs_projection_checksums s)"
    by (simp add: live_projection_checksum_bundle_def normalize_live_execution_projection_def same)
  moreover have "pr_matched (projection_checksum_parity_report (rs_projection_checksums s)
      (rs_projection_checksums s))"
    using live unfolding live_projection_checksum_bundle_def by (rule parity_report_self)
  ultimately show ?thesis by blast
qed

lemma sample_tables:
  "(case fold_core initial_core [sample_opened, sample_committed] of
      Inr c \<Rightarrow> (map fst (rc_stages c), map fst (rc_frames c), map fst (rc_commands c))
    | Inl _ \<Rightarrow> ([], [], [])) = ([''10''], [''7''], [])"
  by code_simp

lemma live_rows_match_replay_witness:
  "\<exists>s live. fold_replay_state [sample_opened, sample_committed] ''t'' ''o'' 5 ''all'' None None None = Inr s
    \<and> live_projection_checksum_bundle [state_dict s]
        (map (\<lambda>(k, r). enc_stage r) (rc_stages (rs_core s)))
        (rev (map (\<lambda>(k, r). enc_frame r) (rc_frames (rs_core s))))
        [] (map (\<lambda>(k, r). enc_business r) (rc_business_objects (rs_core s)))
        (rev (map (\<lambda>(k, r). enc_loop r) (rc_loops (rs_core s)))) = Inr live
    \<and> pr_matched (projection_checksum_parity_report (rs_projection_checksums s) live)"
proof -
  obtain s where
    s: "fold_replay_state [sample_opened, sample_committed] ''t'' ''o'' 5 ''all'' None None None = Inr s"
    using fold_replay_state_returns [OF sample_counts, of None] by (force simp: base_ok_def)
  have c: "fold_core initial_core [sample_opened, sample_committed] = Inr (rs_core s)"
    using fold_replay_state_core [OF s] by (simp add: start_state_def)
  have ids: "map fst (rc_stages (rs_core s)) = [''10'']" "map fst (rc_frames (rs_core s)) = [''7'']"
    "rc_commands (rs_core s) = []"
    using sample_tables by (simp_all add: c)
  have "\<exists>live. live_projection_checksum_bundle [state_dict s]
        (map (\<lambda>(k, r). enc_stage r) (rc_stages (rs_core s)))
        (rev (map (\<lambda>(k, r). enc_frame r) (rc_frames (rs_core s))))
        [] (map (\<lambda>(k, r). enc_business r) (rc_business_objects (rs_core s)))
        (rev (map (\<lambda>(k, r). enc_loop r) (rc_loops (rs_core s)))) = Inr live
    \<and> live = rs_projection_checksums s
    \<and> pr_matched (projection_checksum_parity_report (rs_projection_checksums s) live)"
    by (rule live_rows_match_replay [OF s]) (simp_all only: ids mset_rev base_ok_def; simp)+
  with s show ?thesis by blast
qed

section \<open>Totality\<close>

text \<open>
  C14. A replay whose events carry counts that are numbers (or nothing) always returns a state;
  in particular no order of events, missing field or unknown event type makes it raise.
\<close>
theorem fold_replay_state_total:
  assumes "list_all event_counts_ok events" and "base_ok base"
  shows "\<exists>s. fold_replay_state events t org x p d base seed = Inr s"
  using assms by (rule fold_replay_state_returns)

lemma fold_replay_state_total_witness:
  "\<exists>s. fold_replay_state [sample_opened, sample_committed] ''t'' ''o'' 5 ''all'' None None None = Inr s"
  by (rule fold_replay_state_total [OF sample_counts]) (simp add: base_ok_def)

end
