(* ===== verification/Upcasters.thy ===== *)
theory Upcasters
  imports Canonical_Json "HOL-Library.Product_Lexorder"
begin

text \<open>
  The schema upcaster registry of \<^verbatim>\<open>src/noetl/core/replay/upcasters.py\<close>. An upcaster is code
  registered by a client and is a parameter: a function from event dictionaries to event
  dictionaries that may raise. \<open>upcast_event\<close> runs the source's \<open>while True\<close> loop on fuel, and
  \<open>None\<close> is a loop that has not ended yet. Lemmas and properties: the loop ends within the number
  of registered upcasters when these keep the schema name, what it returns is at a version no
  upcaster is registered for, upcasting is idempotent, and a cycle through two schemas never
  ends because the guard compares versions of the same schema only.
\<close>

type_synonym upcaster = "pydict \<Rightarrow> pydict res"

type_synonym upcaster_registry = "((string \<times> int) \<times> upcaster) list"

definition schema_version_of :: "pyval \<Rightarrow> int res" where
  "schema_version_of v =
     (if v = VNone then Inr 1
      else case py_int v of
        Inl _ \<Rightarrow> Inl (ValueError ''invalid schema_version'')
      | Inr i \<Rightarrow> (if i < 1 then Inl (ValueError ''schema_version must be >= 1'') else Inr i))"

definition register_upcaster ::
  "upcaster_registry \<Rightarrow> string \<Rightarrow> int \<Rightarrow> upcaster \<Rightarrow> upcaster_registry res" where
  "register_upcaster reg schema_name from_version up =
     (if schema_name = [] then Inl (ValueError ''schema_name is required'')
      else if from_version < 1 then Inl (ValueError ''from_version must be >= 1'')
      else if map_of reg (schema_name, from_version) \<noteq> None
        then Inl (ValueError ''upcaster already registered'')
      else Inr (AList.update (schema_name, from_version) up reg))"

fun upcast_loop ::
  "nat \<Rightarrow> upcaster_registry \<Rightarrow> pydict \<Rightarrow> string \<Rightarrow> int \<Rightarrow> pydict res option" where
  "upcast_loop 0 reg current schema_name version = None"
| "upcast_loop (Suc fuel) reg current schema_name version =
     (case map_of reg (schema_name, version) of
        None \<Rightarrow> Some (Inr (AList.update ''schema_version'' (VInt version)
                  (AList.update ''schema_name'' (VStr schema_name) current)))
      | Some up \<Rightarrow>
          (case up current of
             Inl e \<Rightarrow> Some (Inl e)
           | Inr updated \<Rightarrow>
               (let next_schema_name = py_str (py_or (py_get updated ''schema_name'') (VStr schema_name))
                in (case schema_version_of (py_get updated ''schema_version'') of
                      Inl e \<Rightarrow> Some (Inl e)
                    | Inr next_version \<Rightarrow>
                        (if next_schema_name = schema_name \<and> next_version \<le> version
                         then Some (Inl (ValueError ''upcaster did not advance schema_version''))
                         else upcast_loop fuel reg updated next_schema_name next_version)))))"

definition upcast_event :: "nat \<Rightarrow> upcaster_registry \<Rightarrow> pydict \<Rightarrow> pydict res option" where
  "upcast_event fuel reg event =
     (let schema_name = py_str (py_or (py_get event ''schema_name'') (VStr ''noetl.event''))
      in (case schema_version_of (py_get event ''schema_version'') of
            Inl e \<Rightarrow> Some (Inl e)
          | Inr version \<Rightarrow> upcast_loop fuel reg event schema_name version))"

text \<open>The list comprehension: the first exception ends it.\<close>

fun upcast_events :: "nat \<Rightarrow> upcaster_registry \<Rightarrow> pydict list \<Rightarrow> pydict list res option" where
  "upcast_events fuel reg [] = Some (Inr [])"
| "upcast_events fuel reg (ev # evs) =
     (case upcast_event fuel reg ev of
        None \<Rightarrow> None
      | Some (Inl e) \<Rightarrow> Some (Inl e)
      | Some (Inr ev') \<Rightarrow>
          map_option (\<lambda>r. rbind r (\<lambda>evs'. Inr (ev' # evs'))) (upcast_events fuel reg evs))"

definition registry_digest :: "upcaster_registry \<Rightarrow> string" where
  "registry_digest reg =
     canonical_checksum (VList (map (\<lambda>(schema_name, from_version).
         VDict [(''schema_name'', VStr schema_name), (''from_version'', VInt from_version)])
       (sort (map fst reg))))"

section \<open>Registration\<close>

definition registry_wf :: "upcaster_registry \<Rightarrow> bool" where
  "registry_wf reg = (dict_wf reg \<and> list_all (\<lambda>((s, v), _). s \<noteq> [] \<and> 1 \<le> v) reg)"

lemma schema_version_pos: "schema_version_of v = Inr i \<Longrightarrow> 1 \<le> i"
  by (auto simp: schema_version_of_def split: if_splits sum.splits)

lemma schema_version_VInt [simp]: "1 \<le> i \<Longrightarrow> schema_version_of (VInt i) = Inr i"
  by (simp add: schema_version_of_def)

lemma register_upcaster_Inr:
  assumes "register_upcaster reg s v up = Inr reg'"
  shows "reg' = reg @ [((s, v), up)]" and "s \<noteq> []" and "1 \<le> v" and "map_of reg (s, v) = None"
  using assms by (auto simp: register_upcaster_def update_absent split: if_splits)

section \<open>Ending\<close>

text \<open>What a well-behaved client registers: upcasters that do not rename the schema.\<close>

definition keeps_schema :: "upcaster_registry \<Rightarrow> bool" where
  "keeps_schema reg = (\<forall>((s, v), up) \<in> set reg. \<forall>ev ev'. up ev = Inr ev' \<longrightarrow>
     py_str (py_or (py_get ev' ''schema_name'') (VStr s)) = s)"

definition pending :: "upcaster_registry \<Rightarrow> string \<Rightarrow> int \<Rightarrow> nat" where
  "pending reg s v = length (filter (\<lambda>((s', v'), _). s' = s \<and> v \<le> v') reg)"

lemma pending_advance:
  assumes "map_of reg (s, v) = Some up" and "v < v'"
  shows "pending reg s v' < pending reg s v"
proof -
  let ?P = "\<lambda>((s', w), _ :: upcaster). s' = s \<and> v \<le> w"
  let ?Q = "\<lambda>((s', w), _ :: upcaster). s' = s \<and> v' \<le> w"
  have "length (filter ?Q (filter ?P reg)) < length (filter ?P reg)"
    using assms by (intro length_filter_less [of "((s, v), up)"]) (auto dest: map_of_SomeD)
  moreover have "filter ?Q (filter ?P reg) = filter ?Q reg"
    using assms(2) by (auto intro!: filter_cong)
  ultimately show ?thesis by (simp add: pending_def)
qed

lemma upcast_loop_ends:
  assumes "keeps_schema reg" and "pending reg s v < fuel"
  shows "\<exists>r. upcast_loop fuel reg cur s v = Some r"
  using assms(2)
proof (induction fuel arbitrary: cur v)
  case (Suc fuel)
  show ?case
  proof (cases "map_of reg (s, v)")
    case (Some up)
    show ?thesis
    proof (cases "up cur")
      case (Inr updated)
      have s: "py_str (py_or (py_get updated ''schema_name'') (VStr s)) = s"
        using assms(1) map_of_SomeD [OF Some] Inr by (fastforce simp: keeps_schema_def)
      show ?thesis
      proof (cases "schema_version_of (py_get updated ''schema_version'')")
        case (Inr v')
        show ?thesis
        proof (cases "v' \<le> v")
          case False
          then have "pending reg s v' < fuel" using pending_advance [OF Some, of v'] Suc.prems by simp
          from Suc.IH [OF this] show ?thesis using Some \<open>up cur = _\<close> Inr s False by (simp add: Let_def)
        qed (use Some \<open>up cur = _\<close> Inr s in \<open>simp add: Let_def\<close>)
      qed (use Some Inr in \<open>simp add: Let_def\<close>)
    qed (use Some in simp)
  qed simp
qed simp

lemma upcast_loop_more_fuel:
  "upcast_loop fuel reg cur s v = Some r \<Longrightarrow> fuel \<le> fuel' \<Longrightarrow> upcast_loop fuel' reg cur s v = Some r"
proof (induction fuel arbitrary: cur s v fuel')
  case (Suc fuel)
  then obtain k where "fuel' = Suc k" "fuel \<le> k" by (cases fuel') auto
  with Suc.prems Suc.IH [of _ _ _ k] show ?case
    by (auto simp: Let_def split: option.splits sum.splits if_splits)
qed simp

section \<open>What comes out\<close>

lemma upcast_loop_result:
  assumes "upcast_loop fuel reg cur s v = Some (Inr ev)" and "1 \<le> v"
  shows "\<exists>s' v'. 1 \<le> v' \<and> map_of reg (s', v') = None \<and>
    py_get ev ''schema_name'' = VStr s' \<and> py_get ev ''schema_version'' = VInt v'"
  using assms
proof (induction fuel arbitrary: cur s v)
  case (Suc fuel)
  show ?case
  proof (cases "map_of reg (s, v)")
    case None
    with Suc.prems show ?thesis by (auto simp: py_get_def)
  next
    case (Some up)
    with Suc.prems show ?thesis
      by (auto simp: Let_def split: sum.splits if_splits intro!: Suc.IH dest: schema_version_pos)
  qed
qed simp

lemma upcast_event_result:
  assumes "upcast_event fuel reg event = Some (Inr ev)"
  shows "\<exists>s v. 1 \<le> v \<and> map_of reg (s, v) = None \<and>
    py_get ev ''schema_name'' = VStr s \<and> py_get ev ''schema_version'' = VInt v"
  using assms upcast_loop_result schema_version_pos
  by (auto simp: upcast_event_def Let_def split: sum.splits)

lemma py_get_current: "py_get d k = v \<Longrightarrow> v \<noteq> VNone \<Longrightarrow> AList.update k v d = d"
  by (auto simp: py_get_def split: option.splits intro: update_current)

lemma upcast_loop_schema_nonempty:
  assumes "upcast_loop fuel reg cur s v = Some (Inr ev)" and "s \<noteq> []"
  shows "py_get ev ''schema_name'' \<noteq> VStr []"
  using assms
proof (induction fuel arbitrary: cur s v)
  case (Suc fuel)
  show ?case
  proof (cases "map_of reg (s, v)")
    case None
    with Suc.prems show ?thesis by (auto simp: py_get_def)
  next
    case (Some up)
    have "py_str (py_or x (VStr s)) \<noteq> []" for x
      using Suc.prems(2) by (simp add: py_str_truthy_nonempty)
    with Suc.prems Some show ?thesis
      by (auto simp: Let_def split: sum.splits if_splits dest: Suc.IH)
  qed
qed simp

lemma upcast_loop_current:
  assumes "map_of reg (s, v) = None"
    and "py_get ev ''schema_name'' = VStr s" and "py_get ev ''schema_version'' = VInt v"
  shows "upcast_loop (Suc n) reg ev s v = Some (Inr ev)"
  using assms by (simp add: py_get_current)

section \<open>Properties\<close>

text \<open>
  Upcasting an event ends: with upcasters that keep the schema name the loop takes at most
  one turn for each registered upcaster, so fuel beyond their number always gives a result.
\<close>
lemma upcast_event_ends:
  assumes "keeps_schema reg" and "length reg < fuel"
  shows "\<exists>r. upcast_event fuel reg event = Some r"
proof -
  have "pending reg s v < fuel" for s v
    using assms(2) length_filter_le unfolding pending_def by (rule le_less_trans [rotated])
  then show ?thesis
    using upcast_loop_ends [OF assms(1)] by (auto simp: upcast_event_def Let_def split: sum.split)
qed

definition sample_registry :: upcaster_registry where
  "sample_registry = [((''noetl.event'', 1), \<lambda>ev. Inr [(''schema_version'', VInt 2), (''x'', py_get ev ''x'')])]"

lemma sample_registry_keeps: "keeps_schema sample_registry"
  by (auto simp: keeps_schema_def sample_registry_def py_or_def)

lemma upcast_event_ends_witness:
  "\<exists>r. upcast_event 2 sample_registry [(''x'', VInt 5)] = Some r"
  using upcast_event_ends [OF sample_registry_keeps, of 2] by (simp add: sample_registry_def)

text \<open>
  Upcasting is idempotent: an upcast event is at a version of its schema no upcaster is
  registered for, so upcasting it again, with any fuel, returns it unchanged.
\<close>
lemma upcast_event_idempotent:
  assumes "upcast_event fuel reg event = Some (Inr ev)"
  shows "upcast_event (Suc n) reg ev = Some (Inr ev)"
proof -
  obtain s v where sv: "1 \<le> v" "map_of reg (s, v) = None"
    "py_get ev ''schema_name'' = VStr s" "py_get ev ''schema_version'' = VInt v"
    using upcast_event_result [OF assms] by blast
  obtain w where "upcast_loop fuel reg event
      (py_str (py_or (py_get event ''schema_name'') (VStr ''noetl.event''))) w = Some (Inr ev)"
    using assms by (auto simp: upcast_event_def Let_def split: sum.splits)
  then have "py_get ev ''schema_name'' \<noteq> VStr []"
    by (rule upcast_loop_schema_nonempty) (simp add: py_str_truthy_nonempty)
  then have "py_str (py_or (VStr s) (VStr ''noetl.event'')) = s"
    using sv(3) by (simp add: py_or_def)
  then show ?thesis using upcast_loop_current [OF sv(2-4)] sv by (simp add: upcast_event_def Let_def)
qed

lemma upcast_event_idempotent_witness:
  "upcast_event 2 sample_registry [(''x'', VInt 5)]
     = Some (Inr [(''schema_version'', VInt 2), (''x'', VInt 5), (''schema_name'', VStr ''noetl.event'')])
   \<and> upcast_event 1 sample_registry
       [(''schema_version'', VInt 2), (''x'', VInt 5), (''schema_name'', VStr ''noetl.event'')]
     = Some (Inr [(''schema_version'', VInt 2), (''x'', VInt 5), (''schema_name'', VStr ''noetl.event'')])"
proof -
  have up: "upcast_event 2 sample_registry [(''x'', VInt 5)]
     = Some (Inr [(''schema_version'', VInt 2), (''x'', VInt 5), (''schema_name'', VStr ''noetl.event'')])"
    by code_simp
  from upcast_event_idempotent [OF up, of 0] up show ?thesis by simp
qed

text \<open>Two upcasters that hand an event back and forth between schemas.\<close>

definition cyclic_registry :: upcaster_registry where
  "cyclic_registry =
     [((''a'', 1), \<lambda>ev. Inr (AList.update ''schema_name'' (VStr ''b'') ev)),
      ((''b'', 1), \<lambda>ev. Inr (AList.update ''schema_name'' (VStr ''a'') ev))]"

lemma cyclic_loop: "py_get cur ''schema_version'' = VInt 1 \<Longrightarrow> s = ''a'' \<or> s = ''b'' \<Longrightarrow>
    upcast_loop fuel cyclic_registry cur s 1 = None"
proof (induction fuel arbitrary: cur s)
  case (Suc fuel)
  have "py_get (AList.update ''schema_name'' w cur) ''schema_version'' = VInt 1" for w
    using Suc.prems(1) by (simp add: py_get_def)
  moreover have "py_get (AList.update ''schema_name'' w cur) ''schema_name'' = w" for w
    by (simp add: py_get_def)
  ultimately show ?case
    using Suc.prems(2) Suc.IH by (auto simp: cyclic_registry_def Let_def py_or_def)
qed simp

text \<open>
  The guard against upcasters that do not advance compares versions within one schema only:
  two upcasters that hand an event back and forth between two schemas keep \<open>upcast_event\<close>
  looping, whatever the fuel.
\<close>
lemma upcast_schema_cycle_diverges:
  "upcast_event fuel cyclic_registry
     [(''schema_name'', VStr ''a''), (''schema_version'', VInt 1)] = None"
  by (simp add: upcast_event_def py_or_def cyclic_loop)

text \<open>
  The registry digest that guards replay snapshots depends on the registered
  (schema, version) keys alone, not on the order of registration.
\<close>
lemma registry_digest_order:
  assumes "mset (map fst reg) = mset (map fst reg')"
  shows "registry_digest reg = registry_digest reg'"
proof -
  have "sort (map fst reg) = sort (map fst reg')"
    using assms by (metis mset_sort properties_for_sort sorted_sort)
  then show ?thesis by (simp add: registry_digest_def)
qed

lemma registry_digest_order_witness:
  "registry_digest [((''a'', 1), Inr), ((''b'', 2), Inr)]
   = registry_digest [((''b'', 2), \<lambda>_. Inr []), ((''a'', 1), Inr)]"
  by (rule registry_digest_order) simp

end
