(* ===== verification/Replay_Reader.thy ===== *)
theory Replay_Reader
  imports Replay_Theorems Upcasters
begin

text \<open>
  Reading replay inputs and the replay service: the Postgres reader of
  \<^verbatim>\<open>src/noetl/server/api/replay/event_reader.py\<close> over an explicit table (its columns and its
  rows), the snapshot seed, and \<open>ReplayService.replay_state\<close>. What the service needs from a
  reader is the locale \<open>replay_reader\<close>; the Postgres reader is an interpretation of it. The main
  lemma, proved in the locale, is that a compatible snapshot of the events up to its version
  leaves the replayed state unchanged.
\<close>

section \<open>Cutoffs\<close>

record replay_cutoff =
  co_event_id :: "int option"
  co_position :: "int option"
  co_time :: "int option"

text \<open>\<open>cutoff.as_of_event_id or cutoff.as_of_position\<close>: zero counts as absent.\<close>

definition cutoff_event_id :: "replay_cutoff \<Rightarrow> int option" where
  "cutoff_event_id c =
     (case co_event_id c of
        Some i \<Rightarrow> (if i \<noteq> 0 then Some i else co_position c)
      | None \<Rightarrow> co_position c)"

text \<open>The endpoint's guard: at most one cutoff is given.\<close>

definition cutoff_ok :: "replay_cutoff \<Rightarrow> bool" where
  "cutoff_ok c =
     (length (filter (\<lambda>b. b) [co_event_id c \<noteq> None, co_position c \<noteq> None, co_time c \<noteq> None]) \<le> 1)"

section \<open>The event table\<close>

text \<open>
  A row is its event id (the not-null key column) and its other cells; a null cell is \<open>VNone\<close>,
  and a comparison with it is not true.
\<close>

record event_row =
  er_event_id :: int
  er_cells :: pydict

record event_table =
  et_columns :: "string list"
  et_rows :: "event_row list"

record replay_scope =
  sc_table :: event_table
  sc_tenant_id :: string
  sc_organization_id :: string
  sc_execution_id :: int

definition envelope_columns :: "string list" where
  "envelope_columns = [''tenant_id'', ''organization_id'', ''stream_id'', ''stream_version'',
     ''aggregate_id'', ''aggregate_type'', ''schema_name'', ''schema_version'', ''event_time'',
     ''ingest_time'', ''producer'', ''causation_id'', ''correlation_id'', ''idempotency_key'',
     ''payload_ref'', ''stage_id'', ''frame_id'', ''command_id'', ''envelope_checksum'']"

definition cell_le :: "pydict \<Rightarrow> string \<Rightarrow> int \<Rightarrow> bool" where
  "cell_le cells k bound = (case py_get cells k of VInt i \<Rightarrow> i \<le> bound | _ \<Rightarrow> False)"

definition time_column :: "string list \<Rightarrow> string" where
  "time_column columns = (if ''event_time'' \<in> set columns then ''event_time'' else ''created_at'')"

text \<open>A table without the tenancy columns serves the default tenant only.\<close>

definition scope_served :: "replay_scope \<Rightarrow> bool" where
  "scope_served s =
     ((''tenant_id'' \<in> set (et_columns (sc_table s)) \<or> sc_tenant_id s = ''default'') \<and>
      (''organization_id'' \<in> set (et_columns (sc_table s)) \<or> sc_organization_id s = ''default''))"

definition row_in_scope :: "replay_scope \<Rightarrow> event_row \<Rightarrow> bool" where
  "row_in_scope s r =
     (let cols = et_columns (sc_table s); cells = er_cells r in
      py_get cells ''execution_id'' = VInt (sc_execution_id s) \<and>
      (''tenant_id'' \<in> set cols \<longrightarrow> py_get cells ''tenant_id'' = VStr (sc_tenant_id s)) \<and>
      (''organization_id'' \<in> set cols \<longrightarrow>
         py_get cells ''organization_id'' = VStr (sc_organization_id s)))"

definition row_before :: "replay_scope \<Rightarrow> replay_cutoff \<Rightarrow> event_row \<Rightarrow> bool" where
  "row_before s c r =
     ((case cutoff_event_id c of None \<Rightarrow> True | Some i \<Rightarrow> er_event_id r \<le> i) \<and>
      (case co_time c of None \<Rightarrow> True
       | Some t \<Rightarrow> cell_le (er_cells r) (time_column (et_columns (sc_table s))) t))"

definition select_row :: "string list \<Rightarrow> event_row \<Rightarrow> pydict" where
  "select_row columns r =
     (''event_id'', VInt (er_event_id r))
     # map (\<lambda>k. (k, py_get (er_cells r) k))
         ([''event_type'', ''status'', ''node_name'', ''result'', ''meta'']
          @ filter (\<lambda>k. k \<in> set columns) envelope_columns)"

definition event_defaults :: "replay_scope \<Rightarrow> pydict \<Rightarrow> pydict" where
  "event_defaults s ev =
     foldl (\<lambda>d k. dict_setdefault k VNone d)
       (dict_setdefault ''organization_id'' (VStr (sc_organization_id s))
         (dict_setdefault ''tenant_id'' (VStr (sc_tenant_id s)) ev))
       envelope_columns"

definition pg_load_events ::
  "replay_scope \<Rightarrow> replay_cutoff \<Rightarrow> nat \<Rightarrow> int option \<Rightarrow> pydict list" where
  "pg_load_events s c limit after =
     (if \<not> scope_served s then []
      else map (\<lambda>r. event_defaults s (select_row (et_columns (sc_table s)) r))
        (take limit (sort_key er_event_id
          (filter (\<lambda>r. row_in_scope s r \<and> (case after of None \<Rightarrow> True | Some a \<Rightarrow> a < er_event_id r) \<and>
             row_before s c r) (et_rows (sc_table s))))))"

section \<open>Snapshot seeds\<close>

text \<open>
  A row of \<open>noetl.projection_snapshot\<close>. The stored snapshot is a replayed state, or \<open>None\<close> when
  the column holds no dictionary or an empty one.
\<close>

record snapshot_row =
  sn_tenant_id :: string
  sn_organization_id :: string
  sn_aggregate_type :: string
  sn_aggregate_id :: string
  sn_version :: int
  sn_snapshot :: "replay_state option"
  sn_checksum :: string
  sn_meta :: pydict

definition time_cutoff_event_id :: "replay_scope \<Rightarrow> replay_cutoff \<Rightarrow> int option" where
  "time_cutoff_event_id s c =
     (case co_time c of
        None \<Rightarrow> None
      | Some t \<Rightarrow>
          (if \<not> scope_served s then None
           else (let ids = map er_event_id (filter (\<lambda>r. row_in_scope s r \<and>
                   cell_le (er_cells r) (time_column (et_columns (sc_table s))) t) (et_rows (sc_table s)))
                 in if ids = [] then None else Some (fold max ids (hd ids)))))"

definition seed_aggregate_id :: "int \<Rightarrow> string \<Rightarrow> string" where
  "seed_aggregate_id execution_id projection = ''execution/'' @ show_int execution_id @ ''/'' @ projection"

definition pg_load_snapshot_seed ::
  "snapshot_row list \<Rightarrow> replay_scope \<Rightarrow> string \<Rightarrow> replay_cutoff \<Rightarrow> snapshot_row option" where
  "pg_load_snapshot_seed snapshots s projection c =
     (if co_time c \<noteq> None \<and> time_cutoff_event_id s c = None then None
      else (case sort_key (\<lambda>r. - sn_version r) (filter (\<lambda>r.
               sn_tenant_id r = sc_tenant_id s \<and> sn_organization_id r = sc_organization_id s \<and>
               sn_aggregate_type r = ''replay_state'' \<and>
               sn_aggregate_id r = seed_aggregate_id (sc_execution_id s) projection \<and>
               (case cutoff_event_id c of None \<Rightarrow> True | Some i \<Rightarrow> sn_version r \<le> i) \<and>
               (case time_cutoff_event_id s c of None \<Rightarrow> True | Some i \<Rightarrow> sn_version r \<le> i)) snapshots)
            of [] \<Rightarrow> None | r # _ \<Rightarrow> Some r))"

definition replay_snapshot_upcaster_registry_digest :: "snapshot_row option \<Rightarrow> string option" where
  "replay_snapshot_upcaster_registry_digest seed =
     (case seed of
        None \<Rightarrow> None
      | Some r \<Rightarrow>
          (case Option.bind (sn_snapshot r) rs_digest of
             Some d \<Rightarrow> Some d
           | None \<Rightarrow> str_opt (py_get (sn_meta r) ''upcaster_registry_digest'')))"

definition replay_snapshot_is_compatible :: "snapshot_row option \<Rightarrow> string \<Rightarrow> bool" where
  "replay_snapshot_is_compatible seed digest =
     (seed \<noteq> None \<and> replay_snapshot_upcaster_registry_digest seed = Some digest)"

definition seed_info :: "snapshot_row \<Rightarrow> snapshot_info" where
  "seed_info r = \<lparr>si_aggregate_id = sn_aggregate_id r, si_aggregate_type = sn_aggregate_type r,
     si_version = sn_version r, si_checksum = sn_checksum r, si_meta = sn_meta r\<rparr>"

section \<open>The service\<close>

text \<open>
  \<open>ReplayService.replay_state\<close> without payload resolution: \<open>load\<close> is the reader's
  \<open>load_events\<close> for the requested scope, cutoff and limit, the seed is what its
  \<open>load_snapshot_seed\<close> returned, and the outer \<open>None\<close> is an upcaster loop still running.
\<close>

definition service_replay_state ::
  "nat \<Rightarrow> upcaster_registry \<Rightarrow> (int option \<Rightarrow> pydict list) \<Rightarrow> snapshot_row option \<Rightarrow>
   replay_scope \<Rightarrow> string \<Rightarrow> replay_state res option" where
  "service_replay_state fuel reg load seed0 s projection =
     (let digest = registry_digest reg;
          seed = (if replay_snapshot_is_compatible seed0 digest then seed0 else None)
      in (case upcast_events fuel reg (load (map_option sn_version seed)) of
            None \<Rightarrow> None
          | Some r \<Rightarrow> Some (rbind r (\<lambda>events.
              fold_replay_state events (sc_tenant_id s) (sc_organization_id s) (sc_execution_id s)
                projection (Some digest)
                (Option.bind seed (\<lambda>r. map_option base_of (sn_snapshot r)))
                (map_option seed_info seed)))))"

section \<open>What the service needs from a reader\<close>

locale replay_reader =
  fixes load :: "'s \<Rightarrow> replay_cutoff \<Rightarrow> nat \<Rightarrow> int option \<Rightarrow> pydict list"
    and log :: "'s \<Rightarrow> replay_cutoff \<Rightarrow> pydict list"
  assumes log_sorted: "sorted (map event_order (log s c))"
    and load_all: "load s c n None = take n (log s c)"
    and load_after: "load s c n (Some v) = take n (filter (\<lambda>e. v < event_order e) (log s c))"
begin

definition up_to :: "'s \<Rightarrow> replay_cutoff \<Rightarrow> int \<Rightarrow> pydict list" where
  "up_to s c v = filter (\<lambda>e. event_order e \<le> v) (log s c)"

lemma sorted_split: "sorted (map event_order es) \<Longrightarrow>
    es = filter (\<lambda>e. event_order e \<le> v) es @ filter (\<lambda>e. v < event_order e) es"
proof (induction es)
  case (Cons e es)
  show ?case
  proof (cases "event_order e \<le> v")
    case True
    with Cons show ?thesis by simp
  next
    case False
    then have "filter (\<lambda>e. event_order e \<le> v) es = []" and "filter (\<lambda>e. v < event_order e) es = es"
      using Cons.prems by (auto simp: filter_empty_conv filter_id_conv)
    with False show ?thesis by simp
  qed
qed simp

lemma load_split:
  assumes "length (log s c) \<le> n"
  shows "load s c n None = up_to s c v @ load s c n (Some v)"
proof -
  have "length (filter (\<lambda>e. v < event_order e) (log s c)) \<le> n"
    using assms length_filter_le [of _ "log s c"] le_trans by blast
  then show ?thesis
    using assms sorted_split [OF log_sorted, of s c v] by (simp add: load_all load_after up_to_def)
qed

lemma load_after_greater: "e \<in> set (load s c n (Some v)) \<Longrightarrow> v < event_order e"
  using set_take_subset by (fastforce simp: load_after)

end

lemma event_order_defaults [simp]:
  "event_order (event_defaults s (select_row cols r)) = er_event_id r"
proof -
  have keep: "py_get (dict_setdefault k v d) ''event_id'' = py_get d ''event_id''"
    if "py_get d ''event_id'' \<noteq> VNone" for k v d
    using that by (auto simp: py_get_def map_of_setdefault split: option.splits)
  have "py_get (foldl (\<lambda>d k. dict_setdefault k VNone d) d ks) ''event_id'' = py_get d ''event_id''"
    if "py_get d ''event_id'' \<noteq> VNone" for ks d
    using that by (induction ks arbitrary: d) (simp_all add: keep)
  then have "py_get (event_defaults s (select_row cols r)) ''event_id'' = VInt (er_event_id r)"
    by (simp add: event_defaults_def keep select_row_def)
  then show ?thesis by (simp add: event_order_def event_id_of_def)
qed

definition pg_log :: "replay_scope \<Rightarrow> replay_cutoff \<Rightarrow> pydict list" where
  "pg_log s c =
     (if \<not> scope_served s then []
      else map (\<lambda>r. event_defaults s (select_row (et_columns (sc_table s)) r))
        (sort_key er_event_id (filter (\<lambda>r. row_in_scope s r \<and> row_before s c r) (et_rows (sc_table s)))))"

interpretation pg: replay_reader pg_load_events pg_log
proof
  fix s c n and v :: int
  show "sorted (map event_order (pg_log s c))"
    by (simp add: pg_log_def o_def)
  show "pg_load_events s c n None = take n (pg_log s c)"
    by (simp add: pg_load_events_def pg_log_def take_map)
  have "filter (\<lambda>e. v < event_order e) (pg_log s c)
      = (if \<not> scope_served s then [] else
         map (\<lambda>r. event_defaults s (select_row (et_columns (sc_table s)) r))
           (filter (\<lambda>r. v < er_event_id r) (sort_key er_event_id
             (filter (\<lambda>r. row_in_scope s r \<and> row_before s c r) (et_rows (sc_table s))))))"
    by (simp add: pg_log_def filter_map o_def)
  then show "pg_load_events s c n (Some v) = take n (filter (\<lambda>e. v < event_order e) (pg_log s c))"
    by (simp add: pg_load_events_def filter_sort take_map conj_ac)
qed

section \<open>Upcasting a log in two parts\<close>

lemma upcast_events_append:
  "upcast_events fuel reg (xs @ ys) =
     (case upcast_events fuel reg xs of
        None \<Rightarrow> None
      | Some (Inl e) \<Rightarrow> Some (Inl e)
      | Some (Inr us) \<Rightarrow> map_option (\<lambda>r. rbind r (\<lambda>vs. Inr (us @ vs))) (upcast_events fuel reg ys))"
proof (induction xs)
  case Nil
  show ?case
    by (cases "upcast_events fuel reg ys"; simp; case_tac a; simp)
next
  case (Cons x xs)
  show ?case
    using Cons by (cases "upcast_events fuel reg ys")
      (auto simp: rbind_def split: option.splits sum.splits)
qed

lemma upcast_events_members:
  "upcast_events fuel reg xs = Some (Inr us) \<Longrightarrow> u \<in> set us \<Longrightarrow>
   \<exists>x \<in> set xs. upcast_event fuel reg x = Some (Inr u)"
  by (induction xs arbitrary: us) (auto split: option.splits sum.splits elim!: rbind_InrE)

definition keeps_event_id :: "upcaster_registry \<Rightarrow> bool" where
  "keeps_event_id reg = (\<forall>fuel ev ev'. upcast_event fuel reg ev = Some (Inr ev') \<longrightarrow>
     event_order ev' = event_order ev)"

section \<open>Properties\<close>

lemma pg_load_events_member:
  assumes "ev \<in> set (pg_load_events s c limit after)"
  shows "\<exists>r \<in> set (et_rows (sc_table s)). row_in_scope s r \<and> row_before s c r \<and>
    event_order ev = er_event_id r \<and> (\<forall>a. after = Some a \<longrightarrow> a < er_event_id r)"
  using assms
  by (auto simp: pg_load_events_def dest!: in_set_takeD split: if_splits option.splits) blast+

lemma service_no_seed:
  "service_replay_state fuel reg load None s projection =
     (case upcast_events fuel reg (load None) of
        None \<Rightarrow> None
      | Some r \<Rightarrow> Some (rbind r (\<lambda>events.
          fold_replay_state events (sc_tenant_id s) (sc_organization_id s) (sc_execution_id s)
            projection (Some (registry_digest reg)) None None)))"
  by (simp add: service_replay_state_def replay_snapshot_is_compatible_def cong: option.case_cong)

lemma fold_replay_state_digest:
  "fold_replay_state es t org x p d base seed = Inr s \<Longrightarrow> rs_digest s = d"
  by (auto simp: fold_replay_state_def finish_state_def start_state_def Let_def elim!: rbind_InrE)

text \<open>
  C16. Replaying from the Postgres reader with a snapshot seed gives the tables, counters and
  projection checksums of replaying without one, exceptions included: when the snapshot stores
  the state the service itself folds from the events up to the snapshot's version under the same
  registry, upcasters keep event ids, and the limit covers the log.
\<close>
theorem snapshot_seed_is_accelerator:
  assumes "length (pg_log s c) \<le> limit" and "keeps_event_id reg"
    and "upcast_events fuel reg (filter (\<lambda>e. event_order e \<le> sn_version snap) (pg_log s c)) = Some (Inr old)"
    and "fold_replay_state old (sc_tenant_id s) (sc_organization_id s) (sc_execution_id s) projection
           (Some (registry_digest reg)) None None = Inr s1"
    and "sn_snapshot snap = Some s1"
  shows "map_option (\<lambda>r. rbind r (\<lambda>s. Inr (state_view s)))
           (service_replay_state fuel reg (pg_load_events s c limit) (Some snap) s projection)
       = map_option (\<lambda>r. rbind r (\<lambda>s. Inr (state_view s)))
           (service_replay_state fuel reg (pg_load_events s c limit) None s projection)"
proof -
  let ?v = "sn_version snap" and ?new = "pg_load_events s c limit (Some (sn_version snap))"
  let ?view = "\<lambda>r. rbind r (\<lambda>s. Inr (state_view s))"
  have compat: "replay_snapshot_is_compatible (Some snap) (registry_digest reg)"
    using fold_replay_state_digest [OF assms(4)] assms(5)
    by (simp add: replay_snapshot_is_compatible_def replay_snapshot_upcaster_registry_digest_def)
  have all: "pg_load_events s c limit None = pg.up_to s c ?v @ ?new"
    using assms(1) by (rule pg.load_split)
  have up: "upcast_events fuel reg (pg_load_events s c limit None)
      = map_option (\<lambda>r. rbind r (\<lambda>vs. Inr (old @ vs))) (upcast_events fuel reg ?new)"
    unfolding all upcast_events_append using assms(3) by (simp add: pg.up_to_def)
  have ord: "event_order a \<le> event_order b"
    if a: "a \<in> set old" and b: "b \<in> set vs" and vs: "upcast_events fuel reg ?new = Some (Inr vs)" for a b vs
  proof -
    have "event_order a \<le> ?v"
      using upcast_events_members [OF assms(3) a] assms(2) by (auto simp: keeps_event_id_def)
    moreover obtain y where "y \<in> set ?new" "upcast_event fuel reg y = Some (Inr b)"
      using upcast_events_members [OF vs b] by blast
    moreover from this have "?v < event_order b"
      using pg.load_after_greater assms(2) by (auto simp: keeps_event_id_def)
    ultimately show ?thesis by simp
  qed
  show ?thesis
  proof (cases "upcast_events fuel reg ?new")
    case None
    then show ?thesis using compat up by (simp add: service_replay_state_def service_no_seed)
  next
    case (Some r)
    show ?thesis
    proof (cases r)
      case (Inl e)
      then show ?thesis using compat up Some by (simp add: service_replay_state_def service_no_seed)
    next
      case (Inr vs)
      have "?view (fold_replay_state vs (sc_tenant_id s) (sc_organization_id s) (sc_execution_id s)
              projection (Some (registry_digest reg)) (Some (base_of s1)) (Some (seed_info snap)))
          = ?view (fold_replay_state (old @ vs) (sc_tenant_id s) (sc_organization_id s)
              (sc_execution_id s) projection (Some (registry_digest reg)) None None)"
        by (rule fold_seeded_view [OF _ assms(4)]) (use ord Some Inr in blast)
      then show ?thesis
        using compat up Some Inr assms(5) by (simp add: service_replay_state_def service_no_seed)
    qed
  qed
qed

definition sample_scope :: replay_scope where
  "sample_scope = \<lparr>sc_table = \<lparr>et_columns = [''tenant_id'', ''stage_id''], et_rows =
       [\<lparr>er_event_id = 9, er_cells = [(''execution_id'', VInt 5), (''tenant_id'', VStr ''t''),
          (''event_type'', VStr ''stage.closed''), (''stage_id'', VStr ''10''),
          (''meta'', VDict [(''row_count'', VInt 4)])]\<rparr>,
        \<lparr>er_event_id = 3, er_cells = [(''execution_id'', VInt 5), (''tenant_id'', VStr ''t''),
          (''event_type'', VStr ''stage.opened''), (''stage_id'', VStr ''10'')]\<rparr>,
        \<lparr>er_event_id = 4, er_cells = [(''execution_id'', VInt 6), (''tenant_id'', VStr ''t'')]\<rparr>]\<rparr>,
     sc_tenant_id = ''t'', sc_organization_id = ''default'', sc_execution_id = 5\<rparr>"

definition sample_cutoff :: replay_cutoff where
  "sample_cutoff = \<lparr>co_event_id = Some 20, co_position = None, co_time = None\<rparr>"

definition sample_old :: "pydict list" where
  "sample_old = (case upcast_events 1 []
       (filter (\<lambda>e. event_order e \<le> 3) (pg_log sample_scope sample_cutoff)) of
     Some (Inr es) \<Rightarrow> es | _ \<Rightarrow> [])"

lemma sample_log_returns:
  "(case upcast_events 1 [] (filter (\<lambda>e. event_order e \<le> 3) (pg_log sample_scope sample_cutoff)) of
      Some (Inr _) \<Rightarrow> True | _ \<Rightarrow> False)"
  by code_simp

lemma sample_log_sizes:
  "length sample_old = 1" "length (pg_log sample_scope sample_cutoff) = 2"
  "list_all event_counts_ok sample_old"
  by code_simp+

lemma sample_log:
  "upcast_events 1 [] (filter (\<lambda>e. event_order e \<le> 3) (pg_log sample_scope sample_cutoff))
     = Some (Inr sample_old)"
  using sample_log_returns by (auto simp: sample_old_def split: option.splits sum.splits)

lemma keeps_event_id_nil: "keeps_event_id []"
proof -
  have "event_order ev' = event_order ev" if "upcast_loop fuel [] ev a b = Some (Inr ev')" for fuel ev ev' a b
    using that by (cases fuel) (auto simp: event_order_def event_id_of_def py_get_def)
  then show ?thesis by (auto simp: keeps_event_id_def upcast_event_def Let_def split: sum.splits)
qed

lemma snapshot_seed_is_accelerator_witness:
  "\<exists>snap s1. sn_snapshot snap = Some s1 \<and> rc_event_count (rs_core s1) = 1 \<and>
     map_option (\<lambda>r. rbind r (\<lambda>s. Inr (state_view s)))
       (service_replay_state 1 [] (pg_load_events sample_scope sample_cutoff 10) (Some snap) sample_scope ''all'')
   = map_option (\<lambda>r. rbind r (\<lambda>s. Inr (state_view s)))
       (service_replay_state 1 [] (pg_load_events sample_scope sample_cutoff 10) None sample_scope ''all'')"
proof -
  obtain s1 where s1: "fold_replay_state sample_old (sc_tenant_id sample_scope)
      (sc_organization_id sample_scope) (sc_execution_id sample_scope) ''all''
      (Some (registry_digest [])) None None = Inr s1"
    using fold_replay_state_returns [OF sample_log_sizes(3), of None] by (force simp: base_ok_def)
  have n: "rc_event_count (rs_core s1) = 1"
    using fold_core_wf(2) [OF fold_replay_state_core [OF s1]] core_wf_initial sample_log_sizes(1)
    by (simp add: start_state_def initial_core_def)
  define snap where "snap = \<lparr>sn_tenant_id = ''t'', sn_organization_id = ''default'',
    sn_aggregate_type = ''replay_state'', sn_aggregate_id = ''execution/5/all'', sn_version = 3,
    sn_snapshot = Some s1, sn_checksum = rs_checksum s1, sn_meta = []\<rparr>"
  have "map_option (\<lambda>r. rbind r (\<lambda>s. Inr (state_view s)))
       (service_replay_state 1 [] (pg_load_events sample_scope sample_cutoff 10) (Some snap) sample_scope ''all'')
   = map_option (\<lambda>r. rbind r (\<lambda>s. Inr (state_view s)))
       (service_replay_state 1 [] (pg_load_events sample_scope sample_cutoff 10) None sample_scope ''all'')"
    by (rule snapshot_seed_is_accelerator [OF _ keeps_event_id_nil _ s1])
      (use sample_log sample_log_sizes in \<open>simp_all add: snap_def\<close>)
  then show ?thesis using n by (intro exI [of _ snap] exI [of _ s1]) (simp add: snap_def)
qed

text \<open>
  A snapshot recorded under another registry digest (or none) is ignored: the replay is the
  replay from the first event.
\<close>
lemma incompatible_snapshot_ignored:
  assumes "replay_snapshot_upcaster_registry_digest (Some snap) \<noteq> Some (registry_digest reg)"
  shows "service_replay_state fuel reg load (Some snap) s projection
       = service_replay_state fuel reg load None s projection"
  using assms by (simp add: service_replay_state_def replay_snapshot_is_compatible_def)

lemma incompatible_snapshot_ignored_witness:
  "service_replay_state 1 [] (pg_load_events sample_scope sample_cutoff 10)
     (Some \<lparr>sn_tenant_id = ''t'', sn_organization_id = ''default'', sn_aggregate_type = ''replay_state'',
        sn_aggregate_id = ''execution/5/all'', sn_version = 3, sn_snapshot = None, sn_checksum = '''',
        sn_meta = []\<rparr>) sample_scope ''all''
   = service_replay_state 1 [] (pg_load_events sample_scope sample_cutoff 10) None sample_scope ''all''"
  by (rule incompatible_snapshot_ignored)
    (simp add: replay_snapshot_upcaster_registry_digest_def str_opt_def)

text \<open>
  The Postgres reader returns only events of the requested execution and tenant, above the
  seed and at or below an event-id cutoff, in event-id order and no more than the limit.
\<close>
lemma pg_load_events_sound:
  "sorted (map event_order (pg_load_events s c limit after)) \<and>
   length (pg_load_events s c limit after) \<le> limit \<and>
   (\<forall>ev \<in> set (pg_load_events s c limit after).
      (\<forall>a. after = Some a \<longrightarrow> a < event_order ev) \<and>
      (\<forall>i. cutoff_event_id c = Some i \<longrightarrow> event_order ev \<le> i) \<and>
      (\<exists>r \<in> set (et_rows (sc_table s)). row_in_scope s r \<and> row_before s c r \<and> event_order ev = er_event_id r))"
proof -
  have "sorted (map event_order (pg_load_events s c limit after))"
    by (simp add: pg_load_events_def o_def take_map [symmetric] sorted_wrt_take)
  moreover have "length (pg_load_events s c limit after) \<le> limit"
    by (simp add: pg_load_events_def)
  ultimately show ?thesis
    by (fastforce simp: row_before_def dest!: pg_load_events_member split: option.splits)
qed

lemma sample_tail: "length (pg_load_events sample_scope sample_cutoff 10 (Some 3)) = 1"
  by code_simp

lemma pg_load_events_sound_witness:
  "pg_load_events sample_scope sample_cutoff 10 (Some 3) \<noteq> [] \<and>
   3 < event_order (hd (pg_load_events sample_scope sample_cutoff 10 (Some 3))) \<and>
   event_order (hd (pg_load_events sample_scope sample_cutoff 10 (Some 3))) \<le> 20"
proof -
  have "pg_load_events sample_scope sample_cutoff 10 (Some 3) \<noteq> []"
    using sample_tail by force
  then show ?thesis
    using pg_load_events_sound [of sample_scope sample_cutoff 10 "Some 3"] hd_in_set
    by (fastforce simp: sample_cutoff_def cutoff_event_id_def)
qed

text \<open>
  A cutoff at event id zero passes the endpoint's guard and is then no cutoff at all: it
  reads as the whole log, because the reader tests the cutoff for truth.
\<close>
lemma cutoff_zero_is_no_cutoff:
  "cutoff_ok \<lparr>co_event_id = Some 0, co_position = None, co_time = None\<rparr> \<and>
   pg_load_events s \<lparr>co_event_id = Some 0, co_position = None, co_time = None\<rparr> limit after
   = pg_load_events s \<lparr>co_event_id = None, co_position = None, co_time = None\<rparr> limit after"
  by (simp add: cutoff_ok_def pg_load_events_def row_before_def cutoff_event_id_def)

end
