(* ===== verification/Replay_Payloads.thy ===== *)
theory Replay_Payloads
  imports Replay_Theorems
begin

text \<open>
  Payload references of a replayed state: their collection with lineage labels, the locator of a
  reference, resolution through a store with a per-replay cache, and the summary
  (\<^verbatim>\<open>src/noetl/server/api/replay/service.py\<close> from \<open>replay_payload_references\<close> on, and
  \<^verbatim>\<open>src/noetl/server/api/replay/payload_resolver.py\<close>). The store is a parameter: the \<open>n\<close>-th call
  of \<open>resolve\<close> in a replay returns a value or raises, so a store that changes between calls is
  covered. The lemmas show that the cache asks the store once for each locator and that every
  reference with that locator gets the first answer.
\<close>

section \<open>References\<close>

text \<open>What a \<open>for\<close> loop over a value yields: list items, dictionary keys, characters.\<close>

fun py_iter :: "pyval \<Rightarrow> pyval list res" where
  "py_iter (VList xs) = Inr xs"
| "py_iter (VDict d) = Inr (map (\<lambda>(k, _). VStr k) d)"
| "py_iter (VStr s) = Inr (map (\<lambda>c. VStr [c]) s)"
| "py_iter _ = Inl (TypeError ''object is not iterable'')"

text \<open>The entries of a \<open>payload_refs\<close> list that carry a reference, under the given labels.\<close>

definition labelled_refs :: "pydict \<Rightarrow> pyval \<Rightarrow> pydict list res" where
  "labelled_refs labels refs =
     rbind (py_iter (py_or refs (VList []))) (\<lambda>items.
       Inr (List.map_filter (\<lambda>item.
         (case item of
            VDict d \<Rightarrow> (if py_get d ''reference'' \<noteq> VNone
              then Some (labels @ [(''event_id'', py_get d ''event_id''), (''reference'', py_get d ''reference'')])
              else None)
          | _ \<Rightarrow> None)) items))"

definition frame_refs :: "pydict \<Rightarrow> pydict list" where
  "frame_refs state =
     List.map_filter (\<lambda>(frame_id, frame).
       (if py_get frame ''output_ref'' \<noteq> VNone
        then Some [(''scope'', VStr ''frame''),
               (''frame_id'', VStr (py_str (py_or (py_get frame ''frame_id'') (VStr frame_id)))),
               (''event_id'', py_get frame ''terminal_event_id''),
               (''reference'', py_get frame ''output_ref'')]
        else None)) (mapping_items (py_get state ''frames''))"

definition business_refs :: "string \<times> pydict \<Rightarrow> pydict list res" where
  "business_refs p = (case p of (object_key, object) \<Rightarrow>
     labelled_refs [(''scope'', VStr ''business_object''),
       (''object_key'', VStr (py_str (py_or (py_get object ''object_key'') (VStr object_key))))]
       (py_get object ''payload_refs''))"

definition replay_payload_references :: "pydict \<Rightarrow> pydict list res" where
  "replay_payload_references state =
     rbind (case py_get state ''execution'' of
              VDict x \<Rightarrow> labelled_refs [(''scope'', VStr ''execution'')] (py_get x ''payload_refs'')
            | _ \<Rightarrow> Inr []) (\<lambda>ex.
     rbind (rmap business_refs (mapping_items (py_get state ''business_objects''))) (\<lambda>bo.
       Inr (ex @ frame_refs state @ concat bo)))"

section \<open>Locators\<close>

fun first_truthy :: "pydict \<Rightarrow> string list \<Rightarrow> string option" where
  "first_truthy d [] = None"
| "first_truthy d (k # ks) =
     (if truthy (py_get d k) then Some (py_str (py_get d k)) else first_truthy d ks)"

definition replay_payload_ref_locator :: "pyval \<Rightarrow> string option" where
  "replay_payload_ref_locator reference =
     (case reference of
        VStr s \<Rightarrow> Some s
      | VDict d \<Rightarrow>
          (case (if py_get d ''kind'' = VStr ''payload_store'' then first_truthy d [''uri'', ''sha256''] else None) of
             Some l \<Rightarrow> Some l
           | None \<Rightarrow>
               (case first_truthy d [''ref'', ''uri'', ''locator''] of
                  Some l \<Rightarrow> Some l
                | None \<Rightarrow>
                    (case py_get d ''rows_ref'' of
                       VDict r \<Rightarrow> first_truthy r [''ref'', ''uri'', ''locator'']
                     | _ \<Rightarrow> None)))
      | _ \<Rightarrow> None)"

text \<open>\<open>json.dumps(reference, sort_keys=True)\<close>, the cache key of a reference with no locator.\<close>

primrec spaced_json :: "pyval \<Rightarrow> string" where
  "spaced_json VNone = ''null''"
| "spaced_json (VBool b) = (if b then ''true'' else ''false'')"
| "spaced_json (VInt i) = show_int i"
| "spaced_json (VStr s) = json_str s"
| "spaced_json (VList xs) = ''['' @ join '', '' (map spaced_json xs) @ '']''"
| "spaced_json (VDict d) =
     ''{'' @ join '', '' (map (\<lambda>(k, t). json_str k @ '': '' @ t)
        (sort_key fst (map (map_prod id spaced_json) d))) @ ''}''"

definition cache_key :: "pyval \<Rightarrow> string" where
  "cache_key reference =
     (case replay_payload_ref_locator reference of
        Some l \<Rightarrow> (if l = [] then spaced_json reference else l)
      | None \<Rightarrow> spaced_json reference)"

section \<open>The store-backed resolver\<close>

record resolution =
  re_ref :: string
  re_resolved :: bool
  re_checksum :: "string option"
  re_size_bytes :: "int option"
  re_row_count :: "int option"
  re_value_type :: "string option"
  re_error :: "string option"

definition enc_resolution :: "resolution \<Rightarrow> pyval" where
  "enc_resolution r = VDict [(''ref'', VStr (re_ref r)), (''resolved'', VBool (re_resolved r)),
     (''checksum'', enc_str (re_checksum r)), (''size_bytes'', enc_int (re_size_bytes r)),
     (''row_count'', enc_int (re_row_count r)), (''value_type'', enc_str (re_value_type r)),
     (''error'', enc_str (re_error r))]"

definition resolve_input :: "pyval \<Rightarrow> string \<Rightarrow> pyval" where
  "resolve_input reference ref =
     (case reference of
        VDict d \<Rightarrow>
          (if py_get d ''kind'' \<in> {VStr ''temp_ref'', VStr ''result_ref'', VStr ''manifest''} then VDict d
           else (case py_get d ''rows_ref'' of VDict r \<Rightarrow> VDict r | _ \<Rightarrow> VStr ref))
      | _ \<Rightarrow> VStr ref)"

fun payload_row_count :: "pyval \<Rightarrow> int option" where
  "payload_row_count (VList xs) = Some (int (length xs))"
| "payload_row_count (VDict d) =
     (case py_get d ''rows'' of VList rows \<Rightarrow> Some (int (length rows)) | _ \<Rightarrow> None)"
| "payload_row_count _ = None"

fun type_name :: "pyval \<Rightarrow> string" where
  "type_name VNone = ''NoneType''"
| "type_name (VBool _) = ''bool''"
| "type_name (VInt _) = ''int''"
| "type_name (VStr _) = ''str''"
| "type_name (VList _) = ''list''"
| "type_name (VDict _) = ''dict''"

text \<open>\<open>str(exc)\<close>: the message of the exception.\<close>

fun exception_text :: "py_error \<Rightarrow> string" where
  "exception_text (KeyError s) = s"
| "exception_text (TypeError s) = s"
| "exception_text (ValueError s) = s"
| "exception_text (RuntimeError s) = s"
| "exception_text (IndexError s) = s"
| "exception_text (AttributeError s) = s"
| "exception_text (UnboundLocalError s) = s"

definition unresolved :: "string \<Rightarrow> string \<Rightarrow> resolution" where
  "unresolved ref err = \<lparr>re_ref = ref, re_resolved = False, re_checksum = None, re_size_bytes = None,
     re_row_count = None, re_value_type = None, re_error = Some err\<rparr>"

definition resolve_payload_ref :: "(pyval \<Rightarrow> pyval res) \<Rightarrow> pyval \<Rightarrow> resolution" where
  "resolve_payload_ref store reference =
     (case replay_payload_ref_locator reference of
        None \<Rightarrow> unresolved '''' ''payload reference has no resolvable locator''
      | Some ref \<Rightarrow>
          (case store (resolve_input reference ref) of
             Inl e \<Rightarrow> unresolved ref (exception_text e)
           | Inr v \<Rightarrow> \<lparr>re_ref = ref, re_resolved = True, re_checksum = Some (canonical_checksum v),
               re_size_bytes = Some (int (length (canon_json v))),
               re_row_count = payload_row_count v, re_value_type = Some (type_name v),
               re_error = None\<rparr>))"

section \<open>Resolution with a cache\<close>

record resolve_state =
  rv_resolved :: "pydict list"
  rv_cache :: "(string \<times> pyval) list"
  rv_calls :: nat

definition resolve_one ::
  "(nat \<Rightarrow> pyval \<Rightarrow> pyval res) \<Rightarrow> resolve_state \<Rightarrow> pydict \<Rightarrow> resolve_state" where
  "resolve_one store s payload_ref =
     (let reference = py_get payload_ref ''reference''; key = cache_key reference;
          s' = (case map_of (rv_cache s) key of
                  Some _ \<Rightarrow> s
                | None \<Rightarrow> s\<lparr>rv_cache := AList.update key
                    (enc_resolution (resolve_payload_ref (store (rv_calls s)) reference)) (rv_cache s),
                    rv_calls := rv_calls s + 1\<rparr>)
      in s'\<lparr>rv_resolved := rv_resolved s' @
           [AList.delete ''reference'' payload_ref
            @ [(''reference_summary'', enc_summary (payload_summary_of reference)),
               (''resolution'', py_get (rv_cache s') key)]]\<rparr>)"

definition resolve_replay_payload_references ::
  "(nat \<Rightarrow> pyval \<Rightarrow> pyval res) \<Rightarrow> pydict \<Rightarrow> pydict list res" where
  "resolve_replay_payload_references store state =
     rbind (replay_payload_references state) (\<lambda>refs.
       Inr (rv_resolved (foldl (resolve_one store)
         \<lparr>rv_resolved = [], rv_cache = [], rv_calls = 0\<rparr> refs)))"

section \<open>The summary\<close>

record resolution_summary =
  rm_total :: int
  rm_resolved :: int
  rm_unresolved :: int
  rm_unique_refs :: int
  rm_all_resolved :: bool
  rm_checksum :: string

definition row_resolved :: "pydict \<Rightarrow> bool" where
  "row_resolved row =
     (case py_get row ''resolution'' of VDict d \<Rightarrow> py_get d ''resolved'' = VBool True | _ \<Rightarrow> False)"

definition row_ref :: "pydict \<Rightarrow> string option" where
  "row_ref row =
     (case py_get row ''resolution'' of
        VDict d \<Rightarrow> (if truthy (py_get d ''ref'') then Some (py_str (py_get d ''ref'')) else None)
      | _ \<Rightarrow> None)"

definition replay_payload_resolution_summary :: "pydict list \<Rightarrow> resolution_summary" where
  "replay_payload_resolution_summary rows =
     (let total = int (length rows);
          resolved = int (length (filter row_resolved rows));
          refs = sort (remdups (List.map_filter row_ref rows));
          summary = [(''total'', VInt total), (''resolved'', VInt resolved),
            (''unresolved'', VInt (total - resolved)),
            (''unique_refs'', VInt (int (length refs))),
            (''all_resolved'', VBool (total - resolved = 0))]
      in \<lparr>rm_total = total, rm_resolved = resolved, rm_unresolved = total - resolved,
          rm_unique_refs = int (length refs), rm_all_resolved = (total - resolved = 0),
          rm_checksum = canonical_checksum (VDict (dict_merge summary
            [(''unique_refs'', VList (map VStr refs)), (''rows'', VList (map VDict rows))]))\<rparr>)"

section \<open>The cache\<close>

lemma resolve_one_cache:
  "\<lbrakk>dict_wf (rv_cache s); length (rv_cache s) = rv_calls s\<rbrakk> \<Longrightarrow>
   dict_wf (rv_cache (resolve_one store s r)) \<and>
   length (rv_cache (resolve_one store s r)) = rv_calls (resolve_one store s r) \<and>
   set (map fst (rv_cache (resolve_one store s r)))
     = insert (cache_key (py_get r ''reference'')) (set (map fst (rv_cache s)))"
  by (auto simp: resolve_one_def Let_def update_absent dict_wf_def map_of_eq_None_iff
      split: option.splits dest!: map_of_SomeD intro: rev_image_eqI)

lemma resolve_one_keeps:
  "map_of (rv_cache s) k = Some v \<Longrightarrow> map_of (rv_cache (resolve_one store s r)) k = Some v"
  by (auto simp: resolve_one_def Let_def split: option.splits)

lemma resolve_one_entry:
  "\<exists>v row. rv_resolved (resolve_one store s r) = rv_resolved s @ [row] \<and>
     map_of (rv_cache (resolve_one store s r)) (cache_key (py_get r ''reference'')) = Some v \<and>
     row = AList.delete ''reference'' r
       @ [(''reference_summary'', enc_summary (payload_summary_of (py_get r ''reference''))), (''resolution'', v)]"
  by (auto simp: resolve_one_def Let_def py_get_def split: option.splits)

definition resolve_all ::
  "(nat \<Rightarrow> pyval \<Rightarrow> pyval res) \<Rightarrow> resolve_state \<Rightarrow> pydict list \<Rightarrow> resolve_state" where
  "resolve_all store s refs = foldl (resolve_one store) s refs"

lemma resolve_all_cache:
  "dict_wf (rv_cache s) \<Longrightarrow> length (rv_cache s) = rv_calls s \<Longrightarrow>
   dict_wf (rv_cache (resolve_all store s refs)) \<and>
   length (rv_cache (resolve_all store s refs)) = rv_calls (resolve_all store s refs) \<and>
   set (map fst (rv_cache (resolve_all store s refs)))
     = set (map (\<lambda>r. cache_key (py_get r ''reference'')) refs) \<union> set (map fst (rv_cache s))"
proof (induction refs arbitrary: s)
  case (Cons r refs)
  have "resolve_all store s (r # refs) = resolve_all store (resolve_one store s r) refs"
    by (simp add: resolve_all_def)
  then show ?case using Cons.IH [of "resolve_one store s r"] resolve_one_cache [OF Cons.prems, of store r]
    by auto
qed (simp add: resolve_all_def)

lemma resolve_all_keeps:
  "map_of (rv_cache s) k = Some v \<Longrightarrow> map_of (rv_cache (resolve_all store s refs)) k = Some v"
  by (induction refs arbitrary: s) (auto simp: resolve_all_def dest: resolve_one_keeps)

definition resolved_row :: "(string \<times> pyval) list \<Rightarrow> pydict \<Rightarrow> pydict" where
  "resolved_row cache r = AList.delete ''reference'' r
     @ [(''reference_summary'', enc_summary (payload_summary_of (py_get r ''reference''))),
        (''resolution'', py_get cache (cache_key (py_get r ''reference'')))]"

lemma resolve_all_rows:
  "rv_resolved (resolve_all store s refs)
     = rv_resolved s @ map (resolved_row (rv_cache (resolve_all store s refs))) refs"
proof (induction refs arbitrary: s)
  case (Cons r refs)
  let ?s = "resolve_one store s r"
  have split: "resolve_all store s (r # refs) = resolve_all store ?s refs" by (simp add: resolve_all_def)
  obtain v row where row: "rv_resolved ?s = rv_resolved s @ [row]"
    "map_of (rv_cache ?s) (cache_key (py_get r ''reference'')) = Some v"
    "row = AList.delete ''reference'' r
       @ [(''reference_summary'', enc_summary (payload_summary_of (py_get r ''reference''))), (''resolution'', v)]"
    using resolve_one_entry by metis
  have "row = resolved_row (rv_cache (resolve_all store ?s refs)) r"
    using row(3) resolve_all_keeps [OF row(2)] by (simp add: resolved_row_def py_get_def)
  then show ?case using Cons.IH [of ?s] row(1) split by simp
qed (simp add: resolve_all_def)

section \<open>Properties\<close>

text \<open>
  Resolution returns one row for each payload reference, in order, and asks the store
  exactly once for each distinct locator: references with the same locator carry the same
  resolution even if the store would answer differently a second time.
\<close>
lemma payload_resolution_cached:
  assumes "replay_payload_references state = Inr refs"
  shows "\<exists>cache. resolve_replay_payload_references store state = Inr (map (resolved_row cache) refs) \<and>
    rv_calls (resolve_all store \<lparr>rv_resolved = [], rv_cache = [], rv_calls = 0\<rparr> refs)
      = card (set (map (\<lambda>r. cache_key (py_get r ''reference'')) refs))"
proof -
  let ?s = "\<lparr>rv_resolved = [], rv_cache = [], rv_calls = 0\<rparr>"
  let ?c = "rv_cache (resolve_all store ?s refs)"
  have c: "dict_wf ?c" "length ?c = rv_calls (resolve_all store ?s refs)"
    "set (map fst ?c) = set (map (\<lambda>r. cache_key (py_get r ''reference'')) refs)"
    using resolve_all_cache [of ?s store refs] by auto
  have "rv_calls (resolve_all store ?s refs) = card (set (map fst ?c))"
    using c(1,2) distinct_card [of "map fst ?c"] by (simp add: dict_wf_def)
  moreover have "resolve_replay_payload_references store state = Inr (map (resolved_row ?c) refs)"
    using resolve_all_rows [of store ?s refs] assms
    by (simp add: resolve_replay_payload_references_def resolve_all_def)
  ultimately show ?thesis using c(3) by metis
qed

definition sample_ref_state :: pydict where
  "sample_ref_state = [(''execution'', VDict [(''payload_refs'', VList
     [VDict [(''event_id'', VInt 1), (''reference'', VDict [(''ref'', VStr ''noetl://a'')])],
      VDict [(''event_id'', VInt 2), (''reference'', VStr ''noetl://a'')],
      VDict [(''event_id'', VInt 3), (''reference'', VStr ''noetl://b'')]])])]"

definition sample_refs :: "pydict list" where
  "sample_refs = map (\<lambda>(i, r). [(''scope'', VStr ''execution''), (''event_id'', VInt i), (''reference'', r)])
     [(1, VDict [(''ref'', VStr ''noetl://a'')]), (2, VStr ''noetl://a''), (3, VStr ''noetl://b'')]"

lemma payload_resolution_cached_witness:
  "\<exists>cache. resolve_replay_payload_references (\<lambda>n _. Inr (VInt (int n))) sample_ref_state
       = Inr (map (resolved_row cache) sample_refs) \<and>
    rv_calls (resolve_all (\<lambda>n _. Inr (VInt (int n))) \<lparr>rv_resolved = [], rv_cache = [], rv_calls = 0\<rparr> sample_refs)
      = card (set (map (\<lambda>r. cache_key (py_get r ''reference'')) sample_refs))"
proof (rule payload_resolution_cached)
  show "replay_payload_references sample_ref_state = Inr sample_refs" by code_simp
qed

text \<open>
  The resolution summary accounts for every row: resolved and unresolved add up to the total,
  \<open>all_resolved\<close> holds exactly when every row resolved, and the unique references are at most the
  rows.
\<close>
lemma resolution_summary_accounts:
  "rm_resolved (replay_payload_resolution_summary rows)
     + rm_unresolved (replay_payload_resolution_summary rows) = int (length rows) \<and>
   rm_all_resolved (replay_payload_resolution_summary rows) = list_all row_resolved rows \<and>
   rm_unique_refs (replay_payload_resolution_summary rows) \<le> int (length rows)"
proof -
  have "length (remdups (List.map_filter row_ref rows)) \<le> length rows"
    by (rule order_trans [OF length_remdups_leq]) (simp add: List.map_filter_def)
  moreover have "(length rows = length (filter row_resolved rows)) = list_all row_resolved rows"
    by (metis filter_True length_filter_less list_all_iff nat_less_le)
  ultimately show ?thesis
    by (simp add: replay_payload_resolution_summary_def Let_def)
qed

end
