(* ===== verification/Outbox.thy ===== *)
theory Outbox
  imports Canonical_Json
begin

text \<open>
  The transactional outbox of \<^verbatim>\<open>src/noetl/core/outbox.py\<close>: the table \<open>noetl.outbox\<close> with the
  constraints of its DDL, one function per statement (enqueue, claim, mark published, mark
  failed) and the publishing loop. Each statement runs in its own transaction. The Arrow encoder
  and the NATS publisher are parameters: the encoder returns bytes or raises, and the \<open>n\<close>-th
  publish of a batch returns or raises. Lemmas: the table's keys stay unique, a batch settles
  every row it claimed, and a row left in flight is out of reach of every later claim.
\<close>

datatype outbox_status = PENDING | IN_FLIGHT | PUBLISHED | FAILED

record outbox_row =
  ob_id :: nat
  ob_execution_id :: "int option"
  ob_event_id :: int
  ob_subject :: "string option"
  ob_payload :: pydict
  ob_payload_bytes :: "string option"
  ob_payload_codec :: string
  ob_status :: outbox_status
  ob_attempts :: int
  ob_available_at :: int
  ob_published_at :: "int option"
  ob_last_error :: "string option"

text \<open>The table and its sequence; a serial id is drawn even when the insert conflicts.\<close>

record outbox_table =
  ox_rows :: "outbox_row list"
  ox_next :: nat

text \<open>\<open>json.loads(json.dumps(event, sort_keys=True))\<close>: dictionaries come back in key order.\<close>

primrec normalize_value :: "pyval \<Rightarrow> pyval" where
  "normalize_value VNone = VNone"
| "normalize_value (VBool b) = VBool b"
| "normalize_value (VInt i) = VInt i"
| "normalize_value (VStr s) = VStr s"
| "normalize_value (VList xs) = VList (map normalize_value xs)"
| "normalize_value (VDict d) = VDict (sort_key fst (map (map_prod id normalize_value) d))"

definition normalize_outbox_payload :: "pydict \<Rightarrow> pydict" where
  "normalize_outbox_payload event = sort_key fst (map (map_prod id normalize_value) event)"

text \<open>A null execution id conflicts with nothing.\<close>

definition outbox_conflict :: "outbox_table \<Rightarrow> int option \<Rightarrow> int \<Rightarrow> bool" where
  "outbox_conflict t execution_id event_id =
     (execution_id \<noteq> None \<and>
      list_ex (\<lambda>r. ob_execution_id r = execution_id \<and> ob_event_id r = event_id) (ox_rows t))"

definition new_outbox_row ::
  "(pydict \<Rightarrow> string option) \<Rightarrow> int \<Rightarrow> nat \<Rightarrow> int option \<Rightarrow> int \<Rightarrow> string option \<Rightarrow> pydict \<Rightarrow> outbox_row" where
  "new_outbox_row encode now i execution_id event_id subject payload =
     \<lparr>ob_id = i, ob_execution_id = execution_id, ob_event_id = event_id, ob_subject = subject,
      ob_payload = payload, ob_payload_bytes = encode payload,
      ob_payload_codec = (if encode payload = None then ''json'' else ''arrow-feather''),
      ob_status = PENDING, ob_attempts = 0, ob_available_at = now, ob_published_at = None,
      ob_last_error = None\<rparr>"

definition insert_outbox ::
  "(pydict \<Rightarrow> string option) \<Rightarrow> int \<Rightarrow> int option \<Rightarrow> int \<Rightarrow> string option \<Rightarrow> pydict \<Rightarrow> outbox_table \<Rightarrow> outbox_table" where
  "insert_outbox encode now execution_id event_id subject payload t =
     (if outbox_conflict t execution_id event_id then t\<lparr>ox_next := ox_next t + 1\<rparr>
      else \<lparr>ox_rows = ox_rows t @
              [new_outbox_row encode now (ox_next t) execution_id event_id subject payload],
            ox_next = ox_next t + 1\<rparr>)"

definition enqueue_outbox ::
  "(pydict \<Rightarrow> string option) \<Rightarrow> int \<Rightarrow> pydict \<Rightarrow> string option \<Rightarrow> outbox_table \<Rightarrow> outbox_table res" where
  "enqueue_outbox encode now event subject t =
     (if py_get event ''event_id'' = VNone then Inl (ValueError ''outbox requires event_id'')
      else
        (let payload = normalize_outbox_payload event in
         rbind (int_or_none (py_get payload ''execution_id'')) (\<lambda>execution_id.
         rbind (py_int (py_get event ''event_id'')) (\<lambda>event_id.
           Inr (insert_outbox encode now execution_id event_id subject payload t)))))"

definition row_ready :: "int \<Rightarrow> outbox_row \<Rightarrow> bool" where
  "row_ready now r = ((ob_status r = PENDING \<or> ob_status r = FAILED) \<and> ob_available_at r \<le> now)"

definition ready_ids :: "int \<Rightarrow> int \<Rightarrow> outbox_table \<Rightarrow> nat list" where
  "ready_ids now limit t =
     take (nat (max 1 limit)) (sort (map ob_id (filter (row_ready now) (ox_rows t))))"

definition update_rows :: "(outbox_row \<Rightarrow> bool) \<Rightarrow> (outbox_row \<Rightarrow> outbox_row) \<Rightarrow> outbox_table \<Rightarrow> outbox_table" where
  "update_rows P f t = t\<lparr>ox_rows := map (\<lambda>r. if P r then f r else r) (ox_rows t)\<rparr>"

definition claim_row :: "outbox_row \<Rightarrow> outbox_row" where
  "claim_row r = r\<lparr>ob_status := IN_FLIGHT, ob_attempts := ob_attempts r + 1\<rparr>"

definition claim_outbox_batch :: "int \<Rightarrow> int \<Rightarrow> outbox_table \<Rightarrow> outbox_row list \<times> outbox_table" where
  "claim_outbox_batch now limit t =
     (let ids = ready_ids now limit t;
          t' = update_rows (\<lambda>r. ob_id r \<in> set ids) claim_row t
      in (filter (\<lambda>r. ob_id r \<in> set ids) (ox_rows t'), t'))"

definition mark_outbox_published :: "int \<Rightarrow> nat \<Rightarrow> outbox_table \<Rightarrow> outbox_table" where
  "mark_outbox_published now i t =
     update_rows (\<lambda>r. ob_id r = i)
       (\<lambda>r. r\<lparr>ob_status := PUBLISHED, ob_published_at := Some now, ob_last_error := None\<rparr>) t"

definition retry_delay :: "int \<Rightarrow> int \<Rightarrow> int" where
  "retry_delay max_delay_seconds attempts =
     min max_delay_seconds (2 ^ nat (min 8 (max 0 (attempts - 1))))"

definition mark_outbox_failed ::
  "int \<Rightarrow> nat \<Rightarrow> string \<Rightarrow> int \<Rightarrow> int \<Rightarrow> outbox_table \<Rightarrow> outbox_table" where
  "mark_outbox_failed now i err attempts max_delay_seconds t =
     update_rows (\<lambda>r. ob_id r = i)
       (\<lambda>r. r\<lparr>ob_status := FAILED, ob_available_at := now + retry_delay max_delay_seconds attempts,
              ob_last_error := Some (take 2000 err)\<rparr>) t"

text \<open>
  The loop of \<open>publish_outbox_batch\<close>: \<open>publish n payload\<close> is the outcome of the \<open>n\<close>-th call,
  \<open>Some e\<close> the exception it raised. The payloads handed to the publisher are kept in \<open>pb_sent\<close>.
\<close>

record publish_state =
  pb_table :: outbox_table
  pb_sent :: "pydict list"
  pb_published :: nat

definition publish_row ::
  "int \<Rightarrow> (nat \<Rightarrow> pydict \<Rightarrow> string option) \<Rightarrow> publish_state \<Rightarrow> outbox_row \<Rightarrow> publish_state" where
  "publish_row now publish s r =
     (let payload = ob_payload r; s' = s\<lparr>pb_sent := pb_sent s @ [payload]\<rparr>
      in (case publish (length (pb_sent s)) payload of
            None \<Rightarrow> s'\<lparr>pb_table := mark_outbox_published now (ob_id r) (pb_table s),
                       pb_published := pb_published s + 1\<rparr>
          | Some e \<Rightarrow> s'\<lparr>pb_table := mark_outbox_failed now (ob_id r) e
                (if ob_attempts r = 0 then 1 else ob_attempts r) 300 (pb_table s)\<rparr>))"

definition publish_outbox_batch ::
  "int \<Rightarrow> (nat \<Rightarrow> pydict \<Rightarrow> string option) \<Rightarrow> int \<Rightarrow> outbox_table \<Rightarrow> publish_state" where
  "publish_outbox_batch now publish limit t =
     (case claim_outbox_batch now limit t of (rows, t') \<Rightarrow>
        foldl (publish_row now publish) \<lparr>pb_table = t', pb_sent = [], pb_published = 0\<rparr> rows)"

section \<open>The table's constraints\<close>

definition outbox_key :: "outbox_row \<Rightarrow> (int \<times> int) option" where
  "outbox_key r = map_option (\<lambda>x. (x, ob_event_id r)) (ob_execution_id r)"

definition outbox_wf :: "outbox_table \<Rightarrow> bool" where
  "outbox_wf t =
     (distinct (map ob_id (ox_rows t)) \<and> list_all (\<lambda>r. ob_id r < ox_next t) (ox_rows t) \<and>
      distinct (List.map_filter outbox_key (ox_rows t)))"

lemma update_rows_ids [simp]:
  assumes "\<And>r. ob_id (f r) = ob_id r"
  shows "map ob_id (ox_rows (update_rows P f t)) = map ob_id (ox_rows t)"
  using assms by (simp add: update_rows_def)

lemma update_rows_wf:
  assumes "outbox_wf t" and "\<And>r. ob_id (f r) = ob_id r" and "\<And>r. outbox_key (f r) = outbox_key r"
  shows "outbox_wf (update_rows P f t)"
proof -
  have "List.map_filter outbox_key (ox_rows (update_rows P f t)) = List.map_filter outbox_key (ox_rows t)"
  proof -
    have "List.map_filter outbox_key (map (\<lambda>r. if P r then f r else r) rs) = List.map_filter outbox_key rs" for rs
      using assms(3) by (induction rs) (simp_all add: List.map_filter_simps split: option.split)
    then show ?thesis by (simp add: update_rows_def)
  qed
  moreover have "list_all (\<lambda>r. ob_id r < ox_next t) (ox_rows (update_rows P f t))"
    using assms(1,2) by (auto simp: outbox_wf_def update_rows_def list_all_iff)
  ultimately show ?thesis
    using assms(1,2) by (simp add: outbox_wf_def) (simp add: update_rows_def)
qed

lemma claim_wf: "outbox_wf t \<Longrightarrow> outbox_wf (snd (claim_outbox_batch now limit t))"
  by (simp add: claim_outbox_batch_def Let_def update_rows_wf claim_row_def outbox_key_def)

lemma mark_published_wf: "outbox_wf t \<Longrightarrow> outbox_wf (mark_outbox_published now i t)"
  by (simp add: mark_outbox_published_def update_rows_wf outbox_key_def)

lemma mark_failed_wf: "outbox_wf t \<Longrightarrow> outbox_wf (mark_outbox_failed now i e a m t)"
  by (simp add: mark_outbox_failed_def update_rows_wf outbox_key_def)

lemma publish_row_wf: "outbox_wf (pb_table s) \<Longrightarrow> outbox_wf (pb_table (publish_row now p s r))"
  by (simp add: publish_row_def Let_def mark_published_wf mark_failed_wf split: option.split)

lemma foldl_publish_wf:
  "outbox_wf (pb_table s) \<Longrightarrow> outbox_wf (pb_table (foldl (publish_row now p) s rows))"
  by (induction rows arbitrary: s) (simp_all add: publish_row_wf)

lemma insert_outbox_wf:
  assumes "outbox_wf t"
  shows "outbox_wf (insert_outbox encode now x i subject payload t)"
proof -
  have "(y, i) \<notin> set (List.map_filter outbox_key (ox_rows t))"
    if "x = Some y" "\<not> outbox_conflict t x i" for y
    using that by (auto simp: outbox_conflict_def outbox_key_def List.map_filter_def list_ex_iff)
  moreover have "outbox_key (new_outbox_row encode now j x i subject payload) = map_option (\<lambda>y. (y, i)) x" for j
    by (simp add: outbox_key_def new_outbox_row_def)
  moreover have "ob_id (new_outbox_row encode now j x i subject payload) = j" for j
    by (simp add: new_outbox_row_def)
  ultimately show ?thesis using assms
    by (cases x) (auto simp: insert_outbox_def outbox_wf_def list_all_iff List.map_filter_def less_Suc_eq)
qed

lemma enqueue_wf: "enqueue_outbox encode now event subject t = Inr t' \<Longrightarrow> outbox_wf t \<Longrightarrow> outbox_wf t'"
  by (auto simp: enqueue_outbox_def Let_def insert_outbox_wf elim!: rbind_InrE split: if_splits)

section \<open>Settling a batch\<close>

definition settled_rel :: "nat set \<Rightarrow> outbox_row \<Rightarrow> outbox_row \<Rightarrow> bool" where
  "settled_rel ids r r' =
     (ob_id r' = ob_id r \<and> (ob_id r \<notin> ids \<longrightarrow> r' = r) \<and>
      (ob_id r \<in> ids \<longrightarrow> ob_status r' = PUBLISHED \<or> ob_status r' = FAILED))"

lemma list_all2_map_right: "(\<And>x. x \<in> set xs \<Longrightarrow> P x (f x)) \<Longrightarrow> list_all2 P xs (map f xs)"
  by (induction xs) auto

lemma list_all2_compose:
  assumes "list_all2 P xs ys" and "list_all2 Q ys zs" and "\<And>x y z. P x y \<Longrightarrow> Q y z \<Longrightarrow> R x z"
  shows "list_all2 R xs zs"
  using list_all2_trans [of P Q R xs ys zs] assms by blast

lemma publish_row_settles:
  "list_all2 (settled_rel {ob_id r}) (ox_rows (pb_table s)) (ox_rows (pb_table (publish_row now p s r)))"
  by (auto simp: publish_row_def Let_def mark_outbox_published_def mark_outbox_failed_def
      update_rows_def settled_rel_def split: option.split intro!: list_all2_map_right)

lemma foldl_publish_settles:
  "list_all2 (settled_rel (set (map ob_id rows))) (ox_rows (pb_table s))
     (ox_rows (pb_table (foldl (publish_row now p) s rows)))"
proof (induction rows arbitrary: s)
  case Nil
  show ?case by (simp add: settled_rel_def list.rel_refl)
next
  case (Cons r rows)
  have "list_all2 (settled_rel (set (map ob_id (r # rows)))) (ox_rows (pb_table s))
      (ox_rows (pb_table (foldl (publish_row now p) (publish_row now p s r) rows)))"
    by (rule list_all2_compose [OF publish_row_settles Cons.IH]) (auto simp: settled_rel_def)
  then show ?case by simp
qed

lemma foldl_publish_sent:
  "pb_sent (foldl (publish_row now p) s rows) = pb_sent s @ map ob_payload rows"
proof (induction rows arbitrary: s)
  case (Cons r rows)
  have "pb_sent (publish_row now p s r) = pb_sent s @ [ob_payload r]"
    by (simp add: publish_row_def Let_def split: option.split)
  with Cons show ?case by simp
qed simp

lemma ready_ids_ids: "set (ready_ids now limit t) \<subseteq> ob_id ` set (ox_rows t)"
  by (auto simp: ready_ids_def dest!: in_set_takeD)

lemma claim_row_simps [simp]:
  "ob_id (claim_row r) = ob_id r" "ob_payload (claim_row r) = ob_payload r"
  "ob_status (claim_row r) = IN_FLIGHT" "ob_attempts (claim_row r) = ob_attempts r + 1"
  by (simp_all add: claim_row_def)

lemma claimed_rows:
  "fst (claim_outbox_batch now limit t)
     = map claim_row (filter (\<lambda>r. ob_id r \<in> set (ready_ids now limit t)) (ox_rows t))"
proof -
  have "filter (\<lambda>r. ob_id r \<in> S) (map (\<lambda>r. if ob_id r \<in> S then claim_row r else r) rs)
      = map claim_row (filter (\<lambda>r. ob_id r \<in> S) rs)" for S rs
    by (induction rs) auto
  then show ?thesis by (simp add: claim_outbox_batch_def Let_def update_rows_def)
qed

lemma claimed_ids: "set (map ob_id (fst (claim_outbox_batch now limit t))) = set (ready_ids now limit t)"
  using ready_ids_ids [of now limit t] by (auto simp: claimed_rows)


section \<open>Rows in flight\<close>

datatype outbox_op =
    OpEnqueue int pydict "string option"
  | OpClaim int int
  | OpPublished int nat
  | OpFailed int nat string int

definition outbox_step :: "(pydict \<Rightarrow> string option) \<Rightarrow> outbox_table \<Rightarrow> outbox_op \<Rightarrow> outbox_table" where
  "outbox_step encode t op =
     (case op of
        OpEnqueue now event subject \<Rightarrow>
          (case enqueue_outbox encode now event subject t of Inl _ \<Rightarrow> t | Inr t' \<Rightarrow> t')
      | OpClaim now limit \<Rightarrow> snd (claim_outbox_batch now limit t)
      | OpPublished now i \<Rightarrow> mark_outbox_published now i t
      | OpFailed now i err attempts \<Rightarrow> mark_outbox_failed now i err attempts 300 t)"

definition settles :: "nat \<Rightarrow> outbox_op \<Rightarrow> bool" where
  "settles i op = (case op of OpPublished _ j \<Rightarrow> j = i | OpFailed _ j _ _ \<Rightarrow> j = i | _ \<Rightarrow> False)"

lemma in_flight_not_ready:
  assumes "outbox_wf t" and "r \<in> set (ox_rows t)" and "ob_status r = IN_FLIGHT"
  shows "ob_id r \<notin> set (ready_ids now limit t)"
proof
  assume "ob_id r \<in> set (ready_ids now limit t)"
  then obtain r' where "r' \<in> set (ox_rows t)" "row_ready now r'" "ob_id r' = ob_id r"
    by (auto simp: ready_ids_def dest!: in_set_takeD)
  moreover have "inj_on ob_id (set (ox_rows t))" using assms(1) by (simp add: outbox_wf_def distinct_map)
  ultimately have "r' = r" using assms(2) by (meson inj_onD)
  with \<open>row_ready now r'\<close> assms(3) show False by (simp add: row_ready_def)
qed

lemma outbox_step_wf: "outbox_wf t \<Longrightarrow> outbox_wf (outbox_step encode t op)"
  by (auto simp: outbox_step_def claim_wf mark_published_wf mark_failed_wf enqueue_wf
      split: outbox_op.split sum.split)

lemma enqueue_keeps_rows:
  "enqueue_outbox encode now event subject t = Inr t' \<Longrightarrow> set (ox_rows t) \<subseteq> set (ox_rows t')"
  by (auto simp: enqueue_outbox_def insert_outbox_def Let_def elim!: rbind_InrE split: if_splits)

lemma outbox_step_in_flight:
  assumes "outbox_wf t" and "r \<in> set (ox_rows t)" and "ob_status r = IN_FLIGHT"
    and "\<not> settles (ob_id r) op"
  shows "r \<in> set (ox_rows (outbox_step encode t op))"
proof (cases op)
  case (OpEnqueue now event subject)
  then show ?thesis
    using assms(2) enqueue_keeps_rows [of encode now event subject t]
    by (auto simp: outbox_step_def split: sum.split)
next
  case (OpClaim now limit)
  then show ?thesis
    using in_flight_not_ready [OF assms(1-3), of now limit] assms(2)
    by (force simp: outbox_step_def claim_outbox_batch_def Let_def update_rows_def)
qed (use assms in \<open>force simp: outbox_step_def settles_def mark_outbox_published_def
    mark_outbox_failed_def update_rows_def\<close>)+

text \<open>
  A row in flight stays in flight until a mark names it: no sequence of enqueues, claims and
  marks of other rows, however long, changes it, and no claim along the way returns it. So a
  publisher that stops between its claim and its marks strands the rows it claimed, and their
  events are never published.
\<close>
lemma in_flight_row_stranded:
  assumes "outbox_wf t" and "r \<in> set (ox_rows t)" and "ob_status r = IN_FLIGHT"
    and "list_all (\<lambda>op. \<not> settles (ob_id r) op) ops"
  shows "r \<in> set (ox_rows (foldl (outbox_step encode) t ops)) \<and>
    ob_id r \<notin> set (map ob_id (fst (claim_outbox_batch now limit (foldl (outbox_step encode) t ops))))"
proof -
  have "outbox_wf (foldl (outbox_step encode) t ops) \<and> r \<in> set (ox_rows (foldl (outbox_step encode) t ops))"
    using assms
  proof (induction ops arbitrary: t)
    case (Cons op ops)
    then show ?case
      using Cons.IH [of "outbox_step encode t op"] outbox_step_in_flight [of t r op encode]
      by (simp add: outbox_step_wf)
  qed simp
  then show ?thesis using in_flight_not_ready assms(3) unfolding claimed_ids by blast
qed

definition sample_outbox :: outbox_table where
  "sample_outbox = snd (claim_outbox_batch 0 1 (insert_outbox (\<lambda>_. None) 0 (Some 5) 8 None []
     (insert_outbox (\<lambda>_. None) 0 (Some 5) 7 None [] \<lparr>ox_rows = [], ox_next = 1\<rparr>)))"

lemma in_flight_row_stranded_witness:
  "\<exists>r. ob_event_id r = 7 \<and> r \<in> set (ox_rows (foldl (outbox_step (\<lambda>_. None)) sample_outbox
       [OpClaim 100 10, OpPublished 100 2])) \<and> ob_status r = IN_FLIGHT"
proof -
  define r where "r = hd (ox_rows sample_outbox)"
  have r: "r \<in> set (ox_rows sample_outbox)" "ob_status r = IN_FLIGHT" "ob_event_id r = 7" "ob_id r = 1"
    by (simp_all add: r_def sample_outbox_def claim_outbox_batch_def insert_outbox_def Let_def
        ready_ids_def update_rows_def outbox_conflict_def new_outbox_row_def row_ready_def claim_row_def)
  have "outbox_wf sample_outbox"
    unfolding sample_outbox_def
    by (intro claim_wf insert_outbox_wf) (simp add: outbox_wf_def List.map_filter_simps)
  moreover have "list_all (\<lambda>op. \<not> settles (ob_id r) op) [OpClaim 100 10, OpPublished 100 2]"
    by (simp add: settles_def r)
  ultimately show ?thesis using in_flight_row_stranded r by blast
qed

text \<open>
  Enqueueing an event of an execution twice adds one row: the second call changes nothing but
  the sequence.
\<close>
lemma enqueue_idempotent:
  assumes "enqueue_outbox encode now event subject t = Inr t1"
    and "py_get (normalize_outbox_payload event) ''execution_id'' \<noteq> VNone"
  shows "\<exists>t2. enqueue_outbox encode now' event subject' t1 = Inr t2 \<and> ox_rows t2 = ox_rows t1"
proof -
  obtain x i where xi: "int_or_none (py_get (normalize_outbox_payload event) ''execution_id'') = Inr x"
    "py_int (py_get event ''event_id'') = Inr i" "py_get event ''event_id'' \<noteq> VNone"
    "t1 = insert_outbox encode now x i subject (normalize_outbox_payload event) t"
    using assms(1) by (auto simp: enqueue_outbox_def Let_def elim!: rbind_InrE split: if_splits)
  obtain y where "x = Some y" using xi(1) assms(2) by (auto simp: int_or_none_def elim!: rbind_InrE)
  then have "outbox_conflict t1 x i"
    using xi(4) by (auto simp: insert_outbox_def outbox_conflict_def new_outbox_row_def)
  then show ?thesis using xi by (simp add: enqueue_outbox_def insert_outbox_def Let_def)
qed

lemma enqueue_idempotent_witness:
  "\<exists>t1 t2. enqueue_outbox (\<lambda>_. None) 0 [(''event_id'', VInt 7), (''execution_id'', VInt 5)] None
      \<lparr>ox_rows = [], ox_next = 1\<rparr> = Inr t1 \<and> length (ox_rows t1) = 1 \<and>
     enqueue_outbox (\<lambda>_. None) 9 [(''event_id'', VInt 7), (''execution_id'', VInt 5)] None t1 = Inr t2 \<and>
     ox_rows t2 = ox_rows t1"
proof -
  let ?e = "[(''event_id'', VInt 7), (''execution_id'', VInt 5)]"
  have x: "py_get (normalize_outbox_payload ?e) ''execution_id'' = VInt 5" by code_simp
  then obtain t1 where t1: "enqueue_outbox (\<lambda>_. None) 0 ?e None \<lparr>ox_rows = [], ox_next = 1\<rparr> = Inr t1"
    "length (ox_rows t1) = 1"
    by (simp add: enqueue_outbox_def insert_outbox_def outbox_conflict_def int_or_none_def Let_def)
  from enqueue_idempotent [OF t1(1), of 9 None] x t1 show ?thesis by auto
qed

text \<open>
  The retry delay of a failed row is a power of two between one second and 256 seconds, so
  the default cap of 300 seconds is never what bounds it, and it never shrinks with attempts.
\<close>
lemma retry_delay_bounds:
  "1 \<le> retry_delay 300 attempts \<and> retry_delay 300 attempts \<le> 256 \<and>
   (attempts \<le> attempts' \<longrightarrow> retry_delay 300 attempts \<le> retry_delay 300 attempts')"
proof -
  have le: "(2::int) ^ nat (min 8 (max 0 (a - 1))) \<le> 256" for a
    using power_increasing [of "nat (min 8 (max 0 (a - 1)))" 8 "2::int"] by simp
  have "retry_delay 300 a = 2 ^ nat (min 8 (max 0 (a - 1)))" for a
    using le [of a] by (simp add: retry_delay_def)
  then show ?thesis using le by (auto intro!: power_increasing)
qed

lemma retry_delay_bounds_witness: "retry_delay 300 3 \<le> retry_delay 300 5 \<and> retry_delay 300 5 = 16"
  using retry_delay_bounds [of 3 5] by (simp add: retry_delay_def)

end
