(* ===== verification/Event_Store.thy ===== *)
theory Event_Store
  imports Outbox
begin

text \<open>
  The event store: \<^verbatim>\<open>src/noetl/core/event_store/ports.py\<close> (records, envelopes, checksums) and the
  Postgres adapter \<^verbatim>\<open>src/noetl/core/event_store/postgres.py\<close> (append with optimistic
  concurrency, read). The table \<open>noetl.event\<close> is a list of rows; its check constraints are a
  parameter \<open>accepts\<close> of the insert, instantiated by the shipped schema's in the last section, and
  the snowflake generator, the clock and the Arrow encoder are parameters too. An append is one
  transaction: an exception leaves the tables as they were. The locale \<open>event_log\<close> states what a
  client relies on; the adapter satisfies it for clients that name the stream in their records,
  and the theory shows what happens to the others.
\<close>

section \<open>Records and envelopes\<close>

record payload_reference =
  pr_sha256 :: string
  pr_byte_length :: int
  pr_content_type :: string
  pr_uri :: "string option"
  pr_metadata :: pydict

datatype payload_ref_value =
    NoPayload
  | StorePayload payload_reference
  | DictPayload pydict
  | OtherPayload

record event_record =
  ev_event_type :: string
  ev_stream_id :: string
  ev_tenant_id :: string
  ev_organization_id :: string
  ev_execution_id :: "int option"
  ev_aggregate_id :: "string option"
  ev_aggregate_type :: "string option"
  ev_schema_name :: "string option"
  ev_schema_version :: int
  ev_producer :: "string option"
  ev_causation_id :: "string option"
  ev_correlation_id :: "string option"
  ev_idempotency_key :: "string option"
  ev_payload_ref :: payload_ref_value
  ev_result :: pydict
  ev_meta :: pydict
  ev_status :: "string option"
  ev_node_name :: "string option"
  ev_event_time :: "string option"

definition default_record :: "string \<Rightarrow> string \<Rightarrow> event_record" where
  "default_record event_type stream_id =
     \<lparr>ev_event_type = event_type, ev_stream_id = stream_id, ev_tenant_id = ''default'',
      ev_organization_id = ''default'', ev_execution_id = None, ev_aggregate_id = None,
      ev_aggregate_type = None, ev_schema_name = None, ev_schema_version = 1, ev_producer = None,
      ev_causation_id = None, ev_correlation_id = None, ev_idempotency_key = None,
      ev_payload_ref = NoPayload, ev_result = [], ev_meta = [], ev_status = None,
      ev_node_name = None, ev_event_time = None\<rparr>"

definition payload_ref_to_dict :: "payload_ref_value \<Rightarrow> pydict option res" where
  "payload_ref_to_dict v =
     (case v of
        NoPayload \<Rightarrow> Inr None
      | StorePayload p \<Rightarrow> Inr (Some [(''kind'', VStr ''payload_store''), (''sha256'', VStr (pr_sha256 p)),
          (''byte_length'', VInt (pr_byte_length p)), (''content_type'', VStr (pr_content_type p)),
          (''uri'', enc_str (pr_uri p)), (''metadata'', VDict (pr_metadata p))])
      | DictPayload d \<Rightarrow> Inr (Some d)
      | OtherPayload \<Rightarrow> Inl (TypeError ''EventRecord.payload_ref must be None, a PayloadReference, or a dict''))"

text \<open>\<open>self.schema_name or f"noetl.{self.event_type}"\<close>: an empty name counts as absent.\<close>

definition envelope_body :: "event_record \<Rightarrow> int \<Rightarrow> string \<Rightarrow> pydict res" where
  "envelope_body r stream_version now =
     rbind (payload_ref_to_dict (ev_payload_ref r)) (\<lambda>ref.
       Inr [(''tenant_id'', VStr (ev_tenant_id r)), (''organization_id'', VStr (ev_organization_id r)),
            (''execution_id'', enc_int (ev_execution_id r)), (''stream_id'', VStr (ev_stream_id r)),
            (''stream_version'', VInt stream_version), (''aggregate_id'', enc_str (ev_aggregate_id r)),
            (''aggregate_type'', enc_str (ev_aggregate_type r)),
            (''event_type'', VStr (ev_event_type r)),
            (''schema_name'', (case ev_schema_name r of
               Some (c # s) \<Rightarrow> VStr (c # s) | _ \<Rightarrow> VStr (''noetl.'' @ ev_event_type r))),
            (''schema_version'', VInt (ev_schema_version r)),
            (''event_time'', VStr (case ev_event_time r of None \<Rightarrow> now | Some t \<Rightarrow> t)),
            (''producer'', enc_str (ev_producer r)), (''causation_id'', enc_str (ev_causation_id r)),
            (''correlation_id'', enc_str (ev_correlation_id r)),
            (''idempotency_key'', enc_str (ev_idempotency_key r)),
            (''payload_ref'', (case ref of None \<Rightarrow> VNone | Some d \<Rightarrow> VDict d)),
            (''result'', VDict (ev_result r)), (''meta'', VDict (ev_meta r)),
            (''status'', enc_str (ev_status r)), (''node_name'', enc_str (ev_node_name r))])"

definition envelope :: "event_record \<Rightarrow> int \<Rightarrow> int option \<Rightarrow> string \<Rightarrow> pydict res" where
  "envelope r stream_version event_id now =
     rbind (envelope_body r stream_version now) (\<lambda>body.
       Inr ((''event_id'', enc_int event_id) # body
            @ [(''envelope_checksum'', VStr (canonical_checksum (VDict body)))]))"

section \<open>The adapter\<close>

record stored_event =
  se_stream_id :: string
  se_version :: int
  se_event_id :: int
  se_cells :: pydict

record store_db =
  db_events :: "stored_event list"
  db_drawn :: nat
  db_outbox :: outbox_table

record store_config =
  cf_snowflake :: "nat \<Rightarrow> int"
  cf_now :: string
  cf_clock :: int
  cf_accepts :: "pydict \<Rightarrow> bool"
  cf_mirror :: bool
  cf_encode :: "pydict \<Rightarrow> string option"
  cf_subject :: "pydict \<Rightarrow> string"

definition current_version :: "store_db \<Rightarrow> string \<Rightarrow> int" where
  "current_version db stream_id =
     fold max (map se_version (filter (\<lambda>e. se_stream_id e = stream_id) (db_events db))) 0"

text \<open>The columns of the insert statement with the values it passes.\<close>

definition insert_cells :: "pydict \<Rightarrow> pydict" where
  "insert_cells env =
     map (\<lambda>k. (k, (if k = ''result'' \<or> k = ''meta'' then py_or (py_get env k) (VDict [])
                   else if k = ''payload_ref'' \<and> \<not> truthy (py_get env k) then VNone
                   else py_get env k)))
       [''event_id'', ''execution_id'', ''event_type'', ''node_name'', ''status'', ''result'', ''meta'',
        ''tenant_id'', ''organization_id'', ''stream_id'', ''stream_version'', ''aggregate_id'',
        ''aggregate_type'', ''schema_name'', ''schema_version'', ''event_time'', ''producer'',
        ''causation_id'', ''correlation_id'', ''idempotency_key'', ''payload_ref'', ''envelope_checksum'']"

definition enqueue_event_store_outbox :: "store_config \<Rightarrow> pydict \<Rightarrow> outbox_table \<Rightarrow> outbox_table res" where
  "enqueue_event_store_outbox cf env t =
     (if \<not> cf_mirror cf then Inr t
      else enqueue_outbox (cf_encode cf) (cf_clock cf) env (Some (cf_subject cf env)) t)"

definition append_one :: "store_config \<Rightarrow> int \<times> store_db \<Rightarrow> event_record \<Rightarrow> (int \<times> store_db) res" where
  "append_one cf s r =
     (case s of (version, db) \<Rightarrow>
       (let next_version = version + 1; event_id = cf_snowflake cf (db_drawn db) in
        rbind (envelope r next_version (Some event_id) (cf_now cf)) (\<lambda>env.
          if \<not> cf_accepts cf (insert_cells env) then Inl (RuntimeError ''row violates a constraint'')
          else rbind (enqueue_event_store_outbox cf env (db_outbox db)) (\<lambda>ob.
            Inr (next_version,
              \<lparr>db_events = db_events db @ [\<lparr>se_stream_id = ev_stream_id r, se_version = next_version,
                  se_event_id = event_id, se_cells = insert_cells env\<rparr>],
               db_drawn = db_drawn db + 1, db_outbox = ob\<rparr>)))))"

definition append_events ::
  "store_config \<Rightarrow> store_db \<Rightarrow> string \<Rightarrow> event_record list \<Rightarrow> int option \<Rightarrow> (int \<times> store_db) res" where
  "append_events cf db stream_id events expected_version =
     (if events = [] then Inr (case expected_version of None \<Rightarrow> 0 | Some v \<Rightarrow> v, db)
      else
        (let current = current_version db stream_id in
         if (case expected_version of None \<Rightarrow> False | Some v \<Rightarrow> current \<noteq> v)
         then Inl (RuntimeError ''ExpectedVersionConflict'')
         else rfold (append_one cf) (current, db) events))"

definition read_stream :: "store_db \<Rightarrow> string \<Rightarrow> int \<Rightarrow> nat \<Rightarrow> stored_event list" where
  "read_stream db stream_id from_version limit =
     take limit (sort_key se_version
       (filter (\<lambda>e. se_stream_id e = stream_id \<and> from_version \<le> se_version e) (db_events db)))"

section \<open>Versions\<close>

lemma fold_max_ge: "(a::int) \<le> fold max xs a"
  by (induction xs arbitrary: a) (simp, metis fold_simps(2) max.bounded_iff max.cobounded2 order_trans)

lemma fold_max_append: "fold max (xs @ ys) a = fold max ys (fold max xs (a::int))"
  by simp

lemma fold_max_member: "x \<in> set xs \<Longrightarrow> (x::int) \<le> fold max xs a"
  by (induction xs arbitrary: a) (auto intro: order_trans [OF _ fold_max_ge])

lemma current_version_nonneg: "0 \<le> current_version db k"
  by (simp add: current_version_def fold_max_ge)

lemma append_one_Inr:
  assumes "append_one cf (v, db) r = Inr (v', db')"
  shows "v' = v + 1 \<and> (\<exists>e. db_events db' = db_events db @ [e] \<and> se_stream_id e = ev_stream_id r \<and>
    se_version e = v + 1 \<and> se_event_id e = cf_snowflake cf (db_drawn db))"
  using assms by (auto simp: append_one_def Let_def elim!: rbind_InrE split: if_splits)

lemma rfold_append_Inr:
  "rfold (append_one cf) (v, db) rs = Inr (v', db') \<Longrightarrow>
   v' = v + int (length rs) \<and>
   (\<exists>es. db_events db' = db_events db @ es \<and> length es = length rs \<and>
     map se_stream_id es = map ev_stream_id rs \<and> map se_version es = map (\<lambda>i. v + 1 + int i) [0..<length rs])"
proof (induction rs arbitrary: v db)
  case (Cons r rs)
  obtain v1 db1 where s: "append_one cf (v, db) r = Inr (v1, db1)"
    "rfold (append_one cf) (v1, db1) rs = Inr (v', db')"
    using Cons.prems by (auto elim!: rbind_InrE)
  obtain e where e: "v1 = v + 1" "db_events db1 = db_events db @ [e]" "se_stream_id e = ev_stream_id r"
    "se_version e = v + 1"
    using append_one_Inr [OF s(1)] by blast
  obtain es where es: "v' = v1 + int (length rs)" "db_events db' = db_events db1 @ es"
    "length es = length rs" "map se_stream_id es = map ev_stream_id rs"
    "map se_version es = map (\<lambda>i. v1 + 1 + int i) [0..<length rs]"
    using Cons.IH [OF s(2)] by blast
  have "map se_version (e # es) = map (\<lambda>i. v + 1 + int i) [0..<length (r # rs)]"
    using e es by (simp add: upt_conv_Cons map_Suc_upt [symmetric] del: upt_Suc)
  then show ?case using e es by (intro conjI exI [of _ "e # es"]) auto
qed simp

lemma fold_max_upto: "fold max (map (\<lambda>i. v + 1 + int i) [0..<n]) v = v + int n"
  by (induction n) auto

lemma append_events_Inr:
  assumes "append_events cf db k rs ex = Inr (n, db')" and "rs \<noteq> []"
  shows "n = current_version db k + int (length rs) \<and>
    (\<exists>es. db_events db' = db_events db @ es \<and> length es = length rs \<and>
      map se_stream_id es = map ev_stream_id rs \<and>
      map se_version es = map (\<lambda>i. current_version db k + 1 + int i) [0..<length rs])"
  using assms rfold_append_Inr
  by (fastforce simp: append_events_def Let_def split: if_splits)

lemma current_version_append:
  assumes "db_events db' = db_events db @ es"
  shows "current_version db' k = fold max (map se_version (filter (\<lambda>e. se_stream_id e = k) es)) (current_version db k)"
  by (simp add: current_version_def assms)

lemma filter_all_stream: "map se_stream_id es = map ev_stream_id rs \<Longrightarrow> list_all (\<lambda>r. ev_stream_id r = k) rs \<Longrightarrow>
    filter (\<lambda>e. se_stream_id e = k) es = es"
proof (induction es arbitrary: rs)
  case (Cons e es)
  then obtain r rs' where "rs = r # rs'" by (cases rs) auto
  with Cons show ?case by auto
qed simp

lemma all_streams:
  assumes "map se_stream_id es = map ev_stream_id rs" and "list_all (\<lambda>r. ev_stream_id r = k) rs"
    and "e \<in> set es"
  shows "se_stream_id e = k"
proof -
  have "se_stream_id e \<in> set (map ev_stream_id rs)" using assms(1,3) by (metis image_eqI list.set_map)
  then show ?thesis using assms(2) by (auto simp: list_all_iff)
qed

section \<open>What a client of an event log relies on\<close>

locale event_log =
  fixes version :: "'s \<Rightarrow> string \<Rightarrow> int"
    and append :: "'s \<Rightarrow> string \<Rightarrow> 'e list \<Rightarrow> int option \<Rightarrow> (int \<times> 's) res"
  assumes appended: "append s k es ex = Inr (n, s') \<Longrightarrow> es \<noteq> [] \<Longrightarrow>
      n = version s k + int (length es) \<and> version s' k = n"
    and other_streams: "append s k es ex = Inr (n, s') \<Longrightarrow> es \<noteq> [] \<Longrightarrow> k' \<noteq> k \<Longrightarrow> version s' k' = version s k'"
    and conflict: "es \<noteq> [] \<Longrightarrow> version s k \<noteq> v \<Longrightarrow> \<exists>e. append s k es (Some v) = Inl e"
begin

text \<open>Of two writers that read the same version, only the first can append.\<close>

lemma one_writer_wins:
  assumes "append s k es (Some v) = Inr (n, s1)" and "es \<noteq> []" and "es' \<noteq> []"
  shows "v = version s k \<and> (\<exists>e. append s1 k es' (Some v) = Inl e)"
proof -
  have v: "v = version s k" using assms(1,2) conflict [of es s k v] by force
  have "version s1 k = version s k + int (length es)" using appended [OF assms(1,2)] by simp
  then have "version s1 k \<noteq> v" using v assms(2) by simp
  then show ?thesis using v conflict [OF assms(3)] by blast
qed

lemma versions_grow:
  "append s k es ex = Inr (n, s') \<Longrightarrow> es \<noteq> [] \<Longrightarrow> version s k' \<le> version s' k'"
  using appended [of s k es ex n s'] other_streams [of s k es ex n s' k'] by (cases "k' = k") auto

end

text \<open>The adapter used as intended: every record names the stream it is appended to.\<close>

definition named_append ::
  "store_config \<times> store_db \<Rightarrow> string \<Rightarrow> event_record list \<Rightarrow> int option \<Rightarrow>
   (int \<times> (store_config \<times> store_db)) res" where
  "named_append s k rs ex =
     (case s of (cf, db) \<Rightarrow>
       rbind (append_events cf db k (map (\<lambda>r. r\<lparr>ev_stream_id := k\<rparr>) rs) ex)
         (\<lambda>(n, db'). Inr (n, (cf, db'))))"

definition named_version :: "store_config \<times> store_db \<Rightarrow> string \<Rightarrow> int" where
  "named_version s k = current_version (snd s) k"

lemma named_append_Inr:
  assumes "named_append s k rs ex = Inr (n, s')" and "rs \<noteq> []"
  shows "n = named_version s k + int (length rs) \<and>
    named_version s' k' = (if k' = k then n else named_version s k')"
proof -
  obtain cf db where s: "s = (cf, db)" by (cases s)
  let ?rs = "map (\<lambda>r. r\<lparr>ev_stream_id := k\<rparr>) rs"
  obtain db' where a: "append_events cf db k ?rs ex = Inr (n, db')" and s': "s' = (cf, db')"
    using assms(1) s by (auto simp: named_append_def elim!: rbind_InrE)
  obtain es where es: "db_events db' = db_events db @ es" "map se_stream_id es = map ev_stream_id ?rs"
    "n = current_version db k + int (length rs)"
    "map se_version es = map (\<lambda>i. current_version db k + 1 + int i) [0..<length rs]"
    using append_events_Inr [OF a] assms(2) by auto
  have all: "list_all (\<lambda>r. ev_stream_id r = k) ?rs" by (simp add: list_all_iff)
  have "current_version db' k = n"
    using filter_all_stream [OF es(2) all] es
    by (simp add: current_version_append [OF es(1)] fold_max_upto)
  moreover have "current_version db' k' = current_version db k'" if "k' \<noteq> k"
  proof -
    have "\<forall>e \<in> set es. se_stream_id e = k"
      using all_streams [OF es(2) all] by blast
    then have "filter (\<lambda>e. se_stream_id e = k') es = []" using that by (auto simp: filter_empty_conv)
    then show ?thesis by (simp add: current_version_append [OF es(1)])
  qed
  ultimately show ?thesis using s s' es(3) by (simp add: named_version_def)
qed

interpretation pg_log: event_log named_version named_append
proof
  fix s :: "store_config \<times> store_db" and k k' :: string and es :: "event_record list" and ex n s' v
  show "named_append s k es ex = Inr (n, s') \<Longrightarrow> es \<noteq> [] \<Longrightarrow>
      n = named_version s k + int (length es) \<and> named_version s' k = n"
    by (auto dest!: named_append_Inr [where k' = k])
  show "named_append s k es ex = Inr (n, s') \<Longrightarrow> es \<noteq> [] \<Longrightarrow> k' \<noteq> k \<Longrightarrow>
      named_version s' k' = named_version s k'"
    by (auto dest!: named_append_Inr [where k' = k'])
  show "es \<noteq> [] \<Longrightarrow> named_version s k \<noteq> v \<Longrightarrow> \<exists>e. named_append s k es (Some v) = Inl e"
    by (cases s) (simp add: named_append_def append_events_def named_version_def)
qed

section \<open>Interleaved appends\<close>

text \<open>
  Appends as concurrent transactions: \<open>Begin\<close> takes the advisory lock \<open>h stream\<close>
  (\<open>hashtext\<close>, any hash), \<open>Read\<close> sees the committed rows, \<open>Insert\<close> numbers a row from the version
  read, \<open>Commit\<close> publishes the buffer and frees the lock, \<open>Abort\<close> drops it.
\<close>

record append_tx =
  tx_stream :: string
  tx_version :: "int option"
  tx_buffer :: "stored_event list"

record tx_state =
  ts_events :: "stored_event list"
  ts_active :: "(nat \<times> append_tx) list"

definition stream_versions :: "stored_event list \<Rightarrow> string \<Rightarrow> int list" where
  "stream_versions es k = map se_version (filter (\<lambda>e. se_stream_id e = k) es)"

definition lock_free :: "(string \<Rightarrow> int) \<Rightarrow> tx_state \<Rightarrow> string \<Rightarrow> bool" where
  "lock_free h s k = list_all (\<lambda>(_, x). h (tx_stream x) \<noteq> h k) (ts_active s)"

inductive tx_step :: "(string \<Rightarrow> int) \<Rightarrow> tx_state \<Rightarrow> tx_state \<Rightarrow> bool" for h where
  Begin: "map_of (ts_active s) t = None \<Longrightarrow> lock_free h s k \<Longrightarrow>
    tx_step h s (s\<lparr>ts_active := (t, \<lparr>tx_stream = k, tx_version = None, tx_buffer = []\<rparr>) # ts_active s\<rparr>)"
| Read: "map_of (ts_active s) t = Some x \<Longrightarrow> tx_version x = None \<Longrightarrow>
    tx_step h s (s\<lparr>ts_active := AList.update t
      (x\<lparr>tx_version := Some (fold max (stream_versions (ts_events s) (tx_stream x)) 0)\<rparr>) (ts_active s)\<rparr>)"
| Insert: "map_of (ts_active s) t = Some x \<Longrightarrow> tx_version x = Some v \<Longrightarrow>
    se_stream_id e = tx_stream x \<Longrightarrow> se_version e = v + 1 + int (length (tx_buffer x)) \<Longrightarrow>
    tx_step h s (s\<lparr>ts_active := AList.update t (x\<lparr>tx_buffer := tx_buffer x @ [e]\<rparr>) (ts_active s)\<rparr>)"
| Commit: "map_of (ts_active s) t = Some x \<Longrightarrow>
    tx_step h s (s\<lparr>ts_events := ts_events s @ tx_buffer x, ts_active := AList.delete t (ts_active s)\<rparr>)"
| Abort: "map_of (ts_active s) t = Some x \<Longrightarrow>
    tx_step h s (s\<lparr>ts_active := AList.delete t (ts_active s)\<rparr>)"

inductive_cases tx_stepE: "tx_step h s s'"

definition consecutive :: "stored_event list \<Rightarrow> bool" where
  "consecutive es = (\<forall>k. stream_versions es k = map (\<lambda>i. 1 + int i) [0..<length (stream_versions es k)])"

definition tx_ok :: "tx_state \<Rightarrow> append_tx \<Rightarrow> bool" where
  "tx_ok s x = (case tx_version x of
      None \<Rightarrow> tx_buffer x = []
    | Some v \<Rightarrow> v = int (length (stream_versions (ts_events s) (tx_stream x))) \<and>
        list_all (\<lambda>e. se_stream_id e = tx_stream x) (tx_buffer x) \<and>
        map se_version (tx_buffer x) = map (\<lambda>i. v + 1 + int i) [0..<length (tx_buffer x)])"

definition tx_inv :: "(string \<Rightarrow> int) \<Rightarrow> tx_state \<Rightarrow> bool" where
  "tx_inv h s =
     (consecutive (ts_events s) \<and> dict_wf (ts_active s) \<and>
      (\<forall>t x. map_of (ts_active s) t = Some x \<longrightarrow> tx_ok s x) \<and>
      (\<forall>t x t' x'. map_of (ts_active s) t = Some x \<longrightarrow> map_of (ts_active s) t' = Some x' \<longrightarrow>
         h (tx_stream x) = h (tx_stream x') \<longrightarrow> t = t'))"

lemma fold_max_one: "fold max (map (\<lambda>i. 1 + int i) [0..<n]) 0 = int n"
  using fold_max_upto [of 0 n] by simp

lemma stream_versions_append:
  "stream_versions (es @ fs) k = stream_versions es k @ stream_versions fs k"
  by (simp add: stream_versions_def)

lemma stream_versions_buffer:
  "list_all (\<lambda>e. se_stream_id e = j) fs \<Longrightarrow>
   stream_versions fs k = (if k = j then map se_version fs else [])"
  by (induction fs) (auto simp: stream_versions_def)

lemma tx_ok_active [simp]: "tx_ok (s\<lparr>ts_active := a\<rparr>) x = tx_ok s x"
  by (simp add: tx_ok_def cong: option.case_cong)

lemma upt_shift: "map (\<lambda>i. int n + 1 + int i) [0..<m] = map (\<lambda>i. 1 + int i) [n..<n + m]"
  by (induction m) auto

lemma tx_inv_commit:
  assumes "tx_inv h s" and "map_of (ts_active s) t = Some x"
  shows "tx_inv h (s\<lparr>ts_events := ts_events s @ tx_buffer x, ts_active := AList.delete t (ts_active s)\<rparr>)"
proof -
  have ok: "tx_ok s x" and cons: "consecutive (ts_events s)" and wf: "dict_wf (ts_active s)"
    using assms by (auto simp: tx_inv_def)
  define n where "n k = length (stream_versions (ts_events s) k)" for k
  have all: "list_all (\<lambda>e. se_stream_id e = tx_stream x) (tx_buffer x)"
    and vs: "map se_version (tx_buffer x)
      = map (\<lambda>i. int (n (tx_stream x)) + 1 + int i) [0..<length (tx_buffer x)]"
    using ok by (auto simp: tx_ok_def n_def split: option.splits)
  have new: "stream_versions (ts_events s @ tx_buffer x) k
      = (if k = tx_stream x then stream_versions (ts_events s) k @ map se_version (tx_buffer x)
         else stream_versions (ts_events s) k)" for k
    by (simp add: stream_versions_append stream_versions_buffer [OF all])
  have "consecutive (ts_events s @ tx_buffer x)"
    unfolding consecutive_def
  proof
    fix k
    have old: "stream_versions (ts_events s) k = map (\<lambda>i. 1 + int i) [0..<n k]"
      using cons by (simp add: consecutive_def n_def)
    show "stream_versions (ts_events s @ tx_buffer x) k
        = map (\<lambda>i. 1 + int i) [0..<length (stream_versions (ts_events s @ tx_buffer x) k)]"
    proof (cases "k = tx_stream x")
      case True
      have "stream_versions (ts_events s @ tx_buffer x) k
          = map (\<lambda>i. 1 + int i) [0..<n k] @ map (\<lambda>i. 1 + int i) [n k..<n k + length (tx_buffer x)]"
        using new [of k] True old vs upt_shift [of "n k"] by simp
      also have "\<dots> = map (\<lambda>i. 1 + int i) [0..<n k + length (tx_buffer x)]"
        using upt_add_eq_append [of 0 "n k" "length (tx_buffer x)"] by (simp only: map_append le0)
      finally show ?thesis by simp
    qed (use old new [of k] in simp)
  qed
  moreover have "tx_ok (s\<lparr>ts_events := ts_events s @ tx_buffer x, ts_active := AList.delete t (ts_active s)\<rparr>) y"
    if y: "map_of (ts_active s) u = Some y" "u \<noteq> t" for u y
  proof -
    have "h (tx_stream x) \<noteq> h (tx_stream y)" using assms y by (auto simp: tx_inv_def)
    then have "tx_stream y \<noteq> tx_stream x" by metis
    moreover have "tx_ok s y" using assms(1) y(1) by (simp add: tx_inv_def)
    ultimately show ?thesis by (simp add: tx_ok_def new cong: option.case_cong)
  qed
  ultimately show ?thesis using assms(1) wf by (auto simp: tx_inv_def)
qed

lemma tx_inv_unique:
  "tx_inv h s \<Longrightarrow> map_of (ts_active s) t = Some x \<Longrightarrow> map_of (ts_active s) t' = Some x' \<Longrightarrow>
   h (tx_stream x) = h (tx_stream x') \<Longrightarrow> t = t'"
  unfolding tx_inv_def by blast

lemma tx_invI:
  assumes "consecutive (ts_events s)" and "dict_wf (ts_active s)"
    and "\<And>t x. map_of (ts_active s) t = Some x \<Longrightarrow> tx_ok s x"
    and "\<And>t x t' x'. map_of (ts_active s) t = Some x \<Longrightarrow> map_of (ts_active s) t' = Some x' \<Longrightarrow>
      h (tx_stream x) = h (tx_stream x') \<Longrightarrow> t = t'"
  shows "tx_inv h s"
  unfolding tx_inv_def using assms by blast

lemma tx_invD:
  assumes "tx_inv h s"
  shows "consecutive (ts_events s)" "dict_wf (ts_active s)"
    "map_of (ts_active s) t = Some x \<Longrightarrow> tx_ok s x"
  using assms unfolding tx_inv_def by blast+

lemma tx_inv_update:
  assumes inv: "tx_inv h s" and t: "map_of (ts_active s) t = Some x"
    and y: "tx_stream y = tx_stream x" "tx_ok s y"
  shows "tx_inv h (s\<lparr>ts_active := AList.update t y (ts_active s)\<rparr>)"
proof (rule tx_invI)
  fix u v u' v'
  assume "map_of (ts_active (s\<lparr>ts_active := AList.update t y (ts_active s)\<rparr>)) u = Some v"
    "map_of (ts_active (s\<lparr>ts_active := AList.update t y (ts_active s)\<rparr>)) u' = Some v'"
    "h (tx_stream v) = h (tx_stream v')"
  then obtain w w' where "map_of (ts_active s) u = Some w" "map_of (ts_active s) u' = Some w'"
    "h (tx_stream w) = h (tx_stream w')"
    using t y(1) by (auto split: if_splits)
  then show "u = u'" by (rule tx_inv_unique [OF inv])
qed (use tx_invD [OF inv] y(2) in \<open>auto split: if_splits\<close>)

lemma tx_step_inv: "tx_step h s s' \<Longrightarrow> tx_inv h s \<Longrightarrow> tx_inv h s'"
proof (induction rule: tx_step.induct)
  case (Begin s t k)
  have "h (tx_stream x) \<noteq> h k" if "map_of (ts_active s) u = Some x" for u x
    using Begin(2) that by (auto simp: lock_free_def list_all_iff dest: map_of_SomeD)
  note free = this
  show ?case
  proof (rule tx_invI)
    let ?a = "(t, \<lparr>tx_stream = k, tx_version = None, tx_buffer = []\<rparr>) # ts_active s"
    show "consecutive (ts_events (s\<lparr>ts_active := ?a\<rparr>))" using tx_invD(1) [OF Begin(3)] by simp
    show "dict_wf (ts_active (s\<lparr>ts_active := ?a\<rparr>))"
      using Begin(1) tx_invD(2) [OF Begin(3)] by (simp add: dict_wf_def map_of_eq_None_iff)
    show "tx_ok (s\<lparr>ts_active := ?a\<rparr>) x" if "map_of (ts_active (s\<lparr>ts_active := ?a\<rparr>)) u = Some x" for u x
    proof (cases "u = t")
      case True
      then have "x = \<lparr>tx_stream = k, tx_version = None, tx_buffer = []\<rparr>" using that by simp
      then show ?thesis by (simp add: tx_ok_def)
    qed (use that tx_invD(3) [OF Begin(3)] in simp)
    show "u = u'"
      if m: "map_of (ts_active (s\<lparr>ts_active := ?a\<rparr>)) u = Some x"
        "map_of (ts_active (s\<lparr>ts_active := ?a\<rparr>)) u' = Some x'"
        and e: "h (tx_stream x) = h (tx_stream x')" for u u' x x'
    proof (cases "u = t")
      case True
      then have "tx_stream x = k" using m(1) by auto
      then have "map_of (ts_active s) u' \<noteq> Some x'" using free e by metis
      then show ?thesis using m(2) True by (auto split: if_splits)
    next
      case False
      then have u: "map_of (ts_active s) u = Some x" using m(1) by simp
      show ?thesis
      proof (cases "u' = t")
        case True
        then have "tx_stream x' = k" using m(2) by auto
        then show ?thesis using free [OF u] e by simp
      next
        case False
        then have "map_of (ts_active s) u' = Some x'" using m(2) by simp
        then show ?thesis using tx_inv_unique [OF Begin(3) u] e by blast
      qed
    qed
  qed
next
  case (Read s t x)
  let ?vs = "stream_versions (ts_events s) (tx_stream x)"
  have "?vs = map (\<lambda>i. 1 + int i) [0..<length ?vs]"
    using tx_invD(1) [OF Read(3)] by (simp add: consecutive_def)
  then have "fold max ?vs 0 = int (length ?vs)" using fold_max_one by metis
  moreover have "tx_buffer x = []" using tx_invD(3) [OF Read(3) Read(1)] Read(2) by (simp add: tx_ok_def)
  ultimately have "tx_ok s (x\<lparr>tx_version := Some (fold max ?vs 0)\<rparr>)" by (simp add: tx_ok_def)
  then show ?case using tx_inv_update [OF Read(3) Read(1)] by simp
next
  case (Insert s t x v e)
  have "tx_ok s (x\<lparr>tx_buffer := tx_buffer x @ [e]\<rparr>)"
    using tx_invD(3) [OF Insert(5) Insert(1)] Insert(2-4) by (simp add: tx_ok_def)
  then show ?case using tx_inv_update [OF Insert(5) Insert(1)] by simp
next
  case (Commit s t x)
  then show ?case by (simp add: tx_inv_commit)
next
  case (Abort s t x)
  show ?case
  proof (rule tx_invI)
    fix u v u' v'
    assume "map_of (ts_active (s\<lparr>ts_active := AList.delete t (ts_active s)\<rparr>)) u = Some v"
      "map_of (ts_active (s\<lparr>ts_active := AList.delete t (ts_active s)\<rparr>)) u' = Some v'"
      "h (tx_stream v) = h (tx_stream v')"
    then show "u = u'" using tx_inv_unique [OF Abort(2), of u v u' v'] by (simp split: if_splits)
  qed (use tx_invD [OF Abort(2)] in \<open>auto split: if_splits\<close>)
qed

lemma tx_reachable_inv: "(tx_step h)\<^sup>*\<^sup>* s s' \<Longrightarrow> tx_inv h s \<Longrightarrow> tx_inv h s'"
  by (induction rule: rtranclp_induct) (auto intro: tx_step_inv)

section \<open>Properties\<close>

text \<open>
  An append that returns numbers its records consecutively after the stream's current version,
  in order, returns the last number written, keeps every row already stored, and respects the
  expected version; another stream's version is unchanged.
\<close>
lemma append_versions:
  assumes "append_events cf db k rs ex = Inr (n, db')" and "rs \<noteq> []"
    and "list_all (\<lambda>r. ev_stream_id r = k) rs"
  shows "n = current_version db k + int (length rs) \<and> current_version db' k = n \<and>
    (\<forall>v. ex = Some v \<longrightarrow> v = current_version db k) \<and>
    (\<forall>k'. k' \<noteq> k \<longrightarrow> current_version db' k' = current_version db k') \<and>
    (\<exists>es. db_events db' = db_events db @ es \<and>
       map se_version es = map (\<lambda>i. current_version db k + 1 + int i) [0..<length rs])"
proof -
  have rs: "map (\<lambda>r. r\<lparr>ev_stream_id := k\<rparr>) rs = rs"
    using assms(3) by (induction rs) auto
  have named: "named_append (cf, db) k rs ex = Inr (n, (cf, db'))"
    using assms(1) by (simp add: named_append_def rs)
  have "v = current_version db k" if "ex = Some v" for v
    using assms(1,2) that by (auto simp: append_events_def Let_def split: if_splits)
  moreover obtain es where "db_events db' = db_events db @ es"
    "map se_version es = map (\<lambda>i. current_version db k + 1 + int i) [0..<length rs]"
    using append_events_Inr [OF assms(1,2)] by blast
  ultimately show ?thesis
    using pg_log.appended [OF named assms(2)] pg_log.other_streams [OF named assms(2)]
    by (auto simp: named_version_def)
qed

definition sample_config :: store_config where
  "sample_config = \<lparr>cf_snowflake = int, cf_now = ''2026-01-01T00:00:00Z'', cf_clock = 0,
     cf_accepts = (\<lambda>_. True), cf_mirror = False, cf_encode = (\<lambda>_. None), cf_subject = (\<lambda>_. ''s'')\<rparr>"

definition empty_db :: store_db where
  "empty_db = \<lparr>db_events = [], db_drawn = 0, db_outbox = \<lparr>ox_rows = [], ox_next = 1\<rparr>\<rparr>"

lemma sample_append:
  "\<exists>db'. append_events sample_config empty_db ''a'' [default_record ''x'' ''a'', default_record ''y'' ''a''] (Some 0)
     = Inr (2, db')"
  by (simp add: append_events_def append_one_def sample_config_def empty_db_def current_version_def
      envelope_def envelope_body_def default_record_def payload_ref_to_dict_def
      enqueue_event_store_outbox_def Let_def)

lemma append_versions_witness:
  "\<exists>db'. append_events sample_config empty_db ''a'' [default_record ''x'' ''a'', default_record ''y'' ''a''] (Some 0)
     = Inr (2, db') \<and> current_version db' ''a'' = 2"
proof -
  obtain db' where d: "append_events sample_config empty_db ''a''
      [default_record ''x'' ''a'', default_record ''y'' ''a''] (Some 0) = Inr (2, db')"
    using sample_append by blast
  from append_versions [OF d] d show ?thesis by (simp add: default_record_def)
qed

text \<open>
  Optimistic concurrency: after one writer has appended with an expected version, a second
  writer that read the same version is refused.
\<close>
lemma stale_writer_refused:
  assumes "append_events cf db k rs (Some v) = Inr (n, db1)" and "rs \<noteq> []" and "rs' \<noteq> []"
    and "list_all (\<lambda>r. ev_stream_id r = k) rs" and "list_all (\<lambda>r. ev_stream_id r = k) rs'"
  shows "\<exists>e. append_events cf db1 k rs' (Some v) = Inl e"
proof -
  have rs: "map (\<lambda>r. r\<lparr>ev_stream_id := k\<rparr>) rs = rs" "map (\<lambda>r. r\<lparr>ev_stream_id := k\<rparr>) rs' = rs'"
    using assms(4,5) by (induction rs) (auto, induction rs', auto)
  have "named_append (cf, db) k rs (Some v) = Inr (n, (cf, db1))"
    using assms(1) by (simp add: named_append_def rs)
  from pg_log.one_writer_wins [OF this assms(2,3)]
  obtain e where "named_append (cf, db1) k rs' (Some v) = Inl e" by blast
  then show ?thesis
    by (cases "append_events cf db1 k rs' (Some v)") (auto simp: named_append_def rs split: prod.splits)
qed

lemma stale_writer_refused_witness:
  "\<exists>db1 e. append_events sample_config empty_db ''a'' [default_record ''x'' ''a'', default_record ''y'' ''a''] (Some 0)
     = Inr (2, db1) \<and> append_events sample_config db1 ''a'' [default_record ''z'' ''a''] (Some 0) = Inl e"
proof -
  obtain db1 where d: "append_events sample_config empty_db ''a''
      [default_record ''x'' ''a'', default_record ''y'' ''a''] (Some 0) = Inr (2, db1)"
    using sample_append by blast
  from stale_writer_refused [OF d, of "[default_record ''z'' ''a'']"] d
  show ?thesis by (simp add: default_record_def)
qed


definition sample_row :: "int \<Rightarrow> stored_event" where
  "sample_row v = \<lparr>se_stream_id = ''a'', se_version = v, se_event_id = v, se_cells = []\<rparr>"


text \<open>
  An append of no records writes nothing and echoes the caller's expected version without
  looking at the stream, so it can report a version the stream never had and never detects a
  conflict.
\<close>
lemma empty_append_unchecked:
  "append_events cf db k [] (Some v) = Inr (v, db) \<and> append_events cf db k [] None = Inr (0, db)"
  by (simp add: append_events_def)

text \<open>
  The stream argument is locked and checked, but the row is stored under the record's own
  stream id: a record naming another stream is accepted, leaves the argument's version at 0, and
  a repeated append gives the other stream the same version twice.
\<close>
lemma mismatched_stream_duplicates_versions:
  "\<exists>db1 db2.
     append_events sample_config empty_db ''a'' [default_record ''x'' ''b''] (Some 0) = Inr (1, db1) \<and>
     current_version db1 ''a'' = 0 \<and>
     append_events sample_config db1 ''a'' [default_record ''x'' ''b''] (Some 0) = Inr (1, db2) \<and>
     stream_versions (db_events db2) ''b'' = [1, 1]"
  by (simp add: append_events_def append_one_def sample_config_def empty_db_def current_version_def
      envelope_def envelope_body_def default_record_def payload_ref_to_dict_def
      enqueue_event_store_outbox_def stream_versions_def Let_def)

text \<open>
  The constraints the shipped \<^verbatim>\<open>schema_ddl.sql\<close> puts on the inserted columns: the catalog id is
  not null, and a result is an object with a status string and nothing but status, reference
  and context.
\<close>

definition result_shape_ok :: "pyval \<Rightarrow> bool" where
  "result_shape_ok v =
     (case v of
        VNone \<Rightarrow> True
      | VDict d \<Rightarrow>
          (case py_get d ''status'' of VStr _ \<Rightarrow> True | _ \<Rightarrow> False) \<and>
          list_all (\<lambda>(k, _). k \<in> {''status'', ''reference'', ''context''}) d \<and>
          (has_key d ''reference'' \<longrightarrow> is_dict (py_get d ''reference'')) \<and>
          (has_key d ''context'' \<longrightarrow> is_dict (py_get d ''context''))
      | _ \<Rightarrow> False)"

definition schema_accepts :: "pydict \<Rightarrow> bool" where
  "schema_accepts cells = (py_get cells ''catalog_id'' \<noteq> VNone \<and> result_shape_ok (py_get cells ''result''))"

lemma insert_cells_no_catalog: "py_get (insert_cells env) ''catalog_id'' = VNone"
  by (simp add: insert_cells_def)

text \<open>
  The insert statement names no catalog id, which the shipped schema declares not null: on
  that schema every append of a record fails, whatever the record holds.
\<close>
lemma append_fails_on_shipped_schema:
  assumes "rs \<noteq> []" and "cf_accepts cf = schema_accepts"
  shows "\<exists>e. append_events cf db k rs ex = Inl e"
proof -
  obtain r rs' where rs: "rs = r # rs'" using assms(1) by (cases rs) auto
  have "\<exists>e. append_one cf s r = Inl e" for s
  proof -
    obtain v d where s: "s = (v, d)" by (cases s)
    show ?thesis
      by (cases "envelope r (v + 1) (Some (cf_snowflake cf (db_drawn d))) (cf_now cf)")
        (simp_all add: append_one_def s Let_def assms(2) schema_accepts_def insert_cells_no_catalog)
  qed
  then obtain e where "append_one cf (current_version db k, db) r = Inl e" by blast
  then show ?thesis by (auto simp: append_events_def Let_def rs)
qed

lemma append_fails_on_shipped_schema_witness:
  "\<exists>e. append_events (sample_config\<lparr>cf_accepts := schema_accepts\<rparr>) empty_db ''a''
     [(default_record ''x'' ''a'')\<lparr>ev_result := [(''status'', VStr ''OK'')]\<rparr>] None = Inl e"
  by (rule append_fails_on_shipped_schema) simp_all

text \<open>
  The stored checksum can be recomputed from the stored envelope: it is the canonical checksum
  of the envelope without the event id and the checksum itself, so it does not depend on the id
  the database drew.
\<close>
lemma envelope_checksum_verifies:
  assumes "envelope r v i now = Inr env"
  shows "py_get env ''envelope_checksum''
       = VStr (canonical_checksum (VDict (AList.delete ''envelope_checksum'' (AList.delete ''event_id'' env))))"
proof -
  obtain body where b: "envelope_body r v now = Inr body"
    and env: "env = (''event_id'', enc_int i) # body
      @ [(''envelope_checksum'', VStr (canonical_checksum (VDict body)))]"
    using assms by (auto simp: envelope_def elim!: rbind_InrE)
  have "AList.delete ''envelope_checksum'' (AList.delete ''event_id'' env) = body"
    "py_get env ''envelope_checksum'' = VStr (canonical_checksum (VDict body))"
    using b by (auto simp: env envelope_body_def elim!: rbind_InrE)
  then show ?thesis by simp
qed

lemma envelope_checksum_verifies_witness:
  "\<exists>env. envelope (default_record ''x'' ''a'') 1 (Some 7) ''t'' = Inr env \<and>
     py_get env ''envelope_checksum''
       = VStr (canonical_checksum (VDict (AList.delete ''envelope_checksum'' (AList.delete ''event_id'' env))))"
proof -
  obtain env where e: "envelope (default_record ''x'' ''a'') 1 (Some 7) ''t'' = Inr env"
    by (simp add: envelope_def envelope_body_def default_record_def payload_ref_to_dict_def)
  from envelope_checksum_verifies [OF e] e show ?thesis by blast
qed

end
