(* ===== verification/Projection_Store.thy ===== *)
theory Projection_Store
  imports Canonical_Json
begin

text \<open>
  The projection store: records and checksums of \<^verbatim>\<open>src/noetl/core/projection_store/ports.py\<close> and
  the Postgres adapter of \<^verbatim>\<open>src/noetl/core/projection_store/postgres.py\<close>. A table is the list of
  its rows, keyed by its primary key; the guarded upsert \<open>ON CONFLICT ... DO UPDATE ... WHERE
  version <= EXCLUDED.version\<close> is one function for the projection and the snapshot table. The
  locale \<open>monotonic_store\<close> states the contract of such a store and derives that versions never
  regress and which record survives a sequence of saves; both tables are interpretations.
\<close>

record projection_record =
  pj_projection_id :: string
  pj_projection_type :: string
  pj_state :: pydict
  pj_version :: int
  pj_tenant_id :: string
  pj_organization_id :: string
  pj_execution_id :: "int option"
  pj_source_event_id :: "int option"
  pj_checksum :: "string option"
  pj_meta :: pydict

record projection_snapshot =
  ps_aggregate_id :: string
  ps_aggregate_type :: string
  ps_snapshot :: pydict
  ps_version :: int
  ps_tenant_id :: string
  ps_organization_id :: string
  ps_checksum :: "string option"
  ps_meta :: pydict

definition projection_checksum :: "pydict \<Rightarrow> string" where
  "projection_checksum state = canonical_checksum (VDict state)"

text \<open>\<open>self.checksum or projection_checksum(self.state)\<close>\<close>

definition resolved_checksum :: "projection_record \<Rightarrow> string" where
  "resolved_checksum r =
     (case pj_checksum r of Some (c # cs) \<Rightarrow> c # cs | _ \<Rightarrow> projection_checksum (pj_state r))"

definition snapshot_checksum :: "projection_snapshot \<Rightarrow> string" where
  "snapshot_checksum r =
     (case ps_checksum r of Some (c # cs) \<Rightarrow> c # cs | _ \<Rightarrow> projection_checksum (ps_snapshot r))"

text \<open>What a row holds of the record saved: the record with its checksum resolved.\<close>

definition stored_projection :: "projection_record \<Rightarrow> projection_record" where
  "stored_projection r = r\<lparr>pj_checksum := Some (resolved_checksum r)\<rparr>"

definition stored_snapshot :: "projection_snapshot \<Rightarrow> projection_snapshot" where
  "stored_snapshot r = r\<lparr>ps_checksum := Some (snapshot_checksum r)\<rparr>"

type_synonym snapshot_key = "string \<times> string \<times> string \<times> string"

definition snapshot_key :: "projection_snapshot \<Rightarrow> snapshot_key" where
  "snapshot_key r = (ps_tenant_id r, ps_organization_id r, ps_aggregate_type r, ps_aggregate_id r)"

text \<open>A row's payload and its \<open>updated_at\<close>, under its primary key.\<close>

type_synonym ('k, 'r) keyed_table = "('k \<times> ('r \<times> int)) list"

definition guarded_upsert ::
  "('r \<Rightarrow> int) \<Rightarrow> int \<Rightarrow> 'k \<Rightarrow> 'r \<Rightarrow> ('k, 'r) keyed_table \<Rightarrow> bool \<times> ('k, 'r) keyed_table" where
  "guarded_upsert ver now k r t =
     (case map_of t k of
        None \<Rightarrow> (True, AList.update k (r, now) t)
      | Some (old, _) \<Rightarrow>
          (if ver old \<le> ver r then (True, AList.update k (r, now) t) else (False, t)))"

record projection_db =
  pd_projections :: "(string, projection_record) keyed_table"
  pd_snapshots :: "(snapshot_key, projection_snapshot) keyed_table"
  pd_now :: int

definition save_projection :: "projection_db \<Rightarrow> projection_record \<Rightarrow> bool \<times> projection_db" where
  "save_projection db r =
     (case guarded_upsert pj_version (pd_now db) (pj_projection_id r) (stored_projection r) (pd_projections db) of
        (changed, t) \<Rightarrow> (changed, db\<lparr>pd_projections := t\<rparr>))"

definition load_projection :: "projection_db \<Rightarrow> string \<Rightarrow> projection_record option" where
  "load_projection db i = map_option fst (map_of (pd_projections db) i)"

record projection_query =
  pq_tenant_id :: "string option"
  pq_organization_id :: "string option"
  pq_projection_type :: "string option"
  pq_execution_id :: "int option"
  pq_limit :: int

definition query_matches :: "projection_query \<Rightarrow> projection_record \<Rightarrow> bool" where
  "query_matches q r =
     ((case pq_tenant_id q of None \<Rightarrow> True | Some x \<Rightarrow> pj_tenant_id r = x) \<and>
      (case pq_organization_id q of None \<Rightarrow> True | Some x \<Rightarrow> pj_organization_id r = x) \<and>
      (case pq_projection_type q of None \<Rightarrow> True | Some x \<Rightarrow> pj_projection_type r = x) \<and>
      (case pq_execution_id q of None \<Rightarrow> True | Some x \<Rightarrow> pj_execution_id r = Some x))"

text \<open>\<open>max(1, int(query.limit or 100))\<close>\<close>

definition query_limit :: "projection_query \<Rightarrow> nat" where
  "query_limit q = nat (max 1 (if pq_limit q = 0 then 100 else pq_limit q))"

text \<open>\<open>ORDER BY updated_at DESC, projection_id ASC\<close> as two stable sorts.\<close>

definition query_projections :: "projection_db \<Rightarrow> projection_query \<Rightarrow> projection_record list" where
  "query_projections db q =
     map fst (take (query_limit q)
       (sort_key (\<lambda>p. - snd p)
         (sort_key (\<lambda>p. pj_projection_id (fst p))
           (filter (\<lambda>p. query_matches q (fst p)) (map snd (pd_projections db))))))"

definition save_snapshot :: "projection_db \<Rightarrow> projection_snapshot \<Rightarrow> bool \<times> projection_db" where
  "save_snapshot db r =
     (case guarded_upsert ps_version (pd_now db) (snapshot_key r) (stored_snapshot r) (pd_snapshots db) of
        (changed, t) \<Rightarrow> (changed, db\<lparr>pd_snapshots := t\<rparr>))"

text \<open>An empty \<open>aggregate_type\<close> counts as absent; tenant and organization are not asked for.\<close>

definition load_snapshot :: "projection_db \<Rightarrow> string \<Rightarrow> string option \<Rightarrow> projection_snapshot option" where
  "load_snapshot db aggregate_id aggregate_type =
     (case sort_key (\<lambda>r. - ps_version r)
         (filter (\<lambda>r. ps_aggregate_id r = aggregate_id \<and>
            (case aggregate_type of Some (c # cs) \<Rightarrow> ps_aggregate_type r = c # cs | _ \<Rightarrow> True))
          (map (fst \<circ> snd) (pd_snapshots db))) of
        [] \<Rightarrow> None | r # _ \<Rightarrow> Some r)"

definition load_snapshot_key :: "projection_db \<Rightarrow> snapshot_key \<Rightarrow> projection_snapshot option" where
  "load_snapshot_key db k = map_option fst (map_of (pd_snapshots db) k)"

section \<open>The contract\<close>

locale monotonic_store =
  fixes save :: "'s \<Rightarrow> 'r \<Rightarrow> bool \<times> 's"
    and load :: "'s \<Rightarrow> 'k \<Rightarrow> 'r option"
    and key :: "'r \<Rightarrow> 'k"
    and ver :: "'r \<Rightarrow> int"
    and stored :: "'r \<Rightarrow> 'r"
  assumes save_changed: "fst (save s r)
      = (case load s (key r) of None \<Rightarrow> True | Some old \<Rightarrow> ver old \<le> ver r)"
    and save_load: "load (snd (save s r)) k
      = (if k = key r \<and> fst (save s r) then Some (stored r) else load s k)"
    and stored_ver: "ver (stored r) = ver r"
begin

definition saves :: "'s \<Rightarrow> 'r list \<Rightarrow> 's" where
  "saves s rs = foldl (\<lambda>s r. snd (save s r)) s rs"

definition version_of :: "'s \<Rightarrow> 'k \<Rightarrow> int option" where
  "version_of s k = map_option ver (load s k)"

lemma saves_simps [simp]:
  "saves s [] = s"
  "saves s (r # rs) = saves (snd (save s r)) rs"
  by (simp_all add: saves_def)

lemma save_version:
  "version_of (snd (save s r)) k
     = (if k = key r then Some (case version_of s k of None \<Rightarrow> ver r | Some v \<Rightarrow> max v (ver r))
        else version_of s k)"
  by (auto simp: version_of_def save_load save_changed stored_ver split: option.split)

text \<open>The version held under a key is the largest ever saved there.\<close>

lemma saves_version:
  "version_of (saves s rs) k
     = fold (\<lambda>r v. if key r = k then Some (case v of None \<Rightarrow> ver r | Some w \<Rightarrow> max w (ver r)) else v)
         rs (version_of s k)"
  by (induction rs arbitrary: s) (auto simp: save_version)

lemma version_never_regresses:
  "version_of s k = Some v \<Longrightarrow> \<exists>w. version_of (saves s rs) k = Some w \<and> v \<le> w"
proof (induction rs arbitrary: s v)
  case (Cons r rs)
  have "\<exists>u. version_of (snd (save s r)) k = Some u \<and> v \<le> u"
    using Cons.prems by (auto simp: save_version)
  then obtain u where u: "version_of (snd (save s r)) k = Some u" "v \<le> u" by blast
  from Cons.IH [OF u(1)] u(2) show ?case by force
qed simp

text \<open>A record that is strictly newest under its key is the one found, whenever it arrives.\<close>

lemma newest_survives:
  assumes "r \<in> set rs" and "load s (key r) = None"
    and "\<And>r'. r' \<in> set rs \<Longrightarrow> key r' = key r \<Longrightarrow> r' \<noteq> r \<Longrightarrow> ver r' < ver r"
  shows "load (saves s rs) (key r) = Some (stored r)"
proof -
  have keep: "load (saves s rs) (key r) = Some (stored r)"
    if "load s (key r) = Some (stored r)" and "\<And>r'. r' \<in> set rs \<Longrightarrow> key r' = key r \<Longrightarrow> r' \<noteq> r \<Longrightarrow> ver r' < ver r"
    for s rs
    using that
  proof (induction rs arbitrary: s)
    case (Cons q rs)
    have "load (snd (save s q)) (key r) = Some (stored r)"
    proof (cases "key q = key r \<and> q \<noteq> r")
      case True
      then have "ver q < ver (stored r)" using Cons.prems(2) [of q] by (simp add: stored_ver)
      then show ?thesis using True Cons.prems(1) by (simp add: save_load save_changed)
    qed (use Cons.prems(1) in \<open>auto simp: save_load\<close>)
    then show ?case using Cons.IH Cons.prems(2) by simp
  qed simp
  have "load (saves s rs) (key r) = Some (stored r)"
    if "r \<in> set rs" and "\<forall>old. load s (key r) = Some old \<longrightarrow> ver old \<le> ver r"
      and "\<And>r'. r' \<in> set rs \<Longrightarrow> key r' = key r \<Longrightarrow> r' \<noteq> r \<Longrightarrow> ver r' < ver r" for s rs
    using that
  proof (induction rs arbitrary: s)
    case (Cons q rs)
    show ?case
    proof (cases "q = r")
      case True
      then have "load (snd (save s q)) (key r) = Some (stored r)"
        using Cons.prems(2) by (simp add: save_load save_changed split: option.split)
      then show ?thesis using keep Cons.prems(3) by simp
    next
      case False
      then have r: "r \<in> set rs" using Cons.prems(1) by simp
      have "\<forall>old. load (snd (save s q)) (key r) = Some old \<longrightarrow> ver old \<le> ver r"
        using Cons.prems(2) Cons.prems(3) [of q] False by (auto simp: save_load stored_ver)
      then show ?thesis using Cons.IH [OF r] Cons.prems(3) by simp
    qed
  qed simp
  then show ?thesis using assms by auto
qed

end

lemma guarded_upsert_changed:
  "fst (guarded_upsert ver now k r t)
     = (case map_option fst (map_of t k) of None \<Rightarrow> True | Some old \<Rightarrow> ver old \<le> ver r)"
  by (auto simp: guarded_upsert_def split: option.split)

lemma guarded_upsert_lookup:
  "map_option fst (map_of (snd (guarded_upsert ver now k r t)) j)
     = (if j = k \<and> fst (guarded_upsert ver now k r t) then Some r else map_option fst (map_of t j))"
  by (auto simp: guarded_upsert_def split: option.split)

lemma guarded_upsert_wf: "dict_wf t \<Longrightarrow> dict_wf (snd (guarded_upsert ver now k r t))"
  by (auto simp: guarded_upsert_def split: option.split)

interpretation projections: monotonic_store save_projection load_projection pj_projection_id pj_version
    stored_projection
proof
  fix s :: projection_db and r k
  let ?u = "guarded_upsert pj_version (pd_now s) (pj_projection_id r) (stored_projection r) (pd_projections s)"
  have s: "save_projection s r = (fst ?u, s\<lparr>pd_projections := snd ?u\<rparr>)"
    by (simp add: save_projection_def split: prod.split)
  show "pj_version (stored_projection r) = pj_version r" by (simp add: stored_projection_def)
  then show "fst (save_projection s r) = (case load_projection s (pj_projection_id r) of
      None \<Rightarrow> True | Some old \<Rightarrow> pj_version old \<le> pj_version r)"
    by (simp add: s guarded_upsert_changed load_projection_def split: option.split)
  show "load_projection (snd (save_projection s r)) k
      = (if k = pj_projection_id r \<and> fst (save_projection s r) then Some (stored_projection r)
         else load_projection s k)"
    by (simp add: s guarded_upsert_lookup load_projection_def)
qed

interpretation snapshots: monotonic_store save_snapshot load_snapshot_key snapshot_key ps_version
    stored_snapshot
proof
  fix s :: projection_db and r k
  let ?u = "guarded_upsert ps_version (pd_now s) (snapshot_key r) (stored_snapshot r) (pd_snapshots s)"
  have s: "save_snapshot s r = (fst ?u, s\<lparr>pd_snapshots := snd ?u\<rparr>)"
    by (simp add: save_snapshot_def split: prod.split)
  show "ps_version (stored_snapshot r) = ps_version r" by (simp add: stored_snapshot_def)
  then show "fst (save_snapshot s r) = (case load_snapshot_key s (snapshot_key r) of
      None \<Rightarrow> True | Some old \<Rightarrow> ps_version old \<le> ps_version r)"
    by (simp add: s guarded_upsert_changed load_snapshot_key_def split: option.split)
  show "load_snapshot_key (snd (save_snapshot s r)) k
      = (if k = snapshot_key r \<and> fst (save_snapshot s r) then Some (stored_snapshot r)
         else load_snapshot_key s k)"
    by (simp add: s guarded_upsert_lookup load_snapshot_key_def)
qed

section \<open>Properties\<close>

definition save_all :: "projection_db \<Rightarrow> projection_record list \<Rightarrow> projection_db" where
  "save_all db rs = foldl (\<lambda>s r. snd (save_projection s r)) db rs"

lemma save_all_saves: "save_all db rs = projections.saves db rs"
  by (simp add: save_all_def projections.saves_def)

text \<open>
  C36. A projection with the strictly largest version saved under its id is the one the store
  returns, wherever it stands among the saves: out-of-order and repeated delivery of other
  versions, before or after it, does not matter.
\<close>
theorem newest_projection_survives:
  assumes "r \<in> set rs" and "load_projection db (pj_projection_id r) = None"
    and "\<forall>r' \<in> set rs. pj_projection_id r' = pj_projection_id r \<longrightarrow> r' \<noteq> r \<longrightarrow> pj_version r' < pj_version r"
  shows "load_projection (save_all db rs) (pj_projection_id r) = Some (stored_projection r)"
  unfolding save_all_saves by (rule projections.newest_survives) (use assms in auto)

definition sample_projection :: "int \<Rightarrow> projection_record" where
  "sample_projection v = \<lparr>pj_projection_id = ''execution/5/all'', pj_projection_type = ''replay_state:all'',
     pj_state = [(''event_count'', VInt v)], pj_version = v, pj_tenant_id = ''default'',
     pj_organization_id = ''default'', pj_execution_id = Some 5, pj_source_event_id = Some v,
     pj_checksum = Some ''c'', pj_meta = []\<rparr>"

lemma newest_projection_survives_witness:
  "load_projection (save_all \<lparr>pd_projections = [], pd_snapshots = [], pd_now = 0\<rparr>
     [sample_projection 2, sample_projection 9, sample_projection 4]) ''execution/5/all''
   = Some (stored_projection (sample_projection 9))"
  using newest_projection_survives [of "sample_projection 9"
      "[sample_projection 2, sample_projection 9, sample_projection 4]"
      "\<lparr>pd_projections = [], pd_snapshots = [], pd_now = 0\<rparr>"]
  by (simp add: sample_projection_def load_projection_def)

text \<open>
  A save never regresses a projection: once an id holds a version, every later state of the
  store holds that version or a larger one under it, and a save reports a change exactly when it
  replaced the row.
\<close>
lemma projection_version_monotone:
  assumes "load_projection db i = Some r"
  shows "\<exists>r'. load_projection (save_all db rs) i = Some r' \<and> pj_version r \<le> pj_version r'"
  using projections.version_never_regresses [of db i "pj_version r" rs] assms
  by (auto simp: save_all_saves projections.version_of_def)

lemma projection_version_monotone_witness:
  "\<exists>r'. load_projection (save_all
       (snd (save_projection \<lparr>pd_projections = [], pd_snapshots = [], pd_now = 0\<rparr> (sample_projection 7)))
       [sample_projection 3]) ''execution/5/all'' = Some r' \<and> 7 \<le> pj_version r'"
proof -
  have "load_projection (snd (save_projection \<lparr>pd_projections = [], pd_snapshots = [], pd_now = 0\<rparr>
      (sample_projection 7))) ''execution/5/all'' = Some (stored_projection (sample_projection 7))"
    by (simp add: save_projection_def guarded_upsert_def load_projection_def sample_projection_def)
  from projection_version_monotone [OF this, of "[sample_projection 3]"]
  show ?thesis by (simp add: stored_projection_def sample_projection_def)
qed

end
