(* ===== verification/Projector.thy ===== *)
theory Projector
  imports Replay_Theorems Projection_Store
begin

text \<open>
  The event projector: \<^verbatim>\<open>src/noetl/core/projector/service.py\<close> (grouping a batch by execution,
  ordering, folding with \<open>fold_replay_state\<close>, execution and frame records) and the decisions of
  \<^verbatim>\<open>src/noetl/core/projector/nats_worker.py\<close> (settings, shard index, ownership, extraction of
  events). Wall-clock fields of a record's \<open>meta\<close> (watermark, projection time, lag) are left out.
  Stream versions and event ids are numbers or absent, as in the event envelope; another value
  makes the ordering raise. Properties: each event is owned by exactly one shard, the projector
  and the replay fold agree on frames, and what the stored projection holds after two batches.
\<close>

section \<open>Records of a batch\<close>

fun order_number :: "pyval \<Rightarrow> int res" where
  "order_number (VInt i) = Inr i"
| "order_number (VBool b) = Inr (if b then 1 else 0)"
| "order_number v = (if truthy v then Inl (TypeError ''not comparable'') else Inr 0)"

text \<open>\<open>(stream_version is None, stream_version or 0, event_id or 0)\<close>\<close>

definition batch_key :: "pydict \<Rightarrow> (bool \<times> int \<times> int) res" where
  "batch_key ev =
     rbind (order_number (py_get ev ''stream_version'')) (\<lambda>v.
     rbind (order_number (py_get ev ''event_id'')) (\<lambda>i.
       Inr (py_get ev ''stream_version'' = VNone, v, i)))"

fun key_le :: "bool \<times> int \<times> int \<Rightarrow> bool \<times> int \<times> int \<Rightarrow> bool" where
  "key_le (a, v, i) (b, w, j) = ((\<not> a \<and> b) \<or> (a = b \<and> (v < w \<or> (v = w \<and> i \<le> j))))"

fun insert_event :: "(bool \<times> int \<times> int) \<times> pydict \<Rightarrow> ((bool \<times> int \<times> int) \<times> pydict) list \<Rightarrow>
    ((bool \<times> int \<times> int) \<times> pydict) list" where
  "insert_event e [] = [e]"
| "insert_event e (f # fs) = (if key_le (fst e) (fst f) then e # f # fs else f # insert_event e fs)"

definition order_batch :: "pydict list \<Rightarrow> pydict list res" where
  "order_batch evs =
     rbind (rmap (\<lambda>ev. rbind (batch_key ev) (\<lambda>k. Inr (k, ev))) evs) (\<lambda>ks.
       Inr (map snd (foldr insert_event ks [])))"

text \<open>\<open>int(last.get("stream_version") or last.get("event_id") or len(events))\<close>\<close>

definition projection_version :: "pydict list \<Rightarrow> int res" where
  "projection_version evs =
     (if evs = [] then Inr 0
      else py_int (py_or (py_get (last evs) ''stream_version'')
             (py_or (py_get (last evs) ''event_id'') (VInt (int (length evs))))))"

definition batch_last_event_id :: "pydict list \<Rightarrow> int option res" where
  "batch_last_event_id evs =
     (case filter (\<lambda>ev. py_get ev ''event_id'' \<noteq> VNone) (rev evs) of
        [] \<Rightarrow> Inr None
      | ev # _ \<Rightarrow> rbind (py_int (py_get ev ''event_id'')) (\<lambda>i. Inr (Some i)))"

definition extract_frame_id :: "pydict \<Rightarrow> string option" where
  "extract_frame_id ev =
     (if py_get ev ''frame_id'' \<noteq> VNone then Some (py_str (py_get ev ''frame_id''))
      else if py_get ev ''aggregate_type'' = VStr ''frame'' \<and> truthy (py_get ev ''aggregate_id'')
        then Some (removeprefix (py_str (py_get ev ''aggregate_id'')) ''frame/'')
      else (case py_get ev ''meta'' of
          VDict meta \<Rightarrow> (if py_get meta ''frame_id'' \<noteq> VNone then Some (py_str (py_get meta ''frame_id'')) else None)
        | _ \<Rightarrow> None))"

type_synonym group_key = "string \<times> string \<times> int"

definition group_key_of :: "pydict \<Rightarrow> group_key option res" where
  "group_key_of ev =
     (if py_get ev ''execution_id'' = VNone then Inr None
      else rbind (py_int (py_get ev ''execution_id'')) (\<lambda>x.
        Inr (Some (py_str (py_or (py_get ev ''tenant_id'') (VStr ''default'')),
                   py_str (py_or (py_get ev ''organization_id'') (VStr ''default'')), x))))"

definition group_events :: "pydict list \<Rightarrow> (group_key \<times> pydict list) list res" where
  "group_events evs =
     rfold (\<lambda>g ev. rbind (group_key_of ev) (\<lambda>k.
        Inr (case k of None \<Rightarrow> g
             | Some k \<Rightarrow> AList.update k ((case map_of g k of None \<Rightarrow> [] | Some es \<Rightarrow> es) @ [ev]) g)))
       [] evs"

definition enc_bundle :: "checksum_bundle \<Rightarrow> pyval" where
  "enc_bundle b = VDict (map (\<lambda>(k, c). (k, VStr c)) b)"

definition full_state_dict :: "replay_state \<Rightarrow> pydict" where
  "full_state_dict s = state_dict s @ [(''checksum_algorithm'', VStr ''sha256''),
     (''checksum'', VStr (rs_checksum s)), (''projection_checksums'', enc_bundle (rs_projection_checksums s))]"

definition execution_record :: "string \<Rightarrow> group_key \<Rightarrow> pydict list \<Rightarrow> replay_state \<Rightarrow> projection_record res" where
  "execution_record projection k ordered s =
     (case k of (tenant_id, organization_id, execution_id) \<Rightarrow>
       rbind (projection_version ordered) (\<lambda>version.
       rbind (batch_last_event_id ordered) (\<lambda>source.
         Inr \<lparr>pj_projection_id = ''execution/'' @ show_int execution_id @ ''/'' @ projection,
              pj_projection_type = ''replay_state:'' @ projection,
              pj_state = full_state_dict s, pj_version = version, pj_tenant_id = tenant_id,
              pj_organization_id = organization_id, pj_execution_id = Some execution_id,
              pj_source_event_id = source, pj_checksum = Some (rs_checksum s),
              pj_meta = [(''event_count'', VInt (int (length ordered))),
                (''projector'', VStr ''replay_state''), (''projection'', VStr projection),
                (''projection_checksums'', enc_bundle (rs_projection_checksums s)),
                (''source_event_id'', enc_int source),
                (''upcaster_registry_digest'', enc_str (rs_digest s))]\<rparr>)))"

definition frame_record ::
  "string \<Rightarrow> group_key \<Rightarrow> pydict list \<Rightarrow> replay_state \<Rightarrow> string \<times> frame_proj \<Rightarrow> projection_record res" where
  "frame_record projection k ordered s p =
     (case (k, p) of ((tenant_id, organization_id, execution_id), (frame_id, fr)) \<Rightarrow>
       (let frame_events = filter (\<lambda>ev. nonempty_id (extract_frame_id ev) = Some frame_id) ordered;
            payload = enc_frame fr
        in rbind (projection_version frame_events) (\<lambda>version.
           rbind (batch_last_event_id frame_events) (\<lambda>source.
             Inr \<lparr>pj_projection_id = ''frame/'' @ frame_id @ ''/'' @ projection,
                  pj_projection_type = ''replay_state:frame:'' @ projection,
                  pj_state = [(''tenant_id'', VStr tenant_id), (''organization_id'', VStr organization_id),
                    (''execution_id'', VInt execution_id), (''frame_id'', VStr frame_id),
                    (''stage_id'', py_get payload ''stage_id''),
                    (''parent_frame_id'', py_get payload ''parent_frame_id''),
                    (''projection'', VStr projection), (''frame'', VDict payload),
                    (''projection_checksums'', enc_bundle (rs_projection_checksums s)),
                    (''upcaster_registry_digest'', enc_str (rs_digest s))],
                  pj_version = version, pj_tenant_id = tenant_id, pj_organization_id = organization_id,
                  pj_execution_id = Some execution_id, pj_source_event_id = source,
                  pj_checksum = None,
                  pj_meta = [(''event_count'', VInt (int (length frame_events))),
                    (''projector'', VStr ''replay_state''), (''projection'', VStr projection),
                    (''projection_checksums'', enc_bundle (rs_projection_checksums s)),
                    (''source_event_id'', enc_int source), (''frame_id'', VStr frame_id),
                    (''stage_id'', py_get payload ''stage_id''),
                    (''command_id'', py_get payload ''command_id''),
                    (''parent_frame_id'', py_get payload ''parent_frame_id''),
                    (''frame_status'', py_get payload ''status''),
                    (''upcaster_registry_digest'', enc_str (rs_digest s))]\<rparr>))))"

definition group_records :: "string \<Rightarrow> group_key \<times> pydict list \<Rightarrow> projection_record list res" where
  "group_records projection g =
     (case g of ((tenant_id, organization_id, execution_id), evs) \<Rightarrow>
       rbind (order_batch evs) (\<lambda>ordered.
       rbind (fold_replay_state ordered tenant_id organization_id execution_id projection None None None) (\<lambda>s.
       rbind (execution_record projection (tenant_id, organization_id, execution_id) ordered s) (\<lambda>r.
       rbind (rmap (frame_record projection (tenant_id, organization_id, execution_id) ordered s)
               (rc_frames (rs_core s))) (\<lambda>frs.
         Inr (r # frs))))))"

text \<open>
  Saving stops at the first exception, with the earlier groups already saved; a record is
  reported as written when the store says it changed.
\<close>

fun save_records ::
  "projection_db \<Rightarrow> projection_record list \<Rightarrow> projection_record list \<times> projection_db" where
  "save_records db [] = ([], db)"
| "save_records db (r # rs) =
     (case save_projection db r of (changed, db1) \<Rightarrow>
       (case save_records db1 rs of (written, db2) \<Rightarrow>
         ((if changed then r # written else written), db2)))"

fun project_groups ::
  "string \<Rightarrow> projection_db \<Rightarrow> (group_key \<times> pydict list) list \<Rightarrow>
   projection_record list res \<times> projection_db" where
  "project_groups projection db [] = (Inr [], db)"
| "project_groups projection db (g # gs) =
     (case group_records projection g of
        Inl e \<Rightarrow> (Inl e, db)
      | Inr rs \<Rightarrow>
          (case save_records db rs of (written, db1) \<Rightarrow>
            (case project_groups projection db1 gs of (r, db2) \<Rightarrow>
              (rbind r (\<lambda>ws. Inr (written @ ws)), db2))))"

definition project ::
  "string \<Rightarrow> projection_db \<Rightarrow> pydict list \<Rightarrow> projection_record list res \<times> projection_db" where
  "project projection db evs =
     (case group_events evs of Inl e \<Rightarrow> (Inl e, db) | Inr gs \<Rightarrow> project_groups projection db gs)"

section \<open>The worker's decisions\<close>

text \<open>The number the shard id ends with, zero when it ends with none.\<close>

definition parse_shard_index :: "string \<Rightarrow> nat" where
  "parse_shard_index shard_id =
     foldl (\<lambda>n c. n * 10 + digit_val c) 0 (rev (takeWhile is_digit (rev shard_id)))"

record projector_settings =
  ws_shard_id :: string
  ws_shard_count :: int
  ws_max_inflight :: int
  ws_max_ack_pending :: int
  ws_metrics_port :: "int option"

definition settings_valid :: "projector_settings \<Rightarrow> bool" where
  "settings_valid w =
     (1 \<le> ws_shard_count w \<and> int (parse_shard_index (ws_shard_id w)) < ws_shard_count w \<and>
      1 \<le> ws_max_inflight w \<and> 1 \<le> ws_max_ack_pending w \<and>
      (case ws_metrics_port w of None \<Rightarrow> True | Some p \<Rightarrow> 0 < p))"

datatype shard_decision = Owned | Unowned | Unshardable

definition shard_decision_of :: "projector_settings \<Rightarrow> pydict \<Rightarrow> shard_decision" where
  "shard_decision_of w ev =
     (if ws_shard_count w \<le> 1 then Owned
      else if py_get ev ''execution_id'' = VNone then Unshardable
      else (case py_int (py_get ev ''execution_id'') of
          Inl _ \<Rightarrow> Unshardable
        | Inr x \<Rightarrow> (if x mod ws_shard_count w = int (parse_shard_index (ws_shard_id w))
                   then Owned else Unowned)))"

definition extract_events :: "pydict \<Rightarrow> pydict list" where
  "extract_events notification =
     (case py_get notification ''events'' of
        VList items \<Rightarrow> List.map_filter as_dict items
      | _ \<Rightarrow>
         (case py_get notification ''event'' of
            VDict ev \<Rightarrow> [ev]
          | _ \<Rightarrow> (if truthy (py_get notification ''event_type'') \<and> py_get notification ''execution_id'' \<noteq> VNone
                 then [notification] else [])))"

text \<open>The projecting part of \<open>handle_notification\<close>; its metrics are left out.\<close>

definition handle_notification ::
  "projector_settings \<Rightarrow> string \<Rightarrow> projection_db \<Rightarrow> pydict \<Rightarrow> projection_record list res \<times> projection_db" where
  "handle_notification w projection db notification =
     (let events = filter (\<lambda>ev. shard_decision_of w ev = Owned) (extract_events notification)
      in if events = [] then (Inr [], db) else project projection db events)"

section \<open>Properties\<close>

lemma filter_upt_single: "m < n \<Longrightarrow> filter (\<lambda>i. i = m) [0..<n] = [m]"
  by (induction n) (auto simp: less_Suc_eq filter_empty_conv)

text \<open>
  Sharding partitions the events: with one worker for each index, an event with a numeric
  execution id is owned by exactly one of them.
\<close>
lemma exactly_one_shard_owns:
  assumes "list_all settings_valid ws" and "\<forall>w \<in> set ws. ws_shard_count w = n" and "1 < n"
    and "map (\<lambda>w. parse_shard_index (ws_shard_id w)) ws = [0..<nat n]"
    and "py_int (py_get ev ''execution_id'') = Inr x"
  shows "length (filter (\<lambda>w. shard_decision_of w ev = Owned) ws) = 1"
proof -
  have d: "shard_decision_of w ev = Owned \<longleftrightarrow> parse_shard_index (ws_shard_id w) = nat (x mod n)"
    if "w \<in> set ws" for w
    using that assms(2,3,5) by (auto simp: shard_decision_of_def split: if_splits)
  have "filter (\<lambda>w. shard_decision_of w ev = Owned) ws
      = filter (\<lambda>w. parse_shard_index (ws_shard_id w) = nat (x mod n)) ws"
    using d by (intro filter_cong) auto
  then have "length (filter (\<lambda>w. shard_decision_of w ev = Owned) ws)
      = length (filter (\<lambda>i. i = nat (x mod n)) (map (\<lambda>w. parse_shard_index (ws_shard_id w)) ws))"
    by (simp add: filter_map o_def)
  also have "\<dots> = 1"
    using filter_upt_single [of "nat (x mod n)" "nat n"] assms(3) by (simp add: assms(4))
  finally show ?thesis .
qed

definition sample_shard :: "string \<Rightarrow> projector_settings" where
  "sample_shard s = \<lparr>ws_shard_id = s, ws_shard_count = 2, ws_max_inflight = 8, ws_max_ack_pending = 64,
     ws_metrics_port = None\<rparr>"

lemma exactly_one_shard_owns_witness:
  "length (filter (\<lambda>w. shard_decision_of w [(''execution_id'', VStr ''7'')] = Owned)
     [sample_shard ''noetl-projector-0'', sample_shard ''noetl-projector-1'']) = 1"
proof (rule exactly_one_shard_owns [where n = 2 and x = 7])
  show "list_all settings_valid [sample_shard ''noetl-projector-0'', sample_shard ''noetl-projector-1'']"
    by code_simp
  show "map (\<lambda>w. parse_shard_index (ws_shard_id w))
      [sample_shard ''noetl-projector-0'', sample_shard ''noetl-projector-1''] = [0..<nat 2]"
    by code_simp
  show "py_int (py_get [(''execution_id'', VStr ''7'')] ''execution_id'') = Inr 7" by code_simp
qed (simp_all add: sample_shard_def)

text \<open>
  The projector and the replay fold agree on frames: an event of a batch contributes to the
  version of a frame's record exactly when the fold touches that frame.
\<close>
lemma projector_frames_agree: "extract_frame_id ev = frame_id_of ev"
  by (auto simp: extract_frame_id_def frame_id_of_def meta_of_def dict_or_empty_def str_opt_def
      split: pyval.split)

section \<open>Two notifications\<close>

lemma project_one:
  assumes "group_key_of ev = Inr (Some k)" and "group_records projection (k, [ev]) = Inr [r]"
  shows "project projection db [ev]
       = (Inr (if fst (save_projection db r) then [r] else []), snd (save_projection db r))"
  using assms by (simp add: project_def group_events_def rbind_def split: prod.split)

definition notified :: "int \<Rightarrow> pydict" where
  "notified i = [(''event_id'', VInt i), (''event_type'', VStr ''playbook.initialized''),
     (''execution_id'', VInt 5)]"

lemma notified_key: "group_key_of (notified i) = Inr (Some (''default'', ''default'', 5))"
  by (simp add: group_key_of_def notified_def py_or_def)

lemma notified_order: "order_batch [notified i] = Inr [notified i]"
  by (simp add: order_batch_def batch_key_def notified_def)

lemma notified_counts: "event_counts_ok (notified i)"
  by (simp add: event_counts_ok_def notified_def meta_of_def dict_or_empty_def count_ok_def total_ok_def
      int_like_def py_get_default_def py_or_def)

lemma notified_fold:
  "fold_core initial_core [notified i] = Inr (execution_step (notified i) initial_core)"
  by (simp add: fold_core_def ordered_events_def fold_event_def stage_step_def frame_step_def
      command_step_def business_step_def loop_step_def stage_id_of_def frame_id_of_def command_id_of_def
      loop_id_of_def business_object_identity_def notified_def meta_of_def dict_or_empty_def
      str_opt_def nonempty_id_def Let_def py_or_def)

lemma notified_records:
  "\<exists>r. group_records ''all'' ((''default'', ''default'', 5), [notified i]) = Inr [r] \<and>
     pj_projection_id r = ''execution/5/all'' \<and> pj_version r = (if i = 0 then 1 else i) \<and>
     py_get (pj_state r) ''event_count'' = VInt 1"
proof -
  obtain s where s: "fold_replay_state [notified i] ''default'' ''default'' 5 ''all'' None None None = Inr s"
    using fold_replay_state_returns [of "[notified i]" None] notified_counts [of i] by (force simp: base_ok_def)
  have core: "rs_core s = execution_step (notified i) initial_core"
    using fold_replay_state_core [OF s] notified_fold [of i] by (simp add: start_state_def)
  have none: "rc_frames (rs_core s) = []" "rc_event_count (rs_core s) = 1"
    by (simp_all add: core execution_step_def initial_core_def Let_def)
  have v: "projection_version [notified i] = Inr (if i = 0 then 1 else i)"
    by (simp add: projection_version_def notified_def py_or_def)
  have l: "batch_last_event_id [notified i] = Inr (Some i)"
    by (simp add: batch_last_event_id_def notified_def)
  have "''execution/5/all'' = ''execution/'' @ show_int 5 @ ''/'' @ ''all''" by code_simp
  then show ?thesis
    by (simp add: group_records_def notified_order s execution_record_def v l none
        full_state_dict_def state_dict_def core_items_def)
qed

text \<open>
  A projection row holds the fold of the last batch alone, not of the execution: the projector
  folds each notification from an empty state and overwrites the row, so after two notifications
  of one event each the stored execution projection has an event count of one.
\<close>
lemma projection_forgets_earlier_batches:
  assumes "0 < i" and "i < j"
  shows "\<exists>r. load_projection
      (snd (project ''all'' (snd (project ''all'' \<lparr>pd_projections = [], pd_snapshots = [], pd_now = 0\<rparr>
        [notified i])) [notified j])) ''execution/5/all'' = Some r \<and>
    pj_version r = j \<and> py_get (pj_state r) ''event_count'' = VInt 1"
proof -
  let ?db = "\<lparr>pd_projections = [], pd_snapshots = [], pd_now = 0\<rparr>"
  obtain r where r: "group_records ''all'' ((''default'', ''default'', 5), [notified i]) = Inr [r]"
    "pj_projection_id r = ''execution/5/all''" "pj_version r = i"
    using notified_records [of i] assms(1) by auto
  obtain q where q: "group_records ''all'' ((''default'', ''default'', 5), [notified j]) = Inr [q]"
    "pj_projection_id q = ''execution/5/all''" "pj_version q = j"
    "py_get (pj_state q) ''event_count'' = VInt 1"
    using notified_records [of j] assms by auto
  have "load_projection (save_all ?db [r, q]) (pj_projection_id q) = Some (stored_projection q)"
    unfolding save_all_saves
    by (rule projections.newest_survives) (use r q assms in \<open>auto simp: load_projection_def\<close>)
  then show ?thesis
    using q by (simp add: project_one [OF notified_key r(1)] project_one [OF notified_key q(1)]
        save_all_def stored_projection_def)
qed

lemma projection_forgets_earlier_batches_witness:
  "\<exists>r. load_projection
      (snd (project ''all'' (snd (project ''all'' \<lparr>pd_projections = [], pd_snapshots = [], pd_now = 0\<rparr>
        [notified 1])) [notified 2])) ''execution/5/all'' = Some r \<and>
    pj_version r = 2 \<and> py_get (pj_state r) ''event_count'' = VInt 1"
  by (rule projection_forgets_earlier_batches) simp_all

end
