(* ===== verification/Caches.thy ===== *)
theory Caches
  imports Noetl_Prelude
begin

text \<open>
  The engine's two in-memory caches, \<open>BoundedCache\<close> and \<open>TemplateCache\<close> of
  \<^verbatim>\<open>src/noetl/core/dsl/engine/executor/common.py\<close>. An \<open>OrderedDict\<close> is an association list, oldest
  entry first: assignment to a key keeps the place of an existing entry (\<open>AList.update\<close>),
  \<open>move_to_end\<close> moves it, \<open>popitem(last=False)\<close> takes the head and raises on the empty cache.
  Clock readings are numbers passed in. What both caches promise is the locale \<open>bounded_store\<close>.
\<close>

definition move_to_end :: "'k \<Rightarrow> ('k \<times> 'v) list \<Rightarrow> ('k \<times> 'v) list" where
  "move_to_end k d = (case map_of d k of None \<Rightarrow> d | Some v \<Rightarrow> AList.delete k d @ [(k, v)])"

text \<open>\<open>while len(cache) >= max_size: cache.popitem(last=False)\<close>\<close>

fun evict_full :: "int \<Rightarrow> ('k \<times> 'v) list \<Rightarrow> ('k \<times> 'v) list res" where
  "evict_full m [] = (if m \<le> 0 then Inl (KeyError ''dictionary is empty'') else Inr [])"
| "evict_full m (e # c) = (if m \<le> int (length (e # c)) then evict_full m c else Inr (e # c))"

lemma evict_full_Inr:
  "evict_full m c = Inr c' \<Longrightarrow> int (length c') < m \<and> (\<exists>n. c' = drop n c)"
proof (induction m c rule: evict_full.induct)
  case (2 m e c)
  show ?case
  proof (cases "m \<le> int (length (e # c))")
    case True
    with 2 obtain n where "int (length c') < m" "c' = drop n c" by auto
    then show ?thesis by (auto intro: exI [of _ "Suc n"])
  next
    case False
    with 2(2) show ?thesis by (auto intro: exI [of _ 0])
  qed
qed (auto split: if_splits)

lemma evict_full_total: "0 < m \<Longrightarrow> \<exists>c'. evict_full m c = Inr c'"
  by (induction m c rule: evict_full.induct) auto

lemma dict_wf_drop: "dict_wf d \<Longrightarrow> dict_wf (drop n d)"
  by (auto simp: dict_wf_def drop_map [symmetric])

lemma map_of_drop: "dict_wf d \<Longrightarrow> map_of (drop n d) k = Some v \<Longrightarrow> map_of d k = Some v"
  by (metis dict_wf_def in_set_dropD map_of_SomeD map_of_eq_Some_iff)

lemma map_of_move [simp]: "map_of (move_to_end k d) = map_of d"
  by (auto simp: move_to_end_def fun_eq_iff map_add_def split: option.split)

lemma dict_wf_move [simp]: "dict_wf d \<Longrightarrow> dict_wf (move_to_end k d)"
proof (cases "map_of d k")
  case (Some v)
  assume "dict_wf d"
  then have "dict_wf (AList.delete k d)" by simp
  moreover have "map_of (AList.delete k d) k = None" by simp
  ultimately show ?thesis using Some
    by (simp add: move_to_end_def dict_wf_def map_of_eq_None_iff del: map_of_delete)
qed (simp add: move_to_end_def)

lemma length_delete_wf:
  "dict_wf d \<Longrightarrow> map_of d k = Some v \<Longrightarrow> Suc (length (AList.delete k d)) = length d"
proof (induction d)
  case (Cons p d)
  show ?case
  proof (cases "fst p = k")
    case True
    then have "AList.delete k d = d" using Cons.prems by (auto simp: dict_wf_def intro: delete_idem)
    with True show ?thesis by (cases p) simp
  next
    case False
    then show ?thesis using Cons by (cases p) (auto simp: dict_wf_def)
  qed
qed simp

lemma length_move [simp]: "dict_wf d \<Longrightarrow> length (move_to_end k d) = length d"
  using length_delete_wf by (fastforce simp: move_to_end_def split: option.split)

lemma length_delete_le: "length (AList.delete k d) \<le> length d"
  by (simp add: AList.delete_eq)

lemma length_update_le: "length (AList.update k v d) \<le> Suc (length d)"
  by (induction d) auto

section \<open>BoundedCache\<close>

record ('k, 'v) bounded_cache =
  bc_entries :: "('k \<times> ('v \<times> int)) list"
  bc_max_size :: int
  bc_ttl_seconds :: int
  bc_counter :: int

definition new_bounded_cache :: "int \<Rightarrow> int \<Rightarrow> ('k, 'v) bounded_cache" where
  "new_bounded_cache max_size ttl =
     \<lparr>bc_entries = [], bc_max_size = max_size, bc_ttl_seconds = ttl, bc_counter = 0\<rparr>"

definition cache_get ::
  "int \<Rightarrow> 'k \<Rightarrow> ('k, 'v) bounded_cache \<Rightarrow> 'v option \<times> ('k, 'v) bounded_cache" where
  "cache_get now k c =
     (case map_of (bc_entries c) k of
        None \<Rightarrow> (None, c)
      | Some (v, ts) \<Rightarrow>
          (if bc_ttl_seconds c < now - ts then (None, c\<lparr>bc_entries := AList.delete k (bc_entries c)\<rparr>)
           else (Some v, c\<lparr>bc_entries := move_to_end k (bc_entries c)\<rparr>)))"

definition cleanup_expired :: "int \<Rightarrow> ('k, 'v) bounded_cache \<Rightarrow> ('k, 'v) bounded_cache" where
  "cleanup_expired now c =
     c\<lparr>bc_entries := filter (\<lambda>(k, (v, ts)). \<not> bc_ttl_seconds c < now - ts) (bc_entries c)\<rparr>"

definition cache_set_sync ::
  "int \<Rightarrow> 'k \<Rightarrow> 'v \<Rightarrow> ('k, 'v) bounded_cache \<Rightarrow> ('k, 'v) bounded_cache" where
  "cache_set_sync now k v c =
     c\<lparr>bc_entries := AList.update k (v, now)
        (case evict_full (bc_max_size c) (bc_entries c) of Inl _ \<Rightarrow> [] | Inr es \<Rightarrow> es)\<rparr>"

definition cache_set ::
  "int \<Rightarrow> 'k \<Rightarrow> 'v \<Rightarrow> ('k, 'v) bounded_cache \<Rightarrow> ('k, 'v) bounded_cache res" where
  "cache_set now k v c0 =
     (let n = bc_counter c0 + 1;
          c = (if 100 \<le> n then (cleanup_expired now c0)\<lparr>bc_counter := 0\<rparr> else c0\<lparr>bc_counter := n\<rparr>)
      in rbind (evict_full (bc_max_size c) (bc_entries c)) (\<lambda>es.
           Inr (c\<lparr>bc_entries := AList.update k (v, now) es\<rparr>)))"

definition cache_delete :: "'k \<Rightarrow> ('k, 'v) bounded_cache \<Rightarrow> bool \<times> ('k, 'v) bounded_cache" where
  "cache_delete k c =
     (case map_of (bc_entries c) k of
        None \<Rightarrow> (False, c)
      | Some _ \<Rightarrow> (True, c\<lparr>bc_entries := AList.delete k (bc_entries c)\<rparr>))"

definition cache_clear :: "('k, 'v) bounded_cache \<Rightarrow> ('k, 'v) bounded_cache" where
  "cache_clear c = c\<lparr>bc_entries := []\<rparr>"

section \<open>TemplateCache\<close>

text \<open>Compilation is Jinja's and a parameter; a syntax error is an exception.\<close>

record 't template_cache =
  tc_entries :: "(string \<times> 't) list"
  tc_max_size :: int
  tc_hits :: int
  tc_misses :: int
  tc_evictions :: int

definition new_template_cache :: "int \<Rightarrow> 't template_cache" where
  "new_template_cache m = \<lparr>tc_entries = [], tc_max_size = m, tc_hits = 0, tc_misses = 0, tc_evictions = 0\<rparr>"

definition get_or_compile ::
  "(string \<Rightarrow> 't res) \<Rightarrow> string \<Rightarrow> 't template_cache \<Rightarrow> 't res \<times> 't template_cache" where
  "get_or_compile compile s c =
     (case map_of (tc_entries c) s of
        Some t \<Rightarrow> (Inr t, c\<lparr>tc_entries := move_to_end s (tc_entries c), tc_hits := tc_hits c + 1\<rparr>)
      | None \<Rightarrow>
         (let c1 = c\<lparr>tc_misses := tc_misses c + 1\<rparr> in
          (case compile s of
             Inl e \<Rightarrow> (Inl e, c1)
           | Inr t \<Rightarrow>
               (if int (length (tc_entries c)) < tc_max_size c
                then (Inr t, c1\<lparr>tc_entries := AList.update s t (tc_entries c)\<rparr>)
                else (case tc_entries c of
                    [] \<Rightarrow> (Inl (KeyError ''dictionary is empty''), c1)
                  | _ # es \<Rightarrow> (Inr t, c1\<lparr>tc_entries := AList.update s t es, tc_evictions := tc_evictions c + 1\<rparr>))))))"

section \<open>What the engine relies on\<close>

text \<open>
  A bounded store may forget entries at any step, but it never invents or mixes them up: a step
  that records \<open>k\<close> with \<open>v\<close> may only add that entry.
\<close>

datatype ('k, 'v) effect = Touch | Record 'k 'v | Drop 'k

fun noted :: "('k \<Rightarrow> 'v option) \<Rightarrow> ('k, 'v) effect \<Rightarrow> 'k \<Rightarrow> 'v option" where
  "noted m Touch = m"
| "noted m (Record k v) = m(k := Some v)"
| "noted m (Drop k) = m(k := None)"

locale bounded_store =
  fixes entry :: "'c \<Rightarrow> 'k \<Rightarrow> 'v option"
    and wf :: "'c \<Rightarrow> bool"
    and step :: "'o \<Rightarrow> 'c \<Rightarrow> 'c"
    and note_of :: "'o \<Rightarrow> ('k, 'v) effect"
  assumes step_wf: "wf c \<Longrightarrow> wf (step op c)"
    and step_sound: "wf c \<Longrightarrow> entry (step op c) k = Some v \<Longrightarrow> noted (entry c) (note_of op) k = Some v"
begin

definition run :: "'c \<Rightarrow> 'o list \<Rightarrow> 'c" where
  "run c ops = foldl (\<lambda>c op. step op c) c ops"

definition log_of :: "'o list \<Rightarrow> 'k \<Rightarrow> 'v option" where
  "log_of ops = foldl noted (\<lambda>_. None) (map note_of ops)"

lemma noted_mono: "(\<And>k v. m k = Some v \<Longrightarrow> n k = Some v) \<Longrightarrow> noted m op k = Some v \<Longrightarrow> noted n op k = Some v"
  by (cases op) (auto split: if_splits)

lemma foldl_sound:
  "wf c \<Longrightarrow> (\<And>k v. entry c k = Some v \<Longrightarrow> m k = Some v) \<Longrightarrow>
   wf (foldl (\<lambda>c op. step op c) c ops) \<and>
   (entry (foldl (\<lambda>c op. step op c) c ops) k = Some v \<longrightarrow> foldl noted m (map note_of ops) k = Some v)"
proof (induction ops arbitrary: c m)
  case (Cons op ops)
  have "noted m (note_of op) j = Some w" if "entry (step op c) j = Some w" for j w
    using noted_mono [OF Cons.prems(2) step_sound [OF Cons.prems(1) that]] .
  from Cons.IH [OF step_wf [OF Cons.prems(1)] this] show ?case by simp
qed simp

text \<open>A lookup after any run finds nothing or the value last recorded under the key.\<close>

lemma run_sound:
  assumes "wf c" and "\<And>k. entry c k = None"
  shows "wf (run c ops)" and "entry (run c ops) k = Some v \<Longrightarrow> log_of ops k = Some v"
  using foldl_sound [OF assms(1), of "\<lambda>_. None" ops] assms(2) by (auto simp: run_def log_of_def)

end

subsection \<open>BoundedCache keeps the contract\<close>

datatype ('k, 'v) cache_op = CGet int 'k | CSet int 'k 'v | CSetSync int 'k 'v | CDelete 'k | CCleanup int

text \<open>
  A \<open>set\<close> that raises has emptied the cache and counted the call; with a positive size none does.
\<close>

definition cache_step :: "('k, 'v) cache_op \<Rightarrow> ('k, 'v) bounded_cache \<Rightarrow> ('k, 'v) bounded_cache" where
  "cache_step op c =
     (case op of
        CGet now k \<Rightarrow> snd (cache_get now k c)
      | CSet now k v \<Rightarrow> (case cache_set now k v c of Inl _ \<Rightarrow> c\<lparr>bc_entries := []\<rparr> | Inr c' \<Rightarrow> c')
      | CSetSync now k v \<Rightarrow> cache_set_sync now k v c
      | CDelete k \<Rightarrow> snd (cache_delete k c)
      | CCleanup now \<Rightarrow> cleanup_expired now c)"

definition cache_note :: "('k, 'v) cache_op \<Rightarrow> ('k, 'v) effect" where
  "cache_note op =
     (case op of CSet _ k v \<Rightarrow> Record k v | CSetSync _ k v \<Rightarrow> Record k v | CDelete k \<Rightarrow> Drop k | _ \<Rightarrow> Touch)"

definition cache_entry :: "('k, 'v) bounded_cache \<Rightarrow> 'k \<Rightarrow> 'v option" where
  "cache_entry c k = map_option fst (map_of (bc_entries c) k)"

definition cache_wf :: "('k, 'v) bounded_cache \<Rightarrow> bool" where
  "cache_wf c = (0 < bc_max_size c \<and> dict_wf (bc_entries c) \<and> int (length (bc_entries c)) \<le> bc_max_size c)"

lemma update_evicted:
  assumes "evict_full m es = Inr es'" and "dict_wf es"
  shows "dict_wf (AList.update k x es')" and "int (length (AList.update k x es')) \<le> m"
    and "map_of (AList.update k x es') j = Some y \<Longrightarrow> (if j = k then y = x else map_of es j = Some y)"
proof -
  obtain n where n: "es' = drop n es" "int (length es') < m" using evict_full_Inr [OF assms(1)] by blast
  show "dict_wf (AList.update k x es')" using n assms(2) by (simp add: dict_wf_drop)
  show "int (length (AList.update k x es')) \<le> m"
    using n(2) length_update_le [of k x es'] by linarith
  show "map_of (AList.update k x es') j = Some y \<Longrightarrow> (if j = k then y = x else map_of es j = Some y)"
    using n assms(2) by (auto intro: map_of_drop split: if_splits)
qed

lemma filter_entries:
  assumes "dict_wf d"
  shows "dict_wf (filter P d)" and "map_of (filter P d) k = Some v \<Longrightarrow> map_of d k = Some v"
proof -
  show w: "dict_wf (filter P d)"
    using assms by (simp add: dict_wf_def distinct_map_filter)
  assume "map_of (filter P d) k = Some v"
  then have "(k, v) \<in> set d" by (auto dest: map_of_SomeD)
  then show "map_of d k = Some v" using assms by (simp add: dict_wf_def)
qed

lemma cache_step_wf:
  assumes "cache_wf c"
  shows "cache_wf (cache_step op c)"
proof (cases op)
  case (CGet now k)
  then show ?thesis using assms length_delete_le [of k "bc_entries c"]
    by (auto simp: cache_step_def cache_get_def cache_wf_def split: option.split)
next
  case (CSet now k v)
  let ?c = "if 100 \<le> bc_counter c + 1 then (cleanup_expired now c)\<lparr>bc_counter := 0\<rparr>
    else c\<lparr>bc_counter := bc_counter c + 1\<rparr>"
  have wf: "dict_wf (bc_entries ?c)" "bc_max_size ?c = bc_max_size c"
    using assms by (auto simp: cache_wf_def cleanup_expired_def filter_entries)
  obtain es where es: "evict_full (bc_max_size ?c) (bc_entries ?c) = Inr es"
    using evict_full_total assms wf(2) unfolding cache_wf_def by metis
  have "cache_step op c = ?c\<lparr>bc_entries := AList.update k (v, now) es\<rparr>"
    using es by (simp add: CSet cache_step_def cache_set_def Let_def)
  then show ?thesis
    using update_evicted [OF es wf(1)] assms wf(2) by (simp add: cache_wf_def)
next
  case (CSetSync now k v)
  obtain es where es: "evict_full (bc_max_size c) (bc_entries c) = Inr es"
    using evict_full_total assms unfolding cache_wf_def by blast
  then show ?thesis using update_evicted [OF es] assms
    by (simp add: CSetSync cache_step_def cache_set_sync_def cache_wf_def)
next
  case (CDelete k)
  then show ?thesis using assms length_delete_le [of k "bc_entries c"]
    by (auto simp: cache_step_def cache_delete_def cache_wf_def split: option.split)
next
  case (CCleanup now)
  have "int (length (filter P (bc_entries c))) \<le> bc_max_size c" for P
  proof -
    have "int (length (filter P (bc_entries c))) \<le> int (length (bc_entries c))" by simp
    then show ?thesis using assms unfolding cache_wf_def by linarith
  qed
  then show ?thesis using assms
    by (simp add: CCleanup cache_step_def cleanup_expired_def cache_wf_def filter_entries)
qed

lemma cache_step_sound:
  assumes "cache_wf c" and "cache_entry (cache_step op c) k = Some v"
  shows "noted (cache_entry c) (cache_note op) k = Some v"
proof (cases op)
  case (CGet now j)
  then show ?thesis using assms(2)
    by (auto simp: cache_step_def cache_get_def cache_note_def cache_entry_def split: option.splits if_splits)
next
  case (CSet now j w)
  let ?c = "if 100 \<le> bc_counter c + 1 then (cleanup_expired now c)\<lparr>bc_counter := 0\<rparr>
    else c\<lparr>bc_counter := bc_counter c + 1\<rparr>"
  have wf: "dict_wf (bc_entries ?c)" "bc_max_size ?c = bc_max_size c"
    using assms(1) by (auto simp: cache_wf_def cleanup_expired_def filter_entries)
  obtain es where es: "evict_full (bc_max_size ?c) (bc_entries ?c) = Inr es"
    using evict_full_total assms(1) wf(2) unfolding cache_wf_def by metis
  have "cache_step op c = ?c\<lparr>bc_entries := AList.update j (w, now) es\<rparr>"
    using es by (simp add: CSet cache_step_def cache_set_def Let_def)
  then obtain ts where "map_of (AList.update j (w, now) es) k = Some (v, ts)"
    using assms(2) by (auto simp: cache_entry_def)
  from update_evicted(3) [OF es wf(1) this]
  have "if k = j then v = w else map_of (bc_entries ?c) k = Some (v, ts)" by (auto split: if_splits)
  moreover have "map_of (bc_entries ?c) k = Some (v, ts) \<Longrightarrow> map_of (bc_entries c) k = Some (v, ts)"
    using assms(1) by (auto simp: cleanup_expired_def cache_wf_def intro: filter_entries(2) split: if_splits)
  ultimately show ?thesis by (auto simp: CSet cache_note_def cache_entry_def split: if_splits)
next
  case (CSetSync now j w)
  obtain es where es: "evict_full (bc_max_size c) (bc_entries c) = Inr es"
    using evict_full_total assms(1) unfolding cache_wf_def by blast
  then obtain ts where "map_of (AList.update j (w, now) es) k = Some (v, ts)"
    using assms(2) by (auto simp: CSetSync cache_step_def cache_set_sync_def cache_entry_def)
  from update_evicted(3) [OF es _ this] show ?thesis
    using assms(1) by (auto simp: CSetSync cache_note_def cache_entry_def cache_wf_def split: if_splits)
next
  case (CDelete j)
  then show ?thesis using assms(2)
    by (auto simp: cache_step_def cache_delete_def cache_note_def cache_entry_def split: option.splits if_splits)
next
  case (CCleanup now)
  then obtain ts where "map_of (filter (\<lambda>(k, (v, ts)). \<not> bc_ttl_seconds c < now - ts) (bc_entries c)) k = Some (v, ts)"
    using assms(2) by (auto simp: cache_step_def cleanup_expired_def cache_entry_def)
  then have "map_of (bc_entries c) k = Some (v, ts)"
    using assms(1) by (auto simp: cache_wf_def intro: filter_entries(2))
  then show ?thesis by (simp add: CCleanup cache_note_def cache_entry_def)
qed

interpretation bounded: bounded_store cache_entry cache_wf cache_step cache_note
  by unfold_locales (rule cache_step_wf, assumption, rule cache_step_sound)

subsection \<open>TemplateCache is transparent\<close>

text \<open>
  With one compiler throughout, the entries are what that compiler produces.
\<close>

definition template_wf :: "(string \<Rightarrow> 't res) \<Rightarrow> 't template_cache \<Rightarrow> bool" where
  "template_wf compile c =
     (0 < tc_max_size c \<and> dict_wf (tc_entries c) \<and> int (length (tc_entries c)) \<le> tc_max_size c \<and>
      list_all (\<lambda>(s, t). case compile s of Inr u \<Rightarrow> u = t | Inl _ \<Rightarrow> False) (tc_entries c))"

lemma list_all_update: "list_all P d \<Longrightarrow> P (k, v) \<Longrightarrow> list_all P (AList.update k v d)"
  by (induction d) auto

lemma list_all_delete: "list_all P d \<Longrightarrow> list_all P (AList.delete k d)"
  by (auto simp: list_all_iff AList.delete_eq)

lemma length_update_absent: "map_of d k = None \<Longrightarrow> length (AList.update k v d) = Suc (length d)"
  by (simp add: update_absent)

lemma get_or_compile_wf:
  assumes "template_wf compile c"
  shows "template_wf compile (snd (get_or_compile compile s c)) \<and> fst (get_or_compile compile s c) = compile s"
proof (cases "map_of (tc_entries c) s")
  case (Some t)
  have "case compile s of Inr u \<Rightarrow> u = t | Inl _ \<Rightarrow> False"
    using assms map_of_SomeD [OF Some] by (auto simp: template_wf_def list_all_iff)
  then have t: "compile s = Inr t" by (auto split: sum.splits)
  have "list_all (\<lambda>(s, t). case compile s of Inr u \<Rightarrow> u = t | Inl _ \<Rightarrow> False) (move_to_end s (tc_entries c))"
    using assms t Some by (simp add: template_wf_def move_to_end_def list_all_delete)
  then show ?thesis using Some assms t by (simp add: get_or_compile_def template_wf_def)
next
  case None
  show ?thesis
  proof (cases "compile s")
    case (Inl e)
    then show ?thesis using None assms by (simp add: get_or_compile_def template_wf_def)
  next
    case (Inr t)
    show ?thesis
    proof (cases "int (length (tc_entries c)) < tc_max_size c")
      case True
      then show ?thesis using None Inr assms
        by (simp add: get_or_compile_def template_wf_def list_all_update length_update_absent)
    next
      case False
      then obtain e es where es: "tc_entries c = e # es"
        using assms by (cases "tc_entries c") (auto simp: template_wf_def)
      then have "map_of es s = None" using None by (cases e) (auto split: if_splits)
      then show ?thesis using None Inr False assms es
        by (simp add: get_or_compile_def template_wf_def list_all_update length_update_absent
            dict_wf_def distinct_update)
    qed
  qed
qed

lemma template_run_wf:
  "template_wf compile c \<Longrightarrow>
   template_wf compile (foldl (\<lambda>c s. snd (get_or_compile compile s c)) c ss)"
  by (induction ss arbitrary: c) (auto simp: get_or_compile_wf)

section \<open>Properties\<close>

text \<open>
  The bounded cache is coherent and bounded: after any sequence of reads, writes (both
  variants), deletions and cleanups from the empty cache it holds at most its maximum of entries,
  and a read answers nothing or the value last set under the key and not deleted since.
\<close>
lemma bounded_cache_coherent:
  assumes "0 < m"
  shows "int (length (bc_entries (foldl (\<lambda>c op. cache_step op c) (new_bounded_cache m ttl) ops))) \<le> m \<and>
    (\<forall>v. fst (cache_get now k (foldl (\<lambda>c op. cache_step op c) (new_bounded_cache m ttl) ops)) = Some v
       \<longrightarrow> foldl noted (\<lambda>_. None) (map cache_note ops) k = Some v)"
proof -
  let ?init = "new_bounded_cache m ttl" and ?c = "foldl (\<lambda>c op. cache_step op c) (new_bounded_cache m ttl) ops"
  have wf0: "cache_wf ?init" using assms by (simp add: cache_wf_def new_bounded_cache_def)
  have e0: "\<And>k. cache_entry ?init k = None" by (simp add: cache_entry_def new_bounded_cache_def)
  have wf: "cache_wf ?c" using bounded.run_sound(1) [OF wf0 e0, of ops] by (simp add: bounded.run_def)
  have m: "bc_max_size (cache_step op c) = bc_max_size c" for op and c :: "('a, 'b) bounded_cache"
    by (auto simp: cache_step_def cache_get_def cache_set_def cache_set_sync_def cache_delete_def
        cleanup_expired_def Let_def elim!: rbind_InrE
        split: cache_op.split option.split sum.split)
  have "bc_max_size (foldl (\<lambda>c op. cache_step op c) c ops) = bc_max_size c" for c :: "('a, 'b) bounded_cache"
    by (induction ops arbitrary: c) (simp_all add: m)
  then have max: "bc_max_size ?c = m" by (simp add: new_bounded_cache_def)
  have "foldl noted (\<lambda>_. None) (map cache_note ops) k = Some v" if "fst (cache_get now k ?c) = Some v" for v
  proof -
    have "cache_entry ?c k = Some v"
      using that by (auto simp: cache_get_def cache_entry_def split: option.splits if_splits)
    then show ?thesis
      using bounded.run_sound(2) [OF wf0 e0, of ops k v] by (simp add: bounded.run_def bounded.log_of_def)
  qed
  with wf max show ?thesis by (simp add: cache_wf_def)
qed

lemma bounded_cache_coherent_witness:
  "foldl noted (\<lambda>_. None) (map cache_note [CSet 0 ''a'' (1::int), CSet 1 ''b'' 2, CSetSync 2 ''a'' 3]) ''a'' = Some 3"
proof -
  have "fst (cache_get 3 ''a'' (foldl (\<lambda>c op. cache_step op c) (new_bounded_cache 2 60)
      [CSet 0 ''a'' (1::int), CSet 1 ''b'' 2, CSetSync 2 ''a'' 3])) = Some 3"
    by (simp add: cache_step_def cache_set_def cache_set_sync_def cache_get_def new_bounded_cache_def Let_def)
  then show ?thesis
    using bounded_cache_coherent [of 2 60 "[CSet 0 ''a'' (1::int), CSet 1 ''b'' 2, CSetSync 2 ''a'' 3]" 3 "''a''"]
    by simp
qed

text \<open>
  Caching compiled templates is transparent: with one compiler, whatever was requested before,
  a request returns what compiling returns, its errors included, and the cache never exceeds its
  maximum size.
\<close>
lemma template_cache_transparent:
  assumes "0 < m"
  shows "fst (get_or_compile compile s
      (foldl (\<lambda>c s. snd (get_or_compile compile s c)) (new_template_cache m) history)) = compile s \<and>
    int (length (tc_entries (foldl (\<lambda>c s. snd (get_or_compile compile s c)) (new_template_cache m) history))) \<le> m"
proof -
  let ?c = "foldl (\<lambda>c s. snd (get_or_compile compile s c)) (new_template_cache m) history"
  have wf: "template_wf compile ?c"
    by (rule template_run_wf) (use assms in \<open>simp add: template_wf_def new_template_cache_def\<close>)
  have m: "tc_max_size (snd (get_or_compile compile s c)) = tc_max_size c" for s c
    by (auto simp: get_or_compile_def Let_def split: option.split sum.split list.split)
  have "tc_max_size (foldl (\<lambda>c s. snd (get_or_compile compile s c)) c history) = tc_max_size c" for c
    by (induction history arbitrary: c) (simp_all add: m)
  then have "tc_max_size ?c = m" by (simp add: new_template_cache_def)
  then show ?thesis using get_or_compile_wf [OF wf] wf by (simp add: template_wf_def)
qed

lemma template_cache_transparent_witness:
  "fst (get_or_compile (\<lambda>s. Inr (length s)) ''x''
      (foldl (\<lambda>c s. snd (get_or_compile (\<lambda>s. Inr (length s)) s c)) (new_template_cache 1) [''abc'', ''x'', ''y''])) = Inr 1"
  using template_cache_transparent [of 1 "\<lambda>s. Inr (length s)" "''x''" "[''abc'', ''x'', ''y'']"] by simp

text \<open>
  Neither write refreshes recency nor spares an unrelated entry: at capacity, setting a key
  that is already present evicts the oldest entry although the size would not grow, and the
  rewritten entry keeps its old place in the eviction order.
\<close>
lemma set_present_key_evicts_another:
  "map fst (bc_entries (cache_set_sync 2 ''b'' v (cache_set_sync 1 ''b'' w
      (cache_set_sync 0 ''a'' u (new_bounded_cache 2 60))))) = [''b''] \<and>
   map fst (bc_entries (cache_set_sync 3 ''a'' v (cache_set_sync 1 ''b'' w
      (cache_set_sync 0 ''a'' u (new_bounded_cache 3 60))))) = [''a'', ''b'']"
  by (simp add: cache_set_sync_def new_bounded_cache_def)

end
