(* ===== verification/Engine_Common.thy ===== *)
theory Engine_Common
  imports PyText
begin

text \<open>
  The pure helpers of \<^verbatim>\<open>noetl/core/dsl/engine/executor/common.py\<close>: size estimation and compaction of
  loop results, the readers of command ids and iteration indexes in event payloads, scoped \<open>set\<close>
  mutations, hydration of step results, the output view that playbook templates read, and the
  aliases of task-sequence step names. The estimator's floating-point extrapolation and
  \<open>sys.getsizeof\<close> are parameters; the preview limits are parameters with the module's defaults in
  the text.
\<close>

section \<open>Numbers and lengths of Python values\<close>

text \<open>
  \<open>len(x)\<close>, and a value used as an integer operand. Operands that are both strings or both lists
  would be joined by \<open>+\<close> in Python; here they raise.
\<close>

definition py_len :: "pyval \<Rightarrow> nat res" where
  "py_len v =
     (case v of VStr s \<Rightarrow> Inr (length s) | VList xs \<Rightarrow> Inr (length xs) | VDict d \<Rightarrow> Inr (length d)
      | _ \<Rightarrow> Inl (TypeError ''object has no len()''))"

definition py_num :: "pyval \<Rightarrow> int res" where
  "py_num v =
     (case v of VInt i \<Rightarrow> Inr i | VBool b \<Rightarrow> Inr (if b then 1 else 0)
      | _ \<Rightarrow> Inl (TypeError ''unsupported operand''))"

lemma py_num_simps [simp]: "py_num (VInt i) = Inr i" "py_num VNone = Inl (TypeError ''unsupported operand'')"
  by (simp_all add: py_num_def)

lemma py_len_simps [simp]: "py_len (VList xs) = Inr (length xs)" "py_len (VStr s) = Inr (length s)"
  by (simp_all add: py_len_def)

text \<open>\<open>s.split(c, 1)\<close> when \<open>c\<close> occurs in \<open>s\<close>.\<close>

definition split_once :: "char \<Rightarrow> string \<Rightarrow> (string \<times> string) option" where
  "split_once c s =
     (if c \<in> set s then Some (takeWhile (\<lambda>x. x \<noteq> c) s, tl (dropWhile (\<lambda>x. x \<noteq> c) s)) else None)"

section \<open>Loop results\<close>

text \<open>
  \<open>_estimate_size_fast\<close>. \<open>extrapolate t n\<close> is \<open>int(t / 5 * n)\<close> as the runtime computes it, \<open>getsizeof\<close>
  the interpreter's size of a container nested deeper than six levels.
\<close>

fun estimate_size_fast :: "(pyval \<Rightarrow> nat) \<Rightarrow> (nat \<Rightarrow> nat \<Rightarrow> nat) \<Rightarrow> nat \<Rightarrow> pyval \<Rightarrow> nat" where
  "estimate_size_fast getsizeof extrapolate depth VNone = 4"
| "estimate_size_fast getsizeof extrapolate depth (VBool b) = 5"
| "estimate_size_fast getsizeof extrapolate depth (VInt i) = max 1 (length (show_int i))"
| "estimate_size_fast getsizeof extrapolate depth (VStr s) =
     length s + 2 + length (filter (\<lambda>c. c = CHR 0x22) s) + length (filter (\<lambda>c. c = CHR 0x5C) s)"
| "estimate_size_fast getsizeof extrapolate depth (VDict d) =
     (if depth > 6 then getsizeof (VDict d)
      else 2 + (length d - 1)
         + sum_list (map (\<lambda>(k, v).
             (length k + 2 + length (filter (\<lambda>c. c = CHR 0x22) k) + length (filter (\<lambda>c. c = CHR 0x5C) k) + 1)
             + estimate_size_fast getsizeof extrapolate (Suc depth) v) d))"
| "estimate_size_fast getsizeof extrapolate depth (VList xs) =
     (if depth > 6 then getsizeof (VList xs)
      else (let sizes = map (estimate_size_fast getsizeof extrapolate (Suc depth)) xs; n = length xs in
        2 + (n - 1)
         + (if n \<le> 20 \<or> depth > 3 then sum_list sizes
            else extrapolate (sum_list (map (\<lambda>i. sizes ! i)
                   [0, n div 4, n div 2, 3 * n div 4, n - 1])) n)))"

text \<open>\<open>_preview_large_value\<close>; the module's limits are 8 keys and 3 items.\<close>

fun preview_large_value :: "nat \<Rightarrow> nat \<Rightarrow> nat \<Rightarrow> pyval \<Rightarrow> pyval" where
  "preview_large_value keys items depth (VDict d) =
     (if 2 \<le> depth then VStr (''dict('' @ show_nat (length d) @ '' keys)'')
      else (let p = take keys (map (\<lambda>(k, v). (k, preview_large_value keys items (Suc depth) v)) d) in
            VDict (if length d > keys
                   then AList.update ''_truncated_keys'' (VInt (int (length d - keys))) p else p)))"
| "preview_large_value keys items depth (VList xs) =
     (if 2 \<le> depth then VStr (''list('' @ show_nat (length xs) @ '' items)'')
      else VList (take items (map (preview_large_value keys items (Suc depth)) xs)
             @ (if length xs > items
                then [VStr (''... '' @ show_nat (length xs - items) @ '' more'')] else [])))"
| "preview_large_value keys items depth v = v"

definition compact_loop_result :: "(pyval \<Rightarrow> nat) \<Rightarrow> int \<Rightarrow> pyval \<Rightarrow> pyval" where
  "compact_loop_result estimate max_bytes result =
     (if max_bytes \<le> 0 then result
      else if \<not> is_dict result \<and> \<not> is_list result then result
      else if int (estimate result) \<le> max_bytes then result
      else VDict [(''_truncated'', VBool True), (''_original_size_bytes'', VInt (int (estimate result))),
             (''_type'', VStr (if is_dict result then ''dict'' else ''list'')),
             (''_preview'', preview_large_value 8 3 0 result)])"

definition retain_recent_loop_results :: "'a list \<Rightarrow> nat \<Rightarrow> int \<Rightarrow> 'a list \<times> nat" where
  "retain_recent_loop_results results omitted max_items =
     (if max_items \<le> 0 \<or> int (length results) \<le> max_items then (results, omitted)
      else (let overflow = length results - nat max_items in (drop overflow results, omitted + overflow)))"

definition loop_results_total :: "pydict \<Rightarrow> int res" where
  "loop_results_total ls =
     rbind (py_num (py_get_default ls ''completed_count'' (VInt 0))) (\<lambda>a.
     rbind (py_num (py_get_default ls ''omitted_results_count'' (VInt 0))) (\<lambda>b. Inr (a + b)))"

lemma retain_keeps_count:
  "retain_recent_loop_results results omitted m = (kept, o') \<Longrightarrow> length kept + o' = length results + omitted"
  by (auto simp: retain_recent_loop_results_def Let_def split: if_splits)

section \<open>Event payloads\<close>

definition unwrap_event_payload :: "pyval \<Rightarrow> pyval" where
  "unwrap_event_payload payload =
     (case payload of
        VDict d \<Rightarrow> if has_key d ''kind'' \<and> has_key d ''data'' then py_get d ''data'' else payload
      | _ \<Rightarrow> payload)"

definition coerce_command_id :: "pyval \<Rightarrow> string option" where
  "coerce_command_id v =
     (case v of
        VInt _ \<Rightarrow> Some (py_str v)
      | VBool _ \<Rightarrow> Some (py_str v)
      | VStr s \<Rightarrow> if strip s \<noteq> [] then Some (strip s) else None
      | _ \<Rightarrow> None)"

text \<open>\<open>x.get(key)\<close> when \<open>x\<close> is a dictionary: the candidate it contributes, if any.\<close>

definition sub_dict :: "pydict \<Rightarrow> string \<Rightarrow> pydict option" where
  "sub_dict d k = as_dict (py_get d k)"

definition candidate :: "pydict option \<Rightarrow> string \<Rightarrow> pyval list" where
  "candidate d k = (case d of None \<Rightarrow> [] | Some e \<Rightarrow> [py_get e k])"

definition opt_sub :: "pydict option \<Rightarrow> string \<Rightarrow> pydict option" where
  "opt_sub d k = (case d of None \<Rightarrow> None | Some e \<Rightarrow> sub_dict e k)"

definition command_id_candidates :: "pydict \<Rightarrow> pyval list" where
  "command_id_candidates payload =
     (let context = sub_dict payload ''context''; result = sub_dict payload ''result'';
          response = sub_dict payload ''response'' in
      [py_get payload ''command_id'']
      @ candidate context ''command_id''
      @ candidate result ''command_id''
      @ candidate (opt_sub result ''context'') ''command_id''
      @ candidate response ''command_id''
      @ candidate (opt_sub response ''context'') ''command_id''
      @ candidate (opt_sub response ''result'') ''command_id''
      @ candidate (opt_sub (opt_sub response ''result'') ''context'') ''command_id'')"

fun first_some :: "('a \<Rightarrow> 'b option) \<Rightarrow> 'a list \<Rightarrow> 'b option" where
  "first_some f [] = None"
| "first_some f (x # xs) = (case f x of Some y \<Rightarrow> Some y | None \<Rightarrow> first_some f xs)"

definition extract_command_id_from_event_payload :: "pyval \<Rightarrow> pyval \<Rightarrow> string option" where
  "extract_command_id_from_event_payload payload meta =
     (case (case meta of
              VDict m \<Rightarrow> if has_key m ''command_id'' then coerce_command_id (py_get m ''command_id'') else None
            | _ \<Rightarrow> None) of
        Some c \<Rightarrow> Some c
      | None \<Rightarrow>
          (case payload of
             VDict d \<Rightarrow> first_some coerce_command_id (command_id_candidates d)
           | _ \<Rightarrow> None))"

definition extract_loop_iteration_index :: "pyval \<Rightarrow> pyval \<Rightarrow> int option" where
  "extract_loop_iteration_index payload meta =
     (let key = ''loop_iteration_index''; p = as_dict payload in
      first_some py_int_opt
        (candidate (as_dict meta) key
         @ candidate p key
         @ candidate (opt_sub p ''context'') key
         @ candidate (opt_sub p ''response'') key
         @ candidate (opt_sub (opt_sub p ''response'') ''context'') key
         @ candidate (opt_sub p ''result'') key
         @ candidate (opt_sub (opt_sub p ''result'') ''context'') key))"

section \<open>Scoped mutations\<close>

definition mutation_target :: "string \<Rightarrow> string" where
  "mutation_target key =
     (case split_once (CHR ''.'') key of
        Some (scope, bare) \<Rightarrow> if scope \<in> {''ctx'', ''iter'', ''step''} then bare else key
      | None \<Rightarrow> key)"

definition apply_set_mutations :: "pydict \<Rightarrow> pydict \<Rightarrow> pydict" where
  "apply_set_mutations vars mutations =
     foldl (\<lambda>vs (k, v). AList.update (mutation_target k) v vs) vars mutations"

lemma apply_set_mutations_lookup:
  "map_of (apply_set_mutations vars ms) x
     = (case map_of (rev (map (\<lambda>(k, v). (mutation_target k, v)) ms)) x of
          None \<Rightarrow> map_of vars x | Some v \<Rightarrow> Some v)"
  by (induction ms arbitrary: vars)
    (auto simp: apply_set_mutations_def map_add_def split: option.split)

section \<open>Step results\<close>

text \<open>
  \<open>_merge_hydrated_step_result\<close>: \<open>resolved\<close> is what the store returned for the reference of the
  compact result. Setting a key that must not be overwritten is \<open>dict_setdefault\<close>.
\<close>

definition only_if :: "bool \<Rightarrow> ('a \<Rightarrow> 'a) \<Rightarrow> 'a \<Rightarrow> 'a" where
  "only_if b f x = (if b then f x else x)"

definition with_reference :: "pyval \<Rightarrow> pydict \<Rightarrow> pydict" where
  "with_reference reference d =
     only_if (is_dict reference) (\<lambda>d. AList.update ''reference'' reference (AList.update ''ref'' reference d)) d"

definition with_context :: "pyval \<Rightarrow> pydict \<Rightarrow> pydict" where
  "with_context ctx d = only_if (is_dict ctx) (AList.update ''context'' ctx) d"

definition merge_hydrated_step_result :: "pyval \<Rightarrow> pydict \<Rightarrow> pydict \<Rightarrow> pyval" where
  "merge_hydrated_step_result resolved compact ref_wrapper =
     (let reference = py_get compact ''reference''; ctx = py_get compact ''context'';
          status = py_get compact ''status'' in
      case resolved of
        VDict r \<Rightarrow>
          VDict (only_if (is_dict ctx) (dict_setdefault ''context'' ctx)
            (only_if (status \<noteq> VNone) (dict_setdefault ''status'' status)
            (only_if (is_dict reference)
                (\<lambda>d. dict_setdefault ''reference'' reference (dict_setdefault ''ref'' reference d))
            (dict_setdefault ''_ref'' (VDict ref_wrapper)
            (dict_setdefault ''data'' (VDict r) r)))))
      | VList rows \<Rightarrow>
          (let rc = (case ctx of VDict c \<Rightarrow> py_get_default c ''row_count'' (VInt (int (length rows)))
                     | _ \<Rightarrow> VInt (int (length rows)));
               cols = (case ctx of VDict c \<Rightarrow> py_get c ''columns'' | _ \<Rightarrow> VNone);
               data_view = [(''rows'', VList rows), (''row_count'', rc)]
                  @ (if cols \<noteq> VNone then [(''columns'', cols)] else []) in
           VDict (with_context ctx (with_reference reference
             [(''data'', VDict data_view), (''rows'', VList rows), (''row_count'', rc),
              (''_ref'', VDict ref_wrapper), (''status'', status)])))
      | _ \<Rightarrow>
          VDict (with_context ctx (with_reference reference
             [(''data'', resolved), (''_ref'', VDict ref_wrapper), (''status'', status)])))"

definition normalize_output_status :: "pyval \<Rightarrow> string" where
  "normalize_output_status v =
     (let raw = lower (strip (py_str (py_or v (VStr '''')))) in
      if raw \<in> {''ok'', ''success'', ''completed'', ''done'', ''noop''} then ''ok''
      else if raw \<in> {''error'', ''failed'', ''failure''} then ''error''
      else ''ok'')"

text \<open>\<open>_build_output_view\<close>: first what the event payload says, then what the step's stored result says.\<close>

definition inline_rows_of :: "pydict \<Rightarrow> pyval list option" where
  "inline_rows_of pr =
     (case py_get pr ''rows'' of
        VList xs \<Rightarrow> Some xs
      | _ \<Rightarrow> (case py_get pr ''context'' of VDict c \<Rightarrow> as_list (py_get c ''rows'') | _ \<Rightarrow> None))"

definition add_inline_rows :: "pyval list \<Rightarrow> pydict \<Rightarrow> pydict" where
  "add_inline_rows rows output =
     (let view = AList.update ''rows'' (VList rows) (dict_or_empty (py_get output ''data'')) in
      AList.update ''data''
        (VDict (if has_key view ''row_count'' then view
                else AList.update ''row_count'' (VInt (int (length rows))) view)) output)"

definition output_from_payload :: "pydict \<Rightarrow> pydict" where
  "output_from_payload event_payload =
     (let output = [(''status'', VStr (if truthy (py_get event_payload ''error'') then ''error'' else ''ok'')),
          (''data'', VNone), (''ref'', VNone), (''error'', py_get event_payload ''error'')] in
      case py_get event_payload ''result'' of
        VDict pr \<Rightarrow>
          (let o1 = AList.update ''status''
                 (VStr (normalize_output_status (py_get_default pr ''status'' (py_get output ''status'')))) output;
               o2 = only_if (is_dict (py_get pr ''reference'')) (AList.update ''ref'' (py_get pr ''reference'')) o1;
               o3 = only_if (is_dict (py_get pr ''error'')) (AList.update ''error'' (py_get pr ''error'')) o2;
               o4 = only_if (is_dict (py_get pr ''context''))
                 (\<lambda>d. AList.update ''data'' (py_get pr ''context'') (AList.update ''context'' (py_get pr ''context'') d)) o3 in
           case inline_rows_of pr of None \<Rightarrow> o4 | Some rows \<Rightarrow> add_inline_rows rows o4)
      | _ \<Rightarrow> output)"

definition output_from_step :: "pyval \<Rightarrow> pydict \<Rightarrow> pydict" where
  "output_from_step step_result output =
     (case step_result of
        VDict sr \<Rightarrow>
          (let o1 = only_if (has_key sr ''status'')
                 (AList.update ''status'' (VStr (normalize_output_status (py_get sr ''status'')))) output;
               o2 = only_if (has_key sr ''error'' \<and> py_get sr ''error'' \<noteq> VNone)
                 (AList.update ''error'' (py_get sr ''error'')) o1;
               o3 = (if is_dict (py_get sr ''ref'') then AList.update ''ref'' (py_get sr ''ref'') o2
                     else if is_dict (py_get sr ''reference'') then AList.update ''ref'' (py_get sr ''reference'') o2
                     else o2);
               o4 = AList.update ''data'' (py_get_default sr ''data'' step_result) o3 in
           foldl (\<lambda>d key. only_if (has_key sr key) (AList.update key (py_get sr key)) d) o4
             [''http'', ''pg'', ''py'', ''meta'', ''context''])
      | VNone \<Rightarrow> output
      | _ \<Rightarrow> AList.update ''data'' step_result output)"

definition build_output_view :: "pydict \<Rightarrow> pyval \<Rightarrow> pydict" where
  "build_output_view event_payload step_result =
     (let output = output_from_step step_result (output_from_payload event_payload) in
      if py_get output ''data'' = VNone \<and> py_get output ''context'' \<noteq> VNone
      then AList.update ''data'' (py_get output ''context'') output else output)"

section \<open>Step names\<close>

definition task_sequence_suffix :: string where "task_sequence_suffix = '':task_sequence''"

definition parent_of :: "string \<Rightarrow> string" where
  "parent_of s = take (length s - length task_sequence_suffix) s"

definition pending_step_key :: "string option \<Rightarrow> string" where
  "pending_step_key step =
     (case step of None \<Rightarrow> ''''
      | Some s \<Rightarrow> if endswith s task_sequence_suffix then parent_of s else s)"

definition node_name_candidates :: "string \<Rightarrow> string list" where
  "node_name_candidates n =
     (if endswith n task_sequence_suffix
      then n # (if parent_of n \<noteq> [] then [parent_of n] else [])
      else [n, n @ task_sequence_suffix])"

lemma parent_of_append [simp]: "parent_of (p @ task_sequence_suffix) = p"
  by (simp add: parent_of_def)

lemma candidates_share_pending_key:
  "n \<noteq> [] \<Longrightarrow> \<not> endswith (parent_of n) task_sequence_suffix \<Longrightarrow> m \<in> set (node_name_candidates n)
     \<Longrightarrow> pending_step_key (Some m) = pending_step_key (Some n)"
  by (auto simp: node_name_candidates_def pending_step_key_def endswith_iff split: if_splits)

end
