(* ===== verification/Credential_Refs.thy ===== *)
theory Credential_Refs
  imports PyText
begin

text \<open>
  Keychain references of \<^verbatim>\<open>noetl/core/credential_refs.py\<close>: templates that read a keychain entry are
  replaced by reference objects, references are resolved late, and keychain namespaces are
  stripped from everything that is stored. The regular expressions of the module are written out
  as the matchers they are; template rendering and the keychain lookup service are parameters.
  The Arrow variant of the scrubber and the redaction it ends in are not modelled.
\<close>

section \<open>References and manifests\<close>

definition noetl_ref_key :: string where "noetl_ref_key = ''$noetl_ref''"
definition manifest_key :: string where "manifest_key = ''_keychain_manifest''"

definition keychain_ref :: "string \<Rightarrow> string option \<Rightarrow> pyval" where
  "keychain_ref name field =
     VDict [(noetl_ref_key, VDict [(''kind'', VStr ''keychain''), (''name'', VStr name),
       (''field'', enc_str field)])]"

definition keychain_ref_of :: "pyval \<Rightarrow> pydict option" where
  "keychain_ref_of v =
     (case v of
        VDict d \<Rightarrow>
          (case py_get d noetl_ref_key of
             VDict r \<Rightarrow> if py_get r ''kind'' = VStr ''keychain'' \<and> truthy (py_get r ''name'') then Some r else None
           | _ \<Rightarrow> None)
      | _ \<Rightarrow> None)"

definition is_keychain_ref :: "pyval \<Rightarrow> bool" where
  "is_keychain_ref v = (keychain_ref_of v \<noteq> None)"

text \<open>
  \<open>build_keychain_manifest\<close>; \<open>resolved\<close> are the field names resolved per entry, field names are
  strings, and the dictionaries of the section have string keys.
\<close>

definition manifest_fields :: "pydict \<Rightarrow> (string \<times> string list) list \<Rightarrow> string list" where
  "manifest_fields entry resolved =
     sort (remdups
       ((case py_get entry ''map'' of VDict m \<Rightarrow> map fst m | _ \<Rightarrow> [])
        @ (case map_of resolved (py_str (py_get entry ''name'')) of None \<Rightarrow> [] | Some fs \<Rightarrow> fs)))"

definition add_manifest_entry :: "(string \<times> string list) list \<Rightarrow> pydict \<Rightarrow> pyval \<Rightarrow> pydict" where
  "add_manifest_entry resolved entries v =
     (case v of
        VDict entry \<Rightarrow>
          (if truthy (py_get entry ''name'')
           then AList.update (py_str (py_get entry ''name''))
                  (VDict [(''kind'', py_or (py_get entry ''kind'')
                             (py_or (py_get entry ''type'') (VStr ''unknown''))),
                    (''fields'', VList (map VStr (manifest_fields entry resolved)))]) entries
           else entries)
      | _ \<Rightarrow> entries)"

definition build_keychain_manifest :: "pyval \<Rightarrow> (string \<times> string list) list \<Rightarrow> pydict" where
  "build_keychain_manifest keychain_section resolved =
     [(''entries'', VDict (case keychain_section of
         VList es \<Rightarrow> foldl (add_manifest_entry resolved) [] es | _ \<Rightarrow> []))]"

definition keychain_names_from_manifest :: "pyval \<Rightarrow> string list" where
  "keychain_names_from_manifest m =
     (case m of
        VDict d \<Rightarrow> (case py_get d ''entries'' of VDict es \<Rightarrow> map fst es | _ \<Rightarrow> [])
      | _ \<Rightarrow> [])"

section \<open>The expression matchers\<close>

definition ident_start :: "char \<Rightarrow> bool" where
  "ident_start c = (let n = of_char c :: nat in
     (65 \<le> n \<and> n \<le> 90) \<or> (97 \<le> n \<and> n \<le> 122) \<or> n = 95)"

definition ident_char :: "char \<Rightarrow> bool" where
  "ident_char c = (ident_start c \<or> is_digit c \<or> c = CHR ''-'')"

definition is_quote :: "char \<Rightarrow> bool" where
  "is_quote c = (c = CHR 0x27 \<or> c = CHR 0x22)"

text \<open>\<open>[A-Za-z_][A-Za-z0-9_-]*\<close>: the identifier and the rest of the text.\<close>

definition match_ident :: "string \<Rightarrow> (string \<times> string) option" where
  "match_ident s =
     (case s of [] \<Rightarrow> None
      | c # _ \<Rightarrow> if ident_start c then Some (takeWhile ident_char s, dropWhile ident_char s) else None)"

definition match_dot_ident :: "string \<Rightarrow> (string \<times> string) option" where
  "match_dot_ident s = (case s of c # r \<Rightarrow> if c = CHR ''.'' then match_ident r else None | [] \<Rightarrow> None)"

text \<open>\<open>\<^verbatim>\<open>\[['"]([^'"]+)['"]\]\<close>\<close>\<close>

definition match_bracket :: "string \<Rightarrow> (string \<times> string) option" where
  "match_bracket s =
     (case s of
        b # q # r \<Rightarrow>
          (if b = CHR ''['' \<and> is_quote q then
             (let name = takeWhile (\<lambda>c. \<not> is_quote c) r; r' = dropWhile (\<lambda>c. \<not> is_quote c) r in
              if name \<noteq> [] \<and> 2 \<le> length r' \<and> r' ! 1 = CHR '']'' then Some (name, drop 2 r') else None)
           else None)
      | _ \<Rightarrow> None)"

definition after_keychain :: "string \<Rightarrow> string option" where
  "after_keychain s = (if startswith s ''keychain'' then Some (drop 8 s) else None)"

text \<open>A name and an optional second part, to the end of the text.\<close>

definition match_two ::
  "(string \<Rightarrow> (string \<times> string) option) \<Rightarrow> string \<Rightarrow> (string \<times> string option) option" where
  "match_two m s =
     (case after_keychain s of
        None \<Rightarrow> None
      | Some r \<Rightarrow>
          (case m r of
             None \<Rightarrow> None
           | Some (name, r1) \<Rightarrow>
               (case m r1 of
                  Some (field, r2) \<Rightarrow> if list_all is_space r2 then Some (name, Some field) else None
                | None \<Rightarrow> if list_all is_space r1 then Some (name, None) else None)))"

text \<open>The body of \<open>{{ ... }}\<close> when the whole text, up to surrounding space, is one expression.\<close>

definition jinja_body :: "string \<Rightarrow> string option" where
  "jinja_body s =
     (let t = strip s in
      if 4 \<le> length t \<and> startswith t ''{{'' \<and> endswith t ''}}''
      then Some (strip (take (length t - 4) (drop 2 t))) else None)"

definition parse_pure_keychain_expression :: "string \<Rightarrow> pyval option" where
  "parse_pure_keychain_expression template =
     (case jinja_body template of
        None \<Rightarrow> None
      | Some inner \<Rightarrow>
          (let base = strip (hd (split_on (CHR ''|'') inner)) in
           case match_two match_dot_ident base of
             Some (n, f) \<Rightarrow> Some (keychain_ref n f)
           | None \<Rightarrow> (case match_two match_bracket base of
                 Some (n, f) \<Rightarrow> Some (keychain_ref n f) | None \<Rightarrow> None)))"

text \<open>\<open>_KEYCHAIN_SEARCH_RE.finditer\<close>: the names, left to right.\<close>

definition keychain_match :: "string \<Rightarrow> (string \<times> string) option" where
  "keychain_match s =
     (case after_keychain s of None \<Rightarrow> None
      | Some r \<Rightarrow> (case match_dot_ident r of Some p \<Rightarrow> Some p | None \<Rightarrow> match_bracket r))"

lemma match_shorter:
  "match_ident s = Some (n, r) \<Longrightarrow> length r < length s"
  "match_dot_ident s = Some (n, r) \<Longrightarrow> length r < length s"
  "match_bracket s = Some (n, r) \<Longrightarrow> length r < length s"
proof -
  show i: "match_ident s = Some (n, r) \<Longrightarrow> length r < length s" for s
    by (cases s) (auto simp: match_ident_def ident_char_def less_Suc_eq_le length_dropWhile_le split: if_splits)
  show "match_dot_ident s = Some (n, r) \<Longrightarrow> length r < length s"
    by (cases s) (auto simp: match_dot_ident_def less_SucI dest!: i split: if_splits)
  show "match_bracket s = Some (n, r) \<Longrightarrow> length r < length s"
    by (cases s rule: remdups_adj.cases)
      (auto simp: match_bracket_def Let_def less_Suc_eq_le split: if_splits
        intro: order_trans [OF diff_le_self le_SucI [OF length_dropWhile_le]])
qed

lemma keychain_match_shorter: "keychain_match s = Some (n, r) \<Longrightarrow> length r < length s"
  by (auto simp: keychain_match_def after_keychain_def startswith_def split: if_splits option.splits
      dest!: match_shorter)

function keychain_finds :: "string \<Rightarrow> string list" where
  "keychain_finds s =
     (case keychain_match s of
        Some (n, r) \<Rightarrow> n # keychain_finds r
      | None \<Rightarrow> (case s of [] \<Rightarrow> [] | c # s' \<Rightarrow> keychain_finds s'))"
  by pat_completeness auto
termination
  by (relation "measure length") (auto dest: keychain_match_shorter)

declare keychain_finds.simps [simp del]

definition contains_keychain_template :: "pyval \<Rightarrow> bool" where
  "contains_keychain_template v =
     (case v of
        VStr s \<Rightarrow> contains s ''{{'' \<and> contains s ''}}'' \<and> contains s ''keychain'' \<and> keychain_finds s \<noteq> []
      | _ \<Rightarrow> False)"

definition is_mixed_keychain_expression :: "pyval \<Rightarrow> bool" where
  "is_mixed_keychain_expression v =
     (contains_keychain_template v \<and>
      (case v of VStr s \<Rightarrow> parse_pure_keychain_expression s = None | _ \<Rightarrow> False))"

section \<open>Traversals\<close>

fun encode_keychain_templates :: "pyval \<Rightarrow> pyval" where
  "encode_keychain_templates (VStr s) =
     (case parse_pure_keychain_expression s of None \<Rightarrow> VStr s | Some r \<Rightarrow> r)"
| "encode_keychain_templates (VDict d) = VDict (map (\<lambda>(k, v). (k, encode_keychain_templates v)) d)"
| "encode_keychain_templates (VList xs) = VList (map encode_keychain_templates xs)"
| "encode_keychain_templates v = v"

text \<open>\<open>render\<close> is the template renderer applied to the environment and the context.\<close>

fun render_preserving_keychain_refs :: "(string \<Rightarrow> pyval) \<Rightarrow> pyval \<Rightarrow> pyval" where
  "render_preserving_keychain_refs render (VStr s) =
     (case parse_pure_keychain_expression s of
        Some r \<Rightarrow> r
      | None \<Rightarrow> if is_mixed_keychain_expression (VStr s) then VStr s else render s)"
| "render_preserving_keychain_refs render (VDict d) =
     VDict (map (\<lambda>(k, v). (k, render_preserving_keychain_refs render v)) d)"
| "render_preserving_keychain_refs render (VList xs) =
     VList (map (render_preserving_keychain_refs render) xs)"
| "render_preserving_keychain_refs render v = v"

fun extract_keychain_ref_names :: "pyval \<Rightarrow> string list" where
  "extract_keychain_ref_names (VDict d) =
     (case keychain_ref_of (VDict d) of
        Some r \<Rightarrow> [py_str (py_get r ''name'')]
      | None \<Rightarrow> concat (map (\<lambda>(k, v). extract_keychain_ref_names v) d))"
| "extract_keychain_ref_names (VList xs) = concat (map extract_keychain_ref_names xs)"
| "extract_keychain_ref_names (VStr s) =
     (if contains_keychain_template (VStr s) then keychain_finds s else [])"
| "extract_keychain_ref_names v = []"

fun collect_secret_strings :: "pyval \<Rightarrow> string list" where
  "collect_secret_strings (VDict d) = concat (map (\<lambda>(k, v). collect_secret_strings v) d)"
| "collect_secret_strings (VList xs) = concat (map collect_secret_strings xs)"
| "collect_secret_strings (VStr s) = (if s \<noteq> [] then [s] else [])"
| "collect_secret_strings v = []"

fun strip_blocked :: "string list \<Rightarrow> pyval \<Rightarrow> pyval" where
  "strip_blocked blocked (VDict d) =
     VDict (map (\<lambda>(k, v). (k, if k = manifest_key then v else strip_blocked blocked v))
              (filter (\<lambda>(k, v). k = manifest_key \<or> k \<notin> set blocked) d))"
| "strip_blocked blocked (VList xs) = VList (map (strip_blocked blocked) xs)"
| "strip_blocked blocked v = v"

definition strip_keychain_namespaces :: "pyval \<Rightarrow> pyval \<Rightarrow> pyval" where
  "strip_keychain_namespaces v manifest =
     strip_blocked (''keychain'' # keychain_names_from_manifest manifest) v"

text \<open>
  \<open>_resolve_value\<close>: \<open>keychain\<close> is the dictionary of resolved entries (\<open>context["keychain"]\<close>);
  \<open>ref.get("name")\<close> is a string in every reference the code builds, and a name of another type
  finds nothing.
\<close>

definition resolve_ref :: "pydict \<Rightarrow> pydict \<Rightarrow> pyval" where
  "resolve_ref keychain r =
     (let data = (case py_get r ''name'' of VStr n \<Rightarrow> py_get_default keychain n (VDict []) | _ \<Rightarrow> VDict []) in
      case py_get r ''field'' of
        VNone \<Rightarrow> data
      | VStr f \<Rightarrow> (case data of VDict d \<Rightarrow> py_get d f | _ \<Rightarrow> VNone)
      | _ \<Rightarrow> VNone)"

fun resolve_value :: "(string \<Rightarrow> pyval) \<Rightarrow> pydict \<Rightarrow> pyval \<Rightarrow> pyval" where
  "resolve_value render keychain (VDict d) =
     (case keychain_ref_of (VDict d) of
        Some r \<Rightarrow> resolve_ref keychain r
      | None \<Rightarrow> VDict (map (\<lambda>(k, v). (k, resolve_value render keychain v)) d))"
| "resolve_value render keychain (VStr s) =
     (if contains_keychain_template (VStr s) then render s else VStr s)"
| "resolve_value render keychain (VList xs) = VList (map (resolve_value render keychain) xs)"
| "resolve_value render keychain v = v"

section \<open>Stripping\<close>

text \<open>No dictionary, at any depth outside a manifest, has a blocked key.\<close>

fun free_of_blocked :: "string list \<Rightarrow> pyval \<Rightarrow> bool" where
  "free_of_blocked blocked (VDict d) =
     list_all (\<lambda>(k, v). k = manifest_key \<or> (k \<notin> set blocked \<and> free_of_blocked blocked v)) d"
| "free_of_blocked blocked (VList xs) = list_all (free_of_blocked blocked) xs"
| "free_of_blocked blocked v = True"

lemma strip_blocked_free: "free_of_blocked blocked (strip_blocked blocked v)"
  by (induction blocked v rule: strip_blocked.induct) (auto simp: list_all_iff)

lemma strip_blocked_same: "free_of_blocked blocked v \<Longrightarrow> strip_blocked blocked v = v"
proof (induction blocked v rule: strip_blocked.induct)
  case (1 blocked d)
  then have "filter (\<lambda>(k, v). k = manifest_key \<or> k \<notin> set blocked) d = d"
    by (intro filter_True) (auto simp: list_all_iff)
  moreover have "map (\<lambda>(k, v). (k, if k = manifest_key then v else strip_blocked blocked v)) d = d"
    using 1 by (intro map_idI) (auto simp: list_all_iff)
  ultimately show ?case by simp
qed (auto simp: list_all_iff intro: map_idI)

lemma strip_idem [simp]:
  "strip_keychain_namespaces (strip_keychain_namespaces v m) m = strip_keychain_namespaces v m"
  by (simp add: strip_keychain_namespaces_def strip_blocked_free strip_blocked_same)

lemma strip_lookup:
  "py_get d' k = (if k \<noteq> manifest_key \<and> k \<in> set (''keychain'' # keychain_names_from_manifest m) then VNone
       else if k = manifest_key then py_get d k else strip_keychain_namespaces (py_get d k) m)"
  if "strip_keychain_namespaces (VDict d) m = VDict d'"
  using that
proof (induction d arbitrary: d')
  case Nil
  then show ?case by (simp add: strip_keychain_namespaces_def)
next
  case (Cons p d)
  obtain k' v where p: "p = (k', v)" by force
  show ?case
    using Cons.prems Cons.IH [of "case strip_keychain_namespaces (VDict d) m of VDict e \<Rightarrow> e"]
    by (auto simp: p strip_keychain_namespaces_def split: if_splits)
qed

text \<open>
  Stripping leaves no \<open>keychain\<close> key and no key of a manifest entry in any dictionary at any
  depth (a stored manifest itself apart), and changes a value only when it has such a key.
\<close>
lemma strip_removes_namespaces:
  "free_of_blocked (''keychain'' # keychain_names_from_manifest m) (strip_keychain_namespaces v m) \<and>
   (strip_keychain_namespaces v m = v
      \<longleftrightarrow> free_of_blocked (''keychain'' # keychain_names_from_manifest m) v)"
  by (metis strip_blocked_free strip_blocked_same strip_keychain_namespaces_def)

text \<open>
  Rendering that preserves keychain references never hands the renderer a template that
  reads the keychain: renderers that agree on all other templates give the same value.
\<close>
lemma keychain_templates_not_rendered:
  assumes "\<And>s. \<not> contains_keychain_template (VStr s) \<Longrightarrow> render s = render' s"
  shows "render_preserving_keychain_refs render v = render_preserving_keychain_refs render' v"
  using assms
proof (induction render v rule: render_preserving_keychain_refs.induct)
  case (1 render s)
  then show ?case
    by (auto simp: is_mixed_keychain_expression_def split: option.split)
qed auto

definition sample_secret_template :: string where
  "sample_secret_template = ''token {{ keychain.api.token }}''"

lemma sample_secret: "contains_keychain_template (VStr sample_secret_template)"
  by code_simp

lemma keychain_templates_not_rendered_witness:
  "render_preserving_keychain_refs
     (\<lambda>s. if contains_keychain_template (VStr s) then VStr ''secret'' else VStr s)
     (VList [VStr sample_secret_template])
   = render_preserving_keychain_refs VStr (VList [VStr sample_secret_template]) \<and>
   contains_keychain_template (VStr sample_secret_template)"
  using keychain_templates_not_rendered [of
      "\<lambda>s. if contains_keychain_template (VStr s) then VStr ''secret'' else VStr s" VStr
      "VList [VStr sample_secret_template]"] sample_secret
  by simp

end
