(* ===== verification/Playbook_Model.thy ===== *)
theory Playbook_Model
  imports PyValue
begin

text \<open>
  The parsed playbook of \<^verbatim>\<open>noetl/core/dsl/engine/models/\<close>, as far as the engine's state and its
  planner read it: steps with their next router, the loop source of a step with the validator
  that admits it, the validators of a step's tool and router, and the accessors for the entry step,
  the final step, the routing mode and the arcs. A tool and a cursor policy are the dictionaries
  their models dump to (a float with an integral value is that integer). Policies and the
  descriptive fields are not represented.
\<close>

section \<open>Routers and steps\<close>

text \<open>\<open>next.spec.mode\<close>: \<open>exclusive\<close> takes the first matching arc, \<open>inclusive\<close> all of them.\<close>

datatype next_mode = Exclusive | Inclusive

datatype loop_mode = Sequential | Parallel | Cursor

record arc_decl =
  arc_step :: string
  arc_when :: "string option"
  arc_set :: "pydict option"

text \<open>\<open>next.spec.on_no_match\<close>: a branch none of whose arcs matches completes the workflow or ends quietly.\<close>

datatype no_match_action = Complete_Workflow | End_Quietly

record router =
  nr_mode :: "next_mode option"
  nr_no_match :: "no_match_action option"
  nr_arcs :: "arc_decl list"

record cursor_decl =
  cu_kind :: string
  cu_auth :: string
  cu_claim :: string
  cu_options :: pyval

record loop_decl =
  ld_in :: "string option"
  ld_cursor :: "cursor_decl option"
  ld_iterator :: string
  ld_mode :: "loop_mode option"
  ld_max_in_flight :: pyval
  ld_frame :: "pydict option"

text \<open>A single tool with its fields, or a pipeline of labeled tasks.\<close>

datatype tool_decl = Single_Tool string pydict | Pipeline "pydict list"

record step_decl =
  st_step :: string
  st_next :: "router option"
  st_loop :: "loop_decl option"
  st_input :: "pydict option"
  st_tool :: "tool_decl option"
  st_set :: "pydict option"

record executor_decl =
  ex_entry_step :: "string option"
  ex_final_step :: "string option"

record playbook =
  pb_metadata :: pydict
  pb_executor :: "executor_decl option"
  pb_workload :: "pydict option"
  pb_keychain :: pyval
  pb_workflow :: "step_decl list"

section \<open>Validation and accessors\<close>

text \<open>\<open>Loop._validate_source_exactly_one\<close>: exactly one source, and cursor mode with a cursor only.\<close>

definition resolved_mode :: "loop_decl \<Rightarrow> loop_mode" where
  "resolved_mode l = (case ld_mode l of None \<Rightarrow> Sequential | Some m \<Rightarrow> m)"

definition validate_loop :: "loop_decl \<Rightarrow> loop_decl res" where
  "validate_loop l =
     (let has_in = (ld_in l \<noteq> None \<and> ld_in l \<noteq> Some []); has_cursor = (ld_cursor l \<noteq> None) in
      if has_in \<and> has_cursor then Inl (ValueError ''loop: specify either in or cursor, not both'')
      else if \<not> has_in \<and> \<not> has_cursor then Inl (ValueError ''loop: one of in or cursor is required'')
      else if has_cursor \<and> resolved_mode l \<noteq> Cursor
      then Inl (ValueError ''loop.cursor requires spec.mode=cursor'')
      else if has_in \<and> resolved_mode l = Cursor
      then Inl (ValueError ''loop.spec.mode=cursor requires a loop.cursor source'')
      else Inr l)"

definition is_cursor :: "loop_decl \<Rightarrow> bool" where
  "is_cursor l = (ld_cursor l \<noteq> None)"

definition mode_name :: "loop_decl \<Rightarrow> string" where
  "mode_name l =
     (case resolved_mode l of Sequential \<Rightarrow> ''sequential'' | Parallel \<Rightarrow> ''parallel'' | Cursor \<Rightarrow> ''cursor'')"

definition default_frame_policy :: pydict where
  "default_frame_policy =
     [(''max_rows'', VInt 1), (''max_seconds'', VInt 30), (''max_bytes'', VInt 67108864),
      (''lease_seconds'', VInt 120), (''heartbeat_seconds'', VInt 30), (''row_concurrency'', VInt 1),
      (''process'', VStr ''row''), (''verify_ipc'', VBool False), (''retry_mode'', VStr ''whole_frame''),
      (''max_attempts'', VInt 3)]"

definition frame_policy :: "loop_decl \<Rightarrow> pydict" where
  "frame_policy l = (case ld_frame l of None \<Rightarrow> default_frame_policy | Some p \<Rightarrow> p)"

text \<open>
  The validators of the step fields as they come from YAML: a tool is an object with a kind or a
  list of tasks with one, a router is an object with arcs, and the fields of earlier versions are
  refused.
\<close>

definition normalize_task :: "pyval \<Rightarrow> unit res" where
  "normalize_task t =
     (case t of
        VDict d \<Rightarrow>
          if has_key d ''kind'' then Inr () else Inl (ValueError ''tool task must be canonical or unnamed'')
      | _ \<Rightarrow> Inl (ValueError ''tool task must be an object''))"

definition normalize_tool :: "pyval \<Rightarrow> pyval res" where
  "normalize_tool v =
     (case v of
        VNone \<Rightarrow> Inr VNone
      | VDict d \<Rightarrow>
          if has_key d ''kind'' then Inr v
          else Inl (ValueError ''tool must be an object with kind or a list of tasks'')
      | VList ts \<Rightarrow> rbind (rmap normalize_task ts) (\<lambda>_. Inr v)
      | _ \<Rightarrow> Inl (ValueError ''tool must be an object with kind or a list of tasks''))"

definition normalize_next :: "pyval \<Rightarrow> pyval res" where
  "normalize_next v =
     (case v of
        VDict d \<Rightarrow>
          if has_key d ''arcs'' then Inr v
          else if has_key d ''spec'' then Inl (ValueError ''next router must have arcs field'')
          else Inl (ValueError ''next must use canonical router format with arcs'')
      | _ \<Rightarrow> Inr v)"

definition reject_legacy_step :: "pyval \<Rightarrow> pyval res" where
  "reject_legacy_step obj =
     (case obj of
        VDict d \<Rightarrow>
          if list_ex (has_key d) [''args'', ''set_ctx'', ''set_iter'', ''result'', ''outcome'']
          then Inl (ValueError ''step must use canonical fields only'') else Inr obj
      | _ \<Rightarrow> Inr obj)"

definition reject_legacy_arc :: "pyval \<Rightarrow> pyval res" where
  "reject_legacy_arc obj =
     (case obj of
        VDict d \<Rightarrow>
          if has_key d ''args'' then Inl (ValueError ''next.arcs[] must use set'') else Inr obj
      | _ \<Rightarrow> Inr obj)"

lemma validate_loop_mode: "validate_loop l = Inr l' \<Longrightarrow> is_cursor l' \<longleftrightarrow> resolved_mode l' = Cursor"
  by (auto simp: validate_loop_def is_cursor_def Let_def split: if_splits)

definition validate_workflow :: "step_decl list \<Rightarrow> step_decl list res" where
  "validate_workflow v =
     (if v = [] then Inl (ValueError ''Workflow must have at least one step'') else Inr v)"

definition get_entry_step :: "playbook \<Rightarrow> string" where
  "get_entry_step pb =
     (case pb_executor pb of
        None \<Rightarrow> st_step (hd (pb_workflow pb))
      | Some ex \<Rightarrow>
          (case ex_entry_step ex of
             None \<Rightarrow> st_step (hd (pb_workflow pb))
           | Some e \<Rightarrow> if e \<noteq> [] then e else st_step (hd (pb_workflow pb))))"

definition get_final_step :: "playbook \<Rightarrow> string option" where
  "get_final_step pb = (case pb_executor pb of None \<Rightarrow> None | Some e \<Rightarrow> ex_final_step e)"

definition get_step :: "playbook \<Rightarrow> string \<Rightarrow> step_decl option" where
  "get_step pb name = find (\<lambda>s. st_step s = name) (pb_workflow pb)"

definition get_next_mode :: "step_decl \<Rightarrow> next_mode" where
  "get_next_mode s =
     (case st_next s of None \<Rightarrow> Exclusive
      | Some r \<Rightarrow> (case nr_mode r of None \<Rightarrow> Exclusive | Some m \<Rightarrow> m))"

definition get_next_arcs :: "step_decl \<Rightarrow> arc_decl list" where
  "get_next_arcs s = (case st_next s of None \<Rightarrow> [] | Some r \<Rightarrow> nr_arcs r)"

lemma get_step_name: "get_step pb name = Some s \<Longrightarrow> st_step s = name \<and> s \<in> set (pb_workflow pb)"
  by (auto simp: get_step_def find_Some_iff)

end
