(* ===== verification/Planner.thy ===== *)
theory Planner
  imports Playbook_Model
begin

text \<open>
  The static fan-out/reduce planner of \<^verbatim>\<open>noetl/core/dsl/engine/planner.py\<close>. A step with an inclusive
  router and at least two known targets is a fan-out; a step targeted by at least two steps is a
  reduce. The depth-first search \<open>_reachable_reduces\<close> is shown to end and to find exactly the
  reduce steps that can be reached from the fan-out's targets without passing through another
  reduce step. Sets are kept as lists without repetition.
\<close>

section \<open>The planner\<close>

record planned_fanout =
  pf_step :: string
  pf_arcs :: "string list"
  pf_reduce_steps :: "string list"

record planned_reduce =
  pr_step :: string
  pr_upstream :: "string list"

record fanout_reduce_plan =
  fp_fanouts :: "planned_fanout list"
  fp_reduces :: "planned_reduce list"

definition plan_is_empty :: "fanout_reduce_plan \<Rightarrow> bool" where
  "plan_is_empty p = (fp_fanouts p = [] \<and> fp_reduces p = [])"

definition target_name :: "string \<Rightarrow> string option" where
  "target_name arc = (let t = strip arc in if t = [] then None else Some t)"

fun collect_targets :: "string list \<Rightarrow> string list \<Rightarrow> string list \<Rightarrow> string list" where
  "collect_targets names seen [] = []"
| "collect_targets names seen (a # as) =
     (case target_name a of
        None \<Rightarrow> collect_targets names seen as
      | Some t \<Rightarrow>
          (if t \<in> set names \<and> t \<notin> set seen then t # collect_targets names (t # seen) as
           else collect_targets names seen as))"

definition step_names :: "playbook \<Rightarrow> string list" where
  "step_names pb = map st_step (pb_workflow pb)"

definition arc_targets :: "playbook \<Rightarrow> step_decl \<Rightarrow> string list" where
  "arc_targets pb s =
     (case st_next s of None \<Rightarrow> [] | Some r \<Rightarrow> collect_targets (step_names pb) [] (map arc_step (nr_arcs r)))"

text \<open>
  \<open>workflow_order\<close> maps a name to the position of its last step; \<open>graph\<close> keeps the targets of the
  last step of a name; \<open>incoming\<close> collects the sources of every target.
\<close>

definition workflow_order :: "playbook \<Rightarrow> string \<Rightarrow> nat" where
  "workflow_order pb name =
     (case map_of (rev (zip (step_names pb) [0..<length (pb_workflow pb)])) name of
        None \<Rightarrow> card (set (step_names pb)) | Some i \<Rightarrow> i)"

definition plan_graph :: "playbook \<Rightarrow> (string \<times> string list) list" where
  "plan_graph pb = foldl (\<lambda>g s. AList.update (st_step s) (arc_targets pb s) g) [] (pb_workflow pb)"

definition add_source :: "string \<Rightarrow> (string \<times> string list) list \<Rightarrow> string \<Rightarrow> (string \<times> string list) list" where
  "add_source src inc target =
     AList.update target (List.insert src (case map_of inc target of None \<Rightarrow> [] | Some us \<Rightarrow> us)) inc"

definition plan_incoming :: "playbook \<Rightarrow> (string \<times> string list) list" where
  "plan_incoming pb =
     foldl (\<lambda>inc s. foldl (add_source (st_step s)) inc (arc_targets pb s))
       (foldl (\<lambda>inc n. AList.update n [] inc) [] (step_names pb)) (pb_workflow pb)"

definition reduce_names :: "playbook \<Rightarrow> string list" where
  "reduce_names pb =
     map fst (filter (\<lambda>(n, us). n \<in> set (step_names pb) \<and> length us > 1) (plan_incoming pb))"

definition graph_targets :: "(string \<times> string list) list \<Rightarrow> string \<Rightarrow> string list" where
  "graph_targets g n = (case map_of g n of None \<Rightarrow> [] | Some ts \<Rightarrow> ts)"

text \<open>
  \<open>_reachable_reduces\<close>: the stack is kept with its top first, so pushing the reversed targets puts
  them in order in front of the rest.
\<close>

function reach_loop :: "(string \<times> string list) list \<Rightarrow> string list \<Rightarrow> string list \<Rightarrow> string list
    \<Rightarrow> string list \<Rightarrow> string list" where
  "reach_loop g reduces visited found [] = found"
| "reach_loop g reduces visited found (n # stack) =
     (if n \<in> set visited then reach_loop g reduces visited found stack
      else if n \<in> set reduces then reach_loop g reduces (n # visited) (List.insert n found) stack
      else reach_loop g reduces (n # visited) found
             (filter (\<lambda>t. t \<notin> set (n # visited)) (graph_targets g n) @ stack))"
  by pat_completeness auto

definition graph_nodes :: "(string \<times> string list) list \<Rightarrow> string set" where
  "graph_nodes g = (\<Union>(_, ts) \<in> set g. set ts)"

lemma finite_graph_nodes [simp]: "finite (graph_nodes g)"
  by (auto simp: graph_nodes_def)

lemma graph_targets_nodes: "set (graph_targets g n) \<subseteq> graph_nodes g"
  by (cases "map_of g n") (auto simp: graph_targets_def graph_nodes_def dest!: map_of_SomeD)

termination reach_loop
proof (relation "measures [\<lambda>(g, r, v, f, st). card ((graph_nodes g \<union> set st) - set v),
    \<lambda>(g, r, v, f, st). length st]")
  fix g and reduces visited found :: "string list" and n and stack :: "string list"
  let ?m = "\<lambda>v st. card ((graph_nodes g \<union> set st) - set v)"
  show "((g, reduces, visited, found, stack), g, reduces, visited, found, n # stack)
      \<in> measures [\<lambda>(g, r, v, f, st). card ((graph_nodes g \<union> set st) - set v),
          \<lambda>(g, r, v, f, st). length st]"
    if "n \<in> set visited"
    using that by (simp add: insert_Diff_if)
  have less: "?m (n # visited) st < ?m visited (n # stack)"
    if "n \<notin> set visited" and "set st \<subseteq> graph_nodes g \<union> set stack" for st
    using that by (intro psubset_card_mono) auto
  show "((g, reduces, n # visited, List.insert n found, stack), g, reduces, visited, found, n # stack)
      \<in> measures [\<lambda>(g, r, v, f, st). card ((graph_nodes g \<union> set st) - set v),
          \<lambda>(g, r, v, f, st). length st]"
    if "n \<notin> set visited" "n \<in> set reduces"
    using less [OF that(1), of stack] by simp
  show "((g, reduces, n # visited, found,
         filter (\<lambda>t. t \<notin> set (n # visited)) (graph_targets g n) @ stack),
        g, reduces, visited, found, n # stack)
      \<in> measures [\<lambda>(g, r, v, f, st). card ((graph_nodes g \<union> set st) - set v),
          \<lambda>(g, r, v, f, st). length st]"
    if "n \<notin> set visited" "n \<notin> set reduces"
    using less [OF that(1), of "filter (\<lambda>t. t \<notin> set (n # visited)) (graph_targets g n) @ stack"]
      graph_targets_nodes [of g n] by (simp add: subset_iff)
qed simp

definition reachable_reduces :: "(string \<times> string list) list \<Rightarrow> string list \<Rightarrow> string list \<Rightarrow> string list" where
  "reachable_reduces g reduces roots = reach_loop g reduces [] [] roots"

definition fanout_of :: "playbook \<Rightarrow> step_decl \<Rightarrow> planned_fanout option" where
  "fanout_of pb s =
     (case st_next s of
        Some r \<Rightarrow>
          (if nr_mode r = Some Inclusive \<and> 2 \<le> length (arc_targets pb s)
           then Some \<lparr>pf_step = st_step s, pf_arcs = arc_targets pb s,
             pf_reduce_steps = sort_key (workflow_order pb)
               (reachable_reduces (plan_graph pb) (reduce_names pb) (arc_targets pb s))\<rparr>
           else None)
      | None \<Rightarrow> None)"

definition build_fanout_reduce_plan :: "playbook \<Rightarrow> fanout_reduce_plan" where
  "build_fanout_reduce_plan pb =
     \<lparr>fp_fanouts = List.map_filter (fanout_of pb) (pb_workflow pb),
      fp_reduces =
        map (\<lambda>(n, us). \<lparr>pr_step = n, pr_upstream = sort_key (workflow_order pb) us\<rparr>)
          (filter (\<lambda>(n, us). n \<in> set (reduce_names pb))
            (sort_key (\<lambda>(n, us). workflow_order pb n) (plan_incoming pb)))\<rparr>"

definition no_reducer_warning :: "planned_fanout \<Rightarrow> string" where
  "no_reducer_warning f =
     ''[fanout_no_reducer] fan-out '' @ [CHR 0x27] @ pf_step f @ [CHR 0x27] @ '' has no reachable reducer''"

definition orphan_warning :: "planned_reduce \<Rightarrow> string" where
  "orphan_warning r =
     ''[reducer_orphan] reducer '' @ [CHR 0x27] @ pr_step r @ [CHR 0x27] @ '' has fewer than 2 upstream steps''"

definition validate_fanout_reduce_plan :: "playbook \<Rightarrow> string list" where
  "validate_fanout_reduce_plan pb =
     (let plan = build_fanout_reduce_plan pb in
      if plan_is_empty plan then []
      else map no_reducer_warning (filter (\<lambda>f. pf_reduce_steps f = []) (fp_fanouts plan))
         @ map orphan_warning (filter (\<lambda>r. length (pr_upstream r) < 2) (fp_reduces plan)))"

section \<open>What the search finds\<close>

text \<open>
  The nodes a fan-out reaches without passing through a reduce step: its targets, and the targets
  of every node reached that is not itself a reduce step.
\<close>

inductive first_reach :: "(string \<times> string list) list \<Rightarrow> string list \<Rightarrow> string list \<Rightarrow> string \<Rightarrow> bool"
  for g reduces roots where
  root: "n \<in> set roots \<Longrightarrow> first_reach g reduces roots n"
| step: "first_reach g reduces roots n \<Longrightarrow> n \<notin> set reduces \<Longrightarrow> t \<in> set (graph_targets g n)
    \<Longrightarrow> first_reach g reduces roots t"

inductive_cases first_reachE: "first_reach g reduces roots n"

text \<open>A node the search reaches is a target itself or has a reached predecessor that is no join.\<close>

lemma first_reach_pred:
  assumes "first_reach g reduces roots n" and "n \<notin> set roots"
  shows "\<exists>m. first_reach g reduces roots m \<and> m \<notin> set reduces \<and> n \<in> set (graph_targets g m)"
  using assms by (auto elim: first_reachE)

lemma reach_loop_complete:
  assumes "set found = set visited \<inter> set reduces"
    and "\<forall>x \<in> set visited - set reduces. set (graph_targets g x) \<subseteq> set visited \<union> set stack"
    and "\<forall>x \<in> set visited \<union> set stack. first_reach g reduces roots x"
    and "set roots \<subseteq> set visited \<union> set stack"
  shows "set (reach_loop g reduces visited found stack)
       = {n \<in> set reduces. first_reach g reduces roots n}"
  using assms
proof (induction g reduces visited found stack rule: reach_loop.induct)
  case (1 g reduces visited found)
  have "n \<in> set visited" if "first_reach g reduces roots n" for n
    using that by induction (use "1.prems" in auto)
  then show ?case using "1.prems" by auto
next
  case (2 g reduces visited found n stack)
  consider (seen) "n \<in> set visited" | (join) "n \<notin> set visited" "n \<in> set reduces"
    | (walk) "n \<notin> set visited" "n \<notin> set reduces" by blast
  then show ?case
  proof cases
    case seen
    then show ?thesis using "2.prems" by (simp add: "2.IH"(1) insert_absorb)
  next
    case join
    have "set (reach_loop g reduces (n # visited) (List.insert n found) stack)
        = {n \<in> set reduces. first_reach g reduces roots n}"
      by (rule "2.IH"(2)) (use join "2.prems" in auto)
    with join show ?thesis by simp
  next
    case walk
    have "set (reach_loop g reduces (n # visited) found
          (filter (\<lambda>t. t \<notin> set (n # visited)) (graph_targets g n) @ stack))
        = {n \<in> set reduces. first_reach g reduces roots n}"
    proof (rule "2.IH"(3))
      have "first_reach g reduces roots t" if "t \<in> set (graph_targets g n)" for t
        using first_reach.step [OF _ walk(2) that] "2.prems"(3) by simp
      then show "\<forall>x \<in> set (n # visited)
            \<union> set (filter (\<lambda>t. t \<notin> set (n # visited)) (graph_targets g n) @ stack).
          first_reach g reduces roots x"
        using "2.prems"(3) by auto
    qed (use walk "2.prems" in auto)
    with walk show ?thesis by simp
  qed
qed

lemma reachable_reduces_set:
  "set (reachable_reduces g reduces roots) = {n \<in> set reduces. first_reach g reduces roots n}"
  unfolding reachable_reduces_def
  by (rule reach_loop_complete) (auto intro: first_reach.root)

lemma collect_targets_facts:
  "distinct (collect_targets names seen as)"
  "set (collect_targets names seen as) = {t \<in> set names. t \<notin> set seen \<and> (\<exists>a \<in> set as. target_name a = Some t)}"
  by (induction names seen as rule: collect_targets.induct) (auto split: option.splits)

lemma arc_targets_facts:
  "distinct (arc_targets pb s)" "set (arc_targets pb s) \<subseteq> set (step_names pb)"
  by (auto simp: arc_targets_def collect_targets_facts split: option.split)

section \<open>Sources of a step\<close>

definition source_names :: "playbook \<Rightarrow> string \<Rightarrow> string set" where
  "source_names pb n = {st_step s |s. s \<in> set (pb_workflow pb) \<and> n \<in> set (arc_targets pb s)}"

definition sources_in :: "(string \<times> string list) list \<Rightarrow> string \<Rightarrow> string list" where
  "sources_in inc n = (case map_of inc n of None \<Rightarrow> [] | Some us \<Rightarrow> us)"

lemma add_source_facts:
  "sources_in (add_source src inc t) n
     = (if n = t then List.insert src (sources_in inc n) else sources_in inc n)"
  "set (map fst (add_source src inc t)) = insert t (set (map fst inc))"
  "dict_wf inc \<Longrightarrow> dict_wf (add_source src inc t)"
  by (simp_all only: add_source_def dict_keys_update dict_wf_update)
    (simp add: sources_in_def)

lemma add_sources_facts:
  "set (sources_in (foldl (add_source src) inc ts) n)
     = set (sources_in inc n) \<union> (if n \<in> set ts then {src} else {})"
  "distinct (sources_in inc n) \<Longrightarrow> distinct (sources_in (foldl (add_source src) inc ts) n)"
  "set (map fst (foldl (add_source src) inc ts)) = set ts \<union> set (map fst inc)"
  "dict_wf inc \<Longrightarrow> dict_wf (foldl (add_source src) inc ts)"
proof (induction ts arbitrary: inc)
  case (Cons t ts)
  {
    case 1 show ?case by (auto simp: Cons.IH(1) add_source_facts)
  next
    case 2
    then have "distinct (sources_in (add_source src inc t) n)"
      by (auto simp: add_source_facts(1))
    then show ?case by (simp add: Cons.IH(2))
  next
    case 3 show ?case
      using Cons.IH(3) [of "add_source src inc t"] add_source_facts(2) [of src inc t] by simp
  next
    case 4 then show ?case by (simp add: Cons.IH(4) add_source_facts)
  }
qed simp_all

lemma all_sources_facts:
  fixes ss :: "step_decl list" and pb :: playbook
  defines "F \<equiv> \<lambda>inc. foldl (\<lambda>inc s. foldl (add_source (st_step s)) inc (arc_targets pb s)) inc ss"
  shows "set (sources_in (F inc) n)
     = set (sources_in inc n) \<union> {st_step s |s. s \<in> set ss \<and> n \<in> set (arc_targets pb s)}"
  "distinct (sources_in inc n) \<Longrightarrow> distinct (sources_in (F inc) n)"
  "set (map fst (F inc)) = (\<Union>s \<in> set ss. set (arc_targets pb s)) \<union> set (map fst inc)"
  "dict_wf inc \<Longrightarrow> dict_wf (F inc)"
  unfolding F_def
proof (induction ss arbitrary: inc)
  case (Cons s ss)
  {
    case 1 show ?case by (auto simp: Cons.IH(1) add_sources_facts(1))
  next
    case 2 then show ?case by (simp add: Cons.IH(2) add_sources_facts(2))
  next
    case 3 show ?case
      using Cons.IH(3) [of "foldl (add_source (st_step s)) inc (arc_targets pb s)"]
        add_sources_facts(3) [of "st_step s" inc "arc_targets pb s"] by auto
  next
    case 4 then show ?case by (simp add: Cons.IH(4) add_sources_facts(4))
  }
qed simp_all

lemma initial_incoming:
  "map_of (foldl (\<lambda>inc n. AList.update n [] inc) d ns) n
     = (if n \<in> set ns then Some [] else map_of d n)"
  "dict_wf d \<Longrightarrow> dict_wf (foldl (\<lambda>inc n. AList.update n [] inc) d ns)"
  by (induction ns arbitrary: d) auto

lemma plan_incoming_facts:
  "set (sources_in (plan_incoming pb) n) = source_names pb n"
  "distinct (sources_in (plan_incoming pb) n)"
  "set (map fst (plan_incoming pb)) = set (step_names pb)"
  "dict_wf (plan_incoming pb)"
proof -
  let ?d = "foldl (\<lambda>inc n. AList.update n [] inc) [] (step_names pb)"
  have e: "sources_in ?d m = []" for m by (simp add: sources_in_def initial_incoming)
  have "dom (map_of ?d) = set (step_names pb)"
    by (auto simp: initial_incoming dom_def)
  then have k: "set (map fst ?d) = set (step_names pb)" by (simp add: dom_map_of_conv_image_fst)
  show "set (sources_in (plan_incoming pb) n) = source_names pb n"
    "distinct (sources_in (plan_incoming pb) n)" "dict_wf (plan_incoming pb)"
    by (simp_all add: plan_incoming_def all_sources_facts e initial_incoming source_names_def)
  show "set (map fst (plan_incoming pb)) = set (step_names pb)"
    unfolding plan_incoming_def all_sources_facts(3) k using arc_targets_facts(2) by blast
qed

lemma incoming_entry:
  "(n, us) \<in> set (plan_incoming pb) \<longleftrightarrow> n \<in> set (step_names pb) \<and> us = sources_in (plan_incoming pb) n"
proof -
  have "(n, us) \<in> set (plan_incoming pb) \<longleftrightarrow> map_of (plan_incoming pb) n = Some us"
    using plan_incoming_facts(4) [of pb] by (auto simp: dict_wf_def)
  moreover have "n \<in> set (step_names pb) \<longleftrightarrow> map_of (plan_incoming pb) n \<noteq> None"
    by (simp add: plan_incoming_facts(3) [symmetric] map_of_eq_None_iff)
  ultimately show ?thesis by (auto simp: sources_in_def)
qed

lemma reduce_names_iff:
  "n \<in> set (reduce_names pb) \<longleftrightarrow> n \<in> set (step_names pb) \<and> 2 \<le> card (source_names pb n)"
proof -
  have "length (sources_in (plan_incoming pb) n) = card (source_names pb n)"
    by (metis distinct_card plan_incoming_facts(1,2))
  then show ?thesis
    by (force simp: reduce_names_def incoming_entry)
qed

section \<open>The plan\<close>

text \<open>
  Every planned fan-out is an inclusive step with at least two distinct known targets, and its
  reduce steps are exactly the joins that its targets reach without passing through another join,
  in workflow order.
\<close>
lemma fanout_finds_first_joins:
  assumes "f \<in> set (fp_fanouts (build_fanout_reduce_plan pb))"
  shows "(\<exists>s \<in> set (pb_workflow pb). pf_step f = st_step s \<and> get_next_mode s = Inclusive
            \<and> pf_arcs f = arc_targets pb s) \<and>
         2 \<le> length (pf_arcs f) \<and> distinct (pf_arcs f) \<and> set (pf_arcs f) \<subseteq> set (step_names pb) \<and>
         set (pf_reduce_steps f) = {n \<in> set (step_names pb). 2 \<le> card (source_names pb n) \<and>
            first_reach (plan_graph pb) (reduce_names pb) (pf_arcs f) n} \<and>
         sorted (map (workflow_order pb) (pf_reduce_steps f))"
proof -
  obtain s where s: "s \<in> set (pb_workflow pb)" and f: "fanout_of pb s = Some f"
    using assms by (auto simp: build_fanout_reduce_plan_def List.map_filter_def)
  then show ?thesis
    using arc_targets_facts [of pb s]
    by (auto simp: fanout_of_def get_next_mode_def reachable_reduces_set reduce_names_iff
        split: option.splits if_splits)
qed

definition sample_step :: "string \<Rightarrow> next_mode \<Rightarrow> string list \<Rightarrow> step_decl" where
  "sample_step n m arcs =
     \<lparr>st_step = n, st_next = Some \<lparr>nr_mode = Some m, nr_no_match = None, nr_arcs = map (\<lambda>a. \<lparr>arc_step = a, arc_when = None, arc_set = None\<rparr>) arcs\<rparr>,
       st_loop = None, st_input = None, st_tool = None, st_set = None\<rparr>"

definition sample_playbook :: playbook where
  "sample_playbook = \<lparr>pb_metadata = [], pb_executor = None, pb_workload = None, pb_keychain = VNone, pb_workflow =
     [sample_step ''a'' Inclusive ['' b '', ''c'', ''b''], sample_step ''b'' Exclusive [''d''],
      sample_step ''c'' Exclusive [''d'', ''zz''], sample_step ''d'' Exclusive [''e''],
      sample_step ''e'' Exclusive [''d'']]\<rparr>"

lemma sample_plan:
  "build_fanout_reduce_plan sample_playbook =
     \<lparr>fp_fanouts = [\<lparr>pf_step = ''a'', pf_arcs = [''b'', ''c''], pf_reduce_steps = [''d'']\<rparr>],
      fp_reduces = [\<lparr>pr_step = ''d'', pr_upstream = [''b'', ''c'', ''e'']\<rparr>]\<rparr>"
  by code_simp

lemma fanout_finds_first_joins_witness:
  "sorted (map (workflow_order sample_playbook) [''d'']) \<and>
   {n \<in> set (step_names sample_playbook). 2 \<le> card (source_names sample_playbook n) \<and>
      first_reach (plan_graph sample_playbook) (reduce_names sample_playbook) [''b'', ''c''] n} = {''d''}"
  using fanout_finds_first_joins [of "\<lparr>pf_step = ''a'', pf_arcs = [''b'', ''c''], pf_reduce_steps = [''d'']\<rparr>"
      sample_playbook]
  by (simp add: sample_plan)

text \<open>
  The planned reduces are exactly the steps targeted by at least two steps, each once, with
  exactly those steps as its upstream; so the orphan-reducer warning of the linter is never given.
\<close>
lemma planned_reduces_exact:
  "distinct (map pr_step (fp_reduces (build_fanout_reduce_plan pb))) \<and>
   (n \<in> pr_step ` set (fp_reduces (build_fanout_reduce_plan pb))
      \<longleftrightarrow> n \<in> set (step_names pb) \<and> 2 \<le> card (source_names pb n)) \<and>
   (\<forall>r \<in> set (fp_reduces (build_fanout_reduce_plan pb)).
      set (pr_upstream r) = source_names pb (pr_step r) \<and> distinct (pr_upstream r)
      \<and> 2 \<le> length (pr_upstream r)) \<and>
   set (validate_fanout_reduce_plan pb)
     = no_reducer_warning ` {f \<in> set (fp_fanouts (build_fanout_reduce_plan pb)). pf_reduce_steps f = []}"
proof -
  let ?keep = "\<lambda>p. fst p \<in> set (reduce_names pb)"
  let ?sorted = "sort_key (\<lambda>(n, us). workflow_order pb n) (plan_incoming pb)"
  have names: "map pr_step (fp_reduces (build_fanout_reduce_plan pb)) = map fst (filter ?keep ?sorted)"
    by (simp add: build_fanout_reduce_plan_def case_prod_unfold)
  have "distinct (map fst ?sorted)"
    using plan_incoming_facts(4) [of pb] by (simp add: dict_wf_def distinct_map)
  then have d: "distinct (map fst (filter ?keep ?sorted))"
    by (rule distinct_map_filter)
  have m: "n \<in> pr_step ` set (fp_reduces (build_fanout_reduce_plan pb))
      \<longleftrightarrow> n \<in> set (step_names pb) \<and> 2 \<le> card (source_names pb n)" for n
  proof -
    have "set (map fst (filter ?keep ?sorted))
        = {x \<in> set (map fst (plan_incoming pb)). x \<in> set (reduce_names pb)}" by auto
    then show ?thesis
      unfolding list.set_map [symmetric] names
      by (auto simp: plan_incoming_facts(3) reduce_names_iff simp del: set_map)
  qed
  have u: "set (pr_upstream r) = source_names pb (pr_step r) \<and> distinct (pr_upstream r)"
    if "r \<in> set (fp_reduces (build_fanout_reduce_plan pb))" for r
    using that plan_incoming_facts(1,2) [of pb]
    by (auto simp: build_fanout_reduce_plan_def incoming_entry)
  have l: "2 \<le> length (pr_upstream r)"
    if "r \<in> set (fp_reduces (build_fanout_reduce_plan pb))" for r
    using u [OF that] m [of "pr_step r"] that by (metis distinct_card image_eqI)
  have "filter (\<lambda>r. length (pr_upstream r) < 2) (fp_reduces (build_fanout_reduce_plan pb)) = []"
    by (auto simp: filter_empty_conv not_less l)
  then have w: "set (validate_fanout_reduce_plan pb)
     = no_reducer_warning ` {f \<in> set (fp_fanouts (build_fanout_reduce_plan pb)). pf_reduce_steps f = []}"
    by (auto simp: validate_fanout_reduce_plan_def Let_def plan_is_empty_def)
  show ?thesis using d m u l w by (simp add: names)
qed

lemma planned_reduces_exact_witness:
  "source_names sample_playbook ''d'' = {''b'', ''c'', ''e''}"
  using planned_reduces_exact [of sample_playbook] by (auto simp: sample_plan)

end
