(* ===== verification/Engine_State.thy ===== *)
theory Engine_State
  imports Engine_Common Credential_Refs Planner
begin

text \<open>
  The state of one playbook execution, \<open>ExecutionState\<close> of
  \<^verbatim>\<open>noetl/core/dsl/engine/executor/state.py\<close>: its construction from the playbook and the request
  payload, the compact form it is persisted in and read back from, completion of steps, pruning,
  the loop counters and the render context of templates. Python sets are lists without repetition
  (insertion order stands for the set's arbitrary order). The reference store is a parameter
  (\<open>None\<close> is a failed resolution); fields annotated with a type hold values of that type, and
  \<open>from_dict\<close> rejects others where the code would fail at the first use.
\<close>

section \<open>The state\<close>

record exec_state =
  es_execution_id :: pyval
  es_playbook :: playbook
  es_payload :: pydict
  es_catalog_id :: pyval
  es_parent_execution_id :: pyval
  es_current_step :: "string option"
  es_variables :: pydict
  es_last_event_id :: pyval
  es_step_event_ids :: pydict
  es_step_results :: pydict
  es_completed_steps :: "string list"
  es_issued_steps :: "string list"
  es_failed :: bool
  es_completed :: bool
  es_root_event_id :: pyval
  es_loop_state :: "(string \<times> pydict) list"
  es_stall_counts :: "(string \<times> int) list"
  es_emitted_epochs :: "string list"
  es_pagination_state :: pydict
  es_pending_next_actions :: pydict

definition init_variable :: "pydict \<Rightarrow> string \<times> pyval \<Rightarrow> pydict" where
  "init_variable vars kv =
     (case kv of (k, v) \<Rightarrow>
        (case (k = ''ctx'', v) of
           (True, VDict d) \<Rightarrow> dict_merge vars d
         | _ \<Rightarrow> AList.update k v vars))"

definition new_execution_state :: "pyval \<Rightarrow> playbook \<Rightarrow> pydict \<Rightarrow> pyval \<Rightarrow> pyval \<Rightarrow> exec_state" where
  "new_execution_state execution_id pb payload catalog_id parent_execution_id =
     \<lparr>es_execution_id = execution_id, es_playbook = pb, es_payload = payload,
      es_catalog_id = catalog_id, es_parent_execution_id = parent_execution_id,
      es_current_step = None,
      es_variables = foldl init_variable
        (case pb_workload pb of None \<Rightarrow> [] | Some w \<Rightarrow> dict_merge [] w) payload,
      es_last_event_id = VNone, es_step_event_ids = [], es_step_results = [],
      es_completed_steps = [], es_issued_steps = [], es_failed = False, es_completed = False,
      es_root_event_id = VNone, es_loop_state = [], es_stall_counts = [],
      es_emitted_epochs = [], es_pagination_state = [], es_pending_next_actions = []\<rparr>"

section \<open>The persisted form\<close>

fun is_scalar :: "pyval \<Rightarrow> bool" where
  "is_scalar (VStr _) = True"
| "is_scalar (VInt _) = True"
| "is_scalar (VBool _) = True"
| "is_scalar _ = False"

definition kept_field :: "string \<times> pyval \<Rightarrow> bool" where
  "kept_field kv =
     (case kv of (k, v) \<Rightarrow>
        k \<in> {''status'', ''reference'', ''context'', ''row_count'', ''statement_count''}
        \<or> is_scalar v \<or> v = VNone
        \<or> (k = ''reference'' \<and> is_dict v) \<or> (k = ''context'' \<and> is_dict v))"

definition compact_result :: "pyval \<Rightarrow> pyval" where
  "compact_result r = (case r of VDict d \<Rightarrow> VDict (filter kept_field d) | _ \<Rightarrow> r)"

definition compact_loop_state :: "pydict \<Rightarrow> pydict" where
  "compact_loop_state ls = filter (\<lambda>(k, v). k \<noteq> ''collection'') ls"

definition step_result_mirror :: "pyval \<Rightarrow> bool" where
  "step_result_mirror v =
     (case v of
        VDict d \<Rightarrow> has_key d ''reference'' \<or> (has_key d ''status'' \<and> has_key d ''context'')
      | _ \<Rightarrow> False)"

definition kept_variable :: "pyval \<Rightarrow> string \<times> pyval \<Rightarrow> bool" where
  "kept_variable manifest kv =
     (case kv of (k, v) \<Rightarrow>
        \<not> step_result_mirror v \<and> k \<noteq> ''keychain'' \<and> k \<notin> set (keychain_names_from_manifest manifest))"

definition compact_variables :: "pydict \<Rightarrow> pydict" where
  "compact_variables vars =
     (let manifest = py_get vars manifest_key in
      map (\<lambda>(k, v). (k, if k = manifest_key then v else strip_keychain_namespaces v manifest))
        (filter (kept_variable manifest) vars))"

definition playbook_path :: "playbook \<Rightarrow> pyval" where
  "playbook_path pb = py_or (py_get (pb_metadata pb) ''path'') (py_get (pb_metadata pb) ''name'')"

definition state_to_dict :: "exec_state \<Rightarrow> pydict" where
  "state_to_dict s =
     [(''execution_id'', es_execution_id s),
      (''catalog_id'', es_catalog_id s),
      (''playbook_path'', playbook_path (es_playbook s)),
      (''parent_execution_id'', es_parent_execution_id s),
      (''payload'', strip_keychain_namespaces (VDict (es_payload s)) (py_get (es_variables s) manifest_key)),
      (''current_step'', enc_str (es_current_step s)),
      (''variables'', VDict (compact_variables (es_variables s))),
      (''last_event_id'', es_last_event_id s),
      (''step_event_ids'', VDict (es_step_event_ids s)),
      (''step_results'', VDict (map (\<lambda>(k, v). (k, compact_result v)) (es_step_results s))),
      (''completed_steps'', VList (map VStr (es_completed_steps s))),
      (''issued_steps'', VList (map VStr (es_issued_steps s))),
      (''failed'', VBool (es_failed s)),
      (''completed'', VBool (es_completed s)),
      (''root_event_id'', es_root_event_id s),
      (''loop_state'', VDict (map (\<lambda>(k, ls). (k, VDict (compact_loop_state ls))) (es_loop_state s))),
      (''step_stall_counts'', VDict (map (\<lambda>(k, n). (k, VInt n)) (es_stall_counts s))),
      (''pagination_state'', VDict (es_pagination_state s)),
      (''pending_next_actions'', VDict (es_pending_next_actions s))]"

text \<open>Readers of the fields; a missing required field raises \<open>KeyError\<close>.\<close>

definition need :: "pydict \<Rightarrow> string \<Rightarrow> pyval res" where
  "need d k = (case map_of d k of None \<Rightarrow> Inl (KeyError k) | Some v \<Rightarrow> Inr v)"

definition need_dict :: "pyval \<Rightarrow> pydict res" where
  "need_dict v = (case v of VDict d \<Rightarrow> Inr d | _ \<Rightarrow> Inl (TypeError ''dict expected''))"

definition need_str :: "pyval \<Rightarrow> string res" where
  "need_str v = (case v of VStr s \<Rightarrow> Inr s | _ \<Rightarrow> Inl (TypeError ''str expected''))"

definition need_bool :: "pyval \<Rightarrow> bool res" where
  "need_bool v = (case v of VBool b \<Rightarrow> Inr b | _ \<Rightarrow> Inl (TypeError ''bool expected''))"

definition need_opt_str :: "pyval \<Rightarrow> string option res" where
  "need_opt_str v = (if v = VNone then Inr None else rbind (need_str v) (\<lambda>s. Inr (Some s)))"

definition need_set :: "pyval \<Rightarrow> string list res" where
  "need_set v =
     (case v of VList xs \<Rightarrow> rbind (rmap need_str xs) (\<lambda>ss. Inr (rev (remdups (rev ss))))
      | _ \<Rightarrow> Inl (TypeError ''list expected''))"

definition need_items :: "(pyval \<Rightarrow> 'a res) \<Rightarrow> pyval \<Rightarrow> (string \<times> 'a) list res" where
  "need_items f v =
     rbind (need_dict v) (rmap (\<lambda>(k, x). rbind (f x) (\<lambda>y. Inr (k, y))))"

definition need_int :: "pyval \<Rightarrow> int res" where
  "need_int v = (case v of VInt i \<Rightarrow> Inr i | _ \<Rightarrow> Inl (TypeError ''int expected''))"

definition state_from_dict :: "pydict \<Rightarrow> playbook \<Rightarrow> exec_state res" where
  "state_from_dict data pb =
     rbind (need data ''execution_id'') (\<lambda>execution_id.
     rbind (need data ''payload'') (\<lambda>payload.
     rbind (need_dict payload) (\<lambda>payload.
     rbind (need data ''catalog_id'') (\<lambda>catalog_id.
     rbind (need_opt_str (py_get data ''current_step'')) (\<lambda>current.
     rbind (need_dict (py_get_default data ''variables'' (VDict []))) (\<lambda>vars.
     rbind (need_dict (py_get_default data ''step_event_ids'' (VDict []))) (\<lambda>event_ids.
     rbind (need_dict (py_get_default data ''step_results'' (VDict []))) (\<lambda>results.
     rbind (need_set (py_get_default data ''completed_steps'' (VList []))) (\<lambda>completed_steps.
     rbind (need_set (py_get_default data ''issued_steps'' (VList []))) (\<lambda>issued.
     rbind (need_bool (py_get_default data ''failed'' (VBool False))) (\<lambda>failed.
     rbind (need_bool (py_get_default data ''completed'' (VBool False))) (\<lambda>completed.
     rbind (need_items need_dict (py_get_default data ''loop_state'' (VDict []))) (\<lambda>loops.
     rbind (need_items need_int (py_get_default data ''step_stall_counts'' (VDict []))) (\<lambda>stalls.
     rbind (need_dict (py_get_default data ''pagination_state'' (VDict []))) (\<lambda>pages.
     rbind (need_dict (py_get_default data ''pending_next_actions'' (VDict []))) (\<lambda>pending.
       Inr ((new_execution_state execution_id pb payload catalog_id
               (py_get data ''parent_execution_id''))
         \<lparr>es_current_step := current, es_variables := vars,
          es_last_event_id := py_get data ''last_event_id'', es_step_event_ids := event_ids,
          es_step_results := results, es_completed_steps := completed_steps,
          es_issued_steps := issued, es_failed := failed, es_completed := completed,
          es_root_event_id := py_get data ''root_event_id'', es_loop_state := loops,
          es_stall_counts := stalls, es_emitted_epochs := [], es_pagination_state := pages,
          es_pending_next_actions := pending\<rparr>)))))))))))))))))"

section \<open>Steps\<close>

definition set_current_step :: "string \<Rightarrow> exec_state \<Rightarrow> exec_state" where
  "set_current_step name s = s\<lparr>es_current_step := Some name\<rparr>"

text \<open>
  \<open>mark_step_completed\<close>: the stored result is the given one with the rows of its reference, a
  \<open>context\<close> alias when it has none, and the rows and columns of the previous result where the new
  one lacks them. \<open>resolve\<close> is the reference store.
\<close>

definition resolve_rows :: "(pydict \<Rightarrow> pyval option) \<Rightarrow> pydict \<Rightarrow> pydict" where
  "resolve_rows resolve result =
     (case py_get result ''reference'' of
        VDict ref \<Rightarrow>
          (if py_get ref ''kind'' \<in> {VStr ''temp_ref'', VStr ''result_ref''}
           then (case resolve ref of Some (VList rows) \<Rightarrow> AList.update ''rows'' (VList rows) result
                 | _ \<Rightarrow> result)
           else result)
      | _ \<Rightarrow> result)"

definition alias_context :: "pydict \<Rightarrow> pydict" where
  "alias_context result =
     (if has_key result ''context'' then result else AList.update ''context'' (VDict result) result)"

definition inherit_key :: "pydict \<Rightarrow> pydict \<Rightarrow> string \<Rightarrow> pydict" where
  "inherit_key prior new k =
     (if \<not> is_list (py_get new k) \<and> is_list (py_get prior k) then AList.update k (py_get prior k) new
      else new)"

definition inherit_rows :: "pydict \<Rightarrow> pydict \<Rightarrow> pydict" where
  "inherit_rows prior new = foldl (inherit_key prior) new [''rows'', ''columns'']"

definition inherit_prior :: "pyval \<Rightarrow> pydict \<Rightarrow> pydict" where
  "inherit_prior prior result =
     (case prior of
        VDict p \<Rightarrow>
          (let r = inherit_rows p result in
           case (py_get p ''context'', py_get r ''context'') of
             (VDict pc, VDict nc) \<Rightarrow> AList.update ''context'' (VDict (inherit_rows pc nc)) r
           | _ \<Rightarrow> r)
      | _ \<Rightarrow> result)"

definition stored_result :: "(pydict \<Rightarrow> pyval option) \<Rightarrow> pyval \<Rightarrow> pyval \<Rightarrow> pyval" where
  "stored_result resolve prior result =
     (case result of
        VDict d \<Rightarrow> VDict (inherit_prior prior (alias_context (resolve_rows resolve d)))
      | _ \<Rightarrow> result)"

definition mark_step_completed ::
  "(pydict \<Rightarrow> pyval option) \<Rightarrow> string \<Rightarrow> pyval \<Rightarrow> exec_state \<Rightarrow> exec_state" where
  "mark_step_completed resolve name result s =
     (let s1 = s\<lparr>es_completed_steps :=
            (if name \<in> set (es_completed_steps s) then es_completed_steps s
             else es_completed_steps s @ [name])\<rparr> in
      if result = VNone then s1
      else (let r = stored_result resolve (py_get (es_step_results s) name) result in
        s1\<lparr>es_step_results := AList.update name r (es_step_results s),
           es_variables := AList.update name r (es_variables s)\<rparr>))"

definition get_step_result_ref :: "string \<Rightarrow> exec_state \<Rightarrow> pyval" where
  "get_step_result_ref name s =
     (case py_get (es_step_results s) name of
        VDict d \<Rightarrow> if has_key d ''_ref'' then py_get d ''_ref'' else VNone
      | _ \<Rightarrow> VNone)"

definition is_result_externalized :: "string \<Rightarrow> exec_state \<Rightarrow> bool" where
  "is_result_externalized name s =
     (case py_get (es_step_results s) name of VDict d \<Rightarrow> has_key d ''_ref'' | _ \<Rightarrow> False)"

definition is_step_completed :: "string \<Rightarrow> exec_state \<Rightarrow> bool" where
  "is_step_completed name s = (name \<in> set (es_completed_steps s))"

text \<open>\<open>prune_stale_state\<close>; the emitted epochs are kept up to the 50 that sort last.\<close>

definition max_epochs :: nat where "max_epochs = 50"

definition prune_epochs :: "string list \<Rightarrow> string list" where
  "prune_epochs es =
     (if length es > max_epochs
      then (let to_remove = take (length es - max_epochs) (sort es) in
        filter (\<lambda>e. e \<notin> set to_remove) es)
      else es)"

definition prune_result :: "string list \<Rightarrow> exec_state \<Rightarrow> string \<Rightarrow> exec_state" where
  "prune_result keep s name =
     (if name \<in> set keep then s
      else (let s1 = s\<lparr>es_step_results := AList.delete name (es_step_results s)\<rparr> in
        if has_key (es_variables s) name \<and> \<not> startswith name ''_''
        then s1\<lparr>es_variables := AList.delete name (es_variables s)\<rparr> else s1))"

definition prune_stale_state :: "string list \<Rightarrow> exec_state \<Rightarrow> exec_state" where
  "prune_stale_state keep_steps s =
     (let keep = (case es_current_step s of None \<Rightarrow> keep_steps
                  | Some c \<Rightarrow> if c \<noteq> [] then c # keep_steps else keep_steps);
          s1 = foldl (prune_result keep) s (dict_keys (es_step_results s)) in
      s1\<lparr>es_emitted_epochs := prune_epochs (es_emitted_epochs s1)\<rparr>)"

definition epoch_key :: "string \<Rightarrow> string \<Rightarrow> string \<Rightarrow> string" where
  "epoch_key step event_name loop_event_id = step @ '':'' @ event_name @ '':'' @ loop_event_id"

definition add_emitted_loop_epoch :: "string \<Rightarrow> string \<Rightarrow> string \<Rightarrow> exec_state \<Rightarrow> exec_state" where
  "add_emitted_loop_epoch step event_name loop_event_id s =
     (let k = epoch_key step event_name loop_event_id;
          s1 = s\<lparr>es_emitted_epochs :=
            (if k \<in> set (es_emitted_epochs s) then es_emitted_epochs s
             else es_emitted_epochs s @ [k])\<rparr> in
      if event_name = ''loop.done'' then prune_stale_state [step] s1 else s1)"

section \<open>Loops\<close>

text \<open>
  \<open>init_loop\<close> first judges the previous run of the step's loop (a run with items, completions and
  no successful slot counts as a stall) and then writes fresh counters.
\<close>

definition previous_run_stalled :: "pydict \<Rightarrow> bool res" where
  "previous_run_stalled prev =
     rbind (py_len (py_get_default prev ''collection'' (VList []))) (\<lambda>prev_size.
     rbind (loop_results_total prev) (\<lambda>prev_completed.
     rbind (py_num (py_get_default prev ''failed_count'' (VInt 0))) (\<lambda>prev_failed.
     rbind (py_num (py_get_default prev ''break_count'' (VInt 0))) (\<lambda>prev_break.
       Inr (0 < prev_size \<and> 0 < prev_completed \<and> prev_completed - prev_failed - prev_break \<le> 0)))))"

definition fresh_loop_state :: "int \<Rightarrow> string \<Rightarrow> string \<Rightarrow> pyval \<Rightarrow> pydict" where
  "fresh_loop_state n iterator mode event_id =
     [(''collection_size'', VInt n), (''iterator'', VStr iterator), (''index'', VInt 0),
      (''mode'', VStr mode), (''completed'', VBool False), (''failed_count'', VInt 0),
      (''break_count'', VInt 0), (''scheduled_count'', VInt 0), (''event_id'', event_id),
      (''omitted_results_count'', VInt 0)]"

definition judge_previous_run :: "string \<Rightarrow> exec_state \<Rightarrow> exec_state res" where
  "judge_previous_run step s =
     (case map_of (es_loop_state s) step of
        None \<Rightarrow> Inr s
      | Some prev \<Rightarrow>
          rbind (previous_run_stalled prev) (\<lambda>stalled.
            Inr (s\<lparr>es_stall_counts := AList.update step
              (if stalled then (case map_of (es_stall_counts s) step of None \<Rightarrow> 0 | Some n \<Rightarrow> n) + 1 else 0)
              (es_stall_counts s)\<rparr>)))"

definition init_loop :: "string \<Rightarrow> pyval list \<Rightarrow> string \<Rightarrow> string \<Rightarrow> pyval \<Rightarrow> exec_state \<Rightarrow> exec_state res" where
  "init_loop step collection iterator mode event_id s =
     rbind (judge_previous_run step s) (\<lambda>s.
       Inr (s\<lparr>es_loop_state := AList.update step
         (fresh_loop_state (int (length collection)) iterator mode event_id) (es_loop_state s)\<rparr>))"

text \<open>\<open>xs[i]\<close> with Python's negative indexes.\<close>

definition py_index :: "pyval list \<Rightarrow> int \<Rightarrow> pyval res" where
  "py_index xs i =
     (if 0 \<le> i \<and> i < int (length xs) then Inr (xs ! nat i)
      else if i < 0 \<and> - int (length xs) \<le> i then Inr (xs ! nat (int (length xs) + i))
      else Inl (IndexError ''list index out of range''))"

definition with_loop :: "string \<Rightarrow> pydict \<Rightarrow> exec_state \<Rightarrow> exec_state" where
  "with_loop step ls s = s\<lparr>es_loop_state := AList.update step ls (es_loop_state s)\<rparr>"

text \<open>\<open>get_next_loop_item\<close>: the item with its index, or \<open>None\<close> when the loop is done.\<close>

definition get_next_loop_item ::
  "string \<Rightarrow> pyval list option \<Rightarrow> exec_state \<Rightarrow> ((pyval \<times> int) option \<times> exec_state) res" where
  "get_next_loop_item step collection s =
     (case map_of (es_loop_state s) step of
        None \<Rightarrow> Inr (None, s)
      | Some ls \<Rightarrow>
          rbind (need ls ''completed'') (\<lambda>completed.
          if truthy completed then Inr (None, s)
          else
            rbind (rbind (need ls ''index'') py_num) (\<lambda>index.
            rbind (py_num (py_get_default ls ''collection_size'' (VInt 0))) (\<lambda>sz.
            if sz \<le> index \<or> (case collection of None \<Rightarrow> False | Some xs \<Rightarrow> int (length xs) \<le> index)
            then Inr (None, with_loop step (AList.update ''completed'' (VBool True) ls) s)
            else
              rbind (case collection of Some (x # xs) \<Rightarrow> py_index (x # xs) index | _ \<Rightarrow> Inr VNone) (\<lambda>item.
              rbind (rbind (need ls ''scheduled_count'') py_num) (\<lambda>scheduled.
                Inr (Some (item, index),
                  with_loop step
                    (AList.update ''scheduled_count'' (VInt (scheduled + 1))
                      (AList.update ''index'' (VInt (index + 1))
                        (AList.update ''current_item'' item ls))) s)))))))"

definition is_loop_done :: "string \<Rightarrow> exec_state \<Rightarrow> bool res" where
  "is_loop_done step s =
     (case map_of (es_loop_state s) step of
        None \<Rightarrow> Inr True
      | Some ls \<Rightarrow> rbind (need ls ''completed'') (\<lambda>v. Inr (truthy v)))"

text \<open>\<open>add_loop_result\<close>; \<open>compact\<close> is the compaction of a loop result.\<close>

definition counts_as_break :: "pyval \<Rightarrow> bool" where
  "counts_as_break result =
     (case result of
        VDict d \<Rightarrow> lower (py_str (py_get_default d ''status'' (VStr ''''))) = ''break''
          \<or> py_get d ''policy_break'' = VBool True
      | _ \<Rightarrow> False)"

definition add_loop_result ::
  "(pyval \<Rightarrow> pyval) \<Rightarrow> string \<Rightarrow> pyval \<Rightarrow> bool \<Rightarrow> exec_state \<Rightarrow> exec_state res" where
  "add_loop_result compact step result failed s =
     (case map_of (es_loop_state s) step of
        None \<Rightarrow> Inr s
      | Some ls \<Rightarrow>
          (let ls1 = AList.update ''last_result'' (compact result) ls in
           rbind (py_num (py_get_default ls1 ''completed_count'' (VInt 0))) (\<lambda>done.
           (let ls2 = AList.update ''completed_count'' (VInt (done + 1)) ls1 in
            if failed then
              rbind (rbind (need ls2 ''failed_count'') py_num) (\<lambda>f.
                Inr (with_loop step (AList.update ''failed_count'' (VInt (f + 1)) ls2) s))
            else if counts_as_break result then
              rbind (py_num (py_get_default ls2 ''break_count'' (VInt 0))) (\<lambda>b.
                Inr (with_loop step (AList.update ''break_count'' (VInt (b + 1)) ls2) s))
            else Inr (with_loop step ls2 s)))))"

record loop_aggregation =
  la_results :: "pyval list"
  la_total :: int
  la_success :: int
  la_failed :: int

definition get_loop_aggregation :: "string \<Rightarrow> exec_state \<Rightarrow> loop_aggregation res" where
  "get_loop_aggregation step s =
     (case map_of (es_loop_state s) step of
        None \<Rightarrow> Inr \<lparr>la_results = [], la_total = 0, la_success = 0, la_failed = 0\<rparr>
      | Some ls \<Rightarrow>
          rbind (loop_results_total ls) (\<lambda>total.
          rbind (rbind (need ls ''failed_count'') py_num) (\<lambda>failed.
            Inr \<lparr>la_results = (if truthy (py_get ls ''last_result'') then [py_get ls ''last_result''] else []),
                 la_total = total, la_success = total - failed, la_failed = failed\<rparr>)))"

definition get_loop_completed_count :: "string \<Rightarrow> exec_state \<Rightarrow> int res" where
  "get_loop_completed_count step s =
     (case map_of (es_loop_state s) step of None \<Rightarrow> Inr 0 | Some ls \<Rightarrow> loop_results_total ls)"

section \<open>The render context\<close>

record engine_event =
  ev_execution_id :: pyval
  ev_name :: string
  ev_step :: "string option"
  ev_payload :: pyval
  ev_timestamp :: "string option"
  ev_time :: int
  ev_meta :: pydict
  ev_worker_id :: pyval
  ev_attempt :: int
  ev_parent_event_id :: pyval

definition active_loop :: "engine_event \<Rightarrow> exec_state \<Rightarrow> pydict option" where
  "active_loop ev s =
     (case ev_step ev of
        Some st \<Rightarrow> if st \<noteq> [] then map_of (es_loop_state s) st else None
      | None \<Rightarrow> None)"

text \<open>The \<open>iter\<close> namespace: the iterator's value, the index of the current item and its two flags.\<close>

definition iter_variables :: "pydict \<Rightarrow> pydict \<Rightarrow> pydict res" where
  "iter_variables vars ls =
     rbind (rbind (need ls ''index'') py_num) (\<lambda>index.
     rbind (if has_key ls ''collection'' then rbind (py_len (py_get ls ''collection'')) (\<lambda>n. Inr (int n))
            else py_int (py_get_default ls ''collection_size'' (VInt 0))) (\<lambda>sz.
       Inr (AList.update ''_last'' (VBool (sz - 1 \<le> index))
           (AList.update ''_first'' (VBool (index = 1))
           (AList.update ''_index'' (VInt (if 0 < index then index - 1 else 0))
             (case py_get_default ls ''iterator'' (VStr ''item'') of
                VStr it \<Rightarrow> if has_key vars it then [(it, py_get vars it)] else []
              | _ \<Rightarrow> []))))))"

definition protected_fields :: "string list" where
  "protected_fields = [''execution_id'', ''catalog_id'', ''job'']"

text \<open>Entries are added to the context unless the name is taken or protected.\<close>

definition spread :: "pydict \<Rightarrow> pydict \<Rightarrow> pydict" where
  "spread context entries =
     foldl (\<lambda>c (k, v). if has_key c k \<or> k \<in> set protected_fields then c else AList.update k v c)
       context entries"

definition id_text :: "pyval \<Rightarrow> pyval" where
  "id_text v = (if truthy v then VStr (py_str v) else VNone)"

definition loop_namespace :: "pydict \<Rightarrow> pyval res" where
  "loop_namespace ls =
     rbind (rbind (need ls ''index'') py_num) (\<lambda>index.
     rbind (need ls ''completed'') (\<lambda>completed.
       Inr (VDict [(''index'', VInt (if 0 < index then index - 1 else 0)),
         (''first'', VBool (index = 1)),
         (''length'', py_get_default ls ''collection_size'' (VInt 0)),
         (''done'', completed)])))"

definition event_step_result :: "engine_event \<Rightarrow> exec_state \<Rightarrow> pyval" where
  "event_step_result ev s =
     (case ev_step ev of
        None \<Rightarrow> VNone
      | Some st \<Rightarrow>
          (let r = (if st \<noteq> [] then py_get (es_step_results s) st else VNone) in
           if r = VNone \<and> endswith st task_sequence_suffix then py_get (es_step_results s) (parent_of st)
           else r))"

definition add_output :: "engine_event \<Rightarrow> exec_state \<Rightarrow> pydict \<Rightarrow> pydict" where
  "add_output ev s context =
     (case unwrap_event_payload (ev_payload ev) of
        VDict p \<Rightarrow>
          (let view = build_output_view p (event_step_result ev s);
               c = AList.update ''output'' (VDict view) context in
           if py_get view ''error'' \<noteq> VNone then AList.update ''error'' (py_get view ''error'') c else c)
      | _ \<Rightarrow> context)"

definition get_render_context :: "engine_event \<Rightarrow> exec_state \<Rightarrow> pydict res" where
  "get_render_context ev s =
     (let manifest = py_get (es_variables s) manifest_key;
          context_vars = strip_keychain_namespaces (VDict (es_variables s)) manifest;
          visible = filter (\<lambda>(k, v). k \<noteq> ''keychain'' \<and> k \<notin> set (keychain_names_from_manifest manifest))
            (es_variables s) in
      rbind (case active_loop ev s of None \<Rightarrow> Inr [] | Some ls \<Rightarrow> iter_variables (es_variables s) ls) (\<lambda>iter.
      rbind (case active_loop ev s of None \<Rightarrow> Inr None
             | Some ls \<Rightarrow> rbind (loop_namespace ls) (\<lambda>l. Inr (Some l))) (\<lambda>loop_ns.
      (let base =
            [(''event'', VDict [(''name'', VStr (ev_name ev)),
                (''payload'', unwrap_event_payload (ev_payload ev)),
                (''step'', enc_str (ev_step ev)), (''timestamp'', enc_str (ev_timestamp ev))]),
             (''ctx'', context_vars), (''iter'', VDict iter), (''workload'', context_vars)];
           c1 = spread (spread base (es_step_results s)) visible;
           uuid = id_text (es_execution_id s);
           c2 = AList.update ''job''
                  (VDict [(''uuid'', uuid), (''execution_id'', uuid), (''id'', uuid)])
                (AList.update ''catalog_id'' (id_text (es_catalog_id s))
                (AList.update ''execution_id'' uuid c1));
           c3 = (case loop_ns of None \<Rightarrow> c2 | Some l \<Rightarrow> AList.update ''loop'' l c2) in
       Inr (add_output ev s c3)))))"

text \<open>How the loop operations read and write the counters of a step.\<close>

lemmas loop_access = need_def py_get_default_def with_loop_def

end
