(* ===== verification/Engine_Loops.thy ===== *)
theory Engine_Loops
  imports Engine_State
begin

text \<open>
  What the execution state promises: a loop hands out every item once and in order, its counters
  account for every result, and the persisted form is stable. Four statements pin down where the
  code departs from what it says of itself.
\<close>

section \<open>Handing out items\<close>

text \<open>The calls of \<open>get_next_loop_item\<close> of one loop run, until it answers \<open>None\<close>.\<close>

fun drain_loop :: "nat \<Rightarrow> string \<Rightarrow> pyval list \<Rightarrow> exec_state \<Rightarrow> ((pyval \<times> int) list \<times> exec_state) res" where
  "drain_loop 0 step xs s = Inr ([], s)"
| "drain_loop (Suc fuel) step xs s =
     rbind (get_next_loop_item step (Some xs) s) (\<lambda>(r, s').
       case r of
         None \<Rightarrow> Inr ([], s')
       | Some p \<Rightarrow> rbind (drain_loop fuel step xs s') (\<lambda>(ps, s''). Inr (p # ps, s'')))"

definition loop_at :: "string \<Rightarrow> nat \<Rightarrow> nat \<Rightarrow> exec_state \<Rightarrow> bool" where
  "loop_at step i n s =
     (case map_of (es_loop_state s) step of
        None \<Rightarrow> False
      | Some ls \<Rightarrow> map_of ls ''completed'' = Some (VBool False)
          \<and> map_of ls ''index'' = Some (VInt (int i))
          \<and> map_of ls ''collection_size'' = Some (VInt (int n))
          \<and> map_of ls ''scheduled_count'' = Some (VInt (int i))
          \<and> map_of ls ''collection'' = None)"

lemma py_index_nat: "i < length xs \<Longrightarrow> py_index xs (int i) = Inr (xs ! i)"
  by (simp add: py_index_def)

lemma next_item:
  assumes "loop_at step i (length xs) s" and "i < length xs"
  shows "\<exists>s'. get_next_loop_item step (Some xs) s = Inr (Some (xs ! i, int i), s') \<and>
     loop_at step (Suc i) (length xs) s'"
proof -
  obtain ls where ls: "map_of (es_loop_state s) step = Some ls"
    using assms(1) by (auto simp: loop_at_def split: option.splits)
  obtain y ys where xs: "xs = y # ys" using assms(2) by (cases xs) auto
  show ?thesis
    using assms ls py_index_nat [OF assms(2)]
    by (auto simp: loop_at_def get_next_loop_item_def loop_access xs)
qed

lemma no_more_items:
  assumes "loop_at step (length xs) (length xs) s"
  shows "\<exists>s'. get_next_loop_item step (Some xs) s = Inr (None, s') \<and> is_loop_done step s' = Inr True"
proof -
  obtain ls where ls: "map_of (es_loop_state s) step = Some ls"
    using assms by (auto simp: loop_at_def split: option.splits)
  show ?thesis
    using assms ls
    by (simp add: loop_at_def get_next_loop_item_def loop_access
        is_loop_done_def)
qed

lemma drain_from:
  assumes "loop_at step i (length xs) s" and "i \<le> length xs"
  shows "\<exists>s'. drain_loop (Suc (length xs - i)) step xs s
            = Inr (zip (drop i xs) (map int [i..<length xs]), s') \<and> is_loop_done step s' = Inr True"
  using assms
proof (induction "length xs - i" arbitrary: i s)
  case 0
  then have "i = length xs" by simp
  with 0 no_more_items [of step xs s] show ?case by auto
next
  case (Suc k)
  then have lt: "i < length xs" by simp
  obtain s1 where s1: "get_next_loop_item step (Some xs) s = Inr (Some (xs ! i, int i), s1)"
    and at: "loop_at step (Suc i) (length xs) s1"
    using next_item [OF Suc.prems(1) lt] by blast
  have k: "k = length xs - Suc i" using Suc.hyps(2) by simp
  obtain s2 where s2: "drain_loop (Suc (length xs - Suc i)) step xs s1
      = Inr (zip (drop (Suc i) xs) (map int [Suc i..<length xs]), s2)"
    and d: "is_loop_done step s2 = Inr True"
    using Suc.hyps(1) [OF k at] lt by auto
  have "drop i xs = xs ! i # drop (Suc i) xs" "[i..<length xs] = i # [Suc i..<length xs]"
    using lt by (simp_all add: Cons_nth_drop_Suc upt_conv_Cons)
  moreover have "Suc (length xs - i) = Suc (Suc (length xs - Suc i))" using lt by simp
  ultimately show ?case using s1 s2 d by auto
qed

text \<open>
  After \<open>init_loop\<close>, the calls of \<open>get_next_loop_item\<close> return each item of the collection once,
  in order, with its index, and then mark the loop done.
\<close>
lemma loop_hands_out_every_item:
  assumes "init_loop step xs iterator mode event_id s = Inr s1"
  shows "\<exists>s2. drain_loop (Suc (length xs)) step xs s1 = Inr (zip xs (map int [0..<length xs]), s2) \<and>
     is_loop_done step s2 = Inr True"
proof -
  have "loop_at step 0 (length xs) s1"
    using assms by (auto simp: init_loop_def fresh_loop_state_def loop_at_def elim!: rbind_InrE)
  then show ?thesis using drain_from [of step 0 xs s1] by simp
qed

definition sample_state :: exec_state where
  "sample_state = new_execution_state (VStr ''7'') sample_playbook [] (VInt 3) VNone"

definition sample_looping :: exec_state where
  "sample_looping = (case init_loop ''b'' [VInt 10, VInt 20] ''item'' ''sequential'' VNone sample_state of
     Inr s \<Rightarrow> s | Inl _ \<Rightarrow> sample_state)"

lemma sample_looping:
  "init_loop ''b'' [VInt 10, VInt 20] ''item'' ''sequential'' VNone sample_state = Inr sample_looping"
  by (simp add: sample_looping_def init_loop_def judge_previous_run_def sample_state_def
      new_execution_state_def)

lemma loop_hands_out_every_item_witness:
  "\<exists>s2. drain_loop 3 ''b'' [VInt 10, VInt 20] sample_looping
      = Inr ([(VInt 10, 0), (VInt 20, 1)], s2) \<and> is_loop_done ''b'' s2 = Inr True"
  using loop_hands_out_every_item [OF sample_looping] by (simp add: numeral_3_eq_3)

section \<open>Counting results\<close>

text \<open>The counters after \<open>k\<close> results of which \<open>f\<close> failed.\<close>

definition loop_counts :: "string \<Rightarrow> nat \<Rightarrow> nat \<Rightarrow> exec_state \<Rightarrow> bool" where
  "loop_counts step k f s =
     (case map_of (es_loop_state s) step of
        None \<Rightarrow> False
      | Some ls \<Rightarrow> (if k = 0 then map_of ls ''completed_count'' \<in> {None, Some (VInt 0)}
                 else map_of ls ''completed_count'' = Some (VInt (int k)))
          \<and> map_of ls ''omitted_results_count'' = Some (VInt 0)
          \<and> map_of ls ''failed_count'' = Some (VInt (int f))
          \<and> (\<exists>b. map_of ls ''break_count'' = Some (VInt b)))"

lemma add_result_counts:
  assumes "loop_counts step k f s"
  shows "\<exists>s'. add_loop_result compact step r failed s = Inr s' \<and>
     loop_counts step (Suc k) (if failed then Suc f else f) s' \<and>
     (\<exists>ls. map_of (es_loop_state s') step = Some ls \<and> map_of ls ''last_result'' = Some (compact r))"
proof -
  obtain ls where ls: "map_of (es_loop_state s) step = Some ls"
    using assms by (auto simp: loop_counts_def split: option.splits)
  show ?thesis
    using assms ls
    by (auto simp: loop_counts_def add_loop_result_def loop_access
        Let_def split: if_splits)
qed

lemma add_results_counts:
  assumes "loop_counts step k f s" and "rs \<noteq> []"
  shows "\<exists>s'. rfold (\<lambda>s (r, failed). add_loop_result compact step r failed s) s rs = Inr s' \<and>
     loop_counts step (k + length rs) (f + length (filter snd rs)) s' \<and>
     (\<exists>ls. map_of (es_loop_state s') step = Some ls
        \<and> map_of ls ''last_result'' = Some (compact (fst (last rs))))"
  using assms
proof (induction rs arbitrary: k f s)
  case (Cons p rs)
  obtain r failed where p: "p = (r, failed)" by force
  obtain s1 where s1: "add_loop_result compact step r failed s = Inr s1"
    and c: "loop_counts step (Suc k) (if failed then Suc f else f) s1"
    and l: "\<exists>ls. map_of (es_loop_state s1) step = Some ls \<and> map_of ls ''last_result'' = Some (compact r)"
    using add_result_counts [OF Cons.prems(1)] by blast
  show ?case
  proof (cases "rs = []")
    case True
    then show ?thesis using s1 c l by (auto simp: p split: if_splits)
  next
    case False
    then show ?thesis using Cons.IH [OF c False] s1 by (auto simp: p split: if_splits)
  qed
qed simp

text \<open>
  The aggregation of a loop accounts for every result added since \<open>init_loop\<close>: the total is
  their number, the failed count is the number added as failed, the success count is the rest,
  and the only result kept is the last one, compacted.
\<close>
lemma loop_aggregation_accounts:
  assumes "init_loop step xs iterator mode event_id s = Inr s1" and "rs \<noteq> []"
  shows "\<exists>s2. rfold (\<lambda>s (r, failed). add_loop_result compact step r failed s) s1 rs = Inr s2 \<and>
     get_loop_aggregation step s2 = Inr
       \<lparr>la_results = (if truthy (compact (fst (last rs))) then [compact (fst (last rs))] else []),
        la_total = int (length rs),
        la_success = int (length (filter (\<lambda>p. \<not> snd p) rs)),
        la_failed = int (length (filter snd rs))\<rparr>"
proof -
  have "loop_counts step 0 0 s1"
    using assms(1) by (auto simp: init_loop_def fresh_loop_state_def loop_counts_def elim!: rbind_InrE)
  then obtain s2 where s2: "rfold (\<lambda>s (r, failed). add_loop_result compact step r failed s) s1 rs = Inr s2"
    and c: "loop_counts step (length rs) (length (filter snd rs)) s2"
    and l: "\<exists>ls. map_of (es_loop_state s2) step = Some ls
        \<and> map_of ls ''last_result'' = Some (compact (fst (last rs)))"
    using add_results_counts [of step 0 0 s1 rs compact] assms(2) by auto
  have "int (length rs) - int (length (filter snd rs)) = int (length (filter (\<lambda>p. \<not> snd p) rs))"
    using sum_length_filter_compl [of snd rs] by simp
  then show ?thesis
    using s2 c l assms(2)
    by (intro exI [of _ s2]) (auto simp: loop_counts_def get_loop_aggregation_def loop_results_total_def
        need_def py_get_default_def py_get_def split: if_splits)
qed

lemma loop_aggregation_accounts_witness:
  "\<exists>s2. rfold (\<lambda>s (r, failed). add_loop_result id ''b'' r failed s) sample_looping
        [(VInt 1, False), (VInt 2, True), (VInt 3, False)] = Inr s2 \<and>
     get_loop_aggregation ''b'' s2
       = Inr \<lparr>la_results = [VInt 3], la_total = 3, la_success = 2, la_failed = 1\<rparr>"
  using loop_aggregation_accounts [OF sample_looping,
      of "[(VInt 1, False), (VInt 2, True), (VInt 3, False)]" id]
  by simp

section \<open>The persisted form\<close>

text \<open>
  What every state built by the operations satisfies: sets without repetition, and a keychain
  manifest that is itself neither shaped like a step result nor named as an entry.
\<close>

definition state_ok :: "exec_state \<Rightarrow> bool" where
  "state_ok s \<longleftrightarrow>
     distinct (es_completed_steps s) \<and> distinct (es_issued_steps s) \<and>
     \<not> step_result_mirror (py_get (es_variables s) manifest_key) \<and>
     manifest_key \<notin> set (keychain_names_from_manifest (py_get (es_variables s) manifest_key))"

lemma compact_result_idem [simp]: "compact_result (compact_result r) = compact_result r"
  by (simp add: compact_result_def split: pyval.split)

lemma compact_loop_idem [simp]: "compact_loop_state (compact_loop_state ls) = compact_loop_state ls"
  by (simp add: compact_loop_state_def)

lemma strip_mirror: "step_result_mirror (strip_keychain_namespaces v m) \<Longrightarrow> step_result_mirror v"
proof (cases v)
  case (VDict d)
  have sub: "has_key (map (\<lambda>(k, v). (k, f k v)) (filter P d)) x \<Longrightarrow> has_key d x" for f P x
    by (induction d) (auto simp: has_key_def split: if_splits)
  assume "step_result_mirror (strip_keychain_namespaces v m)"
  then show ?thesis
    using sub by (auto simp: VDict step_result_mirror_def strip_keychain_namespaces_def)
qed (auto simp: step_result_mirror_def strip_keychain_namespaces_def)

lemma compact_manifest:
  assumes "\<not> step_result_mirror (py_get vars manifest_key)"
    and "manifest_key \<notin> set (keychain_names_from_manifest m)"
  shows "py_get (map (\<lambda>(k, v). (k, if k = manifest_key then v else strip_keychain_namespaces v m))
            (filter (kept_variable m) vars)) manifest_key = py_get vars manifest_key"
  using assms
  by (induction vars) (auto simp: kept_variable_def manifest_key_def split: if_splits)

lemma compact_variables_idem:
  assumes "\<not> step_result_mirror (py_get vars manifest_key)"
    and "manifest_key \<notin> set (keychain_names_from_manifest (py_get vars manifest_key))"
  shows "compact_variables (compact_variables vars) = compact_variables vars"
    and "py_get (compact_variables vars) manifest_key = py_get vars manifest_key"
proof -
  let ?m = "py_get vars manifest_key"
  let ?f = "\<lambda>(k, v). (k, if k = manifest_key then v else strip_keychain_namespaces v ?m)"
  show m: "py_get (compact_variables vars) manifest_key = ?m"
    unfolding compact_variables_def Let_def by (rule compact_manifest [OF assms])
  have f: "filter (kept_variable ?m) (map ?f (filter (kept_variable ?m) vars))
      = map ?f (filter (kept_variable ?m) vars)"
    by (intro filter_True) (auto simp: kept_variable_def dest: strip_mirror)
  have "map ?f (map ?f (filter (kept_variable ?m) vars)) = map ?f (filter (kept_variable ?m) vars)"
    by auto
  then show "compact_variables (compact_variables vars) = compact_variables vars"
    using m f by (simp add: compact_variables_def Let_def)
qed

lemma need_set_strings [simp]: "distinct ss \<Longrightarrow> need_set (VList (map VStr ss)) = Inr ss"
proof -
  assume d: "distinct ss"
  have "rmap need_str (map VStr ss) = Inr ss"
    by (induction ss) (auto simp: need_str_def)
  with d show ?thesis by (simp add: need_set_def distinct_remdups_id)
qed

lemma need_items_dicts [simp]:
  "need_items need_dict (VDict (map (\<lambda>(k, ls). (k, VDict (f ls))) xs)) = Inr (map (\<lambda>(k, ls). (k, f ls)) xs)"
proof -
  have "rmap (\<lambda>(k, x). rbind (need_dict x) (\<lambda>y. Inr (k, y))) (map (\<lambda>(k, ls). (k, VDict (f ls))) xs)
      = Inr (map (\<lambda>(k, ls). (k, f ls)) xs)"
    by (induction xs) (auto simp: need_dict_def)
  then show ?thesis by (simp add: need_items_def need_dict_def)
qed

lemma need_items_ints [simp]: "need_items need_int (VDict (map (\<lambda>(k, n). (k, VInt n)) xs)) = Inr xs"
proof -
  have "rmap (\<lambda>(k, x). rbind (need_int x) (\<lambda>y. Inr (k, y))) (map (\<lambda>(k, n). (k, VInt n)) xs) = Inr xs"
    by (induction xs) (auto simp: need_int_def)
  then show ?thesis by (simp add: need_items_def need_dict_def)
qed

lemma need_dict_VDict [simp]: "need_dict (VDict d) = Inr d"
  by (simp add: need_dict_def)

lemma need_opt_str_enc [simp]: "need_opt_str (enc_str x) = Inr x"
  by (cases x) (simp_all add: need_opt_str_def enc_str_def need_str_def)

lemma strip_dict: "\<exists>d'. strip_keychain_namespaces (VDict d) m = VDict d'"
  by (simp add: strip_keychain_namespaces_def)

lemma persisted_state_reads:
  assumes "state_ok s"
  shows "\<exists>s'. state_from_dict (state_to_dict s) (es_playbook s) = Inr s' \<and>
     state_to_dict s' = state_to_dict s \<and>
     es_completed_steps s' = es_completed_steps s \<and> es_issued_steps s' = es_issued_steps s \<and>
     es_stall_counts s' = es_stall_counts s \<and>
     es_step_results s' = map (\<lambda>(k, v). (k, compact_result v)) (es_step_results s) \<and>
     es_loop_state s' = map (\<lambda>(k, ls). (k, compact_loop_state ls)) (es_loop_state s)"
proof -
  let ?m = "py_get (es_variables s) manifest_key"
  obtain p where p: "strip_keychain_namespaces (VDict (es_payload s)) ?m = VDict p"
    using strip_dict by blast
  have p': "strip_keychain_namespaces (VDict p) ?m = VDict p"
    by (metis p strip_idem)
  have c: "compact_variables (compact_variables (es_variables s)) = compact_variables (es_variables s)"
    "py_get (compact_variables (es_variables s)) manifest_key = ?m"
    using assms compact_variables_idem [of "es_variables s"] by (auto simp: state_ok_def)
  obtain s' where s': "state_from_dict (state_to_dict s) (es_playbook s) = Inr s'"
    and f: "es_playbook s' = es_playbook s" "es_payload s' = p" "es_execution_id s' = es_execution_id s"
      "es_catalog_id s' = es_catalog_id s" "es_parent_execution_id s' = es_parent_execution_id s"
      "es_current_step s' = es_current_step s" "es_variables s' = compact_variables (es_variables s)"
      "es_last_event_id s' = es_last_event_id s" "es_step_event_ids s' = es_step_event_ids s"
      "es_step_results s' = map (\<lambda>(k, v). (k, compact_result v)) (es_step_results s)"
      "es_completed_steps s' = es_completed_steps s" "es_issued_steps s' = es_issued_steps s"
      "es_failed s' = es_failed s" "es_completed s' = es_completed s"
      "es_root_event_id s' = es_root_event_id s"
      "es_loop_state s' = map (\<lambda>(k, ls). (k, compact_loop_state ls)) (es_loop_state s)"
      "es_stall_counts s' = es_stall_counts s" "es_pagination_state s' = es_pagination_state s"
      "es_pending_next_actions s' = es_pending_next_actions s"
    using assms
    by (simp add: state_from_dict_def state_to_dict_def need_def py_get_default_def p need_bool_def
        new_execution_state_def state_ok_def)
  have "state_to_dict s' = state_to_dict s"
    by (simp add: state_to_dict_def f c p p' o_def case_prod_unfold)
  with s' f show ?thesis by auto
qed

text \<open>
  A state can always be read back from its persisted form; the state read back persists in
  the same form, has the same steps, flags, ids and stall counts, every step result compacted and
  every loop state without its collection.
\<close>
lemma persisted_state_stable:
  assumes "state_ok s"
  shows "\<exists>s'. state_from_dict (state_to_dict s) (es_playbook s) = Inr s' \<and>
     state_to_dict s' = state_to_dict s \<and>
     es_completed_steps s' = es_completed_steps s \<and> es_issued_steps s' = es_issued_steps s \<and>
     es_stall_counts s' = es_stall_counts s \<and>
     es_step_results s' = map (\<lambda>(k, v). (k, compact_result v)) (es_step_results s) \<and>
     es_loop_state s' = map (\<lambda>(k, ls). (k, compact_loop_state ls)) (es_loop_state s)"
  by (rule persisted_state_reads [OF assms])

lemma sample_state_ok: "state_ok sample_looping"
  by (simp add: state_ok_def sample_looping_def sample_state_def init_loop_def judge_previous_run_def
      new_execution_state_def sample_playbook_def step_result_mirror_def keychain_names_from_manifest_def)

lemma persisted_state_stable_witness:
  "\<exists>s'. state_from_dict (state_to_dict sample_looping) (es_playbook sample_looping) = Inr s' \<and>
     state_to_dict s' = state_to_dict sample_looping"
  using persisted_state_stable [OF sample_state_ok] by blast

section \<open>Completed steps keep their rows\<close>

lemma inherit_rows_get:
  "py_get (inherit_rows prior new) k =
     (if k \<in> {''rows'', ''columns''} \<and> \<not> is_list (py_get new k) \<and> is_list (py_get prior k)
      then py_get prior k else py_get new k)"
  by (auto simp: inherit_rows_def inherit_key_def py_get_def)

lemma alias_context_get: "k \<noteq> ''context'' \<Longrightarrow> py_get (alias_context d) k = py_get d k"
  by (simp add: alias_context_def py_get_def)

lemma inherit_prior_get:
  "k \<noteq> ''context'' \<Longrightarrow> py_get (inherit_prior (VDict p) d) k = py_get (inherit_rows p d) k"
  by (auto simp: inherit_prior_def Let_def py_get_def split: pyval.split)

text \<open>
  Completing a step again never loses its rows or columns: the stored result keeps the list
  of the earlier result unless the new one brings a list of its own, and the step's variable
  mirrors the stored result.
\<close>
lemma completed_step_keeps_rows:
  assumes "py_get (es_step_results s) name = VDict p" and "py_get p k = VList xs"
    and "k \<in> {''rows'', ''columns''}"
  shows "\<exists>d ys. py_get (es_step_results (mark_step_completed resolve name (VDict r) s)) name = VDict d \<and>
     py_get (es_variables (mark_step_completed resolve name (VDict r) s)) name = VDict d \<and>
     py_get d k = VList ys \<and> (ys = xs \<or> py_get (resolve_rows resolve r) k = VList ys)"
proof -
  let ?d = "inherit_prior (VDict p) (alias_context (resolve_rows resolve r))"
  have k: "k \<noteq> ''context''" using assms(3) by auto
  have "py_get (es_step_results (mark_step_completed resolve name (VDict r) s)) name = VDict ?d"
    "py_get (es_variables (mark_step_completed resolve name (VDict r) s)) name = VDict ?d"
    by (simp_all add: mark_step_completed_def Let_def stored_result_def assms(1) py_get_def [of "AList.update _ _ _"])
  moreover have "py_get ?d k = (if \<not> is_list (py_get (resolve_rows resolve r) k) then VList xs
      else py_get (resolve_rows resolve r) k)"
    using assms(2,3) by (simp add: inherit_prior_get [OF k] inherit_rows_get alias_context_get [OF k])
  ultimately show ?thesis
    by (cases "py_get (resolve_rows resolve r) k") auto
qed

lemma completed_step_keeps_rows_witness:
  "\<exists>d ys. py_get (es_step_results (mark_step_completed (\<lambda>_. None) ''b'' (VDict [(''status'', VStr ''ok'')])
        (sample_state\<lparr>es_step_results := [(''b'', VDict [(''rows'', VList [VInt 1])])]\<rparr>))) ''b'' = VDict d \<and>
     py_get d ''rows'' = VList ys \<and> ys = [VInt 1]"
  using completed_step_keeps_rows [of "sample_state\<lparr>es_step_results := [(''b'', VDict [(''rows'', VList [VInt 1])])]\<rparr>"
      "''b''" "[(''rows'', VList [VInt 1])]" "''rows''" "[VInt 1]" "\<lambda>_. None" "[(''status'', VStr ''ok'')]"]
  by (auto simp: resolve_rows_def)

text \<open>
  The persisted form is described as holding references and scalars only, with the rows of
  step results stripped; the rows of a resolved reference are persisted all the same, under the
  \<open>context\<close> alias that completing the step adds.
\<close>
lemma resolved_rows_are_persisted:
  assumes "py_get r ''reference'' = VDict ref" and "py_get ref ''kind'' = VStr ''result_ref''"
    and "resolve ref = Some (VList rows)" and "\<not> has_key r ''context''"
  shows "\<exists>results compact ctx.
     py_get (state_to_dict (mark_step_completed resolve name (VDict r) s)) ''step_results'' = VDict results \<and>
     py_get results name = VDict compact \<and> py_get compact ''context'' = VDict ctx \<and>
     py_get ctx ''rows'' = VList rows"
proof -
  let ?s = "mark_step_completed resolve name (VDict r) s"
  let ?a = "alias_context (resolve_rows resolve r)"
  let ?d = "inherit_prior (py_get (es_step_results s) name) ?a"
  have rr: "resolve_rows resolve r = AList.update ''rows'' (VList rows) r"
    using assms by (simp add: resolve_rows_def)
  have a: "py_get ?a ''context'' = VDict (AList.update ''rows'' (VList rows) r)"
    using assms(4) by (simp add: rr alias_context_def has_key_def py_get_def)
  have "\<exists>ctx. py_get ?d ''context'' = VDict ctx \<and> py_get ctx ''rows'' = VList rows"
  proof (cases "py_get (es_step_results s) name")
    case (VDict p)
    then show ?thesis
      using a by (cases "py_get p ''context''")
        (auto simp: inherit_prior_def inherit_rows_get py_get_def [of "AList.update _ _ _"])
  qed (auto simp: inherit_prior_def a py_get_def [of "AList.update _ _ _"])
  then obtain ctx where ctx: "py_get ?d ''context'' = VDict ctx" "py_get ctx ''rows'' = VList rows"
    by blast
  have st: "py_get (es_step_results ?s) name = VDict ?d"
    by (simp add: mark_step_completed_def Let_def stored_result_def py_get_def [of "AList.update _ _ _"])
  have m: "py_get (map (\<lambda>(k, v). (k, compact_result v)) rs) n = VDict (filter kept_field d)"
    if "py_get rs n = VDict d" for rs n d
    using that by (induction rs) (auto simp: compact_result_def split: if_splits)
  have f: "py_get (filter kept_field d) ''context'' = VDict c" if "py_get d ''context'' = VDict c" for d c
    using that by (induction d) (auto simp: kept_field_def split: if_splits)
  show ?thesis
    using m [OF st] f [OF ctx(1)] ctx(2)
    by (intro exI [of _ "map (\<lambda>(k, v). (k, compact_result v)) (es_step_results ?s)"]
        exI [of _ "filter kept_field ?d"] exI [of _ ctx]) (simp add: state_to_dict_def)
qed

lemma resolved_rows_are_persisted_witness:
  "\<exists>results compact ctx.
     py_get (state_to_dict (mark_step_completed (\<lambda>_. Some (VList [VInt 1, VInt 2])) ''b''
        (VDict [(''reference'', VDict [(''kind'', VStr ''result_ref'')])]) sample_state)) ''step_results''
       = VDict results \<and>
     py_get results ''b'' = VDict compact \<and> py_get compact ''context'' = VDict ctx \<and>
     py_get ctx ''rows'' = VList [VInt 1, VInt 2]"
  by (rule resolved_rows_are_persisted [where ref = "[(''kind'', VStr ''result_ref'')]"])
    (simp_all add: has_key_def)

section \<open>Where the code departs from its description\<close>

text \<open>
  Dead-loop detection sizes the previous run by a \<open>collection\<close> that \<open>init_loop\<close> no longer stores
  and the persisted form strips: for a state read back from its persisted form, re-entering a loop
  resets its stall count to zero, however the previous run ended.
\<close>
lemma stall_forgotten_after_reload:
  assumes "state_ok s" and "state_from_dict (state_to_dict s) (es_playbook s) = Inr s1"
    and "map_of (es_loop_state s) step = Some ls"
    and "init_loop step xs iterator mode event_id s1 = Inr s2"
  shows "map_of (es_stall_counts s2) step = Some 0"
proof -
  have l: "es_loop_state s1 = map (\<lambda>(k, ls). (k, compact_loop_state ls)) (es_loop_state s)"
    using persisted_state_reads [OF assms(1)] assms(2) by auto
  have "map_of (map (\<lambda>(k, ls). (k, compact_loop_state ls)) ds) step
      = map_option compact_loop_state (map_of ds step)" for ds
    by (induction ds) auto
  then have m: "map_of (es_loop_state s1) step = Some (compact_loop_state ls)"
    using assms(3) l by simp
  have "map_of (compact_loop_state ls) ''collection'' = None"
    by (auto simp: compact_loop_state_def map_of_eq_None_iff)
  then have "previous_run_stalled (compact_loop_state ls) = Inr b \<Longrightarrow> \<not> b" for b
    by (auto simp: previous_run_stalled_def py_get_default_def elim!: rbind_InrE)
  then show ?thesis
    using assms(4) m by (auto simp: init_loop_def judge_previous_run_def elim!: rbind_InrE)
qed

definition sample_stalled :: exec_state where
  "sample_stalled = sample_looping\<lparr>es_stall_counts := [(''b'', 4)],
     es_loop_state := [(''b'', [(''collection'', VList [VInt 10]), (''completed_count'', VInt 1),
        (''failed_count'', VInt 1)])]\<rparr>"

lemma sample_stalled_ok: "state_ok sample_stalled"
  using sample_state_ok by (simp add: state_ok_def sample_stalled_def)

lemma sample_stalled_reload:
  "case state_from_dict (state_to_dict sample_stalled) (es_playbook sample_stalled) of
     Inl _ \<Rightarrow> False
   | Inr s1 \<Rightarrow> (case init_loop ''b'' [] ''item'' ''sequential'' VNone s1 of Inl _ \<Rightarrow> False | Inr _ \<Rightarrow> True)"
  by code_simp

text \<open>In memory the run of \<open>sample_stalled\<close> counts as the fifth stall; after a reload it does not.\<close>

lemma sample_stalled_in_memory:
  "case init_loop ''b'' [] ''item'' ''sequential'' VNone sample_stalled of
     Inl _ \<Rightarrow> False | Inr s2 \<Rightarrow> map_of (es_stall_counts s2) ''b'' = Some 5"
  by code_simp

lemma stall_forgotten_after_reload_witness:
  "\<exists>s1 s2. state_from_dict (state_to_dict sample_stalled) (es_playbook sample_stalled) = Inr s1 \<and>
     init_loop ''b'' [] ''item'' ''sequential'' VNone s1 = Inr s2 \<and>
     map_of (es_stall_counts s2) ''b'' = Some 0"
proof -
  obtain s1 s2 where s1: "state_from_dict (state_to_dict sample_stalled) (es_playbook sample_stalled) = Inr s1"
    and s2: "init_loop ''b'' [] ''item'' ''sequential'' VNone s1 = Inr s2"
    using sample_stalled_reload by (auto split: sum.splits)
  have "map_of (es_loop_state sample_stalled) ''b'' = Some [(''collection'', VList [VInt 10]),
      (''completed_count'', VInt 1), (''failed_count'', VInt 1)]"
    by (simp add: sample_stalled_def)
  from stall_forgotten_after_reload [OF sample_stalled_ok s1 this s2] s1 s2 show ?thesis by blast
qed

text \<open>
  In the render context the index of a loop already points past the current item, so the
  \<open>iter._last\<close> flag is true for the last item and for the one before it.
\<close>
lemma last_flag_one_item_early:
  assumes "loop_at step i (length xs) s" and "i < length xs"
  shows "\<exists>s1 ls it. get_next_loop_item step (Some xs) s = Inr (Some (xs ! i, int i), s1) \<and>
     map_of (es_loop_state s1) step = Some ls \<and> iter_variables vars ls = Inr it \<and>
     py_get it ''_index'' = VInt (int i) \<and> py_get it ''_first'' = VBool (i = 0) \<and>
     py_get it ''_last'' = VBool (length xs \<le> i + 2)"
proof -
  obtain s1 where s1: "get_next_loop_item step (Some xs) s = Inr (Some (xs ! i, int i), s1)"
    and at: "loop_at step (Suc i) (length xs) s1"
    using next_item [OF assms] by blast
  obtain ls where ls: "map_of (es_loop_state s1) step = Some ls"
    and f: "map_of ls ''index'' = Some (VInt (int (Suc i)))"
      "map_of ls ''collection_size'' = Some (VInt (int (length xs)))" "map_of ls ''collection'' = None"
    using at by (auto simp: loop_at_def split: option.splits)
  have "(int (length xs) - 1 \<le> int (Suc i)) = (length xs \<le> i + 2)" by linarith
  then have "\<exists>it. iter_variables vars ls = Inr it \<and>
     py_get it ''_index'' = VInt (int i) \<and> py_get it ''_first'' = VBool (i = 0) \<and>
     py_get it ''_last'' = VBool (length xs \<le> i + 2)"
    by (simp add: iter_variables_def need_def f has_key_def py_get_default_def
        py_get_def [of "AList.update _ _ _"])
  with s1 ls show ?thesis by blast
qed

lemma last_flag_one_item_early_witness:
  "\<exists>s1 ls it. get_next_loop_item ''b'' (Some [VInt 10, VInt 20]) sample_looping
        = Inr (Some (VInt 10, 0), s1) \<and>
     map_of (es_loop_state s1) ''b'' = Some ls \<and> iter_variables [] ls = Inr it \<and>
     py_get it ''_first'' = VBool True \<and> py_get it ''_last'' = VBool True"
proof -
  have "loop_at ''b'' 0 (length [VInt 10, VInt 20]) sample_looping"
    by (simp add: loop_at_def sample_looping_def init_loop_def judge_previous_run_def
        fresh_loop_state_def sample_state_def new_execution_state_def)
  from last_flag_one_item_early [OF this, of "[]"] show ?thesis by simp blast
qed

lemma prune_result_epochs [simp]: "es_emitted_epochs (prune_result keep s n) = es_emitted_epochs s"
  by (simp add: prune_result_def Let_def)

lemma prune_results_epochs [simp]:
  "es_emitted_epochs (foldl (prune_result keep) s ns) = es_emitted_epochs s"
  by (induction ns arbitrary: s) auto

text \<open>
  Pruning is described as keeping the entries of the last epochs; it keeps the 50 that sort
  last as text. A \<open>loop.done\<close> epoch that sorts before 50 recorded ones is dropped by the very call
  that records it, so the in-memory check does not see its emission.
\<close>
lemma emitted_epoch_dropped_at_once:
  assumes "50 \<le> length (es_emitted_epochs s)"
    and "\<forall>e \<in> set (es_emitted_epochs s). epoch_key step ''loop.done'' epoch < e"
  shows "epoch_key step ''loop.done'' epoch
           \<notin> set (es_emitted_epochs (add_emitted_loop_epoch step ''loop.done'' epoch s))"
proof -
  let ?k = "epoch_key step ''loop.done'' epoch" and ?es = "es_emitted_epochs s"
  have n: "?k \<notin> set ?es" using assms(2) by auto
  have "?k # sort ?es = sort (?es @ [?k])"
    using assms(2) by (intro properties_for_sort [symmetric]) (auto intro: less_imp_le)
  then have "?k \<in> set (take (Suc (length ?es) - 50) (sort (?es @ [?k])))"
    using assms(1) by (metis Suc_diff_le list.set_intros(1) take_Suc_Cons)
  then show ?thesis
    using n assms(1)
    by (simp add: add_emitted_loop_epoch_def Let_def prune_stale_state_def prune_epochs_def max_epochs_def)
qed

definition sample_epochs :: "string list" where
  "sample_epochs = map (\<lambda>i. ''z'' @ show_nat i) [0..<50]"

lemma emitted_epoch_dropped_at_once_witness:
  "''b:loop.done:9'' \<notin> set (es_emitted_epochs
      (add_emitted_loop_epoch ''b'' ''loop.done'' ''9'' (sample_state\<lparr>es_emitted_epochs := sample_epochs\<rparr>)))"
  using emitted_epoch_dropped_at_once [of "sample_state\<lparr>es_emitted_epochs := sample_epochs\<rparr>" "''b''" "''9''"]
  by (simp add: sample_epochs_def epoch_key_def)

end
