(* ===== verification/Kv_Store.thy ===== *)
theory Kv_Store
  imports PyText
begin

text \<open>
  The NATS key-value bucket behind \<^verbatim>\<open>noetl/core/cache/nats_kv.py\<close> and the programs that run on it.
  The bucket is a library: its documented behaviour is that \<open>get\<close> raises \<open>KeyNotFoundError\<close> for a
  missing key, \<open>put\<close> overwrites unconditionally, \<open>update(last=rn)\<close> writes only when the key is
  still at revision \<open>rn\<close> ("wrong last sequence" otherwise), and every write gets a fresh revision.
  A client call is a program whose only actions are these requests, so that the calls of several
  servers interleave request by request. The locale \<open>cas_bucket\<close> states what read-modify-write
  clients rely on; a program that writes by compare-and-swap only (\<open>waiting\<close>) takes effect
  atomically, whatever the schedule.
\<close>

section \<open>The bucket\<close>

record kv_store =
  kv_entries :: "(string \<times> pyval \<times> nat) list"
  kv_seq :: nat

definition kv_get :: "kv_store \<Rightarrow> string \<Rightarrow> (pyval \<times> nat) option" where
  "kv_get s k = map_of (kv_entries s) k"

definition kv_put :: "string \<Rightarrow> pyval \<Rightarrow> kv_store \<Rightarrow> kv_store" where
  "kv_put k v s = \<lparr>kv_entries = AList.update k (v, Suc (kv_seq s)) (kv_entries s), kv_seq = Suc (kv_seq s)\<rparr>"

definition kv_update :: "string \<Rightarrow> pyval \<Rightarrow> nat \<Rightarrow> kv_store \<Rightarrow> bool \<times> kv_store" where
  "kv_update k v rn s =
     (case kv_get s k of
        Some (_, r) \<Rightarrow> if r = rn then (True, kv_put k v s) else (False, s)
      | None \<Rightarrow> (False, s))"

definition kv_delete :: "string \<Rightarrow> kv_store \<Rightarrow> kv_store" where
  "kv_delete k s = s\<lparr>kv_entries := AList.delete k (kv_entries s), kv_seq := Suc (kv_seq s)\<rparr>"

text \<open>Revisions are handed out in order: none exceeds the sequence number of the bucket.\<close>

definition kv_ok :: "kv_store \<Rightarrow> bool" where
  "kv_ok s \<longleftrightarrow> (\<forall>k v r. kv_get s k = Some (v, r) \<longrightarrow> r \<le> kv_seq s)"

section \<open>What compare-and-swap clients rely on\<close>

locale cas_bucket =
  fixes get :: "'s \<Rightarrow> 'k \<Rightarrow> ('v \<times> nat) option"
    and cas :: "'k \<Rightarrow> 'v \<Rightarrow> nat \<Rightarrow> 's \<Rightarrow> bool \<times> 's"
    and valid :: "'s \<Rightarrow> bool"
    and last_rev :: "'s \<Rightarrow> nat"
  assumes cas_success: "cas k v rn s = (True, s') \<Longrightarrow>
      (\<exists>old. get s k = Some (old, rn)) \<and> (\<exists>r. get s' k = Some (v, r) \<and> last_rev s < r)"
    and cas_other: "cas k v rn s = (ok, s') \<Longrightarrow> k' \<noteq> k \<Longrightarrow> get s' k' = get s k'"
    and cas_failure: "cas k v rn s = (False, s') \<Longrightarrow> s' = s"
    and cas_valid: "valid s \<Longrightarrow> cas k v rn s = (ok, s') \<Longrightarrow> valid s'"
    and rev_bound: "valid s \<Longrightarrow> get s k = Some (v, r) \<Longrightarrow> r \<le> last_rev s"
begin

text \<open>
  \<open>knows s k v rn\<close>: the value a client read at revision \<open>rn\<close> is still the value of the key as
  long as the key is at that revision.
\<close>

definition knows :: "'s \<Rightarrow> 'k \<Rightarrow> 'v \<Rightarrow> nat \<Rightarrow> bool" where
  "knows s k v rn \<longleftrightarrow> rn \<le> last_rev s \<and> (\<forall>v'. get s k = Some (v', rn) \<longrightarrow> v' = v)"

lemma knows_read: "valid s \<Longrightarrow> get s k = Some (v, rn) \<Longrightarrow> knows s k v rn"
  by (auto simp: knows_def dest: rev_bound)

lemma knows_after_cas:
  assumes "knows s k v rn" and "valid s" and "cas k' w r s = (ok, s')" and "last_rev s \<le> last_rev s'"
  shows "knows s' k v rn"
proof (cases ok)
  case False
  then show ?thesis using assms cas_failure by metis
next
  case True
  then show ?thesis
  proof (cases "k = k'")
    case True
    obtain r' where "get s' k = Some (w, r')" "last_rev s < r'"
      using cas_success [of k' w r s s'] assms(3) \<open>ok\<close> True by auto
    then show ?thesis using assms(1,4) by (auto simp: knows_def)
  next
    case False
    then show ?thesis using assms(1,3,4) cas_other [of k' w r s ok s' k] by (auto simp: knows_def)
  qed
qed

text \<open>A successful swap is atomic: the value it replaces is the value its client read.\<close>

lemma cas_atomic:
  assumes "knows s k v rn" and "cas k w rn s = (True, s')"
  shows "(\<exists>r. get s k = Some (v, r)) \<and> (\<exists>r. get s' k = Some (w, r))"
  using assms cas_success [of k w rn s s'] by (auto simp: knows_def)

end

interpretation nats: cas_bucket kv_get kv_update kv_ok kv_seq
proof
  fix s s' :: kv_store and k k' :: string and v old :: pyval and rn r :: nat and ok
  show "kv_update k v rn s = (True, s') \<Longrightarrow>
      (\<exists>old. kv_get s k = Some (old, rn)) \<and> (\<exists>r. kv_get s' k = Some (v, r) \<and> kv_seq s < r)"
    by (auto simp: kv_update_def kv_put_def kv_get_def split: option.splits if_splits)
  show "kv_update k v rn s = (ok, s') \<Longrightarrow> k' \<noteq> k \<Longrightarrow> kv_get s' k' = kv_get s k'"
    by (auto simp: kv_update_def kv_put_def kv_get_def split: option.splits if_splits)
  show "kv_update k v rn s = (False, s') \<Longrightarrow> s' = s"
    by (auto simp: kv_update_def split: option.splits if_splits)
  show "kv_ok s \<Longrightarrow> kv_update k v rn s = (ok, s') \<Longrightarrow> kv_ok s'"
    by (fastforce simp: kv_update_def kv_ok_def kv_put_def kv_get_def split: option.splits if_splits)
  show "kv_ok s \<Longrightarrow> kv_get s k = Some (v, r) \<Longrightarrow> r \<le> kv_seq s"
    by (auto simp: kv_ok_def)
qed

lemma kv_update_seq: "kv_update k v rn s = (ok, s') \<Longrightarrow> kv_seq s \<le> kv_seq s'"
  by (auto simp: kv_update_def kv_put_def split: option.splits if_splits)

section \<open>Programs\<close>

text \<open>
  A call in progress: it has returned, or it waits for the answer to its next request. The answer
  to \<open>update\<close> is whether it wrote. A call may raise; the only one that lets an exception out is
  \<open>add_loop_result\<close>.
\<close>

datatype kv_prog =
    Ret pyval
  | Raise py_error
  | Get string "(pyval \<times> nat) option \<Rightarrow> kv_prog"
  | Put string pyval kv_prog
  | Update string pyval nat "bool \<Rightarrow> kv_prog"
  | Keys "string list \<Rightarrow> kv_prog"
  | Delete string kv_prog

fun prog_step :: "kv_prog \<Rightarrow> kv_store \<Rightarrow> kv_prog \<times> kv_store" where
  "prog_step (Ret r) s = (Ret r, s)"
| "prog_step (Raise e) s = (Raise e, s)"
| "prog_step (Get k f) s = (f (kv_get s k), s)"
| "prog_step (Put k v p) s = (p, kv_put k v s)"
| "prog_step (Update k v rn f) s = (case kv_update k v rn s of (ok, s') \<Rightarrow> (f ok, s'))"
| "prog_step (Keys f) s = (f (map fst (kv_entries s)), s)"
| "prog_step (Delete k p) s = (p, kv_delete k s)"

text \<open>The calls of several clients, one request at a time in the order of the schedule.\<close>

type_synonym kv_system = "kv_prog list \<times> kv_store"

definition sys_step :: "kv_system \<Rightarrow> nat \<Rightarrow> kv_system" where
  "sys_step c i =
     (case c of (ps, s) \<Rightarrow>
        if i < length ps then (case prog_step (ps ! i) s of (p, s') \<Rightarrow> (ps[i := p], s')) else c)"

definition run_schedule :: "nat list \<Rightarrow> kv_system \<Rightarrow> kv_system" where
  "run_schedule sched c = foldl sys_step c sched"

text \<open>One call alone, to its end.\<close>

primrec run_prog :: "kv_prog \<Rightarrow> kv_store \<Rightarrow> py_error + pyval \<times> kv_store" where
  "run_prog (Ret r) s = Inr (r, s)"
| "run_prog (Raise e) s = Inl e"
| "run_prog (Get k f) s = run_prog (f (kv_get s k)) s"
| "run_prog (Put k v p) s = run_prog p (kv_put k v s)"
| "run_prog (Update k v rn f) s = run_prog (f (fst (kv_update k v rn s))) (snd (kv_update k v rn s))"
| "run_prog (Keys f) s = run_prog (f (map fst (kv_entries s))) s"
| "run_prog (Delete k p) s = run_prog p (kv_delete k s)"

lemma run_schedule_snoc: "run_schedule (sched @ [i]) c = sys_step (run_schedule sched c) i"
  by (simp add: run_schedule_def)

section \<open>Calls that take effect atomically\<close>

text \<open>
  \<open>waiting key eff p\<close>: \<open>p\<close> has had no effect yet; its reads are of \<open>key\<close>, it writes \<open>key\<close> by
  compare-and-swap of what it read only, and then returns at once; nothing is said about what it
  does when the key is missing. \<open>eff v r w\<close> is the effect of such a write: it replaces \<open>v\<close> by \<open>w\<close>
  and the call returns \<open>r\<close>. Results of calls without effect satisfy \<open>quiet\<close>.
\<close>

inductive waiting :: "string \<Rightarrow> (pyval \<Rightarrow> pyval \<Rightarrow> pyval \<Rightarrow> bool) \<Rightarrow> (pyval \<Rightarrow> bool) \<Rightarrow> kv_prog \<Rightarrow> bool"
    and having_read :: "string \<Rightarrow> (pyval \<Rightarrow> pyval \<Rightarrow> pyval \<Rightarrow> bool) \<Rightarrow> (pyval \<Rightarrow> bool) \<Rightarrow> pyval \<Rightarrow> nat
        \<Rightarrow> kv_prog \<Rightarrow> bool"
  for key eff quiet where
  quiet: "quiet r \<Longrightarrow> waiting key eff quiet (Ret r)"
| read: "(\<And>v rn. having_read key eff quiet v rn (f (Some (v, rn))))
    \<Longrightarrow> waiting key eff quiet (Get key f)"
| no_write: "waiting key eff quiet p \<Longrightarrow> having_read key eff quiet v rn p"
| swap: "eff v r w \<Longrightarrow> f True = Ret r \<Longrightarrow> waiting key eff quiet (f False)
    \<Longrightarrow> having_read key eff quiet v rn (Update key w rn f)"

inductive_cases waiting_RetE: "waiting key eff quiet (Ret r)"
inductive_cases waiting_GetE: "waiting key eff quiet (Get k f)"
inductive_cases waiting_PutE [elim!]: "waiting key eff quiet (Put k v p)"
inductive_cases waiting_UpdateE [elim!]: "waiting key eff quiet (Update k v rn f)"
inductive_cases waiting_KeysE [elim!]: "waiting key eff quiet (Keys f)"
inductive_cases waiting_DeleteE [elim!]: "waiting key eff quiet (Delete k p)"
inductive_cases waiting_RaiseE [elim!]: "waiting key eff quiet (Raise e)"
inductive_cases having_read_UpdateE: "having_read key eff quiet v rn (Update k w rn' f)"

text \<open>
  The effects of a run in the order they took place: each entry is a client, what its call
  returned, and the value it left.
\<close>

fun linked :: "(nat \<Rightarrow> pyval \<Rightarrow> pyval \<Rightarrow> pyval \<Rightarrow> bool) \<Rightarrow> pyval \<Rightarrow> (nat \<times> pyval \<times> pyval) list \<Rightarrow> pyval \<Rightarrow> bool" where
  "linked eff v [] u = (u = v)"
| "linked eff v ((i, r, w) # log) u = (eff i v r w \<and> linked eff w log u)"

lemma linked_snoc: "linked eff v (log @ [(i, r, w)]) u \<longleftrightarrow> (\<exists>m. linked eff v log m \<and> eff i m r w \<and> u = w)"
  by (induction eff v log u rule: linked.induct) auto

definition client_ok ::
  "string \<Rightarrow> (pyval \<Rightarrow> pyval \<Rightarrow> pyval \<Rightarrow> bool) \<Rightarrow> (pyval \<Rightarrow> bool) \<Rightarrow> kv_store \<Rightarrow> kv_prog \<Rightarrow> bool" where
  "client_ok key eff quiet s p \<longleftrightarrow>
     waiting key eff quiet p \<or> (\<exists>v rn. having_read key eff quiet v rn p \<and> nats.knows s key v rn)"

definition system_ok ::
  "string \<Rightarrow> (nat \<Rightarrow> pyval \<Rightarrow> pyval \<Rightarrow> pyval \<Rightarrow> bool) \<Rightarrow> (nat \<Rightarrow> pyval \<Rightarrow> bool) \<Rightarrow> pyval
     \<Rightarrow> (nat \<times> pyval \<times> pyval) list \<Rightarrow> kv_system \<Rightarrow> bool" where
  "system_ok key eff quiet v0 log c \<longleftrightarrow>
     (case c of (ps, s) \<Rightarrow>
        kv_ok s \<and> distinct (map fst log) \<and>
        (\<exists>v r. kv_get s key = Some (v, r) \<and> linked eff v0 log v) \<and>
        (\<forall>i < length ps.
           (i \<in> fst ` set log \<longrightarrow> (\<exists>r w. (i, r, w) \<in> set log \<and> ps ! i = Ret r)) \<and>
           (i \<notin> fst ` set log \<longrightarrow> client_ok key (eff i) (quiet i) s (ps ! i))))"

lemma system_okD:
  assumes "system_ok key eff quiet v0 log (ps, s)" and "i < length ps"
  shows "i \<in> fst ` set log \<Longrightarrow> \<exists>r w. (i, r, w) \<in> set log \<and> ps ! i = Ret r"
    and "i \<notin> fst ` set log \<Longrightarrow> client_ok key (eff i) (quiet i) s (ps ! i)"
  using assms unfolding system_ok_def by blast+

text \<open>What one request of an unfinished client does.\<close>

lemma client_step:
  assumes "client_ok key eff quiet s p" and "kv_ok s" and "prog_step p s = (p', s')"
    and "\<exists>x. kv_get s key = Some x"
  shows "(s' = s \<and> client_ok key eff quiet s p')
    \<or> (\<exists>r v rn w. p' = Ret r \<and> kv_get s key = Some (v, rn) \<and> eff v r w
         \<and> kv_update key w rn s = (True, s'))"
proof -
  have w: "s' = s \<and> client_ok key eff quiet s p'" if "waiting key eff quiet p"
    using that
  proof cases
    case (quiet r)
    then show ?thesis using assms(3) that by (simp add: client_ok_def)
  next
    case (read f)
    then have p': "p' = f (kv_get s key)" "s' = s" using assms(3) by auto
    show ?thesis
    proof (cases "kv_get s key")
      case None
      then show ?thesis using assms(4) by simp
    next
      case (Some x)
      obtain v rn where x: "x = (v, rn)" by force
      then have "nats.knows s key v rn" using Some assms(2) nats.knows_read by simp
      then show ?thesis using p' read(2) Some x by (auto simp: client_ok_def)
    qed
  qed
  have h: ?thesis if "having_read key eff quiet v rn p" and k: "nats.knows s key v rn" for v rn
    using that(1)
  proof cases
    case no_write
    then show ?thesis using w by blast
  next
    case (swap r w f)
    obtain ok where u: "kv_update key w rn s = (ok, s')" and p': "p' = f ok"
      using assms(3) swap(1) by (auto split: prod.splits)
    show ?thesis
    proof (cases ok)
      case True
      then show ?thesis
        using u p' swap nats.cas_success [of key w rn s s'] k by (auto simp: nats.knows_def)
    next
      case False
      then show ?thesis using u p' swap nats.cas_failure [of key w rn s s']
        by (auto simp: client_ok_def)
    qed
  qed
  show ?thesis using assms(1) w h unfolding client_ok_def by blast
qed

lemma client_ok_after:
  "client_ok key eff quiet s p \<Longrightarrow> kv_ok s \<Longrightarrow> kv_update k w rn s = (ok, s') \<Longrightarrow> client_ok key eff quiet s' p"
  unfolding client_ok_def using nats.knows_after_cas kv_update_seq by blast

lemma system_step:
  assumes ok: "system_ok key eff quiet v0 log (ps, s)"
  shows "\<exists>log'. system_ok key eff quiet v0 log' (sys_step (ps, s) i)"
proof (cases "i < length ps")
  case False
  then show ?thesis using ok by (auto simp: sys_step_def)
next
  case True
  obtain p' s' where st: "prog_step (ps ! i) s = (p', s')" by force
  then have c: "sys_step (ps, s) i = (ps[i := p'], s')" using True by (simp add: sys_step_def)
  show ?thesis
  proof (cases "i \<in> fst ` set log")
    case True
    then obtain r where "ps ! i = Ret r" using system_okD(1) [OF ok \<open>i < length ps\<close>] by blast
    then have "p' = ps ! i" "s' = s" using st by auto
    then show ?thesis using ok c by auto
  next
    case False
    then have cl: "client_ok key (eff i) (quiet i) s (ps ! i)" and kv: "kv_ok s"
      using ok system_okD(2) [OF ok \<open>i < length ps\<close>] by (auto simp: system_ok_def)
    consider (silent) "s' = s" "client_ok key (eff i) (quiet i) s p'"
      | (effect) r v rn w where "p' = Ret r" "kv_get s key = Some (v, rn)" "eff i v r w"
          "kv_update key w rn s = (True, s')"
      using client_step [OF cl kv st] ok by (auto simp: system_ok_def)
    then show ?thesis
    proof cases
      case silent
      then have "system_ok key eff quiet v0 log (ps[i := p'], s')"
        using ok False unfolding system_ok_def prod.case length_list_update
        by (metis nth_list_update_eq nth_list_update_neq)
      then show ?thesis using c by auto
    next
      case effect
      have "system_ok key eff quiet v0 (log @ [(i, r, w)]) (ps[i := p'], s')"
        unfolding system_ok_def prod.case
      proof (intro conjI allI impI)
        show "kv_ok s'" using kv effect(4) nats.cas_valid by blast
        show "distinct (map fst (log @ [(i, r, w)]))" using ok False by (auto simp: system_ok_def)
        show "\<exists>v r'. kv_get s' key = Some (v, r') \<and> linked eff v0 (log @ [(i, r, w)]) v"
          using ok effect nats.cas_success [OF effect(4)] by (fastforce simp: system_ok_def linked_snoc)
        fix j assume j: "j < length (ps[i := p'])"
        {
          assume "j \<in> fst ` set (log @ [(i, r, w)])"
          then show "\<exists>r' w'. (j, r', w') \<in> set (log @ [(i, r, w)]) \<and> ps[i := p'] ! j = Ret r'"
            using system_okD(1) [OF ok, of j] j effect(1) \<open>i < length ps\<close> by (cases "j = i") auto
        next
          assume n: "j \<notin> fst ` set (log @ [(i, r, w)])"
          then show "client_ok key (eff j) (quiet j) s' (ps[i := p'] ! j)"
            using system_okD(2) [OF ok, of j] j client_ok_after [OF _ kv effect(4)] by auto
        }
      qed
      then show ?thesis using c by auto
    qed
  qed
qed

text \<open>
  Every schedule of calls that take effect atomically is explained by an order of their effects:
  each call that returned either took effect once, with the result it returned, or did nothing.
\<close>

lemma schedule_linearizes:
  assumes "kv_ok s" and "kv_get s key = Some (v0, r0)"
    and "\<And>i. i < length ps \<Longrightarrow> waiting key (eff i) (quiet i) (ps ! i)"
  shows "\<exists>log. system_ok key eff quiet v0 log (run_schedule sched (ps, s))"
proof (induction sched rule: rev_induct)
  case Nil
  have "system_ok key eff quiet v0 [] (ps, s)"
    using assms by (auto simp: system_ok_def client_ok_def)
  then show ?case by (auto simp: run_schedule_def)
next
  case (snoc i sched)
  then show ?case
    unfolding run_schedule_snoc by (metis surj_pair system_step)
qed

lemma run_length: "length (fst (run_schedule sched (ps, s))) = length ps"
proof (induction sched rule: rev_induct)
  case (snoc i sched)
  then show ?case
    by (auto simp: run_schedule_snoc sys_step_def split: prod.splits)
qed (simp add: run_schedule_def)

lemma system_results:
  assumes "system_ok key eff quiet v0 log (ps, s)" and "i < length ps" and "ps ! i = Ret r"
  shows "(\<exists>w. (i, r, w) \<in> set log) \<or> quiet i r"
proof (cases "i \<in> fst ` set log")
  case True
  then show ?thesis using system_okD(1) [OF assms(1,2)] assms(3) by auto
next
  case False
  then have "client_ok key (eff i) (quiet i) s (Ret r)"
    using system_okD(2) [OF assms(1,2)] assms(3) by auto
  then show ?thesis
    by (auto simp: client_ok_def elim: waiting_RetE having_read.cases)
qed

end
