(* ===== verification/Loop_Cache.thy ===== *)
theory Loop_Cache
  imports Kv_Store Engine_Common
begin

text \<open>
  The distributed loop and command counters of \<^verbatim>\<open>noetl/core/cache/nats_kv.py\<close>: every method of
  \<open>NATSKVCache\<close> that reads or writes the bucket, as a program on it. The retry loops are recursions
  on the attempts that are left; \<open>clock\<close> gives the time stamp taken at an attempt. Connecting,
  logging and back-off sleeps are left out, and a write of an oversized value, which the bucket
  refuses, does not occur.
\<close>

section \<open>Keys\<close>

definition key_char :: "char \<Rightarrow> bool" where
  "key_char c = (is_digit c \<or> c \<in> {CHR ''-'', CHR ''/'', CHR ''_'', CHR ''='', CHR ''.''} \<or>
     (let n = of_char c :: nat in (65 \<le> n \<and> n \<le> 90) \<or> (97 \<le> n \<and> n \<le> 122)))"

definition safe_key_part :: "string \<Rightarrow> string" where
  "safe_key_part s =
     (let t = map (\<lambda>c. if key_char c then c else CHR ''_'')
                (map (\<lambda>c. if c = CHR '':'' then CHR ''.'' else c) s);
          u = dropWhile (\<lambda>c. c = CHR ''.'') t in
      rev (dropWhile (\<lambda>c. c = CHR ''.'') (rev u)))"

definition make_key :: "string \<Rightarrow> string \<Rightarrow> string" where
  "make_key execution_id key_type =
     ''exec.'' @ safe_key_part execution_id @ ''.'' @ safe_key_part key_type"

definition with_event :: "string \<Rightarrow> string option \<Rightarrow> string" where
  "with_event s event_id =
     (case event_id of None \<Rightarrow> s | Some e \<Rightarrow> if e \<noteq> [] then s @ '':'' @ e else s)"

definition loop_key :: "string \<Rightarrow> string \<Rightarrow> string option \<Rightarrow> string" where
  "loop_key execution_id step_name event_id =
     make_key execution_id (with_event (''loop:'' @ step_name) event_id)"

definition loop_item_key :: "string \<Rightarrow> string \<Rightarrow> string option \<Rightarrow> int \<Rightarrow> string" where
  "loop_item_key execution_id step_name event_id i =
     make_key execution_id (with_event (''loop-item:'' @ step_name) event_id @ '':'' @ show_int i)"

definition loop_item_prefix :: "string \<Rightarrow> string \<Rightarrow> string option \<Rightarrow> string" where
  "loop_item_prefix execution_id step_name event_id =
     make_key execution_id (with_event (''loop-item:'' @ step_name) event_id @ '':'')"

definition loop_collection_key :: "string \<Rightarrow> string \<Rightarrow> string \<Rightarrow> string" where
  "loop_collection_key execution_id step_name loop_event_id =
     make_key execution_id (''loop_coll:'' @ step_name @ '':'' @ loop_event_id)"

definition command_key :: "string \<Rightarrow> string \<Rightarrow> string" where
  "command_key execution_id command_id = make_key execution_id (''command:'' @ command_id)"

definition execution_key :: "string \<Rightarrow> string" where
  "execution_key execution_id = make_key execution_id ''execution''"

section \<open>Reading counters\<close>

text \<open>\<open>int(state.get(k, 0) or 0)\<close>, and the pair of loop counters with the scheduled one raised to
  the completed one.\<close>

definition count_or_zero :: "pydict \<Rightarrow> string \<Rightarrow> int res" where
  "count_or_zero st k = int_or_zero (py_get_default st k (VInt 0))"

definition count_or :: "pydict \<Rightarrow> string \<Rightarrow> int \<Rightarrow> int res" where
  "count_or st k n = py_int (py_or (py_get_default st k (VInt n)) (VInt n))"

definition read_counts :: "pydict \<Rightarrow> (int \<times> int) res" where
  "read_counts st =
     rbind (count_or_zero st ''completed_count'') (\<lambda>c.
     rbind (count_or st ''scheduled_count'' c) (\<lambda>s.
       Inr (c, if s < c then c else s)))"

text \<open>An exception in the body of an attempt ends the call with \<open>fail\<close>.\<close>

definition guard :: "kv_prog \<Rightarrow> 'a res \<Rightarrow> ('a \<Rightarrow> kv_prog) \<Rightarrow> kv_prog" where
  "guard fail m k = (case m of Inl _ \<Rightarrow> fail | Inr x \<Rightarrow> k x)"

definition guard_dict :: "kv_prog \<Rightarrow> pyval \<Rightarrow> (pydict \<Rightarrow> kv_prog) \<Rightarrow> kv_prog" where
  "guard_dict fail v k = (case v of VDict d \<Rightarrow> k d | _ \<Rightarrow> fail)"

definition set_keys :: "pydict \<Rightarrow> pydict \<Rightarrow> pydict" where
  "set_keys updates d = dict_merge d updates"

section \<open>Collections and loop state\<close>

definition save_loop_collection :: "string \<Rightarrow> string \<Rightarrow> string \<Rightarrow> pyval list \<Rightarrow> kv_prog" where
  "save_loop_collection e step ev collection =
     Put (loop_collection_key e step ev) (VList collection) (Ret VNone)"

definition get_loop_collection :: "string \<Rightarrow> string \<Rightarrow> string \<Rightarrow> kv_prog" where
  "get_loop_collection e step ev =
     Get (loop_collection_key e step ev) (\<lambda>x. Ret (case x of None \<Rightarrow> VNone | Some (v, _) \<Rightarrow> v))"

definition get_loop_state :: "string \<Rightarrow> string \<Rightarrow> string option \<Rightarrow> kv_prog" where
  "get_loop_state e step ev =
     Get (loop_key e step ev) (\<lambda>x. Ret (case x of None \<Rightarrow> VNone | Some (v, _) \<Rightarrow> v))"

definition get_loop_completed :: "string \<Rightarrow> string \<Rightarrow> string option \<Rightarrow> kv_prog" where
  "get_loop_completed e step ev =
     Get (loop_key e step ev) (\<lambda>x. Ret (case x of
        Some (VDict st, _) \<Rightarrow> if st \<noteq> [] then py_get_default st ''completed_count'' (VInt 0) else VInt 0
      | _ \<Rightarrow> VInt 0))"

text \<open>\<open>add_loop_result\<close>: a missing key raises in \<open>get\<close>, like every other exception, until the
  attempts are used up.\<close>

fun add_result_loop :: "(nat \<Rightarrow> string) \<Rightarrow> string \<Rightarrow> pyval \<Rightarrow> bool \<Rightarrow> nat \<Rightarrow> kv_prog" where
  "add_result_loop clock key result failed 0 = Ret VNone"
| "add_result_loop clock key result failed (Suc t) =
     (let again = (\<lambda>e. if t = 0 then Raise e else add_result_loop clock key result failed t) in
      Get key (\<lambda>x. case x of
          None \<Rightarrow> again (KeyError ''nats: key not found'')
        | Some (VDict st, rn) \<Rightarrow>
            (case py_get_default st ''results'' (VList []) of
               VList rs \<Rightarrow>
                 (case (if failed
                        then rbind (py_int (py_get_default st ''failed_count'' (VInt 0)))
                               (\<lambda>f. Inr [(''failed_count'', VInt (f + 1))])
                        else Inr []) of
                    Inl e \<Rightarrow> again e
                  | Inr up \<Rightarrow>
                      Update key (VDict (set_keys ((''results'', VList (rs @ [result])) # up
                          @ [(''updated_at'', VStr (clock t))]) st)) rn
                        (\<lambda>ok. if ok then Ret VNone else again (RuntimeError ''wrong last sequence'')))
             | _ \<Rightarrow> again (TypeError ''results is not a list''))
        | Some _ \<Rightarrow> again (TypeError ''state is not an object'')))"

definition cache_add_loop_result ::
  "(nat \<Rightarrow> string) \<Rightarrow> string \<Rightarrow> string \<Rightarrow> string \<Rightarrow> pyval \<Rightarrow> bool \<Rightarrow> kv_prog" where
  "cache_add_loop_result clock e step ev result failed =
     add_result_loop clock (loop_key e step (Some ev)) result failed 10"

text \<open>\<open>set_loop_state\<close>: the payload merged from the stored and the incoming state.\<close>

definition merged_loop_state :: "string \<Rightarrow> pydict \<Rightarrow> pydict \<Rightarrow> pydict res" where
  "merged_loop_state now existing incoming0 =
     (let incoming = filter (\<lambda>(k, v). k \<noteq> ''results'') incoming0 in
      rbind (read_counts incoming) (\<lambda>(ic, is).
      rbind (read_counts existing) (\<lambda>(xc, xs).
      rbind (count_or_zero incoming ''collection_size'') (\<lambda>isz.
      rbind (count_or_zero existing ''collection_size'') (\<lambda>xsz.
      (let sz = max isz xsz;
           completed0 = max xc ic; scheduled0 = max (max xs is) completed0;
           completed = (if 0 < sz \<and> sz < completed0 then sz else completed0);
           scheduled1 = (if 0 < sz \<and> sz < scheduled0 then sz else scheduled0);
           scheduled = (if 0 < sz \<and> scheduled1 < completed then completed else scheduled1);
           base = dict_merge existing incoming;
           p1 = set_keys [(''completed_count'', VInt completed), (''scheduled_count'', VInt scheduled),
                  (''collection_size'', VInt sz)] base;
           p2 = (if truthy (py_get existing ''loop_done_claimed'')
                 then dict_setdefault ''loop_done_claimed_at'' (py_get existing ''loop_done_claimed_at'')
                        (AList.update ''loop_done_claimed'' (VBool True) p1)
                 else p1) in
       Inr (AList.update ''updated_at'' (VStr now) p2)))))))"

fun set_loop_state_loop :: "(nat \<Rightarrow> string) \<Rightarrow> string \<Rightarrow> pydict \<Rightarrow> nat \<Rightarrow> kv_prog" where
  "set_loop_state_loop clock key state 0 = Ret (VBool False)"
| "set_loop_state_loop clock key state (Suc t) =
     Get key (\<lambda>x. case x of
         None \<Rightarrow> guard (Ret (VBool False)) (merged_loop_state (clock t) [] state)
                   (\<lambda>p. Put key (VDict p) (Ret (VBool True)))
       | Some (v, rn) \<Rightarrow>
           guard_dict (Ret (VBool False)) v (\<lambda>existing.
           guard (Ret (VBool False)) (merged_loop_state (clock t) existing state) (\<lambda>p.
             Update key (VDict p) rn
               (\<lambda>ok. if ok then Ret (VBool True) else set_loop_state_loop clock key state t))))"

definition set_loop_state :: "(nat \<Rightarrow> string) \<Rightarrow> string \<Rightarrow> string \<Rightarrow> pydict \<Rightarrow> string option \<Rightarrow> kv_prog" where
  "set_loop_state clock e step state ev = set_loop_state_loop clock (loop_key e step ev) state 10"

section \<open>Loop counters\<close>

text \<open>\<open>increment_loop_completed\<close>: the new count, or -1.\<close>

definition incremented :: "string \<Rightarrow> pydict \<Rightarrow> (int \<times> pydict) res" where
  "incremented now st =
     rbind (py_num (py_get_default st ''completed_count'' (VInt 0))) (\<lambda>current.
     rbind (count_or st ''scheduled_count'' (current + 1)) (\<lambda>scheduled.
       Inr (current + 1,
         set_keys [(''completed_count'', VInt (current + 1)),
           (''scheduled_count'', VInt (if scheduled < current + 1 then current + 1 else scheduled)),
           (''last_completed_at'', VStr now), (''last_progress_at'', VStr now),
           (''updated_at'', VStr now)] st)))"

fun increment_loop :: "(nat \<Rightarrow> string) \<Rightarrow> string \<Rightarrow> nat \<Rightarrow> kv_prog" where
  "increment_loop clock key 0 = Ret (VInt (-1))"
| "increment_loop clock key (Suc t) =
     Get key (\<lambda>x. case x of
         None \<Rightarrow> Ret (VInt (-1))
       | Some (v, rn) \<Rightarrow>
           guard_dict (Ret (VInt (-1))) v (\<lambda>st.
           guard (Ret (VInt (-1))) (incremented (clock t) st) (\<lambda>(n, st').
             Update key (VDict st') rn (\<lambda>ok. if ok then Ret (VInt n) else increment_loop clock key t))))"

definition increment_loop_completed :: "(nat \<Rightarrow> string) \<Rightarrow> string \<Rightarrow> string \<Rightarrow> string option \<Rightarrow> kv_prog" where
  "increment_loop_completed clock e step ev = increment_loop clock (loop_key e step ev) 50"

fun claim_done_loop :: "(nat \<Rightarrow> string) \<Rightarrow> string \<Rightarrow> nat \<Rightarrow> kv_prog" where
  "claim_done_loop clock key 0 = Ret (VBool False)"
| "claim_done_loop clock key (Suc t) =
     Get key (\<lambda>x. case x of
         None \<Rightarrow> Ret (VBool False)
       | Some (v, rn) \<Rightarrow>
           guard_dict (Ret (VBool False)) v (\<lambda>st.
             if truthy (py_get st ''loop_done_claimed'') then Ret (VBool False)
             else Update key
               (VDict (set_keys [(''loop_done_claimed'', VBool True),
                  (''loop_done_claimed_at'', VStr (clock t)), (''updated_at'', VStr (clock t))] st)) rn
               (\<lambda>ok. if ok then Ret (VBool True) else claim_done_loop clock key t)))"

definition try_claim_loop_done :: "(nat \<Rightarrow> string) \<Rightarrow> string \<Rightarrow> string \<Rightarrow> string option \<Rightarrow> kv_prog" where
  "try_claim_loop_done clock e step ev = claim_done_loop clock (loop_key e step ev) 10"

text \<open>The first write of a claim on a key that does not exist.\<close>

definition initial_loop_state :: "string \<Rightarrow> int \<Rightarrow> pydict" where
  "initial_loop_state now n =
     [(''completed_count'', VInt 0), (''scheduled_count'', VInt 0), (''collection_size'', VInt n),
      (''updated_at'', VStr now)]"

text \<open>
  \<open>claim_next_loop_index\<close>: \<open>n\<close> is the collection size as known so far (it is taken from the state
  when the caller gives none, and kept over the attempts), \<open>m\<close> the bound on items in flight.
\<close>

definition known_size :: "int \<Rightarrow> int \<Rightarrow> int" where
  "known_size n stored = (if n \<le> 0 \<and> 0 < stored then stored else n)"

definition claim_index_body ::
  "string \<Rightarrow> string \<Rightarrow> int \<Rightarrow> int \<Rightarrow> (int \<Rightarrow> kv_prog) \<Rightarrow> pyval \<Rightarrow> nat \<Rightarrow> kv_prog" where
  "claim_index_body now key m n retry v rn =
     guard_dict (Ret VNone) v (\<lambda>st.
     guard (Ret VNone) (read_counts st) (\<lambda>(completed, scheduled).
     guard (Ret VNone) (count_or_zero st ''collection_size'') (\<lambda>stored.
     (let sz = known_size n stored;
          st1 = set_keys [(''completed_count'', VInt completed), (''scheduled_count'', VInt scheduled)] st in
      if sz \<le> 0 then
        Update key (VDict (set_keys [(''collection_size'', VInt 0), (''updated_at'', VStr now)] st1)) rn
          (\<lambda>ok. if ok then Ret VNone else retry sz)
      else if sz \<le> scheduled then Ret VNone
      else if m \<le> max 0 (scheduled - completed) then Ret VNone
      else
        Update key (VDict (set_keys [(''collection_size'', VInt sz),
            (''scheduled_count'', VInt (scheduled + 1)), (''last_claimed_at'', VStr now),
            (''last_progress_at'', VStr now), (''updated_at'', VStr now)] st1)) rn
          (\<lambda>ok. if ok then Ret (VInt scheduled) else retry sz)))))"

fun claim_index_loop :: "(nat \<Rightarrow> string) \<Rightarrow> string \<Rightarrow> int \<Rightarrow> nat \<Rightarrow> int \<Rightarrow> kv_prog" where
  "claim_index_loop clock key m 0 n = Ret VNone"
| "claim_index_loop clock key m (Suc t) n =
     (let body = claim_index_body (clock t) key m n (\<lambda>n'. claim_index_loop clock key m t n') in
      Get key (\<lambda>x. case x of
          Some (v, rn) \<Rightarrow> body v rn
        | None \<Rightarrow>
            Put key (VDict (initial_loop_state (clock t) n))
              (Get key (\<lambda>y. case y of None \<Rightarrow> Ret VNone | Some (v, rn) \<Rightarrow> body v rn))))"

definition claim_next_loop_index ::
  "(nat \<Rightarrow> string) \<Rightarrow> string \<Rightarrow> string \<Rightarrow> int \<Rightarrow> int \<Rightarrow> string option \<Rightarrow> kv_prog" where
  "claim_next_loop_index clock e step n m ev =
     claim_index_loop clock (loop_key e step ev) (max 1 (if m = 0 then 1 else m)) 5 (max 0 n)"

text \<open>\<open>claim_next_loop_indices\<close>: up to \<open>q\<close> indexes at once.\<close>

definition claim_indices_body ::
  "string \<Rightarrow> string \<Rightarrow> int \<Rightarrow> int \<Rightarrow> int \<Rightarrow> (int \<Rightarrow> kv_prog) \<Rightarrow> pyval \<Rightarrow> nat \<Rightarrow> kv_prog" where
  "claim_indices_body now key m q n retry v rn =
     guard_dict (Ret (VList [])) v (\<lambda>st.
     guard (Ret (VList [])) (read_counts st) (\<lambda>(completed, scheduled).
     guard (Ret (VList [])) (count_or_zero st ''collection_size'') (\<lambda>stored.
     (let sz = known_size n stored; available = m - max 0 (scheduled - completed);
          count = min q (min available (sz - scheduled)) in
      if sz \<le> 0 \<or> sz \<le> scheduled \<or> available \<le> 0 \<or> count \<le> 0 then Ret (VList [])
      else
        Update key (VDict (set_keys [(''collection_size'', VInt sz), (''completed_count'', VInt completed),
            (''scheduled_count'', VInt (scheduled + count)), (''last_claimed_at'', VStr now),
            (''last_progress_at'', VStr now), (''updated_at'', VStr now)] st)) rn
          (\<lambda>ok. if ok then Ret (VList (map VInt [scheduled..scheduled + count - 1])) else retry sz)))))"

fun claim_indices_loop :: "(nat \<Rightarrow> string) \<Rightarrow> string \<Rightarrow> int \<Rightarrow> int \<Rightarrow> nat \<Rightarrow> int \<Rightarrow> kv_prog" where
  "claim_indices_loop clock key m q 0 n = Ret (VList [])"
| "claim_indices_loop clock key m q (Suc t) n =
     (let body = claim_indices_body (clock t) key m q n (\<lambda>n'. claim_indices_loop clock key m q t n') in
      Get key (\<lambda>x. case x of
          Some (v, rn) \<Rightarrow> body v rn
        | None \<Rightarrow>
            Put key (VDict (initial_loop_state (clock t) n))
              (Get key (\<lambda>y. case y of None \<Rightarrow> Ret (VList []) | Some (v, rn) \<Rightarrow> body v rn))))"

definition claim_next_loop_indices ::
  "(nat \<Rightarrow> string) \<Rightarrow> string \<Rightarrow> string \<Rightarrow> int \<Rightarrow> int \<Rightarrow> int \<Rightarrow> string option \<Rightarrow> kv_prog" where
  "claim_next_loop_indices clock e step n m q ev =
     claim_indices_loop clock (loop_key e step ev) (max 1 (if m = 0 then 1 else m)) (max 1 q) 20 (max 0 n)"

fun release_loop :: "(nat \<Rightarrow> string) \<Rightarrow> string \<Rightarrow> nat \<Rightarrow> kv_prog" where
  "release_loop clock key 0 = Ret (VBool False)"
| "release_loop clock key (Suc t) =
     Get key (\<lambda>x. case x of
         None \<Rightarrow> Ret (VBool False)
       | Some (v, rn) \<Rightarrow>
           guard_dict (Ret (VBool False)) v (\<lambda>st.
           guard (Ret (VBool False)) (count_or_zero st ''scheduled_count'') (\<lambda>scheduled.
           guard (Ret (VBool False)) (count_or_zero st ''completed_count'') (\<lambda>completed.
             if scheduled \<le> completed then Ret (VBool False)
             else Update key (VDict (set_keys [(''scheduled_count'', VInt (scheduled - 1)),
                 (''updated_at'', VStr (clock t))] st)) rn
               (\<lambda>ok. if ok then Ret (VBool True) else release_loop clock key t)))))"

definition release_loop_slot :: "(nat \<Rightarrow> string) \<Rightarrow> string \<Rightarrow> string \<Rightarrow> string option \<Rightarrow> kv_prog" where
  "release_loop_slot clock e step ev = release_loop clock (loop_key e step ev) 5"

section \<open>Loop items\<close>

definition terminal_statuses :: "string list" where
  "terminal_statuses = [''COMPLETED'', ''FAILED'', ''CANCELLED'']"

text \<open>\<open>str(d.get("status") or "").upper()\<close>, and \<open>str(s or "").upper() or "COMPLETED"\<close>.\<close>

definition status_in :: "pydict \<Rightarrow> string" where
  "status_in d = upper (py_str (py_or (py_get d ''status'') (VStr '''')))"

definition terminal_status :: "string \<Rightarrow> string" where
  "terminal_status s = (if upper s = [] then ''COMPLETED'' else upper s)"

definition is_terminal :: "pydict \<Rightarrow> bool" where
  "is_terminal d = (status_in d \<in> set terminal_statuses)"

definition event_field :: "string option \<Rightarrow> pydict" where
  "event_field ev = (case ev of None \<Rightarrow> [] | Some e \<Rightarrow> [(''loop_event_id'', VStr e)])"

definition get_loop_iteration_state :: "string \<Rightarrow> string \<Rightarrow> int \<Rightarrow> string option \<Rightarrow> kv_prog" where
  "get_loop_iteration_state e step i ev =
     Get (loop_item_key e step ev i) (\<lambda>x. Ret (case x of None \<Rightarrow> VNone | Some (v, _) \<Rightarrow> v))"

definition kept_terminal_fields :: "pydict \<Rightarrow> pydict \<Rightarrow> pydict" where
  "kept_terminal_fields existing state =
     map (\<lambda>k. (k, py_get existing k))
       (filter (\<lambda>k. has_key existing k \<and> \<not> has_key state k)
         [''terminal_at'', ''terminal_event_name'', ''terminal_event_id''])"

definition merged_iteration_state ::
  "string \<Rightarrow> string \<Rightarrow> string \<Rightarrow> int \<Rightarrow> string option \<Rightarrow> pydict \<Rightarrow> pydict \<Rightarrow> pydict" where
  "merged_iteration_state now e step i ev existing state =
     (let payload = dict_merge existing state;
          p1 = (if is_terminal existing \<and> \<not> is_terminal state
                then set_keys (kept_terminal_fields existing state)
                       (AList.update ''status'' (VStr (status_in existing)) payload)
                else payload) in
      set_keys ([(''execution_id'', VStr e), (''step_name'', VStr step), (''iteration_index'', VInt i)]
        @ event_field ev @ [(''updated_at'', VStr now)]) p1)"

fun set_iteration_loop ::
  "(nat \<Rightarrow> string) \<Rightarrow> string \<Rightarrow> string \<Rightarrow> int \<Rightarrow> string option \<Rightarrow> pydict \<Rightarrow> nat \<Rightarrow> kv_prog" where
  "set_iteration_loop clock e step i ev state 0 = Ret (VBool False)"
| "set_iteration_loop clock e step i ev state (Suc t) =
     (let key = loop_item_key e step ev i in
      Get key (\<lambda>x. case x of
          None \<Rightarrow> Put key (VDict (merged_iteration_state (clock t) e step i ev [] state)) (Ret (VBool True))
        | Some (v, rn) \<Rightarrow>
            guard_dict (Ret (VBool False)) v (\<lambda>existing.
              Update key (VDict (merged_iteration_state (clock t) e step i ev existing state)) rn
                (\<lambda>ok. if ok then Ret (VBool True) else set_iteration_loop clock e step i ev state t))))"

definition set_loop_iteration_state ::
  "(nat \<Rightarrow> string) \<Rightarrow> string \<Rightarrow> string \<Rightarrow> int \<Rightarrow> pydict \<Rightarrow> string option \<Rightarrow> kv_prog" where
  "set_loop_iteration_state clock e step i state ev = set_iteration_loop clock e step i ev state 10"

definition mark_loop_iteration_terminal ::
  "(nat \<Rightarrow> string) \<Rightarrow> string \<Rightarrow> string \<Rightarrow> int \<Rightarrow> string option \<Rightarrow> string option \<Rightarrow> string \<Rightarrow> pydict
     \<Rightarrow> pyval \<Rightarrow> pyval \<Rightarrow> kv_prog" where
  "mark_loop_iteration_terminal clock e step i ev command_id status pointer event_name event_id =
     set_loop_iteration_state clock e step i
       ([(''status'', VStr (terminal_status status)), (''terminal_event_name'', event_name),
         (''terminal_event_id'', event_id), (''terminal_at'', VStr (clock 10))]
        @ (case command_id of Some c \<Rightarrow> if c \<noteq> [] then [(''command_id'', VStr c)] else [] | None \<Rightarrow> [])
        @ (if pointer \<noteq> [] then [(''result_pointer'', VDict pointer)] else [])) ev"

text \<open>\<open>try_record_loop_iteration_terminal\<close>: \<open>None\<close> when the loop has no state, else whether this call
  made the item terminal.\<close>

definition terminal_item_state ::
  "string \<Rightarrow> string \<Rightarrow> string \<Rightarrow> int \<Rightarrow> string option \<Rightarrow> string option \<Rightarrow> string \<Rightarrow> pyval \<Rightarrow> pyval
     \<Rightarrow> pydict \<Rightarrow> pydict" where
  "terminal_item_state now e step i ev command_id status event_name event_id existing =
     set_keys ([(''execution_id'', VStr e), (''step_name'', VStr step), (''iteration_index'', VInt i),
         (''status'', VStr (terminal_status status)), (''terminal_event_name'', event_name),
         (''terminal_event_id'', event_id), (''terminal_at'', VStr now), (''updated_at'', VStr now)]
       @ event_field ev
       @ (case command_id of Some c \<Rightarrow> if c \<noteq> [] then [(''command_id'', VStr c)] else [] | None \<Rightarrow> []))
     existing"

fun record_terminal_loop ::
  "string \<Rightarrow> (nat \<Rightarrow> pydict \<Rightarrow> pydict) \<Rightarrow> nat \<Rightarrow> kv_prog" where
  "record_terminal_loop key mk 0 = Ret VNone"
| "record_terminal_loop key mk (Suc t) =
     Get key (\<lambda>x. case x of
         None \<Rightarrow> Put key (VDict (mk t [])) (Ret (VBool True))
       | Some (v, rn) \<Rightarrow>
           guard_dict (Ret VNone) v (\<lambda>existing.
             if is_terminal existing then Ret (VBool False)
             else Update key (VDict (mk t existing)) rn
               (\<lambda>ok. if ok then Ret (VBool True) else record_terminal_loop key mk t)))"

definition try_record_loop_iteration_terminal ::
  "(nat \<Rightarrow> string) \<Rightarrow> string \<Rightarrow> string \<Rightarrow> int \<Rightarrow> string option \<Rightarrow> string option \<Rightarrow> string \<Rightarrow> pyval
     \<Rightarrow> pyval \<Rightarrow> kv_prog" where
  "try_record_loop_iteration_terminal clock e step i ev command_id status event_name event_id =
     Get (loop_key e step ev) (\<lambda>x.
       if x = None then Ret VNone
       else record_terminal_loop (loop_item_key e step ev i)
         (\<lambda>t. terminal_item_state (clock t) e step i ev command_id status event_name event_id) 10)"

text \<open>
  \<open>_list_loop_iteration_payloads\<close>: the objects stored under the keys with the item prefix, handed
  to \<open>k\<close>; keys that vanish meanwhile are skipped.
\<close>

fun fetch_payloads :: "string list \<Rightarrow> pydict list \<Rightarrow> (pydict list \<Rightarrow> kv_prog) \<Rightarrow> kv_prog" where
  "fetch_payloads [] acc k = k (rev acc)"
| "fetch_payloads (key # keys) acc k =
     Get key (\<lambda>x. case x of
         Some (VDict d, _) \<Rightarrow> fetch_payloads keys (d # acc) k
       | _ \<Rightarrow> fetch_payloads keys acc k)"

definition list_loop_iteration_payloads ::
  "string \<Rightarrow> string \<Rightarrow> string option \<Rightarrow> (pydict list \<Rightarrow> kv_prog) \<Rightarrow> kv_prog" where
  "list_loop_iteration_payloads e step ev k =
     Keys (\<lambda>keys. fetch_payloads (filter (\<lambda>key. startswith key (loop_item_prefix e step ev)) keys) [] k)"

definition last_event_of :: "pydict \<Rightarrow> string" where
  "last_event_of d = lower (py_str (py_or (py_get d ''last_event_name'') (VStr '''')))"

definition observed_terminal :: "pydict \<Rightarrow> bool" where
  "observed_terminal d = (is_terminal d \<or> last_event_of d \<in> {''call.done'', ''call.error''})"

definition count_observed_loop_iteration_terminals :: "string \<Rightarrow> string \<Rightarrow> string option \<Rightarrow> kv_prog" where
  "count_observed_loop_iteration_terminals e step ev =
     list_loop_iteration_payloads e step ev (\<lambda>ps. Ret (VInt (int (length (filter observed_terminal ps)))))"

text \<open>
  \<open>find_supervisor_missing_loop_iteration_indices\<close>; \<open>parse\<close> is \<open>_parse_iso_utc\<close> in seconds, \<open>now\<close>
  the current time and \<open>min_age\<close> the threshold in seconds.
\<close>

definition issued_at :: "(pyval \<Rightarrow> int option) \<Rightarrow> pydict \<Rightarrow> int option" where
  "issued_at parse d =
     first_some parse [py_get d ''issued_at'', py_get d ''claimed_at'', py_get d ''updated_at'']"

definition missing_candidate :: "(pyval \<Rightarrow> int option) \<Rightarrow> int \<Rightarrow> int \<Rightarrow> pydict \<Rightarrow> int option" where
  "missing_candidate parse now min_age d =
     (if py_get d ''iteration_index'' = VNone \<or> observed_terminal d then None
      else if status_in d = ''STARTED'' \<or> last_event_of d = ''command.started''
        \<or> truthy (py_get d ''started_at'') then None
      else (case issued_at parse d of
          None \<Rightarrow> None
        | Some s \<Rightarrow> if now - s < max 0 min_age then None else py_int_opt (py_get d ''iteration_index'')))"

definition find_missing_loop_iteration_indices ::
  "(pyval \<Rightarrow> int option) \<Rightarrow> int \<Rightarrow> string \<Rightarrow> string \<Rightarrow> string option \<Rightarrow> int \<Rightarrow> int \<Rightarrow> kv_prog" where
  "find_missing_loop_iteration_indices parse now e step ev limit min_age =
     (if limit \<le> 0 then Ret (VList [])
      else list_loop_iteration_payloads e step ev (\<lambda>ps.
        Ret (VList (map VInt (take (nat limit)
          (sort (List.map_filter (missing_candidate parse now min_age) ps)))))))"

definition find_orphaned_loop_iteration_indices ::
  "(pyval \<Rightarrow> int option) \<Rightarrow> int \<Rightarrow> string \<Rightarrow> string \<Rightarrow> string option \<Rightarrow> int \<Rightarrow> kv_prog" where
  "find_orphaned_loop_iteration_indices parse now e step ev limit =
     find_missing_loop_iteration_indices parse now e step ev limit 0"

section \<open>Commands and the execution\<close>

definition get_execution_state :: "string \<Rightarrow> kv_prog" where
  "get_execution_state e = Get (execution_key e) (\<lambda>x. Ret (case x of None \<Rightarrow> VNone | Some (v, _) \<Rightarrow> v))"

definition set_execution_state :: "string \<Rightarrow> string \<Rightarrow> pydict \<Rightarrow> kv_prog" where
  "set_execution_state now e state =
     Put (execution_key e) (VDict (AList.update ''updated_at'' (VStr now) state)) (Ret (VBool True))"

definition get_pending_command_count :: "string \<Rightarrow> kv_prog" where
  "get_pending_command_count e =
     Get (execution_key e) (\<lambda>x. case x of
         Some (VDict d, _) \<Rightarrow>
           (case count_or_zero d ''pending_command_count'' of Inl er \<Rightarrow> Raise er | Inr n \<Rightarrow> Ret (VInt n))
       | _ \<Rightarrow> Ret VNone)"

text \<open>Write \<open>v\<close> at the revision read, or unconditionally when nothing was read; \<open>again\<close> on conflict.\<close>

definition write_back :: "string \<Rightarrow> nat option \<Rightarrow> pydict \<Rightarrow> kv_prog \<Rightarrow> kv_prog \<Rightarrow> kv_prog" where
  "write_back key rn d done again =
     (case rn of None \<Rightarrow> Put key (VDict d) done
      | Some r \<Rightarrow> Update key (VDict d) r (\<lambda>ok. if ok then done else again))"

definition entry_state :: "(pyval \<times> nat) option \<Rightarrow> pydict \<times> nat option" where
  "entry_state x = (case x of Some (VDict d, rn) \<Rightarrow> (d, Some rn) | Some (_, rn) \<Rightarrow> ([], Some rn) | None \<Rightarrow> ([], None))"

definition issued_command :: "string \<Rightarrow> string \<Rightarrow> string \<Rightarrow> string \<Rightarrow> pyval \<Rightarrow> pydict \<Rightarrow> pydict \<Rightarrow> pydict" where
  "issued_command now e command_id step event_id meta existing =
     (let d = set_keys [(''command_id'', VStr command_id), (''execution_id'', VStr e),
          (''step_name'', VStr step), (''status'', VStr ''ISSUED''), (''command_event_id'', event_id),
          (''issued_at'', py_or (py_get existing ''issued_at'') (VStr now)), (''updated_at'', VStr now)] existing in
      if meta \<noteq> [] then AList.update ''meta'' (VDict meta) d else d)"

definition issued_execution :: "string \<Rightarrow> string \<Rightarrow> string \<Rightarrow> string \<Rightarrow> int \<Rightarrow> pydict \<Rightarrow> pydict" where
  "issued_execution now e command_id step pending existing =
     set_keys [(''execution_id'', VStr e), (''pending_command_count'', VInt (max 0 pending)),
       (''last_command_id'', VStr command_id), (''last_command_step'', VStr step),
       (''updated_at'', VStr now)] existing"

text \<open>
  \<open>register_command_issued\<close>: the command is written first and the execution's pending count after
  it; a conflict on either restarts the whole attempt. A stored state that is an empty object
  counts as no command (it is falsy) but keeps its revision.
\<close>

fun register_loop ::
  "(nat \<Rightarrow> string) \<Rightarrow> string \<Rightarrow> string \<Rightarrow> string \<Rightarrow> pyval \<Rightarrow> pydict \<Rightarrow> nat \<Rightarrow> kv_prog" where
  "register_loop clock e command_id step event_id meta 0 = Ret (VBool False)"
| "register_loop clock e command_id step event_id meta (Suc t) =
     Get (command_key e command_id) (\<lambda>x.
       case entry_state x of (command, crn) \<Rightarrow>
       if command \<noteq> [] \<and> \<not> is_terminal command then Ret (VBool True)
       else Get (execution_key e) (\<lambda>y.
         case entry_state y of (execution, xrn) \<Rightarrow>
         guard (Ret (VBool False)) (count_or_zero execution ''pending_command_count'') (\<lambda>pending.
           write_back (command_key e command_id) crn
             (issued_command (clock t) e command_id step event_id meta command)
             (write_back (execution_key e) xrn
               (issued_execution (clock t) e command_id step
                 (if crn = None then pending + 1 else pending) execution)
               (Ret (VBool True))
               (register_loop clock e command_id step event_id meta t))
             (register_loop clock e command_id step event_id meta t))))"

definition register_command_issued ::
  "(nat \<Rightarrow> string) \<Rightarrow> string \<Rightarrow> string \<Rightarrow> string \<Rightarrow> pyval \<Rightarrow> pydict \<Rightarrow> kv_prog" where
  "register_command_issued clock e command_id step event_id meta =
     (if command_id = [] then Ret (VBool False)
      else register_loop clock e command_id step event_id meta 10)"

definition terminal_command ::
  "string \<Rightarrow> string \<Rightarrow> string \<Rightarrow> string \<Rightarrow> pyval \<Rightarrow> pyval \<Rightarrow> pyval \<Rightarrow> pydict \<Rightarrow> pydict" where
  "terminal_command now e command_id status event_name event_id step existing =
     set_keys [(''command_id'', VStr command_id), (''execution_id'', VStr e),
       (''step_name'', VStr (py_str (py_or step (py_or (py_get existing ''step_name'') (VStr ''''))))),
       (''status'', VStr (terminal_status status)), (''terminal_event_name'', event_name),
       (''terminal_event_id'', event_id), (''terminal_at'', VStr now), (''updated_at'', VStr now)] existing"

definition terminal_execution :: "string \<Rightarrow> string \<Rightarrow> string \<Rightarrow> pyval \<Rightarrow> int \<Rightarrow> pydict \<Rightarrow> pydict" where
  "terminal_execution now e command_id event_name pending existing =
     set_keys [(''execution_id'', VStr e),
       (''pending_command_count'', VInt (max 0 (if 0 < pending then pending - 1 else pending))),
       (''last_terminal_command_id'', VStr command_id), (''last_terminal_event_name'', event_name),
       (''updated_at'', VStr now)] existing"

fun mark_terminal_loop ::
  "(nat \<Rightarrow> string) \<Rightarrow> string \<Rightarrow> string \<Rightarrow> string \<Rightarrow> pyval \<Rightarrow> pyval \<Rightarrow> pyval \<Rightarrow> nat \<Rightarrow> kv_prog" where
  "mark_terminal_loop clock e command_id status event_name event_id step 0 = Ret (VBool False)"
| "mark_terminal_loop clock e command_id status event_name event_id step (Suc t) =
     Get (command_key e command_id) (\<lambda>x.
     Get (execution_key e) (\<lambda>y.
       case (entry_state x, entry_state y) of ((command, crn), (execution, xrn)) \<Rightarrow>
       if is_terminal command then Ret (VBool True)
       else guard (Ret (VBool False)) (count_or_zero execution ''pending_command_count'') (\<lambda>pending.
         write_back (command_key e command_id) crn
           (terminal_command (clock t) e command_id status event_name event_id step command)
           (write_back (execution_key e) xrn
             (terminal_execution (clock t) e command_id event_name pending execution)
             (Ret (VBool True))
             (mark_terminal_loop clock e command_id status event_name event_id step t))
           (mark_terminal_loop clock e command_id status event_name event_id step t))))"

definition mark_command_terminal ::
  "(nat \<Rightarrow> string) \<Rightarrow> string \<Rightarrow> string \<Rightarrow> string \<Rightarrow> pyval \<Rightarrow> pyval \<Rightarrow> pyval \<Rightarrow> kv_prog" where
  "mark_command_terminal clock e command_id status event_name event_id step =
     (if command_id = [] then Ret (VBool False)
      else mark_terminal_loop clock e command_id status event_name event_id step 10)"

text \<open>\<open>delete_execution_state\<close> deletes every key with the execution's prefix.\<close>

fun delete_all :: "string list \<Rightarrow> kv_prog" where
  "delete_all [] = Ret VNone"
| "delete_all (k # ks) = Delete k (delete_all ks)"

definition delete_execution_state :: "string \<Rightarrow> kv_prog" where
  "delete_execution_state e =
     Keys (\<lambda>keys. delete_all (filter (\<lambda>k. startswith k (''exec.'' @ safe_key_part e @ ''.'')) keys))"

end
