(* ===== verification/Loop_Cache_Theorems.thy ===== *)
theory Loop_Cache_Theorems
  imports Loop_Cache
begin

text \<open>
  What the loop counters in the NATS bucket guarantee when several servers use them at once. The
  calls are programs of \<open>Loop_Cache\<close>; \<open>loop_call\<close> names the ones that move the counters of one
  loop. On a key that exists each takes effect by one compare-and-swap (\<open>waiting\<close>), so every
  schedule is a sequence of effects (\<open>schedule_linearizes\<close>), and the counters are followed along
  that sequence. The concrete schedules at the end are the ones where that argument does not apply:
  the key is created by an unconditional \<open>put\<close>, or two keys are written one after the other.
\<close>

section \<open>The counters of a loop\<close>

definition loop_at :: "int \<Rightarrow> int \<Rightarrow> pyval \<Rightarrow> bool" where
  "loop_at c s v \<longleftrightarrow>
     (case v of VDict st \<Rightarrow> map_of st ''completed_count'' = Some (VInt c)
        \<and> map_of st ''scheduled_count'' = Some (VInt s) \<and> 0 \<le> c \<and> c \<le> s
      | _ \<Rightarrow> False)"

lemma loop_atE:
  assumes "loop_at c s v"
  obtains st where "v = VDict st" "map_of st ''completed_count'' = Some (VInt c)"
    "map_of st ''scheduled_count'' = Some (VInt s)" "0 \<le> c" "c \<le> s"
  using assms by (cases v) (auto simp: loop_at_def)

lemma set_keys_map: "map_of (set_keys up st) = map_of st ++ map_of (rev up)"
  by (simp add: set_keys_def map_of_merge)

lemma read_counts_at:
  assumes "map_of st ''completed_count'' = Some (VInt c)"
    and "map_of st ''scheduled_count'' = Some (VInt s)" and "0 \<le> c" and "c \<le> s"
  shows "read_counts st = Inr (c, s)"
  using assms
  by (auto simp: read_counts_def count_or_zero_def count_or_def py_get_default_def py_or_def)

section \<open>Calls on one loop\<close>

datatype loop_call =
    ClaimNext int
  | ClaimUpTo int int
  | Complete
  | ClaimDone

fun loop_prog :: "(nat \<Rightarrow> string) \<Rightarrow> string \<Rightarrow> string \<Rightarrow> string option \<Rightarrow> int \<Rightarrow> loop_call \<Rightarrow> kv_prog" where
  "loop_prog clock e step ev n (ClaimNext m) = claim_next_loop_index clock e step n m ev"
| "loop_prog clock e step ev n (ClaimUpTo m q) = claim_next_loop_indices clock e step n m q ev"
| "loop_prog clock e step ev n Complete = increment_loop_completed clock e step ev"
| "loop_prog clock e step ev n ClaimDone = try_claim_loop_done clock e step ev"

text \<open>The indexes a call has handed out.\<close>

definition claimed :: "loop_call \<Rightarrow> pyval \<Rightarrow> int list" where
  "claimed call r =
     (case (call, r) of
        (ClaimNext _, VInt i) \<Rightarrow> [i]
      | (ClaimUpTo _ _, VList xs) \<Rightarrow> List.map_filter (\<lambda>x. case x of VInt i \<Rightarrow> Some i | _ \<Rightarrow> None) xs
      | _ \<Rightarrow> [])"

text \<open>
  The effect of a call on the counters: a claim takes the indexes from \<open>s\<close> upwards, stays below
  \<open>n\<close> and within the bound on items in flight; a completion moves \<open>c\<close> and drags \<open>s\<close> along.
\<close>

definition done_flag :: "pyval \<Rightarrow> bool" where
  "done_flag v = (case v of VDict st \<Rightarrow> truthy (py_get st ''loop_done_claimed'') | _ \<Rightarrow> False)"

definition loop_eff :: "int \<Rightarrow> loop_call \<Rightarrow> pyval \<Rightarrow> pyval \<Rightarrow> pyval \<Rightarrow> bool" where
  "loop_eff n call v r w \<longleftrightarrow>
     (\<forall>c s. loop_at c s v \<longrightarrow>
       (case call of
          ClaimNext m \<Rightarrow> r = VInt s \<and> s < n \<and> s - c < max 1 m \<and> loop_at c (s + 1) w
        | ClaimUpTo m q \<Rightarrow> (\<exists>k. 0 < k \<and> r = VList (map VInt [s..s + k - 1]) \<and> s + k \<le> n
            \<and> s + k - c \<le> max 1 m \<and> loop_at c (s + k) w)
        | Complete \<Rightarrow> r = VInt (c + 1) \<and> loop_at (c + 1) (max s (c + 1)) w
        | ClaimDone \<Rightarrow> r = VBool True \<and> loop_at c s w) \<and>
       done_flag w = (call = ClaimDone \<or> done_flag v) \<and> (call = ClaimDone \<longrightarrow> \<not> done_flag v))"

definition loop_quiet :: "loop_call \<Rightarrow> pyval \<Rightarrow> bool" where
  "loop_quiet call r \<longleftrightarrow> claimed call r = [] \<and> (call = ClaimDone \<longrightarrow> r = VBool False)"

lemma loop_effI:
  assumes "\<And>c s st. v = VDict st \<Longrightarrow> map_of st ''completed_count'' = Some (VInt c)
      \<Longrightarrow> map_of st ''scheduled_count'' = Some (VInt s) \<Longrightarrow> 0 \<le> c \<Longrightarrow> c \<le> s \<Longrightarrow>
       (case call of
          ClaimNext m \<Rightarrow> r = VInt s \<and> s < n \<and> s - c < max 1 m \<and> loop_at c (s + 1) w
        | ClaimUpTo m q \<Rightarrow> (\<exists>k. 0 < k \<and> r = VList (map VInt [s..s + k - 1]) \<and> s + k \<le> n
            \<and> s + k - c \<le> max 1 m \<and> loop_at c (s + k) w)
        | Complete \<Rightarrow> r = VInt (c + 1) \<and> loop_at (c + 1) (max s (c + 1)) w
        | ClaimDone \<Rightarrow> r = VBool True \<and> loop_at c s w) \<and>
       done_flag w = (call = ClaimDone \<or> done_flag v) \<and> (call = ClaimDone \<longrightarrow> \<not> done_flag v)"
  shows "loop_eff n call v r w"
  unfolding loop_eff_def by (intro allI impI, erule loop_atE) (rule assms)

section \<open>Each call takes effect by one swap\<close>

named_theorems waiting_intros

lemmas waiting_rules = waiting_having_read.intros

lemma waiting_guard:
  assumes "\<And>x. m = Inr x \<Longrightarrow> having_read key eff quiet v rn (k x)" and "quiet r"
  shows "having_read key eff quiet v rn (guard (Ret r) m k)"
  using assms by (cases m) (auto simp: guard_def intro: waiting_rules)

lemma waiting_guard_pair:
  assumes "\<And>a b. m = Inr (a, b) \<Longrightarrow> having_read key eff quiet v rn (k a b)" and "quiet r"
  shows "having_read key eff quiet v rn (guard (Ret r) m (\<lambda>(a, b). k a b))"
  using assms by (cases m) (auto simp: guard_def intro: waiting_rules)

lemma waiting_guard_dict:
  assumes "\<And>d. v = VDict d \<Longrightarrow> having_read key eff quiet v rn (k d)" and "quiet r"
  shows "having_read key eff quiet v rn (guard_dict (Ret r) v k)"
  using assms by (cases v) (auto simp: guard_dict_def intro: waiting_rules)

lemma having_read_quiet: "quiet r \<Longrightarrow> having_read key eff quiet v rn (Ret r)"
  by (auto intro: waiting_rules)

lemma having_read_if:
  assumes "b \<Longrightarrow> having_read key eff quiet v rn p" and "\<not> b \<Longrightarrow> having_read key eff quiet v rn q"
  shows "having_read key eff quiet v rn (if b then p else q)"
  using assms by auto

lemma having_read_retry:
  assumes "eff v r w" and "waiting key eff quiet again"
  shows "having_read key eff quiet v rn (Update key w rn (\<lambda>ok. if ok then Ret r else again))"
  using assms by (auto intro: waiting_rules)

lemmas [waiting_intros] =
  waiting_guard_pair waiting_guard waiting_guard_dict having_read_quiet having_read_if having_read_retry

lemma loop_quiet_simps [simp]:
  "loop_quiet (ClaimNext m) VNone"
  "loop_quiet (ClaimUpTo m q) (VList [])"
  "loop_quiet Complete r"
  "loop_quiet ClaimDone (VBool False)"
  by (auto simp: loop_quiet_def claimed_def map_filter_def)

lemma map_filter_ints: "List.map_filter (\<lambda>x. case x of VInt i \<Rightarrow> Some i | _ \<Rightarrow> None) (map VInt xs) = xs"
  by (induction xs) (auto simp: List.map_filter_simps)

lemma claimed_simps [simp]:
  "claimed (ClaimNext m) (VInt i) = [i]"
  "claimed (ClaimUpTo m q) (VList (map VInt xs)) = xs"
  "claimed Complete r = []"
  "claimed ClaimDone r = []"
  by (simp_all add: claimed_def map_filter_ints)

lemmas effect_simps = loop_at_def done_flag_def set_keys_map py_get_def py_get_default_def

lemma bound_not_reached: "\<not> m' \<le> max 0 (s - c) \<Longrightarrow> m' = max 1 m \<Longrightarrow> s - c < max 1 (m::int)"
  by (auto simp: max_def split: if_splits)

lemma claim_index_waiting:
  assumes "0 < n" and m: "m' = max 1 m"
  shows "waiting key (loop_eff n (ClaimNext m)) (loop_quiet (ClaimNext m))
    (claim_index_loop clock key m' t n)"
proof (induction t)
  case 0
  show ?case by (auto intro: waiting_rules)
next
  case (Suc t)
  have sz: "known_size n stored = n" for stored using assms by (simp add: known_size_def)
  show ?case
    unfolding claim_index_loop.simps Let_def
  proof (rule waiting_rules, simp, unfold claim_index_body_def Let_def sz, intro waiting_intros)
    fix v d completed scheduled
    assume v: "v = VDict d" and rc: "read_counts d = Inr (completed, scheduled)"
      and free: "\<not> n \<le> scheduled" "\<not> m' \<le> max 0 (scheduled - completed)"
    show "loop_eff n (ClaimNext m) v (VInt scheduled) (VDict (set_keys
        [(''collection_size'', VInt n), (''scheduled_count'', VInt (scheduled + 1)),
         (''last_claimed_at'', VStr (clock t)), (''last_progress_at'', VStr (clock t)),
         (''updated_at'', VStr (clock t))]
        (set_keys [(''completed_count'', VInt completed), (''scheduled_count'', VInt scheduled)] d)))"
      using v rc free(1) bound_not_reached [OF free(2) m]
      by (intro loop_effI) (simp add: read_counts_at effect_simps)
  qed (use assms Suc in simp_all)
qed

lemma claim_indices_waiting:
  assumes "0 < n" and m: "m' = max 1 m"
  shows "waiting key (loop_eff n (ClaimUpTo m q)) (loop_quiet (ClaimUpTo m q))
    (claim_indices_loop clock key m' q' t n)"
proof (induction t)
  case 0
  show ?case by (auto intro: waiting_rules)
next
  case (Suc t)
  have sz: "known_size n stored = n" for stored using assms by (simp add: known_size_def)
  show ?case
    unfolding claim_indices_loop.simps Let_def
  proof (rule waiting_rules, simp, unfold claim_indices_body_def Let_def sz, intro waiting_intros)
    fix v d completed scheduled
    define k where "k = min q' (min (m' - max 0 (scheduled - completed)) (n - scheduled))"
    assume v: "v = VDict d" and rc: "read_counts d = Inr (completed, scheduled)"
      and free: "\<not> (n \<le> 0 \<or> n \<le> scheduled \<or> m' - max 0 (scheduled - completed) \<le> 0 \<or>
        min q' (min (m' - max 0 (scheduled - completed)) (n - scheduled)) \<le> 0)"
    have k: "0 < k" "scheduled + k \<le> n" "completed \<le> scheduled \<Longrightarrow> scheduled + k - completed \<le> max 1 m"
      using free m by (auto simp: k_def)
    have "loop_eff n (ClaimUpTo m q) v (VList (map VInt [scheduled..scheduled + k - 1]))
      (VDict (set_keys
        [(''collection_size'', VInt n), (''completed_count'', VInt completed),
         (''scheduled_count'', VInt (scheduled + k)),
         (''last_claimed_at'', VStr (clock t)), (''last_progress_at'', VStr (clock t)),
         (''updated_at'', VStr (clock t))] d))"
      using v rc k by (intro loop_effI) (auto simp: read_counts_at effect_simps intro!: exI [of _ k])
    then show "loop_eff n (ClaimUpTo m q) v
      (VList (map VInt [scheduled..scheduled +
          min q' (min (m' - max 0 (scheduled - completed)) (n - scheduled)) - 1]))
      (VDict (set_keys
        [(''collection_size'', VInt n), (''completed_count'', VInt completed),
         (''scheduled_count'', VInt (scheduled +
            min q' (min (m' - max 0 (scheduled - completed)) (n - scheduled)))),
         (''last_claimed_at'', VStr (clock t)), (''last_progress_at'', VStr (clock t)),
         (''updated_at'', VStr (clock t))] d))"
      unfolding k_def .
  qed (use assms Suc in simp_all)
qed

lemma increment_waiting:
  "waiting key (loop_eff n Complete) (loop_quiet Complete) (increment_loop clock key t)"
proof (induction t)
  case 0
  show ?case by (auto intro: waiting_rules)
next
  case (Suc t)
  show ?case
    unfolding increment_loop.simps
  proof (rule waiting_rules, simp, intro waiting_intros)
    fix v d c d'
    assume v: "v = VDict d" and i: "incremented (clock t) d = Inr (c, d')"
    show "loop_eff n Complete v (VInt c) (VDict d')"
      using v i
      by (intro loop_effI)
        (auto simp: incremented_def count_or_def effect_simps py_or_def split: if_splits)
  qed (use Suc in simp_all)
qed

lemma claim_done_waiting:
  "waiting key (loop_eff n ClaimDone) (loop_quiet ClaimDone) (claim_done_loop clock key t)"
proof (induction t)
  case 0
  show ?case by (auto intro: waiting_rules)
next
  case (Suc t)
  show ?case
    unfolding claim_done_loop.simps
  proof (rule waiting_rules, simp, intro waiting_intros)
    fix v d
    assume "v = VDict d" "\<not> truthy (py_get d ''loop_done_claimed'')"
    then show "loop_eff n ClaimDone v (VBool True) (VDict (set_keys
        [(''loop_done_claimed'', VBool True), (''loop_done_claimed_at'', VStr (clock t)),
         (''updated_at'', VStr (clock t))] d))"
      by (intro loop_effI) (auto simp: effect_simps)
  qed (use Suc in simp_all)
qed

lemma loop_prog_waiting:
  "0 < n \<Longrightarrow> waiting (loop_key e step ev) (loop_eff n call) (loop_quiet call) (loop_prog clock e step ev n call)"
  by (cases call)
    (auto simp: claim_next_loop_index_def claim_next_loop_indices_def increment_loop_completed_def
      try_claim_loop_done_def increment_waiting claim_done_waiting
      intro!: claim_index_waiting claim_indices_waiting)

section \<open>Along the effects\<close>

definition bound_of :: "loop_call \<Rightarrow> int" where
  "bound_of call = (case call of ClaimNext m \<Rightarrow> max 1 m | ClaimUpTo m q \<Rightarrow> max 1 m | _ \<Rightarrow> 0)"

definition handed_out :: "(nat \<Rightarrow> loop_call) \<Rightarrow> (nat \<times> pyval \<times> pyval) list \<Rightarrow> int list" where
  "handed_out calls log = concat (map (\<lambda>(i, r, w). claimed (calls i) r) log)"

lemma loop_eff_step:
  assumes "loop_eff n call v r w" and "loop_at c s v"
  obtains c' s' where "loop_at c' s' w" "c \<le> c'" "s \<le> s'" "s' - c' \<le> max (s - c) (bound_of call)"
    "sorted_wrt (<) (claimed call r)" "set (claimed call r) \<subseteq> {s..<s'}" "set (claimed call r) \<subseteq> {..<n}"
proof (cases call)
  case (ClaimNext m)
  then have "r = VInt s" "s < n" "s - c < max 1 m" "loop_at c (s + 1) w"
    using assms unfolding loop_eff_def by auto
  then show thesis using that [of c "s + 1"] ClaimNext by (simp add: bound_of_def)
next
  case (ClaimUpTo m q)
  then obtain k where k: "0 < k" "r = VList (map VInt [s..s + k - 1])" "s + k \<le> n"
      "s + k - c \<le> max 1 m" "loop_at c (s + k) w"
    using assms by (auto simp: loop_eff_def)
  have "sorted_wrt (<) [s..s + k - 1]" by (simp add: strict_sorted_iff)
  moreover have "{s..s + k - 1} \<subseteq> {s..<s + k}" "{s..s + k - 1} \<subseteq> {..<n}"
    using k(3) by (auto simp: subset_iff)
  ultimately show thesis using that [of c "s + k"] k ClaimUpTo by (simp add: bound_of_def)
next
  case Complete
  then have "loop_at (c + 1) (max s (c + 1)) w" using assms unfolding loop_eff_def by auto
  then show thesis using that Complete assms(2) by (auto simp: bound_of_def loop_at_def)
next
  case ClaimDone
  then have "loop_at c s w" using assms unfolding loop_eff_def by auto
  then show thesis using that ClaimDone by (auto simp: bound_of_def)
qed

lemma linked_counts:
  assumes "linked (\<lambda>i. loop_eff n (calls i)) v log u" and "loop_at c0 s0 v"
    and "\<forall>i. bound_of (calls i) \<le> m"
  shows "\<exists>c s. loop_at c s u \<and> c0 \<le> c \<and> s0 \<le> s \<and> s - c \<le> max (s0 - c0) m
    \<and> sorted_wrt (<) (handed_out calls log) \<and> set (handed_out calls log) \<subseteq> {s0..<s} \<inter> {..<n}"
  using assms
proof (induction log arbitrary: v c0 s0)
  case Nil
  then show ?case by (intro exI [of _ c0] exI [of _ s0]) (simp add: handed_out_def)
next
  case (Cons x log)
  obtain i r w where x: "x = (i, r, w)" by (cases x)
  have e: "loop_eff n (calls i) v r w" and l: "linked (\<lambda>i. loop_eff n (calls i)) w log u"
    using Cons.prems(1) unfolding x by simp_all
  obtain c1 s1 where s1: "loop_at c1 s1 w" "c0 \<le> c1" "s0 \<le> s1" "s1 - c1 \<le> max (s0 - c0) (bound_of (calls i))"
      "sorted_wrt (<) (claimed (calls i) r)" "set (claimed (calls i) r) \<subseteq> {s0..<s1}"
      "set (claimed (calls i) r) \<subseteq> {..<n}"
    using loop_eff_step [OF e Cons.prems(2)] by blast
  obtain c s where c: "loop_at c s u" "c1 \<le> c" "s1 \<le> s" "s - c \<le> max (s1 - c1) m"
      "sorted_wrt (<) (handed_out calls log)" "set (handed_out calls log) \<subseteq> {s1..<s} \<inter> {..<n}"
    using Cons.IH [OF l s1(1) Cons.prems(3)] by blast
  have h: "handed_out calls (x # log) = claimed (calls i) r @ handed_out calls log"
    by (simp add: handed_out_def x)
  have "s - c \<le> max (s0 - c0) m"
    using s1(4) c(4) Cons.prems(3) [rule_format, of i] by simp
  moreover have "sorted_wrt (<) (handed_out calls (x # log))"
    unfolding h sorted_wrt_append using s1(5,6) c(5,6) by fastforce
  moreover have "set (handed_out calls (x # log)) \<subseteq> {s0..<s} \<inter> {..<n}"
  proof -
    have "set (claimed (calls i) r) \<subseteq> {s0..<s} \<inter> {..<n}" using s1(6,7) c(3) by (auto dest!: subsetD)
    moreover have "set (handed_out calls log) \<subseteq> {s0..<s} \<inter> {..<n}"
      using s1(3) c(6) by (auto dest!: subsetD)
    ultimately show ?thesis by (simp add: h)
  qed
  ultimately show ?case using c(1,2,3) s1(2,3)
    by (intro exI [of _ c] exI [of _ s]) simp
qed

text \<open>In a list of disjoint pieces without repetition, two entries of different clients share nothing.\<close>

lemma handed_out_disjoint:
  assumes "distinct (handed_out calls log)" and "distinct (map fst log)"
    and "(i, r, w) \<in> set log" and "(j, r', w') \<in> set log" and "i \<noteq> j"
  shows "distinct (claimed (calls i) r) \<and> set (claimed (calls i) r) \<inter> set (claimed (calls j) r') = {}"
  using assms
proof (induction log)
  case (Cons x log)
  have sub: "set (claimed (calls k) q) \<subseteq> set (handed_out calls log)" if "(k, q, z) \<in> set log" for k q z
    using that by (force simp: handed_out_def)
  have d: "distinct (handed_out calls log)" "distinct (map fst log)"
      "\<And>k q z. x = (k, q, z) \<Longrightarrow> distinct (claimed (calls k) q)
         \<and> set (claimed (calls k) q) \<inter> set (handed_out calls log) = {}"
    using Cons.prems(1,2) by (auto simp: handed_out_def)
  consider "x = (i, r, w)" "(j, r', w') \<in> set log" | "x = (j, r', w')" "(i, r, w) \<in> set log"
    | "(i, r, w) \<in> set log" "(j, r', w') \<in> set log"
    using Cons.prems(3,4,5) by auto
  then show ?case
  proof cases
    case 1
    then show ?thesis using d(3) sub by blast
  next
    case 2
    have "distinct (claimed (calls i) r)"
      using d(1) 2(2) by (force simp: handed_out_def distinct_concat_iff)
    then show ?thesis using d(3) [OF 2(1)] sub [OF 2(2)] by blast
  next
    case 3
    then show ?thesis using Cons.IH d Cons.prems(5) by blast
  qed
qed simp

definition loop_system ::
  "(nat \<Rightarrow> nat \<Rightarrow> string) \<Rightarrow> string \<Rightarrow> string \<Rightarrow> string option \<Rightarrow> int \<Rightarrow> loop_call list \<Rightarrow> kv_prog list" where
  "loop_system clock e step ev n calls =
     map (\<lambda>i. loop_prog (clock i) e step ev n (calls ! i)) [0..<length calls]"

definition call_at :: "loop_call list \<Rightarrow> nat \<Rightarrow> loop_call" where
  "call_at calls i = (if i < length calls then calls ! i else Complete)"

lemma loop_system_linearizes:
  assumes "kv_ok s" and "kv_get s (loop_key e step ev) = Some (v0, r0)" and "0 < n"
    and "run_schedule sched (loop_system clock e step ev n calls, s) = (ps, s')"
  obtains log where "system_ok (loop_key e step ev) (\<lambda>i. loop_eff n (call_at calls i))
      (\<lambda>i. loop_quiet (call_at calls i)) v0 log (ps, s')"
    and "length ps = length calls"
proof -
  have "\<exists>log. system_ok (loop_key e step ev) (\<lambda>i. loop_eff n (call_at calls i))
      (\<lambda>i. loop_quiet (call_at calls i)) v0 log
      (run_schedule sched (loop_system clock e step ev n calls, s))"
    by (rule schedule_linearizes [OF assms(1,2)])
      (use assms(3) in \<open>auto simp: loop_system_def call_at_def intro: loop_prog_waiting\<close>)
  moreover have "length ps = length calls"
    using run_length [of sched "loop_system clock e step ev n calls" s] assms(4)
    by (simp add: loop_system_def)
  ultimately show thesis using that assms(4) by auto
qed

lemma loop_call_result:
  assumes "system_ok key (\<lambda>i. loop_eff n (call_at calls i)) (\<lambda>i. loop_quiet (call_at calls i)) v0 log (ps, s')"
    and "length ps = length calls" and "i < length calls" and "ps ! i = Ret r"
  shows "(\<exists>w. (i, r, w) \<in> set log) \<or> loop_quiet (calls ! i) r"
  using system_results [OF assms(1), of i r] assms(2-4) by (simp add: call_at_def)

section \<open>What every schedule guarantees\<close>



section \<open>The claim of loop.done\<close>

lemma linked_done_once:
  assumes "linked (\<lambda>i. loop_eff n (calls i)) v log u" and "loop_at c s v"
  shows "length (filter (\<lambda>x. calls (fst x) = ClaimDone) log) \<le> (if done_flag v then 0 else 1)"
  using assms
proof (induction log arbitrary: v c s)
  case (Cons x log)
  obtain i r w where x: "x = (i, r, w)" by (cases x)
  have e: "loop_eff n (calls i) v r w" and l: "linked (\<lambda>i. loop_eff n (calls i)) w log u"
    using Cons.prems(1) unfolding x by simp_all
  obtain c1 s1 where s1: "loop_at c1 s1 w" by (rule loop_eff_step [OF e Cons.prems(2)])
  have f: "done_flag w = (calls i = ClaimDone \<or> done_flag v)" "calls i = ClaimDone \<longrightarrow> \<not> done_flag v"
    using e Cons.prems(2) unfolding loop_eff_def by blast+
  have "length (filter (\<lambda>x. calls (fst x) = ClaimDone) log) \<le> (if done_flag w then 0 else 1)"
    by (rule Cons.IH [OF l s1])
  then show ?case using f by (cases "calls i = ClaimDone"; cases "done_flag v") (simp_all add: x)
qed simp


section \<open>A loop that is driven reaches its end\<close>

fun run_all :: "kv_prog list \<Rightarrow> kv_store \<Rightarrow> (pyval list \<times> kv_store) res" where
  "run_all [] s = Inr ([], s)"
| "run_all (p # ps) s =
     rbind (run_prog p s) (\<lambda>(r, s').
     rbind (run_all ps s') (\<lambda>(rs, t). Inr (r # rs, t)))"

definition loop_open :: "string \<Rightarrow> int \<Rightarrow> int \<Rightarrow> kv_store \<Rightarrow> bool" where
  "loop_open key c s st \<longleftrightarrow>
     (\<exists>d rn k. kv_get st key = Some (VDict d, rn) \<and> loop_at c s (VDict d)
        \<and> map_of d ''collection_size'' = Some (VInt k) \<and> \<not> done_flag (VDict d))"

lemma loop_openE:
  assumes "loop_open key c s st"
  obtains d rn k where "kv_get st key = Some (VDict d, rn)" "map_of d ''completed_count'' = Some (VInt c)"
    "map_of d ''scheduled_count'' = Some (VInt s)" "0 \<le> c" "c \<le> s"
    "map_of d ''collection_size'' = Some (VInt k)" "\<not> truthy (py_get d ''loop_done_claimed'')"
  using assms by (auto simp: loop_open_def loop_at_def done_flag_def)

lemma kv_update_ok:
  "kv_get s k = Some (v, rn) \<Longrightarrow> kv_update k w rn s = (True, kv_put k w s)"
  by (simp add: kv_update_def)

lemma kv_get_put [simp]: "kv_get (kv_put k w s) k = Some (w, Suc (kv_seq s))"
  by (simp add: kv_get_def kv_put_def)

lemma sizes_known: "map_of d ''collection_size'' = Some (VInt k) \<Longrightarrow> count_or_zero d ''collection_size'' = Inr k"
  by (simp add: count_or_zero_def py_get_default_def)

lemma run_claim_loop:
  assumes "loop_open key c s st" and "0 < n" and "m' = max 1 m"
  shows "s < n \<Longrightarrow> s - c < max 1 m \<Longrightarrow>
      \<exists>st'. run_prog (claim_index_loop clock key m' (Suc t) n) st = Inr (VInt s, st')
        \<and> loop_open key c (s + 1) st'"
    and "n \<le> s \<Longrightarrow> run_prog (claim_index_loop clock key m' (Suc t) n) st = Inr (VNone, st)"
proof -
  obtain d rn k where d: "kv_get st key = Some (VDict d, rn)"
    "map_of d ''completed_count'' = Some (VInt c)" "map_of d ''scheduled_count'' = Some (VInt s)"
    "0 \<le> c" "c \<le> s" "map_of d ''collection_size'' = Some (VInt k)"
    "\<not> truthy (py_get d ''loop_done_claimed'')"
    using loop_openE [OF assms(1)] by blast
  note sm = claim_index_body_def guard_dict_def guard_def known_size_def
    read_counts_at [OF d(2,3,4,5)] sizes_known [OF d(6)] d(1) kv_update_ok [OF d(1)] Let_def
  show "\<exists>st'. run_prog (claim_index_loop clock key m' (Suc t) n) st = Inr (VInt s, st')
        \<and> loop_open key c (s + 1) st'"
    if "s < n" "s - c < max 1 m"
  proof -
    have "\<not> m' \<le> max 0 (s - c)" using that(2) assms(3) by (auto simp: max_def)
    then show ?thesis
      using assms(2) that(1) d by (simp add: sm loop_open_def effect_simps)
  qed
  show "run_prog (claim_index_loop clock key m' (Suc t) n) st = Inr (VNone, st)" if "n \<le> s"
    using assms(2) that d(1) by (simp add: sm)
qed

lemma at_least_one: "max 1 (if m = 0 then 1 else m) = max 1 (m::int)"
  by simp

lemma run_claim_next:
  assumes "loop_open (loop_key e step ev) c s st" and "0 < n"
  shows "s < n \<Longrightarrow> s - c < max 1 m \<Longrightarrow>
      \<exists>st'. run_prog (claim_next_loop_index clock e step n m ev) st = Inr (VInt s, st')
        \<and> loop_open (loop_key e step ev) c (s + 1) st'"
    and "n \<le> s \<Longrightarrow> run_prog (claim_next_loop_index clock e step n m ev) st = Inr (VNone, st)"
  using run_claim_loop [where m = m and clock = clock and t = 4, OF assms refl] assms(2)
  by (simp_all add: claim_next_loop_index_def at_least_one)

lemma run_increment_loop:
  assumes "loop_open key c s st"
  shows "\<exists>st'. run_prog (increment_loop clock key (Suc t)) st = Inr (VInt (c + 1), st')
        \<and> loop_open key (c + 1) (max s (c + 1)) st'"
proof -
  obtain d rn k where d: "kv_get st key = Some (VDict d, rn)"
    "map_of d ''completed_count'' = Some (VInt c)" "map_of d ''scheduled_count'' = Some (VInt s)"
    "0 \<le> c" "c \<le> s" "map_of d ''collection_size'' = Some (VInt k)"
    "\<not> truthy (py_get d ''loop_done_claimed'')"
    using loop_openE [OF assms(1)] by blast
  show ?thesis
    using d
    by (auto simp: guard_dict_def guard_def incremented_def count_or_def
      kv_update_ok [OF d(1)] loop_open_def effect_simps py_or_def)
qed

lemma run_increment:
  "loop_open (loop_key e step ev) c s st \<Longrightarrow>
    \<exists>st'. run_prog (increment_loop_completed clock e step ev) st = Inr (VInt (c + 1), st')
      \<and> loop_open (loop_key e step ev) (c + 1) (max s (c + 1)) st'"
  using run_increment_loop [of "loop_key e step ev" c s st clock 49]
  by (simp add: increment_loop_completed_def)

lemma run_claim_done_loop:
  assumes "loop_open key c s st"
  shows "\<exists>st'. run_prog (claim_done_loop clock key (Suc t)) st = Inr (VBool True, st')
    \<and> run_prog (claim_done_loop clock' key (Suc t)) st' = Inr (VBool False, st')"
proof -
  obtain d rn where d: "kv_get st key = Some (VDict d, rn)"
    "\<not> truthy (py_get d ''loop_done_claimed'')"
    using loop_openE [OF assms(1)] by blast
  then show ?thesis
    by (simp add: guard_dict_def kv_update_ok [OF d(1)] effect_simps)
qed

lemma run_claim_done:
  "loop_open (loop_key e step ev) c s st \<Longrightarrow>
    \<exists>st'. run_prog (try_claim_loop_done clock e step ev) st = Inr (VBool True, st')
      \<and> run_prog (try_claim_loop_done clock' e step ev) st' = Inr (VBool False, st')"
  using run_claim_done_loop [of "loop_key e step ev" c s st clock 9 clock']
  by (simp add: try_claim_loop_done_def)

definition drive :: "(nat \<Rightarrow> string) \<Rightarrow> string \<Rightarrow> string \<Rightarrow> string option \<Rightarrow> int \<Rightarrow> int \<Rightarrow> nat \<Rightarrow> kv_prog list" where
  "drive clock e step ev n m k =
     concat (replicate k [claim_next_loop_index clock e step n m ev, increment_loop_completed clock e step ev])"

lemma run_drive:
  assumes "loop_open (loop_key e step ev) s s st" and "s + int k = n" and "0 \<le> s" and "0 < n"
  shows "\<exists>st'. run_all (drive clock e step ev n m k) st
        = Inr (concat (map (\<lambda>i. [VInt i, VInt (i + 1)]) [s..n - 1]), st')
      \<and> loop_open (loop_key e step ev) n n st'"
  using assms
proof (induction k arbitrary: s st)
  case 0
  then show ?case by (auto simp: drive_def)
next
  case (Suc k)
  obtain st1 where 1: "run_prog (claim_next_loop_index clock e step n m ev) st = Inr (VInt s, st1)"
      "loop_open (loop_key e step ev) s (s + 1) st1"
    using run_claim_next(1) [OF Suc.prems(1,4), of m clock] Suc.prems(2)
    by (auto simp: less_max_iff_disj)
  obtain st2 where 2: "run_prog (increment_loop_completed clock e step ev) st1 = Inr (VInt (s + 1), st2)"
      "loop_open (loop_key e step ev) (s + 1) (s + 1) st2"
    using run_increment [OF 1(2)] by auto
  obtain st' where 3: "run_all (drive clock e step ev n m k) st2
        = Inr (concat (map (\<lambda>i. [VInt i, VInt (i + 1)]) [s + 1..n - 1]), st')"
      "loop_open (loop_key e step ev) n n st'"
    using Suc.IH [OF 2(2)] Suc.prems(2-4) by auto
  have "[s..n - 1] = s # [s + 1..n - 1]" using Suc.prems(2) by (simp add: upto.simps)
  then show ?case using 1 2 3 by (simp add: drive_def)
qed

text \<open>
  C27. A loop none of whose claimed items is open is driven to its end: claiming and completing the
  remaining items one after the other hands out each of them, in order, with its completion
  counted, the next claim finds nothing left, and \<open>loop.done\<close> is then claimed, once.
\<close>

theorem loop_reaches_done:
  assumes "loop_open (loop_key e step ev) s s st" and "0 \<le> s" and "s < n"
  shows "\<exists>st1 st2.
      run_all (drive clock e step ev n m (nat (n - s))) st
        = Inr (concat (map (\<lambda>i. [VInt i, VInt (i + 1)]) [s..n - 1]), st1)
    \<and> run_all [claim_next_loop_index clock e step n m ev, try_claim_loop_done clock e step ev,
               try_claim_loop_done clock' e step ev] st1
        = Inr ([VNone, VBool True, VBool False], st2)"
proof -
  obtain st1 where 1: "run_all (drive clock e step ev n m (nat (n - s))) st
        = Inr (concat (map (\<lambda>i. [VInt i, VInt (i + 1)]) [s..n - 1]), st1)"
      "loop_open (loop_key e step ev) n n st1"
    using run_drive [OF assms(1), of "nat (n - s)" n] assms(2,3) by auto
  obtain st2 where "run_prog (try_claim_loop_done clock e step ev) st1 = Inr (VBool True, st2)"
      "run_prog (try_claim_loop_done clock' e step ev) st2 = Inr (VBool False, st2)"
    using run_claim_done [OF 1(2)] by blast
  moreover have "run_prog (claim_next_loop_index clock e step n m ev) st1 = Inr (VNone, st1)"
    using run_claim_next(2) [OF 1(2)] assms(2,3) by simp
  ultimately show ?thesis using 1(1) by simp
qed

section \<open>Concrete runs\<close>

fun result_of :: "kv_prog \<Rightarrow> pyval option" where
  "result_of (Ret r) = Some r"
| "result_of _ = None"

lemma result_of_iff: "result_of p = Some r \<longleftrightarrow> p = Ret r"
  by (cases p) auto

definition results :: "kv_system \<Rightarrow> pyval option list" where
  "results c = map result_of (fst c)"

definition demo_kv :: kv_store where
  "demo_kv = \<lparr>kv_entries = [(loop_key ''7'' ''fetch'' None,
     VDict [(''completed_count'', VInt 0), (''scheduled_count'', VInt 0), (''collection_size'', VInt 3)], 1)],
     kv_seq = 1\<rparr>"

definition demo_calls :: "loop_call list" where
  "demo_calls = [ClaimNext 2, ClaimNext 2, Complete, ClaimDone, ClaimDone]"

definition demo_system :: kv_system where
  "demo_system = (loop_system (\<lambda>_ _. ''now'') ''7'' ''fetch'' None 3 demo_calls, demo_kv)"

text \<open>Both claims read before either writes: the second one's swap fails and it reads again.\<close>

definition demo_end :: kv_system where
  "demo_end = run_schedule [0, 1, 3, 0, 1, 1, 1, 4, 3, 4, 3, 2, 2] demo_system"

lemma demo_results:
  "results demo_end =
     [Some (VInt 0), Some (VInt 1), Some (VInt 1), Some (VBool False), Some (VBool True)]"
  by code_simp

lemma demo_kv_at: "kv_ok demo_kv"
    "kv_get demo_kv (loop_key ''7'' ''fetch'' None) = Some (VDict
       [(''completed_count'', VInt 0), (''scheduled_count'', VInt 0), (''collection_size'', VInt 3)], 1)"
  by (auto simp: demo_kv_def kv_ok_def kv_get_def)

lemma demo_facts:
  "loop_at 0 0 (VDict [(''completed_count'', VInt 0), (''scheduled_count'', VInt 0), (''collection_size'', VInt 3)])"
  "run_schedule [0, 1, 3, 0, 1, 1, 1, 4, 3, 4, 3, 2, 2]
     (loop_system (\<lambda>_ _. ''now'') ''7'' ''fetch'' None 3 demo_calls, demo_kv) = (fst demo_end, snd demo_end)"
  "length (fst demo_end) = 5"
  "fst demo_end ! 0 = Ret (VInt 0)" "fst demo_end ! 1 = Ret (VInt 1)" "fst demo_end ! 4 = Ret (VBool True)"
proof -
  show r: "run_schedule [0, 1, 3, 0, 1, 1, 1, 4, 3, 4, 3, 2, 2]
     (loop_system (\<lambda>_ _. ''now'') ''7'' ''fetch'' None 3 demo_calls, demo_kv) = (fst demo_end, snd demo_end)"
    by (simp add: demo_end_def demo_system_def)
  show len: "length (fst demo_end) = 5"
  proof -
    have "length (fst demo_end) = length (results demo_end)" by (simp add: results_def)
    then show ?thesis by (simp add: demo_results)
  qed
  have "result_of (fst demo_end ! k) = results demo_end ! k" if "k < 5" for k
    using that len by (simp add: results_def)
  then show "fst demo_end ! 0 = Ret (VInt 0)" "fst demo_end ! 1 = Ret (VInt 1)"
      "fst demo_end ! 4 = Ret (VBool True)"
    by (simp_all add: demo_results result_of_iff [symmetric])
qed (simp add: loop_at_def)




theorem loop_reaches_done_witness:
  "\<exists>st1 st2.
      run_all (drive (\<lambda>_. ''now'') ''7'' ''fetch'' None 3 2 3) demo_kv
        = Inr (concat (map (\<lambda>i. [VInt i, VInt (i + 1)]) [0..2]), st1)
    \<and> run_all [claim_next_loop_index (\<lambda>_. ''now'') ''7'' ''fetch'' 3 2 None,
               try_claim_loop_done (\<lambda>_. ''now'') ''7'' ''fetch'' None,
               try_claim_loop_done (\<lambda>_. ''now'') ''7'' ''fetch'' None] st1
        = Inr ([VNone, VBool True, VBool False], st2)"
proof -
  have "loop_open (loop_key ''7'' ''fetch'' None) 0 0 demo_kv"
    using demo_kv_at(2) by (auto simp: loop_open_def loop_at_def done_flag_def)
  from loop_reaches_done [OF this, of 3 "\<lambda>_. ''now''" 2 "\<lambda>_. ''now''"] show ?thesis by simp
qed

section \<open>Schedules on which the counters go wrong\<close>

text \<open>
  Two claims that find no state both hand out iteration 0: a claim creates the missing state with
  an unconditional \<open>put\<close>, and the second \<open>put\<close> erases the claim made after the first.
\<close>

lemma fresh_loop_claimed_twice:
  "results (run_schedule [0, 1, 0, 0, 0, 1, 1, 1]
     (loop_system (\<lambda>_ _. ''now'') ''7'' ''fetch'' None 3 [ClaimNext 2, ClaimNext 2],
      \<lparr>kv_entries = [], kv_seq = 0\<rparr>)) = [Some (VInt 0), Some (VInt 0)]"
  by code_simp

text \<open>Two commands registered at once: both calls report success and one is not counted.\<close>

definition two_registrations :: kv_system where
  "two_registrations = run_schedule [0, 0, 1, 1, 0, 0, 1, 1, 1]
     ([register_command_issued (\<lambda>_. ''now'') ''7'' ''a'' ''fetch'' VNone [],
       register_command_issued (\<lambda>_. ''now'') ''7'' ''b'' ''fetch'' VNone []],
      \<lparr>kv_entries = [(execution_key ''7'', VDict [(''pending_command_count'', VInt 0)], 1)], kv_seq = 1\<rparr>)"

text \<open>
  Two servers that register two different commands at the same time can both be told the command
  is registered while the execution's pending count grows by one only: the command is written before
  the count, and the retry after the count's conflict finds the command and returns.
\<close>

lemma concurrent_registration_undercounts:
  "results two_registrations = [Some (VBool True), Some (VBool True)]
    \<and> (case run_prog (get_pending_command_count ''7'') (snd two_registrations) of
         Inr (v, _) \<Rightarrow> v = VInt 1 | Inl _ \<Rightarrow> False)"
  by code_simp

text \<open>
  Releasing a slot gives back the last index claimed, whoever holds it: the server that claimed 0
  releases, and 1 is handed out a second time.
\<close>

lemma released_slot_claimed_again:
  "(case run_all [claim_next_loop_index (\<lambda>_. ''now'') ''7'' ''fetch'' 3 2 None,
             claim_next_loop_index (\<lambda>_. ''now'') ''7'' ''fetch'' 3 2 None,
             release_loop_slot (\<lambda>_. ''now'') ''7'' ''fetch'' None,
             claim_next_loop_index (\<lambda>_. ''now'') ''7'' ''fetch'' 3 2 None] demo_kv of
      Inr (rs, _) \<Rightarrow> rs = [VInt 0, VInt 1, VBool True, VInt 1] | Inl _ \<Rightarrow> False)"
  by code_simp

text \<open>A claim that loses five swaps to completions gives up although slots are free.\<close>

lemma contended_claim_gives_up:
  "results (run_schedule [0, 1, 1, 0, 0, 2, 2, 0, 0, 3, 3, 0, 0, 4, 4, 0, 0, 5, 5, 0]
     (loop_system (\<lambda>_ _. ''now'') ''7'' ''fetch'' None 100
        [ClaimNext 50, Complete, Complete, Complete, Complete, Complete], demo_kv)) ! 0 = Some VNone"
  by code_simp

text \<open>Two observers of the first terminal event of an item are both told they recorded it.\<close>

lemma terminal_recorded_twice:
  "results (run_schedule [0, 1, 0, 1, 0, 1]
     ([try_record_loop_iteration_terminal (\<lambda>_. ''now'') ''7'' ''fetch'' 0 None None ''completed'' VNone VNone,
       try_record_loop_iteration_terminal (\<lambda>_. ''now'') ''7'' ''fetch'' 0 None None ''completed'' VNone VNone],
      demo_kv)) = [Some (VBool True), Some (VBool True)]"
  by code_simp

text \<open>
  The prefix of a step's items ends without its separator, so the items of a step whose name
  extends it are counted as its own.
\<close>

lemma items_of_other_step_counted:
  "(case run_all [mark_loop_iteration_terminal (\<lambda>_. ''now'') ''7'' ''fetch_all'' 0 None None ''completed'' [] VNone VNone,
             count_observed_loop_iteration_terminals ''7'' ''fetch'' None] demo_kv of
      Inr (rs, _) \<Rightarrow> rs = [VBool True, VInt 1] | Inl _ \<Rightarrow> False)"
  by code_simp

text \<open>\<open>add_loop_result\<close> on a missing key raises after its ten attempts instead of initializing it.\<close>

lemma add_result_missing_raises:
  "kv_get s (loop_key e step (Some ev)) = None \<Longrightarrow>
    run_prog (cache_add_loop_result clock e step ev result failed) s = Inl (KeyError ''nats: key not found'')"
proof -
  assume n: "kv_get s (loop_key e step (Some ev)) = None"
  have "run_prog (add_result_loop clock (loop_key e step (Some ev)) result failed (Suc t)) s
      = Inl (KeyError ''nats: key not found'')" for t
    by (induction t) (simp_all add: n)
  from this [of 9] show ?thesis by (simp add: cache_add_loop_result_def)
qed

end
