(* ===== verification/Error_Info.thy ===== *)
theory Error_Info
  imports Engine_Common
begin

text \<open>
  The classification of tool errors of \<^verbatim>\<open>noetl/core/errors.py\<close>: the categories a policy rule can
  match (\<open>ErrorKind\<close>), the error object with its dictionary form, and the classifiers of HTTP,
  connection, PostgreSQL, Python and storage errors. An exception is what the classifiers read of
  it: the name of its class, its text, a PostgreSQL code and, for a \<open>TaskSequenceError\<close>, the source
  and context it carries.
\<close>

datatype error_kind =
    CONNECTION | TIMEOUT | RATE_LIMIT | AUTH | NOT_FOUND | CLIENT_ERROR | SERVER_ERROR
  | SCHEMA | PARSE | TRANSFORM
  | DB_CONNECTION | DB_CONSTRAINT | DB_DEADLOCK | DB_TIMEOUT
  | STORAGE_QUOTA | STORAGE_ACCESS
  | UNKNOWN

fun kind_value :: "error_kind \<Rightarrow> string" where
  "kind_value CONNECTION = ''connection''"
| "kind_value TIMEOUT = ''timeout''"
| "kind_value RATE_LIMIT = ''rate_limit''"
| "kind_value AUTH = ''auth''"
| "kind_value NOT_FOUND = ''not_found''"
| "kind_value CLIENT_ERROR = ''client_error''"
| "kind_value SERVER_ERROR = ''server_error''"
| "kind_value SCHEMA = ''schema''"
| "kind_value PARSE = ''parse''"
| "kind_value TRANSFORM = ''transform''"
| "kind_value DB_CONNECTION = ''db_connection''"
| "kind_value DB_CONSTRAINT = ''db_constraint''"
| "kind_value DB_DEADLOCK = ''db_deadlock''"
| "kind_value DB_TIMEOUT = ''db_timeout''"
| "kind_value STORAGE_QUOTA = ''storage_quota''"
| "kind_value STORAGE_ACCESS = ''storage_access''"
| "kind_value UNKNOWN = ''unknown''"

record py_exc =
  ex_type :: string
  ex_text :: string
  ex_pgcode :: "string option"
  ex_sequence :: "(string \<times> pydict) option"

record error_info =
  ei_kind :: error_kind
  ei_retryable :: bool
  ei_code :: string
  ei_message :: string
  ei_source :: string
  ei_http_status :: "int option"
  ei_retry_after :: "int option"
  ei_pg_code :: "string option"
  ei_exception_type :: "string option"
  ei_details :: pydict

text \<open>\<open>ErrorInfo(kind=..., retryable=..., code=..., message=..., source=...)\<close>, the rest at its defaults.\<close>

definition error_of :: "error_kind \<Rightarrow> bool \<Rightarrow> string \<Rightarrow> string \<Rightarrow> string \<Rightarrow> error_info" where
  "error_of kind retryable code message source =
     \<lparr>ei_kind = kind, ei_retryable = retryable, ei_code = code, ei_message = message, ei_source = source,
      ei_http_status = None, ei_retry_after = None, ei_pg_code = None, ei_exception_type = None,
      ei_details = []\<rparr>"

definition optional_entry :: "string \<Rightarrow> ('a \<Rightarrow> pyval) \<Rightarrow> 'a option \<Rightarrow> pydict" where
  "optional_entry k enc x = (case x of None \<Rightarrow> [] | Some v \<Rightarrow> [(k, enc v)])"

definition error_to_dict :: "error_info \<Rightarrow> pydict" where
  "error_to_dict e =
     [(''kind'', VStr (kind_value (ei_kind e))), (''retryable'', VBool (ei_retryable e)),
      (''code'', VStr (ei_code e)), (''message'', VStr (ei_message e)), (''source'', VStr (ei_source e))]
     @ optional_entry ''http_status'' VInt (ei_http_status e)
     @ optional_entry ''retry_after'' VInt (ei_retry_after e)
     @ optional_entry ''pg_code'' VStr (ei_pg_code e)
     @ optional_entry ''exception_type'' VStr (ei_exception_type e)
     @ (if ei_details e \<noteq> [] then [(''details'', VDict (ei_details e))] else [])"

section \<open>HTTP and connection errors\<close>

definition message_or :: "string \<Rightarrow> string \<Rightarrow> string" where
  "message_or m dflt = (if m \<noteq> [] then m else dflt)"

text \<open>\<open>int(ra)\<close> with \<open>ValueError\<close> ignored; a \<open>TypeError\<close> is not.\<close>

definition read_retry_after :: "pydict \<Rightarrow> int option res" where
  "read_retry_after headers =
     (let ra = py_or (py_get headers ''retry-after'') (py_get headers ''Retry-After'') in
      if truthy ra then
        (case py_int ra of Inr i \<Rightarrow> Inr (Some i) | Inl (ValueError _) \<Rightarrow> Inr None | Inl e \<Rightarrow> Inl e)
      else Inr None)"

text \<open>The status is a number here; \<open>text\<close> is its \<open>str\<close>.\<close>

definition classify_http_error :: "int \<Rightarrow> string \<Rightarrow> string \<Rightarrow> pydict \<Rightarrow> error_info res" where
  "classify_http_error status text message headers =
     rbind (read_retry_after headers) (\<lambda>retry_after.
     (let e = (\<lambda>kind retryable dflt.
           (error_of kind retryable (''HTTP_'' @ text) (message_or message dflt) ''http'')
             \<lparr>ei_http_status := Some status\<rparr>) in
      Inr (if status = 429 then (e RATE_LIMIT True ''Too Many Requests'')\<lparr>ei_retry_after := retry_after\<rparr>
        else if status = 401 then e AUTH False ''Unauthorized''
        else if status = 403 then e AUTH False ''Forbidden''
        else if status = 404 then e NOT_FOUND False ''Not Found''
        else if 400 \<le> status \<and> status < 500 then e CLIENT_ERROR False (''Client Error '' @ text)
        else if status \<in> {500, 502, 503, 504}
          then (e SERVER_ERROR True (''Server Error '' @ text))\<lparr>ei_retry_after := retry_after\<rparr>
        else if 500 \<le> status then e SERVER_ERROR True (''Server Error '' @ text)
        else e UNKNOWN False (''HTTP Error '' @ text))))"

definition classify_connection_error :: "py_exc \<Rightarrow> string \<Rightarrow> error_info" where
  "classify_connection_error ex source =
     (let s = lower (ex_text ex) in
      if contains s ''timeout'' then error_of TIMEOUT True ''CONN_TIMEOUT'' (ex_text ex) source
      else if contains s ''connection refused''
        then error_of CONNECTION True ''CONN_REFUSED'' (ex_text ex) source
      else if contains s ''dns'' \<or> contains s ''resolve''
        then error_of CONNECTION True ''DNS_ERROR'' (ex_text ex) source
      else error_of CONNECTION True ''CONN_ERROR'' (ex_text ex) source)"

section \<open>Database, Python and storage errors\<close>

definition nonempty :: "string option \<Rightarrow> bool" where
  "nonempty x = (case x of None \<Rightarrow> False | Some s \<Rightarrow> s \<noteq> [])"

definition code_starts :: "string option \<Rightarrow> string \<Rightarrow> bool" where
  "code_starts x p = (case x of None \<Rightarrow> False | Some s \<Rightarrow> s \<noteq> [] \<and> startswith s p)"

definition classify_postgres_error :: "py_exc \<Rightarrow> string option \<Rightarrow> error_info" where
  "classify_postgres_error ex error_code =
     (let s = lower (ex_text ex);
          pg = (if nonempty error_code then error_code
                else if ex_pgcode ex \<noteq> None then ex_pgcode ex else error_code);
          code = (if nonempty pg then ''PG_'' @ the pg else ''PG_UNKNOWN'');
          e = (\<lambda>kind retryable. (error_of kind retryable code (ex_text ex) ''postgres'')\<lparr>ei_pg_code := pg\<rparr>) in
      if contains s ''deadlock'' \<or> pg = Some ''40001'' \<or> pg = Some ''40P01'' then e DB_DEADLOCK True
      else if contains s ''unique'' \<or> contains s ''duplicate'' \<or> code_starts pg ''23''
        then e DB_CONSTRAINT False
      else if contains s ''connection'' \<or> code_starts pg ''08'' then e DB_CONNECTION True
      else if contains s ''timeout'' \<or> pg = Some ''57014'' then e DB_TIMEOUT True
      else e UNKNOWN False)"

definition classify_python_error :: "py_exc \<Rightarrow> error_info" where
  "classify_python_error ex =
     (let s = lower (ex_text ex); t = ex_type ex;
          e = (\<lambda>kind retryable code. (error_of kind retryable code (ex_text ex) ''python'')
                 \<lparr>ei_exception_type := Some t\<rparr>) in
      if contains s ''json'' \<or> t = ''JSONDecodeError'' then e PARSE False (''PY_'' @ t)
      else if t \<in> {''TypeError'', ''ValueError'', ''ValidationError''} then e SCHEMA False (''PY_'' @ t)
      else if t \<in> {''KeyError'', ''IndexError''} then e SCHEMA False (''PY_'' @ t)
      else if contains s ''timeout'' then e TIMEOUT True ''PY_TIMEOUT''
      else e UNKNOWN False (''PY_'' @ t))"

definition classify_storage_error :: "py_exc \<Rightarrow> string \<Rightarrow> error_info" where
  "classify_storage_error ex source =
     (let s = lower (ex_text ex); e = (\<lambda>kind retryable code. error_of kind retryable code (ex_text ex) source) in
      if contains s ''quota'' \<or> contains s ''limit'' then e STORAGE_QUOTA False ''STORAGE_QUOTA''
      else if contains s ''permission'' \<or> contains s ''access'' \<or> contains s ''forbidden''
        then e STORAGE_ACCESS False ''STORAGE_ACCESS''
      else if contains s ''timeout'' then e TIMEOUT True ''STORAGE_TIMEOUT''
      else if contains s ''connection'' then e CONNECTION True ''STORAGE_CONN''
      else e UNKNOWN True ''STORAGE_ERROR'')"

text \<open>
  \<open>classify_error\<close>. A status that is no number fails in the comparisons of the HTTP classifier, and
  headers that are truthy and no dictionary in \<open>headers.get\<close>.
\<close>

definition headers_of :: "pyval \<Rightarrow> pydict res" where
  "headers_of v =
     (if truthy v then (case v of VDict d \<Rightarrow> Inr d | _ \<Rightarrow> Inl (TypeError ''headers has no get'')) else Inr [])"

definition classify_error :: "py_exc \<Rightarrow> string \<Rightarrow> pydict \<Rightarrow> error_info res" where
  "classify_error ex source context =
     (if source = ''http'' then
        (let status = py_get_default context ''status_code'' (VInt 0) in
         if truthy status then
           rbind (headers_of (py_get context ''headers'')) (\<lambda>headers.
           rbind (py_num status) (\<lambda>n. classify_http_error n (py_str status) (ex_text ex) headers))
         else Inr (classify_connection_error ex ''http''))
      else if source = ''postgres'' then Inr (classify_postgres_error ex (str_opt (py_get context ''error_code'')))
      else if source = ''python'' then Inr (classify_python_error ex)
      else if source = ''gcs'' \<or> source = ''s3'' then Inr (classify_storage_error ex source)
      else Inr (error_of UNKNOWN False ''UNKNOWN'' (ex_text ex) source))"

section \<open>Facts\<close>

lemma http_retryable:
  "classify_http_error status text message headers = Inr e \<Longrightarrow>
    ei_retryable e = (status = 429 \<or> 500 \<le> status) \<and> ei_http_status e = Some status"
  by (auto simp: classify_http_error_def Let_def error_of_def rbind_Inr_iff split: if_splits)

lemma kind_value_inject: "kind_value a = kind_value b \<longleftrightarrow> a = b"
  by (cases a; cases b; simp)

end
