(* ===== verification/Task_Sequence.thy ===== *)
theory Task_Sequence
  imports Complex_Main Error_Info
begin

text \<open>
  The task-sequence executor of \<^verbatim>\<open>noetl/worker/task_sequence_executor.py\<close>: parsing the tasks, the
  output envelope a policy rule reads, policy rules and control actions, and the loop that runs the
  tasks with retries, jumps, breaks and failures. Tools, template rendering and the clock are the
  environment (\<open>ts_env\<close>); each execution of a tool has a number, so that a tool may answer
  differently every time. Logging and sleeping are left out (the delay is computed, since computing
  it can raise). Task names and set keys are strings, as the playbook model requires; \<open>inf\<close> and
  \<open>nan\<close> are not among the delays.
\<close>

section \<open>Numbers with a fraction\<close>

definition digits_value :: "string \<Rightarrow> (nat \<times> nat) option" where
  "digits_value s =
     (case parse_digits 0 False s of None \<Rightarrow> None
      | Some n \<Rightarrow> Some (n, length (filter (\<lambda>c. c \<noteq> CHR ''_'') s)))"

definition signed :: "string \<Rightarrow> rat \<times> string" where
  "signed s =
     (case s of c # cs \<Rightarrow> if c = CHR ''-'' then (-1, cs) else if c = CHR ''+'' then (1, cs) else (1, s)
      | [] \<Rightarrow> (1, s))"

definition parse_mantissa :: "string \<Rightarrow> rat option" where
  "parse_mantissa s =
     (case split_once (CHR ''.'') s of
        None \<Rightarrow> map_option (\<lambda>(n, _). of_nat n) (digits_value s)
      | Some (a, b) \<Rightarrow>
          (if a = [] \<and> b = [] then None
           else (case (if a = [] then Some (0, 0) else digits_value a,
                       if b = [] then Some (0, 0) else digits_value b) of
               (Some (n, _), Some (f, k)) \<Rightarrow> Some (of_nat n + of_nat f / 10 ^ k)
             | _ \<Rightarrow> None)))"

definition parse_exponent :: "string \<Rightarrow> rat option" where
  "parse_exponent s =
     (case signed s of (sg, t) \<Rightarrow>
        (case digits_value t of None \<Rightarrow> None
         | Some (n, _) \<Rightarrow> Some (if sg < 0 then 1 / 10 ^ n else 10 ^ n)))"

text \<open>\<open>float(s)\<close> on the decimal literals it accepts.\<close>

definition parse_float :: "string \<Rightarrow> rat option" where
  "parse_float s =
     (case signed (lower (strip s)) of (sg, t) \<Rightarrow>
        (case split_once (CHR ''e'') t of
           None \<Rightarrow> map_option (\<lambda>m. sg * m) (parse_mantissa t)
         | Some (m, e) \<Rightarrow>
             (case (parse_mantissa m, parse_exponent e) of
                (Some a, Some b) \<Rightarrow> Some (sg * a * b)
              | _ \<Rightarrow> None)))"

section \<open>Context, control actions and the environment\<close>

record ts_timing =
  tg_name :: string
  tg_kind :: string
  tg_attempt :: int
  tg_status :: string
  tg_duration_ms :: int
  tg_render_ms :: int
  tg_tool_ms :: int

record ts_context =
  tc_task :: string
  tc_prev :: pyval
  tc_attempt :: int
  tc_output :: pydict
  tc_results :: pydict
  tc_ctx :: pydict
  tc_iter :: pydict
  tc_timings :: "ts_timing list"

text \<open>A delay read from a rule: a number, or a value that is none.\<close>

datatype delay = Seconds rat | NotANumber

record control_action =
  ca_action :: pyval
  ca_to :: pyval
  ca_attempts :: pyval
  ca_backoff :: pyval
  ca_delay :: delay
  ca_set :: pyval

definition plain_action :: "string \<Rightarrow> control_action" where
  "plain_action a =
     \<lparr>ca_action = VStr a, ca_to = VNone, ca_attempts = VInt 3, ca_backoff = VStr ''none'',
      ca_delay = Seconds 1, ca_set = VNone\<rparr>"

record ts_env =
  te_tool :: "nat \<Rightarrow> pyval \<Rightarrow> pyval \<Rightarrow> pydict \<Rightarrow> py_exc + pyval"
  te_template :: "pyval \<Rightarrow> pydict \<Rightarrow> py_exc + pyval"
  te_render_dict :: "pydict \<Rightarrow> pydict \<Rightarrow> py_exc + pyval"
  te_ms :: "nat \<Rightarrow> int \<times> int \<times> int"

definition initial_context :: ts_context where
  "initial_context =
     \<lparr>tc_task = [], tc_prev = VNone, tc_attempt = 1, tc_output = [], tc_results = [], tc_ctx = [],
      tc_iter = [], tc_timings = []\<rparr>"

definition output_view :: "pydict \<Rightarrow> pydict" where
  "output_view out =
     [(''status'', py_get_default out ''status'' (VStr ''ok'')), (''data'', py_get out ''data''),
      (''ref'', py_get out ''ref''), (''error'', py_get out ''error'')]
     @ map (\<lambda>k. (k, py_get out k)) (filter (has_key out) [''http'', ''pg'', ''py'', ''meta''])"

definition context_to_dict :: "ts_context \<Rightarrow> pydict" where
  "context_to_dict c =
     [(''_task'', VStr (tc_task c)), (''_prev'', tc_prev c), (''_attempt'', VInt (tc_attempt c)),
      (''output'', VDict (if tc_output c = [] then [] else output_view (tc_output c))),
      (''results'', VDict (tc_results c)), (''ctx'', VDict (tc_ctx c)), (''iter'', VDict (tc_iter c))]"

definition update_success :: "string \<Rightarrow> pyval \<Rightarrow> pydict \<Rightarrow> ts_context \<Rightarrow> ts_context" where
  "update_success name result out c =
     c\<lparr>tc_prev := result, tc_task := name, tc_output := out,
       tc_results := AList.update name result (tc_results c)\<rparr>"

definition update_error :: "string \<Rightarrow> pydict \<Rightarrow> ts_context \<Rightarrow> ts_context" where
  "update_error name out c = c\<lparr>tc_task := name, tc_output := out\<rparr>"

section \<open>The output envelope\<close>

definition normalize_http_status :: "pyval \<Rightarrow> pyval" where
  "normalize_http_status v =
     (case v of
        VStr s \<Rightarrow>
          if isdigit s then (case py_int (VStr s) of Inr i \<Rightarrow> VInt i | Inl _ \<Rightarrow> v)
          else if startswith s ''HTTP_'' \<and> isdigit (drop 5 s)
            then (case py_int (VStr (drop 5 s)) of Inr i \<Rightarrow> VInt i | Inl _ \<Rightarrow> v)
          else v
      | _ \<Rightarrow> v)"

text \<open>The tool-specific part; \<open>error\<close> is \<open>None\<close> for a result.\<close>

definition tool_helpers :: "pyval \<Rightarrow> pyval \<Rightarrow> pydict option \<Rightarrow> pydict" where
  "tool_helpers kind result error =
     (let e = (case error of Some d \<Rightarrow> d | None \<Rightarrow> []); some = (e \<noteq> []) in
      if kind = VStr ''http'' then
        (let r = dict_or_empty result;
             status = py_or (py_get r ''status_code'') (py_get r ''status'');
             status' = (if some then py_or (py_or (py_get e ''status_code'') (py_get e ''code'')) status
                        else status) in
         [(''http'', VDict [(''status'', normalize_http_status status'),
            (''headers'', if is_dict result then py_get_default r ''headers'' (VDict []) else VDict [])])])
      else if kind = VStr ''postgres'' then
        [(''pg'', VDict (if some then [(''code'', py_get e ''code''), (''sqlstate'', py_get e ''sqlstate'')] else []))]
      else if kind = VStr ''python'' then
        [(''py'', VDict (if some then [(''exception'', py_get e ''exception''),
                                      (''traceback'', py_get e ''traceback'')] else []))]
      else [])"

definition unknown_error :: pydict where
  "unknown_error =
     [(''kind'', VStr ''unknown''), (''retryable'', VBool False), (''message'', VStr ''Unknown error'')]"

definition build_outcome ::
  "string \<Rightarrow> pyval \<Rightarrow> pydict option \<Rightarrow> pyval \<Rightarrow> int \<Rightarrow> int \<Rightarrow> pydict res" where
  "build_outcome status result error kind duration_ms attempt =
     (if status = ''success'' then Inl (ValueError ''Canonical v10 requires status=ok, not success'')
      else if status \<noteq> ''ok'' \<and> status \<noteq> ''error'' then Inl (ValueError ''Invalid output status'')
      else Inr ([(''status'', VStr status),
          (''meta'', VDict [(''attempt'', VInt attempt), (''duration_ms'', VInt duration_ms)]),
          (if status = ''ok'' then (''data'', result)
           else (''error'', VDict (case error of Some (x # xs) \<Rightarrow> x # xs | _ \<Rightarrow> unknown_error)))]
        @ tool_helpers kind result error))"

section \<open>Errors of a task\<close>

definition is_missing_reference :: "string \<Rightarrow> bool" where
  "is_missing_reference message =
     (let text = lower message in
      ((\<exists>w \<in> {''result_ref'', ''_ref'', ''reference'', ''data_reference'', ''artifact''}. word_in w False text)
        \<or> contains text ''noetl://'') \<and>
      (\<exists>m \<in> {''not found'', ''missing'', ''no message found'', ''keyerror'', ''filenotfounderror'',
             ''does not exist''}. contains text m))"

definition missing_reference_code :: string where
  "missing_reference_code = ''REFERENCE_NOT_AVAILABLE''"

definition recovery_to :: "string \<Rightarrow> pyval" where
  "recovery_to previous = VDict [(''do'', VStr ''jump''), (''to'', VStr previous)]"

text \<open>The status code of an error result: an integer, or a string that reads as one.\<close>

definition result_status_code :: "pydict \<Rightarrow> pyval" where
  "result_status_code r =
     (let raw0 = py_get r ''status_code'';
          raw = (if raw0 = VNone then
                   (case py_get r ''data'' of
                      VDict d \<Rightarrow> py_or (py_get d ''status_code'') (py_get d ''status'')
                    | _ \<Rightarrow> raw0)
                 else raw0) in
      case raw of
        VInt i \<Rightarrow> VInt i
      | VBool b \<Rightarrow> VBool b
      | VStr s \<Rightarrow> (case py_int (VStr s) of Inr i \<Rightarrow> VInt i | Inl _ \<Rightarrow> VNone)
      | _ \<Rightarrow> VNone)"

definition at_least_500 :: "pyval \<Rightarrow> bool" where
  "at_least_500 v = (case v of VInt i \<Rightarrow> 500 \<le> i | _ \<Rightarrow> False)"

definition result_error :: "string option \<Rightarrow> pydict \<Rightarrow> pydict" where
  "result_error previous r =
     (let status = result_status_code r;
          code0 = py_get r ''code'';
          code = (if code0 = VNone \<and> status \<noteq> VNone then VStr (''HTTP_'' @ py_str status) else code0);
          retry0 = py_get r ''retryable'';
          retryable = (if retry0 = VNone then status = VInt 429 \<or> at_least_500 status else truthy retry0);
          message = py_or (py_get r ''error'')
                      (py_get_default r ''message'' (VStr ''Tool returned error status''));
          info = [(''kind'', py_get_default r ''error_kind'' (VStr ''tool_error'')),
                  (''retryable'', VBool retryable), (''code'', code), (''status_code'', status),
                  (''message'', message)] in
      if is_missing_reference (if truthy message then py_str message else []) then
        AList.update ''code'' (VStr missing_reference_code)
          (AList.update ''retryable'' (VBool True)
            (AList.update ''kind'' (VStr ''missing_reference'') info))
        @ (case previous of Some p \<Rightarrow> if p \<noteq> [] then [(''recovery'', recovery_to p)] else [] | None \<Rightarrow> [])
      else info)"

text \<open>A tool kind that is no string is refused by the error model.\<close>

definition classify_task_error :: "py_exc \<Rightarrow> pyval \<Rightarrow> string option \<Rightarrow> error_info res" where
  "classify_task_error ex kind previous =
     (if is_missing_reference (ex_text ex) then
        (case kind of
           VStr k \<Rightarrow>
             Inr ((error_of UNKNOWN True missing_reference_code (ex_text ex) k)
               \<lparr>ei_details := (case previous of Some p \<Rightarrow> if p \<noteq> [] then [(''recovery'', recovery_to p)] else []
                               | None \<Rightarrow> [])\<rparr>)
         | _ \<Rightarrow> Inl (ValueError ''source should be a valid string''))
      else (case ex_sequence ex of
          Some (source, context) \<Rightarrow>
            classify_error ex source
              (if context \<noteq> [] then [(''status_code'', py_get context ''status_code''),
                                   (''headers'', py_get context ''headers'')] else [])
        | None \<Rightarrow>
            (case kind of VStr k \<Rightarrow> classify_error ex k []
             | _ \<Rightarrow> Inl (ValueError ''source should be a valid string''))))"

section \<open>Policy rules\<close>

definition delay_of :: "pyval \<Rightarrow> delay" where
  "delay_of v =
     (case v of
        VInt i \<Rightarrow> Seconds (of_int i)
      | VBool b \<Rightarrow> Seconds (if b then 1 else 0)
      | VStr s \<Rightarrow> Seconds (case parse_float s of Some r \<Rightarrow> r | None \<Rightarrow> 1)
      | _ \<Rightarrow> NotANumber)"

definition parse_then :: "pyval \<Rightarrow> control_action res" where
  "parse_then v =
     (case v of
        VDict d \<Rightarrow>
          (if has_key d ''set_vars'' then Inl (ValueError ''set_vars is not allowed'')
           else if \<not> has_key d ''do'' then Inl (ValueError ''then must have a do field'')
           else Inr \<lparr>ca_action = py_get d ''do'', ca_to = py_get d ''to'',
             ca_attempts = py_get_default d ''attempts'' (VInt 3),
             ca_backoff = py_get_default d ''backoff'' (VStr ''none''),
             ca_delay = (if has_key d ''delay'' then delay_of (py_get d ''delay'') else Seconds 1),
             ca_set = py_get d ''set''\<rparr>)
      | _ \<Rightarrow> Inl (ValueError ''then must be an object''))"

definition default_action :: "pydict \<Rightarrow> control_action" where
  "default_action out =
     (if out \<noteq> [] \<and> py_get out ''status'' = VStr ''error'' then plain_action ''fail'' else plain_action ''continue'')"

definition is_value_error :: "py_exc \<Rightarrow> bool" where
  "is_value_error ex =
     (ex_type ex \<in> {''ValueError'', ''JSONDecodeError'', ''UnicodeDecodeError'', ''UnicodeEncodeError'',
        ''ValidationError''})"

text \<open>Whether a condition holds; \<open>None\<close> when evaluating it failed and the rule is skipped.\<close>

definition condition_matches :: "ts_env \<Rightarrow> pydict \<Rightarrow> pyval \<Rightarrow> bool option res" where
  "condition_matches env rc cond =
     (case cond of
        VBool b \<Rightarrow> Inr (Some b)
      | _ \<Rightarrow>
          (case te_template env cond rc of
             Inl ex \<Rightarrow> if is_value_error ex then Inl (ValueError (ex_text ex)) else Inr None
           | Inr (VBool b) \<Rightarrow> Inr (Some b)
           | Inr v \<Rightarrow> Inr (Some (lower (py_str v) \<in> {''true'', ''1'', ''yes''}))))"

fun eval_rules :: "ts_env \<Rightarrow> pydict \<Rightarrow> pydict \<Rightarrow> pyval list \<Rightarrow> control_action res" where
  "eval_rules env rc out [] = Inr (default_action out)"
| "eval_rules env rc out (VDict rule # rules) =
     (if has_key rule ''else'' then
        (case py_get rule ''else'' of
           VDict e \<Rightarrow> if has_key e ''then'' then parse_then (py_get e ''then'') else eval_rules env rc out rules
         | _ \<Rightarrow> eval_rules env rc out rules)
      else if has_key rule ''expr'' then Inl (ValueError ''expr is not allowed'')
      else if py_get rule ''when'' = VNone then
        (if has_key rule ''then'' then parse_then (py_get rule ''then'') else eval_rules env rc out rules)
      else
        rbind (condition_matches env rc (py_get rule ''when'')) (\<lambda>m.
          if m = Some True then
            (if has_key rule ''then'' then parse_then (py_get rule ''then'')
             else Inl (ValueError ''a rule with when must have then''))
          else eval_rules env rc out rules))"
| "eval_rules env rc out (_ # rules) = eval_rules env rc out rules"

text \<open>\<open>for rule in policy_rules\<close> when they are truthy.\<close>

definition iterate :: "pyval \<Rightarrow> pyval list res" where
  "iterate v =
     (case v of
        VList xs \<Rightarrow> Inr xs
      | VStr s \<Rightarrow> Inr (map (\<lambda>c. VStr [c]) s)
      | VDict d \<Rightarrow> Inr (map (VStr \<circ> fst) d)
      | _ \<Rightarrow> Inl (TypeError ''object is not iterable''))"

definition evaluate_policy_rules :: "ts_env \<Rightarrow> pyval \<Rightarrow> pydict \<Rightarrow> pydict \<Rightarrow> control_action res" where
  "evaluate_policy_rules env rules rc out =
     (if \<not> truthy rules then Inr (default_action out)
      else rbind (iterate rules) (eval_rules env rc out))"

definition calculate_delay :: "control_action \<Rightarrow> int \<Rightarrow> rat res" where
  "calculate_delay action attempt =
     (if ca_backoff action = VStr ''none'' then Inr 0
      else (case ca_delay action of
          NotANumber \<Rightarrow> Inl (TypeError ''delay is not a number'')
        | Seconds d \<Rightarrow>
            Inr (if ca_backoff action = VStr ''linear'' then d * of_int attempt
                 else if ca_backoff action = VStr ''exponential'' then d * 2 ^ nat (attempt - 1)
                 else d)))"

section \<open>Parsing the tasks\<close>

record ts_task =
  tt_name :: string
  tt_config :: pydict
  tt_rules :: pyval

definition rules_of :: "pydict \<Rightarrow> pyval" where
  "rules_of config =
     (case py_get config ''spec'' of
        VDict spec \<Rightarrow>
          (case py_get spec ''policy'' of
             VDict policy \<Rightarrow> py_get_default policy ''rules'' (VList [])
           | _ \<Rightarrow> VList [])
      | _ \<Rightarrow> VList [])"

definition make_task :: "string \<Rightarrow> pydict \<Rightarrow> ts_task res" where
  "make_task name config =
     (if has_key config ''eval'' then Inl (ValueError ''eval is not allowed'')
      else Inr \<lparr>tt_name = name, tt_config = config, tt_rules = rules_of config\<rparr>)"

definition parse_task :: "nat \<Rightarrow> pyval \<Rightarrow> ts_task res" where
  "parse_task idx v =
     (case v of
        VDict d \<Rightarrow>
          (if has_key d ''name'' \<and> has_key d ''kind'' then
             make_task (py_str (py_get d ''name'')) (filter (\<lambda>(k, _). k \<noteq> ''name'') d)
           else if has_key d ''kind'' then make_task (''task_'' @ show_nat idx) d
           else Inl (ValueError ''Invalid format''))
      | _ \<Rightarrow> Inl (ValueError ''Task must be a dict''))"

definition parse_tasks :: "pyval list \<Rightarrow> ts_task list res" where
  "parse_tasks tasks = rmap (\<lambda>(i, v). parse_task i v) (zip [0..<length tasks] tasks)"

definition is_task_item :: "pyval \<Rightarrow> bool" where
  "is_task_item v = (case v of VDict d \<Rightarrow> has_key d ''kind'' | _ \<Rightarrow> False)"

definition is_task_sequence :: "pyval \<Rightarrow> bool" where
  "is_task_sequence v = (case v of VList xs \<Rightarrow> list_ex is_task_item xs | _ \<Rightarrow> False)"

definition extract_task_sequence :: "pyval list \<Rightarrow> pyval list \<times> pyval list" where
  "extract_task_sequence xs =
     (filter is_task_item xs, filter (\<lambda>v. is_dict v \<and> \<not> is_task_item v) xs)"

section \<open>Metrics\<close>

definition add_slot :: "ts_timing \<Rightarrow> pyval \<Rightarrow> pyval" where
  "add_slot t slot =
     (let d = dict_or_empty slot;
          n = (\<lambda>k. case py_get d k of VInt i \<Rightarrow> i | _ \<Rightarrow> 0) in
      VDict [(''count'', VInt (n ''count'' + 1)),
        (''error_count'', VInt (n ''error_count'' + (if tg_status t = ''error'' then 1 else 0))),
        (''duration_ms'', VInt (n ''duration_ms'' + tg_duration_ms t)),
        (''render_ms'', VInt (n ''render_ms'' + tg_render_ms t)),
        (''tool_ms'', VInt (n ''tool_ms'' + tg_tool_ms t))])"

definition bucket_by :: "(ts_timing \<Rightarrow> string) \<Rightarrow> ts_timing list \<Rightarrow> pydict" where
  "bucket_by key ts =
     foldl (\<lambda>b t. AList.update (key t) (add_slot t (py_get b (key t))) b) [] ts"

definition timing_dict :: "ts_timing \<Rightarrow> pyval" where
  "timing_dict t =
     VDict [(''name'', VStr (tg_name t)), (''kind'', VStr (tg_kind t)), (''attempt'', VInt (tg_attempt t)),
       (''status'', VStr (tg_status t)), (''duration_ms'', VInt (tg_duration_ms t)),
       (''render_ms'', VInt (tg_render_ms t)), (''tool_ms'', VInt (tg_tool_ms t))]"

definition or_unknown :: "string \<Rightarrow> string" where
  "or_unknown s = (if s \<noteq> [] then s else ''unknown'')"

definition build_metrics :: "ts_context \<Rightarrow> pyval" where
  "build_metrics c =
     (let ts = tc_timings c in
      VDict [(''task_count'', VInt (int (length ts))),
        (''duration_ms'', VInt (sum_list (map tg_duration_ms ts))),
        (''render_ms'', VInt (sum_list (map tg_render_ms ts))),
        (''tool_ms'', VInt (sum_list (map tg_tool_ms ts))),
        (''by_kind'', VDict (bucket_by (or_unknown \<circ> tg_kind) ts)),
        (''by_name'', VDict (bucket_by (or_unknown \<circ> tg_name) ts)),
        (''tasks'', VList (map timing_dict ts))])"

definition quoted :: "string \<Rightarrow> string" where
  "quoted s = [CHR 0x27] @ s @ [CHR 0x27]"

section \<open>Breaks without progress\<close>

definition patient_count_keys :: "string list" where
  "patient_count_keys =
     [''patient_count'', ''patients_count'', ''active_patient_count'', ''active_patients_count'',
      ''total_patient_count'', ''total_patients'', ''patient_total'']"

definition coerce_positive_int :: "pyval \<Rightarrow> int option" where
  "coerce_positive_int v =
     (case v of
        VInt i \<Rightarrow> if 0 < i then Some i else None
      | VStr s \<Rightarrow>
          (let raw = strip s in
           if isdigit raw then (case py_int (VStr raw) of Inr i \<Rightarrow> if 0 < i then Some i else None | Inl _ \<Rightarrow> None)
           else None)
      | _ \<Rightarrow> None)"

definition max_opt :: "int option \<Rightarrow> int option \<Rightarrow> int option" where
  "max_opt a b =
     (case b of None \<Rightarrow> a | Some y \<Rightarrow> Some (case a of None \<Rightarrow> max 0 y | Some x \<Rightarrow> max x y))"

fun extract_patient_count :: "nat \<Rightarrow> pyval \<Rightarrow> int option" where
  "extract_patient_count depth (VDict d) =
     (if 8 < depth then None
      else foldl max_opt
        (foldl max_opt None
          (map (\<lambda>(k, v). if lower (strip k) \<in> set patient_count_keys then coerce_positive_int v else None) d))
        (map (\<lambda>(k, v). extract_patient_count (Suc depth) v) d))"
| "extract_patient_count depth (VList xs) =
     (if 8 < depth then None
      else foldl max_opt None (map (extract_patient_count (Suc depth)) xs))"
| "extract_patient_count depth _ = None"

definition extract_task_name :: "nat \<Rightarrow> pyval \<Rightarrow> string" where
  "extract_task_name idx v =
     (case v of
        VDict d \<Rightarrow>
          (case py_get d ''name'' of
             VStr n \<Rightarrow> if strip n \<noteq> [] then strip n else ''task_'' @ show_nat idx
           | _ \<Rightarrow> ''task_'' @ show_nat idx)
      | _ \<Rightarrow> ''task_'' @ show_nat idx)"

definition task_names :: "pyval list \<Rightarrow> string list" where
  "task_names ts = map (\<lambda>(i, v). extract_task_name i v) (zip [0..<length ts] ts)"

definition looks_like_pagination_break :: "pyval list \<Rightarrow> bool" where
  "looks_like_pagination_break remaining =
     (let names = map (lower \<circ> strip) (task_names remaining) in
      remaining \<noteq> [] \<and> ''paginate'' \<in> set names \<and> (''fetch_page'' \<in> set names \<or> ''save_page'' \<in> set names))"

definition no_progress_error :: "string \<Rightarrow> pydict \<Rightarrow> pyval list \<Rightarrow> pydict \<Rightarrow> pyval option" where
  "no_progress_error name base remaining results =
     (if set (map fst results) \<noteq> {''init_page''} then None
      else if \<not> looks_like_pagination_break remaining then None
      else (case extract_patient_count 0 (VDict base) of
          None \<Rightarrow> None
        | Some n \<Rightarrow>
            Some (VDict [(''kind'', VStr ''logic''), (''code'', VStr ''TASK_SEQUENCE_NO_PROGRESS''),
              (''retryable'', VBool False),
              (''message'', VStr (''Task sequence broke at '' @ quoted name @
                 '' without page fetch progress while patient_count='' @ show_int n)),
              (''details'', VDict [(''patient_count'', VInt n),
                 (''remaining_tasks'', VList (map VStr (task_names remaining)))])])))"

section \<open>One task\<close>

record ts_state =
  ts_idx :: nat
  ts_cx :: ts_context
  ts_retries :: "(string \<times> int) list"
  ts_calls :: nat

definition retry_count :: "ts_state \<Rightarrow> string \<Rightarrow> int" where
  "retry_count st name = (case map_of (ts_retries st) name of None \<Rightarrow> 0 | Some n \<Rightarrow> n)"

text \<open>\<open>{**base.get(k, {}), **over}\<close>\<close>

definition merged_scope :: "pydict \<Rightarrow> string \<Rightarrow> pydict \<Rightarrow> pydict res" where
  "merged_scope base k over =
     (case py_get_default base k (VDict []) of
        VDict d \<Rightarrow> Inr (dict_merge d over)
      | _ \<Rightarrow> Inl (TypeError ''object is not a mapping''))"

definition render_context :: "pydict \<Rightarrow> ts_context \<Rightarrow> pydict res" where
  "render_context base c =
     rbind (merged_scope base ''ctx'' (tc_ctx c)) (\<lambda>cx.
     rbind (merged_scope base ''iter'' (tc_iter c)) (\<lambda>it.
       Inr (AList.update ''iter'' (VDict it) (AList.update ''ctx'' (VDict cx)
         (dict_merge (dict_merge base (tc_results c)) (context_to_dict c))))))"

definition config_to_render :: "pydict \<Rightarrow> pydict" where
  "config_to_render config = filter (\<lambda>(k, _). k \<notin> {''kind'', ''spec'', ''output''}) config"

text \<open>Rendering the configuration and executing the tool.\<close>

definition call_tool :: "ts_env \<Rightarrow> nat \<Rightarrow> pydict \<Rightarrow> pydict \<Rightarrow> py_exc + pyval" where
  "call_tool env n config rc =
     (let kind = py_get config ''kind''; c = config_to_render config in
      case (if kind = VStr ''noop'' \<or> c = [] then Inr (VDict c) else te_render_dict env c rc) of
        Inl ex \<Rightarrow> Inl ex
      | Inr rendered \<Rightarrow> te_tool env n kind rendered rc)"

definition timing_of :: "ts_env \<Rightarrow> nat \<Rightarrow> ts_task \<Rightarrow> pyval \<Rightarrow> int \<Rightarrow> string \<Rightarrow> ts_timing" where
  "timing_of env n t kind attempt status =
     (case te_ms env n of (render_ms, tool_ms, duration_ms) \<Rightarrow>
       \<lparr>tg_name = tt_name t,
        tg_kind = py_str kind,
        tg_attempt = attempt, tg_status = status, tg_duration_ms = duration_ms,
        tg_render_ms = render_ms, tg_tool_ms = tool_ms\<rparr>)"

definition is_error_result :: "pyval \<Rightarrow> bool" where
  "is_error_result v = (case v of VDict r \<Rightarrow> py_get r ''status'' = VStr ''error'' | _ \<Rightarrow> False)"

text \<open>The context after the tool answered, with the envelope and the timing recorded.\<close>

definition execute_task ::
  "ts_env \<Rightarrow> nat \<Rightarrow> ts_task \<Rightarrow> string option \<Rightarrow> pydict \<Rightarrow> ts_context \<Rightarrow> ts_context res" where
  "execute_task env n t previous rc c =
     (let kind = py_get (tt_config t) ''kind''; attempt = tc_attempt c;
          ms = (case te_ms env n of (_, _, d) \<Rightarrow> d);
          record_timing = (\<lambda>kd status c.
            c\<lparr>tc_timings := tc_timings c @ [timing_of env n t kd attempt status]\<rparr>);
          kind' = py_or kind (VStr ''unknown'');
          failed = (\<lambda>kd e. rbind (build_outcome ''error'' VNone (Some e) kind ms attempt) (\<lambda>out.
            Inr (record_timing kd ''error'' (update_error (tt_name t) out c)))) in
      case call_tool env n (tt_config t) rc of
        Inr result \<Rightarrow>
          if is_error_result result then failed kind' (result_error previous (dict_or_empty result))
          else rbind (build_outcome ''ok'' result None kind ms attempt) (\<lambda>out.
            Inr (record_timing kind' ''ok'' (update_success (tt_name t) result out c)))
      | Inl ex \<Rightarrow> rbind (classify_task_error ex kind previous) (\<lambda>e. failed kind (error_to_dict e)))"

text \<open>The context a policy rule is rendered with.\<close>

definition policy_context :: "pydict \<Rightarrow> ts_context \<Rightarrow> pydict" where
  "policy_context rc c =
     dict_merge rc (filter (\<lambda>(k, _). k \<notin> {''ctx'', ''iter''}) (context_to_dict c))"

definition apply_set :: "ts_env \<Rightarrow> pydict \<Rightarrow> ts_context \<Rightarrow> string \<times> pyval \<Rightarrow> ts_context" where
  "apply_set env rc c kv =
     (case kv of (key, raw) \<Rightarrow>
       (let v = (case raw of
                   VStr s \<Rightarrow> if contains s ''{{'' then (case te_template env raw rc of Inl _ \<Rightarrow> raw | Inr r \<Rightarrow> r)
                             else raw
                 | _ \<Rightarrow> raw);
            in_ctx = (\<lambda>k. c\<lparr>tc_ctx := AList.update k v (tc_ctx c)\<rparr>) in
        if startswith key ''ctx.'' then in_ctx (drop 4 key)
        else if startswith key ''iter.'' then c\<lparr>tc_iter := AList.update (drop 5 key) v (tc_iter c)\<rparr>
        else if startswith key ''step.'' then in_ctx (drop 5 key)
        else in_ctx key))"

definition apply_action_set :: "ts_env \<Rightarrow> pydict \<Rightarrow> control_action \<Rightarrow> ts_context \<Rightarrow> ts_context res" where
  "apply_action_set env rc action c =
     (if \<not> truthy (ca_set action) then Inr c
      else (case ca_set action of
          VDict d \<Rightarrow> Inr (foldl (apply_set env rc) c d)
        | _ \<Rightarrow> Inl (TypeError ''set has no items'')))"

section \<open>The loop\<close>

definition failed_result :: "ts_task \<Rightarrow> ts_context \<Rightarrow> pyval \<Rightarrow> pydict" where
  "failed_result t c error =
     [(''status'', VStr ''failed''), (''_prev'', tc_prev c), (''results'', VDict (tc_results c)),
      (''ctx'', VDict (tc_ctx c)), (''error'', error), (''failed_task'', VStr (tt_name t)),
      (''metrics'', build_metrics c)]"

definition config_error :: "string \<Rightarrow> pyval" where
  "config_error message = VDict [(''kind'', VStr ''config''), (''message'', VStr message)]"

definition break_result :: "ts_context \<Rightarrow> pyval list \<Rightarrow> pydict" where
  "break_result c remaining =
     [(''status'', VStr ''break''), (''_prev'', tc_prev c), (''results'', VDict (tc_results c)),
      (''ctx'', VDict (tc_ctx c)), (''remaining_actions'', VList remaining), (''metrics'', build_metrics c)]"

definition ok_result :: "ts_context \<Rightarrow> pydict" where
  "ok_result c =
     [(''status'', VStr ''ok''), (''_prev'', tc_prev c), (''results'', VDict (tc_results c)),
      (''ctx'', VDict (tc_ctx c)), (''metrics'', build_metrics c)]"

definition previous_targets :: "string list" where
  "previous_targets = [''previous'', ''prev'', ''_previous'', ''@previous'']"

text \<open>The index a jump goes to; an error value when it has no target.\<close>

fun index_of_task :: "ts_task list \<Rightarrow> pyval \<Rightarrow> nat option" where
  "index_of_task [] target = None"
| "index_of_task (t # ts) target =
     (if VStr (tt_name t) = target then Some 0 else map_option Suc (index_of_task ts target))"

definition jump_target :: "ts_task list \<Rightarrow> nat \<Rightarrow> pyval \<Rightarrow> pyval + nat" where
  "jump_target parsed idx target =
     (if \<not> truthy target then Inl (config_error (''Jump action missing '' @ quoted ''to'' @ '' target''))
      else if (case target of VStr s \<Rightarrow> lower (strip s) \<in> set previous_targets | _ \<Rightarrow> False) then
        (if idx = 0 then Inl (config_error (''Jump target '' @ quoted ''previous'' @ '' invalid for first task''))
         else Inr (idx - 1))
      else (case index_of_task parsed target of
          None \<Rightarrow> Inl (config_error (''Jump target '' @ quoted (py_str target) @ '' not found''))
        | Some i \<Rightarrow> Inr i))"

text \<open>
  The control action of the task at the index: the state the loop goes on with, or the result of the
  sequence. \<open>attempts\<close> is compared with a number, which raises for anything else.
\<close>

definition control ::
  "pyval list \<Rightarrow> ts_task list \<Rightarrow> pydict \<Rightarrow> ts_task \<Rightarrow> control_action \<Rightarrow> ts_state
     \<Rightarrow> (ts_state + pydict) res" where
  "control tasks parsed base t action st =
     (let c = ts_cx st; idx = ts_idx st; a = ca_action action;
          error = py_get (tc_output c) ''error'' in
      if a = VStr ''continue'' then Inr (Inl (st\<lparr>ts_idx := idx + 1\<rparr>))
      else if a = VStr ''retry'' then
        (let n = retry_count st (tt_name t) + 1;
             st' = st\<lparr>ts_retries := AList.update (tt_name t) n (ts_retries st)\<rparr> in
         rbind (py_num (ca_attempts action)) (\<lambda>most.
           if most \<le> n then Inr (Inr (failed_result t c error))
           else rbind (calculate_delay action n) (\<lambda>_. Inr (Inl st'))))
      else if a = VStr ''jump'' then
        (case jump_target parsed idx (ca_to action) of
           Inl e \<Rightarrow> Inr (Inr (failed_result t c e))
         | Inr i \<Rightarrow> Inr (Inl (st\<lparr>ts_idx := i\<rparr>)))
      else if a = VStr ''break'' then
        (let remaining = drop (idx + 1) tasks in
         case no_progress_error (tt_name t) base remaining (tc_results c) of
           Some e \<Rightarrow> Inr (Inr (failed_result t c e))
         | None \<Rightarrow> Inr (Inr (break_result c remaining)))
      else Inr (Inr (failed_result t c error)))"

text \<open>One turn of the loop at a task.\<close>

definition previous_name :: "ts_task list \<Rightarrow> nat \<Rightarrow> string option" where
  "previous_name parsed idx = (if 0 < idx then Some (tt_name (parsed ! (idx - 1))) else None)"

definition seq_step ::
  "ts_env \<Rightarrow> pyval list \<Rightarrow> ts_task list \<Rightarrow> pydict \<Rightarrow> ts_state \<Rightarrow> (ts_state + pydict) res" where
  "seq_step env tasks parsed base st =
     (let t = parsed ! ts_idx st;
          c0 = (ts_cx st)\<lparr>tc_task := tt_name t, tc_attempt := retry_count st (tt_name t) + 1\<rparr> in
      rbind (render_context base c0) (\<lambda>rc.
      rbind (execute_task env (ts_calls st) t (previous_name parsed (ts_idx st)) rc c0) (\<lambda>c1.
      (let pc = policy_context rc c1 in
       rbind (evaluate_policy_rules env (tt_rules t) pc (tc_output c1)) (\<lambda>action.
       rbind (apply_action_set env pc action c1) (\<lambda>c2.
         control tasks parsed base t action (st\<lparr>ts_cx := c2, ts_calls := Suc (ts_calls st)\<rparr>)))))))"

partial_function (option) run_sequence ::
  "ts_env \<Rightarrow> pyval list \<Rightarrow> ts_task list \<Rightarrow> pydict \<Rightarrow> ts_state \<Rightarrow> pydict res option" where
  "run_sequence env tasks parsed base st =
     (if length parsed \<le> ts_idx st then Some (Inr (ok_result (ts_cx st)))
      else (case seq_step env tasks parsed base st of
          Inl e \<Rightarrow> Some (Inl e)
        | Inr (Inr r) \<Rightarrow> Some (Inr r)
        | Inr (Inl st') \<Rightarrow> run_sequence env tasks parsed base st'))"

declare run_sequence.simps [code]

definition initial_state :: "pydict \<Rightarrow> ts_state" where
  "initial_state base =
     \<lparr>ts_idx = 0,
      ts_cx = initial_context\<lparr>tc_iter := (case py_get base ''iter'' of VDict d \<Rightarrow> d | _ \<Rightarrow> [])\<rparr>,
      ts_retries = [], ts_calls = 0\<rparr>"

definition execute_sequence :: "ts_env \<Rightarrow> pyval list \<Rightarrow> pydict \<Rightarrow> pydict res option" where
  "execute_sequence env tasks base =
     (if tasks = [] then Some (Inr [(''status'', VStr ''ok''), (''_prev'', VNone), (''results'', VDict []),
        (''metrics'', VDict [(''task_count'', VInt 0)])])
      else (case parse_tasks tasks of
          Inl e \<Rightarrow> Some (Inl e)
        | Inr parsed \<Rightarrow> run_sequence env tasks parsed base (initial_state base)))"

end
