(* ===== verification/Task_Sequence_Theorems.thy ===== *)
theory Task_Sequence_Theorems
  imports Task_Sequence
begin

text \<open>
  What a task sequence does whatever its tools, its templates and its clock do: the envelope every
  policy rule sees, the shape of every result, the end of every sequence that does not jump, the
  exact number of attempts of a retried task, and sequences without policies as a fold.
\<close>

section \<open>The envelope and the results\<close>

definition envelope_ok :: "int \<Rightarrow> pydict \<Rightarrow> bool" where
  "envelope_ok attempt out \<longleftrightarrow>
     ((py_get out ''status'' = VStr ''ok'' \<and> has_key out ''data'' \<and> \<not> has_key out ''error'')
      \<or> (py_get out ''status'' = VStr ''error'' \<and> \<not> has_key out ''data''
         \<and> (\<exists>e. py_get out ''error'' = VDict e \<and> e \<noteq> []))) \<and>
     (\<exists>ms. py_get out ''meta'' = VDict [(''attempt'', VInt attempt), (''duration_ms'', VInt ms)])"

lemma tool_helpers_keys: "k \<notin> {''http'', ''pg'', ''py''} \<Longrightarrow> map_of (tool_helpers kind result error) k = None"
  by (auto simp: tool_helpers_def Let_def)

lemma build_outcome_envelope:
  "build_outcome status result error kind ms attempt = Inr out \<Longrightarrow> envelope_ok attempt out
    \<and> py_get out ''status'' = VStr status"
  by (auto simp: build_outcome_def envelope_ok_def has_key_def map_add_def tool_helpers_keys unknown_error_def
    py_get_def split: if_splits option.splits list.splits)

text \<open>What executing a task leaves: the envelope, and the result only if the task was ok.\<close>

lemma execute_task_leaves:
  assumes "execute_task env n t previous rc c = Inr c'"
  shows "envelope_ok (tc_attempt c) (tc_output c') \<and> tc_task c' = tt_name t \<and> tc_ctx c' = tc_ctx c
    \<and> tc_iter c' = tc_iter c \<and> (\<exists>g. tc_timings c' = tc_timings c @ [g] \<and> tg_name g = tt_name t)
    \<and> (case py_get (tc_output c') ''status'' of
         VStr s \<Rightarrow> if s = ''ok'' then tc_results c' = AList.update (tt_name t) (tc_prev c') (tc_results c)
                  else tc_results c' = tc_results c \<and> tc_prev c' = tc_prev c
       | _ \<Rightarrow> False)"
proof (cases "call_tool env n (tt_config t) rc")
  case (Inl ex)
  then show ?thesis
    using assms
    by (auto simp: execute_task_def Let_def rbind_Inr_iff update_error_def timing_of_def
      split: prod.splits dest!: build_outcome_envelope)
next
  case (Inr result)
  then show ?thesis
    using assms
    by (auto simp: execute_task_def Let_def rbind_Inr_iff update_error_def update_success_def timing_of_def
      split: prod.splits if_splits dest!: build_outcome_envelope)
qed

text \<open>The shapes of a result.\<close>

definition sequence_result_ok :: "string set \<Rightarrow> pyval list \<Rightarrow> pydict \<Rightarrow> bool" where
  "sequence_result_ok names tasks r \<longleftrightarrow>
     (\<exists>results. py_get r ''results'' = VDict results \<and> set (map fst results) \<subseteq> names) \<and>
     (\<exists>cx. py_get r ''ctx'' = VDict cx) \<and> has_key r ''_prev'' \<and>
     (py_get r ''status'' = VStr ''ok''
      \<or> (py_get r ''status'' = VStr ''failed''
         \<and> (\<exists>n \<in> names. py_get r ''failed_task'' = VStr n) \<and> has_key r ''error'')
      \<or> (py_get r ''status'' = VStr ''break''
         \<and> (\<exists>k. k \<le> length tasks \<and> py_get r ''remaining_actions'' = VList (drop k tasks))))"

definition names_ok :: "string set \<Rightarrow> ts_context \<Rightarrow> bool" where
  "names_ok names c \<longleftrightarrow> set (map fst (tc_results c)) \<subseteq> names"

lemma apply_set_results [simp]: "tc_results (apply_set env rc c kv) = tc_results c"
    "tc_output (apply_set env rc c kv) = tc_output c" "tc_timings (apply_set env rc c kv) = tc_timings c"
    "tc_prev (apply_set env rc c kv) = tc_prev c"
  by (auto simp: apply_set_def Let_def split: prod.splits)

lemma foldl_apply_set [simp]: "tc_results (foldl (apply_set env rc) c d) = tc_results c"
    "tc_output (foldl (apply_set env rc) c d) = tc_output c"
    "tc_timings (foldl (apply_set env rc) c d) = tc_timings c"
    "tc_prev (foldl (apply_set env rc) c d) = tc_prev c"
  by (induction d arbitrary: c) simp_all

lemma apply_action_set_keeps:
  "apply_action_set env rc a c = Inr c' \<Longrightarrow> tc_results c' = tc_results c \<and> tc_output c' = tc_output c
    \<and> tc_timings c' = tc_timings c \<and> tc_prev c' = tc_prev c"
  by (auto simp: apply_action_set_def split: if_splits pyval.splits)

lemma failed_result_ok:
  "names_ok names c \<Longrightarrow> tt_name t \<in> names \<Longrightarrow> sequence_result_ok names tasks (failed_result t c e)"
  by (simp add: sequence_result_ok_def failed_result_def names_ok_def has_key_def)

lemma control_keeps:
  assumes "control tasks parsed base t action st = Inr x"
    and "names_ok names (ts_cx st)" and "tt_name t \<in> names"
  shows "case x of Inl st' \<Rightarrow> ts_cx st' = ts_cx st | Inr r \<Rightarrow> sequence_result_ok names tasks r"
proof -
  have b: "sequence_result_ok names tasks (break_result (ts_cx st) (drop k tasks))" for k
  proof -
    have "drop k tasks = drop (min k (length tasks)) tasks" by (simp add: min_def)
    then show ?thesis using assms(2)
      by (auto simp: sequence_result_ok_def break_result_def names_ok_def has_key_def
        intro!: exI [of _ "min k (length tasks)"])
  qed
  show ?thesis
    using assms(1) failed_result_ok [OF assms(2,3)] b
    by (auto simp: control_def Let_def rbind_Inr_iff split: if_splits sum.splits option.splits)
qed

lemma seq_step_keeps:
  assumes "seq_step env tasks parsed base st = Inr x" and "ts_idx st < length parsed"
    and "names_ok (tt_name ` set parsed) (ts_cx st)"
  shows "case x of Inl st' \<Rightarrow> names_ok (tt_name ` set parsed) (ts_cx st')
    | Inr r \<Rightarrow> sequence_result_ok (tt_name ` set parsed) tasks r"
proof -
  define names where "names = tt_name ` set parsed"
  define t where "t = parsed ! ts_idx st"
  define c0 where "c0 = (ts_cx st)\<lparr>tc_task := tt_name t, tc_attempt := retry_count st (tt_name t) + 1\<rparr>"
  have t: "tt_name t \<in> names" using assms(2) by (simp add: names_def t_def)
  obtain rc c1 action c2 where
    1: "execute_task env (ts_calls st) t (previous_name parsed (ts_idx st)) rc c0 = Inr c1" and
    2: "apply_action_set env (policy_context rc c1) action c1 = Inr c2" and
    3: "control tasks parsed base t action (st\<lparr>ts_cx := c2, ts_calls := Suc (ts_calls st)\<rparr>) = Inr x"
    using assms(1) by (auto simp: seq_step_def Let_def rbind_Inr_iff t_def c0_def)
  have "names_ok names c0" using assms(3) by (simp add: names_ok_def names_def c0_def)
  then have "names_ok names c1"
    using execute_task_leaves [OF 1] t
    by (simp add: names_ok_def AList.dom_update split: pyval.splits if_splits)
  then have "names_ok names c2" using apply_action_set_keeps [OF 2] by (simp add: names_ok_def)
  then show ?thesis
    using control_keeps [OF 3, of names] t by (auto simp: names_def split: sum.splits)
qed

text \<open>The loop rule: what every turn keeps and every way out of the loop establishes.\<close>

lemma run_sequence_invariant:
  assumes "run_sequence env tasks parsed base st = Some res" and "I st"
    and "\<And>st x. I st \<Longrightarrow> ts_idx st < length parsed \<Longrightarrow> seq_step env tasks parsed base st = Inr x
      \<Longrightarrow> (case x of Inl st' \<Rightarrow> I st' | Inr r \<Rightarrow> Q (Inr r))"
    and "\<And>st e. I st \<Longrightarrow> seq_step env tasks parsed base st = Inl e \<Longrightarrow> Q (Inl e)"
    and "\<And>st. I st \<Longrightarrow> length parsed \<le> ts_idx st \<Longrightarrow> Q (Inr (ok_result (ts_cx st)))"
  shows "Q res"
proof -
  have "env = env \<longrightarrow> tasks = tasks \<longrightarrow> parsed = parsed \<longrightarrow> base = base \<longrightarrow> I st \<longrightarrow> Q res"
  proof (rule run_sequence.raw_induct [where P = "\<lambda>e t p b st res.
      e = env \<longrightarrow> t = tasks \<longrightarrow> p = parsed \<longrightarrow> b = base \<longrightarrow> I st \<longrightarrow> Q res", OF _ assms(1)], intro impI)
    fix run e t p b s y
    assume ih: "\<And>e t p b s y. run e t p b s = Some y \<Longrightarrow>
          e = env \<longrightarrow> t = tasks \<longrightarrow> p = parsed \<longrightarrow> b = base \<longrightarrow> I s \<longrightarrow> Q y"
      and eq: "(if length p \<le> ts_idx s then Some (Inr (ok_result (ts_cx s)))
        else case seq_step e t p b s of Inl e \<Rightarrow> Some (Inl e)
          | Inr (Inl st') \<Rightarrow> run e t p b st' | Inr (Inr r) \<Rightarrow> Some (Inr r)) = Some y"
      and same: "e = env" "t = tasks" "p = parsed" "b = base" and I: "I s"
    show "Q y"
    proof (cases "length parsed \<le> ts_idx s")
      case True
      then show ?thesis using eq same assms(5) [OF I True] by auto
    next
      case False
      consider (raise) er where "seq_step env tasks parsed base s = Inl er"
        | (again) s' where "seq_step env tasks parsed base s = Inr (Inl s')"
        | (stop) r where "seq_step env tasks parsed base s = Inr (Inr r)"
        by (metis sum.exhaust)
      then show ?thesis
      proof cases
        case raise
        then show ?thesis using eq same False assms(4) [OF I raise] by auto
      next
        case again
        then have "run env tasks parsed base s' = Some y" using eq same False by simp
        moreover have "I s'" using assms(3) [OF I _ again] False by simp
        ultimately show ?thesis using ih same by blast
      next
        case stop
        then show ?thesis using eq same False assms(3) [OF I _ stop] by auto
      qed
    qed
  qed
  then show ?thesis using assms(2) by simp
qed

lemma ok_result_ok: "names_ok names c \<Longrightarrow> sequence_result_ok names tasks (ok_result c)"
  by (simp add: sequence_result_ok_def ok_result_def names_ok_def has_key_def)

lemma run_sequence_result:
  assumes "run_sequence env tasks parsed base st = Some (Inr r)"
    and "names_ok (tt_name ` set parsed) (ts_cx st)"
  shows "sequence_result_ok (tt_name ` set parsed) tasks r"
proof -
  define Q :: "pydict res \<Rightarrow> bool" where
    "Q res = (case res of Inl e \<Rightarrow> True | Inr r \<Rightarrow> sequence_result_ok (tt_name ` set parsed) tasks r)" for res
  have "Q (Inr r)"
  proof (rule run_sequence_invariant [where I = "\<lambda>st. names_ok (tt_name ` set parsed) (ts_cx st)", OF assms])
    fix st x
    assume "names_ok (tt_name ` set parsed) (ts_cx st)" "ts_idx st < length parsed"
      "seq_step env tasks parsed base st = Inr x"
    then show "case x of Inl st' \<Rightarrow> names_ok (tt_name ` set parsed) (ts_cx st') | Inr r \<Rightarrow> Q (Inr r)"
      using seq_step_keeps [of env tasks parsed base st x] by (cases x) (simp_all add: Q_def)
  qed (simp_all add: Q_def ok_result_ok)
  then show ?thesis by (simp add: Q_def)
qed

lemma parsed_names:
  "parse_tasks tasks = Inr parsed \<Longrightarrow> length parsed = length tasks"
  by (auto simp: parse_tasks_def dest: rmap_length)


section \<open>Sequences that do not jump end\<close>

definition then_values :: "pyval \<Rightarrow> pyval list" where
  "then_values rule =
     (case rule of
        VDict d \<Rightarrow> py_get d ''then'' # (case py_get d ''else'' of VDict e \<Rightarrow> [py_get e ''then''] | _ \<Rightarrow> [])
      | _ \<Rightarrow> [])"

text \<open>The actions the rules of a task can ask for.\<close>

definition rule_actions :: "pyval \<Rightarrow> control_action list" where
  "rule_actions rules =
     (case iterate rules of
        Inl e \<Rightarrow> []
      | Inr rs \<Rightarrow>
          List.map_filter (\<lambda>v. case parse_then v of Inl e \<Rightarrow> None | Inr a \<Rightarrow> Some a) (concat (map then_values rs)))"

lemma eval_rules_action:
  "eval_rules env rc out rs = Inr a \<Longrightarrow>
    a = plain_action ''fail'' \<or> a = plain_action ''continue''
    \<or> (\<exists>v \<in> set (concat (map then_values rs)). parse_then v = Inr a)"
proof (induction env rc out rs rule: eval_rules.induct)
  case (2 env rc out rule rules)
  have more: "set (concat (map then_values rules)) \<subseteq> set (concat (map then_values (VDict rule # rules)))"
    by auto
  have own: "py_get rule ''then'' \<in> set (concat (map then_values (VDict rule # rules)))"
    by (simp add: then_values_def)
  have els: "py_get e ''then'' \<in> set (concat (map then_values (VDict rule # rules)))"
    if "py_get rule ''else'' = VDict e" for e
    using that by (simp add: then_values_def)
  show ?case
    using 2 more own els
    by (auto simp: rbind_Inr_iff split: if_splits pyval.splits)
qed (auto simp: default_action_def split: if_splits)

lemma rule_actions_member:
  "iterate rules = Inr rs \<Longrightarrow> v \<in> set (concat (map then_values rs)) \<Longrightarrow> parse_then v = Inr a
    \<Longrightarrow> a \<in> set (rule_actions rules)"
  by (force simp: rule_actions_def map_filter_def)

lemma evaluate_policy_action:
  "evaluate_policy_rules env rules rc out = Inr a \<Longrightarrow>
    a = plain_action ''fail'' \<or> a = plain_action ''continue'' \<or> a \<in> set (rule_actions rules)"
  using eval_rules_action rule_actions_member
  by (fastforce simp: evaluate_policy_rules_def default_action_def rbind_Inr_iff split: if_splits)

definition never_jumps :: "ts_task list \<Rightarrow> bool" where
  "never_jumps parsed = list_all (\<lambda>t. list_all (\<lambda>a. ca_action a \<noteq> VStr ''jump'') (rule_actions (tt_rules t))) parsed"

definition most_attempts :: "ts_task \<Rightarrow> int" where
  "most_attempts t =
     foldr max (map (\<lambda>a. case py_num (ca_attempts a) of Inr n \<Rightarrow> n | Inl e \<Rightarrow> 0) (rule_actions (tt_rules t))) 3"

lemma foldr_max_ge: "x \<in> set xs \<Longrightarrow> (x::int) \<le> foldr max xs b"
  by (induction xs) auto

lemma most_attempts_ge:
  "a \<in> set (rule_actions (tt_rules t)) \<Longrightarrow> py_num (ca_attempts a) = Inr n \<Longrightarrow> n \<le> most_attempts t"
  unfolding most_attempts_def by (rule foldr_max_ge) force

definition turns_left :: "ts_task list \<Rightarrow> ts_state \<Rightarrow> nat \<times> nat" where
  "turns_left parsed st =
     (length parsed - ts_idx st,
      nat (most_attempts (parsed ! ts_idx st) - retry_count st (tt_name (parsed ! ts_idx st))))"

lemma seq_step_decreases:
  assumes "never_jumps parsed" and "ts_idx st < length parsed"
    and "seq_step env tasks parsed base st = Inr (Inl st')"
  shows "(turns_left parsed st', turns_left parsed st) \<in> less_than <*lex*> less_than"
proof -
  define t where "t = parsed ! ts_idx st"
  obtain rc c1 action c2 out where
    1: "evaluate_policy_rules env (tt_rules t) rc out = Inr action" and
    2: "control tasks parsed base t action (st\<lparr>ts_cx := c2, ts_calls := Suc (ts_calls st)\<rparr>) = Inr (Inl st')"
    using assms(3) by (auto simp: seq_step_def Let_def rbind_Inr_iff t_def)
  have a: "action = plain_action ''fail'' \<or> action = plain_action ''continue''
      \<or> action \<in> set (rule_actions (tt_rules t))"
    by (rule evaluate_policy_action [OF 1])
  have nj: "ca_action action \<noteq> VStr ''jump''"
    using a assms(1,2) by (auto simp: never_jumps_def list_all_iff t_def plain_action_def)
  consider (fwd) "ts_idx st' = ts_idx st + 1"
    | (retry) n where "ts_idx st' = ts_idx st" "retry_count st' (tt_name t) = retry_count st (tt_name t) + 1"
        "py_num (ca_attempts action) = Inr n" "retry_count st (tt_name t) + 1 < n"
        "ca_action action = VStr ''retry''"
    using 2 nj by (auto simp: control_def Let_def rbind_Inr_iff retry_count_def split: if_splits option.splits)
  then show ?thesis
  proof cases
    case fwd
    then show ?thesis using assms(2) by (auto simp: turns_left_def)
  next
    case retry
    have "action \<in> set (rule_actions (tt_rules t))" using a retry(5) by (auto simp: plain_action_def)
    then have "n \<le> most_attempts t" using most_attempts_ge retry(3) by blast
    then show ?thesis using retry(1,2,4) by (auto simp: turns_left_def t_def)
  qed
qed

lemma run_sequence_ends:
  assumes "never_jumps parsed"
  shows "\<exists>res. run_sequence env tasks parsed base st = Some res"
proof (induction "turns_left parsed st" arbitrary: st rule: wf_induct_rule [OF wf_lex_prod [OF wf_less_than wf_less_than]])
  case 1
  show ?case
  proof (cases "length parsed \<le> ts_idx st")
    case True
    then show ?thesis by (subst run_sequence.simps) simp
  next
    case False
    then have "\<exists>res. run_sequence env tasks parsed base st' = Some res"
      if "seq_step env tasks parsed base st = Inr (Inl st')" for st'
      using 1 [OF seq_step_decreases [OF assms _ that]] by simp
    then show ?thesis
      by (subst run_sequence.simps) (auto split: sum.splits)
  qed
qed

text \<open>
  C33. A task sequence whose rules never ask for a jump ends, whatever its tools and templates do and
  however many retries the rules ask for.
\<close>

theorem task_sequence_ends:
  assumes "parse_tasks tasks = Inr parsed" and "never_jumps parsed"
  shows "\<exists>res. execute_sequence env tasks base = Some res"
  using assms run_sequence_ends [OF assms(2)] by (simp add: execute_sequence_def)

section \<open>The envelope is typed\<close>

text \<open>
  The output a policy rule reads is always an envelope: status ok with data and no error, or
  status error with a non-empty error and no data, with the number of the attempt; only a task
  that is ok changes the results and the previous value.
\<close>

lemma task_envelope_typed:
  assumes "execute_task env n t previous rc c = Inr c'"
  shows "envelope_ok (tc_attempt c) (tc_output c') \<and>
    (py_get (tc_output c') ''status'' = VStr ''ok'' \<longrightarrow>
       tc_results c' = AList.update (tt_name t) (tc_prev c') (tc_results c)) \<and>
    (py_get (tc_output c') ''status'' = VStr ''error'' \<longrightarrow>
       tc_results c' = tc_results c \<and> tc_prev c' = tc_prev c)"
  using execute_task_leaves [OF assms] by (auto split: pyval.splits if_splits)

section \<open>Retries\<close>

text \<open>A task whose only rule retries it, and a tool that always answers with an error.\<close>

definition always_retry :: "int \<Rightarrow> pyval" where
  "always_retry n =
     VList [VDict [(''when'', VBool True), (''then'', VDict [(''do'', VStr ''retry''), (''attempts'', VInt n)])]]"

definition retry_task :: "string \<Rightarrow> string \<Rightarrow> int \<Rightarrow> pyval" where
  "retry_task name kind n =
     VDict [(''name'', VStr name), (''kind'', VStr kind),
       (''spec'', VDict [(''policy'', VDict [(''rules'', always_retry n)])])]"

lemma retry_task_parsed:
  "parse_tasks [retry_task name kind n] =
     Inr [\<lparr>tt_name = name, tt_config = [(''kind'', VStr kind),
       (''spec'', VDict [(''policy'', VDict [(''rules'', always_retry n)])])], tt_rules = always_retry n\<rparr>]"
  by (simp add: parse_tasks_def parse_task_def retry_task_def has_key_def make_task_def rules_of_def
    py_get_default_def)

lemma always_retry_action:
  "evaluate_policy_rules env (always_retry n) rc out =
     Inr \<lparr>ca_action = VStr ''retry'', ca_to = VNone, ca_attempts = VInt n, ca_backoff = VStr ''none'',
          ca_delay = Seconds 1, ca_set = VNone\<rparr>"
  by (simp add: evaluate_policy_rules_def always_retry_def iterate_def has_key_def condition_matches_def
    parse_then_def py_get_default_def)

lemma error_tool_executes:
  assumes "te_tool env n (VStr kind) (VDict []) rc = Inr (VDict r)" and "py_get r ''status'' = VStr ''error''"
    and "tt_config t = [(''kind'', VStr kind), (''spec'', sp)]"
  obtains c' where "execute_task env n t previous rc c = Inr c'" "tc_results c' = tc_results c"
    "tc_prev c' = tc_prev c" "tc_ctx c' = tc_ctx c" "tc_iter c' = tc_iter c"
    "length (tc_timings c') = Suc (length (tc_timings c))"
proof -
  have "call_tool env n (tt_config t) rc = Inr (VDict r)"
    using assms by (simp add: call_tool_def config_to_render_def Let_def)
  then show thesis
    using that assms(2)
    by (auto simp: execute_task_def Let_def is_error_result_def build_outcome_def update_error_def)
qed

lemma retry_turn:
  assumes "\<And>n rc. te_tool env n (VStr kind) (VDict []) rc = Inr (VDict r)"
    and "py_get r ''status'' = VStr ''error''"
    and t: "t = \<lparr>tt_name = name, tt_config = [(''kind'', VStr kind), (''spec'', sp)], tt_rules = always_retry n\<rparr>"
    and cx: "merged_scope base ''ctx'' (tc_ctx (ts_cx st)) = Inr cx"
    and it: "merged_scope base ''iter'' (tc_iter (ts_cx st)) = Inr it"
    and "ts_idx st = 0"
  shows "\<exists>c. tc_results c = tc_results (ts_cx st) \<and> tc_ctx c = tc_ctx (ts_cx st) \<and> tc_iter c = tc_iter (ts_cx st)
      \<and> length (tc_timings c) = Suc (length (tc_timings (ts_cx st)))
      \<and> seq_step env tasks [t] base st =
          (if n \<le> retry_count st name + 1 then Inr (Inr (failed_result t c (py_get (tc_output c) ''error'')))
           else Inr (Inl (st\<lparr>ts_cx := c, ts_calls := Suc (ts_calls st),
                  ts_retries := AList.update name (retry_count st name + 1) (ts_retries st)\<rparr>)))"
proof -
  define c0 where "c0 = (ts_cx st)\<lparr>tc_task := tt_name t, tc_attempt := retry_count st (tt_name t) + 1\<rparr>"
  obtain rc where rc: "render_context base c0 = Inr rc"
    using cx it by (auto simp: render_context_def c0_def)
  have cfg: "tt_config t = [(''kind'', VStr kind), (''spec'', sp)]"
    and rules: "tt_rules t = always_retry n" "tt_name t = name" by (simp_all add: t)
  obtain c1 where c1: "execute_task env (ts_calls st) t (previous_name [t] 0) rc c0 = Inr c1"
      "tc_results c1 = tc_results c0" "tc_prev c1 = tc_prev c0" "tc_ctx c1 = tc_ctx c0" "tc_iter c1 = tc_iter c0"
      "length (tc_timings c1) = Suc (length (tc_timings c0))"
    using error_tool_executes [OF assms(1,2) cfg] by metis
  have "seq_step env tasks [t] base st = control tasks [t] base t
     \<lparr>ca_action = VStr ''retry'', ca_to = VNone, ca_attempts = VInt n, ca_backoff = VStr ''none'',
          ca_delay = Seconds 1, ca_set = VNone\<rparr> (st\<lparr>ts_cx := c1, ts_calls := Suc (ts_calls st)\<rparr>)"
    using rc [unfolded c0_def] c1(1) [unfolded c0_def] assms(6) rules
    by (simp add: seq_step_def Let_def always_retry_action apply_action_set_def)
  then show ?thesis
    using c1(2-6)
    by (intro exI [of _ c1])
      (simp add: c0_def control_def Let_def rules calculate_delay_def retry_count_def)
qed

lemma retry_run:
  assumes "\<And>n rc. te_tool env n (VStr kind) (VDict []) rc = Inr (VDict r)"
    and "py_get r ''status'' = VStr ''error''"
    and t: "t = \<lparr>tt_name = name, tt_config = [(''kind'', VStr kind), (''spec'', sp)], tt_rules = always_retry n\<rparr>"
    and "merged_scope base ''ctx'' (tc_ctx (ts_cx st)) = Inr cx"
    and "merged_scope base ''iter'' (tc_iter (ts_cx st)) = Inr it"
    and "ts_idx st = 0" and "retry_count st name = int j"
    and "n = int (j + k + 1)"
  shows "\<exists>c e. run_sequence env tasks [t] base st = Some (Inr (failed_result t c e))
    \<and> length (tc_timings c) = length (tc_timings (ts_cx st)) + k + 1"
  using assms(4-)
proof (induction k arbitrary: st j)
  case 0
  then obtain c where "length (tc_timings c) = Suc (length (tc_timings (ts_cx st)))"
      "seq_step env tasks [t] base st = Inr (Inr (failed_result t c (py_get (tc_output c) ''error'')))"
    using retry_turn [OF assms(1,2) t 0(1,2,3), of tasks] by auto
  then show ?case
    using 0 by (subst run_sequence.simps)
      (auto intro!: exI [of _ c] exI [of _ "py_get (tc_output c) ''error''"])
next
  case (Suc k)
  obtain c where c: "tc_results c = tc_results (ts_cx st)" "tc_ctx c = tc_ctx (ts_cx st)"
      "tc_iter c = tc_iter (ts_cx st)" "length (tc_timings c) = Suc (length (tc_timings (ts_cx st)))"
      "seq_step env tasks [t] base st = Inr (Inl (st\<lparr>ts_cx := c, ts_calls := Suc (ts_calls st),
                  ts_retries := AList.update name (int j + 1) (ts_retries st)\<rparr>))"
    using retry_turn [OF assms(1,2) t Suc.prems(1,2,3), of tasks] Suc.prems(4,5) by auto
  define st' where "st' = st\<lparr>ts_cx := c, ts_calls := Suc (ts_calls st),
                  ts_retries := AList.update name (int j + 1) (ts_retries st)\<rparr>"
  have "run_sequence env tasks [t] base st = run_sequence env tasks [t] base st'"
    using c(5) Suc.prems(3) by (subst run_sequence.simps) (simp add: st'_def)
  moreover have "\<exists>c' e. run_sequence env tasks [t] base st' = Some (Inr (failed_result t c' e))
      \<and> length (tc_timings c') = length (tc_timings (ts_cx st')) + k + 1"
    by (rule Suc.IH [of st' "Suc j"]) (use Suc.prems c in \<open>simp_all add: st'_def retry_count_def\<close>)
  ultimately show ?case using c(4) by (auto simp: st'_def)
qed


section \<open>Sequences without policies\<close>

text \<open>The reference: each task once, in order, until one fails.\<close>

fun pipeline ::
  "ts_env \<Rightarrow> pydict \<Rightarrow> nat \<Rightarrow> string option \<Rightarrow> ts_task list \<Rightarrow> ts_context \<Rightarrow> pydict res" where
  "pipeline env base n previous [] c = Inr (ok_result c)"
| "pipeline env base n previous (t # ts) c =
     (let c0 = c\<lparr>tc_task := tt_name t, tc_attempt := 1\<rparr> in
      rbind (render_context base c0) (\<lambda>rc.
      rbind (execute_task env n t previous rc c0) (\<lambda>c1.
        if py_get (tc_output c1) ''status'' = VStr ''error''
        then Inr (failed_result t c1 (py_get (tc_output c1) ''error''))
        else pipeline env base (Suc n) (Some (tt_name t)) ts c1)))"

lemma plain_run:
  assumes "list_all (\<lambda>t. \<not> truthy (tt_rules t)) parsed" and "ts_retries st = []"
    and "ts_idx st \<le> length parsed"
  shows "run_sequence env tasks parsed base st =
    Some (pipeline env base (ts_calls st) (previous_name parsed (ts_idx st)) (drop (ts_idx st) parsed) (ts_cx st))"
  using assms(2,3)
proof (induction "length parsed - ts_idx st" arbitrary: st)
  case 0
  then show ?case by (subst run_sequence.simps) simp
next
  case (Suc m)
  then have i: "ts_idx st < length parsed" by simp
  define t where "t = parsed ! ts_idx st"
  have d: "drop (ts_idx st) parsed = t # drop (Suc (ts_idx st)) parsed"
    using i by (simp add: t_def Cons_nth_drop_Suc)
  have nr: "\<not> truthy (tt_rules t)" using assms(1) i by (simp add: list_all_length t_def)
  have p: "previous_name parsed (Suc (ts_idx st)) = Some (tt_name t)" by (simp add: previous_name_def t_def)
  have rest: "run_sequence env tasks parsed base (st\<lparr>ts_cx := c, ts_calls := Suc (ts_calls st), ts_idx := Suc (ts_idx st)\<rparr>)
    = Some (pipeline env base (Suc (ts_calls st)) (Some (tt_name t)) (drop (Suc (ts_idx st)) parsed) c)" for c
    using Suc.hyps(1) [of "st\<lparr>ts_cx := c, ts_calls := Suc (ts_calls st), ts_idx := Suc (ts_idx st)\<rparr>"]
      Suc.hyps(2) Suc.prems i by (simp add: p)
  have e: "retry_count st n = 0" for n using Suc.prems(1) by (simp add: retry_count_def)
  show ?case
    using i nr rest
    unfolding d
    by (subst run_sequence.simps)
      (auto simp: seq_step_def Let_def t_def [symmetric] e evaluate_policy_rules_def default_action_def
        plain_action_def apply_action_set_def control_def rbind_def split: sum.split)
qed

text \<open>
  A sequence whose tasks have no policy runs each task once, in order, with the results of the
  earlier ones in reach, and fails at the first task that fails.
\<close>

lemma plain_sequence_is_pipeline:
  assumes "tasks \<noteq> []" and "parse_tasks tasks = Inr parsed"
    and "list_all (\<lambda>t. \<not> truthy (tt_rules t)) parsed"
  shows "execute_sequence env tasks base =
    Some (pipeline env base 0 None parsed (ts_cx (initial_state base)))"
  using plain_run [OF assms(3), of "initial_state base" env tasks base] assms(1,2)
  by (simp add: execute_sequence_def initial_state_def previous_name_def)

section \<open>Concrete sequences\<close>

text \<open>
  An environment for the examples: the template \<open>failed\<close> holds when the output is an error, and the
  tool answers its calls from a list.
\<close>

definition error_answer :: pyval where
  "error_answer = VDict [(''status'', VStr ''error''), (''status_code'', VInt 503), (''error'', VStr ''busy'')]"

definition sample_env :: "pyval list \<Rightarrow> ts_env" where
  "sample_env answers =
     \<lparr>te_tool = (\<lambda>n kind config rc. Inr (if n < length answers then answers ! n else error_answer)),
      te_template = (\<lambda>cond rc. Inr (VBool (cond = VStr ''failed'' \<and>
         py_get (dict_or_empty (py_get rc ''output'')) ''status'' = VStr ''error''))),
      te_render_dict = (\<lambda>d rc. Inr (VDict d)),
      te_ms = (\<lambda>n. (1, 10, 12))\<rparr>"

definition sample_task :: "string \<Rightarrow> pyval list \<Rightarrow> pyval" where
  "sample_task name rules =
     VDict [(''name'', VStr name), (''kind'', VStr ''http''), (''url'', VStr ''u''),
       (''spec'', VDict [(''policy'', VDict [(''rules'', VList rules)])])]"

definition retry_on_error :: "int \<Rightarrow> pyval" where
  "retry_on_error n =
     VDict [(''when'', VStr ''failed''), (''then'', VDict [(''do'', VStr ''retry''), (''attempts'', VInt n)])]"

definition sample_tasks :: "pyval list" where
  "sample_tasks = [sample_task ''fetch'' [retry_on_error 3], sample_task ''save'' []]"

definition parsed_samples :: "pyval list \<Rightarrow> ts_task list" where
  "parsed_samples tasks = (case parse_tasks tasks of Inr p \<Rightarrow> p | Inl e \<Rightarrow> [])"

definition result_at :: "pydict res option \<Rightarrow> string \<Rightarrow> pyval" where
  "result_at x k = (case x of Some (Inr r) \<Rightarrow> py_get r k | _ \<Rightarrow> VNone)"

definition executions :: "pydict res option \<Rightarrow> pyval" where
  "executions x = py_get (dict_or_empty (result_at x ''metrics'')) ''task_count''"

definition sample_result :: "pydict res option" where
  "sample_result = execute_sequence (sample_env [error_answer, VInt 7, VInt 8]) sample_tasks []"

lemma sample_run:
  "(result_at sample_result ''status'', result_at sample_result ''results'', executions sample_result)
     = (VStr ''ok'', VDict [(''fetch'', VInt 7), (''save'', VInt 8)], VInt 3)"
  by code_simp

lemma sample_parsed:
  "(case parse_tasks sample_tasks of Inr p \<Rightarrow> map tt_name p = [''fetch'', ''save''] \<and> never_jumps p | Inl e \<Rightarrow> False)"
  by code_simp

lemma sample_parses: "parse_tasks sample_tasks = Inr (parsed_samples sample_tasks)"
    "tt_name ` set (parsed_samples sample_tasks) = {''fetch'', ''save''}"
    "never_jumps (parsed_samples sample_tasks)"
  using sample_parsed by (auto simp: parsed_samples_def split: sum.splits simp flip: set_map)

lemma sample_returns: "\<exists>r. sample_result = Some (Inr r) \<and> py_get r ''status'' = VStr ''ok''"
  using sample_run by (auto simp: result_at_def split: option.splits sum.splits)


theorem task_sequence_ends_witness:
  "\<exists>res. execute_sequence (sample_env []) sample_tasks [] = Some res"
  by (rule task_sequence_ends [OF sample_parses(1,3)])

lemma task_envelope_typed_witness:
  "\<exists>c'. execute_task (sample_env [error_answer]) 0 (hd (parsed_samples sample_tasks)) None [] initial_context
      = Inr c' \<and> envelope_ok 1 (tc_output c') \<and> py_get (tc_output c') ''status'' = VStr ''error''
      \<and> tc_results c' = []"
proof -
  have "(case execute_task (sample_env [error_answer]) 0 (hd (parsed_samples sample_tasks)) None [] initial_context
      of Inr c' \<Rightarrow> py_get (tc_output c') ''status'' = VStr ''error'' | Inl e \<Rightarrow> False)"
    by code_simp
  then obtain c' where c': "execute_task (sample_env [error_answer]) 0 (hd (parsed_samples sample_tasks)) None []
      initial_context = Inr c'" "py_get (tc_output c') ''status'' = VStr ''error''"
    by (auto split: sum.splits)
  then show ?thesis using task_envelope_typed [OF c'(1)] by (auto simp: initial_context_def)
qed


lemma plain_sequence_is_pipeline_witness:
  "execute_sequence (sample_env [VInt 1]) [sample_task ''a'' []] [] =
    Some (pipeline (sample_env [VInt 1]) [] 0 None (parsed_samples [sample_task ''a'' []])
      (ts_cx (initial_state [])))"
proof (rule plain_sequence_is_pipeline)
  show "parse_tasks [sample_task ''a'' []] = Inr (parsed_samples [sample_task ''a'' []])"
    and "list_all (\<lambda>t. \<not> truthy (tt_rules t)) (parsed_samples [sample_task ''a'' []])"
    by (simp_all add: parse_tasks_def parse_task_def sample_task_def has_key_def make_task_def rules_of_def
      parsed_samples_def py_get_default_def)
qed simp

section \<open>Behaviour the documentation does not lead to expect\<close>

text \<open>
  The retry count of a task is never reset: in a loop over pages, where each failure is retried
  once and every page succeeds on its second attempt, the second page's first failure already
  exhausts \<open>attempts: 2\<close> and the sequence fails.
\<close>

lemma retry_budget_not_reset:
  "(let r = execute_sequence (sample_env [error_answer, VInt 1, error_answer, VInt 2])
       [sample_task ''fetch'' [retry_on_error 2,
          VDict [(''else'', VDict [(''then'', VDict [(''do'', VStr ''jump''), (''to'', VStr ''fetch'')])])]]] []
    in (result_at r ''status'', result_at r ''failed_task'', result_at r ''_prev'', executions r))
    = (VStr ''failed'', VStr ''fetch'', VInt 1, VInt 3)"
  by code_simp

text \<open>
  The envelope of a PostgreSQL task whose tool raised never has an SQL state, and a Python task's
  never an exception name: the error object uses other keys.
\<close>

lemma raised_error_has_no_sqlstate:
  "py_get (error_to_dict e) ''sqlstate'' = VNone \<and> py_get (error_to_dict e) ''exception'' = VNone
    \<and> py_get (error_to_dict e) ''status_code'' = VNone"
  by (auto simp: error_to_dict_def optional_entry_def py_get_def map_add_def split: option.splits)

end
