(* ===== verification/Redaction.thy ===== *)
theory Redaction
  imports PyText
begin

text \<open>
  Status values (\<^verbatim>\<open>noetl/core/status.py\<close>) and the redaction of secrets in logs, events and API
  responses (\<^verbatim>\<open>noetl/core/sanitize.py\<close>): which keys and which values look sensitive, the two recursive
  sanitizers, URL credentials and masking. The regular expressions are recognizers written out; a
  \<open>$\<close> at the end of a pattern also matches before a final newline.
\<close>

section \<open>Status values\<close>

definition valid_statuses :: "string list" where
  "valid_statuses = [''STARTED'', ''RUNNING'', ''PAUSED'', ''PENDING'', ''FAILED'', ''COMPLETED'']"

definition status_mappings :: "(string \<times> string) list" where
  "status_mappings =
     [(''complete'', ''COMPLETED''), (''completed'', ''COMPLETED''), (''success'', ''COMPLETED''),
      (''succeeded'', ''COMPLETED''), (''done'', ''COMPLETED''),
      (''error'', ''FAILED''), (''failed'', ''FAILED''), (''failure'', ''FAILED''),
      (''run'', ''RUNNING''), (''running'', ''RUNNING''), (''in_progress'', ''RUNNING''),
      (''in-progress'', ''RUNNING''), (''progress'', ''RUNNING''),
      (''start'', ''STARTED''), (''started'', ''STARTED''), (''begin'', ''STARTED''),
      (''beginning'', ''STARTED''), (''initiated'', ''STARTED''),
      (''created'', ''PENDING''), (''pending'', ''PENDING''), (''queued'', ''PENDING''), (''init'', ''PENDING''),
      (''initialized'', ''PENDING''), (''new'', ''PENDING''), (''waiting'', ''PENDING''),
      (''paused'', ''PAUSED''), (''pause'', ''PAUSED''), (''suspended'', ''PAUSED''), (''stopped'', ''PAUSED''),
      (''halted'', ''PAUSED'')]"

definition normalize_status :: "pyval \<Rightarrow> string res" where
  "normalize_status raw =
     (if \<not> truthy raw then Inr ''PENDING''
      else (let s = strip (py_str raw) in
        if upper s \<in> set valid_statuses then Inr (upper s)
        else (case map_of status_mappings (lower s) of
            Some v \<Rightarrow> Inr v
          | None \<Rightarrow> Inl (ValueError ''Invalid status''))))"

definition is_valid_status :: "string \<Rightarrow> bool" where
  "is_valid_status s = (s \<in> set valid_statuses)"

definition validate_status :: "string \<Rightarrow> string res" where
  "validate_status s = (if is_valid_status s then Inr s else Inl (ValueError ''Invalid status''))"

section \<open>Keys that name secrets\<close>

definition redacted :: string where
  "redacted = ''[REDACTED]''"

definition sensitive_keys :: "string list" where
  "sensitive_keys =
     [''password'', ''passwd'', ''pwd'', ''secret'', ''token'', ''bearer'', ''api_key'', ''apikey'', ''api-key'',
      ''access_token'', ''access-token'', ''refresh_token'', ''refresh-token'', ''auth_token'', ''auth-token'',
      ''authorization'', ''auth'', ''credential'', ''credentials'', ''private_key'', ''private-key'',
      ''privatekey'', ''secret_key'', ''secret-key'', ''secretkey'', ''client_secret'', ''client-secret'',
      ''clientsecret'', ''connection_string'', ''connection-string'', ''connectionstring'', ''db_password'',
      ''db-password'', ''database_password'', ''aws_secret'', ''aws-secret'', ''gcp_key'', ''gcp-key'',
      ''azure_key'', ''azure-key'', ''ssh_key'', ''ssh-key'', ''sshkey'', ''passphrase'', ''pem'', ''cert'',
      ''certificate'', ''oauth_token'', ''oauth-token'', ''id_token'', ''id-token'', ''encryption_key'',
      ''encryption-key'', ''decrypt_key'', ''decrypt-key'', ''master_key'', ''master-key'',
      ''snowflake_password'', ''snowflake_token'', ''private_key_passphrase'']"

definition response_sensitive_keys :: "string list" where
  "response_sensitive_keys =
     [''keychain'', ''api_secret'', ''api-secret'', ''apisecret'', ''auth0_token'', ''auth0-token'',
      ''auth0_id_token'', ''auth0-id-token'', ''auth0_refresh_token'', ''auth0-refresh-token'', ''idtoken'',
      ''oauth'', ''jwt'']"

definition underscored :: "string \<Rightarrow> string" where
  "underscored s = map (\<lambda>c. if c = CHR ''-'' then CHR ''_'' else c) s"

definition normal_key :: "string \<Rightarrow> string" where
  "normal_key k = underscored (lower k)"

definition is_sensitive_key :: "string \<Rightarrow> bool" where
  "is_sensitive_key k =
     (normal_key k \<in> set sensitive_keys \<or> list_ex (contains (normal_key k)) sensitive_keys)"

definition is_response_sensitive_key :: "string \<Rightarrow> bool" where
  "is_response_sensitive_key k =
     (is_sensitive_key k \<or> normal_key k \<in> set response_sensitive_keys
      \<or> list_ex (\<lambda>s. contains (normal_key k) (underscored s)) response_sensitive_keys)"

section \<open>Values that look like secrets\<close>

definition is_alnum :: "char \<Rightarrow> bool" where
  "is_alnum c = (is_word c \<and> c \<noteq> CHR ''_'')"

definition is_token_char :: "char \<Rightarrow> bool" where
  "is_token_char c = (is_word c \<or> c = CHR ''-'')"

definition is_base64 :: "char \<Rightarrow> bool" where
  "is_base64 c = (is_alnum c \<or> c \<in> {CHR ''+'', CHR ''/'', CHR ''=''})"

text \<open>\<open>^word\s+P\<close>, the word in any case.\<close>

definition scheme_then :: "string \<Rightarrow> (char \<Rightarrow> bool) \<Rightarrow> string \<Rightarrow> bool" where
  "scheme_then w P s =
     (let r = drop (length w) s; t = dropWhile is_space r in
      lower (take (length w) s) = w \<and> r \<noteq> t \<and> t \<noteq> [] \<and> P (hd t))"

definition without_newline :: "string \<Rightarrow> string" where
  "without_newline s = (if s \<noteq> [] \<and> last s = CHR 0x0A then butlast s else s)"

definition jwt_part :: "string \<Rightarrow> bool" where
  "jwt_part p = (startswith p ''eyJ'' \<and> drop 3 p \<noteq> [] \<and> list_all is_token_char (drop 3 p))"

definition is_jwt :: "string \<Rightarrow> bool" where
  "is_jwt s =
     (case split_on (CHR ''.'') (without_newline s) of
        [a, b, c] \<Rightarrow> jwt_part a \<and> jwt_part b \<and> c \<noteq> [] \<and> list_all is_token_char c
      | _ \<Rightarrow> False)"

definition is_private_key :: "string \<Rightarrow> bool" where
  "is_private_key s =
     list_ex (\<lambda>k. contains s (''-----BEGIN '' @ k @ ''PRIVATE KEY-----''))
       [[], ''RSA '', ''EC '', ''DSA '', ''OPENSSH '']"

definition is_sensitive_value :: "string \<Rightarrow> bool" where
  "is_sensitive_value s =
     (scheme_then ''bearer'' (\<lambda>c. is_token_char c \<or> c = CHR ''.'') s
      \<or> scheme_then ''basic'' is_base64 s
      \<or> is_jwt s
      \<or> (let t = without_newline s in
          (32 \<le> length t \<and> list_all is_alnum t) \<or> (length t = 40 \<and> list_all is_base64 t))
      \<or> is_private_key s)"

text \<open>
  \<open>(?:^|["':\s])lit first? class{n,}\<close>: a provider key that starts the string or follows a quote, a
  colon or a space.
\<close>

definition opens_token :: "char \<Rightarrow> bool" where
  "opens_token c = (is_space c \<or> c \<in> {CHR 0x22, CHR 0x27, CHR '':''})"

fun token_in :: "(string \<Rightarrow> bool) \<Rightarrow> bool \<Rightarrow> string \<Rightarrow> bool" where
  "token_in P start [] = (start \<and> P [])"
| "token_in P start (c # s) = ((start \<and> P (c # s)) \<or> token_in P (opens_token c) s)"

definition lit_then :: "string \<Rightarrow> (char \<Rightarrow> bool) \<Rightarrow> nat \<Rightarrow> string \<Rightarrow> bool" where
  "lit_then lit P n s =
     (startswith s lit \<and> (let r = drop (length lit) s in n \<le> length r \<and> list_all P (take n r)))"

definition sk_then :: "string \<Rightarrow> string \<Rightarrow> bool" where
  "sk_then lit s =
     (startswith s lit \<and>
      (case drop (length lit) s of [] \<Rightarrow> False
       | c # r \<Rightarrow> is_alnum c \<and> 12 \<le> length r \<and> list_all is_token_char (take 12 r)))"

definition provider_key :: "string \<Rightarrow> bool" where
  "provider_key s =
     (sk_then ''sk-'' s \<or> sk_then ''sk-ant-'' s
      \<or> lit_then ''AIza'' is_token_char 20 s \<or> lit_then ''ya29.'' is_token_char 1 s
      \<or> list_ex (\<lambda>c. lit_then [CHR ''g'', CHR ''h'', c, CHR ''_''] is_word 20 s) ''pousr''
      \<or> lit_then ''github_pat_'' is_word 20 s
      \<or> list_ex (\<lambda>c. lit_then [CHR ''x'', CHR ''o'', CHR ''x'', c, CHR ''-''] (\<lambda>x. is_alnum x \<or> x = CHR ''-'') 20 s)
          ''baprs'')"

definition secret_params :: "string list" where
  "secret_params =
     [''key'', ''apikey'', ''api_key'', ''api-key'', ''token'', ''accesstoken'', ''access_token'', ''access-token'',
      ''idtoken'', ''id_token'', ''id-token'', ''refreshtoken'', ''refresh_token'', ''refresh-token'',
      ''clientsecret'', ''client_secret'', ''client-secret'', ''signature'']"

definition param_at :: "string \<Rightarrow> bool" where
  "param_at s =
     list_ex (\<lambda>p. startswith (lower s) (p @ ''='') \<and>
        (case drop (length p + 1) s of [] \<Rightarrow> False | c # _ \<Rightarrow> c \<noteq> CHR ''&'' \<and> \<not> is_space c)) secret_params"

fun secret_query :: "string \<Rightarrow> bool" where
  "secret_query [] = False"
| "secret_query (c # s) = (((c = CHR ''?'' \<or> c = CHR ''&'') \<and> param_at s) \<or> secret_query s)"

definition secret_value :: "string \<Rightarrow> bool" where
  "secret_value s =
     (scheme_then ''bearer'' (\<lambda>c. True) s
      \<or> scheme_then ''basic'' is_base64 s
      \<or> is_jwt s \<or> token_in provider_key True s \<or> is_private_key s \<or> secret_query s)"

section \<open>URL credentials\<close>

definition is_scheme_char :: "char \<Rightarrow> bool" where
  "is_scheme_char c = (is_alnum c \<or> c \<in> {CHR ''+'', CHR ''.'', CHR ''-''})"

definition is_letter :: "char \<Rightarrow> bool" where
  "is_letter c = (is_alnum c \<and> \<not> is_digit c)"

definition is_user_char :: "char \<Rightarrow> bool" where
  "is_user_char c = (c \<notin> {CHR ''/'', CHR ''@'', CHR '':''} \<and> \<not> is_space c)"

definition is_password_char :: "char \<Rightarrow> bool" where
  "is_password_char c = (c \<notin> {CHR ''/'', CHR ''@''} \<and> \<not> is_space c)"

text \<open>What follows the userinfo and its \<open>@\<close>, when the text starts with one.\<close>

definition after_userinfo :: "string \<Rightarrow> string option" where
  "after_userinfo s =
     (let r = dropWhile is_user_char s in
      if r = s then None
      else (case r of
          [] \<Rightarrow> None
        | c # t \<Rightarrow>
            if c = CHR ''@'' then Some t
            else if c = CHR '':'' then
              (case dropWhile is_password_char t of [] \<Rightarrow> None | d # u \<Rightarrow> if d = CHR ''@'' then Some u else None)
            else None))"

text \<open>A match at the start of the text: the scheme with its \<open>://\<close>, the rest, and what is left.\<close>

definition match_url :: "string \<Rightarrow> (string \<times> string \<times> string) option" where
  "match_url s =
     (if s = [] \<or> \<not> is_letter (hd s) then None
      else (let scheme = takeWhile is_scheme_char s; r = dropWhile is_scheme_char s in
        if \<not> startswith r ''://'' then None
        else (case after_userinfo (drop 3 r) of
            None \<Rightarrow> None
          | Some t \<Rightarrow>
              (let rest = takeWhile (\<lambda>c. \<not> is_space c) t in
               if rest = [] then None
               else Some (scheme @ ''://'', rest, dropWhile (\<lambda>c. \<not> is_space c) t)))))"

lemma after_userinfo_shorter: "after_userinfo s = Some t \<Longrightarrow> length t < length s"
proof -
  assume a: "after_userinfo s = Some t"
  define r where "r = dropWhile is_user_char s"
  have l: "length r \<le> length s" by (simp add: r_def length_dropWhile_le)
  obtain c u where r: "r = c # u" using a by (auto simp: after_userinfo_def r_def [symmetric] split: list.splits if_splits)
  have "length (dropWhile is_password_char u) \<le> length u" by (simp add: length_dropWhile_le)
  then show ?thesis
    using a l by (auto simp: after_userinfo_def Let_def r_def [symmetric] r split: if_splits list.splits)
qed

lemma match_url_shorter: "match_url s = Some (a, b, t) \<Longrightarrow> length t < length s"
proof -
  assume a: "match_url s = Some (a, b, t)"
  then obtain u where u: "after_userinfo (drop 3 (dropWhile is_scheme_char s)) = Some u"
      "t = dropWhile (\<lambda>c. \<not> is_space c) u"
    by (auto simp: match_url_def Let_def split: if_splits option.splits)
  have "length t \<le> length u" using u(2) by (simp add: length_dropWhile_le)
  also have "\<dots> < length (drop 3 (dropWhile is_scheme_char s))" using after_userinfo_shorter u(1) by blast
  also have "\<dots> \<le> length s" using length_dropWhile_le [of is_scheme_char s] by simp
  finally show ?thesis .
qed

function redact_url_credentials :: "string \<Rightarrow> string \<Rightarrow> string" where
  "redact_url_credentials placeholder s =
     (case match_url s of
        Some (scheme, rest, t) \<Rightarrow> scheme @ placeholder @ ''@'' @ rest @ redact_url_credentials placeholder t
      | None \<Rightarrow> (case s of [] \<Rightarrow> [] | c # t \<Rightarrow> c # redact_url_credentials placeholder t))"
  by pat_completeness auto
termination
  by (relation "measure (length \<circ> snd)") (auto dest: match_url_shorter)

declare redact_url_credentials.simps [simp del]

section \<open>Secrets in responses\<close>

definition looks_like_template_or_code :: "string \<Rightarrow> bool" where
  "looks_like_template_or_code s =
     list_ex (contains s) [''{{'', ''}}'', ''={'', ''def '', ''import '', ''return '', ''class '', ''async def '']"

definition is_response_secret_value :: "string list \<Rightarrow> string \<Rightarrow> bool" where
  "is_response_secret_value secrets s =
     (s \<noteq> [] \<and>
      (s \<in> set secrets \<or> list_ex (\<lambda>x. 8 \<le> length x \<and> contains s x) secrets
       \<or> (\<not> looks_like_template_or_code s
          \<and> (redact_url_credentials redacted s \<noteq> s \<or> secret_value s))))"

definition is_keychain_placeholder :: "pyval \<Rightarrow> bool" where
  "is_keychain_placeholder v =
     (case v of
        VDict d \<Rightarrow> (case py_get d ''$noetl_ref'' of VDict r \<Rightarrow> py_get r ''kind'' = VStr ''keychain'' | _ \<Rightarrow> False)
      | _ \<Rightarrow> False)"

text \<open>The value under a key that names a secret without being named by the caller.\<close>

definition partial_match :: "(string \<Rightarrow> bool) \<Rightarrow> string \<Rightarrow> pyval \<Rightarrow> pyval" where
  "partial_match secret redaction v =
     (case v of
        VStr s \<Rightarrow> if secret s then VStr redaction else v
      | VList _ \<Rightarrow> VStr redaction
      | VDict _ \<Rightarrow> VStr redaction
      | _ \<Rightarrow> v)"

fun redact_response :: "string list \<Rightarrow> string list \<Rightarrow> string \<Rightarrow> nat \<Rightarrow> pyval \<Rightarrow> pyval" where
  "redact_response keys secrets redaction 0 v = v"
| "redact_response keys secrets redaction (Suc n) (VDict d) =
     VDict (map (\<lambda>(k, v). (k,
        if normal_key k \<in> set keys then (if is_keychain_placeholder v then v else VStr redaction)
        else if is_response_sensitive_key k then
          (if is_keychain_placeholder v then v
           else partial_match (is_response_secret_value secrets) redaction v)
        else redact_response keys secrets redaction n v)) d)"
| "redact_response keys secrets redaction (Suc n) (VList xs) =
     VList (map (redact_response keys secrets redaction n) xs)"
| "redact_response keys secrets redaction (Suc n) (VStr s) =
     (if is_response_secret_value secrets s then VStr redaction else VStr s)"
| "redact_response keys secrets redaction (Suc n) v = v"

definition redact_keychain_values :: "string list \<Rightarrow> string list \<Rightarrow> string \<Rightarrow> nat \<Rightarrow> pyval \<Rightarrow> pyval" where
  "redact_keychain_values additional secrets redaction max_depth v =
     redact_response (map normal_key additional) (filter (\<lambda>s. s \<noteq> []) secrets) redaction max_depth v"

section \<open>Secrets in logs and events\<close>

fun sanitize_rec :: "string list \<Rightarrow> string \<Rightarrow> nat \<Rightarrow> pyval \<Rightarrow> pyval" where
  "sanitize_rec keys redaction 0 v = v"
| "sanitize_rec keys redaction (Suc n) (VDict d) =
     VDict (map (\<lambda>(k, v). (k,
        if lower k \<in> set keys then VStr redaction
        else if is_sensitive_key k then partial_match is_sensitive_value redaction v
        else sanitize_rec keys redaction n v)) d)"
| "sanitize_rec keys redaction (Suc n) (VList xs) = VList (map (sanitize_rec keys redaction n) xs)"
| "sanitize_rec keys redaction (Suc n) (VStr s) = (if is_sensitive_value s then VStr redaction else VStr s)"
| "sanitize_rec keys redaction (Suc n) v = v"

definition sanitize_sensitive_data :: "string list \<Rightarrow> string \<Rightarrow> nat \<Rightarrow> pyval \<Rightarrow> pyval" where
  "sanitize_sensitive_data keys redaction max_depth v = sanitize_rec keys redaction max_depth v"

definition sensitive_headers :: "string list" where
  "sensitive_headers =
     [''authorization'', ''cookie'', ''set-cookie'', ''x-api-key'', ''x-auth-token'', ''x-access-token'',
      ''proxy-authorization'', ''www-authenticate'']"

definition sanitize_headers :: "pydict \<Rightarrow> pydict" where
  "sanitize_headers headers =
     map (\<lambda>(k, v). (k, if lower k \<in> set sensitive_headers \<or> is_sensitive_key k then VStr redacted else v)) headers"

text \<open>\<open>value[-e:]\<close> is the whole value when \<open>e\<close> is 0.\<close>

definition last_chars :: "nat \<Rightarrow> string \<Rightarrow> string" where
  "last_chars e s = (if e = 0 then s else drop (length s - e) s)"

definition mask_value :: "nat \<Rightarrow> nat \<Rightarrow> string \<Rightarrow> string" where
  "mask_value a e s =
     (if length s \<le> a + e + 3 then redacted else take a s @ ''...'' @ last_chars e s)"

section \<open>What redaction guarantees\<close>

lemma status_mapping_values: "map_of status_mappings k = Some v \<Longrightarrow> v \<in> set valid_statuses"
proof -
  have "list_all (\<lambda>(k, v). v \<in> set valid_statuses) status_mappings" by code_simp
  then show "map_of status_mappings k = Some v \<Longrightarrow> v \<in> set valid_statuses"
    by (auto simp: list_all_iff dest: map_of_SomeD)
qed

lemma valid_status_fixed: "s \<in> set valid_statuses \<Longrightarrow> normalize_status (VStr s) = Inr s"
proof -
  have "list_all (\<lambda>s. normalize_status (VStr s) = Inr s) valid_statuses" by code_simp
  then show "s \<in> set valid_statuses \<Longrightarrow> normalize_status (VStr s) = Inr s" by (simp add: list_all_iff)
qed

text \<open>
  A status that is normalized is one of the six canonical values, normalizing it again changes
  nothing, and it passes validation.
\<close>

lemma normalized_status_valid:
  assumes "normalize_status raw = Inr s"
  shows "is_valid_status s \<and> normalize_status (VStr s) = Inr s \<and> validate_status s = Inr s"
proof -
  have "s \<in> set valid_statuses"
    using assms status_mapping_values
    by (auto simp: normalize_status_def Let_def valid_statuses_def split: if_splits option.splits)
  then show ?thesis using valid_status_fixed by (simp add: is_valid_status_def validate_status_def)
qed

lemma normalized_status_valid_witness:
  "normalize_status (VStr '' Success '') = Inr ''COMPLETED'' \<and> is_valid_status ''COMPLETED''"
proof -
  have "normalize_status (VStr '' Success '') = Inr ''COMPLETED''" by code_simp
  with normalized_status_valid [OF this] show ?thesis by simp
qed

text \<open>How deep a value nests, and the strings it holds outside keys.\<close>

fun nesting :: "pyval \<Rightarrow> nat" where
  "nesting (VDict d) = Suc (foldr max (map (\<lambda>(k, v). nesting v) d) 0)"
| "nesting (VList xs) = Suc (foldr max (map nesting xs) 0)"
| "nesting v = 1"

fun leaves :: "pyval \<Rightarrow> string list" where
  "leaves (VDict d) = concat (map (\<lambda>(k, v). leaves v) d)"
| "leaves (VList xs) = concat (map leaves xs)"
| "leaves (VStr s) = [s]"
| "leaves v = []"

fun values_under :: "(string \<Rightarrow> bool) \<Rightarrow> pyval \<Rightarrow> pyval list" where
  "values_under P (VDict d) = concat (map (\<lambda>(k, v). (if P k then [v] else []) @ values_under P v) d)"
| "values_under P (VList xs) = concat (map (values_under P) xs)"
| "values_under P v = []"

lemma foldr_max_bound: "foldr max xs 0 \<le> n \<longleftrightarrow> (\<forall>x \<in> set xs. x \<le> (n::nat))"
  by (induction xs) auto

lemma partial_match_leaves:
  "x \<in> set (leaves (partial_match secret redaction v)) \<Longrightarrow> x = redaction \<or> \<not> secret x"
  by (cases v) (auto simp: partial_match_def split: if_splits)

lemma partial_match_under: "values_under P (partial_match secret redaction v) = []"
  by (cases v) (auto simp: partial_match_def)

lemma sanitize_leaves:
  "nesting v \<le> n \<Longrightarrow> x \<in> set (leaves (sanitize_rec keys redaction n v)) \<Longrightarrow> x = redaction \<or> \<not> is_sensitive_value x"
proof (induction keys redaction n v arbitrary: x rule: sanitize_rec.induct)
  case (1 keys redaction v)
  then show ?case by (cases v) auto
next
  case (2 keys redaction n d)
  from "2.prems"(2) obtain k v where kv: "(k, v) \<in> set d"
    and x: "x \<in> set (leaves (if lower k \<in> set keys then VStr redaction
        else if is_sensitive_key k then partial_match is_sensitive_value redaction v
        else sanitize_rec keys redaction n v))"
    by auto
  have "nesting v \<le> n" using "2.prems"(1) kv by (force simp: foldr_max_bound)
  then show ?case using x kv "2.IH" partial_match_leaves [of x is_sensitive_value redaction v]
    by (auto split: if_splits)
next
  case (3 keys redaction n xs)
  then show ?case by (force simp: foldr_max_bound)
qed (auto split: if_splits)

lemma sanitize_named_keys:
  "nesting v \<le> n \<Longrightarrow> w \<in> set (values_under (\<lambda>k. lower k \<in> set keys) (sanitize_rec keys redaction n v)) \<Longrightarrow> w = VStr redaction"
proof (induction keys redaction n v arbitrary: w rule: sanitize_rec.induct)
  case (1 keys redaction v)
  then show ?case by (cases v) auto
next
  case (2 keys redaction n d)
  from "2.prems"(2) obtain k v where kv: "(k, v) \<in> set d"
    and w: "w \<in> set ((if lower k \<in> set keys then [VStr redaction] else []) @
       values_under (\<lambda>k. lower k \<in> set keys) (if lower k \<in> set keys then VStr redaction
        else if is_sensitive_key k then partial_match is_sensitive_value redaction v
        else sanitize_rec keys redaction n v))"
    by (auto split: if_splits)
  have "nesting v \<le> n" using "2.prems"(1) kv by (force simp: foldr_max_bound)
  then show ?case using w kv "2.IH" by (auto simp: partial_match_under split: if_splits)
next
  case (3 keys redaction n xs)
  then show ?case by (force simp: foldr_max_bound)
qed (auto split: if_splits)


definition sample_log_entry :: pyval where
  "sample_log_entry =
     VDict [(''user'', VStr ''admin''), (''Authorization'', VStr ''Bearer abc.def''),
       (''items'', VList [VStr ''eyJa.eyJb.c'', VInt 3]), (''Cookie'', VStr ''short'')]"


fun placeholder_free :: "pyval \<Rightarrow> bool" where
  "placeholder_free (VDict d) =
     (\<not> is_keychain_placeholder (VDict d) \<and> list_all placeholder_free (map snd d))"
| "placeholder_free (VList xs) = list_all placeholder_free xs"
| "placeholder_free v = True"

lemma redact_leaves:
  "nesting v \<le> n \<Longrightarrow> placeholder_free v \<Longrightarrow> x \<in> set (leaves (redact_response keys secrets redaction n v))
    \<Longrightarrow> x = redaction \<or> \<not> is_response_secret_value secrets x"
proof (induction keys secrets redaction n v arbitrary: x rule: redact_response.induct)
  case (1 keys secrets redaction v)
  then show ?case by (cases v) auto
next
  case (2 keys secrets redaction n d)
  from "2.prems"(3) obtain k v where kv: "(k, v) \<in> set d"
    and x: "x \<in> set (leaves (if normal_key k \<in> set keys
          then (if is_keychain_placeholder v then v else VStr redaction)
        else if is_response_sensitive_key k then
          (if is_keychain_placeholder v then v
           else partial_match (is_response_secret_value secrets) redaction v)
        else redact_response keys secrets redaction n v))"
    by auto
  have "nesting v \<le> n" using "2.prems"(1) kv by (force simp: foldr_max_bound)
  moreover have f: "placeholder_free v" using "2.prems"(2) kv by (auto simp: list_all_iff)
  moreover have "\<not> is_keychain_placeholder v"
    using f by (cases v) (auto simp: is_keychain_placeholder_def)
  ultimately show ?case
    using x kv "2.IH" partial_match_leaves [of x "is_response_secret_value secrets" redaction v]
    by (auto split: if_splits)
next
  case (3 keys secrets redaction n xs)
  then show ?case by (force simp: foldr_max_bound list_all_iff)
qed (auto split: if_splits)

text \<open>
  In a response that nests no deeper than the bound and holds no keychain placeholder, no string
  contains a known secret of eight or more characters, whatever its shape and place.
\<close>

lemma response_hides_known_secrets:
  assumes "nesting v \<le> max_depth" and "placeholder_free v"
    and "secret \<in> set secrets" and "8 \<le> length secret"
    and "x \<in> set (leaves (redact_keychain_values keys secrets redaction max_depth v))"
  shows "x = redaction \<or> \<not> contains x secret"
proof -
  have "secret \<in> set (filter (\<lambda>s. s \<noteq> []) secrets)" using assms(3,4) by auto
  moreover have "x = redaction \<or> \<not> is_response_secret_value (filter (\<lambda>s. s \<noteq> []) secrets) x"
    using redact_leaves [OF assms(1,2)] assms(5) by (auto simp: redact_keychain_values_def)
  moreover have "contains [] secret = False" using assms(4) by auto
  ultimately show ?thesis
    using assms(4) by (cases "x = []") (auto simp: is_response_secret_value_def list_ex_iff)
qed

definition sample_response :: pyval where
  "sample_response =
     VDict [(''url'', VStr ''https://h/x?sig=tok-12345''), (''token'', VStr ''alias''), (''n'', VInt 1)]"

lemma response_hides_known_secrets_witness:
  "leaves (redact_keychain_values [] [''tok-12345''] redacted 20 sample_response) = [redacted, ''alias'']
    \<and> \<not> contains ''alias'' ''tok-12345''"
proof -
  have l: "leaves (redact_keychain_values [] [''tok-12345''] redacted 20 sample_response) = [redacted, ''alias'']"
    by code_simp
  have "nesting sample_response \<le> 20" "placeholder_free sample_response" by code_simp+
  from response_hides_known_secrets [OF this, of "''tok-12345''" "[''tok-12345'']" "''alias''" "[]" redacted]
  show ?thesis using l by (auto simp: redacted_def)
qed

text \<open>Sanitizing twice is sanitizing once.\<close>

lemma redacted_not_sensitive: "\<not> is_sensitive_value redacted"
  by code_simp

lemma partial_match_idem:
  "\<not> secret redaction \<Longrightarrow> partial_match secret redaction (partial_match secret redaction v) = partial_match secret redaction v"
  by (cases v) (auto simp: partial_match_def)

lemma sanitize_idem:
  "\<not> is_sensitive_value redaction \<Longrightarrow>
    sanitize_rec keys redaction n (sanitize_rec keys redaction n v) = sanitize_rec keys redaction n v"
  by (induction keys redaction n v rule: sanitize_rec.induct) (auto simp: partial_match_idem)

section \<open>Where redaction gives way\<close>

text \<open>
  Whatever nests at the bound or deeper is returned as it is, a keychain placeholder is passed on
  with every other field of its dictionary, and masking with no visible end shows the whole value.
\<close>

lemma deep_secrets_kept: "sanitize_sensitive_data keys redaction 0 v = v"
  by (simp add: sanitize_sensitive_data_def)

definition wrapped :: "nat \<Rightarrow> pyval \<Rightarrow> pyval" where
  "wrapped n v = ((\<lambda>x. VList [x]) ^^ n) v"

lemma nested_secret_kept: "sanitize_sensitive_data keys redaction n (wrapped n v) = wrapped n v"
proof -
  have "sanitize_rec keys redaction n (wrapped n v) = wrapped n v"
    by (induction n) (simp_all add: wrapped_def)
  then show ?thesis by (simp add: sanitize_sensitive_data_def)
qed

lemma placeholder_leaks_siblings:
  "redact_response (''token'' # keys) secrets redaction (Suc n)
     (VDict [(''token'', VDict ((''$noetl_ref'', VDict [(''kind'', VStr ''keychain'')]) # d))])
   = VDict [(''token'', VDict ((''$noetl_ref'', VDict [(''kind'', VStr ''keychain'')]) # d))]"
proof -
  have "normal_key ''token'' = ''token''" by code_simp
  then show ?thesis by (simp add: is_keychain_placeholder_def)
qed

text \<open>
  Masking a long value with no visible end shows the whole value.
\<close>

lemma mask_without_end_reveals:
  assumes "a + 3 < length s"
  shows "mask_value a 0 s = take a s @ ''...'' @ s"
  using assms by (simp add: mask_value_def last_chars_def)

lemma mask_without_end_reveals_witness: "mask_value 4 0 ''sk-secret-key'' = ''sk-s...sk-secret-key''"
  using mask_without_end_reveals [of 4 "''sk-secret-key''"] by simp


text \<open>The example of the sanitizer's own documentation keeps its password.\<close>

lemma documented_password_kept:
  "sanitize_sensitive_data [] redacted 20
     (VDict [(''user'', VStr ''admin''), (''password'', VStr ''secret123''), (''Authorization'', VStr ''Bearer xyz'')])
   = VDict [(''user'', VStr ''admin''), (''password'', VStr ''secret123''), (''Authorization'', VStr redacted)]"
  by code_simp

end
