(* ===== verification/Resource_Locator.thy ===== *)
theory Resource_Locator
  imports PyText
begin

text \<open>
  Resource locators (\<^verbatim>\<open>noetl/core/resource_locator.py\<close>): \<open>noetl://\<close> identities as lists of segments,
  their text form with percent-encoded segments, the parser, the NATS subject of a locator, the
  readers and the builders. Of \<open>urllib.parse\<close> the model has what the code uses: splitting off the
  scheme (any case; C0 controls and spaces around the URL and tabs and newlines in it are dropped),
  the authority, fragment and query, and the path, \<open>quote(s, safe="")\<close> and \<open>unquote\<close>; segments are
  ASCII text. \<open>urlparse\<close> refuses unbalanced brackets in the authority; whether it takes the host in
  balanced ones is the parameter \<open>host_ok\<close>. \<open>ResourceLocatorError\<close> is a \<open>ValueError\<close>.
\<close>

section \<open>Percent encoding\<close>

definition unreserved :: "char \<Rightarrow> bool" where
  "unreserved c = (is_word c \<or> c \<in> {CHR ''.'', CHR ''-'', CHR ''~''})"

definition hex_upper :: "nat \<Rightarrow> char" where
  "hex_upper d = (if d < 10 then char_of (48 + d) else char_of (55 + d))"

definition hex_value :: "char \<Rightarrow> nat option" where
  "hex_value c =
     (let n = of_char c :: nat in
      if 48 \<le> n \<and> n \<le> 57 then Some (n - 48)
      else if 65 \<le> n \<and> n \<le> 70 then Some (n - 55)
      else if 97 \<le> n \<and> n \<le> 102 then Some (n - 87)
      else None)"

definition quote_char :: "char \<Rightarrow> string" where
  "quote_char c =
     (if unreserved c then [c]
      else (let n = of_char c :: nat in [CHR ''%'', hex_upper (n div 16), hex_upper (n mod 16)]))"

definition quote :: "string \<Rightarrow> string" where
  "quote s = concat (map quote_char s)"

fun unquote :: "string \<Rightarrow> string" where
  "unquote [] = []"
| "unquote (c # s) =
     (if c = CHR ''%'' then
        (case s of
           a # b # t \<Rightarrow>
             (case (hex_value a, hex_value b) of
                (Some x, Some y) \<Rightarrow> char_of (16 * x + y) # unquote t
              | _ \<Rightarrow> c # unquote s)
         | _ \<Rightarrow> c # unquote s)
      else c # unquote s)"

lemma hex_value_upper [simp]: "d < 16 \<Longrightarrow> hex_value (hex_upper d) = Some d"
  by (auto simp: hex_value_def hex_upper_def of_char_of Let_def)

lemma of_char_nibble: "(of_char c :: nat) div 16 < 16"
proof -
  have "(of_char c :: nat) < 256"
    by (metis mod_less_divisor of_char_mod_256 zero_less_numeral)
  then show ?thesis by (intro less_mult_imp_div_less) simp
qed

lemma unquote_quote_char [simp]: "unquote (quote_char c @ s) = c # unquote s"
proof (cases "unreserved c")
  case True
  moreover have "c \<noteq> CHR ''%''" using True by (auto simp: unreserved_def is_word_def)
  ultimately show ?thesis by (simp add: quote_char_def)
next
  case False
  have "char_of (16 * ((of_char c :: nat) div 16) + of_char c mod 16) = c"
    by (simp add: mult.commute)
  then show ?thesis using False of_char_nibble [of c] by (simp add: quote_char_def Let_def)
qed

lemma unquote_quote [simp]: "unquote (quote s) = s"
  by (induction s) (simp_all add: quote_def)

section \<open>urlparse\<close>

record url =
  u_scheme :: string
  u_netloc :: string
  u_path :: string
  u_query :: string
  u_fragment :: string

definition control_or_space :: "char \<Rightarrow> bool" where
  "control_or_space c = ((of_char c :: nat) \<le> 32)"

definition scheme_char :: "char \<Rightarrow> bool" where
  "scheme_char c = ((is_word c \<and> c \<noteq> CHR ''_'') \<or> c \<in> {CHR ''+'', CHR ''-'', CHR ''.''})"

definition is_alpha :: "char \<Rightarrow> bool" where
  "is_alpha c = (is_word c \<and> c \<noteq> CHR ''_'' \<and> \<not> is_digit c)"

text \<open>The text up to a character and the text after it, when it is there.\<close>

fun cut :: "char \<Rightarrow> string \<Rightarrow> string \<times> string option" where
  "cut c [] = ([], None)"
| "cut c (x # s) = (if x = c then ([], Some s) else (let (a, b) = cut c s in (x # a, b)))"

definition split_scheme :: "string \<Rightarrow> string \<times> string" where
  "split_scheme u =
     (case cut (CHR '':'') u of
        (s, Some rest) \<Rightarrow>
          (if s \<noteq> [] \<and> is_alpha (hd s) \<and> list_all scheme_char s then (lower s, rest) else ([], u))
      | (_, None) \<Rightarrow> ([], u))"

definition split_netloc :: "string \<Rightarrow> string \<times> string" where
  "split_netloc u =
     (if startswith u ''//''
      then (let r = drop 2 u; inside = (\<lambda>c. c \<notin> {CHR ''/'', CHR ''?'', CHR ''#''})
            in (takeWhile inside r, dropWhile inside r))
      else ([], u))"

definition bad_netloc :: "(string \<Rightarrow> bool) \<Rightarrow> string \<Rightarrow> bool" where
  "bad_netloc host_ok n =
     (let l = CHR ''['' \<in> set n; r = CHR '']'' \<in> set n in l \<noteq> r \<or> (l \<and> r \<and> \<not> host_ok n))"

definition urlparse :: "(string \<Rightarrow> bool) \<Rightarrow> string \<Rightarrow> url res" where
  "urlparse host_ok v =
     (let u = filter (\<lambda>c. (of_char c :: nat) \<notin> {9, 10, 13}) (dropWhile control_or_space v);
          (scheme, u1) = split_scheme u;
          (netloc, u2) = split_netloc u1
      in if bad_netloc host_ok netloc then Inl (ValueError ''Invalid IPv6 URL'')
         else (let (u3, fragment) = cut (CHR ''#'') u2;
                   (path, query) = cut (CHR ''?'') u3
               in Inr \<lparr>u_scheme = scheme, u_netloc = netloc, u_path = path,
                       u_query = (case query of None \<Rightarrow> [] | Some q \<Rightarrow> q),
                       u_fragment = (case fragment of None \<Rightarrow> [] | Some f \<Rightarrow> f)\<rparr>))"

section \<open>Locators\<close>

type_synonym locator = "string list"

definition normalize_segment :: "string \<Rightarrow> string res" where
  "normalize_segment segment =
     (let v = strip segment
      in if v = [] then Inl (ValueError ''locator segments must be non-empty'')
         else if CHR ''/'' \<in> set v
         then Inl (ValueError ''locator segments must not contain a slash'')
         else Inr v)"

definition from_segments :: "string list \<Rightarrow> locator res" where
  "from_segments segments =
     rbind (rmap normalize_segment segments) (\<lambda>normalized.
       if normalized = [] then Inl (ValueError ''locator must include at least one segment'')
       else Inr normalized)"

definition locator_text :: "locator \<Rightarrow> string" where
  "locator_text l = ''noetl://'' @ join ''/'' (map quote l)"

definition parse_locator :: "(string \<Rightarrow> bool) \<Rightarrow> string \<Rightarrow> locator res" where
  "parse_locator host_ok t =
     (if strip t = [] then Inl (ValueError ''locator must be a non-empty string'')
      else rbind (urlparse host_ok (strip t)) (\<lambda>parsed.
        if u_scheme parsed \<noteq> ''noetl'' then Inl (ValueError ''locator must use noetl:// scheme'')
        else if u_query parsed \<noteq> [] \<or> u_fragment parsed \<noteq> []
        then Inl (ValueError ''locator must not include params, query, or fragment'')
        else (let raw = (if u_netloc parsed \<noteq> [] then [u_netloc parsed] else [])
                        @ filter (\<lambda>p. p \<noteq> []) (split_on (CHR ''/'') (u_path parsed))
              in from_segments (map unquote raw))))"

definition from_pairs :: "(string \<times> pyval) list \<Rightarrow> locator res" where
  "from_pairs items =
     from_segments (concat (map (\<lambda>(key, v). if v = VNone \<or> v = VStr [] then [] else [key, py_str v]) items))"

definition build_locator :: "pyval list \<Rightarrow> string res" where
  "build_locator segments =
     rbind (from_segments (map py_str segments)) (\<lambda>l. Inr (locator_text l))"

definition child :: "locator \<Rightarrow> pyval list \<Rightarrow> locator res" where
  "child l segments = from_segments (l @ map py_str segments)"

definition kind :: "locator \<Rightarrow> string" where
  "kind l = hd l"

definition identity :: "locator \<Rightarrow> string option" where
  "identity l = (if length l > 1 then Some (l ! 1) else None)"

definition known_resource_kinds :: "string list" where
  "known_resource_kinds =
     [''tenant'', ''execution'', ''dataset'', ''stream'', ''partition'', ''payload'']"

definition is_known_kind :: "locator \<Rightarrow> bool" where
  "is_known_kind l = (kind l \<in> set known_resource_kinds)"

fun value_after :: "locator \<Rightarrow> string \<Rightarrow> string option" where
  "value_after (s # t # l) key = (if s = key then Some t else value_after (t # l) key)"
| "value_after _ key = None"

fun pairs_of :: "locator \<Rightarrow> (string \<times> string) list \<Rightarrow> (string \<times> string) list" where
  "pairs_of (k # v # l) result = pairs_of l (AList.update k v result)"
| "pairs_of _ result = result"

definition pairs :: "locator \<Rightarrow> (string \<times> string) list res" where
  "pairs l =
     (if odd (length l)
      then Inl (ValueError ''locator does not contain alternating key/value segments'')
      else Inr (pairs_of l []))"

definition locality_keys :: "string list" where
  "locality_keys = [''region'', ''zone'', ''cluster'', ''node'']"

definition locality :: "locator \<Rightarrow> (string \<times> string) list" where
  "locality l =
     concat (map (\<lambda>key. case value_after l key of
                           Some v \<Rightarrow> (if v \<noteq> [] then [(key, v)] else [])
                         | None \<Rightarrow> []) locality_keys)"

section \<open>NATS subjects\<close>

definition nats_safe :: "char \<Rightarrow> bool" where
  "nats_safe c = (is_word c \<or> c = CHR ''-'')"

definition to_nats_subject :: "locator \<Rightarrow> string" where
  "to_nats_subject l =
     join ''.'' (''noetl'' # map (map (\<lambda>c. if nats_safe c then c else CHR ''_'')) l)"

definition from_nats_subject :: "string \<Rightarrow> locator res" where
  "from_nats_subject subject =
     (if strip subject = [] then Inl (ValueError ''nats subject must be a non-empty string'')
      else if \<not> startswith (strip subject) ''noetl.''
      then Inl (ValueError ''nats subject must start with noetl.'')
      else (let body = drop 6 (strip subject)
            in if body = [] then Inl (ValueError ''nats subject has no segments after the root prefix'')
               else from_segments (split_on (CHR ''.'') body)))"

section \<open>Data resources\<close>

definition locality_pairs ::
    "string option \<Rightarrow> string option \<Rightarrow> string option \<Rightarrow> string option \<Rightarrow> (string \<times> pyval) list" where
  "locality_pairs region zone cluster_id node_id =
     concat (map (\<lambda>(k, v). case v of Some s \<Rightarrow> (if s \<noteq> [] then [(k, VStr s)] else []) | None \<Rightarrow> [])
       [(''region'', region), (''zone'', zone), (''cluster'', cluster_id), (''node'', node_id)])"

definition dataset_locator ::
    "string \<Rightarrow> string \<Rightarrow> string \<Rightarrow> string option \<Rightarrow> string option \<Rightarrow> string option \<Rightarrow> string res" where
  "dataset_locator tenant_id organization_id dataset_id region zone cluster_id =
     rbind (from_pairs ([(''tenant'', VStr tenant_id), (''org'', VStr organization_id)]
                        @ locality_pairs region zone cluster_id None
                        @ [(''dataset'', VStr dataset_id)]))
       (\<lambda>l. Inr (locator_text l))"

definition stream_locator ::
    "string \<Rightarrow> string \<Rightarrow> string \<Rightarrow> string option \<Rightarrow> string option \<Rightarrow> string option \<Rightarrow> string res" where
  "stream_locator tenant_id organization_id stream_id region zone cluster_id =
     rbind (from_pairs ([(''tenant'', VStr tenant_id), (''org'', VStr organization_id)]
                        @ locality_pairs region zone cluster_id None
                        @ [(''stream'', VStr stream_id)]))
       (\<lambda>l. Inr (locator_text l))"

definition partition_locator ::
    "string \<Rightarrow> string \<Rightarrow> string \<Rightarrow> pyval \<Rightarrow> string option \<Rightarrow> string option \<Rightarrow> string option \<Rightarrow> string res"
  where
  "partition_locator tenant_id organization_id stream_id partition_index region zone cluster_id =
     rbind (from_pairs ([(''tenant'', VStr tenant_id), (''org'', VStr organization_id)]
                        @ locality_pairs region zone cluster_id None
                        @ [(''stream'', VStr stream_id), (''partition'', VStr (py_str partition_index))]))
       (\<lambda>l. Inr (locator_text l))"


section \<open>Well-formed locators\<close>

definition valid_segment :: "string \<Rightarrow> bool" where
  "valid_segment s = (s \<noteq> [] \<and> CHR ''/'' \<notin> set s \<and> strip s = s)"

definition valid_locator :: "locator \<Rightarrow> bool" where
  "valid_locator l = (l \<noteq> [] \<and> list_all valid_segment l)"

lemma set_dropWhile_subset: "set (dropWhile P xs) \<subseteq> set xs"
  by (metis set_dropWhileD subsetI)

lemma set_strip: "set (strip s) \<subseteq> set s"
  unfolding strip_def using set_dropWhile_subset [of is_space] by (metis set_rev subset_trans)

lemma strip_no_spaces: "(\<And>c. c \<in> set s \<Longrightarrow> \<not> is_space c) \<Longrightarrow> strip s = s"
  by (rule strip_no_space_ends) (metis hd_in_set last_in_set)

lemma normalize_segment_valid: "normalize_segment s = Inr t \<Longrightarrow> valid_segment t"
  by (auto simp: normalize_segment_def valid_segment_def Let_def split: if_splits)

lemma normalize_valid: "valid_segment s \<Longrightarrow> normalize_segment s = Inr s"
  by (simp add: normalize_segment_def valid_segment_def)

lemma from_segments_valid: "from_segments ss = Inr l \<Longrightarrow> valid_locator l"
  by (auto simp: from_segments_def valid_locator_def list_all_iff res_simps
      dest: rmap_source normalize_segment_valid split: if_splits)

lemma from_segments_id: "valid_locator l \<Longrightarrow> from_segments l = Inr l"
  using rmap_Inr_map [of l normalize_segment id]
  by (auto simp: from_segments_def valid_locator_def list_all_iff normalize_valid)

section \<open>The text of a locator parses back\<close>

lemma quote_chars:
  assumes "c \<in> set (quote s)" shows "unreserved c \<or> c = CHR ''%''"
proof -
  obtain d where d: "c \<in> set (quote_char d)" using assms by (auto simp: quote_def)
  have "unreserved (hex_upper n)" if "n < 16" for n
    using that by (auto simp: hex_upper_def unreserved_def is_word_def of_char_of Let_def)
  then show ?thesis using d of_char_nibble [of d] by (auto simp: quote_char_def Let_def split: if_splits)
qed

lemma quoted_not:
  assumes "c \<in> set (quote s)"
  shows "\<not> control_or_space c" "\<not> is_space c"
    "c \<noteq> CHR ''/''" "c \<noteq> CHR ''?''" "c \<noteq> CHR ''#''" "c \<noteq> CHR ''[''" "c \<noteq> CHR '']''"
  using quote_chars [OF assms]
  by (auto simp: unreserved_def is_word_def control_or_space_def is_space_def Let_def)

lemma quote_nonempty: "s \<noteq> [] \<Longrightarrow> quote s \<noteq> []"
  by (cases s) (auto simp: quote_def quote_char_def Let_def)

lemma join_cons: "join sep (x # xs) = x @ concat (map ((@) sep) xs)"
  by (induction xs arbitrary: x) auto

lemma cut_absent: "c \<notin> set s \<Longrightarrow> cut c s = (s, None)"
  by (induction s) auto

lemma split_segments:
  assumes "\<forall>y \<in> set ys. y \<noteq> [] \<and> CHR ''/'' \<notin> set y"
  shows "filter (\<lambda>p. p \<noteq> []) (split_on (CHR ''/'') (concat (map ((@) ''/'') ys))) = ys"
proof (cases ys)
  case (Cons z zs)
  then have "concat (map ((@) ''/'') ys) = CHR ''/'' # join ''/'' ys" by (simp add: join_cons)
  moreover have "split_on (CHR ''/'') (join ''/'' ys) = ys"
    using assms Cons by (intro split_on_join) auto
  moreover have "filter (\<lambda>p. p \<noteq> []) ys = ys" using assms by (simp add: filter_id_conv)
  ultimately show ?thesis by simp
qed simp


lemma urlparse_locator_text:
  assumes "valid_locator (s # l)"
  shows "urlparse host_ok (locator_text (s # l))
    = Inr \<lparr>u_scheme = ''noetl'', u_netloc = quote s, u_path = concat (map ((@) ''/'') (map quote l)),
           u_query = [], u_fragment = []\<rparr>"
proof -
  define path where "path = concat (map ((@) ''/'') (map quote l))"
  let ?in = "\<lambda>c. c \<notin> {CHR ''/'', CHR ''?'', CHR ''#''}"
  have t: "locator_text (s # l) = ''noetl://'' @ quote s @ path"
    by (simp add: locator_text_def join_cons path_def)
  have pc: "c = CHR ''/'' \<or> (\<exists>x. c \<in> set (quote x))" if "c \<in> set path" for c
    using that by (auto simp: path_def split: if_splits)
  have "(of_char c :: nat) \<notin> {9, 10, 13}" if "c \<in> set (quote s @ path)" for c
    using that pc [of c] quoted_not(1) [of c] by (auto simp: control_or_space_def)
  then have keep: "filter (\<lambda>c. (of_char c :: nat) \<notin> {9, 10, 13}) (quote s @ path) = quote s @ path"
    by (simp only: filter_id_conv) blast
  have cutp: "cut (CHR ''#'') path = (path, None)" "cut (CHR ''?'') path = (path, None)"
    using pc by (auto intro!: cut_absent dest: quoted_not)
  have tw: "takeWhile ?in (quote s @ path) = quote s" "dropWhile ?in (quote s @ path) = path"
  proof -
    have "takeWhile ?in path = []" "dropWhile ?in path = path"
      by (cases l; simp add: path_def)+
    moreover have "\<forall>c \<in> set (quote s). ?in c" by (auto dest: quoted_not)
    ultimately show "takeWhile ?in (quote s @ path) = quote s" "dropWhile ?in (quote s @ path) = path"
      by (simp_all add: takeWhile_append dropWhile_append)
  qed
  have ss: "split_scheme (''noetl://'' @ quote s @ path) = (''noetl'', ''//'' @ quote s @ path)"
    by (simp add: split_scheme_def is_alpha_def scheme_char_def is_word_def is_digit_def lower_def
        lower_char_def Let_def)
  have sn: "split_netloc (''//'' @ quote s @ path) = (quote s, path)"
    using tw by (simp add: split_netloc_def startswith_def Let_def)
  have nb: "\<not> bad_netloc host_ok (quote s)"
    by (auto simp: bad_netloc_def Let_def dest: quoted_not)
  have "filter (\<lambda>c. (of_char c :: nat) \<notin> {9, 10, 13})
      (dropWhile control_or_space (locator_text (s # l))) = ''noetl://'' @ quote s @ path"
    using keep by (simp add: t control_or_space_def)
  then show ?thesis
    unfolding urlparse_def Let_def path_def [symmetric] using ss sn nb cutp by simp
qed

lemma locator_text_no_space: "c \<in> set (locator_text l) \<Longrightarrow> \<not> is_space c"
proof -
  assume c: "c \<in> set (locator_text l)"
  have "\<not> is_space d" if "d \<in> set (join ''/'' (map quote l))" for d
  proof (cases l)
    case (Cons s r)
    then have "d = CHR ''/'' \<or> (\<exists>x. d \<in> set (quote x))"
      using that by (auto simp: join_cons split: if_splits)
    then show ?thesis by (auto dest: quoted_not simp: is_space_def)
  qed (use that in simp)
  with c show ?thesis by (auto simp: locator_text_def is_space_def)
qed

lemma parse_locator_text:
  assumes "valid_locator l"
  shows "parse_locator host_ok (locator_text l) = Inr l"
proof -
  obtain s r where l: "l = s # r" using assms by (cases l) (auto simp: valid_locator_def)
  have st: "strip (locator_text l) = locator_text l"
    by (intro strip_no_spaces) (rule locator_text_no_space)
  have ne: "locator_text l \<noteq> []" by (simp add: locator_text_def)
  have v: "valid_segment s" "\<forall>x \<in> set r. valid_segment x"
    using assms by (auto simp: l valid_locator_def list_all_iff)
  have "filter (\<lambda>p. p \<noteq> []) (split_on (CHR ''/'') (concat (map ((@) ''/'') (map quote r)))) = map quote r"
    using v(2) by (intro split_segments) (auto simp: valid_segment_def quote_nonempty dest: quoted_not)
  moreover have "quote s \<noteq> []" using v(1) by (simp add: valid_segment_def quote_nonempty)
  moreover have "map unquote (map quote r) = r" by (simp add: comp_def)
  ultimately show ?thesis
    using assms st ne unfolding parse_locator_def
    by (simp add: urlparse_locator_text l from_segments_id)
qed


text \<open>
  C40. Every text the locator parser accepts denotes one locator with one canonical text: printing
  what was parsed and parsing it again gives the same locator, with every segment non-empty,
  stripped and free of slashes, whatever characters the segments hold.
\<close>
theorem locator_parse_print:
  assumes "parse_locator host_ok t = Inr l"
  shows "valid_locator l \<and> parse_locator host_ok (locator_text l) = Inr l"
proof -
  obtain ss where "from_segments ss = Inr l"
    using assms by (auto simp: parse_locator_def Let_def res_simps split: if_splits)
  then have "valid_locator l" by (rule from_segments_valid)
  then show ?thesis by (simp add: parse_locator_text)
qed

theorem locator_parse_print_witness:
  "\<not> valid_locator [''a b'', ''c/d'']
   \<and> valid_locator [''tenant'', ''a b'']
   \<and> parse_locator (\<lambda>h. True) (locator_text [''tenant'', ''a b'']) = Inr [''tenant'', ''a b'']"
proof -
  have "parse_locator (\<lambda>h. True) ''  NOETL://tenant//a%20b/ '' = Inr [''tenant'', ''a b'']"
    by code_simp
  moreover have "\<not> valid_locator [''a b'', ''c/d'']" by code_simp
  ultimately show ?thesis using locator_parse_print by blast
qed

section \<open>NATS round trip and readers\<close>

lemma nats_safe_not: "nats_safe c \<Longrightarrow> \<not> is_space c \<and> c \<noteq> CHR ''.'' \<and> c \<noteq> CHR ''/''"
  by (auto simp: nats_safe_def is_word_def is_space_def Let_def)

text \<open>
  A locator whose segments use only letters, digits, \<open>_\<close> and \<open>-\<close> survives the NATS mapping.
\<close>
lemma nats_subject_roundtrip:
  assumes "l \<noteq> []" and "\<forall>s \<in> set l. s \<noteq> [] \<and> list_all nats_safe s"
  shows "from_nats_subject (to_nats_subject l) = Inr l"
proof -
  have same: "map (\<lambda>c. if nats_safe c then c else CHR ''_'') s = s" if "s \<in> set l" for s
    using assms(2) that by (auto simp: list_all_iff intro!: map_idI)
  have m: "map (map (\<lambda>c. if nats_safe c then c else CHR ''_'')) l = l"
    by (rule map_idI) (rule same)
  obtain a r where l: "l = a # r" using assms(1) by (cases l) auto
  have t: "to_nats_subject l = ''noetl.'' @ join ''.'' l"
    by (simp add: to_nats_subject_def m) (simp add: l)
  have "c = CHR ''.'' \<or> nats_safe c" if "c \<in> set (join ''.'' l)" for c
    using that assms(2) by (auto simp: l join_cons list_all_iff split: if_splits)
  then have "\<not> is_space c" if "c \<in> set (join ''.'' l)" for c
    using that nats_safe_not [of c] by (cases "c = CHR ''.''") (auto simp: is_space_def)
  then have "strip (to_nats_subject l) = to_nats_subject l"
    unfolding t by (intro strip_no_spaces) (auto simp: is_space_def)
  moreover have "split_on (CHR ''.'') (join ''.'' l) = l"
    using assms by (intro split_on_join) (auto simp: list_all_iff dest: nats_safe_not)
  moreover have "join ''.'' l \<noteq> []" using assms(2) by (simp add: l join_cons)
  moreover have "valid_locator l" unfolding valid_locator_def list_all_iff valid_segment_def
    using assms by (auto simp: list_all_iff intro!: strip_no_spaces dest: nats_safe_not)
  ultimately show ?thesis
    by (simp add: from_nats_subject_def t from_segments_id startswith_def)
qed

lemma nats_subject_roundtrip_witness:
  "from_nats_subject (to_nats_subject [''tenant'', ''acme'', ''cluster'', ''us-east-1''])
    = Inr [''tenant'', ''acme'', ''cluster'', ''us-east-1'']"
  by (rule nats_subject_roundtrip) (code_simp+)

lemma nats_mapping_lossy:
  "to_nats_subject [''tenant'', ''a.b''] = to_nats_subject [''tenant'', ''a b'']"
  by code_simp

text \<open>The reader scans values as well as keys: a tenant called \<open>org\<close> hides the organization.\<close>

lemma value_after_reads_values:
  "dataset_locator ''org'' ''acme'' ''d1'' None None None = Inr ''noetl://tenant/org/org/acme/dataset/d1''
   \<and> value_after [''tenant'', ''org'', ''org'', ''acme'', ''dataset'', ''d1''] ''org'' = Some ''org''
   \<and> locality [''tenant'', ''zone'', ''org'', ''acme'', ''dataset'', ''d1''] = [(''zone'', ''org'')]"
  by code_simp

text \<open>An empty identifier drops its pair from the locator instead of being refused.\<close>

lemma empty_id_dropped:
  "dataset_locator [] ''acme'' ''d1'' None None None = Inr ''noetl://org/acme/dataset/d1''"
  by code_simp

lemma pairs_of_alternating:
  "distinct (map fst ps) \<Longrightarrow>
   set (map fst acc) \<inter> set (map fst ps) = {} \<Longrightarrow>
   pairs_of (concat (map (\<lambda>(k, v). [k, v]) ps)) acc = acc @ ps"
proof (induction ps arbitrary: acc)
  case (Cons p ps)
  obtain k v where p: "p = (k, v)" by (cases p)
  have "map_of acc k = None" using Cons.prems(2) by (auto simp: p map_of_eq_None_iff)
  then have "AList.update k v acc = acc @ [(k, v)]" by (rule update_absent)
  moreover have "pairs_of (concat (map (\<lambda>(k, v). [k, v]) ps)) (acc @ [(k, v)]) = (acc @ [(k, v)]) @ ps"
    using Cons.prems by (intro Cons.IH) (auto simp: p)
  ultimately show ?case by (simp add: p)
qed simp

lemma pairs_alternating:
  assumes "distinct (map fst ps)"
  shows "pairs (concat (map (\<lambda>(k, v). [k, v]) ps)) = Inr ps"
proof -
  have "even (length (concat (map (\<lambda>(k, v). [k, v]) ps)))" by (induction ps) auto
  then show ?thesis using assms pairs_of_alternating [of ps "[]"] by (simp add: pairs_def)
qed

end
