(* ===== verification/Template_Eval.thy ===== *)
theory Template_Eval
  imports Engine_Common Credential_Refs
begin

text \<open>
  Template evaluation in the engine (\<^verbatim>\<open>noetl/core/dsl/engine/executor/rendering.py\<close>): the fast path
  for a plain variable, references resolved on the way, the values handed to Jinja2 and the reading
  of its result, the recursive renderer, conditions (\<^verbatim>\<open>transitions.py\<close>) and the normalisation of a
  loop's collection. Parameters: \<open>jinja\<close> (Jinja2: the template and the values of its variables give
  text or raise), \<open>resolve\<close> (the result store) and \<open>attribute\<close> (\<open>getattr\<close> on values that are not
  dictionaries). Compiled templates are cached without effect on the result (\<open>Caches\<close>).
\<close>

section \<open>References in a result\<close>

definition is_ref_kind :: "pyval \<Rightarrow> bool" where
  "is_ref_kind v = (v \<in> {VStr ''temp_ref'', VStr ''result_ref''})"

definition extract_reference :: "pyval \<Rightarrow> pydict option" where
  "extract_reference v =
     (case v of
        VDict d \<Rightarrow>
          (case py_get d ''reference'' of
             VDict r \<Rightarrow> Some r
           | _ \<Rightarrow>
               (case first_some (\<lambda>key. case py_get d key of
                        VDict inner \<Rightarrow> as_dict (py_get inner ''reference'') | _ \<Rightarrow> None) [''data'', ''result''] of
                  Some r \<Rightarrow> Some r
                | None \<Rightarrow>
                    if is_ref_kind (py_get d ''kind'') \<and> truthy (py_get d ''ref'') then Some d else None))
      | _ \<Rightarrow> None)"

text \<open>\<open>resolve\<close> gives \<open>None\<close> where the store raises or has no value.\<close>

definition resolve_reference :: "(pydict \<Rightarrow> pyval option) \<Rightarrow> pydict option \<Rightarrow> pyval option" where
  "resolve_reference resolve r =
     (case r of
        None \<Rightarrow> None
      | Some d \<Rightarrow> if is_ref_kind (py_get d ''kind'') then resolve d else None)"

section \<open>The fast path\<close>

definition path_char :: "char \<Rightarrow> bool" where
  "path_char c = (is_word c \<or> c = CHR ''.'')"

text \<open>The path of \<open>{{ path }}\<close>, when the template is nothing else.\<close>

definition simple_var :: "string \<Rightarrow> string option" where
  "simple_var t =
     (let s = strip t in
      if \<not> startswith s ''{{'' then None
      else (let r = dropWhile is_space (drop 2 s); p = takeWhile path_char r in
        if p \<noteq> [] \<and> dropWhile is_space (dropWhile path_char r) = ''}}'' then Some p else None))"

definition next_part ::
  "(pydict \<Rightarrow> pyval option) \<Rightarrow> (pyval \<Rightarrow> string \<Rightarrow> pyval option) \<Rightarrow> pyval \<Rightarrow> string \<Rightarrow> pyval option" where
  "next_part resolve attribute v part =
     (case v of
        VDict d \<Rightarrow>
          (if has_key d part then Some (py_get d part)
           else (case resolve_reference resolve (extract_reference v) of
               Some (VList rows) \<Rightarrow>
                 if part = ''rows'' then Some (VList rows)
                 else if part = ''row_count'' then Some (VInt (int (length rows))) else None
             | Some (VDict r) \<Rightarrow> if has_key r part then Some (py_get r part) else None
             | _ \<Rightarrow> None))
      | _ \<Rightarrow> attribute v part)"

fun navigate ::
  "(pydict \<Rightarrow> pyval option) \<Rightarrow> (pyval \<Rightarrow> string \<Rightarrow> pyval option) \<Rightarrow> pyval \<Rightarrow> string list \<Rightarrow> pyval option" where
  "navigate resolve attribute v [] = Some v"
| "navigate resolve attribute v (p # ps) =
     (case next_part resolve attribute v p of
        None \<Rightarrow> None | Some w \<Rightarrow> navigate resolve attribute w ps)"

section \<open>Jinja2\<close>

text \<open>A variable of a Jinja2 template: a value, or a step result behind a proxy that resolves fields.\<close>

datatype jinja_value = Plain pyval | Result_Proxy string pydict

definition reserved_names :: "string list" where
  "reserved_names = [''ctx'', ''iter'', ''loop'', ''event'', ''workload'', ''output'', ''job'']"

definition jinja_variable :: "string \<Rightarrow> pyval \<Rightarrow> jinja_value" where
  "jinja_variable k v =
     (if k \<in> set reserved_names then Plain v
      else (case v of
          VDict d \<Rightarrow> Result_Proxy k d
        | VList xs \<Rightarrow> Plain (VDict [(''result'', VList xs)])
        | _ \<Rightarrow> Plain v))"

definition jinja_context :: "pydict \<Rightarrow> (string \<times> jinja_value) list" where
  "jinja_context context = map (\<lambda>(k, v). (k, jinja_variable k v)) context"

definition read_rendered :: "string \<Rightarrow> pyval" where
  "read_rendered t = (if lower t \<in> {''true'', ''false''} then VBool (lower t = ''true'') else VStr t)"

record renderer =
  rd_jinja :: "string \<Rightarrow> (string \<times> jinja_value) list \<Rightarrow> string res"
  rd_resolve :: "pydict \<Rightarrow> pyval option"
  rd_attribute :: "pyval \<Rightarrow> string \<Rightarrow> pyval option"
  rd_literal :: "string \<Rightarrow> pyval option"

definition render_template :: "renderer \<Rightarrow> string \<Rightarrow> pydict \<Rightarrow> pyval res" where
  "render_template rd t context =
     (if \<not> contains t ''{{'' then Inr (VStr t)
      else (case (case simple_var t of
                    None \<Rightarrow> None
                  | Some path \<Rightarrow>
                      navigate (rd_resolve rd) (rd_attribute rd) (VDict context) (split_on (CHR ''.'') path)) of
          Some v \<Rightarrow> Inr v
        | None \<Rightarrow> rbind (rd_jinja rd t (jinja_context context)) (\<lambda>s. Inr (read_rendered s))))"

text \<open>\<open>_render_template\<close> returns anything that is not text as it is.\<close>

definition render_expr :: "renderer \<Rightarrow> pyval \<Rightarrow> pydict \<Rightarrow> pyval res" where
  "render_expr rd v context = (case v of VStr t \<Rightarrow> render_template rd t context | _ \<Rightarrow> Inr v)"

fun render_value_recursive :: "renderer \<Rightarrow> pydict \<Rightarrow> pyval \<Rightarrow> pyval res" where
  "render_value_recursive rd context (VStr s) =
     (if contains s ''{{'' then render_template rd s context else Inr (VStr s))"
| "render_value_recursive rd context (VDict d) =
     rbind (rmap (\<lambda>(k, v). rbind (render_value_recursive rd context v) (\<lambda>w. Inr (k, w))) d) (\<lambda>d'. Inr (VDict d'))"
| "render_value_recursive rd context (VList xs) =
     rbind (rmap (render_value_recursive rd context) xs) (\<lambda>ys. Inr (VList ys))"
| "render_value_recursive rd context v = Inr v"

section \<open>The shared renderer\<close>

text \<open>
  \<open>render_template\<close> of \<^verbatim>\<open>noetl/core/dsl/render.py\<close>, which renders the values of a command: it never
  raises, a template that cannot be rendered stays as it is. \<open>rd_literal\<close> is what \<open>json.loads\<close> and
  \<open>ast.literal_eval\<close> read, when they read something. Recording the error is left out.
\<close>

definition error_text :: "py_error \<Rightarrow> string" where
  "error_text e =
     (case e of KeyError m \<Rightarrow> m | TypeError m \<Rightarrow> m | ValueError m \<Rightarrow> m | RuntimeError m \<Rightarrow> m
      | IndexError m \<Rightarrow> m | AttributeError m \<Rightarrow> m | UnboundLocalError m \<Rightarrow> m)"

definition has_markers :: "string \<Rightarrow> bool" where
  "has_markers t =
     ((contains t ''{{'' \<and> contains t ''}}'') \<or> (contains t ''{%'' \<and> contains t ''%}''))"

definition operators :: "string list" where
  "operators = [''=='', ''!='', ''<'', ''>'', ''+'', ''-'', ''*'', ''/'', ''|'', '' if '', '' else '']"

fun dict_path :: "pyval \<Rightarrow> string list \<Rightarrow> pyval option" where
  "dict_path v [] = Some v"
| "dict_path (VDict d) (p # ps) =
     (if has_key d (strip p) then dict_path (py_get d (strip p)) ps else None)"
| "dict_path v (p # ps) = None"

definition direct_value :: "string \<Rightarrow> pydict \<Rightarrow> pyval option" where
  "direct_value t context =
     (let expr = strip t in
      if startswith expr ''{{'' \<and> endswith expr ''}}'' then
        (let path = strip (drop 2 (take (length expr - 2) expr)) in
         if list_ex (contains path) operators then None
         else if CHR ''.'' \<notin> set path then (if has_key context path then Some (py_get context path) else None)
         else dict_path (VDict context) (split_on (CHR ''.'') path))
      else None)"

definition deep_reserved :: "string list" where
  "deep_reserved =
     [''work'', ''workload'', ''context'', ''env'', ''job'', ''input'', ''data'', ''results'', ''ctx'', ''iter'',
      ''loop'', ''event'']"

definition deep_variable :: "string \<Rightarrow> pyval \<Rightarrow> jinja_value" where
  "deep_variable k v =
     (if k \<in> set deep_reserved then Plain v
      else (case v of
          VDict d \<Rightarrow> Result_Proxy (if k = ''result'' then [] else k) d
        | VList xs \<Rightarrow> Plain (VDict [(''result'', VList xs)])
        | _ \<Rightarrow> Plain v))"

definition read_scalar :: "(string \<Rightarrow> pyval option) \<Rightarrow> string \<Rightarrow> pyval" where
  "read_scalar literal s =
     (if lower s \<in> {''true'', ''false''} then VBool (lower s = ''true'')
      else if isdigit s then (case parse_int s of Some i \<Rightarrow> VInt i | None \<Rightarrow> VStr s)
      else if lower (strip s) \<in> {''none'', ''null''} then VNone
      else (case literal s of Some v \<Rightarrow> v | None \<Rightarrow> VStr (if strip s = [] then [] else s)))"

definition read_literal :: "(string \<Rightarrow> pyval option) \<Rightarrow> string \<Rightarrow> pyval" where
  "read_literal literal s =
     (let bracketed = (startswith s ''['' \<and> endswith s '']'') \<or> (startswith s ''{'' \<and> endswith s ''}'') in
      case (if bracketed then literal s else None) of Some v \<Rightarrow> v | None \<Rightarrow> read_scalar literal s)"

text \<open>
  A failed rendering whose error says that a dictionary has no \<open>data\<close> or \<open>result\<close> is tried again with
  these fields dropped from the first expression of the template.
\<close>

fun str_replace :: "string \<Rightarrow> string \<Rightarrow> string \<Rightarrow> string" where
  "str_replace p q [] = []"
| "str_replace p q (c # s) =
     (if p \<noteq> [] \<and> startswith (c # s) p then q @ str_replace p q (drop (length p - 1) s)
      else c # str_replace p q s)"

fun until_braces :: "string \<Rightarrow> string option" where
  "until_braces [] = None"
| "until_braces (c # s) =
     (if startswith (c # s) ''}}'' then Some [] else if c = CHR 0x0A then None
      else map_option (\<lambda>r. c # r) (until_braces s))"

fun first_expression :: "string \<Rightarrow> string option" where
  "first_expression [] = None"
| "first_expression (c # s) =
     (case (if startswith (c # s) ''{{'' then until_braces (drop 1 s) else None) of
        Some e \<Rightarrow> Some e | None \<Rightarrow> first_expression s)"

definition fixed_template :: "string \<Rightarrow> string option" where
  "fixed_template t =
     map_option (\<lambda>e. let path = strip e in
       str_replace path (str_replace ''.result.'' ''.'' (str_replace ''.data.'' ''.'' path)) t)
     (first_expression t)"

definition missing_data_field :: "string \<Rightarrow> bool" where
  "missing_data_field msg =
     list_ex (\<lambda>f. contains msg ([CHR 0x27] @ ''dict object'' @ [CHR 0x27] @ '' has no attribute ''
        @ [CHR 0x27] @ f @ [CHR 0x27])) [''data'', ''result'']"

definition render_deep_text :: "renderer \<Rightarrow> string \<Rightarrow> pydict \<Rightarrow> pyval" where
  "render_deep_text rd t context =
     (if \<not> has_markers t then VStr t
      else if strip t = ''{{}}'' then VStr []
      else (case direct_value t context of
          Some v \<Rightarrow> v
        | None \<Rightarrow>
            (case rd_jinja rd t (map (\<lambda>(k, v). (k, deep_variable k v)) context) of
               Inr s \<Rightarrow>
                 if contains t ''| tojson'' \<or> contains t ''|tojson'' then VStr s
                 else read_literal (rd_literal rd) s
             | Inl e \<Rightarrow>
                 (case (if missing_data_field (error_text e) then fixed_template t else None) of
                    None \<Rightarrow> VStr t
                  | Some t' \<Rightarrow>
                      (case rd_jinja rd t' (map (\<lambda>(k, v). (k, Plain v)) context) of
                         Inr s \<Rightarrow> VStr s | Inl _ \<Rightarrow> VStr t)))))"

fun render_deep :: "renderer \<Rightarrow> pydict \<Rightarrow> pyval \<Rightarrow> pyval" where
  "render_deep rd context (VStr s) = render_deep_text rd s context"
| "render_deep rd context (VDict d) = VDict (map (\<lambda>(k, v). (k, render_deep rd context v)) d)"
| "render_deep rd context (VList xs) = VList (map (render_deep rd context) xs)"
| "render_deep rd context v = v"

section \<open>Conditions\<close>

definition false_texts :: "string list" where
  "false_texts = [''false'', ''0'', ''no'', ''none'', '''']"

definition holds :: "pyval \<Rightarrow> bool" where
  "holds v =
     (case v of VBool b \<Rightarrow> b | VStr s \<Rightarrow> lower s \<notin> set false_texts | _ \<Rightarrow> truthy v)"

text \<open>Whether the condition holds, and whether evaluating it raised.\<close>

definition evaluate_condition_with_status :: "renderer \<Rightarrow> string \<Rightarrow> pydict \<Rightarrow> bool \<times> bool" where
  "evaluate_condition_with_status rd expr context =
     (case render_template rd expr context of Inl _ \<Rightarrow> (False, True) | Inr v \<Rightarrow> (holds v, False))"

definition evaluate_condition :: "renderer \<Rightarrow> string \<Rightarrow> pydict \<Rightarrow> bool" where
  "evaluate_condition rd expr context = fst (evaluate_condition_with_status rd expr context)"

section \<open>Collections\<close>

definition normalize_loop_collection :: "pyval \<Rightarrow> pyval list" where
  "normalize_loop_collection v =
     (case v of
        VList xs \<Rightarrow> xs
      | VNone \<Rightarrow> []
      | VStr t \<Rightarrow> if contains t ''{{'' \<or> contains t ''{%'' then [] else [v]
      | _ \<Rightarrow> [v])"

definition resolve_collection_if_reference :: "(pydict \<Rightarrow> pyval option) \<Rightarrow> pyval \<Rightarrow> pyval" where
  "resolve_collection_if_reference resolve v =
     (case v of
        VDict d \<Rightarrow>
          (case (case py_get d ''reference'' of
                   VDict r \<Rightarrow> Some r
                 | _ \<Rightarrow> if is_ref_kind (py_get d ''kind'') \<and> truthy (py_get d ''ref'') then Some d else None) of
             None \<Rightarrow> v
           | Some r \<Rightarrow> (case resolve r of Some (VList rows) \<Rightarrow> VList rows | _ \<Rightarrow> v))
      | _ \<Rightarrow> v)"

definition render_collection :: "renderer \<Rightarrow> string \<Rightarrow> pydict \<Rightarrow> pyval list res" where
  "render_collection rd expr context =
     rbind (render_template rd expr context) (\<lambda>v.
       Inr (normalize_loop_collection (resolve_collection_if_reference (rd_resolve rd) v)))"

text \<open>Templates without a marker are values: nothing is evaluated.\<close>

lemma render_plain [simp]: "\<not> contains t ''{{'' \<Longrightarrow> render_template rd t context = Inr (VStr t)"
  by (simp add: render_template_def)

lemma condition_raised_not_matched:
  "evaluate_condition_with_status rd e c = (m, True) \<Longrightarrow> \<not> m"
  by (auto simp: evaluate_condition_with_status_def split: sum.splits)

text \<open>
  A variable that is bound to a value at the top level renders to that value, of whatever type,
  without going through text.
\<close>

lemma render_bound_variable:
  assumes "simple_var t = Some x" and "CHR ''.'' \<notin> set x" and "map_of context x = Some v"
    and "contains t ''{{''"
  shows "render_template rd t context = Inr v"
  using assms by (simp add: render_template_def split_on_no_sep next_part_def has_key_def py_get_def)

text \<open>A condition written without braces is never evaluated: it holds unless its text reads as false.\<close>

lemma unbraced_condition_holds:
  "\<not> contains e ''{{'' \<Longrightarrow> lower e \<notin> set false_texts \<Longrightarrow> evaluate_condition rd e context"
  by (simp add: evaluate_condition_def evaluate_condition_with_status_def holds_def)

end
