(* ===== verification/Loop_Recovery.thy ===== *)
theory Loop_Recovery
  imports Engine_State Template_Eval Loop_Cache
begin

text \<open>
  Recovery of a loop's state in the engine (\<^verbatim>\<open>noetl/core/dsl/engine/executor/rendering.py\<close>): the
  identifiers a loop's distributed state may be stored under, hydration of a cold state from the
  NATS bucket, and the snapshots of collections taken before a state is reloaded and put back
  after. Requests to the bucket are answered; a connection failure is not represented.
\<close>

section \<open>The concurrency of a loop\<close>

text \<open>\<open>_coerce_loop_max_in_flight\<close> and \<open>_get_loop_max_in_flight\<close> of \<^verbatim>\<open>transitions.py\<close>.\<close>

definition bad_max_in_flight :: py_error where
  "bad_max_in_flight = ValueError ''loop.spec.max_in_flight must render to a positive integer''"

definition coerce_loop_max_in_flight :: "renderer \<Rightarrow> pyval \<Rightarrow> pydict option \<Rightarrow> int res" where
  "coerce_loop_max_in_flight rd raw context =
     rbind (case raw of
              VStr s \<Rightarrow>
                (if contains (strip s) ''{{'' \<or> contains (strip s) ''{%'' then
                   (case context of
                      None \<Rightarrow> Inl (ValueError ''loop.spec.max_in_flight template requires render context'')
                    | Some c \<Rightarrow> Inr (render_deep_text rd (strip s) c))
                 else Inr (VStr (strip s)))
            | _ \<Rightarrow> Inr raw) (\<lambda>v.
       case py_int v of
         Inl _ \<Rightarrow> Inl bad_max_in_flight
       | Inr i \<Rightarrow> if i < 1 then Inl bad_max_in_flight else Inr i)"

definition get_loop_max_in_flight :: "renderer \<Rightarrow> step_decl \<Rightarrow> pydict option \<Rightarrow> int res" where
  "get_loop_max_in_flight rd step context =
     (case st_loop step of
        None \<Rightarrow> Inr 1
      | Some l \<Rightarrow>
          if resolved_mode l = Sequential then Inr 1
          else if truthy (ld_max_in_flight l)
          then coerce_loop_max_in_flight rd (ld_max_in_flight l) context
          else Inr 1)"

lemma coerced_positive: "coerce_loop_max_in_flight rd raw context = Inr n \<Longrightarrow> 1 \<le> n"
  unfolding coerce_loop_max_in_flight_def
  by (erule rbind_InrE) (simp split: sum.splits if_splits)

lemma max_in_flight_positive: "get_loop_max_in_flight rd step context = Inr n \<Longrightarrow> 1 \<le> n"
  by (auto simp: get_loop_max_in_flight_def coerced_positive split: option.splits if_splits)

section \<open>Loop identifiers\<close>

definition belongs_to_execution :: "pyval \<Rightarrow> pyval \<Rightarrow> bool" where
  "belongs_to_execution loop_event_id execution_id =
     (if loop_event_id = VNone \<or> execution_id = VNone then True
      else (let c = py_str loop_event_id; e = py_str execution_id in
        if startswith c ''loop_'' then startswith c (''loop_'' @ e @ ''_'')
        else if startswith c ''exec_'' then c = ''exec_'' @ e
        else True))"

definition execution_fallback :: "pyval \<Rightarrow> string" where
  "execution_fallback execution_id = ''exec_'' @ py_str execution_id"

definition add_new :: "'a \<Rightarrow> 'a list \<Rightarrow> 'a list" where
  "add_new x xs = (if x \<in> set xs then xs else xs @ [x])"

definition build_loop_event_id_candidates :: "exec_state \<Rightarrow> string \<Rightarrow> pydict \<Rightarrow> string list" where
  "build_loop_event_id_candidates s step ls =
     (let id = py_get ls ''event_id'';
          c1 = (if id \<noteq> VNone \<and> belongs_to_execution id (es_execution_id s) then [py_str id] else []);
          c2 = add_new (execution_fallback (es_execution_id s)) c1;
          step_id = py_get (es_step_event_ids s) step in
      if step_id \<noteq> VNone \<and> belongs_to_execution (VStr (py_str step_id)) (es_execution_id s)
      then add_new (py_str step_id) c2 else c2)"

definition loop_event_ids_compatible :: "string option \<Rightarrow> string option \<Rightarrow> bool" where
  "loop_event_ids_compatible cached restored =
     (case (cached, restored) of (Some c, Some r) \<Rightarrow> c = r | _ \<Rightarrow> True)"

section \<open>Hydration\<close>

definition cache_run :: "kv_prog \<Rightarrow> kv_store \<Rightarrow> (pyval \<times> kv_store) res" where
  "cache_run p store = run_prog p store"

definition range_list :: "int \<Rightarrow> pyval list" where
  "range_list n = map (\<lambda>i. VInt (int i)) [0..<nat n]"

definition known_collection :: "pydict option \<Rightarrow> pyval list" where
  "known_collection existing =
     (case existing of
        None \<Rightarrow> []
      | Some ls \<Rightarrow> (case py_get ls ''collection'' of VList xs \<Rightarrow> xs | _ \<Rightarrow> []))"

text \<open>The collection a cold loop is hydrated with: the first of its sources that has items.\<close>

definition hydrated_collection ::
  "renderer \<Rightarrow> exec_state \<Rightarrow> kv_store \<Rightarrow> step_decl \<Rightarrow> loop_decl \<Rightarrow> engine_event \<Rightarrow> string \<Rightarrow> pydict option
     \<Rightarrow> pydict \<Rightarrow> pyval list res" where
  "hydrated_collection rd s store step l ev epoch existing cached =
     (let c0 = known_collection existing in
      rbind (if c0 \<noteq> [] then Inr c0
             else if is_cursor l then
               rbind (get_render_context ev s) (\<lambda>context.
               rbind (get_loop_max_in_flight rd step (Some context)) (\<lambda>n. Inr (range_list n)))
             else (case rbind (get_render_context ev s) (\<lambda>context.
                            case ld_in l of None \<Rightarrow> Inr [] | Some e \<Rightarrow> render_collection rd e context) of
                 Inl _ \<Rightarrow> Inr []
               | Inr xs \<Rightarrow> Inr xs)) (\<lambda>c1.
      rbind (if c1 \<noteq> [] then Inr c1
             else rbind (cache_run (get_loop_collection (py_str (es_execution_id s)) (st_step step) epoch) store)
               (\<lambda>(v, _). Inr (case v of VList xs \<Rightarrow> xs | _ \<Rightarrow> []))) (\<lambda>c2.
      if c2 \<noteq> [] then Inr c2
      else rbind (count_or_zero cached ''collection_size'') (\<lambda>n. Inr (range_list n)))))"

definition hydrated_loop_state :: "pydict \<Rightarrow> string \<Rightarrow> int \<Rightarrow> pydict \<Rightarrow> pydict res" where
  "hydrated_loop_state cached epoch n ls =
     rbind (read_counts cached) (\<lambda>(completed, scheduled0).
     (let scheduled = max scheduled0 completed;
          l1 = set_keys [(''event_id'', VStr epoch), (''index'', VInt (min completed n)),
                         (''scheduled_count'', VInt (min scheduled n))] ls;
          l2 = (if 0 < completed \<and> \<not> truthy (py_get l1 ''results'')
                then AList.update ''omitted_results_count'' (VInt completed) l1 else l1) in
      Inr (if truthy (py_get_default cached ''loop_done_claimed'' (VBool False))
           then set_keys [(''completed'', VBool True), (''aggregation_finalized'', VBool True)] l2 else l2)))"

definition same_epoch :: "pydict option \<Rightarrow> string \<Rightarrow> bool" where
  "same_epoch existing epoch =
     (case existing of
        None \<Rightarrow> False
      | Some ls \<Rightarrow> ls \<noteq> [] \<and> py_str (py_or (py_get ls ''event_id'') (VStr [])) = epoch)"

definition ensure_loop_state_for_epoch ::
  "renderer \<Rightarrow> step_decl \<Rightarrow> engine_event \<Rightarrow> string option \<Rightarrow> exec_state \<Rightarrow> kv_store
     \<Rightarrow> (pydict option \<times> exec_state) res" where
  "ensure_loop_state_for_epoch rd step ev loop_event_id s store =
     (let existing = map_of (es_loop_state s) (st_step step) in
      case (st_loop step, loop_event_id) of
        (Some l, Some epoch) \<Rightarrow>
          if epoch = [] then Inr (existing, s)
          else if \<not> belongs_to_execution (VStr epoch) (es_execution_id s) then
            Inr (case existing of
                   None \<Rightarrow> None
                 | Some ls \<Rightarrow>
                     if ls \<noteq> [] \<and> belongs_to_execution (py_get ls ''event_id'') (es_execution_id s)
                     then Some ls else None, s)
          else if same_epoch existing epoch then Inr (existing, s)
          else
            rbind (cache_run (get_loop_state (py_str (es_execution_id s)) (st_step step) (Some epoch)) store)
              (\<lambda>(v, _).
               case v of
                 VDict cached \<Rightarrow>
                   if cached = [] then Inr (existing, s)
                   else
                     rbind (hydrated_collection rd s store step l ev epoch existing cached) (\<lambda>xs.
                     if xs = [] then Inr (existing, s)
                     else
                       rbind (init_loop (st_step step) xs (ld_iterator l) (mode_name l) (VStr epoch) s) (\<lambda>s'.
                       rbind (case map_of (es_loop_state s') (st_step step) of
                                None \<Rightarrow> Inl (KeyError (st_step step)) | Some ls \<Rightarrow> Inr ls) (\<lambda>ls.
                       rbind (hydrated_loop_state cached epoch (int (length xs)) ls) (\<lambda>ls'.
                         Inr (Some ls', with_loop (st_step step) ls' s')))))
               | _ \<Rightarrow> if truthy v then Inl (TypeError ''loop state is not an object'') else Inr (existing, s))
      | _ \<Rightarrow> Inr (existing, s))"

section \<open>Snapshots\<close>

record loop_snapshot =
  sn_collection :: "pyval list"
  sn_epoch_size :: int
  sn_event_id :: "string option"
  sn_iterator :: pyval
  sn_mode :: pyval
  sn_completed :: int
  sn_scheduled :: int

definition snapshot_of :: "exec_state \<Rightarrow> string \<times> pydict \<Rightarrow> (string \<times> loop_snapshot) option res" where
  "snapshot_of s kl =
     (case kl of (step, ls) \<Rightarrow>
        (case py_get ls ''collection'' of
           VList xs \<Rightarrow>
             if xs = [] then Inr None
             else
               (let n = int (length xs) in
                rbind (get_loop_completed_count step s) (\<lambda>tot.
                (let completed = min tot n in
                 rbind (count_or ls ''scheduled_count'' completed) (\<lambda>sc.
                 (let scheduled = max (min sc n) completed in
                  Inr (Some (step,
                    \<lparr>sn_collection = xs, sn_epoch_size = n,
                     sn_event_id = str_opt (py_get ls ''event_id''),
                     sn_iterator = py_get ls ''iterator'', sn_mode = py_get ls ''mode'',
                     sn_completed = completed, sn_scheduled = scheduled\<rparr>)))))))
         | _ \<Rightarrow> Inr None))"

definition snapshot_loop_collections :: "exec_state \<Rightarrow> (string \<times> loop_snapshot) list res" where
  "snapshot_loop_collections s =
     rbind (rmap (snapshot_of s) (es_loop_state s)) (\<lambda>xs. Inr (List.map_filter id xs))"

text \<open>\<open>int(snapshot.get("scheduled_count", c) or c)\<close>, never below the completed count.\<close>

definition snapshot_scheduled :: "loop_snapshot \<Rightarrow> int" where
  "snapshot_scheduled sn = max (if sn_scheduled sn = 0 then sn_completed sn else sn_scheduled sn) (sn_completed sn)"

definition restored_counts :: "loop_snapshot \<Rightarrow> int \<Rightarrow> int \<times> int \<times> int" where
  "restored_counts sn tot =
     (let completed = max tot (sn_completed sn);
          scheduled = max (snapshot_scheduled sn) completed;
          e = sn_epoch_size sn in
      if 0 < e then (min completed e, min scheduled e, max 1 (max (min completed e) (min scheduled e)))
      else (completed, scheduled, max 1 (max completed scheduled)))"

definition epoch_relative :: "int \<Rightarrow> int \<Rightarrow> int \<Rightarrow> int" where
  "epoch_relative snap cnt e =
     (if snap = 0 \<and> 0 < cnt then (if cnt mod e > 0 then cnt mod e else e) else snap)"

text \<open>\<open>xs[-n:]\<close>: the whole list for 0.\<close>

definition last_items :: "int \<Rightarrow> pyval list \<Rightarrow> pyval list" where
  "last_items n xs = (if n = 0 then xs else drop (nat (int (length xs) - n)) xs)"

definition reset_to_epoch :: "loop_snapshot \<Rightarrow> int \<Rightarrow> int \<Rightarrow> pydict \<Rightarrow> pydict res" where
  "reset_to_epoch sn completed scheduled ls =
     (let e = sn_epoch_size sn;
          rel = epoch_relative (sn_completed sn) completed e;
          rel_scheduled = epoch_relative (snapshot_scheduled sn) scheduled e in
      (case py_get_default ls ''results'' (VList []) of
         VList rs \<Rightarrow>
           (let rs' = (if rel < int (length rs) then last_items rel rs else rs);
                l1 = (if rel < int (length rs) then AList.update ''results'' (VList rs') ls else ls) in
            Inr (set_keys [(''omitted_results_count'', VInt (max 0 (rel - int (length rs')))),
                           (''index'', VInt rel), (''scheduled_count'', VInt rel_scheduled)] l1))
       | _ \<Rightarrow> Inl (TypeError ''object has no len()'')))"

definition keep_or :: "string \<Rightarrow> pyval \<Rightarrow> pydict \<Rightarrow> pydict" where
  "keep_or k v ls = (if \<not> truthy (py_get ls k) \<and> v \<noteq> VNone then AList.update k v ls else ls)"

definition restored_mode :: "loop_snapshot \<Rightarrow> pydict \<Rightarrow> string" where
  "restored_mode sn ls = lower (py_str (py_or (py_or (py_get ls ''mode'') (sn_mode sn)) (VStr [])))"

definition wants_snapshot :: "loop_snapshot \<Rightarrow> int \<Rightarrow> pydict \<Rightarrow> bool" where
  "wants_snapshot sn tot ls =
     (case restored_counts sn tot of (completed, scheduled, required) \<Rightarrow>
        (let cached = int (length (sn_collection sn));
             current = (case py_get ls ''collection'' of VList xs \<Rightarrow> int (length xs) | _ \<Rightarrow> 0) in
         sn_collection sn \<noteq> []
         \<and> loop_event_ids_compatible (sn_event_id sn) (str_opt (py_get ls ''event_id''))
         \<and> \<not> (restored_mode sn ls = ''parallel'' \<and> cached \<le> 1 \<and> (cached < scheduled \<or> cached < completed))
         \<and> required \<le> cached
         \<and> (current = 0 \<or> (current \<le> required \<and> current < cached))))"

definition restore_snapshot :: "exec_state \<times> nat \<Rightarrow> string \<times> loop_snapshot \<Rightarrow> (exec_state \<times> nat) res" where
  "restore_snapshot acc entry =
     (case (acc, entry) of ((s, n), (step, sn)) \<Rightarrow>
        (case map_of (es_loop_state s) step of
           None \<Rightarrow> Inr (s, n)
         | Some ls \<Rightarrow>
             if ls = [] then Inr (s, n)
             else
               rbind (get_loop_completed_count step s) (\<lambda>tot.
               if \<not> wants_snapshot sn tot ls then Inr (s, n)
               else
                 (case restored_counts sn tot of (completed, scheduled, _) \<Rightarrow>
                    (let l1 = AList.update ''collection'' (VList (sn_collection sn)) ls;
                         l2 = keep_or ''mode'' (sn_mode sn) (keep_or ''iterator'' (sn_iterator sn) l1);
                         l3 = AList.update ''scheduled_count'' (VInt scheduled) l2 in
                     rbind (if 0 < sn_epoch_size sn \<and> sn_epoch_size sn < completed
                            then reset_to_epoch sn completed scheduled l3 else Inr l3) (\<lambda>l4.
                       Inr (with_loop step l4 s, Suc n)))))))"

definition restore_loop_collection_snapshots ::
  "(string \<times> loop_snapshot) list \<Rightarrow> exec_state \<Rightarrow> (exec_state \<times> nat) res" where
  "restore_loop_collection_snapshots snapshots s = rfold restore_snapshot (s, 0) snapshots"


section \<open>What recovery guarantees\<close>

text \<open>A snapshot holds the whole collection, and its counts lie within it, in order.\<close>

definition snapshot_ok :: "loop_snapshot \<Rightarrow> bool" where
  "snapshot_ok sn \<longleftrightarrow>
     sn_collection sn \<noteq> [] \<and> sn_epoch_size sn = int (length (sn_collection sn))
     \<and> sn_completed sn \<le> sn_scheduled sn \<and> sn_scheduled sn \<le> sn_epoch_size sn"

lemma snapshot_of_ok: "snapshot_of s (step, ls) = Inr (Some (k, sn)) \<Longrightarrow> snapshot_ok sn \<and> k = step"
  by (auto simp: snapshot_of_def snapshot_ok_def Let_def res_simps split: pyval.splits if_splits)

lemma snapshots_ok:
  assumes "snapshot_loop_collections s = Inr sns" and "(k, sn) \<in> set sns"
  shows "snapshot_ok sn"
proof -
  obtain xs where xs: "rmap (snapshot_of s) (es_loop_state s) = Inr xs" "sns = List.map_filter id xs"
    using assms(1) by (auto simp: snapshot_loop_collections_def res_simps)
  then have "Some (k, sn) \<in> set xs" using assms(2) by (auto simp: List.map_filter_def)
  then obtain kl where "snapshot_of s kl = Inr (Some (k, sn))"
    using rmap_source [OF xs(1), of "Some (k, sn)"] by blast
  then show ?thesis by (cases kl) (auto dest: snapshot_of_ok)
qed

text \<open>The counts put back never exceed the epoch, so the branch that resets them is never taken.\<close>

lemma epoch_reset_unreachable:
  assumes "restored_counts sn tot = (completed, scheduled, required)"
  shows "\<not> (0 < sn_epoch_size sn \<and> sn_epoch_size sn < completed)"
  using assms by (auto simp: restored_counts_def Let_def split: if_splits)

text \<open>The collection of a loop, when its state holds one.\<close>

definition held_items :: "exec_state \<Rightarrow> string \<Rightarrow> pyval list" where
  "held_items s step = known_collection (map_of (es_loop_state s) step)"

lemma restore_snapshot_step:
  assumes "restore_snapshot (s, n) (step, sn) = Inr (s', n')"
  shows "(s' = s \<and> n' = n) \<or> (n' = Suc n \<and> held_items s' step = sn_collection sn
      \<and> length (held_items s step) < length (sn_collection sn)
      \<and> (\<forall>other. other \<noteq> step \<longrightarrow> held_items s' other = held_items s other))"
proof -
  consider "s' = s \<and> n' = n"
    | ls tot completed scheduled required l4 where
      "map_of (es_loop_state s) step = Some ls" "wants_snapshot sn tot ls"
      "restored_counts sn tot = (completed, scheduled, required)"
      "l4 = AList.update ''scheduled_count'' (VInt scheduled)
         (keep_or ''mode'' (sn_mode sn) (keep_or ''iterator'' (sn_iterator sn)
           (AList.update ''collection'' (VList (sn_collection sn)) ls)))"
      "s' = with_loop step l4 s" "n' = Suc n"
    using assms epoch_reset_unreachable
    by (auto simp: restore_snapshot_def Let_def res_simps
        split: option.splits if_splits prod.splits)
  then show ?thesis
  proof cases
    case 2
    have l4: "py_get l4 ''collection'' = VList (sn_collection sn)"
      by (simp add: 2(4) keep_or_def py_get_def)
    have "length (held_items s step) < length (sn_collection sn)"
      using 2(1,2,3) by (auto simp: wants_snapshot_def held_items_def known_collection_def Let_def
          split: pyval.splits)
    then show ?thesis using 2(5,6) l4
      by (simp add: held_items_def known_collection_def with_loop_def)
  qed simp
qed

text \<open>
  Putting snapshots back never loses items: every loop holds at least as many as before, and a
  loop whose collection was replaced now holds a snapshot that is longer.
\<close>
lemma restore_never_shrinks:
  assumes "restore_loop_collection_snapshots snapshots s = Inr (s', n)"
  shows "length (held_items s step) \<le> length (held_items s' step)"
proof -
  have "rfold restore_snapshot (s0, k) snapshots = Inr (s1, m)
      \<Longrightarrow> length (held_items s0 step) \<le> length (held_items s1 step)" for s0 s1 k m
  proof (induction snapshots arbitrary: s0 k)
    case (Cons e es)
    obtain s2 j where r: "restore_snapshot (s0, k) e = Inr (s2, j)" "rfold restore_snapshot (s2, j) es = Inr (s1, m)"
      using Cons.prems by (auto simp: res_simps)
    have "length (held_items s0 step) \<le> length (held_items s2 step)"
      using restore_snapshot_step [of s0 k "fst e" "snd e" s2 j] r(1)
      by (cases "step = fst e") auto
    then show ?case using Cons.IH [OF r(2)] by linarith
  qed simp
  then show ?thesis using assms by (auto simp: restore_loop_collection_snapshots_def)
qed

definition sample_cold :: exec_state where
  "sample_cold = (new_execution_state (VStr ''7'') sample_playbook [] VNone VNone)
     \<lparr>es_loop_state := [(''s'', fresh_loop_state 3 ''it'' ''parallel'' (VStr ''loop_7_1''))]\<rparr>"

definition sample_snapshot :: loop_snapshot where
  "sample_snapshot = \<lparr>sn_collection = [VInt 1, VInt 2, VInt 3], sn_epoch_size = 3,
     sn_event_id = Some ''loop_7_1'', sn_iterator = VStr ''it'', sn_mode = VStr ''parallel'',
     sn_completed = 1, sn_scheduled = 2\<rparr>"

lemma restore_never_shrinks_witness:
  "\<exists>s'. restore_loop_collection_snapshots [(''s'', sample_snapshot)] sample_cold = Inr (s', 1)
     \<and> held_items s' ''s'' = [VInt 1, VInt 2, VInt 3]
     \<and> length (held_items sample_cold ''s'') \<le> length (held_items s' ''s'')"
proof -
  obtain s' where s': "restore_loop_collection_snapshots [(''s'', sample_snapshot)] sample_cold = Inr (s', 1)"
      "held_items s' ''s'' = [VInt 1, VInt 2, VInt 3]"
  proof -
    have "case restore_loop_collection_snapshots [(''s'', sample_snapshot)] sample_cold of
        Inr (s', n) \<Rightarrow> n = 1 \<and> held_items s' ''s'' = [VInt 1, VInt 2, VInt 3] | Inl e \<Rightarrow> False"
      by code_simp
    then show ?thesis using that by (auto split: sum.splits prod.splits)
  qed
  then show ?thesis using restore_never_shrinks [OF s'(1), of "''s''"] by auto
qed

lemma fresh_loop_not_snapshotted:
  "map_of (fresh_loop_state n it m e) ''collection'' = None
   \<and> snapshot_of s (step, fresh_loop_state n it m e) = Inr None"
  by (simp add: snapshot_of_def fresh_loop_state_def)

text \<open>
  The identifier a local reset gives a loop is not recognised as one of the execution: the epoch of
  execution 7 that starts after event 9 is looked up under the execution's fallback instead.
\<close>

lemma reset_epoch_rejected:
  "build_loop_event_id_candidates
     (new_execution_state (VStr ''7'') pb [] VNone VNone) ''s''
     [(''event_id'', VStr ''loop_9_1700000000'')] = [''exec_7'']"
proof -
  have "\<not> belongs_to_execution (VStr ''loop_9_1700000000'') (VStr ''7'')" by code_simp
  then show ?thesis
    by (simp add: build_loop_event_id_candidates_def new_execution_state_def add_new_def
        execution_fallback_def)
qed

end
