(* ===== verification/Engine_World.thy ===== *)
theory Engine_World
  imports Loop_Recovery Caches
begin

text \<open>
  What an engine call reads and writes besides its own state: the event, command, stage, frame,
  execution and catalog tables, the cache of parsed playbooks, the distributed loop state, the
  identifiers and the clock it takes, and the buffer that coalesces the saves of one call. A call is a function of this
  world that returns a value or an exception together with the world it leaves. Persisting events
  is \<^verbatim>\<open>noetl/core/dsl/engine/executor/lifecycle.py\<close>, the queries are \<^verbatim>\<open>queries.py\<close>. Times are
  microseconds; statements succeed and transactions are not rolled back; the measured wall-clock
  times are left out.
\<close>

section \<open>The world\<close>

record event_row =
  we_execution_id :: pyval
  we_catalog_id :: pyval
  we_event_id :: int
  we_parent_event_id :: pyval
  we_parent_execution_id :: pyval
  we_created_at :: int
  we_event_type :: string
  we_node_name :: "string option"
  we_status :: pyval
  we_duration :: int
  we_context :: pyval
  we_result :: pyval
  we_meta :: pydict
  we_error :: pyval
  we_worker_id :: pyval
  we_command_id :: "int option"
  we_envelope :: pydict

record runtime_stage =
  sg_stage_id :: int
  sg_execution_id :: int
  sg_parent_event_id :: pyval
  sg_loop_event_id :: string
  sg_kind :: string
  sg_step_name :: string
  sg_dsl_ref :: string
  sg_status :: string
  sg_frame_policy :: pydict
  sg_opened_event_id :: "int option"
  sg_closed_event_id :: "int option"
  sg_ended_at :: "int option"

record frame_tuple =
  fr_stage_id :: int
  fr_status :: string
  fr_row_count :: int
  fr_events_emitted :: int

text \<open>The projection of an execution; its state is the \<open>JSONB\<close> column.\<close>

record execution_tuple =
  xr_execution_id :: int
  xr_catalog_id :: int
  xr_parent_execution_id :: "int option"
  xr_status :: string
  xr_start_time :: int
  xr_end_time :: "int option"
  xr_last_event_id :: "int option"
  xr_state :: pyval
  xr_updated_at :: int

record catalog_row =
  ct_catalog_id :: int
  ct_path :: string
  ct_content :: string

record command_row =
  wc_execution_id :: pyval
  wc_command_id :: int
  wc_step_name :: string
  wc_loop_event_id :: "string option"
  wc_iter_index :: "int option"
  wc_status :: string
  wc_created_at :: int
  wc_meta :: pydict

record engine =
  en_state :: exec_state
  en_cache :: kv_store
  en_events :: "event_row list"
  en_commands :: "command_row list"
  en_stages :: "runtime_stage list"
  en_frames :: "frame_tuple list"
  en_executions :: "execution_tuple list"
  en_catalog :: "catalog_row list"
  en_playbooks :: "(string, playbook) bounded_cache"
  en_buffer :: "nat option"
  en_mirrored :: "event_row list"
  en_next_id :: int
  en_ticks :: nat

text \<open>
  The host of the engine: the renderer, the clock by reading, the text forms of times, whether
  events are mirrored to the outbox, the result store, the check of a bracketed host, the size of a result as the interpreter
  estimates it, the YAML reader and the validation of a playbook (\<open>None\<close> where they raise), the
  keychain processor, and the settings of the module with their defaults.
\<close>

record host =
  h_renderer :: renderer
  h_clock :: "nat \<Rightarrow> int"
  h_iso :: "int \<Rightarrow> string"
  h_parse_iso :: "pyval \<Rightarrow> int option"
  h_mirror :: bool
  h_max_stall_restarts :: int
  h_reconcile_cooldown :: int
  h_watchdog :: int
  h_recovery_cooldown :: int
  h_repair_threshold :: int
  h_missing_min_age :: int
  h_max_pages :: int
  h_fetch :: "pydict \<Rightarrow> pyval res"
  h_ip_host :: "string \<Rightarrow> bool"
  h_result_size :: "pyval \<Rightarrow> nat"
  h_result_max :: int
  h_yaml :: "string \<Rightarrow> pyval option"
  h_playbook :: "pydict \<Rightarrow> playbook option"
  h_keychain :: "pyval \<Rightarrow> pyval \<Rightarrow> pydict \<Rightarrow> pyval res"

section \<open>Calls\<close>

type_synonym 'a call = "engine \<Rightarrow> 'a res \<times> engine"

definition ret :: "'a \<Rightarrow> 'a call" where
  "ret x e = (Inr x, e)"

definition raises :: "py_error \<Rightarrow> 'a call" where
  "raises x e = (Inl x, e)"

definition andthen :: "'a call \<Rightarrow> ('a \<Rightarrow> 'b call) \<Rightarrow> 'b call" where
  "andthen m f e = (case m e of (Inl x, e') \<Rightarrow> (Inl x, e') | (Inr a, e') \<Rightarrow> f a e')"

definition pure :: "'a res \<Rightarrow> 'a call" where
  "pure r e = (r, e)"

definition reading :: "(engine \<Rightarrow> 'a) \<Rightarrow> 'a call" where
  "reading f e = (Inr (f e), e)"

definition changing :: "(engine \<Rightarrow> engine) \<Rightarrow> unit call" where
  "changing f e = (Inr (), f e)"

definition state_of :: "exec_state call" where
  "state_of = reading en_state"

definition changing_state :: "(exec_state \<Rightarrow> exec_state) \<Rightarrow> unit call" where
  "changing_state f = changing (\<lambda>e. e\<lparr>en_state := f (en_state e)\<rparr>)"

text \<open>An operation on the state that may raise.\<close>

definition on_state :: "(exec_state \<Rightarrow> exec_state res) \<Rightarrow> unit call" where
  "on_state f e = (case f (en_state e) of Inl x \<Rightarrow> (Inl x, e) | Inr s \<Rightarrow> (Inr (), e\<lparr>en_state := s\<rparr>))"

fun each :: "('a \<Rightarrow> 'b call) \<Rightarrow> 'a list \<Rightarrow> 'b list call" where
  "each f [] = ret []"
| "each f (x # xs) = andthen (f x) (\<lambda>y. andthen (each f xs) (\<lambda>ys. ret (y # ys)))"

definition clock :: "host \<Rightarrow> int call" where
  "clock h e = (Inr (h_clock h (en_ticks e)), e\<lparr>en_ticks := Suc (en_ticks e)\<rparr>)"

text \<open>A request to the NATS bucket; each of its attempts reads the clock.\<close>

definition cached :: "host \<Rightarrow> ((nat \<Rightarrow> string) \<Rightarrow> kv_prog) \<Rightarrow> pyval call" where
  "cached h p e =
     (case run_prog (p (\<lambda>t. h_iso h (h_clock h (en_ticks e + t)))) (en_cache e) of
        Inl x \<Rightarrow> (Inl x, e)
      | Inr (v, c) \<Rightarrow> (Inr v, e\<lparr>en_cache := c, en_ticks := en_ticks e + 64\<rparr>))"

lemma andthen_ret [simp]: "andthen (ret a) f = f a"
  by (auto simp: andthen_def ret_def fun_eq_iff)

lemma andthen_raises [simp]: "andthen (raises x) f = raises x"
  by (auto simp: andthen_def raises_def fun_eq_iff)

lemma andthen_pure [simp]: "andthen (pure (Inr a)) f = f a" "andthen (pure (Inl x)) g = raises x"
  by (auto simp: andthen_def raises_def pure_def fun_eq_iff)

lemma andthen_assoc: "andthen (andthen m f) g = andthen m (\<lambda>x. andthen (f x) g)"
  by (auto simp: andthen_def fun_eq_iff split: prod.splits sum.splits)

lemma andthen_InrE:
  assumes "andthen m f e = (Inr y, e'')"
  obtains x e' where "m e = (Inr x, e')" and "f x e' = (Inr y, e'')"
  using assms by (auto simp: andthen_def split: prod.splits sum.splits)

lemma each_append: "each f (xs @ ys) = andthen (each f xs) (\<lambda>us. andthen (each f ys) (\<lambda>vs. ret (us @ vs)))"
proof (induction xs)
  case Nil
  then show ?case by (auto simp: andthen_def ret_def fun_eq_iff split: prod.splits sum.splits)
qed (simp add: andthen_assoc)

section \<open>Persisting events\<close>

definition catalog_of :: "pyval \<Rightarrow> engine_event \<Rightarrow> event_row list \<Rightarrow> pyval" where
  "catalog_of catalog_id ev rows =
     (if truthy catalog_id then catalog_id
      else (case find (\<lambda>r. we_execution_id r = ev_execution_id ev) rows of
          None \<Rightarrow> VNone | Some r \<Rightarrow> we_catalog_id r))"

definition parent_event_of :: "engine_event \<Rightarrow> pydict \<Rightarrow> pyval \<Rightarrow> pyval" where
  "parent_event_of ev step_ids latest =
     (if ev_parent_event_id ev \<noteq> VNone then ev_parent_event_id ev
      else (let p = (case ev_step ev of
                 None \<Rightarrow> VNone | Some s \<Rightarrow> if s \<noteq> [] then py_get step_ids s else VNone) in
        if truthy p then p else latest))"

text \<open>The creation time of the latest, or of the first, event of a type.\<close>

definition by_event_id :: "event_row list \<Rightarrow> event_row list" where
  "by_event_id rows = sort_key we_event_id rows"

definition first_created :: "engine_event \<Rightarrow> string \<Rightarrow> event_row list \<Rightarrow> int option" where
  "first_created ev typ rows =
     map_option we_created_at
       (find (\<lambda>r. we_execution_id r = ev_execution_id ev \<and> we_event_type r = typ) (by_event_id rows))"

definition last_entered :: "engine_event \<Rightarrow> string \<Rightarrow> event_row list \<Rightarrow> int option" where
  "last_entered ev step rows =
     map_option we_created_at
       (find (\<lambda>r. we_execution_id r = ev_execution_id ev \<and> we_node_name r = Some step
            \<and> we_event_type r = ''step.enter'') (rev (by_event_id rows)))"

definition since :: "int \<Rightarrow> int option \<Rightarrow> int" where
  "since t start = (case start of None \<Rightarrow> 0 | Some s \<Rightarrow> if t < s then - ((s - t) div 1000) else (t - s) div 1000)"

definition init_event_type :: "string \<Rightarrow> string" where
  "init_event_type name =
     (if contains name ''workflow_'' then ''workflow_initialized'' else ''playbook_initialized'')"

definition finishes :: "string \<Rightarrow> bool" where
  "finishes name = (contains name ''completed'' \<or> contains name ''failed'')"

definition is_loop_iteration_exit :: "engine_event \<Rightarrow> exec_state \<Rightarrow> bool" where
  "is_loop_iteration_exit ev s =
     (ev_name ev = ''step.exit'' \<and>
      (case ev_step ev of
         None \<Rightarrow> False
       | Some st \<Rightarrow> st \<noteq> [] \<and> (endswith st task_sequence_suffix \<or> map_of (es_loop_state s) st \<noteq> None)))"

definition duration_of :: "engine_event \<Rightarrow> exec_state \<Rightarrow> event_row list \<Rightarrow> int" where
  "duration_of ev s rows =
     (case (if ev_name ev = ''step.exit'' \<and> \<not> is_loop_iteration_exit ev s then ev_step ev else None) of
        Some st \<Rightarrow>
          if st \<noteq> [] then since (ev_time ev) (last_entered ev st rows)
          else if finishes (ev_name ev) then since (ev_time ev) (first_created ev (init_event_type (ev_name ev)) rows)
          else 0
      | None \<Rightarrow>
          if finishes (ev_name ev) then since (ev_time ev) (first_created ev (init_event_type (ev_name ev)) rows)
          else 0)"

definition batch_duration_of :: "engine_event \<Rightarrow> event_row list \<Rightarrow> int" where
  "batch_duration_of ev rows =
     (if finishes (ev_name ev) then since (ev_time ev) (first_created ev (init_event_type (ev_name ev)) rows) else 0)"

definition status_of :: "engine_event \<Rightarrow> pyval" where
  "status_of ev =
     (let st = (case ev_payload ev of VDict d \<Rightarrow> py_get d ''status'' | _ \<Rightarrow> VNone) in
      if truthy st then st
      else VStr (if contains (ev_name ev) ''completed'' then ''COMPLETED''
                 else if contains (ev_name ev) ''failed'' then ''FAILED'' else ''RUNNING''))"

definition event_row_of :: "exec_state \<Rightarrow> engine_event \<Rightarrow> pyval \<Rightarrow> int \<Rightarrow> pyval \<Rightarrow> int \<Rightarrow> event_row" where
  "event_row_of s ev catalog_id event_id parent duration =
     (let d = dict_or_empty (ev_payload ev) in
      \<lparr>we_execution_id = ev_execution_id ev, we_catalog_id = catalog_id, we_event_id = event_id,
       we_parent_event_id = parent, we_parent_execution_id = es_parent_execution_id s,
       we_created_at = ev_time ev, we_event_type = ev_name ev, we_node_name = ev_step ev,
       we_status = status_of ev, we_duration = duration,
       we_context = (if d \<noteq> [] then VDict d else VNone),
       we_result = (case py_get d ''result'' of
            VDict r \<Rightarrow> if has_key r ''status'' then VDict r else VNone | _ \<Rightarrow> VNone),
       we_meta = ev_meta ev, we_error = py_get d ''error'', we_worker_id = ev_worker_id ev,
       we_command_id = None, we_envelope = []\<rparr>)"

definition note_event :: "int \<Rightarrow> engine_event \<Rightarrow> exec_state \<Rightarrow> exec_state" where
  "note_event event_id ev s =
     (let s1 = s\<lparr>es_last_event_id := VInt event_id\<rparr> in
      case ev_step ev of
        None \<Rightarrow> s1
      | Some st \<Rightarrow>
          if st \<noteq> [] then s1\<lparr>es_step_event_ids := AList.update st (VInt event_id) (es_step_event_ids s)\<rparr> else s1)"

text \<open>The table of events is in the order of insertion, oldest first.\<close>

definition persist_event :: "host \<Rightarrow> engine_event \<Rightarrow> unit call" where
  "persist_event h ev =
     changing (\<lambda>e.
       let s = en_state e; catalog_id = catalog_of (es_catalog_id s) ev (en_events e) in
       if \<not> truthy catalog_id then e
       else
         (let nid = en_next_id e;
              r = event_row_of s ev catalog_id nid
                    (parent_event_of ev (es_step_event_ids s) (es_last_event_id s))
                    (duration_of ev s (en_events e)) in
          e\<lparr>en_events := en_events e @ [r],
            en_mirrored := (if h_mirror h then en_mirrored e @ [r] else en_mirrored e),
            en_next_id := nid + 1, en_state := note_event nid ev s\<rparr>))"

fun batch_rows ::
  "exec_state \<Rightarrow> pyval \<Rightarrow> event_row list \<Rightarrow> pydict \<Rightarrow> pyval \<Rightarrow> int \<Rightarrow> engine_event list \<Rightarrow> event_row list" where
  "batch_rows s catalog_id rows step_ids previous nid [] = []"
| "batch_rows s catalog_id rows step_ids previous nid (ev # evs) =
     event_row_of s ev catalog_id nid (parent_event_of ev step_ids previous) (batch_duration_of ev rows)
     # batch_rows s catalog_id rows step_ids (VInt nid) (nid + 1) evs"

fun note_events :: "int \<Rightarrow> engine_event list \<Rightarrow> exec_state \<Rightarrow> exec_state" where
  "note_events nid [] s = s"
| "note_events nid (ev # evs) s = note_events (nid + 1) evs (note_event nid ev s)"

definition persist_batch :: "host \<Rightarrow> engine_event list \<Rightarrow> unit call" where
  "persist_batch h evs =
     changing (\<lambda>e.
       let s = en_state e; catalog_id = catalog_of (es_catalog_id s) (hd evs) (en_events e) in
       if \<not> truthy catalog_id then e
       else
         (let rs = batch_rows s catalog_id (en_events e) (es_step_event_ids s) (es_last_event_id s)
                     (en_next_id e) evs in
          e\<lparr>en_events := en_events e @ rs,
            en_mirrored := (if h_mirror h then en_mirrored e @ rs else en_mirrored e),
            en_next_id := en_next_id e + int (length evs),
            en_state := note_events (en_next_id e) evs s\<rparr>))"

definition persist_cascade_events :: "host \<Rightarrow> bool \<Rightarrow> engine_event list \<Rightarrow> unit call" where
  "persist_cascade_events h has_conn evs =
     (if evs = [] then ret ()
      else if length evs = 1 \<or> \<not> has_conn then andthen (each (persist_event h) evs) (\<lambda>_. ret ())
      else persist_batch h evs)"

section \<open>Queries\<close>

definition count_step_events :: "pyval \<Rightarrow> string \<Rightarrow> string \<Rightarrow> engine \<Rightarrow> int" where
  "count_step_events execution_id node typ e =
     int (length (filter (\<lambda>r. we_execution_id r = execution_id
        \<and> (case we_node_name r of None \<Rightarrow> False | Some n \<Rightarrow> n \<in> set (node_name_candidates node))
        \<and> we_event_type r = typ) (en_events e)))"

definition names_command :: "string \<Rightarrow> event_row \<Rightarrow> bool" where
  "names_command command_id r =
     ((isdigit command_id \<and> we_command_id r = parse_int command_id)
      \<or> (case py_get (we_meta r) ''command_id'' of VNone \<Rightarrow> False | v \<Rightarrow> py_str v = command_id))"

definition count_persisted_command_events :: "pyval \<Rightarrow> string \<Rightarrow> string \<Rightarrow> engine \<Rightarrow> int" where
  "count_persisted_command_events execution_id typ command_id e =
     int (length (filter (\<lambda>r. we_execution_id r = execution_id \<and> we_event_type r = typ
        \<and> names_command command_id r) (en_events e)))"

definition is_first_persisted_command_event :: "pyval \<Rightarrow> string \<Rightarrow> string \<Rightarrow> int \<Rightarrow> engine \<Rightarrow> bool" where
  "is_first_persisted_command_event execution_id typ command_id event_id e =
     (case map we_event_id (filter (\<lambda>r. we_execution_id r = execution_id \<and> we_event_type r = typ
        \<and> names_command command_id r) (en_events e)) of
        [] \<Rightarrow> False
      | i # is \<Rightarrow> (let m = foldl min i is in 0 < m \<and> m = event_id))"

definition loop_command :: "pyval \<Rightarrow> string \<Rightarrow> string option \<Rightarrow> command_row \<Rightarrow> bool" where
  "loop_command execution_id node loop_event_id c =
     (wc_execution_id c = execution_id \<and> wc_step_name c \<in> set (node_name_candidates node)
      \<and> (case loop_event_id of None \<Rightarrow> True | Some l \<Rightarrow> l = [] \<or> wc_loop_event_id c = Some l))"

definition count_loop_terminal_iterations :: "pyval \<Rightarrow> string \<Rightarrow> string option \<Rightarrow> engine \<Rightarrow> int" where
  "count_loop_terminal_iterations execution_id node loop_event_id e =
     (if loop_event_id = None \<or> loop_event_id = Some [] then -1
      else int (length (filter (\<lambda>c. loop_command execution_id node loop_event_id c
             \<and> wc_status c \<in> set terminal_statuses) (en_commands e))))"

definition unstarted_indexes :: "(command_row \<Rightarrow> bool) \<Rightarrow> int \<Rightarrow> command_row list \<Rightarrow> int list" where
  "unstarted_indexes P limit cs =
     (if limit \<le> 0 then []
      else take (nat limit) (sort (List.map_filter wc_iter_index (filter (\<lambda>c. P c \<and> wc_status c = ''PENDING'') cs))))"

definition find_missing_iterations :: "pyval \<Rightarrow> string \<Rightarrow> string option \<Rightarrow> int \<Rightarrow> int \<Rightarrow> int \<Rightarrow> engine \<Rightarrow> int list" where
  "find_missing_iterations execution_id node loop_event_id limit min_age now e =
     unstarted_indexes (\<lambda>c. loop_command execution_id node loop_event_id c
       \<and> wc_created_at c \<le> now - max 0 min_age) limit (en_commands e)"

definition find_orphaned_iterations :: "pyval \<Rightarrow> string \<Rightarrow> string option \<Rightarrow> int \<Rightarrow> engine \<Rightarrow> int list" where
  "find_orphaned_iterations execution_id node loop_event_id limit e =
     unstarted_indexes (loop_command execution_id node loop_event_id) limit (en_commands e)"

definition count_loop_commands_terminal :: "pyval \<Rightarrow> string \<Rightarrow> engine \<Rightarrow> int" where
  "count_loop_commands_terminal execution_id loop_event_id e =
     int (length (filter (\<lambda>c. wc_execution_id c = execution_id \<and> wc_loop_event_id c = Some loop_event_id
        \<and> wc_status c \<in> {''COMPLETED'', ''FAILED''}) (en_commands e)))"

text \<open>The supervisor's view, from the NATS bucket; a request that raises gives no answer.\<close>

definition attempt :: "'a call \<Rightarrow> 'a option call" where
  "attempt m e = (case m e of (Inl _, e') \<Rightarrow> (Inr None, e') | (Inr a, e') \<Rightarrow> (Inr (Some a), e'))"

definition count_supervised_terminals :: "host \<Rightarrow> pyval \<Rightarrow> string \<Rightarrow> string option \<Rightarrow> int call" where
  "count_supervised_terminals h execution_id step loop_event_id =
     (if loop_event_id = None \<or> loop_event_id = Some [] then ret (-1)
      else andthen (attempt (cached h (\<lambda>_.
             count_observed_loop_iteration_terminals (py_str execution_id) step loop_event_id)))
        (\<lambda>v. ret (case v of Some (VInt n) \<Rightarrow> n | _ \<Rightarrow> -1)))"

definition int_items :: "pyval option \<Rightarrow> int list option" where
  "int_items v =
     (case v of
        Some (VList xs) \<Rightarrow> Some (List.map_filter (\<lambda>x. case x of VInt i \<Rightarrow> Some i | _ \<Rightarrow> None) xs)
      | _ \<Rightarrow> None)"

definition find_supervised_missing ::
  "host \<Rightarrow> pyval \<Rightarrow> string \<Rightarrow> string option \<Rightarrow> int \<Rightarrow> int list option call" where
  "find_supervised_missing h execution_id step loop_event_id limit =
     (if limit \<le> 0 then ret (Some [])
      else andthen (clock h) (\<lambda>now.
        andthen (attempt (cached h (\<lambda>_. find_missing_loop_iteration_indices (h_parse_iso h) now
             (py_str execution_id) step loop_event_id limit (h_missing_min_age h))))
          (\<lambda>v. ret (int_items v))))"

definition find_supervised_orphaned ::
  "host \<Rightarrow> pyval \<Rightarrow> string \<Rightarrow> string option \<Rightarrow> int \<Rightarrow> int list option call" where
  "find_supervised_orphaned h execution_id step loop_event_id limit =
     (if limit \<le> 0 then ret (Some [])
      else andthen (clock h) (\<lambda>now.
        andthen (attempt (cached h (\<lambda>_. find_orphaned_loop_iteration_indices (h_parse_iso h) now
             (py_str execution_id) step loop_event_id limit))) (\<lambda>v. ret (int_items v))))"

section \<open>Cascades\<close>

text \<open>The steps of a cascade are distinct: no event of it finds its parent in another one's step.\<close>

definition event_steps :: "engine_event list \<Rightarrow> string list" where
  "event_steps evs = List.map_filter ev_step evs"

lemma event_steps_simps [simp]:
  "event_steps [] = []"
  "event_steps (ev # evs) = (case ev_step ev of None \<Rightarrow> event_steps evs | Some s \<Rightarrow> s # event_steps evs)"
  by (auto simp: event_steps_def List.map_filter_simps split: option.split)

lemma mem_event_steps: "ev \<in> set evs \<Longrightarrow> ev_step ev = Some x \<Longrightarrow> x \<in> set (event_steps evs)"
  by (induction evs) (auto split: option.split)

lemma note_event_simps [simp]:
  "es_parent_execution_id (note_event i ev s) = es_parent_execution_id s"
  "es_catalog_id (note_event i ev s) = es_catalog_id s"
  "es_loop_state (note_event i ev s) = es_loop_state s"
  "es_last_event_id (note_event i ev s) = VInt i"
  by (auto simp: note_event_def Let_def split: option.split)

lemma note_event_ids:
  "py_get (es_step_event_ids (note_event i ev s)) x
     = (if ev_step ev = Some x \<and> x \<noteq> [] then VInt i else py_get (es_step_event_ids s) x)"
  by (auto simp: note_event_def Let_def py_get_def split: option.split)


lemma find_filter: "find P xs = (case filter P xs of [] \<Rightarrow> None | x # _ \<Rightarrow> Some x)"
  by (induction xs) auto

lemma find_sorted_append:
  "\<not> P r \<Longrightarrow> find P (sort_key f (xs @ [r])) = find P (sort_key f xs)"
  by (simp add: find_filter filter_sort)

lemma first_created_append:
  "we_event_type r \<noteq> typ \<Longrightarrow> first_created ev typ (rows @ [r]) = first_created ev typ rows"
  by (simp add: first_created_def by_event_id_def find_sorted_append)

lemma event_row_cong:
  "es_parent_execution_id s = es_parent_execution_id s' \<Longrightarrow>
   event_row_of s ev c i p d = event_row_of s' ev c i p d"
  by (simp add: event_row_of_def)

lemma batch_rows_cong:
  assumes "es_parent_execution_id s = es_parent_execution_id s'"
    and "\<And>ev. ev \<in> set evs \<Longrightarrow> batch_duration_of ev rows = batch_duration_of ev rows'"
    and "\<And>ev x. ev \<in> set evs \<Longrightarrow> ev_step ev = Some x \<Longrightarrow> x \<noteq> [] \<Longrightarrow> py_get ids x = py_get ids' x"
  shows "batch_rows s c rows ids p i evs = batch_rows s' c rows' ids' p i evs"
  using assms(2,3)
proof (induction evs arbitrary: p i)
  case (Cons ev evs)
  have "parent_event_of ev ids p = parent_event_of ev ids' p"
    using Cons.prems(2) [of ev] by (auto simp: parent_event_of_def Let_def split: option.split)
  moreover have "batch_rows s c rows ids (VInt i) (i + 1) evs = batch_rows s' c rows' ids' (VInt i) (i + 1) evs"
    using Cons.prems by (intro Cons.IH) auto
  ultimately show ?case
    using Cons.prems(1) event_row_cong [OF assms(1)] by simp
qed simp

definition plain_cascade :: "engine_event list \<Rightarrow> bool" where
  "plain_cascade evs \<longleftrightarrow>
     distinct (filter (\<lambda>s. s \<noteq> []) (event_steps evs))
     \<and> (\<forall>ev \<in> set evs. ev_name ev \<notin> {''step.exit'', ''workflow_initialized'', ''playbook_initialized''})"

lemma persist_event_row:
  assumes "truthy (es_catalog_id (en_state e))" and "ev_name ev \<noteq> ''step.exit''"
  shows "persist_event h ev e = (Inr (), e
     \<lparr>en_events := en_events e @ [event_row_of (en_state e) ev (es_catalog_id (en_state e)) (en_next_id e)
          (parent_event_of ev (es_step_event_ids (en_state e)) (es_last_event_id (en_state e)))
          (batch_duration_of ev (en_events e))],
      en_mirrored := (if h_mirror h then en_mirrored e @ [event_row_of (en_state e) ev
          (es_catalog_id (en_state e)) (en_next_id e)
          (parent_event_of ev (es_step_event_ids (en_state e)) (es_last_event_id (en_state e)))
          (batch_duration_of ev (en_events e))] else en_mirrored e),
      en_next_id := en_next_id e + 1, en_state := note_event (en_next_id e) ev (en_state e)\<rparr>)"
  using assms by (simp add: persist_event_def changing_def Let_def catalog_of_def duration_of_def
      batch_duration_of_def)

lemma each_persist_batch:
  assumes "truthy (es_catalog_id (en_state e))" and "plain_cascade evs"
  shows "snd (each (persist_event h) evs e) =
    (let rs = batch_rows (en_state e) (es_catalog_id (en_state e)) (en_events e)
                (es_step_event_ids (en_state e)) (es_last_event_id (en_state e)) (en_next_id e) evs in
     e\<lparr>en_events := en_events e @ rs,
       en_mirrored := (if h_mirror h then en_mirrored e @ rs else en_mirrored e),
       en_next_id := en_next_id e + int (length evs),
       en_state := note_events (en_next_id e) evs (en_state e)\<rparr>)
    \<and> (\<exists>us. fst (each (persist_event h) evs e) = Inr us)"
  using assms
proof (induction evs arbitrary: e)
  case Nil
  then show ?case by (simp add: ret_def)
next
  case (Cons ev evs)
  let ?r = "event_row_of (en_state e) ev (es_catalog_id (en_state e)) (en_next_id e)
      (parent_event_of ev (es_step_event_ids (en_state e)) (es_last_event_id (en_state e)))
      (batch_duration_of ev (en_events e))"
  define e1 where "e1 = e\<lparr>en_events := en_events e @ [?r],
      en_mirrored := (if h_mirror h then en_mirrored e @ [?r] else en_mirrored e),
      en_next_id := en_next_id e + 1, en_state := note_event (en_next_id e) ev (en_state e)\<rparr>"
  have pc: "plain_cascade evs" "ev_name ev \<noteq> ''step.exit''"
    using Cons.prems(2) by (auto simp: plain_cascade_def split: if_splits option.splits)
  have p1: "persist_event h ev e = (Inr (), e1)"
    using persist_event_row [OF Cons.prems(1) pc(2)] by (simp add: e1_def)
  have ih: "snd (each (persist_event h) evs e1) =
      (let rs = batch_rows (en_state e1) (es_catalog_id (en_state e1)) (en_events e1)
                (es_step_event_ids (en_state e1)) (es_last_event_id (en_state e1)) (en_next_id e1) evs in
     e1\<lparr>en_events := en_events e1 @ rs,
       en_mirrored := (if h_mirror h then en_mirrored e1 @ rs else en_mirrored e1),
       en_next_id := en_next_id e1 + int (length evs),
       en_state := note_events (en_next_id e1) evs (en_state e1)\<rparr>)
    \<and> (\<exists>us. fst (each (persist_event h) evs e1) = Inr us)"
    using Cons.prems(1) pc(1) by (intro Cons.IH) (simp_all add: e1_def)
  have b: "batch_rows (en_state e1) (es_catalog_id (en_state e)) (en_events e1)
        (es_step_event_ids (en_state e1)) (VInt (en_next_id e)) (en_next_id e + 1) evs
      = batch_rows (en_state e) (es_catalog_id (en_state e)) (en_events e)
        (es_step_event_ids (en_state e)) (VInt (en_next_id e)) (en_next_id e + 1) evs"
  proof (rule batch_rows_cong)
    show "es_parent_execution_id (en_state e1) = es_parent_execution_id (en_state e)"
      by (simp add: e1_def)
    fix ev' assume ev': "ev' \<in> set evs"
    have "we_event_type ?r \<notin> {''workflow_initialized'', ''playbook_initialized''}"
      using Cons.prems(2) by (simp add: plain_cascade_def event_row_of_def Let_def)
    then show "batch_duration_of ev' (en_events e1) = batch_duration_of ev' (en_events e)"
      by (auto simp: batch_duration_of_def init_event_type_def e1_def first_created_append)
    fix x assume x: "ev_step ev' = Some x" "x \<noteq> []"
    have "ev_step ev \<noteq> Some x"
      using Cons.prems(2) mem_event_steps [OF ev' x(1)] x(2) by (auto simp: plain_cascade_def)
    then show "py_get (es_step_event_ids (en_state e1)) x = py_get (es_step_event_ids (en_state e)) x"
      by (simp add: e1_def note_event_ids)
  qed
  obtain us where us: "fst (each (persist_event h) evs e1) = Inr us" using ih by blast
  have st: "each (persist_event h) (ev # evs) e = (Inr (() # us), snd (each (persist_event h) evs e1))"
    using us by (auto simp: andthen_def p1 ret_def split: prod.split)
  show ?case unfolding st using ih b by (simp add: e1_def Let_def)
qed


text \<open>
  Fusing a cascade of events into one insert changes nothing: for events with distinct steps the
  batched path leaves the same rows, mirror, identifiers and state as persisting them one by one.
\<close>
lemma cascade_batch_is_sequential:
  assumes "truthy (es_catalog_id (en_state e))" and "plain_cascade evs"
  shows "snd (persist_cascade_events h True evs e) = snd (persist_cascade_events h False evs e)"
proof (cases "evs = [] \<or> length evs = 1")
  case False
  have c: "catalog_of (es_catalog_id (en_state e)) (hd evs) (en_events e) = es_catalog_id (en_state e)"
    using assms(1) by (simp add: catalog_of_def)
  obtain us where us: "fst (each (persist_event h) evs e) = Inr us"
    using each_persist_batch [OF assms] by blast
  have "snd (persist_cascade_events h False evs e) = snd (each (persist_event h) evs e)"
    using False us by (auto simp: persist_cascade_events_def andthen_def ret_def split: prod.split)
  also have "\<dots> = snd (persist_batch h evs e)"
    using each_persist_batch [OF assms] assms(1)
    by (simp add: persist_batch_def changing_def Let_def c)
  finally show ?thesis using False by (simp add: persist_cascade_events_def)
qed (auto simp: persist_cascade_events_def)

section \<open>Samples\<close>

definition sample_event :: "string \<Rightarrow> string \<Rightarrow> int \<Rightarrow> engine_event" where
  "sample_event name step t =
     \<lparr>ev_execution_id = VStr ''7'', ev_name = name, ev_step = Some step, ev_payload = VDict [],
      ev_timestamp = None, ev_time = t, ev_meta = [], ev_worker_id = VNone, ev_attempt = 1,
      ev_parent_event_id = VNone\<rparr>"

definition sample_engine :: engine where
  "sample_engine =
     \<lparr>en_state = new_execution_state (VStr ''7'') sample_playbook [] (VInt 3) VNone,
      en_cache = \<lparr>kv_entries = [], kv_seq = 0\<rparr>, en_events = [], en_commands = [], en_stages = [],
      en_frames = [], en_executions = [], en_catalog = [], en_playbooks = new_bounded_cache 500 1800000000,
      en_buffer = None, en_mirrored = [],
      en_next_id = 100, en_ticks = 0\<rparr>"

definition sample_host :: host where
  "sample_host =
     \<lparr>h_renderer = \<lparr>rd_jinja = (\<lambda>t c. Inr t), rd_resolve = (\<lambda>r. None), rd_attribute = (\<lambda>v a. None),
        rd_literal = (\<lambda>t. None)\<rparr>,
      h_clock = (\<lambda>n. int n), h_iso = show_int, h_parse_iso = (\<lambda>v. py_int_opt v),
      h_mirror = False, h_max_stall_restarts = 5, h_reconcile_cooldown = 10000000,
      h_watchdog = 60000000, h_recovery_cooldown = 15000000, h_repair_threshold = 64,
      h_missing_min_age = 5000000, h_max_pages = 100, h_fetch = (\<lambda>_. Inl (KeyError ''ref'')), h_ip_host = (\<lambda>_. False),
      h_result_size = (\<lambda>_. 0), h_result_max = 65536, h_yaml = (\<lambda>_. None), h_playbook = (\<lambda>_. None),
      h_keychain = (\<lambda>_ _ _. Inl (KeyError ''keychain''))\<rparr>"

lemma cascade_batch_is_sequential_witness:
  "snd (persist_cascade_events sample_host True
      [sample_event ''workflow.completed'' ''workflow'' 1, sample_event ''playbook.completed'' ''p'' 2] sample_engine)
   = snd (persist_cascade_events sample_host False
      [sample_event ''workflow.completed'' ''workflow'' 1, sample_event ''playbook.completed'' ''p'' 2] sample_engine)"
proof -
  have "truthy (es_catalog_id (en_state sample_engine))"
    by (simp add: sample_engine_def new_execution_state_def)
  moreover have "plain_cascade
      [sample_event ''workflow.completed'' ''workflow'' 1, sample_event ''playbook.completed'' ''p'' 2]"
    by (simp add: plain_cascade_def sample_event_def event_steps_def List.map_filter_simps)
  ultimately show ?thesis by (rule cascade_batch_is_sequential)
qed

text \<open>
  The events an execution starts with have dotted names and the durations of its terminal events
  are looked up under names with an underscore: they are always zero, here after ten seconds. The
  terminal event of the playbook finds its parent in the playbook's first event, not in the event
  before it in the cascade.
\<close>

definition finished_engine :: engine where
  "finished_engine =
     snd (persist_cascade_events sample_host True
       [sample_event ''workflow.completed'' ''workflow'' 10000000,
        sample_event ''playbook.completed'' ''p'' 10000000]
      (snd (persist_event sample_host (sample_event ''workflow.initialized'' ''workflow'' 1)
        (snd (persist_event sample_host (sample_event ''playbook.initialized'' ''p'' 1) sample_engine)))))"

lemma terminal_events_unchained_and_zero:
  "map (\<lambda>r. (we_event_id r, we_event_type r, we_duration r, we_parent_event_id r)) (en_events finished_engine)
     = [(100, ''playbook.initialized'', 0, VNone), (101, ''workflow.initialized'', 0, VInt 100),
        (102, ''workflow.completed'', 0, VInt 101), (103, ''playbook.completed'', 0, VInt 100)]"
  by code_simp

lemma duration_needs_underscored_init:
  assumes "\<forall>r \<in> set (en_events e). we_event_type r \<notin> {''workflow_initialized'', ''playbook_initialized''}"
  shows "batch_duration_of ev (en_events e) = 0"
proof -
  have "first_created ev (init_event_type (ev_name ev)) (en_events e) = None"
    using assms by (auto simp: first_created_def find_None_iff by_event_id_def init_event_type_def)
  then show ?thesis by (simp add: batch_duration_of_def since_def)
qed

end
