(* ===== verification/Engine_Commands.thy ===== *)
theory Engine_Commands
  imports Engine_World
begin

text \<open>
  Command creation (\<^verbatim>\<open>noetl/core/dsl/engine/executor/commands.py\<close>): the command record, commands for
  inline tasks and task sequences, and \<open>_create_command_for_step\<close> in full: for a loop step the
  collection, the epoch and its resets, the distributed state with its repair, the claim of an
  index, the two recoveries of a stalled loop and the release of a claimed slot; then the render
  context, the rendered input, the tool and the metadata. Control arguments carry integers for
  indexes and text for epochs, as the engine passes them; logging is left out.
\<close>

section \<open>Commands\<close>

record command =
  cm_execution_id :: pyval
  cm_step :: string
  cm_tool_kind :: string
  cm_tool_config :: pyval
  cm_input :: pyval
  cm_render_context :: pyval
  cm_pipeline :: "pydict list option"
  cm_next_targets :: "arc_decl list option"
  cm_next_mode :: "next_mode option"
  cm_attempt :: int
  cm_priority :: int
  cm_metadata :: pydict
  cm_max_attempts :: pyval
  cm_retry_delay :: pyval
  cm_retry_backoff :: pyval

definition base_command :: "exec_state \<Rightarrow> string \<Rightarrow> string \<Rightarrow> pyval \<Rightarrow> pyval \<Rightarrow> pyval \<Rightarrow> pydict \<Rightarrow> command" where
  "base_command s step kind config input context metadata =
     \<lparr>cm_execution_id = es_execution_id s, cm_step = step, cm_tool_kind = kind, cm_tool_config = config,
      cm_input = input, cm_render_context = context, cm_pipeline = None, cm_next_targets = None,
      cm_next_mode = None, cm_attempt = 1, cm_priority = 0, cm_metadata = metadata,
      cm_max_attempts = VNone, cm_retry_delay = VNone, cm_retry_backoff = VNone\<rparr>"

definition safe_context :: "pydict \<Rightarrow> pyval" where
  "safe_context context = strip_keychain_namespaces (VDict context) (py_get context manifest_key)"

definition render_refs :: "renderer \<Rightarrow> pyval \<Rightarrow> pydict \<Rightarrow> pyval" where
  "render_refs rd v context = render_preserving_keychain_refs (\<lambda>s. render_deep_text rd s context) v"

definition without :: "string \<Rightarrow> pydict \<Rightarrow> pydict" where
  "without k d = filter (\<lambda>(k', v). k' \<noteq> k) d"

definition create_inline_command ::
  "renderer \<Rightarrow> exec_state \<Rightarrow> string \<Rightarrow> string \<Rightarrow> pydict \<Rightarrow> pydict \<Rightarrow> command option" where
  "create_inline_command rd s step_name task_name tool_spec context =
     (let kind = py_get tool_spec ''kind'' in
      if \<not> truthy kind then None
      else Some (base_command s (step_name @ '':'' @ task_name) (py_str kind)
        (render_refs rd (VDict (without ''kind'' tool_spec)) context) (VDict []) (safe_context context)
        [(''inline_task'', VBool True), (''task_name'', VStr task_name), (''parent_step'', VStr step_name)]))"

definition create_task_sequence_command ::
  "exec_state \<Rightarrow> string \<Rightarrow> pydict list \<Rightarrow> pyval list \<Rightarrow> pydict \<Rightarrow> command option" where
  "create_task_sequence_command s step_name task_list remaining_actions context =
     (if task_list = [] then None
      else Some (base_command s (step_name @ task_sequence_suffix) ''task_sequence''
        (VDict [(''tasks'', VList (map VDict task_list)), (''remaining_actions'', VList remaining_actions)])
        (VDict []) (safe_context context)
        [(''task_sequence'', VBool True), (''parent_step'', VStr step_name),
         (''task_names'', VList (map VStr (concat (map dict_keys task_list))))]))"

section \<open>The arguments of a dispatch\<close>

record dispatch =
  dp_retry :: bool
  dp_continue :: bool
  dp_retry_index :: "int option"
  dp_epoch :: "string option"
  dp_claimed :: "int option"
  dp_collection :: "pyval list option"
  dp_context :: "pydict option"

definition dispatch_of :: "pydict \<Rightarrow> dispatch" where
  "dispatch_of control =
     \<lparr>dp_retry = truthy (py_get control ''__loop_retry''),
      dp_continue = truthy (py_get control ''__loop_continue''),
      dp_retry_index = (if truthy (py_get control ''__loop_retry'') \<and> py_get control ''__loop_retry_index'' \<noteq> VNone
        then py_int_opt (py_get control ''__loop_retry_index'') else None),
      dp_epoch = (case py_get control ''__loop_epoch_id'' of VStr s \<Rightarrow> Some s | _ \<Rightarrow> None),
      dp_claimed = (case py_get control ''__loop_claimed_index'' of VInt i \<Rightarrow> Some i | _ \<Rightarrow> None),
      dp_collection = as_list (py_get control ''__loop_collection''),
      dp_context = as_dict (py_get control ''__base_context'')\<rparr>"

definition fresh_dispatch :: "dispatch \<Rightarrow> bool" where
  "fresh_dispatch d = (\<not> dp_continue d \<and> \<not> dp_retry d)"

definition text_or :: "string option \<Rightarrow> string \<Rightarrow> string" where
  "text_or x y = (case x of Some s \<Rightarrow> if s \<noteq> [] then s else y | None \<Rightarrow> y)"

definition synthetic_event :: "exec_state \<Rightarrow> string \<Rightarrow> string \<Rightarrow> engine_event" where
  "synthetic_event s step name =
     \<lparr>ev_execution_id = es_execution_id s, ev_name = name, ev_step = Some step, ev_payload = VDict [],
      ev_timestamp = None, ev_time = 0, ev_meta = [], ev_worker_id = VNone, ev_attempt = 1,
      ev_parent_event_id = VNone\<rparr>"

definition context_for :: "string \<Rightarrow> string \<Rightarrow> pydict call" where
  "context_for step name =
     andthen state_of (\<lambda>s. pure (get_render_context (synthetic_event s step name) s))"

definition loop_of :: "string \<Rightarrow> pydict call" where
  "loop_of step =
     andthen state_of (\<lambda>s. case map_of (es_loop_state s) step of
       None \<Rightarrow> raises (KeyError step) | Some ls \<Rightarrow> ret ls)"

definition set_loop :: "string \<Rightarrow> pydict \<Rightarrow> unit call" where
  "set_loop step ls = changing_state (with_loop step ls)"

definition set_loop_key :: "string \<Rightarrow> string \<Rightarrow> pyval \<Rightarrow> unit call" where
  "set_loop_key step k v = andthen (loop_of step) (\<lambda>ls. set_loop step (AList.update k v ls))"

definition execution_text :: "string call" where
  "execution_text = andthen state_of (\<lambda>s. ret (py_str (es_execution_id s)))"

section \<open>The collection\<close>

text \<open>The collection with the context it was rendered in; \<open>None\<close> skips the dispatch.\<close>

definition dispatch_collection ::
  "host \<Rightarrow> step_decl \<Rightarrow> loop_decl \<Rightarrow> dispatch \<Rightarrow> (pyval list \<times> pydict option) option call" where
  "dispatch_collection h step l d =
     (case dp_collection d of
        Some xs \<Rightarrow> ret (Some (xs, None))
      | None \<Rightarrow>
          andthen state_of (\<lambda>s.
          andthen (case map_of (es_loop_state s) (st_step step) of
                     None \<Rightarrow> ret VNone
                   | Some ls \<Rightarrow>
                       (let epoch = py_str (py_or (py_get ls ''event_id'') (VStr [])) in
                        if epoch = [] then ret VNone
                        else cached h (\<lambda>_. get_loop_collection (py_str (es_execution_id s)) (st_step step) epoch)))
            (\<lambda>found.
          case found of
            VList xs \<Rightarrow> ret (Some (xs, None))
          | _ \<Rightarrow>
              andthen (context_for (st_step step) ''loop_init'') (\<lambda>context.
              andthen (pure (case ld_in l of None \<Rightarrow> Inr []
                             | Some expr \<Rightarrow> render_collection (h_renderer h) expr context)) (\<lambda>xs.
              if xs = [] \<and> \<not> fresh_dispatch d then ret None else ret (Some (xs, Some context)))))))"

section \<open>Epochs\<close>

definition stalled :: "host \<Rightarrow> string \<Rightarrow> exec_state \<Rightarrow> bool" where
  "stalled h step s =
     (h_max_stall_restarts h \<le> (case map_of (es_stall_counts s) step of None \<Rightarrow> 0 | Some n \<Rightarrow> n))"

definition stalled_event :: "host \<Rightarrow> exec_state \<Rightarrow> string \<Rightarrow> int \<Rightarrow> engine_event" where
  "stalled_event h s step now =
     (synthetic_event s step ''loop.stalled'')
       \<lparr>ev_time := now, ev_payload := VDict [(''message'', VStr (''Dead-loop detected: zero successful slots across ''
          @ show_int (h_max_stall_restarts h) @ '' consecutive loop runs.''))]\<rparr>"

text \<open>A loop that stalled too often fails the execution; the answer is whether it did.\<close>

definition halt_if_stalled :: "host \<Rightarrow> string \<Rightarrow> bool call" where
  "halt_if_stalled h step =
     andthen state_of (\<lambda>s.
       if stalled h step s then
         andthen (changing_state (\<lambda>s. s\<lparr>es_failed := True\<rparr>)) (\<lambda>_.
         andthen (clock h) (\<lambda>now.
         andthen (persist_event h (stalled_event h s step now)) (\<lambda>_. ret True)))
       else ret False)"

definition begin_loop :: "step_decl \<Rightarrow> loop_decl \<Rightarrow> pyval list \<Rightarrow> string \<Rightarrow> unit call" where
  "begin_loop step l xs epoch = on_state (init_loop (st_step step) xs (ld_iterator l) (mode_name l) (VStr epoch))"

definition forget_completion :: "string \<Rightarrow> exec_state \<Rightarrow> exec_state" where
  "forget_completion step s =
     s\<lparr>es_completed_steps := removeAll step (es_completed_steps s),
       es_step_results := AList.delete step (es_step_results s),
       es_variables := AList.delete step (es_variables s)\<rparr>"

definition previous_done :: "string \<Rightarrow> pydict \<Rightarrow> exec_state \<Rightarrow> bool res" where
  "previous_done step ls s =
     rbind (py_num (py_get_default ls ''collection_size'' (VInt 0))) (\<lambda>n.
     rbind (get_loop_completed_count step s) (\<lambda>completed.
     rbind (count_or ls ''scheduled_count'' completed) (\<lambda>scheduled.
       Inr (truthy (py_get ls ''aggregation_finalized'') \<or> truthy (py_get ls ''completed'')
            \<or> (0 < n \<and> n \<le> completed \<and> n \<le> scheduled)))))"

definition reset_epoch_id :: "exec_state \<Rightarrow> int \<Rightarrow> int \<Rightarrow> string" where
  "reset_epoch_id s t1 t2 =
     ''loop_'' @ (if truthy (es_last_event_id s) then py_str (es_last_event_id s) else show_int (1000 * t1))
     @ ''_'' @ show_int (1000 * t2)"

datatype entered = Skipped | Entered bool

text \<open>
  The local state of the loop for this dispatch: a first run starts an epoch, a fresh dispatch of a
  loop that is done starts another one, anything else only refreshes the size. \<open>Entered\<close> says
  whether a new instance was forced; \<open>Skipped\<close> is a loop that stalled too often.
\<close>

definition enter_loop :: "host \<Rightarrow> step_decl \<Rightarrow> loop_decl \<Rightarrow> dispatch \<Rightarrow> pyval list \<Rightarrow> entered call" where
  "enter_loop h step l d xs =
     andthen state_of (\<lambda>s.
     case map_of (es_loop_state s) (st_step step) of
       None \<Rightarrow>
         andthen (clock h) (\<lambda>now.
         (let epoch = text_or (dp_epoch d)
                (''loop_'' @ py_str (es_execution_id s) @ ''_'' @ show_int now) in
          andthen (begin_loop step l xs epoch) (\<lambda>_.
          andthen (cached h (\<lambda>_. save_loop_collection (py_str (es_execution_id s)) (st_step step) epoch xs)) (\<lambda>_.
          andthen (halt_if_stalled h (st_step step)) (\<lambda>halted.
            ret (if halted then Skipped else Entered False))))))
     | Some ls \<Rightarrow>
         andthen (pure (previous_done (st_step step) ls s)) (\<lambda>over.
         if fresh_dispatch d \<and> over then
           andthen (clock h) (\<lambda>t1. andthen (clock h) (\<lambda>t2.
           andthen (begin_loop step l xs (reset_epoch_id s t1 t2)) (\<lambda>_.
           andthen (halt_if_stalled h (st_step step)) (\<lambda>halted.
             if halted then ret Skipped
             else andthen (changing_state (forget_completion (st_step step))) (\<lambda>_. ret (Entered True))))))
         else andthen (set_loop_key (st_step step) ''collection_size'' (VInt (int (length xs))))
           (\<lambda>_. ret (Entered False))))"

section \<open>The distributed state of a loop\<close>

text \<open>
  \<open>force\<close>: a new instance was forced; \<open>md\<close>: the epoch recorded in the command; \<open>key\<close>: the
  identifier the state is stored under; \<open>dist\<close>: the distributed state, when there is one.
\<close>

record epoch_view =
  ep_force :: bool
  ep_md :: "string option"
  ep_key :: string
  ep_dist :: "pydict option"

definition nonempty_state :: "pyval \<Rightarrow> pydict option" where
  "nonempty_state v = (case v of VDict d \<Rightarrow> if d \<noteq> [] then Some d else None | _ \<Rightarrow> None)"

definition fetch_loop_state :: "host \<Rightarrow> string \<Rightarrow> string \<Rightarrow> pydict option call" where
  "fetch_loop_state h step key =
     andthen execution_text (\<lambda>x.
     andthen (cached h (\<lambda>_. get_loop_state x step (Some key))) (\<lambda>v. ret (nonempty_state v)))"

definition store_loop_state :: "host \<Rightarrow> string \<Rightarrow> string \<Rightarrow> pydict \<Rightarrow> unit call" where
  "store_loop_state h step key d =
     andthen execution_text (\<lambda>x.
     andthen (cached h (\<lambda>clk. set_loop_state clk x step d (Some key))) (\<lambda>_. ret ()))"

fun first_stored :: "host \<Rightarrow> string \<Rightarrow> string list \<Rightarrow> (string \<times> pydict) option call" where
  "first_stored h step [] = ret None"
| "first_stored h step (c # cs) =
     andthen (fetch_loop_state h step c) (\<lambda>v.
       case v of Some d \<Rightarrow> ret (Some (c, d)) | None \<Rightarrow> first_stored h step cs)"

definition find_epoch :: "host \<Rightarrow> step_decl \<Rightarrow> dispatch \<Rightarrow> bool \<Rightarrow> epoch_view call" where
  "find_epoch h step d force =
     andthen state_of (\<lambda>s. andthen (loop_of (st_step step)) (\<lambda>ls.
     (let id = py_get ls ''event_id'';
          md = (case dp_epoch d of
                  Some e \<Rightarrow> if e \<noteq> [] then Some e else str_opt id | None \<Rightarrow> str_opt id);
          candidates = (if force then [py_str id] else build_loop_event_id_candidates s (st_step step) ls);
          key = (case candidates of c # _ \<Rightarrow> c | [] \<Rightarrow> execution_fallback (es_execution_id s)) in
      andthen (set_loop_key (st_step step) ''event_id'' (VStr key)) (\<lambda>_.
      andthen (first_stored h (st_step step) candidates) (\<lambda>found.
      case found of
        None \<Rightarrow> ret \<lparr>ep_force = force, ep_md = md, ep_key = key, ep_dist = None\<rparr>
      | Some (c, dist) \<Rightarrow>
          andthen (set_loop_key (st_step step) ''event_id'' (VStr c)) (\<lambda>_.
            ret \<lparr>ep_force = force, ep_md = Some c, ep_key = c, ep_dist = Some dist\<rparr>))))))"

text \<open>\<open>int(d.get(k, n) or n)\<close> is \<open>count_or\<close>.\<close>

definition dist_over :: "pydict \<Rightarrow> int \<Rightarrow> bool res" where
  "dist_over dist n =
     rbind (count_or_zero dist ''completed_count'') (\<lambda>completed.
     rbind (count_or dist ''scheduled_count'' completed) (\<lambda>scheduled.
     rbind (count_or dist ''collection_size'' n) (\<lambda>size'.
       Inr ((0 < size' \<and> size' \<le> completed \<and> size' \<le> scheduled)
            \<or> truthy (py_get_default dist ''loop_done_claimed'' (VBool False))))))"

text \<open>A distributed state that is already over is replaced by a new epoch; \<open>None\<close> skips.\<close>

definition renew_epoch ::
  "host \<Rightarrow> step_decl \<Rightarrow> loop_decl \<Rightarrow> dispatch \<Rightarrow> pyval list \<Rightarrow> epoch_view \<Rightarrow> epoch_view option call" where
  "renew_epoch h step l d xs ep =
     (case (if fresh_dispatch d then ep_dist ep else None) of
        None \<Rightarrow> ret (Some ep)
      | Some dist \<Rightarrow>
          andthen (pure (dist_over dist (int (length xs)))) (\<lambda>over.
          if \<not> over then ret (Some ep)
          else
            andthen state_of (\<lambda>s. andthen (clock h) (\<lambda>now.
            (let epoch = text_or (ep_md ep) (''loop_''
                   @ (if truthy (es_last_event_id s) then py_str (es_last_event_id s) else show_int (1000 * now))) in
             andthen (begin_loop step l xs epoch) (\<lambda>_.
             andthen (if xs = [] then ret VNone
                      else cached h (\<lambda>_. save_loop_collection (py_str (es_execution_id s)) (st_step step) epoch xs)) (\<lambda>_.
             andthen (halt_if_stalled h (st_step step)) (\<lambda>halted.
             if halted then ret None
             else andthen (changing_state (forget_completion (st_step step))) (\<lambda>_.
               ret (Some \<lparr>ep_force = True, ep_md = Some epoch, ep_key = epoch, ep_dist = None\<rparr>))))))))))"

text \<open>A stored size of zero or less is repaired when the collection is known.\<close>

definition repair_size ::
  "host \<Rightarrow> step_decl \<Rightarrow> pyval list \<Rightarrow> pydict option \<Rightarrow> int \<Rightarrow> epoch_view \<Rightarrow> epoch_view call" where
  "repair_size h step xs existing completed ep =
     (case (if xs = [] then None else ep_dist ep) of
        None \<Rightarrow> ret ep
      | Some dist \<Rightarrow>
          andthen (pure (count_or_zero dist ''collection_size'')) (\<lambda>size'.
          if 0 < size' then ret ep
          else
            andthen (pure (count_or dist ''scheduled_count'' completed)) (\<lambda>sc.
            (let old = (\<lambda>k. case existing of None \<Rightarrow> VInt 0 | Some ls \<Rightarrow> py_get_default ls k (VInt 0));
                 repaired = set_keys [(''collection_size'', VInt (int (length xs))),
                   (''completed_count'', VInt completed), (''scheduled_count'', VInt (max sc completed)),
                   (''failed_count'', old ''failed_count''), (''break_count'', old ''break_count'')] dist in
             andthen (store_loop_state h (st_step step) (ep_key ep) repaired) (\<lambda>_.
             andthen (fetch_loop_state h (st_step step) (ep_key ep)) (\<lambda>v.
               ret (ep\<lparr>ep_dist := v\<rparr>)))))))"

text \<open>The distributed state exists before an index is claimed; the completed count with it.\<close>

definition ensure_epoch ::
  "host \<Rightarrow> step_decl \<Rightarrow> loop_decl \<Rightarrow> pyval list \<Rightarrow> int \<Rightarrow> epoch_view \<Rightarrow> (int \<times> epoch_view) call" where
  "ensure_epoch h step l xs completed0 ep =
     (case ep_dist ep of
        Some _ \<Rightarrow> ret (completed0, ep)
      | None \<Rightarrow>
          andthen (loop_of (st_step step)) (\<lambda>ls.
          andthen (pure (if ep_force ep then Inr 0 else count_or ls ''scheduled_count'' completed0)) (\<lambda>sc.
          (let completed = (if ep_force ep then 0 else completed0);
               seed = (if ep_force ep then 0 else max sc completed0) in
           andthen (store_loop_state h (st_step step) (ep_key ep)
             [(''collection_size'', VInt (int (length xs))), (''completed_count'', VInt completed),
              (''scheduled_count'', VInt seed), (''iterator'', VStr (ld_iterator l)),
              (''mode'', VStr (mode_name l)), (''event_id'', VStr (ep_key ep))]) (\<lambda>_.
           andthen (fetch_loop_state h (st_step step) (ep_key ep)) (\<lambda>v.
             ret (completed, ep\<lparr>ep_dist := v\<rparr>)))))))"


section \<open>Claiming an index\<close>

definition claim_index :: "host \<Rightarrow> step_decl \<Rightarrow> pyval list \<Rightarrow> int \<Rightarrow> string \<Rightarrow> int option call" where
  "claim_index h step xs m key =
     andthen execution_text (\<lambda>x.
     andthen (cached h (\<lambda>clk. claim_next_loop_index clk x (st_step step) (int (length xs)) m (Some key)))
       (\<lambda>v. ret (case v of VInt i \<Rightarrow> Some i | _ \<Rightarrow> None)))"

text \<open>
  The view of a claim in progress: the index, whether it took a slot of the distributed counter,
  the completed and scheduled counts and the distributed state.
\<close>

record claim_view =
  cv_claimed :: "int option"
  cv_taken :: bool
  cv_completed :: int
  cv_scheduled :: int
  cv_dist :: "pydict option"

definition first_claim ::
  "host \<Rightarrow> step_decl \<Rightarrow> dispatch \<Rightarrow> pyval list \<Rightarrow> int \<Rightarrow> epoch_view \<Rightarrow> (int option \<times> bool) call" where
  "first_claim h step d xs m ep =
     (case (dp_retry_index d, dp_claimed d, ep_dist ep) of
        (Some i, c, _) \<Rightarrow> ret (Some i, c \<noteq> None)
      | (None, Some i, _) \<Rightarrow> ret (Some i, True)
      | (None, None, None) \<Rightarrow> ret (None, False)
      | (None, None, Some _) \<Rightarrow>
          andthen (claim_index h step xs m (ep_key ep)) (\<lambda>c. ret (c, c \<noteq> None)))"

definition size_hint :: "pydict option \<Rightarrow> int \<Rightarrow> int res" where
  "size_hint dist n = count_or (case dist of None \<Rightarrow> [] | Some d \<Rightarrow> d) ''collection_size'' n"

text \<open>Work is left but no slot can be had.\<close>

definition saturated :: "int \<Rightarrow> int \<Rightarrow> claim_view \<Rightarrow> bool" where
  "saturated m hint cv =
     (cv_claimed cv = None \<and> cv_dist cv \<noteq> None \<and> cv_completed cv < hint
      \<and> (hint \<le> cv_scheduled cv \<or> m \<le> max 0 (cv_scheduled cv - cv_completed cv)))"

text \<open>
  The counters are raised to \<open>n\<close> completions, written to the distributed state and the claim is
  tried again.
\<close>

definition reconcile_to ::
  "host \<Rightarrow> step_decl \<Rightarrow> pyval list \<Rightarrow> int \<Rightarrow> string \<Rightarrow> int \<Rightarrow> int \<Rightarrow> int \<Rightarrow> claim_view \<Rightarrow> claim_view call" where
  "reconcile_to h step xs m key hint now n cv =
     (let n' = min n hint in
      if n < 0 \<or> n' \<le> cv_completed cv then ret cv
      else (case cv_dist cv of
          None \<Rightarrow> ret cv
        | Some dist \<Rightarrow>
            andthen (pure (count_or dist ''scheduled_count'' (cv_scheduled cv))) (\<lambda>sc.
            (let scheduled = min (max sc n') hint;
                 at = VStr (h_iso h now);
                 dist' = set_keys [(''completed_count'', VInt n'), (''scheduled_count'', VInt scheduled),
                   (''last_counter_reconcile_at'', at), (''last_progress_at'', at), (''updated_at'', at)] dist in
             andthen (set_loop_key (st_step step) ''scheduled_count'' (VInt scheduled)) (\<lambda>_.
             andthen (set_loop_key (st_step step) ''last_counter_reconcile_at'' at) (\<lambda>_.
             andthen (store_loop_state h (st_step step) key dist') (\<lambda>_.
             andthen (claim_index h step xs m key) (\<lambda>c.
               ret \<lparr>cv_claimed = c, cv_taken = (cv_taken cv \<or> c \<noteq> None), cv_completed = n',
                    cv_scheduled = scheduled, cv_dist = Some dist'\<rparr>))))))))"

definition persisted_terminals :: "step_decl \<Rightarrow> string \<Rightarrow> int \<Rightarrow> claim_view \<Rightarrow> int call" where
  "persisted_terminals step key hint cv =
     andthen state_of (\<lambda>s.
     andthen (reading (count_loop_terminal_iterations (es_execution_id s) (st_step step) (Some key))) (\<lambda>n.
     if n < 0 \<and> hint \<le> cv_scheduled cv
     then reading (count_step_events (es_execution_id s) (st_step step) ''call.done'')
     else ret n))"

definition missing_indexes :: "host \<Rightarrow> step_decl \<Rightarrow> string \<Rightarrow> int \<Rightarrow> int list call" where
  "missing_indexes h step key now =
     andthen state_of (\<lambda>s.
     andthen (find_supervised_missing h (es_execution_id s) (st_step step) (Some key) 1) (\<lambda>v.
     case v of
       Some is \<Rightarrow> ret is
     | None \<Rightarrow> reading (find_missing_iterations (es_execution_id s) (st_step step) (Some key) 1
                 (h_missing_min_age h) now)))"

definition reconcile_counters ::
  "host \<Rightarrow> step_decl \<Rightarrow> pyval list \<Rightarrow> int \<Rightarrow> string \<Rightarrow> int \<Rightarrow> claim_view \<Rightarrow> claim_view call" where
  "reconcile_counters h step xs m key hint cv =
     (case (if saturated m hint cv then cv_dist cv else None) of
        None \<Rightarrow> ret cv
      | Some dist \<Rightarrow>
          andthen (clock h) (\<lambda>now.
          andthen (loop_of (st_step step)) (\<lambda>ls.
          (let last = first_some (h_parse_iso h)
                 [py_get dist ''last_counter_reconcile_at'', py_get ls ''last_counter_reconcile_at''];
               rested = (case last of None \<Rightarrow> True | Some t \<Rightarrow> h_reconcile_cooldown h \<le> now - t) in
           andthen state_of (\<lambda>s.
           andthen (count_supervised_terminals h (es_execution_id s) (st_step step) (Some key)) (\<lambda>n.
           andthen (reconcile_to h step xs m key hint now n cv) (\<lambda>cv1.
           if cv_claimed cv1 \<noteq> None \<or> \<not> rested then ret cv1
           else
             andthen (missing_indexes h step key now) (\<lambda>missing.
             if missing \<noteq> [] then ret cv1
             else
               andthen (persisted_terminals step key hint cv1) (\<lambda>n.
                 reconcile_to h step xs m key hint now n cv1)))))))))"

section \<open>The watchdog\<close>

definition repaired_indexes :: "pydict \<Rightarrow> int list res" where
  "repaired_indexes ls =
     (case py_get_default ls ''repair_issued_indexes'' (VList []) of
        VList xs \<Rightarrow>
          Inr (remdups (List.map_filter (\<lambda>x. case x of
            VInt i \<Rightarrow> Some i
          | VBool b \<Rightarrow> Some (if b then 1 else 0)
          | VStr s \<Rightarrow> if isdigit s then parse_int s else None
          | _ \<Rightarrow> None) xs))
      | _ \<Rightarrow> Inl (TypeError ''object is not iterable''))"

text \<open>The first orphaned index that was not replayed yet and lies between the completed count and the size.\<close>

definition pick_orphan :: "int list \<Rightarrow> int \<Rightarrow> int \<Rightarrow> int list \<Rightarrow> int option" where
  "pick_orphan repaired completed hint orphaned =
     find (\<lambda>i. i \<notin> set repaired \<and> completed \<le> i \<and> i < hint) orphaned"

definition orphaned_indexes :: "host \<Rightarrow> step_decl \<Rightarrow> string \<Rightarrow> int list call" where
  "orphaned_indexes h step key =
     andthen state_of (\<lambda>s.
     andthen (find_supervised_orphaned h (es_execution_id s) (st_step step) (Some key)
         (max 1 (h_repair_threshold h))) (\<lambda>v.
     case v of
       Some is \<Rightarrow> ret is
     | None \<Rightarrow> reading (find_orphaned_iterations (es_execution_id s) (st_step step) (Some key)
                 (max 1 (h_repair_threshold h)))))"

definition stale_enough :: "host \<Rightarrow> int \<Rightarrow> pydict \<Rightarrow> pydict \<Rightarrow> bool" where
  "stale_enough h now dist ls =
     (let progress = first_some (h_parse_iso h) [py_get dist ''last_progress_at'',
            py_get dist ''last_completed_at'', py_get dist ''last_claimed_at'', py_get dist ''updated_at''];
          repair = first_some (h_parse_iso h)
            [py_get dist ''last_watchdog_repair_at'', py_get ls ''last_watchdog_repair_at''] in
      (case progress of None \<Rightarrow> True | Some t \<Rightarrow> h_watchdog h \<le> now - t)
      \<and> (case repair of None \<Rightarrow> True | Some t \<Rightarrow> h_recovery_cooldown h \<le> now - t))"

definition watchdog ::
  "host \<Rightarrow> step_decl \<Rightarrow> int \<Rightarrow> string \<Rightarrow> int \<Rightarrow> claim_view \<Rightarrow> claim_view call" where
  "watchdog h step m key hint cv =
     (case (if saturated m hint cv then cv_dist cv else None) of
        None \<Rightarrow> ret cv
      | Some dist \<Rightarrow>
          andthen (clock h) (\<lambda>now.
          andthen (loop_of (st_step step)) (\<lambda>ls.
          if \<not> stale_enough h now dist ls then ret cv
          else
            andthen (orphaned_indexes h step key) (\<lambda>orphaned.
            andthen (pure (repaired_indexes ls)) (\<lambda>repaired.
            case pick_orphan repaired (cv_completed cv) hint orphaned of
              None \<Rightarrow> ret cv
            | Some i \<Rightarrow>
                andthen (pure (count_or_zero ls ''watchdog_repair_count'')) (\<lambda>n.
                andthen (set_loop (st_step step) (set_keys
                  [(''repair_issued_indexes'', VList (map VInt (sort (i # repaired)))),
                   (''last_watchdog_repair_at'', VStr (h_iso h now)),
                   (''watchdog_repair_count'', VInt (n + 1))] ls)) (\<lambda>_.
                  ret (cv\<lparr>cv_claimed := Some i\<rparr>))))))))"

definition recover_claim ::
  "host \<Rightarrow> step_decl \<Rightarrow> pyval list \<Rightarrow> int \<Rightarrow> int \<Rightarrow> epoch_view \<Rightarrow> (int option \<times> bool) \<Rightarrow> (int option \<times> bool) call" where
  "recover_claim h step xs m completed ep claim =
     (case claim of
        (Some i, taken) \<Rightarrow> ret (Some i, taken)
      | (None, taken) \<Rightarrow>
          andthen (loop_of (st_step step)) (\<lambda>ls.
          andthen (pure (count_or (case ep_dist ep of Some d \<Rightarrow> if has_key d ''scheduled_count'' then d else ls
                                    | None \<Rightarrow> ls) ''scheduled_count'' completed)) (\<lambda>scheduled.
          andthen (pure (size_hint (ep_dist ep) (int (length xs)))) (\<lambda>hint.
          andthen (reconcile_counters h step xs m (ep_key ep) hint
            \<lparr>cv_claimed = None, cv_taken = taken, cv_completed = completed, cv_scheduled = scheduled,
             cv_dist = ep_dist ep\<rparr>) (\<lambda>cv1.
          andthen (watchdog h step m (ep_key ep) hint cv1) (\<lambda>cv2.
            ret (cv_claimed cv2, cv_taken cv2)))))))"

section \<open>The iteration\<close>

text \<open>A placeholder item is replaced by the item of the stored collection, when there is one.\<close>

definition loop_item :: "host \<Rightarrow> step_decl \<Rightarrow> string \<Rightarrow> pyval list \<Rightarrow> int \<Rightarrow> pyval call" where
  "loop_item h step key xs i =
     andthen (pure (py_index xs i)) (\<lambda>item.
     if is_int item \<and> key \<noteq> [] then
       andthen execution_text (\<lambda>x.
       andthen (attempt (cached h (\<lambda>_. get_loop_collection x (st_step step) key))) (\<lambda>v.
         ret (case v of
                Some (VList ys) \<Rightarrow>
                  (if ys \<noteq> [] \<and> i < int (length ys)
                   then (case py_index ys i of Inr y \<Rightarrow> y | Inl _ \<Rightarrow> item) else item)
              | _ \<Rightarrow> item)))
     else ret item)"

definition take_iteration ::
  "host \<Rightarrow> step_decl \<Rightarrow> loop_decl \<Rightarrow> string \<Rightarrow> pyval list \<Rightarrow> int \<Rightarrow> unit call" where
  "take_iteration h step l key xs i =
     andthen (loop_item h step key xs i) (\<lambda>item.
     andthen (loop_of (st_step step)) (\<lambda>ls.
     andthen (pure (count_or_zero ls ''scheduled_count'')) (\<lambda>scheduled.
     andthen (pure (count_or_zero ls ''index'')) (\<lambda>index.
     andthen (set_loop (st_step step) (set_keys
       [(''scheduled_count'', VInt (max scheduled (i + 1))), (''collection_size'', VInt (int (length xs))),
        (''index'', VInt (max index (i + 1)))] ls)) (\<lambda>_.
       changing_state (\<lambda>s. s\<lparr>es_variables := set_keys
         [(ld_iterator l, item), (''loop_index'', VInt i)] (es_variables s)\<rparr>))))))"

text \<open>
  The loop part of a dispatch: the index it claimed with the size of the collection, the epoch for
  the metadata and the context of the collection, or nothing.
\<close>

record iteration =
  it_index :: int
  it_size :: nat
  it_md :: "string option"
  it_context :: "pydict option"

definition release_slot :: "host \<Rightarrow> step_decl \<Rightarrow> string \<Rightarrow> unit call" where
  "release_slot h step key =
     andthen execution_text (\<lambda>x.
     andthen (cached h (\<lambda>clk. release_loop_slot clk x (st_step step) (Some key))) (\<lambda>_. ret ()))"

text \<open>An index outside the collection gives its slot back; one inside becomes the iteration.\<close>

definition settle_claim ::
  "host \<Rightarrow> step_decl \<Rightarrow> loop_decl \<Rightarrow> pyval list \<Rightarrow> pydict option \<Rightarrow> epoch_view \<Rightarrow> int option \<times> bool
     \<Rightarrow> iteration option call" where
  "settle_claim h step l xs context ep claim =
     (case claim of
        (None, _) \<Rightarrow> ret None
      | (Some i, taken) \<Rightarrow>
          if int (length xs) \<le> i then
            andthen (if taken then release_slot h step (ep_key ep) else ret ()) (\<lambda>_. ret None)
          else
            andthen (take_iteration h step l (ep_key ep) xs i) (\<lambda>_.
              ret (Some \<lparr>it_index = i, it_size = length xs, it_md = ep_md ep, it_context = context\<rparr>)))"

definition claim_iteration ::
  "host \<Rightarrow> step_decl \<Rightarrow> loop_decl \<Rightarrow> dispatch \<Rightarrow> pyval list \<Rightarrow> pydict option \<Rightarrow> epoch_view \<Rightarrow> iteration option call" where
  "claim_iteration h step l d xs context ep =
     andthen state_of (\<lambda>s.
     andthen (pure (get_loop_completed_count (st_step step) s)) (\<lambda>local.
     andthen (pure (case ep_dist ep of None \<Rightarrow> Inr local | Some dist \<Rightarrow> count_or dist ''completed_count'' local))
       (\<lambda>completed0.
     andthen (case context of Some c \<Rightarrow> ret c | None \<Rightarrow> context_for (st_step step) ''loop_init'') (\<lambda>max_context.
     andthen (pure (get_loop_max_in_flight (h_renderer h) step (Some max_context))) (\<lambda>m.
     andthen (repair_size h step xs (map_of (es_loop_state s) (st_step step)) completed0 ep) (\<lambda>ep1.
     andthen (ensure_epoch h step l xs completed0 ep1) (\<lambda>(completed, ep2).
     andthen (first_claim h step d xs m ep2) (\<lambda>claim.
     andthen (recover_claim h step xs m completed ep2 claim) (settle_claim h step l xs context ep2)))))))))"

definition dispatch_iteration :: "host \<Rightarrow> step_decl \<Rightarrow> loop_decl \<Rightarrow> dispatch \<Rightarrow> iteration option call" where
  "dispatch_iteration h step l d =
     andthen (dispatch_collection h step l d) (\<lambda>found.
     case found of
       None \<Rightarrow> ret None
     | Some (xs, context) \<Rightarrow>
         andthen (enter_loop h step l d xs) (\<lambda>entered.
         case entered of
           Skipped \<Rightarrow> ret None
         | Entered force \<Rightarrow>
             andthen (find_epoch h step d force) (\<lambda>ep.
             andthen (renew_epoch h step l d xs ep) (\<lambda>renewed.
             case renewed of
               None \<Rightarrow> ret None
             | Some ep1 \<Rightarrow> claim_iteration h step l d xs context ep1))))"


section \<open>The context of a command\<close>

definition iter_namespace :: "loop_decl \<Rightarrow> iteration \<Rightarrow> pyval \<Rightarrow> pyval \<Rightarrow> pydict" where
  "iter_namespace l it v old =
     set_keys
       [(ld_iterator l, v), (''_index'', VInt (it_index it)), (''_first'', VBool (it_index it = 0)),
        (''_last'', VBool (it_size it = 0 \<or> int (it_size it) - 1 \<le> it_index it)),
        (''loop_event_id'', enc_str (it_md it))]
       (dict_or_empty old)"

definition loop_metadata :: "pydict \<Rightarrow> pyval res" where
  "loop_metadata ls =
     rbind (rbind (need ls ''index'') py_num) (\<lambda>index.
     rbind (py_len (py_get_default ls ''collection'' (VList []))) (\<lambda>n.
       Inr (VDict [(''index'', VInt (if 0 < index then index - 1 else 0)), (''first'', VBool (index = 1)),
         (''length'', VInt (int n)), (''done'', py_get_default ls ''completed'' (VBool False))])))"

definition loop_context :: "step_decl \<Rightarrow> loop_decl \<Rightarrow> iteration \<Rightarrow> pydict \<Rightarrow> exec_state \<Rightarrow> pydict res" where
  "loop_context step l it base s =
     (let v = py_get (es_variables s) (ld_iterator l);
          c1 = set_keys [(ld_iterator l, v), (''loop_index'', VInt (it_index it)),
                 (''ctx'', VDict (es_variables s)), (''workload'', VDict (es_variables s))] base;
          c2 = AList.update ''iter'' (VDict (iter_namespace l it v (py_get c1 ''iter''))) c1 in
      case map_of (es_loop_state s) (st_step step) of
        None \<Rightarrow> Inr c2
      | Some ls \<Rightarrow>
          if ls = [] then Inr c2
          else rbind (loop_metadata ls) (\<lambda>v. Inr (AList.update ''loop'' v c2)))"

definition base_of :: "dispatch \<Rightarrow> iteration \<Rightarrow> pydict option" where
  "base_of d it = (case dp_context d of Some c \<Rightarrow> Some c | None \<Rightarrow> it_context it)"

definition command_context :: "step_decl \<Rightarrow> dispatch \<Rightarrow> iteration option \<Rightarrow> pydict call" where
  "command_context step d it =
     (case (st_loop step, it) of
        (Some l, Some i) \<Rightarrow>
          (case base_of d i of
             Some base \<Rightarrow> andthen state_of (\<lambda>s. pure (loop_context step l i base s))
           | None \<Rightarrow> context_for (st_step step) ''command_creation'')
      | _ \<Rightarrow> context_for (st_step step) ''command_creation'')"

section \<open>The command of a step\<close>

definition control_keys :: "string list" where
  "control_keys =
     [''__loop_retry'', ''__loop_retry_index'', ''__loop_continue'', ''__loop_collection'', ''__base_context'']"

definition step_arguments :: "step_decl \<Rightarrow> pydict \<Rightarrow> pydict" where
  "step_arguments step control =
     set_keys (filter (\<lambda>(k, v). k \<notin> set control_keys) control)
       (case st_input step of None \<Rightarrow> [] | Some d \<Rightarrow> d)"

definition policy_rules :: "pydict \<Rightarrow> pyval" where
  "policy_rules config =
     (case py_get_default config ''spec'' (VDict []) of
        VDict spec \<Rightarrow>
          (case py_get_default spec ''policy'' (VDict []) of
             VDict policy \<Rightarrow> py_get_default policy ''rules'' (VList []) | _ \<Rightarrow> VList [])
      | _ \<Rightarrow> VList [])"

text \<open>The kind and the configuration a worker gets, with the pipeline when there is one.\<close>

definition tool_call ::
  "renderer \<Rightarrow> step_decl \<Rightarrow> tool_decl \<Rightarrow> pydict \<Rightarrow> string \<times> pyval \<times> pydict list option" where
  "tool_call rd step tool context =
     (case tool of
        Pipeline tasks \<Rightarrow>
          (''task_sequence'', VDict [(''tasks'', VList (map VDict tasks))], Some tasks)
      | Single_Tool kind config \<Rightarrow>
          if truthy (policy_rules config) then
            (let task = set_keys ((''kind'', VStr kind) # config) [(''name'', VStr (st_step step @ ''_task''))] in
             (''task_sequence'', VDict [(''tasks'', VList [VDict task])], Some [task]))
          else (kind, render_refs rd (VDict config) context, None))"

definition command_metadata :: "step_decl \<Rightarrow> bool \<Rightarrow> iteration option \<Rightarrow> pydict" where
  "command_metadata step pipeline it =
     (let m = (if pipeline then [(''task_sequence'', VBool True), (''parent_step'', VStr (st_step step))] else []) in
      case it of
        None \<Rightarrow> m
      | Some i \<Rightarrow>
          filter (\<lambda>(k, v). v \<noteq> VNone) (m @
            [(''loop_step'', VStr (st_step step)), (''loop_event_id'', enc_str (it_md i)),
             (''__loop_epoch_id'', enc_str (it_md i)), (''loop_iteration_index'', VInt (it_index i))]))"

definition step_command ::
  "renderer \<Rightarrow> exec_state \<Rightarrow> step_decl \<Rightarrow> pydict \<Rightarrow> iteration option \<Rightarrow> pydict \<Rightarrow> command option" where
  "step_command rd s step control it context =
     (case st_tool step of
        None \<Rightarrow> None
      | Some tool \<Rightarrow>
          (case tool_call rd step tool context of (kind, config, pipeline) \<Rightarrow>
             (let has_tasks = (case pipeline of None \<Rightarrow> False | Some ts \<Rightarrow> ts \<noteq> []) in
              Some ((base_command s
                  (if has_tasks then st_step step @ task_sequence_suffix else st_step step)
                  kind config (render_refs rd (VDict (step_arguments step control)) context)
                  (safe_context context) (command_metadata step has_tasks it))
                \<lparr>cm_pipeline := pipeline,
                 cm_next_targets := map_option (\<lambda>_. get_next_arcs step) (st_next step),
                 cm_next_mode := Some (get_next_mode step)\<rparr>))))"

definition create_command_for_step :: "host \<Rightarrow> step_decl \<Rightarrow> pydict \<Rightarrow> command option call" where
  "create_command_for_step h step control =
     (let d = dispatch_of control;
          finish = (\<lambda>it. andthen (command_context step d it) (\<lambda>context.
            andthen state_of (\<lambda>s. ret (step_command (h_renderer h) s step control it context)))) in
      case st_loop step of
        None \<Rightarrow> finish None
      | Some l \<Rightarrow>
          andthen (dispatch_iteration h step l d) (\<lambda>it.
            case it of None \<Rightarrow> ret None | Some i \<Rightarrow> finish (Some i)))"

end
