(* ===== verification/Engine_Commands_Theorems.thy ===== *)
theory Engine_Commands_Theorems
  imports Engine_Commands
begin

text \<open>
  What command creation guarantees: a command carries no resolved secret, creating the command of a
  plain step reads the state only, and the command of a loop step is for one index inside the
  collection that is marked as scheduled. Two lemmas show where the code falls short: the length a
  loop's templates see, and orphaned indexes below the completed count.
\<close>

section \<open>Secrets\<close>

definition same_open_templates :: "renderer \<Rightarrow> renderer \<Rightarrow> bool" where
  "same_open_templates rd rd' \<longleftrightarrow>
     (\<forall>t context. \<not> contains_keychain_template (VStr t) \<longrightarrow>
        render_deep_text rd t context = render_deep_text rd' t context)"

lemma render_refs_same:
  "same_open_templates rd rd' \<Longrightarrow> render_refs rd v context = render_refs rd' v context"
  unfolding render_refs_def by (rule keychain_templates_not_rendered) (simp add: same_open_templates_def)

lemma safe_context_free:
  "free_of_blocked (''keychain'' # keychain_names_from_manifest (py_get context manifest_key)) (safe_context context)"
  using strip_removes_namespaces [of "py_get context manifest_key" "VDict context"] by (simp add: safe_context_def)

lemma base_command_sel [simp]:
  "cm_render_context (base_command s st k cfg inp ctx md) = ctx"
  "cm_metadata (base_command s st k cfg inp ctx md) = md"
  "cm_step (base_command s st k cfg inp ctx md) = st"
  "cm_tool_kind (base_command s st k cfg inp ctx md) = k"
  "cm_input (base_command s st k cfg inp ctx md) = inp"
  "cm_execution_id (base_command s st k cfg inp ctx md) = es_execution_id s"
  by (simp_all add: base_command_def)

lemma step_command_parts:
  assumes "step_command rd s step control it ctx = Some c"
  shows "\<exists>has. cm_render_context c = safe_context ctx \<and> cm_metadata c = command_metadata step has it
    \<and> cm_step c = (if has then st_step step @ task_sequence_suffix else st_step step)
    \<and> cm_input c = render_refs rd (VDict (step_arguments step control)) ctx"
proof -
  obtain tool where tool: "st_tool step = Some tool"
    using assms by (auto simp: step_command_def split: option.splits)
  obtain kind config pipeline where call: "tool_call rd step tool ctx = (kind, config, pipeline)"
    by (cases "tool_call rd step tool ctx")
  define has where "has = (case pipeline of None \<Rightarrow> False | Some ts \<Rightarrow> ts \<noteq> [])"
  have "c = (base_command s (if has then st_step step @ task_sequence_suffix else st_step step)
        kind config (render_refs rd (VDict (step_arguments step control)) ctx)
        (safe_context ctx) (command_metadata step has it))
      \<lparr>cm_pipeline := pipeline, cm_next_targets := map_option (\<lambda>_. get_next_arcs step) (st_next step),
       cm_next_mode := Some (get_next_mode step)\<rparr>"
    using assms by (simp add: step_command_def tool call Let_def has_def)
  then show ?thesis by (intro exI [of _ has]) simp
qed

lemma step_command_None: "step_command rd s step control it context = None \<longleftrightarrow> st_tool step = None"
  by (auto simp: step_command_def Let_def split: option.splits prod.splits)


section \<open>Plain steps\<close>

lemma create_plain_command:
  assumes "st_loop step = None"
  shows "create_command_for_step h step control e =
    (case get_render_context (synthetic_event (en_state e) (st_step step) ''command_creation'') (en_state e) of
       Inl x \<Rightarrow> (Inl x, e)
     | Inr context \<Rightarrow> (Inr (step_command (h_renderer h) (en_state e) step control None context), e))"
  using assms
  by (simp add: create_command_for_step_def command_context_def context_for_def andthen_def
      state_of_def reading_def pure_def ret_def Let_def split: sum.split)

section \<open>Loop steps\<close>

lemma loop_of_read:
  "loop_of step e = (Inr ls, e') \<Longrightarrow> e' = e \<and> map_of (es_loop_state (en_state e)) step = Some ls"
  by (auto simp: loop_of_def andthen_def state_of_def reading_def raises_def ret_def split: option.splits)

lemma pure_Inr: "pure r e = (Inr x, e') \<Longrightarrow> r = Inr x \<and> e' = e"
  by (auto simp: pure_def)

lemma set_keys_get: "py_get (set_keys up d) k = (case map_of (rev up) k of None \<Rightarrow> py_get d k | Some v \<Rightarrow> v)"
  by (auto simp: set_keys_def py_get_def map_of_merge map_add_def split: option.split)

text \<open>
  The loop of a step runs over \<open>n\<close> items and has been scheduled past the index \<open>i\<close>, which is the
  current one of the templates.
\<close>

definition scheduled_past :: "string \<Rightarrow> int \<Rightarrow> nat \<Rightarrow> exec_state \<Rightarrow> bool" where
  "scheduled_past step i n s \<longleftrightarrow>
     py_get (es_variables s) ''loop_index'' = VInt i
     \<and> (\<exists>ls m k. map_of (es_loop_state s) step = Some ls \<and> py_get ls ''scheduled_count'' = VInt m
          \<and> py_get ls ''index'' = VInt k \<and> py_get ls ''collection_size'' = VInt (int n) \<and> i < m \<and> i < k)"

lemma take_iteration_effect:
  assumes "take_iteration h step l key xs i e = (Inr (), e')"
  shows "scheduled_past (st_step step) i (length xs) (en_state e')"
proof -
  obtain item e1 where "andthen (loop_of (st_step step)) (\<lambda>ls.
     andthen (pure (count_or_zero ls ''scheduled_count'')) (\<lambda>scheduled.
     andthen (pure (count_or_zero ls ''index'')) (\<lambda>index.
     andthen (set_loop (st_step step) (set_keys
       [(''scheduled_count'', VInt (max scheduled (i + 1))), (''collection_size'', VInt (int (length xs))),
        (''index'', VInt (max index (i + 1)))] ls)) (\<lambda>_.
       changing_state (\<lambda>s. s\<lparr>es_variables := set_keys
         [(ld_iterator l, item), (''loop_index'', VInt i)] (es_variables s)\<rparr>))))) e1 = (Inr (), e')"
    using assms unfolding take_iteration_def by (rule andthen_InrE)
  then show ?thesis
    by (auto simp: andthen_def loop_of_def state_of_def reading_def raises_def ret_def pure_def
        set_loop_def changing_state_def changing_def with_loop_def scheduled_past_def set_keys_get
        split: option.splits sum.splits)
qed

lemma settle_claim_Some:
  assumes "settle_claim h step l xs context ep claim e = (Inr (Some it), e')"
  shows "it_index it < int (it_size it) \<and> scheduled_past (st_step step) (it_index it) (it_size it) (en_state e')"
proof -
  obtain i taken where c: "claim = (Some i, taken)" "i < int (length xs)"
  proof -
    have "fst claim \<noteq> None" using assms by (auto simp: settle_claim_def ret_def split: prod.splits option.splits)
    then obtain i taken where c: "claim = (Some i, taken)" by (cases claim) auto
    have "i < int (length xs)"
    proof (rule ccontr)
      assume "\<not> i < int (length xs)"
      then show False using assms
        by (auto simp: settle_claim_def c andthen_def ret_def split: prod.splits sum.splits if_splits)
    qed
    with c that show ?thesis by blast
  qed
  have "andthen (take_iteration h step l (ep_key ep) xs i) (\<lambda>_.
      ret (Some \<lparr>it_index = i, it_size = length xs, it_md = ep_md ep, it_context = context\<rparr>)) e
      = (Inr (Some it), e')"
    using assms c by (simp add: settle_claim_def)
  then obtain e1 where "take_iteration h step l (ep_key ep) xs i e = (Inr (), e')"
      "it = \<lparr>it_index = i, it_size = length xs, it_md = ep_md ep, it_context = context\<rparr>"
    by (elim andthen_InrE) (auto simp: ret_def)
  then show ?thesis using take_iteration_effect c(2) by simp
qed

lemma claim_iteration_Some:
  assumes "claim_iteration h step l d xs context ep e = (Inr (Some it), e')"
  shows "it_index it < int (it_size it) \<and> scheduled_past (st_step step) (it_index it) (it_size it) (en_state e')"
proof -
  obtain ep2 claim e1 where "settle_claim h step l xs context ep2 claim e1 = (Inr (Some it), e')"
    using assms unfolding claim_iteration_def
    by (elim andthen_InrE) (auto split: prod.splits elim!: andthen_InrE)
  then show ?thesis by (rule settle_claim_Some)
qed

lemma dispatch_iteration_Some:
  assumes "dispatch_iteration h step l d e = (Inr (Some it), e')"
  shows "it_index it < int (it_size it) \<and> scheduled_past (st_step step) (it_index it) (it_size it) (en_state e')"
proof -
  obtain xs cx ep e1 where "claim_iteration h step l d xs cx ep e1 = (Inr (Some it), e')"
    using assms unfolding dispatch_iteration_def
    by (elim andthen_InrE)
      (auto simp: ret_def split: option.splits prod.splits entered.splits elim!: andthen_InrE)
  then show ?thesis by (rule claim_iteration_Some)
qed

lemma command_context_reads: "command_context step d it e = (Inr c, e') \<Longrightarrow> e' = e"
  by (auto simp: command_context_def context_for_def state_of_def reading_def andthen_def pure_def
      split: option.splits sum.splits prod.splits)

text \<open>
  C28. A command made for a loop step is for one index below the size of the loop's collection: the
  metadata carry it, the templates see it, and the loop's local counters are past it.
\<close>
theorem loop_command_is_scheduled:
  assumes "st_loop step = Some l"
    and "create_command_for_step h step control e = (Inr (Some c), e')"
  shows "\<exists>i n. py_get (cm_metadata c) ''loop_iteration_index'' = VInt i \<and> i < int n
    \<and> scheduled_past (st_step step) i n (en_state e')"
proof -
  have "andthen (dispatch_iteration h step l (dispatch_of control)) (\<lambda>it. case it of
        None \<Rightarrow> ret None
      | Some i \<Rightarrow> andthen (command_context step (dispatch_of control) (Some i)) (\<lambda>cx.
          andthen state_of (\<lambda>s. ret (step_command (h_renderer h) s step control (Some i) cx)))) e
      = (Inr (Some c), e')"
    using assms by (simp add: create_command_for_step_def Let_def)
  then obtain r e1 where r: "dispatch_iteration h step l (dispatch_of control) e = (Inr r, e1)"
    and f: "(case r of
        None \<Rightarrow> ret None
      | Some i \<Rightarrow> andthen (command_context step (dispatch_of control) (Some i)) (\<lambda>cx.
          andthen state_of (\<lambda>s. ret (step_command (h_renderer h) s step control (Some i) cx)))) e1
      = (Inr (Some c), e')"
    by (rule andthen_InrE)
  obtain it where it: "dispatch_iteration h step l (dispatch_of control) e = (Inr (Some it), e1)"
    and "r = Some it"
    using f r by (cases r) (auto simp: ret_def)
  then obtain cx e2 where "command_context step (dispatch_of control) (Some it) e1 = (Inr cx, e2)"
    and g: "andthen state_of (\<lambda>s. ret (step_command (h_renderer h) s step control (Some it) cx)) e2
      = (Inr (Some c), e')"
    using f by (auto elim: andthen_InrE)
  then have "e2 = e1" using command_context_reads by blast
  have c: "step_command (h_renderer h) (en_state e2) step control (Some it) cx = Some c" and "e' = e2"
    using g by (auto simp: andthen_def state_of_def reading_def ret_def)
  have "py_get (cm_metadata c) ''loop_iteration_index'' = VInt (it_index it)"
    using step_command_parts [OF c] by (auto simp: command_metadata_def py_get_def)
  then show ?thesis using dispatch_iteration_Some [OF it] \<open>e' = e2\<close> \<open>e2 = e1\<close> by auto
qed

text \<open>A loop of two items, at its first dispatch.\<close>

definition sample_loop_step :: step_decl where
  "sample_loop_step =
     \<lparr>st_step = ''s'', st_next = None,
      st_loop = Some \<lparr>ld_in = Some ''{{ items }}'', ld_cursor = None, ld_iterator = ''it'',
        ld_mode = Some Parallel, ld_max_in_flight = VInt 2, ld_frame = None\<rparr>,
      st_input = Some [(''x'', VStr ''{{ it }}'')], st_tool = Some (Single_Tool ''noop'' []), st_set = None\<rparr>"

definition sample_items_engine :: engine where
  "sample_items_engine = sample_engine\<lparr>en_state := new_execution_state (VStr ''7'') sample_playbook
     [(''items'', VList [VInt 10, VInt 20])] (VInt 3) VNone\<rparr>"

definition first_dispatch :: "py_error + command option" where
  "first_dispatch = fst (create_command_for_step sample_host sample_loop_step [] sample_items_engine)"

definition first_command :: command where
  "first_command = (case first_dispatch of Inr (Some c) \<Rightarrow> c | _ \<Rightarrow> base_command
     (en_state sample_items_engine) [] [] VNone VNone VNone [])"

lemma first_command_made:
  "(case first_dispatch of Inr (Some c) \<Rightarrow> True | _ \<Rightarrow> False)" by code_simp

lemma first_dispatch_Some: "first_dispatch = Inr (Some first_command)"
proof -
  obtain c where c: "first_dispatch = Inr (Some c)"
    using first_command_made by (auto split: sum.splits option.splits)
  have "first_command = c" unfolding first_command_def c by simp
  then show ?thesis using c by (simp only:)
qed

theorem loop_command_is_scheduled_witness:
  "\<exists>i n. py_get (cm_metadata first_command) ''loop_iteration_index'' = VInt i \<and> i < int n
    \<and> scheduled_past ''s'' i n
       (en_state (snd (create_command_for_step sample_host sample_loop_step [] sample_items_engine)))"
  using loop_command_is_scheduled [of sample_loop_step _ sample_host "[]" sample_items_engine first_command,
      OF _ prod_eqI] first_dispatch_Some
  by (simp add: first_dispatch_def sample_loop_step_def)

text \<open>
  The loop is over two items and its templates read \<open>loop.length\<close> as zero: the length is taken of a
  collection that the loop's local state does not keep.
\<close>

lemma loop_length_is_zero:
  "py_get (dict_or_empty (cm_render_context first_command)) ''loop''
     = VDict [(''index'', VInt 0), (''first'', VBool True), (''length'', VInt 0), (''done'', VBool False)]"
  by code_simp

text \<open>Two renderers that differ on the templates that read the keychain, and only there.\<close>

definition leaking_renderer :: renderer where
  "leaking_renderer = (h_renderer sample_host)
     \<lparr>rd_jinja := (\<lambda>t c. if contains_keychain_template (VStr t) then Inr ''secret'' else Inr t)\<rparr>"

definition secret_context :: pydict where
  "secret_context = [(''x'', VInt 1), (''keychain'', VDict [(''k'', VStr ''secret'')])]"

lemma leaking_renderer_same: "same_open_templates (h_renderer sample_host) leaking_renderer"
  by (auto simp: same_open_templates_def leaking_renderer_def render_deep_text_def sample_host_def Let_def
      split: option.split)


text \<open>
  An orphaned index below the completed count is never replayed: with indexes 1 and 2 of three done
  and the command of index 0 lost, two completions are counted and index 0 is passed over.
\<close>

lemma pick_orphan_bounds: "pick_orphan repaired completed n orphaned = Some i \<Longrightarrow> completed \<le> i \<and> i < n"
  by (auto simp: pick_orphan_def find_Some_iff)

lemma lost_first_index_not_replayed: "pick_orphan [] 2 3 [0] = None"
  by (simp add: pick_orphan_def)

text \<open>
  A new epoch that is none: the distributed state of the loop says that both items are done, and a
  fresh dispatch starts another run of the loop, under the identifier of the one that is over.
  Counters are merged upwards when they are stored, so no index can be claimed and no command is
  created, although the local state says that the loop has just begun.
\<close>

definition stale_engine :: engine where
  "stale_engine = sample_items_engine
     \<lparr>en_state := (en_state sample_items_engine)\<lparr>es_loop_state :=
        [(''s'', fresh_loop_state 2 ''it'' ''parallel'' (VStr ''loop_7_0''))]\<rparr>,
      en_cache := \<lparr>kv_entries = [(''exec.7.loop.s.loop_7_0'', VDict
         [(''collection_size'', VInt 2), (''completed_count'', VInt 2), (''scheduled_count'', VInt 2)], 1)],
        kv_seq = 1\<rparr>\<rparr>"

lemma stale_epoch_kept:
  assumes "renew_epoch h step l d xs ep e = (Inr (Some ep'), e')" "ep_md ep = Some m" "m \<noteq> []"
    "ep_key ep = m"
  shows "ep_key ep' = m"
proof (cases "ep' = ep")
  case False
  then have "ep' = \<lparr>ep_force = True, ep_md = Some (text_or (ep_md ep) u), ep_key = text_or (ep_md ep) u,
      ep_dist = None\<rparr>" for u
    using assms by (auto simp: renew_epoch_def text_or_def ret_def Let_def elim!: andthen_InrE split: option.splits if_splits)
  then show ?thesis using assms by (simp add: text_or_def)
qed (use assms in simp)

lemma stale_epoch_yields_nothing:
  "(case create_command_for_step sample_host sample_loop_step [] stale_engine of
      (Inr None, e) \<Rightarrow> py_get (snd (hd (es_loop_state (en_state e)))) ''event_id'' = VStr ''loop_7_0''
        \<and> py_get (snd (hd (es_loop_state (en_state e)))) ''scheduled_count'' = VInt 0
    | _ \<Rightarrow> False)"
  by code_simp

end
