(* ===== verification/Cursor_Loops.thy ===== *)
theory Cursor_Loops
  imports Engine_Commands Canonical_Json
begin

text \<open>
  Cursor loops (\<open>_issue_cursor_loop_commands\<close> and \<open>_open_cursor_runtime_stage\<close> of
  \<^verbatim>\<open>noetl/core/dsl/engine/executor/transitions.py\<close>): one dispatch hands out a command for each
  worker slot, and each worker claims rows on its own until the cursor is drained. The loop is
  counted in slots: its local state, its distributed state and the commands are shown to agree on
  how many there are. Statements succeed; draining the outbox is left to its own theory.
\<close>

section \<open>The runtime stage\<close>

definition stage_envelope :: "host \<Rightarrow> exec_state \<Rightarrow> int \<Rightarrow> int \<Rightarrow> string \<Rightarrow> pydict \<Rightarrow> int \<Rightarrow> pydict" where
  "stage_envelope h s x stage epoch policy now =
     (let parent = es_last_event_id s; id = py_str (es_execution_id s) in
      [(''tenant_id'', VStr ''default''), (''organization_id'', VStr ''default''),
       (''execution_id'', VInt x),
       (''stream_id'', VStr (''execution/'' @ id @ ''/stage/'' @ show_int stage)),
       (''stream_version'', VInt 1), (''aggregate_id'', VStr (''stage/'' @ show_int stage)),
       (''aggregate_type'', VStr ''stage''), (''event_type'', VStr ''stage.opened''),
       (''schema_name'', VStr ''noetl.stage.opened''), (''schema_version'', VInt 1),
       (''event_time'', VStr (h_iso h now)), (''producer'', VStr ''noetl-server''),
       (''causation_id'', if truthy parent then VStr (py_str parent) else VNone),
       (''correlation_id'', VStr (py_str (py_or (es_root_event_id s) (es_execution_id s)))),
       (''idempotency_key'', VStr (''default/default/'' @ id @ ''/stage/'' @ show_int stage @ ''/opened'')),
       (''payload_ref'', VNone), (''result'', VDict [(''status'', VStr ''OPEN'')]),
       (''meta'', VDict [(''stage_id'', VStr (show_int stage)), (''loop_event_id'', VStr epoch),
          (''frame_policy'', VDict policy), (''actionable'', VBool False), (''informative'', VBool True)])])"

definition stage_event ::
  "host \<Rightarrow> exec_state \<Rightarrow> pyval \<Rightarrow> int \<Rightarrow> string \<Rightarrow> int \<Rightarrow> int \<Rightarrow> string \<Rightarrow> pydict \<Rightarrow> int \<Rightarrow> event_row" where
  "stage_event h s catalog_id x step stage event_id epoch policy now =
     (let env = stage_envelope h s x stage epoch policy now in
      \<lparr>we_execution_id = es_execution_id s, we_catalog_id = catalog_id, we_event_id = event_id,
       we_parent_event_id = es_last_event_id s, we_parent_execution_id = VNone, we_created_at = now,
       we_event_type = ''stage.opened'', we_node_name = Some step, we_status = VStr ''OPEN'',
       we_duration = 0,
       we_context = VDict [(''stage_id'', VStr (show_int stage)), (''loop_event_id'', VStr epoch)],
       we_result = py_get env ''result'', we_meta = dict_or_empty (py_get env ''meta''),
       we_error = VNone, we_worker_id = VStr ''noetl-server'', we_command_id = None,
       we_envelope = env @ [(''envelope_checksum'', VStr (canonical_checksum (VDict env))),
          (''stage_id'', VInt stage)]\<rparr>)"

definition stage_row_of :: "exec_state \<Rightarrow> int \<Rightarrow> string \<Rightarrow> int \<Rightarrow> int \<Rightarrow> string \<Rightarrow> pydict \<Rightarrow> runtime_stage" where
  "stage_row_of s x step stage event_id epoch policy =
     \<lparr>sg_stage_id = stage, sg_execution_id = x, sg_parent_event_id = es_last_event_id s,
      sg_loop_event_id = epoch, sg_kind = ''loop'', sg_step_name = step, sg_dsl_ref = ''workflow.'' @ step,
      sg_status = ''OPEN'', sg_frame_policy = policy, sg_opened_event_id = Some event_id,
      sg_closed_event_id = None, sg_ended_at = None\<rparr>"

definition execution_catalog :: "int \<Rightarrow> engine \<Rightarrow> pyval" where
  "execution_catalog x e =
     (case find (\<lambda>r. xr_execution_id r = x) (en_executions e) of
        None \<Rightarrow> VNone | Some r \<Rightarrow> VInt (xr_catalog_id r))"

text \<open>The identifier of the stage, when one could be opened.\<close>

definition open_cursor_runtime_stage ::
  "host \<Rightarrow> step_decl \<Rightarrow> string \<Rightarrow> pydict \<Rightarrow> int option call" where
  "open_cursor_runtime_stage h step epoch policy =
     andthen (reading (\<lambda>e. e)) (\<lambda>e.
     (let s = en_state e; stage = en_next_id e; event_id = en_next_id e + 1 in
      andthen (changing (\<lambda>e. e\<lparr>en_next_id := en_next_id e + 2\<rparr>)) (\<lambda>_.
      case py_int (es_execution_id s) of
        Inl _ \<Rightarrow> ret None
      | Inr x \<Rightarrow>
          andthen (clock h) (\<lambda>now.
          (let row = stage_event h s (py_or (execution_catalog x e) (es_catalog_id s)) x (st_step step)
                 stage event_id epoch policy now in
           andthen (changing (\<lambda>e. e\<lparr>
               en_stages := en_stages e @ [stage_row_of s x (st_step step) stage event_id epoch policy],
               en_events := en_events e @ [row],
               en_mirrored := (if h_mirror h then en_mirrored e @ [row] else en_mirrored e)\<rparr>))
             (\<lambda>_. ret (Some stage)))))))"

section \<open>The command of a slot\<close>

definition rendered_text :: "renderer \<Rightarrow> string \<Rightarrow> pydict \<Rightarrow> string option" where
  "rendered_text rd t context =
     (case render_template rd t context of
        Inr (VStr s) \<Rightarrow> if strip s = [] then None else Some s
      | _ \<Rightarrow> None)"

text \<open>The cursor with its credential and its claim statement rendered, as far as they can be.\<close>

definition cursor_spec :: "renderer \<Rightarrow> cursor_decl \<Rightarrow> pydict \<Rightarrow> pydict" where
  "cursor_spec rd c context =
     [(''kind'', VStr (cu_kind c)),
      (''auth'', VStr (case rendered_text rd (cu_auth c) context of Some s \<Rightarrow> strip s | None \<Rightarrow> cu_auth c)),
      (''claim'', VStr (if cu_claim c = [] then []
         else case rendered_text rd (cu_claim c) context of Some s \<Rightarrow> s | None \<Rightarrow> cu_claim c)),
      (''options'', cu_options c)]"

definition cursor_tasks :: "step_decl \<Rightarrow> tool_decl \<Rightarrow> pydict list" where
  "cursor_tasks step tool =
     (case tool of
        Pipeline tasks \<Rightarrow> tasks
      | Single_Tool kind config \<Rightarrow>
          [set_keys ((''kind'', VStr kind) # config) [(''name'', VStr (st_step step @ ''_task''))]])"

definition max_frame_rows :: "pydict \<Rightarrow> int res" where
  "max_frame_rows policy =
     rbind (py_int (py_or (py_get policy ''max_rows'') (VInt 1))) (\<lambda>n. Inr (max 1 n))"

definition cursor_input :: "step_decl \<Rightarrow> pydict \<Rightarrow> pydict" where
  "cursor_input step input =
     set_keys (filter (\<lambda>(k, v). \<not> startswith k ''__'') input)
       (case st_input step of None \<Rightarrow> [] | Some d \<Rightarrow> d)"

text \<open>What the commands of one dispatch share.\<close>

record cursor_run =
  cr_epoch :: string
  cr_workers :: int
  cr_stage :: "int option"
  cr_policy :: pydict
  cr_context :: pydict

definition enc_id :: "int option \<Rightarrow> pyval" where
  "enc_id v = (case v of None \<Rightarrow> VNone | Some i \<Rightarrow> VInt i)"

definition slot_id :: "cursor_run \<Rightarrow> int \<Rightarrow> string" where
  "slot_id r slot = cr_epoch r @ '':slot-'' @ show_int slot"

definition slot_config :: "renderer \<Rightarrow> step_decl \<Rightarrow> loop_decl \<Rightarrow> cursor_decl \<Rightarrow> tool_decl \<Rightarrow> cursor_run \<Rightarrow> int \<Rightarrow> pyval" where
  "slot_config rd step l c tool r slot =
     VDict [(''cursor'', VDict (cursor_spec rd c (cr_context r))), (''iterator'', VStr (ld_iterator l)),
       (''tasks'', VList (map VDict (cursor_tasks step tool))), (''worker_slot_id'', VStr (slot_id r slot)),
       (''worker_slot_index'', VInt slot), (''worker_count'', VInt (cr_workers r)),
       (''loop_event_id'', VStr (cr_epoch r)), (''stage_id'', enc_id (cr_stage r)),
       (''frame_policy'', VDict (cr_policy r))]"

definition slot_metadata :: "step_decl \<Rightarrow> cursor_run \<Rightarrow> int \<Rightarrow> pydict" where
  "slot_metadata step r slot =
     [(''task_sequence'', VBool True), (''parent_step'', VStr (st_step step)), (''cursor_worker'', VBool True),
      (''worker_slot_id'', VStr (slot_id r slot)), (''loop_step'', VStr (st_step step)),
      (''loop_event_id'', VStr (cr_epoch r)), (''__loop_epoch_id'', VStr (cr_epoch r)),
      (''stage_id'', enc_id (cr_stage r)), (''loop_worker_count'', VInt (cr_workers r)),
      (''frame_policy'', VDict (cr_policy r)), (''loop_iteration_index'', VInt slot)]"

definition slot_command ::
  "renderer \<Rightarrow> exec_state \<Rightarrow> step_decl \<Rightarrow> loop_decl \<Rightarrow> cursor_decl \<Rightarrow> tool_decl \<Rightarrow> pydict \<Rightarrow> cursor_run \<Rightarrow> int \<Rightarrow> command" where
  "slot_command rd s step l c tool input r slot =
     (base_command s (st_step step @ task_sequence_suffix) ''cursor_worker'' (slot_config rd step l c tool r slot)
        (render_refs rd (VDict (cursor_input step input)) (cr_context r)) (safe_context (cr_context r))
        (slot_metadata step r slot))
      \<lparr>cm_pipeline := Some (cursor_tasks step tool),
       cm_next_targets := map_option (\<lambda>_. get_next_arcs step) (st_next step),
       cm_next_mode := Some (get_next_mode step)\<rparr>"

section \<open>The dispatch\<close>

definition drop_loop :: "string \<Rightarrow> exec_state \<Rightarrow> exec_state" where
  "drop_loop step s = s\<lparr>es_loop_state := AList.delete step (es_loop_state s)\<rparr>"

definition loop_reentered :: "exec_state \<Rightarrow> string \<Rightarrow> pydict \<Rightarrow> bool" where
  "loop_reentered s step input =
     ((case map_of (es_loop_state s) step of None \<Rightarrow> False | Some ls \<Rightarrow> ls \<noteq> [])
      \<and> (truthy (py_get input ''__loop_continue'') \<or> truthy (py_get input ''__loop_retry'')))"

definition cursor_epoch_state :: "loop_decl \<Rightarrow> int \<Rightarrow> string \<Rightarrow> pydict" where
  "cursor_epoch_state l workers epoch =
     [(''collection_size'', VInt workers), (''completed_count'', VInt 0), (''scheduled_count'', VInt workers),
      (''iterator'', VStr (ld_iterator l)), (''mode'', VStr ''cursor''), (''event_id'', VStr epoch)]"

text \<open>The local and the distributed state of the epoch.\<close>

definition seed_cursor_loop :: "host \<Rightarrow> step_decl \<Rightarrow> loop_decl \<Rightarrow> int \<Rightarrow> string \<Rightarrow> unit call" where
  "seed_cursor_loop h step l workers epoch =
     andthen (changing_state (\<lambda>s. forget_completion (st_step step) (drop_loop (st_step step) s))) (\<lambda>_.
     andthen (on_state (init_loop (st_step step) (range_list workers) (ld_iterator l) ''cursor'' (VStr epoch))) (\<lambda>_.
       store_loop_state h (st_step step) epoch (cursor_epoch_state l workers epoch)))"

text \<open>The epoch of the dispatch, with its stage.\<close>

definition begin_cursor_run ::
  "host \<Rightarrow> step_decl \<Rightarrow> loop_decl \<Rightarrow> cursor_run call" where
  "begin_cursor_run h step l =
     andthen (context_for (st_step step) ''cursor_loop_init'') (\<lambda>context.
     andthen (pure (get_loop_max_in_flight (h_renderer h) step (Some context))) (\<lambda>workers.
     andthen (clock h) (\<lambda>now.
     andthen execution_text (\<lambda>x.
     (let epoch = ''loop_'' @ x @ ''_'' @ show_int now; policy = frame_policy l in
      andthen (seed_cursor_loop h step l workers epoch) (\<lambda>_.
      andthen (open_cursor_runtime_stage h step epoch policy) (\<lambda>stage.
      andthen (pure (max_frame_rows policy)) (\<lambda>rows.
        ret \<lparr>cr_epoch = epoch, cr_workers = workers, cr_stage = stage, cr_policy = policy,
             cr_context = set_keys [(''__frame_max_rows'', VInt rows), (''__frame_policy'', VDict policy)]
               context\<rparr>))))))))"

definition issue_cursor_loop_commands :: "host \<Rightarrow> step_decl \<Rightarrow> pydict \<Rightarrow> command list call" where
  "issue_cursor_loop_commands h step input =
     (case st_loop step of
        None \<Rightarrow> ret []
      | Some l \<Rightarrow>
          (case ld_cursor l of
             None \<Rightarrow> ret []
           | Some c \<Rightarrow>
               andthen state_of (\<lambda>s.
               if loop_reentered s (st_step step) input then ret []
               else
                 andthen (begin_cursor_run h step l) (\<lambda>r.
                 case st_tool step of
                   None \<Rightarrow> ret []
                 | Some tool \<Rightarrow>
                     andthen state_of (\<lambda>s. ret
                       (map (slot_command (h_renderer h) s step l c tool input r) [0..cr_workers r - 1]))))))"

end
