(* ===== verification/Routing.thy ===== *)
theory Routing
  imports Cursor_Loops Planner Task_Sequence
begin

text \<open>
  Routing (\<^verbatim>\<open>noetl/core/dsl/engine/executor/transitions.py\<close>): the commands of a step (one, a batch
  for a loop, one per slot for a cursor), the evaluation of a step's \<open>next\<close> arcs with their
  conditions, mutations, deduplication and planner annotations, the actions of a \<open>then\<close> block with
  pagination and retries, and the transitions deferred until the inline tasks of a block are done.
  Logging is left out; a value of the wrong shape raises.
\<close>

section \<open>The commands of a step\<close>

definition opt_list :: "'a option \<Rightarrow> 'a list" where
  "opt_list v = (case v of None \<Rightarrow> [] | Some x \<Rightarrow> [x])"

definition for_epoch :: "string \<Rightarrow> pydict \<Rightarrow> pydict" where
  "for_epoch epoch shared = AList.update ''__loop_epoch_id'' (VStr epoch) shared"

definition continued :: "pydict \<Rightarrow> pydict" where
  "continued shared = AList.update ''__loop_continue'' (VBool True) shared"

text \<open>One command for each claimed index; an index without a command is skipped.\<close>

fun issue_claimed :: "host \<Rightarrow> step_decl \<Rightarrow> string \<Rightarrow> pydict \<Rightarrow> int list \<Rightarrow> command list call" where
  "issue_claimed h step epoch shared [] = ret []"
| "issue_claimed h step epoch shared (i # is) =
     andthen (create_command_for_step h step
         (for_epoch epoch (AList.update ''__loop_claimed_index'' (VInt i) shared))) (\<lambda>c.
     case c of
       None \<Rightarrow> issue_claimed h step epoch shared is
     | Some c \<Rightarrow> andthen (issue_claimed h step epoch (continued shared) is) (\<lambda>cs. ret (c # cs)))"

text \<open>Without a batch of claimed indexes: up to \<open>n\<close> commands, each claiming for itself.\<close>

fun issue_unclaimed :: "host \<Rightarrow> step_decl \<Rightarrow> string \<Rightarrow> pydict \<Rightarrow> nat \<Rightarrow> command list call" where
  "issue_unclaimed h step epoch shared 0 = ret []"
| "issue_unclaimed h step epoch shared (Suc n) =
     andthen (create_command_for_step h step (for_epoch epoch shared)) (\<lambda>c.
     case c of
       None \<Rightarrow> ret []
     | Some c \<Rightarrow> andthen (issue_unclaimed h step epoch (continued shared) n) (\<lambda>cs. ret (c # cs)))"

text \<open>A fresh entry has a new epoch and no local state; a continuation keeps both.\<close>

definition loop_epoch :: "host \<Rightarrow> string \<Rightarrow> pydict \<Rightarrow> string call" where
  "loop_epoch h step input =
     andthen state_of (\<lambda>s.
     if loop_reentered s step input then
       ret (py_str (py_or (py_get (the (map_of (es_loop_state s) step)) ''event_id'') (VStr [])))
     else
       andthen (clock h) (\<lambda>now.
       andthen execution_text (\<lambda>x.
       andthen (changing_state (drop_loop step)) (\<lambda>_. ret (''loop_'' @ x @ ''_'' @ show_int now)))))"

definition stored_collection :: "host \<Rightarrow> string \<Rightarrow> string \<Rightarrow> pyval list option call" where
  "stored_collection h step epoch =
     (if epoch = [] then ret None
      else andthen execution_text (\<lambda>x.
        andthen (cached h (\<lambda>_. get_loop_collection x step epoch)) (\<lambda>v. ret (as_list v))))"

definition batch_collection ::
  "host \<Rightarrow> step_decl \<Rightarrow> loop_decl \<Rightarrow> string \<Rightarrow> bool \<Rightarrow> pydict \<Rightarrow> pyval list option \<Rightarrow> pyval list option call" where
  "batch_collection h step l epoch reentered context stored =
     (case stored of
        Some xs \<Rightarrow> ret (Some xs)
      | None \<Rightarrow>
          if reentered then ret None
          else
            andthen (pure (case ld_in l of None \<Rightarrow> Inr []
                           | Some expr \<Rightarrow> render_collection (h_renderer h) expr context)) (\<lambda>xs.
            andthen (if xs = [] \<or> epoch = [] then ret VNone
                     else andthen execution_text (\<lambda>x.
                       cached h (\<lambda>_. save_loop_collection x (st_step step) epoch xs)))
              (\<lambda>_. ret (Some xs))))"

definition batch_arguments :: "pydict \<Rightarrow> pydict \<Rightarrow> pyval list option \<Rightarrow> pydict" where
  "batch_arguments input context xs =
     (let shared = AList.update ''__base_context'' (VDict context) input in
      case xs of
        None \<Rightarrow> shared
      | Some ys \<Rightarrow> set_keys [(''__loop_collection'', VList ys),
          (''__loop_collection_size'', VInt (int (length ys)))] shared)"

definition claim_batch :: "host \<Rightarrow> string \<Rightarrow> string \<Rightarrow> nat \<Rightarrow> int \<Rightarrow> int list call" where
  "claim_batch h step epoch n m =
     andthen execution_text (\<lambda>x.
     andthen (cached h (\<lambda>clk. claim_next_loop_indices clk x step (int n) m m (Some epoch)))
       (\<lambda>v. ret (case int_items (Some v) of Some is \<Rightarrow> is | None \<Rightarrow> [])))"

definition issue_collection_commands :: "host \<Rightarrow> step_decl \<Rightarrow> loop_decl \<Rightarrow> pydict \<Rightarrow> command list call" where
  "issue_collection_commands h step l input =
     andthen state_of (\<lambda>s.
     andthen (loop_epoch h (st_step step) input) (\<lambda>epoch.
     andthen (stored_collection h (st_step step) epoch) (\<lambda>stored.
     andthen (context_for (st_step step) ''loop_init'') (\<lambda>context.
     andthen (batch_collection h step l epoch (loop_reentered s (st_step step) input) context stored) (\<lambda>xs.
     andthen (pure (get_loop_max_in_flight (h_renderer h) step (Some context))) (\<lambda>m.
     andthen (claim_batch h (st_step step) epoch (case xs of None \<Rightarrow> 0 | Some ys \<Rightarrow> length ys) m) (\<lambda>claimed.
     (let shared = batch_arguments input context xs in
      if claimed \<noteq> [] then issue_claimed h step epoch shared claimed
      else issue_unclaimed h step epoch shared (nat m)))))))))"

definition issue_loop_commands :: "host \<Rightarrow> step_decl \<Rightarrow> pydict \<Rightarrow> command list call" where
  "issue_loop_commands h step input =
     (case st_loop step of
        None \<Rightarrow> andthen (create_command_for_step h step input) (\<lambda>c. ret (opt_list c))
      | Some l \<Rightarrow>
          if is_cursor l then issue_cursor_loop_commands h step input
          else issue_collection_commands h step l input)"

section \<open>Arcs\<close>

definition arc_matches :: "renderer \<Rightarrow> pydict \<Rightarrow> arc_decl \<Rightarrow> bool \<times> bool" where
  "arc_matches rd context a =
     (case arc_when a of
        None \<Rightarrow> (True, False)
      | Some w \<Rightarrow> if w = [] then (True, False) else evaluate_condition_with_status rd w context)"

text \<open>A command of the step is in flight; a loop step keeps track of its own epochs.\<close>

definition in_flight :: "exec_state \<Rightarrow> step_decl \<Rightarrow> bool" where
  "in_flight s step \<longleftrightarrow>
     st_step step \<in> set (es_issued_steps s) \<and> st_step step \<notin> set (es_completed_steps s) \<and> st_loop step = None"

definition arc_mutation :: "renderer \<Rightarrow> pydict \<Rightarrow> arc_decl \<Rightarrow> exec_state \<Rightarrow> exec_state" where
  "arc_mutation rd context a s =
     (case arc_set a of
        None \<Rightarrow> s
      | Some m \<Rightarrow>
          s\<lparr>es_variables := apply_set_mutations (es_variables s) (dict_or_empty (render_deep rd context (VDict m)))\<rparr>)"

definition mark_issued :: "string \<Rightarrow> exec_state \<Rightarrow> exec_state" where
  "mark_issued step s =
     s\<lparr>es_completed_steps := removeAll step (es_completed_steps s),
       es_issued_steps := List.insert step (es_issued_steps s)\<rparr>"

text \<open>Taking an arc: its mutations, the commands of its target, and the target marked as pending.\<close>

definition take_arc :: "host \<Rightarrow> pydict \<Rightarrow> arc_decl \<Rightarrow> step_decl \<Rightarrow> (string \<times> command) list call" where
  "take_arc h context a target =
     andthen (changing_state (arc_mutation (h_renderer h) context a)) (\<lambda>_.
     andthen (issue_loop_commands h target []) (\<lambda>cs.
     andthen (if cs = [] then ret () else changing_state (mark_issued (st_step target))) (\<lambda>_.
       ret (map (Pair (st_step target)) cs))))"

text \<open>The commands with their targets, whether an arc matched a known step, whether a condition raised.\<close>

record routing =
  ro_records :: "(string \<times> command) list"
  ro_matched :: bool
  ro_raised :: bool

definition no_route :: routing where
  "no_route = \<lparr>ro_records = [], ro_matched = False, ro_raised = False\<rparr>"

definition add_route :: "(string \<times> command) list \<Rightarrow> bool \<Rightarrow> bool \<Rightarrow> routing \<Rightarrow> routing" where
  "add_route rs matched raised r =
     \<lparr>ro_records = rs @ ro_records r, ro_matched = (matched \<or> ro_matched r), ro_raised = (raised \<or> ro_raised r)\<rparr>"

fun route_arcs :: "host \<Rightarrow> next_mode \<Rightarrow> pydict \<Rightarrow> arc_decl list \<Rightarrow> routing call" where
  "route_arcs h mode context [] = ret no_route"
| "route_arcs h mode context (a # as) =
     (case arc_matches (h_renderer h) context a of (matched, raised) \<Rightarrow>
        if arc_step a = [] then route_arcs h mode context as
        else if \<not> matched then
          andthen (route_arcs h mode context as) (\<lambda>r. ret (add_route [] False raised r))
        else
          andthen state_of (\<lambda>s.
          case get_step (es_playbook s) (arc_step a) of
            None \<Rightarrow> andthen (route_arcs h mode context as) (\<lambda>r. ret (add_route [] False raised r))
          | Some target \<Rightarrow>
              if in_flight s target then
                andthen (route_arcs h mode context as) (\<lambda>r. ret (add_route [] True raised r))
              else
                andthen (take_arc h context a target) (\<lambda>rs.
                if mode = Exclusive then ret (add_route rs True raised no_route)
                else andthen (route_arcs h mode context as) (\<lambda>r. ret (add_route rs True raised r)))))"

section \<open>Planner annotations\<close>

definition annotate :: "string \<Rightarrow> pydict \<Rightarrow> command \<Rightarrow> command" where
  "annotate k note c =
     c\<lparr>cm_metadata := AList.update k (VDict (set_keys note (dict_or_empty (py_get (cm_metadata c) k)))) (cm_metadata c)\<rparr>"

definition annotate_fanout :: "playbook \<Rightarrow> string \<Rightarrow> (string \<times> command) list \<Rightarrow> (string \<times> command) list" where
  "annotate_fanout pb source records =
     (let targets = rev (remdups (rev (map fst records))) in
      if length targets < 2 then records
      else
        (case find (\<lambda>f. pf_step f = source) (fp_fanouts (build_fanout_reduce_plan pb)) of
           None \<Rightarrow> records
         | Some f \<Rightarrow>
             map (\<lambda>(t, c). (t, annotate ''fanout_reduce''
               [(''planner_version'', VInt 1), (''fanout_step'', VStr source),
                (''fanout_targets'', VList (map VStr targets)), (''target_step'', VStr t),
                (''target_index'', VInt (int (length (takeWhile (\<lambda>u. u \<noteq> t) targets)))),
                (''reduce_steps'', VList (map VStr (pf_reduce_steps f)))] c)) records))"

definition annotate_reducers :: "playbook \<Rightarrow> string \<Rightarrow> (string \<times> command) list \<Rightarrow> (string \<times> command) list" where
  "annotate_reducers pb source records =
     map (\<lambda>(t, c).
       case find (\<lambda>r. pr_step r = t) (rev (fp_reduces (build_fanout_reduce_plan pb))) of
         None \<Rightarrow> (t, c)
       | Some r \<Rightarrow> (t, annotate ''planner_reducer''
           [(''planner_version'', VInt 1), (''reducer_step'', VStr (pr_step r)),
            (''upstream_steps'', VList (map VStr (pr_upstream r))), (''source_step'', VStr source)] c))
     records"

section \<open>Transitions\<close>

definition evaluate_next_transitions_with_status ::
  "host \<Rightarrow> step_decl \<Rightarrow> engine_event \<Rightarrow> (command list \<times> bool \<times> bool) call" where
  "evaluate_next_transitions_with_status h step ev =
     andthen state_of (\<lambda>s.
     andthen (pure (get_render_context ev s)) (\<lambda>context.
     case st_next step of
       None \<Rightarrow> ret ([], False, False)
     | Some _ \<Rightarrow>
         andthen (route_arcs h (get_next_mode step) context (get_next_arcs step)) (\<lambda>r.
         (let pb = es_playbook s;
              rs = (if get_next_mode step = Inclusive then annotate_fanout pb (st_step step) (ro_records r)
                    else ro_records r) in
          ret (map snd (annotate_reducers pb (st_step step) rs), ro_matched r, ro_raised r)))))"

definition evaluate_next_transitions :: "host \<Rightarrow> step_decl \<Rightarrow> engine_event \<Rightarrow> command list call" where
  "evaluate_next_transitions h step ev =
     andthen (evaluate_next_transitions_with_status h step ev) (\<lambda>(cs, matched, raised). ret cs)"

definition has_matching_next_transition :: "renderer \<Rightarrow> exec_state \<Rightarrow> step_decl \<Rightarrow> pydict \<Rightarrow> bool" where
  "has_matching_next_transition rd s step context =
     list_ex (\<lambda>a. arc_step a \<noteq> [] \<and> get_step (es_playbook s) (arc_step a) \<noteq> None
       \<and> fst (arc_matches rd context a)) (get_next_arcs step)"

end
