(* ===== verification/State_Frame.thy ===== *)
theory State_Frame
  imports Routing
begin

text \<open>
  What a call leaves alone. A relation between worlds that holds for every elementary change a
  command's creation makes holds for the whole call (\<open>state_frame\<close>), and so does a relation between
  states (\<open>state_relation\<close>). The relation that keeps the playbook and the issued steps and lets
  completions only be forgotten is such a relation, so issuing commands never marks a step as
  completed and never takes one back that was issued.
\<close>

section \<open>Frames\<close>

definition framed :: "(engine \<Rightarrow> engine \<Rightarrow> bool) \<Rightarrow> 'a call \<Rightarrow> bool" where
  "framed Q m \<longleftrightarrow> (\<forall>e. Q e (snd (m e)))"

text \<open>A relation between the states of two worlds.\<close>

definition on_states :: "(exec_state \<Rightarrow> exec_state \<Rightarrow> bool) \<Rightarrow> engine \<Rightarrow> engine \<Rightarrow> bool" where
  "on_states P e e' = P (en_state e) (en_state e')"

named_theorems frames

lemma framedD: "framed Q m \<Longrightarrow> m e = (r, e') \<Longrightarrow> Q e e'"
  unfolding framed_def by (metis snd_conv)

lemma framed_stateD: "framed (on_states P) m \<Longrightarrow> m e = (r, e') \<Longrightarrow> P (en_state e) (en_state e')"
  by (drule (1) framedD) (simp add: on_states_def)

lemma framed_cases:
  "framed Q m \<Longrightarrow> framed Q m' \<Longrightarrow> framed Q (if b then m else m')"
  "framed Q m \<Longrightarrow> (\<And>x. framed Q (f x)) \<Longrightarrow> framed Q (case v of None \<Rightarrow> m | Some x \<Rightarrow> f x)"
  "(\<And>x y. framed Q (g x y)) \<Longrightarrow> framed Q (case p of (x, y) \<Rightarrow> g x y)"
  "(\<And>x. framed Q (f1 x)) \<Longrightarrow> (\<And>y. framed Q (f2 y)) \<Longrightarrow> framed Q (case r of Inl x \<Rightarrow> f1 x | Inr y \<Rightarrow> f2 y)"
  "framed Q m \<Longrightarrow> (\<And>b. framed Q (f3 b)) \<Longrightarrow> framed Q (case en of Skipped \<Rightarrow> m | Entered b \<Rightarrow> f3 b)"
  by (auto split: option.split prod.split sum.split entered.split)

text \<open>The worlds a call that only reads, asks the cache or opens a stage may lead to.\<close>

locale read_frame =
  fixes Q :: "engine \<Rightarrow> engine \<Rightarrow> bool"
  assumes same: "Q e e"
    and trans: "Q e e1 \<Longrightarrow> Q e1 e2 \<Longrightarrow> Q e e2"
    and keeps_clock: "Q e (e\<lparr>en_ticks := t\<rparr>)"
    and keeps_cache: "Q e (e\<lparr>en_cache := c, en_ticks := t\<rparr>)"
    and keeps_ids: "Q e (e\<lparr>en_next_id := n\<rparr>)"
    and keeps_stage: "we_event_type r = ''stage.opened'' \<Longrightarrow>
      Q e (e\<lparr>en_stages := g, en_events := en_events e @ [r], en_mirrored := ms\<rparr>)"
begin

lemma framed_ret [frames]: "framed Q (ret x)"
  by (simp add: framed_def ret_def same)

lemma framed_raises [frames]: "framed Q (raises x)"
  by (simp add: framed_def raises_def same)

lemma framed_pure [frames]: "framed Q (pure r)"
  by (simp add: framed_def pure_def same)

lemma framed_reading [frames]: "framed Q (reading f)"
  by (simp add: framed_def reading_def same)

lemma framed_state_of [frames]: "framed Q state_of"
  by (simp add: state_of_def framed_reading)

lemma framed_clock [frames]: "framed Q (clock h)"
  by (simp add: framed_def clock_def keeps_clock)

lemma framed_cached [frames]: "framed Q (cached h p)"
  by (simp add: framed_def cached_def same keeps_cache split: sum.split prod.split)

lemma framed_andthen [frames]: "framed Q m \<Longrightarrow> (\<And>x. framed Q (f x)) \<Longrightarrow> framed Q (andthen m f)"
  by (auto simp: framed_def andthen_def split: prod.split sum.split) (metis same trans snd_conv)+

lemma framed_let [frames]: "(\<And>x. framed Q (f x)) \<Longrightarrow> framed Q (Let v f)"
  by (simp add: Let_def)

lemma framed_attempt [frames]: "framed Q m \<Longrightarrow> framed Q (attempt m)"
  by (auto simp: framed_def attempt_def split: prod.split sum.split) (metis snd_conv)+

lemma framed_changing: "(\<And>e. Q e (f e)) \<Longrightarrow> framed Q (changing f)"
  by (simp add: framed_def changing_def)

lemma framed_changing_state:
  "(\<And>e. Q e (e\<lparr>en_state := f (en_state e)\<rparr>)) \<Longrightarrow> framed Q (changing_state f)"
  by (simp add: framed_def changing_state_def changing_def)

lemma framed_on_state:
  "(\<And>e t. f (en_state e) = Inr t \<Longrightarrow> Q e (e\<lparr>en_state := t\<rparr>)) \<Longrightarrow> framed Q (on_state f)"
  by (auto simp: framed_def on_state_def same split: sum.split)

lemmas [frames] = framed_cases

section \<open>Calls that leave the state\<close>

lemma framed_context_for [frames]: "framed Q (context_for st n)"
  unfolding context_for_def by (intro frames)

lemma framed_loop_of [frames]: "framed Q (loop_of st)"
  unfolding loop_of_def by (intro frames)

lemma framed_execution_text [frames]: "framed Q execution_text"
  unfolding execution_text_def by (intro frames)

lemma framed_store_loop_state [frames]: "framed Q (store_loop_state h st k d)"
  unfolding store_loop_state_def by (intro frames)

lemma framed_fetch_loop_state [frames]: "framed Q (fetch_loop_state h st k)"
  unfolding fetch_loop_state_def by (intro frames)

lemma framed_open_stage [frames]: "framed Q (open_cursor_runtime_stage h step epoch p)"
  unfolding open_cursor_runtime_stage_def Let_def
  by (intro frames framed_changing keeps_ids keeps_stage) (simp add: stage_event_def Let_def)

end

text \<open>The worlds the creation of a command may lead to.\<close>

locale state_frame = read_frame +
  assumes keeps_failure: "Q e (e\<lparr>en_state := (en_state e)\<lparr>es_failed := b\<rparr>\<rparr>)"
    and keeps_loop: "Q e (e\<lparr>en_state := (en_state e)\<lparr>es_loop_state := ls\<rparr>\<rparr>)"
    and keeps_stalls: "Q e (e\<lparr>en_state := (en_state e)\<lparr>es_stall_counts := k\<rparr>\<rparr>)"
    and keeps_variables: "Q e (e\<lparr>en_state := (en_state e)\<lparr>es_variables := vs\<rparr>\<rparr>)"
    and keeps_forgetting: "Q e (e\<lparr>en_state := forget_completion st (en_state e)\<rparr>)"
    and keeps_stalled: "Q e (snd (persist_event h (stalled_event h s st now) e))"
begin

section \<open>Events and loops\<close>

lemma framed_persist_stalled [frames]: "framed Q (persist_event h (stalled_event h s st now))"
  by (simp add: framed_def keeps_stalled)

lemma keeps_init_loop:
  assumes "init_loop st xs it m i (en_state e) = Inr t" shows "Q e (e\<lparr>en_state := t\<rparr>)"
proof -
  from assms obtain s1 ls where s1: "judge_previous_run st (en_state e) = Inr s1" and t: "t = s1\<lparr>es_loop_state := ls\<rparr>"
    by (auto simp: init_loop_def rbind_Inr_iff)
  from s1 obtain k where k: "s1 = (en_state e)\<lparr>es_stall_counts := k\<rparr>"
  proof (cases "map_of (es_loop_state (en_state e)) st")
    case None
    with s1 have "s1 = (en_state e)\<lparr>es_stall_counts := es_stall_counts (en_state e)\<rparr>"
      by (simp add: judge_previous_run_def)
    then show ?thesis by (rule that)
  qed (auto simp: judge_previous_run_def rbind_Inr_iff)
  have "Q (e\<lparr>en_state := s1\<rparr>) (e\<lparr>en_state := t\<rparr>)"
    using keeps_loop [of "e\<lparr>en_state := s1\<rparr>" ls] by (simp add: t)
  with keeps_stalls [of e k] show ?thesis unfolding k by (rule trans)
qed

lemma framed_init_loop [frames]: "framed Q (on_state (init_loop st xs it m i))"
  by (rule framed_on_state) (rule keeps_init_loop)

lemma framed_with_loop [frames]: "framed Q (changing_state (with_loop st ls))"
  by (rule framed_changing_state) (simp add: with_loop_def keeps_loop)

lemma framed_drop_loop [frames]: "framed Q (changing_state (drop_loop st))"
  by (rule framed_changing_state) (simp add: drop_loop_def keeps_loop)

lemma framed_forget [frames]:
  "framed Q (changing_state (forget_completion st))"
  "framed Q (changing_state (\<lambda>s. forget_completion st (drop_loop st s)))"
proof -
  show "framed Q (changing_state (forget_completion st))"
    by (rule framed_changing_state, rule keeps_forgetting)
  show "framed Q (changing_state (\<lambda>s. forget_completion st (drop_loop st s)))"
  proof (rule framed_changing_state)
    fix e
    show "Q e (e\<lparr>en_state := forget_completion st (drop_loop st (en_state e))\<rparr>)"
    proof (rule trans)
      show "Q e (e\<lparr>en_state := drop_loop st (en_state e)\<rparr>)" unfolding drop_loop_def by (rule keeps_loop)
      show "Q (e\<lparr>en_state := drop_loop st (en_state e)\<rparr>) (e\<lparr>en_state := forget_completion st (drop_loop st (en_state e))\<rparr>)"
        using keeps_forgetting [of "e\<lparr>en_state := drop_loop st (en_state e)\<rparr>" st] by simp
    qed
  qed
qed

lemma framed_fail [frames]: "framed Q (changing_state (\<lambda>s. s\<lparr>es_failed := b\<rparr>))"
  by (rule framed_changing_state) (rule keeps_failure)

lemma framed_set_variables [frames]: "framed Q (changing_state (\<lambda>s. s\<lparr>es_variables := f s\<rparr>))"
  by (rule framed_changing_state) (rule keeps_variables)

section \<open>Command creation\<close>

lemma framed_set_loop [frames]: "framed Q (set_loop st ls)"
  unfolding set_loop_def by (intro frames)

lemma framed_set_loop_key [frames]: "framed Q (set_loop_key st k v)"
  unfolding set_loop_key_def by (intro frames)

lemma framed_begin_loop [frames]: "framed Q (begin_loop step l xs epoch)"
  unfolding begin_loop_def by (intro frames)

lemma framed_halt_if_stalled [frames]: "framed Q (halt_if_stalled h st)"
  unfolding halt_if_stalled_def by (intro frames)

lemma framed_enter_loop [frames]: "framed Q (enter_loop h step l d xs)"
  unfolding enter_loop_def by (intro frames)

lemma framed_first_stored [frames]: "framed Q (first_stored h st cs)"
  by (induction cs) (auto intro!: frames)

lemma framed_find_epoch [frames]: "framed Q (find_epoch h step d force)"
  unfolding find_epoch_def by (intro frames)

lemma framed_renew_epoch [frames]: "framed Q (renew_epoch h step l d xs ep)"
  unfolding renew_epoch_def by (intro frames)

lemma framed_repair_size [frames]: "framed Q (repair_size h step xs old n ep)"
  unfolding repair_size_def by (intro frames)

lemma framed_ensure_epoch [frames]: "framed Q (ensure_epoch h step l xs n ep)"
  unfolding ensure_epoch_def by (intro frames)

lemma framed_claim_index [frames]: "framed Q (claim_index h step xs m k)"
  unfolding claim_index_def by (intro frames)

lemma framed_first_claim [frames]: "framed Q (first_claim h step d xs m ep)"
  unfolding first_claim_def by (intro frames)

lemma framed_supervised [frames]:
  "framed Q (count_supervised_terminals h x st ev)"
  "framed Q (find_supervised_missing h x st ev n)"
  "framed Q (find_supervised_orphaned h x st ev n)"
  unfolding count_supervised_terminals_def find_supervised_missing_def find_supervised_orphaned_def
  by (intro frames)+

lemma framed_reconcile_to [frames]: "framed Q (reconcile_to h step xs m k hint now n cv)"
  unfolding reconcile_to_def by (intro frames)

lemma framed_persisted_terminals [frames]: "framed Q (persisted_terminals step k hint cv)"
  unfolding persisted_terminals_def by (intro frames)

lemma framed_missing_indexes [frames]: "framed Q (missing_indexes h step k now)"
  unfolding missing_indexes_def by (intro frames)

lemma framed_reconcile_counters [frames]: "framed Q (reconcile_counters h step xs m k hint cv)"
  unfolding reconcile_counters_def by (intro frames)

lemma framed_orphaned_indexes [frames]: "framed Q (orphaned_indexes h step k)"
  unfolding orphaned_indexes_def by (intro frames)

lemma framed_watchdog [frames]: "framed Q (watchdog h step m k hint cv)"
  unfolding watchdog_def by (intro frames)

lemma framed_recover_claim [frames]: "framed Q (recover_claim h step xs m n ep c)"
  unfolding recover_claim_def by (intro frames)

lemma framed_loop_item [frames]: "framed Q (loop_item h step k xs i)"
  unfolding loop_item_def by (intro frames)

lemma framed_take_iteration [frames]: "framed Q (take_iteration h step l k xs i)"
  unfolding take_iteration_def by (intro frames)

lemma framed_settle_claim [frames]: "framed Q (settle_claim h step l xs c ep k)"
  unfolding settle_claim_def release_slot_def by (intro frames)

lemma framed_claim_iteration [frames]: "framed Q (claim_iteration h step l d xs c ep)"
  unfolding claim_iteration_def by (intro frames)

lemma framed_dispatch_collection [frames]: "framed Q (dispatch_collection h step l d)"
  unfolding dispatch_collection_def by (intro frames) (auto intro!: frames split: pyval.split)

lemma framed_dispatch_iteration [frames]: "framed Q (dispatch_iteration h step l d)"
  unfolding dispatch_iteration_def by (intro frames)

lemma framed_command_context [frames]: "framed Q (command_context step d it)"
  unfolding command_context_def by (intro frames)

lemma framed_create_command [frames]: "framed Q (create_command_for_step h step args)"
  unfolding create_command_for_step_def Let_def by (intro frames)

section \<open>Issuing commands\<close>

lemma framed_issue_claimed [frames]: "framed Q (issue_claimed h step epoch shared is)"
  by (induction "is" arbitrary: shared) (auto intro!: frames)

lemma framed_issue_unclaimed [frames]: "framed Q (issue_unclaimed h step epoch shared n)"
  by (induction n arbitrary: shared) (auto intro!: frames)

lemma framed_cursor [frames]: "framed Q (issue_cursor_loop_commands h step input)"
  unfolding issue_cursor_loop_commands_def begin_cursor_run_def seed_cursor_loop_def by (intro frames)

lemma framed_batch [frames]:
  "framed Q (loop_epoch h st input)"
  "framed Q (stored_collection h st epoch)"
  "framed Q (batch_collection h step l epoch b c xs)"
  "framed Q (claim_batch h st epoch n m)"
  unfolding loop_epoch_def stored_collection_def batch_collection_def claim_batch_def by (intro frames)+

lemma framed_issue [frames]: "framed Q (issue_loop_commands h step input)"
  unfolding issue_loop_commands_def issue_collection_commands_def by (intro frames)

end

section \<open>Relations between states\<close>

locale state_relation =
  fixes P :: "exec_state \<Rightarrow> exec_state \<Rightarrow> bool"
  assumes reflexive: "P s s"
    and transitive: "P s t \<Longrightarrow> P t u \<Longrightarrow> P s u"
    and keeps_failed: "P s (s\<lparr>es_failed := b\<rparr>)"
    and keeps_loops: "P s (s\<lparr>es_loop_state := ls\<rparr>)"
    and keeps_stall_counts: "P s (s\<lparr>es_stall_counts := n\<rparr>)"
    and keeps_vars: "P s (s\<lparr>es_variables := vs\<rparr>)"
    and keeps_event_ids: "P s (s\<lparr>es_last_event_id := i, es_step_event_ids := ids\<rparr>)"
    and keeps_forgotten: "P s (forget_completion st s)"
begin

lemma keeps_note_event: "P s (note_event i ev s)"
proof -
  have "P s (s\<lparr>es_last_event_id := VInt i, es_step_event_ids := es_step_event_ids s\<rparr>)"
    by (rule keeps_event_ids)
  then have "P s (s\<lparr>es_last_event_id := VInt i\<rparr>)" by simp
  then show ?thesis using keeps_event_ids by (simp add: note_event_def Let_def split: option.split)
qed

lemma keeps_persisted: "P (en_state e) (en_state (snd (persist_event h ev e)))"
  by (simp add: persist_event_def changing_def Let_def reflexive keeps_note_event)

end

sublocale state_relation \<subseteq> state_frame "on_states P"
proof
  show "on_states P e e1 \<Longrightarrow> on_states P e1 e2 \<Longrightarrow> on_states P e e2" for e e1 e2
    unfolding on_states_def by (rule transitive)
qed (simp_all add: on_states_def reflexive keeps_failed keeps_loops keeps_stall_counts keeps_vars
    keeps_forgotten keeps_persisted)

text \<open>A relation that only reads may also be the identity.\<close>

interpretation unchanged: read_frame "on_states (=)"
  by unfold_locales (auto simp: on_states_def)

section \<open>The bookkeeping of steps\<close>

text \<open>Steps that are pending stay pending, in the same playbook.\<close>

definition pending_kept :: "exec_state \<Rightarrow> exec_state \<Rightarrow> bool" where
  "pending_kept s t \<longleftrightarrow>
     es_playbook t = es_playbook s \<and> set (es_issued_steps s) \<subseteq> set (es_issued_steps t)
     \<and> set (es_completed_steps t) \<subseteq> set (es_completed_steps s)"

interpretation pending: state_relation pending_kept
  by unfold_locales (auto simp: pending_kept_def forget_completion_def)

lemma in_flight_kept: "pending_kept s t \<Longrightarrow> in_flight s step \<Longrightarrow> in_flight t step"
  by (auto simp: pending_kept_def in_flight_def)

section \<open>What issuing commands writes\<close>

text \<open>
  The log grows by the events of stages that open and of loops that stall; the other tables and the
  identity of the execution, its issued steps and its completion stay.
\<close>

definition issuing_types :: "string list" where
  "issuing_types = [''stage.opened'', ''loop.stalled'']"

definition logs_only :: "string list \<Rightarrow> event_row list \<Rightarrow> event_row list \<Rightarrow> bool" where
  "logs_only types rows rows' \<longleftrightarrow>
     (\<exists>new. rows' = rows @ new \<and> list_all (\<lambda>r. we_event_type r \<in> set types) new)"

lemma logs_only_refl [simp]: "logs_only types rows rows"
  by (simp add: logs_only_def)

lemma logs_only_trans: "logs_only types a b \<Longrightarrow> logs_only types b c \<Longrightarrow> logs_only types a c"
  by (auto simp: logs_only_def)

lemma logs_only_snoc: "we_event_type r \<in> set types \<Longrightarrow> logs_only types rows (rows @ [r])"
  by (simp add: logs_only_def)

definition same_identity :: "exec_state \<Rightarrow> exec_state \<Rightarrow> bool" where
  "same_identity s t \<longleftrightarrow>
     es_execution_id t = es_execution_id s \<and> es_playbook t = es_playbook s \<and> es_catalog_id t = es_catalog_id s
     \<and> es_parent_execution_id t = es_parent_execution_id s"

lemma same_identity_refl [simp]: "same_identity s s"
  by (simp add: same_identity_def)

definition issuing :: "engine \<Rightarrow> engine \<Rightarrow> bool" where
  "issuing e e' \<longleftrightarrow>
     logs_only issuing_types (en_events e) (en_events e') \<and> en_executions e' = en_executions e
     \<and> en_commands e' = en_commands e \<and> en_buffer e' = en_buffer e \<and> en_catalog e' = en_catalog e
     \<and> same_identity (en_state e) (en_state e')
     \<and> es_completed (en_state e') = es_completed (en_state e)
     \<and> es_issued_steps (en_state e') = es_issued_steps (en_state e)"

lemma persist_event_fields:
  "en_executions (snd (persist_event h ev e)) = en_executions e"
  "en_commands (snd (persist_event h ev e)) = en_commands e"
  "en_buffer (snd (persist_event h ev e)) = en_buffer e"
  "en_catalog (snd (persist_event h ev e)) = en_catalog e"
  "same_identity (en_state e) (en_state (snd (persist_event h ev e)))"
  "es_completed (en_state (snd (persist_event h ev e))) = es_completed (en_state e)"
  "es_issued_steps (en_state (snd (persist_event h ev e))) = es_issued_steps (en_state e)"
  "es_completed_steps (en_state (snd (persist_event h ev e))) = es_completed_steps (en_state e)"
  by (simp_all add: persist_event_def changing_def Let_def note_event_def same_identity_def split: option.split)

lemma persist_event_logs: "logs_only [ev_name ev] (en_events e) (en_events (snd (persist_event h ev e)))"
  by (auto simp: persist_event_def changing_def Let_def event_row_of_def intro!: logs_only_snoc)

lemma logs_only_more: "logs_only ts a b \<Longrightarrow> set ts \<subseteq> set us \<Longrightarrow> logs_only us a b"
  by (auto simp: logs_only_def list_all_iff)

interpretation issuing: state_frame issuing
proof
  show "issuing e e1 \<Longrightarrow> issuing e1 e2 \<Longrightarrow> issuing e e2" for e e1 e2
    unfolding issuing_def by (auto simp: same_identity_def intro: logs_only_trans)
  show "issuing e (snd (persist_event h (stalled_event h s st now) e))" for e h s st now
    using persist_event_logs [of "stalled_event h s st now" e h]
    by (auto simp: issuing_def persist_event_fields issuing_types_def stalled_event_def synthetic_event_def
        intro: logs_only_more)
qed (auto simp: issuing_def forget_completion_def same_identity_def issuing_types_def intro: logs_only_snoc)

end
