(* ===== verification/Then_Actions.thy ===== *)
theory Then_Actions
  imports Routing
begin

text \<open>
  The actions of a \<open>then\<close> block (\<open>_process_then_actions\<close>, \<open>_process_immediate_actions\<close> and
  \<open>_process_deferred_next_actions\<close> of \<^verbatim>\<open>noetl/core/dsl/engine/executor/transitions.py\<close>): task
  sequences and inline tasks with the transitions they defer, \<open>next\<close>, \<open>set\<close>, \<open>fail\<close>, pagination with
  \<open>collect\<close> and \<open>retry\<close>, \<open>call\<close>, and the retry of a step. Actions run in order; what ran before an
  exception stays done.
\<close>

section \<open>Values and targets\<close>

definition maybe_render :: "renderer \<Rightarrow> pydict \<Rightarrow> pyval \<Rightarrow> pyval res" where
  "maybe_render rd context v =
     (case v of VStr t \<Rightarrow> if contains t ''{{'' then render_template rd t context else Inr v | _ \<Rightarrow> Inr v)"

definition render_entries :: "renderer \<Rightarrow> pydict \<Rightarrow> pydict \<Rightarrow> pydict res" where
  "render_entries rd context d =
     rmap (\<lambda>(k, v). rbind (maybe_render rd context v) (\<lambda>x. Inr (k, x))) d"

definition set_variable :: "string \<Rightarrow> pyval \<Rightarrow> exec_state \<Rightarrow> exec_state" where
  "set_variable k v s = s\<lparr>es_variables := AList.update k v (es_variables s)\<rparr>"

fun set_variables :: "host \<Rightarrow> pydict \<Rightarrow> pydict \<Rightarrow> unit call" where
  "set_variables h context [] = ret ()"
| "set_variables h context ((k, v) # kvs) =
     andthen (pure (maybe_render (h_renderer h) context v)) (\<lambda>x.
     andthen (changing_state (set_variable k x)) (\<lambda>_. set_variables h context kvs))"

definition run_set :: "host \<Rightarrow> pydict \<Rightarrow> pydict \<Rightarrow> unit call" where
  "run_set h context action = andthen (pure (need_dict (py_get action ''set''))) (set_variables h context)"

definition run_fail :: "unit call" where
  "run_fail = changing_state (\<lambda>s. s\<lparr>es_failed := True\<rparr>)"

text \<open>\<open>_process_immediate_actions\<close>.\<close>

definition process_immediate_actions :: "host \<Rightarrow> pydict \<Rightarrow> pydict \<Rightarrow> unit call" where
  "process_immediate_actions h context action =
     andthen (if has_key action ''set'' then run_set h context action else ret ()) (\<lambda>_.
       if has_key action ''fail'' then run_fail else ret ())"

fun immediate_all :: "host \<Rightarrow> pydict \<Rightarrow> pydict list \<Rightarrow> unit call" where
  "immediate_all h context [] = ret ()"
| "immediate_all h context (a # as) =
     andthen (process_immediate_actions h context a) (\<lambda>_. immediate_all h context as)"

definition next_items :: "pyval \<Rightarrow> pyval list" where
  "next_items v =
     (case v of
        VDict d \<Rightarrow>
          if has_key d ''next'' then (case py_get d ''next'' of VList xs \<Rightarrow> xs | x \<Rightarrow> [x]) else [v]
      | VList xs \<Rightarrow> xs
      | _ \<Rightarrow> [v])"

text \<open>The step an item names, with the mutations it asks for.\<close>

definition next_target :: "pyval \<Rightarrow> (pyval \<times> pyval) option" where
  "next_target item =
     (case item of
        VStr t \<Rightarrow> Some (VStr t, VNone)
      | VDict d \<Rightarrow> Some (py_get d ''step'', py_get d ''set'')
      | _ \<Rightarrow> None)"

definition step_named :: "playbook \<Rightarrow> pyval \<Rightarrow> step_decl option" where
  "step_named pb v = (case v of VStr t \<Rightarrow> get_step pb t | _ \<Rightarrow> None)"

definition mutate :: "host \<Rightarrow> pydict \<Rightarrow> pyval \<Rightarrow> unit call" where
  "mutate h context m =
     (if \<not> truthy m then ret ()
      else
        andthen (pure (need_dict m)) (\<lambda>d.
        andthen (pure (render_entries (h_renderer h) context d)) (\<lambda>d'.
          changing_state (\<lambda>s. s\<lparr>es_variables := apply_set_mutations (es_variables s) d'\<rparr>))))"

fun go_next :: "host \<Rightarrow> pydict \<Rightarrow> pyval list \<Rightarrow> command list call" where
  "go_next h context [] = ret []"
| "go_next h context (item # items) =
     (case next_target item of
        None \<Rightarrow> go_next h context items
      | Some (target, m) \<Rightarrow>
          andthen (mutate h context m) (\<lambda>_.
          andthen state_of (\<lambda>s.
          andthen (case step_named (es_playbook s) target of
                     None \<Rightarrow> ret [] | Some step \<Rightarrow> issue_loop_commands h step []) (\<lambda>cs.
          andthen (go_next h context items) (\<lambda>cs'. ret (cs @ cs'))))))"

section \<open>Pagination\<close>

definition paging_of :: "exec_state \<Rightarrow> string \<Rightarrow> pydict" where
  "paging_of s step = dict_or_empty (py_get (es_pagination_state s) step)"

definition set_paging :: "string \<Rightarrow> pydict \<Rightarrow> exec_state \<Rightarrow> exec_state" where
  "set_paging step d s = s\<lparr>es_pagination_state := AList.update step (VDict d) (es_pagination_state s)\<rparr>"

definition fresh_paging :: pydict where
  "fresh_paging =
     [(''collected_data'', VList []), (''iteration_count'', VInt 0), (''pending_retry'', VBool False)]"

definition max_pages :: "host \<Rightarrow> int" where
  "max_pages h = max 1 (h_max_pages h)"

fun path_value :: "pyval \<Rightarrow> string list \<Rightarrow> pyval" where
  "path_value v [] = v"
| "path_value (VDict d) (p # ps) = (if has_key d p then path_value (py_get d p) ps else VNone)"
| "path_value v (p # ps) = VNone"

text \<open>The data of a page; nothing when the path is not found.\<close>

definition page_data :: "pyval \<Rightarrow> pyval \<Rightarrow> pyval res" where
  "page_data path result =
     (case (truthy path, result) of
        (True, VDict d) \<Rightarrow>
          (case path of
             VStr p \<Rightarrow> Inr (path_value (VDict d) (split_on (CHR ''.'') p))
           | _ \<Rightarrow> Inl (TypeError ''path is not a string''))
      | _ \<Rightarrow> Inr result)"

definition collected :: "pyval \<Rightarrow> pyval \<Rightarrow> pyval \<Rightarrow> pyval" where
  "collected strategy data old =
     (if strategy = VStr ''append'' then (case old of VList xs \<Rightarrow> VList (xs @ [data]) | _ \<Rightarrow> old)
      else if strategy = VStr ''extend''
      then (case (old, data) of (VList xs, VList ys) \<Rightarrow> VList (xs @ ys) | _ \<Rightarrow> old)
      else if strategy = VStr ''replace'' then VList [data]
      else old)"

definition add_page :: "pyval \<Rightarrow> pyval \<Rightarrow> pydict \<Rightarrow> pydict res" where
  "add_page strategy data paging =
     rbind (need paging ''collected_data'') (\<lambda>old.
     rbind (rbind (need paging ''iteration_count'') py_num) (\<lambda>n.
       Inr (set_keys [(''collected_data'', collected strategy data old), (''iteration_count'', VInt (n + 1)),
         (''pending_retry'', VBool False)] paging)))"

definition run_collect :: "string \<Rightarrow> engine_event \<Rightarrow> pydict \<Rightarrow> unit call" where
  "run_collect step ev action =
     andthen (pure (need_dict (py_get action ''collect''))) (\<lambda>spec.
     andthen (changing_state (\<lambda>s. if has_key (es_pagination_state s) step then s
         else set_paging step fresh_paging s)) (\<lambda>_.
     (let result = py_get (dict_or_empty (ev_payload ev)) ''result'' in
      if result = VNone then ret ()
      else
        andthen (pure (page_data (py_get spec ''path'') result)) (\<lambda>data.
        if data = VNone then ret ()
        else
          on_state (\<lambda>s. rbind (add_page (py_get_default spec ''strategy'' (VStr ''append'')) data (paging_of s step))
            (\<lambda>d. Inr (set_paging step d s)))))))"

definition paging_fields :: "string list" where
  "paging_fields = [''params'', ''url'', ''method'', ''headers'', ''body'', ''data'']"

definition paging_retry_spec :: "pydict \<Rightarrow> pydict option" where
  "paging_retry_spec action =
     (case py_get action ''retry'' of
        VDict d \<Rightarrow> if list_ex (has_key d) paging_fields then Some d else None
      | _ \<Rightarrow> None)"

definition paging_arguments :: "renderer \<Rightarrow> pydict \<Rightarrow> pydict \<Rightarrow> pydict res" where
  "paging_arguments rd context spec =
     rbind (if has_key spec ''params'' then
              rbind (need_dict (py_get spec ''params'')) (\<lambda>d.
              rbind (render_entries rd context d) (\<lambda>d'. Inr [(''params'', VDict d')]))
            else Inr []) (\<lambda>params.
     rbind (render_entries rd context
         (map (\<lambda>k. (k, py_get spec k)) (filter (has_key spec) (tl paging_fields)))) (\<lambda>rest.
       Inr (params @ rest)))"

definition set_pending :: "string \<Rightarrow> bool \<Rightarrow> exec_state \<Rightarrow> exec_state" where
  "set_pending step b s = set_paging step (AList.update ''pending_retry'' (VBool b) (paging_of s step)) s"

text \<open>For a loop step the index is rewound, so that the same item is fetched again.\<close>

definition move_index :: "string \<Rightarrow> int \<Rightarrow> exec_state \<Rightarrow> exec_state res" where
  "move_index step k s =
     (case map_of (es_loop_state s) step of
        None \<Rightarrow> Inr s
      | Some ls \<Rightarrow>
          rbind (rbind (need ls ''index'') py_num) (\<lambda>i.
            Inr (with_loop step (AList.update ''index'' (VInt (i + k)) ls) s)))"

definition index_positive :: "string \<Rightarrow> exec_state \<Rightarrow> bool res" where
  "index_positive step s =
     (case map_of (es_loop_state s) step of
        None \<Rightarrow> Inr False
      | Some ls \<Rightarrow>
          if ls = [] then Inr False else rbind (rbind (need ls ''index'') py_num) (\<lambda>i. Inr (0 < i)))"

definition retry_controls :: "string \<Rightarrow> exec_state \<Rightarrow> pydict res" where
  "retry_controls step s =
     (case map_of (es_loop_state s) step of
        None \<Rightarrow> Inr []
      | Some ls \<Rightarrow>
          rbind (count_or_zero ls ''index'') (\<lambda>i.
            Inr [(''__loop_retry'', VBool True), (''__loop_retry_index'', VInt (max i 0))]))"

text \<open>The next page: its command, when one is created.\<close>

definition fetch_page :: "host \<Rightarrow> step_decl \<Rightarrow> string \<Rightarrow> pydict \<Rightarrow> command list call" where
  "fetch_page h step_def step args =
     andthen state_of (\<lambda>s.
     andthen (pure (index_positive step s)) (\<lambda>rewound.
     andthen (if rewound then on_state (move_index step (- 1)) else ret ()) (\<lambda>_.
     andthen state_of (\<lambda>s.
     andthen (pure (retry_controls step s)) (\<lambda>controls.
     andthen (create_command_for_step h step_def (set_keys controls args)) (\<lambda>c.
     case c of
       None \<Rightarrow> andthen (if rewound then on_state (move_index step 1) else ret ()) (\<lambda>_. ret [])
     | Some c \<Rightarrow> andthen (changing_state (set_pending step True)) (\<lambda>_. ret [c])))))))"

text \<open>\<open>None\<close> leaves the rest of the action undone.\<close>

definition run_paging_retry :: "host \<Rightarrow> pydict \<Rightarrow> string \<Rightarrow> pydict \<Rightarrow> command list option call" where
  "run_paging_retry h context step spec =
     andthen state_of (\<lambda>s.
     andthen (pure (py_num (py_get_default (paging_of s step) ''iteration_count'' (VInt 0)))) (\<lambda>n.
     if max_pages h \<le> n then andthen (changing_state (set_pending step False)) (\<lambda>_. ret None)
     else
       (case get_step (es_playbook s) step of
          None \<Rightarrow> ret None
        | Some step_def \<Rightarrow>
            andthen (pure (paging_arguments (h_renderer h) context spec)) (\<lambda>args.
            andthen (fetch_page h step_def step args) (\<lambda>cs. ret (Some cs))))))"

section \<open>Calls and retries\<close>

definition run_call :: "host \<Rightarrow> pydict \<Rightarrow> pydict \<Rightarrow> command list option call" where
  "run_call h context action =
     andthen (pure (need_dict (py_get action ''call''))) (\<lambda>spec.
     if \<not> truthy (py_get spec ''step'') then ret None
     else
       andthen (pure (need_dict (py_or (py_get spec ''input'') (VDict [])))) (\<lambda>input.
       andthen (pure (render_entries (h_renderer h) context input)) (\<lambda>args.
       andthen state_of (\<lambda>s.
       case step_named (es_playbook s) (py_get spec ''step'') of
         None \<Rightarrow> ret None
       | Some step_def \<Rightarrow>
           andthen (create_command_for_step h step_def args) (\<lambda>c. ret (Some (opt_list c)))))))"

definition current_attempt :: "engine_event \<Rightarrow> int" where
  "current_attempt ev = (if ev_attempt ev \<noteq> 0 then ev_attempt ev else 1)"

definition run_retry :: "host \<Rightarrow> string \<Rightarrow> engine_event \<Rightarrow> pydict \<Rightarrow> command list call" where
  "run_retry h step ev action =
     andthen (pure (need_dict (py_get action ''retry''))) (\<lambda>spec.
     (let limit = py_get_default spec ''max_attempts'' (VInt 3) in
      andthen (pure (py_num limit)) (\<lambda>m.
      if m \<le> current_attempt ev then ret []
      else
        andthen state_of (\<lambda>s.
        case get_step (es_playbook s) step of
          None \<Rightarrow> ret []
        | Some step_def \<Rightarrow>
            andthen (pure (need_dict (py_get_default spec ''input'' (VDict [])))) (\<lambda>args.
            andthen (create_command_for_step h step_def args) (\<lambda>c.
              ret (opt_list (map_option (\<lambda>c. c\<lparr>cm_attempt := current_attempt ev + 1, cm_max_attempts := limit,
                cm_retry_delay := py_get_default spec ''delay'' (VInt 0),
                cm_retry_backoff := py_get_default spec ''backoff'' (VStr ''linear'')\<rparr>) c))))))))"

section \<open>Actions\<close>

definition run_first :: "host \<Rightarrow> pydict \<Rightarrow> pydict \<Rightarrow> command list call" where
  "run_first h context action =
     (if has_key action ''next'' then go_next h context (next_items (py_get action ''next''))
      else if has_key action ''set'' then andthen (run_set h context action) (\<lambda>_. ret [])
      else if has_key action ''fail'' then andthen run_fail (\<lambda>_. ret [])
      else ret [])"

definition run_last :: "host \<Rightarrow> pydict \<Rightarrow> string \<Rightarrow> engine_event \<Rightarrow> bool \<Rightarrow> pydict \<Rightarrow> command list call" where
  "run_last h context step ev paged action =
     andthen (if has_key action ''call'' then run_call h context action else ret (Some [])) (\<lambda>called.
     case called of
       None \<Rightarrow> ret []
     | Some cs \<Rightarrow>
         if has_key action ''retry'' \<and> \<not> paged
         then andthen (run_retry h step ev action) (\<lambda>cs'. ret (cs @ cs')) else ret cs)"

definition run_action :: "host \<Rightarrow> pydict \<Rightarrow> string \<Rightarrow> engine_event \<Rightarrow> pydict \<Rightarrow> command list call" where
  "run_action h context step ev action =
     andthen (run_first h context action) (\<lambda>cs1.
     andthen (if has_key action ''collect'' then run_collect step ev action else ret ()) (\<lambda>_.
     case paging_retry_spec action of
       None \<Rightarrow> andthen (run_last h context step ev False action) (\<lambda>cs2. ret (cs1 @ cs2))
     | Some spec \<Rightarrow>
         andthen (run_paging_retry h context step spec) (\<lambda>paged.
         case paged of
           None \<Rightarrow> ret cs1
         | Some cs2 \<Rightarrow>
             andthen (run_last h context step ev True action) (\<lambda>cs3. ret (cs1 @ cs2 @ cs3)))))"

fun run_actions :: "host \<Rightarrow> pydict \<Rightarrow> string \<Rightarrow> engine_event \<Rightarrow> pydict list \<Rightarrow> command list call" where
  "run_actions h context step ev [] = ret []"
| "run_actions h context step ev (a # as) =
     andthen (run_action h context step ev a) (\<lambda>cs.
     andthen (run_actions h context step ev as) (\<lambda>cs'. ret (cs @ cs')))"

section \<open>Inline tasks\<close>

definition reserved_actions :: "string list" where
  "reserved_actions = [''next'', ''set'', ''fail'', ''collect'', ''retry'', ''call'']"

definition inline_specs :: "pydict \<Rightarrow> (string \<times> pydict) list" where
  "inline_specs action =
     List.map_filter (\<lambda>(k, v).
       case (k \<in> set reserved_actions, v) of
         (False, VDict t) \<Rightarrow>
           (case py_get t ''tool'' of VDict tool \<Rightarrow> if has_key tool ''kind'' then Some (k, tool) else None | _ \<Rightarrow> None)
       | _ \<Rightarrow> None) action"

definition inline_commands :: "renderer \<Rightarrow> exec_state \<Rightarrow> string \<Rightarrow> pydict \<Rightarrow> pydict list \<Rightarrow> command list" where
  "inline_commands rd s step context actions =
     List.map_filter (\<lambda>(k, tool). create_inline_command rd s step k tool context)
       (concat (map inline_specs actions))"

definition is_labelled_task :: "pydict \<Rightarrow> bool" where
  "is_labelled_task action =
     list_ex (\<lambda>(k, v). k \<notin> set reserved_actions \<and> has_key (dict_or_empty v) ''tool'') action"

text \<open>Each inline task of the block holds the transitions that wait for all of them.\<close>

definition defer_next :: "string \<Rightarrow> string list \<Rightarrow> pydict list \<Rightarrow> exec_state \<Rightarrow> exec_state" where
  "defer_next step tasks actions s =
     (let entry = VDict [(''next_actions'', VList (map VDict actions)),
            (''inline_tasks'', VList (map VStr (remdups tasks))), (''context_event_step'', VStr step)] in
      s\<lparr>es_pending_next_actions := set_keys (map (\<lambda>t. (t, entry)) tasks) (es_pending_next_actions s)\<rparr>)"

definition then_list :: "pyval \<Rightarrow> pyval list" where
  "then_list block = (case block of VList xs \<Rightarrow> xs | v \<Rightarrow> [v])"

definition event_step :: "engine_event \<Rightarrow> string" where
  "event_step ev = (case ev_step ev of Some st \<Rightarrow> st | None \<Rightarrow> [])"

definition process_task_sequence ::
  "host \<Rightarrow> pydict \<Rightarrow> string \<Rightarrow> pyval list \<Rightarrow> pydict list \<Rightarrow> command list call" where
  "process_task_sequence h context step blocks actions =
     andthen state_of (\<lambda>s.
     (case extract_task_sequence blocks of (tasks, rest) \<Rightarrow>
       andthen (immediate_all h context (filter (\<lambda>a. \<not> is_labelled_task a) actions)) (\<lambda>_.
         ret (opt_list (create_task_sequence_command s step (map dict_or_empty tasks) rest context)))))"

definition process_then_actions :: "host \<Rightarrow> pyval \<Rightarrow> engine_event \<Rightarrow> command list call" where
  "process_then_actions h block ev =
     (let blocks = then_list block; step = event_step ev;
          actions = List.map_filter as_dict blocks in
      andthen state_of (\<lambda>s.
      andthen (pure (get_render_context ev s)) (\<lambda>context.
      if is_task_sequence (VList blocks) then process_task_sequence h context step blocks actions
      else
        (let inline = inline_commands (h_renderer h) s step context actions;
             deferred = filter (\<lambda>a. has_key a ''next'') actions in
         if inline = [] then run_actions h context step ev actions
         else
           andthen (if deferred = [] then ret ()
                    else changing_state (defer_next step (map cm_step inline) deferred)) (\<lambda>_.
           andthen (immediate_all h context actions) (\<lambda>_. ret inline))))))"

definition process_then_actions_with_break ::
  "host \<Rightarrow> pyval \<Rightarrow> engine_event \<Rightarrow> (command list \<times> bool) call" where
  "process_then_actions_with_break h block ev =
     andthen (process_then_actions h block ev) (\<lambda>cs.
       ret (cs, list_ex (\<lambda>v. has_key (dict_or_empty v) ''next'') (then_list block)))"

section \<open>Deferred transitions\<close>

record deferred_next =
  de_tasks :: "string list"
  de_actions :: "pyval list"
  de_step :: string

definition deferred_of :: "exec_state \<Rightarrow> string \<Rightarrow> deferred_next option res" where
  "deferred_of s task =
     (case py_get (es_pending_next_actions s) task of
        VDict d \<Rightarrow>
          if d = [] then Inr None
          else
            rbind (rbind (need d ''inline_tasks'') need_set) (\<lambda>tasks.
            rbind (need d ''next_actions'') (\<lambda>actions.
            rbind (rbind (need d ''context_event_step'') need_str) (\<lambda>step.
              Inr (Some \<lparr>de_tasks = tasks, de_actions = (case as_list actions of Some xs \<Rightarrow> xs | None \<Rightarrow> []),
                de_step = step\<rparr>))))
      | _ \<Rightarrow> Inr None)"

definition deferred_items :: "deferred_next \<Rightarrow> pyval list" where
  "deferred_items d =
     concat (map (\<lambda>a. next_items (py_get a ''next''))
       (filter (\<lambda>a. has_key a ''next'') (List.map_filter as_dict (de_actions d))))"

definition clear_deferred :: "string list \<Rightarrow> exec_state \<Rightarrow> exec_state" where
  "clear_deferred tasks s =
     s\<lparr>es_pending_next_actions := filter (\<lambda>(k, v). k \<notin> set tasks) (es_pending_next_actions s)\<rparr>"

definition process_deferred_next_actions :: "host \<Rightarrow> string \<Rightarrow> engine_event \<Rightarrow> command list call" where
  "process_deferred_next_actions h task ev =
     andthen state_of (\<lambda>s.
     andthen (pure (deferred_of s task)) (\<lambda>d.
     case d of
       None \<Rightarrow> ret []
     | Some d \<Rightarrow>
         if \<not> list_all (\<lambda>t. t \<in> set (es_completed_steps s)) (de_tasks d) then ret []
         else
           andthen (pure (get_render_context
             (ev\<lparr>ev_step := Some (de_step d), ev_name := ''call.done''\<rparr>) s)) (\<lambda>context.
           andthen (go_next h context (deferred_items d)) (\<lambda>cs.
           andthen (changing_state (clear_deferred (de_tasks d))) (\<lambda>_. ret cs)))))"

end
