(* ===== verification/Routing_Theorems.thy ===== *)
theory Routing_Theorems
  imports State_Frame Then_Actions Engine_Commands_Theorems
begin

text \<open>
  What routing guarantees. A step that is in flight gets no second command and a step that got one
  is pending afterwards; an exclusive router takes the first arc that can be taken and no other;
  the flag for a match is the answer of \<open>_has_matching_next_transition\<close>; a cursor loop hands out one
  command for each slot of its loop state; deferred transitions wait for all inline tasks and fire
  once; the page limit ends a pagination whose pages are collected. The lemmas at the end show
  where the code does something else than its comments say.
\<close>

section \<open>What a call returns\<close>

definition yields :: "('a \<Rightarrow> bool) \<Rightarrow> 'a call \<Rightarrow> bool" where
  "yields P m \<longleftrightarrow> (\<forall>e x e'. m e = (Inr x, e') \<longrightarrow> P x)"

named_theorems yielding

lemma yieldsD: "yields P m \<Longrightarrow> m e = (Inr x, e') \<Longrightarrow> P x"
  by (auto simp: yields_def)

lemma yields_ret [yielding]: "P x \<Longrightarrow> yields P (ret x)"
  by (simp add: yields_def ret_def)

lemma yields_andthen [yielding]: "(\<And>x. yields P (f x)) \<Longrightarrow> yields P (andthen m f)"
  by (auto simp: yields_def elim!: andthen_InrE)

lemma yields_bind: "yields R m \<Longrightarrow> (\<And>x. R x \<Longrightarrow> yields P (f x)) \<Longrightarrow> yields P (andthen m f)"
  unfolding yields_def by (metis andthen_InrE)

lemma yields_if [yielding]: "yields P m \<Longrightarrow> yields P m' \<Longrightarrow> yields P (if b then m else m')"
  by simp

lemma yields_option [yielding]:
  "yields P m \<Longrightarrow> (\<And>x. v = Some x \<Longrightarrow> yields P (f x)) \<Longrightarrow> yields P (case v of None \<Rightarrow> m | Some x \<Rightarrow> f x)"
  by (cases v) auto

section \<open>The steps of commands\<close>

text \<open>A command of a step is named after it, or after its task sequence.\<close>

definition command_of :: "string \<Rightarrow> command \<Rightarrow> bool" where
  "command_of step c \<longleftrightarrow> cm_step c \<in> {step, step @ task_sequence_suffix}"

definition commands_of :: "string \<Rightarrow> command list \<Rightarrow> bool" where
  "commands_of step cs \<longleftrightarrow> (\<forall>c \<in> set cs. command_of step c)"

lemma commands_of_simps [simp]:
  "commands_of step []" "commands_of step (c # cs) \<longleftrightarrow> command_of step c \<and> commands_of step cs"
  by (auto simp: commands_of_def)

lemma step_command_of: "step_command rd s step args it cx = Some c \<Longrightarrow> command_of (st_step step) c"
  using step_command_parts by (fastforce simp: command_of_def)

lemma create_yields:
  "yields (\<lambda>v. case v of None \<Rightarrow> True | Some c \<Rightarrow> command_of (st_step step) c) (create_command_for_step h step args)"
  unfolding create_command_for_step_def Let_def
  by (intro yielding) (auto split: option.split simp: step_command_of)

lemma issue_claimed_yields: "yields (commands_of (st_step step)) (issue_claimed h step epoch shared is)"
proof (induction "is" arbitrary: shared)
  case (Cons i "is")
  then show ?case by (auto intro!: yields_bind [OF create_yields] yields_bind [OF Cons.IH] yields_ret split: option.splits)
qed (simp add: yields_ret)

lemma issue_unclaimed_yields: "yields (commands_of (st_step step)) (issue_unclaimed h step epoch shared n)"
proof (induction n arbitrary: shared)
  case (Suc n)
  then show ?case by (auto intro!: yields_bind [OF create_yields] yields_bind [OF Suc.IH] yields_ret split: option.splits)
qed (simp add: yields_ret)

lemma cursor_yields: "yields (commands_of (st_step step)) (issue_cursor_loop_commands h step input)"
  unfolding issue_cursor_loop_commands_def
  by (intro yielding) (auto simp: commands_of_def command_of_def slot_command_def base_command_def)

lemma issue_yields: "yields (commands_of (st_step step)) (issue_loop_commands h step input)"
  unfolding issue_loop_commands_def issue_collection_commands_def Let_def
  by (intro yielding cursor_yields issue_claimed_yields issue_unclaimed_yields yields_bind [OF create_yields])
    (auto simp: opt_list_def split: option.splits)

section \<open>Pending steps\<close>

lemma pending_arc_mutation [frames]: "framed (on_states pending_kept) (changing_state (arc_mutation rd context a))"
  by (rule pending.framed_changing_state)
    (simp add: on_states_def arc_mutation_def pending.keeps_vars pending.reflexive split: option.split)

lemma pending_mark_issued [frames]: "framed (on_states pending_kept) (changing_state (mark_issued step))"
  by (rule pending.framed_changing_state) (auto simp: on_states_def mark_issued_def pending_kept_def)

lemma pending_take_arc [frames]: "framed (on_states pending_kept) (take_arc h context a target)"
  unfolding take_arc_def by (intro frames)

lemma pending_route_arcs: "framed (on_states pending_kept) (route_arcs h mode context as)"
  by (induction as) (auto intro!: frames split: prod.split)

lemma take_arc_effect:
  assumes "take_arc h context a target e = (Inr rs, e')" and "(t, c) \<in> set rs"
  shows "t = st_step target \<and> command_of t c \<and> t \<in> set (es_issued_steps (en_state e'))
    \<and> t \<notin> set (es_completed_steps (en_state e'))"
proof -
  obtain cs e1 e2 u e3 where cs: "issue_loop_commands h target [] e1 = (Inr cs, e2)"
    and mark: "(if cs = [] then ret () else changing_state (mark_issued (st_step target))) e2 = (Inr u, e3)"
    and out: "ret (map (Pair (st_step target)) cs) e3 = (Inr rs, e')"
    using assms(1) unfolding take_arc_def by (elim andthen_InrE)
  have "rs = map (Pair (st_step target)) cs" "e' = e3"
    using out by (auto simp: ret_def)
  moreover from this have "cs \<noteq> []" "t = st_step target" "c \<in> set cs"
    using assms(2) by auto
  moreover from this have "e3 = e2\<lparr>en_state := mark_issued (st_step target) (en_state e2)\<rparr>"
    using mark by (simp add: changing_state_def changing_def)
  ultimately have "t = st_step target" "c \<in> set cs"
    "e' = e2\<lparr>en_state := mark_issued (st_step target) (en_state e2)\<rparr>" by auto
  then show ?thesis
    using yieldsD [OF issue_yields cs] by (auto simp: commands_of_def mark_issued_def)
qed

text \<open>What is known of a command an evaluation of arcs issued.\<close>

definition well_routed :: "engine \<Rightarrow> engine \<Rightarrow> string \<Rightarrow> command \<Rightarrow> bool" where
  "well_routed e e' t c \<longleftrightarrow>
     (\<exists>target. get_step (es_playbook (en_state e)) t = Some target \<and> \<not> in_flight (en_state e) target)
     \<and> command_of t c \<and> t \<in> set (es_issued_steps (en_state e')) \<and> t \<notin> set (es_completed_steps (en_state e'))"

lemma well_routed_later:
  "well_routed e e1 t c \<Longrightarrow> pending_kept (en_state e1) (en_state e') \<Longrightarrow> well_routed e e' t c"
  by (auto simp: well_routed_def pending_kept_def)

lemma well_routed_earlier:
  "well_routed e1 e' t c \<Longrightarrow> pending_kept (en_state e) (en_state e1) \<Longrightarrow> well_routed e e' t c"
  using in_flight_kept by (auto simp: well_routed_def pending_kept_def)

lemma add_route_records [simp]: "ro_records (add_route rs m r ro) = rs @ ro_records ro"
  by (simp add: add_route_def)

lemma no_route_records [simp]: "ro_records no_route = []"
  by (simp add: no_route_def)

lemma andthen_ret_Inr:
  "andthen m (\<lambda>x. ret (f x)) e = (Inr y, e') \<longleftrightarrow> (\<exists>x. m e = (Inr x, e') \<and> y = f x)"
  by (auto simp: andthen_def ret_def split: prod.splits sum.splits)

lemma andthen_state_of: "andthen state_of f e = f (en_state e) e"
  by (simp add: andthen_def state_of_def reading_def)

lemma andthen_value: "m e = (Inr x, e1) \<Longrightarrow> andthen m f e = f x e1"
  by (simp add: andthen_def)

lemma andthen_value_ret:
  "m e = andthen m' (\<lambda>x. ret (g x)) e \<Longrightarrow> andthen m (\<lambda>r. ret (f r)) e = andthen m' (\<lambda>x. ret (f (g x))) e"
  by (simp add: andthen_def ret_def split: prod.split sum.split)

lemma route_arcs_well_routed:
  "route_arcs h mode context as e = (Inr r, e') \<Longrightarrow> (t, c) \<in> set (ro_records r)
     \<Longrightarrow> well_routed e e' t c \<and> t \<in> arc_step ` set as"
proof (induction as arbitrary: e r)
  case Nil
  then show ?case by (simp add: ret_def)
next
  case (Cons a as)
  obtain matched raised where am: "arc_matches (h_renderer h) context a = (matched, raised)"
    by fastforce
  have rest: ?case if "route_arcs h mode context as e = (Inr r0, e')" "ro_records r = ro_records r0" for r0
    using Cons.IH [OF that(1)] Cons.prems(2) that(2) by auto
  show ?case
  proof (cases "arc_step a \<noteq> [] \<and> matched
      \<and> (\<exists>target. get_step (es_playbook (en_state e)) (arc_step a) = Some target \<and> \<not> in_flight (en_state e) target)")
    case False
    then show ?thesis
      using Cons.prems(1) rest
      by (auto simp: am andthen_state_of andthen_ret_Inr split: if_splits option.splits)
  next
    case True
    then obtain target where target: "get_step (es_playbook (en_state e)) (arc_step a) = Some target"
      and free: "\<not> in_flight (en_state e) target" by blast
    have name: "st_step target = arc_step a" using get_step_name [OF target] by simp
    from Cons.prems(1) True target free
    obtain rs e1 where rs: "take_arc h context a target e = (Inr rs, e1)"
      and more: "(if mode = Exclusive then ret (add_route rs True raised no_route)
        else andthen (route_arcs h mode context as) (\<lambda>r. ret (add_route rs True raised r))) e1 = (Inr r, e')"
      by (auto simp: am andthen_state_of elim!: andthen_InrE)
    have kept: "pending_kept (en_state e) (en_state e1)"
      using pending_take_arc rs by (rule framed_stateD)
    have first: "well_routed e e1 t c \<and> t = arc_step a" if "(t, c) \<in> set rs"
      using take_arc_effect [OF rs that] target free name by (auto simp: well_routed_def)
    show ?thesis
    proof (cases "mode = Exclusive")
      case True
      then show ?thesis using more first Cons.prems(2) by (auto simp: ret_def)
    next
      case False
      then obtain r0 where r0: "route_arcs h mode context as e1 = (Inr r0, e')" "r = add_route rs True raised r0"
        using more by (auto simp: andthen_ret_Inr)
      have "pending_kept (en_state e1) (en_state e')"
        using pending_route_arcs r0(1) by (rule framed_stateD)
      then show ?thesis
        using Cons.IH [OF r0(1)] first kept r0(2) Cons.prems(2)
        by (auto intro: well_routed_later well_routed_earlier)
    qed
  qed
qed

lemma annotate_step [simp]: "cm_step (annotate k note c) = cm_step c"
  by (simp add: annotate_def)

lemma annotated_records:
  "(t, c) \<in> set (annotate_fanout pb st rs) \<Longrightarrow> \<exists>c'. (t, c') \<in> set rs \<and> cm_step c' = cm_step c"
  "(t, c) \<in> set (annotate_reducers pb st rs) \<Longrightarrow> \<exists>c'. (t, c') \<in> set rs \<and> cm_step c' = cm_step c"
  by (auto simp: annotate_fanout_def annotate_reducers_def Let_def split: if_splits option.splits)

lemma well_routed_step: "well_routed e e' t c' \<Longrightarrow> cm_step c' = cm_step c \<Longrightarrow> well_routed e e' t c"
  by (simp add: well_routed_def command_of_def)


section \<open>Which arcs are taken\<close>

definition known_match :: "renderer \<Rightarrow> exec_state \<Rightarrow> pydict \<Rightarrow> arc_decl \<Rightarrow> bool" where
  "known_match rd s context a \<longleftrightarrow>
     arc_step a \<noteq> [] \<and> fst (arc_matches rd context a) \<and> get_step (es_playbook s) (arc_step a) \<noteq> None"

definition eligible :: "renderer \<Rightarrow> exec_state \<Rightarrow> pydict \<Rightarrow> arc_decl \<Rightarrow> bool" where
  "eligible rd s context a \<longleftrightarrow>
     known_match rd s context a \<and> \<not> in_flight s (the (get_step (es_playbook s) (arc_step a)))"

text \<open>
  An exclusive router takes the first arc that matches, names a known step and is not in flight:
  its mutations, its commands, and nothing of any other arc. When there is none, nothing changes.
\<close>
lemma exclusive_routes_first_eligible:
  "\<exists>matched raised.
     route_arcs h Exclusive context as e =
       (case find (eligible (h_renderer h) (en_state e) context) as of
          None \<Rightarrow> (Inr \<lparr>ro_records = [], ro_matched = matched, ro_raised = raised\<rparr>, e)
        | Some a \<Rightarrow>
            andthen (take_arc h context a (the (get_step (es_playbook (en_state e)) (arc_step a))))
              (\<lambda>rs. ret \<lparr>ro_records = rs, ro_matched = True, ro_raised = raised\<rparr>) e)"
proof (induction as)
  case Nil
  then show ?case by (intro exI [of _ False]) (simp add: no_route_def ret_def)
next
  case (Cons a as)
  obtain matched raised where am: "arc_matches (h_renderer h) context a = (matched, raised)"
    by fastforce
  have skip: ?case if "\<not> eligible (h_renderer h) (en_state e) context a"
    "route_arcs h Exclusive context (a # as) e =
       andthen (route_arcs h Exclusive context as) (\<lambda>r. ret (add_route [] m b r)) e" for m b
  proof -
    from Cons.IH obtain m0 r0 where "route_arcs h Exclusive context as e =
       (case find (eligible (h_renderer h) (en_state e) context) as of
          None \<Rightarrow> (Inr \<lparr>ro_records = [], ro_matched = m0, ro_raised = r0\<rparr>, e)
        | Some a \<Rightarrow> andthen (take_arc h context a (the (get_step (es_playbook (en_state e)) (arc_step a))))
              (\<lambda>rs. ret \<lparr>ro_records = rs, ro_matched = True, ro_raised = r0\<rparr>) e)" by blast
    then have "route_arcs h Exclusive context (a # as) e =
       (case find (eligible (h_renderer h) (en_state e) context) as of
          None \<Rightarrow> (Inr \<lparr>ro_records = [], ro_matched = m \<or> m0, ro_raised = b \<or> r0\<rparr>, e)
        | Some a \<Rightarrow> andthen (take_arc h context a (the (get_step (es_playbook (en_state e)) (arc_step a))))
              (\<lambda>rs. ret \<lparr>ro_records = rs, ro_matched = True, ro_raised = b \<or> r0\<rparr>) e)"
      unfolding that(2)
      by (cases "find (eligible (h_renderer h) (en_state e) context) as")
        (simp add: andthen_value ret_def add_route_def, simp add: andthen_value_ret add_route_def)
    then show ?thesis using that(1) unfolding find.simps by (simp only: if_False) blast
  qed
  show ?case
  proof (cases "eligible (h_renderer h) (en_state e) context a")
    case True
    then show ?thesis
      by (intro exI [of _ True] exI [of _ raised])
        (auto simp: am eligible_def known_match_def andthen_state_of add_route_def no_route_def)
  next
    case False
    show ?thesis
    proof (cases "arc_step a = []")
      case True
      then show ?thesis using Cons.IH False by (simp add: am)
    next
      case named: False
      show ?thesis
      proof (cases "known_match (h_renderer h) (en_state e) context a")
        case True
        then show ?thesis
          using False by (intro skip [of True raised])
            (auto simp: am eligible_def known_match_def andthen_state_of)
      next
        case unknown: False
        then show ?thesis
          using named False by (intro skip [of False raised])
            (auto simp: am eligible_def known_match_def andthen_state_of split: option.split)
      qed
    qed
  qed
qed

lemma route_arcs_matched:
  "route_arcs h mode context as e = (Inr r, e')
     \<Longrightarrow> ro_matched r \<longleftrightarrow> list_ex (known_match (h_renderer h) (en_state e) context) as"
proof (induction as arbitrary: e r)
  case Nil
  then show ?case by (auto simp: ret_def no_route_def)
next
  case (Cons a as)
  obtain matched raised where am: "arc_matches (h_renderer h) context a = (matched, raised)"
    by fastforce
  have skip: ?case if "\<not> known_match (h_renderer h) (en_state e) context a"
    "andthen (route_arcs h mode context as) (\<lambda>r. ret (add_route [] False b r)) e = (Inr r, e')
      \<or> route_arcs h mode context as e = (Inr r, e')" for b
    using that Cons.IH by (auto simp: andthen_ret_Inr add_route_def)
  show ?case
  proof (cases "known_match (h_renderer h) (en_state e) context a")
    case False
    then show ?thesis
      using Cons.prems by (intro skip [of raised])
        (auto simp: am known_match_def andthen_state_of split: if_splits option.splits)
  next
    case True
    then have "ro_matched r"
      using Cons.prems
      by (auto simp: am known_match_def andthen_state_of andthen_ret_Inr add_route_def ret_def
          elim!: andthen_InrE split: if_splits)
    then show ?thesis using True by simp
  qed
qed

text \<open>
  The flag for a match is the answer of \<open>_has_matching_next_transition\<close> in the context of the
  event: a dead end is reported by both or by neither, whatever was in flight.
\<close>
lemma matched_is_has_matching:
  assumes "get_render_context ev (en_state e) = Inr context"
    and "evaluate_next_transitions_with_status h step ev e = (Inr (cs, matched, raised), e')"
  shows "matched \<longleftrightarrow> has_matching_next_transition (h_renderer h) (en_state e) step context"
proof (cases "st_next step")
  case None
  then show ?thesis using assms
    by (auto simp: evaluate_next_transitions_with_status_def andthen_state_of ret_def
        has_matching_next_transition_def get_next_arcs_def)
next
  case (Some nr)
  have "andthen (route_arcs h (get_next_mode step) context (get_next_arcs step)) (\<lambda>r. ret
      (map snd (annotate_reducers (es_playbook (en_state e)) (st_step step)
        (if get_next_mode step = Inclusive then annotate_fanout (es_playbook (en_state e)) (st_step step) (ro_records r)
         else ro_records r)), ro_matched r, ro_raised r)) e = (Inr (cs, matched, raised), e')"
    using assms Some by (simp add: evaluate_next_transitions_with_status_def andthen_state_of Let_def)
  then obtain r where r: "route_arcs h (get_next_mode step) context (get_next_arcs step) e = (Inr r, e')"
    and "matched = ro_matched r"
    by (auto simp: andthen_ret_Inr)
  then show ?thesis
    using route_arcs_matched [OF r] by (auto simp: has_matching_next_transition_def known_match_def list_ex_iff)
qed

section \<open>Deferred transitions\<close>


section \<open>Slots of a cursor\<close>

lemma unchanged_result: "framed (on_states (=)) m \<Longrightarrow> m e = (Inr x, e') \<Longrightarrow> en_state e' = en_state e"
  using framed_stateD by fastforce

lemma seed_cursor_loop_effect:
  assumes "seed_cursor_loop h step l n epoch e = (Inr u, e')" and "1 \<le> n"
  shows "map_of (es_loop_state (en_state e')) (st_step step)
      = Some (fresh_loop_state n (ld_iterator l) ''cursor'' (VStr epoch))
    \<and> st_step step \<notin> set (es_completed_steps (en_state e'))"
proof -
  define s where "s = forget_completion (st_step step) (drop_loop (st_step step) (en_state e))"
  have n: "int (length (range_list n)) = n"
    using assms(2) by (simp add: range_list_def)
  have "judge_previous_run (st_step step) s = Inr s"
    by (simp add: judge_previous_run_def s_def forget_completion_def drop_loop_def delete_conv')
  then have "init_loop (st_step step) (range_list n) (ld_iterator l) ''cursor'' (VStr epoch) s
      = Inr (s\<lparr>es_loop_state := AList.update (st_step step)
          (fresh_loop_state n (ld_iterator l) ''cursor'' (VStr epoch)) (es_loop_state s)\<rparr>)"
    by (simp add: init_loop_def n)
  then have "store_loop_state h (st_step step) epoch (cursor_epoch_state l n epoch)
     (e\<lparr>en_state := s\<lparr>es_loop_state := AList.update (st_step step)
          (fresh_loop_state n (ld_iterator l) ''cursor'' (VStr epoch)) (es_loop_state s)\<rparr>\<rparr>) = (Inr u, e')"
    using assms(1)
    by (simp add: seed_cursor_loop_def andthen_def changing_state_def changing_def on_state_def s_def [symmetric])
  from unchanged_result [OF unchanged.framed_store_loop_state this] show ?thesis
    by (simp add: update_conv' s_def forget_completion_def drop_loop_def)
qed

lemma begin_cursor_run_effect:
  assumes "begin_cursor_run h step l e = (Inr r, e')"
  shows "map_of (es_loop_state (en_state e')) (st_step step)
      = Some (fresh_loop_state (cr_workers r) (ld_iterator l) ''cursor'' (VStr (cr_epoch r)))
    \<and> 1 \<le> cr_workers r \<and> st_step step \<notin> set (es_completed_steps (en_state e'))"
proof -
  obtain cx e1 n e2 epoch e3 u e4 stage e5 rows e6 where
    n: "pure (get_loop_max_in_flight (h_renderer h) step (Some cx)) e1 = (Inr n, e2)"
    and seed: "seed_cursor_loop h step l n epoch e3 = (Inr u, e4)"
    and stage: "open_cursor_runtime_stage h step epoch (frame_policy l) e4 = (Inr stage, e5)"
    and rows: "pure (max_frame_rows (frame_policy l)) e5 = (Inr rows, e6)"
    and out: "ret \<lparr>cr_epoch = epoch, cr_workers = n, cr_stage = stage, cr_policy = frame_policy l,
             cr_context = set_keys [(''__frame_max_rows'', VInt rows), (''__frame_policy'', VDict (frame_policy l))]
               cx\<rparr> e6 = (Inr r, e')"
    using assms unfolding begin_cursor_run_def Let_def
    by (elim andthen_InrE) (rule that, assumption+)
  have "1 \<le> n" using n max_in_flight_positive by (auto dest: pure_Inr)
  moreover have "en_state e' = en_state e4"
    using unchanged_result [OF unchanged.framed_open_stage stage] rows out by (auto simp: ret_def pure_def)
  moreover have "cr_workers r = n" "cr_epoch r = epoch" using out by (auto simp: ret_def)
  ultimately show ?thesis using seed_cursor_loop_effect [OF seed] by simp
qed

text \<open>
  A cursor loop is dispatched once, one command for each slot: the slots are numbered from zero
  to the size the loop's local state counts to, there is at least one, all belong to the epoch of
  that state, and the step no longer counts as completed.
\<close>
lemma cursor_slots_match_loop:
  assumes "st_loop step = Some l" and "ld_cursor l = Some c" and "st_tool step = Some tool"
    and "\<not> loop_reentered (en_state e) (st_step step) input"
    and "issue_cursor_loop_commands h step input e = (Inr cs, e')"
  shows "\<exists>n epoch. 1 \<le> n \<and> length cs = nat n
    \<and> map (\<lambda>c. py_get (cm_metadata c) ''loop_iteration_index'') cs = map VInt [0..n - 1]
    \<and> (\<forall>c \<in> set cs. py_get (cm_metadata c) ''loop_event_id'' = VStr epoch)
    \<and> map_of (es_loop_state (en_state e')) (st_step step)
        = Some (fresh_loop_state n (ld_iterator l) ''cursor'' (VStr epoch))
    \<and> st_step step \<notin> set (es_completed_steps (en_state e'))"
proof -
  have "andthen (begin_cursor_run h step l) (\<lambda>r. andthen state_of (\<lambda>s. ret
      (map (slot_command (h_renderer h) s step l c tool input r) [0..cr_workers r - 1]))) e = (Inr cs, e')"
    using assms by (simp add: issue_cursor_loop_commands_def andthen_state_of)
  then obtain r e1 where r: "begin_cursor_run h step l e = (Inr r, e1)"
    and "andthen state_of (\<lambda>s. ret
      (map (slot_command (h_renderer h) s step l c tool input r) [0..cr_workers r - 1])) e1 = (Inr cs, e')"
    by (rule andthen_InrE)
  then have cs: "cs = map (slot_command (h_renderer h) (en_state e1) step l c tool input r) [0..cr_workers r - 1]"
    and "e' = e1"
    by (auto simp: andthen_state_of ret_def)
  have "py_get (cm_metadata (slot_command rd s step l c tool input r i)) ''loop_iteration_index'' = VInt i"
    "py_get (cm_metadata (slot_command rd s step l c tool input r i)) ''loop_event_id'' = VStr (cr_epoch r)" for rd s i
    by (simp_all add: slot_command_def slot_metadata_def py_get_def)
  then have "map (\<lambda>c. py_get (cm_metadata c) ''loop_iteration_index'') cs = map VInt [0..cr_workers r - 1]"
    "\<forall>c \<in> set cs. py_get (cm_metadata c) ''loop_event_id'' = VStr (cr_epoch r)"
    by (simp_all add: cs comp_def)
  moreover have "length cs = nat (cr_workers r)" by (simp add: cs)
  ultimately show ?thesis
    using begin_cursor_run_effect [OF r] \<open>e' = e1\<close>
    by (intro exI [of _ "cr_workers r"] exI [of _ "cr_epoch r"]) simp
qed

section \<open>Pagination\<close>

text \<open>The pages counted for a step, and the relation of keeping that count.\<close>

definition page_count :: "string \<Rightarrow> exec_state \<Rightarrow> int" where
  "page_count step s =
     (case py_num (py_get_default (paging_of s step) ''iteration_count'' (VInt 0)) of Inr n \<Rightarrow> n | Inl _ \<Rightarrow> 0)"

definition same_count :: "string \<Rightarrow> exec_state \<Rightarrow> exec_state \<Rightarrow> bool" where
  "same_count step s t \<longleftrightarrow> page_count step t = page_count step s"

interpretation counts: state_relation "same_count step" for step
  by unfold_locales (simp_all add: same_count_def page_count_def paging_of_def forget_completion_def)

lemma paging_of_set [simp]: "paging_of (set_paging step d s) step = d"
  by (simp add: paging_of_def set_paging_def py_get_def update_conv' dict_or_empty_def)

lemma get_default_set_keys:
  "py_get_default (set_keys up d) k z = (case map_of (rev up) k of None \<Rightarrow> py_get_default d k z | Some v \<Rightarrow> v)"
  by (auto simp: set_keys_def py_get_default_def map_of_merge map_add_def split: option.split)

lemma page_count_set: "page_count step (set_paging step d s)
    = (case py_num (py_get_default d ''iteration_count'' (VInt 0)) of Inr n \<Rightarrow> n | Inl _ \<Rightarrow> 0)"
  by (simp add: page_count_def)

lemma page_count_pending [simp]: "page_count step (set_pending step b s) = page_count step s"
  by (simp add: set_pending_def page_count_set py_get_default_def update_conv') (simp add: page_count_def py_get_default_def)

lemma framed_set_pending [frames]: "framed (on_states (same_count step)) (changing_state (set_pending step b))"
  by (rule counts.framed_changing_state) (simp add: on_states_def same_count_def)

lemma framed_move_index [frames]: "framed (on_states (same_count step)) (on_state (move_index step k))"
  by (rule counts.framed_on_state)
    (auto simp: on_states_def move_index_def same_count_def page_count_def paging_of_def with_loop_def rbind_Inr_iff split: option.splits)

lemma fetch_page_count: "framed (on_states (same_count step)) (fetch_page h step_def step args)"
  unfolding fetch_page_def by (intro frames)

lemma fetch_page_one: "yields (\<lambda>cs. length cs \<le> 1) (fetch_page h step_def step args)"
  unfolding fetch_page_def by (intro yielding) simp_all

lemma run_paging_retry_effect:
  assumes "run_paging_retry h context step spec e = (Inr p, e')"
  shows "page_count step (en_state e') = page_count step (en_state e)
    \<and> (case p of None \<Rightarrow> True | Some cs \<Rightarrow> length cs \<le> 1 \<and> (cs \<noteq> [] \<longrightarrow> page_count step (en_state e) < max_pages h))"
proof -
  have "framed (on_states (same_count step)) (run_paging_retry h context step spec)"
    unfolding run_paging_retry_def by (intro frames fetch_page_count)
  then have "page_count step (en_state e') = page_count step (en_state e)"
    using assms framed_stateD by (fastforce simp: same_count_def)
  moreover have "case p of None \<Rightarrow> True | Some cs \<Rightarrow> length cs \<le> 1"
  proof -
    have "yields (\<lambda>p. case p of None \<Rightarrow> True | Some cs \<Rightarrow> length cs \<le> 1) (run_paging_retry h context step spec)"
      unfolding run_paging_retry_def
      by (intro yielding yields_bind [OF fetch_page_one]) simp_all
    from yieldsD [OF this assms] show ?thesis .
  qed
  moreover have "p = None" if full: "max_pages h \<le> page_count step (en_state e)"
  proof -
    obtain n where n: "py_num (py_get_default (paging_of (en_state e) step) ''iteration_count'' (VInt 0)) = Inr n"
      using assms by (auto simp: run_paging_retry_def andthen_state_of elim!: andthen_InrE dest!: pure_Inr)
    then have "max_pages h \<le> n" using full by (simp add: page_count_def)
    then show ?thesis
      using assms n by (auto simp: run_paging_retry_def andthen_state_of elim!: andthen_InrE simp: ret_def)
  qed
  ultimately show ?thesis by (cases p) (auto simp: not_le [symmetric])
qed

text \<open>The block of a paginating step, and the pages it can collect.\<close>

definition paging_block :: "pydict \<Rightarrow> pydict \<Rightarrow> pydict" where
  "paging_block collect retry = [(''collect'', VDict collect), (''retry'', VDict retry)]"

definition page_found :: "pydict \<Rightarrow> engine_event \<Rightarrow> bool" where
  "page_found collect ev \<longleftrightarrow>
     (let result = py_get (dict_or_empty (ev_payload ev)) ''result'' in
      result \<noteq> VNone \<and> page_data (py_get collect ''path'') result \<noteq> Inr VNone)"

lemma run_collect_counts:
  assumes "run_collect step ev (paging_block collect retry) e = (Inr u, e')" and "page_found collect ev"
  shows "page_count step (en_state e') = page_count step (en_state e) + 1"
proof -
  define s where "s = (if has_key (es_pagination_state (en_state e)) step then en_state e
    else set_paging step fresh_paging (en_state e))"
  have same: "page_count step s = page_count step (en_state e)"
    by (simp add: s_def page_count_set fresh_paging_def py_get_default_def)
      (simp add: page_count_def paging_of_def py_get_def py_get_default_def has_key_def dict_or_empty_def)
  have "need_dict (py_get (paging_block collect retry) ''collect'') = Inr collect"
    by (simp add: paging_block_def py_get_def need_dict_def)
  with assms obtain data where
    "on_state (\<lambda>s. rbind (add_page (py_get_default collect ''strategy'' (VStr ''append'')) data (paging_of s step))
        (\<lambda>d. Inr (set_paging step d s))) (e\<lparr>en_state := s\<rparr>) = (Inr u, e')"
    by (auto simp: run_collect_def page_found_def Let_def andthen_def changing_state_def changing_def s_def pure_def
        split: sum.splits if_splits)
  then obtain d where d: "add_page (py_get_default collect ''strategy'' (VStr ''append'')) data (paging_of s step) = Inr d"
    and e': "en_state e' = set_paging step d s"
    by (auto simp: on_state_def rbind_Inr_iff split: sum.splits)
  then obtain old v n where v: "need (paging_of s step) ''iteration_count'' = Inr v" "py_num v = Inr n"
    and new: "d = set_keys [(''collected_data'', collected (py_get_default collect ''strategy'' (VStr ''append'')) data old),
        (''iteration_count'', VInt (n + 1)), (''pending_retry'', VBool False)] (paging_of s step)"
    by (auto simp: add_page_def rbind_Inr_iff)
  have "py_get_default (paging_of s step) ''iteration_count'' (VInt 0) = v"
    using v(1) by (auto simp: need_def py_get_default_def has_key_def py_get_def split: if_splits option.splits)
  then have "page_count step s = n" using v(2) by (simp add: page_count_def)
  moreover have "page_count step (set_paging step d s) = n + 1"
    by (simp add: page_count_set new get_default_set_keys)
  ultimately show ?thesis using same e' by simp
qed

definition retry_commands :: "command list option \<Rightarrow> command list" where
  "retry_commands p = (case p of None \<Rightarrow> [] | Some cs \<Rightarrow> cs)"

lemma retry_commands_simps [simp]: "retry_commands None = []" "retry_commands (Some cs) = cs"
  by (simp_all add: retry_commands_def)

lemma retry_commands_case:
  "(case p of None \<Rightarrow> [] | Some cs \<Rightarrow> [] @ cs) = retry_commands p"
  "(case p of None \<Rightarrow> [] | Some cs \<Rightarrow> cs) = retry_commands p"
  "(case p of None \<Rightarrow> [] | Some cs \<Rightarrow> cs @ []) = retry_commands p"
  by (cases p; simp)+

lemma andthen_case_ret:
  "andthen m (\<lambda>p. case p of None \<Rightarrow> ret a | Some x \<Rightarrow> ret (f x))
    = andthen m (\<lambda>p. ret (case p of None \<Rightarrow> a | Some x \<Rightarrow> f x))"
  by (auto simp: andthen_def ret_def fun_eq_iff split: prod.split sum.split option.split)

lemma paging_spec [simp]:
  "list_ex (has_key retry) paging_fields \<Longrightarrow> paging_retry_spec (paging_block collect retry) = Some retry"
  "list_ex (has_key retry) paging_fields \<Longrightarrow> paging_retry_spec [(''retry'', VDict retry)] = Some retry"
  by (simp_all add: paging_retry_spec_def paging_block_def py_get_def)

lemma run_paging_block:
  assumes "list_ex (has_key retry) paging_fields"
  shows "run_action h cx step ev (paging_block collect retry) =
    andthen (run_collect step ev (paging_block collect retry)) (\<lambda>_.
    andthen (run_paging_retry h cx step retry) (\<lambda>p. ret (retry_commands p)))"
  using assms
  by (simp add: run_action_def run_first_def run_last_def andthen_case_ret retry_commands_case)
    (simp add: paging_block_def has_key_def)

lemma run_paging_only:
  assumes "list_ex (has_key retry) paging_fields"
  shows "run_action h cx step ev [(''retry'', VDict retry)] =
    andthen (run_paging_retry h cx step retry) (\<lambda>p. ret (retry_commands p))"
  using assms
  by (simp add: run_action_def run_first_def run_last_def andthen_case_ret retry_commands_case has_key_def)

lemma process_one_action:
  assumes "inline_specs action = []" and "\<not> has_key action ''kind''"
  shows "process_then_actions h (VDict action) ev =
    andthen state_of (\<lambda>s. andthen (pure (get_render_context ev s)) (\<lambda>cx.
      run_action h cx (event_step ev) ev action))"
proof -
  have "andthen m (\<lambda>cs. ret (cs @ [])) = m" for m :: "command list call"
    by (auto simp: andthen_def ret_def fun_eq_iff split: prod.split sum.split)
  then show ?thesis
    using assms
    by (simp add: process_then_actions_def then_list_def is_task_sequence_def is_task_item_def inline_commands_def
        List.map_filter_simps Let_def)
qed

fun process_pages :: "host \<Rightarrow> pydict \<Rightarrow> engine_event list \<Rightarrow> command list call" where
  "process_pages h action [] = ret []"
| "process_pages h action (ev # evs) =
     andthen (process_then_actions h (VDict action) ev) (\<lambda>cs.
     andthen (process_pages h action evs) (\<lambda>cs'. ret (cs @ cs')))"

lemma process_page_effect:
  assumes "list_ex (has_key retry) paging_fields" and "page_found collect ev" and "event_step ev = step"
    and "process_then_actions h (VDict (paging_block collect retry)) ev e = (Inr cs, e')"
  shows "page_count step (en_state e') = page_count step (en_state e) + 1 \<and> length cs \<le> 1
    \<and> (cs \<noteq> [] \<longrightarrow> page_count step (en_state e') < max_pages h)"
proof -
  have "inline_specs (paging_block collect retry) = []" "\<not> has_key (paging_block collect retry) ''kind''"
    by (simp_all add: paging_block_def inline_specs_def reserved_actions_def List.map_filter_simps has_key_def)
  from process_one_action [OF this] assms obtain cx where
    "run_action h cx step ev (paging_block collect retry) e = (Inr cs, e')"
    by (auto simp: andthen_state_of elim!: andthen_InrE dest!: pure_Inr)
  then have "andthen (run_collect step ev (paging_block collect retry)) (\<lambda>_.
    andthen (run_paging_retry h cx step retry) (\<lambda>p. ret (retry_commands p))) e = (Inr cs, e')"
    using run_paging_block [OF assms(1)] by simp
  then obtain u e1 where c: "run_collect step ev (paging_block collect retry) e = (Inr u, e1)"
    and "andthen (run_paging_retry h cx step retry) (\<lambda>p. ret (retry_commands p)) e1 = (Inr cs, e')"
    by (rule andthen_InrE)
  then obtain p where p: "run_paging_retry h cx step retry e1 = (Inr p, e')" "cs = retry_commands p"
    by (auto simp: andthen_ret_Inr)
  then show ?thesis
    using run_collect_counts [OF c assms(2)] run_paging_retry_effect [OF p(1)]
    by (cases p) (auto simp: retry_commands_def)
qed

text \<open>
  Pagination ends: over any sequence of pages that are collected, the block issues at most as many
  retries as are left below the page limit, one for a page at most.
\<close>
lemma pagination_is_bounded:
  assumes "list_ex (has_key retry) paging_fields"
    and "\<forall>ev \<in> set evs. page_found collect ev \<and> event_step ev = step"
    and "process_pages h (paging_block collect retry) evs e = (Inr cs, e')"
  shows "int (length cs) \<le> max 0 (max_pages h - 1 - page_count step (en_state e))"
  using assms(2,3)
proof (induction evs arbitrary: e cs)
  case Nil
  then show ?case by (simp add: ret_def)
next
  case (Cons ev evs)
  from Cons.prems(2) obtain cs1 e1 where one: "process_then_actions h (VDict (paging_block collect retry)) ev e = (Inr cs1, e1)"
    and "andthen (process_pages h (paging_block collect retry) evs) (\<lambda>cs'. ret (cs1 @ cs')) e1 = (Inr cs, e')"
    by (auto elim: andthen_InrE)
  then obtain cs2 where rest: "process_pages h (paging_block collect retry) evs e1 = (Inr cs2, e')" and "cs = cs1 @ cs2"
    by (auto simp: andthen_ret_Inr)
  have "page_count step (en_state e1) = page_count step (en_state e) + 1 \<and> length cs1 \<le> 1
    \<and> (cs1 \<noteq> [] \<longrightarrow> page_count step (en_state e1) < max_pages h)"
    using Cons.prems(1) by (intro process_page_effect [OF assms(1) _ _ one]) auto
  then show ?case
    using Cons.IH [OF _ rest] Cons.prems(1) \<open>cs = cs1 @ cs2\<close> by (cases "cs1 = []") (auto simp: max_def split: if_splits)
qed

section \<open>Where the code does something else\<close>

text \<open>A retry without a collect counts no page: the limit that is to stop it is never reached.\<close>

lemma pages_without_collect_uncounted:
  assumes "list_ex (has_key retry) paging_fields"
    and "process_then_actions h (VDict [(''retry'', VDict retry)]) ev e = (Inr cs, e')"
  shows "page_count (event_step ev) (en_state e') = page_count (event_step ev) (en_state e)"
proof -
  have "inline_specs [(''retry'', VDict retry)] = []" "\<not> has_key [(''retry'', VDict retry)] ''kind''"
    by (simp_all add: inline_specs_def reserved_actions_def List.map_filter_simps has_key_def)
  from process_one_action [OF this] assms(2) obtain cx where
    "run_action h cx (event_step ev) ev [(''retry'', VDict retry)] e = (Inr cs, e')"
    by (auto simp: andthen_state_of elim!: andthen_InrE dest!: pure_Inr)
  then obtain p where "run_paging_retry h cx (event_step ev) retry e = (Inr p, e')"
    unfolding run_paging_only [OF assms(1)] by (auto simp: andthen_ret_Inr)
  then show ?thesis using run_paging_retry_effect by blast
qed

text \<open>A playbook with an exclusive router, a step that paginates and a cursor loop.\<close>

definition plain_step :: "string \<Rightarrow> string list \<Rightarrow> step_decl" where
  "plain_step n targets =
     \<lparr>st_step = n,
      st_next = (if targets = [] then None else Some \<lparr>nr_mode = None, nr_no_match = None,
        nr_arcs = map (\<lambda>t. \<lparr>arc_step = t, arc_when = None, arc_set = None\<rparr>) targets\<rparr>),
      st_loop = None, st_input = None, st_tool = Some (Single_Tool ''noop'' []), st_set = None\<rparr>"

definition cursor_step :: step_decl where
  "cursor_step = (plain_step ''w'' [])\<lparr>st_loop := Some
     \<lparr>ld_in = None, ld_cursor = Some \<lparr>cu_kind = ''postgres'', cu_auth = ''pg'', cu_claim = ''select'', cu_options = VDict []\<rparr>,
      ld_iterator = ''row'', ld_mode = Some Cursor, ld_max_in_flight = VInt 3, ld_frame = None\<rparr>\<rparr>"

definition route_engine :: engine where
  "route_engine = sample_engine\<lparr>en_state := new_execution_state (VStr ''x'')
     \<lparr>pb_metadata = [], pb_executor = None, pb_workload = None, pb_keychain = VNone,
      pb_workflow = [plain_step ''a'' [''b'', ''c''], plain_step ''b'' [], plain_step ''c'' [], cursor_step]\<rparr>
     [] (VInt 3) VNone\<rparr>"

definition route_a :: "engine \<Rightarrow> (command list \<times> bool \<times> bool) res \<times> engine" where
  "route_a = evaluate_next_transitions_with_status sample_host (plain_step ''a'' [''b'', ''c''])
     (sample_event ''call.done'' ''a'' 1)"

text \<open>
  First match wins, the comment says; but a first match that is in flight is passed over, and the
  arc after it is taken as well: the alternative of an exclusive choice runs beside it.
\<close>

lemma duplicate_falls_through:
  "(case fst (route_a (route_engine\<lparr>en_state := (en_state route_engine)\<lparr>es_issued_steps := [''b'']\<rparr>\<rparr>)) of
      Inr (cs, _) \<Rightarrow> map cm_step cs | Inl _ \<Rightarrow> []) = [''c'']"
  by code_simp

text \<open>An action that sets a variable and goes on to a step does not set it.\<close>

lemma set_beside_next_ignored:
  "(case process_then_actions sample_host (VDict [(''next'', VStr ''b''), (''set'', VDict [(''v'', VInt 1)])])
       (sample_event ''call.done'' ''a'' 1) route_engine of
      (Inr cs, e) \<Rightarrow> (map cm_step cs, has_key (es_variables (en_state e)) ''v'')
    | _ \<Rightarrow> ([], True)) = ([''b''], False)"
  by code_simp

text \<open>
  A page that is fetched before any is collected leaves a pagination entry without the collected
  data; collecting then raises.
\<close>

definition next_page :: pydict where
  "next_page = [(''params'', VDict [(''page'', VInt 2)])]"

definition page_event :: engine_event where
  "page_event = (sample_event ''call.done'' ''b'' 1)\<lparr>ev_payload := VDict [(''result'', VDict [(''rows'', VList [])])]\<rparr>"

lemma collect_after_retry_raises:
  "fst (andthen (process_then_actions sample_host (VDict [(''retry'', VDict next_page)]) page_event)
     (\<lambda>_. process_then_actions sample_host (VDict (paging_block [] next_page)) page_event) route_engine)
   = Inl (KeyError ''collected_data'')"
  by code_simp

section \<open>Witnesses\<close>

definition routed :: "command list" where
  "routed = (case fst (route_a route_engine) of Inr (cs, _) \<Rightarrow> cs | Inl _ \<Rightarrow> [])"

lemma route_a_value: "map_sum id (map_prod length id) (fst (route_a route_engine)) = Inr (1, True, False)"
  by code_simp

lemma route_a_result: "route_a route_engine = (Inr (routed, True, False), snd (route_a route_engine))"
  and routed_length: "length routed = 1"
proof -
  obtain cs where "fst (route_a route_engine) = Inr (cs, True, False)" "length cs = 1"
    using route_a_value by (cases "fst (route_a route_engine)") auto
  then show "route_a route_engine = (Inr (routed, True, False), snd (route_a route_engine))" "length routed = 1"
    by (auto simp: routed_def intro: prod_eqI)
qed


lemma route_context: "\<exists>cx. get_render_context (sample_event ''call.done'' ''a'' 1) (en_state route_engine) = Inr cx"
proof -
  have "(case get_render_context (sample_event ''call.done'' ''a'' 1) (en_state route_engine) of
      Inr cx \<Rightarrow> True | Inl _ \<Rightarrow> False)" by code_simp
  then show ?thesis by (simp split: sum.splits)
qed

lemma matched_is_has_matching_witness:
  "\<exists>cx. has_matching_next_transition (h_renderer sample_host) (en_state route_engine)
     (plain_step ''a'' [''b'', ''c'']) cx"
proof -
  obtain cx where "get_render_context (sample_event ''call.done'' ''a'' 1) (en_state route_engine) = Inr cx"
    using route_context by blast
  from matched_is_has_matching [OF this route_a_result [unfolded route_a_def]] show ?thesis by blast
qed

definition deferring_engine :: engine where
  "deferring_engine = route_engine\<lparr>en_state := defer_next ''a'' [''a:t''] [[(''next'', VStr ''b'')]]
     ((en_state route_engine)\<lparr>es_completed_steps := [''a:t'']\<rparr>)\<rparr>"

definition deferred_run :: "command list res \<times> engine" where
  "deferred_run = process_deferred_next_actions sample_host ''a:t'' page_event deferring_engine"

lemma deferred_run_value: "map_sum id (map cm_step) (fst deferred_run) = Inr [''b'']"
  by code_simp


definition cursor_run_of :: "command list res \<times> engine" where
  "cursor_run_of = issue_cursor_loop_commands sample_host cursor_step [] route_engine"

lemma cursor_run_value: "map_sum id length (fst cursor_run_of) = Inr 3"
  by code_simp

lemma cursor_slots_match_loop_witness:
  "\<exists>cs n epoch. fst cursor_run_of = Inr cs \<and> length cs = nat n
    \<and> map_of (es_loop_state (en_state (snd cursor_run_of))) ''w'' = Some (fresh_loop_state n ''row'' ''cursor'' (VStr epoch))"
proof -
  obtain cs where cs: "fst cursor_run_of = Inr cs" using cursor_run_value by (cases "fst cursor_run_of") auto
  then have run: "issue_cursor_loop_commands sample_host cursor_step [] route_engine = (Inr cs, snd cursor_run_of)"
    by (simp add: cursor_run_of_def prod_eq_iff)
  have "\<not> loop_reentered (en_state route_engine) (st_step cursor_step) []"
    by (simp add: loop_reentered_def py_get_def)
  moreover have "st_loop cursor_step = Some (the (st_loop cursor_step))"
    "ld_cursor (the (st_loop cursor_step)) = Some (the (ld_cursor (the (st_loop cursor_step))))"
    "st_tool cursor_step = Some (Single_Tool ''noop'' [])"
    "st_step cursor_step = ''w''" "ld_iterator (the (st_loop cursor_step)) = ''row''"
    by (simp_all add: cursor_step_def plain_step_def)
  ultimately obtain n epoch where "length cs = nat n"
    "map_of (es_loop_state (en_state (snd cursor_run_of))) ''w'' = Some (fresh_loop_state n ''row'' ''cursor'' (VStr epoch))"
    using cursor_slots_match_loop [OF _ _ _ _ run] by metis
  with cs show ?thesis by (intro exI conjI)
qed

definition two_pages :: "command list res \<times> engine" where
  "two_pages = process_pages sample_host (paging_block [] next_page) [page_event, page_event] route_engine"

lemma two_pages_value: "map_sum id length (fst two_pages) = Inr 2"
  by code_simp

lemma pagination_is_bounded_witness: "\<exists>cs. fst two_pages = Inr cs \<and> int (length cs) \<le> max 0 (max_pages sample_host - 1)"
proof -
  obtain cs where cs: "fst two_pages = Inr cs" using two_pages_value by (cases "fst two_pages") auto
  then have run: "process_pages sample_host (paging_block [] next_page) [page_event, page_event] route_engine
      = (Inr cs, snd two_pages)"
    by (simp add: two_pages_def prod_eq_iff)
  have "list_ex (has_key next_page) paging_fields"
    by (simp add: next_page_def paging_fields_def has_key_def)
  moreover have "\<forall>ev \<in> set [page_event, page_event]. page_found [] ev \<and> event_step ev = ''b''"
    by (simp add: page_event_def sample_event_def page_found_def event_step_def dict_or_empty_def py_get_def page_data_def)
  moreover have "page_count ''b'' (en_state route_engine) = 0" by code_simp
  ultimately show ?thesis using pagination_is_bounded [OF _ _ run, of "''b''"] cs by auto
qed

end
