(* ===== verification/State_Store.thy ===== *)
theory State_Store
  imports Engine_World Resource_Locator
begin

text \<open>
  The store of execution states (\<^verbatim>\<open>noetl/core/dsl/engine/executor/store.py\<close>): playbooks from the
  catalog through a bounded cache (\<open>PlaybookRepo\<close>), the projection row of an execution with its two
  forms of saving, loading a state from its row, and rebuilding it from the command and event tables
  when there is none (\<open>StateStore\<close>). A load leaves the state it found in the world. Timings are left
  out, a layout of a playbook is not represented.
\<close>

section \<open>Playbooks\<close>

definition cache_playbook :: "host \<Rightarrow> playbook \<Rightarrow> string \<Rightarrow> unit call" where
  "cache_playbook h pb key =
     andthen (clock h) (\<lambda>now.
       changing (\<lambda>e. e\<lparr>en_playbooks := cache_set_sync now key pb (en_playbooks e)\<rparr>))"

definition playbook_aliases :: "playbook \<Rightarrow> string list" where
  "playbook_aliases pb =
     concat (map (\<lambda>k. case py_get (pb_metadata pb) k of VStr s \<Rightarrow> if s \<noteq> [] then [s] else [] | _ \<Rightarrow> [])
       [''path'', ''name''])"

definition register_playbook :: "host \<Rightarrow> playbook \<Rightarrow> string \<Rightarrow> unit call" where
  "register_playbook h pb key =
     andthen (cache_playbook h pb key) (\<lambda>_.
     andthen (each (cache_playbook h pb) (playbook_aliases pb)) (\<lambda>_. ret ()))"

definition cached_playbook :: "host \<Rightarrow> string \<Rightarrow> playbook option call" where
  "cached_playbook h key =
     andthen (clock h) (\<lambda>now e.
       case cache_get now key (en_playbooks e) of (v, c) \<Rightarrow> (Inr v, e\<lparr>en_playbooks := c\<rparr>))"

text \<open>A playbook of another API version, or one that does not parse, is no playbook.\<close>

definition parse_playbook :: "host \<Rightarrow> string \<Rightarrow> playbook option" where
  "parse_playbook h content =
     (case h_yaml h content of
        Some (VDict d) \<Rightarrow> if py_get d ''apiVersion'' = VStr ''noetl.io/v2'' then h_playbook h d else None
      | _ \<Rightarrow> None)"

text \<open>\<open>set\<close> is inside the \<open>try\<close>: a playbook that cannot be cached is not returned.\<close>

definition keep_playbook :: "host \<Rightarrow> string list \<Rightarrow> playbook \<Rightarrow> playbook option call" where
  "keep_playbook h keys pb =
     andthen (attempt (each (\<lambda>key. andthen (clock h) (\<lambda>now e.
         case cache_set now key pb (en_playbooks e) of
           Inl x \<Rightarrow> (Inl x, e) | Inr c \<Rightarrow> (Inr (), e\<lparr>en_playbooks := c\<rparr>))) keys)) (\<lambda>r.
       ret (map_option (\<lambda>_. pb) r))"

definition parse_and_keep :: "host \<Rightarrow> string list \<Rightarrow> string \<Rightarrow> playbook option call" where
  "parse_and_keep h keys content =
     (case parse_playbook h content of None \<Rightarrow> ret None | Some pb \<Rightarrow> keep_playbook h keys pb)"

definition load_playbook :: "host \<Rightarrow> string \<Rightarrow> playbook option call" where
  "load_playbook h path =
     andthen (cached_playbook h path) (\<lambda>hit.
       case hit of
         Some pb \<Rightarrow> ret (Some pb)
       | None \<Rightarrow>
           andthen (reading (\<lambda>e. find (\<lambda>r. ct_path r = path) (en_catalog e))) (\<lambda>row.
             case row of None \<Rightarrow> ret None | Some r \<Rightarrow> parse_and_keep h [path] (ct_content r)))"

definition id_key :: "pyval \<Rightarrow> string" where
  "id_key catalog_id = ''id:'' @ py_str catalog_id"

definition load_playbook_by_id :: "host \<Rightarrow> pyval \<Rightarrow> playbook option call" where
  "load_playbook_by_id h catalog_id =
     andthen (cached_playbook h (id_key catalog_id)) (\<lambda>hit.
       case hit of
         Some pb \<Rightarrow> ret (Some pb)
       | None \<Rightarrow>
           andthen (reading (\<lambda>e. find (\<lambda>r. VInt (ct_catalog_id r) = catalog_id) (en_catalog e))) (\<lambda>row.
             case row of
               None \<Rightarrow> ret None
             | Some r \<Rightarrow>
                 parse_and_keep h (id_key catalog_id # (if ct_path r \<noteq> [] then [ct_path r] else []))
                   (ct_content r)))"

section \<open>Saving\<close>

definition saved_status :: "exec_state \<Rightarrow> string" where
  "saved_status s = (if es_failed s then ''FAILED'' else if es_completed s then ''COMPLETED'' else ''RUNNING'')"

text \<open>The row after a save: a status that is terminal stays, and so does its end.\<close>

definition saved_over :: "int \<Rightarrow> string \<Rightarrow> int \<Rightarrow> pyval \<Rightarrow> execution_tuple \<Rightarrow> execution_tuple" where
  "saved_over now status event_id js r =
     r\<lparr>xr_state := js, xr_updated_at := now,
       xr_end_time := (if xr_end_time r = None \<and> status \<in> set terminal_statuses then Some now else xr_end_time r),
       xr_status := (if xr_status r \<in> set terminal_statuses then xr_status r else status),
       xr_last_event_id := Some (max (case xr_last_event_id r of None \<Rightarrow> 0 | Some i \<Rightarrow> i) event_id)\<rparr>"

definition first_saved :: "int \<Rightarrow> int \<Rightarrow> int \<Rightarrow> int option \<Rightarrow> string \<Rightarrow> int \<Rightarrow> pyval \<Rightarrow> execution_tuple" where
  "first_saved now x catalog_id parent status event_id js =
     \<lparr>xr_execution_id = x, xr_catalog_id = catalog_id, xr_parent_execution_id = parent, xr_status = status,
      xr_start_time = now, xr_end_time = (if status \<in> set terminal_statuses then Some now else None),
      xr_last_event_id = Some event_id, xr_state = js, xr_updated_at = now\<rparr>"

definition on_execution :: "int \<Rightarrow> (execution_tuple \<Rightarrow> execution_tuple) \<Rightarrow> execution_tuple list \<Rightarrow> execution_tuple list" where
  "on_execution x f rows = map (\<lambda>r. if xr_execution_id r = x then f r else r) rows"

definition upsert_execution ::
  "int \<Rightarrow> int \<Rightarrow> int \<Rightarrow> int option \<Rightarrow> string \<Rightarrow> int \<Rightarrow> pyval \<Rightarrow> execution_tuple list \<Rightarrow> execution_tuple list" where
  "upsert_execution now x catalog_id parent status event_id js rows =
     (if list_ex (\<lambda>r. xr_execution_id r = x) rows
      then on_execution x (\<lambda>r. saved_over now status event_id js
             (r\<lparr>xr_parent_execution_id :=
                (case xr_parent_execution_id r of None \<Rightarrow> parent | Some p \<Rightarrow> Some p)\<rparr>)) rows
      else rows @ [first_saved now x catalog_id parent status event_id js])"

definition opt_int :: "pyval \<Rightarrow> int option res" where
  "opt_int v = (if v = VNone then Inr None else rbind (py_int v) (\<lambda>i. Inr (Some i)))"

definition last_event_number :: "pyval \<Rightarrow> int res" where
  "last_event_number v = py_int (py_or v (VInt 0))"

definition saved_rows :: "int \<Rightarrow> exec_state \<Rightarrow> execution_tuple list \<Rightarrow> execution_tuple list res" where
  "saved_rows now s rows =
     (let js = VDict (state_to_dict s) in
      if es_catalog_id s = VNone then
        rbind (last_event_number (es_last_event_id s)) (\<lambda>n.
        rbind (py_int (es_execution_id s)) (\<lambda>x.
          Inr (on_execution x (saved_over now (saved_status s) n js) rows)))
      else
        rbind (py_int (es_execution_id s)) (\<lambda>x.
        rbind (py_int (es_catalog_id s)) (\<lambda>c.
        rbind (opt_int (es_parent_execution_id s)) (\<lambda>p.
        rbind (last_event_number (es_last_event_id s)) (\<lambda>n.
          Inr (upsert_execution now x c p (saved_status s) n js rows))))))"

definition register_saved :: "host \<Rightarrow> exec_state \<Rightarrow> unit call" where
  "register_saved h s =
     andthen (if truthy (es_catalog_id s) then register_playbook h (es_playbook s) (id_key (es_catalog_id s))
              else ret ()) (\<lambda>_.
     andthen (each (register_playbook h (es_playbook s)) (playbook_aliases (es_playbook s))) (\<lambda>_. ret ()))"

definition save_now :: "host \<Rightarrow> unit call" where
  "save_now h =
     andthen state_of (\<lambda>s.
     andthen (register_saved h s) (\<lambda>_.
     andthen (clock h) (\<lambda>now.
     andthen (reading en_executions) (\<lambda>rows.
     andthen (pure (saved_rows now s rows)) (\<lambda>rows'.
       changing (\<lambda>e. e\<lparr>en_executions := rows'\<rparr>))))))"

text \<open>
  Inside a handled event the save is only noted; the buffer holds the state object, which is the one
  the handler goes on to change.
\<close>

definition save_state :: "host \<Rightarrow> unit call" where
  "save_state h =
     andthen (reading en_buffer) (\<lambda>b.
       case b of
         None \<Rightarrow> save_now h
       | Some n \<Rightarrow> changing (\<lambda>e. e\<lparr>en_buffer := Some (Suc n)\<rparr>))"

definition advanced_to :: "int \<Rightarrow> int \<Rightarrow> execution_tuple \<Rightarrow> execution_tuple" where
  "advanced_to now event_id r =
     r\<lparr>xr_updated_at := now,
       xr_last_event_id := Some (max (case xr_last_event_id r of None \<Rightarrow> 0 | Some i \<Rightarrow> i) event_id)\<rparr>"

definition save_state_terminal_lightweight :: "host \<Rightarrow> pyval \<Rightarrow> pyval \<Rightarrow> unit call" where
  "save_state_terminal_lightweight h execution_id last_event_id =
     andthen (pure (last_event_number last_event_id)) (\<lambda>n.
     andthen (pure (py_int execution_id)) (\<lambda>x.
     andthen (clock h) (\<lambda>now.
       changing (\<lambda>e. e\<lparr>en_executions := on_execution x (advanced_to now n) (en_executions e)\<rparr>))))"

section \<open>Results of replayed events\<close>

text \<open>
  \<open>ResultStore.resolve\<close> on a dictionary: the stored kinds are fetched, anything else is inline data
  and comes back as it is.
\<close>

definition store_resolve :: "host \<Rightarrow> pydict \<Rightarrow> pyval res" where
  "store_resolve h ref =
     (if py_get ref ''kind'' \<in> {VStr ''temp_ref'', VStr ''result_ref'', VStr ''manifest''}
      then h_fetch h ref else Inr (VDict ref))"

definition reference_to_result_ref :: "host \<Rightarrow> pyval \<Rightarrow> pydict option" where
  "reference_to_result_ref h reference =
     (case reference of
        VDict r \<Rightarrow>
          (let text = strip (py_str (py_or (py_or (py_get r ''locator'') (py_get r ''ref'')) (VStr [])));
               named = lower (strip (py_str (py_or (py_get r ''store'') (VStr ''kv''))));
               tier = (if named = [] then ''kv'' else named) in
           case parse_locator (h_ip_host h) text of
             Inl _ \<Rightarrow> None
           | Inr _ \<Rightarrow>
               Some [(''kind'', VStr (if tier = ''memory'' then ''temp_ref'' else ''result_ref'')),
                     (''ref'', VStr text), (''store'', VStr tier)])
      | _ \<Rightarrow> None)"

text \<open>\<open>_hydrate_reference_only_step_result\<close>; \<open>None\<close> where it returns the very object it was given.\<close>

definition hydrated_reference :: "host \<Rightarrow> pydict \<Rightarrow> pyval option" where
  "hydrated_reference h d =
     (case reference_to_result_ref h (py_get d ''reference'') of
        None \<Rightarrow> None
      | Some w \<Rightarrow>
          (case store_resolve h w of Inl _ \<Rightarrow> None | Inr v \<Rightarrow> Some (merge_hydrated_step_result v d w)))"

definition hydrate_reference_only :: "host \<Rightarrow> pyval \<Rightarrow> pyval" where
  "hydrate_reference_only h v =
     (case v of
        VDict d \<Rightarrow> (case hydrated_reference h d of None \<Rightarrow> v | Some w \<Rightarrow> w)
      | _ \<Rightarrow> v)"

text \<open>\<open>_try_hydrate\<close>; again \<open>None\<close> is the envelope itself.\<close>

definition try_hydrate :: "host \<Rightarrow> pydict \<Rightarrow> pyval option" where
  "try_hydrate h d =
     (case hydrated_reference h d of
        Some v \<Rightarrow> Some v
      | None \<Rightarrow>
          (let ref = dict_or_empty (py_get d ''reference'');
               place = py_or (py_get ref ''locator'') (py_get ref ''ref'') in
           if truthy place then
             (case store_resolve h [(''ref'', place)] of
                Inl _ \<Rightarrow> None | Inr v \<Rightarrow> if v = VNone then None else Some v)
           else None))"

definition hydrate_inner :: "host \<Rightarrow> string \<Rightarrow> pydict \<Rightarrow> pyval option" where
  "hydrate_inner h key d =
     (case py_get d key of
        VDict inner \<Rightarrow>
          if is_dict (py_get inner ''reference'')
          then map_option (\<lambda>v. VDict (AList.update key v d)) (try_hydrate h inner) else None
      | _ \<Rightarrow> None)"

definition hydrate_all_reference_shapes :: "host \<Rightarrow> pyval \<Rightarrow> pyval" where
  "hydrate_all_reference_shapes h current =
     (case current of
        VDict d \<Rightarrow>
          (case (if is_dict (py_get d ''reference'') then try_hydrate h d else None) of
             Some v \<Rightarrow> v
           | None \<Rightarrow>
               (case hydrate_inner h ''result'' d of
                  Some v \<Rightarrow> v
                | None \<Rightarrow> (case hydrate_inner h ''data'' d of Some v \<Rightarrow> v | None \<Rightarrow> current)))
      | _ \<Rightarrow> current)"

text \<open>Membership of \<open>kind\<close> in a set of texts; a dictionary or a list is not hashable.\<close>

definition wraps_data :: "pydict \<Rightarrow> bool res" where
  "wraps_data d =
     (case py_get d ''kind'' of
        VDict _ \<Rightarrow> Inl (TypeError ''unhashable type'')
      | VList _ \<Rightarrow> Inl (TypeError ''unhashable type'')
      | k \<Rightarrow> Inr (k \<in> {VStr ''data'', VStr ''ref'', VStr ''refs''} \<and> has_key d ''data''))"

definition unwrap_data :: "pyval \<Rightarrow> pyval res" where
  "unwrap_data v =
     (case v of
        VDict d \<Rightarrow> rbind (wraps_data d) (\<lambda>w. Inr (if w then py_get d ''data'' else v))
      | _ \<Rightarrow> Inr v)"

definition add_command_keys :: "pydict \<Rightarrow> pydict \<Rightarrow> pydict" where
  "add_command_keys context d =
     foldl (\<lambda>acc (k, v). if startswith k ''command_'' then dict_setdefault k v acc else acc) d context"

definition flatten_result :: "pydict \<Rightarrow> pydict" where
  "flatten_result d =
     (case py_get d ''result'' of
        VDict r \<Rightarrow>
          (let f1 = set_keys [(''result'', VDict r), (''data'', VDict d)] r;
               f2 = only_if (has_key d ''status'') (AList.update ''status'' (py_get d ''status'')) f1 in
           case py_get d ''context'' of
             VDict c \<Rightarrow> add_command_keys c (AList.update ''context'' (VDict c) f2)
           | _ \<Rightarrow> f2)
      | _ \<Rightarrow> d)"

definition flatten_context :: "pydict \<Rightarrow> pydict" where
  "flatten_context d = (case py_get d ''context'' of VDict c \<Rightarrow> add_command_keys c d | _ \<Rightarrow> d)"

definition normalize_replay_result :: "host \<Rightarrow> pyval \<Rightarrow> pyval res" where
  "normalize_replay_result h value =
     rbind (unwrap_data value) (\<lambda>v.
     (let current = hydrate_all_reference_shapes h v in
      case current of
        VDict d \<Rightarrow>
          rbind (unwrap_data current) (\<lambda>inner.
          case inner of
            VDict d' \<Rightarrow> Inr (VDict (flatten_context (flatten_result d')))
          | _ \<Rightarrow> Inl (AttributeError ''object has no attribute get''))
      | _ \<Rightarrow> Inr current))"

section \<open>Rebuilding a state from the tables\<close>

definition extract_init_workload :: "pyval \<Rightarrow> pyval \<Rightarrow> pydict" where
  "extract_init_workload context result =
     (case py_get (dict_or_empty context) ''workload'' of
        VDict w \<Rightarrow> w
      | _ \<Rightarrow> dict_or_empty (py_get (dict_or_empty result) ''workload''))"

definition blank_loop :: "pyval \<Rightarrow> (string \<times> pyval) list \<Rightarrow> loop_decl \<Rightarrow> (string \<times> pyval) list \<Rightarrow> pydict" where
  "blank_loop event_id held l results =
     held @ [(''iterator'', VStr (ld_iterator l)), (''index'', VInt 0), (''mode'', VStr (mode_name l)),
       (''completed'', VBool False)] @ results @
     [(''failed_count'', VInt 0), (''break_count'', VInt 0), (''scheduled_count'', VInt 0),
      (''event_id'', event_id), (''omitted_results_count'', VInt 0), (''aggregation_finalized'', VBool False)]"

definition add_step :: "string \<Rightarrow> string list \<Rightarrow> string list" where
  "add_step k xs = (if k \<in> set xs then xs else xs @ [k])"

definition issued_before :: "command_row \<Rightarrow> exec_state \<Rightarrow> exec_state" where
  "issued_before c s =
     (let k = pending_step_key (Some (wc_step_name c)) in
      if k = [] then s
      else s\<lparr>es_issued_steps := add_step k (es_issued_steps s),
             es_completed_steps := (if wc_status c \<in> set terminal_statuses
               then add_step k (es_completed_steps s) else es_completed_steps s)\<rparr>)"

definition loop_of_command :: "command_row \<Rightarrow> exec_state \<Rightarrow> exec_state" where
  "loop_of_command c s =
     (if endswith (wc_step_name c) task_sequence_suffix then
        (let parent = parent_of (wc_step_name c) in
         case get_step (es_playbook s) parent of
           None \<Rightarrow> s
         | Some step \<Rightarrow>
             (case st_loop step of
                None \<Rightarrow> s
              | Some l \<Rightarrow>
                  if map_of (es_loop_state s) parent \<noteq> None then s
                  else with_loop parent (blank_loop
                         (case wc_loop_event_id c of
                            Some t \<Rightarrow> if t \<noteq> [] then VStr t else py_get (wc_meta c) ''__loop_epoch_id''
                          | None \<Rightarrow> py_get (wc_meta c) ''__loop_epoch_id'')
                         [(''collection_size'', VInt 0)] l []) s))
      else s)"

definition replay_command :: "exec_state \<Rightarrow> command_row \<Rightarrow> exec_state" where
  "replay_command s c = loop_of_command c (issued_before c s)"

definition state_replay_event_types :: "string list" where
  "state_replay_event_types =
     [''step.exit'', ''call.done'', ''call.error'', ''loop.done'', ''playbook.completed'', ''playbook.failed'',
      ''workflow.completed'', ''workflow.failed'', ''execution.cancelled'']"

definition loop_result :: "host \<Rightarrow> pyval \<Rightarrow> pyval" where
  "loop_result h v = compact_loop_result (h_result_size h) (h_result_max h) v"

definition counted_to_end :: "string \<Rightarrow> exec_state \<Rightarrow> exec_state res" where
  "counted_to_end step s =
     rbind (get_loop_completed_count step s) (\<lambda>n.
       Inr (case map_of (es_loop_state s) step of
              None \<Rightarrow> s
            | Some ls \<Rightarrow> with_loop step (set_keys [(''index'', VInt n), (''scheduled_count'', VInt n)] ls) s))"

definition replay_loop_result :: "host \<Rightarrow> step_decl \<Rightarrow> loop_decl \<Rightarrow> pyval \<Rightarrow> exec_state \<Rightarrow> exec_state res" where
  "replay_loop_result h step l v s =
     (let s1 = (if map_of (es_loop_state s) (st_step step) = None
                then with_loop (st_step step) (blank_loop VNone [(''collection'', VList [])] l
                       [(''results'', VList [])]) s
                else s);
          r = (case v of VDict d \<Rightarrow> if is_dict (py_get d ''result'') then py_get d ''result'' else v | _ \<Rightarrow> v) in
      rbind (add_loop_result (loop_result h) (st_step step) r False s1) (counted_to_end (st_step step)))"

definition replay_set :: "host \<Rightarrow> int \<Rightarrow> event_row \<Rightarrow> string \<Rightarrow> pydict \<Rightarrow> pyval \<Rightarrow> exec_state \<Rightarrow> exec_state res" where
  "replay_set h now row node mutations v s =
     rbind (get_render_context
         \<lparr>ev_execution_id = es_execution_id s, ev_name = we_event_type row, ev_step = Some node,
          ev_payload = VDict (if v = VNone then [] else [(''result'', v)]),
          ev_timestamp = Some (h_iso h now), ev_time = now, ev_meta = [], ev_worker_id = VNone,
          ev_attempt = 1, ev_parent_event_id = VNone\<rparr> s) (\<lambda>context.
       Inr (s\<lparr>es_variables := apply_set_mutations (es_variables s)
         (dict_or_empty (render_deep (h_renderer h) context (VDict mutations)))\<rparr>))"

definition replay_result :: "host \<Rightarrow> int \<Rightarrow> event_row \<Rightarrow> string \<Rightarrow> exec_state \<Rightarrow> exec_state res" where
  "replay_result h now row node s =
     rbind (normalize_replay_result h (we_result row)) (\<lambda>v.
       if endswith node task_sequence_suffix \<and> we_event_type row = ''step.exit'' then Inr s
       else
         (let s1 = mark_step_completed (rd_resolve (h_renderer h)) node v s in
          case get_step (es_playbook s) node of
            None \<Rightarrow> Inr s1
          | Some step \<Rightarrow>
              rbind (case st_loop step of None \<Rightarrow> Inr s1 | Some l \<Rightarrow> replay_loop_result h step l v s1) (\<lambda>s2.
                case st_set step of
                  None \<Rightarrow> Inr s2
                | Some ms \<Rightarrow> if ms = [] then Inr s2 else replay_set h now row node ms v s2)))"

definition seen_event :: "event_row \<Rightarrow> exec_state \<Rightarrow> exec_state" where
  "seen_event row s =
     (let s1 = s\<lparr>es_last_event_id := VInt (we_event_id row)\<rparr> in
      case we_node_name row of
        None \<Rightarrow> s1
      | Some n \<Rightarrow>
          if n = [] then s1
          else s1\<lparr>es_step_event_ids := AList.update n (VInt (we_event_id row)) (es_step_event_ids s)\<rparr>)"

definition replay_event :: "host \<Rightarrow> int \<Rightarrow> event_row \<Rightarrow> exec_state \<Rightarrow> exec_state res" where
  "replay_event h now row s0 =
     (let s = seen_event row s0; t = we_event_type row; k = pending_step_key (we_node_name row) in
      if t = ''command.failed'' then
        Inr (s\<lparr>es_completed_steps := (if k = [] then es_completed_steps s else add_step k (es_completed_steps s)),
               es_failed := True\<rparr>)
      else if t \<in> {''workflow.failed'', ''playbook.failed''} then Inr (s\<lparr>es_failed := True, es_completed := True\<rparr>)
      else if t \<in> {''workflow.completed'', ''playbook.completed'', ''execution.cancelled''}
      then Inr (s\<lparr>es_completed := True\<rparr>)
      else if t \<notin> {''step.exit'', ''call.done''} then Inr s
      else (case we_node_name row of
          None \<Rightarrow> Inr s
        | Some n \<Rightarrow> if n = [] then Inr s else replay_result h now row n s))"

fun replay_events :: "host \<Rightarrow> int \<Rightarrow> event_row list \<Rightarrow> exec_state \<Rightarrow> exec_state res" where
  "replay_events h now [] s = Inr s"
| "replay_events h now (r # rs) s = rbind (replay_event h now r s) (replay_events h now rs)"

definition replayed_rows :: "pyval \<Rightarrow> engine \<Rightarrow> event_row list" where
  "replayed_rows execution_id e =
     by_event_id (filter (\<lambda>r. we_execution_id r = execution_id
        \<and> we_event_type r \<in> set state_replay_event_types) (en_events e))"

definition replay_execution_events :: "host \<Rightarrow> exec_state \<Rightarrow> exec_state call" where
  "replay_execution_events h s =
     andthen (reading (\<lambda>e. foldl replay_command s
       (filter (\<lambda>c. wc_execution_id c = es_execution_id s) (en_commands e)))) (\<lambda>s1.
     andthen (reading (replayed_rows (es_execution_id s))) (\<lambda>rows.
     andthen (clock h) (\<lambda>now. pure (replay_events h now rows s1))))"

section \<open>Loading\<close>

definition load_from_init_event :: "host \<Rightarrow> pyval \<Rightarrow> event_row \<Rightarrow> exec_state option call" where
  "load_from_init_event h execution_id row =
     andthen (load_playbook_by_id h (we_catalog_id row)) (\<lambda>pb.
       case pb of
         None \<Rightarrow> ret None
       | Some pb \<Rightarrow>
           andthen (replay_execution_events h (new_execution_state execution_id pb
               (extract_init_workload (we_context row) (we_result row)) (we_catalog_id row) VNone)) (\<lambda>s.
             ret (Some s)))"

text \<open>The playbook of a row: by the row's catalog id, else by the path its state names.\<close>

definition playbook_of_row :: "host \<Rightarrow> execution_tuple \<Rightarrow> pydict \<Rightarrow> playbook option call" where
  "playbook_of_row h row js =
     andthen (if xr_catalog_id row \<noteq> 0 then load_playbook_by_id h (VInt (xr_catalog_id row)) else ret None) (\<lambda>pb.
       case pb of
         Some pb \<Rightarrow> ret (Some pb)
       | None \<Rightarrow>
           (case py_get js ''playbook_path'' of
              VStr p \<Rightarrow> if p \<noteq> [] then load_playbook h p else ret None
            | _ \<Rightarrow> ret None))"

definition load_from_row :: "host \<Rightarrow> execution_tuple option \<Rightarrow> exec_state option call" where
  "load_from_row h row =
     (case row of
        None \<Rightarrow> ret None
      | Some r \<Rightarrow>
          (case xr_state r of
             VDict js \<Rightarrow>
               if js = [] then ret None
               else andthen (playbook_of_row h r js) (\<lambda>pb.
                 case pb of
                   None \<Rightarrow> ret None
                 | Some pb \<Rightarrow> andthen (pure (state_from_dict js pb)) (\<lambda>s. ret (Some s)))
           | _ \<Rightarrow> ret None))"

definition init_event_of :: "pyval \<Rightarrow> engine \<Rightarrow> event_row option" where
  "init_event_of execution_id e =
     find (\<lambda>r. we_execution_id r = execution_id \<and> we_event_type r = ''playbook.initialized'') (en_events e)"

definition load_state :: "host \<Rightarrow> pyval \<Rightarrow> exec_state option call" where
  "load_state h execution_id =
     andthen (pure (py_int execution_id)) (\<lambda>x.
     andthen (reading (\<lambda>e. find (\<lambda>r. xr_execution_id r = x) (en_executions e))) (\<lambda>row.
     andthen (load_from_row h row) (\<lambda>loaded.
       case loaded of
         Some s \<Rightarrow> ret (Some s)
       | None \<Rightarrow>
           andthen (reading (init_event_of execution_id)) (\<lambda>init.
             case init of None \<Rightarrow> ret None | Some row \<Rightarrow> load_from_init_event h execution_id row))))"

end
