(* ===== verification/Lifecycle.thy ===== *)
theory Lifecycle
  imports State_Frame State_Store
begin

text \<open>
  The beginning and the forced end of an execution: \<open>start_execution\<close>
  (\<^verbatim>\<open>noetl/core/dsl/engine/executor/lifecycle.py\<close>) and \<open>finalize_abandoned_execution\<close>
  (\<^verbatim>\<open>noetl/core/dsl/engine/executor/base.py\<close>), and the lifecycle events they emit. The keychain
  processor is a parameter of the host.
\<close>

section \<open>Lifecycle events\<close>

text \<open>\<open>LifecycleEventPayload.model_dump()\<close>\<close>

definition lifecycle_payload :: "string \<Rightarrow> pyval \<Rightarrow> pyval \<Rightarrow> pyval \<Rightarrow> pydict" where
  "lifecycle_payload status final_step result error =
     [(''status'', VStr status), (''final_step'', final_step), (''result'', result), (''error'', error)]"

definition lifecycle_event ::
  "host \<Rightarrow> int \<Rightarrow> pyval \<Rightarrow> string \<Rightarrow> string \<Rightarrow> pydict \<Rightarrow> pyval \<Rightarrow> engine_event" where
  "lifecycle_event h now execution_id step name payload parent =
     \<lparr>ev_execution_id = execution_id, ev_name = name, ev_step = Some step, ev_payload = VDict payload,
      ev_timestamp = Some (h_iso h now), ev_time = now, ev_meta = [], ev_worker_id = VNone, ev_attempt = 1,
      ev_parent_event_id = parent\<rparr>"

text \<open>\<open>playbook.metadata.get("path", "playbook")\<close>; the step of an event is a text.\<close>

definition playbook_step :: "playbook \<Rightarrow> string res" where
  "playbook_step pb = need_str (py_get_default (pb_metadata pb) ''path'' (VStr ''playbook''))"

definition emit_lifecycle :: "host \<Rightarrow> string \<Rightarrow> string \<Rightarrow> pydict \<Rightarrow> pyval \<Rightarrow> unit call" where
  "emit_lifecycle h step name payload parent =
     andthen (clock h) (\<lambda>now.
     andthen state_of (\<lambda>s.
       persist_event h (lifecycle_event h now (es_execution_id s) step name payload parent)))"

section \<open>Starting an execution\<close>

definition find_playbook :: "host \<Rightarrow> pyval \<Rightarrow> string \<Rightarrow> playbook call" where
  "find_playbook h catalog_id path =
     andthen (if truthy catalog_id then load_playbook_by_id h catalog_id else load_playbook h path) (\<lambda>pb.
       case pb of None \<Rightarrow> raises (ValueError ''Playbook not found'') | Some pb \<Rightarrow> ret pb)"

definition add_keychain :: "host \<Rightarrow> pyval \<Rightarrow> unit call" where
  "add_keychain h catalog_id =
     andthen state_of (\<lambda>s.
       if truthy (pb_keychain (es_playbook s)) \<and> truthy catalog_id then
         (case h_keychain h (pb_keychain (es_playbook s)) catalog_id (es_variables s) of
            Inl _ \<Rightarrow> ret ()
          | Inr manifest \<Rightarrow>
              if truthy manifest
              then changing_state (\<lambda>s. s\<lparr>es_variables := AList.update manifest_key manifest (es_variables s)\<rparr>)
              else ret ())
       else ret ())"

definition has_status :: "pyval \<Rightarrow> bool" where
  "has_status v = (case v of VDict d \<Rightarrow> has_key d ''status'' | _ \<Rightarrow> False)"

definition workload_snapshot :: "pydict \<Rightarrow> pydict" where
  "workload_snapshot vars =
     (let manifest = py_get vars manifest_key in
      map (\<lambda>(k, v). (k, if k = manifest_key then v else strip_keychain_namespaces v manifest))
        (filter (\<lambda>(k, v). \<not> has_status v) vars))"

definition start_payload :: "string \<Rightarrow> pydict \<Rightarrow> pydict" where
  "start_payload path vars =
     lifecycle_payload ''initialized'' VNone
       (VDict [(''workload'', VDict (workload_snapshot vars)), (''playbook_path'', VStr path)]) VNone"

definition workflow_start_payload :: "string \<Rightarrow> string \<Rightarrow> pydict \<Rightarrow> pydict" where
  "workflow_start_payload entry path vars =
     lifecycle_payload ''initialized'' VNone
       (VDict [(''first_step'', VStr entry), (''playbook_path'', VStr path),
         (''workload'', VDict (workload_snapshot vars))]) VNone"

text \<open>The new state replaces whatever state the world held; its execution id is a fresh identifier.\<close>

definition create_execution :: "host \<Rightarrow> string \<Rightarrow> pydict \<Rightarrow> pyval \<Rightarrow> pyval \<Rightarrow> unit call" where
  "create_execution h path payload catalog_id parent =
     andthen (reading en_next_id) (\<lambda>n.
     andthen (changing (\<lambda>e. e\<lparr>en_next_id := n + 1\<rparr>)) (\<lambda>_.
     andthen (find_playbook h catalog_id path) (\<lambda>pb.
       changing_state (\<lambda>_. new_execution_state (VStr (show_int n)) pb payload catalog_id parent))))"

definition announce_start :: "host \<Rightarrow> string \<Rightarrow> string \<Rightarrow> unit call" where
  "announce_start h path entry =
     andthen state_of (\<lambda>s.
     andthen (emit_lifecycle h path ''playbook.initialized'' (start_payload path (es_variables s)) VNone) (\<lambda>_.
       emit_lifecycle h ''workflow'' ''workflow.initialized''
         (workflow_start_payload entry path (es_variables s)) VNone))"

definition issue_first :: "host \<Rightarrow> string \<Rightarrow> pydict \<Rightarrow> string \<Rightarrow> step_decl \<Rightarrow> command list call" where
  "issue_first h path payload entry step =
     andthen (announce_start h path entry) (\<lambda>_.
     andthen (save_state h) (\<lambda>_.
     andthen (issue_loop_commands h step payload) (\<lambda>cs.
     andthen (save_state h) (\<lambda>_. ret cs))))"

definition enter_workflow :: "host \<Rightarrow> string \<Rightarrow> pydict \<Rightarrow> (pyval \<times> command list) call" where
  "enter_workflow h path payload =
     andthen state_of (\<lambda>s.
     (let entry = get_entry_step (es_playbook s) in
      case get_step (es_playbook s) entry of
        None \<Rightarrow> raises (ValueError ''Entry step not found'')
      | Some step \<Rightarrow>
          andthen (issue_first h path payload entry step) (\<lambda>cs. ret (es_execution_id s, cs))))"

definition start_execution ::
  "host \<Rightarrow> string \<Rightarrow> pydict \<Rightarrow> pyval \<Rightarrow> pyval \<Rightarrow> (pyval \<times> command list) call" where
  "start_execution h path payload catalog_id parent =
     andthen (create_execution h path payload catalog_id parent) (\<lambda>_.
     andthen (save_state h) (\<lambda>_.
     andthen (add_keychain h catalog_id) (\<lambda>_. enter_workflow h path payload)))"

section \<open>Ending an abandoned execution\<close>

definition last_step_of :: "exec_state \<Rightarrow> pyval" where
  "last_step_of s =
     (case es_current_step s of
        Some c \<Rightarrow> if c \<noteq> [] then VStr c
                  else if es_step_results s = [] then VNone else VStr (fst (last (es_step_results s)))
      | None \<Rightarrow> if es_step_results s = [] then VNone else VStr (fst (last (es_step_results s))))"

definition abandoned_payload :: "exec_state \<Rightarrow> string \<Rightarrow> pydict" where
  "abandoned_payload s reason =
     lifecycle_payload ''failed'' (last_step_of s) VNone (VDict [(''message'', VStr reason)])"

definition finalize_loaded :: "host \<Rightarrow> string \<Rightarrow> unit call" where
  "finalize_loaded h reason =
     andthen state_of (\<lambda>s.
       if es_completed s then ret ()
       else
         andthen (emit_lifecycle h ''workflow'' ''workflow.failed'' (abandoned_payload s reason)
             (es_last_event_id s)) (\<lambda>_.
         andthen state_of (\<lambda>s1.
         andthen (pure (playbook_step (es_playbook s))) (\<lambda>path.
         andthen (emit_lifecycle h path ''playbook.failed'' (abandoned_payload s reason)
             (es_last_event_id s1)) (\<lambda>_.
         andthen (changing_state (\<lambda>s. s\<lparr>es_failed := True, es_completed := True\<rparr>)) (\<lambda>_.
           save_state h))))))"

definition finalize_abandoned_execution :: "host \<Rightarrow> pyval \<Rightarrow> string \<Rightarrow> unit call" where
  "finalize_abandoned_execution h execution_id reason =
     andthen (load_state h execution_id) (\<lambda>loaded.
       case loaded of
         None \<Rightarrow> ret ()
       | Some s \<Rightarrow> andthen (changing_state (\<lambda>_. s)) (\<lambda>_. finalize_loaded h reason))"

end
