(* ===== verification/State_Store_Theorems.thy ===== *)
theory State_Store_Theorems
  imports State_Store Engine_Loops
begin

text \<open>
  What the store of states guarantees: a saved state loads as its persisted form, a terminal status
  and the end of an execution stay whatever is saved later, and a rebuilt state is completed exactly
  when the log says so. Lemmas at the end show where saving and rebuilding lose something.
\<close>

section \<open>The cache of playbooks while a state is saved\<close>

definition keeps_entry :: "host \<Rightarrow> nat \<Rightarrow> string \<Rightarrow> playbook \<Rightarrow> nat \<Rightarrow> engine \<Rightarrow> bool" where
  "keeps_entry h t0 key pb room e \<longleftrightarrow>
     int (length (bc_entries (en_playbooks e)) + room) \<le> bc_max_size (en_playbooks e) \<and>
     (\<exists>i. t0 \<le> i \<and> i < en_ticks e \<and> map_of (bc_entries (en_playbooks e)) key = Some (pb, h_clock h i))"

lemma evict_full_room: "int (length c) < m \<Longrightarrow> evict_full m c = Inr c"
  by (cases c) auto

lemma cache_playbook_run:
  assumes "int (length (bc_entries (en_playbooks e))) < bc_max_size (en_playbooks e)"
  shows "cache_playbook h pb k e =
    (Inr (), e\<lparr>en_ticks := Suc (en_ticks e), en_playbooks := (en_playbooks e)
       \<lparr>bc_entries := AList.update k (pb, h_clock h (en_ticks e)) (bc_entries (en_playbooks e))\<rparr>\<rparr>)"
  using assms
  by (simp add: cache_playbook_def clock_def changing_def andthen_def cache_set_sync_def evict_full_room)

text \<open>A call that only registers playbooks: what it leaves alone, and how much of the cache it takes.\<close>

definition registers :: "host \<Rightarrow> playbook \<Rightarrow> nat \<Rightarrow> unit call \<Rightarrow> bool" where
  "registers h pb n m \<longleftrightarrow>
     (\<forall>t0 key room e. keeps_entry h t0 key pb (n + room) e \<longrightarrow>
        (\<exists>e'. m e = (Inr (), e') \<and> keeps_entry h t0 key pb room e'
           \<and> en_ticks e' \<le> en_ticks e + n \<and> en_ticks e \<le> en_ticks e'
           \<and> bc_ttl_seconds (en_playbooks e') = bc_ttl_seconds (en_playbooks e)
           \<and> e' = e\<lparr>en_ticks := en_ticks e', en_playbooks := en_playbooks e'\<rparr>))"

lemma registers_ret: "registers h pb n (ret ())"
  unfolding registers_def
proof (intro allI impI)
  fix t0 key room e
  assume "keeps_entry h t0 key pb (n + room) e"
  then have "keeps_entry h t0 key pb room e" by (auto simp: keeps_entry_def)
  then show "\<exists>e'. ret () e = (Inr (), e') \<and> keeps_entry h t0 key pb room e'
           \<and> en_ticks e' \<le> en_ticks e + n \<and> en_ticks e \<le> en_ticks e'
           \<and> bc_ttl_seconds (en_playbooks e') = bc_ttl_seconds (en_playbooks e)
           \<and> e' = e\<lparr>en_ticks := en_ticks e', en_playbooks := en_playbooks e'\<rparr>"
    by (simp add: ret_def)
qed

lemma registers_andthen:
  assumes m: "registers h pb n m" and m': "registers h pb k m'"
  shows "registers h pb (n + k) (andthen m (\<lambda>_. m'))"
  unfolding registers_def
proof (intro allI impI)
  fix t0 key room e
  assume "keeps_entry h t0 key pb (n + k + room) e"
  then have "keeps_entry h t0 key pb (n + (k + room)) e" by (simp add: add.assoc)
  then obtain e1 where e1: "m e = (Inr (), e1)" "keeps_entry h t0 key pb (k + room) e1"
      "en_ticks e1 \<le> en_ticks e + n" "en_ticks e \<le> en_ticks e1"
      "bc_ttl_seconds (en_playbooks e1) = bc_ttl_seconds (en_playbooks e)"
      "e1 = e\<lparr>en_ticks := en_ticks e1, en_playbooks := en_playbooks e1\<rparr>"
    using m unfolding registers_def by blast
  obtain e2 where e2: "m' e1 = (Inr (), e2)" "keeps_entry h t0 key pb room e2"
      "en_ticks e2 \<le> en_ticks e1 + k" "en_ticks e1 \<le> en_ticks e2"
      "bc_ttl_seconds (en_playbooks e2) = bc_ttl_seconds (en_playbooks e1)"
      "e2 = e1\<lparr>en_ticks := en_ticks e2, en_playbooks := en_playbooks e2\<rparr>"
    using m' e1(2) unfolding registers_def by blast
  have "e2 = e\<lparr>en_ticks := en_ticks e2, en_playbooks := en_playbooks e2\<rparr>"
    by (subst e2(6), subst e1(6)) simp
  with e1 e2 show "\<exists>e'. andthen m (\<lambda>_. m') e = (Inr (), e') \<and> keeps_entry h t0 key pb room e'
           \<and> en_ticks e' \<le> en_ticks e + (n + k) \<and> en_ticks e \<le> en_ticks e'
           \<and> bc_ttl_seconds (en_playbooks e') = bc_ttl_seconds (en_playbooks e)
           \<and> e' = e\<lparr>en_ticks := en_ticks e', en_playbooks := en_playbooks e'\<rparr>"
    by (intro exI [of _ e2]) (simp add: andthen_def)
qed

lemma registers_cache_playbook: "registers h pb 1 (cache_playbook h pb k)"
  unfolding registers_def
proof (intro allI impI)
  fix t0 key room e
  assume k: "keeps_entry h t0 key pb (1 + room) e"
  let ?e' = "e\<lparr>en_ticks := Suc (en_ticks e), en_playbooks := (en_playbooks e)
       \<lparr>bc_entries := AList.update k (pb, h_clock h (en_ticks e)) (bc_entries (en_playbooks e))\<rparr>\<rparr>"
  from k have room: "int (length (bc_entries (en_playbooks e))) < bc_max_size (en_playbooks e)"
    by (simp add: keeps_entry_def)
  from k obtain i where i: "t0 \<le> i" "i < en_ticks e"
      "map_of (bc_entries (en_playbooks e)) key = Some (pb, h_clock h i)"
    by (auto simp: keeps_entry_def)
  have "keeps_entry h t0 key pb room ?e'"
  proof (cases "key = k")
    case True
    with i k length_update_le [of k "(pb, h_clock h (en_ticks e))" "bc_entries (en_playbooks e)"]
    show ?thesis by (auto simp: keeps_entry_def intro: exI [of _ "en_ticks e"])
  next
    case False
    with i k length_update_le [of k "(pb, h_clock h (en_ticks e))" "bc_entries (en_playbooks e)"]
    show ?thesis by (auto simp: keeps_entry_def intro: exI [of _ i])
  qed
  then show "\<exists>e'. cache_playbook h pb k e = (Inr (), e') \<and> keeps_entry h t0 key pb room e'
           \<and> en_ticks e' \<le> en_ticks e + 1 \<and> en_ticks e \<le> en_ticks e'
           \<and> bc_ttl_seconds (en_playbooks e') = bc_ttl_seconds (en_playbooks e)
           \<and> e' = e\<lparr>en_ticks := en_ticks e', en_playbooks := en_playbooks e'\<rparr>"
    by (intro exI [of _ ?e']) (simp add: cache_playbook_run [OF room])
qed

lemma registers_each:
  assumes "\<And>x. registers h pb n (f x)"
  shows "registers h pb (n * length xs) (andthen (each f xs) (\<lambda>_. ret ()))"
proof (induction xs)
  case Nil
  show ?case by (simp add: registers_ret)
next
  case (Cons x xs)
  have eq: "andthen (each f (x # xs)) (\<lambda>_. ret ()) = andthen (f x) (\<lambda>_. andthen (each f xs) (\<lambda>_. ret ()))"
    by (simp add: andthen_assoc)
  show ?case unfolding eq using registers_andthen [OF assms [of x] Cons.IH] by simp
qed

lemma aliases_le: "length (playbook_aliases pb) \<le> 2"
  by (auto simp: playbook_aliases_def split: pyval.split)

lemma registers_more:
  assumes m: "registers h pb n m" and "n \<le> n'" shows "registers h pb n' m"
  unfolding registers_def
proof (intro allI impI)
  fix t0 key room e
  assume "keeps_entry h t0 key pb (n' + room) e"
  then have "keeps_entry h t0 key pb (n + room) e" using \<open>n \<le> n'\<close> by (auto simp: keeps_entry_def)
  then obtain e' where e': "m e = (Inr (), e')" "keeps_entry h t0 key pb room e'"
      "en_ticks e' \<le> en_ticks e + n" "en_ticks e \<le> en_ticks e'"
      "bc_ttl_seconds (en_playbooks e') = bc_ttl_seconds (en_playbooks e)"
      "e' = e\<lparr>en_ticks := en_ticks e', en_playbooks := en_playbooks e'\<rparr>"
    using m unfolding registers_def by blast
  then show "\<exists>e'. m e = (Inr (), e') \<and> keeps_entry h t0 key pb room e'
           \<and> en_ticks e' \<le> en_ticks e + n' \<and> en_ticks e \<le> en_ticks e'
           \<and> bc_ttl_seconds (en_playbooks e') = bc_ttl_seconds (en_playbooks e)
           \<and> e' = e\<lparr>en_ticks := en_ticks e', en_playbooks := en_playbooks e'\<rparr>"
    using \<open>n \<le> n'\<close> by (intro exI [of _ e']) auto
qed

lemma registers_register: "registers h pb 3 (register_playbook h pb k)"
proof -
  have "registers h pb (1 + 1 * length (playbook_aliases pb)) (register_playbook h pb k)"
    unfolding register_playbook_def
    by (intro registers_andthen registers_cache_playbook registers_each)
  then show ?thesis by (rule registers_more) (use aliases_le [of pb] in simp)
qed

section \<open>Saving and loading\<close>

lemma register_saved_keeps:
  assumes cat: "es_catalog_id s = VInt c" "c \<noteq> 0"
    and room: "int (length (bc_entries (en_playbooks e)) + 9) \<le> bc_max_size (en_playbooks e)"
  shows "\<exists>e'. register_saved h s e = (Inr (), e')
      \<and> keeps_entry h (en_ticks e) (id_key (VInt c)) (es_playbook s) 0 e'
      \<and> en_ticks e' \<le> en_ticks e + 9
      \<and> bc_ttl_seconds (en_playbooks e') = bc_ttl_seconds (en_playbooks e)
      \<and> e' = e\<lparr>en_ticks := en_ticks e', en_playbooks := en_playbooks e'\<rparr>"
proof -
  let ?pb = "es_playbook s" and ?k = "id_key (VInt c)"
  let ?rest = "andthen (andthen (each (cache_playbook h ?pb) (playbook_aliases ?pb)) (\<lambda>_. ret ()))
      (\<lambda>_. andthen (each (register_playbook h ?pb) (playbook_aliases ?pb)) (\<lambda>_. ret ()))"
  let ?e1 = "e\<lparr>en_ticks := Suc (en_ticks e), en_playbooks := (en_playbooks e)
       \<lparr>bc_entries := AList.update ?k (?pb, h_clock h (en_ticks e)) (bc_entries (en_playbooks e))\<rparr>\<rparr>"
  have first: "cache_playbook h ?pb ?k e = (Inr (), ?e1)"
    by (rule cache_playbook_run) (use room in simp)
  have split: "register_saved h s = andthen (cache_playbook h ?pb ?k) (\<lambda>_. ?rest)"
    using cat by (simp add: register_saved_def register_playbook_def andthen_assoc)
  have k1: "keeps_entry h (en_ticks e) ?k ?pb (8 + 0) ?e1"
    using room length_update_le [of ?k "(?pb, h_clock h (en_ticks e))" "bc_entries (en_playbooks e)"]
    by (auto simp: keeps_entry_def intro: exI [of _ "en_ticks e"])
  have "registers h ?pb (1 * length (playbook_aliases ?pb) + 3 * length (playbook_aliases ?pb)) ?rest"
    by (intro registers_andthen registers_each registers_cache_playbook registers_register)
  then have "registers h ?pb 8 ?rest" by (rule registers_more) (use aliases_le [of ?pb] in simp)
  then obtain e' where e': "?rest ?e1 = (Inr (), e')" "keeps_entry h (en_ticks e) ?k ?pb 0 e'"
      "en_ticks e' \<le> en_ticks ?e1 + 8" "bc_ttl_seconds (en_playbooks e') = bc_ttl_seconds (en_playbooks ?e1)"
      "e' = ?e1\<lparr>en_ticks := en_ticks e', en_playbooks := en_playbooks e'\<rparr>"
    using k1 unfolding registers_def by blast
  have "e' = e\<lparr>en_ticks := en_ticks e', en_playbooks := en_playbooks e'\<rparr>" by (subst e'(5)) simp
  moreover have "register_saved h s e = (Inr (), e')"
    unfolding split using e'(1) by (simp only: andthen_def [of "cache_playbook h ?pb ?k"] first prod.case sum.case)
  ultimately show ?thesis using e' by (intro exI [of _ e']) simp
qed

lemma find_on_execution:
  "(\<And>r. xr_execution_id (f r) = xr_execution_id r) \<Longrightarrow>
   find (\<lambda>r. xr_execution_id r = x) (on_execution x f rows)
     = map_option f (find (\<lambda>r. xr_execution_id r = x) rows)"
  by (induction rows) (auto simp: on_execution_def)

lemma saved_over_id [simp]: "xr_execution_id (saved_over now st n js r) = xr_execution_id r"
  and saved_over_catalog [simp]: "xr_catalog_id (saved_over now st n js r) = xr_catalog_id r"
  and saved_over_state [simp]: "xr_state (saved_over now st n js r) = js"
  by (simp_all add: saved_over_def)

lemma find_exists: "list_ex P xs \<Longrightarrow> \<exists>r \<in> set xs. find P xs = Some r"
  by (induction xs) auto

lemma find_append: "find P (xs @ ys) = (case find P xs of None \<Rightarrow> find P ys | Some r \<Rightarrow> Some r)"
  by (induction xs) auto

text \<open>The row of an execution right after it was saved.\<close>

lemma saved_row:
  assumes "es_catalog_id s = VInt c" and "py_int (es_execution_id s) = Inr x"
    and "list_all (\<lambda>r. xr_execution_id r = x \<longrightarrow> xr_catalog_id r = c) rows"
    and "saved_rows now s rows = Inr rows'"
  shows "\<exists>r. find (\<lambda>r. xr_execution_id r = x) rows' = Some r \<and> xr_catalog_id r = c
     \<and> xr_state r = VDict (state_to_dict s)"
proof -
  from assms obtain p n where rows': "rows' = upsert_execution now x c p (saved_status s) n (VDict (state_to_dict s)) rows"
    by (auto simp: saved_rows_def Let_def rbind_Inr_iff)
  show ?thesis
  proof (cases "list_ex (\<lambda>r. xr_execution_id r = x) rows")
    case True
    from find_exists [OF True] obtain r where r: "r \<in> set rows" "find (\<lambda>r. xr_execution_id r = x) rows = Some r"
      by blast
    moreover have "xr_execution_id r = x" using r(2) by (auto simp: find_Some_iff)
    ultimately show ?thesis using True assms(3)
      by (auto simp: rows' upsert_execution_def find_on_execution list_all_iff)
  next
    case False
    then have "find (\<lambda>r. xr_execution_id r = x) rows = None" by (auto simp: find_None_iff list_ex_iff)
    with False show ?thesis by (simp add: rows' upsert_execution_def find_append first_saved_def)
  qed
qed

lemma state_to_dict_nonempty: "state_to_dict s \<noteq> []"
  by (simp add: state_to_dict_def)

text \<open>
  C24. What is saved is what is loaded: right after a save outside a handled event, loading the
  execution gives the persisted form of the saved state read back with the playbook of that state.
  The playbook is found in the cache, into which the save put it, when the cache has room for the
  names it is filed under and the clock does not pass its lifetime meanwhile.
\<close>
theorem save_then_load:
  assumes outside: "en_buffer e = None"
    and cat: "es_catalog_id (en_state e) = VInt c" "c \<noteq> 0"
    and x: "py_int (es_execution_id (en_state e)) = Inr x"
    and same: "list_all (\<lambda>r. xr_execution_id r = x \<longrightarrow> xr_catalog_id r = c) (en_executions e)"
    and room: "int (length (bc_entries (en_playbooks e)) + 9) \<le> bc_max_size (en_playbooks e)"
    and fresh: "\<And>i j. i \<in> {en_ticks e .. en_ticks e + 10} \<Longrightarrow> j \<in> {en_ticks e .. en_ticks e + 10}
        \<Longrightarrow> h_clock h j - h_clock h i \<le> bc_ttl_seconds (en_playbooks e)"
    and saved: "save_state h e = (Inr (), e')"
  shows "fst (load_state h (es_execution_id (en_state e)) e')
     = rbind (state_from_dict (state_to_dict (en_state e)) (es_playbook (en_state e))) (\<lambda>s. Inr (Some s))"
proof -
  let ?s = "en_state e" and ?k = "id_key (VInt c)"
  from register_saved_keeps [OF cat room, of h] obtain e1 where
    e1: "register_saved h ?s e = (Inr (), e1)" and k1: "keeps_entry h (en_ticks e) ?k (es_playbook ?s) 0 e1"
    and t1: "en_ticks e1 \<le> en_ticks e + 9" and ttl1: "bc_ttl_seconds (en_playbooks e1) = bc_ttl_seconds (en_playbooks e)"
    and e1_eq: "e1 = e\<lparr>en_ticks := en_ticks e1, en_playbooks := en_playbooks e1\<rparr>" by blast
  let ?now = "h_clock h (en_ticks e1)"
  have execs: "en_executions e1 = en_executions e" by (subst e1_eq) simp
  have "save_now h e = (Inr (), e')" using saved outside by (simp add: save_state_def reading_def andthen_def)
  then obtain rows' where rows': "saved_rows ?now ?s (en_executions e) = Inr rows'"
    and e': "e' = e1\<lparr>en_ticks := Suc (en_ticks e1), en_executions := rows'\<rparr>"
    by (auto simp: save_now_def state_of_def reading_def andthen_def e1 clock_def pure_def changing_def execs
        split: sum.splits)
  from saved_row [OF cat(1) x same rows'] obtain r where r: "find (\<lambda>r. xr_execution_id r = x) rows' = Some r"
      "xr_catalog_id r = c" "xr_state r = VDict (state_to_dict ?s)" by blast
  from k1 obtain i where i: "en_ticks e \<le> i" "i < en_ticks e1"
      "map_of (bc_entries (en_playbooks e1)) ?k = Some (es_playbook ?s, h_clock h i)"
    by (auto simp: keeps_entry_def)
  have "h_clock h (Suc (en_ticks e1)) - h_clock h i \<le> bc_ttl_seconds (en_playbooks e1)"
    unfolding ttl1 by (rule fresh) (use i t1 in auto)
  then have hit: "fst (cached_playbook h ?k e') = Inr (Some (es_playbook ?s))"
    using i(3) by (simp add: cached_playbook_def clock_def andthen_def e' cache_get_def)
  obtain e2 where e2: "cached_playbook h ?k e' = (Inr (Some (es_playbook ?s)), e2)"
    using hit by (metis prod.collapse)
  have "playbook_of_row h r (state_to_dict ?s) e' = (Inr (Some (es_playbook ?s)), e2)"
    using cat(2) by (simp add: playbook_of_row_def r(2) load_playbook_by_id_def andthen_def e2 ret_def)
  then have "load_from_row h (Some r) e'
      = andthen (pure (state_from_dict (state_to_dict ?s) (es_playbook ?s))) (\<lambda>s. ret (Some s)) e2"
    by (simp add: load_from_row_def r(3) state_to_dict_nonempty andthen_def)
  moreover have "fst (load_state h (es_execution_id ?s) e') = fst (load_from_row h (Some r) e')"
    if "\<exists>v. fst (load_from_row h (Some r) e') = Inr (Some v)
        \<or> (\<exists>z. fst (load_from_row h (Some r) e') = Inl z)"
    using that by (auto simp: load_state_def x reading_def andthen_def e' r(1) ret_def
        split: prod.split sum.split option.split)
  ultimately show ?thesis
    by (cases "state_from_dict (state_to_dict ?s) (es_playbook ?s)") (simp_all add: ret_def raises_def)
qed

lemma sample_saved: "fst (save_state sample_host sample_engine) = Inr ()"
  by code_simp

theorem save_then_load_witness:
  "\<exists>e'. save_state sample_host sample_engine = (Inr (), e')
     \<and> fst (load_state sample_host (VStr ''7'') e')
       = rbind (state_from_dict (state_to_dict (en_state sample_engine)) sample_playbook) (\<lambda>s. Inr (Some s))"
proof -
  obtain e' where e': "save_state sample_host sample_engine = (Inr (), e')"
    using sample_saved by (cases "save_state sample_host sample_engine") simp
  have exec: "es_execution_id (en_state sample_engine) = VStr ''7''" "es_playbook (en_state sample_engine) = sample_playbook"
    "es_catalog_id (en_state sample_engine) = VInt 3"
    by (simp_all add: sample_engine_def new_execution_state_def)
  have "py_int (VStr ''7'') = Inr 7" by code_simp
  then have "fst (load_state sample_host (es_execution_id (en_state sample_engine)) e')
     = rbind (state_from_dict (state_to_dict (en_state sample_engine)) (es_playbook (en_state sample_engine)))
         (\<lambda>s. Inr (Some s))"
    by (intro save_then_load [where c = 3 and x = 7, OF _ _ _ _ _ _ _ e'])
      (auto simp: exec sample_engine_def sample_host_def new_bounded_cache_def new_execution_state_def)
  then show ?thesis using e' unfolding exec by blast
qed

section \<open>What stays once an execution has ended\<close>

datatype row_write = Saved int exec_state | Advanced int pyval pyval

text \<open>A write that raises leaves the table.\<close>

definition write_row :: "row_write \<Rightarrow> execution_tuple list \<Rightarrow> execution_tuple list" where
  "write_row w rows =
     (case w of
        Saved now s \<Rightarrow> (case saved_rows now s rows of Inl _ \<Rightarrow> rows | Inr rows' \<Rightarrow> rows')
      | Advanced now execution_id event_id \<Rightarrow>
          (case (last_event_number event_id, py_int execution_id) of
             (Inr n, Inr x) \<Rightarrow> on_execution x (advanced_to now n) rows
           | _ \<Rightarrow> rows))"

definition last_number :: "execution_tuple \<Rightarrow> int" where
  "last_number r = (case xr_last_event_id r of None \<Rightarrow> 0 | Some i \<Rightarrow> i)"

definition ended_like :: "execution_tuple \<Rightarrow> execution_tuple \<Rightarrow> bool" where
  "ended_like r r' \<longleftrightarrow>
     xr_status r' = xr_status r \<and> xr_end_time r' = xr_end_time r \<and> last_number r \<le> last_number r'"

definition row_of :: "int \<Rightarrow> execution_tuple list \<Rightarrow> execution_tuple option" where
  "row_of x rows = find (\<lambda>r. xr_execution_id r = x) rows"

lemma row_of_on_execution:
  "(\<And>r. xr_execution_id (f r) = xr_execution_id r) \<Longrightarrow>
   row_of x (on_execution y f rows) = map_option (\<lambda>r. if x = y then f r else r) (row_of x rows)"
  by (induction rows) (auto simp: row_of_def on_execution_def)

lemma advanced_to_id [simp]: "xr_execution_id (advanced_to now n r) = xr_execution_id r"
  by (simp add: advanced_to_def)

lemma ended_like_refl: "ended_like r r"
  by (simp add: ended_like_def)

lemma ended_like_saved:
  "xr_status r \<in> set terminal_statuses \<Longrightarrow> xr_end_time r = Some t \<Longrightarrow>
   ended_like r (saved_over now st n js (r\<lparr>xr_parent_execution_id := p\<rparr>))
   \<and> ended_like r (saved_over now st n js r)"
  by (auto simp: ended_like_def saved_over_def last_number_def)

lemma ended_like_advanced: "ended_like r (advanced_to now n r)"
  by (auto simp: ended_like_def advanced_to_def last_number_def)

lemma ended_like_keeps:
  "ended_like r r' \<Longrightarrow> xr_status r \<in> set terminal_statuses \<Longrightarrow> xr_end_time r = Some t \<Longrightarrow>
   xr_status r' \<in> set terminal_statuses \<and> xr_end_time r' = Some t"
  by (simp add: ended_like_def)

lemma upsert_row_of:
  assumes "row_of x rows = Some r" and st: "xr_status r \<in> set terminal_statuses" and t: "xr_end_time r = Some t"
  shows "\<exists>r'. row_of x (upsert_execution now y c p stat n js rows) = Some r' \<and> ended_like r r'"
proof (cases "list_ex (\<lambda>r. xr_execution_id r = y) rows")
  case True
  let ?f = "\<lambda>r. saved_over now stat n js (r\<lparr>xr_parent_execution_id :=
      (case xr_parent_execution_id r of None \<Rightarrow> p | Some q \<Rightarrow> Some q)\<rparr>)"
  have "row_of x (on_execution y ?f rows) = map_option (\<lambda>r. if x = y then ?f r else r) (row_of x rows)"
    by (rule row_of_on_execution) simp
  then show ?thesis using True assms(1) ended_like_saved [OF st t] ended_like_refl
    by (simp add: upsert_execution_def)
next
  case False
  then have "row_of x (upsert_execution now y c p stat n js rows) = Some r"
    using assms(1) by (simp add: upsert_execution_def row_of_def find_append)
  then show ?thesis using ended_like_refl by blast
qed

lemma write_row_of:
  assumes r: "row_of x rows = Some r" and st: "xr_status r \<in> set terminal_statuses" and t: "xr_end_time r = Some t"
  shows "\<exists>r'. row_of x (write_row w rows) = Some r' \<and> ended_like r r'"
proof (cases w)
  case (Saved now s)
  let ?js = "VDict (state_to_dict s)"
  show ?thesis
  proof (cases "saved_rows now s rows")
    case (Inl z)
    with Saved r ended_like_refl show ?thesis by (simp add: write_row_def)
  next
    case (Inr rows')
    consider n y where "rows' = on_execution y (saved_over now (saved_status s) n ?js) rows"
      | y c p n where "rows' = upsert_execution now y c p (saved_status s) n ?js rows"
      using Inr by (auto simp: saved_rows_def Let_def rbind_Inr_iff split: if_splits)
    then have "\<exists>r'. row_of x rows' = Some r' \<and> ended_like r r'"
    proof cases
      case 1
      then show ?thesis using r ended_like_saved [OF st t] ended_like_refl by (simp add: row_of_on_execution)
    next
      case 2
      then show ?thesis using upsert_row_of [OF r st t] by simp
    qed
    then show ?thesis using Saved Inr by (simp add: write_row_def)
  qed
next
  case (Advanced now execution_id event_id)
  with r show ?thesis using ended_like_advanced ended_like_refl
    by (auto simp: write_row_def row_of_on_execution split: sum.split)
qed

text \<open>
  C25. Once the row of an execution has a terminal status it keeps that status and the time the
  execution ended, whatever states are saved and whatever late events advance it, in any order; its
  last event id never decreases.
\<close>
theorem ended_execution_stays:
  assumes "row_of x rows = Some r" and "xr_status r \<in> set terminal_statuses" and "xr_end_time r = Some t"
  shows "\<exists>r'. row_of x (foldl (\<lambda>rs w. write_row w rs) rows writes) = Some r' \<and> ended_like r r'"
  using assms
proof (induction writes arbitrary: rows r)
  case Nil
  then show ?case using ended_like_refl by auto
next
  case (Cons w writes)
  from write_row_of [OF Cons.prems] obtain r1 where
    r1: "row_of x (write_row w rows) = Some r1" "ended_like r r1" by blast
  from Cons.IH [OF r1(1)] ended_like_keeps [OF r1(2) Cons.prems(2,3)] obtain r' where
    "row_of x (foldl (\<lambda>rs w. write_row w rs) (write_row w rows) writes) = Some r'" "ended_like r1 r'" by blast
  moreover have "ended_like r r'" using r1(2) calculation(2) by (auto simp: ended_like_def)
  ultimately show ?case by simp
qed

definition ended_rows :: "execution_tuple list" where
  "ended_rows = [first_saved 5 7 3 None ''COMPLETED'' 40 (VDict [])]"

definition late_writes :: "row_write list" where
  "late_writes = [Advanced 8 (VStr ''7'') (VInt 41),
     Saved 9 ((en_state sample_engine)\<lparr>es_failed := True, es_last_event_id := VInt 12\<rparr>)]"

theorem ended_execution_stays_witness:
  "row_of 7 ended_rows = Some (hd ended_rows) \<and> map_option xr_status (row_of 7 (foldl (\<lambda>rs w. write_row w rs)
      ended_rows late_writes)) = Some ''COMPLETED''"
proof -
  have r: "row_of 7 ended_rows = Some (hd ended_rows)" by (simp add: row_of_def ended_rows_def first_saved_def)
  obtain r' where "row_of 7 (foldl (\<lambda>rs w. write_row w rs) ended_rows late_writes) = Some r'"
      "ended_like (hd ended_rows) r'"
    using ended_execution_stays [OF r, of 5 late_writes]
    by (auto simp: ended_rows_def first_saved_def terminal_statuses_def)
  then show ?thesis using r by (simp add: ended_like_def) (simp add: ended_rows_def first_saved_def)
qed

section \<open>Rebuilt states\<close>

text \<open>Loading a playbook touches the cache and the clock only.\<close>

definition playbooks_only :: "engine \<Rightarrow> engine \<Rightarrow> bool" where
  "playbooks_only e e' \<longleftrightarrow> e' = e\<lparr>en_ticks := en_ticks e', en_playbooks := en_playbooks e'\<rparr>"

definition only_playbooks :: "'a call \<Rightarrow> bool" where
  "only_playbooks m \<longleftrightarrow> (\<forall>e. playbooks_only e (snd (m e)))"

lemma playbooks_only_trans: "playbooks_only e e1 \<Longrightarrow> playbooks_only e1 e2 \<Longrightarrow> playbooks_only e e2"
  unfolding playbooks_only_def by (erule ssubst, erule ssubst) simp

lemma only_playbooks_ret [intro, simp]: "only_playbooks (ret x)"
  by (simp add: only_playbooks_def ret_def playbooks_only_def)

lemma only_playbooks_reading [intro, simp]: "only_playbooks (reading f)"
  by (simp add: only_playbooks_def reading_def playbooks_only_def)

lemma only_playbooks_clock [intro, simp]: "only_playbooks (clock h)"
  by (simp add: only_playbooks_def clock_def playbooks_only_def)

lemma only_playbooks_andthen [intro]:
  "only_playbooks m \<Longrightarrow> (\<And>x. only_playbooks (f x)) \<Longrightarrow> only_playbooks (andthen m f)"
  unfolding only_playbooks_def andthen_def
  by (auto split: prod.split sum.split) (metis playbooks_only_trans snd_conv)+

lemma only_playbooks_attempt [intro]: "only_playbooks m \<Longrightarrow> only_playbooks (attempt m)"
  unfolding only_playbooks_def attempt_def by (auto split: prod.split sum.split) (metis snd_conv)+

lemma only_playbooks_each [intro]: "(\<And>x. only_playbooks (f x)) \<Longrightarrow> only_playbooks (each f xs)"
  by (induction xs) auto

lemma only_playbooks_cached [simp]: "only_playbooks (cached_playbook h key)"
  unfolding cached_playbook_def
  by (intro only_playbooks_andthen only_playbooks_clock)
    (simp add: only_playbooks_def playbooks_only_def split: prod.split)

lemma only_playbooks_keep [simp]: "only_playbooks (keep_playbook h keys pb)"
  unfolding keep_playbook_def
  by (intro only_playbooks_andthen only_playbooks_attempt only_playbooks_each only_playbooks_clock only_playbooks_ret)
    (simp add: only_playbooks_def playbooks_only_def split: prod.split sum.split)

lemma only_playbooks_load_by_id: "only_playbooks (load_playbook_by_id h c)"
  unfolding load_playbook_by_id_def parse_and_keep_def
  by (intro only_playbooks_andthen only_playbooks_cached)
    (auto split: option.split intro!: only_playbooks_andthen)

lemma load_by_id_events:
  assumes "load_playbook_by_id h c e = (r, e')"
  shows "en_events e' = en_events e \<and> en_commands e' = en_commands e"
proof -
  have eq: "e' = e\<lparr>en_ticks := en_ticks e', en_playbooks := en_playbooks e'\<rparr>"
    using only_playbooks_load_by_id [of h c] assms
    by (auto simp: only_playbooks_def playbooks_only_def) (metis snd_conv)
  show ?thesis by (subst (1 2) eq) simp
qed

text \<open>The flags of an execution while its commands and events are replayed.\<close>

definition flags :: "exec_state \<Rightarrow> bool \<times> bool" where
  "flags s = (es_completed s, es_failed s)"

lemma flags_simps [simp]:
  "flags (s\<lparr>es_last_event_id := i\<rparr>) = flags s"
  "flags (s\<lparr>es_step_event_ids := ids\<rparr>) = flags s"
  "flags (s\<lparr>es_variables := vs\<rparr>) = flags s"
  "flags (with_loop st ls s) = flags s"
  "flags (mark_step_completed resolve n v s) = flags s"
  by (simp_all add: flags_def with_loop_def mark_step_completed_def Let_def)

lemma flags_command: "flags (replay_command s c) = flags s"
  by (simp add: replay_command_def loop_of_command_def issued_before_def Let_def flags_def with_loop_def
      split: option.split)

lemma flags_commands: "flags (foldl replay_command s cs) = flags s"
  by (induction cs arbitrary: s) (simp_all add: flags_command)

lemma flags_add_loop_result: "add_loop_result c st v b s = Inr s' \<Longrightarrow> flags s' = flags s"
  by (auto simp: add_loop_result_def Let_def rbind_Inr_iff split: option.splits if_splits)

lemma flags_counted: "counted_to_end st s = Inr s' \<Longrightarrow> flags s' = flags s"
  by (auto simp: counted_to_end_def rbind_Inr_iff split: option.splits)

lemma flags_loop_result: "replay_loop_result h step l v s = Inr s' \<Longrightarrow> flags s' = flags s"
  by (auto simp: replay_loop_result_def Let_def rbind_Inr_iff
      dest!: flags_add_loop_result flags_counted split: if_splits)

lemma flags_set: "replay_set h now row n ms v s = Inr s' \<Longrightarrow> flags s' = flags s"
  by (auto simp: replay_set_def rbind_Inr_iff)

lemma flags_result: "replay_result h now row n s = Inr s' \<Longrightarrow> flags s' = flags s"
  by (auto simp: replay_result_def Let_def rbind_Inr_iff dest!: flags_loop_result flags_set
      split: if_splits option.splits)

lemma flags_seen: "flags (seen_event row s) = flags s"
  by (simp add: seen_event_def Let_def split: option.split)

definition completing_types :: "string list" where
  "completing_types = [''workflow.failed'', ''playbook.failed'', ''workflow.completed'', ''playbook.completed'',
     ''execution.cancelled'']"

definition failing_types :: "string list" where
  "failing_types = [''workflow.failed'', ''playbook.failed'']"

lemma flags_event:
  assumes "replay_event h now row s = Inr s'" and "we_event_type row \<in> set state_replay_event_types"
  shows "es_completed s' = (es_completed s \<or> we_event_type row \<in> set completing_types)
     \<and> es_failed s' = (es_failed s \<or> we_event_type row \<in> set failing_types)"
proof -
  have seen: "es_completed (seen_event row s) = es_completed s" "es_failed (seen_event row s) = es_failed s"
    using flags_seen [of row s] by (simp_all add: flags_def)
  from assms(2) consider "we_event_type row \<in> {''workflow.failed'', ''playbook.failed''}"
    | "we_event_type row \<in> {''workflow.completed'', ''playbook.completed'', ''execution.cancelled''}"
    | "we_event_type row \<in> {''call.error'', ''loop.done''}"
    | "we_event_type row \<in> {''step.exit'', ''call.done''}"
    by (auto simp: state_replay_event_types_def)
  then show ?thesis
  proof cases
    case 4
    then have "flags s' = flags (seen_event row s)"
      using assms(1) by (auto simp: replay_event_def Let_def dest: flags_result split: option.splits if_splits)
    moreover have "we_event_type row \<notin> set completing_types" "we_event_type row \<notin> set failing_types"
      using 4 by (auto simp: completing_types_def failing_types_def)
    ultimately show ?thesis using seen by (simp add: flags_def)
  qed (use assms(1) seen in \<open>auto simp: replay_event_def Let_def completing_types_def failing_types_def\<close>)
qed

lemma flags_events:
  assumes "replay_events h now rows s = Inr s'" and "set (map we_event_type rows) \<subseteq> set state_replay_event_types"
  shows "es_completed s' = (es_completed s \<or> list_ex (\<lambda>r. we_event_type r \<in> set completing_types) rows)
     \<and> es_failed s' = (es_failed s \<or> list_ex (\<lambda>r. we_event_type r \<in> set failing_types) rows)"
  using assms
proof (induction rows arbitrary: s)
  case (Cons r rows)
  from Cons.prems(1) obtain s1 where s1: "replay_event h now r s = Inr s1" "replay_events h now rows s1 = Inr s'"
    by (auto simp: rbind_Inr_iff)
  have "we_event_type r \<in> set state_replay_event_types" using Cons.prems(2) by simp
  from flags_event [OF s1(1) this] Cons.IH [OF s1(2)] Cons.prems(2) show ?case by auto
qed simp

lemma completing_replayed: "set completing_types \<subseteq> set state_replay_event_types"
  "set failing_types \<subseteq> set state_replay_event_types"
  by (auto simp: completing_types_def failing_types_def state_replay_event_types_def)

text \<open>
  C26. A state rebuilt from the tables is completed exactly when the log of the execution holds an
  event that ends a workflow or playbook or cancels the execution, and failed exactly when it holds
  one that fails them, whatever else the log and the command table hold.
\<close>
theorem rebuilt_flags_follow_log:
  assumes "load_from_init_event h x row e = (Inr (Some s), e')"
  shows "es_completed s = list_ex (\<lambda>r. we_execution_id r = x \<and> we_event_type r \<in> set completing_types) (en_events e)
     \<and> es_failed s = list_ex (\<lambda>r. we_execution_id r = x \<and> we_event_type r \<in> set failing_types) (en_events e)"
proof -
  let ?new = "\<lambda>pb. new_execution_state x pb (extract_init_workload (we_context row) (we_result row))
      (we_catalog_id row) VNone"
  from assms obtain pb e1 where load: "load_playbook_by_id h (we_catalog_id row) e = (Inr (Some pb), e1)"
    and run: "andthen (replay_execution_events h (?new pb)) (\<lambda>s. ret (Some s)) e1 = (Inr (Some s), e')"
    unfolding load_from_init_event_def by (elim andthen_InrE) (auto simp: ret_def split: option.splits)
  let ?s1 = "foldl replay_command (?new pb) (filter (\<lambda>c. wc_execution_id c = x) (en_commands e1))"
  let ?rows = "replayed_rows x e1"
  obtain now where replay: "replay_events h now ?rows ?s1 = Inr s"
    using run by (auto simp: replay_execution_events_def andthen_def reading_def clock_def pure_def ret_def
        new_execution_state_def split: sum.splits)
  have "set (map we_event_type ?rows) \<subseteq> set state_replay_event_types"
    by (auto simp: replayed_rows_def by_event_id_def)
  from flags_events [OF replay this] have s: "es_completed s = (es_completed ?s1
        \<or> list_ex (\<lambda>r. we_event_type r \<in> set completing_types) ?rows)
      \<and> es_failed s = (es_failed ?s1 \<or> list_ex (\<lambda>r. we_event_type r \<in> set failing_types) ?rows)" .
  moreover have "\<not> es_completed ?s1" "\<not> es_failed ?s1"
    using flags_commands [of "?new pb" "filter (\<lambda>c. wc_execution_id c = x) (en_commands e1)"]
    by (simp_all add: flags_def new_execution_state_def)
  moreover have "en_events e1 = en_events e" using load_by_id_events [OF load] by simp
  ultimately show ?thesis using completing_replayed
    by (auto simp: replayed_rows_def by_event_id_def list_ex_iff)
qed

definition failed_log_engine :: engine where
  "failed_log_engine = sample_engine\<lparr>
     en_playbooks := cache_set_sync 0 (id_key (VInt 3)) sample_playbook (en_playbooks sample_engine),
     en_events := en_events (snd (persist_event sample_host (sample_event ''workflow.failed'' ''workflow'' 1)
       (snd (persist_event sample_host (sample_event ''playbook.initialized'' ''p'' 1) sample_engine))))\<rparr>"

theorem rebuilt_flags_follow_log_witness:
  "\<exists>s e'. load_from_init_event sample_host (VStr ''7'') (hd (en_events failed_log_engine)) failed_log_engine
      = (Inr (Some s), e') \<and> es_completed s \<and> es_failed s"
proof -
  have "case fst (load_from_init_event sample_host (VStr ''7'') (hd (en_events failed_log_engine)) failed_log_engine) of
      Inr (Some s) \<Rightarrow> True | _ \<Rightarrow> False"
    by code_simp
  then obtain s e' where run: "load_from_init_event sample_host (VStr ''7'') (hd (en_events failed_log_engine))
      failed_log_engine = (Inr (Some s), e')"
    by (cases "load_from_init_event sample_host (VStr ''7'') (hd (en_events failed_log_engine)) failed_log_engine")
      (auto split: sum.splits option.splits)
  have "list_ex (\<lambda>r. we_execution_id r = VStr ''7'' \<and> we_event_type r \<in> set failing_types) (en_events failed_log_engine)"
    by code_simp
  then show ?thesis using rebuilt_flags_follow_log [OF run] run
    by (auto simp: list_ex_iff failing_types_def completing_types_def)
qed

section \<open>What saving and rebuilding lose\<close>

text \<open>
  A failure that the workflow goes on to handle already ends the execution in its projection: the
  row gets a terminal status and an end while the state is not completed, and both stay.
\<close>

lemma handled_failure_ends_row:
  assumes "es_failed s" and "xr_end_time r = None"
  shows "xr_status (saved_over now (saved_status s) n js r) \<in> set terminal_statuses
     \<and> xr_end_time (saved_over now (saved_status s) n js r) = Some now"
  using assms by (simp add: saved_over_def saved_status_def terminal_statuses_def)

text \<open>
  The direct resolution of a locator hands the store a dictionary without a kind, which it returns as
  inline data: the result of a step whose reference cannot be resolved is replaced by that dictionary.
\<close>

lemma unresolved_result_is_replaced:
  assumes "hydrated_reference h d = None" and "truthy (py_get (dict_or_empty (py_get d ''reference'')) ''locator'')"
  shows "try_hydrate h d =
    Some (VDict [(''ref'', py_get (dict_or_empty (py_get d ''reference'')) ''locator'')])"
  using assms by (simp add: try_hydrate_def store_resolve_def py_or_def Let_def)

text \<open>The events selected for a replay do not include the type its first branch is for.\<close>

lemma command_failed_not_replayed: "''command.failed'' \<notin> set state_replay_event_types"
  by (simp add: state_replay_event_types_def)

text \<open>An iteration of a loop whose step emits both of its events is counted twice.\<close>

definition looping_playbook :: playbook where
  "looping_playbook = sample_playbook\<lparr>pb_workflow := [(hd (pb_workflow sample_playbook))
     \<lparr>st_step := ''a'', st_loop := Some \<lparr>ld_in = Some ''{{ items }}'', ld_cursor = None, ld_iterator = ''it'',
       ld_mode = None, ld_max_in_flight = VNone, ld_frame = None\<rparr>\<rparr>]\<rparr>"

definition result_row :: "string \<Rightarrow> int \<Rightarrow> event_row" where
  "result_row typ i = event_row_of (en_state sample_engine)
     ((sample_event typ ''a'' 1)\<lparr>ev_payload := VDict [(''result'', VDict [(''status'', VStr ''ok'')])]\<rparr>)
     (VInt 3) i VNone 0"

lemma iteration_counted_twice:
  "(case replay_events sample_host 1 [result_row ''call.done'' 1, result_row ''step.exit'' 2]
       (new_execution_state (VStr ''7'') looping_playbook [] (VInt 3) VNone) of
     Inl _ \<Rightarrow> False | Inr s \<Rightarrow> get_loop_completed_count ''a'' s = Inr 2)"
  by code_simp

text \<open>A single finished command of a loop step marks the step as completed in a rebuilt state.\<close>

lemma one_command_completes_step:
  assumes "wc_status c = ''COMPLETED''" and "wc_step_name c = st @ task_sequence_suffix"
    and "pending_step_key (Some (wc_step_name c)) = st" and "st \<noteq> []"
  shows "st \<in> set (es_completed_steps (replay_command s c))"
  using assms by (auto simp: replay_command_def loop_of_command_def issued_before_def Let_def with_loop_def
      add_step_def terminal_statuses_def split: option.split)

end
