(* ===== verification/Lifecycle_Theorems.thy ===== *)
theory Lifecycle_Theorems
  imports Lifecycle Routing_Theorems State_Store_Theorems
begin

text \<open>
  What starting and ending an execution guarantee: a start logs its two lifecycle events first,
  chained to each other, and leaves the execution running with its state in its row; an abandoned
  execution is ended once. The lemmas at the end show what a start loses.
\<close>

section \<open>What a start leaves\<close>

lemma only_playbooks_register: "only_playbooks (register_playbook h pb k)"
proof -
  have "only_playbooks (cache_playbook h pb k)" for k
    unfolding cache_playbook_def
    by (intro only_playbooks_andthen only_playbooks_clock)
      (simp add: only_playbooks_def changing_def playbooks_only_def)
  then show ?thesis unfolding register_playbook_def
    by (intro only_playbooks_andthen only_playbooks_each only_playbooks_ret)
qed

lemma only_playbooks_register_saved: "only_playbooks (register_saved h s)"
  unfolding register_saved_def
  by (intro only_playbooks_andthen only_playbooks_each only_playbooks_ret) (simp add: only_playbooks_register)+

lemma save_now_effect:
  assumes "save_now h e = (Inr u, e')"
  shows "\<exists>now rows'. saved_rows now (en_state e) (en_executions e) = Inr rows' \<and> en_executions e' = rows'
    \<and> en_state e' = en_state e \<and> en_events e' = en_events e \<and> en_commands e' = en_commands e
    \<and> en_buffer e' = en_buffer e \<and> en_next_id e' = en_next_id e"
proof -
  obtain r e1 where reg: "register_saved h (en_state e) e = (r, e1)" by fastforce
  have "playbooks_only e e1"
    using only_playbooks_register_saved [of h "en_state e"] reg unfolding only_playbooks_def by (metis snd_conv)
  then obtain t pbs where e1: "e1 = e\<lparr>en_ticks := t, en_playbooks := pbs\<rparr>" by (auto simp: playbooks_only_def)
  show ?thesis using assms
    by (auto simp: save_now_def state_of_def reading_def andthen_def reg e1 clock_def pure_def changing_def
        split: sum.splits prod.splits)
qed

lemma save_state_effect:
  assumes "save_state h e = (Inr u, e')"
  shows "en_state e' = en_state e \<and> en_events e' = en_events e \<and> en_commands e' = en_commands e
    \<and> en_next_id e' = en_next_id e \<and> (en_buffer e = None \<longrightarrow> en_buffer e' = None \<and>
       (\<exists>now. saved_rows now (en_state e) (en_executions e) = Inr (en_executions e')))"
proof (cases "en_buffer e")
  case None
  then have "save_now h e = (Inr u, e')" using assms by (simp add: save_state_def reading_def andthen_def)
  from save_now_effect [OF this] None show ?thesis by auto
next
  case (Some n)
  then show ?thesis using assms by (auto simp: save_state_def reading_def andthen_def changing_def)
qed

definition row_after :: "engine \<Rightarrow> string \<Rightarrow> pyval" where
  "row_after e step =
     (let p = (if step \<noteq> [] then py_get (es_step_event_ids (en_state e)) step else VNone) in
      if truthy p then p else es_last_event_id (en_state e))"

lemma emit_lifecycle_row:
  assumes "emit_lifecycle h step name payload VNone e = (Inr u, e')" and "truthy (es_catalog_id (en_state e))"
    and "payload \<noteq> []"
  shows "\<exists>r. en_events e' = en_events e @ [r] \<and> we_event_type r = name
     \<and> we_execution_id r = es_execution_id (en_state e) \<and> we_event_id r = en_next_id e
     \<and> we_context r = VDict payload \<and> we_parent_event_id r = row_after e step
     \<and> we_result r = (case py_get payload ''result'' of
          VDict d \<Rightarrow> if has_key d ''status'' then VDict d else VNone | _ \<Rightarrow> VNone)
     \<and> en_state e' = (en_state e)\<lparr>es_last_event_id := VInt (en_next_id e), es_step_event_ids :=
          (if step = [] then es_step_event_ids (en_state e)
           else AList.update step (VInt (en_next_id e)) (es_step_event_ids (en_state e)))\<rparr>
     \<and> en_executions e' = en_executions e \<and> en_buffer e' = en_buffer e"
  using assms
  by (auto simp: emit_lifecycle_def andthen_def clock_def state_of_def reading_def persist_event_def changing_def
      Let_def catalog_of_def event_row_of_def lifecycle_event_def parent_event_of_def row_after_def note_event_def
      dict_or_empty_def)

lemma add_keychain_effect:
  assumes "add_keychain h c e = (Inr u, e')"
  shows "\<exists>vs. e' = e\<lparr>en_state := (en_state e)\<lparr>es_variables := vs\<rparr>\<rparr>"
  using assms
  by (auto simp: add_keychain_def andthen_def state_of_def reading_def ret_def changing_state_def changing_def
      intro: exI [of _ "es_variables (en_state e)"] split: if_splits sum.splits)

lemma find_playbook_effect: "find_playbook h c path e = (Inr pb, e') \<Longrightarrow> playbooks_only e e'"
proof -
  have "only_playbooks (load_playbook h path)" unfolding load_playbook_def parse_and_keep_def
    by (intro only_playbooks_andthen only_playbooks_cached) (auto split: option.split intro!: only_playbooks_andthen)
  moreover have "only_playbooks (raises x)" for x :: py_error
    by (simp add: only_playbooks_def raises_def playbooks_only_def)
  ultimately have "only_playbooks (find_playbook h c path)" unfolding find_playbook_def
    by (intro only_playbooks_andthen) (auto simp: only_playbooks_load_by_id split: option.split)
  then show "find_playbook h c path e = (Inr pb, e') \<Longrightarrow> playbooks_only e e'"
    unfolding only_playbooks_def by (metis snd_conv)
qed

lemma create_execution_effect:
  assumes "create_execution h path payload c parent e = (Inr u, e')"
  shows "\<exists>pb. en_state e' = new_execution_state (VStr (show_int (en_next_id e))) pb payload c parent
    \<and> en_events e' = en_events e \<and> en_executions e' = en_executions e \<and> en_buffer e' = en_buffer e"
proof -
  let ?e0 = "e\<lparr>en_next_id := en_next_id e + 1\<rparr>"
  from assms obtain pb e1 where fp: "find_playbook h c path ?e0 = (Inr pb, e1)"
    and e': "e' = e1\<lparr>en_state := new_execution_state (VStr (show_int (en_next_id e))) pb payload c parent\<rparr>"
    by (auto simp: create_execution_def andthen_def reading_def changing_def changing_state_def
        split: prod.splits sum.splits)
  from find_playbook_effect [OF fp] obtain t pbs where "e1 = ?e0\<lparr>en_ticks := t, en_playbooks := pbs\<rparr>"
    by (auto simp: playbooks_only_def)
  then show ?thesis by (auto simp: e')
qed

lemma saved_rows_keep_catalog:
  assumes "saved_rows now s rows = Inr rows'" and "es_catalog_id s = VInt c"
    and "list_all (\<lambda>r. xr_execution_id r = x \<longrightarrow> xr_catalog_id r = c) rows"
  shows "list_all (\<lambda>r. xr_execution_id r = x \<longrightarrow> xr_catalog_id r = c) rows'"
  using assms
  by (auto simp: saved_rows_def Let_def rbind_Inr_iff upsert_execution_def on_execution_def first_saved_def
      list_all_iff split: if_splits)

definition started :: "int \<Rightarrow> pyval \<Rightarrow> engine \<Rightarrow> engine \<Rightarrow> bool" where
  "started c x e e' \<longleftrightarrow>
     (\<exists>r1 r2 rest. en_events e' = en_events e @ r1 # r2 # rest
        \<and> we_event_type r1 = ''playbook.initialized'' \<and> we_event_type r2 = ''workflow.initialized''
        \<and> we_execution_id r1 = x \<and> we_execution_id r2 = x \<and> we_parent_event_id r2 = VInt (we_event_id r1)
        \<and> list_all (\<lambda>r. we_event_type r \<in> set issuing_types) rest)
     \<and> es_execution_id (en_state e') = x \<and> \<not> es_completed (en_state e')
     \<and> (\<exists>n r. py_int x = Inr n \<and> row_of n (en_executions e') = Some r
          \<and> xr_state r = VDict (state_to_dict (en_state e')))"

lemma announce_start_effect:
  assumes run: "announce_start h path entry e = (Inr u, e')" and cat: "truthy (es_catalog_id (en_state e))"
    and new: "es_step_event_ids (en_state e) = []"
  shows "\<exists>r1 r2. en_events e' = en_events e @ [r1, r2]
      \<and> we_event_type r1 = ''playbook.initialized'' \<and> we_event_type r2 = ''workflow.initialized''
      \<and> we_execution_id r1 = es_execution_id (en_state e) \<and> we_execution_id r2 = es_execution_id (en_state e)
      \<and> we_parent_event_id r2 = VInt (we_event_id r1)
      \<and> we_context r1 = VDict (start_payload path (es_variables (en_state e))) \<and> we_result r1 = VNone
      \<and> same_identity (en_state e) (en_state e') \<and> es_completed (en_state e') = es_completed (en_state e)
      \<and> es_issued_steps (en_state e') = es_issued_steps (en_state e)
      \<and> en_executions e' = en_executions e \<and> en_buffer e' = en_buffer e"
proof -
  let ?s = "en_state e" and ?p = "start_payload path (es_variables (en_state e))"
    and ?q = "workflow_start_payload entry path (es_variables (en_state e))"
  from run obtain u1 e1 where m1: "emit_lifecycle h path ''playbook.initialized'' ?p VNone e = (Inr u1, e1)"
    and m2: "emit_lifecycle h ''workflow'' ''workflow.initialized'' ?q VNone e1 = (Inr u, e')"
    unfolding announce_start_def andthen_state_of by (elim andthen_InrE)
  have p: "?p \<noteq> []" "?q \<noteq> []"
    by (simp_all add: start_payload_def workflow_start_payload_def lifecycle_payload_def)
  from emit_lifecycle_row [OF m1 cat p(1)] obtain r1 where
    r1: "en_events e1 = en_events e @ [r1]" "we_event_type r1 = ''playbook.initialized''"
      "we_execution_id r1 = es_execution_id ?s" "we_event_id r1 = en_next_id e" "we_context r1 = VDict ?p"
      "we_result r1 = (case py_get ?p ''result'' of
          VDict d \<Rightarrow> if has_key d ''status'' then VDict d else VNone | _ \<Rightarrow> VNone)"
    and st1: "en_state e1 = ?s\<lparr>es_last_event_id := VInt (en_next_id e), es_step_event_ids :=
          (if path = [] then es_step_event_ids ?s else AList.update path (VInt (en_next_id e)) (es_step_event_ids ?s))\<rparr>"
    and o1: "en_executions e1 = en_executions e" "en_buffer e1 = en_buffer e" by blast
  have cat1: "truthy (es_catalog_id (en_state e1))" using cat by (simp add: st1)
  from emit_lifecycle_row [OF m2 cat1 p(2)] obtain r2 where
    r2: "en_events e' = en_events e1 @ [r2]" "we_event_type r2 = ''workflow.initialized''"
      "we_execution_id r2 = es_execution_id (en_state e1)" "we_parent_event_id r2 = row_after e1 ''workflow''"
    and st2: "\<exists>ids. en_state e' = (en_state e1)\<lparr>es_last_event_id := VInt (en_next_id e1), es_step_event_ids := ids\<rparr>"
    and o2: "en_executions e' = en_executions e1" "en_buffer e' = en_buffer e1" by blast
  have "we_parent_event_id r2 = VInt (we_event_id r1)"
    by (auto simp: r2(4) row_after_def st1 new r1(4) Let_def py_get_def)
  moreover have "we_result r1 = VNone"
    by (simp add: r1(6) start_payload_def lifecycle_payload_def py_get_def has_key_def)
  moreover have "same_identity ?s (en_state e') \<and> es_completed (en_state e') = es_completed ?s
      \<and> es_issued_steps (en_state e') = es_issued_steps ?s"
    using st2 by (auto simp: st1 same_identity_def)
  moreover have "en_events e' = en_events e @ [r1, r2]" by (simp add: r2(1) r1(1))
  moreover have "we_execution_id r2 = es_execution_id ?s" by (simp add: r2(3) st1)
  ultimately show ?thesis using r1(2,3,5) r2(2) o1 o2 by (intro exI [of _ r1] exI [of _ r2]) simp
qed

lemma new_state_fields [simp]:
  "es_execution_id (new_execution_state x pb payload c p) = x"
  "es_playbook (new_execution_state x pb payload c p) = pb"
  "es_catalog_id (new_execution_state x pb payload c p) = c"
  "es_completed (new_execution_state x pb payload c p) = False"
  "es_issued_steps (new_execution_state x pb payload c p) = []"
  "es_step_event_ids (new_execution_state x pb payload c p) = []"
  by (simp_all add: new_execution_state_def)

lemma enter_workflow_runs:
  assumes "enter_workflow h path payload e = (Inr (x, cs), e')"
  obtains step where "x = es_execution_id (en_state e)"
    "issue_first h path payload (get_entry_step (es_playbook (en_state e))) step e = (Inr cs, e')"
    "get_step (es_playbook (en_state e)) (get_entry_step (es_playbook (en_state e))) = Some step"
  using assms unfolding enter_workflow_def andthen_state_of Let_def
  by (auto simp: raises_def andthen_ret_Inr ret_def elim!: andthen_InrE split: option.splits)

lemma start_execution_runs:
  assumes "start_execution h path payload c parent e = (Inr (x, cs), e')"
  obtains u1 u2 u3 e1 e2 e3 where
    "create_execution h path payload c parent e = (Inr u1, e1)" "save_state h e1 = (Inr u2, e2)"
    "add_keychain h c e2 = (Inr u3, e3)" "enter_workflow h path payload e3 = (Inr (x, cs), e')"
  using assms unfolding start_execution_def by (elim andthen_InrE) (rule that, assumption+)

lemma issue_first_runs:
  assumes "issue_first h path payload entry step e = (Inr cs, e')"
  obtains u1 u2 u3 e1 e2 e3 where
    "announce_start h path entry e = (Inr u1, e1)" "save_state h e1 = (Inr u2, e2)"
    "issue_loop_commands h step payload e2 = (Inr cs, e3)" "save_state h e3 = (Inr u3, e')"
  using assms unfolding issue_first_def
  by (elim andthen_InrE) (rule that, assumption+, simp_all add: ret_def)

lemma issue_first_effect:
  assumes run: "issue_first h path payload entry step e = (Inr cs, e')"
    and cat: "es_catalog_id (en_state e) = VInt c" "c \<noteq> 0" and x: "py_int (es_execution_id (en_state e)) = Inr n"
    and new: "es_step_event_ids (en_state e) = []" and buf: "en_buffer e = None"
    and fresh: "list_all (\<lambda>r. xr_execution_id r = n \<longrightarrow> xr_catalog_id r = c) (en_executions e)"
    and running: "\<not> es_completed (en_state e)"
  shows "started c (es_execution_id (en_state e)) e e' \<and> es_issued_steps (en_state e') = es_issued_steps (en_state e)
    \<and> (\<exists>r1 rest. en_events e' = en_events e @ r1 # rest
         \<and> we_context r1 = VDict (start_payload path (es_variables (en_state e))) \<and> we_result r1 = VNone)"
proof -
  from run obtain u1 u2 u3 e1 e2 e3 where m: "announce_start h path entry e = (Inr u1, e1)"
    "save_state h e1 = (Inr u2, e2)" "issue_loop_commands h step payload e2 = (Inr cs, e3)"
    "save_state h e3 = (Inr u3, e')" by (rule issue_first_runs)
  from cat have "truthy (es_catalog_id (en_state e))" by simp
  from announce_start_effect [OF m(1) this new] obtain r1 r2 where
    a: "en_events e1 = en_events e @ [r1, r2]" "we_event_type r1 = ''playbook.initialized''"
      "we_event_type r2 = ''workflow.initialized''" "we_execution_id r1 = es_execution_id (en_state e)"
      "we_execution_id r2 = es_execution_id (en_state e)" "we_parent_event_id r2 = VInt (we_event_id r1)"
      "we_context r1 = VDict (start_payload path (es_variables (en_state e)))" "we_result r1 = VNone"
    and a': "same_identity (en_state e) (en_state e1)" "es_completed (en_state e1) = es_completed (en_state e)"
      "es_issued_steps (en_state e1) = es_issued_steps (en_state e)"
      "en_executions e1 = en_executions e" "en_buffer e1 = en_buffer e" by blast
  from save_state_effect [OF m(2)] a'(5) buf obtain t2 where
    b: "en_state e2 = en_state e1" "en_events e2 = en_events e1" "en_buffer e2 = None"
      "saved_rows t2 (en_state e1) (en_executions e) = Inr (en_executions e2)" by (auto simp: a'(4))
  have i: "issuing e2 e3" using issuing.framed_issue m(3) by (rule framedD)
  from save_state_effect [OF m(4)] b(3) i obtain t4 where
    d: "en_state e' = en_state e3" "en_events e' = en_events e3"
      "saved_rows t4 (en_state e3) (en_executions e2) = Inr (en_executions e')" by (auto simp: issuing_def)
  have id3: "es_execution_id (en_state e3) = es_execution_id (en_state e)" "es_catalog_id (en_state e3) = VInt c"
      "es_catalog_id (en_state e1) = VInt c"
    using i a'(1) cat(1) b(1) by (simp_all add: issuing_def same_identity_def)
  have keep: "list_all (\<lambda>r. xr_execution_id r = n \<longrightarrow> xr_catalog_id r = c) (en_executions e2)"
    by (rule saved_rows_keep_catalog [OF b(4) id3(3) fresh])
  from saved_row [OF id3(2) _ keep d(3)] x obtain r where
    r: "find (\<lambda>r. xr_execution_id r = n) (en_executions e') = Some r" "xr_state r = VDict (state_to_dict (en_state e3))"
    by (auto simp: id3(1))
  from i obtain rest where rest: "en_events e3 = en_events e2 @ rest"
      "list_all (\<lambda>r. we_event_type r \<in> set issuing_types) rest"
    by (auto simp: issuing_def logs_only_def)
  have log: "en_events e' = en_events e @ r1 # r2 # rest" by (simp add: d(2) rest(1) b(2) a(1))
  have "started c (es_execution_id (en_state e)) e e'"
    unfolding started_def using log a rest(2) r x i running a'(2) b(1)
    by (auto simp: d(1) id3(1) row_of_def issuing_def)
  moreover have "es_issued_steps (en_state e') = es_issued_steps (en_state e)"
    using i a'(3) b(1) by (simp add: d(1) issuing_def)
  ultimately show ?thesis using log a(7,8) by blast
qed

text \<open>
  A start that succeeds writes to the log first the start of the playbook and then the start of
  the workflow, both of the new execution and the second caused by the first, and after them only
  what issuing its commands writes; it leaves the execution running, and its row holds the state it
  left.
\<close>
lemma started_execution_logged:
  assumes run: "start_execution h path payload (VInt c) parent e = (Inr (x, cs), e')" and c: "c \<noteq> 0"
    and number: "py_int (VStr (show_int (en_next_id e))) = Inr n" and buf: "en_buffer e = None"
    and fresh: "list_all (\<lambda>r. xr_execution_id r \<noteq> n) (en_executions e)"
  shows "x = VStr (show_int (en_next_id e)) \<and> started c x e e'"
proof -
  from run obtain u1 u2 u3 e1 e2 e3 where m: "create_execution h path payload (VInt c) parent e = (Inr u1, e1)"
    "save_state h e1 = (Inr u2, e2)" "add_keychain h (VInt c) e2 = (Inr u3, e3)"
    "enter_workflow h path payload e3 = (Inr (x, cs), e')" by (rule start_execution_runs)
  from create_execution_effect [OF m(1)] obtain pb where
    s1: "en_state e1 = new_execution_state (VStr (show_int (en_next_id e))) pb payload (VInt c) parent"
      "en_events e1 = en_events e" "en_executions e1 = en_executions e" "en_buffer e1 = None" using buf by auto
  from save_state_effect [OF m(2)] s1 obtain t where
    s2: "en_state e2 = en_state e1" "en_events e2 = en_events e" "en_buffer e2 = None"
      "saved_rows t (en_state e1) (en_executions e) = Inr (en_executions e2)" by auto
  from add_keychain_effect [OF m(3)] obtain vs where e3: "e3 = e2\<lparr>en_state := (en_state e2)\<lparr>es_variables := vs\<rparr>\<rparr>"
    by blast
  have id3: "es_execution_id (en_state e3) = VStr (show_int (en_next_id e))" by (simp add: e3 s2(1) s1(1))
  from m(4) obtain step where x: "x = es_execution_id (en_state e3)"
    and first: "issue_first h path payload (get_entry_step (es_playbook (en_state e3))) step e3 = (Inr cs, e')"
    by (rule enter_workflow_runs)
  have "list_all (\<lambda>r. xr_execution_id r = n \<longrightarrow> xr_catalog_id r = c) (en_executions e3)"
    using saved_rows_keep_catalog [OF s2(4), of c n] fresh by (simp add: e3 s1(1) list_all_iff)
  then have "started c (es_execution_id (en_state e3)) e3 e'"
    by (intro conjunct1 [OF issue_first_effect [OF first]])
      (use c number in \<open>simp_all add: e3 s2(1,3) s1(1)\<close>)
  then show ?thesis using x id3 by (auto simp: started_def e3 s2(2))
qed

text \<open>A start succeeds when its playbook is found and its entry step is a plain step.\<close>

lemma emit_lifecycle_ok: "\<exists>e'. emit_lifecycle h step name payload parent e = (Inr (), e')"
  by (simp add: emit_lifecycle_def andthen_def clock_def state_of_def reading_def persist_event_def changing_def)

lemma register_ok: "\<exists>e'. register_playbook h pb k e = (Inr (), e')"
proof -
  have cache: "\<exists>e'. cache_playbook h pb k e = (Inr (), e')" for k e
    by (simp add: cache_playbook_def andthen_def clock_def changing_def)
  have "\<exists>us e'. each (cache_playbook h pb) ks e = (Inr us, e')" for ks e
  proof (induction ks arbitrary: e)
    case (Cons k ks)
    from cache obtain e1 where e1: "cache_playbook h pb k e = (Inr (), e1)" by blast
    from Cons.IH [of e1] show ?case by (auto simp: andthen_def e1 ret_def)
  qed (simp add: ret_def)
  then show ?thesis unfolding register_playbook_def using cache
    by (metis andthen_value ret_def)
qed

lemma register_saved_ok: "\<exists>e'. register_saved h s e = (Inr (), e')"
proof -
  have each: "\<exists>us e'. each (register_playbook h pb) ks e = (Inr us, e')" for pb ks e
  proof (induction ks arbitrary: e)
    case (Cons k ks)
    from register_ok obtain e1 where e1: "register_playbook h pb k e = (Inr (), e1)" by blast
    from Cons.IH [of e1] show ?case by (auto simp: andthen_def e1 ret_def)
  qed (simp add: ret_def)
  obtain e1 where "(if truthy (es_catalog_id s) then register_playbook h (es_playbook s) (id_key (es_catalog_id s))
      else ret ()) e = (Inr (), e1)"
    using register_ok by (metis ret_def)
  then show ?thesis unfolding register_saved_def using each by (metis andthen_value ret_def)
qed

lemma save_state_ok:
  assumes "en_buffer e = None" and "\<And>now rows. \<exists>rows'. saved_rows now (en_state e) rows = Inr rows'"
  shows "\<exists>e'. save_state h e = (Inr (), e')"
proof -
  from register_saved_ok obtain e1 where e1: "register_saved h (en_state e) e = (Inr (), e1)" by blast
  from assms(2) obtain rows' where "saved_rows (h_clock h (en_ticks e1)) (en_state e) (en_executions e1) = Inr rows'"
    by blast
  then show ?thesis using assms(1)
    by (simp add: save_state_def save_now_def state_of_def reading_def andthen_def e1 clock_def pure_def changing_def)
qed

definition savable :: "exec_state \<Rightarrow> bool" where
  "savable s \<longleftrightarrow> (\<exists>n c i. py_int (es_execution_id s) = Inr n \<and> es_catalog_id s = VInt c
     \<and> es_parent_execution_id s = VNone \<and> (es_last_event_id s = VNone \<or> es_last_event_id s = VInt i))"

lemma savable_rows: "savable s \<Longrightarrow> \<exists>rows'. saved_rows now s rows = Inr rows'"
  by (auto simp: savable_def saved_rows_def opt_int_def last_event_number_def py_or_def Let_def)

lemma issue_first_ok:
  assumes "st_loop step = None" and "st_tool step = Some tool" and "es_loop_state (en_state e) = []"
    and "savable (en_state e)" and "en_buffer e = None" and "truthy (es_catalog_id (en_state e))"
    and "es_step_event_ids (en_state e) = []"
  shows "\<exists>c e'. issue_first h path payload entry step e = (Inr [c], e')"
proof -
  let ?s = "en_state e" and ?p = "start_payload path (es_variables (en_state e))"
    and ?q = "workflow_start_payload entry path (es_variables (en_state e))"
  from emit_lifecycle_ok obtain e1 where m1: "emit_lifecycle h path ''playbook.initialized'' ?p VNone e = (Inr (), e1)"
    by blast
  from emit_lifecycle_ok obtain e2 where m2: "emit_lifecycle h ''workflow'' ''workflow.initialized'' ?q VNone e1 = (Inr (), e2)"
    by blast
  have p: "?p \<noteq> []" "?q \<noteq> []"
    by (simp_all add: start_payload_def workflow_start_payload_def lifecycle_payload_def)
  from emit_lifecycle_row [OF m1 assms(6) p(1)] obtain i1 ids1 where
    s1: "en_state e1 = ?s\<lparr>es_last_event_id := VInt i1, es_step_event_ids := ids1\<rparr>" "en_buffer e1 = en_buffer e" by blast
  have "truthy (es_catalog_id (en_state e1))" using assms(6) by (simp add: s1)
  from emit_lifecycle_row [OF m2 this p(2)] obtain i2 ids2 where
    s2: "en_state e2 = ?s\<lparr>es_last_event_id := VInt i2, es_step_event_ids := ids2\<rparr>" "en_buffer e2 = en_buffer e"
    by (auto simp: s1)
  have announced: "announce_start h path entry e = (Inr (), e2)"
    unfolding announce_start_def andthen_state_of using m1 m2 by (simp add: andthen_def)
  have ok2: "savable (en_state e2)" using assms(4) by (auto simp: savable_def s2(1))
  from save_state_ok [OF _ savable_rows [OF ok2], of h] assms(5) s2(2) obtain e3 where
    m3: "save_state h e2 = (Inr (), e3)" by auto
  from save_state_effect [OF m3] s2(2) assms(5) have s3: "en_state e3 = en_state e2" "en_buffer e3 = None" by auto
  have "\<exists>cx. get_render_context (synthetic_event (en_state e3) (st_step step) ''command_creation'') (en_state e3) = Inr cx"
    by (simp add: get_render_context_def active_loop_def synthetic_event_def s3 s2(1) assms(3) Let_def)
  then obtain cx where cx: "get_render_context (synthetic_event (en_state e3) (st_step step) ''command_creation'') (en_state e3) = Inr cx"
    by blast
  obtain kd config pipeline where "tool_call (h_renderer h) step tool cx = (kd, config, pipeline)" by (metis surj_pair)
  then obtain c where "create_command_for_step h step payload e3 = (Inr (Some c), e3)"
    using assms(2) cx by (simp add: create_plain_command [OF assms(1)] step_command_def Let_def)
  then have m4: "issue_loop_commands h step payload e3 = (Inr [c], e3)"
    by (simp add: issue_loop_commands_def assms(1) andthen_def ret_def opt_list_def)
  from save_state_ok [of e3 h] savable_rows [OF ok2] s3 obtain e4 where m5: "save_state h e3 = (Inr (), e4)" by auto
  show ?thesis using announced m3 m4 m5 by (simp add: issue_first_def andthen_def ret_def)
qed

lemma start_execution_ok:
  assumes load: "find_playbook h (VInt c) path (e\<lparr>en_next_id := en_next_id e + 1\<rparr>) = (Inr pb, e1)" and "c \<noteq> 0"
    and entry: "get_step pb (get_entry_step pb) = Some step" "st_loop step = None" "st_tool step = Some tool"
    and number: "py_int (VStr (show_int (en_next_id e))) = Inr n" and "en_buffer e = None"
    and plain: "\<not> truthy (pb_keychain pb)"
  shows "\<exists>x cmd e'. start_execution h path payload (VInt c) VNone e = (Inr (x, [cmd]), e')"
proof -
  let ?s = "new_execution_state (VStr (show_int (en_next_id e))) pb payload (VInt c) VNone"
  from find_playbook_effect [OF load] obtain n' t pbs where
    "e1 = e\<lparr>en_next_id := n', en_ticks := t, en_playbooks := pbs\<rparr>" by (auto simp: playbooks_only_def)
  then have buf: "en_buffer e1 = None" using \<open>en_buffer e = None\<close> by simp
  have made: "create_execution h path payload (VInt c) VNone e = (Inr (), e1\<lparr>en_state := ?s\<rparr>)"
    by (simp add: create_execution_def andthen_def reading_def changing_def changing_state_def load)
  have ok: "savable ?s" using number by (auto simp: savable_def new_execution_state_def)
  from save_state_ok [of "e1\<lparr>en_state := ?s\<rparr>" h] savable_rows [OF ok] buf obtain e2 where
    m2: "save_state h (e1\<lparr>en_state := ?s\<rparr>) = (Inr (), e2)" by auto
  from save_state_effect [OF m2] buf have s2: "en_state e2 = ?s" "en_buffer e2 = None" by auto
  have m3: "add_keychain h (VInt c) e2 = (Inr (), e2)"
    using plain by (simp add: add_keychain_def andthen_def state_of_def reading_def s2 ret_def)
  from issue_first_ok [OF entry(2,3), of e2 h path payload "get_entry_step pb"] ok s2 \<open>c \<noteq> 0\<close> obtain cmd e' where
    "issue_first h path payload (get_entry_step pb) step e2 = (Inr [cmd], e')"
    by (auto simp: new_execution_state_def)
  then have "enter_workflow h path payload e2 = (Inr (VStr (show_int (en_next_id e)), [cmd]), e')"
    unfolding enter_workflow_def andthen_state_of
    by (simp add: s2 new_execution_state_def entry(1) Let_def andthen_def ret_def)
  then show ?thesis using made m2 m3 by (simp add: start_execution_def andthen_def)
qed

definition start_playbook :: playbook where
  "start_playbook = sample_playbook\<lparr>pb_workflow :=
     [(hd (pb_workflow sample_playbook))\<lparr>st_tool := Some (Single_Tool ''noop'' [])\<rparr>]\<rparr>"

definition start_engine :: engine where
  "start_engine = sample_engine\<lparr>en_next_id := 5,
     en_playbooks := cache_set_sync 0 (id_key (VInt 3)) start_playbook (en_playbooks sample_engine)\<rparr>"

lemma started_execution_logged_witness:
  "\<exists>cmd e'. start_execution sample_host ''p'' [] (VInt 3) VNone start_engine = (Inr (VStr ''5'', [cmd]), e')
     \<and> started 3 (VStr ''5'') start_engine e'"
proof -
  have five: "show_int 5 = ''5''" and n: "py_int (VStr ''5'') = Inr 5" by code_simp+
  have pb: "(case find_playbook sample_host (VInt 3) ''p'' (start_engine\<lparr>en_next_id := 6\<rparr>) of
      (Inr pb, e1) \<Rightarrow> pb = start_playbook | _ \<Rightarrow> False)" by code_simp
  then obtain e1 where load: "find_playbook sample_host (VInt 3) ''p'' (start_engine\<lparr>en_next_id := 6\<rparr>) = (Inr start_playbook, e1)"
    by (auto split: prod.splits sum.splits)
  have entry: "get_step start_playbook (get_entry_step start_playbook) = Some (hd (pb_workflow start_playbook))"
    "st_loop (hd (pb_workflow start_playbook)) = None"
    "st_tool (hd (pb_workflow start_playbook)) = Some (Single_Tool ''noop'' [])"
    "pb_keychain start_playbook = VNone"
    by code_simp+
  have e: "en_next_id start_engine = 5" "en_buffer start_engine = None" "en_executions start_engine = []"
    by (simp_all add: start_engine_def sample_engine_def)
  have load': "find_playbook sample_host (VInt 3) ''p'' (start_engine\<lparr>en_next_id := en_next_id start_engine + 1\<rparr>) =
      (Inr start_playbook, e1)" using load by (simp add: e)
  have n': "py_int (VStr (show_int (en_next_id start_engine))) = Inr 5" using n by (simp only: e five)
  have plain: "\<not> truthy (pb_keychain start_playbook)" by (simp add: entry(4))
  have nz: "(3::int) \<noteq> 0" by simp
  from start_execution_ok [OF load' nz entry(1-3) n' e(2) plain] obtain x cmd e' where
    run: "start_execution sample_host ''p'' [] (VInt 3) VNone start_engine = (Inr (x, [cmd]), e')" by blast
  have "list_all (\<lambda>r. xr_execution_id r \<noteq> 5) (en_executions start_engine)" by (simp add: e)
  from started_execution_logged [OF run nz n' e(2) this]
  have x: "x = VStr ''5''" and st: "started 3 x start_engine e'" by (auto simp: e five)
  show ?thesis using run st unfolding x by blast
qed

section \<open>What ending an abandoned execution leaves\<close>

lemma emit_lifecycle_adds:
  assumes "emit_lifecycle h step name payload parent e = (Inr u, e')" and "truthy (es_catalog_id (en_state e))"
  shows "\<exists>r i ids. en_events e' = en_events e @ [r] \<and> we_event_type r = name
     \<and> we_execution_id r = es_execution_id (en_state e)
     \<and> en_state e' = (en_state e)\<lparr>es_last_event_id := VInt i, es_step_event_ids := ids\<rparr>"
proof -
  have "\<exists>r. en_events e' = en_events e @ [r] \<and> we_event_type r = name
     \<and> we_execution_id r = es_execution_id (en_state e)
     \<and> en_state e' = (en_state e)\<lparr>es_last_event_id := VInt (en_next_id e), es_step_event_ids :=
          (if step = [] then es_step_event_ids (en_state e)
           else AList.update step (VInt (en_next_id e)) (es_step_event_ids (en_state e)))\<rparr>"
    using assms
    by (auto simp: emit_lifecycle_def andthen_def clock_def state_of_def reading_def persist_event_def changing_def
        Let_def catalog_of_def event_row_of_def lifecycle_event_def note_event_def)
  then show ?thesis by blast
qed

lemma emit_lifecycle_buffer: "emit_lifecycle h step name payload parent e = (r, e') \<Longrightarrow> en_buffer e' = en_buffer e"
  by (auto simp: emit_lifecycle_def andthen_def clock_def state_of_def reading_def persist_event_def changing_def
      ret_def Let_def split: option.splits if_splits)

lemma finalize_loaded_runs:
  assumes "finalize_loaded h reason e = (Inr u, e')" and "\<not> es_completed (en_state e)"
  obtains path u1 e1 u2 e2 u3 where
    "emit_lifecycle h ''workflow'' ''workflow.failed'' (abandoned_payload (en_state e) reason)
       (es_last_event_id (en_state e)) e = (Inr u1, e1)"
    "emit_lifecycle h path ''playbook.failed'' (abandoned_payload (en_state e) reason)
       (es_last_event_id (en_state e1)) e1 = (Inr u2, e2)"
    "save_state h (e2\<lparr>en_state := (en_state e2)\<lparr>es_failed := True, es_completed := True\<rparr>\<rparr>) = (Inr u3, e')"
  using assms unfolding finalize_loaded_def andthen_state_of
  by (auto simp: andthen_def pure_def changing_state_def changing_def state_of_def reading_def
      split: prod.splits sum.splits)

definition ended_log :: "pyval \<Rightarrow> engine \<Rightarrow> engine \<Rightarrow> bool" where
  "ended_log x e e' \<longleftrightarrow>
     (\<exists>r1 r2. en_events e' = en_events e @ [r1, r2] \<and> we_event_type r1 = ''workflow.failed''
        \<and> we_event_type r2 = ''playbook.failed'' \<and> we_execution_id r1 = x \<and> we_execution_id r2 = x)"

text \<open>
  Forcing the end of an execution that runs writes exactly \<open>workflow.failed\<close> and
  \<open>playbook.failed\<close>, marks the state completed and failed, and forcing it again, for any reason,
  changes nothing.
\<close>
lemma abandoned_execution_ends_once:
  assumes "finalize_loaded h reason e = (Inr u, e')" and "truthy (es_catalog_id (en_state e))"
    and "\<not> es_completed (en_state e)"
  shows "ended_log (es_execution_id (en_state e)) e e' \<and> es_completed (en_state e') \<and> es_failed (en_state e')
    \<and> finalize_loaded h reason' e' = (Inr (), e')"
proof -
  obtain path u1 e1 u2 e2 u3 where m:
    "emit_lifecycle h ''workflow'' ''workflow.failed'' (abandoned_payload (en_state e) reason)
       (es_last_event_id (en_state e)) e = (Inr u1, e1)"
    "emit_lifecycle h path ''playbook.failed'' (abandoned_payload (en_state e) reason)
       (es_last_event_id (en_state e1)) e1 = (Inr u2, e2)"
    "save_state h (e2\<lparr>en_state := (en_state e2)\<lparr>es_failed := True, es_completed := True\<rparr>\<rparr>) = (Inr u3, e')"
    by (rule finalize_loaded_runs [OF assms(1,3)])
  from emit_lifecycle_adds [OF m(1) assms(2)] obtain r1 i1 ids1 where
    s1: "en_events e1 = en_events e @ [r1]" "we_event_type r1 = ''workflow.failed''"
      "we_execution_id r1 = es_execution_id (en_state e)"
      "en_state e1 = (en_state e)\<lparr>es_last_event_id := VInt i1, es_step_event_ids := ids1\<rparr>" by blast
  have "truthy (es_catalog_id (en_state e1))" using assms(2) by (simp add: s1(4))
  from emit_lifecycle_adds [OF m(2) this] obtain r2 i2 ids2 where
    s2: "en_events e2 = en_events e1 @ [r2]" "we_event_type r2 = ''playbook.failed''"
      "we_execution_id r2 = es_execution_id (en_state e1)"
      "en_state e2 = (en_state e1)\<lparr>es_last_event_id := VInt i2, es_step_event_ids := ids2\<rparr>" by blast
  from save_state_effect [OF m(3)] have
    s3: "en_state e' = (en_state e2)\<lparr>es_failed := True, es_completed := True\<rparr>" "en_events e' = en_events e2"
    by simp_all
  have "ended_log (es_execution_id (en_state e)) e e'"
    by (simp add: ended_log_def s1 s2 s3)
  moreover have "es_completed (en_state e')" "es_failed (en_state e')" by (simp_all add: s3)
  moreover from this have "finalize_loaded h reason' e' = (Inr (), e')"
    unfolding finalize_loaded_def andthen_state_of by (simp add: ret_def)
  ultimately show ?thesis by blast
qed

lemma finalize_loaded_ok:
  assumes "playbook_step (es_playbook (en_state e)) = Inr path" and "savable (en_state e)" and "en_buffer e = None"
    and "truthy (es_catalog_id (en_state e))"
  shows "\<exists>u e'. finalize_loaded h reason e = (Inr u, e')"
proof (cases "es_completed (en_state e)")
  case True
  then show ?thesis unfolding finalize_loaded_def andthen_state_of by (simp add: ret_def)
next
  case False
  let ?p = "abandoned_payload (en_state e) reason"
  obtain e1 where m1: "emit_lifecycle h ''workflow'' ''workflow.failed'' ?p (es_last_event_id (en_state e)) e = (Inr (), e1)"
    using emit_lifecycle_ok by blast
  obtain e2 where m2: "emit_lifecycle h path ''playbook.failed'' ?p (es_last_event_id (en_state e1)) e1 = (Inr (), e2)"
    using emit_lifecycle_ok by blast
  from emit_lifecycle_adds [OF m1 assms(4)] obtain i1 ids1 where
    s1: "en_state e1 = (en_state e)\<lparr>es_last_event_id := VInt i1, es_step_event_ids := ids1\<rparr>" by blast
  have "truthy (es_catalog_id (en_state e1))" using assms(4) by (simp add: s1)
  from emit_lifecycle_adds [OF m2 this] obtain i2 ids2 where
    s2: "en_state e2 = (en_state e1)\<lparr>es_last_event_id := VInt i2, es_step_event_ids := ids2\<rparr>" by blast
  let ?e3 = "e2\<lparr>en_state := (en_state e2)\<lparr>es_failed := True, es_completed := True\<rparr>\<rparr>"
  have "savable (en_state ?e3)" using assms(2) by (auto simp: savable_def s1 s2)
  moreover have "en_buffer ?e3 = None" using assms(3) m1 m2 by (simp add: emit_lifecycle_buffer)
  ultimately obtain e4 where "save_state h ?e3 = (Inr (), e4)"
    using save_state_ok [of ?e3 h] savable_rows by blast
  with m1 m2 False assms(1) show ?thesis unfolding finalize_loaded_def andthen_state_of
    by (simp add: andthen_def pure_def changing_state_def changing_def state_of_def reading_def s1)
qed

lemma abandoned_execution_ends_once_witness:
  "let e = sample_engine in \<exists>e'. finalize_loaded sample_host ''stale'' e = (Inr (), e')
     \<and> ended_log (es_execution_id (en_state e)) e e' \<and> es_completed (en_state e') \<and> es_failed (en_state e')
     \<and> finalize_loaded sample_host ''again'' e' = (Inr (), e')"
proof -
  have path: "playbook_step (es_playbook (en_state sample_engine)) = Inr ''playbook''" by code_simp
  have "py_int (VStr ''7'') = Inr 7" by code_simp
  then have ok: "savable (en_state sample_engine)"
    by (simp add: savable_def sample_engine_def new_execution_state_def)
  have buf: "en_buffer sample_engine = None" by (simp add: sample_engine_def)
  have start: "truthy (es_catalog_id (en_state sample_engine))" "\<not> es_completed (en_state sample_engine)" by code_simp+
  from finalize_loaded_ok [OF path ok buf start(1)] obtain u e' where
    run: "finalize_loaded sample_host ''stale'' sample_engine = (Inr u, e')" by blast
  from abandoned_execution_ends_once [OF run start] run show ?thesis by (auto simp: Let_def)
qed

section \<open>What a start loses\<close>

text \<open>
  The workload stands in the result of the first event, whose payload is written to the column
  \<open>context\<close> and has no \<open>workload\<close> of its own; the column \<open>result\<close> is empty because that result has no
  status. A state rebuilt from this event has no workload.
\<close>

lemma start_workload_not_found:
  "extract_init_workload (VDict (start_payload path vars)) VNone = []"
  by (simp add: extract_init_workload_def start_payload_def lifecycle_payload_def dict_or_empty_def py_get_def)

lemma start_workload_lost:
  assumes run: "issue_first h path payload entry step e = (Inr cs, e')"
    and "es_catalog_id (en_state e) = VInt c" "c \<noteq> 0" "py_int (es_execution_id (en_state e)) = Inr n"
    and "es_step_event_ids (en_state e) = []" "en_buffer e = None"
    and "list_all (\<lambda>r. xr_execution_id r = n \<longrightarrow> xr_catalog_id r = c) (en_executions e)"
    and "\<not> es_completed (en_state e)"
  shows "\<exists>r rest. en_events e' = en_events e @ r # rest \<and> extract_init_workload (we_context r) (we_result r) = []"
  using issue_first_effect [OF assms] start_workload_not_found by (metis (no_types))

text \<open>The last save of a start is to capture the issued steps; there are none.\<close>

lemma start_issues_nothing:
  assumes run: "issue_first h path payload entry step e = (Inr cs, e')"
    and "es_catalog_id (en_state e) = VInt c" "c \<noteq> 0" "py_int (es_execution_id (en_state e)) = Inr n"
    and "es_step_event_ids (en_state e) = []" "en_buffer e = None"
    and "list_all (\<lambda>r. xr_execution_id r = n \<longrightarrow> xr_catalog_id r = c) (en_executions e)"
    and "\<not> es_completed (en_state e)" and "es_issued_steps (en_state e) = []"
  shows "es_issued_steps (en_state e') = []"
  using issue_first_effect [OF run assms(2-8)] assms(9) by simp

end
