(* ===== verification/Event_Intake.thy ===== *)
theory Event_Intake
  imports Then_Actions Lifecycle
begin

text \<open>
  The parts of \<open>EventHandlingMixin\<close> (\<^verbatim>\<open>noetl/core/dsl/engine/executor/events.py\<close>) around its handler:
  counting the commands that are pending, closing the stage of a loop, the events that end an
  execution, the guard against duplicates and the inline tasks. Statements of the database succeed
  on the shipped schema and fail when they name columns it does not have.
\<close>

section \<open>Pending commands\<close>

definition triggering_id :: "string option \<Rightarrow> int option" where
  "triggering_id c = (case c of None \<Rightarrow> None | Some s \<Rightarrow> py_int_opt (VStr s))"

definition live_command :: "pyval \<Rightarrow> int option \<Rightarrow> command_row \<Rightarrow> bool" where
  "live_command execution_id excluded c \<longleftrightarrow>
     wc_execution_id c = execution_id \<and> wc_status c \<notin> set terminal_statuses \<and> excluded \<noteq> Some (wc_command_id c)"

definition count_durable_pending_commands :: "pyval \<Rightarrow> string option \<Rightarrow> engine \<Rightarrow> int res" where
  "count_durable_pending_commands execution_id exclude e =
     rbind (py_int execution_id) (\<lambda>_.
       Inr (int (length (filter (live_command execution_id (triggering_id exclude)) (en_commands e)))))"

section \<open>Closing a stage\<close>

definition closes :: "int \<Rightarrow> string \<Rightarrow> string \<Rightarrow> runtime_stage \<Rightarrow> bool" where
  "closes x step loop_event_id g \<longleftrightarrow>
     sg_execution_id g = x \<and> sg_step_name g = step \<and> sg_loop_event_id g = loop_event_id
     \<and> sg_status g \<in> {''OPEN'', ''RUNNING''} \<and> sg_closed_event_id g = None"

definition ended_stage :: "string \<Rightarrow> int \<Rightarrow> runtime_stage \<Rightarrow> runtime_stage" where
  "ended_stage status now g =
     g\<lparr>sg_status := status, sg_ended_at := (case sg_ended_at g of None \<Rightarrow> Some now | Some t \<Rightarrow> Some t)\<rparr>"

definition stage_counts :: "int \<Rightarrow> frame_tuple list \<Rightarrow> pydict" where
  "stage_counts stage frames =
     (let fs = filter (\<lambda>f. fr_stage_id f = stage) frames in
      [(''frame_count'', VInt (int (length fs))), (''row_count'', VInt (sum_list (map fr_row_count fs))),
       (''events_emitted'', VInt (sum_list (map fr_events_emitted fs))),
       (''failed_count'', VInt (int (length (filter (\<lambda>f. fr_status f = ''FAILED'') fs))))])"

definition next_stream_version :: "string \<Rightarrow> event_row list \<Rightarrow> int" where
  "next_stream_version stream rows =
     1 + foldl max 0 (List.map_filter (\<lambda>r.
       if py_get (we_envelope r) ''stream_id'' = VStr stream
       then (case py_get (we_envelope r) ''stream_version'' of VInt n \<Rightarrow> Some n | _ \<Rightarrow> None) else None) rows)"

definition stage_context :: "int \<Rightarrow> string \<Rightarrow> pyval" where
  "stage_context stage loop_event_id =
     VDict [(''stage_id'', VStr (show_int stage)), (''loop_event_id'', VStr loop_event_id)]"

definition closing_envelope ::
  "host \<Rightarrow> exec_state \<Rightarrow> int \<Rightarrow> int \<Rightarrow> int \<Rightarrow> string \<Rightarrow> string \<Rightarrow> string \<Rightarrow> pydict \<Rightarrow> int \<Rightarrow> pydict" where
  "closing_envelope h s x stage version step loop_event_id status counts now =
     (let id = py_str (es_execution_id s); parent = es_last_event_id s in
      [(''tenant_id'', VStr ''default''), (''organization_id'', VStr ''default''),
       (''execution_id'', VInt x),
       (''stream_id'', VStr (''execution/'' @ id @ ''/stage/'' @ show_int stage)),
       (''stream_version'', VInt version), (''aggregate_id'', VStr (''stage/'' @ show_int stage)),
       (''aggregate_type'', VStr ''stage''), (''event_type'', VStr ''stage.closed''),
       (''schema_name'', VStr ''noetl.stage.closed''), (''schema_version'', VInt 1),
       (''event_time'', VStr (h_iso h now)), (''producer'', VStr ''noetl-server''),
       (''causation_id'', if truthy parent then VStr (py_str parent) else VNone),
       (''correlation_id'', VStr (py_str (py_or (es_root_event_id s) (es_execution_id s)))),
       (''idempotency_key'', VStr (''default/default/'' @ id @ ''/stage/'' @ show_int stage @ ''/closed'')),
       (''payload_ref'', VNone), (''result'', VDict [(''status'', VStr status)]),
       (''meta'', VDict ([(''stage_id'', VStr (show_int stage)), (''loop_event_id'', VStr loop_event_id)] @ counts
          @ [(''actionable'', VBool False), (''informative'', VBool True)])),
       (''status'', VStr status), (''node_name'', VStr step)])"

definition closing_event ::
  "host \<Rightarrow> exec_state \<Rightarrow> pyval \<Rightarrow> int \<Rightarrow> int \<Rightarrow> int \<Rightarrow> int \<Rightarrow> string \<Rightarrow> string \<Rightarrow> string \<Rightarrow> pydict \<Rightarrow> int \<Rightarrow> event_row" where
  "closing_event h s catalog_id x stage event_id version step loop_event_id status counts now =
     (let env = closing_envelope h s x stage version step loop_event_id status counts now in
      \<lparr>we_execution_id = es_execution_id s, we_catalog_id = catalog_id, we_event_id = event_id,
       we_parent_event_id = es_last_event_id s, we_parent_execution_id = VNone, we_created_at = now,
       we_event_type = ''stage.closed'', we_node_name = Some step, we_status = VStr status, we_duration = 0,
       we_context = stage_context stage loop_event_id, we_result = py_get env ''result'',
       we_meta = dict_or_empty (py_get env ''meta''), we_error = VNone, we_worker_id = VStr ''noetl-server'',
       we_command_id = None,
       we_envelope = env @ [(''envelope_checksum'', VStr (canonical_checksum (VDict env))),
          (''stage_id'', VInt stage)]\<rparr>)"

text \<open>All open stages of the epoch get the status; the first of them gets the event.\<close>

definition close_stage_row ::
  "host \<Rightarrow> int \<Rightarrow> string \<Rightarrow> string \<Rightarrow> string \<Rightarrow> runtime_stage \<Rightarrow> int \<Rightarrow> int option call" where
  "close_stage_row h x step loop_event_id status g t =
     andthen (clock h) (\<lambda>now.
     andthen (changing (\<lambda>e.
       let s = en_state e; stage = sg_stage_id g; event_id = en_next_id e;
           stream = ''execution/'' @ py_str (es_execution_id s) @ ''/stage/'' @ show_int stage;
           row = closing_event h s (py_or (execution_catalog x e) (es_catalog_id s)) x stage event_id
                   (next_stream_version stream (en_events e)) step loop_event_id status
                   (stage_counts stage (en_frames e)) now in
       e\<lparr>en_next_id := event_id + 1,
         en_stages := map (\<lambda>g'.
           let g1 = (if closes x step loop_event_id g' then ended_stage status t g' else g') in
           if sg_stage_id g' = stage then g1\<lparr>sg_closed_event_id := Some event_id\<rparr> else g1) (en_stages e),
         en_events := en_events e @ [row],
         en_mirrored := (if h_mirror h then en_mirrored e @ [row] else en_mirrored e)\<rparr>))
     (\<lambda>_. ret (Some (sg_stage_id g))))"

definition close_runtime_stage_for_loop :: "host \<Rightarrow> string \<Rightarrow> pyval \<Rightarrow> string \<Rightarrow> int option call" where
  "close_runtime_stage_for_loop h step loop_event_id status =
     (if \<not> truthy loop_event_id then ret None
      else
        andthen (reading (\<lambda>e. e)) (\<lambda>e.
        case py_int (es_execution_id (en_state e)) of
          Inl _ \<Rightarrow> ret None
        | Inr x \<Rightarrow>
            andthen (clock h) (\<lambda>t.
            case (if find (\<lambda>r. xr_execution_id r = x) (en_executions e) = None then None
                  else find (closes x step (py_str loop_event_id)) (en_stages e)) of
              None \<Rightarrow> ret None
            | Some g \<Rightarrow> close_stage_row h x step (py_str loop_event_id) status g t)))"

section \<open>The events that end an execution\<close>

definition payload_of :: "engine_event \<Rightarrow> pydict" where
  "payload_of ev = dict_or_empty (ev_payload ev)"

text \<open>The error of a lifecycle payload is a text or an object; its model refuses anything else.\<close>

definition ending_payload :: "string \<Rightarrow> string \<Rightarrow> pyval \<Rightarrow> pyval \<Rightarrow> pydict res" where
  "ending_payload status final_step result error =
     (case error of
        VNone \<Rightarrow> Inr (lifecycle_payload status (VStr final_step) result error)
      | VStr _ \<Rightarrow> Inr (lifecycle_payload status (VStr final_step) result error)
      | VDict _ \<Rightarrow> Inr (lifecycle_payload status (VStr final_step) result error)
      | _ \<Rightarrow> Inl (ValueError ''error: not a string or an object''))"

definition ending_events :: "host \<Rightarrow> engine_event \<Rightarrow> string \<Rightarrow> string \<Rightarrow> pyval \<Rightarrow> engine_event list call" where
  "ending_events h ev status final_step error =
     andthen state_of (\<lambda>s.
     andthen (pure (ending_payload status final_step (py_get (payload_of ev) ''result'') error)) (\<lambda>p.
     andthen (clock h) (\<lambda>t1.
     andthen (pure (playbook_step (es_playbook s))) (\<lambda>path.
     andthen (clock h) (\<lambda>t2.
       ret [lifecycle_event h t1 (ev_execution_id ev) ''workflow'' (''workflow.'' @ status) p (es_last_event_id s),
            lifecycle_event h t2 (ev_execution_id ev) path (''playbook.'' @ status) p VNone])))))"

definition mark_ended :: "exec_state \<Rightarrow> exec_state" where
  "mark_ended s = s\<lparr>es_completed := True\<rparr>"

section \<open>Duplicates\<close>

definition is_duplicate :: "engine_event \<Rightarrow> engine \<Rightarrow> bool" where
  "is_duplicate ev e =
     (case extract_command_id_from_event_payload (unwrap_event_payload (ev_payload ev)) (VDict (ev_meta ev)) of
        None \<Rightarrow> False
      | Some c \<Rightarrow>
          c \<noteq> [] \<and> 1 < count_persisted_command_events (ev_execution_id ev) (ev_name ev) c e
          \<and> (case py_int_opt (py_get (ev_meta ev) ''persisted_event_id'') of
               None \<Rightarrow> True
             | Some i \<Rightarrow> \<not> is_first_persisted_command_event (ev_execution_id ev) (ev_name ev) c i e))"

section \<open>Commands issued\<close>

definition note_issued :: "command list \<Rightarrow> exec_state \<Rightarrow> exec_state" where
  "note_issued cs s =
     s\<lparr>es_issued_steps := foldl (\<lambda>ks c.
         let k = pending_step_key (Some (cm_step c)) in if k = [] then ks else add_step k ks)
       (es_issued_steps s) cs\<rparr>"

definition complete_step :: "string \<Rightarrow> exec_state \<Rightarrow> exec_state" where
  "complete_step step s = s\<lparr>es_completed_steps := add_step step (es_completed_steps s)\<rparr>"

definition persist_unless :: "host \<Rightarrow> bool \<Rightarrow> engine_event \<Rightarrow> unit call" where
  "persist_unless h persisted ev = (if persisted then ret () else persist_event h ev)"

section \<open>Inline tasks\<close>

definition is_inline_task :: "playbook \<Rightarrow> string \<Rightarrow> bool" where
  "is_inline_task pb step \<longleftrightarrow>
     CHR '':'' \<in> set step \<and> get_step pb step = None \<and> \<not> endswith step task_sequence_suffix"

definition finish_inline :: "host \<Rightarrow> bool \<Rightarrow> engine_event \<Rightarrow> unit call" where
  "finish_inline h has_conn ev =
     andthen state_of (\<lambda>s.
       if set (es_issued_steps s) \<subseteq> set (es_completed_steps s) \<and> \<not> es_completed s then
         andthen (changing_state mark_ended) (\<lambda>_.
         andthen (ending_events h ev ''completed'' (event_step ev) VNone) (\<lambda>evs.
         andthen (persist_cascade_events h has_conn evs) (\<lambda>_. save_state h)))
       else ret ())"

definition handle_inline_task :: "host \<Rightarrow> bool \<Rightarrow> bool \<Rightarrow> engine_event \<Rightarrow> command list call" where
  "handle_inline_task h has_conn persisted ev =
     andthen (persist_unless h persisted ev) (\<lambda>_.
       if ev_name ev \<noteq> ''step.exit'' then ret []
       else
         andthen (changing_state (complete_step (event_step ev))) (\<lambda>_.
         andthen (process_deferred_next_actions h (event_step ev) ev) (\<lambda>cs.
         if cs \<noteq> [] then
           andthen (changing_state (note_issued cs)) (\<lambda>_. andthen (save_state h) (\<lambda>_. ret cs))
         else andthen (finish_inline h has_conn ev) (\<lambda>_. ret []))))"

end
