(* ===== verification/Event_Loops.thy ===== *)
theory Event_Loops
  imports Event_Intake
begin

text \<open>
  How \<open>_handle_event_inner\<close> (\<^verbatim>\<open>noetl/core/dsl/engine/executor/events.py\<close>) accounts for the end of a loop's
  iteration: the epoch it belongs to, the count in NATS, the size of the collection, the repair of a
  tail that got lost, the claim of \<open>loop.done\<close> and what follows it; for task sequences, for plain
  tools and for \<open>step.exit\<close>. The blocks that catch every exception keep what was done before it and
  the commands made so far. A repair command does not replace the record of its loop.
\<close>

section \<open>Epochs\<close>

definition pinned_epoch :: "pydict \<Rightarrow> pyval \<Rightarrow> pyval \<Rightarrow> string option" where
  "pinned_epoch meta payload loop_event_id =
     (let m = py_get meta ''__loop_epoch_id'';
          p = (case payload of VDict d \<Rightarrow> py_get d ''__loop_epoch_id'' | _ \<Rightarrow> VNone) in
      if truthy m then Some (py_str m) else if truthy p then Some (py_str p)
      else if truthy loop_event_id then Some (py_str loop_event_id) else None)"

definition own_epoch :: "pyval \<Rightarrow> string option \<Rightarrow> string option" where
  "own_epoch execution_id pinned =
     (case pinned of
        None \<Rightarrow> None
      | Some p \<Rightarrow> if p \<noteq> [] \<and> belongs_to_execution (VStr p) execution_id then Some p else None)"

definition epoch_candidates :: "exec_state \<Rightarrow> string \<Rightarrow> pydict \<Rightarrow> string option \<Rightarrow> pyval \<Rightarrow> string list" where
  "epoch_candidates s step ls pinned known =
     (case pinned of
        Some p \<Rightarrow> add_new (execution_fallback (es_execution_id s)) [p]
      | None \<Rightarrow>
          foldl (\<lambda>cs c. add_new c cs) (if truthy known then [py_str known] else [])
            (build_loop_event_id_candidates s step ls))"

section \<open>Counting an iteration\<close>

definition claim_terminal :: "host \<Rightarrow> engine_event \<Rightarrow> string \<Rightarrow> string \<Rightarrow> bool \<Rightarrow> pyval call" where
  "claim_terminal h ev step epoch failed =
     (let payload = unwrap_event_payload (ev_payload ev) in
      case extract_loop_iteration_index payload (VDict (ev_meta ev)) of
        None \<Rightarrow> ret (VBool True)
      | Some i \<Rightarrow>
          andthen execution_text (\<lambda>x.
            cached h (\<lambda>clk. try_record_loop_iteration_terminal clk x step i (Some epoch)
              (extract_command_id_from_event_payload payload (VDict (ev_meta ev)))
              (if failed then ''FAILED'' else ''COMPLETED'') (VStr (ev_name ev)) VNone)))"

definition increment :: "host \<Rightarrow> string \<Rightarrow> string option \<Rightarrow> int call" where
  "increment h step epoch =
     andthen execution_text (\<lambda>x.
     andthen (cached h (\<lambda>clk. increment_loop_completed clk x step epoch)) (\<lambda>v. pure (py_num v)))"

fun first_counted :: "host \<Rightarrow> string \<Rightarrow> string list \<Rightarrow> (string \<times> int) option call" where
  "first_counted h step [] = ret None"
| "first_counted h step (c # cs) =
     andthen (increment h step (Some c)) (\<lambda>n.
       if 0 \<le> n then ret (Some (c, n)) else first_counted h step cs)"

text \<open>The count (-1: none), the epoch it was taken in, and whether the event is of an epoch that is gone.\<close>

record tally =
  ty_count :: int
  ty_epoch :: string
  ty_stale :: bool

definition count_terminal :: "host \<Rightarrow> string \<Rightarrow> string option \<Rightarrow> string list \<Rightarrow> pyval \<Rightarrow> tally call" where
  "count_terminal h step pinned candidates claim =
     (let epoch = hd candidates in
      if claim = VNone then ret \<lparr>ty_count = -1, ty_epoch = epoch, ty_stale = True\<rparr>
      else if claim = VBool False then
        andthen (fetch_loop_state h step epoch) (\<lambda>v.
        andthen (pure (case v of None \<Rightarrow> Inr 0 | Some d \<Rightarrow> count_or_zero d ''completed_count'')) (\<lambda>n.
          ret \<lparr>ty_count = n, ty_epoch = epoch, ty_stale = False\<rparr>))
      else
        (case pinned of
           Some p \<Rightarrow>
             andthen (increment h step (Some p)) (\<lambda>n.
               ret (if 0 \<le> n then \<lparr>ty_count = n, ty_epoch = p, ty_stale = False\<rparr>
                    else \<lparr>ty_count = -1, ty_epoch = epoch, ty_stale = True\<rparr>))
         | None \<Rightarrow>
             andthen (first_counted h step candidates) (\<lambda>r.
               ret (case r of
                      None \<Rightarrow> \<lparr>ty_count = -1, ty_epoch = epoch, ty_stale = False\<rparr>
                    | Some (c, n) \<Rightarrow> \<lparr>ty_count = n, ty_epoch = c, ty_stale = False\<rparr>))))"

definition tally_iteration ::
  "host \<Rightarrow> engine_event \<Rightarrow> string \<Rightarrow> string option \<Rightarrow> string list \<Rightarrow> pyval \<Rightarrow> bool \<Rightarrow> tally call" where
  "tally_iteration h ev step pinned candidates result failed =
     andthen (claim_terminal h ev step (hd candidates) failed) (\<lambda>claim.
     andthen (if truthy claim then on_state (add_loop_result (loop_result h) step result failed) else ret ()) (\<lambda>_.
       count_terminal h step pinned candidates claim))"

definition count_reliable :: "tally \<Rightarrow> bool" where
  "count_reliable t \<longleftrightarrow> \<not> ty_stale t \<and> 0 \<le> ty_count t"

section \<open>The record of the loop\<close>

text \<open>A late event, of another epoch than the active one, works on a copy whose changes nothing reads.\<close>

record loop_view =
  lv_late :: bool
  lv_copy :: pydict

definition is_late :: "pydict \<Rightarrow> string \<Rightarrow> bool" where
  "is_late ls epoch \<longleftrightarrow>
     truthy (py_get ls ''event_id'') \<and> epoch \<noteq> [] \<and> py_get ls ''event_id'' \<noteq> VStr epoch"

definition attach :: "string \<Rightarrow> string \<Rightarrow> loop_view call" where
  "attach step epoch =
     andthen (loop_of step) (\<lambda>ls.
       if is_late ls epoch then ret \<lparr>lv_late = True, lv_copy = ls\<rparr>
       else andthen (set_loop_key step ''event_id'' (VStr epoch)) (\<lambda>_. ret \<lparr>lv_late = False, lv_copy = ls\<rparr>))"

definition view_loop :: "string \<Rightarrow> loop_view \<Rightarrow> pydict call" where
  "view_loop step v = (if lv_late v then ret (lv_copy v) else loop_of step)"

definition edit_loop :: "string \<Rightarrow> loop_view \<Rightarrow> string \<Rightarrow> pyval \<Rightarrow> unit call" where
  "edit_loop step v k x = (if lv_late v then ret () else set_loop_key step k x)"

section \<open>The size of the collection\<close>

definition held_size :: "pydict \<Rightarrow> int" where
  "held_size ls = (case py_get ls ''collection'' of VList xs \<Rightarrow> int (length xs) | _ \<Rightarrow> 0)"

definition recovered_size :: "host \<Rightarrow> step_decl \<Rightarrow> loop_decl \<Rightarrow> engine_event \<Rightarrow> loop_view \<Rightarrow> int call" where
  "recovered_size h step l ev v =
     andthen state_of (\<lambda>s.
     andthen (pure (get_render_context ev s)) (\<lambda>context.
       if is_cursor l then
         andthen (pure (get_loop_max_in_flight (h_renderer h) step (Some context))) (\<lambda>n.
         andthen (edit_loop (st_step step) v ''collection_size'' (VInt n)) (\<lambda>_. ret n))
       else
         andthen (pure (case ld_in l of None \<Rightarrow> Inr [] | Some t \<Rightarrow> render_collection (h_renderer h) t context)) (\<lambda>xs.
         andthen (edit_loop (st_step step) v ''collection'' (VList xs)) (\<lambda>_. ret (int (length xs))))))"

definition backfill :: "host \<Rightarrow> string \<Rightarrow> loop_view \<Rightarrow> string \<Rightarrow> int \<Rightarrow> int \<Rightarrow> unit call" where
  "backfill h step v epoch n k =
     (if n \<le> 0 then ret ()
      else
        andthen (view_loop step v) (\<lambda>ls.
          store_loop_state h step epoch
            [(''collection_size'', VInt n), (''completed_count'', VInt (max k 0)),
             (''scheduled_count'', VInt (max k 0)), (''iterator'', py_get ls ''iterator''),
             (''mode'', py_get ls ''mode''), (''event_id'', VStr epoch)]))"

text \<open>Where a loop stands: the epoch, the size and the record in NATS, as far as it was read.\<close>

record standing =
  sd_epoch :: string
  sd_size :: int
  sd_stored :: "pydict option"

definition stored_size :: "host \<Rightarrow> string \<Rightarrow> loop_view \<Rightarrow> string \<Rightarrow> string list \<Rightarrow> standing call" where
  "stored_size h step v epoch lookups =
     andthen (first_stored h step lookups) (\<lambda>found.
       case found of
         None \<Rightarrow> ret \<lparr>sd_epoch = epoch, sd_size = 0, sd_stored = None\<rparr>
       | Some (c, d) \<Rightarrow>
           andthen (edit_loop step v ''event_id'' (VStr c)) (\<lambda>_.
           andthen (pure (count_or_zero d ''collection_size'')) (\<lambda>n.
             ret \<lparr>sd_epoch = c, sd_size = n, sd_stored = Some d\<rparr>)))"

definition resolve_size ::
  "host \<Rightarrow> step_decl \<Rightarrow> loop_decl \<Rightarrow> engine_event \<Rightarrow> loop_view \<Rightarrow> string option \<Rightarrow> string list \<Rightarrow> tally \<Rightarrow> int
     \<Rightarrow> standing call" where
  "resolve_size h step l ev v pinned candidates t k =
     andthen (view_loop (st_step step) v) (\<lambda>ls.
       if held_size ls \<noteq> 0 then ret \<lparr>sd_epoch = ty_epoch t, sd_size = held_size ls, sd_stored = None\<rparr>
       else
         andthen (stored_size h (st_step step) v (ty_epoch t)
             (ty_epoch t # (if pinned \<noteq> None then [] else filter (\<lambda>c. c \<noteq> ty_epoch t) candidates))) (\<lambda>sd.
         if sd_size sd \<noteq> 0 then ret sd
         else
           andthen (recovered_size h step l ev v) (\<lambda>n.
           andthen (if sd_stored sd = None then backfill h (st_step step) v (sd_epoch sd) n k else ret ()) (\<lambda>_.
             ret (sd\<lparr>sd_size := n\<rparr>)))))"

text \<open>A counter in NATS that is behind the count is brought up to it.\<close>

definition catch_up :: "host \<Rightarrow> string \<Rightarrow> int \<Rightarrow> standing \<Rightarrow> pydict option call" where
  "catch_up h step k sd =
     (if \<not> (0 < sd_size sd \<and> 0 \<le> k) then ret (sd_stored sd)
      else
        andthen (case sd_stored sd of
                   Some d \<Rightarrow> ret (Some d) | None \<Rightarrow> fetch_loop_state h step (sd_epoch sd)) (\<lambda>v.
        case v of
          None \<Rightarrow> ret None
        | Some d \<Rightarrow>
            andthen (pure (count_or_zero d ''completed_count'')) (\<lambda>current.
            if k \<le> current then ret (Some d)
            else
              andthen (pure (count_or d ''scheduled_count'' k)) (\<lambda>scheduled.
              (let d' = set_keys [(''completed_count'', VInt k), (''scheduled_count'', VInt (max scheduled k))] d in
               andthen (store_loop_state h step (sd_epoch sd) d') (\<lambda>_. ret (Some d')))))))"

section \<open>The tail\<close>

text \<open>The gap is appended while the limit is not reached; it is looked at after each index.\<close>

fun add_gap :: "int \<Rightarrow> int list \<Rightarrow> int list \<Rightarrow> int list" where
  "add_gap limit ms [] = ms"
| "add_gap limit ms (i # is) =
     (if i \<in> set ms then add_gap limit ms is
      else if limit \<le> int (length ms) + 1 then ms @ [i] else add_gap limit (ms @ [i]) is)"

definition tail_needs_repair :: "host \<Rightarrow> loop_decl \<Rightarrow> int \<Rightarrow> int \<Rightarrow> int \<Rightarrow> bool" where
  "tail_needs_repair h l n k scheduled \<longleftrightarrow>
     (let limit = h_repair_threshold h; remaining = max 0 (n - k); gap = max 0 (n - scheduled) in
      \<not> is_cursor l \<and> 0 < limit \<and> 0 < n \<and> 0 < remaining \<and> remaining \<le> limit
      \<and> (n \<le> scheduled \<or> gap \<le> limit))"

definition tail_indexes :: "host \<Rightarrow> string \<Rightarrow> string \<Rightarrow> int \<Rightarrow> int \<Rightarrow> int list call" where
  "tail_indexes h node epoch n scheduled =
     andthen (clock h) (\<lambda>now.
     andthen state_of (\<lambda>s.
     andthen (reading (find_missing_iterations (es_execution_id s) node (Some epoch) (h_repair_threshold h)
         (h_missing_min_age h) now)) (\<lambda>ms.
       ret (if scheduled < n then add_gap (h_repair_threshold h) ms [scheduled..n - 1] else ms))))"

definition retry_arguments :: "int \<Rightarrow> pydict" where
  "retry_arguments i =
     [(''__loop_continue'', VBool True), (''__loop_retry'', VBool True), (''__loop_retry_index'', VInt i)]"

text \<open>The commands, the indexes issued, and whether no creation raised.\<close>

fun reissue :: "host \<Rightarrow> step_decl \<Rightarrow> int \<Rightarrow> int list \<Rightarrow> int list \<Rightarrow> (command list \<times> int list \<times> bool) call" where
  "reissue h step n issued [] = ret ([], issued, True)"
| "reissue h step n issued (i # is) =
     (if i \<in> set issued \<or> i < 0 \<or> n \<le> i then reissue h step n issued is
      else
        andthen (attempt (create_command_for_step h step (retry_arguments i))) (\<lambda>r.
          case r of
            None \<Rightarrow> ret ([], issued, False)
          | Some None \<Rightarrow> reissue h step n issued is
          | Some (Some c) \<Rightarrow>
              andthen (reissue h step n (issued @ [i]) is) (\<lambda>(cs, issued', ok). ret (c # cs, issued', ok))))"

definition repair_tail ::
  "host \<Rightarrow> step_decl \<Rightarrow> loop_decl \<Rightarrow> string \<Rightarrow> loop_view \<Rightarrow> string \<Rightarrow> int \<Rightarrow> int \<Rightarrow> int \<Rightarrow> (command list \<times> bool) call" where
  "repair_tail h step l node v epoch n k scheduled =
     (if \<not> tail_needs_repair h l n k scheduled then ret ([], True)
      else
        andthen (tail_indexes h node epoch n scheduled) (\<lambda>ms.
        if ms = [] then ret ([], True)
        else
          andthen (view_loop (st_step step) v) (\<lambda>ls.
          andthen (pure (repaired_indexes ls)) (\<lambda>issued.
          andthen (reissue h step n issued ms) (\<lambda>(cs, issued', ok).
          andthen (if cs \<noteq> [] \<and> ok
                   then edit_loop (st_step step) v ''repair_issued_indexes'' (VList (map VInt (sort issued')))
                   else ret ()) (\<lambda>_. ret (cs, ok)))))))"

section \<open>The end of a loop\<close>

definition aggregation_dict :: "loop_aggregation \<Rightarrow> pydict" where
  "aggregation_dict a =
     [(''results'', VList (la_results a)),
      (''stats'', VDict [(''total'', VInt (la_total a)), (''success'', VInt (la_success a)),
         (''failed'', VInt (la_failed a))])]"

definition aggregate :: "string \<Rightarrow> pydict call" where
  "aggregate step =
     andthen state_of (\<lambda>s. andthen (pure (get_loop_aggregation step s)) (\<lambda>a. ret (aggregation_dict a)))"

definition mark_done :: "host \<Rightarrow> string \<Rightarrow> pyval \<Rightarrow> unit call" where
  "mark_done h step v = changing_state (mark_step_completed (rd_resolve (h_renderer h)) step v)"

text \<open>The loop counts as completed and its results as aggregated.\<close>

definition finalize_loop :: "string \<Rightarrow> unit call" where
  "finalize_loop step =
     andthen (set_loop_key step ''completed'' (VBool True)) (\<lambda>_.
       set_loop_key step ''aggregation_finalized'' (VBool True))"

definition logged_transition :: "string \<Rightarrow> string \<Rightarrow> engine \<Rightarrow> bool" where
  "logged_transition name epoch e =
     list_ex (\<lambda>r. we_execution_id r = es_execution_id (en_state e) \<and> we_event_type r = name
       \<and> (case we_context r of
            VDict d \<Rightarrow> py_get d ''loop_event_id'' \<noteq> VNone \<and> py_str (py_get d ''loop_event_id'') = epoch
          | _ \<Rightarrow> False)) (en_events e)"

definition transition_emitted :: "string \<Rightarrow> string \<Rightarrow> string \<Rightarrow> bool call" where
  "transition_emitted step name epoch =
     andthen (reading (\<lambda>e. e)) (\<lambda>e.
     (let s = en_state e; k = epoch_key step name epoch in
      if k \<in> set (es_emitted_epochs s) then ret True
      else if (case py_int (es_execution_id s) of Inl _ \<Rightarrow> False | Inr _ \<Rightarrow> logged_transition name epoch e)
      then andthen (changing_state (\<lambda>s. s\<lparr>es_emitted_epochs := es_emitted_epochs s @ [k]\<rparr>)) (\<lambda>_. ret True)
      else ret False))"

text \<open>
  Another handler holds the claim: the step is completed here too, and the transition is skipped
  unless no event of it is found.
\<close>

definition yield_claim :: "host \<Rightarrow> string \<Rightarrow> string \<Rightarrow> bool call" where
  "yield_claim h step epoch =
     andthen (attempt
       (andthen (finalize_loop step) (\<lambda>_.
        andthen (aggregate step) (\<lambda>agg.
        andthen (mark_done h step (VDict agg)) (\<lambda>_. transition_emitted step ''loop.done'' epoch))))) (\<lambda>r.
     ret (r \<noteq> Some False))"

text \<open>Whether \<open>loop.done\<close> is to be skipped; a claim that raises lets it through.\<close>

definition skip_loop_done :: "host \<Rightarrow> string \<Rightarrow> string option \<Rightarrow> bool call \<Rightarrow> bool call" where
  "skip_loop_done h step epoch lost =
     andthen (attempt (andthen execution_text (\<lambda>x. cached h (\<lambda>clk. try_claim_loop_done clk x step epoch)))) (\<lambda>r.
       case r of None \<Rightarrow> ret False | Some v \<Rightarrow> if truthy v then ret False else lost)"

definition loop_done_event :: "host \<Rightarrow> int \<Rightarrow> exec_state \<Rightarrow> engine_event \<Rightarrow> string \<Rightarrow> pyval \<Rightarrow> pydict \<Rightarrow> pyval \<Rightarrow> engine_event" where
  "loop_done_event h now s ev step iterations agg epoch =
     lifecycle_event h now (ev_execution_id ev) step ''loop.done''
       [(''status'', VStr ''completed''), (''iterations'', iterations), (''result'', VDict agg),
        (''loop_event_id'', epoch)] (es_root_event_id s)"

definition announce_loop_done ::
  "host \<Rightarrow> bool \<Rightarrow> step_decl \<Rightarrow> engine_event \<Rightarrow> pyval \<Rightarrow> pydict \<Rightarrow> pyval \<Rightarrow> command list call" where
  "announce_loop_done h closes_stage step ev iterations agg epoch =
     andthen (clock h) (\<lambda>now.
     andthen state_of (\<lambda>s.
     (let done = loop_done_event h now s ev (st_step step) iterations agg epoch in
      andthen (persist_event h done) (\<lambda>_.
      andthen (if closes_stage then close_runtime_stage_for_loop h (st_step step) epoch ''COMPLETED''
               else ret None) (\<lambda>_.
      andthen (changing_state (add_emitted_loop_epoch (st_step step) ''loop.done'' (py_str epoch))) (\<lambda>_.
        evaluate_next_transitions h step done))))))"

definition finish_loop ::
  "host \<Rightarrow> bool \<Rightarrow> step_decl \<Rightarrow> engine_event \<Rightarrow> int \<Rightarrow> string \<Rightarrow> command list call" where
  "finish_loop h closes_stage step ev k epoch =
     andthen (finalize_loop (st_step step)) (\<lambda>_.
     andthen (aggregate (st_step step)) (\<lambda>agg.
     andthen (mark_done h (st_step step) (VDict agg)) (\<lambda>_.
       announce_loop_done h closes_stage step ev (VInt k) agg (VStr epoch))))"

definition claim_and_finish ::
  "host \<Rightarrow> bool \<Rightarrow> step_decl \<Rightarrow> engine_event \<Rightarrow> loop_view \<Rightarrow> int \<Rightarrow> string \<Rightarrow> command list call" where
  "claim_and_finish h closes_stage step ev v k epoch =
     andthen (skip_loop_done h (st_step step) (Some epoch)
         (if lv_late v then ret True else yield_claim h (st_step step) epoch)) (\<lambda>skip.
       if skip \<or> lv_late v then ret [] else finish_loop h closes_stage step ev k epoch)"

definition continue_loop :: "host \<Rightarrow> step_decl \<Rightarrow> command list call" where
  "continue_loop h step = issue_loop_commands h step [(''__loop_continue'', VBool True)]"

text \<open>The commands made so far, and those of a call that may raise.\<close>

definition more :: "command list \<Rightarrow> command list call \<Rightarrow> command list call" where
  "more cs m = andthen (attempt m) (\<lambda>r. ret (cs @ (case r of None \<Rightarrow> [] | Some ds \<Rightarrow> ds)))"

section \<open>Iterations of task sequences\<close>

text \<open>
  Without a count the completed iterations of the record are taken; when it has none, the record of
  NATS is looked at before it is read.
\<close>

definition fallback_count :: "string \<Rightarrow> tally \<Rightarrow> int call" where
  "fallback_count step t =
     (if ty_stale t \<or> 0 \<le> ty_count t then ret (ty_count t)
      else
        andthen state_of (\<lambda>s.
        andthen (pure (get_loop_completed_count step s)) (\<lambda>k.
          if k \<le> 0 then raises (UnboundLocalError ''nats_loop_state'') else ret k)))"

definition sequence_standing ::
  "host \<Rightarrow> step_decl \<Rightarrow> loop_decl \<Rightarrow> engine_event \<Rightarrow> string option \<Rightarrow> pyval \<Rightarrow> pyval \<Rightarrow> bool
     \<Rightarrow> (tally \<times> int \<times> loop_view \<times> standing \<times> int) call" where
  "sequence_standing h step l ev pin known result failed =
     andthen state_of (\<lambda>s.
     andthen (loop_of (st_step step)) (\<lambda>ls.
     (let pinned = own_epoch (es_execution_id s) pin;
          candidates = epoch_candidates s (st_step step) ls pinned known in
      andthen (tally_iteration h ev (st_step step) pinned candidates result failed) (\<lambda>t.
      andthen (fallback_count (st_step step) t) (\<lambda>k.
      andthen (attach (st_step step) (ty_epoch t)) (\<lambda>v.
      andthen (resolve_size h step l ev v pinned candidates t k) (\<lambda>sd.
      andthen (catch_up h (st_step step) k sd) (\<lambda>stored.
      andthen (pure (count_or (case stored of None \<Rightarrow> [] | Some d \<Rightarrow> d) ''scheduled_count'' k)) (\<lambda>n.
        ret (t, k, v, sd, max n k))))))))))"

definition advance_sequence ::
  "host \<Rightarrow> step_decl \<Rightarrow> engine_event \<Rightarrow> tally \<Rightarrow> int \<Rightarrow> loop_view \<Rightarrow> standing \<Rightarrow> command list call" where
  "advance_sequence h step ev t k v sd =
     (if 0 < sd_size sd \<and> sd_size sd \<le> k \<and> count_reliable t
      then claim_and_finish h True step ev v k (sd_epoch sd)
      else continue_loop h step)"

definition progress_sequence ::
  "host \<Rightarrow> step_decl \<Rightarrow> loop_decl \<Rightarrow> engine_event \<Rightarrow> string option \<Rightarrow> pyval \<Rightarrow> pyval \<Rightarrow> bool \<Rightarrow> command list call" where
  "progress_sequence h step l ev pin known result failed =
     andthen (attempt (sequence_standing h step l ev pin known result failed)) (\<lambda>r.
       case r of
         None \<Rightarrow> ret []
       | Some (t, k, v, sd, scheduled) \<Rightarrow>
           andthen (attempt (repair_tail h step l (event_step ev) v (sd_epoch sd) (sd_size sd) k scheduled)) (\<lambda>r.
             case r of
               None \<Rightarrow> ret []
             | Some (cs, ok) \<Rightarrow>
                 if ok then more cs (advance_sequence h step ev t k v sd) else ret cs))"

section \<open>Iterations of plain tools\<close>

definition plain_fallback_count :: "string \<Rightarrow> tally \<Rightarrow> int call" where
  "plain_fallback_count step t =
     (if ty_stale t \<or> 0 \<le> ty_count t then ret (ty_count t)
      else
        andthen state_of (\<lambda>s.
        andthen (pure (get_loop_completed_count step s)) (\<lambda>k.
        andthen (reading (count_step_events (es_execution_id s) step ''call.done'')) (\<lambda>n. ret (max k n)))))"

definition plain_size ::
  "host \<Rightarrow> step_decl \<Rightarrow> loop_decl \<Rightarrow> engine_event \<Rightarrow> loop_view \<Rightarrow> string \<Rightarrow> int call" where
  "plain_size h step l ev v epoch =
     andthen (fetch_loop_state h (st_step step) epoch) (\<lambda>stored.
     andthen (pure (case stored of None \<Rightarrow> Inr 0 | Some d \<Rightarrow> count_or_zero d ''collection_size'')) (\<lambda>n.
       if n = 0 then recovered_size h step l ev v else ret n))"

text \<open>At the full size a count that is not reliable issues nothing.\<close>

definition progress_plain_loop ::
  "host \<Rightarrow> step_decl \<Rightarrow> loop_decl \<Rightarrow> engine_event \<Rightarrow> pyval \<Rightarrow> bool \<Rightarrow> command list call" where
  "progress_plain_loop h step l ev result failed =
     more [] (andthen state_of (\<lambda>s.
     andthen (loop_of (st_step step)) (\<lambda>ls.
     (let pinned = own_epoch (es_execution_id s)
            (pinned_epoch (ev_meta ev) (ev_payload ev) (py_get (payload_of ev) ''loop_event_id''));
          candidates = epoch_candidates s (st_step step) ls pinned (py_get ls ''event_id'') in
      andthen (tally_iteration h ev (st_step step) pinned candidates result failed) (\<lambda>t.
      andthen (plain_fallback_count (st_step step) t) (\<lambda>k.
      andthen (attach (st_step step) (ty_epoch t)) (\<lambda>v.
      andthen (plain_size h step l ev v (ty_epoch t)) (\<lambda>n.
        if 0 < n \<and> n \<le> k
        then (if count_reliable t then claim_and_finish h False step ev v k (ty_epoch t) else ret [])
        else continue_loop h step))))))))"

end
