(* ===== verification/Event_Handler.thy ===== *)
theory Event_Handler
  imports Event_Loops
begin

text \<open>
  \<open>EventHandlingMixin.handle_event\<close> (\<^verbatim>\<open>noetl/core/dsl/engine/executor/events.py\<close>): what the engine does
  with an event of a worker. The stages of \<open>_handle_event_inner\<close> are one definition each, in its
  order: task sequences, the result of a call, routing, loops, pagination, structural transitions,
  the check for completion and the failures. Timings, diagnostics of single playbooks and the
  disabled worker actions are left out. The state is loaded at the start of every event, so
  \<open>_last_saved_event_id\<close> is always unset, and the cache refresh never happens:
  \<open>should_refresh_cached_state\<close> is always false.
\<close>

section \<open>Payloads\<close>

definition as_object :: "pyval \<Rightarrow> pydict res" where
  "as_object v = (case v of VDict d \<Rightarrow> Inr d | _ \<Rightarrow> Inl (AttributeError ''get''))"

definition upper_of :: "pyval \<Rightarrow> string res" where
  "upper_of v = (case v of VStr s \<Rightarrow> Inr (upper s) | _ \<Rightarrow> Inl (AttributeError ''upper''))"

text \<open>\<open>d.get("status", "").upper()\<close>\<close>

definition upper_status :: "pydict \<Rightarrow> string res" where
  "upper_status d = upper_of (py_get_default d ''status'' (VStr ''''))"

definition normalized :: "engine_event \<Rightarrow> pyval" where
  "normalized ev = unwrap_event_payload (ev_payload ev)"

definition sequence_response :: "pyval \<Rightarrow> pyval" where
  "sequence_response v = (case v of VDict d \<Rightarrow> py_get_default d ''response'' v | _ \<Rightarrow> v)"

definition call_response :: "pyval \<Rightarrow> pyval" where
  "call_response v =
     (case v of VDict d \<Rightarrow> py_get_default d ''response'' (py_get_default d ''result'' v) | _ \<Rightarrow> v)"

definition payload_epoch :: "pyval \<Rightarrow> pyval \<Rightarrow> pyval" where
  "payload_epoch payload response =
     (let k = ''loop_event_id'';
          own = (case payload of VDict d \<Rightarrow> py_get d k | _ \<Rightarrow> VNone);
          told = (if \<not> truthy own \<and> is_dict response then py_get (dict_or_empty response) k else own) in
      if truthy told then told
      else (case payload of
          VDict d \<Rightarrow> (case py_get d ''context'' of VDict c \<Rightarrow> py_get c k | _ \<Rightarrow> told)
        | _ \<Rightarrow> told))"

section \<open>The set block of a step\<close>

definition rendered_set :: "renderer \<Rightarrow> pydict \<Rightarrow> pydict \<Rightarrow> pydict" where
  "rendered_set rd context ms =
     List.map_filter (\<lambda>(k, v). case v of
         VStr t \<Rightarrow>
           if contains t ''{{'' then (case render_template rd t context of Inl _ \<Rightarrow> None | Inr w \<Rightarrow> Some (k, w))
           else Some (k, v)
       | _ \<Rightarrow> Some (k, v)) ms"

definition run_step_set :: "host \<Rightarrow> pydict \<Rightarrow> pydict \<Rightarrow> unit call" where
  "run_step_set h context ms =
     changing_state (\<lambda>s. s\<lparr>es_variables :=
       apply_set_mutations (es_variables s) (rendered_set (h_renderer h) context ms)\<rparr>)"

definition mutations_of :: "step_decl \<Rightarrow> pydict" where
  "mutations_of step = (case st_set step of None \<Rightarrow> [] | Some ms \<Rightarrow> ms)"

section \<open>Task sequences\<close>

definition sync_ctx :: "pyval \<Rightarrow> exec_state \<Rightarrow> exec_state" where
  "sync_ctx ctx s =
     (case ctx of VDict d \<Rightarrow> s\<lparr>es_variables := set_keys d (es_variables s)\<rparr> | _ \<Rightarrow> s)"

text \<open>The result of the last task is promoted under the fields of the response.\<close>

definition promoted :: "pydict \<Rightarrow> pydict res" where
  "promoted response =
     (case py_get_default response ''results'' (VDict []) of
        VDict [] \<Rightarrow> Inr response
      | VDict d \<Rightarrow> Inr (case snd (last d) of VDict r \<Rightarrow> set_keys response r | _ \<Rightarrow> response)
      | v \<Rightarrow> if truthy v then Inl (AttributeError ''values'') else Inr response)"

definition seeded_loop :: "loop_decl \<Rightarrow> pyval \<Rightarrow> pydict" where
  "seeded_loop l epoch =
     [(''collection'', VList []),
      (''iterator'', VStr (if ld_iterator l = [] then ''item'' else ld_iterator l)),
      (''index'', VInt 0), (''mode'', VStr (mode_name l)), (''completed'', VBool False),
      (''results'', VList []), (''failed_count'', VInt 0), (''scheduled_count'', VInt 0),
      (''aggregation_finalized'', VBool False), (''event_id'', epoch), (''omitted_results_count'', VInt 0)]"

text \<open>A loop whose record is missing is seeded; a step without a loop is completed before its set block.\<close>

definition admit_sequence :: "host \<Rightarrow> string \<Rightarrow> step_decl option \<Rightarrow> pyval \<Rightarrow> pydict \<Rightarrow> unit call" where
  "admit_sequence h parent step epoch result =
     (case step of
        None \<Rightarrow> mark_done h parent (VDict result)
      | Some st \<Rightarrow>
          (case st_loop st of
             None \<Rightarrow> mark_done h parent (VDict result)
           | Some l \<Rightarrow>
               changing_state (\<lambda>s. if map_of (es_loop_state s) parent = None
                 then with_loop parent (seeded_loop l epoch) s else s)))"

definition set_after_sequence :: "host \<Rightarrow> step_decl option \<Rightarrow> engine_event \<Rightarrow> unit call" where
  "set_after_sequence h step ev =
     (case step of
        None \<Rightarrow> ret ()
      | Some st \<Rightarrow>
          if mutations_of st = [] then ret ()
          else
            andthen state_of (\<lambda>s.
            andthen (pure (get_render_context ev s)) (\<lambda>context. run_step_set h context (mutations_of st))))"

definition hydrate_epoch :: "host \<Rightarrow> step_decl \<Rightarrow> engine_event \<Rightarrow> string option \<Rightarrow> pydict option call" where
  "hydrate_epoch h step ev pin =
     andthen (reading (\<lambda>e. e)) (\<lambda>e.
     andthen (pure (ensure_loop_state_for_epoch (h_renderer h) step ev pin (en_state e) (en_cache e)))
       (\<lambda>(found, s').
     andthen (changing_state (\<lambda>_. s')) (\<lambda>_.
       ret (case found of None \<Rightarrow> map_of (es_loop_state s') (st_step step) | Some ls \<Rightarrow> Some ls))))"

definition sequence_in_loop ::
  "host \<Rightarrow> step_decl \<Rightarrow> loop_decl \<Rightarrow> engine_event \<Rightarrow> pydict \<Rightarrow> pyval \<Rightarrow> command list call" where
  "sequence_in_loop h step l ev response epoch =
     (let pin = pinned_epoch (ev_meta ev) (normalized ev) epoch in
      andthen (hydrate_epoch h step ev pin) (\<lambda>found.
      case found of
        None \<Rightarrow> ret []
      | Some ls \<Rightarrow>
          if ls = [] \<or> truthy (py_get_default ls ''aggregation_finalized'' (VBool False)) then ret []
          else
            andthen (pure (upper_status response)) (\<lambda>status.
              progress_sequence h step l ev pin epoch
                (py_get_default response ''results'' (VDict response)) (status = ''FAILED''))))"

definition sequence_outside_loop ::
  "host \<Rightarrow> step_decl option \<Rightarrow> engine_event \<Rightarrow> pydict \<Rightarrow> command list call" where
  "sequence_outside_loop h step ev response =
     (let rest = py_get_default response ''remaining_actions'' (VList []) in
      if truthy rest then process_then_actions h rest ev
      else
        (case step of
           None \<Rightarrow> raises (AttributeError ''next'')
         | Some st \<Rightarrow> evaluate_next_transitions h st ev))"

definition route_sequence ::
  "host \<Rightarrow> step_decl option \<Rightarrow> engine_event \<Rightarrow> pydict \<Rightarrow> pyval \<Rightarrow> command list call" where
  "route_sequence h step ev response epoch =
     (case step of
        None \<Rightarrow> sequence_outside_loop h None ev response
      | Some st \<Rightarrow>
          (case st_loop st of
             None \<Rightarrow> sequence_outside_loop h (Some st) ev response
           | Some l \<Rightarrow> sequence_in_loop h st l ev response epoch))"

definition absorb_sequence :: "host \<Rightarrow> engine_event \<Rightarrow> (step_decl option \<times> pydict \<times> pyval) call" where
  "absorb_sequence h ev =
     (let parent = parent_of (event_step ev); raw = sequence_response (normalized ev);
          epoch = payload_epoch (normalized ev) raw in
      andthen (pure (as_object raw)) (\<lambda>response.
      andthen (changing_state (sync_ctx (py_get_default response ''ctx'' (VDict [])))) (\<lambda>_.
      andthen state_of (\<lambda>s.
      (let step = get_step (es_playbook s) parent in
       andthen (pure (promoted response)) (\<lambda>result.
       andthen (admit_sequence h parent step epoch result) (\<lambda>_.
       andthen (set_after_sequence h step ev) (\<lambda>_. ret (step, response, epoch)))))))))"

definition handle_task_sequence :: "host \<Rightarrow> bool \<Rightarrow> engine_event \<Rightarrow> command list call" where
  "handle_task_sequence h persisted ev =
     andthen (absorb_sequence h ev) (\<lambda>(step, response, epoch).
     andthen (route_sequence h step ev response epoch) (\<lambda>cs.
     andthen (changing_state (note_issued cs)) (\<lambda>_.
     andthen (save_state h) (\<lambda>_.
     andthen (persist_unless h persisted ev) (\<lambda>_. ret cs)))))"

section \<open>The result of a call\<close>

definition worker_retries :: "pyval \<Rightarrow> bool res" where
  "worker_retries payload =
     (case payload of
        VDict d \<Rightarrow>
          (let a = py_get d ''eval_action'' in
           if truthy a then rbind (as_object a) (\<lambda>x. Inr (py_get x ''type'' = VStr ''retry'')) else Inr False)
      | _ \<Rightarrow> Inr False)"

definition absorb_call :: "host \<Rightarrow> engine_event \<Rightarrow> unit call" where
  "absorb_call h ev =
     (if ev_name ev = ''call.done'' then
        mark_done h (event_step ev) (hydrate_reference_only h (call_response (normalized ev)))
      else if ev_name ev = ''call.error'' then
        changing_state (\<lambda>s. (complete_step (event_step ev) s)\<lparr>es_failed := True\<rparr>)
      else ret ())"

definition call_context :: "host \<Rightarrow> step_decl \<Rightarrow> engine_event \<Rightarrow> pydict call" where
  "call_context h step ev =
     andthen state_of (\<lambda>s.
     andthen (pure (get_render_context ev s)) (\<lambda>context.
       if ev_name ev = ''call.done'' \<and> mutations_of step \<noteq> [] then
         andthen (run_step_set h context (mutations_of step)) (\<lambda>_.
         andthen state_of (\<lambda>s'. pure (get_render_context ev s')))
       else ret context))"

text \<open>The commands of the arcs, whether one matched if they were evaluated, and whether one raised.\<close>

definition in_loop :: "step_decl \<Rightarrow> engine_event \<Rightarrow> exec_state \<Rightarrow> bool" where
  "in_loop step ev s \<longleftrightarrow> st_loop step \<noteq> None \<and> map_of (es_loop_state s) (event_step ev) \<noteq> None"

definition route_call ::
  "host \<Rightarrow> step_decl \<Rightarrow> engine_event \<Rightarrow> bool \<Rightarrow> (command list \<times> bool option \<times> bool) call" where
  "route_call h step ev looping =
     (if ev_name ev \<in> {''call.done'', ''call.error''} \<and> \<not> looping then
        andthen (evaluate_next_transitions_with_status h step ev) (\<lambda>(cs, matched, raised).
          ret (cs, Some matched, raised))
      else ret ([], None, False))"

definition response_failed :: "pyval \<Rightarrow> bool res" where
  "response_failed v =
     (case v of
        VDict d \<Rightarrow> rbind (upper_of (py_or (py_get_default d ''status'' (VStr '''')) (VStr '''')))
                     (\<lambda>s. Inr (s \<in> {''FAILED'', ''ERROR''}))
      | _ \<Rightarrow> Inr False)"

definition advance_plain_loop :: "host \<Rightarrow> step_decl \<Rightarrow> engine_event \<Rightarrow> bool \<Rightarrow> command list call" where
  "advance_plain_loop h step ev looping =
     (case (if ev_name ev = ''call.done'' \<and> looping then st_loop step else None) of
        None \<Rightarrow> ret []
      | Some l \<Rightarrow>
          andthen (loop_of (event_step ev)) (\<lambda>ls.
          if truthy (py_get_default ls ''aggregation_finalized'' (VBool False)) then ret []
          else
            (let result = call_response (normalized ev) in
             andthen (pure (response_failed result)) (\<lambda>failed.
               progress_plain_loop h step l ev result failed))))"

section \<open>Pagination and the result of an exit\<close>

definition note_retry :: "string \<Rightarrow> bool \<Rightarrow> exec_state \<Rightarrow> exec_state" where
  "note_retry step retrying s =
     (if retrying \<or> has_key (es_pagination_state s) step then set_pending step retrying s else s)"

definition flattened :: "pyval list \<Rightarrow> pyval list" where
  "flattened xs = concat (map (\<lambda>x. case x of VList ys \<Rightarrow> ys | v \<Rightarrow> [v]) xs)"

definition with_pages :: "pyval \<Rightarrow> pyval list \<Rightarrow> pyval \<Rightarrow> pyval" where
  "with_pages pages items result =
     (let extra = [(''_pagination'', VDict [(''pages_collected'', pages), (''all_items'', VList items)]),
            (''_all_collected_items'', VList (flattened items))] in
      case result of
        VDict d \<Rightarrow> VDict (set_keys extra d)
      | v \<Rightarrow> VDict ((''original_result'', v) # extra))"

definition with_result :: "pyval \<Rightarrow> engine_event \<Rightarrow> engine_event" where
  "with_result v ev = ev\<lparr>ev_payload := VDict (AList.update ''result'' v (payload_of ev))\<rparr>"

definition items_of :: "pyval \<Rightarrow> pyval list res" where
  "items_of v = (case v of VList xs \<Rightarrow> Inr xs | _ \<Rightarrow> Inl (TypeError ''object is not iterable''))"

text \<open>The pages collected for a step join its result, and the collection starts again.\<close>

definition merge_pages :: "string \<Rightarrow> bool \<Rightarrow> engine_event \<Rightarrow> engine_event call" where
  "merge_pages step retrying ev =
     andthen state_of (\<lambda>s.
     (let paging = paging_of s step; collected = py_get_default paging ''collected_data'' (VList []) in
      if paging = [] \<or> retrying then ret ev
      else
        andthen (if truthy collected then
                   andthen (pure (items_of collected)) (\<lambda>items.
                     ret (with_result (with_pages (py_get_default paging ''iteration_count'' (VInt 0)) items
                       (py_get_default (payload_of ev) ''result'' (VDict []))) ev))
                 else ret ev) (\<lambda>ev'.
        andthen (changing_state (set_paging step fresh_paging)) (\<lambda>_. ret ev'))))"

definition count_exit :: "host \<Rightarrow> string \<Rightarrow> engine_event \<Rightarrow> unit call" where
  "count_exit h step ev =
     andthen (loop_of step) (\<lambda>ls.
       if truthy (py_get_default ls ''aggregation_finalized'' (VBool False)) then ret ()
       else
         andthen (pure (upper_status (payload_of ev))) (\<lambda>status.
         andthen (on_state (add_loop_result (loop_result h) step (py_get (payload_of ev) ''result'')
             (status = ''FAILED''))) (\<lambda>_.
         andthen (loop_of step) (\<lambda>ls'.
         andthen (attempt (increment h step
             (if truthy (py_get ls' ''event_id'') then Some (py_str (py_get ls' ''event_id'')) else None)))
           (\<lambda>_. ret ())))))"

definition absorb_exit :: "host \<Rightarrow> step_decl \<Rightarrow> bool \<Rightarrow> engine_event \<Rightarrow> engine_event call" where
  "absorb_exit h step retrying ev =
     (if \<not> (ev_name ev = ''step.exit'' \<and> has_key (payload_of ev) ''result'') then ret ev
      else
        andthen (merge_pages (event_step ev) retrying ev) (\<lambda>ev'.
        andthen state_of (\<lambda>s.
        andthen (if retrying then ret ()
                 else if in_loop step ev' s then count_exit h (event_step ev') ev'
                 else mark_done h (event_step ev')
                   (hydrate_reference_only h (py_get (payload_of ev') ''result''))) (\<lambda>_. ret ev'))))"

section \<open>The loop of an exit\<close>

definition plain_loop_item :: "host \<Rightarrow> step_decl \<Rightarrow> engine_event \<Rightarrow> command list \<Rightarrow> command list call" where
  "plain_loop_item h step ev cs =
     (if cs = [] \<and> ev_name ev = ''loop.item'' \<and> st_loop step \<noteq> None
      then andthen (create_command_for_step h step []) (\<lambda>c. ret (opt_list c)) else ret [])"

text \<open>The completed iterations: those of NATS, else those of the record, raised to the supervisor's.\<close>

definition exit_count :: "pydict option \<Rightarrow> pydict \<Rightarrow> int res" where
  "exit_count stored ls =
     (case stored of
        Some d \<Rightarrow> py_num (py_get_default d ''completed_count'' (VInt 0))
      | None \<Rightarrow> loop_results_total ls)"

definition fetch_exit_state :: "host \<Rightarrow> string \<Rightarrow> pyval \<Rightarrow> pydict option call" where
  "fetch_exit_state h step epoch =
     andthen execution_text (\<lambda>x.
     andthen (cached h (\<lambda>_. get_loop_state x step (if truthy epoch then Some (py_str epoch) else None)))
       (\<lambda>v. ret (nonempty_state v)))"

definition store_exit_state :: "host \<Rightarrow> string \<Rightarrow> pyval \<Rightarrow> pydict \<Rightarrow> unit call" where
  "store_exit_state h step epoch d =
     andthen execution_text (\<lambda>x.
     andthen (cached h (\<lambda>clk. set_loop_state clk x step d (if truthy epoch then Some (py_str epoch) else None)))
       (\<lambda>_. ret ()))"

definition reconciled :: "int \<Rightarrow> int \<Rightarrow> string \<Rightarrow> pydict \<Rightarrow> pydict" where
  "reconciled k scheduled repaired_at d =
     set_keys [(''completed_count'', VInt k), (''scheduled_count'', VInt (max scheduled k)),
       (''last_counter_reconcile_at'', VStr repaired_at), (''last_progress_at'', VStr repaired_at), (''updated_at'', VStr repaired_at)] d"

text \<open>A record in NATS without a local one cannot be reconciled.\<close>

definition reconcile_exit :: "host \<Rightarrow> string \<Rightarrow> bool \<Rightarrow> pyval \<Rightarrow> int \<Rightarrow> pydict \<Rightarrow> unit call" where
  "reconcile_exit h step local epoch k d =
     andthen (clock h) (\<lambda>now.
     andthen (pure (count_or d ''scheduled_count'' k)) (\<lambda>n.
     (let d' = reconciled k n (h_iso h now) d in
      if \<not> local then raises (TypeError ''object does not support item assignment'')
      else
        andthen (set_loop_key step ''scheduled_count'' (py_get d' ''scheduled_count'')) (\<lambda>_.
        andthen (set_loop_key step ''last_counter_reconcile_at'' (VStr (h_iso h now))) (\<lambda>_.
          store_exit_state h step epoch d')))))"

definition supervised_count :: "host \<Rightarrow> string \<Rightarrow> bool \<Rightarrow> pyval \<Rightarrow> pydict option \<Rightarrow> int \<Rightarrow> int call" where
  "supervised_count h step local epoch stored k =
     andthen state_of (\<lambda>s.
     andthen (count_supervised_terminals h (VStr (py_str (es_execution_id s))) step (Some (py_str epoch))) (\<lambda>n.
       if n \<le> k then ret k
       else andthen (case stored of None \<Rightarrow> ret () | Some d \<Rightarrow> reconcile_exit h step local epoch n d)
              (\<lambda>_. ret n)))"

definition exit_items :: "host \<Rightarrow> step_decl \<Rightarrow> loop_decl \<Rightarrow> engine_event \<Rightarrow> pyval list call" where
  "exit_items h step l ev =
     andthen state_of (\<lambda>s.
     andthen (pure (get_render_context ev s)) (\<lambda>context.
       if is_cursor l then
         andthen (pure (get_loop_max_in_flight (h_renderer h) step (Some context))) (\<lambda>n. ret (range_list n))
       else pure (case ld_in l of None \<Rightarrow> Inr [] | Some t \<Rightarrow> render_collection (h_renderer h) t context)))"

definition exit_collection :: "host \<Rightarrow> step_decl \<Rightarrow> loop_decl \<Rightarrow> engine_event \<Rightarrow> int \<Rightarrow> unit call" where
  "exit_collection h step l ev k =
     andthen (loop_of (st_step step)) (\<lambda>ls.
     if truthy (py_get ls ''collection'') then ret ()
     else
       andthen (exit_items h step l ev) (\<lambda>xs.
       andthen (set_loop_key (st_step step) ''collection'' (VList xs)) (\<lambda>_.
       andthen (pure (count_or ls ''scheduled_count'' k)) (\<lambda>n.
         store_exit_state h (st_step step) (py_get ls ''event_id'')
           [(''collection_size'', VInt (int (length xs))), (''completed_count'', VInt k),
            (''scheduled_count'', VInt (max n k)), (''iterator'', py_get ls ''iterator''),
            (''mode'', py_get ls ''mode''), (''event_id'', py_get ls ''event_id'')]))))"

definition exit_size :: "string \<Rightarrow> bool \<Rightarrow> pydict option \<Rightarrow> int call" where
  "exit_size step local stored =
     (if local then
        andthen (loop_of step) (\<lambda>ls. pure (rbind (need ls ''collection'') (\<lambda>v. rbind (py_len v) Inr)))
      else pure (case stored of None \<Rightarrow> Inr 0 | Some d \<Rightarrow> py_num (py_get_default d ''collection_size'' (VInt 0))))"

definition add_pages :: "string \<Rightarrow> exec_state \<Rightarrow> pydict \<Rightarrow> pydict res" where
  "add_pages step s agg =
     (if \<not> has_key (es_pagination_state s) step then Inr agg
      else
        rbind (need (paging_of s step) ''collected_data'') (\<lambda>items.
        if \<not> truthy items then Inr agg
        else
          rbind (need (paging_of s step) ''iteration_count'') (\<lambda>n.
            Inr (AList.update ''pagination''
              (VDict [(''collected_items'', items), (''iteration_count'', n)]) agg))))"

definition finish_exit :: "host \<Rightarrow> step_decl \<Rightarrow> engine_event \<Rightarrow> bool \<Rightarrow> pyval \<Rightarrow> command list call" where
  "finish_exit h step ev local epoch =
     andthen (if local then finalize_loop (st_step step) else ret ()) (\<lambda>_.
     andthen (aggregate (st_step step)) (\<lambda>agg.
     andthen state_of (\<lambda>s.
     andthen (pure (add_pages (st_step step) s agg)) (\<lambda>agg.
     andthen (mark_done h (st_step step) (VDict agg)) (\<lambda>_.
     andthen (loop_of (st_step step)) (\<lambda>ls.
     andthen (pure (need ls ''index'')) (\<lambda>index.
       announce_loop_done h True step ev index agg epoch)))))))"

definition advance_exit ::
  "host \<Rightarrow> step_decl \<Rightarrow> loop_decl \<Rightarrow> engine_event \<Rightarrow> bool \<Rightarrow> pydict option \<Rightarrow> pyval \<Rightarrow> int \<Rightarrow> command list call" where
  "advance_exit h step l ev local stored epoch k =
     andthen (if local then exit_collection h step l ev k else ret ()) (\<lambda>_.
     andthen (exit_size (st_step step) local stored) (\<lambda>n.
       if n = 0 \<or> k < n then issue_loop_commands h step []
       else
         andthen (skip_loop_done h (st_step step) (if epoch = VNone then None else Some (py_str epoch))
             (if local then yield_claim h (st_step step) (py_str epoch) else ret True)) (\<lambda>skip.
           if skip then ret [] else finish_exit h step ev local epoch)))"

definition loop_exit :: "host \<Rightarrow> step_decl \<Rightarrow> engine_event \<Rightarrow> command list call" where
  "loop_exit h step ev =
     (case (if ev_name ev = ''step.exit'' then st_loop step else None) of
        None \<Rightarrow> ret []
      | Some l \<Rightarrow>
          andthen state_of (\<lambda>s.
          if truthy (py_get (paging_of s (event_step ev)) ''pending_retry'') then ret []
          else
            (let ls = (case map_of (es_loop_state s) (event_step ev) of None \<Rightarrow> [] | Some d \<Rightarrow> d);
                 local = (ls \<noteq> []); epoch = py_get ls ''event_id'' in
             andthen (fetch_exit_state h (event_step ev) epoch) (\<lambda>stored.
             if \<not> local \<and> stored = None then ret []
             else
               andthen (pure (exit_count stored ls)) (\<lambda>k.
               andthen (supervised_count h (event_step ev) local epoch stored k) (\<lambda>k.
                 advance_exit h step l ev local stored epoch k))))))"

section \<open>Structural transitions\<close>

definition awaits :: "exec_state \<Rightarrow> string \<Rightarrow> step_decl \<Rightarrow> bool" where
  "awaits s target step \<longleftrightarrow>
     (let k = pending_step_key (Some target) in
      k \<noteq> [] \<and> k \<in> set (es_issued_steps s) \<and> k \<notin> set (es_completed_steps s) \<and> st_loop step = None)"

definition mark_target :: "string \<Rightarrow> exec_state \<Rightarrow> exec_state" where
  "mark_target target s =
     (let k = pending_step_key (Some target) in
      s\<lparr>es_completed_steps := removeAll target (es_completed_steps s),
        es_issued_steps := (if k = [] then es_issued_steps s else add_step k (es_issued_steps s))\<rparr>)"

fun structural_arcs :: "host \<Rightarrow> next_mode \<Rightarrow> pydict \<Rightarrow> arc_decl list \<Rightarrow> command list call" where
  "structural_arcs h mode context [] = ret []"
| "structural_arcs h mode context (a # as) =
     andthen state_of (\<lambda>s.
     case (if fst (arc_matches (h_renderer h) context a) then get_step (es_playbook s) (arc_step a) else None) of
       None \<Rightarrow> structural_arcs h mode context as
     | Some target \<Rightarrow>
         if awaits s (arc_step a) target then structural_arcs h mode context as
         else
           andthen (issue_loop_commands h target []) (\<lambda>cs.
           if cs = [] then structural_arcs h mode context as
           else
             andthen (changing_state (mark_target (arc_step a))) (\<lambda>_.
             if mode = Exclusive then ret cs
             else andthen (structural_arcs h mode context as) (\<lambda>ds. ret (cs @ ds)))))"

text \<open>The commands, and the context the check for completion goes on with.\<close>

definition structural_next ::
  "host \<Rightarrow> step_decl \<Rightarrow> engine_event \<Rightarrow> pydict \<Rightarrow> command list \<Rightarrow> (command list \<times> pydict) call" where
  "structural_next h step ev context cs =
     (if \<not> (ev_name ev = ''step.exit'' \<and> st_next step \<noteq> None \<and> cs = []) then ret ([], context)
      else
        andthen (pure (upper_status (payload_of ev))) (\<lambda>status.
        if status = ''FAILED'' then ret ([], context)
        else
          andthen state_of (\<lambda>s.
          andthen (pure (if st_loop step = None then Inr True else is_loop_done (event_step ev) s)) (\<lambda>open.
          if \<not> open then ret ([], context)
          else
            andthen (pure (get_render_context ev s)) (\<lambda>context'.
            andthen (structural_arcs h (get_next_mode step) context' (get_next_arcs step)) (\<lambda>ds.
              ret (ds, context')))))))"

section \<open>The pages of a plain step\<close>

text \<open>An object in the payload gets the pages too, being the one that is stored.\<close>

definition finish_pages :: "host \<Rightarrow> step_decl \<Rightarrow> engine_event \<Rightarrow> command list \<Rightarrow> engine_event call" where
  "finish_pages h step ev cs =
     andthen state_of (\<lambda>s.
     (let name = event_step ev; paging = paging_of s name in
      if \<not> (ev_name ev = ''step.exit'' \<and> has_key (es_pagination_state s) name \<and> st_loop step = None)
         \<or> list_ex (\<lambda>c. cm_step c = name) cs then ret ev
      else
        andthen (pure (need paging ''collected_data'')) (\<lambda>collected.
        if \<not> truthy collected then ret ev
        else
          andthen (pure (need paging ''iteration_count'')) (\<lambda>pages.
          andthen (pure (items_of collected)) (\<lambda>items.
          (let result = with_pages pages items (py_get_default (payload_of ev) ''result'' (VDict [])) in
           andthen (mark_done h name result) (\<lambda>_.
             ret (if is_dict (py_get (payload_of ev) ''result'') then with_result result ev else ev))))))))"

section \<open>Pending commands\<close>

definition pending_in_memory :: "exec_state \<Rightarrow> bool" where
  "pending_in_memory s =
     (let done = map (\<lambda>k. pending_step_key (Some k)) (filter (\<lambda>k. k \<noteq> []) (es_completed_steps s)) in
      list_ex (\<lambda>k. let p = pending_step_key (Some k) in p \<noteq> [] \<and> p \<notin> set done) (es_issued_steps s))"

text \<open>
  Without issued steps the supervisor is asked; without its answer the handler reads columns that
  \<open>noetl.runtime\<close> does not have.
\<close>

definition supervised_pending :: "host \<Rightarrow> pyval \<Rightarrow> bool call" where
  "supervised_pending h execution_id =
     andthen (attempt (cached h (\<lambda>_. get_pending_command_count (py_str execution_id)))) (\<lambda>r.
       case r of
         Some (VInt n) \<Rightarrow> ret (0 < n)
       | _ \<Rightarrow> raises (RuntimeError ''column pending_count does not exist''))"

definition is_trigger :: "engine_event \<Rightarrow> bool" where
  "is_trigger ev \<longleftrightarrow> ev_name ev \<in> {''call.done'', ''call.error'', ''step.exit''}"

definition trigger_command :: "engine_event \<Rightarrow> string option" where
  "trigger_command ev =
     (if ev_name ev \<in> {''call.done'', ''call.error''}
      then extract_command_id_from_event_payload (normalized ev) (VDict (ev_meta ev)) else None)"

definition has_pending :: "host \<Rightarrow> engine_event \<Rightarrow> bool call" where
  "has_pending h ev =
     andthen state_of (\<lambda>s.
     andthen (if pending_in_memory s then ret True
              else if es_issued_steps s = [] then supervised_pending h (ev_execution_id ev)
              else ret False) (\<lambda>pending.
       if \<not> pending \<and> is_trigger ev then
         andthen (reading (count_durable_pending_commands (ev_execution_id ev) (trigger_command ev))) (\<lambda>r.
         andthen (pure r) (\<lambda>n. ret (0 < n)))
       else ret pending))"

section \<open>Completion\<close>

text \<open>What the arcs of the event's step said: commands, a match if they were evaluated, an exception.\<close>

record verdict =
  vd_matched :: "bool option"
  vd_raised :: bool
  vd_looping :: bool

definition has_error :: "engine_event \<Rightarrow> bool" where
  "has_error ev \<longleftrightarrow> py_get (payload_of ev) ''error'' \<noteq> VNone"

definition arc_raises :: "renderer \<Rightarrow> pydict \<Rightarrow> arc_decl \<Rightarrow> bool" where
  "arc_raises rd context a =
     (case arc_when a of
        None \<Rightarrow> False | Some w \<Rightarrow> w \<noteq> [] \<and> isl (render_template rd w context))"

definition quiet :: "step_decl \<Rightarrow> bool" where
  "quiet step =
     (case st_next step of None \<Rightarrow> False | Some r \<Rightarrow> nr_no_match r = Some End_Quietly)"

definition dead_end :: "renderer \<Rightarrow> step_decl \<Rightarrow> pydict \<Rightarrow> verdict \<Rightarrow> exec_state \<Rightarrow> bool" where
  "dead_end rd step context vd s \<longleftrightarrow>
     st_next step \<noteq> None \<and> \<not> vd_looping vd \<and> \<not> quiet step
     \<and> \<not> (vd_raised vd \<or> list_ex (arc_raises rd context) (get_next_arcs step))
     \<and> \<not> (case vd_matched vd of Some b \<Rightarrow> b | None \<Rightarrow> has_matching_next_transition rd s step context)"

definition completes ::
  "renderer \<Rightarrow> step_decl \<Rightarrow> engine_event \<Rightarrow> pydict \<Rightarrow> verdict \<Rightarrow> bool \<Rightarrow> command list \<Rightarrow> exec_state \<Rightarrow> bool" where
  "completes rd step ev context vd pending cs s \<longleftrightarrow>
     is_trigger ev \<and> cs = [] \<and> \<not> pending \<and> \<not> es_completed s
     \<and> (st_next step = None \<or> has_error ev \<or> dead_end rd step context vd s)"

definition end_execution :: "host \<Rightarrow> bool \<Rightarrow> bool \<Rightarrow> engine_event \<Rightarrow> unit call" where
  "end_execution h has_conn persisted ev =
     andthen (changing_state mark_ended) (\<lambda>_.
     andthen (persist_unless h persisted ev) (\<lambda>_.
     andthen state_of (\<lambda>s.
     andthen (ending_events h ev (if es_failed s \<or> has_error ev then ''failed'' else ''completed'')
         (event_step ev) (py_get (payload_of ev) ''error'')) (\<lambda>evs.
     andthen (save_state h) (\<lambda>_.
       persist_cascade_events h has_conn evs)))))"

section \<open>Failures\<close>

definition fail_execution :: "host \<Rightarrow> bool \<Rightarrow> engine_event \<Rightarrow> unit call" where
  "fail_execution h has_conn ev =
     andthen (changing_state (\<lambda>s. s\<lparr>es_failed := True\<rparr>)) (\<lambda>_.
     andthen state_of (\<lambda>s.
       if es_completed s then ret ()
       else
         andthen (changing_state mark_ended) (\<lambda>_.
         andthen (ending_events h ev ''failed'' (event_step ev) (py_get (payload_of ev) ''error'')) (\<lambda>evs.
         andthen (persist_cascade_events h has_conn evs) (\<lambda>_. save_state h)))))"

text \<open>Whether the event stops the execution; a failed command does so unless commands are pending.\<close>

definition stops :: "engine_event \<Rightarrow> bool \<Rightarrow> bool res" where
  "stops ev pending =
     (if ev_name ev = ''command.failed'' then Inr (\<not> pending)
      else if ev_name ev = ''step.exit'' then rbind (upper_status (payload_of ev)) (\<lambda>s. Inr (s = ''FAILED''))
      else Inr False)"

section \<open>The end of the handler\<close>

definition lifecycle_names :: "string list" where
  "lifecycle_names =
     [''loop.done'', ''step.exit'', ''command.failed'', ''playbook.completed'', ''playbook.failed'',
      ''workflow.completed'', ''workflow.failed'']"

definition save_periodically :: "host \<Rightarrow> engine_event \<Rightarrow> unit call" where
  "save_periodically h ev =
     andthen state_of (\<lambda>s.
     andthen (pure (py_num (py_or (es_last_event_id s) (VInt 0)))) (\<lambda>n.
       if ev_name ev \<in> set lifecycle_names \<or> 10 \<le> n
       then andthen (attempt (save_state h)) (\<lambda>_. ret ()) else ret ()))"

definition issue_commands :: "host \<Rightarrow> engine_event \<Rightarrow> command list \<Rightarrow> command list call" where
  "issue_commands h ev cs =
     andthen (changing_state (note_issued cs)) (\<lambda>_.
     andthen (save_periodically h ev) (\<lambda>_. ret cs))"

definition continue_execution ::
  "host \<Rightarrow> bool \<Rightarrow> bool \<Rightarrow> engine_event \<Rightarrow> bool \<Rightarrow> command list \<Rightarrow> command list call" where
  "continue_execution h has_conn persisted ev pending cs =
     andthen (save_state h) (\<lambda>_.
     andthen (persist_unless h persisted ev) (\<lambda>_.
     andthen (if ev_name ev = ''command.failed'' then changing_state (\<lambda>s. s\<lparr>es_failed := True\<rparr>) else ret ()) (\<lambda>_.
     andthen (pure (stops ev pending)) (\<lambda>stop.
       if stop then andthen (fail_execution h has_conn ev) (\<lambda>_. ret [])
       else issue_commands h ev cs))))"

definition conclude ::
  "host \<Rightarrow> bool \<Rightarrow> bool \<Rightarrow> step_decl \<Rightarrow> engine_event \<Rightarrow> pydict \<Rightarrow> verdict \<Rightarrow> command list \<Rightarrow> command list call" where
  "conclude h has_conn persisted step ev context vd cs =
     andthen (has_pending h ev) (\<lambda>pending.
     andthen state_of (\<lambda>s.
       if completes (h_renderer h) step ev context vd pending cs s
       then andthen (end_execution h has_conn persisted ev) (\<lambda>_. issue_commands h ev [])
       else continue_execution h has_conn persisted ev pending cs))"

section \<open>The handler\<close>

text \<open>The result of the call, its routes, and the iterations of a plain loop.\<close>

definition react ::
  "host \<Rightarrow> step_decl \<Rightarrow> engine_event \<Rightarrow> (command list \<times> command list \<times> pydict \<times> verdict) call" where
  "react h step ev =
     andthen (call_context h step ev) (\<lambda>context.
     andthen state_of (\<lambda>s.
     (let looping = in_loop step ev s in
      andthen (route_call h step ev looping) (\<lambda>(routed, matched, raised).
      andthen (advance_plain_loop h step ev looping) (\<lambda>cs.
        ret (cs, routed, context, \<lparr>vd_matched = matched, vd_raised = raised, vd_looping = looping\<rparr>))))))"

definition handle_step ::
  "host \<Rightarrow> bool \<Rightarrow> bool \<Rightarrow> step_decl \<Rightarrow> engine_event \<Rightarrow> command list call" where
  "handle_step h has_conn persisted step ev =
     andthen (pure (worker_retries (normalized ev))) (\<lambda>worker_retry.
     andthen (absorb_call h ev) (\<lambda>_.
     andthen (react h step ev) (\<lambda>(looped, routed, context, vd).
     (let retrying = (worker_retry \<or> list_ex (\<lambda>c. cm_step c = event_step ev) routed) in
      andthen (changing_state (note_retry (event_step ev) retrying)) (\<lambda>_.
      andthen (absorb_exit h step retrying ev) (\<lambda>ev1.
      andthen (plain_loop_item h step ev1 (looped @ routed)) (\<lambda>items.
      andthen (loop_exit h step ev1) (\<lambda>exits.
      andthen (structural_next h step ev1 context (looped @ routed @ items @ exits)) (\<lambda>(structural, context').
      (let cs = looped @ routed @ items @ exits @ structural in
       andthen (finish_pages h step ev1 cs) (\<lambda>ev2.
         conclude h has_conn persisted step ev2 context' vd cs)))))))))))"

definition handle_general :: "host \<Rightarrow> bool \<Rightarrow> bool \<Rightarrow> engine_event \<Rightarrow> command list call" where
  "handle_general h has_conn persisted ev =
     (let name = event_step ev;
          step_name = (if endswith name task_sequence_suffix then str_replace task_sequence_suffix [] name else name) in
      andthen state_of (\<lambda>s.
      case get_step (es_playbook s) step_name of
        None \<Rightarrow> ret []
      | Some step \<Rightarrow>
          andthen (changing_state (set_current_step name)) (\<lambda>_. handle_step h has_conn persisted step ev)))"

definition skip_completed :: "host \<Rightarrow> bool \<Rightarrow> engine_event \<Rightarrow> command list call" where
  "skip_completed h persisted ev =
     (if persisted then ret []
      else
        andthen (persist_event h ev) (\<lambda>_.
        andthen state_of (\<lambda>s.
        andthen (save_state_terminal_lightweight h (es_execution_id s) (es_last_event_id s)) (\<lambda>_. ret []))))"

definition dispatch_event :: "host \<Rightarrow> bool \<Rightarrow> bool \<Rightarrow> engine_event \<Rightarrow> command list call" where
  "dispatch_event h has_conn persisted ev =
     andthen (reading (\<lambda>e. e)) (\<lambda>e.
     (let s = en_state e; step = event_step ev; sequence = endswith step task_sequence_suffix in
      if es_completed s then skip_completed h persisted ev
      else if step = [] then ret []
      else if persisted \<and> ev_name ev \<in> {''call.done'', ''call.error''} \<and> is_duplicate ev e then ret []
      else if is_inline_task (es_playbook s) step then handle_inline_task h has_conn persisted ev
      else if sequence \<and> ev_name ev = ''call.done'' then handle_task_sequence h persisted ev
      else if sequence \<and> ev_name ev = ''step.exit'' then ret []
      else handle_general h has_conn persisted ev))"

definition handle_loaded :: "host \<Rightarrow> bool \<Rightarrow> bool \<Rightarrow> engine_event \<Rightarrow> command list call" where
  "handle_loaded h has_conn persisted ev =
     andthen (load_state h (ev_execution_id ev)) (\<lambda>loaded.
       case loaded of
         None \<Rightarrow> ret []
       | Some s \<Rightarrow> andthen (changing_state (\<lambda>_. s)) (\<lambda>_. dispatch_event h has_conn persisted ev))"

text \<open>
  The saves of the handler are collected in a buffer; after it, whether it raised or not, the state
  is saved once if any was asked for, and a failure of that save is only logged.
\<close>

definition flush :: "host \<Rightarrow> engine \<Rightarrow> engine" where
  "flush h e =
     (let e' = e\<lparr>en_buffer := None\<rparr> in
      case en_buffer e of
        Some (Suc _) \<Rightarrow> snd (save_state h e')
      | _ \<Rightarrow> e')"

definition handle_event :: "host \<Rightarrow> bool \<Rightarrow> bool \<Rightarrow> engine_event \<Rightarrow> command list call" where
  "handle_event h has_conn persisted ev e =
     (case handle_loaded h has_conn persisted ev (e\<lparr>en_buffer := Some 0\<rparr>) of (r, e') \<Rightarrow> (r, flush h e'))"

end
