(* ===== verification/Handler_Frame.thy ===== *)
theory Handler_Frame
  imports Event_Handler Lifecycle_Theorems
begin

text \<open>
  What handling an event may do to the world. A relation between worlds that holds for the
  bookkeeping of the state, for an event that does not end the workflow, for a save, for the closing
  of a stage and for the three ways to end an execution holds for everything the handler does after
  it has loaded the state (\<open>handler_frame\<close>). The relation that allows one end, only from a state that
  runs and only together with a save, is such a relation.
\<close>

section \<open>Progress of a state\<close>

definition progress :: "exec_state \<Rightarrow> exec_state \<Rightarrow> bool" where
  "progress s t \<longleftrightarrow>
     same_identity s t \<and> es_completed t = es_completed s \<and> es_last_event_id t = es_last_event_id s"

lemma progress_refl [simp]: "progress s s"
  by (simp add: progress_def)

lemma progress_trans: "progress s t \<Longrightarrow> progress t u \<Longrightarrow> progress s u"
  by (simp add: progress_def same_identity_def)

named_theorems progressing

lemma progress_prune: "progress s (prune_stale_state ks s)"
proof -
  have folded: "progress s (foldl (prune_result keep) s xs)" for keep xs
  proof (induction xs arbitrary: s)
    case (Cons x xs)
    have "progress s (prune_result keep s x)"
      by (simp add: prune_result_def progress_def same_identity_def Let_def)
    then show ?case using Cons.IH [of "prune_result keep s x"] by (simp add: progress_trans)
  qed simp
  have "progress u (u\<lparr>es_emitted_epochs := eps\<rparr>)" for u eps by (simp add: progress_def same_identity_def)
  then show ?thesis unfolding prune_stale_state_def Let_def by (rule progress_trans [OF folded])
qed

lemma progress_emitted [progressing, simp]: "progress s (add_emitted_loop_epoch n m t s)"
proof -
  have "progress s (s\<lparr>es_emitted_epochs := eps\<rparr>)" for eps by (simp add: progress_def same_identity_def)
  then show ?thesis using progress_prune progress_trans by (simp add: add_emitted_loop_epoch_def Let_def) blast
qed

lemma progress_updates [progressing, simp]:
  "progress s (s\<lparr>es_failed := b\<rparr>)" "progress s (s\<lparr>es_loop_state := ls\<rparr>)" "progress s (s\<lparr>es_stall_counts := k\<rparr>)"
  "progress s (s\<lparr>es_variables := vs\<rparr>)" "progress s (forget_completion st s)" "progress s (with_loop st d s)"
  "progress s (complete_step st s)" "progress s ((complete_step st s)\<lparr>es_failed := b\<rparr>)" "progress s (note_issued cs s)"
  "progress s (set_current_step n s)" "progress s (set_paging n d s)" "progress s (set_pending n b s)"
  "progress s (note_retry n b s)" "progress s (mark_target n s)" "progress s (mark_issued n s)"
  "progress s (set_variable n v s)" "progress s (clear_deferred ts s)" "progress s (defer_next n ts acts s)"
  "progress s (s\<lparr>es_emitted_epochs := eps\<rparr>)"
  "progress s (arc_mutation rd cx a s)" "progress s (mark_step_completed r n v s)" "progress s (sync_ctx v s)"
  by (simp_all add: progress_def same_identity_def forget_completion_def with_loop_def complete_step_def note_issued_def
      set_current_step_def set_paging_def set_pending_def note_retry_def mark_target_def mark_issued_def
      set_variable_def clear_deferred_def defer_next_def arc_mutation_def
      mark_step_completed_def sync_ctx_def Let_def split: option.split pyval.split)

lemma progress_add_loop_result: "add_loop_result f n v b s = Inr t \<Longrightarrow> progress s t"
  by (auto simp: add_loop_result_def Let_def rbind_Inr_iff split: option.splits if_splits)

lemma progress_init_loop: "init_loop n xs it m i s = Inr t \<Longrightarrow> progress s t"
  by (auto simp: init_loop_def judge_previous_run_def rbind_Inr_iff progress_def same_identity_def
      split: option.splits if_splits)

lemma progress_move_index: "move_index n k s = Inr t \<Longrightarrow> progress s t"
  by (auto simp: move_index_def rbind_Inr_iff split: option.splits)

lemma progress_hydrated:
  assumes "ensure_loop_state_for_epoch rd step ev i s store = Inr (v, t)" shows "progress s t"
proof -
  have "progress s (with_loop n d u)" if "init_loop n xs it m x s = Inr u" for n d u xs it m x
    using progress_init_loop [OF that] progress_updates(6) by (rule progress_trans)
  then show ?thesis using assms
    by (auto simp: ensure_loop_state_for_epoch_def Let_def rbind_Inr_iff split: option.splits if_splits pyval.splits)
qed

section \<open>The frame of the handler\<close>

definition ending_types :: "string list" where
  "ending_types = [''workflow.completed'', ''workflow.failed'']"

locale step_frame = read_frame +
  assumes keeps_progress: "progress (en_state e) t \<Longrightarrow> Q e (e\<lparr>en_state := t\<rparr>)"
    and keeps_event: "ev_name ev \<notin> set ending_types \<Longrightarrow> Q e (snd (persist_event h ev e))"
    and keeps_save: "Q e (snd (save_state h e))"
    and keeps_closed: "we_event_type r = ''stage.closed'' \<Longrightarrow>
      Q e (e\<lparr>en_next_id := n, en_stages := g, en_events := en_events e @ [r], en_mirrored := ms\<rparr>)"

sublocale step_frame \<subseteq> state_frame
  by unfold_locales
    (auto simp: keeps_progress stalled_event_def synthetic_event_def ending_types_def intro!: keeps_event)

context step_frame
begin

lemma framed_progress [frames]: "(\<And>s. progress s (f s)) \<Longrightarrow> framed Q (changing_state f)"
  by (rule framed_changing_state) (rule keeps_progress)

lemma framed_step [frames]: "(\<And>s t. f s = Inr t \<Longrightarrow> progress s t) \<Longrightarrow> framed Q (on_state f)"
  by (rule framed_on_state) (rule keeps_progress)

lemma framed_event [frames]: "ev_name ev \<notin> set ending_types \<Longrightarrow> framed Q (persist_event h ev)"
  by (simp add: framed_def keeps_event)

lemma framed_save [frames]: "framed Q (save_state h)"
  by (simp add: framed_def keeps_save)

lemma framed_yielding: "framed Q m \<Longrightarrow> yields P m \<Longrightarrow> (\<And>x. P x \<Longrightarrow> framed Q (f x)) \<Longrightarrow> framed Q (andthen m f)"
  by (auto simp: framed_def andthen_def yields_def split: prod.split sum.split) (metis same trans snd_conv)+

lemmas progress_steps = progress_add_loop_result progress_init_loop progress_move_index

section \<open>Routing and actions\<close>

lemma framed_take_arc [frames]: "framed Q (take_arc h cx a target)"
  unfolding take_arc_def by (intro frames progressing)

lemma framed_route_arcs [frames]: "framed Q (route_arcs h mode cx as)"
  by (induction as) (auto intro!: frames split: prod.split)

lemma framed_evaluate [frames]:
  "framed Q (evaluate_next_transitions_with_status h step ev)" "framed Q (evaluate_next_transitions h step ev)"
  unfolding evaluate_next_transitions_def evaluate_next_transitions_with_status_def by (intro frames)+

lemma framed_set_each [frames]: "framed Q (set_variables h cx kvs)"
  by (induction kvs) (auto intro!: frames)

lemma framed_immediate [frames]: "framed Q (process_immediate_actions h cx a)"
  unfolding process_immediate_actions_def run_set_def run_fail_def by (intro frames progressing)

lemma framed_immediate_all [frames]: "framed Q (immediate_all h cx as)"
  by (induction as) (auto intro!: frames)

lemma framed_mutate [frames]: "framed Q (mutate h cx m)"
  unfolding mutate_def by (intro frames progressing)

lemma framed_go_next [frames]: "framed Q (go_next h cx items)"
  by (induction items) (auto intro!: frames split: option.split)

lemma framed_collect [frames]: "framed Q (run_collect step ev a)"
  unfolding run_collect_def by (intro frames) (auto simp: rbind_Inr_iff)

lemma framed_fetch_page [frames]: "framed Q (fetch_page h step n args)"
  unfolding fetch_page_def by (intro frames progressing) (erule progress_move_index)+

lemma framed_paging [frames]: "framed Q (run_paging_retry h cx n spec)"
  unfolding run_paging_retry_def by (intro frames progressing)

lemma framed_calls [frames]:
  "framed Q (run_call h cx a)" "framed Q (run_retry h n ev a)"
  unfolding run_call_def run_retry_def by (intro frames)+

lemma framed_action [frames]: "framed Q (run_action h cx n ev a)"
  unfolding run_action_def run_first_def run_last_def run_set_def run_fail_def by (intro frames progressing)

lemma framed_actions [frames]: "framed Q (run_actions h cx n ev as)"
  by (induction as) (auto intro!: frames)

lemma framed_then [frames]: "framed Q (process_then_actions h block ev)"
  unfolding process_then_actions_def process_task_sequence_def by (intro frames progressing)

lemma framed_deferred [frames]: "framed Q (process_deferred_next_actions h n ev)"
  unfolding process_deferred_next_actions_def by (intro frames progressing)

section \<open>Loops\<close>

lemma framed_close_stage [frames]: "framed Q (close_runtime_stage_for_loop h n v st)"
proof -
  have "framed Q (close_stage_row h x n i st g t)" for x i g t
    unfolding close_stage_row_def
    by (intro frames framed_changing) (simp add: keeps_closed closing_event_def Let_def)
  then show ?thesis unfolding close_runtime_stage_for_loop_def by (intro frames)
qed

lemma framed_persist_unless [frames]:
  "ev_name ev \<notin> set ending_types \<Longrightarrow> framed Q (persist_unless h p ev)"
  unfolding persist_unless_def by (intro frames)

lemma framed_loop_fields [frames]: "framed Q (edit_loop n v k x)" "framed Q (view_loop n v)" "framed Q (attach n t)"
  unfolding edit_loop_def view_loop_def attach_def by (intro frames)+

lemma framed_increment [frames]: "framed Q (increment h n t)"
  unfolding increment_def by (intro frames)

lemma framed_first_counted [frames]: "framed Q (first_counted h n cs)"
  by (induction cs) (auto intro!: frames)

lemma framed_tally [frames]: "framed Q (tally_iteration h ev n pin cs v b)"
  unfolding tally_iteration_def claim_terminal_def count_terminal_def Let_def
  by (intro frames) (erule progress_steps)

lemma framed_recovered_size [frames]: "framed Q (recovered_size h step l ev v)"
  unfolding recovered_size_def by (intro frames)

lemma framed_resolve_size [frames]: "framed Q (resolve_size h step l ev v pin cs t k)"
  unfolding resolve_size_def stored_size_def backfill_def by (intro frames)

lemma framed_catch_up [frames]: "framed Q (catch_up h n k sd)"
  unfolding catch_up_def by (intro frames)

lemma framed_reissue [frames]: "framed Q (reissue h step n is js)"
  by (induction js arbitrary: "is") (auto intro!: frames)

lemma framed_repair_tail [frames]: "framed Q (repair_tail h step l n v t i k m)"
  unfolding repair_tail_def tail_indexes_def by (intro frames)

lemma framed_finalize [frames]: "framed Q (finalize_loop n)" "framed Q (aggregate n)" "framed Q (mark_done h n v)"
  unfolding finalize_loop_def aggregate_def mark_done_def by (intro frames progressing)+

lemma framed_yield_claim [frames]: "framed Q (yield_claim h n t)"
  unfolding yield_claim_def transition_emitted_def by (intro frames progressing)

lemma framed_skip_loop_done [frames]: "framed Q m \<Longrightarrow> framed Q (skip_loop_done h n t m)"
  unfolding skip_loop_done_def by (intro frames)

lemma framed_announce [frames]: "framed Q (announce_loop_done h c step ev i agg t)"
  unfolding announce_loop_done_def Let_def
  by (intro frames progressing) (simp add: loop_done_event_def lifecycle_event_def ending_types_def)

lemma framed_finish_loop [frames]: "framed Q (claim_and_finish h c step ev v k t)"
  unfolding claim_and_finish_def finish_loop_def by (intro frames)

lemma framed_more [frames]: "framed Q m \<Longrightarrow> framed Q (Event_Loops.more cs m)"
  unfolding Event_Loops.more_def by (intro frames)

lemma framed_sequence_standing [frames]: "framed Q (sequence_standing h step l ev pin v w b)"
  unfolding sequence_standing_def fallback_count_def by (intro frames)

lemma framed_progress_loops [frames]:
  "framed Q (progress_sequence h step l ev pin v w b)" "framed Q (progress_plain_loop h step l ev w b)"
proof -
  show "framed Q (progress_sequence h step l ev pin v w b)"
    unfolding progress_sequence_def advance_sequence_def continue_loop_def by (intro frames)
  show "framed Q (progress_plain_loop h step l ev w b)"
    unfolding progress_plain_loop_def continue_loop_def plain_size_def plain_fallback_count_def by (intro frames)
qed

section \<open>The stages of the handler\<close>

lemma framed_step_set [frames]: "framed Q (run_step_set h cx ms)"
  unfolding run_step_set_def by (intro frames progressing)

lemma framed_hydrate_epoch [frames]: "framed Q (hydrate_epoch h step ev pin)"
proof -
  have "Q e (snd (hydrate_epoch h step ev pin e))" for e
  proof (cases "ensure_loop_state_for_epoch (h_renderer h) step ev pin (en_state e) (en_cache e)")
    case (Inr v)
    obtain f t where v: "v = (f, t)" by fastforce
    then have "progress (en_state e) t" using Inr progress_hydrated by blast
    then have "Q e (e\<lparr>en_state := t\<rparr>)" by (rule keeps_progress)
    then show ?thesis
      by (simp add: hydrate_epoch_def andthen_def reading_def pure_def Inr v changing_state_def changing_def ret_def)
  qed (simp add: hydrate_epoch_def andthen_def reading_def pure_def raises_def same)
  then show ?thesis by (simp add: framed_def)
qed

lemma framed_absorb_sequence [frames]: "framed Q (absorb_sequence h ev)"
  unfolding absorb_sequence_def admit_sequence_def set_after_sequence_def
  by (intro frames progressing) simp

lemma framed_route_sequence [frames]: "framed Q (route_sequence h step ev r t)"
  unfolding route_sequence_def sequence_outside_loop_def sequence_in_loop_def by (intro frames)

lemma framed_sequence [frames]:
  "ev_name ev \<notin> set ending_types \<Longrightarrow> framed Q (handle_task_sequence h p ev)"
  unfolding handle_task_sequence_def by (intro frames progressing)

lemma framed_absorb_call [frames]: "framed Q (absorb_call h ev)"
  unfolding absorb_call_def by (intro frames progressing)

lemma framed_react [frames]: "framed Q (react h step ev)"
  unfolding react_def call_context_def route_call_def advance_plain_loop_def by (intro frames)

lemma framed_count_exit [frames]: "framed Q (count_exit h n ev)"
  unfolding count_exit_def by (intro frames) (erule progress_steps)

lemma framed_merge_pages [frames]: "framed Q (merge_pages n b ev)"
  unfolding merge_pages_def by (intro frames progressing)

lemma framed_absorb_exit [frames]: "framed Q (absorb_exit h step b ev)"
  unfolding absorb_exit_def by (intro frames)

lemma framed_loop_exit [frames]: "framed Q (loop_exit h step ev)"
  unfolding loop_exit_def fetch_exit_state_def supervised_count_def reconcile_exit_def store_exit_state_def
    advance_exit_def exit_collection_def exit_items_def exit_size_def finish_exit_def
  by (intro frames)

lemma framed_structural_arcs [frames]: "framed Q (structural_arcs h mode cx as)"
  by (induction as) (auto intro!: frames progressing split: option.split)

lemma framed_structural_next [frames]: "framed Q (structural_next h step ev cx cs)"
  unfolding structural_next_def by (intro frames)

lemma framed_finish_pages [frames]: "framed Q (finish_pages h step ev cs)"
  unfolding finish_pages_def by (intro frames)

lemma framed_items [frames]: "framed Q (plain_loop_item h step ev cs)"
  unfolding plain_loop_item_def by (intro frames)

lemma framed_has_pending [frames]: "framed Q (has_pending h ev)"
  unfolding has_pending_def supervised_pending_def by (intro frames)
    (auto intro!: frames split: option.split pyval.split)

lemma absorb_exit_name: "yields (\<lambda>ev'. ev_name ev' = ev_name ev) (absorb_exit h step b ev)"
proof -
  have "yields (\<lambda>ev'. ev_name ev' = ev_name ev) (merge_pages n b ev)" for n
    unfolding merge_pages_def Let_def
    by (intro yielding yields_bind [where R = "\<lambda>ev'. ev_name ev' = ev_name ev"]) (simp_all add: with_result_def)
  then show ?thesis unfolding absorb_exit_def
    by (intro yielding yields_bind [where R = "\<lambda>ev'. ev_name ev' = ev_name ev"]) simp_all
qed

lemma finish_pages_name: "yields (\<lambda>ev'. ev_name ev' = ev_name ev) (finish_pages h step ev cs)"
  unfolding finish_pages_def Let_def by (intro yielding) (simp_all add: with_result_def)

end

text \<open>The three ways to end an execution; the last is only taken from a state that runs.\<close>

locale handler_frame = step_frame +
  assumes keeps_inline_end: "Q e (snd (finish_inline h c ev e))"
    and keeps_failure_end: "Q e (snd (fail_execution h c ev e))"
    and keeps_end: "ev_name ev \<notin> set ending_types \<Longrightarrow> \<not> es_completed (en_state e) \<Longrightarrow>
      Q e (snd (end_execution h c p ev e))"
begin

lemma framed_ends [frames]: "framed Q (finish_inline h c ev)" "framed Q (fail_execution h c ev)"
  by (simp_all add: framed_def keeps_inline_end keeps_failure_end)

lemma framed_inline [frames]:
  "ev_name ev \<notin> set ending_types \<Longrightarrow> framed Q (handle_inline_task h c p ev)"
  unfolding handle_inline_task_def by (intro frames progressing)

lemma framed_continue [frames]:
  "framed Q (issue_commands h ev cs)"
  "ev_name ev \<notin> set ending_types \<Longrightarrow> framed Q (continue_execution h c p ev b cs)"
proof -
  show issued: "framed Q (issue_commands h ev cs)"
    unfolding issue_commands_def save_periodically_def by (intro frames progressing)
  show "framed Q (continue_execution h c p ev b cs)" if "ev_name ev \<notin> set ending_types"
    using that unfolding continue_execution_def by (intro frames progressing issued)
qed

lemma framed_conclude [frames]:
  assumes name: "ev_name ev \<notin> set ending_types" shows "framed Q (conclude h c p step ev cx vd cs)"
proof -
  have "Q e (snd (andthen (end_execution h c p ev) (\<lambda>_. issue_commands h ev []) e))" if "\<not> es_completed (en_state e)" for e
  proof -
    obtain r e1 where r: "end_execution h c p ev e = (r, e1)" by fastforce
    with keeps_end [OF name that, of h c p] have q: "Q e e1" by simp
    have "framed Q (issue_commands h ev [])" by (intro frames)
    then have "Q e1 (snd (issue_commands h ev [] e1))" by (simp add: framed_def)
    with q show ?thesis by (cases r) (auto simp: andthen_def r intro: trans)
  qed
  moreover have "framed Q (continue_execution h c p ev b cs)" for b using name by (intro frames)
  ultimately have "framed Q (andthen state_of (\<lambda>s.
       if completes (h_renderer h) step ev cx vd b cs s
       then andthen (end_execution h c p ev) (\<lambda>_. issue_commands h ev [])
       else continue_execution h c p ev b cs))" for b
    unfolding framed_def andthen_state_of by (simp add: completes_def)
  then show ?thesis unfolding conclude_def by (rule framed_andthen [OF framed_has_pending])
qed

lemma framed_handle_step [frames]:
  assumes "ev_name ev \<notin> set ending_types" shows "framed Q (handle_step h c p step ev)"
  unfolding handle_step_def Let_def
  by (intro frames progressing framed_yielding [OF framed_absorb_exit absorb_exit_name]
      framed_yielding [OF framed_finish_pages finish_pages_name]) (use assms in simp)

lemma framed_general [frames]:
  "ev_name ev \<notin> set ending_types \<Longrightarrow> framed Q (handle_general h c p ev)"
  unfolding handle_general_def by (intro frames progressing)

text \<open>An event of an execution that is not completed.\<close>

lemma dispatch_running:
  assumes "ev_name ev \<notin> set ending_types" and "\<not> es_completed (en_state e)"
  shows "Q e (snd (dispatch_event h c p ev e))"
proof -
  have "framed Q (handle_inline_task h c p ev)" "framed Q (handle_task_sequence h p ev)" "framed Q (handle_general h c p ev)"
    by (rule framed_inline framed_sequence framed_general, rule assms(1))+
  then show ?thesis using assms(2)
    by (simp add: dispatch_event_def andthen_def reading_def Let_def framed_def ret_def same)
qed

end

lemma only_playbooks_fields:
  assumes "playbooks_only e e'"
  shows "en_state e' = en_state e \<and> en_events e' = en_events e \<and> en_executions e' = en_executions e
    \<and> en_catalog e' = en_catalog e \<and> en_buffer e' = en_buffer e \<and> en_commands e' = en_commands e"
proof -
  obtain t p where "e' = e\<lparr>en_ticks := t, en_playbooks := p\<rparr>" using assms unfolding playbooks_only_def by blast
  then show ?thesis by simp
qed

lemma save_keeps_state: "en_state (snd (save_state h e)) = en_state e"
proof (cases "en_buffer e")
  case None
  obtain r e1 where reg: "register_saved h (en_state e) e = (r, e1)" by fastforce
  have "playbooks_only e e1"
    using only_playbooks_register_saved reg unfolding only_playbooks_def by (metis snd_conv)
  then have "en_state e1 = en_state e" by (simp add: only_playbooks_fields)
  then show ?thesis
    by (auto simp: save_state_def save_now_def None andthen_def reading_def state_of_def reg clock_def pure_def changing_def
        raises_def split: sum.split)
qed (simp add: save_state_def andthen_def reading_def changing_def)

text \<open>Whatever does not end an execution leaves its completion as it is.\<close>

interpretation unended: step_frame "on_states (\<lambda>s t. es_completed t = es_completed s)"
  by unfold_locales (simp_all add: on_states_def progress_def persist_event_fields save_keeps_state)

section \<open>One end\<close>

definition ends :: "event_row list \<Rightarrow> nat" where
  "ends rows = length (filter (\<lambda>r. we_event_type r \<in> set ending_types) rows)"

lemma ends_simps [simp]:
  "ends [] = 0" "ends (rs @ rs') = ends rs + ends rs'"
  "ends (r # rs) = (if we_event_type r \<in> set ending_types then 1 else 0) + ends rs"
  by (simp_all add: ends_def)

definition numbered :: "exec_state \<Rightarrow> bool" where
  "numbered s \<longleftrightarrow> (es_last_event_id s = VNone \<or> (\<exists>i. es_last_event_id s = VInt i))"

text \<open>Writing at most \<open>k\<close> ends to the log, with the rest of the world and the flags as they were.\<close>

definition writes :: "nat \<Rightarrow> engine \<Rightarrow> engine \<Rightarrow> bool" where
  "writes k e e' \<longleftrightarrow>
     en_buffer e' = en_buffer e \<and> en_executions e' = en_executions e \<and> en_catalog e' = en_catalog e
     \<and> en_playbooks e' = en_playbooks e
     \<and> same_identity (en_state e) (en_state e') \<and> es_completed (en_state e') = es_completed (en_state e)
     \<and> (numbered (en_state e) \<longrightarrow> numbered (en_state e'))
     \<and> (\<exists>new. en_events e' = en_events e @ new \<and> ends new \<le> k)"

lemma writes_refl [simp]: "writes k e e"
  by (simp add: writes_def)

lemma writes_trans: "writes j e e1 \<Longrightarrow> writes k e1 e2 \<Longrightarrow> writes (j + k) e e2"
  by (auto simp: writes_def same_identity_def)

definition endings :: "engine_event list \<Rightarrow> nat" where
  "endings evs = length (filter (\<lambda>ev. ev_name ev \<in> set ending_types) evs)"

lemma writes_event: "writes (endings [ev]) e (snd (persist_event h ev e))"
  by (simp add: writes_def persist_event_def changing_def Let_def endings_def event_row_of_def note_event_def
      same_identity_def numbered_def split: option.split)

lemma writes_events: "writes (endings evs) e (snd (each (persist_event h) evs e))"
proof (induction evs arbitrary: e)
  case (Cons ev evs)
  obtain u e1 where e1: "persist_event h ev e = (Inr u, e1)" by (simp add: persist_event_def changing_def)
  then have "writes (endings [ev]) e e1" using writes_event [of ev e h] by simp
  from writes_trans [OF this Cons.IH [of e1]] have "writes (endings (ev # evs)) e (snd (each (persist_event h) evs e1))"
    by (simp add: endings_def split: if_splits)
  then show ?case by (auto simp: andthen_def e1 ret_def split: prod.split sum.split)
qed (simp add: ret_def)

lemma writes_batch: "writes (endings evs) e (snd (persist_batch h evs e))"
proof -
  have rows: "ends (batch_rows s c rows ids p n evs) = endings evs" for s c rows ids p n
    by (induction evs arbitrary: p n) (simp_all add: endings_def event_row_of_def Let_def)
  have state: "same_identity s (note_events n evs s) \<and> es_completed (note_events n evs s) = es_completed s
      \<and> (numbered s \<longrightarrow> numbered (note_events n evs s))" for s n
  proof (induction evs arbitrary: n s)
    case (Cons ev evs)
    have "same_identity s (note_event n ev s) \<and> es_completed (note_event n ev s) = es_completed s
        \<and> numbered (note_event n ev s)"
      by (simp add: note_event_def same_identity_def numbered_def Let_def split: option.split)
    then show ?case using Cons.IH [of "note_event n ev s" "n + 1"] by (auto simp: same_identity_def)
  qed simp
  show ?thesis using state by (simp add: writes_def persist_batch_def changing_def Let_def rows)
qed

lemma writes_cascade: "writes (endings evs) e (snd (persist_cascade_events h c evs e))"
proof -
  have "snd (andthen (each (persist_event h) evs) (\<lambda>_. ret ()) e) = snd (each (persist_event h) evs e)"
    by (simp add: andthen_def ret_def split: prod.split sum.split)
  then show ?thesis using writes_batch writes_events by (simp add: persist_cascade_events_def ret_def)
qed

section \<open>Ending an execution\<close>

definition running :: "exec_state \<Rightarrow> nat" where
  "running s = (if es_completed s then 0 else 1)"

text \<open>
  While a handler collects its saves, what it does to the world with at most \<open>k\<close> ends of the workflow
  in the log: nothing is saved yet, no save is forgotten, and a state that is stopped stays so.
\<close>

definition staying :: "nat \<Rightarrow> engine \<Rightarrow> engine \<Rightarrow> bool" where
  "staying k e e' \<longleftrightarrow>
     en_executions e' = en_executions e \<and> en_catalog e' = en_catalog e \<and> en_playbooks e' = en_playbooks e
     \<and> same_identity (en_state e) (en_state e') \<and> (numbered (en_state e) \<longrightarrow> numbered (en_state e'))
     \<and> running (en_state e') \<le> running (en_state e) \<and> the (en_buffer e) \<le> the (en_buffer e') \<and> en_buffer e' \<noteq> None
     \<and> (\<exists>new. en_events e' = en_events e @ new \<and> ends new \<le> k)"

text \<open>An end is written only by stopping the state, and a save is asked for then.\<close>

definition settling :: "engine \<Rightarrow> engine \<Rightarrow> bool" where
  "settling e e' \<longleftrightarrow>
     en_buffer e \<noteq> None \<longrightarrow>
       staying (running (en_state e) - running (en_state e')) e e'
       \<and> (en_buffer e' = Some 0 \<longrightarrow> staying 0 e e')"

lemma staying_refl: "en_buffer e \<noteq> None \<Longrightarrow> staying k e e"
  by (simp add: staying_def same_identity_def)

lemma staying_trans:
  assumes "staying j e e1" and "staying k e1 e2" shows "staying (j + k) e e2"
proof -
  from assms obtain new1 new2 where "en_events e1 = en_events e @ new1" "ends new1 \<le> j"
    "en_events e2 = en_events e1 @ new2" "ends new2 \<le> k" unfolding staying_def by blast
  then have "\<exists>new. en_events e2 = en_events e @ new \<and> ends new \<le> j + k" by (intro exI [of _ "new1 @ new2"]) simp
  with assms show ?thesis unfolding staying_def same_identity_def by (intro conjI) simp_all
qed

lemma staying_more: "staying j e e' \<Longrightarrow> j \<le> k \<Longrightarrow> staying k e e'"
  unfolding staying_def by (meson le_trans)

lemma staying_running: "staying k e e' \<Longrightarrow> running (en_state e') \<le> running (en_state e)"
  by (simp add: staying_def)

lemma staying_buffer: "staying k e e' \<Longrightarrow> the (en_buffer e) \<le> the (en_buffer e') \<and> en_buffer e' \<noteq> None"
  by (simp add: staying_def)

lemma settling_quiet: "(en_buffer e \<noteq> None \<Longrightarrow> staying 0 e e') \<Longrightarrow> settling e e'"
  by (auto simp: settling_def intro: staying_more)

lemma settling_trans:
  assumes a: "settling e e1" and b: "settling e1 e2" shows "settling e e2"
  unfolding settling_def
proof (intro impI conjI)
  assume buf: "en_buffer e \<noteq> None"
  let ?r = "\<lambda>e. running (en_state e)"
  from a buf have w1: "staying (?r e - ?r e1) e e1" and q1: "en_buffer e1 = Some 0 \<Longrightarrow> staying 0 e e1"
    by (auto simp: settling_def)
  from staying_buffer [OF w1] b have w2: "staying (?r e1 - ?r e2) e1 e2" and q2: "en_buffer e2 = Some 0 \<Longrightarrow> staying 0 e1 e2"
    by (auto simp: settling_def)
  have "?r e - ?r e1 + (?r e1 - ?r e2) \<le> ?r e - ?r e2" using staying_running [OF w1] staying_running [OF w2] by linarith
  with staying_trans [OF w1 w2] show "staying (?r e - ?r e2) e e2" by (rule staying_more)
  show "staying 0 e e2" if "en_buffer e2 = Some 0"
  proof -
    have "en_buffer e1 = Some 0" using staying_buffer [OF w2] staying_buffer [OF w1] that by (cases "en_buffer e1") auto
    from staying_trans [OF q1 [OF this] q2 [OF that]] show ?thesis by simp
  qed
qed

lemma staying_writes: "writes k e e' \<Longrightarrow> en_buffer e \<noteq> None \<Longrightarrow> staying k e e'"
  by (auto simp: staying_def writes_def running_def)

lemma staying_progress: "progress (en_state e) t \<Longrightarrow> en_buffer e \<noteq> None \<Longrightarrow> staying 0 e (e\<lparr>en_state := t\<rparr>)"
  by (auto simp: staying_def progress_def running_def numbered_def)

lemma staying_save: "en_buffer e \<noteq> None \<Longrightarrow> staying 0 e (snd (save_state h e))"
  by (auto simp: staying_def save_state_def andthen_def reading_def changing_def)

lemma staying_stopped: "en_buffer e \<noteq> None \<Longrightarrow> staying 0 e (e\<lparr>en_state := mark_ended (en_state e)\<rparr>)"
  by (auto simp: staying_def mark_ended_def running_def same_identity_def numbered_def)

lemma staying_ticks: "en_buffer e \<noteq> None \<Longrightarrow> staying 0 e (e\<lparr>en_ticks := t\<rparr>)"
  by (auto simp: staying_def same_identity_def)

text \<open>An end that stops a running state and leaves a save asked for.\<close>

lemma settling_end:
  assumes "\<not> es_completed (en_state e)"
    and "en_buffer e \<noteq> None \<Longrightarrow> staying 1 e e' \<and> es_completed (en_state e') \<and> en_buffer e' \<noteq> Some 0"
  shows "settling e e'"
  using assms by (auto simp: settling_def running_def)

text \<open>The events that end an execution, after which a save is asked for.\<close>

lemma ending_events_once:
  assumes "ending_events h ev st fs er e = (r, e1)"
  shows "(\<exists>t. e1 = e\<lparr>en_ticks := t\<rparr>) \<and> (\<forall>evs. r = Inr evs \<longrightarrow> endings evs \<le> 1)"
proof (cases "ending_payload st fs (py_get (payload_of ev) ''result'') er")
  case (Inl z)
  then have "e1 = e\<lparr>en_ticks := en_ticks e\<rparr> \<and> r = Inl z" using assms
    by (auto simp: ending_events_def andthen_def state_of_def reading_def pure_def raises_def)
  then show ?thesis by blast
next
  case (Inr p)
  show ?thesis
  proof (cases "playbook_step (es_playbook (en_state e))")
    case (Inl z)
    then have "e1 = e\<lparr>en_ticks := Suc (en_ticks e)\<rparr> \<and> r = Inl z" using assms Inr
      by (auto simp: ending_events_def andthen_def state_of_def reading_def pure_def raises_def clock_def)
    then show ?thesis by blast
  next
    case (Inr path)
    let ?t1 = "h_clock h (en_ticks e)" and ?t2 = "h_clock h (Suc (en_ticks e))"
    let ?evs = "[lifecycle_event h ?t1 (ev_execution_id ev) ''workflow'' (''workflow.'' @ st) p (es_last_event_id (en_state e)),
            lifecycle_event h ?t2 (ev_execution_id ev) path (''playbook.'' @ st) p VNone]"
    have "e1 = e\<lparr>en_ticks := Suc (Suc (en_ticks e))\<rparr> \<and> r = Inr ?evs" using assms Inr \<open>ending_payload _ _ _ _ = Inr p\<close>
      by (simp add: ending_events_def andthen_def state_of_def reading_def pure_def clock_def ret_def)
    moreover have "endings ?evs \<le> 1" by (simp add: endings_def lifecycle_event_def ending_types_def)
    ultimately show ?thesis by blast
  qed
qed


lemma staying_ends:
  assumes "ending_events h ev st fs er e = (r, e1)" and "en_buffer e \<noteq> None" shows "staying 0 e e1"
  using ending_events_once [OF assms(1)] staying_ticks [OF assms(2)] by auto

lemma cascade_value: "\<exists>e'. persist_cascade_events h c evs e = (Inr (), e')"
proof -
  have "\<exists>us e'. each (persist_event h) evs e = (Inr us, e')" for e
  proof (induction evs arbitrary: e)
    case (Cons ev evs)
    obtain e1 where e1: "persist_event h ev e = (Inr (), e1)" by (simp add: persist_event_def changing_def)
    from Cons.IH [of e1] show ?case by (auto simp: andthen_def e1 ret_def)
  qed (simp add: ret_def)
  then obtain us e' where "each (persist_event h) evs e = (Inr us, e')" by blast
  then show ?thesis by (simp add: persist_cascade_events_def persist_batch_def changing_def andthen_def ret_def)
qed

lemma saved_buffer:
  assumes "en_buffer e \<noteq> None"
  shows "\<exists>m. save_state h e = (Inr (), e\<lparr>en_buffer := Some (Suc m)\<rparr>)"
  using assms by (auto simp: save_state_def andthen_def reading_def changing_def)

lemma saved_later: "staying k e e' \<Longrightarrow> en_buffer e = Some (Suc n) \<Longrightarrow> en_buffer e' \<noteq> Some 0"
  using staying_buffer by fastforce

lemma settling_refl [simp]: "settling e e"
  by (rule settling_quiet) (rule staying_refl)

text \<open>A running state is stopped, its ends are written, and a save is asked for.\<close>

lemma stop_then_save:
  assumes run: "\<not> es_completed (en_state e)"
  shows "settling e (snd (andthen (changing_state mark_ended) (\<lambda>_. andthen (ending_events h ev st fs er)
    (\<lambda>evs. andthen (persist_cascade_events h c evs) (\<lambda>_. save_state h))) e))"
proof -
  let ?e1 = "e\<lparr>en_state := mark_ended (en_state e)\<rparr>"
  obtain r e2 where r: "ending_events h ev st fs er ?e1 = (r, e2)" by fastforce
  have w2: "en_buffer e \<noteq> None \<Longrightarrow> staying 0 e e2"
    using staying_trans [OF staying_stopped staying_ends [OF r]] by simp
  show ?thesis
  proof (cases r)
    case (Inl z)
    then show ?thesis using settling_quiet [OF w2]
      by (simp add: andthen_def changing_state_def changing_def r)
  next
    case (Inr evs)
    obtain e3 where e3: "persist_cascade_events h c evs e2 = (Inr (), e3)" using cascade_value by blast
    have one: "endings evs \<le> 1" using ending_events_once [OF r] Inr by blast
    have w3: "staying 1 e e3" if "en_buffer e \<noteq> None"
    proof -
      have "writes 1 e2 e3" using writes_cascade [of evs e2 h c] e3 one by (auto simp: writes_def)
      then have "staying 1 e2 e3" by (rule staying_writes) (use staying_buffer [OF w2 [OF that]] in simp)
      from staying_trans [OF w2 [OF that] this] show ?thesis by simp
    qed
    have stopped: "es_completed (en_state e3)"
    proof -
      from ending_events_once [OF r] have "es_completed (en_state e2)" by (auto simp: mark_ended_def)
      then show ?thesis using writes_cascade [of evs e2 h c] e3 by (simp add: writes_def)
    qed
    have out: "snd (andthen (changing_state mark_ended) (\<lambda>_. andthen (ending_events h ev st fs er)
        (\<lambda>evs. andthen (persist_cascade_events h c evs) (\<lambda>_. save_state h))) e) = snd (save_state h e3)"
      by (simp add: andthen_def changing_state_def changing_def r Inr e3)
    show ?thesis unfolding out
    proof (rule settling_end [OF run], intro conjI)
      assume buf: "en_buffer e \<noteq> None"
      from staying_buffer [OF w3 [OF buf]] have b3: "en_buffer e3 \<noteq> None" by simp
      from staying_trans [OF w3 [OF buf] staying_save [OF b3, of h]] show "staying 1 e (snd (save_state h e3))" by simp
      from saved_buffer [OF b3, of h] obtain m where m: "save_state h e3 = (Inr (), e3\<lparr>en_buffer := Some (Suc m)\<rparr>)" by blast
      show "es_completed (en_state (snd (save_state h e3)))" "en_buffer (snd (save_state h e3)) \<noteq> Some 0"
        using stopped by (simp_all add: m)
    qed
  qed
qed

lemma settling_inline: "settling e (snd (finish_inline h c ev e))"
proof (cases "set (es_issued_steps (en_state e)) \<subseteq> set (es_completed_steps (en_state e)) \<and> \<not> es_completed (en_state e)")
  case True
  then show ?thesis using stop_then_save [of e h ev "''completed''" "event_step ev" VNone c]
    unfolding finish_inline_def andthen_state_of by simp
next
  case False
  have "finish_inline h c ev e = (Inr (), e)"
    unfolding finish_inline_def andthen_state_of if_not_P [OF False] ret_def ..
  then show ?thesis by simp
qed

lemma settling_failure: "settling e (snd (fail_execution h c ev e))"
proof -
  let ?e1 = "e\<lparr>en_state := (en_state e)\<lparr>es_failed := True\<rparr>\<rparr>"
  have "settling e ?e1" by (rule settling_quiet) (simp add: staying_progress)
  moreover have "settling ?e1 (snd (andthen state_of (\<lambda>s. if es_completed s then ret () else
      andthen (changing_state mark_ended) (\<lambda>_. andthen (ending_events h ev ''failed'' (event_step ev) (py_get (payload_of ev) ''error''))
        (\<lambda>evs. andthen (persist_cascade_events h c evs) (\<lambda>_. save_state h)))) ?e1))"
  proof (cases "es_completed (en_state e)")
    case False
    then show ?thesis using stop_then_save [of ?e1 h ev "''failed''"] unfolding andthen_state_of by simp
  qed (simp add: andthen_def state_of_def reading_def ret_def)
  ultimately have "settling e (snd (andthen state_of (\<lambda>s. if es_completed s then ret () else
      andthen (changing_state mark_ended) (\<lambda>_. andthen (ending_events h ev ''failed'' (event_step ev) (py_get (payload_of ev) ''error''))
        (\<lambda>evs. andthen (persist_cascade_events h c evs) (\<lambda>_. save_state h)))) ?e1))"
    by (rule settling_trans)
  then show ?thesis by (simp add: fail_execution_def andthen_def changing_state_def changing_def)
qed

text \<open>Here the save comes before the events.\<close>

lemma settling_completion:
  assumes name: "ev_name ev \<notin> set ending_types" and run: "\<not> es_completed (en_state e)"
  shows "settling e (snd (end_execution h c p ev e))"
proof -
  let ?e1 = "e\<lparr>en_state := mark_ended (en_state e)\<rparr>"
  have none: "endings [ev] = 0" using name by (simp add: endings_def)
  have "\<exists>e2. persist_unless h p ev ?e1 = (Inr (), e2) \<and> writes 0 ?e1 e2"
    using writes_event [of ev ?e1 h] by (auto simp: persist_unless_def ret_def none persist_event_def changing_def)
  then obtain e2 where e2: "persist_unless h p ev ?e1 = (Inr (), e2)" and w: "writes 0 ?e1 e2" by blast
  let ?st = "if es_failed (en_state e2) \<or> has_error ev then ''failed'' else ''completed''"
  obtain r e3 where r: "ending_events h ev ?st (event_step ev) (py_get (payload_of ev) ''error'') e2 = (r, e3)" by fastforce
  have out: "end_execution h c p ev e = andthen (\<lambda>e. (r, e3)) (\<lambda>evs. andthen (save_state h) (\<lambda>_. persist_cascade_events h c evs)) e2"
    by (simp add: end_execution_def andthen_def changing_state_def changing_def e2 state_of_def reading_def r)
  have q2: "staying 0 e e2" if "en_buffer e \<noteq> None"
    using staying_trans [OF staying_stopped [OF that] staying_writes [OF w]] that by simp
  have q3: "staying 0 e e3" if "en_buffer e \<noteq> None"
    using staying_trans [OF q2 [OF that] staying_ends [OF r]] staying_buffer [OF q2 [OF that]] by simp
  show ?thesis
  proof (cases r)
    case (Inl z)
    then show ?thesis using settling_quiet [OF q3] by (simp add: out andthen_def)
  next
    case (Inr evs)
    have one: "endings evs \<le> 1" using ending_events_once [OF r] Inr by blast
    show ?thesis
    proof (rule settling_end [OF run])
      assume buf: "en_buffer e \<noteq> None"
      from staying_buffer [OF q3 [OF buf]] have b3: "en_buffer e3 \<noteq> None" by simp
      from saved_buffer [OF b3, of h] obtain m where m: "save_state h e3 = (Inr (), e3\<lparr>en_buffer := Some (Suc m)\<rparr>)" by blast
      let ?e4 = "e3\<lparr>en_buffer := Some (Suc m)\<rparr>"
      obtain e5 where e5: "persist_cascade_events h c evs ?e4 = (Inr (), e5)" using cascade_value by blast
      have "writes (endings evs) ?e4 e5" using writes_cascade [of evs ?e4 h c] by (simp add: e5)
      then have w5: "writes 1 ?e4 e5" using one by (auto simp: writes_def)
      have "staying 0 e3 ?e4" using staying_save [OF b3, of h] by (simp add: m)
      from staying_trans [OF staying_trans [OF q3 [OF buf] this] staying_writes [OF w5]] have "staying 1 e e5" by simp
      moreover have "es_completed (en_state e5)"
      proof -
        have "es_completed (en_state e2)" using w by (simp add: writes_def mark_ended_def)
        then have "es_completed (en_state e3)" using ending_events_once [OF r] by auto
        then show ?thesis using w5 by (simp add: writes_def)
      qed
      moreover have "en_buffer e5 \<noteq> Some 0" using w5 by (simp add: writes_def)
      moreover have "snd (end_execution h c p ev e) = e5" by (simp add: out andthen_def Inr m e5)
      ultimately show "staying 1 e (snd (end_execution h c p ev e)) \<and> es_completed (en_state (snd (end_execution h c p ev e)))
          \<and> en_buffer (snd (end_execution h c p ev e)) \<noteq> Some 0" by simp
    qed
  qed
qed

interpretation settling: handler_frame settling
proof
  show "settling e e" for e by simp
  show "settling e e1 \<Longrightarrow> settling e1 e2 \<Longrightarrow> settling e e2" for e e1 e2 by (rule settling_trans)
  show "settling e (e\<lparr>en_state := t\<rparr>)" if "progress (en_state e) t" for e t
    by (rule settling_quiet) (rule staying_progress [OF that])
  show "settling e (snd (persist_event h ev e))" if "ev_name ev \<notin> set ending_types" for e h ev
    using writes_event [of ev e h] that by (intro settling_quiet staying_writes) (simp_all add: endings_def)
  show "settling e (snd (save_state h e))" for e h by (rule settling_quiet) (rule staying_save)
  show "settling e (snd (finish_inline h c ev e))" for e h c ev by (rule settling_inline)
  show "settling e (snd (fail_execution h c ev e))" for e h c ev by (rule settling_failure)
  show "settling e (snd (end_execution h c p ev e))" if "ev_name ev \<notin> set ending_types" "\<not> es_completed (en_state e)"
    for e h c p ev using that by (rule settling_completion)
qed (auto simp: staying_def same_identity_def ending_types_def intro!: settling_quiet)

end
