(* ===== verification/Event_Theorems.thy ===== *)
theory Event_Theorems
  imports Handler_Frame
begin

text \<open>
  What handling events guarantees for an execution whose state is in its row and whose playbook is
  in the catalog: one handled event ends the workflow at most once, an execution that has ended only
  logs what arrives late, and over any sequence of events, whether their handlers raise or not, the
  workflow ends at most once. A duplicate of a persisted event changes nothing, and a terminal step
  with nothing pending completes the execution. The lemmas at the end show where the handler does
  something else than it means to.
\<close>

section \<open>An execution on record\<close>

text \<open>Restoring a state from its persisted form keeps its identity and its end.\<close>

definition restores :: "exec_state \<Rightarrow> exec_state \<Rightarrow> bool" where
  "restores s t \<longleftrightarrow>
     es_execution_id t = es_execution_id s \<and> es_catalog_id t = es_catalog_id s
     \<and> es_parent_execution_id t = es_parent_execution_id s \<and> es_completed t = es_completed s
     \<and> es_last_event_id t = es_last_event_id s"

lemma state_restored: "\<exists>t. state_from_dict (state_to_dict s) pb = Inr t \<and> restores s t \<and> es_playbook t = pb"
proof -
  obtain d where d: "strip_keychain_namespaces (VDict (es_payload s)) (py_get (es_variables s) manifest_key) = VDict d"
    using strip_dict by blast
  have strings: "\<exists>ys. need_set (VList (map VStr xs)) = Inr ys" for xs
  proof -
    have "rmap need_str (map VStr xs) = Inr xs" by (induction xs) (simp_all add: need_str_def)
    then show ?thesis by (simp add: need_set_def)
  qed
  obtain a b where "need_set (VList (map VStr (es_completed_steps s))) = Inr a"
    "need_set (VList (map VStr (es_issued_steps s))) = Inr b" using strings by blast
  then show ?thesis
    by (simp add: state_from_dict_def state_to_dict_def need_def py_get_default_def d need_bool_def restores_def
        new_execution_state_def)
qed

definition storable :: "int \<Rightarrow> int \<Rightarrow> exec_state \<Rightarrow> bool" where
  "storable n c s \<longleftrightarrow>
     py_int (es_execution_id s) = Inr n \<and> es_catalog_id s = VInt c
     \<and> (\<exists>p. opt_int (es_parent_execution_id s) = Inr p) \<and> numbered s"

lemma storable_restored: "storable n c s \<Longrightarrow> restores s t \<Longrightarrow> storable n c t"
  by (simp add: storable_def restores_def numbered_def)

lemma storable_later: "storable n c s \<Longrightarrow> same_identity s t \<Longrightarrow> numbered t \<Longrightarrow> storable n c t"
  by (simp add: storable_def same_identity_def)

lemma storable_rows: "storable n c s \<Longrightarrow> \<exists>rows'. saved_rows now s rows = Inr rows'"
  by (auto simp: storable_def numbered_def saved_rows_def last_event_number_def py_or_def Let_def)

text \<open>What loading needs besides the row: the playbook in the catalog and a cache that can hold it.\<close>

definition found :: "host \<Rightarrow> int \<Rightarrow> engine \<Rightarrow> bool" where
  "found h c e \<longleftrightarrow>
     0 < bc_max_size (en_playbooks e)
     \<and> (\<exists>r pb. find (\<lambda>r. VInt (ct_catalog_id r) = VInt c) (en_catalog e) = Some r
          \<and> parse_playbook h (ct_content r) = Some pb)"

definition recorded :: "host \<Rightarrow> int \<Rightarrow> int \<Rightarrow> exec_state \<Rightarrow> engine \<Rightarrow> bool" where
  "recorded h n c s e \<longleftrightarrow>
     storable n c s \<and> c \<noteq> 0 \<and> found h c e
     \<and> (\<exists>r. row_of n (en_executions e) = Some r \<and> xr_state r = VDict (state_to_dict s))
     \<and> list_all (\<lambda>r. xr_execution_id r = n \<longrightarrow> xr_catalog_id r = c) (en_executions e)"

section \<open>Loading it\<close>

definition room_kept :: "engine \<Rightarrow> engine \<Rightarrow> bool" where
  "room_kept e e' \<longleftrightarrow> bc_max_size (en_playbooks e') = bc_max_size (en_playbooks e)"

interpretation room: read_frame room_kept
  by unfold_locales (simp_all add: room_kept_def)

lemma room_cached: "framed room_kept (cached_playbook h k)"
  unfolding cached_playbook_def
  by (intro room.framed_andthen room.framed_clock)
    (simp add: framed_def room_kept_def cache_get_def split: option.split prod.split)

lemma room_set: "framed room_kept (cache_playbook h pb k)"
  unfolding cache_playbook_def
  by (intro room.framed_andthen room.framed_clock room.framed_changing) (simp add: room_kept_def cache_set_sync_def)

lemma room_each: "(\<And>x. framed room_kept (f x)) \<Longrightarrow> framed room_kept (each f xs)"
  by (induction xs) (auto intro!: room.framed_ret room.framed_andthen)

lemma room_register: "framed room_kept (register_playbook h pb k)" "framed room_kept (register_saved h s)"
proof -
  show r: "framed room_kept (register_playbook h pb k)" for pb k
    unfolding register_playbook_def by (intro room.framed_andthen room.framed_ret room_set room_each)
  show "framed room_kept (register_saved h s)"
    unfolding register_saved_def by (intro room.framed_andthen room.framed_ret framed_cases r room_each)
qed

lemma cache_set_ok:
  assumes "0 < bc_max_size c"
  shows "\<exists>c'. cache_set now k v c = Inr c' \<and> bc_max_size c' = bc_max_size c"
proof -
  define c1 where "c1 = (if 100 \<le> bc_counter c + 1 then (cleanup_expired now c)\<lparr>bc_counter := 0\<rparr>
    else c\<lparr>bc_counter := bc_counter c + 1\<rparr>)"
  have size: "bc_max_size c1 = bc_max_size c" by (simp add: c1_def cleanup_expired_def)
  with assms obtain es where "evict_full (bc_max_size c1) (bc_entries c1) = Inr es" using evict_full_total by metis
  then have "cache_set now k v c = Inr (c1\<lparr>bc_entries := AList.update k (v, now) es\<rparr>)"
    unfolding cache_set_def Let_def c1_def [symmetric] by simp
  with size show ?thesis by simp
qed

lemma keep_playbook_ok:
  assumes "0 < bc_max_size (en_playbooks e)"
  shows "\<exists>e'. keep_playbook h ks pb e = (Inr (Some pb), e') \<and> room_kept e e'"
proof -
  define put where "put = (\<lambda>key. andthen (clock h) (\<lambda>now e.
         case cache_set now key pb (en_playbooks e) of
           Inl x \<Rightarrow> (Inl x, e) | Inr c \<Rightarrow> (Inr (), e\<lparr>en_playbooks := c\<rparr>)))"
  have "\<exists>us e'. each put ks e = (Inr us, e') \<and> room_kept e e'" using assms
  proof (induction ks arbitrary: e)
    case (Cons k ks)
    obtain c where c: "cache_set (h_clock h (en_ticks e)) k pb (en_playbooks e) = Inr c"
      "bc_max_size c = bc_max_size (en_playbooks e)" using cache_set_ok [OF Cons.prems] by blast
    let ?e1 = "e\<lparr>en_ticks := Suc (en_ticks e), en_playbooks := c\<rparr>"
    have one: "put k e = (Inr (), ?e1)" using c(1) by (simp add: put_def andthen_def clock_def)
    from Cons.IH [of ?e1] Cons.prems c obtain us e' where "each put ks ?e1 = (Inr us, e')" "room_kept ?e1 e'" by auto
    then show ?case using c(2) by (auto simp: andthen_def one ret_def room_kept_def)
  qed (simp add: ret_def room_kept_def)
  then obtain us e' where "each put ks e = (Inr us, e')" "room_kept e e'" by blast
  then show ?thesis unfolding keep_playbook_def put_def [symmetric] by (simp add: attempt_def andthen_def ret_def)
qed

lemma load_by_id_ok:
  assumes "found h c e"
  shows "\<exists>pb e'. load_playbook_by_id h (VInt c) e = (Inr (Some pb), e') \<and> room_kept e e'"
proof -
  have "\<exists>hit e1. cached_playbook h (id_key (VInt c)) e = (Inr hit, e1)"
    by (simp add: cached_playbook_def andthen_def clock_def split: prod.split)
  then obtain hit e1 where hit: "cached_playbook h (id_key (VInt c)) e = (Inr hit, e1)" by blast
  with room_cached have r1: "room_kept e e1" by (rule framedD)
  have "playbooks_only e e1" using only_playbooks_cached hit unfolding only_playbooks_def by (metis snd_conv)
  then have cat: "en_catalog e1 = en_catalog e" unfolding playbooks_only_def by (metis engine.select_convs(8) engine.surjective engine.update_convs(9) engine.update_convs(13))
  show ?thesis
  proof (cases hit)
    case (Some pb)
    then show ?thesis using r1 by (simp add: load_playbook_by_id_def andthen_def hit ret_def)
  next
    case None
    from assms obtain r pb where r: "find (\<lambda>r. VInt (ct_catalog_id r) = VInt c) (en_catalog e1) = Some r"
      "parse_playbook h (ct_content r) = Some pb" by (auto simp: found_def cat)
    have "0 < bc_max_size (en_playbooks e1)" using assms r1 by (simp add: found_def room_kept_def)
    from keep_playbook_ok [OF this] obtain e2 where
      e2: "keep_playbook h (id_key (VInt c) # (if ct_path r \<noteq> [] then [ct_path r] else [])) pb e1 = (Inr (Some pb), e2)"
      "room_kept e1 e2" by blast
    have "load_playbook_by_id h (VInt c) e = (Inr (Some pb), e2)"
      unfolding load_playbook_by_id_def
      using r e2(1) by (simp add: andthen_def hit None reading_def parse_and_keep_def)
    then show ?thesis using room.trans [OF r1 e2(2)] by blast
  qed
qed

text \<open>The state that is loaded is the recorded one, restored; only the cache of playbooks changes.\<close>

lemma load_recorded:
  assumes rec: "recorded h n c s e" and x: "py_int x = Inr n"
  shows "\<exists>t e'. load_state h x e = (Inr (Some t), e') \<and> restores s t \<and> playbooks_only e e' \<and> room_kept e e'"
proof -
  from rec obtain r where r: "find (\<lambda>r. xr_execution_id r = n) (en_executions e) = Some r" "xr_state r = VDict (state_to_dict s)"
    by (auto simp: recorded_def row_of_def)
  then have "r \<in> set (en_executions e)" "xr_execution_id r = n" by (auto simp: find_Some_iff)
  with rec have cat: "xr_catalog_id r = c" "c \<noteq> 0" by (auto simp: recorded_def list_all_iff)
  from rec have "found h c e" by (simp add: recorded_def)
  from load_by_id_ok [OF this] obtain pb e' where
    pb: "load_playbook_by_id h (VInt c) e = (Inr (Some pb), e')" "room_kept e e'" by blast
  obtain t where t: "state_from_dict (state_to_dict s) pb = Inr t" "restores s t" using state_restored by blast
  have "playbook_of_row h r (state_to_dict s) e = (Inr (Some pb), e')"
    using cat pb(1) by (simp add: playbook_of_row_def andthen_def ret_def)
  then have "load_from_row h (Some r) e = (Inr (Some t), e')"
    by (simp add: load_from_row_def r(2) state_to_dict_nonempty andthen_def pure_def t(1) ret_def)
  then have "load_state h x e = (Inr (Some t), e')"
    by (simp add: load_state_def x pure_def andthen_def reading_def r(1) ret_def)
  moreover have "playbooks_only e e'"
    using only_playbooks_load_by_id pb(1) unfolding only_playbooks_def by (metis snd_conv)
  ultimately show ?thesis using t(2) pb(2) by blast
qed

section \<open>Handling one event\<close>

text \<open>A save outside the handler puts the state on record.\<close>

lemma save_records:
  assumes s: "storable n c (en_state e)" "c \<noteq> 0" and f: "found h c e" and buf: "en_buffer e = None"
    and rows: "list_all (\<lambda>r. xr_execution_id r = n \<longrightarrow> xr_catalog_id r = c) (en_executions e)"
  shows "\<exists>e'. save_state h e = (Inr (), e') \<and> recorded h n c (en_state e) e' \<and> en_events e' = en_events e
    \<and> en_commands e' = en_commands e \<and> en_state e' = en_state e \<and> en_buffer e' = None"
proof -
  obtain r e1 where reg: "register_saved h (en_state e) e = (r, e1)" by fastforce
  then obtain e1 where reg: "register_saved h (en_state e) e = (Inr (), e1)" using register_saved_ok by metis
  have "room_kept e e1" using room_register(2) reg by (rule framedD)
  have "playbooks_only e e1"
    using only_playbooks_register_saved reg unfolding only_playbooks_def by (metis snd_conv)
  note e1 = only_playbooks_fields [OF this]
  let ?now = "h_clock h (en_ticks e1)"
  obtain rows' where rows': "saved_rows ?now (en_state e) (en_executions e) = Inr rows'"
    using storable_rows [OF s(1)] by blast
  let ?e' = "e1\<lparr>en_ticks := Suc (en_ticks e1), en_executions := rows'\<rparr>"
  have saved: "save_state h e = (Inr (), ?e')" using buf rows' e1
    by (simp add: save_state_def save_now_def state_of_def reading_def andthen_def reg clock_def pure_def changing_def)
  from s have cat: "es_catalog_id (en_state e) = VInt c" "py_int (es_execution_id (en_state e)) = Inr n"
    by (simp_all add: storable_def)
  from saved_row [OF cat rows rows'] obtain r where
    "row_of n rows' = Some r" "xr_state r = VDict (state_to_dict (en_state e))" by (auto simp: row_of_def)
  moreover have "found h c ?e'" using f e1 \<open>room_kept e e1\<close> by (simp add: found_def room_kept_def)
  moreover have "list_all (\<lambda>r. xr_execution_id r = n \<longrightarrow> xr_catalog_id r = c) rows'"
    using saved_rows_keep_catalog [OF rows' cat(1) rows] .
  ultimately have "recorded h n c (en_state e) ?e'" using s by (simp add: recorded_def)
  with saved e1 buf show ?thesis by (intro exI [of _ ?e']) simp
qed

lemma handle_event_steps:
  assumes rec: "recorded h n c s e" and x: "py_int (ev_execution_id ev) = Inr n"
  obtains t e1 e2 where "restores s t" "recorded h n c s e1" "en_events e1 = en_events e" "en_state e1 = t"
    "en_commands e1 = en_commands e" "en_executions e1 = en_executions e"
    "en_buffer e1 = Some 0" "dispatch_event h w p ev e1 = (fst (handle_event h w p ev e), e2)"
    "snd (handle_event h w p ev e) = flush h e2"
proof -
  let ?e0 = "e\<lparr>en_buffer := Some 0\<rparr>"
  have "recorded h n c s ?e0" using rec by (simp add: recorded_def found_def)
  from load_recorded [OF this x] obtain t e1 where load: "load_state h (ev_execution_id ev) ?e0 = (Inr (Some t), e1)"
    "restores s t" "playbooks_only ?e0 e1" "room_kept ?e0 e1" by blast
  note k = only_playbooks_fields [OF load(3)]
  let ?e1 = "e1\<lparr>en_state := t\<rparr>"
  obtain r e2 where d: "dispatch_event h w p ev ?e1 = (r, e2)" by fastforce
  have run: "handle_event h w p ev e = (r, flush h e2)"
    by (simp add: handle_event_def handle_loaded_def andthen_def load(1) changing_state_def changing_def d)
  have "recorded h n c s ?e1" using rec k load(4) by (simp add: recorded_def found_def room_kept_def)
  then show ?thesis using that [of t ?e1 e2] load(2) k d run by simp
qed

text \<open>An event that comes after the end is at most logged.\<close>

definition logged_late :: "string \<Rightarrow> bool \<Rightarrow> event_row list \<Rightarrow> event_row list \<Rightarrow> bool" where
  "logged_late name persisted rows rows' \<longleftrightarrow>
     rows' = rows \<or> \<not> persisted \<and> (\<exists>r. rows' = rows @ [r] \<and> we_event_type r = name)"

definition row_kept :: "execution_tuple \<Rightarrow> execution_tuple \<Rightarrow> bool" where
  "row_kept r r' \<longleftrightarrow> xr_state r' = xr_state r \<and> ended_like r r'"

definition late :: "int \<Rightarrow> engine_event \<Rightarrow> bool \<Rightarrow> engine \<Rightarrow> engine \<Rightarrow> bool" where
  "late n ev persisted e e' \<longleftrightarrow>
     logged_late (ev_name ev) persisted (en_events e) (en_events e') \<and> en_commands e' = en_commands e
     \<and> rel_option row_kept (row_of n (en_executions e)) (row_of n (en_executions e'))"

lemma row_kept_refl [simp]: "row_kept r r"
  by (simp add: row_kept_def ended_like_refl)

lemma late_same: "en_events e' = en_events e \<Longrightarrow> en_commands e' = en_commands e \<Longrightarrow> en_executions e' = en_executions e
    \<Longrightarrow> late n ev p e e'"
  by (simp add: late_def logged_late_def option.rel_refl)

lemma advanced_to_state [simp]: "xr_state (advanced_to now k r) = xr_state r"
  by (simp add: advanced_to_def)

lemma all_on_execution: "list_all P rows \<Longrightarrow> (\<And>r. P r \<Longrightarrow> P (f r)) \<Longrightarrow> list_all P (on_execution n f rows)"
  by (auto simp: on_execution_def list_all_iff)

lemma number_read: "numbered s \<Longrightarrow> \<exists>k. last_event_number (es_last_event_id s) = Inr k"
  by (auto simp: numbered_def last_event_number_def py_or_def)

lemma skip_completed_effect:
  assumes t: "py_int (es_execution_id (en_state e)) = Inr n" "numbered (en_state e)"
  shows "\<exists>e'. skip_completed h p ev e = (Inr [], e') \<and> late n ev p e e' \<and> en_buffer e' = en_buffer e
    \<and> (\<forall>s c. recorded h n c s e \<longrightarrow> recorded h n c s e')"
proof (cases p)
  case True
  then show ?thesis using late_same by (simp add: skip_completed_def ret_def)
next
  case False
  obtain e1 where e1: "persist_event h ev e = (Inr (), e1)" by (simp add: persist_event_def changing_def)
  have w: "writes (endings [ev]) e e1" using writes_event [of ev e h] by (simp add: e1)
  have log: "logged_late (ev_name ev) p (en_events e) (en_events e1)"
    using e1 False by (auto simp: logged_late_def persist_event_def changing_def Let_def event_row_of_def split: if_splits)
  have com: "en_commands e1 = en_commands e" using persist_event_fields(2) [of h ev e] by (simp add: e1)
  from w t have "py_int (es_execution_id (en_state e1)) = Inr n" "numbered (en_state e1)"
    by (simp_all add: writes_def same_identity_def)
  moreover from number_read [OF this(2)] obtain k where "last_event_number (es_last_event_id (en_state e1)) = Inr k" by blast
  ultimately obtain now where run: "skip_completed h p ev e = (Inr [], e1\<lparr>en_ticks := Suc (en_ticks e1),
      en_executions := on_execution n (advanced_to now k) (en_executions e1)\<rparr>)"
    by (simp add: skip_completed_def False andthen_def e1 state_of_def reading_def save_state_terminal_lightweight_def
        pure_def clock_def changing_def ret_def)
  let ?e' = "e1\<lparr>en_ticks := Suc (en_ticks e1), en_executions := on_execution n (advanced_to now k) (en_executions e1)\<rparr>"
  have row: "row_of n (en_executions ?e') = map_option (advanced_to now k) (row_of n (en_executions e))"
    using w row_of_on_execution [of "advanced_to now k" n n "en_executions e"] by (simp add: writes_def)
  have "recorded h n c s ?e'" if "recorded h n c s e" for s c
  proof -
    have "list_all (\<lambda>r. xr_execution_id r = n \<longrightarrow> xr_catalog_id r = c) (on_execution n (advanced_to now k) (en_executions e))"
      using that by (intro all_on_execution) (simp_all add: recorded_def advanced_to_def)
    moreover have "\<exists>r. row_of n (en_executions ?e') = Some r \<and> xr_state r = VDict (state_to_dict s)"
    proof -
      from that obtain r where r: "row_of n (en_executions e) = Some r" "xr_state r = VDict (state_to_dict s)"
        by (auto simp: recorded_def)
      show ?thesis unfolding row r(1) option.map by (rule exI [of _ "advanced_to now k r"], rule conjI [OF refl], unfold advanced_to_state, rule r(2))
    qed
    moreover have "found h c ?e'" using that w by (simp add: recorded_def found_def writes_def)
    moreover have "en_executions ?e' = on_execution n (advanced_to now k) (en_executions e)" using w by (simp add: writes_def)
    moreover have "storable n c s" "c \<noteq> 0" using that by (simp_all add: recorded_def)
    ultimately show ?thesis unfolding recorded_def by metis
  qed
  moreover have "late n ev p e ?e'"
  proof -
    have "row_kept r (advanced_to now k r)" for r
      by (simp add: row_kept_def ended_like_advanced)
    then have "rel_option row_kept (row_of n (en_executions e)) (row_of n (en_executions ?e'))"
      unfolding row by (cases "row_of n (en_executions e)") simp_all
    with log com show ?thesis by (simp add: late_def)
  qed
  moreover have "en_buffer ?e' = en_buffer e" using w by (simp add: writes_def)
  ultimately show ?thesis using run by blast
qed

lemma dispatch_completed:
  assumes rec: "recorded h n c s e" and t: "restores s (en_state e)" "es_completed (en_state e)"
  shows "\<exists>e'. dispatch_event h w p ev e = (Inr [], e') \<and> late n ev p e e' \<and> en_buffer e' = en_buffer e
    \<and> recorded h n c s e'"
proof -
  have "dispatch_event h w p ev e = skip_completed h p ev e"
    using t(2) by (simp add: dispatch_event_def andthen_def reading_def Let_def)
  moreover have "py_int (es_execution_id (en_state e)) = Inr n" "numbered (en_state e)"
    using storable_restored [OF _ t(1), of n c] rec by (simp_all add: recorded_def storable_def)
  from skip_completed_effect [OF this, of h p ev] obtain e' where "skip_completed h p ev e = (Inr [], e')"
    "late n ev p e e'" "en_buffer e' = en_buffer e" "recorded h n c s e'" using rec by blast
  ultimately show ?thesis by (intro exI [of _ e']) simp
qed

text \<open>What one event does to the log and to the record, whether its handler raises or not.\<close>

lemma handled_once:
  assumes rec: "recorded h n c s e" and x: "py_int (ev_execution_id ev) = Inr n"
    and name: "ev_name ev \<notin> set ending_types"
  shows "\<exists>new s'. en_events (snd (handle_event h w p ev e)) = en_events e @ new
    \<and> recorded h n c s' (snd (handle_event h w p ev e)) \<and> ends new + running s' \<le> running s"
proof -
  obtain t e1 e2 where d: "restores s t" "recorded h n c s e1" "en_events e1 = en_events e" "en_state e1 = t"
    "en_buffer e1 = Some 0" "dispatch_event h w p ev e1 = (fst (handle_event h w p ev e), e2)"
    and out: "snd (handle_event h w p ev e) = flush h e2"
    by (rule handle_event_steps [OF rec x, of w p]) blast
  have same: "running t = running s" using d(1) by (simp add: restores_def running_def)
  show ?thesis
  proof (cases "es_completed t")
    case False
    from settling.dispatch_running [OF name, of e1 h w p] False d(4,6) have "settling e1 e2" by simp
    then have st: "staying (running t - running (en_state e2)) e1 e2" "en_buffer e2 = Some 0 \<Longrightarrow> staying 0 e1 e2"
      by (simp_all add: settling_def d(4,5))
    from st(1) obtain new where new: "en_events e2 = en_events e @ new" "ends new \<le> running t - running (en_state e2)"
      by (auto simp: staying_def d(3))
    have kept: "en_executions e2 = en_executions e1" "en_catalog e2 = en_catalog e1" "en_playbooks e2 = en_playbooks e1"
      "running (en_state e2) \<le> running t" using st(1) by (simp_all add: staying_def d(4))
    obtain m where m: "en_buffer e2 = Some m" using staying_buffer [OF st(1)] by auto
    show ?thesis
    proof (cases m)
      case 0
      have "ends new = 0" using st(2) m 0 new(1) by (auto simp: staying_def d(3))
      moreover have "flush h e2 = e2\<lparr>en_buffer := None\<rparr>" by (simp add: flush_def m 0)
      moreover have "recorded h n c s (e2\<lparr>en_buffer := None\<rparr>)"
        using d(2) kept by (simp add: recorded_def found_def)
      ultimately show ?thesis using new(1) by (auto simp: out)
    next
      case (Suc k)
      let ?e3 = "e2\<lparr>en_buffer := None\<rparr>"
      have "storable n c t" using storable_restored d(1,2) by (auto simp: recorded_def)
      then have "storable n c (en_state ?e3)"
        using st(1) storable_later [of n c t "en_state e2"] by (auto simp: staying_def d(4) storable_def)
      moreover have "found h c ?e3" "c \<noteq> 0"
        "list_all (\<lambda>r. xr_execution_id r = n \<longrightarrow> xr_catalog_id r = c) (en_executions ?e3)"
        using d(2) kept by (simp_all add: recorded_def found_def)
      ultimately obtain e4 where e4: "save_state h ?e3 = (Inr (), e4)" "recorded h n c (en_state ?e3) e4"
        "en_events e4 = en_events ?e3" using save_records [of n c ?e3 h] by auto
      have "flush h e2 = e4" by (simp add: flush_def m Suc e4(1))
      then show ?thesis using e4(2,3) new kept(4) same by (auto simp: out)
    qed
  next
    case True
    from dispatch_completed [OF d(2), of w p ev] d(1,4-6) True have
      l: "late n ev p e1 e2" "en_buffer e2 = Some 0" "recorded h n c s e2" by auto
    have "\<exists>new. en_events e2 = en_events e1 @ new \<and> ends new = 0"
      using l(1) name by (auto simp: late_def logged_late_def)
    moreover have "flush h e2 = e2\<lparr>en_buffer := None\<rparr>" by (simp add: flush_def l(2))
    moreover have "recorded h n c s (e2\<lparr>en_buffer := None\<rparr>)" using l(3) by (simp add: recorded_def found_def)
    ultimately show ?thesis by (auto simp: out d(3))
  qed
qed

section \<open>Handling events\<close>

text \<open>The events of an execution, each with whether a connection is given and whether it is persisted already.\<close>

definition handle_all :: "host \<Rightarrow> (bool \<times> bool \<times> engine_event) list \<Rightarrow> engine \<Rightarrow> engine" where
  "handle_all h evs e = foldl (\<lambda>e (w, p, ev). snd (handle_event h w p ev e)) e evs"

definition of_execution :: "int \<Rightarrow> bool \<times> bool \<times> engine_event \<Rightarrow> bool" where
  "of_execution n d \<longleftrightarrow>
     (case d of (w, p, ev) \<Rightarrow> py_int (ev_execution_id ev) = Inr n \<and> ev_name ev \<notin> set ending_types)"

lemma handled_all:
  assumes "recorded h n c s e" and "list_all (of_execution n) evs"
  shows "\<exists>new s'. en_events (handle_all h evs e) = en_events e @ new \<and> recorded h n c s' (handle_all h evs e)
    \<and> ends new + running s' \<le> running s"
  using assms
proof (induction evs arbitrary: e s)
  case Nil
  then show ?case by (auto simp: handle_all_def)
next
  case (Cons d evs)
  obtain w p ev where d: "d = (w, p, ev)" by (metis surj_pair)
  with Cons.prems(2) have ev: "py_int (ev_execution_id ev) = Inr n" "ev_name ev \<notin> set ending_types"
    by (simp_all add: of_execution_def)
  let ?e1 = "snd (handle_event h w p ev e)"
  from handled_once [OF Cons.prems(1) ev, of w p] obtain new1 s1 where one: "en_events ?e1 = en_events e @ new1"
    "recorded h n c s1 ?e1" "ends new1 + running s1 \<le> running s" by blast
  from Cons.IH [OF one(2)] Cons.prems(2) obtain new2 s2 where two:
    "en_events (handle_all h evs ?e1) = en_events ?e1 @ new2" "recorded h n c s2 (handle_all h evs ?e1)"
    "ends new2 + running s2 \<le> running s1" by auto
  have "handle_all h (d # evs) e = handle_all h evs ?e1" by (simp add: handle_all_def d)
  with one two show ?case by (intro exI [of _ "new1 @ new2"] exI [of _ s2]) simp
qed

text \<open>
  C1. Whatever events of an execution are handled, in whatever order and however often, and whether
  their handlers return or raise: the log only grows, and together they write at most one end of the
  workflow, none when the execution had ended before. The state stays on record throughout.
\<close>
theorem workflow_ends_at_most_once:
  assumes "recorded h n c s e" and "list_all (of_execution n) evs"
  shows "\<exists>new s'. en_events (handle_all h evs e) = en_events e @ new \<and> recorded h n c s' (handle_all h evs e)
    \<and> ends new \<le> (if es_completed s then 0 else 1)"
proof -
  from handled_all [OF assms] obtain new s' where "en_events (handle_all h evs e) = en_events e @ new"
    "recorded h n c s' (handle_all h evs e)" "ends new + running s' \<le> running s" by blast
  moreover from this have "ends new \<le> (if es_completed s then 0 else 1)" by (simp add: running_def split: if_splits)
  ultimately show ?thesis by blast
qed

text \<open>
  C2. An execution that has ended stays as it is: handling any event of it returns no commands,
  writes at most the event itself to the log, no command, and leaves the state in its row, with the
  row's status and end.
\<close>
theorem ended_execution_is_inert:
  assumes rec: "recorded h n c s e" and "es_completed s" and x: "py_int (ev_execution_id ev) = Inr n"
  shows "\<exists>e'. handle_event h w p ev e = (Inr [], e') \<and> late n ev p e e' \<and> recorded h n c s e'"
proof -
  obtain t e1 e2 where d: "restores s t" "recorded h n c s e1" "en_events e1 = en_events e" "en_state e1 = t"
    "en_commands e1 = en_commands e" "en_executions e1 = en_executions e"
    "en_buffer e1 = Some 0" "dispatch_event h w p ev e1 = (fst (handle_event h w p ev e), e2)"
    and out: "snd (handle_event h w p ev e) = flush h e2"
    by (rule handle_event_steps [OF rec x, of w p]) blast
  have "es_completed (en_state e1)" using d(1,4) assms(2) by (simp add: restores_def)
  from dispatch_completed [OF d(2) _ this, of w p ev] d(1,4,7,8) have
    l: "fst (handle_event h w p ev e) = Inr []" "late n ev p e1 e2" "en_buffer e2 = Some 0" "recorded h n c s e2" by auto
  have "flush h e2 = e2\<lparr>en_buffer := None\<rparr>" by (simp add: flush_def l(3))
  moreover have "recorded h n c s (e2\<lparr>en_buffer := None\<rparr>)" using l(4) by (simp add: recorded_def found_def)
  moreover have "late n ev p e (e2\<lparr>en_buffer := None\<rparr>)" using l(2) by (simp add: late_def d(3,5,6))
  ultimately show ?thesis using l(1) out by (metis prod.collapse)
qed

text \<open>
  C4. The result of a call that arrives again is ignored: when the event is persisted already and is
  not the first of its command in the log, the handler returns no commands and neither logs nor
  saves anything.
\<close>
theorem duplicate_result_ignored:
  assumes rec: "recorded h n c s e" and x: "py_int (ev_execution_id ev) = Inr n"
    and name: "ev_name ev \<in> {''call.done'', ''call.error''}" and dup: "is_duplicate ev e" and run: "\<not> es_completed s"
  shows "\<exists>e'. handle_event h w True ev e = (Inr [], e') \<and> en_events e' = en_events e
    \<and> en_commands e' = en_commands e \<and> en_executions e' = en_executions e"
proof -
  obtain t e1 e2 where d: "restores s t" "recorded h n c s e1" "en_events e1 = en_events e" "en_state e1 = t"
    "en_commands e1 = en_commands e" "en_executions e1 = en_executions e"
    "en_buffer e1 = Some 0" "dispatch_event h w True ev e1 = (fst (handle_event h w True ev e), e2)"
    and out: "snd (handle_event h w True ev e) = flush h e2"
    by (rule handle_event_steps [OF rec x, of w True]) blast
  have counts: "count_persisted_command_events i t k e1 = count_persisted_command_events i t k e"
    "is_first_persisted_command_event i t k j e1 = is_first_persisted_command_event i t k j e" for i t k j
    by (simp_all add: count_persisted_command_events_def is_first_persisted_command_event_def d(3))
  have "is_duplicate ev e1 = is_duplicate ev e" unfolding is_duplicate_def counts ..
  moreover have "\<not> es_completed t" using d(1) run by (simp add: restores_def)
  ultimately have "dispatch_event h w True ev e1 = (Inr [], e1)"
    using dup name by (auto simp: dispatch_event_def andthen_def reading_def Let_def d(4) ret_def)
  with d(7,8) out have "fst (handle_event h w True ev e) = Inr []" "snd (handle_event h w True ev e) = e1\<lparr>en_buffer := None\<rparr>"
    by (simp_all add: flush_def)
  then show ?thesis using d(3,5,6) by (intro exI [of _ "e1\<lparr>en_buffer := None\<rparr>"]) (simp add: prod_eq_iff)
qed

section \<open>Completion\<close>

lemma cascade_logs:
  assumes cat: "truthy (es_catalog_id (en_state e))"
  shows "\<exists>e' rs. persist_cascade_events h w evs e = (Inr (), e') \<and> en_events e' = en_events e @ rs
    \<and> map we_event_type rs = map ev_name evs \<and> writes (endings evs) e e'"
proof -
  have row: "\<exists>e' r. persist_event h ev e = (Inr (), e') \<and> en_events e' = en_events e @ [r] \<and> we_event_type r = ev_name ev
      \<and> es_catalog_id (en_state e') = es_catalog_id (en_state e)" if "truthy (es_catalog_id (en_state e))" for ev e
    using that by (simp add: persist_event_def changing_def Let_def catalog_of_def event_row_of_def note_event_def
        split: option.split)
  have "\<exists>us e' rs. each (persist_event h) evs e = (Inr us, e') \<and> en_events e' = en_events e @ rs
      \<and> map we_event_type rs = map ev_name evs" using cat
  proof (induction evs arbitrary: e)
    case (Cons ev evs)
    from row [OF Cons.prems] obtain e1 r where r: "persist_event h ev e = (Inr (), e1)" "en_events e1 = en_events e @ [r]"
      "we_event_type r = ev_name ev" "es_catalog_id (en_state e1) = es_catalog_id (en_state e)" by metis
    from Cons.IH [of e1] Cons.prems r(4) obtain us e' rs where "each (persist_event h) evs e1 = (Inr us, e')"
      "en_events e' = en_events e1 @ rs" "map we_event_type rs = map ev_name evs" by auto
    then show ?case using r(1-3) by (intro exI [of _ "() # us"] exI [of _ e'] exI [of _ "r # rs"])
        (simp add: andthen_def ret_def)
  qed (simp add: ret_def)
  moreover have "map we_event_type (batch_rows s c rows ids p n evs) = map ev_name evs" for s c rows ids p n
    by (induction evs arbitrary: p n) (simp_all add: event_row_of_def Let_def)
  moreover have "catalog_of (es_catalog_id (en_state e)) ev (en_events e) = es_catalog_id (en_state e)" for ev
    using cat by (simp add: catalog_of_def)
  ultimately have "\<exists>e' rs. persist_cascade_events h w evs e = (Inr (), e') \<and> en_events e' = en_events e @ rs
      \<and> map we_event_type rs = map ev_name evs"
    using cat by (auto simp: persist_cascade_events_def persist_batch_def changing_def Let_def andthen_def ret_def)
  then obtain e' rs where l: "persist_cascade_events h w evs e = (Inr (), e')" "en_events e' = en_events e @ rs"
      "map we_event_type rs = map ev_name evs" by blast
  with writes_cascade [of evs e h w] show ?thesis by (intro exI [of _ e'] exI [of _ rs]) simp
qed

text \<open>When a terminal step has come to its end.\<close>

definition all_done :: "engine_event \<Rightarrow> engine \<Rightarrow> bool" where
  "all_done ev e \<longleftrightarrow>
     \<not> pending_in_memory (en_state e) \<and> es_issued_steps (en_state e) \<noteq> []
     \<and> count_durable_pending_commands (ev_execution_id ev) (trigger_command ev) e = Inr 0"

definition outcome :: "engine_event \<Rightarrow> exec_state \<Rightarrow> string" where
  "outcome ev s = (if es_failed s \<or> has_error ev then ''failed'' else ''completed'')"

lemma nothing_pending: "is_trigger ev \<Longrightarrow> all_done ev e \<Longrightarrow> has_pending h ev e = (Inr False, e)"
  unfolding has_pending_def andthen_state_of
  by (simp add: all_done_def andthen_def ret_def reading_def pure_def)

lemma saves_on: "numbered (en_state e) \<Longrightarrow> en_buffer e = Some (Suc m) \<Longrightarrow>
  \<exists>e' k. issue_commands h ev [] e = (Inr [], e') \<and> en_events e' = en_events e \<and> en_state e' = en_state e
    \<and> en_buffer e' = Some (Suc k)"
  by (auto simp: issue_commands_def andthen_def changing_state_def changing_def note_issued_def save_periodically_def
      state_of_def reading_def pure_def numbered_def py_or_def attempt_def save_state_def ret_def)

lemma own_event_logged:
  assumes cat: "truthy (es_catalog_id (en_state e))"
  shows "\<exists>e' own. persist_unless h p ev e = (Inr (), e') \<and> en_events e' = en_events e @ own
      \<and> map we_event_type own = (if p then [] else [ev_name ev]) \<and> writes 1 e e'
      \<and> es_failed (en_state e') = es_failed (en_state e)"
proof (cases p)
  case True
  then show ?thesis by (intro exI [of _ e] exI [of _ "[]"]) (simp add: persist_unless_def ret_def)
next
  case False
  from cascade_logs [OF cat, of h False "[ev]"] obtain e' rs where
    e': "persist_cascade_events h False [ev] e = (Inr (), e')" "en_events e' = en_events e @ rs"
    "map we_event_type rs = [ev_name ev]" "writes (endings [ev]) e e'" by auto
  have ev: "persist_event h ev e = (Inr (), e')" using e'(1)
    by (auto simp: persist_cascade_events_def andthen_def ret_def split: prod.splits sum.splits)
  moreover have "writes 1 e e'" using e'(4) by (auto simp: writes_def endings_def split: if_splits)
  moreover have "es_failed (en_state e') = es_failed (en_state e)" using ev
    by (auto simp: persist_event_def changing_def Let_def note_event_def split: option.splits if_splits)
  ultimately show ?thesis using e'(2,3) False by (intro exI [of _ e'] exI [of _ rs]) (simp add: persist_unless_def)
qed

definition plain_error :: "engine_event \<Rightarrow> bool" where
  "plain_error ev \<longleftrightarrow>
     (case py_get (payload_of ev) ''error'' of
        VNone \<Rightarrow> True | VStr _ \<Rightarrow> True | VDict _ \<Rightarrow> True | _ \<Rightarrow> False)"

lemma ending_events_named:
  assumes "playbook_step (es_playbook (en_state e)) = Inr path" and "plain_error ev"
  shows "\<exists>ev1 ev2 t. ending_events h ev st (event_step ev) (py_get (payload_of ev) ''error'') e
      = (Inr [ev1, ev2], e\<lparr>en_ticks := t\<rparr>) \<and> ev_name ev1 = ''workflow.'' @ st \<and> ev_name ev2 = ''playbook.'' @ st"
proof -
  obtain d where "ending_payload st (event_step ev) (py_get (payload_of ev) ''result'') (py_get (payload_of ev) ''error'') = Inr d"
    using assms(2) by (auto simp: ending_payload_def plain_error_def split: pyval.splits)
  then show ?thesis using assms(1)
    by (simp add: ending_events_def andthen_def state_of_def reading_def pure_def clock_def ret_def lifecycle_event_def) blast
qed

definition ended_with :: "string list \<Rightarrow> string \<Rightarrow> engine \<Rightarrow> engine \<Rightarrow> bool" where
  "ended_with own st e e' \<longleftrightarrow>
     es_completed (en_state e') \<and> (\<exists>k. en_buffer e' = Some (Suc k))
     \<and> (\<exists>rs. en_events e' = en_events e @ rs \<and> map we_event_type rs = own @ [''workflow.'' @ st, ''playbook.'' @ st])"

lemma end_execution_effect:
  assumes path: "playbook_step (es_playbook (en_state e)) = Inr path" and error: "plain_error ev"
    and cat: "truthy (es_catalog_id (en_state e))" and num: "numbered (en_state e)" and buf: "en_buffer e = Some b"
  shows "\<exists>e'. end_execution h w p ev e = (Inr (), e') \<and> numbered (en_state e')
    \<and> ended_with (if p then [] else [ev_name ev]) (outcome ev (en_state e)) e e'"
proof -
  let ?s = "en_state e" and ?e1 = "e\<lparr>en_state := mark_ended (en_state e)\<rparr>" and ?st = "outcome ev (en_state e)"
  have "truthy (es_catalog_id (en_state ?e1))" using cat by (simp add: mark_ended_def)
  from own_event_logged [OF this, of h p ev] obtain e2 own where
    e2: "persist_unless h p ev ?e1 = (Inr (), e2)" "en_events e2 = en_events e @ own"
    "map we_event_type own = (if p then [] else [ev_name ev])" "writes 1 ?e1 e2" "es_failed (en_state e2) = es_failed ?s"
    by (auto simp: mark_ended_def)
  have pb: "es_playbook (en_state e2) = es_playbook ?s" "es_catalog_id (en_state e2) = es_catalog_id ?s"
    using e2(4) by (simp_all add: writes_def same_identity_def mark_ended_def)
  from path have "playbook_step (es_playbook (en_state e2)) = Inr path" by (simp add: pb(1))
  from ending_events_named [OF this error, of h ?st] obtain ev1 ev2 t where
    evs: "ending_events h ev ?st (event_step ev) (py_get (payload_of ev) ''error'') e2 = (Inr [ev1, ev2], e2\<lparr>en_ticks := t\<rparr>)"
    "ev_name ev1 = ''workflow.'' @ ?st" "ev_name ev2 = ''playbook.'' @ ?st" by blast
  let ?e4 = "e2\<lparr>en_ticks := t, en_buffer := Some (Suc b)\<rparr>"
  have save: "save_state h (e2\<lparr>en_ticks := t\<rparr>) = (Inr (), ?e4)"
    using e2(4) buf by (simp add: save_state_def andthen_def reading_def changing_def writes_def)
  have "truthy (es_catalog_id (en_state ?e4))" using cat by (simp add: pb(2))
  from cascade_logs [OF this, of h w "[ev1, ev2]"] obtain e5 rs where
    e5: "persist_cascade_events h w [ev1, ev2] ?e4 = (Inr (), e5)" "en_events e5 = en_events ?e4 @ rs"
      "map we_event_type rs = [ev_name ev1, ev_name ev2]" "writes (endings [ev1, ev2]) ?e4 e5" by auto
  have "end_execution h w p ev e = (Inr (), e5)"
    by (simp add: end_execution_def andthen_def changing_state_def changing_def e2(1,5) state_of_def reading_def
        evs(1) [unfolded outcome_def] save e5(1))
  moreover have "es_completed (en_state e5)" "numbered (en_state e5)" "en_buffer e5 = Some (Suc b)"
  proof -
    have "numbered (en_state ?e1)" using num by (simp add: mark_ended_def numbered_def)
    then show "numbered (en_state e5)" using e5(4) e2(4) by (simp add: writes_def)
    show "es_completed (en_state e5)" "en_buffer e5 = Some (Suc b)"
      using e5(4) e2(4) by (simp_all add: writes_def mark_ended_def)
  qed
  ultimately show ?thesis using e5(2,3) e2(2,3) evs(2,3)
    by (intro exI [of _ e5]) (simp add: ended_with_def exI [of _ "own @ rs"])
qed

text \<open>
  C3. A terminal step ends the execution: when a call of it has ended or the step has exited, no
  commands were issued for it and none are pending, then the execution is marked as completed, its
  end is saved, and the log gets the event, when it is not there yet, followed by the end of the
  workflow and the end of the playbook, which failed when the state did or the event has an error.
\<close>
theorem terminal_step_completes:
  assumes step: "st_next step = None" "is_trigger ev" and run: "\<not> es_completed (en_state e)" and idle: "all_done ev e"
    and "playbook_step (es_playbook (en_state e)) = Inr path" and "plain_error ev"
    and "truthy (es_catalog_id (en_state e))" and "numbered (en_state e)" and "en_buffer e = Some b"
  shows "\<exists>e'. conclude h w p step ev cx vd [] e = (Inr [], e')
    \<and> ended_with (if p then [] else [ev_name ev]) (outcome ev (en_state e)) e e'"
proof -
  from end_execution_effect [OF assms(5-9), of h w p] obtain e1 where
    e1: "end_execution h w p ev e = (Inr (), e1)" "numbered (en_state e1)"
      "ended_with (if p then [] else [ev_name ev]) (outcome ev (en_state e)) e e1" by blast
  then obtain m where "en_buffer e1 = Some (Suc m)" by (auto simp: ended_with_def)
  from saves_on [OF e1(2) this, of h ev] obtain e2 k where
    e2: "issue_commands h ev [] e1 = (Inr [], e2)" "en_events e2 = en_events e1" "en_state e2 = en_state e1"
      "en_buffer e2 = Some (Suc k)" by blast
  have "completes (h_renderer h) step ev cx vd False [] (en_state e)" using step run by (simp add: completes_def)
  then have "conclude h w p step ev cx vd [] e = (Inr [], e2)"
    unfolding conclude_def using nothing_pending [OF step(2) idle, of h]
    by (simp add: andthen_def state_of_def reading_def e1(1) e2(1))
  then show ?thesis using e1(3) e2(2-4) by (simp add: ended_with_def)
qed

section \<open>What the handler loses\<close>

text \<open>
  A task sequence never ends the execution: its handler has no check for completion, and the exit of
  a task sequence is dropped.
\<close>

lemma sequence_never_completes:
  assumes "handle_task_sequence h p ev e = (r, e')" and "ev_name ev \<notin> set ending_types"
  shows "es_completed (en_state e') = es_completed (en_state e)"
  using framed_stateD [OF unended.framed_sequence [OF assms(2)] assms(1)] .

lemma sequence_exit_dropped:
  assumes "\<not> es_completed (en_state e)" and "endswith (event_step ev) task_sequence_suffix"
    and "ev_name ev = ''step.exit''" and "event_step ev \<noteq> []"
  shows "dispatch_event h w p ev e = (Inr [], e)"
  using assms by (simp add: dispatch_event_def andthen_def reading_def Let_def is_inline_task_def ret_def)

text \<open>
  The mark of an inline task that has exited is not saved while other steps are pending, so the
  transitions that wait for several inline tasks find none of the earlier ones completed.
\<close>

lemma inline_exit_not_saved:
  assumes "ev_name ev = ''step.exit''" and none: "deferred_of (complete_step (event_step ev) (en_state e)) (event_step ev) = Inr None"
    and "\<not> set (es_issued_steps (en_state e)) \<subseteq> set (add_step (event_step ev) (es_completed_steps (en_state e)))"
  shows "handle_inline_task h w True ev e = (Inr [], e\<lparr>en_state := complete_step (event_step ev) (en_state e)\<rparr>)"
proof -
  let ?e1 = "e\<lparr>en_state := complete_step (event_step ev) (en_state e)\<rparr>"
  have "process_deferred_next_actions h (event_step ev) ev ?e1 = (Inr [], ?e1)"
    unfolding process_deferred_next_actions_def andthen_state_of using none by (simp add: andthen_def pure_def ret_def)
  moreover have "finish_inline h w ev ?e1 = (Inr (), ?e1)"
    unfolding finish_inline_def andthen_state_of using assms(3) by (auto simp: complete_step_def ret_def)
  ultimately show ?thesis using assms(1)
    by (simp add: handle_inline_task_def persist_unless_def andthen_def ret_def changing_state_def changing_def)
qed

text \<open>An inline task that comes last completes the workflow, whether the execution has failed or not.\<close>

lemma inline_end_ignores_failure:
  assumes "ending_events h ev ''completed'' st VNone e = (Inr evs, e')"
  shows "map ev_name evs = [''workflow.completed'', ''playbook.completed'']"
  using assms
  by (auto simp: ending_events_def andthen_def state_of_def reading_def pure_def raises_def clock_def ret_def
      lifecycle_event_def ending_payload_def split: sum.splits)

text \<open>Without issued steps and without an answer of the supervisor the handler reads a column that is not there.\<close>

lemma unanswered_pending_raises:
  assumes "fst (cached h (\<lambda>_. get_pending_command_count (py_str (ev_execution_id ev))) e) = Inr VNone"
    and "es_issued_steps (en_state e) = []"
  shows "fst (has_pending h ev e) = Inl (RuntimeError ''column pending_count does not exist'')"
proof -
  have "\<not> pending_in_memory (en_state e)" by (simp add: pending_in_memory_def assms(2))
  moreover obtain e1 where "cached h (\<lambda>_. get_pending_command_count (py_str (ev_execution_id ev))) e = (Inr VNone, e1)"
    using assms(1) by (metis prod.collapse)
  ultimately show ?thesis unfolding has_pending_def andthen_state_of
    by (simp add: assms(2) supervised_pending_def andthen_def attempt_def raises_def)
qed

section \<open>Samples\<close>

definition event_host :: host where
  "event_host = sample_host\<lparr>h_yaml := (\<lambda>_. Some (VDict [(''apiVersion'', VStr ''noetl.io/v2'')])),
     h_playbook := (\<lambda>_. Some sample_playbook)\<rparr>"

definition event_state :: exec_state where
  "event_state = (en_state sample_engine)\<lparr>es_issued_steps := [''b''], es_completed_steps := [''b'']\<rparr>"

definition recorded_engine :: "exec_state \<Rightarrow> engine" where
  "recorded_engine s = sample_engine\<lparr>en_state := s,
     en_catalog := [\<lparr>ct_catalog_id = 3, ct_path = ''p'', ct_content = ''c''\<rparr>],
     en_executions := [first_saved 0 7 3 None (saved_status s) 0 (VDict (state_to_dict s))]\<rparr>"

lemma event_state_recorded:
  assumes "s \<in> {event_state, event_state\<lparr>es_completed := True\<rparr>}"
  shows "recorded event_host 7 3 s (recorded_engine s)"
proof -
  have "py_int (VStr ''7'') = Inr 7" by code_simp
  then have "storable 7 3 s" using assms
    by (auto simp: storable_def event_state_def sample_engine_def new_execution_state_def opt_int_def numbered_def)
  moreover have "found event_host 3 (recorded_engine s)"
    by (simp add: found_def recorded_engine_def sample_engine_def event_host_def parse_playbook_def new_bounded_cache_def
        py_get_def)
  ultimately show ?thesis
    by (simp add: recorded_def recorded_engine_def row_of_def first_saved_def)
qed

definition call_ended :: "int \<Rightarrow> engine_event" where
  "call_ended i = (sample_event ''call.done'' ''b'' 1)\<lparr>ev_meta := [(''command_id'', VStr ''9''), (''persisted_event_id'', VInt i)]\<rparr>"

lemma events_of_7: "list_all (of_execution 7) [(False, False, call_ended 1), (True, True, call_ended 1), (True, True, sample_event ''step.exit'' ''b'' 2)]"
proof -
  have "py_int (VStr ''7'') = Inr 7" by code_simp
  then show ?thesis by (simp add: of_execution_def call_ended_def sample_event_def ending_types_def)
qed

theorem workflow_ends_at_most_once_witness:
  "let e = recorded_engine event_state;
       evs = [(False, False, call_ended 1), (True, True, call_ended 1), (True, True, sample_event ''step.exit'' ''b'' 2)] in
   \<exists>new s'. en_events (handle_all event_host evs e) = en_events e @ new
     \<and> recorded event_host 7 3 s' (handle_all event_host evs e) \<and> ends new \<le> 1"
  using workflow_ends_at_most_once [OF event_state_recorded events_of_7, of event_state]
  by (simp add: Let_def event_state_def sample_engine_def new_execution_state_def)

theorem ended_execution_is_inert_witness:
  "let s = event_state\<lparr>es_completed := True\<rparr>; e = recorded_engine s in
   \<exists>e'. handle_event event_host False False (call_ended 1) e = (Inr [], e') \<and> late 7 (call_ended 1) False e e'
     \<and> recorded event_host 7 3 s e'"
proof -
  have x: "py_int (ev_execution_id (call_ended 1)) = Inr 7" by code_simp
  show ?thesis
    using ended_execution_is_inert [OF event_state_recorded _ x, of "event_state\<lparr>es_completed := True\<rparr>" False False]
    by (simp add: Let_def)
qed

text \<open>The log holds the result twice; the event is its second row.\<close>

definition twice_logged :: engine where
  "twice_logged = (recorded_engine event_state)\<lparr>en_events :=
     en_events (snd (each (persist_event event_host) [call_ended 1, call_ended 1] sample_engine))\<rparr>"

theorem duplicate_result_ignored_witness:
  "\<exists>e'. handle_event event_host False True (call_ended 101) twice_logged = (Inr [], e')
     \<and> en_events e' = en_events twice_logged \<and> en_commands e' = en_commands twice_logged
     \<and> en_executions e' = en_executions twice_logged"
proof -
  have x: "py_int (ev_execution_id (call_ended 101)) = Inr 7" by code_simp
  have "recorded event_host 7 3 event_state twice_logged"
    using event_state_recorded [of event_state] by (simp add: twice_logged_def recorded_def found_def)
  moreover have "ev_name (call_ended 101) \<in> {''call.done'', ''call.error''}" by (simp add: call_ended_def sample_event_def)
  moreover have "is_duplicate (call_ended 101) twice_logged" by code_simp
  moreover have "\<not> es_completed event_state" by code_simp
  ultimately show ?thesis using x by (intro duplicate_result_ignored)
qed

definition last_step :: step_decl where
  "last_step = (hd (pb_workflow sample_playbook))\<lparr>st_next := None\<rparr>"

theorem terminal_step_completes_witness:
  "let e = (recorded_engine event_state)\<lparr>en_buffer := Some 0\<rparr>; vd = \<lparr>vd_matched = Some False, vd_raised = False, vd_looping = False\<rparr> in
   \<exists>e'. conclude event_host True False last_step (call_ended 1) [] vd [] e = (Inr [], e')
     \<and> ended_with [''call.done''] ''completed'' e e'"
proof -
  let ?e = "(recorded_engine event_state)\<lparr>en_buffer := Some 0\<rparr>"
  have s: "en_state ?e = event_state" by (simp add: recorded_engine_def)
  have "playbook_step (es_playbook event_state) = Inr ''playbook''" "plain_error (call_ended 1)" "truthy (es_catalog_id event_state)"
    "es_last_event_id event_state = VNone" "\<not> es_completed event_state" "is_trigger (call_ended 1)" "st_next last_step = None"
    "outcome (call_ended 1) event_state = ''completed''" "ev_name (call_ended 1) = ''call.done''" by code_simp+
  note facts = this
  have "all_done (call_ended 1) ?e" by code_simp
  from terminal_step_completes [OF facts(7,6) _ this, of "''playbook''" 0 event_host True False "[]"
      "\<lparr>vd_matched = Some False, vd_raised = False, vd_looping = False\<rparr>"]
  show ?thesis using facts(1-5,8,9) by (simp add: Let_def s numbered_def)
qed

end
