(* ===== verification/Topology.thy ===== *)
theory Topology
  imports Resource_Locator
begin

text \<open>
  Worker identity and placement (\<^verbatim>\<open>noetl/core/runtime/topology.py\<close>): the locality a worker reads
  from its environment, the locator that names a worker (\<open>worker_locator\<close>) with its parser, and the
  distance between two localities. A locality is a dictionary of any values; the environment is a
  dictionary of texts. Lemmas: the parser reads back every locator the builder makes, and distances
  are symmetric and nested.
\<close>

definition locality_distances :: "string list" where
  "locality_distances = [''node'', ''zone'', ''region'', ''cluster'', ''any'']"

record worker_locator_parts =
  wl_tenant_id :: string
  wl_organization_id :: string
  wl_worker_pool :: string
  wl_cluster_id :: "string option"
  wl_node_id :: "string option"
  wl_region :: "string option"
  wl_zone :: "string option"

definition optional_field :: "string \<Rightarrow> string option \<Rightarrow> (string \<times> string) list" where
  "optional_field k v = (case v of None \<Rightarrow> [] | Some s \<Rightarrow> if s = [] then [] else [(k, s)])"

definition as_locality :: "worker_locator_parts \<Rightarrow> (string \<times> string) list" where
  "as_locality p =
     (''worker_pool'', wl_worker_pool p) # optional_field ''region'' (wl_region p)
       @ optional_field ''zone'' (wl_zone p) @ optional_field ''cluster_id'' (wl_cluster_id p)
       @ optional_field ''node_id'' (wl_node_id p)"

text \<open>
  \<open>env.get(a) or env.get(b) or default\<close>: the first name with a text that is not empty. An empty
  environment counts as not given, and \<open>environ\<close> (\<open>os.environ\<close>) is read.
\<close>

fun first_set :: "(string \<times> string) list \<Rightarrow> string list \<Rightarrow> string \<Rightarrow> string" where
  "first_set env [] dflt = dflt"
| "first_set env (k # ks) dflt =
     (case map_of env k of
        Some (c # v) \<Rightarrow> c # v
      | _ \<Rightarrow> first_set env ks dflt)"

definition worker_locality_from_env ::
    "(string \<times> string) list \<Rightarrow> (string \<times> string) list \<Rightarrow> (string \<times> string) list" where
  "worker_locality_from_env environ env0 =
     (let env = (if env0 = [] then environ else env0) in
      filter (\<lambda>(k, v). v \<noteq> [])
        [(''node_id'', first_set env [''NOETL_NODE_ID'', ''NODE_NAME''] []),
         (''cluster_id'', first_set env [''NOETL_CLUSTER_ID'', ''NOETL_CLUSTER_NAME''] []),
         (''region'', first_set env [''NOETL_REGION''] []),
         (''zone'', first_set env [''NOETL_ZONE''] []),
         (''worker_pool'', first_set env [''NOETL_WORKER_POOL_NAME''] ''worker-cpu-01''),
         (''runtime'', first_set env [''NOETL_WORKER_POOL_RUNTIME''] ''cpu'')])"

section \<open>Worker locators\<close>

definition locality_segment :: "string \<Rightarrow> pyval \<Rightarrow> pyval list" where
  "locality_segment key v = (if truthy v then [VStr key, v] else [])"

definition worker_locator :: "pyval \<Rightarrow> pyval \<Rightarrow> string \<Rightarrow> pydict \<Rightarrow> string option" where
  "worker_locator tenant_id organization_id worker_id loc =
     (let segments =
            [VStr ''tenant'', py_or tenant_id (VStr ''default''),
             VStr ''org'', py_or organization_id (VStr ''default'')]
            @ locality_segment ''region'' (py_get loc ''region'')
            @ locality_segment ''zone'' (py_get loc ''zone'')
            @ locality_segment ''cluster'' (py_get loc ''cluster_id'')
            @ locality_segment ''node'' (py_get loc ''node_id'')
            @ [VStr ''worker'', py_or (py_get loc ''worker_pool'') (VStr worker_id)]
      in case build_locator segments of Inl e \<Rightarrow> None | Inr t \<Rightarrow> Some t)"

definition worker_segments :: "string list" where
  "worker_segments = [''tenant'', ''org'', ''region'', ''zone'', ''cluster'', ''node'', ''worker'']"

definition parse_worker_locator :: "(string \<Rightarrow> bool) \<Rightarrow> string \<Rightarrow> worker_locator_parts res" where
  "parse_worker_locator host_ok v =
     rbind (parse_locator host_ok v) (\<lambda>loc.
     if kind loc \<noteq> ''tenant'' then Inl (ValueError ''worker locator must start with tenant'')
     else case pairs loc of
       Inl e \<Rightarrow> Inl (ValueError ''worker locator must use alternating key/value segments'')
     | Inr parts \<Rightarrow>
         (if \<not> list_all (\<lambda>k. k \<in> set worker_segments) (map fst parts)
          then Inl (ValueError ''worker locator contains unknown segments'')
          else if \<not> list_all (\<lambda>k. map_of parts k \<noteq> None \<and> map_of parts k \<noteq> Some [])
                     [''tenant'', ''org'', ''worker'']
          then Inl (ValueError ''worker locator missing required segments'')
          else Inr \<lparr>wl_tenant_id = the (map_of parts ''tenant''),
                    wl_organization_id = the (map_of parts ''org''),
                    wl_worker_pool = the (map_of parts ''worker''),
                    wl_cluster_id = map_of parts ''cluster'', wl_node_id = map_of parts ''node'',
                    wl_region = map_of parts ''region'', wl_zone = map_of parts ''zone''\<rparr>))"

section \<open>Distances\<close>

definition same_non_empty :: "pydict \<Rightarrow> pydict \<Rightarrow> string \<Rightarrow> bool" where
  "same_non_empty source target key =
     (let s = strip (py_str (py_or (py_get source key) (VStr [])));
          t = strip (py_str (py_or (py_get target key) (VStr [])))
      in s \<noteq> [] \<and> t \<noteq> [] \<and> s = t)"

definition locality_distance :: "pydict \<Rightarrow> pydict \<Rightarrow> string" where
  "locality_distance source target =
     (if same_non_empty source target ''node_id'' then ''node''
      else if same_non_empty source target ''zone'' then ''zone''
      else if same_non_empty source target ''region'' then ''region''
      else if same_non_empty source target ''cluster_id'' then ''cluster''
      else ''any'')"

text \<open>\<open>xs.index(x)\<close>, with no position where Python raises \<open>ValueError\<close>.\<close>

fun position :: "'a list \<Rightarrow> 'a \<Rightarrow> nat option" where
  "position [] x = None"
| "position (y # ys) x = (if y = x then Some 0 else map_option Suc (position ys x))"

definition locality_within :: "pydict \<Rightarrow> pydict \<Rightarrow> string \<Rightarrow> bool" where
  "locality_within source target max_distance =
     (case position locality_distances (locality_distance source target) of
        None \<Rightarrow> False
      | Some d \<Rightarrow>
          (case position locality_distances max_distance of None \<Rightarrow> False | Some m \<Rightarrow> d \<le> m))"

definition placement_evaluation :: "pydict \<Rightarrow> pydict \<Rightarrow> string \<Rightarrow> pydict" where
  "placement_evaluation source target max_distance =
     [(''distance'', VStr (locality_distance source target)),
      (''max_distance'', VStr max_distance),
      (''within_max_distance'', VBool (locality_within source target max_distance))]"

section \<open>What the distances promise\<close>

lemma same_non_empty_sym: "same_non_empty a b k = same_non_empty b a k"
  by (auto simp: same_non_empty_def Let_def)

lemma locality_distance_sym: "locality_distance a b = locality_distance b a"
  by (simp add: locality_distance_def same_non_empty_sym [of a b])

lemma locality_distance_known: "locality_distance a b \<in> set locality_distances"
  by (simp add: locality_distance_def locality_distances_def)

lemma position_Some: "x \<in> set xs \<Longrightarrow> \<exists>i. position xs x = Some i"
  by (induction xs) auto

text \<open>Every target is within \<open>any\<close>; an unknown bound admits none; a wider bound admits no less.\<close>

lemma within_any: "locality_within a b ''any''"
  by (simp add: locality_within_def locality_distance_def locality_distances_def)

lemma within_unknown: "m \<notin> set locality_distances \<Longrightarrow> \<not> locality_within a b m"
proof -
  assume "m \<notin> set locality_distances"
  then have "position locality_distances m = None"
    by (auto simp: locality_distances_def)
  then show ?thesis by (simp add: locality_within_def split: option.split)
qed

lemma within_mono:
  "locality_within a b m \<Longrightarrow> position locality_distances m = Some i \<Longrightarrow>
   position locality_distances n = Some j \<Longrightarrow> i \<le> j \<Longrightarrow> locality_within a b n"
  by (auto simp: locality_within_def split: option.splits)

lemma within_transfer:
  "locality_within a b m = locality_within b a m"
  by (simp add: locality_within_def locality_distance_sym [of a b])

section \<open>A locator reads back\<close>

definition read_segment :: "pyval \<Rightarrow> string option" where
  "read_segment v = (if truthy v then Some (strip (py_str v)) else None)"

lemma normalize_segment_Inr: "normalize_segment s = Inr t \<Longrightarrow> t = strip s"
  by (auto simp: normalize_segment_def Let_def split: if_splits)

lemma from_segments_Inr: "from_segments ss = Inr l \<Longrightarrow> l = map strip ss"
proof -
  assume "from_segments ss = Inr l"
  then have "rmap normalize_segment ss = Inr l"
    by (auto simp: from_segments_def elim!: rbind_InrE split: if_splits)
  then show ?thesis by (induction ss arbitrary: l) (auto elim!: rbind_InrE dest: normalize_segment_Inr)
qed

lemma build_locator_Inr:
  assumes "build_locator vs = Inr t"
  shows "t = locator_text (map (\<lambda>v. strip (py_str v)) vs) \<and>
    valid_locator (map (\<lambda>v. strip (py_str v)) vs)"
proof -
  obtain l where l: "from_segments (map py_str vs) = Inr l" "t = locator_text l"
    using assms by (auto simp: build_locator_def elim!: rbind_InrE)
  have "l = map (\<lambda>v. strip (py_str v)) vs" using from_segments_Inr [OF l(1)] by simp
  then show ?thesis using l from_segments_valid [OF l(1)] by blast
qed

text \<open>The named fields of a locator, in the order of its segments.\<close>

definition named_field :: "string \<Rightarrow> pyval \<Rightarrow> (string \<times> string) list" where
  "named_field k v = (case read_segment v of None \<Rightarrow> [] | Some s \<Rightarrow> [(k, s)])"

definition worker_fields :: "pyval \<Rightarrow> pyval \<Rightarrow> string \<Rightarrow> pydict \<Rightarrow> (string \<times> string) list" where
  "worker_fields tid oid wid loc =
     [(''tenant'', strip (py_str (py_or tid (VStr ''default'')))),
      (''org'', strip (py_str (py_or oid (VStr ''default''))))]
     @ named_field ''region'' (py_get loc ''region'') @ named_field ''zone'' (py_get loc ''zone'')
     @ named_field ''cluster'' (py_get loc ''cluster_id'') @ named_field ''node'' (py_get loc ''node_id'')
     @ [(''worker'', strip (py_str (py_or (py_get loc ''worker_pool'') (VStr wid))))]"

lemma strip_keys [simp]:
  "strip ''tenant'' = ''tenant''" "strip ''org'' = ''org''" "strip ''region'' = ''region''"
  "strip ''zone'' = ''zone''" "strip ''cluster'' = ''cluster''" "strip ''node'' = ''node''"
  "strip ''worker'' = ''worker''"
  by code_simp+

lemma locality_segment_fields:
  "strip k = k \<Longrightarrow>
   map (\<lambda>v. strip (py_str v)) (locality_segment k v) = concat (map (\<lambda>(k, v). [k, v]) (named_field k v))"
  by (simp add: locality_segment_def named_field_def read_segment_def)

lemma worker_locator_fields:
  assumes "worker_locator tid oid wid loc = Some t"
  defines "ps \<equiv> concat (map (\<lambda>(k, v). [k, v]) (worker_fields tid oid wid loc))"
  shows "t = locator_text ps \<and> valid_locator ps"
proof -
  have "map (\<lambda>v. strip (py_str v))
     ([VStr ''tenant'', py_or tid (VStr ''default''), VStr ''org'', py_or oid (VStr ''default'')]
      @ locality_segment ''region'' (py_get loc ''region'') @ locality_segment ''zone'' (py_get loc ''zone'')
      @ locality_segment ''cluster'' (py_get loc ''cluster_id'')
      @ locality_segment ''node'' (py_get loc ''node_id'')
      @ [VStr ''worker'', py_or (py_get loc ''worker_pool'') (VStr wid)]) = ps"
    unfolding ps_def worker_fields_def by (simp add: locality_segment_fields)
  with assms(1) build_locator_Inr show ?thesis
    by (fastforce simp: worker_locator_def Let_def split: sum.splits)
qed

lemma alternating_values:
  "list_all P (concat (map (\<lambda>(k, v). [k, v]) fs)) \<Longrightarrow> (k, s) \<in> set fs \<Longrightarrow> P s"
  by (induction fs) auto

lemma worker_fields_distinct: "distinct (map fst (worker_fields tid oid wid loc))"
  by (simp add: worker_fields_def named_field_def split: option.split)

text \<open>
  A worker locator names what it was built from: whenever the builder returns a text, the parser
  accepts it and reads back tenant, organization, worker pool and every level of the locality that
  was given, each as its stripped text, and nothing else.
\<close>
lemma worker_locator_roundtrip:
  assumes "worker_locator tid oid wid loc = Some t"
  shows "parse_worker_locator host_ok t = Inr
    \<lparr>wl_tenant_id = strip (py_str (py_or tid (VStr ''default''))),
     wl_organization_id = strip (py_str (py_or oid (VStr ''default''))),
     wl_worker_pool = strip (py_str (py_or (py_get loc ''worker_pool'') (VStr wid))),
     wl_cluster_id = read_segment (py_get loc ''cluster_id''), wl_node_id = read_segment (py_get loc ''node_id''),
     wl_region = read_segment (py_get loc ''region''), wl_zone = read_segment (py_get loc ''zone'')\<rparr>"
proof -
  let ?fs = "worker_fields tid oid wid loc"
  let ?ps = "concat (map (\<lambda>(k, v). [k, v]) ?fs)"
  have t: "t = locator_text ?ps" and v: "valid_locator ?ps"
    using worker_locator_fields [OF assms] by auto
  have p: "parse_locator host_ok t = Inr ?ps" using t parse_locator_text [OF v] by simp
  have pairs: "pairs ?ps = Inr ?fs" using pairs_alternating [OF worker_fields_distinct] .
  have known: "list_all (\<lambda>k. k \<in> set worker_segments) (map fst ?fs)"
    by (simp add: worker_fields_def named_field_def worker_segments_def split: option.split)
  have kd: "kind ?ps = ''tenant''" by (simp add: worker_fields_def kind_def)
  have ne: "s \<noteq> []" if "(k, s) \<in> set ?fs" for k s
    using alternating_values [OF _ that, of valid_segment] v by (simp add: valid_locator_def valid_segment_def)
  have req: "list_all (\<lambda>k. map_of ?fs k \<noteq> None \<and> map_of ?fs k \<noteq> Some [])
      [''tenant'', ''org'', ''worker'']"
  proof -
    have "map_of ?fs k \<noteq> Some []" for k using ne map_of_SomeD by fastforce
    moreover have "map_of ?fs k \<noteq> None" if "k \<in> {''tenant'', ''org'', ''worker''}" for k
      using that by (auto simp: worker_fields_def map_of_eq_None_iff)
    ultimately show ?thesis by simp
  qed
  show ?thesis
    using p pairs known kd req unfolding parse_worker_locator_def
    by (simp add: worker_fields_def named_field_def split: option.split)
qed

lemma worker_locator_roundtrip_witness:
  "parse_worker_locator (\<lambda>_. True) ''noetl://tenant/t1/org/default/zone/z%2D1/worker/cpu''
     = parse_worker_locator (\<lambda>_. True) ''noetl://tenant/t1/org/default/zone/z-1/worker/cpu'' \<and>
   parse_worker_locator (\<lambda>_. True) ''noetl://tenant/t1/org/default/zone/z-1/worker/cpu'' = Inr
    \<lparr>wl_tenant_id = ''t1'', wl_organization_id = ''default'', wl_worker_pool = ''cpu'',
     wl_cluster_id = None, wl_node_id = None, wl_region = None, wl_zone = Some ''z-1''\<rparr>"
proof
  have w: "worker_locator (VStr ''t1'') VNone ''cpu'' [(''zone'', VStr '' z-1'')]
      = Some ''noetl://tenant/t1/org/default/zone/z-1/worker/cpu''" by code_simp
  show "parse_worker_locator (\<lambda>_. True) ''noetl://tenant/t1/org/default/zone/z-1/worker/cpu'' = Inr
    \<lparr>wl_tenant_id = ''t1'', wl_organization_id = ''default'', wl_worker_pool = ''cpu'',
     wl_cluster_id = None, wl_node_id = None, wl_region = None, wl_zone = Some ''z-1''\<rparr>"
    using worker_locator_roundtrip [OF w, of "\<lambda>_. True"] by (simp add: py_or_def read_segment_def) code_simp
  show "parse_worker_locator (\<lambda>_. True) ''noetl://tenant/t1/org/default/zone/z%2D1/worker/cpu''
     = parse_worker_locator (\<lambda>_. True) ''noetl://tenant/t1/org/default/zone/z-1/worker/cpu''" by code_simp
qed

end
