(* ===== verification/Http_Answers.thy ===== *)
theory Http_Answers
  imports PyText
begin

text \<open>
  The answers of the HTTP endpoints: a value, or a failure with its status. \<open>abind\<close> sequences the
  statements of a handler, \<open>lift_res\<close> lets a raised exception through, and \<open>http_answer\<close> is the
  \<open>except\<close> clause most handlers end with.
\<close>

text \<open>
  An HTTP error with its detail, the same with a \<open>Retry-After\<close> header, or another exception, which
  the endpoints turn into a 500.
\<close>

datatype http_failure = Http nat pyval | HttpRetry nat pyval string | Raised py_error

type_synonym 'a answer = "http_failure + 'a"

definition abind :: "'a answer \<Rightarrow> ('a \<Rightarrow> 'b answer) \<Rightarrow> 'b answer" where
  "abind m f = (case m of Inl e \<Rightarrow> Inl e | Inr x \<Rightarrow> f x)"

definition lift_res :: "'a res \<Rightarrow> 'a answer" where
  "lift_res m = (case m of Inl e \<Rightarrow> Inl (Raised e) | Inr x \<Rightarrow> Inr x)"

definition message_of :: "py_error \<Rightarrow> string" where
  "message_of e =
     (case e of KeyError m \<Rightarrow> m | TypeError m \<Rightarrow> m | ValueError m \<Rightarrow> m | RuntimeError m \<Rightarrow> m
      | IndexError m \<Rightarrow> m | AttributeError m \<Rightarrow> m | UnboundLocalError m \<Rightarrow> m)"

text \<open>\<open>except HTTPException: raise\<close>, \<open>except Exception as exc: raise HTTPException(500, str(exc))\<close>.\<close>

definition http_answer :: "'a answer \<Rightarrow> 'a answer" where
  "http_answer m = (case m of Inl (Raised e) \<Rightarrow> Inl (Http 500 (VStr (message_of e))) | _ \<Rightarrow> m)"

lemma abind_simps [simp, res_simps]:
  "abind (Inl e) f = Inl e"
  "abind (Inr x) f = f x"
  by (simp_all add: abind_def)

lemma abind_InrE:
  assumes "abind m f = Inr y"
  obtains x where "m = Inr x" and "f x = Inr y"
  using assms by (cases m) auto

lemma lift_res_Inr [simp]: "lift_res m = Inr x \<longleftrightarrow> m = Inr x"
  by (cases m) (auto simp: lift_res_def)

lemma http_answer_Inr [simp]: "http_answer m = Inr x \<longleftrightarrow> m = Inr x"
  by (cases m) (auto simp: http_answer_def split: http_failure.splits)

end
