(* ===== verification/Frame_Leases.thy ===== *)
theory Frame_Leases
  imports Topology Outbox Http_Answers
begin

text \<open>
  Frame leases (\<^verbatim>\<open>noetl/server/api/frames/endpoint.py\<close>, \<^verbatim>\<open>schema.py\<close>): the table \<open>noetl.frame\<close> with
  its unique claim key, the endpoints that claim, extend and commit a frame, and the events they
  write. Every call is one transaction over \<open>frames_db\<close>: an answer that is an error leaves the
  tables as they were. The clock, the snowflake generator, the text of a JSON container and the
  rows other transactions hold locked (\<open>SKIP LOCKED\<close>) are parameters (\<open>frame_config\<close>); time is
  in microseconds, and the clock of the outbox in seconds. A heartbeat is its read of the frame followed by its write, as the statement
  has them.
\<close>

section \<open>Tables\<close>

record frame_stage =
  fs_stage_id :: int
  fs_execution_id :: int
  fs_kind :: string
  fs_step_name :: string
  fs_status :: string
  fs_frame_policy :: pyval
  fs_tenant_id :: string
  fs_organization_id :: string

record stage_command =
  sc_command_id :: int
  sc_execution_id :: int
  sc_stage_id :: "int option"
  sc_worker_slot_id :: "string option"

record frame_lease =
  fm_frame_id :: int
  fm_stage_id :: int
  fm_execution_id :: int
  fm_parent_frame_id :: "int option"
  fm_command_id :: "int option"
  fm_claimed_event_id :: "int option"
  fm_terminal_event_id :: "int option"
  fm_cursor :: pydict
  fm_row_count :: int
  fm_status :: string
  fm_owner_worker :: "string option"
  fm_lease_until :: "int option"
  fm_output_ref :: pyval
  fm_events_emitted :: int
  fm_attempts :: int
  fm_tenant_id :: string
  fm_organization_id :: string
  fm_updated_at :: int
  fm_completed_at :: "int option"

record frame_event =
  fe_event_id :: int
  fe_execution_id :: int
  fe_frame_id :: int
  fe_event_type :: string
  fe_status :: string
  fe_worker_id :: string
  fe_cells :: pydict

record frames_db =
  fd_stages :: "frame_stage list"
  fd_executions :: "(int \<times> int) list"
  fd_commands :: "stage_command list"
  fd_frames :: "frame_lease list"
  fd_events :: "frame_event list"
  fd_drawn :: nat
  fd_outbox :: outbox_table

record frame_config =
  fc_snowflake :: "nat \<Rightarrow> int"
  fc_now :: int
  fc_show_time :: "int \<Rightarrow> string"
  fc_jsonb_text :: "pyval \<Rightarrow> string"
  fc_locked :: "int \<Rightarrow> bool"
  fc_mirror :: bool
  fc_encode :: "pydict \<Rightarrow> string option"
  fc_subject :: "pydict \<Rightarrow> string"
  fc_drain_limit :: "int option"
  fc_publish :: "nat \<Rightarrow> pydict \<Rightarrow> string option"

definition active_statuses :: "string set" where
  "active_statuses = {''CLAIMED'', ''RUNNING''}"

text \<open>\<open>cursor->>'k'\<close>: the text of a JSON value; none for a missing key and for \<open>null\<close>.\<close>

definition cursor_text :: "frame_config \<Rightarrow> pydict \<Rightarrow> string \<Rightarrow> string option" where
  "cursor_text cf cursor k =
     (case py_get cursor k of
        VNone \<Rightarrow> None
      | VStr s \<Rightarrow> Some s
      | VInt i \<Rightarrow> Some (show_int i)
      | VBool b \<Rightarrow> Some (if b then ''true'' else ''false'')
      | v \<Rightarrow> Some (fc_jsonb_text cf v))"

text \<open>The key of \<open>idx_frame_claim_key_unique\<close>: rows without one of its texts conflict with nothing.\<close>

definition row_key :: "frame_config \<Rightarrow> int \<Rightarrow> pydict \<Rightarrow> (int \<times> string \<times> string) option" where
  "row_key cf stage_id cursor =
     (case (cursor_text cf cursor ''worker_slot_id'', cursor_text cf cursor ''frame_index'') of
        (Some slot, Some index) \<Rightarrow> Some (stage_id, slot, index)
      | _ \<Rightarrow> None)"

definition lease_key :: "frame_config \<Rightarrow> frame_lease \<Rightarrow> (int \<times> string \<times> string) option" where
  "lease_key cf r = row_key cf (fm_stage_id r) (fm_cursor r)"

text \<open>\<open>lease_until IS NULL OR lease_until < now()\<close> of an active frame.\<close>

definition expired_lease :: "frame_config \<Rightarrow> frame_lease \<Rightarrow> bool" where
  "expired_lease cf r =
     (fm_status r \<in> active_statuses \<and>
      (case fm_lease_until r of None \<Rightarrow> True | Some t \<Rightarrow> t < fc_now cf))"

definition lease_end :: "frame_config \<Rightarrow> int \<Rightarrow> int" where
  "lease_end cf seconds = fc_now cf + seconds * 1000000"

text \<open>\<open>ORDER BY frame_id DESC LIMIT 1\<close> and \<open>ORDER BY frame_id LIMIT 1\<close>.\<close>

definition newest_frame :: "frame_lease list \<Rightarrow> frame_lease option" where
  "newest_frame rs = (case sort_key fm_frame_id rs of [] \<Rightarrow> None | xs \<Rightarrow> Some (last xs))"

definition oldest_frame :: "frame_lease list \<Rightarrow> frame_lease option" where
  "oldest_frame rs = (case sort_key fm_frame_id rs of [] \<Rightarrow> None | x # xs \<Rightarrow> Some x)"

definition next_id :: "frame_config \<Rightarrow> frames_db \<Rightarrow> int" where
  "next_id cf db = fc_snowflake cf (fd_drawn db)"

definition drawn :: "frames_db \<Rightarrow> frames_db" where
  "drawn db = db\<lparr>fd_drawn := fd_drawn db + 1\<rparr>"

definition frame_with :: "frames_db \<Rightarrow> int \<Rightarrow> frame_lease option" where
  "frame_with db i = find (\<lambda>r. fm_frame_id r = i) (fd_frames db)"

definition update_frame :: "int \<Rightarrow> (frame_lease \<Rightarrow> frame_lease) \<Rightarrow> frames_db \<Rightarrow> frames_db" where
  "update_frame i f db =
     db\<lparr>fd_frames := map (\<lambda>r. if fm_frame_id r = i then f r else r) (fd_frames db)\<rparr>"

section \<open>Requests\<close>

record claim_request =
  cq_worker_id :: string
  cq_command_id :: "int option"
  cq_requested_count :: nat
  cq_lease_seconds :: int
  cq_cursor :: pydict
  cq_frame_policy :: pydict
  cq_locality :: pydict

record heartbeat_request =
  hq_worker_id :: string
  hq_lease_seconds :: int
  hq_status :: string

record commit_request =
  mq_worker_id :: string
  mq_status :: string
  mq_cursor :: pydict
  mq_row_count :: int
  mq_output_ref :: pyval
  mq_events_emitted :: int
  mq_error :: "string option"

definition valid_claim_request :: "claim_request \<Rightarrow> bool" where
  "valid_claim_request q =
     (cq_worker_id q \<noteq> [] \<and> 1 \<le> cq_requested_count q \<and> cq_requested_count q \<le> 100 \<and>
      5 \<le> cq_lease_seconds q \<and> cq_lease_seconds q \<le> 3600)"

definition valid_heartbeat_request :: "heartbeat_request \<Rightarrow> bool" where
  "valid_heartbeat_request q =
     (hq_worker_id q \<noteq> [] \<and> 5 \<le> hq_lease_seconds q \<and> hq_lease_seconds q \<le> 3600)"

primrec has_ipc_hint :: "pyval \<Rightarrow> bool" where
  "has_ipc_hint VNone = False"
| "has_ipc_hint (VBool b) = False"
| "has_ipc_hint (VInt i) = False"
| "has_ipc_hint (VStr s) = False"
| "has_ipc_hint (VList xs) = list_ex id (map has_ipc_hint xs)"
| "has_ipc_hint (VDict d) =
     (is_dict (py_get d ''ipc'') \<or> list_ex snd (map (map_prod id has_ipc_hint) d))"

definition is_valid_durable_locator :: "(string \<Rightarrow> bool) \<Rightarrow> pyval \<Rightarrow> bool" where
  "is_valid_durable_locator host_ok v =
     (let t = strip (py_str (py_or v (VStr []))) in
      if t = [] then False
      else if \<not> startswith t ''noetl://'' then True
      else (case parse_locator host_ok t of Inl e \<Rightarrow> False | Inr l \<Rightarrow> True))"

definition durable_ref_keys :: "string list" where
  "durable_ref_keys = [''ref'', ''uri'', ''locator'']"

primrec has_durable_reference :: "(string \<Rightarrow> bool) \<Rightarrow> pyval \<Rightarrow> bool" where
  "has_durable_reference host_ok VNone = False"
| "has_durable_reference host_ok (VBool b) = False"
| "has_durable_reference host_ok (VInt i) = False"
| "has_durable_reference host_ok (VStr s) = False"
| "has_durable_reference host_ok (VList xs) = list_ex id (map (has_durable_reference host_ok) xs)"
| "has_durable_reference host_ok (VDict d) =
     (list_ex (\<lambda>k. is_valid_durable_locator host_ok (py_get d k)) durable_ref_keys \<or>
      list_ex snd (map (map_prod id (has_durable_reference host_ok)) d))"

definition valid_commit_request :: "(string \<Rightarrow> bool) \<Rightarrow> commit_request \<Rightarrow> bool" where
  "valid_commit_request host_ok q =
     (mq_worker_id q \<noteq> [] \<and> 0 \<le> mq_row_count q \<and> 0 \<le> mq_events_emitted q \<and>
      (mq_output_ref q = VNone \<or> is_dict (mq_output_ref q)) \<and>
      \<not> (truthy (mq_output_ref q) \<and> has_ipc_hint (mq_output_ref q) \<and>
         \<not> has_durable_reference host_ok (mq_output_ref q)))"

section \<open>Reading\<close>

definition load_stage :: "frames_db \<Rightarrow> int \<Rightarrow> (frame_stage \<times> int) answer" where
  "load_stage db stage_id =
     (case List.map_filter (\<lambda>s. if fs_stage_id s = stage_id
              then map_option (Pair s) (map_of (fd_executions db) (fs_execution_id s)) else None)
            (fd_stages db) of
        [] \<Rightarrow> Inl (Http 404 (VStr (''stage not found: '' @ show_int stage_id)))
      | (s, catalog_id) # _ \<Rightarrow>
          (if fs_status s \<notin> {''OPEN'', ''RUNNING''}
           then Inl (Http 409 (VDict [(''code'', VStr ''stage_not_open''), (''status'', VStr (fs_status s))]))
           else Inr (s, catalog_id)))"

definition resolve_claim_command_id ::
    "frames_db \<Rightarrow> int \<Rightarrow> int \<Rightarrow> string \<Rightarrow> int option \<Rightarrow> int option" where
  "resolve_claim_command_id db execution_id stage_id worker_id requested =
     (case requested of
        Some c \<Rightarrow> Some c
      | None \<Rightarrow>
          (case sort (map sc_command_id (filter (\<lambda>c. sc_execution_id c = execution_id
                  \<and> sc_stage_id c = Some stage_id \<and> sc_worker_slot_id c = Some worker_id)
                (fd_commands db))) of
             [] \<Rightarrow> None
           | cs \<Rightarrow> Some (last cs)))"

text \<open>The key a request names: both entries present, as \<open>str\<close> writes them.\<close>

definition frame_claim_key :: "int \<Rightarrow> pydict \<Rightarrow> (int \<times> string \<times> string) option" where
  "frame_claim_key stage_id cursor =
     (let slot = py_get cursor ''worker_slot_id''; index = py_get cursor ''frame_index'' in
      if slot \<noteq> VNone \<and> index \<noteq> VNone then Some (stage_id, py_str slot, py_str index) else None)"

definition keyed_frames :: "frame_config \<Rightarrow> frames_db \<Rightarrow> int \<times> string \<times> string \<Rightarrow> frame_lease list" where
  "keyed_frames cf db key = filter (\<lambda>r. lease_key cf r = Some key) (fd_frames db)"

definition load_idempotent_claimed_frame ::
    "frame_config \<Rightarrow> frames_db \<Rightarrow> int \<Rightarrow> int option \<Rightarrow> string \<Rightarrow> pydict \<Rightarrow> frame_lease option" where
  "load_idempotent_claimed_frame cf db stage_id command_id worker_id cursor =
     (case frame_claim_key stage_id cursor of
        None \<Rightarrow> None
      | Some key \<Rightarrow>
          newest_frame (filter (\<lambda>r. fm_command_id r = command_id \<and> fm_owner_worker r = Some worker_id
              \<and> fm_status r \<in> active_statuses) (keyed_frames cf db key)))"

definition load_frame_by_claim_key ::
    "frame_config \<Rightarrow> frames_db \<Rightarrow> int \<Rightarrow> pydict \<Rightarrow> frame_lease option" where
  "load_frame_by_claim_key cf db stage_id cursor =
     (case frame_claim_key stage_id cursor of
        None \<Rightarrow> None
      | Some key \<Rightarrow>
          newest_frame (filter (\<lambda>r. fm_status r \<in> {''PENDING'', ''CLAIMED'', ''RUNNING''}
              \<and> \<not> fc_locked cf (fm_frame_id r)) (keyed_frames cf db key)))"

definition load_claimable_frame :: "frame_config \<Rightarrow> frames_db \<Rightarrow> int \<Rightarrow> frame_lease option" where
  "load_claimable_frame cf db stage_id =
     oldest_frame (filter (\<lambda>r. fm_stage_id r = stage_id
         \<and> (fm_status r = ''PENDING'' \<or> expired_lease cf r) \<and> \<not> fc_locked cf (fm_frame_id r))
       (fd_frames db))"

definition resolve_parent_frame_id :: "frame_config \<Rightarrow> frames_db \<Rightarrow> int \<Rightarrow> pydict \<Rightarrow> int option" where
  "resolve_parent_frame_id cf db stage_id cursor =
     (let slot = py_get cursor ''worker_slot_id'';
          previous = (case py_int (py_get cursor ''frame_index'') of Inl e \<Rightarrow> - 1 | Inr i \<Rightarrow> i - 1);
          before = (if slot \<noteq> VNone \<and> 0 \<le> previous
                    then newest_frame (keyed_frames cf db (stage_id, py_str slot, show_int previous))
                    else None)
      in case before of
           Some r \<Rightarrow> Some (fm_frame_id r)
         | None \<Rightarrow> map_option fm_frame_id
             (newest_frame (filter (\<lambda>r. fm_stage_id r = stage_id) (fd_frames db))))"

end
