(* ===== verification/Cursor_Worker.thy ===== *)
theory Cursor_Worker
  imports Frame_Leases
begin

text \<open>
  The cursor worker (\<^verbatim>\<open>noetl/worker/cursor_worker.py\<close>): claiming frames of rows from a cursor driver,
  leasing each frame from the server, running the task pipeline on its rows, aggregating metrics
  and committing the frame. The driver, the task executor, the credential and payload stores, the
  renderer and the server are operations on a world \<open>'w\<close> that the environment supplies; any of them
  may raise. Rows of a concurrent frame are run one after the other in their order, and the beats
  of a heartbeat thread come before the work they accompany; timings, which are only logged and
  returned, are left out. The loop carries fuel; \<open>Cursor_Worker_Theorems\<close> shows how much is enough.
\<close>

section \<open>Acts\<close>

type_synonym ('w, 'a) act = "'w \<Rightarrow> 'a res \<times> 'w"

definition give :: "'a \<Rightarrow> ('w, 'a) act" where
  "give x w = (Inr x, w)"

definition lift :: "'a res \<Rightarrow> ('w, 'a) act" where
  "lift r w = (r, w)"

definition wbind :: "('w, 'a) act \<Rightarrow> ('a \<Rightarrow> ('w, 'b) act) \<Rightarrow> ('w, 'b) act" where
  "wbind m f w = (case m w of (Inl e, w') \<Rightarrow> (Inl e, w') | (Inr x, w') \<Rightarrow> f x w')"

definition catch :: "('w, 'a) act \<Rightarrow> (py_error \<Rightarrow> ('w, 'a) act) \<Rightarrow> ('w, 'a) act" where
  "catch m h w = (case m w of (Inl e, w') \<Rightarrow> h e w' | (Inr x, w') \<Rightarrow> (Inr x, w'))"

text \<open>\<open>n + 1\<close> attempts: the first that returns, or the exception of the last.\<close>

fun retry :: "nat \<Rightarrow> ('w, 'a) act \<Rightarrow> ('w, 'a) act" where
  "retry 0 call w = call w"
| "retry (Suc n) call w =
     (case call w of (Inl e, w') \<Rightarrow> retry n call w' | (Inr x, w') \<Rightarrow> (Inr x, w'))"

record 'w cursor_env =
  ce_float :: "pyval \<Rightarrow> int res"
  ce_render :: "pyval \<Rightarrow> pydict \<Rightarrow> pyval res"
  ce_credential :: "pyval \<Rightarrow> ('w, pyval) act"
  ce_driver :: "pyval \<Rightarrow> unit res"
  ce_open :: "pyval \<Rightarrow> pydict \<Rightarrow> ('w, unit) act"
  ce_close :: "('w, unit) act"
  ce_claim_many :: "(pydict \<Rightarrow> nat \<Rightarrow> ('w, pydict list) act) option"
  ce_claim :: "pydict \<Rightarrow> ('w, pydict option) act"
  ce_run :: "pyval \<Rightarrow> pydict \<Rightarrow> ('w, pyval) act"
  ce_post_claim :: "pyval \<Rightarrow> pydict \<Rightarrow> ('w, pydict list) act"
  ce_post_heartbeat :: "pyval \<Rightarrow> pydict \<Rightarrow> ('w, unit) act"
  ce_post_commit :: "pyval \<Rightarrow> pydict \<Rightarrow> ('w, unit) act"
  ce_beats :: "'w \<Rightarrow> nat"
  ce_capture :: bool
  ce_put :: "pydict \<Rightarrow> pydict list \<Rightarrow> ('w, pydict \<times> string \<times> int) act"
  ce_resolve :: "pyval \<Rightarrow> ('w, pyval) act"
  ce_evict :: "pyval \<Rightarrow> ('w, bool) act"
  ce_locality :: pydict
  ce_hostname :: string
  ce_max_retries :: nat

text \<open>\<open>worker_slot_id or os.getenv("HOSTNAME") or "cursor-worker"\<close>\<close>

definition worker_name :: "'w cursor_env \<Rightarrow> pyval \<Rightarrow> pyval" where
  "worker_name env slot =
     py_or slot (VStr (if ce_hostname env = [] then ''cursor-worker'' else ce_hostname env))"

section \<open>Configuration\<close>

record worker_config =
  wc_kind :: pyval
  wc_iterator :: string
  wc_tasks :: pyval
  wc_options :: pydict
  wc_policy :: pydict
  wc_max_rows :: int
  wc_row_concurrency :: int
  wc_process :: string
  wc_stage_id :: pyval
  wc_slot :: pyval
  wc_context :: pydict

text \<open>\<open>dict(x or {})\<close>; \<open>x.get\<close> of something else than a dictionary raises.\<close>

definition dict_copy :: "pyval \<Rightarrow> pydict res" where
  "dict_copy v =
     (if \<not> truthy v then Inr []
      else case as_dict v of Some d \<Rightarrow> Inr d | None \<Rightarrow> Inl (TypeError ''cannot convert to a dictionary''))"

definition get_from :: "pyval \<Rightarrow> string \<Rightarrow> pyval res" where
  "get_from v k =
     (case as_dict v of Some d \<Rightarrow> Inr (py_get d k) | None \<Rightarrow> Inl (AttributeError ''object has no attribute get''))"

definition lower_strip :: "pyval \<Rightarrow> string" where
  "lower_strip v = lower (strip (py_str v))"

definition positive_int :: "pyval \<Rightarrow> int \<Rightarrow> int res" where
  "positive_int v dflt = rbind (py_int (py_or v (VInt dflt))) (\<lambda>i. Inr (max 1 i))"

text \<open>The settings, in the order the code reads them; the message of a refusal is its prefix.\<close>

definition read_policy ::
    "'w cursor_env \<Rightarrow> pydict \<Rightarrow> (int \<times> int \<times> string) res" where
  "read_policy env policy =
     rbind (positive_int (py_get policy ''max_rows'') 1) (\<lambda>max_rows.
     rbind (ce_float env (py_or (py_get policy ''max_seconds'') (VInt 30))) (\<lambda>max_seconds.
     rbind (positive_int (py_get policy ''max_bytes'') 67108864) (\<lambda>max_bytes.
     rbind (positive_int (py_get policy ''row_concurrency'') 1) (\<lambda>row_concurrency.
       (let process = lower_strip (py_or (py_get policy ''process'') (VStr ''row'')) in
        if process \<notin> {''row'', ''frame''} then Inl (ValueError ''cursor_worker: unsupported frame.process'')
        else Inr (max_rows, row_concurrency, process))))))"

definition read_config ::
    "'w cursor_env \<Rightarrow> pydict \<Rightarrow> pydict \<Rightarrow> pyval \<Rightarrow> (worker_config \<times> pyval \<times> pyval) res" where
  "read_config env config context slot =
     (let spec = py_or (py_get config ''cursor'') (VDict []) in
      rbind (if truthy (py_get config ''iterator'') then Inr (py_get config ''iterator'')
             else get_from spec ''iterator'') (\<lambda>iter_name.
      (let tasks = py_or (py_get config ''tasks'') (VList []) in
       if \<not> truthy spec then Inl (ValueError ''cursor_worker: missing cursor spec in tool.config'')
       else if \<not> truthy tasks then Inl (ValueError ''cursor_worker: empty task pipeline in tool.config'')
       else
         rbind (get_from spec ''kind'') (\<lambda>kind_v.
         rbind (get_from spec ''auth'') (\<lambda>auth.
         rbind (get_from spec ''claim'') (\<lambda>claim.
         rbind (get_from spec ''options'') (\<lambda>opts.
         rbind (dict_copy opts) (\<lambda>options.
         if \<not> truthy kind_v \<or> \<not> truthy auth \<or> \<not> truthy claim
         then Inl (ValueError ''cursor_worker: cursor spec requires kind/auth/claim'')
         else
           rbind (dict_copy (py_get config ''frame_policy'')) (\<lambda>policy.
           rbind (read_policy env policy) (\<lambda>(max_rows, row_concurrency, process).
             Inr (\<lparr>wc_kind = kind_v, wc_iterator = py_str (py_or iter_name (VStr ''item'')),
                    wc_tasks = tasks, wc_options = options, wc_policy = policy,
                    wc_max_rows = max_rows, wc_row_concurrency = row_concurrency,
                    wc_process = process, wc_stage_id = py_get config ''stage_id'',
                    wc_slot = slot, wc_context = context\<rparr>, auth, claim)))))))))))"

definition claim_context :: "worker_config \<Rightarrow> pydict" where
  "claim_context c =
     (let ctx = (if truthy (wc_slot c) \<and> \<not> has_key (wc_context c) ''__worker_slot_id''
                 then AList.update ''__worker_slot_id'' (wc_slot c) (wc_context c) else wc_context c)
      in AList.update ''__frame_policy'' (VDict (wc_policy c))
           (AList.update ''__frame_max_rows'' (VInt (wc_max_rows c)) ctx))"

definition max_iterations :: "worker_config \<Rightarrow> int res" where
  "max_iterations c = py_int (py_or (py_get (wc_options c) ''max_iterations'') (VInt 100000))"

text \<open>\<open>int(float(frame_policy.get("lease_seconds") or 120.0))\<close>\<close>

definition lease_of :: "'w cursor_env \<Rightarrow> worker_config \<Rightarrow> int res" where
  "lease_of env c = ce_float env (py_or (py_get (wc_policy c) ''lease_seconds'') (VInt 120))"

section \<open>Claiming rows\<close>

definition row_claim_context :: "worker_config \<Rightarrow> nat \<Rightarrow> nat \<Rightarrow> nat \<Rightarrow> pydict" where
  "row_claim_context c frame_index row_index target =
     [(''execution_id'', py_get (wc_context c) ''execution_id''), (''worker_slot_id'', wc_slot c),
      (''iteration'', VInt (int row_index)), (''frame_index'', VInt (int frame_index)),
      (''frame_row_index'', VInt (int row_index)), (''max_rows'', VInt (int target))]"

fun claim_rows ::
    "'w cursor_env \<Rightarrow> worker_config \<Rightarrow> nat \<Rightarrow> nat \<Rightarrow> nat \<Rightarrow> nat \<Rightarrow> ('w, pydict list) act" where
  "claim_rows env c frame_index target i 0 w = give [] w"
| "claim_rows env c frame_index target i (Suc n) w =
     wbind (ce_claim env (row_claim_context c frame_index i target)) (\<lambda>row.
       case row of
         None \<Rightarrow> give []
       | Some r \<Rightarrow> wbind (claim_rows env c frame_index target (Suc i) n) (\<lambda>rs. give (r # rs))) w"

definition claim_frame_rows ::
    "'w cursor_env \<Rightarrow> worker_config \<Rightarrow> nat \<Rightarrow> int \<Rightarrow> ('w, pydict list) act" where
  "claim_frame_rows env c frame_index remaining =
     (if remaining \<le> 0 then give []
      else
        (let target = nat (max 1 (min (wc_max_rows c) remaining)) in
         case ce_claim_many env of
           Some claim_many \<Rightarrow>
             wbind (claim_many (row_claim_context c frame_index 0 target) target)
               (\<lambda>rows. give (take target rows))
         | None \<Rightarrow> claim_rows env c frame_index target 0 target))"

section \<open>Metrics\<close>

record metric_bucket =
  mb_count :: int
  mb_error_count :: int
  mb_duration_ms :: int
  mb_render_ms :: int
  mb_tool_ms :: int

record frame_metrics =
  fx_row_count :: int
  fx_row_concurrency :: int
  fx_process :: string
  fx_ok :: int
  fx_failed :: int
  fx_break :: int
  fx_count :: int
  fx_duration_ms :: int
  fx_render_ms :: int
  fx_tool_ms :: int
  fx_by_kind :: "(string \<times> metric_bucket) list"
  fx_by_name :: "(string \<times> metric_bucket) list"

record row_outcome =
  ro_status :: string
  ro_metrics :: pyval

definition empty_frame_metrics :: "int \<Rightarrow> int \<Rightarrow> frame_metrics" where
  "empty_frame_metrics row_count row_concurrency =
     \<lparr>fx_row_count = row_count, fx_row_concurrency = row_concurrency, fx_process = ''row'',
      fx_ok = 0, fx_failed = 0, fx_break = 0, fx_count = 0, fx_duration_ms = 0, fx_render_ms = 0,
      fx_tool_ms = 0, fx_by_kind = [], fx_by_name = []\<rparr>"

definition empty_bucket :: metric_bucket where
  "empty_bucket = \<lparr>mb_count = 0, mb_error_count = 0, mb_duration_ms = 0, mb_render_ms = 0, mb_tool_ms = 0\<rparr>"

definition add_to_bucket :: "pyval \<Rightarrow> metric_bucket \<Rightarrow> metric_bucket res" where
  "add_to_bucket v b =
     (case as_dict v of
        None \<Rightarrow> Inl (AttributeError ''object has no attribute get'')
      | Some d \<Rightarrow>
          rbind (int_or_zero (py_get d ''count'')) (\<lambda>c.
          rbind (int_or_zero (py_get d ''error_count'')) (\<lambda>ec.
          rbind (int_or_zero (py_get d ''duration_ms'')) (\<lambda>dm.
          rbind (int_or_zero (py_get d ''render_ms'')) (\<lambda>rm.
          rbind (int_or_zero (py_get d ''tool_ms'')) (\<lambda>tm.
            Inr \<lparr>mb_count = mb_count b + c, mb_error_count = mb_error_count b + ec,
                 mb_duration_ms = mb_duration_ms b + dm, mb_render_ms = mb_render_ms b + rm,
                 mb_tool_ms = mb_tool_ms b + tm\<rparr>))))))"

definition merge_metric_bucket ::
    "(string \<times> metric_bucket) list \<Rightarrow> pyval \<Rightarrow> (string \<times> metric_bucket) list res" where
  "merge_metric_bucket target source =
     (if \<not> truthy source then Inr target
      else case as_dict source of
        None \<Rightarrow> Inl (AttributeError ''object has no attribute items'')
      | Some d \<Rightarrow> rfold (\<lambda>t (k, v). dict_modify k empty_bucket (add_to_bucket v) t) target d)"

definition count_status :: "string \<Rightarrow> frame_metrics \<Rightarrow> frame_metrics" where
  "count_status status m =
     (if status = ''ok'' then m\<lparr>fx_ok := fx_ok m + 1\<rparr>
      else if status = ''failed'' then m\<lparr>fx_failed := fx_failed m + 1\<rparr>
      else if status = ''break'' then m\<lparr>fx_break := fx_break m + 1\<rparr>
      else m)"

definition aggregate_row :: "frame_metrics \<Rightarrow> row_outcome \<Rightarrow> frame_metrics res" where
  "aggregate_row m r =
     (let m1 = count_status (ro_status r) m in
      case as_dict (ro_metrics r) of
        None \<Rightarrow> Inr m1
      | Some d \<Rightarrow>
          rbind (int_or_zero (py_get d ''task_count'')) (\<lambda>c.
          rbind (int_or_zero (py_get d ''duration_ms'')) (\<lambda>dm.
          rbind (int_or_zero (py_get d ''render_ms'')) (\<lambda>rm.
          rbind (int_or_zero (py_get d ''tool_ms'')) (\<lambda>tm.
          rbind (merge_metric_bucket (fx_by_kind m1) (py_get d ''by_kind'')) (\<lambda>bk.
          rbind (merge_metric_bucket (fx_by_name m1) (py_get d ''by_name'')) (\<lambda>bn.
            Inr (m1\<lparr>fx_count := fx_count m1 + c, fx_duration_ms := fx_duration_ms m1 + dm,
                    fx_render_ms := fx_render_ms m1 + rm, fx_tool_ms := fx_tool_ms m1 + tm,
                    fx_by_kind := bk, fx_by_name := bn\<rparr>))))))))"

definition aggregate_frame_metrics :: "row_outcome list \<Rightarrow> int \<Rightarrow> int \<Rightarrow> frame_metrics res" where
  "aggregate_frame_metrics rs row_count row_concurrency =
     rfold aggregate_row (empty_frame_metrics row_count row_concurrency) rs"

definition bucket_dict :: "metric_bucket \<Rightarrow> pyval" where
  "bucket_dict b =
     VDict [(''count'', VInt (mb_count b)), (''error_count'', VInt (mb_error_count b)),
            (''duration_ms'', VInt (mb_duration_ms b)), (''render_ms'', VInt (mb_render_ms b)),
            (''tool_ms'', VInt (mb_tool_ms b))]"

definition metrics_dict :: "frame_metrics \<Rightarrow> pydict" where
  "metrics_dict m =
     [(''row_count'', VInt (fx_row_count m)), (''row_concurrency'', VInt (fx_row_concurrency m)),
      (''process'', VStr (fx_process m)),
      (''rows'', VDict [(''ok'', VInt (fx_ok m)), (''failed'', VInt (fx_failed m)), (''break'', VInt (fx_break m))]),
      (''tasks'', VDict [(''count'', VInt (fx_count m)), (''duration_ms'', VInt (fx_duration_ms m)),
         (''render_ms'', VInt (fx_render_ms m)), (''tool_ms'', VInt (fx_tool_ms m)),
         (''by_kind'', VDict (map (map_prod id bucket_dict) (fx_by_kind m))),
         (''by_name'', VDict (map (map_prod id bucket_dict) (fx_by_name m)))])]"

section \<open>Leases\<close>

definition claim_payload :: "'w cursor_env \<Rightarrow> worker_config \<Rightarrow> nat \<Rightarrow> int \<Rightarrow> nat \<Rightarrow> pydict" where
  "claim_payload env c frame_index lease rows =
     (let ctx = wc_context c;
          command = (if py_get ctx ''command_id'' = VNone \<and> is_dict (py_get ctx ''event'')
                     then py_get (dict_or_empty (py_get ctx ''event'')) ''command_id''
                     else py_get ctx ''command_id'')
      in [(''worker_id'', worker_name env (wc_slot c)), (''command_id'', command),
          (''requested_count'', VInt 1), (''lease_seconds'', VInt lease),
          (''frame_policy'', VDict (wc_policy c)), (''locality'', VDict (ce_locality env)),
          (''cursor'', VDict
             [(''kind'', wc_kind c), (''iterator'', VStr (wc_iterator c)),
              (''row_count'', VInt (int rows)), (''frame_index'', VInt (int frame_index)),
              (''worker_slot_id'', wc_slot c)])])"

text \<open>Three attempts; a claim that fails for good leaves the rows without a frame.\<close>

definition claim_runtime_frame ::
    "'w cursor_env \<Rightarrow> worker_config \<Rightarrow> nat \<Rightarrow> nat \<Rightarrow> ('w, pydict option) act" where
  "claim_runtime_frame env c frame_index rows =
     (if \<not> truthy (wc_stage_id c) then give None
      else wbind (lift (lease_of env c)) (\<lambda>lease.
        catch (wbind (retry 2 (ce_post_claim env (wc_stage_id c) (claim_payload env c frame_index lease rows)))
                 (\<lambda>frames. give (case frames of [] \<Rightarrow> None | f # fs \<Rightarrow> Some f)))
          (\<lambda>e. give None)))"

definition heartbeat_payload :: "'w cursor_env \<Rightarrow> worker_config \<Rightarrow> int \<Rightarrow> pydict" where
  "heartbeat_payload env c lease =
     [(''worker_id'', worker_name env (wc_slot c)), (''status'', VStr ''RUNNING''), (''lease_seconds'', VInt lease)]"

text \<open>The identifier of a frame that was leased; nothing is posted without one.\<close>

definition leased_id :: "pydict option \<Rightarrow> pyval" where
  "leased_id runtime_frame =
     (case runtime_frame of None \<Rightarrow> VNone | Some f \<Rightarrow> if f = [] then VNone else py_get f ''frame_id'')"

definition post_heartbeat ::
    "'w cursor_env \<Rightarrow> worker_config \<Rightarrow> pydict option \<Rightarrow> int \<Rightarrow> nat \<Rightarrow> ('w, unit) act" where
  "post_heartbeat env c runtime_frame lease attempts =
     (if \<not> truthy (leased_id runtime_frame) then give ()
      else catch (retry (attempts - 1)
          (ce_post_heartbeat env (leased_id runtime_frame) (heartbeat_payload env c lease)))
        (\<lambda>e. give ()))"

definition start_runtime_frame ::
    "'w cursor_env \<Rightarrow> worker_config \<Rightarrow> pydict option \<Rightarrow> int \<Rightarrow> ('w, unit) act" where
  "start_runtime_frame env c runtime_frame lease =
     post_heartbeat env c runtime_frame lease (max 1 (ce_max_retries env))"

text \<open>The heartbeat thread: one beat for each interval that passes before it is stopped.\<close>

fun beats :: "'w cursor_env \<Rightarrow> worker_config \<Rightarrow> pydict option \<Rightarrow> int \<Rightarrow> nat \<Rightarrow> ('w, unit) act" where
  "beats env c runtime_frame lease 0 w = give () w"
| "beats env c runtime_frame lease (Suc n) w =
     wbind (post_heartbeat env c runtime_frame lease 2) (\<lambda>_. beats env c runtime_frame lease n) w"

definition commit_payload ::
    "'w cursor_env \<Rightarrow> worker_config \<Rightarrow> pydict \<Rightarrow> nat \<Rightarrow> pyval \<Rightarrow> bool \<Rightarrow> pydict \<Rightarrow> pydict res" where
  "commit_payload env c runtime_frame rows output_ref is_failed metrics =
     rbind (dict_copy (py_get runtime_frame ''cursor'')) (\<lambda>cursor.
       Inr [(''worker_id'', worker_name env (wc_slot c)),
            (''status'', VStr (if is_failed then ''FAILED'' else ''COMPLETED'')),
            (''row_count'', VInt (int rows)), (''output_ref'', output_ref),
            (''events_emitted'', VInt (int rows)),
            (''cursor'', VDict (AList.update ''metrics'' (VDict metrics) cursor)),
            (''error'', (if is_failed then VStr ''one or more frame rows failed'' else VNone))])"

definition commit_runtime_frame ::
    "'w cursor_env \<Rightarrow> worker_config \<Rightarrow> pydict option \<Rightarrow> nat \<Rightarrow> pyval \<Rightarrow> bool \<Rightarrow> pydict \<Rightarrow> ('w, unit) act" where
  "commit_runtime_frame env c runtime_frame rows output_ref is_failed metrics =
     (if \<not> truthy (leased_id runtime_frame) then give ()
      else catch
        (wbind (lift (commit_payload env c (the runtime_frame) rows output_ref is_failed metrics)) (\<lambda>payload.
           retry (max 1 (ce_max_retries env) - 1) (ce_post_commit env (leased_id runtime_frame) payload)))
        (\<lambda>e. give ()))"

section \<open>Captured rows\<close>

definition store_claimed_frame ::
    "'w cursor_env \<Rightarrow> worker_config \<Rightarrow> nat \<Rightarrow> pydict list \<Rightarrow> ('w, pydict option) act" where
  "store_claimed_frame env c frame_index rows =
     (if rows = [] then give None
      else if \<not> ce_capture env \<and> wc_max_rows c \<le> 1 then give None
      else catch
        (wbind (ce_put env
            [(''execution_id'', VStr (py_str (py_or (py_get (wc_context c) ''execution_id'') (VStr ''unknown'')))),
             (''name'', VStr (''cursor-frame-'' @ py_str (py_or (wc_slot c) (VStr ''slot'')) @ ''-''
                 @ show_int (int frame_index))),
             (''source_step'', VStr (py_str (py_or (wc_slot c) (VStr ''cursor_worker'')))),
             (''ipc_lease_seconds'', py_get (wc_policy c) ''lease_seconds'')] rows)
          (\<lambda>(ref, digest, n). give (Some
             [(''frame_index'', VInt (int frame_index)), (''row_count'', VInt n), (''rows_ref'', VDict ref),
              (''schema_digest'', VStr digest),
              (''media_type'', VStr ''application/vnd.apache.arrow.stream'')])))
        (\<lambda>e. give (Some
             [(''frame_index'', VInt (int frame_index)), (''row_count'', VInt (int (length rows))),
              (''capture_failed'', VBool True), (''capture_error'', VStr (take 300 (message_of e)))])))"

definition truthy_policy :: "pyval \<Rightarrow> bool" where
  "truthy_policy v =
     (case v of
        VNone \<Rightarrow> False
      | VBool b \<Rightarrow> b
      | VInt i \<Rightarrow> i \<noteq> 0
      | VStr s \<Rightarrow> lower (strip s) \<in> {''1'', ''true'', ''yes'', ''y'', ''on''}
      | v \<Rightarrow> truthy v)"

text \<open>\<open>==\<close> of JSON values, where booleans and integers are different.\<close>

definition equal_values :: "pyval \<Rightarrow> pyval \<Rightarrow> bool" where
  "equal_values v w = (canon_json v = canon_json w)"

definition list_count :: "pyval \<Rightarrow> pyval" where
  "list_count v = (case as_list v of None \<Rightarrow> VNone | Some xs \<Rightarrow> VInt (int (length xs)))"

text \<open>A read that raises ends the verification with what it has found so far and the message.\<close>

definition guarded :: "pydict \<Rightarrow> ('w, 'a) act \<Rightarrow> ('a \<Rightarrow> ('w, pydict) act) \<Rightarrow> ('w, pydict) act" where
  "guarded found m k w =
     (case m w of
        (Inl e, w') \<Rightarrow> (Inr (found @ [(''error'', VStr (take 300 (message_of e)))]), w')
      | (Inr x, w') \<Rightarrow> k x w')"

definition evict_hint :: "'w cursor_env \<Rightarrow> pyval \<Rightarrow> ('w, pydict) act" where
  "evict_hint env ipc =
     (if is_dict ipc then wbind (ce_evict env ipc) (\<lambda>b. give [(''ipc_hint_evicted'', VBool b)]) else give [])"

text \<open>The two reads of a verification: through the shared-memory hint, and after dropping it.\<close>

definition verify_reads :: "'w cursor_env \<Rightarrow> pydict \<Rightarrow> pydict list \<Rightarrow> pydict \<Rightarrow> ('w, pydict) act" where
  "verify_reads env rows_ref expected found =
     (let rows = VList (map VDict expected) in
      guarded found (ce_resolve env (VDict rows_ref)) (\<lambda>ipc_rows.
        let found1 = found @ [(''ipc_read_row_count'', list_count ipc_rows),
                              (''ipc_read_matches'', VBool (equal_values ipc_rows rows))] in
        guarded found1 (evict_hint env (py_get rows_ref ''ipc'')) (\<lambda>evicted.
        guarded (found1 @ evicted) (ce_resolve env (VDict rows_ref)) (\<lambda>fallback_rows.
          give (AList.update ''verified''
            (VBool (equal_values ipc_rows rows \<and> equal_values fallback_rows rows))
            (found1 @ evicted
             @ [(''fallback_read_row_count'', list_count fallback_rows),
                (''fallback_read_matches'', VBool (equal_values fallback_rows rows))]))))))"

definition verify_claimed_frame_ipc ::
    "'w cursor_env \<Rightarrow> worker_config \<Rightarrow> pydict \<Rightarrow> pydict list \<Rightarrow> ('w, pydict option) act" where
  "verify_claimed_frame_ipc env c frame_meta expected =
     (if \<not> truthy_policy (py_get (wc_policy c) ''verify_ipc'') then give None
      else case as_dict (py_get frame_meta ''rows_ref'') of
        None \<Rightarrow> give (Some [(''enabled'', VBool True), (''verified'', VBool False),
                            (''reason'', VStr ''missing rows_ref'')])
      | Some rows_ref \<Rightarrow>
          wbind (verify_reads env rows_ref expected
            [(''enabled'', VBool True), (''verified'', VBool False),
             (''row_count'', VInt (int (length expected))),
             (''ipc_hint_present'', VBool (is_dict (py_get rows_ref ''ipc'')))]) (\<lambda>d. give (Some d)))"

section \<open>Running rows\<close>

definition frame_sequence_status :: "pyval \<Rightarrow> string" where
  "frame_sequence_status v =
     (case as_dict v of
        None \<Rightarrow> ''ok''
      | Some d \<Rightarrow>
          (let status = lower (py_str (py_get_default d ''status'' (VStr []))) in
           if status = ''failed'' then ''failed'' else if status = ''break'' then ''break'' else ''ok''))"

definition outcome_of :: "pyval \<Rightarrow> row_outcome" where
  "outcome_of v = \<lparr>ro_status = frame_sequence_status v,
     ro_metrics = (case as_dict v of None \<Rightarrow> VNone | Some d \<Rightarrow> py_get d ''metrics'')\<rparr>"

definition failed_outcome :: row_outcome where
  "failed_outcome = \<lparr>ro_status = ''failed'', ro_metrics = VNone\<rparr>"

definition with_iteration :: "worker_config \<Rightarrow> (pydict \<Rightarrow> pydict) \<Rightarrow> pydict res" where
  "with_iteration c f =
     rbind (dict_copy (py_get (wc_context c) ''iter'')) (\<lambda>ns.
       Inr (AList.update ''iter'' (VDict (f ns)) (wc_context c)))"

definition row_context :: "worker_config \<Rightarrow> nat \<Rightarrow> int \<Rightarrow> nat \<Rightarrow> pydict \<Rightarrow> pydict res" where
  "row_context c frame_index base i row =
     with_iteration c (\<lambda>ns. dict_merge ns
       [(wc_iterator c, VDict row), (''_index'', VInt (base + int i)), (''_worker_slot_id'', wc_slot c),
        (''_frame_index'', VInt (int frame_index)), (''_frame_row_index'', VInt (int i))])"

definition frame_context :: "worker_config \<Rightarrow> nat \<Rightarrow> int \<Rightarrow> pydict list \<Rightarrow> pydict res" where
  "frame_context c frame_index base rows =
     (let rs = VList (map VDict rows) in
      rbind (with_iteration c (\<lambda>ns. dict_merge ns
          [(wc_iterator c @ ''_rows'', rs), (wc_iterator c, rs), (''_index'', VInt base),
           (''_worker_slot_id'', wc_slot c), (''_frame_index'', VInt (int frame_index)),
           (''_frame_row_count'', VInt (int (length rows)))])) (\<lambda>ctx.
        Inr (AList.update ''frame'' (VDict
          [(''index'', VInt (int frame_index)), (''base_index'', VInt base),
           (''row_count'', VInt (int (length rows))), (''rows'', rs), (''worker_slot_id'', wc_slot c),
           (''policy'', VDict (wc_policy c))]) ctx)))"

definition run_tasks :: "'w cursor_env \<Rightarrow> worker_config \<Rightarrow> pydict \<Rightarrow> ('w, row_outcome) act" where
  "run_tasks env c ctx =
     catch (wbind (ce_run env (wc_tasks c) ctx) (\<lambda>v. give (outcome_of v))) (\<lambda>e. give failed_outcome)"

definition execute_frame_row ::
    "'w cursor_env \<Rightarrow> worker_config \<Rightarrow> nat \<Rightarrow> int \<Rightarrow> nat \<Rightarrow> pydict \<Rightarrow> ('w, row_outcome) act" where
  "execute_frame_row env c frame_index base i row =
     wbind (lift (row_context c frame_index base i row)) (run_tasks env c)"

definition execute_whole_frame ::
    "'w cursor_env \<Rightarrow> worker_config \<Rightarrow> nat \<Rightarrow> int \<Rightarrow> pydict list \<Rightarrow> ('w, row_outcome) act" where
  "execute_whole_frame env c frame_index base rows =
     wbind (lift (frame_context c frame_index base rows)) (run_tasks env c)"

text \<open>The rows of a frame in order; with \<open>stop\<close> (one row at a time), a break ends them.\<close>

fun execute_rows ::
    "'w cursor_env \<Rightarrow> worker_config \<Rightarrow> bool \<Rightarrow> nat \<Rightarrow> int \<Rightarrow> nat \<Rightarrow> pydict list \<Rightarrow> ('w, row_outcome list) act" where
  "execute_rows env c stop frame_index base i [] w = give [] w"
| "execute_rows env c stop frame_index base i (row # rows) w =
     wbind (execute_frame_row env c frame_index base i row) (\<lambda>r.
       if stop \<and> ro_status r = ''break'' then give [r]
       else wbind (execute_rows env c stop frame_index base (Suc i) rows) (\<lambda>rs. give (r # rs))) w"

definition whole_frame_metrics :: "string \<Rightarrow> int \<Rightarrow> frame_metrics \<Rightarrow> frame_metrics" where
  "whole_frame_metrics status rows m =
     m\<lparr>fx_process := ''frame'', fx_ok := (if status = ''ok'' then rows else 0),
       fx_failed := (if status = ''failed'' then rows else 0),
       fx_break := (if status = ''break'' then rows else 0)\<rparr>"

definition execute_frame ::
    "'w cursor_env \<Rightarrow> worker_config \<Rightarrow> pydict option \<Rightarrow> nat \<Rightarrow> int \<Rightarrow> pydict list \<Rightarrow> ('w, frame_metrics) act" where
  "execute_frame env c runtime_frame frame_index base rows =
     (let n = int (length rows) in
      if wc_process c = ''frame'' then
        wbind (lift (lease_of env c)) (\<lambda>lease.
        wbind (lift (ce_float env (py_or (py_get (wc_policy c) ''heartbeat_seconds'') (VInt 30)))) (\<lambda>_.
        wbind (\<lambda>w. beats env c runtime_frame lease (ce_beats env w) w) (\<lambda>_.
        wbind (execute_whole_frame env c frame_index base rows) (\<lambda>r.
        wbind (lift (aggregate_frame_metrics [r] n 1)) (\<lambda>m.
          give (whole_frame_metrics (ro_status r) n m))))))
      else
        wbind (execute_rows env c (wc_row_concurrency c \<le> 1 \<or> length rows \<le> 1) frame_index base 0 rows) (\<lambda>rs.
          lift (aggregate_frame_metrics rs n (wc_row_concurrency c))))"

section \<open>The loop\<close>

record worker_run =
  wr_processed :: int
  wr_failed :: int
  wr_breaks :: int
  wr_frame_count :: nat
  wr_frames :: "pydict list"
  wr_stopped :: bool

definition captured :: "'w cursor_env \<Rightarrow> worker_config \<Rightarrow> nat \<Rightarrow> pydict list \<Rightarrow> ('w, pydict option) act" where
  "captured env c frame_index rows =
     wbind (store_claimed_frame env c frame_index rows) (\<lambda>meta.
       case meta of
         None \<Rightarrow> give None
       | Some d \<Rightarrow>
           wbind (verify_claimed_frame_ipc env c d rows) (\<lambda>v.
             give (Some (case v of None \<Rightarrow> d | Some x \<Rightarrow> AList.update ''ipc_verification'' (VDict x) d))))"

definition counted :: "worker_run \<Rightarrow> frame_metrics \<Rightarrow> pydict option \<Rightarrow> worker_run" where
  "counted r m meta =
     r\<lparr>wr_failed := wr_failed r + fx_failed m, wr_breaks := wr_breaks r + fx_break m,
       wr_processed := wr_processed r + (fx_ok m + fx_break m), wr_frame_count := wr_frame_count r + 1,
       wr_frames := wr_frames r @ (case meta of None \<Rightarrow> [] | Some d \<Rightarrow> [d]), wr_stopped := 0 < fx_break m\<rparr>"

definition run_frame :: "'w cursor_env \<Rightarrow> worker_config \<Rightarrow> worker_run \<Rightarrow> pydict list \<Rightarrow> ('w, worker_run) act" where
  "run_frame env c r rows =
     (let k = wr_frame_count r; n = length rows in
      wbind (claim_runtime_frame env c k n) (\<lambda>runtime_frame.
      wbind (lift (lease_of env c)) (\<lambda>lease.
      wbind (start_runtime_frame env c runtime_frame lease) (\<lambda>_.
      wbind (captured env c k rows) (\<lambda>meta.
      wbind (execute_frame env c runtime_frame k (wr_processed r + wr_failed r) rows) (\<lambda>m.
        (let is_failed = (0 < fx_failed m);
             meta1 = map_option (AList.update ''metrics'' (VDict (metrics_dict m))) meta in
         wbind (commit_runtime_frame env c runtime_frame n
                  (case meta1 of None \<Rightarrow> VNone | Some d \<Rightarrow> VDict d) is_failed (metrics_dict m))
           (\<lambda>_. give (counted r m meta1)))))))))"

text \<open>\<open>None\<close> is a loop that has run out of fuel.\<close>

fun worker_loop ::
    "nat \<Rightarrow> 'w cursor_env \<Rightarrow> worker_config \<Rightarrow> int \<Rightarrow> worker_run \<Rightarrow> ('w, worker_run option) act" where
  "worker_loop 0 env c limit r w = give None w"
| "worker_loop (Suc fuel) env c limit r w =
     (if \<not> wr_processed r + wr_failed r < limit then give (Some r) w
      else wbind (claim_frame_rows env c (wr_frame_count r) (limit - (wr_processed r + wr_failed r))) (\<lambda>rows.
        if rows = [] then give (Some r)
        else wbind (run_frame env c r rows) (\<lambda>r1.
          if wr_stopped r1 then give (Some r1) else worker_loop fuel env c limit r1)) w)"

definition fresh_run :: worker_run where
  "fresh_run = \<lparr>wr_processed = 0, wr_failed = 0, wr_breaks = 0, wr_frame_count = 0, wr_frames = [],
     wr_stopped = False\<rparr>"

definition worker_result :: "worker_config \<Rightarrow> worker_run \<Rightarrow> pydict" where
  "worker_result c r =
     [(''status'', VStr (if wr_failed r = 0 then ''ok'' else ''partial'')), (''processed'', VInt (wr_processed r)),
      (''failed'', VInt (wr_failed r)), (''breaks'', VInt (wr_breaks r)),
      (''frame_count'', VInt (int (wr_frame_count r))), (''frames'', VList (map VDict (wr_frames r))),
      (''worker_slot_id'', wc_slot c)]"

text \<open>\<open>finally: driver.close(handle)\<close>, whose own exceptions are swallowed.\<close>

definition closing :: "'w cursor_env \<Rightarrow> ('w, 'a) act \<Rightarrow> ('w, 'a) act" where
  "closing env m w = (case m w of (x, w1) \<Rightarrow> (case ce_close env w1 of (_, w2) \<Rightarrow> (x, w2)))"

definition execute_cursor_worker ::
    "nat \<Rightarrow> 'w cursor_env \<Rightarrow> pydict \<Rightarrow> pydict \<Rightarrow> pyval \<Rightarrow> ('w, pydict option) act" where
  "execute_cursor_worker fuel env config context0 slot =
     wbind (lift (read_config env config context0 slot)) (\<lambda>(c, auth, claim).
     wbind (lift (ce_render env claim (claim_context c))) (\<lambda>sql.
     if (case sql of VStr s \<Rightarrow> strip s = [] | _ \<Rightarrow> True)
     then lift (Inl (ValueError ''cursor_worker: claim SQL rendered to empty/non-string value''))
     else
       wbind (ce_credential env auth) (\<lambda>credential.
       if \<not> truthy credential then lift (Inl (ValueError ''cursor_worker: credential not found or empty''))
       else
         wbind (lift (ce_driver env (wc_kind c))) (\<lambda>_.
         wbind (lift (max_iterations c)) (\<lambda>limit.
         wbind (ce_open env credential
             [(''kind'', wc_kind c), (''claim'', sql), (''options'', VDict (wc_options c))]) (\<lambda>_.
         wbind (closing env (worker_loop fuel env c limit fresh_run)) (\<lambda>r.
           give (map_option (worker_result c) r))))))))"

end
