(* ===== verification/Cursor_Worker_Theorems.thy ===== *)
theory Cursor_Worker_Theorems
  imports Cursor_Worker
begin

text \<open>
  What the cursor worker promises: it ends within its cap whatever the driver, the tasks and the
  server do; it counts every row it runs; and over a driver that hands rows out of a queue it runs them
  in order, each once.
\<close>

section \<open>Acts\<close>

lemma wbind_InrE:
  assumes "wbind m f w = (Inr y, w')"
  obtains x w1 where "m w = (Inr x, w1)" and "f x w1 = (Inr y, w')"
  using assms by (auto simp: wbind_def split: prod.splits sum.splits)

lemma give_Inr [simp]: "give x w = (Inr y, w') \<longleftrightarrow> y = x \<and> w' = w"
  by (auto simp: give_def)

lemma lift_Inr [simp]: "lift r w = (Inr y, w') \<longleftrightarrow> r = Inr y \<and> w' = w"
  by (auto simp: lift_def)

section \<open>Counting\<close>

definition fx_rows :: "frame_metrics \<Rightarrow> int" where
  "fx_rows m = fx_ok m + fx_failed m + fx_break m"

definition row_statuses :: "string list" where
  "row_statuses = [''ok'', ''failed'', ''break'']"

lemma outcome_status: "ro_status (outcome_of v) \<in> set row_statuses"
  by (simp add: outcome_of_def frame_sequence_status_def row_statuses_def Let_def split: option.split)

lemma failed_status: "ro_status failed_outcome \<in> set row_statuses"
  by (simp add: failed_outcome_def row_statuses_def)

lemma run_tasks_status:
  "run_tasks env c ctx w = (Inr r, w') \<Longrightarrow> ro_status r \<in> set row_statuses"
  by (auto simp: run_tasks_def catch_def outcome_status failed_status
      split: prod.splits sum.splits elim!: wbind_InrE)

lemma aggregate_row_counts:
  assumes "aggregate_row m r = Inr m'"
  shows "fx_ok m' = fx_ok m + (if ro_status r = ''ok'' then 1 else 0) \<and>
    fx_failed m' = fx_failed m + (if ro_status r = ''failed'' then 1 else 0) \<and>
    fx_break m' = fx_break m + (if ro_status r = ''break'' then 1 else 0)"
proof -
  have "fx_ok m' = fx_ok (count_status (ro_status r) m) \<and> fx_failed m' = fx_failed (count_status (ro_status r) m)
      \<and> fx_break m' = fx_break (count_status (ro_status r) m)"
    using assms by (auto simp: aggregate_row_def Let_def split: option.splits elim!: rbind_InrE)
  then show ?thesis by (simp add: count_status_def)
qed

lemma aggregate_counts:
  "rfold aggregate_row m rs = Inr m' \<Longrightarrow>
   fx_ok m' = fx_ok m + int (length (filter (\<lambda>r. ro_status r = ''ok'') rs)) \<and>
   fx_failed m' = fx_failed m + int (length (filter (\<lambda>r. ro_status r = ''failed'') rs)) \<and>
   fx_break m' = fx_break m + int (length (filter (\<lambda>r. ro_status r = ''break'') rs))"
proof (induction rs arbitrary: m)
  case (Cons r rs)
  then obtain m1 where "aggregate_row m r = Inr m1" "rfold aggregate_row m1 rs = Inr m'"
    by (auto elim: rbind_InrE)
  then show ?case using Cons.IH [of m1] aggregate_row_counts [of m r m1] by simp
qed simp

lemma frame_metrics_counts:
  assumes "aggregate_frame_metrics rs n k = Inr m"
  shows "fx_ok m = int (length (filter (\<lambda>r. ro_status r = ''ok'') rs)) \<and>
    fx_failed m = int (length (filter (\<lambda>r. ro_status r = ''failed'') rs)) \<and>
    fx_break m = int (length (filter (\<lambda>r. ro_status r = ''break'') rs))"
  using aggregate_counts [OF assms [unfolded aggregate_frame_metrics_def]]
  by (simp add: empty_frame_metrics_def)

lemma status_partition:
  "list_all (\<lambda>r. ro_status r \<in> set row_statuses) rs \<Longrightarrow>
   int (length (filter (\<lambda>r. ro_status r = ''ok'') rs)) + int (length (filter (\<lambda>r. ro_status r = ''failed'') rs))
   + int (length (filter (\<lambda>r. ro_status r = ''break'') rs)) = int (length rs)"
  by (induction rs) (auto simp: row_statuses_def)

lemma execute_rows_statuses:
  "execute_rows env c stop k base i rows w = (Inr rs, w') \<Longrightarrow>
   list_all (\<lambda>r. ro_status r \<in> set row_statuses) rs \<and> length rs \<le> length rows \<and>
   (rows \<noteq> [] \<longrightarrow> rs \<noteq> [])"
proof (induction rows arbitrary: i w w' rs)
  case (Cons row rows)
  from Cons.prems obtain r w1 where r: "execute_frame_row env c k base i row w = (Inr r, w1)"
    and rest: "(if stop \<and> ro_status r = ''break'' then give [r]
       else wbind (execute_rows env c stop k base (Suc i) rows) (\<lambda>rs. give (r # rs))) w1 = (Inr rs, w')"
    by (auto elim: wbind_InrE)
  have st: "ro_status r \<in> set row_statuses"
    using r run_tasks_status by (fastforce simp: execute_frame_row_def elim!: wbind_InrE)
  show ?case
  proof (cases "stop \<and> ro_status r = ''break''")
    case True
    then show ?thesis using rest st by simp
  next
    case False
    then obtain rs' w2 where e: "execute_rows env c stop k base (Suc i) rows w1 = (Inr rs', w2)" "rs = r # rs'"
      using rest by (auto elim!: wbind_InrE)
    then show ?thesis using Cons.IH [OF e(1)] st by simp
  qed
qed simp

lemma execute_frame_counts:
  assumes "execute_frame env c f k base rows w = (Inr m, w')" and "rows \<noteq> []"
  shows "0 \<le> fx_ok m \<and> 0 \<le> fx_failed m \<and> 0 \<le> fx_break m \<and> 1 \<le> fx_rows m \<and> fx_rows m \<le> int (length rows)"
proof (cases "wc_process c = ''frame''")
  case True
  then obtain r m0 w1 w2 where r: "execute_whole_frame env c k base rows w1 = (Inr r, w2)"
    and m: "m = whole_frame_metrics (ro_status r) (int (length rows)) m0"
    using assms(1) by (auto simp: execute_frame_def Let_def elim!: wbind_InrE)
  have st: "ro_status r \<in> set row_statuses"
    using r run_tasks_status by (fastforce simp: execute_whole_frame_def elim!: wbind_InrE)
  have "1 \<le> int (length rows)" using assms(2) by (cases rows) simp_all
  then show ?thesis using st m by (auto simp: whole_frame_metrics_def fx_rows_def row_statuses_def)
next
  case False
  then obtain rs w1 where rs: "execute_rows env c (wc_row_concurrency c \<le> 1 \<or> length rows \<le> 1) k base 0 rows w = (Inr rs, w1)"
    and m: "aggregate_frame_metrics rs (int (length rows)) (wc_row_concurrency c) = Inr m"
    using assms(1) by (auto simp: execute_frame_def Let_def elim!: wbind_InrE)
  have s: "list_all (\<lambda>r. ro_status r \<in> set row_statuses) rs" "length rs \<le> length rows" "rs \<noteq> []"
    using execute_rows_statuses [OF rs] assms(2) by auto
  have "1 \<le> int (length rs)" using s(3) by (cases rs) simp_all
  then show ?thesis
    using frame_metrics_counts [OF m] status_partition [OF s(1)] s(2) by (simp add: fx_rows_def)
qed

lemma run_frame_Inr:
  assumes "run_frame env c r rows w = (Inr r1, w')"
  obtains f m meta w0 w1 where
    "execute_frame env c f (wr_frame_count r) (wr_processed r + wr_failed r) rows w0 = (Inr m, w1)"
    and "r1 = counted r m meta"
  using assms by (auto simp: run_frame_def Let_def elim!: wbind_InrE)

lemma claim_rows_length: "claim_rows env c k target i n w = (Inr rows, w') \<Longrightarrow> length rows \<le> n"
proof (induction n arbitrary: i w rows)
  case (Suc n)
  then show ?case by (fastforce split: option.splits elim!: wbind_InrE)
qed simp

lemma claim_frame_rows_length:
  assumes "claim_frame_rows env c k remaining w = (Inr rows, w')" and "0 < remaining"
  shows "int (length rows) \<le> remaining"
proof -
  let ?t = "nat (max 1 (min (wc_max_rows c) remaining))"
  have "length rows \<le> ?t"
    using assms by (auto simp: claim_frame_rows_def Let_def split: option.splits elim!: wbind_InrE
        dest: claim_rows_length)
  then show ?thesis using assms(2) by linarith
qed

section \<open>The loop ends\<close>

definition rows_run :: "worker_run \<Rightarrow> int" where
  "rows_run r = wr_processed r + wr_failed r"

lemma run_frame_progress:
  assumes "run_frame env c r rows w = (Inr r1, w')" and "rows \<noteq> []"
  shows "rows_run r + 1 \<le> rows_run r1 \<and> rows_run r1 \<le> rows_run r + int (length rows) \<and>
    wr_frame_count r1 = wr_frame_count r + 1 \<and> wr_failed r \<le> wr_failed r1 \<and> wr_processed r \<le> wr_processed r1"
proof -
  obtain f m meta w0 w1 where e: "execute_frame env c f (wr_frame_count r) (wr_processed r + wr_failed r) rows w0 = (Inr m, w1)"
    and r1: "r1 = counted r m meta"
    using run_frame_Inr [OF assms(1)] by metis
  show ?thesis using execute_frame_counts [OF e assms(2)] r1
    by (simp add: counted_def rows_run_def fx_rows_def)
qed

lemma worker_loop_ends:
  assumes "max 0 (limit - rows_run r) < int fuel" and "worker_loop fuel env c limit r w = (Inr x, w')"
  shows "\<exists>r'. x = Some r' \<and> rows_run r \<le> rows_run r' \<and> rows_run r' \<le> max (rows_run r) limit \<and>
    int (wr_frame_count r') - int (wr_frame_count r) \<le> rows_run r' - rows_run r"
  using assms
proof (induction fuel arbitrary: r w)
  case 0
  then show ?case by simp
next
  case (Suc fuel)
  show ?case
  proof (cases "rows_run r < limit")
    case False
    then show ?thesis using Suc.prems by (simp add: rows_run_def)
  next
    case True
    note True0 = True
    obtain rows w1 where rows: "claim_frame_rows env c (wr_frame_count r) (limit - rows_run r) w = (Inr rows, w1)"
      and rest: "(if rows = [] then give (Some r)
        else wbind (run_frame env c r rows) (\<lambda>r1.
          if wr_stopped r1 then give (Some r1) else worker_loop fuel env c limit r1)) w1 = (Inr x, w')"
      using Suc.prems(2) True by (auto simp: rows_run_def elim: wbind_InrE)
    show ?thesis
    proof (cases "rows = []")
      case True
      then show ?thesis using rest by simp
    next
      case ne: False
      obtain r1 w2 where r1: "run_frame env c r rows w1 = (Inr r1, w2)"
        and k: "(if wr_stopped r1 then give (Some r1) else worker_loop fuel env c limit r1) w2 = (Inr x, w')"
        using rest ne by (auto elim!: wbind_InrE)
      have p: "rows_run r + 1 \<le> rows_run r1" "rows_run r1 \<le> limit" "wr_frame_count r1 = wr_frame_count r + 1"
        using run_frame_progress [OF r1 ne] claim_frame_rows_length [OF rows] True by auto
      show ?thesis
      proof (cases "wr_stopped r1")
        case True
        then show ?thesis using k p by simp
      next
        case False
        have "max 0 (limit - rows_run r1) < int fuel" using Suc.prems(1) p(1) True0 by linarith
        then obtain r' where "x = Some r'" "rows_run r1 \<le> rows_run r'" "rows_run r' \<le> max (rows_run r1) limit"
          "int (wr_frame_count r') - int (wr_frame_count r1) \<le> rows_run r' - rows_run r1"
          using Suc.IH k False by auto
        then show ?thesis using p by auto
      qed
    qed
  qed
qed

lemma worker_loop_nonneg:
  "worker_loop fuel env c limit r w = (Inr (Some r'), w') \<Longrightarrow>
   wr_processed r \<le> wr_processed r' \<and> wr_failed r \<le> wr_failed r'"
proof (induction fuel arbitrary: r w)
  case (Suc fuel)
  show ?case
  proof (cases "rows_run r < limit")
    case False
    then show ?thesis using Suc.prems by (simp add: rows_run_def)
  next
    case True
    obtain rows w1 where rest: "(if rows = [] then give (Some r)
        else wbind (run_frame env c r rows) (\<lambda>r1.
          if wr_stopped r1 then give (Some r1) else worker_loop fuel env c limit r1)) w1 = (Inr (Some r'), w')"
      using Suc.prems True by (auto simp: rows_run_def elim: wbind_InrE)
    show ?thesis
    proof (cases "rows = []")
      case ne: False
      obtain r1 w2 where r1: "run_frame env c r rows w1 = (Inr r1, w2)"
        and k: "(if wr_stopped r1 then give (Some r1) else worker_loop fuel env c limit r1) w2 = (Inr (Some r'), w')"
        using rest ne by (auto elim!: wbind_InrE)
      show ?thesis using run_frame_progress [OF r1 ne] Suc.IH [of r1 w2] k
        by (cases "wr_stopped r1") auto
    qed (use rest in simp)
  qed
qed simp

lemma closing_Inr: "closing env m w = (Inr y, w') \<Longrightarrow> \<exists>w1. m w = (Inr y, w1)"
  by (auto simp: closing_def split: prod.splits)

lemma execute_cursor_worker_Inr:
  assumes "execute_cursor_worker fuel env config context0 slot w = (Inr x, w')"
  obtains c auth claim limit r w0 w1 where "read_config env config context0 slot = Inr (c, auth, claim)"
    and "max_iterations c = Inr limit" and "worker_loop fuel env c limit fresh_run w0 = (Inr r, w1)"
    and "x = map_option (worker_result c) r"
proof -
  obtain c auth claim sql wa where c: "read_config env config context0 slot = Inr (c, auth, claim)"
    and sql: "(if (case sql of VStr s \<Rightarrow> strip s = [] | _ \<Rightarrow> True)
     then lift (Inl (ValueError ''cursor_worker: claim SQL rendered to empty/non-string value''))
     else wbind (ce_credential env auth) (\<lambda>credential.
       if \<not> truthy credential then lift (Inl (ValueError ''cursor_worker: credential not found or empty''))
       else
         wbind (lift (ce_driver env (wc_kind c))) (\<lambda>_.
         wbind (lift (max_iterations c)) (\<lambda>limit.
         wbind (ce_open env credential
             [(''kind'', wc_kind c), (''claim'', sql), (''options'', VDict (wc_options c))]) (\<lambda>_.
         wbind (closing env (worker_loop fuel env c limit fresh_run)) (\<lambda>r.
           give (map_option (worker_result c) r))))))) wa = (Inr x, w')"
    using assms by (auto simp: execute_cursor_worker_def elim!: wbind_InrE)
  obtain cr wb where "(if \<not> truthy cr then lift (Inl (ValueError ''cursor_worker: credential not found or empty''))
       else
         wbind (lift (ce_driver env (wc_kind c))) (\<lambda>_.
         wbind (lift (max_iterations c)) (\<lambda>limit.
         wbind (ce_open env cr
             [(''kind'', wc_kind c), (''claim'', sql), (''options'', VDict (wc_options c))]) (\<lambda>_.
         wbind (closing env (worker_loop fuel env c limit fresh_run)) (\<lambda>r.
           give (map_option (worker_result c) r)))))) wb = (Inr x, w')"
    using sql by (cases "case sql of VStr s \<Rightarrow> strip s = [] | _ \<Rightarrow> True") (auto elim: wbind_InrE)
  then have "wbind (lift (ce_driver env (wc_kind c))) (\<lambda>_.
         wbind (lift (max_iterations c)) (\<lambda>limit.
         wbind (ce_open env cr
             [(''kind'', wc_kind c), (''claim'', sql), (''options'', VDict (wc_options c))]) (\<lambda>_.
         wbind (closing env (worker_loop fuel env c limit fresh_run)) (\<lambda>r.
           give (map_option (worker_result c) r))))) wb = (Inr x, w')"
    by (cases "truthy cr") simp_all
  then obtain limit w0 r w1 where "max_iterations c = Inr limit"
    "closing env (worker_loop fuel env c limit fresh_run) w0 = (Inr r, w1)" "x = map_option (worker_result c) r"
    by (auto elim!: wbind_InrE)
  then show thesis using that c closing_Inr by metis
qed

text \<open>
  C15. The cursor worker always comes to an end, and within its cap: with fuel above the limit of
  iterations its loop never runs dry, whatever the driver hands out and whatever becomes of the
  tasks, the payload store and the server; the rows it has run, failed ones included, are at most the
  limit, it has made no more frames than it has run rows, and it reports \<open>ok\<close> exactly when none
  failed.
\<close>
theorem cursor_worker_ends:
  assumes "execute_cursor_worker fuel env config context0 slot w = (Inr x, w')"
    and "read_config env config context0 slot = Inr (c, auth, claim)" and "max_iterations c = Inr limit"
    and "max 0 limit < int fuel"
  shows "\<exists>r. x = Some (worker_result c r) \<and> 0 \<le> wr_processed r \<and> 0 \<le> wr_failed r \<and>
    wr_processed r + wr_failed r \<le> max 0 limit \<and>
    int (wr_frame_count r) \<le> wr_processed r + wr_failed r \<and>
    (py_get (worker_result c r) ''status'' = VStr ''ok'' \<longleftrightarrow> wr_failed r = 0)"
proof -
  obtain r w0 w1 where l: "worker_loop fuel env c limit fresh_run w0 = (Inr r, w1)"
    and x: "x = map_option (worker_result c) r"
    using execute_cursor_worker_Inr [OF assms(1)] assms(2,3) by (metis Pair_inject sum.inject(2))
  have z: "rows_run fresh_run = 0" "wr_frame_count fresh_run = 0" by (simp_all add: rows_run_def fresh_run_def)
  obtain r' where r': "r = Some r'" "rows_run r' \<le> max 0 limit" "int (wr_frame_count r') \<le> rows_run r'"
    using worker_loop_ends [OF _ l] assms(4) z by auto
  have "0 \<le> wr_processed r' \<and> 0 \<le> wr_failed r'"
    using worker_loop_nonneg [OF l [unfolded r'(1)]] by (simp add: fresh_run_def)
  then show ?thesis using r' x by (auto simp: rows_run_def worker_result_def)
qed

section \<open>Draining a queue\<close>

text \<open>
  What the worker relies on: the driver hands out the rows of a queue (\<open>pending\<close>) and takes them off
  it, the executor runs the pipeline on the row bound to the iterator (\<open>executed\<close>), and the lease
  calls and the payload store touch neither.
\<close>

definition bystander :: "('w \<Rightarrow> pydict list) \<Rightarrow> ('w \<Rightarrow> pyval list) \<Rightarrow> ('w, 'a) act \<Rightarrow> bool" where
  "bystander pending executed m = (\<forall>w. pending (snd (m w)) = pending w \<and> executed (snd (m w)) = executed w)"

definition queue_contract ::
    "'w cursor_env \<Rightarrow> string \<Rightarrow> ('w \<Rightarrow> pydict list) \<Rightarrow> ('w \<Rightarrow> pyval list) \<Rightarrow> bool" where
  "queue_contract env it pending executed =
     ((\<forall>ctx w. \<exists>w'. ce_claim env ctx w =
          (Inr (case pending w of [] \<Rightarrow> None | x # xs \<Rightarrow> Some x), w') \<and>
        pending w' = tl (pending w) \<and> executed w' = executed w) \<and>
      (\<forall>f ctx n w. ce_claim_many env = Some f \<longrightarrow> (\<exists>w'. f ctx n w = (Inr (take n (pending w)), w') \<and>
        pending w' = drop n (pending w) \<and> executed w' = executed w)) \<and>
      (\<forall>ts ctx w. pending (snd (ce_run env ts ctx w)) = pending w \<and>
        executed (snd (ce_run env ts ctx w)) =
          executed w @ [py_get (dict_or_empty (py_get ctx ''iter'')) it]) \<and>
      (\<forall>v. bystander pending executed (ce_credential env v)) \<and>
      (\<forall>v d. bystander pending executed (ce_open env v d)) \<and> bystander pending executed (ce_close env) \<and>
      (\<forall>i p. bystander pending executed (ce_post_claim env i p)) \<and>
      (\<forall>i p. bystander pending executed (ce_post_heartbeat env i p)) \<and>
      (\<forall>i p. bystander pending executed (ce_post_commit env i p)) \<and>
      (\<forall>a rs. bystander pending executed (ce_put env a rs)) \<and>
      (\<forall>v. bystander pending executed (ce_resolve env v)) \<and> (\<forall>v. bystander pending executed (ce_evict env v)))"

lemma bystander_at:
  "bystander p x m \<Longrightarrow> m w = (r, w') \<Longrightarrow> p w' = p w \<and> x w' = x w"
  unfolding bystander_def by (metis snd_conv)

lemma bystander_give [simp]: "bystander p x (give v)"
  by (simp add: bystander_def give_def)

lemma bystander_lift [simp]: "bystander p x (lift v)"
  by (simp add: bystander_def lift_def)

lemma bystander_wbind:
  assumes "bystander p x m" and "\<And>v. bystander p x (f v)"
  shows "bystander p x (wbind m f)"
proof -
  have "p (snd (wbind m f w)) = p w \<and> x (snd (wbind m f w)) = x w" for w
  proof -
    obtain r w1 where m: "m w = (r, w1)" by (cases "m w")
    have "p w1 = p w \<and> x w1 = x w" using bystander_at [OF assms(1) m] .
    then show ?thesis using assms(2) m by (cases r) (simp_all add: wbind_def bystander_def)
  qed
  then show ?thesis by (simp add: bystander_def)
qed

lemma bystander_catch:
  assumes "bystander p x m" and "\<And>e. bystander p x (h e)"
  shows "bystander p x (catch m h)"
proof -
  have "p (snd (catch m h w)) = p w \<and> x (snd (catch m h w)) = x w" for w
  proof -
    obtain r w1 where m: "m w = (r, w1)" by (cases "m w")
    have "p w1 = p w \<and> x w1 = x w" using bystander_at [OF assms(1) m] .
    then show ?thesis using assms(2) m by (cases r) (simp_all add: catch_def bystander_def)
  qed
  then show ?thesis by (simp add: bystander_def)
qed

lemma bystander_guarded:
  assumes "bystander p x m" and "\<And>v. bystander p x (k v)"
  shows "bystander p x (guarded d m k)"
proof -
  have "p (snd (guarded d m k w)) = p w \<and> x (snd (guarded d m k w)) = x w" for w
  proof -
    obtain r w1 where m: "m w = (r, w1)" by (cases "m w")
    have "p w1 = p w \<and> x w1 = x w" using bystander_at [OF assms(1) m] .
    then show ?thesis using assms(2) m by (cases r) (simp_all add: guarded_def bystander_def)
  qed
  then show ?thesis by (simp add: bystander_def)
qed

lemma bystander_retry:
  assumes "bystander p x m"
  shows "bystander p x (retry n m)"
proof -
  have "p (snd (retry n m w)) = p w \<and> x (snd (retry n m w)) = x w" for w
  proof (induction n arbitrary: w)
    case 0
    then show ?case using assms by (simp add: bystander_def)
  next
    case (Suc n)
    obtain r w1 where m: "m w = (r, w1)" by (cases "m w")
    have "p w1 = p w \<and> x w1 = x w" using bystander_at [OF assms m] .
    then show ?case using Suc.IH [of w1] m by (cases r) simp_all
  qed
  then show ?thesis by (simp add: bystander_def)
qed

lemmas bystander_intros = bystander_wbind bystander_catch bystander_guarded bystander_retry

lemma bystander_post_heartbeat: "queue_contract env it p x \<Longrightarrow> bystander p x (post_heartbeat env c f l n)"
  by (auto simp: post_heartbeat_def queue_contract_def intro!: bystander_intros)

lemma bystander_claim_runtime_frame: "queue_contract env it p x \<Longrightarrow> bystander p x (claim_runtime_frame env c k n)"
  by (auto simp: claim_runtime_frame_def queue_contract_def intro!: bystander_intros)

lemma bystander_commit_runtime_frame:
  "queue_contract env it p x \<Longrightarrow> bystander p x (commit_runtime_frame env c f n ref b m)"
  by (auto simp: commit_runtime_frame_def queue_contract_def intro!: bystander_intros)

lemma bystander_start_runtime_frame: "queue_contract env it p x \<Longrightarrow> bystander p x (start_runtime_frame env c f l)"
  by (simp add: start_runtime_frame_def bystander_post_heartbeat)

lemma bystander_captured:
  assumes "queue_contract env it p x"
  shows "bystander p x (captured env c k rows)"
proof -
  have q: "bystander p x (ce_put env a rs)" "bystander p x (ce_resolve env v)" "bystander p x (ce_evict env v)" for a rs v
    using assms by (simp_all add: queue_contract_def)
  have s: "bystander p x (store_claimed_frame env c k rows)"
    by (auto simp: store_claimed_frame_def intro!: bystander_intros q split: prod.split)
  have e: "bystander p x (evict_hint env v)" for v
    by (auto simp: evict_hint_def intro!: bystander_intros q)
  have r: "bystander p x (verify_reads env d rs f)" for d rs f
    unfolding verify_reads_def Let_def by (intro bystander_intros q e bystander_give)
  have v: "bystander p x (verify_claimed_frame_ipc env c d rs)" for d rs
    by (auto simp: verify_claimed_frame_ipc_def intro!: bystander_intros r split: option.split)
  show ?thesis unfolding captured_def
    by (rule bystander_wbind [OF s]) (auto intro!: bystander_intros v split: option.split)
qed

text \<open>The names a row's context binds besides the iterator.\<close>

definition iteration_names :: "string set" where
  "iteration_names = {''_index'', ''_worker_slot_id'', ''_frame_index'', ''_frame_row_index''}"

lemma row_context_iterator:
  assumes "row_context c k base i row = Inr ctx" and "wc_iterator c \<notin> iteration_names"
  shows "py_get (dict_or_empty (py_get ctx ''iter'')) (wc_iterator c) = VDict row"
proof -
  obtain ns where "ctx = AList.update ''iter'' (VDict (dict_merge ns
       [(wc_iterator c, VDict row), (''_index'', VInt (base + int i)), (''_worker_slot_id'', wc_slot c),
        (''_frame_index'', VInt (int k)), (''_frame_row_index'', VInt (int i))])) (wc_context c)"
    using assms(1) by (auto simp: row_context_def with_iteration_def elim!: rbind_InrE)
  then show ?thesis using assms(2)
    by (simp add: py_get_def dict_or_empty_def map_of_merge iteration_names_def)
qed

lemma execute_frame_row_executed:
  assumes "queue_contract env (wc_iterator c) p x" and "wc_iterator c \<notin> iteration_names"
    and "execute_frame_row env c k base i row w = (Inr r, w')"
  shows "p w' = p w \<and> x w' = x w @ [VDict row]"
proof -
  obtain ctx where ctx: "row_context c k base i row = Inr ctx" and r: "run_tasks env c ctx w = (Inr r, w')"
    using assms(3) by (auto simp: execute_frame_row_def elim!: wbind_InrE)
  obtain v w1 where v: "ce_run env (wc_tasks c) ctx w = (v, w1)" by (cases "ce_run env (wc_tasks c) ctx w")
  have "pending' = p w" "executed' = x w @ [VDict row]"
    if "pending' = p (snd (ce_run env (wc_tasks c) ctx w))"
      "executed' = x (snd (ce_run env (wc_tasks c) ctx w))" for pending' executed'
    using assms(1) row_context_iterator [OF ctx assms(2)] that by (simp_all add: queue_contract_def)
  then have "p w1 = p w \<and> x w1 = x w @ [VDict row]" using v by simp
  moreover have "w' = w1"
    using r v by (cases v) (auto simp: run_tasks_def catch_def wbind_def give_def)
  ultimately show ?thesis by simp
qed

lemma execute_rows_executed:
  assumes "queue_contract env (wc_iterator c) p x" and "wc_iterator c \<notin> iteration_names"
    and "execute_rows env c stop k base i rows w = (Inr rs, w')"
  shows "p w' = p w \<and> x w' = x w @ map VDict (take (length rs) rows) \<and>
    (list_ex (\<lambda>r. ro_status r = ''break'') rs \<or> length rs = length rows)"
  using assms(3)
proof (induction rows arbitrary: i w rs w')
  case (Cons row rows)
  from Cons.prems obtain r w1 where r: "execute_frame_row env c k base i row w = (Inr r, w1)"
    and rest: "(if stop \<and> ro_status r = ''break'' then give [r]
       else wbind (execute_rows env c stop k base (Suc i) rows) (\<lambda>rs. give (r # rs))) w1 = (Inr rs, w')"
    by (auto elim: wbind_InrE)
  note e = execute_frame_row_executed [OF assms(1,2) r]
  show ?case
  proof (cases "stop \<and> ro_status r = ''break''")
    case True
    then show ?thesis using rest e by simp
  next
    case False
    then obtain rs' w2 where rs: "execute_rows env c stop k base (Suc i) rows w1 = (Inr rs', w2)"
      "rs = r # rs'" "w' = w2"
      using rest by (auto elim!: wbind_InrE)
    then show ?thesis using Cons.IH [OF rs(1)] e by auto
  qed
qed simp

lemma claim_rows_taken:
  assumes "queue_contract env it p x"
  shows "claim_rows env c k target i n w = (Inr rows, w') \<Longrightarrow>
    rows = take n (p w) \<and> p w' = drop n (p w) \<and> x w' = x w"
proof (induction n arbitrary: i w rows w')
  case (Suc n)
  obtain w1 where c: "ce_claim env (row_claim_context c k i target) w =
      (Inr (case p w of [] \<Rightarrow> None | y # ys \<Rightarrow> Some y), w1)" "p w1 = tl (p w)" "x w1 = x w"
    using assms unfolding queue_contract_def by meson
  show ?case
  proof (cases "p w")
    case Nil
    then show ?thesis using Suc.prems c by (simp add: wbind_def)
  next
    case (Cons y ys)
    then obtain rs w2 where "claim_rows env c k target (Suc i) n w1 = (Inr rs, w2)" "rows = y # rs" "w' = w2"
    proof -
      have "wbind (claim_rows env c k target (Suc i) n) (\<lambda>rs. give (y # rs)) w1 = (Inr rows, w')"
        using Suc.prems c(1) Cons by (simp add: wbind_def [of "ce_claim env (row_claim_context c k i target)"])
      then show thesis using that by (auto elim!: wbind_InrE)
    qed
    then show ?thesis using Suc.IH c Cons by fastforce
  qed
qed simp

lemma claim_frame_rows_taken:
  assumes "queue_contract env it p x" and "claim_frame_rows env c k remaining w = (Inr rows, w')"
    and "0 < remaining"
  shows "\<exists>n > 0. rows = take n (p w) \<and> p w' = drop n (p w) \<and> x w' = x w"
proof -
  let ?t = "nat (max 1 (min (wc_max_rows c) remaining))"
  have t: "0 < ?t" by simp
  show ?thesis
  proof (cases "ce_claim_many env")
    case None
    then have "claim_rows env c k ?t 0 ?t w = (Inr rows, w')"
      using assms(2,3) by (simp add: claim_frame_rows_def Let_def)
    then show ?thesis using claim_rows_taken [OF assms(1)] t by blast
  next
    case (Some f)
    obtain w1 where f: "f (row_claim_context c k 0 ?t) ?t w = (Inr (take ?t (p w)), w1)"
      "p w1 = drop ?t (p w)" "x w1 = x w"
      using assms(1) Some unfolding queue_contract_def by meson
    then have "rows = take ?t (p w)" "w' = w1"
      using assms(2,3) Some by (auto simp: claim_frame_rows_def Let_def wbind_def)
    then show ?thesis using f t by blast
  qed
qed

lemma run_frame_executed:
  assumes "queue_contract env (wc_iterator c) p x" and "wc_iterator c \<notin> iteration_names"
    and "wc_process c \<noteq> ''frame''" and "run_frame env c r rows w = (Inr r1, w')" and "rows \<noteq> []"
  shows "\<exists>n \<le> length rows. p w' = p w \<and> x w' = x w @ map VDict (take n rows) \<and>
    rows_run r1 = rows_run r + int n \<and> (wr_stopped r1 \<or> n = length rows)"
proof -
  obtain f m meta w1 w2 lease wa wb wc where
    a: "claim_runtime_frame env c (wr_frame_count r) (length rows) w = (Inr f, wa)"
    and b: "start_runtime_frame env c f lease wa = (Inr (), wb)"
    and cap: "\<exists>v. captured env c (wr_frame_count r) rows wb = (Inr v, wc)"
    and e: "execute_frame env c f (wr_frame_count r) (wr_processed r + wr_failed r) rows wc = (Inr m, w1)"
    and z: "\<exists>ref b ms. commit_runtime_frame env c f (length rows) ref b ms w1 = (Inr (), w2)"
    and r1: "r1 = counted r m meta" "w' = w2"
    using assms(4) unfolding run_frame_def Let_def by (elim wbind_InrE) (simp, metis)
  have 1: "p wa = p w \<and> x wa = x w" using bystander_at [OF bystander_claim_runtime_frame [OF assms(1)] a] .
  have 2: "p wb = p wa \<and> x wb = x wa" using bystander_at [OF bystander_start_runtime_frame [OF assms(1)] b] .
  have 3: "p wc = p wb \<and> x wc = x wb" using cap bystander_at [OF bystander_captured [OF assms(1)]] by blast
  have 4: "p w2 = p w1 \<and> x w2 = x w1"
    using z bystander_at [OF bystander_commit_runtime_frame [OF assms(1)]] by blast
  obtain rs where rs: "execute_rows env c (wc_row_concurrency c \<le> 1 \<or> length rows \<le> 1) (wr_frame_count r)
      (wr_processed r + wr_failed r) 0 rows wc = (Inr rs, w1)"
    and agg: "aggregate_frame_metrics rs (int (length rows)) (wc_row_concurrency c) = Inr m"
    using e assms(3) by (auto simp: execute_frame_def Let_def elim!: wbind_InrE)
  have ex: "p w1 = p wc" "x w1 = x wc @ map VDict (take (length rs) rows)"
    "list_ex (\<lambda>r. ro_status r = ''break'') rs \<or> length rs = length rows"
    using execute_rows_executed [OF assms(1,2) rs] by auto
  have st: "list_all (\<lambda>r. ro_status r \<in> set row_statuses) rs" "length rs \<le> length rows"
    using execute_rows_statuses [OF rs] by auto
  have m: "fx_ok m + fx_failed m + fx_break m = int (length rs)"
    "fx_break m = int (length (filter (\<lambda>r. ro_status r = ''break'') rs))"
    using frame_metrics_counts [OF agg] status_partition [OF st(1)] by auto
  have "0 < fx_break m" if "list_ex (\<lambda>r. ro_status r = ''break'') rs"
    using that m(2) by (auto simp: list_ex_iff length_pos_if_in_set filter_empty_conv)
  then have "wr_stopped r1 \<or> length rs = length rows" using ex(3) r1 by (auto simp: counted_def)
  moreover have "rows_run r1 = rows_run r + int (length rs)"
    using m(1) r1 by (simp add: rows_run_def counted_def)
  ultimately show ?thesis using 1 2 3 4 ex st(2) r1(2) by (intro exI [of _ "length rs"]) simp
qed

lemma worker_loop_executed:
  assumes "queue_contract env (wc_iterator c) p x" and "wc_iterator c \<notin> iteration_names"
    and "wc_process c \<noteq> ''frame''"
  shows "worker_loop fuel env c limit r w = (Inr (Some r'), w') \<Longrightarrow> \<not> wr_stopped r \<Longrightarrow>
    \<exists>n m. n \<le> m \<and> x w' = x w @ map VDict (take n (p w)) \<and> p w' = drop m (p w) \<and>
      n \<le> length (p w) \<and> rows_run r' = rows_run r + int n \<and>
      (wr_stopped r' \<or> (n = m \<and> (rows_run r' < limit \<longrightarrow> p w' = [])))"
proof (induction fuel arbitrary: r w)
  case (Suc fuel)
  show ?case
  proof (cases "rows_run r < limit")
    case False
    then have "r' = r" "w' = w" using Suc.prems by (simp_all add: rows_run_def)
    then show ?thesis using False by (intro exI [of _ 0]) simp
  next
    case True
    obtain rows w1 where rows: "claim_frame_rows env c (wr_frame_count r) (limit - rows_run r) w = (Inr rows, w1)"
      and rest: "(if rows = [] then give (Some r)
        else wbind (run_frame env c r rows) (\<lambda>r1.
          if wr_stopped r1 then give (Some r1) else worker_loop fuel env c limit r1)) w1 = (Inr (Some r'), w')"
      using Suc.prems(1) True by (auto simp: rows_run_def elim: wbind_InrE)
    obtain t where t: "0 < t" "rows = take t (p w)" "p w1 = drop t (p w)" "x w1 = x w"
      using claim_frame_rows_taken [OF assms(1) rows] True by auto
    show ?thesis
    proof (cases "rows = []")
      case e: True
      then have "r' = r" "w' = w1" using rest by simp_all
      moreover have "p w = []" using e t(1,2) by simp
      ultimately show ?thesis using t by (intro exI [of _ 0]) simp
    next
      case ne: False
      obtain r1 w2 where r1: "run_frame env c r rows w1 = (Inr r1, w2)"
        and k: "(if wr_stopped r1 then give (Some r1) else worker_loop fuel env c limit r1) w2 = (Inr (Some r'), w')"
        using rest ne by (auto elim!: wbind_InrE)
      obtain n where n: "n \<le> length rows" "p w2 = p w1" "x w2 = x w1 @ map VDict (take n rows)"
        "rows_run r1 = rows_run r + int n" "wr_stopped r1 \<or> n = length rows"
        using run_frame_executed [OF assms r1 ne] by blast
      have nt: "n \<le> t" using n(1) t(2) by simp
      then have tn: "take n rows = take n (p w)" using t(2) by (simp add: min_def)
      have lr: "length rows \<le> length (p w)" using t(2) by simp
      show ?thesis
      proof (cases "wr_stopped r1")
        case True
        then have "r' = r1" "w' = w2" using k by simp_all
        then show ?thesis using n t tn lr True
          by (intro exI [of _ n] exI [of _ t]) (simp add: nt)
      next
        case False
        then have full: "n = length rows" using n(5) by simp
        have loop: "worker_loop fuel env c limit r1 w2 = (Inr (Some r'), w')" using k False by simp
        obtain n' m' where h: "n' \<le> m'" "x w' = x w2 @ map VDict (take n' (p w2))" "p w' = drop m' (p w2)"
          "n' \<le> length (p w2)" "rows_run r' = rows_run r1 + int n'"
          "wr_stopped r' \<or> (n' = m' \<and> (rows_run r' < limit \<longrightarrow> p w' = []))"
          using Suc.IH [OF loop False] by blast
        have len: "p w2 = drop n (p w)" using n(2) t(2,3) full by (simp add: min_def)
        have "x w' = x w @ map VDict (take (n + n') (p w))"
          using h(2) n(3) tn t(4) len by (simp add: take_add)
        moreover have "p w' = drop (n + m') (p w)" using h(3) len by (simp add: add.commute)
        moreover have "n + n' \<le> length (p w)" using h(4) len lr full by simp
        ultimately show ?thesis using h n(4)
          by (intro exI [of _ "n + n'"] exI [of _ "n + m'"]) auto
      qed
    qed
  qed
qed simp

lemma run_frame_breaks:
  assumes "run_frame env c r rows w = (Inr r1, w')" and "rows \<noteq> []"
  shows "wr_breaks r \<le> wr_breaks r1 \<and> (wr_stopped r1 \<longrightarrow> wr_breaks r < wr_breaks r1)"
proof -
  obtain f m meta w0 w1 where e: "execute_frame env c f (wr_frame_count r) (wr_processed r + wr_failed r) rows w0 = (Inr m, w1)"
    and r1: "r1 = counted r m meta"
    using run_frame_Inr [OF assms(1)] by metis
  show ?thesis using execute_frame_counts [OF e assms(2)] r1 by (simp add: counted_def)
qed

lemma worker_loop_breaks:
  "worker_loop fuel env c limit r w = (Inr (Some r'), w') \<Longrightarrow> \<not> wr_stopped r \<Longrightarrow> 0 \<le> wr_breaks r \<Longrightarrow>
   wr_stopped r' \<Longrightarrow> 0 < wr_breaks r'"
proof (induction fuel arbitrary: r w)
  case (Suc fuel)
  show ?case
  proof (cases "rows_run r < limit")
    case False
    then show ?thesis using Suc.prems by (simp add: rows_run_def)
  next
    case True
    obtain rows w1 where rest: "(if rows = [] then give (Some r)
        else wbind (run_frame env c r rows) (\<lambda>r1.
          if wr_stopped r1 then give (Some r1) else worker_loop fuel env c limit r1)) w1 = (Inr (Some r'), w')"
      using Suc.prems(1) True by (auto simp: rows_run_def elim: wbind_InrE)
    show ?thesis
    proof (cases "rows = []")
      case ne: False
      obtain r1 w2 where r1: "run_frame env c r rows w1 = (Inr r1, w2)"
        and k: "(if wr_stopped r1 then give (Some r1) else worker_loop fuel env c limit r1) w2 = (Inr (Some r'), w')"
        using rest ne by (auto elim!: wbind_InrE)
      show ?thesis using run_frame_breaks [OF r1 ne] Suc.IH [of r1 w2] Suc.prems(3,4) k
        by (cases "wr_stopped r1") auto
    qed (use rest Suc.prems in simp)
  qed
qed simp

lemma closing_at:
  assumes "closing env m w = (Inr y, w')" and "bystander p x (ce_close env)"
  shows "\<exists>w1. m w = (Inr y, w1) \<and> p w' = p w1 \<and> x w' = x w1"
proof -
  obtain w1 where m: "m w = (Inr y, w1)" using closing_Inr [OF assms(1)] by blast
  then have "w' = snd (ce_close env w1)" using assms(1) by (simp add: closing_def split: prod.splits)
  then show ?thesis using m assms(2) by (simp add: bystander_def)
qed

lemma execute_cursor_worker_loop:
  assumes "execute_cursor_worker fuel env config context0 slot w = (Inr x, w')"
    and "read_config env config context0 slot = Inr (c, auth, claim)" and "max_iterations c = Inr limit"
    and "queue_contract env it p ex"
  shows "\<exists>w0 w1 r. worker_loop fuel env c limit fresh_run w0 = (Inr r, w1) \<and>
    x = map_option (worker_result c) r \<and> p w0 = p w \<and> ex w0 = ex w \<and> p w' = p w1 \<and> ex w' = ex w1"
proof -
  have q: "bystander p ex (ce_credential env v)" "bystander p ex (ce_open env v d)" "bystander p ex (ce_close env)" for v d
    using assms(4) by (simp_all add: queue_contract_def)
  obtain sql wa where sql: "lift (ce_render env claim (claim_context c)) w = (Inr sql, wa)"
    and rest: "(if (case sql of VStr s \<Rightarrow> strip s = [] | _ \<Rightarrow> True)
     then lift (Inl (ValueError ''cursor_worker: claim SQL rendered to empty/non-string value''))
     else wbind (ce_credential env auth) (\<lambda>credential.
       if \<not> truthy credential then lift (Inl (ValueError ''cursor_worker: credential not found or empty''))
       else
         wbind (lift (ce_driver env (wc_kind c))) (\<lambda>_.
         wbind (lift (max_iterations c)) (\<lambda>limit.
         wbind (ce_open env credential
             [(''kind'', wc_kind c), (''claim'', sql), (''options'', VDict (wc_options c))]) (\<lambda>_.
         wbind (closing env (worker_loop fuel env c limit fresh_run)) (\<lambda>r.
           give (map_option (worker_result c) r))))))) wa = (Inr x, w')"
    using assms(1,2) by (auto simp: execute_cursor_worker_def elim!: wbind_InrE)
  have "wbind (ce_credential env auth) (\<lambda>credential.
       if \<not> truthy credential then lift (Inl (ValueError ''cursor_worker: credential not found or empty''))
       else
         wbind (lift (ce_driver env (wc_kind c))) (\<lambda>_.
         wbind (lift (max_iterations c)) (\<lambda>limit.
         wbind (ce_open env credential
             [(''kind'', wc_kind c), (''claim'', sql), (''options'', VDict (wc_options c))]) (\<lambda>_.
         wbind (closing env (worker_loop fuel env c limit fresh_run)) (\<lambda>r.
           give (map_option (worker_result c) r)))))) w = (Inr x, w')"
    using rest sql by (cases "case sql of VStr s \<Rightarrow> strip s = [] | _ \<Rightarrow> True") simp_all
  then obtain cr wb where cr: "ce_credential env auth w = (Inr cr, wb)"
    and k: "(if \<not> truthy cr then lift (Inl (ValueError ''cursor_worker: credential not found or empty''))
       else
         wbind (lift (ce_driver env (wc_kind c))) (\<lambda>_.
         wbind (lift (max_iterations c)) (\<lambda>limit.
         wbind (ce_open env cr
             [(''kind'', wc_kind c), (''claim'', sql), (''options'', VDict (wc_options c))]) (\<lambda>_.
         wbind (closing env (worker_loop fuel env c limit fresh_run)) (\<lambda>r.
           give (map_option (worker_result c) r)))))) wb = (Inr x, w')"
    by (rule wbind_InrE)
  have "wbind (lift (ce_driver env (wc_kind c))) (\<lambda>_.
         wbind (lift (max_iterations c)) (\<lambda>limit.
         wbind (ce_open env cr
             [(''kind'', wc_kind c), (''claim'', sql), (''options'', VDict (wc_options c))]) (\<lambda>_.
         wbind (closing env (worker_loop fuel env c limit fresh_run)) (\<lambda>r.
           give (map_option (worker_result c) r))))) wb = (Inr x, w')"
    using k by (cases "truthy cr") simp_all
  then obtain d w0 r where o: "ce_open env cr d wb = (Inr (), w0)"
    "closing env (worker_loop fuel env c limit fresh_run) w0 = (Inr r, w')" "x = map_option (worker_result c) r"
    using assms(3) by (auto elim!: wbind_InrE)
  have "p w0 = p w \<and> ex w0 = ex w"
    using bystander_at [OF q(1) cr] bystander_at [OF q(2) o(1)] by simp
  then show ?thesis using closing_at [OF o(2) q(3)] o(3) by metis
qed

text \<open>
  C9. A cursor worker runs every row of its queue once, in the order of the queue: over a driver that
  hands rows out and takes them off, with rows processed one by one or concurrently, the rows it has
  run are the first ones of the queue, as many as it reports processed or failed; when no row asked
  for a break, it has claimed no row that it did not run, and it leaves the queue empty unless it
  reached its limit.
\<close>
theorem cursor_worker_drains:
  assumes "execute_cursor_worker fuel env config context0 slot w = (Inr (Some out), w')"
    and "read_config env config context0 slot = Inr (c, auth, claim)" and "max_iterations c = Inr limit"
    and "queue_contract env (wc_iterator c) pending executed" and "wc_iterator c \<notin> iteration_names"
    and "wc_process c \<noteq> ''frame''"
  shows "\<exists>n m. n \<le> m \<and> n \<le> length (pending w) \<and>
    executed w' = executed w @ map VDict (take n (pending w)) \<and> pending w' = drop m (pending w) \<and>
    (\<exists>processed failed breaks. py_get out ''processed'' = VInt processed \<and>
      py_get out ''failed'' = VInt failed \<and> py_get out ''breaks'' = VInt breaks \<and> processed + failed = int n \<and>
      (breaks \<le> 0 \<longrightarrow> n = m \<and> (int n < limit \<longrightarrow> pending w' = [])))"
proof -
  obtain w0 w1 ro where l0: "worker_loop fuel env c limit fresh_run w0 = (Inr ro, w1)"
    and x0: "Some out = map_option (worker_result c) ro" "pending w0 = pending w" "executed w0 = executed w"
      "pending w' = pending w1" "executed w' = executed w1"
    using execute_cursor_worker_loop [OF assms(1-4)] by auto
  then obtain r where l: "worker_loop fuel env c limit fresh_run w0 = (Inr (Some r), w1)"
    and x: "out = worker_result c r" "pending w0 = pending w" "executed w0 = executed w"
      "pending w' = pending w1" "executed w' = executed w1"
    by (cases ro) auto
  have z: "rows_run fresh_run = 0" "\<not> wr_stopped fresh_run" "0 \<le> wr_breaks fresh_run"
    by (simp_all add: rows_run_def fresh_run_def)
  obtain n m where h: "n \<le> m" "executed w1 = executed w0 @ map VDict (take n (pending w0))"
    "pending w1 = drop m (pending w0)" "n \<le> length (pending w0)" "rows_run r = int n"
    "wr_stopped r \<or> (n = m \<and> (rows_run r < limit \<longrightarrow> pending w1 = []))"
    using worker_loop_executed [OF assms(4-6) l z(2), unfolded z(1) add_0] by blast
  have "wr_stopped r \<Longrightarrow> 0 < wr_breaks r" using worker_loop_breaks [OF l z(2,3)] .
  then show ?thesis using h x
    by (intro exI [of _ n] exI [of _ m]) (auto simp: worker_result_def rows_run_def)
qed

section \<open>A sample run\<close>

type_synonym sample_world = "pydict list \<times> pyval list"

text \<open>A driver over a queue, and tasks whose outcome is written in the row.\<close>

definition queue_tasks :: "pyval \<Rightarrow> pydict \<Rightarrow> (sample_world, pyval) act" where
  "queue_tasks ts ctx w =
     (let row = py_get (dict_or_empty (py_get ctx ''iter'')) ''row'' in
      (Inr (VDict [(''status'', py_get (dict_or_empty row) ''outcome'')]), (fst w, snd w @ [row])))"

definition cursor_sample_env :: "sample_world cursor_env" where
  "cursor_sample_env =
     \<lparr>ce_float = py_int, ce_render = (\<lambda>t ctx. Inr t), ce_credential = (\<lambda>a. give (VStr ''secret'')),
      ce_driver = (\<lambda>k. Inr ()), ce_open = (\<lambda>cr d. give ()), ce_close = give (),
      ce_claim_many = None,
      ce_claim = (\<lambda>ctx w. (Inr (case fst w of [] \<Rightarrow> None | r # rs \<Rightarrow> Some r), (tl (fst w), snd w))),
      ce_run = queue_tasks, ce_post_claim = (\<lambda>i p. give []), ce_post_heartbeat = (\<lambda>i p. give ()),
      ce_post_commit = (\<lambda>i p. give ()), ce_beats = (\<lambda>w. 0), ce_capture = False,
      ce_put = (\<lambda>a rs. give ([], [], 0)), ce_resolve = (\<lambda>v. give v), ce_evict = (\<lambda>v. give False),
      ce_locality = [], ce_hostname = [], ce_max_retries = 3\<rparr>"

definition cursor_sample_config :: "int \<Rightarrow> pydict" where
  "cursor_sample_config max_rows =
     [(''cursor'', VDict [(''kind'', VStr ''postgres''), (''auth'', VStr ''pg''), (''claim'', VStr ''UPDATE''),
        (''options'', VDict [(''max_iterations'', VInt 10)])]),
      (''iterator'', VStr ''row''), (''tasks'', VList [VStr ''t'']),
      (''frame_policy'', VDict [(''max_rows'', VInt max_rows)])]"

definition sample_rows :: "string list \<Rightarrow> pydict list" where
  "sample_rows outcomes = map (\<lambda>s. [(''outcome'', VStr s)]) outcomes"

lemma sample_contract: "queue_contract cursor_sample_env ''row'' fst snd"
  by (simp add: queue_contract_def cursor_sample_env_def queue_tasks_def Let_def)

definition sample_worker_config :: "int \<Rightarrow> worker_config" where
  "sample_worker_config max_rows =
     \<lparr>wc_kind = VStr ''postgres'', wc_iterator = ''row'', wc_tasks = VList [VStr ''t''],
      wc_options = [(''max_iterations'', VInt 10)], wc_policy = [(''max_rows'', VInt max_rows)],
      wc_max_rows = max 1 max_rows, wc_row_concurrency = 1, wc_process = ''row'', wc_stage_id = VNone,
      wc_slot = VStr ''s1'', wc_context = []\<rparr>"

lemma sample_read:
  "read_config cursor_sample_env (cursor_sample_config 2) [] (VStr ''s1'') =
     Inr (sample_worker_config 2, VStr ''pg'', VStr ''UPDATE'')"
  "max_iterations (sample_worker_config 2) = Inr 10"
  by code_simp+

definition sample_execution :: "string list \<Rightarrow> pydict option res \<times> sample_world" where
  "sample_execution outcomes =
     execute_cursor_worker 11 cursor_sample_env (cursor_sample_config 2) [] (VStr ''s1'') (sample_rows outcomes, [])"

definition report :: "pydict option res \<Rightarrow> pyval list" where
  "report r = (case r of Inr (Some out) \<Rightarrow>
       map (py_get out) [''status'', ''processed'', ''failed'', ''breaks'', ''frame_count''] | _ \<Rightarrow> [])"

lemma sample_runs:
  "report (fst (sample_execution [''ok'', ''failed'', ''ok''])) =
     [VStr ''partial'', VInt 2, VInt 1, VInt 0, VInt 2]"
  "snd (sample_execution [''ok'', ''failed'', ''ok'']) = ([], map VDict (sample_rows [''ok'', ''failed'', ''ok'']))"
  by code_simp+

lemma sample_execution_ends:
  "\<exists>out w'. sample_execution [''ok'', ''failed'', ''ok''] = (Inr (Some out), w') \<and>
     report (Inr (Some out)) = [VStr ''partial'', VInt 2, VInt 1, VInt 0, VInt 2]"
proof -
  obtain a w' where a: "sample_execution [''ok'', ''failed'', ''ok''] = (a, w')"
    by (cases "sample_execution [''ok'', ''failed'', ''ok'']")
  then have r: "report a = [VStr ''partial'', VInt 2, VInt 1, VInt 0, VInt 2]" using sample_runs(1) by simp
  then obtain out where "a = Inr (Some out)" by (auto simp: report_def split: sum.splits option.splits)
  then show ?thesis using a r by blast
qed

text \<open>
  A break ends a worker that runs its rows one by one in the middle of a frame: the rows after it are
  claimed and never run, and the frame is committed with all of them.
\<close>

lemma break_drops_claimed_rows:
  "report (fst (sample_execution [''break'', ''ok'', ''ok''])) = [VStr ''ok'', VInt 1, VInt 0, VInt 1, VInt 1]"
  "snd (sample_execution [''break'', ''ok'', ''ok'']) = (sample_rows [''ok''], map VDict (sample_rows [''break'']))"
  by code_simp+

theorem cursor_worker_ends_witness:
  "\<exists>out w' r. sample_execution [''ok'', ''failed'', ''ok''] = (Inr (Some out), w') \<and>
     out = worker_result (sample_worker_config 2) r \<and> wr_processed r + wr_failed r \<le> 10"
proof -
  obtain out w' where e: "sample_execution [''ok'', ''failed'', ''ok''] = (Inr (Some out), w')"
    using sample_execution_ends by blast
  obtain r where "Some out = Some (worker_result (sample_worker_config 2) r)" "wr_processed r + wr_failed r \<le> 10"
    using cursor_worker_ends [OF e [unfolded sample_execution_def] sample_read] by auto
  then show ?thesis using e by blast
qed

theorem cursor_worker_drains_witness:
  "\<exists>out w' n. sample_execution [''ok'', ''failed'', ''ok''] = (Inr (Some out), w') \<and>
     snd w' = map VDict (take n (sample_rows [''ok'', ''failed'', ''ok''])) \<and> n = 3"
proof -
  obtain out w' where e: "sample_execution [''ok'', ''failed'', ''ok''] = (Inr (Some out), w')"
    and r: "report (Inr (Some out)) = [VStr ''partial'', VInt 2, VInt 1, VInt 0, VInt 2]"
    using sample_execution_ends by blast
  have q: "queue_contract cursor_sample_env (wc_iterator (sample_worker_config 2)) fst snd"
    using sample_contract by (simp add: sample_worker_config_def)
  have i: "wc_iterator (sample_worker_config 2) \<notin> iteration_names" "wc_process (sample_worker_config 2) \<noteq> ''frame''"
    by (simp_all add: sample_worker_config_def iteration_names_def)
  obtain n processed failed where n: "snd w' = map VDict (take n (sample_rows [''ok'', ''failed'', ''ok'']))"
    "py_get out ''processed'' = VInt processed" "py_get out ''failed'' = VInt failed" "processed + failed = int n"
    using cursor_worker_drains [OF e [unfolded sample_execution_def] sample_read q i] by auto
  have "n = 3" using n(2-4) r by (simp add: report_def)
  then show ?thesis using e n(1) by blast
qed

end
