(* ===== verification/Frame_Endpoints.thy ===== *)
theory Frame_Endpoints
  imports Frame_Leases
begin

text \<open>
  The writing half of the frame leases (\<^verbatim>\<open>noetl/server/api/frames/endpoint.py\<close>): the events of a
  frame with their envelope, and the three endpoints \<open>claim_frames\<close>, \<open>heartbeat_frame\<close> and
  \<open>commit_frame\<close>, statement by statement. The last section runs them as the steps of a history.
\<close>

section \<open>Events\<close>

definition opt_entry :: "string \<Rightarrow> int option \<Rightarrow> pydict" where
  "opt_entry k v = (case v of None \<Rightarrow> [] | Some i \<Rightarrow> [(k, VStr (show_int i))])"

definition event_meta :: "frame_lease \<Rightarrow> string \<Rightarrow> pydict \<Rightarrow> pydict" where
  "event_meta f worker_id extra =
     dict_merge
       ([(''frame_id'', VStr (show_int (fm_frame_id f))), (''stage_id'', VStr (show_int (fm_stage_id f))),
         (''worker_id'', VStr worker_id), (''actionable'', VBool False), (''informative'', VBool True)]
        @ opt_entry ''parent_frame_id'' (fm_parent_frame_id f) @ opt_entry ''command_id'' (fm_command_id f))
       extra"

definition source_locality_from_cursor :: "pydict \<Rightarrow> pydict" where
  "source_locality_from_cursor cursor =
     (case as_dict (py_get cursor ''source_locality'') of
        Some d \<Rightarrow> d
      | None \<Rightarrow> dict_or_empty (py_get cursor ''producer_locality''))"

definition claim_locality_metadata :: "frame_lease \<Rightarrow> pydict \<Rightarrow> pydict" where
  "claim_locality_metadata f request_locality =
     (let source = source_locality_from_cursor (fm_cursor f) in
      if source = [] then []
      else [(''source_locality'', VDict source),
            (''placement'', VDict (placement_evaluation source request_locality
               (py_str (py_or (py_get request_locality ''max_distance'') (VStr ''any'')))))])"

definition frame_commit_result :: "string \<Rightarrow> pyval \<Rightarrow> string option \<Rightarrow> pydict" where
  "frame_commit_result status output_ref err =
     (''status'', VStr status)
     # (if truthy output_ref then [(''reference'', output_ref)] else [])
     @ (case err of Some (c # m) \<Rightarrow> [(''context'', VDict [(''error'', VStr (c # m))])] | _ \<Rightarrow> [])"

definition frame_recovery_policy :: "pyval \<Rightarrow> pydict" where
  "frame_recovery_policy frame_policy =
     (let raw = py_get (dict_or_empty frame_policy) ''max_attempts'';
          max_attempts = (case py_int (if raw = VNone then VInt 3 else raw) of Inl e \<Rightarrow> 3 | Inr i \<Rightarrow> i)
      in [(''retry_mode'', VStr ''whole_frame''), (''row_split_retry'', VBool False),
          (''max_attempts'', VInt (max 1 max_attempts))])"

definition frame_stream_id :: "int \<Rightarrow> int \<Rightarrow> string" where
  "frame_stream_id execution_id stage_id =
     ''execution/'' @ show_int execution_id @ ''/stage/'' @ show_int stage_id"

definition frame_event_stream_id :: "int \<Rightarrow> int \<Rightarrow> int \<Rightarrow> string" where
  "frame_event_stream_id execution_id stage_id frame_id =
     frame_stream_id execution_id stage_id @ ''/frame/'' @ show_int frame_id"

definition frame_idempotency_key :: "frame_lease \<Rightarrow> string \<Rightarrow> string" where
  "frame_idempotency_key f event_type =
     fm_tenant_id f @ ''/'' @ fm_organization_id f @ ''/'' @ show_int (fm_execution_id f)
       @ ''/frame/'' @ show_int (fm_frame_id f) @ ''/'' @ event_type"

text \<open>What an event is made of: the frame and its step, and the arguments of \<open>_insert_frame_event\<close>.\<close>

record frame_event_args =
  fa_frame :: frame_lease
  fa_step_name :: "string option"
  fa_catalog_id :: "int option"
  fa_event_type :: string
  fa_status :: string
  fa_worker_id :: string
  fa_result :: pydict
  fa_meta_extra :: pydict

definition event_result_of :: "frame_event_args \<Rightarrow> pydict" where
  "event_result_of a = (if fa_result a = [] then [(''status'', VStr (fa_status a))] else fa_result a)"

definition event_body :: "string \<Rightarrow> int \<Rightarrow> frame_event_args \<Rightarrow> pydict" where
  "event_body now event_id a =
     (let f = fa_frame a in
      [(''tenant_id'', VStr (fm_tenant_id f)), (''organization_id'', VStr (fm_organization_id f)),
       (''execution_id'', VInt (fm_execution_id f)),
       (''stream_id'', VStr (frame_event_stream_id (fm_execution_id f) (fm_stage_id f) (fm_frame_id f))),
       (''stream_version'', VInt event_id),
       (''aggregate_id'', VStr (''frame/'' @ show_int (fm_frame_id f))), (''aggregate_type'', VStr ''frame''),
       (''event_type'', VStr (fa_event_type a)), (''schema_name'', VStr (''noetl.'' @ fa_event_type a)),
       (''schema_version'', VInt 1), (''event_time'', VStr now), (''producer'', VStr (fa_worker_id a)),
       (''causation_id'', VNone), (''correlation_id'', VNone),
       (''idempotency_key'', VStr (frame_idempotency_key f (fa_event_type a))),
       (''payload_ref'', py_get (fa_result a) ''reference''), (''result'', VDict (event_result_of a)),
       (''meta'', VDict (event_meta f (fa_worker_id a) (fa_meta_extra a))),
       (''status'', VStr (fa_status a)), (''node_name'', enc_str (fa_step_name a))])"

definition event_dict :: "string \<Rightarrow> int \<Rightarrow> int \<Rightarrow> frame_event_args \<Rightarrow> pydict" where
  "event_dict now event_id catalog_id a =
     (let body = event_body now event_id a; g = py_get body in
      [(''event_id'', VInt event_id), (''execution_id'', g ''execution_id''),
       (''catalog_id'', VInt catalog_id), (''event_type'', g ''event_type''),
       (''node_name'', g ''node_name''), (''status'', g ''status''), (''result'', g ''result''),
       (''meta'', g ''meta''), (''worker_id'', VStr (fa_worker_id a)), (''tenant_id'', g ''tenant_id''),
       (''organization_id'', g ''organization_id''), (''stream_id'', g ''stream_id''),
       (''stream_version'', g ''stream_version''), (''aggregate_id'', g ''aggregate_id''),
       (''aggregate_type'', g ''aggregate_type''), (''schema_name'', g ''schema_name''),
       (''schema_version'', g ''schema_version''), (''event_time'', g ''event_time''),
       (''ingest_time'', VStr now), (''producer'', g ''producer''),
       (''idempotency_key'', g ''idempotency_key''), (''payload_ref'', g ''payload_ref''),
       (''envelope_checksum'', VStr (canonical_checksum (VDict body)))])"

text \<open>The columns of the row: those of the dictionary, the stage, the frame and the time of the row.\<close>

definition event_cells :: "string \<Rightarrow> int \<Rightarrow> int \<Rightarrow> frame_event_args \<Rightarrow> pydict" where
  "event_cells now event_id catalog_id a =
     map (\<lambda>(k, v). (k, if k = ''payload_ref'' \<and> \<not> truthy v then VNone else v))
         (event_dict now event_id catalog_id a)
     @ [(''stage_id'', VInt (fm_stage_id (fa_frame a))), (''frame_id'', VInt (fm_frame_id (fa_frame a))),
        (''created_at'', VStr now)]"

definition enqueue_frame_outbox :: "frame_config \<Rightarrow> pydict \<Rightarrow> outbox_table \<Rightarrow> outbox_table res" where
  "enqueue_frame_outbox cf event t =
     (if \<not> fc_mirror cf then Inr t
      else enqueue_outbox (fc_encode cf) (fc_now cf div 1000000) event (Some (fc_subject cf event)) t)"

definition event_catalog :: "frames_db \<Rightarrow> frame_event_args \<Rightarrow> int answer" where
  "event_catalog db a =
     (case fa_catalog_id a of
        Some c \<Rightarrow> Inr c
      | None \<Rightarrow>
          (case map_of (fd_executions db) (fm_execution_id (fa_frame a)) of
             None \<Rightarrow> Inl (Raised (RuntimeError ''execution not found for frame event''))
           | Some c \<Rightarrow> Inr c))"

text \<open>The primary key of the event table is \<open>(execution_id, event_id)\<close>.\<close>

definition write_frame_event ::
    "frame_config \<Rightarrow> int \<Rightarrow> frame_event_args \<Rightarrow> frames_db \<Rightarrow> frames_db answer" where
  "write_frame_event cf event_id a db =
     (let now = fc_show_time cf (fc_now cf); x = fm_execution_id (fa_frame a) in
      abind (event_catalog db a) (\<lambda>catalog_id.
      if list_ex (\<lambda>e. fe_execution_id e = x \<and> fe_event_id e = event_id) (fd_events db)
      then Inl (Raised (RuntimeError ''duplicate key value violates unique constraint''))
      else abind (lift_res (enqueue_frame_outbox cf (event_dict now event_id catalog_id a) (fd_outbox db)))
        (\<lambda>ob. Inr (db\<lparr>fd_events := fd_events db @
             [\<lparr>fe_event_id = event_id, fe_execution_id = x, fe_frame_id = fm_frame_id (fa_frame a),
               fe_event_type = fa_event_type a, fe_status = fa_status a,
               fe_worker_id = fa_worker_id a, fe_cells = event_cells now event_id catalog_id a\<rparr>],
           fd_outbox := ob\<rparr>))))"

definition insert_frame_event ::
    "frame_config \<Rightarrow> int option \<Rightarrow> frame_event_args \<Rightarrow> frames_db \<Rightarrow> (int \<times> frames_db) answer" where
  "insert_frame_event cf given a db =
     (let event_id = (case given of Some i \<Rightarrow> i | None \<Rightarrow> next_id cf db);
          db1 = (case given of Some i \<Rightarrow> db | None \<Rightarrow> drawn db)
      in abind (write_frame_event cf event_id a db1) (\<lambda>db2. Inr (event_id, db2)))"

section \<open>Responses\<close>

definition frame_response :: "frame_config \<Rightarrow> frame_lease \<Rightarrow> int option \<Rightarrow> pydict" where
  "frame_response cf f event_id =
     [(''frame_id'', VInt (fm_frame_id f)), (''stage_id'', VInt (fm_stage_id f)),
      (''execution_id'', VInt (fm_execution_id f)), (''status'', VStr (fm_status f)),
      (''cursor'', VDict (fm_cursor f)),
      (''lease_until'', enc_str (map_option (fc_show_time cf) (fm_lease_until f))),
      (''owner_worker'', enc_str (fm_owner_worker f)),
      (''parent_frame_id'', enc_int (fm_parent_frame_id f)), (''command_id'', enc_int (fm_command_id f)),
      (''claimed_event_id'', enc_int (fm_claimed_event_id f)),
      (''terminal_event_id'', enc_int (fm_terminal_event_id f)),
      (''row_count'', VInt (fm_row_count f)), (''output_ref'', fm_output_ref f),
      (''events_emitted'', VInt (fm_events_emitted f))]
     @ (case event_id of None \<Rightarrow> [] | Some i \<Rightarrow> [(''event_id'', VInt i)])"

definition frame_conflict_detail :: "frames_db \<Rightarrow> int \<Rightarrow> string \<Rightarrow> pydict option" where
  "frame_conflict_detail db frame_id worker_id =
     (case frame_with db frame_id of
        None \<Rightarrow> None
      | Some f \<Rightarrow>
          Some (if fm_status f \<in> {''COMPLETED'', ''FAILED''}
                then [(''code'', VStr ''frame_already_terminal''), (''frame_id'', VInt frame_id),
                      (''status'', VStr (fm_status f)),
                      (''terminal_event_id'', enc_int (fm_terminal_event_id f))]
                else [(''code'', VStr
                        (if fm_owner_worker f \<noteq> None \<and> fm_owner_worker f \<noteq> Some []
                            \<and> fm_owner_worker f \<noteq> Some worker_id
                         then ''frame_owner_mismatch'' else ''frame_not_active'')),
                      (''frame_id'', VInt frame_id), (''status'', VStr (fm_status f)),
                      (''owner_worker'', enc_str (fm_owner_worker f))]))"

definition conflict_answer :: "frames_db \<Rightarrow> int \<Rightarrow> string \<Rightarrow> http_failure" where
  "conflict_answer db frame_id worker_id =
     (case frame_conflict_detail db frame_id worker_id of
        Some d \<Rightarrow> Http 409 (VDict d)
      | None \<Rightarrow> Http 404 (VStr (''active frame not found: '' @ show_int frame_id)))"

section \<open>Claiming\<close>

text \<open>What one call of \<open>claim_frames\<close> works with.\<close>

record claim_scope =
  cs_request :: claim_request
  cs_stage :: frame_stage
  cs_catalog_id :: int
  cs_command_id :: "int option"

definition claim_policy :: "claim_scope \<Rightarrow> pyval" where
  "claim_policy c =
     py_or (VDict (cq_frame_policy (cs_request c)))
       (py_or (fs_frame_policy (cs_stage c)) (VDict []))"

definition idempotent_frame :: "frame_config \<Rightarrow> claim_scope \<Rightarrow> frames_db \<Rightarrow> frame_lease option" where
  "idempotent_frame cf c db =
     load_idempotent_claimed_frame cf db (fs_stage_id (cs_stage c)) (cs_command_id c)
       (cq_worker_id (cs_request c)) (cq_cursor (cs_request c))"

definition claimable_frame :: "frame_config \<Rightarrow> claim_scope \<Rightarrow> frames_db \<Rightarrow> frame_lease option" where
  "claimable_frame cf c db = load_claimable_frame cf db (fs_stage_id (cs_stage c))"

text \<open>The lease of the caller's own frame is extended, and the frame is returned again.\<close>

definition renewed :: "frame_config \<Rightarrow> claim_scope \<Rightarrow> frame_lease \<Rightarrow> frame_lease" where
  "renewed cf c f =
     f\<lparr>fm_lease_until := Some (lease_end cf (cq_lease_seconds (cs_request c))), fm_updated_at := fc_now cf\<rparr>"

definition renew ::
    "frame_config \<Rightarrow> claim_scope \<Rightarrow> frame_lease \<Rightarrow> frames_db \<Rightarrow> (pydict \<times> frames_db) answer" where
  "renew cf c f db =
     Inr (frame_response cf (renewed cf c f) (fm_claimed_event_id f),
          update_frame (fm_frame_id f) (renewed cf c) db)"

definition minted :: "frame_config \<Rightarrow> claim_scope \<Rightarrow> int \<Rightarrow> int option \<Rightarrow> frame_lease" where
  "minted cf c frame_id parent =
     \<lparr>fm_frame_id = frame_id, fm_stage_id = fs_stage_id (cs_stage c),
      fm_execution_id = fs_execution_id (cs_stage c), fm_parent_frame_id = parent,
      fm_command_id = cs_command_id c, fm_claimed_event_id = None, fm_terminal_event_id = None,
      fm_cursor = cq_cursor (cs_request c), fm_row_count = 0, fm_status = ''PENDING'',
      fm_owner_worker = None, fm_lease_until = None, fm_output_ref = VNone, fm_events_emitted = 0,
      fm_attempts = 0, fm_tenant_id = fs_tenant_id (cs_stage c),
      fm_organization_id = fs_organization_id (cs_stage c), fm_updated_at = fc_now cf,
      fm_completed_at = None\<rparr>"

definition insert_conflict :: "frame_config \<Rightarrow> frame_lease \<Rightarrow> frames_db \<Rightarrow> bool" where
  "insert_conflict cf f db =
     list_ex (\<lambda>r. fm_frame_id r = fm_frame_id f \<or> (lease_key cf f \<noteq> None \<and> lease_key cf r = lease_key cf f))
       (fd_frames db)"

text \<open>
  \<open>INSERT ... ON CONFLICT DO NOTHING\<close>; after a conflict the frame under the request's key is taken,
  and one that can be claimed only when the request has no key.
\<close>

definition mint_or_find ::
    "frame_config \<Rightarrow> claim_scope \<Rightarrow> int \<Rightarrow> frames_db \<Rightarrow> (frame_lease \<times> frames_db) answer" where
  "mint_or_find cf c frame_id db =
     (let stage_id = fs_stage_id (cs_stage c); cursor = cq_cursor (cs_request c);
          f = minted cf c frame_id (resolve_parent_frame_id cf db stage_id cursor);
          key = frame_claim_key stage_id cursor
      in if \<not> insert_conflict cf f db then Inr (f, db\<lparr>fd_frames := fd_frames db @ [f]\<rparr>)
         else (case (case load_frame_by_claim_key cf db stage_id cursor of
                       Some g \<Rightarrow> Some g
                     | None \<Rightarrow> if key = None then claimable_frame cf c db else None) of
                 Some g \<Rightarrow> Inr (g, db)
               | None \<Rightarrow> Inl (Http 409 (VDict [(''code'', VStr ''frame_claim_conflict''),
                   (''stage_id'', VInt stage_id),
                   (''claim_key'', case key of None \<Rightarrow> VNone
                      | Some (s, slot, index) \<Rightarrow> VList [VInt s, VStr slot, VStr index])]))))"

definition abandoned_args :: "frame_config \<Rightarrow> claim_scope \<Rightarrow> frame_lease \<Rightarrow> frame_event_args" where
  "abandoned_args cf c f =
     \<lparr>fa_frame = f, fa_step_name = Some (fs_step_name (cs_stage c)), fa_catalog_id = Some (cs_catalog_id c),
      fa_event_type = ''frame.abandoned'', fa_status = ''ABANDONED'',
      fa_worker_id = (case fm_owner_worker f of
         Some (ch # w) \<Rightarrow> ch # w | _ \<Rightarrow> cq_worker_id (cs_request c)),
      fa_result = [],
      fa_meta_extra =
        [(''previous_owner_worker'', enc_str (fm_owner_worker f)),
         (''reclaimer_worker'', VStr (cq_worker_id (cs_request c))),
         (''lease_until'', VStr (case fm_lease_until f of None \<Rightarrow> ''None'' | Some t \<Rightarrow> fc_show_time cf t)),
         (''reason'', VStr ''lease_expired''), (''previous_attempt'', VInt (fm_attempts f)),
         (''recovery'', VDict (frame_recovery_policy (claim_policy c)))]\<rparr>"

definition report_abandoned ::
    "frame_config \<Rightarrow> claim_scope \<Rightarrow> frame_lease \<Rightarrow> frames_db \<Rightarrow> frames_db answer" where
  "report_abandoned cf c f db =
     (if expired_lease cf f
      then abind (insert_frame_event cf None (abandoned_args cf c f) db) (\<lambda>(i, db'). Inr db')
      else Inr db)"

definition claimed_by :: "frame_config \<Rightarrow> claim_scope \<Rightarrow> int \<Rightarrow> frame_lease \<Rightarrow> frame_lease" where
  "claimed_by cf c event_id f =
     f\<lparr>fm_status := ''CLAIMED'', fm_owner_worker := Some (cq_worker_id (cs_request c)),
       fm_command_id := (case fm_command_id f of Some x \<Rightarrow> Some x | None \<Rightarrow> cs_command_id c),
       fm_claimed_event_id := Some event_id,
       fm_lease_until := Some (lease_end cf (cq_lease_seconds (cs_request c))),
       fm_attempts := fm_attempts f + 1, fm_updated_at := fc_now cf\<rparr>"

definition dispatched_args :: "claim_scope \<Rightarrow> frame_lease \<Rightarrow> frame_event_args" where
  "dispatched_args c f =
     (let loc = cq_locality (cs_request c); s = cs_stage c in
      \<lparr>fa_frame = f, fa_step_name = Some (fs_step_name s), fa_catalog_id = Some (cs_catalog_id c),
       fa_event_type = ''frame.dispatched'', fa_status = ''CLAIMED'',
       fa_worker_id = cq_worker_id (cs_request c), fa_result = [],
       fa_meta_extra =
         dict_merge
           ([(''attempt'', VInt (fm_attempts f)), (''frame_policy'', claim_policy c),
             (''recovery'', VDict (frame_recovery_policy (claim_policy c))), (''locality'', VDict loc)]
            @ claim_locality_metadata f loc)
           [(''worker_locator'', enc_str (worker_locator (VStr (fs_tenant_id s))
               (VStr (fs_organization_id s)) (cq_worker_id (cs_request c)) loc))]\<rparr>)"

definition dispatch_frame ::
    "frame_config \<Rightarrow> claim_scope \<Rightarrow> frame_lease \<Rightarrow> frames_db \<Rightarrow> (pydict \<times> frames_db) answer" where
  "dispatch_frame cf c f db =
     abind (report_abandoned cf c f db) (\<lambda>db1.
       (let event_id = next_id cf db1; g = claimed_by cf c event_id f in
        abind (insert_frame_event cf (Some event_id) (dispatched_args c g)
                 (update_frame (fm_frame_id f) (claimed_by cf c event_id) (drawn db1)))
          (\<lambda>(i, db2). Inr (frame_response cf g (Some i), db2))))"

text \<open>
  One round of the loop: the caller's own frame; a frame that is free; after drawing an id, both
  once more (nothing has changed within the transaction); a new frame.
\<close>

definition claim_one :: "frame_config \<Rightarrow> claim_scope \<Rightarrow> frames_db \<Rightarrow> (pydict \<times> frames_db) answer" where
  "claim_one cf c db =
     (case idempotent_frame cf c db of
        Some f \<Rightarrow> renew cf c f db
      | None \<Rightarrow>
          (case claimable_frame cf c db of
             Some f \<Rightarrow> dispatch_frame cf c f db
           | None \<Rightarrow>
               (let frame_id = next_id cf db; db1 = drawn db in
                case idempotent_frame cf c db1 of
                  Some f \<Rightarrow> renew cf c f db1
                | None \<Rightarrow>
                    (case claimable_frame cf c db1 of
                       Some f \<Rightarrow> dispatch_frame cf c f db1
                     | None \<Rightarrow>
                         abind (mint_or_find cf c frame_id db1) (\<lambda>(f, db2). dispatch_frame cf c f db2)))))"

fun claim_times ::
    "frame_config \<Rightarrow> claim_scope \<Rightarrow> nat \<Rightarrow> pydict list \<Rightarrow> frames_db \<Rightarrow> (pydict list \<times> frames_db) answer" where
  "claim_times cf c 0 claimed db = Inr (claimed, db)"
| "claim_times cf c (Suc n) claimed db =
     abind (claim_one cf c db) (\<lambda>(r, db'). claim_times cf c n (claimed @ [r]) db')"

definition drain_frame_outbox :: "frame_config \<Rightarrow> frames_db \<Rightarrow> frames_db" where
  "drain_frame_outbox cf db =
     (if \<not> fc_mirror cf then db
      else case fc_drain_limit cf of
        None \<Rightarrow> db
      | Some limit \<Rightarrow>
          db\<lparr>fd_outbox := pb_table (publish_outbox_batch (fc_now cf div 1000000) (fc_publish cf) limit (fd_outbox db))\<rparr>)"

definition claim_frames ::
    "frame_config \<Rightarrow> int \<Rightarrow> claim_request \<Rightarrow> frames_db \<Rightarrow> (pydict list \<times> frames_db) answer" where
  "claim_frames cf stage_id q db =
     http_answer
       (abind (load_stage db stage_id) (\<lambda>(stage, catalog_id).
        abind (claim_times cf
            \<lparr>cs_request = q, cs_stage = stage, cs_catalog_id = catalog_id,
             cs_command_id = resolve_claim_command_id db (fs_execution_id stage) stage_id
               (cq_worker_id q) (cq_command_id q)\<rparr> (cq_requested_count q) [] db)
          (\<lambda>(claimed, db'). Inr (claimed, drain_frame_outbox cf db'))))"

section \<open>Heartbeats\<close>

text \<open>The statement's common table expression: the previous status of a frame the caller holds.\<close>

definition heartbeat_active :: "int \<Rightarrow> string \<Rightarrow> frames_db \<Rightarrow> string option" where
  "heartbeat_active frame_id worker_id db =
     (case frame_with db frame_id of
        None \<Rightarrow> None
      | Some f \<Rightarrow>
          (if fm_owner_worker f = Some worker_id \<and> fm_status f \<in> active_statuses
           then Some (fm_status f) else None))"

definition beaten :: "frame_config \<Rightarrow> heartbeat_request \<Rightarrow> frame_lease \<Rightarrow> frame_lease" where
  "beaten cf q f =
     f\<lparr>fm_status := hq_status q, fm_lease_until := Some (lease_end cf (hq_lease_seconds q)),
       fm_updated_at := fc_now cf\<rparr>"

definition stage_step_name :: "frames_db \<Rightarrow> frame_lease \<Rightarrow> string option" where
  "stage_step_name db f =
     map_option fs_step_name (find (\<lambda>s. fs_stage_id s = fm_stage_id f) (fd_stages db))"

definition heartbeat_event_type :: "string \<Rightarrow> heartbeat_request \<Rightarrow> string" where
  "heartbeat_event_type previous q =
     (if previous \<noteq> ''RUNNING'' \<and> upper (hq_status q) = ''RUNNING'' then ''frame.started''
      else ''frame.heartbeat'')"

definition heartbeat_args ::
    "frame_config \<Rightarrow> string \<Rightarrow> heartbeat_request \<Rightarrow> frames_db \<Rightarrow> frame_lease \<Rightarrow> frame_event_args" where
  "heartbeat_args cf previous q db f =
     \<lparr>fa_frame = f, fa_step_name = stage_step_name db f, fa_catalog_id = None,
      fa_event_type = heartbeat_event_type previous q, fa_status = hq_status q,
      fa_worker_id = hq_worker_id q, fa_result = [],
      fa_meta_extra = [(''lease_until'', VStr (case fm_lease_until f of None \<Rightarrow> ''None''
         | Some t \<Rightarrow> fc_show_time cf t))]\<rparr>"

text \<open>The rest of the call, given what the expression has read.\<close>

definition heartbeat_write ::
    "frame_config \<Rightarrow> int \<Rightarrow> heartbeat_request \<Rightarrow> string option \<Rightarrow> frames_db \<Rightarrow> (pydict \<times> frames_db) answer" where
  "heartbeat_write cf frame_id q active db =
     http_answer
       (case (active, frame_with db frame_id) of
          (Some previous, Some f) \<Rightarrow>
            (let g = beaten cf q f in
             abind (insert_frame_event cf None (heartbeat_args cf previous q db g)
                      (update_frame frame_id (beaten cf q) db))
               (\<lambda>(i, db'). Inr (frame_response cf g (Some i), drain_frame_outbox cf db')))
        | _ \<Rightarrow> Inl (conflict_answer db frame_id (hq_worker_id q)))"

definition heartbeat_frame ::
    "frame_config \<Rightarrow> int \<Rightarrow> heartbeat_request \<Rightarrow> frames_db \<Rightarrow> (pydict \<times> frames_db) answer" where
  "heartbeat_frame cf frame_id q db =
     heartbeat_write cf frame_id q (heartbeat_active frame_id (hq_worker_id q) db) db"

section \<open>Committing\<close>

definition frame_terminal_status :: "commit_request \<Rightarrow> string" where
  "frame_terminal_status q = (if upper (mq_status q) = ''FAILED'' then ''FAILED'' else ''COMPLETED'')"

definition frame_terminal_event_type :: "commit_request \<Rightarrow> string" where
  "frame_terminal_event_type q = (if frame_terminal_status q = ''FAILED'' then ''frame.failed'' else ''frame.committed'')"

definition committed :: "frame_config \<Rightarrow> commit_request \<Rightarrow> int \<Rightarrow> frame_lease \<Rightarrow> frame_lease" where
  "committed cf q event_id f =
     f\<lparr>fm_status := frame_terminal_status q, fm_cursor := mq_cursor q, fm_row_count := mq_row_count q,
       fm_output_ref := (if truthy (mq_output_ref q) then mq_output_ref q else VNone),
       fm_events_emitted := mq_events_emitted q, fm_terminal_event_id := Some event_id,
       fm_completed_at := Some (fc_now cf), fm_updated_at := fc_now cf\<rparr>"

definition key_taken :: "frame_config \<Rightarrow> frame_lease \<Rightarrow> frames_db \<Rightarrow> bool" where
  "key_taken cf f db =
     list_ex (\<lambda>r. fm_frame_id r \<noteq> fm_frame_id f \<and> lease_key cf f \<noteq> None \<and> lease_key cf r = lease_key cf f)
       (fd_frames db)"

definition commit_args :: "commit_request \<Rightarrow> frames_db \<Rightarrow> frame_lease \<Rightarrow> frame_event_args" where
  "commit_args q db f =
     \<lparr>fa_frame = f, fa_step_name = stage_step_name db f, fa_catalog_id = None,
      fa_event_type = frame_terminal_event_type q, fa_status = frame_terminal_status q,
      fa_worker_id = mq_worker_id q,
      fa_result = frame_commit_result (frame_terminal_status q) (mq_output_ref q) (mq_error q),
      fa_meta_extra =
        [(''row_count'', VInt (mq_row_count q)), (''events_emitted'', VInt (mq_events_emitted q)),
         (''cursor'', VDict (mq_cursor q)),
         (''recovery'', VDict (frame_recovery_policy
            (py_or (py_get (fm_cursor f) ''frame_policy'') (VDict []))))]\<rparr>"

definition commit_frame ::
    "frame_config \<Rightarrow> int \<Rightarrow> commit_request \<Rightarrow> frames_db \<Rightarrow> (pydict \<times> frames_db) answer" where
  "commit_frame cf frame_id q db =
     http_answer
       (case frame_with db frame_id of
          None \<Rightarrow> Inl (conflict_answer db frame_id (mq_worker_id q))
        | Some f \<Rightarrow>
            (if \<not> (fm_owner_worker f = Some (mq_worker_id q) \<and> fm_status f \<in> active_statuses)
             then Inl (conflict_answer db frame_id (mq_worker_id q))
             else (let event_id = next_id cf db; g = committed cf q event_id f in
               if key_taken cf g db
               then Inl (Raised (RuntimeError ''duplicate key value violates unique constraint''))
               else abind (insert_frame_event cf (Some event_id) (commit_args q db g)
                        (update_frame frame_id (committed cf q event_id) (drawn db)))
                 (\<lambda>(i, db'). Inr (frame_response cf g (Some i), drain_frame_outbox cf db')))))"

section \<open>Histories\<close>

datatype endpoint_call =
    ClaimCall frame_config int claim_request
  | HeartbeatCall frame_config int heartbeat_request
  | CommitCall frame_config int commit_request

definition settled :: "frames_db \<Rightarrow> ('a \<times> frames_db) answer \<Rightarrow> frames_db" where
  "settled db a = (case a of Inl e \<Rightarrow> db | Inr (r, db') \<Rightarrow> db')"

definition frame_call :: "frames_db \<Rightarrow> endpoint_call \<Rightarrow> frames_db" where
  "frame_call db call =
     (case call of
        ClaimCall cf stage_id q \<Rightarrow> settled db (claim_frames cf stage_id q db)
      | HeartbeatCall cf frame_id q \<Rightarrow> settled db (heartbeat_frame cf frame_id q db)
      | CommitCall cf frame_id q \<Rightarrow> settled db (commit_frame cf frame_id q db))"

definition frame_history :: "frames_db \<Rightarrow> endpoint_call list \<Rightarrow> frames_db" where
  "frame_history db calls = foldl frame_call db calls"

end
