(* ===== verification/Frame_Theorems.thy ===== *)
theory Frame_Theorems
  imports Frame_Endpoints
begin

text \<open>
  What frame leases promise. A frame is committed at most once and its attempts count its dispatches
  (\<open>leases_ok\<close>); a terminal frame never changes again; a claim takes away no live lease except that
  of the frame under its own key; a repeated claim renews and logs nothing; a repeated commit is
  answered with the event of the first. Counterexamples show what the endpoints do not promise.
\<close>

section \<open>Frames by identifier\<close>

definition terminal_frame :: "frame_lease \<Rightarrow> bool" where
  "terminal_frame f = (fm_status f \<in> {''COMPLETED'', ''FAILED''})"

definition frame_ids :: "frames_db \<Rightarrow> int list" where
  "frame_ids db = map fm_frame_id (fd_frames db)"

lemma find_distinct:
  "distinct (map k xs) \<Longrightarrow> x \<in> set xs \<Longrightarrow> k x = i \<Longrightarrow> find (\<lambda>y. k y = i) xs = Some x"
  by (induction xs) auto

lemma frame_with_Some: "frame_with db i = Some f \<Longrightarrow> f \<in> set (fd_frames db) \<and> fm_frame_id f = i"
  by (auto simp: frame_with_def find_Some_iff)

lemma frame_with_in:
  "distinct (frame_ids db) \<Longrightarrow> f \<in> set (fd_frames db) \<Longrightarrow> frame_with db (fm_frame_id f) = Some f"
  by (simp add: frame_with_def frame_ids_def find_distinct)

lemma find_map_update:
  "(\<And>r. k (h r) = k r) \<Longrightarrow>
   find (\<lambda>r. k r = i) (map (\<lambda>r. if k r = j then h r else r) xs) =
   (if i = j then map_option h (find (\<lambda>r. k r = i) xs) else find (\<lambda>r. k r = i) xs)"
  by (induction xs) auto

lemma frame_with_update [simp]:
  "(\<And>r. fm_frame_id (h r) = fm_frame_id r) \<Longrightarrow>
   frame_with (update_frame j h db) i =
   (if i = j then map_option h (frame_with db i) else frame_with db i)"
  by (simp add: frame_with_def update_frame_def find_map_update)

lemma frame_ids_update [simp]:
  "(\<And>r. fm_frame_id (h r) = fm_frame_id r) \<Longrightarrow> frame_ids (update_frame j h db) = frame_ids db"
  by (simp add: frame_ids_def update_frame_def)

lemma update_frame_fields [simp]:
  "fd_events (update_frame j h db) = fd_events db" "fd_stages (update_frame j h db) = fd_stages db"
  "fd_executions (update_frame j h db) = fd_executions db"
  "fd_commands (update_frame j h db) = fd_commands db"
  "fd_outbox (update_frame j h db) = fd_outbox db"
  "fd_frames (update_frame j h db) = map (\<lambda>r. if fm_frame_id r = j then h r else r) (fd_frames db)"
  by (simp_all add: update_frame_def)

lemma drawn_fields [simp]:
  "fd_events (drawn db) = fd_events db" "fd_stages (drawn db) = fd_stages db"
  "fd_executions (drawn db) = fd_executions db" "fd_commands (drawn db) = fd_commands db"
  "fd_outbox (drawn db) = fd_outbox db" "fd_frames (drawn db) = fd_frames db"
  "frame_ids (drawn db) = frame_ids db" "frame_with (drawn db) i = frame_with db i"
  by (simp_all add: drawn_def frame_ids_def frame_with_def)

lemma drain_fields [simp]:
  "fd_events (drain_frame_outbox cf db) = fd_events db" "fd_stages (drain_frame_outbox cf db) = fd_stages db"
  "fd_executions (drain_frame_outbox cf db) = fd_executions db"
  "fd_commands (drain_frame_outbox cf db) = fd_commands db"
  "fd_frames (drain_frame_outbox cf db) = fd_frames db"
  "frame_ids (drain_frame_outbox cf db) = frame_ids db"
  "frame_with (drain_frame_outbox cf db) i = frame_with db i"
  by (simp_all add: drain_frame_outbox_def frame_ids_def frame_with_def split: option.split)

lemma changed_ids [simp]:
  "fm_frame_id (renewed cf c f) = fm_frame_id f" "fm_frame_id (claimed_by cf c i f) = fm_frame_id f"
  "fm_frame_id (beaten cf hq f) = fm_frame_id f" "fm_frame_id (committed cf mq i f) = fm_frame_id f"
  by (simp_all add: renewed_def claimed_by_def beaten_def committed_def)

lemma newest_frame_in: "newest_frame rs = Some f \<Longrightarrow> f \<in> set rs"
proof -
  assume "newest_frame rs = Some f"
  then have "sort_key fm_frame_id rs \<noteq> [] \<and> f = last (sort_key fm_frame_id rs)"
    by (auto simp: newest_frame_def split: list.splits)
  then have "f \<in> set (sort_key fm_frame_id rs)" using last_in_set by blast
  then show ?thesis by simp
qed

lemma oldest_frame_in: "oldest_frame rs = Some f \<Longrightarrow> f \<in> set rs"
proof -
  assume "oldest_frame rs = Some f"
  then obtain xs where "sort_key fm_frame_id rs = f # xs"
    by (auto simp: oldest_frame_def split: list.splits)
  then show ?thesis by (metis list.set_intros(1) set_sort)
qed

lemma newest_frame_None [simp]: "newest_frame rs = None \<longleftrightarrow> rs = []"
proof -
  have "newest_frame rs = None \<longleftrightarrow> sort_key fm_frame_id rs = []"
    by (cases "sort_key fm_frame_id rs") (simp_all add: newest_frame_def)
  also have "\<dots> \<longleftrightarrow> rs = []" by (metis length_0_conv length_sort)
  finally show ?thesis .
qed

lemma oldest_frame_None [simp]: "oldest_frame rs = None \<longleftrightarrow> rs = []"
proof -
  have "oldest_frame rs = None \<longleftrightarrow> sort_key fm_frame_id rs = []"
    by (cases "sort_key fm_frame_id rs") (simp_all add: oldest_frame_def)
  also have "\<dots> \<longleftrightarrow> rs = []" by (metis length_0_conv length_sort)
  finally show ?thesis .
qed

lemma newest_frame_single [simp]: "newest_frame [f] = Some f"
  by (simp add: newest_frame_def)

section \<open>What the parts of a call write\<close>

lemma write_frame_event_Inr:
  assumes "write_frame_event cf i a db = Inr db'"
  shows "fd_frames db' = fd_frames db \<and> fd_stages db' = fd_stages db \<and> fd_drawn db' = fd_drawn db \<and>
    fd_executions db' = fd_executions db \<and> fd_commands db' = fd_commands db \<and>
    (\<exists>e. fd_events db' = fd_events db @ [e] \<and> fe_event_id e = i \<and>
       fe_frame_id e = fm_frame_id (fa_frame a) \<and> fe_event_type e = fa_event_type a \<and>
       fe_status e = fa_status a)"
  using assms by (auto simp: write_frame_event_def Let_def elim!: abind_InrE split: if_splits)

lemma insert_frame_event_Inr:
  assumes "insert_frame_event cf given a db = Inr (i, db')"
  shows "fd_frames db' = fd_frames db \<and> fd_stages db' = fd_stages db \<and>
    fd_executions db' = fd_executions db \<and> fd_commands db' = fd_commands db \<and>
    i = (case given of Some j \<Rightarrow> j | None \<Rightarrow> next_id cf db) \<and>
    (\<exists>e. fd_events db' = fd_events db @ [e] \<and> fe_event_id e = i \<and>
       fe_frame_id e = fm_frame_id (fa_frame a) \<and> fe_event_type e = fa_event_type a \<and>
       fe_status e = fa_status a)"
  using assms
  by (auto simp: insert_frame_event_def Let_def elim!: abind_InrE dest!: write_frame_event_Inr
      split: option.splits)

text \<open>The frames a claim may take: free ones, and whatever active frame is under the request's key.\<close>

definition takes :: "frame_config \<Rightarrow> claim_scope \<Rightarrow> frame_lease \<Rightarrow> bool" where
  "takes cf c f =
     (fm_status f = ''PENDING'' \<or> expired_lease cf f \<or>
      (fm_status f \<in> active_statuses \<and> lease_key cf f \<noteq> None \<and>
       lease_key cf f = frame_claim_key (fs_stage_id (cs_stage c)) (cq_cursor (cs_request c))))"

lemma idempotent_frame_in:
  assumes "idempotent_frame cf c db = Some f"
  shows "f \<in> set (fd_frames db) \<and> takes cf c f"
proof -
  from assms obtain key where k: "frame_claim_key (fs_stage_id (cs_stage c)) (cq_cursor (cs_request c)) = Some key"
    and n: "newest_frame (filter (\<lambda>r. fm_command_id r = cs_command_id c \<and>
        fm_owner_worker r = Some (cq_worker_id (cs_request c)) \<and> fm_status r \<in> active_statuses)
        (keyed_frames cf db key)) = Some f"
    by (auto simp: idempotent_frame_def load_idempotent_claimed_frame_def split: option.splits)
  show ?thesis using newest_frame_in [OF n] k by (auto simp: keyed_frames_def takes_def)
qed

lemma claimable_frame_in:
  assumes "claimable_frame cf c db = Some f"
  shows "f \<in> set (fd_frames db) \<and> takes cf c f"
  using oldest_frame_in [OF assms [unfolded claimable_frame_def load_claimable_frame_def]]
  by (auto simp: takes_def)

lemma frame_by_claim_key_in:
  assumes "load_frame_by_claim_key cf db (fs_stage_id (cs_stage c)) (cq_cursor (cs_request c)) = Some f"
  shows "f \<in> set (fd_frames db) \<and> takes cf c f"
proof -
  from assms obtain key where k: "frame_claim_key (fs_stage_id (cs_stage c)) (cq_cursor (cs_request c)) = Some key"
    and n: "newest_frame (filter (\<lambda>r. fm_status r \<in> {''PENDING'', ''CLAIMED'', ''RUNNING''}
        \<and> \<not> fc_locked cf (fm_frame_id r)) (keyed_frames cf db key)) = Some f"
    by (auto simp: load_frame_by_claim_key_def split: option.splits)
  show ?thesis using newest_frame_in [OF n] k
    by (auto simp: keyed_frames_def takes_def active_statuses_def)
qed

lemma takes_not_terminal: "takes cf c f \<Longrightarrow> \<not> terminal_frame f"
  by (auto simp: takes_def terminal_frame_def expired_lease_def active_statuses_def)

lemma mint_or_find_cases:
  assumes "mint_or_find cf c i db = Inr (f, db')"
  obtains (found) "f \<in> set (fd_frames db)" and "takes cf c f" and "db' = db"
  | (fresh) p where "f = minted cf c i p" and "\<not> insert_conflict cf f db"
      and "db' = db\<lparr>fd_frames := fd_frames db @ [f]\<rparr>"
proof -
  let ?p = "resolve_parent_frame_id cf db (fs_stage_id (cs_stage c)) (cq_cursor (cs_request c))"
  show thesis
  proof (cases "insert_conflict cf (minted cf c i ?p) db")
    case False
    then have "f = minted cf c i ?p" "db' = db\<lparr>fd_frames := fd_frames db @ [f]\<rparr>"
      using assms by (auto simp: mint_or_find_def Let_def)
    with False show thesis by (intro fresh) simp_all
  next
    case True
    let ?l = "load_frame_by_claim_key cf db (fs_stage_id (cs_stage c)) (cq_cursor (cs_request c))"
    show thesis
    proof (cases ?l)
      case (Some g)
      then have "g = f" "db' = db" using assms True by (simp_all add: mint_or_find_def Let_def)
      then show thesis using frame_by_claim_key_in [of cf db c f] Some by (intro found) simp_all
    next
      case None
      let ?k = "if frame_claim_key (fs_stage_id (cs_stage c)) (cq_cursor (cs_request c)) = None
        then claimable_frame cf c db else None"
      obtain g where g: "?k = Some g"
        using assms True None by (cases ?k) (simp_all add: mint_or_find_def Let_def)
      then have "g = f" "db' = db" using assms True None by (simp_all add: mint_or_find_def Let_def)
      moreover have "claimable_frame cf c db = Some g" using g by (simp split: if_splits)
      ultimately show thesis using claimable_frame_in [of cf c db f] by (intro found) simp_all
    qed
  qed
qed

text \<open>The second lookups of a round see what the first ones saw.\<close>

lemma drawn_keyed [simp]: "keyed_frames cf (drawn db) k = keyed_frames cf db k"
  by (simp add: keyed_frames_def)

lemma drawn_lookups [simp]:
  "idempotent_frame cf c (drawn db) = idempotent_frame cf c db"
  "claimable_frame cf c (drawn db) = claimable_frame cf c db"
  "insert_conflict cf f (drawn db) = insert_conflict cf f db"
  by (simp_all add: idempotent_frame_def load_idempotent_claimed_frame_def claimable_frame_def
      load_claimable_frame_def insert_conflict_def cong: option.case_cong)

lemma claim_one_unfold:
  "claim_one cf c db =
     (case idempotent_frame cf c db of
        Some f \<Rightarrow> renew cf c f db
      | None \<Rightarrow>
          (case claimable_frame cf c db of
             Some f \<Rightarrow> dispatch_frame cf c f db
           | None \<Rightarrow> abind (mint_or_find cf c (next_id cf db) (drawn db))
               (\<lambda>(f, db2). dispatch_frame cf c f db2)))"
  by (simp add: claim_one_def Let_def split: option.split)

text \<open>
  A change of one frame: the row under its identifier goes through \<open>h\<close>, and the events that are
  added are of that frame.
\<close>

definition changes ::
    "frames_db \<Rightarrow> int \<Rightarrow> (frame_lease \<Rightarrow> frame_lease) \<Rightarrow> frame_event list \<Rightarrow> frames_db \<Rightarrow> bool" where
  "changes db i h es db' =
     (fd_frames db' = map (\<lambda>r. if fm_frame_id r = i then h r else r) (fd_frames db) \<and>
      fd_events db' = fd_events db @ es \<and> list_all (\<lambda>e. fe_frame_id e = i) es \<and>
      fd_stages db' = fd_stages db \<and> fd_executions db' = fd_executions db \<and>
      fd_commands db' = fd_commands db)"

lemma changes_with:
  assumes "changes db i h es db'" and "\<And>r. fm_frame_id (h r) = fm_frame_id r"
  shows "frame_with db' j = (if j = i then map_option h (frame_with db j) else frame_with db j)"
    and "frame_ids db' = frame_ids db"
  using assms by (auto simp: changes_def frame_with_def frame_ids_def find_map_update)

lemma dispatch_frame_Inr:
  assumes "dispatch_frame cf c f db = Inr (r, db')"
  obtains i es where "changes db (fm_frame_id f) (claimed_by cf c i) es db'"
    and "filter (\<lambda>e. fe_event_type e \<in> {''frame.committed'', ''frame.failed''}) es = []"
    and "length (filter (\<lambda>e. fe_event_type e = ''frame.dispatched'') es) = 1"
    and "r = frame_response cf (claimed_by cf c i f) (Some i)"
proof -
  obtain db1 k where a: "report_abandoned cf c f db = Inr db1"
    and d: "insert_frame_event cf (Some (next_id cf db1))
        (dispatched_args c (claimed_by cf c (next_id cf db1) f))
        (update_frame (fm_frame_id f) (claimed_by cf c (next_id cf db1)) (drawn db1))
      = Inr (k, db')"
    and r0: "r = frame_response cf (claimed_by cf c (next_id cf db1) f) (Some k)"
    using assms by (auto simp: dispatch_frame_def Let_def elim!: abind_InrE)
  have k: "k = next_id cf db1" using insert_frame_event_Inr [OF d] by simp
  note r = r0 [unfolded k]
  obtain es where es: "fd_events db1 = fd_events db @ es" "list_all (\<lambda>e. fe_frame_id e = fm_frame_id f) es"
    "list_all (\<lambda>e. fe_event_type e = ''frame.abandoned'') es"
    "fd_frames db1 = fd_frames db" "fd_stages db1 = fd_stages db"
    "fd_executions db1 = fd_executions db" "fd_commands db1 = fd_commands db"
  proof (cases "expired_lease cf f")
    case True
    then obtain i where "insert_frame_event cf None (abandoned_args cf c f) db = Inr (i, db1)"
      using a by (auto simp: report_abandoned_def elim!: abind_InrE)
    from insert_frame_event_Inr [OF this] obtain e where "fd_events db1 = fd_events db @ [e]"
      "fe_frame_id e = fm_frame_id f" "fe_event_type e = ''frame.abandoned''"
      "fd_frames db1 = fd_frames db" "fd_stages db1 = fd_stages db"
      "fd_executions db1 = fd_executions db" "fd_commands db1 = fd_commands db"
      by (auto simp: abandoned_args_def)
    then show thesis by (intro that [of "[e]"]) simp_all
  next
    case False
    then show thesis using a by (intro that [of "[]"]) (simp_all add: report_abandoned_def)
  qed
  obtain e where e: "fd_events db' = fd_events db1 @ [e]" "fe_frame_id e = fm_frame_id f"
    "fe_event_type e = ''frame.dispatched''"
    "fd_frames db' = map (\<lambda>r. if fm_frame_id r = fm_frame_id f then claimed_by cf c (next_id cf db1) r else r) (fd_frames db1)"
    "fd_stages db' = fd_stages db1" "fd_executions db' = fd_executions db1" "fd_commands db' = fd_commands db1"
    using insert_frame_event_Inr [OF d] by (auto simp: dispatched_args_def Let_def)
  have none: "filter (\<lambda>e. fe_event_type e = ''frame.dispatched'') es = []"
    "filter (\<lambda>e. fe_event_type e \<in> {''frame.committed'', ''frame.failed''}) es = []"
    using es(3) by (auto simp: filter_empty_conv list_all_iff)
  show thesis
  proof (rule that [of "next_id cf db1" "es @ [e]"])
    show "changes db (fm_frame_id f) (claimed_by cf c (next_id cf db1)) (es @ [e]) db'"
      using e es by (simp add: changes_def)
  qed (use none e r in simp_all)
qed

lemma renew_Inr:
  assumes "renew cf c f db = Inr (r, db')"
  shows "changes db (fm_frame_id f) (renewed cf c) [] db' \<and>
    r = frame_response cf (renewed cf c f) (fm_claimed_event_id f)"
  using assms by (auto simp: renew_def changes_def)

text \<open>A round of a claim: a renewal, a dispatch of a frame it may take, or of a new frame.\<close>

lemma claim_one_cases:
  assumes "claim_one cf c db = Inr (r, db')"
  obtains (renew) f where "idempotent_frame cf c db = Some f" and "renew cf c f db = Inr (r, db')"
  | (dispatch) f db0 where "f \<in> set (fd_frames db)" and "takes cf c f" and "db0 \<in> {db, drawn db}"
      and "dispatch_frame cf c f db0 = Inr (r, db')"
  | (fresh) p where "\<not> insert_conflict cf (minted cf c (next_id cf db) p) db"
      and "dispatch_frame cf c (minted cf c (next_id cf db) p)
        (drawn db\<lparr>fd_frames := fd_frames db @ [minted cf c (next_id cf db) p]\<rparr>) = Inr (r, db')"
proof (cases "idempotent_frame cf c db")
  case (Some f)
  then show thesis using assms renew by (simp add: claim_one_unfold)
next
  case None
  show thesis
  proof (cases "claimable_frame cf c db")
    case (Some f)
    then have "dispatch_frame cf c f db = Inr (r, db')" using assms None by (simp add: claim_one_unfold)
    then show thesis using claimable_frame_in [OF Some] by (intro dispatch [of f db]) auto
  next
    case no: None
    obtain f db2 where m: "mint_or_find cf c (next_id cf db) (drawn db) = Inr (f, db2)"
      and d: "dispatch_frame cf c f db2 = Inr (r, db')"
      using assms None no by (auto simp: claim_one_unfold elim!: abind_InrE)
    from m show thesis
    proof (cases rule: mint_or_find_cases)
      case found
      then show thesis using d by (intro dispatch [of f "drawn db"]) auto
    next
      case (fresh p)
      then show thesis using d by (intro that(3) [of p]) simp_all
    qed
  qed
qed

lemma claim_times_invariant:
  assumes "claim_times cf c n cl db = Inr (rs, db')" and "I db"
    and "\<And>db r db'. claim_one cf c db = Inr (r, db') \<Longrightarrow> I db \<Longrightarrow> I db'"
  shows "I db'"
  using assms(1,2)
proof (induction n arbitrary: cl db)
  case (Suc n)
  obtain r db1 where "claim_one cf c db = Inr (r, db1)" "claim_times cf c n (cl @ [r]) db1 = Inr (rs, db')"
    using Suc.prems(1) by (auto elim: abind_InrE)
  then show ?case using Suc.IH Suc.prems(2) assms(3) by blast
qed simp

lemma load_stage_Inr:
  assumes "load_stage db i = Inr (s, k)"
  shows "fs_stage_id s = i \<and> s \<in> set (fd_stages db) \<and> map_of (fd_executions db) (fs_execution_id s) = Some k
    \<and> fs_status s \<in> {''OPEN'', ''RUNNING''}"
proof -
  let ?g = "\<lambda>s. if fs_stage_id s = i then map_option (Pair s) (map_of (fd_executions db) (fs_execution_id s)) else None"
  obtain ps where p: "List.map_filter ?g (fd_stages db) = (s, k) # ps"
    and st: "fs_status s \<in> {''OPEN'', ''RUNNING''}"
    using assms by (auto simp: load_stage_def split: list.splits if_splits)
  have "(s, k) \<in> set (List.map_filter ?g (fd_stages db))" by (simp add: p)
  then obtain t where "t \<in> set (fd_stages db)" "?g t = Some (s, k)"
    by (auto simp: List.map_filter_def)
  then show ?thesis using st by (auto split: if_splits)
qed

definition scope_of :: "frames_db \<Rightarrow> claim_request \<Rightarrow> frame_stage \<Rightarrow> int \<Rightarrow> claim_scope" where
  "scope_of db q s k =
     \<lparr>cs_request = q, cs_stage = s, cs_catalog_id = k,
      cs_command_id = resolve_claim_command_id db (fs_execution_id s) (fs_stage_id s)
        (cq_worker_id q) (cq_command_id q)\<rparr>"

lemma scope_of_simps [simp]:
  "cs_request (scope_of db q s k) = q" "cs_stage (scope_of db q s k) = s"
  "cs_catalog_id (scope_of db q s k) = k"
  by (simp_all add: scope_of_def)

lemma claim_frames_Inr:
  assumes "claim_frames cf i q db = Inr (rs, db')"
  obtains s k db1 where "load_stage db i = Inr (s, k)" and "fs_stage_id s = i"
    and "claim_times cf (scope_of db q s k) (cq_requested_count q) [] db = Inr (rs, db1)"
    and "db' = drain_frame_outbox cf db1"
proof -
  obtain s k where l: "load_stage db i = Inr (s, k)"
    and "abind (claim_times cf (scope_of db q s k) (cq_requested_count q) [] db)
          (\<lambda>(claimed, db'). Inr (claimed, drain_frame_outbox cf db')) = Inr (rs, db')"
    using assms load_stage_Inr by (fastforce simp: claim_frames_def scope_of_def elim!: abind_InrE)
  then show thesis using load_stage_Inr [OF l] that [of s k] by (auto elim!: abind_InrE)
qed

section \<open>Commits and attempts\<close>

definition terminal_events :: "frame_event list \<Rightarrow> int \<Rightarrow> frame_event list" where
  "terminal_events es i =
     filter (\<lambda>e. fe_frame_id e = i \<and> fe_event_type e \<in> {''frame.committed'', ''frame.failed''}) es"

definition dispatches :: "frame_event list \<Rightarrow> int \<Rightarrow> nat" where
  "dispatches es i = length (filter (\<lambda>e. fe_frame_id e = i \<and> fe_event_type e = ''frame.dispatched'') es)"

definition lease_ok :: "frame_event list \<Rightarrow> frame_lease \<Rightarrow> bool" where
  "lease_ok es f =
     (map (\<lambda>e. (Some (fe_event_id e), fe_status e)) (terminal_events es (fm_frame_id f)) =
        (if terminal_frame f then [(fm_terminal_event_id f, fm_status f)] else []) \<and>
      fm_attempts f = int (dispatches es (fm_frame_id f)))"

definition leases_ok :: "frames_db \<Rightarrow> bool" where
  "leases_ok db =
     (distinct (frame_ids db) \<and> list_all (lease_ok (fd_events db)) (fd_frames db) \<and>
      list_all (\<lambda>e. fe_frame_id e \<in> set (frame_ids db)) (fd_events db))"

lemma terminal_events_simps [simp]:
  "terminal_events [] i = []"
  "terminal_events (es @ es') i = terminal_events es i @ terminal_events es' i"
  "dispatches [] i = 0" "dispatches (es @ es') i = dispatches es i + dispatches es' i"
  by (simp_all add: terminal_events_def dispatches_def)

lemma of_other_frames:
  "list_all (\<lambda>e. fe_frame_id e = i) es \<Longrightarrow> j \<noteq> i \<Longrightarrow> terminal_events es j = [] \<and> dispatches es j = 0"
  by (auto simp: terminal_events_def dispatches_def list_all_iff filter_empty_conv)

lemma leases_ok_frames:
  "fd_frames db' = fd_frames db \<Longrightarrow> fd_events db' = fd_events db \<Longrightarrow> leases_ok db' = leases_ok db"
  by (simp add: leases_ok_def frame_ids_def)

lemma changes_leases_ok:
  assumes "changes db i h es db'" and "leases_ok db" and "frame_with db i = Some f"
    and "\<And>r. fm_frame_id (h r) = fm_frame_id r" and "lease_ok (fd_events db @ es) (h f)"
  shows "leases_ok db'"
proof -
  have f: "f \<in> set (fd_frames db)" "fm_frame_id f = i" using frame_with_Some [OF assms(3)] by auto
  have ids: "frame_ids db' = frame_ids db" using changes_with [OF assms(1,4)] by simp
  have d: "distinct (frame_ids db)" using assms(2) by (simp add: leases_ok_def)
  have es: "list_all (\<lambda>e. fe_frame_id e = i) es" using assms(1) by (simp add: changes_def)
  have "lease_ok (fd_events db') g" if "g \<in> set (fd_frames db')" for g
  proof -
    have "g \<in> (\<lambda>r. if fm_frame_id r = i then h r else r) ` set (fd_frames db)"
      using that assms(1) by (simp add: changes_def)
    then obtain r where r: "g = (if fm_frame_id r = i then h r else r)" "r \<in> set (fd_frames db)"
      by (rule imageE)
    show ?thesis
    proof (cases "fm_frame_id r = i")
      case True
      then have "r = f" using frame_with_in [OF d r(2)] assms(3) by simp
      then show ?thesis using assms(1,5) r(1) True by (simp add: changes_def)
    next
      case False
      then have "lease_ok (fd_events db) g" using r assms(2) by (auto simp: leases_ok_def list_all_iff)
      then show ?thesis using False r(1) of_other_frames [OF es, of "fm_frame_id g"] assms(1)
        by (simp add: lease_ok_def changes_def)
    qed
  qed
  moreover have "list_all (\<lambda>e. fe_frame_id e \<in> set (frame_ids db')) (fd_events db')"
  proof -
    have "i \<in> set (frame_ids db)" using f by (auto simp: frame_ids_def)
    then show ?thesis using assms(1,2) es ids by (auto simp: changes_def leases_ok_def list_all_iff)
  qed
  ultimately show ?thesis using d ids by (simp add: leases_ok_def list_all_iff)
qed

lemma minted_leases_ok:
  assumes "leases_ok db" and "\<not> insert_conflict cf (minted cf c i p) db"
  shows "leases_ok (drawn db\<lparr>fd_frames := fd_frames db @ [minted cf c i p]\<rparr>)"
proof -
  have i: "i \<notin> set (frame_ids db)"
    using assms(2) by (auto simp: insert_conflict_def list_ex_iff minted_def frame_ids_def)
  have "terminal_events (fd_events db) i = []" "dispatches (fd_events db) i = 0"
    using assms(1) i by (auto simp: leases_ok_def list_all_iff terminal_events_def dispatches_def filter_empty_conv)
  then show ?thesis using assms(1) i
    by (auto simp: leases_ok_def lease_ok_def frame_ids_def minted_def terminal_frame_def list_all_iff)
qed

text \<open>Events of the frame itself.\<close>

lemma own_events:
  "list_all (\<lambda>e. fe_frame_id e = i) es \<Longrightarrow>
   terminal_events es i = filter (\<lambda>e. fe_event_type e \<in> {''frame.committed'', ''frame.failed''}) es \<and>
   dispatches es i = length (filter (\<lambda>e. fe_event_type e = ''frame.dispatched'') es)"
  by (induction es) (auto simp: terminal_events_def dispatches_def)

lemma dispatch_leases_ok:
  assumes "dispatch_frame cf c f db = Inr (r, db')" and "leases_ok db" and "f \<in> set (fd_frames db)"
    and "\<not> terminal_frame f"
  shows "leases_ok db'"
proof -
  obtain i es where ch: "changes db (fm_frame_id f) (claimed_by cf c i) es db'"
    and es: "filter (\<lambda>e. fe_event_type e \<in> {''frame.committed'', ''frame.failed''}) es = []"
      "length (filter (\<lambda>e. fe_event_type e = ''frame.dispatched'') es) = 1"
    using dispatch_frame_Inr [OF assms(1)] by metis
  have own: "terminal_events es (fm_frame_id f) = []" "dispatches es (fm_frame_id f) = 1"
    using own_events [of "fm_frame_id f" es] es ch by (simp_all add: changes_def)
  have ok: "lease_ok (fd_events db) f" and w: "frame_with db (fm_frame_id f) = Some f"
    using assms(2,3) frame_with_in by (auto simp: leases_ok_def list_all_iff)
  have "lease_ok (fd_events db @ es) (claimed_by cf c i f)"
    using ok own assms(4) by (simp add: lease_ok_def claimed_by_def terminal_frame_def)
  then show ?thesis by (rule changes_leases_ok [OF ch assms(2) w changed_ids(2)])
qed

lemma claim_one_leases_ok:
  assumes "claim_one cf c db = Inr (r, db')" and "leases_ok db"
  shows "leases_ok db'"
  using assms(1)
proof (cases rule: claim_one_cases)
  case (renew f)
  have f: "f \<in> set (fd_frames db)" "\<not> terminal_frame f"
    using idempotent_frame_in [OF renew(1)] takes_not_terminal by blast+
  have ch: "changes db (fm_frame_id f) (renewed cf c) [] db'" using renew_Inr [OF renew(2)] by simp
  have w: "frame_with db (fm_frame_id f) = Some f" and ok: "lease_ok (fd_events db) f"
    using assms(2) f(1) frame_with_in by (auto simp: leases_ok_def list_all_iff)
  have "lease_ok (fd_events db @ []) (renewed cf c f)"
    using ok by (simp add: lease_ok_def renewed_def terminal_frame_def)
  then show ?thesis by (rule changes_leases_ok [OF ch assms(2) w changed_ids(1)])
next
  case (dispatch f db0)
  then have "leases_ok db0" "f \<in> set (fd_frames db0)"
    using assms(2) leases_ok_frames [of "drawn db" db] by auto
  then show ?thesis using dispatch_leases_ok [OF dispatch(4)] takes_not_terminal [OF dispatch(2)] by blast
next
  case (fresh p)
  show ?thesis
    by (rule dispatch_leases_ok [OF fresh(2) minted_leases_ok [OF assms(2) fresh(1)]])
      (simp_all add: terminal_frame_def minted_def)
qed

lemma claim_frames_leases_ok:
  "claim_frames cf i q db = Inr (rs, db') \<Longrightarrow> leases_ok db \<Longrightarrow> leases_ok db'"
  by (erule claim_frames_Inr)
    (auto simp: leases_ok_frames [of "drain_frame_outbox cf db1" db1 for db1]
      intro: claim_times_invariant [where I = leases_ok] claim_one_leases_ok)

lemma heartbeat_write_Inr:
  assumes "heartbeat_write cf i q active db = Inr (r, db')"
  obtains previous f e db1 where "active = Some previous" and "frame_with db i = Some f"
    and "changes db i (beaten cf q) [e] db1" and "db' = drain_frame_outbox cf db1"
    and "fe_event_type e = heartbeat_event_type previous q"
proof -
  obtain previous f where p: "active = Some previous" "frame_with db i = Some f"
    using assms by (auto simp: heartbeat_write_def split: option.splits)
  obtain j db1 where a: "insert_frame_event cf None (heartbeat_args cf previous q db (beaten cf q f))
      (update_frame i (beaten cf q) db) = Inr (j, db1)" and d: "db' = drain_frame_outbox cf db1"
    using assms p by (auto simp: heartbeat_write_def Let_def elim!: abind_InrE)
  from insert_frame_event_Inr [OF a] obtain e where e:
    "fd_events db1 = fd_events db @ [e]" "fe_frame_id e = fm_frame_id (beaten cf q f)"
    "fe_event_type e = heartbeat_event_type previous q"
    "fd_frames db1 = map (\<lambda>r. if fm_frame_id r = i then beaten cf q r else r) (fd_frames db)"
    "fd_stages db1 = fd_stages db" "fd_executions db1 = fd_executions db" "fd_commands db1 = fd_commands db"
    by (auto simp: heartbeat_args_def)
  have "changes db i (beaten cf q) [e] db1"
    using e frame_with_Some [OF p(2)] by (simp add: changes_def)
  then show thesis using that p d e(3) by blast
qed

lemma heartbeat_frame_Inr:
  assumes "heartbeat_frame cf i q db = Inr (r, db')"
  obtains f e db1 where "frame_with db i = Some f" and "fm_owner_worker f = Some (hq_worker_id q)"
    and "fm_status f \<in> active_statuses" and "changes db i (beaten cf q) [e] db1"
    and "db' = drain_frame_outbox cf db1" and "fe_event_type e = heartbeat_event_type (fm_status f) q"
proof -
  obtain previous f e db1 where h: "heartbeat_active i (hq_worker_id q) db = Some previous"
      "frame_with db i = Some f" "changes db i (beaten cf q) [e] db1" "db' = drain_frame_outbox cf db1"
      "fe_event_type e = heartbeat_event_type previous q"
    using heartbeat_write_Inr [OF assms [unfolded heartbeat_frame_def]] by metis
  then have "fm_owner_worker f = Some (hq_worker_id q) \<and> fm_status f \<in> active_statuses \<and> previous = fm_status f"
    by (auto simp: heartbeat_active_def split: if_splits)
  then show thesis using that h by blast
qed

lemma commit_frame_Inr:
  assumes "commit_frame cf i q db = Inr (r, db')"
  obtains f k e db1 where "frame_with db i = Some f" and "fm_owner_worker f = Some (mq_worker_id q)"
    and "fm_status f \<in> active_statuses" and "changes db i (committed cf q k) [e] db1"
    and "db' = drain_frame_outbox cf db1" and "fe_event_type e = frame_terminal_event_type q"
    and "fe_event_id e = k" and "fe_status e = frame_terminal_status q" and "\<not> key_taken cf (committed cf q k f) db"
    and "r = frame_response cf (committed cf q k f) (Some k)"
proof -
  obtain f where f: "frame_with db i = Some f" using assms
    by (auto simp: commit_frame_def split: option.splits)
  have own: "fm_owner_worker f = Some (mq_worker_id q)" "fm_status f \<in> active_statuses"
    using assms f by (auto simp: commit_frame_def split: if_splits)
  let ?k = "next_id cf db"
  have free: "\<not> key_taken cf (committed cf q ?k f) db"
    using assms f own by (auto simp: commit_frame_def Let_def split: if_splits)
  obtain j db1 where a: "insert_frame_event cf (Some ?k) (commit_args q db (committed cf q ?k f))
      (update_frame i (committed cf q ?k) (drawn db)) = Inr (j, db1)"
    and d: "db' = drain_frame_outbox cf db1" and r: "r = frame_response cf (committed cf q ?k f) (Some j)"
    using assms f own free by (auto simp: commit_frame_def Let_def elim!: abind_InrE)
  from insert_frame_event_Inr [OF a] obtain e where e:
    "fd_events db1 = fd_events db @ [e]" "fe_frame_id e = fm_frame_id f" "fe_event_id e = ?k"
    "fe_event_type e = frame_terminal_event_type q" "fe_status e = frame_terminal_status q" "j = ?k"
    "fd_frames db1 = map (\<lambda>r. if fm_frame_id r = i then committed cf q ?k r else r) (fd_frames db)"
    "fd_stages db1 = fd_stages db" "fd_executions db1 = fd_executions db" "fd_commands db1 = fd_commands db"
    by (auto simp: commit_args_def)
  have "changes db i (committed cf q ?k) [e] db1"
    using e frame_with_Some [OF f] by (simp add: changes_def)
  then show thesis using that [of f ?k e db1] f own free d r e by simp
qed

text \<open>
  A heartbeat writes whatever status it is sent; the calls of the cursor worker send \<open>RUNNING\<close>.
\<close>

fun honest_call :: "endpoint_call \<Rightarrow> bool" where
  "honest_call (HeartbeatCall cf i q) = (hq_status q \<notin> {''COMPLETED'', ''FAILED''})"
| "honest_call _ = True"

lemma heartbeat_leases_ok:
  assumes "heartbeat_frame cf i q db = Inr (r, db')" and "leases_ok db"
    and "hq_status q \<notin> {''COMPLETED'', ''FAILED''}"
  shows "leases_ok db'"
proof -
  obtain f e db1 where h: "frame_with db i = Some f" "fm_status f \<in> active_statuses"
    "changes db i (beaten cf q) [e] db1" "db' = drain_frame_outbox cf db1"
    "fe_event_type e = heartbeat_event_type (fm_status f) q"
    using heartbeat_frame_Inr [OF assms(1)] by metis
  have ok: "lease_ok (fd_events db) f" and i: "fm_frame_id f = i" and nt: "\<not> terminal_frame f"
    using assms(2) frame_with_Some [OF h(1)] h(2)
    by (auto simp: leases_ok_def list_all_iff terminal_frame_def active_statuses_def)
  have "terminal_events [e] i = []" "dispatches [e] i = 0"
    using h(5) by (simp_all add: terminal_events_def dispatches_def heartbeat_event_type_def)
  then have "lease_ok (fd_events db @ [e]) (beaten cf q f)"
    using ok i nt assms(3) by (simp add: lease_ok_def beaten_def terminal_frame_def)
  then have "leases_ok db1" by (rule changes_leases_ok [OF h(3) assms(2) h(1) changed_ids(3)])
  then show ?thesis using h(4) leases_ok_frames [of db' db1] by simp
qed

lemma frame_terminal_status_cases: "frame_terminal_status q = ''FAILED'' \<or> frame_terminal_status q = ''COMPLETED''"
  by (simp add: frame_terminal_status_def)

lemma commit_leases_ok:
  assumes "commit_frame cf i q db = Inr (r, db')" and "leases_ok db"
  shows "leases_ok db'"
proof -
  obtain f k e db1 where h: "frame_with db i = Some f" "fm_status f \<in> active_statuses"
    "changes db i (committed cf q k) [e] db1" "db' = drain_frame_outbox cf db1"
    "fe_event_type e = frame_terminal_event_type q" "fe_event_id e = k" "fe_status e = frame_terminal_status q"
    using commit_frame_Inr [OF assms(1)] by metis
  have ok: "lease_ok (fd_events db) f" and i: "fm_frame_id f = i" and nt: "\<not> terminal_frame f"
    using assms(2) frame_with_Some [OF h(1)] h(2)
    by (auto simp: leases_ok_def list_all_iff terminal_frame_def active_statuses_def)
  have e: "fe_frame_id e = i" using h(3) by (simp add: changes_def)
  have own: "terminal_events [e] i = [e]" "dispatches [e] i = 0"
    using h(5) e by (simp_all add: terminal_events_def dispatches_def frame_terminal_event_type_def)
  have "terminal_frame (committed cf q k f)"
    using frame_terminal_status_cases [of q] by (auto simp: terminal_frame_def committed_def)
  then have "lease_ok (fd_events db @ [e]) (committed cf q k f)"
    using ok i nt own h(6,7) by (simp add: lease_ok_def) (simp add: committed_def)
  then have "leases_ok db1" by (rule changes_leases_ok [OF h(3) assms(2) h(1) changed_ids(4)])
  then show ?thesis using h(4) leases_ok_frames [of db' db1] by simp
qed

lemma settled_cases:
  assumes "\<And>r db'. a = Inr (r, db') \<Longrightarrow> P db'" and "P db"
  shows "P (settled db a)"
  using assms by (cases a) (auto simp: settled_def)

lemma frame_call_leases_ok:
  assumes "honest_call c" and "leases_ok db"
  shows "leases_ok (frame_call db c)"
proof (cases c)
  case (ClaimCall cf i q)
  show ?thesis unfolding ClaimCall frame_call_def endpoint_call.case
    by (rule settled_cases [where P = leases_ok]) (use assms(2) claim_frames_leases_ok in blast)+
next
  case (HeartbeatCall cf i q)
  then have "hq_status q \<notin> {''COMPLETED'', ''FAILED''}" using assms(1) by simp
  then show ?thesis unfolding HeartbeatCall frame_call_def endpoint_call.case
    by (intro settled_cases [where P = leases_ok]) (use assms(2) heartbeat_leases_ok in blast)+
next
  case (CommitCall cf i q)
  show ?thesis unfolding CommitCall frame_call_def endpoint_call.case
    by (rule settled_cases [where P = leases_ok]) (use assms(2) commit_leases_ok in blast)+
qed

lemma frame_history_leases_ok:
  "list_all honest_call cs \<Longrightarrow> leases_ok db \<Longrightarrow> leases_ok (frame_history db cs)"
  by (induction cs arbitrary: db) (simp_all add: frame_history_def frame_call_leases_ok)


section \<open>What a claim leaves alone\<close>

lemma changes_keeps:
  assumes "changes db (fm_frame_id g) h es db'" and "\<And>r. fm_frame_id (h r) = fm_frame_id r"
    and "distinct (frame_ids db)" and "g \<in> set (fd_frames db)" and "frame_with db j = Some f" and "f \<noteq> g"
  shows "distinct (frame_ids db') \<and> frame_with db' j = Some f"
proof -
  have "j \<noteq> fm_frame_id g" using frame_with_in [OF assms(3,4)] assms(5,6) by auto
  then show ?thesis using changes_with [OF assms(1,2)] assms(3,5) by simp
qed

lemma claim_one_keeps:
  assumes "claim_one cf c db = Inr (r, db')" and "distinct (frame_ids db)"
    and "frame_with db j = Some f" and "\<not> takes cf c f"
  shows "distinct (frame_ids db') \<and> frame_with db' j = Some f"
  using assms(1)
proof (cases rule: claim_one_cases)
  case (renew g)
  have g: "g \<in> set (fd_frames db)" "f \<noteq> g" using idempotent_frame_in [OF renew(1)] assms(4) by auto
  have "changes db (fm_frame_id g) (renewed cf c) [] db'" using renew_Inr [OF renew(2)] by simp
  then show ?thesis by (rule changes_keeps [OF _ changed_ids(1) assms(2) g(1) assms(3) g(2)])
next
  case (dispatch g db0)
  obtain i es where ch: "changes db0 (fm_frame_id g) (claimed_by cf c i) es db'"
    using dispatch_frame_Inr [OF dispatch(4)] by metis
  have g: "g \<in> set (fd_frames db0)" "f \<noteq> g" "distinct (frame_ids db0)" "frame_with db0 j = Some f"
    using dispatch assms(2-4) by auto
  show ?thesis by (rule changes_keeps [OF ch changed_ids(2) g(3,1,4,2)])
next
  case (fresh p)
  let ?g = "minted cf c (next_id cf db) p"
  let ?db0 = "drawn db\<lparr>fd_frames := fd_frames db @ [?g]\<rparr>"
  obtain i es where ch: "changes ?db0 (fm_frame_id ?g) (claimed_by cf c i) es db'"
    using dispatch_frame_Inr [OF fresh(2)] by metis
  have new: "fm_frame_id ?g \<notin> set (frame_ids db)"
    using fresh(1) by (auto simp: insert_conflict_def list_ex_iff frame_ids_def)
  have f: "f \<in> set (fd_frames db)" "fm_frame_id f = j" using frame_with_Some [OF assms(3)] by auto
  have d: "distinct (frame_ids ?db0)" using new assms(2) by (simp add: frame_ids_def)
  have w: "frame_with ?db0 j = Some f" using frame_with_in [OF d, of f] f by simp
  have "f \<noteq> ?g" using new f by (auto simp: frame_ids_def)
  then show ?thesis by (intro changes_keeps [OF ch changed_ids(2) d _ w]) simp_all
qed

lemma claim_frames_keeps:
  assumes "claim_frames cf i q db = Inr (rs, db')" and "distinct (frame_ids db)"
    and "frame_with db j = Some f"
    and "\<And>s k. fs_stage_id s = i \<Longrightarrow> \<not> takes cf (scope_of db q s k) f"
  shows "distinct (frame_ids db') \<and> frame_with db' j = Some f"
proof -
  obtain s k db1 where s: "fs_stage_id s = i" and t: "claim_times cf (scope_of db q s k)
      (cq_requested_count q) [] db = Inr (rs, db1)" and d: "db' = drain_frame_outbox cf db1"
    using claim_frames_Inr [OF assms(1)] by metis
  have "distinct (frame_ids db1) \<and> frame_with db1 j = Some f"
    by (rule claim_times_invariant [OF t]) (use assms(2,3) claim_one_keeps assms(4) [OF s] in auto)
  then show ?thesis using d by simp
qed

text \<open>
  C22. A claim takes no live lease away: a frame that is claimed or running, whose lease has not run
  out, is after any claim of any worker exactly as it was, unless the claim names the frame's own
  worker slot and frame index.
\<close>
theorem live_lease_is_kept:
  assumes "claim_frames cf i q db = Inr (rs, db')" and "distinct (frame_ids db)"
    and "frame_with db j = Some f" and "fm_status f \<in> active_statuses" and "\<not> expired_lease cf f"
    and "frame_claim_key i (cq_cursor q) = None \<or> frame_claim_key i (cq_cursor q) \<noteq> lease_key cf f"
  shows "frame_with db' j = Some f"
proof -
  have "\<not> takes cf (scope_of db q s k) f" if "fs_stage_id s = i" for s k
    using assms(4-6) that by (auto simp: takes_def active_statuses_def)
  then show ?thesis using claim_frames_keeps [OF assms(1-3)] by blast
qed

section \<open>Terminal frames are final\<close>

lemma heartbeat_keeps:
  assumes "heartbeat_frame cf i q db = Inr (r, db')" and "distinct (frame_ids db)"
    and "frame_with db j = Some f" and "fm_status f \<notin> active_statuses"
  shows "distinct (frame_ids db') \<and> frame_with db' j = Some f"
proof -
  obtain g e db1 where h: "frame_with db i = Some g" "fm_status g \<in> active_statuses"
    "changes db i (beaten cf q) [e] db1" "db' = drain_frame_outbox cf db1"
    using heartbeat_frame_Inr [OF assms(1)] by metis
  have g: "g \<in> set (fd_frames db)" "fm_frame_id g = i" using frame_with_Some [OF h(1)] by auto
  have ch: "changes db (fm_frame_id g) (beaten cf q) [e] db1" and "f \<noteq> g" using h(2,3) g(2) assms(4) by auto
  then have "distinct (frame_ids db1) \<and> frame_with db1 j = Some f"
    by (intro changes_keeps [OF ch changed_ids(3) assms(2) g(1) assms(3)])
  then show ?thesis using h(4) by simp
qed

lemma commit_keeps:
  assumes "commit_frame cf i q db = Inr (r, db')" and "distinct (frame_ids db)"
    and "frame_with db j = Some f" and "fm_status f \<notin> active_statuses"
  shows "distinct (frame_ids db') \<and> frame_with db' j = Some f"
proof -
  obtain g k e db1 where h: "frame_with db i = Some g" "fm_status g \<in> active_statuses"
    "changes db i (committed cf q k) [e] db1" "db' = drain_frame_outbox cf db1"
    using commit_frame_Inr [OF assms(1)] by metis
  have g: "g \<in> set (fd_frames db)" "fm_frame_id g = i" using frame_with_Some [OF h(1)] by auto
  have ch: "changes db (fm_frame_id g) (committed cf q k) [e] db1" and "f \<noteq> g"
    using h(2,3) g(2) assms(4) by auto
  then have "distinct (frame_ids db1) \<and> frame_with db1 j = Some f"
    by (intro changes_keeps [OF ch changed_ids(4) assms(2) g(1) assms(3)])
  then show ?thesis using h(4) by simp
qed

lemma frame_call_keeps:
  assumes "distinct (frame_ids db)" and "frame_with db j = Some f" and "terminal_frame f"
  shows "distinct (frame_ids (frame_call db c)) \<and> frame_with (frame_call db c) j = Some f"
proof -
  have na: "fm_status f \<notin> active_statuses" using assms(3) by (auto simp: terminal_frame_def active_statuses_def)
  let ?P = "\<lambda>db. distinct (frame_ids db) \<and> frame_with db j = Some f"
  show ?thesis
  proof (cases c)
    case (ClaimCall cf i q)
    have "?P db'" if "claim_frames cf i q db = Inr (r, db')" for r db'
      by (rule claim_frames_keeps [OF that assms(1,2)]) (use assms(3) takes_not_terminal in blast)
    then show ?thesis unfolding ClaimCall frame_call_def endpoint_call.case
      by (rule settled_cases [where P = ?P]) (use assms in blast)+
  next
    case (HeartbeatCall cf i q)
    have "?P db'" if "heartbeat_frame cf i q db = Inr (r, db')" for r db'
      by (rule heartbeat_keeps [OF that assms(1,2) na])
    then show ?thesis unfolding HeartbeatCall frame_call_def endpoint_call.case
      by (rule settled_cases [where P = ?P]) (use assms in blast)+
  next
    case (CommitCall cf i q)
    have "?P db'" if "commit_frame cf i q db = Inr (r, db')" for r db'
      by (rule commit_keeps [OF that assms(1,2) na])
    then show ?thesis unfolding CommitCall frame_call_def endpoint_call.case
      by (rule settled_cases [where P = ?P]) (use assms in blast)+
  qed
qed

text \<open>Whatever is called afterwards, a frame that has ended stays as it ended.\<close>

lemma terminal_frame_final:
  "distinct (frame_ids db) \<Longrightarrow> frame_with db j = Some f \<Longrightarrow> terminal_frame f \<Longrightarrow>
   distinct (frame_ids (frame_history db cs)) \<and> frame_with (frame_history db cs) j = Some f"
proof (induction cs arbitrary: db)
  case (Cons c cs)
  then have "distinct (frame_ids (frame_call db c)) \<and> frame_with (frame_call db c) j = Some f"
    by (intro frame_call_keeps)
  then show ?case using Cons.IH Cons.prems(3) by (simp add: frame_history_def)
qed (simp add: frame_history_def)

text \<open>
  C17. A repeated commit is refused with the outcome of the first: once a commit of a frame has
  succeeded, then, whatever was called in between, any further commit of the frame by anyone is
  answered 409 \<open>frame_already_terminal\<close> with the status and the event of the first one, and writes
  nothing.
\<close>
theorem commit_retry_refused:
  assumes "commit_frame cf i q db = Inr (r, db')" and "distinct (frame_ids db)"
  shows "commit_frame cf' i q' (frame_history db' calls) = Inl (Http 409 (VDict
    [(''code'', VStr ''frame_already_terminal''), (''frame_id'', VInt i),
     (''status'', VStr (frame_terminal_status q)), (''terminal_event_id'', py_get r ''terminal_event_id'')]))"
proof -
  obtain f k e db1 where h: "frame_with db i = Some f" "changes db i (committed cf q k) [e] db1"
    "db' = drain_frame_outbox cf db1" "r = frame_response cf (committed cf q k f) (Some k)"
    using commit_frame_Inr [OF assms(1)] by metis
  let ?g = "committed cf q k f"
  have ids: "distinct (frame_ids db1)" and w: "frame_with db1 i = Some ?g"
    using changes_with [OF h(2) changed_ids(4)] assms(2) h(1) by auto
  have t: "terminal_frame ?g"
    using frame_terminal_status_cases [of q] by (auto simp: terminal_frame_def committed_def)
  have "frame_with (frame_history db' calls) i = Some ?g"
    using terminal_frame_final [OF _ _ t, of db' i calls] ids w h(3) by simp
  moreover have "fm_status ?g \<notin> active_statuses" "fm_status ?g \<in> {''COMPLETED'', ''FAILED''}"
    using t by (auto simp: terminal_frame_def active_statuses_def)
  moreover have "fm_status ?g = frame_terminal_status q" "fm_terminal_event_id ?g = Some k"
    by (simp_all add: committed_def)
  moreover have "py_get r ''terminal_event_id'' = VInt k"
    using h(4) by (simp add: frame_response_def committed_def enc_int_def)
  ultimately show ?thesis
    by (simp add: commit_frame_def conflict_answer_def frame_conflict_detail_def http_answer_def enc_int_def)
qed

section \<open>Claims that are repeated\<close>

text \<open>A frame the caller holds under its key, with the only row of that key.\<close>

lemma filter_single: "distinct xs \<Longrightarrow> x \<in> set xs \<Longrightarrow> filter (\<lambda>y. y = x) xs = [x]"
  by (induction xs) (auto simp: filter_empty_conv)

lemma keyed_single:
  assumes "frame_with db i = Some f" and "lease_key cf f = Some key"
    and "\<And>g. g \<in> set (fd_frames db) \<Longrightarrow> lease_key cf g = Some key \<Longrightarrow> g = f"
    and "distinct (frame_ids db)"
  shows "keyed_frames cf db key = [f]"
proof -
  have f: "f \<in> set (fd_frames db)" using frame_with_Some [OF assms(1)] by simp
  have d: "distinct (fd_frames db)" using assms(4) by (simp add: frame_ids_def distinct_map)
  have "filter (\<lambda>r. lease_key cf r = Some key) (fd_frames db) = filter (\<lambda>r. r = f) (fd_frames db)"
    by (rule filter_cong) (use assms(2,3) in auto)
  also have "\<dots> = [f]" by (rule filter_single [OF d f])
  finally show ?thesis by (simp add: keyed_frames_def)
qed

text \<open>The caller holds a frame under the key it names.\<close>

definition holds_frame :: "frame_config \<Rightarrow> claim_scope \<Rightarrow> int \<Rightarrow> frame_lease \<Rightarrow> frames_db \<Rightarrow> bool" where
  "holds_frame cf c i f db =
     (distinct (frame_ids db) \<and> frame_with db i = Some f \<and> fm_status f \<in> active_statuses \<and>
      fm_owner_worker f = Some (cq_worker_id (cs_request c)) \<and> fm_command_id f = cs_command_id c \<and>
      lease_key cf f \<noteq> None \<and>
      frame_claim_key (fs_stage_id (cs_stage c)) (cq_cursor (cs_request c)) = lease_key cf f \<and>
      list_all (\<lambda>g. lease_key cf g = lease_key cf f \<longrightarrow> g = f) (fd_frames db))"

lemma holds_idempotent: "holds_frame cf c i f db \<Longrightarrow> idempotent_frame cf c db = Some f"
  using keyed_single [of db i f cf]
  by (auto simp: holds_frame_def idempotent_frame_def load_idempotent_claimed_frame_def list_all_iff)

lemma lease_key_renewed [simp]: "lease_key cf (renewed cf' c f) = lease_key cf f"
  by (simp add: lease_key_def renewed_def)

lemma renewed_idem [simp]: "renewed cf c (renewed cf c f) = renewed cf c f"
  by (simp add: renewed_def)

lemma holds_renewed:
  assumes "holds_frame cf c i f db"
  shows "holds_frame cf c i (renewed cf c f) (update_frame i (renewed cf c) db)"
proof -
  have f: "f \<in> set (fd_frames db)" "fm_frame_id f = i"
    using assms frame_with_Some by (auto simp: holds_frame_def)
  have only: "g = f" if "g \<in> set (fd_frames db)" "lease_key cf g = lease_key cf f" for g
    using assms that by (auto simp: holds_frame_def list_all_iff)
  have "list_all (\<lambda>g. lease_key cf g = lease_key cf (renewed cf c f) \<longrightarrow> g = renewed cf c f)
      (fd_frames (update_frame i (renewed cf c) db))"
    using f by (auto simp: list_all_iff dest!: only)
  then show ?thesis using assms by (simp add: holds_frame_def) (simp add: renewed_def)
qed

lemma claim_times_renews:
  assumes "holds_frame cf c i f db"
  shows "\<exists>db'. claim_times cf c n rs db =
      Inr (rs @ replicate n (frame_response cf (renewed cf c f) (fm_claimed_event_id f)), db') \<and>
    fd_events db' = fd_events db \<and> frame_ids db' = frame_ids db \<and>
    frame_with db' i = Some (if n = 0 then f else renewed cf c f)"
  using assms
proof (induction n arbitrary: f db rs)
  case 0
  then show ?case by (simp add: holds_frame_def)
next
  case (Suc n)
  have i: "fm_frame_id f = i" using Suc.prems frame_with_Some by (auto simp: holds_frame_def)
  let ?db = "update_frame i (renewed cf c) db"
  have one: "claim_one cf c db =
      Inr (frame_response cf (renewed cf c f) (fm_claimed_event_id f), ?db)"
    using holds_idempotent [OF Suc.prems] i by (simp add: claim_one_unfold renew_def)
  have e: "fm_claimed_event_id (renewed cf c f) = fm_claimed_event_id f" by (simp add: renewed_def)
  have s: "(if n = 0 then renewed cf c f else renewed cf c (renewed cf c f)) = renewed cf c f" by simp
  show ?case
    using Suc.IH [OF holds_renewed [OF Suc.prems],
        of "rs @ [frame_response cf (renewed cf c f) (fm_claimed_event_id f)]"] one e
    by (simp add: s)
qed

text \<open>
  A claim that is repeated changes nothing but the lease: when the caller already holds the frame
  of the slot and index it names, every frame it is given is that frame, as often as it asked for one,
  with its lease extended from now; no frame is made and no event is written.
\<close>
lemma claim_retry_renews:
  assumes "load_stage db i = Inr (s, k)" and "holds_frame cf (scope_of db q s k) j f db"
    and "valid_claim_request q"
  defines "g \<equiv> f\<lparr>fm_lease_until := Some (lease_end cf (cq_lease_seconds q)), fm_updated_at := fc_now cf\<rparr>"
  shows "\<exists>db'. claim_frames cf i q db =
      Inr (replicate (cq_requested_count q) (frame_response cf g (fm_claimed_event_id f)), db') \<and>
    fd_events db' = fd_events db \<and> frame_ids db' = frame_ids db \<and> frame_with db' j = Some g"
proof -
  have g: "renewed cf (scope_of db q s k) f = g" by (simp add: g_def renewed_def)
  have n: "cq_requested_count q \<noteq> 0" using assms(3) by (simp add: valid_claim_request_def)
  have i: "fs_stage_id s = i" using load_stage_Inr [OF assms(1)] by simp
  obtain db1 where t: "claim_times cf (scope_of db q s k) (cq_requested_count q) [] db =
      Inr (replicate (cq_requested_count q) (frame_response cf g (fm_claimed_event_id f)), db1)"
    and d: "fd_events db1 = fd_events db" "frame_ids db1 = frame_ids db" "frame_with db1 j = Some g"
    using claim_times_renews [OF assms(2), of "cq_requested_count q" "[]"] g n by auto
  have "claim_frames cf i q db = Inr (replicate (cq_requested_count q)
      (frame_response cf g (fm_claimed_event_id f)), drain_frame_outbox cf db1)"
    using t assms(1) i by (simp add: claim_frames_def scope_of_def http_answer_def)
  then show ?thesis using d by (intro exI [of _ "drain_frame_outbox cf db1"]) simp
qed

section \<open>A new frame\<close>

lemma insert_frame_event_total:
  assumes "fa_catalog_id a = Some k" and "\<not> fc_mirror cf"
    and "list_all (\<lambda>e. fe_event_id e \<noteq> i) (fd_events db)"
  shows "\<exists>db'. insert_frame_event cf (Some i) a db = Inr (i, db')"
proof -
  have "\<not> list_ex (\<lambda>e. fe_execution_id e = fm_execution_id (fa_frame a) \<and> fe_event_id e = i) (fd_events db)"
    using assms(3) by (auto simp: list_ex_iff list_all_iff)
  then show ?thesis using assms(1,2)
    by (simp add: insert_frame_event_def write_frame_event_def event_catalog_def Let_def
        enqueue_frame_outbox_def lift_res_def)
qed

text \<open>Nothing but frames, events, the outbox and the counter of identifiers is written.\<close>

lemma claim_one_static:
  assumes "claim_one cf c db = Inr (r, db')"
  shows "fd_stages db' = fd_stages db \<and> fd_executions db' = fd_executions db \<and> fd_commands db' = fd_commands db"
  using assms
proof (cases rule: claim_one_cases)
  case (renew f)
  then show ?thesis using renew_Inr [OF renew(2)] by (simp add: changes_def)
next
  case (dispatch f db0)
  obtain i es where "changes db0 (fm_frame_id f) (claimed_by cf c i) es db'"
    using dispatch_frame_Inr [OF dispatch(4)] by metis
  then show ?thesis using dispatch(3) by (auto simp: changes_def)
next
  case (fresh p)
  let ?f = "minted cf c (next_id cf db) p"
  obtain i es where "changes (drawn db\<lparr>fd_frames := fd_frames db @ [?f]\<rparr>) (fm_frame_id ?f)
      (claimed_by cf c i) es db'"
    using dispatch_frame_Inr [OF fresh(2)] by metis
  then show ?thesis by (simp add: changes_def)
qed

lemma claim_frames_static:
  assumes "claim_frames cf i q db = Inr (rs, db')"
  shows "fd_stages db' = fd_stages db \<and> fd_executions db' = fd_executions db \<and> fd_commands db' = fd_commands db"
proof -
  obtain s k db1 where t: "claim_times cf (scope_of db q s k) (cq_requested_count q) [] db = Inr (rs, db1)"
    and d: "db' = drain_frame_outbox cf db1"
    using claim_frames_Inr [OF assms] by metis
  have "fd_stages db1 = fd_stages db \<and> fd_executions db1 = fd_executions db \<and> fd_commands db1 = fd_commands db"
    by (rule claim_times_invariant [OF t]) (use claim_one_static in auto)
  then show ?thesis using d by simp
qed

lemma claim_one_stage:
  assumes "claim_one cf c db = Inr (r, db')" and "f \<in> set (fd_frames db')"
  shows "(\<exists>g \<in> set (fd_frames db). fm_frame_id g = fm_frame_id f) \<or> fm_stage_id f = fs_stage_id (cs_stage c)"
  using assms(1)
proof (cases rule: claim_one_cases)
  case (renew g)
  then have "fd_frames db' = map (\<lambda>r. if fm_frame_id r = fm_frame_id g then renewed cf c r else r) (fd_frames db)"
    using renew_Inr [OF renew(2)] by (simp add: changes_def)
  then show ?thesis using assms(2) by (auto split: if_splits)
next
  case (dispatch g db0)
  obtain i es where "changes db0 (fm_frame_id g) (claimed_by cf c i) es db'"
    using dispatch_frame_Inr [OF dispatch(4)] by metis
  then have "fd_frames db' = map (\<lambda>r. if fm_frame_id r = fm_frame_id g then claimed_by cf c i r else r) (fd_frames db)"
    using dispatch(3) by (auto simp: changes_def)
  then show ?thesis using assms(2) by (auto split: if_splits)
next
  case (fresh p)
  let ?f = "minted cf c (next_id cf db) p"
  obtain i es where "changes (drawn db\<lparr>fd_frames := fd_frames db @ [?f]\<rparr>) (fm_frame_id ?f)
      (claimed_by cf c i) es db'"
    using dispatch_frame_Inr [OF fresh(2)] by metis
  then have "f \<in> (\<lambda>r. if fm_frame_id r = fm_frame_id ?f then claimed_by cf c i r else r) ` set (fd_frames db @ [?f])"
    using assms(2) by (simp add: changes_def)
  then obtain r where r: "f = (if fm_frame_id r = fm_frame_id ?f then claimed_by cf c i r else r)"
    "r \<in> set (fd_frames db @ [?f])" by (rule imageE)
  show ?thesis
  proof (cases "r = ?f")
    case True
    then show ?thesis using r(1) by (simp add: claimed_by_def minted_def)
  next
    case False
    then show ?thesis using r by (auto split: if_splits)
  qed
qed

text \<open>
  A claim is never left without a frame: on an open stage whose frames are all held or finished,
  with a key no frame has, a claim of one frame makes the next one, and gives it to the caller:
  claimed in its first attempt, under the caller's cursor and command, leased for as long as it asked,
  and announced by one \<open>frame.dispatched\<close> event.
\<close>
lemma claim_opens_frame:
  assumes "load_stage db i = Inr (s, k)" and "cq_requested_count q = 1"
    and "idempotent_frame cf (scope_of db q s k) db = None"
    and "claimable_frame cf (scope_of db q s k) db = None"
    and "\<not> insert_conflict cf (minted cf (scope_of db q s k) (next_id cf db)
        (resolve_parent_frame_id cf db i (cq_cursor q))) db"
    and "list_all (\<lambda>e. fe_event_id e \<noteq> fc_snowflake cf (fd_drawn db + 1)) (fd_events db)"
    and "\<not> fc_mirror cf" and "distinct (frame_ids db)"
  shows "\<exists>r db' f e. claim_frames cf i q db = Inr ([r], db') \<and>
    frame_with db' (next_id cf db) = Some f \<and> py_get r ''frame_id'' = VInt (fm_frame_id f) \<and>
    fm_status f = ''CLAIMED'' \<and> fm_owner_worker f = Some (cq_worker_id q) \<and> fm_cursor f = cq_cursor q \<and>
    fm_attempts f = 1 \<and> fm_lease_until f = Some (lease_end cf (cq_lease_seconds q)) \<and>
    fm_command_id f = cs_command_id (scope_of db q s k) \<and>
    fd_frames db' = fd_frames db @ [f] \<and> fd_events db' = fd_events db @ [e] \<and>
    fe_event_type e = ''frame.dispatched'' \<and> fe_frame_id e = fm_frame_id f \<and>
    fm_claimed_event_id f = Some (fe_event_id e)"
proof -
  let ?c = "scope_of db q s k"
  have i: "fs_stage_id s = i" using load_stage_Inr [OF assms(1)] by simp
  define p where "p = resolve_parent_frame_id cf db i (cq_cursor q)"
  define f where "f = minted cf ?c (next_id cf db) p"
  define db2 where "db2 = drawn db\<lparr>fd_frames := fd_frames db @ [f]\<rparr>"
  have parent: "resolve_parent_frame_id cf (drawn db) i (cq_cursor q) = p"
    by (simp add: p_def resolve_parent_frame_id_def Let_def cong: option.case_cong)
  have m: "mint_or_find cf ?c (next_id cf db) (drawn db) = Inr (f, db2)"
    using assms(5) i parent by (simp add: mint_or_find_def Let_def f_def p_def [symmetric] db2_def)
  have new: "fm_frame_id f \<notin> set (frame_ids db)"
    using assms(5) by (auto simp: insert_conflict_def list_ex_iff frame_ids_def f_def minted_def)
  have live: "\<not> expired_lease cf f" by (simp add: expired_lease_def f_def minted_def active_statuses_def)
  define e0 where "e0 = next_id cf db2"
  have e0: "e0 = fc_snowflake cf (fd_drawn db + 1)" by (simp add: e0_def next_id_def db2_def drawn_def)
  let ?g = "claimed_by cf ?c e0 f"
  obtain db3 where ins: "insert_frame_event cf (Some e0) (dispatched_args ?c ?g)
      (update_frame (fm_frame_id f) (claimed_by cf ?c e0) (drawn db2)) = Inr (e0, db3)"
    using insert_frame_event_total [of "dispatched_args ?c ?g" k cf e0] assms(6,7) e0
    by (fastforce simp: dispatched_args_def Let_def db2_def)
  have disp: "dispatch_frame cf ?c f db2 = Inr (frame_response cf ?g (Some e0), db3)"
    using live ins by (simp add: dispatch_frame_def report_abandoned_def Let_def e0_def)
  have one: "claim_one cf ?c db = Inr (frame_response cf ?g (Some e0), db3)"
    using assms(3,4) m disp by (simp add: claim_one_unfold)
  have fr: "claim_frames cf i q db = Inr ([frame_response cf ?g (Some e0)], drain_frame_outbox cf db3)"
    using assms(1,2) one i by (simp add: claim_frames_def scope_of_def http_answer_def)
  from insert_frame_event_Inr [OF ins] obtain e where ev: "fd_events db3 = fd_events db @ [e]"
    "fe_event_id e = e0" "fe_frame_id e = fm_frame_id f" "fe_event_type e = ''frame.dispatched''"
    "fd_frames db3 = map (\<lambda>r. if fm_frame_id r = fm_frame_id f then claimed_by cf ?c e0 r else r)
       (fd_frames db @ [f])"
    by (auto simp: dispatched_args_def Let_def db2_def)
  have other: "fm_frame_id r \<noteq> fm_frame_id f" if "r \<in> set (fd_frames db)" for r
    using new that unfolding frame_ids_def set_map by (metis imageI)
  have old: "map (\<lambda>r. if fm_frame_id r = fm_frame_id f then claimed_by cf ?c e0 r else r) (fd_frames db)
      = fd_frames db"
    by (rule map_idI) (use new other in auto)
  have fs: "fd_frames db3 = fd_frames db @ [?g]" using ev(5) old by simp
  then have ids: "frame_ids db3 = frame_ids db @ [fm_frame_id f]" by (simp add: frame_ids_def)
  have "?g \<in> set (fd_frames db3)" using fs by simp
  then have w: "frame_with db3 (fm_frame_id f) = Some ?g"
    using frame_with_in [of db3 ?g] ids new assms(8) by simp
  have id: "fm_frame_id f = next_id cf db" by (simp add: f_def minted_def)
  have g: "fm_status ?g = ''CLAIMED''" "fm_owner_worker ?g = Some (cq_worker_id q)"
    "fm_cursor ?g = cq_cursor q" "fm_attempts ?g = 1"
    "fm_lease_until ?g = Some (lease_end cf (cq_lease_seconds q))" "fm_command_id ?g = cs_command_id ?c"
    "fm_claimed_event_id ?g = Some e0"
    by (simp_all add: claimed_by_def f_def minted_def split: option.split)
  have r: "py_get (frame_response cf ?g (Some e0)) ''frame_id'' = VInt (fm_frame_id ?g)"
    by (simp add: frame_response_def)
  show ?thesis
    using fr w g r ev(1-4) fs id
    by (intro exI [of _ "frame_response cf ?g (Some e0)"] exI [of _ "drain_frame_outbox cf db3"]
        exI [of _ ?g] exI [of _ e]) simp
qed

section \<open>Samples\<close>

definition sample_frame_config :: "int \<Rightarrow> frame_config" where
  "sample_frame_config now =
     \<lparr>fc_snowflake = int, fc_now = now, fc_show_time = show_int, fc_jsonb_text = py_repr,
      fc_locked = (\<lambda>_. False), fc_mirror = False, fc_encode = (\<lambda>_. None), fc_subject = (\<lambda>_. ''s''),
      fc_drain_limit = None, fc_publish = (\<lambda>_ _. None)\<rparr>"

definition sample_stage :: frame_stage where
  "sample_stage =
     \<lparr>fs_stage_id = 7, fs_execution_id = 5, fs_kind = ''cursor'', fs_step_name = ''load'',
      fs_status = ''OPEN'', fs_frame_policy = VDict [(''max_attempts'', VInt 1)],
      fs_tenant_id = ''default'', fs_organization_id = ''default''\<rparr>"

definition sample_frames_db :: frames_db where
  "sample_frames_db =
     \<lparr>fd_stages = [sample_stage], fd_executions = [(5, 1)], fd_commands = [], fd_frames = [],
      fd_events = [], fd_drawn = 100, fd_outbox = \<lparr>ox_rows = [], ox_next = 0\<rparr>\<rparr>"

definition sample_cursor :: "string \<Rightarrow> int \<Rightarrow> pydict" where
  "sample_cursor slot i = [(''frame_index'', VInt i), (''worker_slot_id'', VStr slot)]"

definition sample_claim :: "string \<Rightarrow> int \<Rightarrow> string \<Rightarrow> int \<Rightarrow> claim_request" where
  "sample_claim w cmd slot i =
     \<lparr>cq_worker_id = w, cq_command_id = Some cmd, cq_requested_count = 1, cq_lease_seconds = 60,
      cq_cursor = sample_cursor slot i, cq_frame_policy = [], cq_locality = []\<rparr>"

definition sample_beat :: "string \<Rightarrow> string \<Rightarrow> heartbeat_request" where
  "sample_beat w status = \<lparr>hq_worker_id = w, hq_lease_seconds = 60, hq_status = status\<rparr>"

definition sample_commit :: "string \<Rightarrow> pydict \<Rightarrow> commit_request" where
  "sample_commit w cursor =
     \<lparr>mq_worker_id = w, mq_status = ''COMPLETED'', mq_cursor = cursor, mq_row_count = 1,
      mq_output_ref = VNone, mq_events_emitted = 1, mq_error = None\<rparr>"

definition sample_lease :: frame_lease where
  "sample_lease =
     \<lparr>fm_frame_id = 100, fm_stage_id = 7, fm_execution_id = 5, fm_parent_frame_id = None,
      fm_command_id = Some 40, fm_claimed_event_id = Some 101, fm_terminal_event_id = None,
      fm_cursor = sample_cursor ''s1'' 0, fm_row_count = 0, fm_status = ''CLAIMED'',
      fm_owner_worker = Some ''s1'', fm_lease_until = Some 60000000, fm_output_ref = VNone,
      fm_events_emitted = 0, fm_attempts = 1, fm_tenant_id = ''default'',
      fm_organization_id = ''default'', fm_updated_at = 0, fm_completed_at = None\<rparr>"

lemmas sample_defs = sample_frame_config_def sample_frames_db_def sample_stage_def sample_claim_def
  sample_cursor_def sample_beat_def sample_commit_def

lemmas frame_eval = frame_history_def frame_call_def claim_frames_def load_stage_def
  List.map_filter_def sample_defs resolve_claim_command_id_def claim_one_def idempotent_frame_def
  load_idempotent_claimed_frame_def frame_claim_key_def claimable_frame_def load_claimable_frame_def
  newest_frame_def oldest_frame_def keyed_frames_def mint_or_find_def Let_def insert_conflict_def
  minted_def dispatch_frame_def report_abandoned_def expired_lease_def active_statuses_def
  insert_frame_event_def write_frame_event_def event_catalog_def dispatched_args_def
  abandoned_args_def enqueue_frame_outbox_def lift_res_def http_answer_def settled_def
  drain_frame_outbox_def claimed_by_def drawn_def update_frame_def next_id_def lease_end_def
  lease_key_def row_key_def cursor_text_def load_frame_by_claim_key_def renew_def renewed_def
  heartbeat_frame_def heartbeat_write_def heartbeat_active_def heartbeat_args_def
  heartbeat_event_type_def frame_with_def One_nat_def beaten_def stage_step_name_def commit_frame_def
  committed_def commit_args_def key_taken_def conflict_answer_def frame_conflict_detail_def
  frame_terminal_status_def frame_terminal_event_type_def resolve_parent_frame_id_def

definition lease_view :: "frames_db \<Rightarrow> (int \<times> string \<times> string option \<times> int) list" where
  "lease_view db = map (\<lambda>f. (fm_frame_id f, fm_status f, fm_owner_worker f, fm_attempts f)) (fd_frames db)"

definition event_view :: "frames_db \<Rightarrow> string list" where
  "event_view db = map fe_event_type (fd_events db)"

lemma upper_samples [simp]:
  "upper ''RUNNING'' = ''RUNNING''" "upper ''COMPLETED'' = ''COMPLETED''"
  by code_simp+

text \<open>The stage after the first claim of slot \<open>s1\<close> (the cells of the event left out).\<close>

definition claimed_db :: frames_db where
  "claimed_db = sample_frames_db\<lparr>fd_frames := [sample_lease], fd_drawn := 102,
     fd_events := [\<lparr>fe_event_id = 101, fe_execution_id = 5, fe_frame_id = 100,
       fe_event_type = ''frame.dispatched'', fe_status = ''CLAIMED'', fe_worker_id = ''s1'', fe_cells = []\<rparr>]\<rparr>"

lemma claimed_db_frames: "fd_frames claimed_db = [sample_lease]"
  by (simp add: claimed_db_def)

lemma first_claim_row:
  "fd_frames (frame_call sample_frames_db
      (ClaimCall (sample_frame_config 0) 7 (sample_claim ''s1'' 40 ''s1'' 0))) = [sample_lease]"
  by (simp add: sample_lease_def frame_eval)

definition sample_calls :: "endpoint_call list" where
  "sample_calls =
     [ClaimCall (sample_frame_config 0) 7 (sample_claim ''s1'' 40 ''s1'' 0),
      HeartbeatCall (sample_frame_config 1) 100 (sample_beat ''s1'' ''RUNNING''),
      CommitCall (sample_frame_config 2) 100 (sample_commit ''s1'' (sample_cursor ''s1'' 0))]"

lemma sample_calls_run:
  "lease_view (frame_history sample_frames_db sample_calls) = [(100, ''COMPLETED'', Some ''s1'', 1)]"
  "event_view (frame_history sample_frames_db sample_calls)
     = [''frame.dispatched'', ''frame.started'', ''frame.committed'']"
  by (simp_all add: sample_calls_def lease_view_def event_view_def frame_eval)


lemma other_claim:
  "\<exists>rs db. claim_frames (sample_frame_config 2) 7 (sample_claim ''s2'' 41 ''s2'' 0) claimed_db = Inr (rs, db) \<and>
     lease_view db = [(100, ''CLAIMED'', Some ''s1'', 1), (102, ''CLAIMED'', Some ''s2'', 1)]"
  by (simp add: claimed_db_def sample_lease_def lease_view_def frame_eval)

theorem live_lease_is_kept_witness:
  "\<exists>rs db. claim_frames (sample_frame_config 2) 7 (sample_claim ''s2'' 41 ''s2'' 0) claimed_db = Inr (rs, db) \<and>
     length (fd_frames db) = 2 \<and> frame_with db 100 = Some sample_lease"
proof -
  obtain rs db where c: "claim_frames (sample_frame_config 2) 7 (sample_claim ''s2'' 41 ''s2'' 0) claimed_db = Inr (rs, db)"
    and v: "lease_view db = [(100, ''CLAIMED'', Some ''s1'', 1), (102, ''CLAIMED'', Some ''s2'', 1)]"
    using other_claim by blast
  have "frame_with db 100 = Some sample_lease"
    by (rule live_lease_is_kept [OF c])
      (simp_all add: frame_ids_def frame_with_def claimed_db_frames sample_lease_def active_statuses_def
        expired_lease_def frame_claim_key_def lease_key_def row_key_def cursor_text_def sample_defs)
  moreover have "length (fd_frames db) = 2" using arg_cong [OF v, of length] by (simp add: lease_view_def)
  ultimately show ?thesis using c by blast
qed

lemma first_commit:
  "\<exists>r db. commit_frame (sample_frame_config 2) 100 (sample_commit ''s1'' (sample_cursor ''s1'' 0)) claimed_db
     = Inr (r, db) \<and> py_get r ''terminal_event_id'' = VInt 102"
  by (simp add: claimed_db_def sample_lease_def frame_response_def enc_int_def frame_eval)

theorem commit_retry_refused_witness:
  "\<exists>db. commit_frame (sample_frame_config 9) 100 (sample_commit ''s2'' []) (frame_history db sample_calls) =
     Inl (Http 409 (VDict [(''code'', VStr ''frame_already_terminal''), (''frame_id'', VInt 100),
       (''status'', VStr ''COMPLETED''), (''terminal_event_id'', VInt 102)]))"
proof -
  obtain r db where c: "commit_frame (sample_frame_config 2) 100 (sample_commit ''s1'' (sample_cursor ''s1'' 0)) claimed_db
      = Inr (r, db)" and t: "py_get r ''terminal_event_id'' = VInt 102"
    using first_commit by blast
  have d: "distinct (frame_ids claimed_db)" by (simp add: frame_ids_def claimed_db_frames)
  have "frame_terminal_status (sample_commit ''s1'' (sample_cursor ''s1'' 0)) = ''COMPLETED''"
    by (simp add: frame_terminal_status_def sample_commit_def)
  then show ?thesis
    using commit_retry_refused [OF c d, of "sample_frame_config 9" "sample_commit ''s2'' []" sample_calls] t
    by (intro exI [of _ db]) simp
qed

lemma claim_retry_renews_witness:
  "\<exists>db. claim_frames (sample_frame_config 30) 7
       ((sample_claim ''s1'' 40 ''s1'' 0)\<lparr>cq_requested_count := 2\<rparr>) claimed_db =
     Inr (replicate 2 (frame_response (sample_frame_config 30)
       (sample_lease\<lparr>fm_lease_until := Some 60000030, fm_updated_at := 30\<rparr>) (Some 101)), db) \<and>
   fd_events db = fd_events claimed_db"
proof -
  let ?q = "(sample_claim ''s1'' 40 ''s1'' 0)\<lparr>cq_requested_count := 2\<rparr>"
  have l: "load_stage claimed_db 7 = Inr (sample_stage, 1)"
    by (simp add: load_stage_def List.map_filter_def claimed_db_def sample_frames_db_def sample_stage_def)
  have h: "holds_frame (sample_frame_config 30) (scope_of claimed_db ?q sample_stage 1) 100 sample_lease claimed_db"
    by (simp add: holds_frame_def frame_ids_def frame_with_def claimed_db_frames sample_lease_def
        active_statuses_def scope_of_def resolve_claim_command_id_def frame_claim_key_def lease_key_def
        row_key_def cursor_text_def sample_defs)
  have v: "valid_claim_request ?q" by (simp add: valid_claim_request_def sample_claim_def)
  show ?thesis using claim_retry_renews [OF l h v]
    by (auto simp: lease_end_def sample_defs sample_lease_def)
qed

lemma claim_opens_frame_witness:
  "\<exists>r db f. claim_frames (sample_frame_config 0) 7 (sample_claim ''s1'' 40 ''s1'' 0) sample_frames_db = Inr ([r], db) \<and>
     frame_with db 100 = Some f \<and> fm_owner_worker f = Some ''s1'' \<and> fm_attempts f = 1"
proof -
  let ?q = "sample_claim ''s1'' 40 ''s1'' 0"
  have l: "load_stage sample_frames_db 7 = Inr (sample_stage, 1)"
    by (simp add: load_stage_def List.map_filter_def sample_frames_db_def sample_stage_def)
  have e: "fd_frames sample_frames_db = []" by (simp add: sample_frames_db_def)
  have n: "next_id (sample_frame_config 0) sample_frames_db = 100"
    by (simp add: next_id_def sample_frame_config_def sample_frames_db_def)
  have no: "idempotent_frame (sample_frame_config 0) c sample_frames_db = None"
    "claimable_frame (sample_frame_config 0) c sample_frames_db = None" for c
    by (simp_all add: idempotent_frame_def load_idempotent_claimed_frame_def keyed_frames_def e
        claimable_frame_def load_claimable_frame_def split: option.split)
  show ?thesis
    using claim_opens_frame [OF l _ no, of ?q] n
    by (fastforce simp: insert_conflict_def e sample_claim_def frame_ids_def sample_frames_db_def sample_frame_config_def)
qed

section \<open>What the endpoints do not promise\<close>

text \<open>
  A claim under the same slot and index by another worker takes a live lease away, and no
  \<open>frame.abandoned\<close> event records it.
\<close>

lemma live_lease_stolen:
  "lease_view (frame_call claimed_db (ClaimCall (sample_frame_config 2) 7 (sample_claim ''s2'' 41 ''s1'' 0)))
     = [(100, ''CLAIMED'', Some ''s2'', 2)]"
  "event_view (frame_call claimed_db (ClaimCall (sample_frame_config 2) 7 (sample_claim ''s2'' 41 ''s1'' 0)))
     = [''frame.dispatched'', ''frame.dispatched'']"
  by (simp_all add: claimed_db_def sample_lease_def lease_view_def event_view_def frame_eval)

text \<open>A heartbeat may end a frame: no terminal event is written, and the commit is then refused.\<close>

lemma heartbeat_ends_frame:
  "lease_view (frame_call claimed_db (HeartbeatCall (sample_frame_config 1) 100 (sample_beat ''s1'' ''COMPLETED'')))
     = [(100, ''COMPLETED'', Some ''s1'', 1)]"
  "event_view (frame_history claimed_db
      [HeartbeatCall (sample_frame_config 1) 100 (sample_beat ''s1'' ''COMPLETED''),
       CommitCall (sample_frame_config 2) 100 (sample_commit ''s1'' (sample_cursor ''s1'' 0))])
     = [''frame.dispatched'', ''frame.heartbeat'']"
  by (simp_all add: claimed_db_def sample_lease_def lease_view_def event_view_def frame_eval)

text \<open>
  A commit replaces the cursor; the default, an empty one, gives the claim key free, and a repeated
  claim makes a second frame for the same rows.
\<close>

lemma empty_cursor_frees_key:
  "lease_view (frame_history claimed_db
      [CommitCall (sample_frame_config 1) 100 (sample_commit ''s1'' []),
       ClaimCall (sample_frame_config 2) 7 (sample_claim ''s1'' 40 ''s1'' 0)])
     = [(100, ''COMPLETED'', Some ''s1'', 1), (103, ''CLAIMED'', Some ''s1'', 1)]"
  "lease_view (frame_history claimed_db
      [CommitCall (sample_frame_config 1) 100 (sample_commit ''s1'' (sample_cursor ''s1'' 0)),
       ClaimCall (sample_frame_config 2) 7 (sample_claim ''s1'' 40 ''s1'' 0)])
     = [(100, ''COMPLETED'', Some ''s1'', 1)]"
  by (simp_all add: claimed_db_def sample_lease_def lease_view_def event_view_def frame_eval)

text \<open>
  A frame taken over keeps the cursor and command of its first owner, so the new owner's repeated
  claim does not find it and makes a second frame. The stage's limit of one attempt is not enforced.
\<close>

lemma reclaim_is_not_idempotent:
  "lease_view (frame_history claimed_db
      [ClaimCall (sample_frame_config 90000000) 7 (sample_claim ''s2'' 41 ''s2'' 0),
       ClaimCall (sample_frame_config 90000001) 7 (sample_claim ''s2'' 41 ''s2'' 0)])
     = [(100, ''CLAIMED'', Some ''s2'', 2), (104, ''CLAIMED'', Some ''s2'', 1)]"
  by (simp add: claimed_db_def sample_lease_def lease_view_def frame_eval)

text \<open>
  The status is checked by the statement's common table expression and not by the update: a heartbeat
  that has read the frame before a commit and writes after it makes the frame \<open>RUNNING\<close> again.
\<close>

lemma late_heartbeat_reopens:
  "lease_view (settled db (heartbeat_write (sample_frame_config 2) 100 (sample_beat ''s1'' ''RUNNING'')
       (heartbeat_active 100 ''s1'' claimed_db) db)) = [(100, ''RUNNING'', Some ''s1'', 1)]"
  if "db = frame_call claimed_db
    (CommitCall (sample_frame_config 1) 100 (sample_commit ''s1'' (sample_cursor ''s1'' 0)))"
  using that by (simp add: claimed_db_def sample_lease_def lease_view_def frame_eval)

end
