(* ===== verification/Lease_Network.thy ===== *)
theory Lease_Network
  imports Cursor_Worker Frame_Theorems
begin

text \<open>
  The worker's retried claim (\<open>_claim_runtime_frame\<close> of \<^verbatim>\<open>noetl/worker/cursor_worker.py\<close>) against the
  endpoint of the server, over a network that loses requests and answers. The locale
  \<open>repeatable_call\<close> states what a client that retries relies on; the claim of the server satisfies
  it, and so the retries of a worker leave it with one frame.
\<close>

section \<open>Claims over a network that loses messages\<close>

text \<open>
  A call that may be repeated: from a state in which it is \<open>ready\<close> it returns an answer, and once it
  has returned one, every further call returns an answer of the same name and leaves the same trace.
\<close>

locale repeatable_call =
  fixes call :: "'s \<Rightarrow> ('r \<times> 's) answer" and ready :: "'s \<Rightarrow> bool"
    and held :: "'k \<Rightarrow> 's \<Rightarrow> bool" and name :: "'r \<Rightarrow> 'k" and trace :: "'s \<Rightarrow> 't"
  assumes opens: "ready s \<Longrightarrow> \<exists>r s'. call s = Inr (r, s') \<and> held (name r) s'"
    and repeats: "held k s \<Longrightarrow> \<exists>r s'. call s = Inr (r, s') \<and> name r = k \<and> held k s' \<and> trace s' = trace s"

datatype delivery = Delivered | RequestLost | AnswerLost

text \<open>The next delivery decides what becomes of a request; after the last one all are delivered.\<close>

definition over_network :: "('s \<Rightarrow> ('r \<times> 's) answer) \<Rightarrow> ('s \<times> delivery list, 'r) act" where
  "over_network call w =
     (case w of (s, ds) \<Rightarrow>
       (let lost = Inl (RuntimeError ''request failed'') in
        case (case ds of [] \<Rightarrow> Delivered | d # _ \<Rightarrow> d) of
          Delivered \<Rightarrow> (case call s of Inl e \<Rightarrow> (lost, (s, tl ds)) | Inr (r, s') \<Rightarrow> (Inr r, (s', tl ds)))
        | RequestLost \<Rightarrow> (lost, (s, tl ds))
        | AnswerLost \<Rightarrow> (case call s of Inl e \<Rightarrow> (lost, (s, tl ds)) | Inr (r, s') \<Rightarrow> (lost, (s', tl ds)))))"

lemma over_network_at:
  "over_network call (s, ds) =
     (case (case ds of [] \<Rightarrow> Delivered | d # _ \<Rightarrow> d) of
        Delivered \<Rightarrow> (case call s of Inl e \<Rightarrow> (Inl (RuntimeError ''request failed''), (s, tl ds))
                              | Inr (r, s') \<Rightarrow> (Inr r, (s', tl ds)))
      | RequestLost \<Rightarrow> (Inl (RuntimeError ''request failed''), (s, tl ds))
      | AnswerLost \<Rightarrow> (case call s of Inl e \<Rightarrow> (Inl (RuntimeError ''request failed''), (s, tl ds))
                              | Inr (r, s') \<Rightarrow> (Inl (RuntimeError ''request failed''), (s', tl ds))))"
  by (simp add: over_network_def Let_def)

context repeatable_call
begin

lemma over_network_held:
  assumes "held k s"
  shows "\<exists>a s' ds'. over_network call (s, ds) = (a, (s', ds')) \<and> held k s' \<and> trace s' = trace s \<and>
    (\<forall>r. a = Inr r \<longrightarrow> name r = k)"
proof -
  obtain r s' where c: "call s = Inr (r, s')" "name r = k" "held k s'" "trace s' = trace s"
    using repeats [OF assms] by blast
  show ?thesis
    using c assms by (cases "case ds of [] \<Rightarrow> Delivered | d # _ \<Rightarrow> d") (auto simp: over_network_at)
qed

lemma retry_held:
  "held k s \<Longrightarrow> retry n (over_network call) (s, ds) = (a, (s', ds')) \<Longrightarrow>
   held k s' \<and> trace s' = trace s \<and> (\<forall>r. a = Inr r \<longrightarrow> name r = k)"
proof (induction n arbitrary: s ds)
  case 0
  then show ?case using over_network_held [OF 0(1), of ds] by auto
next
  case (Suc n)
  obtain b s1 ds1 where o: "over_network call (s, ds) = (b, (s1, ds1))" "held k s1" "trace s1 = trace s"
    "\<forall>r. b = Inr r \<longrightarrow> name r = k"
    using over_network_held [OF Suc.prems(1), of ds] by blast
  show ?case
  proof (cases b)
    case (Inl e)
    then have "retry n (over_network call) (s1, ds1) = (a, (s', ds'))" using Suc.prems(2) o(1) by simp
    then show ?thesis using Suc.IH [OF o(2)] o(3) by auto
  next
    case (Inr r)
    then show ?thesis using Suc.prems(2) o by auto
  qed
qed

text \<open>However requests and answers get lost, the call has happened once in effect, or not at all.\<close>

lemma retry_once:
  "ready s \<Longrightarrow> retry n (over_network call) (s, ds) = (a, (s', ds')) \<Longrightarrow>
   (s' = s \<and> (\<forall>r. a \<noteq> Inr r)) \<or>
   (\<exists>r0 s0. call s = Inr (r0, s0) \<and> trace s' = trace s0 \<and> held (name r0) s' \<and> (\<forall>r. a = Inr r \<longrightarrow> name r = name r0))"
proof (induction n arbitrary: ds)
  case 0
  obtain r s0 where "call s = Inr (r, s0)" "held (name r) s0" using opens [OF 0(1)] by blast
  then show ?case using 0(2)
    by (cases "case ds of [] \<Rightarrow> Delivered | d # _ \<Rightarrow> d") (auto simp: over_network_at)
next
  case (Suc n)
  obtain r s0 where c: "call s = Inr (r, s0)" "held (name r) s0" using opens [OF Suc.prems(1)] by blast
  show ?case
  proof (cases "case ds of [] \<Rightarrow> Delivered | d # _ \<Rightarrow> d")
    case Delivered
    then show ?thesis using Suc.prems(2) c by (auto simp: over_network_at)
  next
    case RequestLost
    then have "retry n (over_network call) (s, tl ds) = (a, (s', ds'))"
      using Suc.prems(2) by (simp add: over_network_at)
    then show ?thesis using Suc.IH [OF Suc.prems(1)] by blast
  next
    case AnswerLost
    then have "retry n (over_network call) (s0, tl ds) = (a, (s', ds'))"
      using Suc.prems(2) c by (simp add: over_network_at)
    from retry_held [OF c(2) this] show ?thesis
      using c(1) by (intro disjI2 exI [of _ r] exI [of _ s0]) simp
  qed
qed

end

section \<open>The claim of the server as a repeatable call\<close>

type_synonym claim_state = "(frame_config \<times> int \<times> claim_request) \<times> frames_db"

definition claim_call :: "claim_state \<Rightarrow> (pydict list \<times> claim_state) answer" where
  "claim_call s =
     (case s of ((cf, i, q), db) \<Rightarrow>
       abind (claim_frames cf i q db) (\<lambda>(rs, db'). Inr (rs, ((cf, i, q), db'))))"

text \<open>
  A claim of one frame that will make it: an open stage with nothing free, a key of two texts or
  numbers that no frame has, and fresh identifiers.
\<close>

definition claim_ready :: "claim_state \<Rightarrow> bool" where
  "claim_ready s =
     (case s of ((cf, i, q), db) \<Rightarrow>
       (case load_stage db i of
          Inl e \<Rightarrow> False
        | Inr (st, k) \<Rightarrow>
            valid_claim_request q \<and> cq_requested_count q = 1 \<and> distinct (frame_ids db) \<and>
            claimable_frame cf (scope_of db q st k) db = None \<and>
            frame_claim_key i (cq_cursor q) \<noteq> None \<and>
            row_key cf i (cq_cursor q) = frame_claim_key i (cq_cursor q) \<and>
            list_all (\<lambda>r. fm_frame_id r \<noteq> next_id cf db \<and> lease_key cf r \<noteq> frame_claim_key i (cq_cursor q))
              (fd_frames db) \<and>
            list_all (\<lambda>e. fe_event_id e \<noteq> fc_snowflake cf (fd_drawn db + 1)) (fd_events db) \<and>
            \<not> fc_mirror cf))"

definition claim_held :: "int \<Rightarrow> claim_state \<Rightarrow> bool" where
  "claim_held j s =
     (case s of ((cf, i, q), db) \<Rightarrow>
       valid_claim_request q \<and> cq_requested_count q = 1 \<and>
       (case load_stage db i of
          Inl e \<Rightarrow> False
        | Inr (st, k) \<Rightarrow>
            (case frame_with db j of
               None \<Rightarrow> False
             | Some f \<Rightarrow> holds_frame cf (scope_of db q st k) j f db)))"

definition frame_named :: "pydict list \<Rightarrow> int" where
  "frame_named rs =
     (case rs of [] \<Rightarrow> 0 | r # _ \<Rightarrow> (case py_get r ''frame_id'' of VInt i \<Rightarrow> i | _ \<Rightarrow> 0))"

definition claim_trace :: "claim_state \<Rightarrow> int list \<times> frame_event list" where
  "claim_trace s = (frame_ids (snd s), fd_events (snd s))"

lemma load_stage_cong:
  assumes "fd_stages db' = fd_stages db" and "fd_executions db' = fd_executions db"
  shows "load_stage db' i = load_stage db i"
  unfolding load_stage_def assms ..

lemma scope_of_cong: "fd_commands db' = fd_commands db \<Longrightarrow> scope_of db' = scope_of db"
  by (simp add: scope_of_def resolve_claim_command_id_def fun_eq_iff cong: option.case_cong)

lemma holds_frame_cong:
  "fd_frames db' = fd_frames db \<Longrightarrow> holds_frame cf c j f db' = holds_frame cf c j f db"
  by (simp add: holds_frame_def frame_ids_def frame_with_def)

lemma frame_named_response [simp]: "frame_named [frame_response cf f e] = fm_frame_id f"
  by (simp add: frame_named_def frame_response_def)

lemma claim_repeats:
  assumes "claim_held j s"
  shows "\<exists>r s'. claim_call s = Inr (r, s') \<and> frame_named r = j \<and> claim_held j s' \<and> claim_trace s' = claim_trace s"
proof -
  obtain cf i q db where s: "s = ((cf, i, q), db)" by (cases s) auto
  obtain st k f where l: "load_stage db i = Inr (st, k)" and f: "frame_with db j = Some f"
    and h: "holds_frame cf (scope_of db q st k) j f db" and q: "valid_claim_request q" "cq_requested_count q = 1"
    using assms s by (auto simp: claim_held_def split: sum.splits option.splits)
  let ?c = "scope_of db q st k"
  define db1 where "db1 = drain_frame_outbox cf (update_frame j (renewed cf ?c) db)"
  have db1: "fd_stages db1 = fd_stages db" "fd_executions db1 = fd_executions db" "fd_commands db1 = fd_commands db"
    "frame_ids db1 = frame_ids db" "fd_events db1 = fd_events db"
    "frame_with db1 j = Some (renewed cf ?c f)"
    "fd_frames db1 = fd_frames (update_frame j (renewed cf ?c) db)"
    using f by (simp_all add: db1_def)
  have i: "fs_stage_id st = i" and j: "fm_frame_id f = j"
    using load_stage_Inr [OF l] frame_with_Some [OF f] by auto
  have one: "claim_one cf ?c db = Inr (frame_response cf (renewed cf ?c f) (fm_claimed_event_id f),
      update_frame j (renewed cf ?c) db)"
    using holds_idempotent [OF h] j by (simp add: claim_one_unfold renew_def)
  then have c: "claim_frames cf i q db =
      Inr ([frame_response cf (renewed cf ?c f) (fm_claimed_event_id f)], db1)"
    using l q(2) i by (simp add: claim_frames_def scope_of_def http_answer_def db1_def)
  have l': "load_stage db1 i = Inr (st, k)" using l load_stage_cong [OF db1(1,2)] by simp
  have sc: "scope_of db1 q st k = ?c" using scope_of_cong [OF db1(3)] by simp
  have h': "holds_frame cf ?c j (renewed cf ?c f) db1"
    using holds_renewed [OF h] holds_frame_cong [OF db1(7)] by simp
  show ?thesis using c l' sc db1(4-6) h' q j s by (simp add: claim_call_def claim_held_def claim_trace_def)
qed

lemma claim_opens:
  assumes "claim_ready s"
  shows "\<exists>r s'. claim_call s = Inr (r, s') \<and> claim_held (frame_named r) s' \<and>
    (\<exists>e. claim_trace s' = (fst (claim_trace s) @ [frame_named r], snd (claim_trace s) @ [e]) \<and>
      fe_event_type e = ''frame.dispatched'' \<and> fe_frame_id e = frame_named r)"
proof -
  obtain cf i q db where s: "s = ((cf, i, q), db)" by (cases s) auto
  obtain st k where l: "load_stage db i = Inr (st, k)" and q: "valid_claim_request q" "cq_requested_count q = 1"
    and d: "distinct (frame_ids db)" and no: "claimable_frame cf (scope_of db q st k) db = None"
    and key: "frame_claim_key i (cq_cursor q) \<noteq> None" "row_key cf i (cq_cursor q) = frame_claim_key i (cq_cursor q)"
    and free: "list_all (\<lambda>r. fm_frame_id r \<noteq> next_id cf db \<and> lease_key cf r \<noteq> frame_claim_key i (cq_cursor q)) (fd_frames db)"
    and ev: "list_all (\<lambda>e. fe_event_id e \<noteq> fc_snowflake cf (fd_drawn db + 1)) (fd_events db)"
    and mir: "\<not> fc_mirror cf"
    using assms s by (auto simp: claim_ready_def split: sum.splits)
  let ?c = "scope_of db q st k"
  have i: "fs_stage_id st = i" using load_stage_Inr [OF l] by simp
  have none: "idempotent_frame cf ?c db = None"
    using free key(1) i by (auto simp: idempotent_frame_def load_idempotent_claimed_frame_def keyed_frames_def
        filter_empty_conv list_all_iff)
  have conf: "\<not> insert_conflict cf (minted cf ?c (next_id cf db) (resolve_parent_frame_id cf db i (cq_cursor q))) db"
    using free key i by (auto simp: insert_conflict_def list_ex_iff list_all_iff minted_def lease_key_def)
  obtain r db' f e where c: "claim_frames cf i q db = Inr ([r], db')"
    and f: "frame_with db' (next_id cf db) = Some f" "py_get r ''frame_id'' = VInt (fm_frame_id f)"
      "fm_status f = ''CLAIMED''" "fm_owner_worker f = Some (cq_worker_id q)" "fm_cursor f = cq_cursor q"
      "fm_command_id f = cs_command_id ?c" "fd_frames db' = fd_frames db @ [f]"
    and e: "fd_events db' = fd_events db @ [e]" "fe_event_type e = ''frame.dispatched''" "fe_frame_id e = fm_frame_id f"
    using claim_opens_frame [OF l q(2) none no conf ev mir d] by blast
  have st: "fd_stages db' = fd_stages db" "fd_executions db' = fd_executions db" "fd_commands db' = fd_commands db"
    using claim_frames_static [OF c] by auto
  have id: "fm_frame_id f = next_id cf db" using frame_with_Some [OF f(1)] by simp
  have ids: "frame_ids db' = frame_ids db @ [fm_frame_id f]" using f(7) by (simp add: frame_ids_def)
  have stage: "fm_stage_id f = i"
  proof -
    obtain db1 where "claim_one cf ?c db = Inr (r, db1)" "db' = drain_frame_outbox cf db1"
      using c l q(2) i by (auto simp: claim_frames_def scope_of_def elim!: abind_InrE)
    then have "(\<exists>g \<in> set (fd_frames db). fm_frame_id g = fm_frame_id f) \<or> fm_stage_id f = i"
      using claim_one_stage [of cf ?c db r db1 f] f(7) i by simp
    then show ?thesis using free id by (auto simp: list_all_iff)
  qed
  have lk: "lease_key cf f = frame_claim_key i (cq_cursor q)" using key(2) f(5) stage by (simp add: lease_key_def)
  have "holds_frame cf ?c (fm_frame_id f) f db'"
    using f id ids d free key lk i
    by (auto simp: holds_frame_def active_statuses_def list_all_iff frame_ids_def)
  moreover have "scope_of db' q st k = ?c" using scope_of_cong [OF st(3)] by simp
  moreover have "load_stage db' i = Inr (st, k)" using l load_stage_cong [OF st(1,2)] by simp
  ultimately have "claim_held (fm_frame_id f) ((cf, i, q), db')"
    using q f(1) id by (simp add: claim_held_def)
  then show ?thesis using c s ids e f(2)
    by (intro exI [of _ "[r]"] exI [of _ "((cf, i, q), db')"])
      (simp add: claim_call_def claim_trace_def frame_named_def)
qed

interpretation lease_claims: repeatable_call claim_call claim_ready claim_held frame_named claim_trace
proof
  show "claim_ready s \<Longrightarrow> \<exists>r s'. claim_call s = Inr (r, s') \<and> claim_held (frame_named r) s'" for s
    using claim_opens by blast
  show "claim_held k s \<Longrightarrow> \<exists>r s'. claim_call s = Inr (r, s') \<and> frame_named r = k \<and> claim_held k s' \<and>
      claim_trace s' = claim_trace s" for k s
    by (rule claim_repeats)
qed


lemma sample_claim_ready: "claim_ready ((sample_frame_config 0, 7, sample_claim ''s1'' 40 ''s1'' 0), sample_frames_db)"
  by (simp add: claim_ready_def frame_eval valid_claim_request_def frame_ids_def scope_of_def)

lemma sample_retry:
  "\<exists>rs scope db ds. retry 2 (over_network claim_call)
      (((sample_frame_config 0, 7, sample_claim ''s1'' 40 ''s1'' 0), sample_frames_db), [RequestLost, AnswerLost])
    = (Inr rs, ((scope, db), ds))"
  by (simp add: over_network_at claim_call_def frame_eval numeral_2_eq_2)


text \<open>The claims of a worker with a slot are keyed, as the server's rows and as its requests read them.\<close>

lemma worker_claims_are_keyed:
  assumes "wc_slot c = VStr slot"
  shows "py_get (claim_payload env c k lease n) ''cursor'' = VDict cursor \<Longrightarrow>
    frame_claim_key i cursor = Some (i, slot, show_int (int k)) \<and> row_key cf i cursor = frame_claim_key i cursor"
  using assms by (auto simp: claim_payload_def Let_def frame_claim_key_def row_key_def cursor_text_def)

end
