(* ===== verification/Claim_Policy.thy ===== *)
theory Claim_Policy
  imports Http_Answers
begin

text \<open>
  Two decisions of the command endpoints that depend on time: whether a command claimed by one worker
  may be handed to another (\<^verbatim>\<open>noetl/claim_policy.py\<close>), and how long the server answers 503 after the
  database has failed (\<^verbatim>\<open>noetl/server/api/core/db.py\<close>). Times and durations are in microseconds.
\<close>

section \<open>Reclaiming\<close>

record reclaim_decision =
  rd_reclaim :: bool
  rd_reason :: "string option"
  rd_retry_reason :: "string option"

definition reclaimed_for :: "string \<Rightarrow> reclaim_decision" where
  "reclaimed_for why = \<lparr>rd_reclaim = True, rd_reason = Some why, rd_retry_reason = None\<rparr>"

definition kept_for :: "string \<Rightarrow> reclaim_decision" where
  "kept_for why = \<lparr>rd_reclaim = False, rd_reason = None, rd_retry_reason = Some why\<rparr>"

text \<open>What is known of a claim: who holds it and since when, and the holder's row in the runtime table.\<close>

record claim_facts =
  ck_existing_worker :: "string option"
  ck_requesting_worker :: string
  ck_claim_age :: int
  ck_runtime_status :: "string option"
  ck_heartbeat_age :: "int option"

record claim_limits =
  cl_lease :: int
  cl_heartbeat_stale :: int
  cl_hard_timeout :: int

definition runtime_status :: "claim_facts \<Rightarrow> string" where
  "runtime_status k = lower (strip (case ck_runtime_status k of None \<Rightarrow> [] | Some s \<Rightarrow> s))"

definition worker_healthy :: "claim_limits \<Rightarrow> claim_facts \<Rightarrow> bool" where
  "worker_healthy l k =
     (runtime_status k = ''ready'' \<and>
      (case ck_heartbeat_age k of None \<Rightarrow> False | Some a \<Rightarrow> a < cl_heartbeat_stale l))"

definition decide_reclaim_for_existing_claim :: "claim_limits \<Rightarrow> claim_facts \<Rightarrow> reclaim_decision" where
  "decide_reclaim_for_existing_claim l k =
     (let worker_inactive = runtime_status k \<noteq> [] \<and> runtime_status k \<noteq> ''ready'';
          heartbeat_stale = (case ck_heartbeat_age k of None \<Rightarrow> False | Some a \<Rightarrow> cl_heartbeat_stale l \<le> a)
      in if ck_existing_worker k \<in> {None, Some [], Some (ck_requesting_worker k)}
         then kept_for ''same_worker_or_unclaimed''
         else if ck_claim_age k < cl_lease l then kept_for ''lease_active''
         else if worker_inactive then reclaimed_for ''worker_inactive''
         else if heartbeat_stale then reclaimed_for ''worker_heartbeat_stale''
         else if worker_healthy l k \<and> ck_claim_age k < cl_hard_timeout l then kept_for ''healthy_worker_active''
         else if worker_healthy l k \<and> cl_hard_timeout l \<le> ck_claim_age k
         then reclaimed_for ''healthy_worker_hard_timeout''
         else reclaimed_for ''lease_expired'')"

text \<open>The policy in one line: the lease is over, and no healthy worker is within its hard timeout.\<close>

lemma reclaim_iff:
  "rd_reclaim (decide_reclaim_for_existing_claim l k) \<longleftrightarrow>
     ck_existing_worker k \<notin> {None, Some [], Some (ck_requesting_worker k)} \<and> cl_lease l \<le> ck_claim_age k \<and>
     \<not> (worker_healthy l k \<and> ck_claim_age k < cl_hard_timeout l)"
  by (auto simp: decide_reclaim_for_existing_claim_def worker_healthy_def reclaimed_for_def kept_for_def Let_def
      split: option.splits)

lemma reclaim_reason:
  "rd_reclaim (decide_reclaim_for_existing_claim l k) \<longleftrightarrow> rd_reason (decide_reclaim_for_existing_claim l k) \<noteq> None"
  by (simp add: decide_reclaim_for_existing_claim_def reclaimed_for_def kept_for_def Let_def)

section \<open>Outages of the database\<close>

record outage_config =
  og_short_circuit :: bool
  og_base :: int
  og_max :: int

record outage =
  og_streak :: nat
  og_until :: int

definition no_outage :: outage where
  "no_outage = \<lparr>og_streak = 0, og_until = 0\<rparr>"

definition ceil_seconds :: "int \<Rightarrow> int" where
  "ceil_seconds t = - ((- t) div 1000000)"

definition db_unavailable_retry_after :: "int \<Rightarrow> outage \<Rightarrow> string option" where
  "db_unavailable_retry_after now o1 =
     (let remaining = og_until o1 - now in
      if remaining \<le> 0 then None else Some (show_int (max 1 (ceil_seconds remaining))))"

definition record_db_operation_success :: "outage \<Rightarrow> outage" where
  "record_db_operation_success o1 = no_outage"

definition db_unavailable_markers :: "string list" where
  "db_unavailable_markers =
     [''server conn crashed'', ''server login has been failing'', ''server_login_retry'',
      ''the database system is in recovery mode'', ''the database system is not yet accepting connections'',
      ''could not connect to server'', ''connection refused'', ''connection reset by peer'',
      ''terminating connection due to administrator command'', ''admin shutdown'', ''connection is closed'',
      ''pool closed'']"

definition is_db_unavailable_error :: "string \<Rightarrow> bool" where
  "is_db_unavailable_error text =
     (let message = lower text in message \<noteq> [] \<and> list_ex (\<lambda>m. contains message m) db_unavailable_markers)"

definition next_backoff :: "outage_config \<Rightarrow> nat \<Rightarrow> int" where
  "next_backoff g streak = min (og_base g * 2 ^ min (streak - 1) 6) (og_max g)"

definition record_db_unavailable_failure ::
    "outage_config \<Rightarrow> int \<Rightarrow> string \<Rightarrow> outage \<Rightarrow> string option \<times> outage" where
  "record_db_unavailable_failure g now text o1 =
     (if \<not> is_db_unavailable_error text then (None, o1)
      else (let streak = max 1 (og_streak o1 + 1);
                backoff = next_backoff g streak;
                o2 = \<lparr>og_streak = streak, og_until = max (og_until o1) (now + backoff)\<rparr>
            in (Some (case db_unavailable_retry_after now o2 of
                        Some s \<Rightarrow> s
                      | None \<Rightarrow> show_int (max 1 (ceil_seconds backoff))), o2)))"

definition raise_if_db_short_circuit_enabled :: "outage_config \<Rightarrow> int \<Rightarrow> string \<Rightarrow> outage \<Rightarrow> unit answer" where
  "raise_if_db_short_circuit_enabled g now operation o1 =
     (if \<not> og_short_circuit g then Inr ()
      else case db_unavailable_retry_after now o1 of
        None \<Rightarrow> Inr ()
      | Some retry_after \<Rightarrow>
          Inl (HttpRetry 503 (VDict [(''code'', VStr ''db_unavailable''),
            (''message'', VStr (''Database temporarily unavailable during '' @ operation @ ''; retry shortly''))])
            retry_after))"

text \<open>One failure keeps the endpoints closed for at most the configured maximum, and never for less than the last.\<close>

lemma outage_bounded:
  assumes "record_db_unavailable_failure g now text o1 = (r, o2)" and "og_until o1 \<le> now + og_max g"
  shows "og_until o2 \<le> now + og_max g \<and> og_until o1 \<le> og_until o2"
  using assms by (auto simp: record_db_unavailable_failure_def next_backoff_def Let_def split: if_splits)

lemma outage_over:
  "og_until o1 \<le> now \<Longrightarrow> raise_if_db_short_circuit_enabled g now operation o1 = Inr ()"
  by (simp add: raise_if_db_short_circuit_enabled_def db_unavailable_retry_after_def)

end
