(* ===== verification/Claim_Cache.thy ===== *)
theory Claim_Cache
  imports Http_Answers
begin

text \<open>
  The cache of active claims (\<^verbatim>\<open>noetl/server/api/core/cache.py\<close>): one entry per claimed command, under
  its event in one dictionary and under its command in another. The code compares entries with
  \<open>is\<close>; every entry has the number of its creation (\<open>ae_ident\<close>). Clock readings are in microseconds;
  command ids are texts, as the annotations have them.
\<close>

record claim_entry =
  ae_ident :: nat
  ae_event_id :: int
  ae_command_id :: string
  ae_worker_id :: string
  ae_expires_at :: int
  ae_updated_at :: int

record claim_cache =
  ac_by_event :: "(int \<times> claim_entry) list"
  ac_by_command :: "(string \<times> claim_entry) list"
  ac_last_prune :: int
  ac_made :: nat

record cache_config =
  cc_ttl :: int
  cc_lease :: int
  cc_max_entries :: nat
  cc_prune_interval :: int

definition empty_claim_cache :: claim_cache where
  "empty_claim_cache = \<lparr>ac_by_event = [], ac_by_command = [], ac_last_prune = 0, ac_made = 0\<rparr>"

definition is_entry :: "claim_entry option \<Rightarrow> claim_entry \<Rightarrow> bool" where
  "is_entry x e = (case x of None \<Rightarrow> False | Some y \<Rightarrow> ae_ident y = ae_ident e)"

definition unlink_command :: "claim_entry \<Rightarrow> claim_cache \<Rightarrow> claim_cache" where
  "unlink_command e c =
     (if is_entry (map_of (ac_by_command c) (ae_command_id e)) e
      then c\<lparr>ac_by_command := AList.delete (ae_command_id e) (ac_by_command c)\<rparr> else c)"

definition unlink_event :: "claim_entry \<Rightarrow> claim_cache \<Rightarrow> claim_cache" where
  "unlink_event e c =
     (if is_entry (map_of (ac_by_event c) (ae_event_id e)) e
      then c\<lparr>ac_by_event := AList.delete (ae_event_id e) (ac_by_event c)\<rparr> else c)"

text \<open>\<open>by_event.pop(eid, None)\<close>, and the same entry out of the other dictionary.\<close>

definition drop_event :: "int \<Rightarrow> claim_cache \<Rightarrow> claim_cache" where
  "drop_event eid c =
     (case map_of (ac_by_event c) eid of
        None \<Rightarrow> c
      | Some e \<Rightarrow> unlink_command e (c\<lparr>ac_by_event := AList.delete eid (ac_by_event c)\<rparr>))"

definition active_claim_cache_prune :: "cache_config \<Rightarrow> int \<Rightarrow> bool \<Rightarrow> claim_cache \<Rightarrow> claim_cache" where
  "active_claim_cache_prune g now force c =
     (if \<not> force \<and> length (ac_by_event c) \<le> cc_max_entries g \<and> now - ac_last_prune c < cc_prune_interval g
      then c
      else (let expired = map fst (filter (\<lambda>(k, e). ae_expires_at e \<le> now) (ac_by_event c));
                c1 = foldl (\<lambda>d eid. drop_event eid d) (c\<lparr>ac_last_prune := now\<rparr>) expired;
                overflow = length (ac_by_event c1) - cc_max_entries g;
                oldest = take overflow (sort_key ae_updated_at (map snd (ac_by_event c1)))
            in if length (ac_by_event c1) \<le> cc_max_entries g then c1
               else foldl (\<lambda>d e. unlink_command e (d\<lparr>ac_by_event := AList.delete (ae_event_id e) (ac_by_event d)\<rparr>))
                      c1 oldest))"

definition active_claim_cache_get ::
    "cache_config \<Rightarrow> int \<Rightarrow> int \<Rightarrow> claim_cache \<Rightarrow> claim_entry option \<times> claim_cache" where
  "active_claim_cache_get g now event_id c =
     (let c1 = active_claim_cache_prune g now False c in
      case map_of (ac_by_event c1) event_id of
        None \<Rightarrow> (None, c1)
      | Some e \<Rightarrow>
          (if ae_expires_at e \<le> now
           then (None, unlink_command e (c1\<lparr>ac_by_event := AList.delete (ae_event_id e) (ac_by_event c1)\<rparr>))
           else (Some e, c1)))"

definition effective_ttl :: "cache_config \<Rightarrow> int" where
  "effective_ttl g = max 1000000 (min (cc_ttl g) (cc_lease g))"

definition link_entry :: "claim_entry \<Rightarrow> claim_cache \<Rightarrow> claim_cache" where
  "link_entry e c =
     c\<lparr>ac_by_event := AList.update (ae_event_id e) e (ac_by_event c),
       ac_by_command := AList.update (ae_command_id e) e (ac_by_command c)\<rparr>"

definition active_claim_cache_set ::
    "cache_config \<Rightarrow> int \<Rightarrow> int \<Rightarrow> string \<Rightarrow> string \<Rightarrow> claim_cache \<Rightarrow> claim_cache" where
  "active_claim_cache_set g now event_id command_id worker_id c =
     (let c1 = (case map_of (ac_by_event c) event_id of
                  Some x \<Rightarrow> if ae_command_id x \<noteq> command_id then unlink_command x c else c
                | None \<Rightarrow> c);
          c2 = (case map_of (ac_by_command c1) command_id of
                  Some x \<Rightarrow> if ae_event_id x \<noteq> event_id then unlink_event x c1 else c1
                | None \<Rightarrow> c1);
          e = \<lparr>ae_ident = ac_made c, ae_event_id = event_id, ae_command_id = command_id,
               ae_worker_id = worker_id, ae_expires_at = now + effective_ttl g, ae_updated_at = now\<rparr>;
          c3 = link_entry e (c2\<lparr>ac_made := ac_made c + 1\<rparr>)
      in active_claim_cache_prune g now (cc_max_entries g < length (ac_by_event c3)) c3)"

definition active_claim_cache_invalidate :: "string option \<Rightarrow> int option \<Rightarrow> claim_cache \<Rightarrow> claim_cache" where
  "active_claim_cache_invalidate command_id event_id c =
     (let c1 = (case command_id of
                  Some (ch # cs) \<Rightarrow>
                    (case map_of (ac_by_command c) (ch # cs) of
                       None \<Rightarrow> c
                     | Some x \<Rightarrow> unlink_event x
                         (c\<lparr>ac_by_command := AList.delete (ch # cs) (ac_by_command c)\<rparr>))
                | _ \<Rightarrow> c)
      in case event_id of None \<Rightarrow> c1 | Some i \<Rightarrow> drop_event i c1)"

section \<open>The two dictionaries\<close>

text \<open>Both dictionaries hold the same entries, each under its own key.\<close>

definition linked :: "claim_cache \<Rightarrow> bool" where
  "linked c =
     (distinct (map fst (ac_by_event c)) \<and> distinct (map fst (ac_by_command c)) \<and>
      (\<forall>i e. map_of (ac_by_event c) i = Some e \<longrightarrow>
         i = ae_event_id e \<and> map_of (ac_by_command c) (ae_command_id e) = Some e) \<and>
      (\<forall>k e. map_of (ac_by_command c) k = Some e \<longrightarrow>
         k = ae_command_id e \<and> map_of (ac_by_event c) (ae_event_id e) = Some e))"

definition in_cache :: "claim_entry \<Rightarrow> claim_cache \<Rightarrow> bool" where
  "in_cache e c = (map_of (ac_by_event c) (ae_event_id e) = Some e)"

definition forget :: "claim_entry \<Rightarrow> claim_cache \<Rightarrow> claim_cache" where
  "forget e c =
     c\<lparr>ac_by_event := AList.delete (ae_event_id e) (ac_by_event c),
       ac_by_command := AList.delete (ae_command_id e) (ac_by_command c)\<rparr>"

lemma linked_empty: "linked empty_claim_cache"
  by (simp add: linked_def empty_claim_cache_def)

lemma linked_by_event: "linked c \<Longrightarrow> map_of (ac_by_event c) i = Some e \<Longrightarrow> i = ae_event_id e \<and> in_cache e c"
  by (auto simp: linked_def in_cache_def)

lemma linked_by_command: "linked c \<Longrightarrow> map_of (ac_by_command c) k = Some e \<Longrightarrow> k = ae_command_id e \<and> in_cache e c"
  by (auto simp: linked_def in_cache_def)

lemma cached_command: "linked c \<Longrightarrow> in_cache e c \<Longrightarrow> map_of (ac_by_command c) (ae_command_id e) = Some e"
  by (auto simp: linked_def in_cache_def)

lemma cached_unique: "in_cache e c \<Longrightarrow> in_cache f c \<Longrightarrow> ae_event_id e = ae_event_id f \<Longrightarrow> e = f"
  by (simp add: in_cache_def)

lemma is_entry_self [simp]: "is_entry (Some e) e"
  by (simp add: is_entry_def)

lemma linked_forget:
  assumes "linked c" and "in_cache e c"
  shows "linked (forget e c)"
proof -
  let ?d = "forget e c"
  have be: "map_of (ac_by_event ?d) = (map_of (ac_by_event c)) (ae_event_id e := None)"
    and bc: "map_of (ac_by_command ?d) = (map_of (ac_by_command c)) (ae_command_id e := None)"
    by (simp_all add: forget_def AList.delete_conv')
  have "i = ae_event_id f \<and> map_of (ac_by_command ?d) (ae_command_id f) = Some f"
    if "map_of (ac_by_event ?d) i = Some f" for i f
  proof -
    have i: "i \<noteq> ae_event_id e" "map_of (ac_by_event c) i = Some f" using that be by (auto split: if_splits)
    then have f: "i = ae_event_id f" "map_of (ac_by_command c) (ae_command_id f) = Some f"
      using linked_by_event [OF assms(1) i(2)] cached_command [OF assms(1), of f] by auto
    have "ae_command_id f \<noteq> ae_command_id e"
    proof
      assume "ae_command_id f = ae_command_id e"
      with f(2) cached_command [OF assms] have "Some f = Some e" by argo
      then have "f = e" by simp
      then show False using f(1) i(1) by simp
    qed
    then show ?thesis using f bc by simp
  qed
  moreover have "k = ae_command_id f \<and> map_of (ac_by_event ?d) (ae_event_id f) = Some f"
    if "map_of (ac_by_command ?d) k = Some f" for k f
  proof -
    have k: "k \<noteq> ae_command_id e" "map_of (ac_by_command c) k = Some f" using that bc by (auto split: if_splits)
    then have f: "k = ae_command_id f" "in_cache f c" using linked_by_command [OF assms(1) k(2)] by auto
    then have "ae_event_id f \<noteq> ae_event_id e" using k(1) cached_unique [OF f(2) assms(2)] by auto
    then show ?thesis using f be by (simp add: in_cache_def)
  qed
  moreover have "distinct (map fst (ac_by_event ?d))" "distinct (map fst (ac_by_command ?d))"
    using assms(1) by (simp_all add: linked_def forget_def AList.distinct_delete)
  ultimately show ?thesis unfolding linked_def by blast
qed

lemma cached_forget: "linked c \<Longrightarrow> in_cache e c \<Longrightarrow> in_cache f (forget e c) \<longleftrightarrow> in_cache f c \<and> f \<noteq> e"
  by (auto simp: in_cache_def forget_def AList.delete_conv')

lemma length_delete: "distinct (map fst al) \<Longrightarrow> map_of al k = Some v \<Longrightarrow> length (AList.delete k al) = length al - 1"
proof (induction al)
  case (Cons kv al)
  show ?case
  proof (cases "fst kv = k")
    case True
    then have "k \<notin> fst ` set al" using Cons.prems(1) by auto
    then show ?thesis using True by (simp add: AList.delete_eq AList.delete_id prod.case_eq_if) (metis AList.delete_eq AList.delete_id)
  next
    case False
    then have l: "map_of al k = Some v" using Cons.prems(2) by (cases kv) auto
    then have "0 < length al" by (cases al) auto
    then show ?thesis using Cons.IH l Cons.prems(1) False by (cases kv) auto
  qed
qed simp

lemma linked_distinct: "linked c \<Longrightarrow> distinct (map fst (ac_by_event c))"
  by (unfold linked_def) (elim conjE)

lemma length_forget:
  assumes "linked c" and "in_cache e c"
  shows "length (ac_by_event (forget e c)) = length (ac_by_event c) - 1"
proof -
  have "map_of (ac_by_event c) (ae_event_id e) = Some e" using assms(2) by (simp only: in_cache_def)
  then show ?thesis using length_delete [OF linked_distinct [OF assms(1)]] by (simp add: forget_def)
qed

text \<open>Every way in which the code removes an entry of a linked cache forgets it.\<close>

lemma pop_event_forgets:
  assumes "linked c" and "in_cache e c"
  shows "unlink_command e (c\<lparr>ac_by_event := AList.delete (ae_event_id e) (ac_by_event c)\<rparr>) = forget e c"
  using cached_command [OF assms] by (simp add: unlink_command_def forget_def)

lemma pop_command_forgets:
  assumes "linked c" and "in_cache e c"
  shows "unlink_event e (c\<lparr>ac_by_command := AList.delete (ae_command_id e) (ac_by_command c)\<rparr>) = forget e c"
  using assms(2) by (simp add: unlink_event_def forget_def in_cache_def)

lemma drop_event_forgets:
  assumes "linked c" and "map_of (ac_by_event c) i = Some e"
  shows "drop_event i c = forget e c"
proof -
  have e: "i = ae_event_id e" "in_cache e c" using linked_by_event [OF assms] by auto
  show ?thesis
    using pop_event_forgets [OF assms(1) e(2)] assms(2) by (simp add: drop_event_def flip: e(1))
qed

lemma drop_event_linked:
  assumes "linked c"
  shows "linked (drop_event i c) \<and> length (ac_by_event (drop_event i c)) \<le> length (ac_by_event c)"
proof (cases "map_of (ac_by_event c) i")
  case None
  then show ?thesis using assms by (simp add: drop_event_def)
next
  case (Some e)
  have "drop_event i c = forget e c" and "in_cache e c"
    using drop_event_forgets [OF assms Some] linked_by_event [OF assms Some] by auto
  then show ?thesis using linked_forget [OF assms] length_forget [OF assms] by simp
qed

lemma drop_events:
  "linked c \<Longrightarrow> linked (foldl (\<lambda>d i. drop_event i d) c is) \<and>
     length (ac_by_event (foldl (\<lambda>d i. drop_event i d) c is)) \<le> length (ac_by_event c)"
proof (induction "is" arbitrary: c)
  case (Cons i "is")
  have d: "linked (drop_event i c)" "length (ac_by_event (drop_event i c)) \<le> length (ac_by_event c)"
    using drop_event_linked [OF Cons.prems] by auto
  show ?case using Cons.IH [OF d(1)] d(2) by simp
qed simp

definition pop_entry :: "claim_cache \<Rightarrow> claim_entry \<Rightarrow> claim_cache" where
  "pop_entry d e = unlink_command e (d\<lparr>ac_by_event := AList.delete (ae_event_id e) (ac_by_event d)\<rparr>)"

lemma pop_entries:
  "linked c \<Longrightarrow> distinct es \<Longrightarrow> list_all (\<lambda>e. in_cache e c) es \<Longrightarrow>
   linked (foldl pop_entry c es) \<and>
   length (ac_by_event (foldl pop_entry c es)) = length (ac_by_event c) - length es"
proof (induction es arbitrary: c)
  case (Cons e es)
  have e: "in_cache e c" "pop_entry c e = forget e c"
    using Cons.prems pop_event_forgets [of c e] by (auto simp: pop_entry_def)
  have "list_all (\<lambda>x. in_cache x (forget e c)) es"
    using Cons.prems e cached_forget [of c e] by (auto simp: list_all_iff)
  then show ?case
    using Cons.IH [of "forget e c"] Cons.prems e linked_forget length_forget by simp
qed simp

lemma distinct_mapD: "distinct (map f xs) \<Longrightarrow> distinct xs"
  by (simp add: distinct_map)

lemma linked_entries:
  assumes "linked c"
  shows "distinct (map snd (ac_by_event c)) \<and> list_all (\<lambda>e. in_cache e c) (map snd (ac_by_event c))"
proof -
  have d: "distinct (map fst (ac_by_event c))" using assms by (simp add: linked_def)
  have k: "k = ae_event_id e \<and> in_cache e c" if "(k, e) \<in> set (ac_by_event c)" for k e
    using linked_by_event [OF assms] that d by (simp add: map_of_eq_Some_iff)
  have m: "map fst (ac_by_event c) = map ae_event_id (map snd (ac_by_event c))"
    using k by (auto simp: comp_def)
  have "distinct (map snd (ac_by_event c))" using d unfolding m by (rule distinct_mapD)
  then show ?thesis using k by (auto simp: list_all_iff)
qed

lemma prune_linked:
  assumes "linked c"
  shows "linked (active_claim_cache_prune g now force c) \<and>
    length (ac_by_event (active_claim_cache_prune g now force c)) \<le> length (ac_by_event c)"
    "force \<or> cc_max_entries g < length (ac_by_event c) \<Longrightarrow>
     length (ac_by_event (active_claim_cache_prune g now force c)) \<le> cc_max_entries g"
proof -
  define c1 where "c1 = foldl (\<lambda>d eid. drop_event eid d) (c\<lparr>ac_last_prune := now\<rparr>)
    (map fst (filter (\<lambda>(k, e). ae_expires_at e \<le> now) (ac_by_event c)))"
  define es where "es = take (length (ac_by_event c1) - cc_max_entries g)
    (sort_key ae_updated_at (map snd (ac_by_event c1)))"
  have "linked (c\<lparr>ac_last_prune := now\<rparr>)" using assms by (simp add: linked_def)
  from drop_events [OF this] have c1: "linked c1" "length (ac_by_event c1) \<le> length (ac_by_event c)"
    by (auto simp: c1_def)
  have es: "distinct es" "list_all (\<lambda>e. in_cache e c1) es"
    using linked_entries [OF c1(1)] unfolding es_def list_all_iff by (auto dest!: in_set_takeD)
  have p: "active_claim_cache_prune g now force c =
    (if \<not> force \<and> length (ac_by_event c) \<le> cc_max_entries g \<and> now - ac_last_prune c < cc_prune_interval g then c
     else if length (ac_by_event c1) \<le> cc_max_entries g then c1 else foldl pop_entry c1 es)"
    by (simp add: active_claim_cache_prune_def Let_def c1_def es_def pop_entry_def [abs_def])
  have l: "length es = length (ac_by_event c1) - cc_max_entries g" by (simp add: es_def)
  show "linked (active_claim_cache_prune g now force c) \<and>
    length (ac_by_event (active_claim_cache_prune g now force c)) \<le> length (ac_by_event c)"
    using p assms c1 pop_entries [OF c1(1) es] by auto
  show "length (ac_by_event (active_claim_cache_prune g now force c)) \<le> cc_max_entries g"
    if "force \<or> cc_max_entries g < length (ac_by_event c)"
    using p that pop_entries [OF c1(1) es] l by auto
qed

text \<open>Setting an entry ends the old entry of its event and the old entry of its command.\<close>

definition tied :: "(int \<Rightarrow> claim_entry option) \<Rightarrow> (string \<Rightarrow> claim_entry option) \<Rightarrow> bool" where
  "tied be bc =
     ((\<forall>i e. be i = Some e \<longrightarrow> i = ae_event_id e \<and> bc (ae_command_id e) = Some e) \<and>
      (\<forall>k e. bc k = Some e \<longrightarrow> k = ae_command_id e \<and> be (ae_event_id e) = Some e))"

lemma linked_tied:
  "linked c \<longleftrightarrow> distinct (map fst (ac_by_event c)) \<and> distinct (map fst (ac_by_command c)) \<and>
     tied (map_of (ac_by_event c)) (map_of (ac_by_command c))"
  by (simp only: linked_def tied_def conj_assoc)

lemma relink:
  assumes t: "tied be bc"
    and be2: "be2 = (case bc (ae_command_id e) of
        Some y \<Rightarrow> if ae_event_id y \<noteq> ae_event_id e then be (ae_event_id y := None) else be | None \<Rightarrow> be)"
    and bc2: "bc2 = (case be (ae_event_id e) of
        Some x \<Rightarrow> if ae_command_id x \<noteq> ae_command_id e then bc (ae_command_id x := None) else bc | None \<Rightarrow> bc)"
  shows "tied (be2 (ae_event_id e \<mapsto> e)) (bc2 (ae_command_id e \<mapsto> e))"
proof -
  have be: "\<And>i f. be i = Some f \<Longrightarrow> i = ae_event_id f \<and> bc (ae_command_id f) = Some f"
    and bc: "\<And>k f. bc k = Some f \<Longrightarrow> k = ae_command_id f \<and> be (ae_event_id f) = Some f"
    using t unfolding tied_def by blast+
  {
  fix i f
  assume a: "(be2 (ae_event_id e \<mapsto> e)) i = Some f"
  have "i = ae_event_id f \<and> (bc2 (ae_command_id e \<mapsto> e)) (ae_command_id f) = Some f"
  proof (cases "i = ae_event_id e")
    case False
    then have b2: "be2 i = Some f" using a by simp
    then have b: "be i = Some f" unfolding be2 by (auto split: option.splits if_splits)
    then have f: "i = ae_event_id f" "bc (ae_command_id f) = Some f" using be [OF b] by auto
    have "ae_command_id f \<noteq> ae_command_id e"
    proof
      assume eq: "ae_command_id f = ae_command_id e"
      then have "bc (ae_command_id e) = Some f" using f(2) by simp
      then show False using b2 f(1) False unfolding be2 by simp
    qed
    moreover have "bc2 (ae_command_id f) = Some f"
    proof (cases "be (ae_event_id e)")
      case (Some x)
      have "ae_command_id f \<noteq> ae_command_id x"
      proof
        assume "ae_command_id f = ae_command_id x"
        then have "Some f = Some x" using f(2) be [OF Some] by argo
        then show False using be [OF Some] f(1) False by simp
      qed
      then show ?thesis using f(2) Some unfolding bc2 by simp
    qed (use f(2) in \<open>simp add: bc2\<close>)
    ultimately show ?thesis using f(1) by simp
  qed (use a in simp)
  } note one = this
  {
  fix k f
  assume a: "(bc2 (ae_command_id e \<mapsto> e)) k = Some f"
  have "k = ae_command_id f \<and> (be2 (ae_event_id e \<mapsto> e)) (ae_event_id f) = Some f"
  proof (cases "k = ae_command_id e")
    case False
    then have b2: "bc2 k = Some f" using a by simp
    then have b: "bc k = Some f" unfolding bc2 by (auto split: option.splits if_splits)
    then have f: "k = ae_command_id f" "be (ae_event_id f) = Some f" using bc [OF b] by auto
    have "ae_event_id f \<noteq> ae_event_id e"
    proof
      assume eq: "ae_event_id f = ae_event_id e"
      then have "be (ae_event_id e) = Some f" using f(2) by simp
      then show False using b2 f(1) False unfolding bc2 by simp
    qed
    moreover have "be2 (ae_event_id f) = Some f"
    proof (cases "bc (ae_command_id e)")
      case (Some x)
      have "ae_event_id f \<noteq> ae_event_id x"
      proof
        assume "ae_event_id f = ae_event_id x"
        then have "Some f = Some x" using f(2) bc [OF Some] by argo
        then show False using bc [OF Some] f(1) False by simp
      qed
      then show ?thesis using f(2) Some unfolding be2 by simp
    qed (use f(2) in \<open>simp add: be2\<close>)
    ultimately show ?thesis using f(1) by simp
  qed (use a in simp)
  } note two = this
  show ?thesis unfolding tied_def using one two by blast
qed

lemma set_linked:
  assumes "linked c"
  shows "linked (active_claim_cache_set g now i k w c) \<and>
    length (ac_by_event (active_claim_cache_set g now i k w c)) \<le> cc_max_entries g"
proof -
  define e where "e = \<lparr>ae_ident = ac_made c, ae_event_id = i, ae_command_id = k,
    ae_worker_id = w, ae_expires_at = now + effective_ttl g, ae_updated_at = now\<rparr>"
  define c1 where "c1 = (case map_of (ac_by_event c) i of
      Some x \<Rightarrow> if ae_command_id x \<noteq> k then unlink_command x c else c | None \<Rightarrow> c)"
  define c2 where "c2 = (case map_of (ac_by_command c1) k of
      Some x \<Rightarrow> if ae_event_id x \<noteq> i then unlink_event x c1 else c1 | None \<Rightarrow> c1)"
  define c3 where "c3 = link_entry e (c2\<lparr>ac_made := ac_made c + 1\<rparr>)"
  have s: "active_claim_cache_set g now i k w c =
      active_claim_cache_prune g now (cc_max_entries g < length (ac_by_event c3)) c3"
    by (simp only: active_claim_cache_set_def Let_def c3_def c2_def c1_def e_def)
  have e: "ae_event_id e = i" "ae_command_id e = k" by (simp_all add: e_def)
  have be1: "ac_by_event c1 = ac_by_event c" by (simp add: c1_def unlink_command_def split: option.split)
  have bc1: "map_of (ac_by_command c1) = (case map_of (ac_by_event c) (ae_event_id e) of
      Some x \<Rightarrow> if ae_command_id x \<noteq> ae_command_id e then (map_of (ac_by_command c)) (ae_command_id x := None)
                else map_of (ac_by_command c) | None \<Rightarrow> map_of (ac_by_command c))"
  proof (cases "map_of (ac_by_event c) i")
    case (Some x)
    have "map_of (ac_by_command c) (ae_command_id x) = Some x"
      using linked_by_event [OF assms Some] cached_command [OF assms, of x] by simp
    then show ?thesis using Some e by (simp add: c1_def unlink_command_def AList.delete_conv')
  qed (simp add: c1_def e)
  have k1: "map_of (ac_by_command c1) k = map_of (ac_by_command c) k"
    unfolding bc1 e by (auto split: option.split)
  have bc2: "ac_by_command c2 = ac_by_command c1" by (simp add: c2_def unlink_event_def split: option.split)
  have be2: "map_of (ac_by_event c2) = (case map_of (ac_by_command c) (ae_command_id e) of
      Some y \<Rightarrow> if ae_event_id y \<noteq> ae_event_id e then (map_of (ac_by_event c)) (ae_event_id y := None)
                else map_of (ac_by_event c) | None \<Rightarrow> map_of (ac_by_event c))"
  proof (cases "map_of (ac_by_command c) k")
    case (Some y)
    have "map_of (ac_by_event c) (ae_event_id y) = Some y"
      using linked_by_command [OF assms Some] by (simp add: in_cache_def)
    then show ?thesis using Some e k1 be1 by (simp add: c2_def unlink_event_def AList.delete_conv')
  qed (simp add: c2_def e k1 be1)
  have d: "distinct (map fst (ac_by_event c))" "distinct (map fst (ac_by_command c))"
    using assms by (simp_all add: linked_def)
  have d2: "distinct (map fst (ac_by_event c2))" "distinct (map fst (ac_by_command c2))"
    using d bc2 be1
    by (auto simp: c2_def unlink_event_def c1_def unlink_command_def AList.distinct_delete split: option.split)
  have t: "tied (map_of (ac_by_event c)) (map_of (ac_by_command c))" using assms by (simp add: linked_tied)
  have m3: "map_of (ac_by_event c3) = (map_of (ac_by_event c2)) (ae_event_id e \<mapsto> e)"
    "map_of (ac_by_command c3) = (map_of (ac_by_command c1)) (ae_command_id e \<mapsto> e)"
    by (simp_all add: c3_def link_entry_def AList.update_conv' bc2)
  have d3: "distinct (map fst (ac_by_event c3))" "distinct (map fst (ac_by_command c3))"
    using d2 by (simp_all add: c3_def link_entry_def AList.distinct_update)
  have l3: "linked c3"
    unfolding linked_tied m3 using d3 relink [OF t be2 bc1] by blast
  show ?thesis
  proof (cases "cc_max_entries g < length (ac_by_event c3)")
    case True
    then show ?thesis using prune_linked(1) [OF l3] prune_linked(2) [OF l3, where g = g and now = now and force = True] s by simp
  next
    case False
    then show ?thesis using prune_linked(1) [OF l3, where g = g and now = now and force = False] s by simp
  qed
qed

lemma get_linked:
  assumes "linked c" and "active_claim_cache_get g now i c = (r, d)"
  shows "linked d \<and> length (ac_by_event d) \<le> length (ac_by_event c)"
proof -
  define c1 where "c1 = active_claim_cache_prune g now False c"
  have c1: "linked c1" "length (ac_by_event c1) \<le> length (ac_by_event c)"
    using prune_linked(1) [OF assms(1)] by (simp_all add: c1_def)
  show ?thesis
  proof (cases "map_of (ac_by_event c1) i")
    case None
    then have "d = c1" using assms(2) by (simp add: active_claim_cache_get_def Let_def flip: c1_def)
    then show ?thesis using c1 by simp
  next
    case (Some e)
    have e: "in_cache e c1" using linked_by_event [OF c1(1) Some] by simp
    have "d = c1 \<or> d = forget e c1"
      using assms(2) Some pop_event_forgets [OF c1(1) e]
      by (auto simp: active_claim_cache_get_def Let_def simp flip: c1_def split: if_splits)
    then show ?thesis using c1 linked_forget [OF c1(1) e] length_forget [OF c1(1) e] by auto
  qed
qed

lemma get_live:
  "active_claim_cache_get g now i c = (Some e, d) \<Longrightarrow> now < ae_expires_at e"
  by (auto simp: active_claim_cache_get_def Let_def split: option.splits if_splits)

lemma invalidate_linked:
  assumes "linked c"
  shows "linked (active_claim_cache_invalidate k i c) \<and>
    length (ac_by_event (active_claim_cache_invalidate k i c)) \<le> length (ac_by_event c)"
proof -
  define c1 where "c1 = (case k of
      Some (ch # cs) \<Rightarrow>
        (case map_of (ac_by_command c) (ch # cs) of
           None \<Rightarrow> c
         | Some x \<Rightarrow> unlink_event x (c\<lparr>ac_by_command := AList.delete (ch # cs) (ac_by_command c)\<rparr>))
    | _ \<Rightarrow> c)"
  have "c1 = c \<or> (\<exists>x. in_cache x c \<and> c1 = forget x c)"
  proof (cases "\<exists>ch cs x. k = Some (ch # cs) \<and> map_of (ac_by_command c) (ch # cs) = Some x")
    case True
    then obtain ch cs x where x: "k = Some (ch # cs)" "map_of (ac_by_command c) (ch # cs) = Some x" by blast
    then have k: "ae_command_id x = ch # cs" and e: "in_cache x c" using linked_by_command [OF assms x(2)] by auto
    have "c1 = forget x c" using x pop_command_forgets [OF assms e] by (simp add: c1_def k)
    then show ?thesis using e by blast
  next
    case False
    then have "c1 = c" by (auto simp: c1_def split: option.split list.split)
    then show ?thesis by simp
  qed
  then have c1: "linked c1 \<and> length (ac_by_event c1) \<le> length (ac_by_event c)"
  proof
    assume "\<exists>x. in_cache x c \<and> c1 = forget x c"
    then obtain x where "in_cache x c" "c1 = forget x c" by blast
    then show ?thesis using linked_forget [OF assms] length_forget [OF assms] by simp
  qed (simp add: assms)
  have "active_claim_cache_invalidate k i c = (case i of None \<Rightarrow> c1 | Some j \<Rightarrow> drop_event j c1)"
    by (simp only: active_claim_cache_invalidate_def Let_def c1_def)
  then show ?thesis using c1 drop_event_linked [of c1] by (cases i) (auto intro: le_trans)
qed

section \<open>Histories\<close>

datatype claim_cache_op =
    CacheGet int int
  | CacheSet int int string string
  | CacheInvalidate "string option" "int option"

definition claim_cache_step :: "cache_config \<Rightarrow> claim_cache \<Rightarrow> claim_cache_op \<Rightarrow> claim_cache" where
  "claim_cache_step g c x =
     (case x of
        CacheGet now i \<Rightarrow> snd (active_claim_cache_get g now i c)
      | CacheSet now i k w \<Rightarrow> active_claim_cache_set g now i k w c
      | CacheInvalidate k i \<Rightarrow> active_claim_cache_invalidate k i c)"

text \<open>
  C37. Whatever is looked up, set and invalidated, at whatever times, the cache of active claims keeps
  its two dictionaries the same: every entry stands under its own event in one and under its own
  command in the other, and they never hold more entries than configured.
\<close>
theorem claim_cache_consistent:
  "linked (foldl (claim_cache_step g) empty_claim_cache xs) \<and>
   length (ac_by_event (foldl (claim_cache_step g) empty_claim_cache xs)) \<le> cc_max_entries g"
proof -
  have "linked (claim_cache_step g c x) \<and> length (ac_by_event (claim_cache_step g c x)) \<le> cc_max_entries g"
    if "linked c" "length (ac_by_event c) \<le> cc_max_entries g" for c x
  proof (cases x)
    case (CacheGet now i)
    then show ?thesis
      using that get_linked [OF that(1) surjective_pairing, of g now i] by (simp add: claim_cache_step_def)
  next
    case (CacheSet now i k w)
    then show ?thesis using set_linked [OF that(1)] by (simp add: claim_cache_step_def)
  next
    case (CacheInvalidate k i)
    then show ?thesis using that invalidate_linked [OF that(1), of k i] by (simp add: claim_cache_step_def)
  qed
  then have "linked (foldl (claim_cache_step g) c xs) \<and> length (ac_by_event (foldl (claim_cache_step g) c xs)) \<le> cc_max_entries g"
    if "linked c" "length (ac_by_event c) \<le> cc_max_entries g" for c
    using that by (induction xs arbitrary: c) simp_all
  then show ?thesis using linked_empty by (simp add: empty_claim_cache_def)
qed

end
