(* ===== verification/Event_Payloads.thy ===== *)
theory Event_Payloads
  imports Canonical_Json Http_Answers
begin

text \<open>
  What the event endpoints do with a payload before they write it
  (\<^verbatim>\<open>noetl/server/api/core/events.py\<close>, \<^verbatim>\<open>commands.py\<close>, \<^verbatim>\<open>utils.py\<close>): the checks of
  \<open>_validate_reference_only_payload\<close>, the status, command and error read from it, and the bounded
  result \<open>{status, reference, context}\<close> that is stored in place of its output
  (\<open>_build_reference_only_result\<close>). The size limits of the environment are parameters
  (\<open>payload_limits\<close>). Payloads are JSON objects.
\<close>

section \<open>Helpers\<close>

text \<open>\<open>json.dumps(value, separators=(item, key))\<close>, in insertion order.\<close>

primrec json_dumps :: "string \<Rightarrow> string \<Rightarrow> pyval \<Rightarrow> string" where
  "json_dumps item key VNone = ''null''"
| "json_dumps item key (VBool b) = (if b then ''true'' else ''false'')"
| "json_dumps item key (VInt i) = show_int i"
| "json_dumps item key (VStr s) = json_str s"
| "json_dumps item key (VList xs) = ''['' @ join item (map (json_dumps item key) xs) @ '']''"
| "json_dumps item key (VDict d) =
     ''{'' @ join item (map (\<lambda>(k, t). json_str k @ key @ t) (map (map_prod id (json_dumps item key)) d)) @ ''}''"

definition estimate_json_size :: "pyval \<Rightarrow> nat" where
  "estimate_json_size v = length (json_dumps '','' '':'' v)"

text \<open>
  \<open>_compute_retry_after\<close> with its defaults of 1 and 15 seconds; \<open>or 1\<close> reads a pool without a free
  slot as one with a free slot. Half seconds are counted.
\<close>

definition compute_retry_after :: "int option \<Rightarrow> int option \<Rightarrow> string" where
  "compute_retry_after requests_waiting slots_available =
     (let waiting = (case requests_waiting of None \<Rightarrow> 0 | Some w \<Rightarrow> w);
          available = (case slots_available of None \<Rightarrow> 1 | Some a \<Rightarrow> if a = 0 then 1 else a)
      in if waiting = 0 \<and> 0 < available then show_int 1
         else (let halves = 2 + (waiting + 1) + (if available = 0 then 2 else 0)
               in show_int (min (max halves 2) 30 div 2)))"

primrec compact_status_value :: "nat \<Rightarrow> nat \<Rightarrow> pyval \<Rightarrow> nat \<Rightarrow> pyval" where
  "compact_status_value preview bytes VNone = (\<lambda>depth. VNone)"
| "compact_status_value preview bytes (VBool b) = (\<lambda>depth. VBool b)"
| "compact_status_value preview bytes (VInt i) = (\<lambda>depth. VInt i)"
| "compact_status_value preview bytes (VStr s) = (\<lambda>depth. VStr s)"
| "compact_status_value preview bytes (VDict d) = (\<lambda>depth.
     if 3 \<le> depth then VStr (''dict('' @ show_nat (length d) @ '' keys)'')
     else (let shown = map (\<lambda>(k, f). (k, f (Suc depth)))
                 (take preview (map (map_prod id (compact_status_value preview bytes)) d));
               compacted = (if preview < length d
                 then AList.update ''_truncated_keys'' (VInt (int (length d - preview))) shown else shown)
           in if bytes < estimate_json_size (VDict compacted)
              then VDict [(''_truncated'', VBool True), (''_type'', VStr ''dict''), (''_keys'', VInt (int (length d)))]
              else VDict compacted))"
| "compact_status_value preview bytes (VList xs) = (\<lambda>depth.
     if 3 \<le> depth then VStr (''list('' @ show_nat (length xs) @ '' items)'')
     else (let shown = map (\<lambda>f. f (Suc depth)) (take preview (map (compact_status_value preview bytes) xs));
               compacted = (if preview < length xs
                 then shown @ [VStr (''... '' @ show_nat (length xs - preview) @ '' more'')] else shown)
           in if bytes < estimate_json_size (VList compacted)
              then VDict [(''_truncated'', VBool True), (''_type'', VStr ''list''), (''_items'', VInt (int (length xs)))]
              else VList compacted))"

definition compact_status_variables :: "nat \<Rightarrow> nat \<Rightarrow> pydict \<Rightarrow> pydict" where
  "compact_status_variables preview bytes variables =
     map (\<lambda>(k, v).
       (k, if estimate_json_size v \<le> bytes then v
           else VDict [(''_truncated'', VBool True),
                  (''_original_size_bytes'', VInt (int (estimate_json_size v))),
                  (''_preview'', compact_status_value preview bytes v 0)])) variables"

primrec contains_forbidden_payload_keys :: "string set \<Rightarrow> pyval \<Rightarrow> nat \<Rightarrow> bool" where
  "contains_forbidden_payload_keys forbidden VNone = (\<lambda>depth. False)"
| "contains_forbidden_payload_keys forbidden (VBool b) = (\<lambda>depth. False)"
| "contains_forbidden_payload_keys forbidden (VInt i) = (\<lambda>depth. False)"
| "contains_forbidden_payload_keys forbidden (VStr s) = (\<lambda>depth. False)"
| "contains_forbidden_payload_keys forbidden (VDict d) = (\<lambda>depth.
     depth \<le> 8 \<and> list_ex (\<lambda>(k, f). k \<in> forbidden \<or> f (Suc depth))
       (map (map_prod id (contains_forbidden_payload_keys forbidden)) d))"
| "contains_forbidden_payload_keys forbidden (VList xs) = (\<lambda>depth.
     depth \<le> 8 \<and> list_ex (\<lambda>f. f (Suc depth)) (map (contains_forbidden_payload_keys forbidden) xs))"

definition contains_legacy_command_keys :: "pyval \<Rightarrow> bool" where
  "contains_legacy_command_keys v = False"

definition normalize_result_status :: "pyval \<Rightarrow> string" where
  "normalize_result_status v =
     (let raw = upper (strip (py_str (py_or v (VStr [])))) in
      if raw \<in> {''OK'', ''SUCCESS''} then ''COMPLETED''
      else if raw \<in> {''ERROR'', ''FAILED''} then ''FAILED''
      else if raw \<noteq> [] then raw else ''UNKNOWN'')"

definition status_from_event_name :: "string \<Rightarrow> string" where
  "status_from_event_name event_name =
     (let lowered = lower event_name in
      if contains lowered ''error'' \<or> contains lowered ''failed'' then ''FAILED''
      else if contains lowered ''done'' \<or> contains lowered ''exit'' \<or> contains lowered ''completed''
      then ''COMPLETED'' else ''RUNNING'')"

section \<open>Checks\<close>

definition strict_payload_forbidden_keys :: "string set" where
  "strict_payload_forbidden_keys = {''_internal_data''}"

definition strict_context_forbidden_keys :: "string set" where
  "strict_context_forbidden_keys = {''_internal_data''}"

definition strict_result_allowed_keys :: "string set" where
  "strict_result_allowed_keys = {''status'', ''reference'', ''context'', ''command_id''}"

definition validate_reference_only_payload :: "pydict \<Rightarrow> unit res" where
  "validate_reference_only_payload payload =
     (let bad = sort (filter (\<lambda>k. k \<in> strict_payload_forbidden_keys) (map fst payload));
          result_obj = py_get payload ''result''
      in if bad \<noteq> []
         then Inl (ValueError (''payload includes forbidden inline output keys: '' @ join '', '' bad))
         else if result_obj = VNone then Inr ()
         else case as_dict result_obj of
           None \<Rightarrow> Inl (ValueError ''payload.result must be an object'')
         | Some r \<Rightarrow>
             (let unknown = sort (filter (\<lambda>k. k \<notin> strict_result_allowed_keys) (map fst r));
                  ref = py_get r ''reference''; ctx = py_get r ''context''
              in if unknown \<noteq> []
                 then Inl (ValueError (''payload.result includes unsupported keys: '' @ join '', '' unknown))
                 else if ref \<noteq> VNone \<and> \<not> is_dict ref
                 then Inl (ValueError ''payload.result.reference must be an object'')
                 else if ctx = VNone then Inr ()
                 else if \<not> is_dict ctx then Inl (ValueError ''payload.result.context must be an object'')
                 else if contains_forbidden_payload_keys strict_context_forbidden_keys ctx 0
                 then Inl (ValueError ''payload.result.context includes forbidden inline data keys'')
                 else if contains_legacy_command_keys ctx
                 then Inl (ValueError ''payload.result.context includes legacy command_* keys'')
                 else Inr ()))"

section \<open>What is read from a payload\<close>

definition error_of_text :: "string \<Rightarrow> string option" where
  "error_of_text s = (let t = take 2000 (strip s) in if t = [] then None else Some t)"

definition error_of_object :: "pydict \<Rightarrow> string" where
  "error_of_object d =
     (case py_get d ''message'' of
        VStr (c # cs) \<Rightarrow> take 2000 (strip (c # cs))
      | _ \<Rightarrow> take 2000 (json_dumps '', '' '': '' (VDict d)))"

definition extract_event_error :: "pydict \<Rightarrow> string option" where
  "extract_event_error payload =
     (case py_get payload ''error'' of
        VStr s \<Rightarrow> error_of_text s
      | VDict d \<Rightarrow> Some (error_of_object d)
      | _ \<Rightarrow>
          (case py_get payload ''result'' of
             VDict r \<Rightarrow>
               (case py_get r ''error'' of
                  VStr s \<Rightarrow> error_of_text s
                | VDict d \<Rightarrow> Some (error_of_object d)
                | _ \<Rightarrow> None)
           | _ \<Rightarrow> None))"

text \<open>An integer, as \<open>isinstance(x, int)\<close> has it, or a text of digits.\<close>

definition as_command_id :: "pyval \<Rightarrow> int option" where
  "as_command_id v =
     (case v of
        VInt i \<Rightarrow> Some i
      | VBool b \<Rightarrow> Some (if b then 1 else 0)
      | VStr s \<Rightarrow> if isdigit (strip s) then parse_int (strip s) else None
      | _ \<Rightarrow> None)"

fun first_command_id :: "pyval list \<Rightarrow> int option" where
  "first_command_id [] = None"
| "first_command_id (v # vs) =
     (case as_command_id v of Some i \<Rightarrow> Some i | None \<Rightarrow> first_command_id vs)"

definition extract_command_id_from_payload :: "pydict \<Rightarrow> pydict \<Rightarrow> int option" where
  "extract_command_id_from_payload p m =
     first_command_id
       ([py_get p ''command_id'', py_get m ''command_id'']
        @ (case py_get p ''context'' of VDict c \<Rightarrow> [py_get c ''command_id''] | _ \<Rightarrow> [])
        @ (case py_get p ''result'' of
             VDict r \<Rightarrow> py_get r ''command_id''
               # (case py_get r ''context'' of VDict c \<Rightarrow> [py_get c ''command_id''] | _ \<Rightarrow> [])
           | _ \<Rightarrow> []))"

section \<open>The stored result\<close>

record payload_limits =
  pl_context_bytes :: nat
  pl_rows :: nat
  pl_rows_bytes :: nat

definition compact_context_keys :: "string list" where
  "compact_context_keys =
     [''command_id'', ''loop_event_id'', ''request_id'', ''event_ids'', ''commands_generated'', ''error_code'',
      ''message'', ''worker_id'', ''batch_request_id'']"

definition collect_compact_context :: "pydict \<Rightarrow> pydict" where
  "collect_compact_context payload =
     map (\<lambda>k. (k, py_get payload k)) (filter (\<lambda>k. py_get payload k \<noteq> VNone) compact_context_keys)"

definition bounded_context :: "payload_limits \<Rightarrow> pyval \<Rightarrow> pydict option" where
  "bounded_context l context_obj =
     (case as_dict context_obj of
        None \<Rightarrow> None
      | Some d \<Rightarrow> if pl_context_bytes l < estimate_json_size context_obj then None else Some d)"

definition rows_of :: "pydict \<Rightarrow> pyval list option" where
  "rows_of d =
     (case as_list (py_get d ''rows'') of
        Some rows \<Rightarrow> Some rows
      | None \<Rightarrow> (case py_get d ''data'' of VDict n \<Rightarrow> as_list (py_get n ''rows'') | _ \<Rightarrow> None))"

definition has_rows :: "pyval \<Rightarrow> bool" where
  "has_rows v =
     (case v of
        VDict d \<Rightarrow>
          (let filled = (\<lambda>x. case as_list x of None \<Rightarrow> False | Some rows \<Rightarrow> rows \<noteq> []) in
           filled (py_get d ''rows'') \<or>
           (case py_get d ''data'' of VDict n \<Rightarrow> filled (py_get n ''rows'') | _ \<Rightarrow> False))
      | _ \<Rightarrow> False)"

text \<open>Small sets of rows are kept, inside the context, when the result has no reference.\<close>

definition inline_rows :: "payload_limits \<Rightarrow> pydict \<Rightarrow> pydict \<Rightarrow> pydict" where
  "inline_rows l payload_result result_obj =
     (case rows_of payload_result of
        None \<Rightarrow> result_obj
      | Some rows \<Rightarrow>
          (if 0 < length rows \<and> length rows \<le> pl_rows l \<and> py_get result_obj ''reference'' = VNone
              \<and> estimate_json_size (VList rows) \<le> pl_rows_bytes l
           then (let ctx = AList.update ''rows'' (VList rows) (dict_or_empty (py_get result_obj ''context''))
                 in AList.update ''context''
                      (VDict (if has_key ctx ''row_count'' then ctx
                              else ctx @ [(''row_count'', VInt (int (length rows)))])) result_obj)
           else result_obj))"

definition result_of_object :: "payload_limits \<Rightarrow> pydict \<Rightarrow> string \<Rightarrow> pydict" where
  "result_of_object l r status =
     (let status1 = (case py_get r ''status'' of
            VStr s \<Rightarrow> if strip s = [] then status else normalize_result_status (VStr s) | _ \<Rightarrow> status);
          head = (''status'', VStr status1)
            # (if is_dict (py_get r ''reference'') then [(''reference'', py_get r ''reference'')] else []);
          with_context = (case bounded_context l (py_or (py_get r ''context'') (VDict r)) of
            None \<Rightarrow> head | Some c \<Rightarrow> head @ [(''context'', VDict c)])
      in inline_rows l r with_context)"

definition result_of_payload :: "payload_limits \<Rightarrow> pydict \<Rightarrow> string \<Rightarrow> pydict" where
  "result_of_payload l payload status =
     (let head = (''status'', VStr status)
            # (if is_dict (py_get payload ''reference'') then [(''reference'', py_get payload ''reference'')] else [])
      in case bounded_context l
             (py_or (py_get payload ''context'') (py_or (py_get payload ''response'') (VDict payload))) of
           None \<Rightarrow> head | Some c \<Rightarrow> head @ [(''context'', VDict c)])"

definition merge_compact :: "payload_limits \<Rightarrow> pydict \<Rightarrow> pydict \<Rightarrow> pydict" where
  "merge_compact l compact result_obj =
     (if compact = [] then result_obj
      else (let merged = (case py_get result_obj ''context'' of VDict e \<Rightarrow> dict_merge compact e | _ \<Rightarrow> compact)
            in if estimate_json_size (VDict merged) \<le> pl_context_bytes l
               then AList.update ''context'' (VDict merged) result_obj else result_obj))"

definition build_reference_only_result :: "payload_limits \<Rightarrow> pydict \<Rightarrow> string \<Rightarrow> pydict" where
  "build_reference_only_result l payload status =
     (let raw_response = py_get payload ''response'';
          payload_result = (if has_rows raw_response then raw_response
                            else py_or (py_get payload ''result'') raw_response);
          normal = normalize_result_status (VStr status)
      in merge_compact l (collect_compact_context payload)
           (case payload_result of
              VDict r \<Rightarrow> result_of_object l r normal
            | _ \<Rightarrow> result_of_payload l payload normal))"

section \<open>The constraint of the event table\<close>

text \<open>\<open>chk_event_result_shape\<close> of \<^verbatim>\<open>noetl/database/ddl/postgres/schema_ddl.sql\<close>, on a result that is there.\<close>

definition event_result_shape :: "pydict \<Rightarrow> bool" where
  "event_result_shape r =
     (list_all (\<lambda>k. k \<in> {''status'', ''reference'', ''context''}) (map fst r) \<and>
      (case py_get r ''status'' of VStr s \<Rightarrow> True | _ \<Rightarrow> False) \<and>
      (\<not> has_key r ''reference'' \<or> is_dict (py_get r ''reference'')) \<and>
      (\<not> has_key r ''context'' \<or> is_dict (py_get r ''context'')))"

lemma shape_set_context:
  assumes "event_result_shape r"
  shows "event_result_shape (AList.update ''context'' (VDict c) r)"
proof -
  let ?r = "AList.update ''context'' (VDict c) r"
  have "fst ` set ?r = {''context''} \<union> fst ` set r" by (rule AList.dom_update)
  then have "list_all (\<lambda>k. k \<in> {''status'', ''reference'', ''context''}) (map fst ?r)"
    using assms by (simp add: event_result_shape_def list_all_iff)
  then show ?thesis using assms
    by (simp add: event_result_shape_def py_get_def has_key_def AList.update_conv')
qed

lemma shape_inline_rows: "event_result_shape r \<Longrightarrow> event_result_shape (inline_rows l p r)"
  by (simp add: inline_rows_def Let_def shape_set_context split: option.split)

lemma shape_merge_compact: "event_result_shape r \<Longrightarrow> event_result_shape (merge_compact l c r)"
  by (simp add: merge_compact_def Let_def shape_set_context)

lemma shape_head:
  "is_dict ref \<Longrightarrow> event_result_shape [(''status'', VStr s), (''reference'', ref)]"
  "is_dict ref \<Longrightarrow> event_result_shape [(''status'', VStr s), (''reference'', ref), (''context'', VDict c)]"
  "event_result_shape [(''status'', VStr s)]"
  "event_result_shape [(''status'', VStr s), (''context'', VDict c)]"
  by (simp_all add: event_result_shape_def py_get_def has_key_def)

lemma shape_result_of_object: "event_result_shape (result_of_object l r status)"
  by (simp add: result_of_object_def Let_def shape_inline_rows shape_head split: option.split)

lemma shape_result_of_payload: "event_result_shape (result_of_payload l payload status)"
  by (simp add: result_of_payload_def Let_def shape_head split: option.split)

text \<open>
  C38. Whatever a worker sends, the result the endpoints store for it is one the event table accepts:
  an object with a text as its status, at most a reference and a context besides, both objects.
\<close>
theorem stored_result_accepted: "event_result_shape (build_reference_only_result l payload status)"
  by (simp add: build_reference_only_result_def Let_def shape_merge_compact shape_result_of_object
      shape_result_of_payload split: pyval.split)

text \<open>A result with a \<open>command_id\<close> passes the check of the payload, and the table would refuse it.\<close>

lemma command_id_passes_the_check:
  "validate_reference_only_payload [(''result'', VDict [(''status'', VStr s), (''command_id'', VInt i)])] = Inr ()"
  "\<not> event_result_shape [(''status'', VStr s), (''command_id'', VInt i)]"
  by (simp_all add: validate_reference_only_payload_def strict_payload_forbidden_keys_def
      strict_result_allowed_keys_def event_result_shape_def py_get_def Let_def)

text \<open>A pool with no free slot and no request waiting is answered as one with a free slot.\<close>

lemma full_pool_reads_as_free: "compute_retry_after (Some 0) (Some 0) = compute_retry_after (Some 0) (Some 1)"
  by (simp add: compute_retry_after_def)

text \<open>The keys the check forbids are found down to eight levels, and not below.\<close>

lemma forbidden_key_found:
  "depth \<le> 8 \<Longrightarrow> (k, v) \<in> set d \<Longrightarrow> k \<in> forbidden \<Longrightarrow> contains_forbidden_payload_keys forbidden (VDict d) depth"
  by (auto simp: list_ex_iff intro!: bexI [of _ "(k, v)"])

lemma forbidden_key_nested:
  "depth \<le> 8 \<Longrightarrow> (k, v) \<in> set d \<Longrightarrow> contains_forbidden_payload_keys forbidden v (Suc depth) \<Longrightarrow>
   contains_forbidden_payload_keys forbidden (VDict d) depth"
  by (auto simp: list_ex_iff intro!: bexI [of _ "(k, v)"])

lemma forbidden_key_missed: "8 < depth \<Longrightarrow> \<not> contains_forbidden_payload_keys forbidden v depth"
  by (cases v) auto

end
