(* ===== verification/Command_Claims.thy ===== *)
theory Command_Claims
  imports Topology Outbox Claim_Policy Claim_Cache Event_Payloads
begin

text \<open>
  Claiming a command (\<open>claim_command\<close> of \<^verbatim>\<open>noetl/server/api/core/commands.py\<close>) over the tables
  \<open>noetl.command\<close>, \<open>noetl.event\<close> and \<open>noetl.runtime\<close>. The call is two steps, as its statements let
  others in between: \<open>claim_read\<close> looks at the cache and reads the row and the ends of the command and
  the execution; \<open>claim_finish\<close> takes the advisory lock, decides on what was read, writes and commits.
  An answer that is an error leaves the tables as they were; what it did to the cache and to the record
  of outages stays. The clock, the snowflake generator, the locks of others and the fate of the
  connection are parameters (\<open>command_config\<close>). Columns of type JSONB hold objects; time is in
  microseconds, and the clock of the outbox in seconds.
\<close>

section \<open>Tables\<close>

record issued_row =
  co_command_id :: int
  co_event_id :: int
  co_execution_id :: int
  co_catalog_id :: int
  co_step_name :: string
  co_tool_kind :: "string option"
  co_status :: string
  co_worker_id :: "string option"
  co_claimed_at :: "int option"
  co_started_at :: "int option"
  co_completed_at :: "int option"
  co_updated_at :: int
  co_context :: pydict
  co_meta :: pydict
  co_result :: pydict
  co_error :: "string option"
  co_latest_event_id :: "int option"

record command_event =
  ce_event_id :: int
  ce_execution_id :: int
  ce_catalog_id :: int
  ce_event_type :: string
  ce_node_name :: string
  ce_node_type :: "string option"
  ce_status :: string
  ce_context :: pydict
  ce_result :: pydict
  ce_meta :: pydict
  ce_worker_id :: "string option"
  ce_command_id :: "int option"
  ce_error :: "string option"
  ce_created_at :: int

record runtime_row =
  rt_kind :: string
  rt_name :: string
  rt_status :: "string option"
  rt_heartbeat :: "int option"
  rt_updated_at :: int

record command_db =
  cd_commands :: "issued_row list"
  cd_events :: "command_event list"
  cd_runtimes :: "runtime_row list"
  cd_drawn :: nat
  cd_outbox :: outbox_table

text \<open>One process of the server: the tables are shared, the cache and the record of outages are its own.\<close>

record command_server =
  sv_db :: command_db
  sv_cache :: claim_cache
  sv_outage :: outage

datatype connection = Connected | PoolSaturated | ConnectionFailed string

record command_config =
  cm_now :: int
  cm_monotonic :: int
  cm_show_time :: "int \<Rightarrow> string"
  cm_snowflake :: "nat \<Rightarrow> int"
  cm_locked :: "int \<Rightarrow> bool"
  cm_connection :: connection
  cm_pool :: "int option \<times> int option"
  cm_outage :: outage_config
  cm_cache :: cache_config
  cm_limits :: claim_limits
  cm_retry_after :: int
  cm_payload :: payload_limits
  cm_mirror :: bool
  cm_encode :: "pydict \<Rightarrow> string option"
  cm_subject :: "pydict \<Rightarrow> string"
  cm_drain_limit :: "int option"
  cm_publish :: "nat \<Rightarrow> pydict \<Rightarrow> string option"

record command_claim =
  kq_worker_id :: string
  kq_locality :: pydict

definition command_terminal_event_types :: "string list" where
  "command_terminal_event_types = [''command.completed'', ''command.failed'', ''command.cancelled'']"

definition execution_terminal_event_types :: "string list" where
  "execution_terminal_event_types =
     [''playbook.completed'', ''playbook.failed'', ''workflow.completed'', ''workflow.failed'',
      ''execution.cancelled'']"

definition execution_ended :: "command_db \<Rightarrow> int \<Rightarrow> bool" where
  "execution_ended db x =
     list_ex (\<lambda>e. ce_execution_id e = x \<and> ce_event_type e \<in> set execution_terminal_event_types) (cd_events db)"

text \<open>\<open>meta->>'command_id' = %s::text\<close>.\<close>

definition meta_command_text :: "command_event \<Rightarrow> string option" where
  "meta_command_text e =
     (case py_get (ce_meta e) ''command_id'' of
        VInt i \<Rightarrow> Some (show_int i)
      | VStr s \<Rightarrow> Some s
      | VBool b \<Rightarrow> Some (if b then ''true'' else ''false'')
      | _ \<Rightarrow> None)"

definition command_ended_in_log :: "command_db \<Rightarrow> int \<Rightarrow> int \<Rightarrow> bool" where
  "command_ended_in_log db x command_id =
     list_ex (\<lambda>e. ce_execution_id e = x \<and> ce_event_type e \<in> set command_terminal_event_types
        \<and> meta_command_text e = Some (show_int command_id)) (cd_events db)"

section \<open>Reading\<close>

text \<open>What the call has read: the command, and its row unless it comes from the event table.\<close>

record claim_ticket =
  tk_event_id :: int
  tk_execution_id :: int
  tk_catalog_id :: int
  tk_step :: string
  tk_tool_kind :: "string option"
  tk_context :: pydict
  tk_meta :: pydict
  tk_command_id :: int
  tk_row :: "issued_row option"

text \<open>\<open>cmd_row.get('command_id') or meta.get('command_id')\<close>, and the event id where it is not a number.\<close>

definition ticket_command_id :: "int \<Rightarrow> int \<Rightarrow> pydict \<Rightarrow> int" where
  "ticket_command_id event_id column meta =
     (if column \<noteq> 0 then column
      else case as_command_id (py_get meta ''command_id'') of Some i \<Rightarrow> i | None \<Rightarrow> event_id)"

definition row_ticket :: "int \<Rightarrow> issued_row \<Rightarrow> claim_ticket" where
  "row_ticket event_id r =
     \<lparr>tk_event_id = event_id, tk_execution_id = co_execution_id r, tk_catalog_id = co_catalog_id r,
      tk_step = co_step_name r, tk_tool_kind = co_tool_kind r, tk_context = co_context r,
      tk_meta = co_meta r, tk_command_id = ticket_command_id event_id (co_command_id r) (co_meta r),
      tk_row = Some r\<rparr>"

definition event_ticket :: "int \<Rightarrow> command_event \<Rightarrow> claim_ticket" where
  "event_ticket event_id e =
     \<lparr>tk_event_id = event_id, tk_execution_id = ce_execution_id e, tk_catalog_id = ce_catalog_id e,
      tk_step = ce_node_name e, tk_tool_kind = ce_node_type e, tk_context = ce_context e,
      tk_meta = ce_meta e, tk_command_id = ticket_command_id event_id 0 (ce_meta e), tk_row = None\<rparr>"

text \<open>The rows left in the cursor after the first are what the second \<open>fetchone\<close> sees.\<close>

definition find_command :: "command_db \<Rightarrow> int \<Rightarrow> (claim_ticket \<times> bool) option" where
  "find_command db event_id =
     (case filter (\<lambda>r. co_event_id r = event_id) (cd_commands db) of
        r # rest \<Rightarrow> Some (row_ticket event_id r, rest \<noteq> [])
      | [] \<Rightarrow>
          (case filter (\<lambda>e. ce_event_id e = event_id \<and> ce_event_type e = ''command.issued'') (cd_events db) of
             [] \<Rightarrow> None
           | e # rest \<Rightarrow> Some (event_ticket event_id e, rest \<noteq> [])))"

definition ticket_status :: "claim_ticket \<Rightarrow> string" where
  "ticket_status t = (case tk_row t of None \<Rightarrow> ''PENDING'' | Some r \<Rightarrow> co_status r)"

definition ticket_in_table :: "claim_ticket \<Rightarrow> bool" where
  "ticket_in_table t = (case tk_row t of None \<Rightarrow> False | Some r \<Rightarrow> co_command_id r \<noteq> 0)"

definition terminal_statuses_of_commands :: "string set" where
  "terminal_statuses_of_commands = {''COMPLETED'', ''FAILED'', ''CANCELLED''}"

definition already_terminal :: "string \<Rightarrow> http_failure" where
  "already_terminal message =
     Http 409 (VDict [(''code'', VStr ''already_terminal''), (''message'', VStr message)])"

text \<open>The 409 of a read that finds the command or its execution at an end.\<close>

definition ticket_refusal :: "command_db \<Rightarrow> claim_ticket \<Rightarrow> bool \<Rightarrow> http_failure option" where
  "ticket_refusal db t more_rows =
     (if ticket_status t \<in> terminal_statuses_of_commands
      then Some (already_terminal (''Command status: '' @ ticket_status t))
      else if (if ticket_in_table t then more_rows
               else command_ended_in_log db (tk_execution_id t) (tk_command_id t))
      then Some (already_terminal ''Command already reached terminal state'')
      else if execution_ended db (tk_execution_id t)
      then Some (already_terminal ''Execution already reached terminal state'')
      else None)"

definition retry_header :: "command_config \<Rightarrow> string" where
  "retry_header cf = show_int (max 1 (cm_retry_after cf))"

definition cache_refusal :: "command_config \<Rightarrow> claim_entry \<Rightarrow> http_failure" where
  "cache_refusal cf e =
     HttpRetry 409 (VDict [(''code'', VStr ''active_claim''),
       (''message'', VStr (''Command already claimed by '' @ ae_worker_id e)),
       (''worker_id'', VStr (ae_worker_id e)), (''claim_policy'', VStr ''cache_fast_path'')]) (retry_header cf)"

definition forget_claim :: "claim_ticket \<Rightarrow> command_server \<Rightarrow> command_server" where
  "forget_claim t sv =
     sv\<lparr>sv_cache := active_claim_cache_invalidate (Some (show_int (tk_command_id t))) (Some (tk_event_id t)) (sv_cache sv)\<rparr>"

definition claim_of_other :: "command_claim \<Rightarrow> claim_entry option \<Rightarrow> claim_entry option" where
  "claim_of_other q cached_claim =
     (case cached_claim of
        None \<Rightarrow> None
      | Some e \<Rightarrow> if ae_worker_id e \<noteq> kq_worker_id q then Some e else None)"

definition claim_lookup ::
    "int \<Rightarrow> command_server \<Rightarrow> claim_ticket answer \<times> command_server" where
  "claim_lookup event_id sv0 =
     (let sv = sv0\<lparr>sv_outage := record_db_operation_success (sv_outage sv0)\<rparr> in
      case find_command (sv_db sv) event_id of
        None \<Rightarrow> (Inl (Http 404 (VStr (''command not found: '' @ show_int event_id))), sv)
      | Some (t, more_rows) \<Rightarrow>
          (case ticket_refusal (sv_db sv) t more_rows of
             Some e \<Rightarrow> (Inl e, forget_claim t sv)
           | None \<Rightarrow> (Inr t, sv)))"

definition claim_read ::
    "command_config \<Rightarrow> int \<Rightarrow> command_claim \<Rightarrow> command_server \<Rightarrow> claim_ticket answer \<times> command_server" where
  "claim_read cf event_id q sv =
     (case raise_if_db_short_circuit_enabled (cm_outage cf) (cm_monotonic cf) ''claim_command'' (sv_outage sv) of
        Inl e \<Rightarrow> (Inl e, sv)
      | Inr _ \<Rightarrow>
          (let (cached_claim, c) = active_claim_cache_get (cm_cache cf) (cm_monotonic cf) event_id (sv_cache sv);
               sv1 = sv\<lparr>sv_cache := c\<rparr>
           in case claim_of_other q cached_claim of
                Some e \<Rightarrow> (Inl (cache_refusal cf e), sv1)
              | None \<Rightarrow>
                  (case cm_connection cf of
                     PoolSaturated \<Rightarrow>
                       (Inl (HttpRetry 503 (VDict [(''code'', VStr ''pool_saturated'')])
                          (compute_retry_after (fst (cm_pool cf)) (snd (cm_pool cf)))), sv1)
                   | ConnectionFailed message \<Rightarrow> (Inl (Raised (RuntimeError message)), sv1)
                   | Connected \<Rightarrow> claim_lookup event_id sv1)))"

section \<open>Deciding\<close>

text \<open>What the call does with the claim it has read: there is none to respect, it is the caller's
  own, another holds it or a run of the caller goes on, or it is taken over, with the reason.\<close>

datatype claim_verdict =
    Unclaimed
  | OwnClaim
  | HeldBy "string option" string
  | TakenOver string string

definition worker_runtime :: "command_db \<Rightarrow> string \<Rightarrow> runtime_row option" where
  "worker_runtime db w =
     (case sort_key (\<lambda>r. - rt_updated_at r)
         (filter (\<lambda>r. rt_kind r = ''worker_pool'' \<and> rt_name r = w) (cd_runtimes db)) of
        [] \<Rightarrow> None
      | r # _ \<Rightarrow> Some r)"

definition claim_started :: "issued_row \<Rightarrow> int" where
  "claim_started r =
     (case co_claimed_at r of Some t \<Rightarrow> t
      | None \<Rightarrow> (case co_started_at r of Some t \<Rightarrow> t | None \<Rightarrow> co_updated_at r))"

definition existing_claim_facts :: "command_config \<Rightarrow> command_db \<Rightarrow> string \<Rightarrow> string \<Rightarrow> issued_row \<Rightarrow> claim_facts" where
  "existing_claim_facts cf db requesting existing r =
     (let runtime = worker_runtime db existing in
      \<lparr>ck_existing_worker = Some existing, ck_requesting_worker = requesting,
       ck_claim_age = cm_now cf - claim_started r,
       ck_runtime_status = map_option (\<lambda>w. lower (case rt_status w of None \<Rightarrow> [] | Some s \<Rightarrow> s)) runtime,
       ck_heartbeat_age =
         (case runtime of None \<Rightarrow> None | Some w \<Rightarrow> map_option (\<lambda>h. cm_now cf - h) (rt_heartbeat w))\<rparr>)"

definition claim_verdict :: "command_config \<Rightarrow> command_db \<Rightarrow> command_claim \<Rightarrow> claim_ticket \<Rightarrow> claim_verdict" where
  "claim_verdict cf db q t =
     (case tk_row t of
        None \<Rightarrow> Unclaimed
      | Some r \<Rightarrow>
          (if co_command_id r = 0 \<or> co_status r \<notin> {''CLAIMED'', ''RUNNING''} then Unclaimed
           else case co_worker_id r of
             None \<Rightarrow> OwnClaim
           | Some existing \<Rightarrow>
               (if existing = [] then OwnClaim
                else if existing \<noteq> kq_worker_id q
                then (let d = decide_reclaim_for_existing_claim (cm_limits cf)
                              (existing_claim_facts cf db (kq_worker_id q) existing r)
                      in if rd_reclaim d
                         then TakenOver existing (case rd_reason d of Some why \<Rightarrow> why | None \<Rightarrow> ''lease_expired'')
                         else HeldBy (Some existing) existing)
                else if co_status r = ''RUNNING''
                then (if cl_hard_timeout (cm_limits cf) \<le> cm_now cf - claim_started r
                      then TakenOver existing ''same_worker_hard_timeout''
                      else HeldBy None existing)
                else OwnClaim)))"

definition held_detail :: "string option \<Rightarrow> pydict" where
  "held_detail shown =
     [(''code'', VStr ''active_claim''),
      (case shown of Some w \<Rightarrow> (''worker_id'', VStr w) | None \<Rightarrow> (''worker_status'', VStr ''running''))]"

section \<open>Writing\<close>

definition source_locality_from_command_meta :: "pydict \<Rightarrow> pydict" where
  "source_locality_from_command_meta meta =
     (case as_dict (py_get meta ''source_locality'') of
        Some d \<Rightarrow> d
      | None \<Rightarrow> dict_or_empty (py_get meta ''producer_locality''))"

definition claim_topology_metadata :: "pydict \<Rightarrow> pydict \<Rightarrow> pyval \<Rightarrow> pyval \<Rightarrow> string \<Rightarrow> pydict" where
  "claim_topology_metadata command_meta request_locality tenant_id organization_id worker_id =
     (let source = source_locality_from_command_meta command_meta in
      (if request_locality = [] then []
       else (''locality'', VDict request_locality)
         # (case worker_locator (py_or tenant_id (py_get command_meta ''tenant_id''))
                 (py_or organization_id (py_get command_meta ''organization_id'')) worker_id request_locality of
              Some (ch # l) \<Rightarrow> [(''worker_locator'', VStr (ch # l))]
            | _ \<Rightarrow> []))
      @ (if source = [] then []
         else [(''source_locality'', VDict source),
               (''placement'', VDict (placement_evaluation source request_locality
                  (py_str (py_or (py_get request_locality ''max_distance'') (VStr ''any'')))))]))"

definition claim_meta :: "command_claim \<Rightarrow> claim_ticket \<Rightarrow> (string \<times> string) option \<Rightarrow> pydict" where
  "claim_meta q t reclaimed =
     dict_merge
       (dict_merge
         [(''command_id'', VInt (tk_command_id t)), (''worker_id'', VStr (kq_worker_id q)),
          (''actionable'', VBool False), (''informative'', VBool True)]
         (claim_topology_metadata (tk_meta t) (kq_locality q) VNone VNone (kq_worker_id q)))
       (case reclaimed of
          None \<Rightarrow> []
        | Some (w, why) \<Rightarrow>
            [(''reclaimed'', VBool True), (''reclaimed_from_worker'', VStr w), (''reclaimed_reason'', VStr why)])"

text \<open>\<open>_event_envelope\<close>: what goes to the outbox.\<close>

definition event_envelope :: "(int \<Rightarrow> string) \<Rightarrow> int option \<Rightarrow> command_event \<Rightarrow> pydict" where
  "event_envelope show_time command_id e =
     (let now = VStr (show_time (ce_created_at e)) in
      [(''event_id'', VInt (ce_event_id e)), (''execution_id'', VInt (ce_execution_id e)),
       (''catalog_id'', VInt (ce_catalog_id e)), (''event_type'', VStr (ce_event_type e)),
       (''node_id'', VStr (ce_node_name e)), (''node_name'', VStr (ce_node_name e)),
       (''status'', VStr (ce_status e)),
       (''result'', VDict (if ce_result e = [] then [(''status'', VStr (ce_status e))] else ce_result e)),
       (''meta'', VDict (ce_meta e)), (''command_id'', enc_int command_id), (''stage_id'', VNone),
       (''frame_id'', VNone), (''parent_event_id'', VNone), (''parent_execution_id'', VNone),
       (''event_time'', now), (''ingest_time'', now), (''created_at'', now)])"

definition enqueue_event_outbox :: "command_config \<Rightarrow> pydict \<Rightarrow> outbox_table \<Rightarrow> outbox_table res" where
  "enqueue_event_outbox cf event ob =
     (if \<not> cm_mirror cf then Inr ob
      else enqueue_outbox (cm_encode cf) (cm_now cf div 1000000) event (Some (cm_subject cf event)) ob)"

definition drain_core_outbox :: "command_config \<Rightarrow> command_db \<Rightarrow> command_db" where
  "drain_core_outbox cf db =
     (if \<not> cm_mirror cf then db
      else case cm_drain_limit cf of
        None \<Rightarrow> db
      | Some limit \<Rightarrow>
          db\<lparr>cd_outbox := pb_table (publish_outbox_batch (cm_now cf div 1000000) (cm_publish cf) limit (cd_outbox db))\<rparr>)"

definition event_taken :: "command_db \<Rightarrow> command_event \<Rightarrow> bool" where
  "event_taken db e =
     list_ex (\<lambda>x. ce_execution_id x = ce_execution_id e \<and> ce_event_id x = ce_event_id e) (cd_events db)"

definition add_event :: "command_config \<Rightarrow> int option \<Rightarrow> command_event \<Rightarrow> command_db \<Rightarrow> command_db answer" where
  "add_event cf command_id e db =
     (if event_taken db e then Inl (Raised (RuntimeError ''duplicate key value violates unique constraint''))
      else abind (lift_res (enqueue_event_outbox cf (event_envelope (cm_show_time cf) command_id e) (cd_outbox db)))
        (\<lambda>ob. Inr (db\<lparr>cd_events := cd_events db @ [e], cd_outbox := ob\<rparr>)))"

definition claimed_event ::
    "command_config \<Rightarrow> command_claim \<Rightarrow> claim_ticket \<Rightarrow> (string \<times> string) option \<Rightarrow> int \<Rightarrow> command_event" where
  "claimed_event cf q t reclaimed event_id =
     \<lparr>ce_event_id = event_id, ce_execution_id = tk_execution_id t, ce_catalog_id = tk_catalog_id t,
      ce_event_type = ''command.claimed'', ce_node_name = tk_step t, ce_node_type = None,
      ce_status = ''RUNNING'', ce_context = [],
      ce_result = build_reference_only_result (cm_payload cf)
        [(''command_id'', VInt (tk_command_id t))] ''RUNNING'',
      ce_meta = claim_meta q t reclaimed, ce_worker_id = Some (kq_worker_id q), ce_command_id = None,
      ce_error = None, ce_created_at = cm_now cf\<rparr>"

definition row_claimed :: "command_config \<Rightarrow> command_claim \<Rightarrow> int \<Rightarrow> issued_row \<Rightarrow> issued_row" where
  "row_claimed cf q event_id r =
     r\<lparr>co_status := ''CLAIMED'', co_worker_id := Some (kq_worker_id q), co_claimed_at := Some (cm_now cf),
       co_latest_event_id := Some event_id, co_updated_at := cm_now cf\<rparr>"

definition update_command :: "int \<Rightarrow> (issued_row \<Rightarrow> issued_row) \<Rightarrow> command_db \<Rightarrow> command_db" where
  "update_command i f db =
     db\<lparr>cd_commands := map (\<lambda>r. if co_command_id r = i then f r else r) (cd_commands db)\<rparr>"

definition next_command_id :: "command_config \<Rightarrow> command_db \<Rightarrow> int" where
  "next_command_id cf db = cm_snowflake cf (cd_drawn db)"

definition draw_id :: "command_db \<Rightarrow> command_db" where
  "draw_id db = db\<lparr>cd_drawn := cd_drawn db + 1\<rparr>"

text \<open>The response model wants a text as the action; a command without one is answered 500.\<close>

definition claim_response :: "claim_ticket \<Rightarrow> pydict answer" where
  "claim_response t =
     (case tk_tool_kind t of
        None \<Rightarrow> Inl (Raised (ValueError ''action: Input should be a valid string''))
      | Some action \<Rightarrow>
          Inr [(''status'', VStr ''ok''), (''event_id'', VInt (tk_event_id t)),
               (''execution_id'', VInt (tk_execution_id t)), (''node_id'', VStr (tk_step t)),
               (''node_name'', VStr (tk_step t)), (''action'', VStr action),
               (''context'', VDict (tk_context t)), (''meta'', VDict (tk_meta t))])"

definition remember_claim :: "command_config \<Rightarrow> claim_ticket \<Rightarrow> string \<Rightarrow> command_server \<Rightarrow> command_server" where
  "remember_claim cf t w sv =
     sv\<lparr>sv_cache := active_claim_cache_set (cm_cache cf) (cm_monotonic cf) (tk_event_id t)
          (show_int (tk_command_id t)) w (sv_cache sv)\<rparr>"

definition write_claim ::
    "command_config \<Rightarrow> command_claim \<Rightarrow> claim_ticket \<Rightarrow> (string \<times> string) option \<Rightarrow> command_server
      \<Rightarrow> pydict answer \<times> command_server" where
  "write_claim cf q t reclaimed sv =
     (let db = sv_db sv; event_id = next_command_id cf db; e = claimed_event cf q t reclaimed event_id in
      if execution_ended db (tk_execution_id t)
      then (Inl (Http 409 (VDict [(''code'', VStr ''already_terminal'')])), forget_claim t sv)
      else case add_event cf (Some (tk_command_id t)) e (draw_id db) of
        Inl x \<Rightarrow> (Inl x, sv)
      | Inr db1 \<Rightarrow>
          (claim_response t,
           remember_claim cf t (kq_worker_id q)
             (sv\<lparr>sv_db := drain_core_outbox cf (update_command (tk_command_id t) (row_claimed cf q event_id) db1)\<rparr>)))"

definition claim_finish ::
    "command_config \<Rightarrow> command_claim \<Rightarrow> claim_ticket \<Rightarrow> command_server \<Rightarrow> pydict answer \<times> command_server" where
  "claim_finish cf q t sv =
     (if cm_locked cf (tk_command_id t)
      then (Inl (HttpRetry 409 (VDict [(''code'', VStr ''active_claim''),
              (''message'', VStr ''Command is being claimed'')]) (retry_header cf)), sv)
      else case claim_verdict cf (sv_db sv) q t of
        Unclaimed \<Rightarrow> write_claim cf q t None sv
      | OwnClaim \<Rightarrow> (claim_response t, remember_claim cf t (kq_worker_id q) sv)
      | HeldBy shown w \<Rightarrow>
          (Inl (HttpRetry 409 (VDict (held_detail shown)) (show_int (cm_retry_after cf))), remember_claim cf t w sv)
      | TakenOver w why \<Rightarrow> write_claim cf q t (Some (w, why)) sv)"

text \<open>The handler of exceptions: an outage is recorded and answered 503, any other exception 500.\<close>

definition claim_handler :: "command_config \<Rightarrow> 'a answer \<times> command_server \<Rightarrow> 'a answer \<times> command_server" where
  "claim_handler cf m =
     (case m of
        (Inl (Raised x), sv) \<Rightarrow>
          (let (retry_after, o1) =
                 record_db_unavailable_failure (cm_outage cf) (cm_monotonic cf) (message_of x) (sv_outage sv);
               sv1 = sv\<lparr>sv_outage := o1\<rparr>
           in case retry_after of
                Some s \<Rightarrow> (Inl (HttpRetry 503 (VDict [(''code'', VStr ''db_unavailable'')]) s), sv1)
              | None \<Rightarrow> (Inl (Http 500 (VDict [(''code'', VStr ''internal_error''),
                                        (''message'', VStr (message_of x))])), sv1))
      | _ \<Rightarrow> m)"

definition claim_command ::
    "command_config \<Rightarrow> int \<Rightarrow> command_claim \<Rightarrow> command_server \<Rightarrow> pydict answer \<times> command_server" where
  "claim_command cf event_id q sv =
     claim_handler cf
       (case claim_read cf event_id q sv of
          (Inl e, sv1) \<Rightarrow> (Inl e, sv1)
        | (Inr t, sv1) \<Rightarrow> claim_finish cf q t sv1)"

end
