(* ===== verification/Command_Events.thy ===== *)
theory Command_Events
  imports Command_Claims
begin

text \<open>
  Reporting an event (\<open>handle_event\<close> of \<^verbatim>\<open>noetl/server/api/core/events.py\<close>) up to the engine: the branch
  for \<open>command.claimed\<close>, the lookup of duplicates, the row that is logged, the update of the command
  table, and the answers of failures. What is left to the engine comes out as \<open>Handed\<close>; the code after
  it (the commands it returns) and the supervisor's notifications are not modelled.
\<close>

record event_request =
  eq_execution_id :: string
  eq_step :: string
  eq_name :: string
  eq_payload :: pydict
  eq_meta :: pydict
  eq_worker_id :: "string option"
  eq_actionable :: bool
  eq_informative :: bool

text \<open>An event is answered with an id at once, or logged under an id and handed to the engine.\<close>

datatype intake = Answered int | Handed int pydict

definition skip_engine_events :: "string set" where
  "skip_engine_events =
     {''command.claimed'', ''command.heartbeat'', ''command.started'', ''command.completed'', ''step.enter''}"

definition command_event_dedupe_types :: "string set" where
  "command_event_dedupe_types =
     {''call.done'', ''call.error'', ''step.exit'', ''command.started'', ''command.completed'', ''command.failed''}"

definition newest_event :: "command_event list \<Rightarrow> command_event option" where
  "newest_event es = (case sort_key (\<lambda>e. - ce_event_id e) es of [] \<Rightarrow> None | e # _ \<Rightarrow> Some e)"

definition claims_in_log :: "command_db \<Rightarrow> int \<Rightarrow> int \<Rightarrow> command_event option" where
  "claims_in_log db x command_id =
     newest_event (filter (\<lambda>e. ce_execution_id e = x \<and> ce_event_type e = ''command.claimed''
       \<and> ce_command_id e = Some command_id) (cd_events db))"

definition duplicate_in_log :: "command_db \<Rightarrow> int \<Rightarrow> event_request \<Rightarrow> int \<Rightarrow> command_event option" where
  "duplicate_in_log db x q command_id =
     newest_event (filter (\<lambda>e. ce_execution_id e = x \<and> ce_event_type e = eq_name q
       \<and> ce_node_name e = eq_step q \<and> ce_command_id e = Some command_id) (cd_events db))"

definition catalog_of_execution :: "command_db \<Rightarrow> int \<Rightarrow> int option" where
  "catalog_of_execution db x = map_option ce_catalog_id (find (\<lambda>e. ce_execution_id e = x) (cd_events db))"

definition request_execution :: "event_request \<Rightarrow> int answer" where
  "request_execution q = lift_res (py_int (VStr (eq_execution_id q)))"

text \<open>
  A row of the event table; a missing catalog id violates its \<open>NOT NULL\<close>. The inserts name no
  column \<open>command_id\<close>: the id is in the metadata and in the envelope only.
\<close>

definition log_event ::
    "command_config \<Rightarrow> event_request \<Rightarrow> int \<Rightarrow> int \<Rightarrow> string \<Rightarrow> pydict \<Rightarrow> pydict \<Rightarrow> string option
      \<Rightarrow> string option \<Rightarrow> int option \<Rightarrow> command_db \<Rightarrow> command_db answer" where
  "log_event cf q event_id x status res meta worker err command_id db =
     (case catalog_of_execution db x of
        None \<Rightarrow> Inl (Raised (RuntimeError ''null value in column catalog_id violates not-null constraint''))
      | Some c \<Rightarrow>
          add_event cf command_id
            \<lparr>ce_event_id = event_id, ce_execution_id = x, ce_catalog_id = c, ce_event_type = eq_name q,
             ce_node_name = eq_step q, ce_node_type = None, ce_status = status, ce_context = [],
             ce_result = res, ce_meta = meta, ce_worker_id = worker, ce_command_id = None, ce_error = err,
             ce_created_at = cm_now cf\<rparr> db)"

definition request_flags :: "event_request \<Rightarrow> pydict" where
  "request_flags q =
     dict_merge (eq_meta q)
       [(''actionable'', VBool (eq_actionable q)), (''informative'', VBool (eq_informative q))]"

section \<open>Claims reported as events\<close>

definition log_claim ::
    "command_config \<Rightarrow> event_request \<Rightarrow> int \<Rightarrow> command_server \<Rightarrow> intake answer \<times> command_server" where
  "log_claim cf q command_id sv =
     (let db = sv_db sv; event_id = next_command_id cf db in
      if cm_locked cf command_id then (Inl (Http 409 (VStr ''Command already being claimed'')), sv)
      else case request_execution q of
        Inl e \<Rightarrow> (Inl e, sv)
      | Inr x \<Rightarrow>
          (case claims_in_log db x command_id of
             Some e \<Rightarrow>
               (let existing = py_or (enc_str (ce_worker_id e)) (py_get (ce_meta e) ''worker_id'') in
                if truthy existing \<and> existing \<noteq> enc_str (eq_worker_id q)
                then (Inl (Http 409 (VStr (''Command already claimed by '' @ py_str existing))), sv)
                else (Inr (Answered 0), sv))
           | None \<Rightarrow>
               (case log_event cf q event_id x ''RUNNING''
                       (build_reference_only_result (cm_payload cf) (eq_payload q) ''RUNNING'')
                       (dict_merge (request_flags q)
                         [(''command_id'', VInt command_id), (''worker_id'', enc_str (eq_worker_id q))])
                       (eq_worker_id q) None (Some command_id) (draw_id db) of
                  Inl e \<Rightarrow> (Inl e, sv)
                | Inr db1 \<Rightarrow>
                    (Inr (Answered event_id),
                     sv\<lparr>sv_db := drain_core_outbox cf db1,
                        sv_outage := record_db_operation_success (sv_outage sv)\<rparr>))))"

section \<open>The command table\<close>

text \<open>A start never takes back an end; an end overwrites whatever was there.\<close>

definition row_started :: "command_config \<Rightarrow> int \<Rightarrow> issued_row \<Rightarrow> issued_row" where
  "row_started cf event_id r =
     (let open1 = (co_completed_at r = None) in
      r\<lparr>co_status := (if open1 then ''RUNNING'' else co_status r),
        co_started_at := (case co_started_at r of None \<Rightarrow> Some (cm_now cf) | s \<Rightarrow> s),
        co_latest_event_id := (if open1 then Some event_id else co_latest_event_id r),
        co_updated_at := (if open1 then cm_now cf else co_updated_at r)\<rparr>)"

definition row_ended ::
    "command_config \<Rightarrow> int \<Rightarrow> string \<Rightarrow> pydict \<Rightarrow> string option \<Rightarrow> issued_row \<Rightarrow> issued_row" where
  "row_ended cf event_id status res err r =
     r\<lparr>co_status := status, co_latest_event_id := Some event_id, co_updated_at := cm_now cf,
       co_completed_at := Some (cm_now cf), co_result := res, co_error := err\<rparr>"

definition row_reported_claimed ::
    "command_config \<Rightarrow> int \<Rightarrow> string option \<Rightarrow> issued_row \<Rightarrow> issued_row" where
  "row_reported_claimed cf event_id worker r =
     r\<lparr>co_status := ''CLAIMED'', co_latest_event_id := Some event_id, co_updated_at := cm_now cf,
       co_worker_id := worker, co_claimed_at := Some (cm_now cf)\<rparr>"

definition terminal_command_status :: "string \<Rightarrow> string option" where
  "terminal_command_status name =
     map_of [(''command.completed'', ''COMPLETED''), (''command.failed'', ''FAILED''),
             (''command.cancelled'', ''CANCELLED'')] name"

definition project_command ::
    "command_config \<Rightarrow> event_request \<Rightarrow> int \<Rightarrow> int option \<Rightarrow> pydict \<Rightarrow> string option \<Rightarrow> command_db \<Rightarrow> command_db" where
  "project_command cf q event_id command_id res err db =
     (case command_id of
        None \<Rightarrow> db
      | Some c \<Rightarrow>
          (if c = 0 then db
           else if eq_name q = ''command.started'' then update_command c (row_started cf event_id) db
           else if eq_name q = ''command.claimed''
           then update_command c (row_reported_claimed cf event_id (eq_worker_id q)) db
           else case terminal_command_status (eq_name q) of
             None \<Rightarrow> db
           | Some status \<Rightarrow> update_command c (row_ended cf event_id status res err) db))"

section \<open>Intake\<close>

definition release_claim :: "event_request \<Rightarrow> int option \<Rightarrow> command_server \<Rightarrow> command_server" where
  "release_claim q command_id sv =
     (case command_id of
        None \<Rightarrow> sv
      | Some c \<Rightarrow>
          (if c \<noteq> 0 \<and> eq_name q \<in> {''command.completed'', ''command.failed''}
           then sv\<lparr>sv_cache := active_claim_cache_invalidate (Some (show_int c)) None (sv_cache sv)\<rparr> else sv))"

definition find_duplicate :: "command_db \<Rightarrow> int \<Rightarrow> event_request \<Rightarrow> int option \<Rightarrow> command_event option" where
  "find_duplicate db x q command_id =
     (case command_id of
        None \<Rightarrow> None
      | Some c \<Rightarrow>
          (if c \<noteq> 0 \<and> eq_name q \<in> command_event_dedupe_types then duplicate_in_log db x q c else None))"

definition log_report :: "command_config \<Rightarrow> event_request \<Rightarrow> command_server \<Rightarrow> intake answer \<times> command_server" where
  "log_report cf q sv =
     (let status = status_from_event_name (eq_name q);
          res = build_reference_only_result (cm_payload cf) (eq_payload q) status;
          err = extract_event_error (eq_payload q);
          command_id = extract_command_id_from_payload (eq_payload q) (eq_meta q);
          db = sv_db sv; event_id = next_command_id cf db;
          meta = dict_merge (request_flags q)
            [(''worker_id'', enc_str (eq_worker_id q)), (''command_id'', enc_int command_id)];
          logged = AList.update ''persisted_event_id'' (VStr (show_int event_id)) meta
      in case request_execution q of
           Inl e \<Rightarrow> (Inl e, sv)
         | Inr x \<Rightarrow>
             (case find_duplicate db x q command_id of
                Some e \<Rightarrow> (Inr (Answered (ce_event_id e)), release_claim q command_id sv)
              | None \<Rightarrow>
                  (case log_event cf q event_id x status res logged None err command_id (draw_id db) of
                     Inl e \<Rightarrow> (Inl e, sv)
                   | Inr db1 \<Rightarrow>
                       (Inr (if eq_name q \<in> skip_engine_events then Answered event_id else Handed event_id logged),
                        release_claim q command_id
                          (sv\<lparr>sv_db := drain_core_outbox cf (project_command cf q event_id command_id res err db1),
                              sv_outage := record_db_operation_success (sv_outage sv)\<rparr>)))))"

text \<open>Opening the connection, for the branch that asks for it.\<close>

definition connected ::
    "command_config \<Rightarrow> (command_server \<Rightarrow> 'a answer \<times> command_server) \<Rightarrow> command_server \<Rightarrow> 'a answer \<times> command_server" where
  "connected cf f sv =
     (case cm_connection cf of
        PoolSaturated \<Rightarrow>
          (Inl (HttpRetry 503 (VDict [(''code'', VStr ''pool_saturated'')])
             (compute_retry_after (fst (cm_pool cf)) (snd (cm_pool cf)))), sv)
      | ConnectionFailed message \<Rightarrow> (Inl (Raised (RuntimeError message)), sv)
      | Connected \<Rightarrow> f sv)"

definition intake_body :: "command_config \<Rightarrow> event_request \<Rightarrow> command_server \<Rightarrow> intake answer \<times> command_server" where
  "intake_body cf q sv =
     (case lift_res (validate_reference_only_payload (eq_payload q)) of
        Inl e \<Rightarrow> (Inl e, sv)
      | Inr _ \<Rightarrow>
          (case (eq_name q, extract_command_id_from_payload (eq_payload q) (eq_meta q)) of
             (name, Some c) \<Rightarrow>
               (if name = ''command.claimed'' \<and> c \<noteq> 0 then connected cf (log_claim cf q c) sv
                else connected cf (log_report cf q) sv)
           | _ \<Rightarrow> connected cf (log_report cf q) sv))"

text \<open>
  The handler catches every exception, the endpoint's own HTTP errors among them, whose text is their
  status and detail. Only the saturated pool, which the body answers with \<open>HttpRetry\<close>, has a clause of
  its own.
\<close>

definition failure_text :: "http_failure \<Rightarrow> string" where
  "failure_text e =
     (case e of
        Http n d \<Rightarrow> show_nat n @ '': '' @ py_str d
      | HttpRetry n d s \<Rightarrow> show_nat n @ '': '' @ py_str d
      | Raised x \<Rightarrow> message_of x)"

definition event_failure :: "command_config \<Rightarrow> http_failure \<Rightarrow> command_server \<Rightarrow> http_failure \<times> command_server" where
  "event_failure cf e sv =
     (let (retry_after, o1) =
            record_db_unavailable_failure (cm_outage cf) (cm_monotonic cf) (failure_text e) (sv_outage sv)
      in case retry_after of
           Some s \<Rightarrow> (HttpRetry 503 (VDict [(''code'', VStr ''db_unavailable'')]) s, sv\<lparr>sv_outage := o1\<rparr>)
         | None \<Rightarrow> (Http 500 (VStr (failure_text e)), sv\<lparr>sv_outage := o1\<rparr>))"

definition intake_event :: "command_config \<Rightarrow> event_request \<Rightarrow> command_server \<Rightarrow> intake answer \<times> command_server" where
  "intake_event cf q sv =
     (case raise_if_db_short_circuit_enabled (cm_outage cf) (cm_monotonic cf) ''handle_event'' (sv_outage sv) of
        Inl e \<Rightarrow> map_prod Inl id (event_failure cf e sv)
      | Inr _ \<Rightarrow>
          (case intake_body cf q sv of
             (Inr r, sv1) \<Rightarrow> (Inr r, sv1)
           | (Inl (HttpRetry n d s), sv1) \<Rightarrow> (Inl (HttpRetry n d s), sv1)
           | (Inl e, sv1) \<Rightarrow> map_prod Inl id (event_failure cf e sv1)))"

end
