(* ===== verification/Command_Theorems.thy ===== *)
theory Command_Theorems
  imports Command_Events
begin

text \<open>
  What the command endpoints promise when their calls do not overlap, whatever each server's cache and
  record of outages hold: claims of one command lie a lease apart and an ended command stays ended.
  The last section shows what overlapping claims do.
\<close>

section \<open>What the calls leave alone\<close>

lemma drain_core_tables [simp]:
  "cd_commands (drain_core_outbox cf db) = cd_commands db"
  "cd_events (drain_core_outbox cf db) = cd_events db"
  by (simp_all add: drain_core_outbox_def split: option.split)

lemma draw_id_tables [simp]: "cd_commands (draw_id db) = cd_commands db" "cd_events (draw_id db) = cd_events db"
  by (simp_all add: draw_id_def)

lemma update_command_tables [simp]:
  "cd_commands (update_command i f db) = map (\<lambda>r. if co_command_id r = i then f r else r) (cd_commands db)"
  "cd_events (update_command i f db) = cd_events db"
  by (simp_all add: update_command_def)

lemma add_event_Inr:
  "add_event cf c e db = Inr db' \<Longrightarrow> cd_commands db' = cd_commands db \<and> cd_events db' = cd_events db @ [e]"
  by (auto simp: add_event_def elim!: abind_InrE split: if_splits)

lemma server_db_simps [simp]:
  "sv_db (forget_claim t sv) = sv_db sv" "sv_db (remember_claim cf t w sv) = sv_db sv"
  "sv_db (release_claim q c sv) = sv_db sv"
  by (simp_all add: forget_claim_def remember_claim_def release_claim_def split: option.split)

lemma claim_handler_db [simp]: "sv_db (snd (claim_handler cf m)) = sv_db (snd m)"
proof (cases "\<exists>x. fst m = Inl (Raised x)")
  case True
  then obtain x sv where m: "m = (Inl (Raised x), sv)" by (cases m) auto
  show ?thesis unfolding m claim_handler_def by (simp add: case_prod_beta Let_def split: option.split)
next
  case False
  then have "claim_handler cf m = m"
    by (cases m) (auto simp: claim_handler_def split: sum.split http_failure.split)
  then show ?thesis by simp
qed

lemma claim_lookup_db [simp]: "sv_db (snd (claim_lookup i sv)) = sv_db sv"
  by (simp add: claim_lookup_def Let_def split: option.split prod.split)

lemma claim_lookup_Inr:
  "claim_lookup i sv = (Inr t, sv') \<Longrightarrow> \<exists>b. find_command (sv_db sv) i = Some (t, b) \<and> ticket_refusal (sv_db sv) t b = None"
  by (auto simp: claim_lookup_def Let_def split: option.splits prod.splits)

lemma claim_read_cases:
  "(\<exists>e sv1. claim_read cf i q sv = (Inl e, sv1) \<and> sv_db sv1 = sv_db sv) \<or>
   (\<exists>sv1. claim_read cf i q sv = claim_lookup i sv1 \<and> sv_db sv1 = sv_db sv)"
proof (cases "raise_if_db_short_circuit_enabled (cm_outage cf) (cm_monotonic cf) ''claim_command'' (sv_outage sv)")
  case (Inl e)
  then show ?thesis by (simp add: claim_read_def)
next
  case (Inr u)
  obtain x c where g: "active_claim_cache_get (cm_cache cf) (cm_monotonic cf) i (sv_cache sv) = (x, c)"
    by (cases "active_claim_cache_get (cm_cache cf) (cm_monotonic cf) i (sv_cache sv)")
  let ?sv = "sv\<lparr>sv_cache := c\<rparr>"
  show ?thesis
  proof (cases "claim_of_other q x")
    case None
    show ?thesis
    proof (cases "cm_connection cf")
      case Connected
      then have "claim_read cf i q sv = claim_lookup i ?sv" using Inr g None by (simp add: claim_read_def)
      then show ?thesis by (intro disjI2 exI [of _ ?sv]) simp
    qed (use Inr g None in \<open>simp_all add: claim_read_def\<close>)
  qed (use Inr g in \<open>simp add: claim_read_def\<close>)
qed

lemma claim_read_db: "claim_read cf i q sv = (a, sv1) \<Longrightarrow> sv_db sv1 = sv_db sv"
  using claim_read_cases [of cf i q sv] claim_lookup_db by (metis snd_conv)

lemma claim_read_Inr:
  assumes "claim_read cf i q sv = (Inr t, sv1)"
  shows "\<exists>b. find_command (sv_db sv) i = Some (t, b) \<and> ticket_refusal (sv_db sv) t b = None"
proof -
  obtain sv2 where l: "claim_read cf i q sv = claim_lookup i sv2" "sv_db sv2 = sv_db sv"
    using claim_read_cases [of cf i q sv] assms by auto
  then show ?thesis using claim_lookup_Inr [of i sv2 t sv1] assms by simp
qed

text \<open>A claim that writes: its verdict, and the tables it leaves.\<close>

definition claim_writes ::
    "command_config \<Rightarrow> command_claim \<Rightarrow> claim_ticket \<Rightarrow> command_db \<Rightarrow> command_db \<Rightarrow> bool" where
  "claim_writes cf q t db db' =
     ((case claim_verdict cf db q t of Unclaimed \<Rightarrow> True | TakenOver w why \<Rightarrow> True | _ \<Rightarrow> False) \<and>
      (\<exists>e. cd_events db' = cd_events db @ [e]) \<and>
      cd_commands db' = map (\<lambda>r. if co_command_id r = tk_command_id t
          then row_claimed cf q (next_command_id cf db) r else r) (cd_commands db))"

lemma write_claim_db:
  assumes "write_claim cf q t rec sv = (a, sv')"
  shows "sv_db sv' = sv_db sv \<or>
    (\<exists>e. cd_events (sv_db sv') = cd_events (sv_db sv) @ [e]) \<and>
      cd_commands (sv_db sv') = map (\<lambda>r. if co_command_id r = tk_command_id t
          then row_claimed cf q (next_command_id cf (sv_db sv)) r else r) (cd_commands (sv_db sv))"
proof -
  let ?e = "claimed_event cf q t rec (next_command_id cf (sv_db sv))"
  show ?thesis
  proof (cases "execution_ended (sv_db sv) (tk_execution_id t)")
    case True
    then show ?thesis using assms by (auto simp: write_claim_def Let_def)
  next
    case False
    show ?thesis
    proof (cases "add_event cf (Some (tk_command_id t)) ?e (draw_id (sv_db sv))")
      case (Inl x)
      then show ?thesis using assms False by (auto simp: write_claim_def Let_def)
    next
      case (Inr db1)
      then show ?thesis using assms False add_event_Inr [OF Inr] by (auto simp: write_claim_def Let_def)
    qed
  qed
qed

lemma claim_finish_db:
  assumes "claim_finish cf q t sv = (a, sv')"
  shows "sv_db sv' = sv_db sv \<or> claim_writes cf q t (sv_db sv) (sv_db sv')"
proof (cases "cm_locked cf (tk_command_id t)")
  case True
  then show ?thesis using assms by (auto simp: claim_finish_def)
next
  case False
  show ?thesis
  proof (cases "claim_verdict cf (sv_db sv) q t")
    case Unclaimed
    then have "write_claim cf q t None sv = (a, sv')" using assms False by (simp add: claim_finish_def)
    from write_claim_db [OF this] show ?thesis using Unclaimed by (simp add: claim_writes_def)
  next
    case (TakenOver w why)
    then have "write_claim cf q t (Some (w, why)) sv = (a, sv')" using assms False by (simp add: claim_finish_def)
    from write_claim_db [OF this] show ?thesis using TakenOver by (simp add: claim_writes_def)
  qed (use assms False in \<open>auto simp: claim_finish_def\<close>)
qed

lemma claim_command_db:
  fixes cf i q sv
  defines "db \<equiv> sv_db sv" and "db' \<equiv> sv_db (snd (claim_command cf i q sv))"
  shows "db' = db \<or>
    (\<exists>t b. find_command db i = Some (t, b) \<and> ticket_refusal db t b = None \<and> claim_writes cf q t db db')"
proof -
  obtain a sv1 where r: "claim_read cf i q sv = (a, sv1)" by (cases "claim_read cf i q sv")
  have d: "sv_db sv1 = db" using claim_read_db [OF r] by (simp add: db_def)
  show ?thesis
  proof (cases a)
    case (Inl e)
    then show ?thesis using r d by (simp add: claim_command_def db'_def)
  next
    case (Inr t)
    obtain b sv2 where f: "claim_finish cf q t sv1 = (b, sv2)" by (cases "claim_finish cf q t sv1")
    have "db' = sv_db sv2" using r f Inr by (simp add: claim_command_def db'_def)
    then show ?thesis
      using claim_finish_db [OF f] claim_read_Inr [of cf i q sv t sv1] r Inr d by (auto simp: db_def)
  qed
qed

section \<open>Histories\<close>

text \<open>Calls one after the other, each of a server with a cache and a record of outages of its own.\<close>

datatype server_action =
    ClaimCommand command_config claim_cache outage int command_claim
  | ReportEvent command_config claim_cache outage event_request

definition server_of :: "claim_cache \<Rightarrow> outage \<Rightarrow> command_db \<Rightarrow> command_server" where
  "server_of c g db = \<lparr>sv_db = db, sv_cache = c, sv_outage = g\<rparr>"

definition act_on :: "command_db \<Rightarrow> server_action \<Rightarrow> command_db" where
  "act_on db a =
     (case a of
        ClaimCommand cf c g i q \<Rightarrow> sv_db (snd (claim_command cf i q (server_of c g db)))
      | ReportEvent cf c g q \<Rightarrow> sv_db (snd (intake_event cf q (server_of c g db))))"

text \<open>The claims that were logged: the event id of the command, the worker and the time.\<close>

definition granted :: "command_db \<Rightarrow> server_action \<Rightarrow> (int \<times> string \<times> int) list" where
  "granted db a =
     (case a of
        ClaimCommand cf c g i q \<Rightarrow>
          (if length (cd_events db) < length (cd_events (act_on db a)) then [(i, kq_worker_id q, cm_now cf)] else [])
      | ReportEvent cf c g q \<Rightarrow> [])"

fun grants :: "command_db \<Rightarrow> server_action list \<Rightarrow> (int \<times> string \<times> int) list" where
  "grants db [] = []"
| "grants db (a # as) = granted db a @ grants (act_on db a) as"

definition command_keys :: "command_db \<Rightarrow> (int \<times> int) list" where
  "command_keys db = map (\<lambda>r. (co_event_id r, co_command_id r)) (cd_commands db)"

definition wf_commands :: "command_db \<Rightarrow> bool" where
  "wf_commands db =
     (distinct (map fst (command_keys db)) \<and> distinct (map snd (command_keys db)) \<and> 0 \<notin> snd ` set (command_keys db))"

text \<open>The claims of a history name commands of the table and workers, under one set of limits.\<close>

definition table_action :: "claim_limits \<Rightarrow> int list \<Rightarrow> server_action \<Rightarrow> bool" where
  "table_action l is a =
     (case a of
        ClaimCommand cf c g i q \<Rightarrow> i \<in> set is \<and> kq_worker_id q \<noteq> [] \<and> cm_limits cf = l
      | ReportEvent cf c g q \<Rightarrow> True)"

section \<open>Reports\<close>

definition report_update :: "command_config \<Rightarrow> (issued_row \<Rightarrow> issued_row) \<Rightarrow> bool" where
  "report_update cf f =
     (\<exists>e. f = row_started cf e \<or>
       (\<exists>st res err. st \<in> terminal_statuses_of_commands \<and> f = row_ended cf e st res err))"

definition reported :: "command_config \<Rightarrow> command_db \<Rightarrow> command_db \<Rightarrow> bool" where
  "reported cf db db' =
     (cd_commands db' = cd_commands db \<or>
      (\<exists>c f. report_update cf f \<and>
        cd_commands db' = map (\<lambda>r. if co_command_id r = c then f r else r) (cd_commands db)))"

lemma log_event_Inr:
  "log_event cf q e x st res m w err c db = Inr db' \<Longrightarrow> cd_commands db' = cd_commands db"
  by (auto simp: log_event_def dest: add_event_Inr split: option.splits)

lemma log_claim_db:
  assumes "log_claim cf q c sv = (a, sv')"
  shows "cd_commands (sv_db sv') = cd_commands (sv_db sv)"
proof (cases "cm_locked cf c")
  case True
  then show ?thesis using assms by (auto simp: log_claim_def Let_def)
next
  case False
  show ?thesis
  proof (cases "request_execution q")
    case (Inl e)
    then show ?thesis using assms False by (auto simp: log_claim_def Let_def)
  next
    case (Inr x)
    show ?thesis
    proof (cases "claims_in_log (sv_db sv) x c")
      case (Some e)
      then show ?thesis using assms False Inr by (auto simp: log_claim_def Let_def split: if_splits)
    next
      case None
      show ?thesis
        using assms False Inr None log_event_Inr
        by (auto simp: log_claim_def Let_def split: sum.splits)
    qed
  qed
qed

lemma terminal_command_status_Some:
  "terminal_command_status n = Some st \<Longrightarrow> st \<in> terminal_statuses_of_commands"
  by (auto simp: terminal_command_status_def terminal_statuses_of_commands_def split: if_splits)

lemma project_command_db:
  assumes "eq_name q = ''command.claimed'' \<Longrightarrow> c = None \<or> c = Some 0"
  shows "reported cf db (project_command cf q e c res err db)"
proof (cases "c = None \<or> c = Some 0 \<or> (eq_name q \<noteq> ''command.started'' \<and> terminal_command_status (eq_name q) = None)")
  case True
  then have "project_command cf q e c res err db = db"
    using assms by (auto simp: project_command_def split: option.split)
  then show ?thesis by (simp add: reported_def)
next
  case False
  then obtain k where k: "c = Some k" "k \<noteq> 0" by (cases c) auto
  then have n: "eq_name q \<noteq> ''command.claimed''" using assms by auto
  have "\<exists>f. report_update cf f \<and> project_command cf q e c res err db = update_command k f db"
  proof (cases "eq_name q = ''command.started''")
    case True
    then show ?thesis using k by (auto simp: project_command_def report_update_def)
  next
    case started: False
    then obtain st where st: "terminal_command_status (eq_name q) = Some st" using False by auto
    have "report_update cf (row_ended cf e st res err)"
      using terminal_command_status_Some [OF st] by (auto simp: report_update_def)
    moreover have "project_command cf q e c res err db = update_command k (row_ended cf e st res err) db"
      using k n started st by (simp add: project_command_def)
    ultimately show ?thesis by blast
  qed
  then obtain f where f: "report_update cf f" "project_command cf q e c res err db = update_command k f db" by blast
  show ?thesis unfolding reported_def f(2) update_command_tables using f(1) by blast
qed

lemma log_report_db:
  assumes "log_report cf q sv = (a, sv')"
    and "eq_name q = ''command.claimed'' \<Longrightarrow>
      extract_command_id_from_payload (eq_payload q) (eq_meta q) \<in> {None, Some 0}"
  shows "reported cf (sv_db sv) (sv_db sv')"
proof -
  let ?c = "extract_command_id_from_payload (eq_payload q) (eq_meta q)"
  have p: "reported cf db1 (project_command cf q e ?c res err db1)" for e res err db1
    using assms(2) by (intro project_command_db) auto
  have r: "reported cf (sv_db sv) (sv_db sv)" by (simp add: reported_def)
  show ?thesis
  proof (cases "request_execution q")
    case (Inl e)
    then show ?thesis using assms(1) r by (auto simp: log_report_def Let_def)
  next
    case (Inr x)
    show ?thesis
    proof (cases "find_duplicate (sv_db sv) x q ?c")
      case (Some e)
      then show ?thesis using assms(1) Inr r by (auto simp: log_report_def Let_def)
    next
      case None
      have "reported cf db0 (drain_core_outbox cf (project_command cf q e ?c res err db1))"
        if "log_event cf q e2 x st res2 m w err2 c2 (draw_id db0) = Inr db1" for db0 db1 e e2 st res res2 m w err err2 c2
        using p [of db1 e res err] log_event_Inr [OF that] by (simp add: reported_def)
      then show ?thesis using assms(1) Inr None r
        by (auto simp: log_report_def Let_def split: sum.splits)
    qed
  qed
qed

lemma connected_db:
  assumes "\<And>a sv'. f sv = (a, sv') \<Longrightarrow> reported cf (sv_db sv) (sv_db sv')"
  shows "reported cf (sv_db sv) (sv_db (snd (connected cf f sv)))"
  using assms [OF surjective_pairing] by (cases "cm_connection cf") (simp_all add: connected_def reported_def)

lemma intake_body_db: "reported cf (sv_db sv) (sv_db (snd (intake_body cf q sv)))"
proof (cases "validate_reference_only_payload (eq_payload q)")
  case (Inl e)
  then show ?thesis by (simp add: intake_body_def lift_res_def reported_def)
next
  case (Inr u)
  let ?c = "extract_command_id_from_payload (eq_payload q) (eq_meta q)"
  show ?thesis
  proof (cases "eq_name q = ''command.claimed'' \<and> ?c \<notin> {None, Some 0}")
    case True
    then obtain c where c: "?c = Some c" "c \<noteq> 0" by (cases ?c) auto
    have "reported cf (sv_db sv) (sv_db (snd (connected cf (log_claim cf q c) sv)))"
      by (rule connected_db) (simp add: reported_def log_claim_db)
    then show ?thesis using Inr True c by (simp add: intake_body_def lift_res_def)
  next
    case False
    have "intake_body cf q sv = connected cf (log_report cf q) sv"
      using Inr False by (auto simp: intake_body_def lift_res_def split: option.split)
    moreover have "reported cf (sv_db sv) (sv_db (snd (connected cf (log_report cf q) sv)))"
      by (rule connected_db) (rule log_report_db, use False in auto)
    ultimately show ?thesis by simp
  qed
qed

lemma event_failure_db [simp]: "sv_db (snd (event_failure cf e sv)) = sv_db sv"
  by (simp add: event_failure_def Let_def case_prod_beta split: option.split)

lemma intake_event_db: "reported cf (sv_db sv) (sv_db (snd (intake_event cf q sv)))"
proof -
  obtain a sv1 where b: "intake_body cf q sv = (a, sv1)" by (cases "intake_body cf q sv")
  have r: "reported cf (sv_db sv) (sv_db sv1)" using intake_body_db [of cf sv q] b by simp
  show ?thesis
  proof (cases "raise_if_db_short_circuit_enabled (cm_outage cf) (cm_monotonic cf) ''handle_event'' (sv_outage sv)")
    case (Inl e)
    then show ?thesis by (simp add: intake_event_def reported_def)
  next
    case (Inr u)
    have "sv_db (snd (intake_event cf q sv)) = sv_db sv1"
      using Inr b by (cases a) (auto simp: intake_event_def split: http_failure.split)
    then show ?thesis using r by simp
  qed
qed

section \<open>Rows that are held or have ended\<close>

definition row_over :: "issued_row \<Rightarrow> bool" where
  "row_over r = (co_status r \<in> terminal_statuses_of_commands \<and> co_completed_at r \<noteq> None)"

definition row_held :: "int \<Rightarrow> issued_row \<Rightarrow> bool" where
  "row_held t r =
     (co_status r \<in> {''CLAIMED'', ''RUNNING''} \<and> co_worker_id r \<notin> {None, Some []} \<and>
      (case co_claimed_at r of None \<Rightarrow> False | Some s \<Rightarrow> t \<le> s))"

definition row_at :: "command_db \<Rightarrow> int \<Rightarrow> (issued_row \<Rightarrow> bool) \<Rightarrow> bool" where
  "row_at db i P = (\<exists>r \<in> set (cd_commands db). co_event_id r = i \<and> P r)"

lemma report_keeps:
  "report_update cf f \<Longrightarrow> row_over r \<Longrightarrow> row_over (f r)"
  "report_update cf f \<Longrightarrow> row_held t r \<Longrightarrow> row_held t (f r) \<or> row_over (f r)"
  "report_update cf f \<Longrightarrow> co_event_id (f r) = co_event_id r \<and> co_command_id (f r) = co_command_id r"
  by (auto simp: report_update_def row_over_def row_held_def row_started_def row_ended_def Let_def split: if_splits)

lemma row_claimed_keys [simp]:
  "co_event_id (row_claimed cf q e r) = co_event_id r" "co_command_id (row_claimed cf q e r) = co_command_id r"
  by (simp_all add: row_claimed_def)

lemma reported_keys:
  assumes "reported cf db db'" shows "command_keys db' = command_keys db"
proof -
  have "command_keys db' = command_keys db"
    if "report_update cf f" "cd_commands db' = map (\<lambda>r. if co_command_id r = c then f r else r) (cd_commands db)" for c f
    using that report_keeps(3) [OF that(1)] by (simp add: command_keys_def)
  then show ?thesis using assms by (auto simp: reported_def command_keys_def)
qed

lemma reported_rows:
  assumes "reported cf db db'" and "row_at db i (\<lambda>r. row_over r \<or> held \<and> row_held t r)"
  shows "row_at db' i (\<lambda>r. row_over r \<or> held \<and> row_held t r)"
proof -
  obtain r where r: "r \<in> set (cd_commands db)" "co_event_id r = i" "row_over r \<or> held \<and> row_held t r"
    using assms(2) by (auto simp: row_at_def)
  from assms(1) show ?thesis unfolding reported_def
  proof
    assume "cd_commands db' = cd_commands db"
    then show ?thesis using r by (auto simp: row_at_def)
  next
    assume "\<exists>c f. report_update cf f \<and> cd_commands db' = map (\<lambda>r. if co_command_id r = c then f r else r) (cd_commands db)"
    then obtain c f where f: "report_update cf f"
      and d: "cd_commands db' = map (\<lambda>r. if co_command_id r = c then f r else r) (cd_commands db)" by blast
    let ?r = "if co_command_id r = c then f r else r"
    have "?r \<in> set (cd_commands db')" using r(1) d by auto
    moreover have "co_event_id ?r = i" using r(2) report_keeps(3) [OF f] by simp
    moreover have "row_over ?r \<or> held \<and> row_held t ?r" using r(3) report_keeps(1,2) [OF f] by auto
    ultimately show ?thesis by (auto simp: row_at_def)
  qed
qed

lemma act_report: "reported cf db (act_on db (ReportEvent cf c g q))"
  using intake_event_db [of cf "server_of c g db" q] by (simp add: act_on_def server_of_def)

lemma filter_key_unique: "distinct (map f xs) \<Longrightarrow> x \<in> set xs \<Longrightarrow> filter (\<lambda>y. f y = f x) xs = [x]"
  by (induction xs) (auto simp: filter_empty_conv rev_image_eqI)

lemma wf_find_command:
  assumes "wf_commands db" and "r \<in> set (cd_commands db)"
  shows "find_command db (co_event_id r) = Some (row_ticket (co_event_id r) r, False)"
proof -
  have "distinct (map co_event_id (cd_commands db))"
    using assms(1) by (simp add: wf_commands_def command_keys_def comp_def)
  from filter_key_unique [OF this assms(2)] show ?thesis by (simp add: find_command_def)
qed

lemma row_ticket_id: "co_command_id r \<noteq> 0 \<Longrightarrow> tk_command_id (row_ticket i r) = co_command_id r"
  by (simp add: row_ticket_def ticket_command_id_def)

lemma not_over: "ticket_refusal db (row_ticket i r) b = None \<Longrightarrow> \<not> row_over r"
  by (auto simp: ticket_refusal_def ticket_status_def row_ticket_def row_over_def split: if_splits)

text \<open>A claim that writes over a held row comes when the lease is over.\<close>

lemma verdict_lease:
  assumes "case claim_verdict cf db q (row_ticket i r) of Unclaimed \<Rightarrow> True | TakenOver w why \<Rightarrow> True | _ \<Rightarrow> False"
    and "row_held t r" and "co_command_id r \<noteq> 0" and "cl_lease (cm_limits cf) \<le> cl_hard_timeout (cm_limits cf)"
  shows "t + cl_lease (cm_limits cf) \<le> cm_now cf"
proof -
  obtain w s where w: "co_worker_id r = Some w" "w \<noteq> []" and s: "co_claimed_at r = Some s" "t \<le> s"
    and st: "co_status r \<in> {''CLAIMED'', ''RUNNING''}"
    using assms(2) by (auto simp: row_held_def split: option.splits)
  have c: "claim_started r = s" using s by (simp add: claim_started_def)
  show ?thesis
  proof (cases "w = kq_worker_id q")
    case True
    then show ?thesis using assms w s st c
      by (auto simp: claim_verdict_def row_ticket_def split: if_splits)
  next
    case False
    let ?k = "existing_claim_facts cf db (kq_worker_id q) w r"
    have "rd_reclaim (decide_reclaim_for_existing_claim (cm_limits cf) ?k)"
      using assms(1,3) w st False by (auto simp: claim_verdict_def row_ticket_def Let_def split: if_splits)
    then have "cl_lease (cm_limits cf) \<le> ck_claim_age ?k" by (simp add: reclaim_iff)
    then show ?thesis using s c by (simp add: existing_claim_facts_def Let_def)
  qed
qed

section \<open>Claims\<close>

lemma claim_step:
  assumes wf: "wf_commands db" and "row_at db i P"
    and d: "db' = act_on db (ClaimCommand cf c g i q)"
  shows "db' = db \<or>
    (\<exists>r \<in> set (cd_commands db). co_event_id r = i \<and> P r \<and> co_command_id r \<noteq> 0 \<and> \<not> row_over r \<and>
       claim_writes cf q (row_ticket i r) db db')"
proof -
  obtain r where r: "r \<in> set (cd_commands db)" "co_event_id r = i" "P r" using assms(2) by (auto simp: row_at_def)
  have f: "find_command db i = Some (row_ticket i r, False)" using wf_find_command [OF wf r(1)] r(2) by simp
  have z: "co_command_id r \<noteq> 0"
    using wf r(1) by (force simp: wf_commands_def command_keys_def image_image)
  have "db' = db \<or> (\<exists>t b. find_command db i = Some (t, b) \<and> ticket_refusal db t b = None \<and> claim_writes cf q t db db')"
    using claim_command_db [of cf i q "server_of c g db"] d by (simp add: act_on_def server_of_def)
  then show ?thesis using f r z not_over [of db i r False] by auto
qed

lemma claim_writes_keys: "claim_writes cf q t db db' \<Longrightarrow> command_keys db' = command_keys db"
  by (simp add: claim_writes_def command_keys_def comp_def if_distrib cong: if_cong)

lemma act_keys:
  assumes "wf_commands db" and "table_action l (map fst (command_keys db)) a"
  shows "command_keys (act_on db a) = command_keys db"
proof (cases a)
  case (ReportEvent cf c g q)
  then show ?thesis using reported_keys [OF act_report] by simp
next
  case (ClaimCommand cf c g i q)
  then have "row_at db i (\<lambda>r. True)" using assms(2) by (auto simp: table_action_def row_at_def command_keys_def)
  from claim_step [OF assms(1) this, of _ cf c g q] ClaimCommand show ?thesis using claim_writes_keys by auto
qed

lemma act_rows:
  assumes wf: "wf_commands db" and v: "table_action l (map fst (command_keys db)) a"
    and k: "row_at db i (\<lambda>r. row_over r \<or> held \<and> row_held t r)"
    and l: "cl_lease l \<le> cl_hard_timeout l" "0 \<le> cl_lease l"
  shows "row_at (act_on db a) i (\<lambda>r. row_over r \<or> held \<and> row_held t r)"
proof (cases a)
  case (ReportEvent cf c g q)
  then show ?thesis using reported_rows [OF act_report k] by simp
next
  case (ClaimCommand cf c g j q)
  then have row: "row_at db j (\<lambda>r. True)" and w: "kq_worker_id q \<noteq> []" "cm_limits cf = l"
    using v by (auto simp: table_action_def row_at_def command_keys_def)
  obtain r where r: "r \<in> set (cd_commands db)" "co_event_id r = i" "row_over r \<or> held \<and> row_held t r"
    using k by (auto simp: row_at_def)
  have ids: "x = y" if "x \<in> set (cd_commands db)" "y \<in> set (cd_commands db)" "co_command_id x = co_command_id y" for x y
    using wf that by (auto simp: wf_commands_def command_keys_def comp_def distinct_map dest: inj_onD)
  have eids: "x = y" if "x \<in> set (cd_commands db)" "y \<in> set (cd_commands db)" "co_event_id x = co_event_id y" for x y
    using wf that by (auto simp: wf_commands_def command_keys_def comp_def distinct_map dest: inj_onD)
  from claim_step [OF wf row refl, of cf c g q] show ?thesis
  proof
    assume "act_on db (ClaimCommand cf c g j q) = db"
    then show ?thesis using k ClaimCommand by simp
  next
    assume "\<exists>x \<in> set (cd_commands db). co_event_id x = j \<and> True \<and> co_command_id x \<noteq> 0 \<and> \<not> row_over x \<and>
       claim_writes cf q (row_ticket j x) db (act_on db (ClaimCommand cf c g j q))"
    then obtain x where x: "x \<in> set (cd_commands db)" "co_event_id x = j" "co_command_id x \<noteq> 0" "\<not> row_over x"
      "claim_writes cf q (row_ticket j x) db (act_on db a)" using ClaimCommand by auto
    let ?f = "\<lambda>r. if co_command_id r = co_command_id x then row_claimed cf q (next_command_id cf db) r else r"
    have d: "cd_commands (act_on db a) = map ?f (cd_commands db)"
      using x(5) row_ticket_id [OF x(3)] by (simp add: claim_writes_def)
    have "?f r \<in> set (cd_commands (act_on db a))" "co_event_id (?f r) = i" using r d by auto
    moreover have "row_over (?f r) \<or> held \<and> row_held t (?f r)"
    proof (cases "co_command_id r = co_command_id x")
      case False
      then show ?thesis using r(3) by simp
    next
      case True
      then have e: "r = x" using ids r(1) x(1) by simp
      then have h: "held" "row_held t x" using r(3) x(4) by auto
      have "t + cl_lease l \<le> cm_now cf"
        using verdict_lease [of cf db q j x t] x(3,5) h(2) l(1) w(2) by (simp add: claim_writes_def)
      then have "row_held t (row_claimed cf q (next_command_id cf db) x)"
        using w(1) l(2) by (simp add: row_held_def row_claimed_def)
      then show ?thesis using e h(1) by simp
    qed
    ultimately show ?thesis by (auto simp: row_at_def)
  qed
qed

text \<open>A claim that is granted: it holds the row, and it keeps a lease apart from an earlier one.\<close>

lemma granted_row:
  assumes wf: "wf_commands db" and v: "table_action l (map fst (command_keys db)) a"
    and l: "cl_lease l \<le> cl_hard_timeout l" and g: "(i, w, s) \<in> set (granted db a)"
  shows "row_at (act_on db a) i (row_held s)"
    and "row_at db i (\<lambda>r. row_over r \<or> row_held t r) \<Longrightarrow> t + cl_lease l \<le> s"
proof -
  obtain cf c o1 q where a: "a = ClaimCommand cf c o1 i q" and grow: "length (cd_events db) < length (cd_events (act_on db a))"
    and s: "s = cm_now cf"
    using g by (auto simp: granted_def split: server_action.splits if_splits)
  have vq: "kq_worker_id q \<noteq> []" "cm_limits cf = l" using v a by (auto simp: table_action_def)
  have *: "\<exists>r \<in> set (cd_commands db). co_event_id r = i \<and> P r \<and> co_command_id r \<noteq> 0 \<and> \<not> row_over r \<and>
       claim_writes cf q (row_ticket i r) db (act_on db a)" if "row_at db i P" for P
    using claim_step [OF wf that, of "act_on db a" cf c o1 q] a grow by auto
  have "row_at db i (\<lambda>r. True)" using v a by (auto simp: table_action_def row_at_def command_keys_def)
  from * [OF this] obtain r where r: "r \<in> set (cd_commands db)" "co_event_id r = i" "co_command_id r \<noteq> 0"
    "claim_writes cf q (row_ticket i r) db (act_on db a)" by blast
  have "row_claimed cf q (next_command_id cf db) r \<in> set (cd_commands (act_on db a))"
    using r(1,4) row_ticket_id [OF r(3)] by (force simp: claim_writes_def)
  then show "row_at (act_on db a) i (row_held s)"
    using vq s r(2) unfolding row_at_def
    by (intro bexI [of _ "row_claimed cf q (next_command_id cf db) r"]) (simp_all add: row_held_def row_claimed_def)
  assume "row_at db i (\<lambda>r. row_over r \<or> row_held t r)"
  from * [OF this] obtain x where x: "row_held t x" "co_command_id x \<noteq> 0"
    "claim_writes cf q (row_ticket i x) db (act_on db a)" by auto
  then show "t + cl_lease l \<le> s"
    using verdict_lease [of cf db q i x t] l vq(2) s by (simp add: claim_writes_def)
qed

lemma wf_act: "wf_commands db \<Longrightarrow> table_action l (map fst (command_keys db)) a \<Longrightarrow> wf_commands (act_on db a)"
  using act_keys [of db l a] by (simp add: wf_commands_def)

lemma later_grants:
  "wf_commands db \<Longrightarrow> list_all (table_action l (map fst (command_keys db))) as \<Longrightarrow>
   cl_lease l \<le> cl_hard_timeout l \<Longrightarrow> 0 \<le> cl_lease l \<Longrightarrow> row_at db i (\<lambda>r. row_over r \<or> row_held t r) \<Longrightarrow>
   (i, w, s) \<in> set (grants db as) \<Longrightarrow> t + cl_lease l \<le> s"
proof (induction "as" arbitrary: db)
  case (Cons a "as")
  have v: "table_action l (map fst (command_keys db)) a" using Cons.prems(2) by simp
  show ?case
  proof (cases "(i, w, s) \<in> set (granted db a)")
    case True
    show ?thesis by (rule granted_row(2) [OF Cons.prems(1) v Cons.prems(3) True Cons.prems(5)])
  next
    case False
    have "row_at (act_on db a) i (\<lambda>r. row_over r \<or> row_held t r)"
      using act_rows [OF Cons.prems(1) v, of i True t] Cons.prems(3-5) by simp
    then show ?thesis
      using Cons.IH [OF wf_act [OF Cons.prems(1) v]] Cons.prems act_keys [OF Cons.prems(1) v] False by simp
  qed
qed simp


text \<open>
  C7. An ended command stays ended: once the row of a command has a terminal status and its time,
  no claim and no report, late or repeated, takes it back, whatever the caches of the servers hold.
\<close>
theorem ended_command_stays:
  assumes "wf_commands db" and "list_all (table_action l (map fst (command_keys db))) as"
    and "cl_lease l \<le> cl_hard_timeout l" and "0 \<le> cl_lease l"
    and "row_at db i row_over"
  shows "row_at (foldl act_on db as) i row_over"
  using assms(1,2,5)
proof (induction "as" arbitrary: db)
  case (Cons a "as")
  have v: "table_action l (map fst (command_keys db)) a" using Cons.prems(2) by simp
  have "row_at (act_on db a) i row_over"
    using act_rows [OF Cons.prems(1) v, of i False] Cons.prems(3) assms(3,4) by simp
  then show ?case
    using Cons.IH [of "act_on db a"] wf_act [OF Cons.prems(1) v] act_keys [OF Cons.prems(1) v] Cons.prems(2) by simp
qed simp

section \<open>Answers of failed reports\<close>

lemma event_failure_answer:
  "event_failure cf e sv = (e', sv') \<Longrightarrow> (\<exists>d. e' = Http 500 d) \<or> (\<exists>d s. e' = HttpRetry 503 d s)"
  by (auto simp: event_failure_def Let_def split: prod.splits option.splits)

lemma raised_not_retry:
  "lift_res m = Inl e \<Longrightarrow> \<exists>x. e = Raised x"
  "add_event cf c ev db = Inl e \<Longrightarrow> \<exists>x. e = Raised x"
  "request_execution q = Inl e \<Longrightarrow> \<exists>x. e = Raised x"
proof -
  show r: "lift_res m = Inl e \<Longrightarrow> \<exists>x. e = Raised x" for m :: "'b res"
    by (cases m) (auto simp: lift_res_def)
  then show "request_execution q = Inl e \<Longrightarrow> \<exists>x. e = Raised x" by (simp add: request_execution_def)
  show "add_event cf c ev db = Inl e \<Longrightarrow> \<exists>x. e = Raised x"
    using r by (auto simp: add_event_def abind_def split: if_splits sum.splits)
qed

lemma log_event_raises: "log_event cf q e1 x st res m w err c db = Inl e \<Longrightarrow> \<exists>x. e = Raised x"
  by (auto simp: log_event_def dest: raised_not_retry split: option.splits)

lemma log_claim_fails:
  assumes "log_claim cf q c sv = (Inl e, sv')"
  shows "sv' = sv \<and> (\<forall>n d s. e \<noteq> HttpRetry n d s)"
proof (cases "cm_locked cf c")
  case True
  then show ?thesis using assms by (auto simp: log_claim_def Let_def)
next
  case False
  show ?thesis
  proof (cases "request_execution q")
    case (Inl x)
    then show ?thesis using assms False raised_not_retry(3) [OF Inl] by (auto simp: log_claim_def Let_def)
  next
    case (Inr x)
    show ?thesis
    proof (cases "claims_in_log (sv_db sv) x c")
      case (Some ev)
      then show ?thesis using assms False Inr by (auto simp: log_claim_def Let_def split: if_splits)
    next
      case None
      show ?thesis
        using assms False Inr None log_event_raises
        by (fastforce simp: log_claim_def Let_def split: sum.splits)
    qed
  qed
qed

lemma log_report_fails:
  assumes "log_report cf q sv = (Inl e, sv')"
  shows "sv' = sv \<and> (\<forall>n d s. e \<noteq> HttpRetry n d s)"
proof (cases "request_execution q")
  case (Inl x)
  then show ?thesis using assms raised_not_retry(3) [OF Inl] by (auto simp: log_report_def Let_def)
next
  case (Inr x)
  show ?thesis
  proof (cases "find_duplicate (sv_db sv) x q (extract_command_id_from_payload (eq_payload q) (eq_meta q))")
    case (Some ev)
    then show ?thesis using assms Inr by (auto simp: log_report_def Let_def)
  next
    case None
    show ?thesis
      using assms Inr None log_event_raises
      by (fastforce simp: log_report_def Let_def split: sum.splits)
  qed
qed

lemma connected_fails:
  assumes "connected cf f sv = (Inl e, sv')"
    and "\<And>e sv'. f sv = (Inl e, sv') \<Longrightarrow> sv' = sv \<and> (\<forall>n d s. e \<noteq> HttpRetry n d s)"
  shows "sv' = sv \<and> (\<forall>n d s. e = HttpRetry n d s \<longrightarrow> n = 503)"
  using assms by (cases "cm_connection cf") (auto simp: connected_def)

lemma intake_body_fails:
  assumes "intake_body cf q sv = (Inl e, sv')"
  shows "sv' = sv \<and> (\<forall>n d s. e = HttpRetry n d s \<longrightarrow> n = 503)"
proof (cases "validate_reference_only_payload (eq_payload q)")
  case (Inl x)
  then show ?thesis using assms by (auto simp: intake_body_def lift_res_def)
next
  case (Inr u)
  let ?c = "extract_command_id_from_payload (eq_payload q) (eq_meta q)"
  have "intake_body cf q sv = connected cf (log_report cf q) sv \<or> (\<exists>c. intake_body cf q sv = connected cf (log_claim cf q c) sv)"
    using Inr by (auto simp: intake_body_def lift_res_def split: option.split)
  then show ?thesis
  proof
    assume "intake_body cf q sv = connected cf (log_report cf q) sv"
    then have "connected cf (log_report cf q) sv = (Inl e, sv')" using assms by simp
    from connected_fails [OF this] log_report_fails show ?thesis by blast
  next
    assume "\<exists>c. intake_body cf q sv = connected cf (log_claim cf q c) sv"
    then obtain c where "connected cf (log_claim cf q c) sv = (Inl e, sv')" using assms by auto
    from connected_fails [OF this] log_claim_fails show ?thesis by blast
  qed
qed


section \<open>Duplicates\<close>

text \<open>
  Events logged here have no \<open>command_id\<close> in their column, by which duplicates and claims are looked
  up: what the endpoint has logged is never found.
\<close>

lemma log_event_blind:
  assumes "log_event cf q e x st res m w err c db = Inr db'"
  shows "duplicate_in_log db' y p k = duplicate_in_log db y p k" "claims_in_log db' y k = claims_in_log db y k"
proof -
  obtain ev where "cd_events db' = cd_events db @ [ev]" "ce_command_id ev = None"
    using assms by (auto simp: log_event_def dest: add_event_Inr split: option.splits)
  then show "duplicate_in_log db' y p k = duplicate_in_log db y p k" "claims_in_log db' y k = claims_in_log db y k"
    by (simp_all add: duplicate_in_log_def claims_in_log_def)
qed

end
