(* ===== verification/Command_Examples.thy ===== *)
theory Command_Examples
  imports Command_Theorems
begin

text \<open>
  A small server with one command, on which the theorems about claims and reports are witnessed, and
  the runs that show what the endpoints do not promise.
\<close>

definition sample_limits :: claim_limits where
  "sample_limits = \<lparr>cl_lease = 120000000, cl_heartbeat_stale = 30000000, cl_hard_timeout = 1800000000\<rparr>"

definition sample_command_config :: "int \<Rightarrow> command_config" where
  "sample_command_config now =
     \<lparr>cm_now = now, cm_monotonic = now, cm_show_time = (\<lambda>t. ''t''), cm_snowflake = (\<lambda>n. 100 + int n),
      cm_locked = (\<lambda>i. False), cm_connection = Connected, cm_pool = (None, None),
      cm_outage = \<lparr>og_short_circuit = True, og_base = 1000000, og_max = 30000000\<rparr>,
      cm_cache = \<lparr>cc_ttl = 30000000, cc_lease = 120000000, cc_max_entries = 128, cc_prune_interval = 1000000\<rparr>,
      cm_limits = sample_limits, cm_retry_after = 2,
      cm_payload = \<lparr>pl_context_bytes = 1024, pl_rows = 16, pl_rows_bytes = 65536\<rparr>, cm_mirror = False,
      cm_encode = (\<lambda>d. None), cm_subject = (\<lambda>d. []), cm_drain_limit = None, cm_publish = (\<lambda>n d. None)\<rparr>"

definition sample_command :: issued_row where
  "sample_command =
     \<lparr>co_command_id = 5, co_event_id = 7, co_execution_id = 1, co_catalog_id = 2, co_step_name = ''s'',
      co_tool_kind = Some ''http'', co_status = ''PENDING'', co_worker_id = None, co_claimed_at = None,
      co_started_at = None, co_completed_at = None, co_updated_at = 0, co_context = [], co_meta = [],
      co_result = [], co_error = None, co_latest_event_id = None\<rparr>"

definition sample_issued_event :: command_event where
  "sample_issued_event =
     \<lparr>ce_event_id = 7, ce_execution_id = 1, ce_catalog_id = 2, ce_event_type = ''command.issued'',
      ce_node_name = ''s'', ce_node_type = Some ''http'', ce_status = ''PENDING'', ce_context = [], ce_result = [],
      ce_meta = [], ce_worker_id = None, ce_command_id = Some 5, ce_error = None, ce_created_at = 0\<rparr>"

definition sample_command_db :: command_db where
  "sample_command_db =
     \<lparr>cd_commands = [sample_command], cd_events = [sample_issued_event], cd_runtimes = [], cd_drawn = 0,
      cd_outbox = \<lparr>ox_rows = [], ox_next = 0\<rparr>\<rparr>"

definition sample_server :: command_server where
  "sample_server = server_of empty_claim_cache no_outage sample_command_db"

definition sample_worker :: "string \<Rightarrow> command_claim" where
  "sample_worker w = \<lparr>kq_worker_id = w, kq_locality = []\<rparr>"

definition sample_report :: "string \<Rightarrow> string \<Rightarrow> event_request" where
  "sample_report name w =
     \<lparr>eq_execution_id = ''1'', eq_step = ''s'', eq_name = name, eq_payload = [(''command_id'', VInt 5)],
      eq_meta = [], eq_worker_id = Some w, eq_actionable = True, eq_informative = True\<rparr>"

lemmas claim_eval =
  claim_command_def claim_read_def claim_lookup_def claim_finish_def claim_handler_def write_claim_def
  claim_verdict_def find_command_def row_ticket_def ticket_command_id_def ticket_refusal_def ticket_status_def
  ticket_in_table_def terminal_statuses_of_commands_def command_terminal_event_types_def
  execution_terminal_event_types_def execution_ended_def raise_if_db_short_circuit_enabled_def
  db_unavailable_retry_after_def no_outage_def record_db_operation_success_def active_claim_cache_get_def
  active_claim_cache_prune_def empty_claim_cache_def claim_of_other_def next_command_id_def draw_id_def
  add_event_def event_taken_def enqueue_event_outbox_def claimed_event_def update_command_def row_claimed_def
  drain_core_outbox_def claim_response_def remember_claim_def forget_claim_def claim_started_def
  existing_claim_facts_def worker_runtime_def decide_reclaim_for_existing_claim_def kept_for_def reclaimed_for_def
  worker_healthy_def runtime_status_def lift_res_def

lemmas sample_eval =
  sample_command_config_def sample_limits_def sample_command_def sample_issued_event_def sample_command_db_def
  sample_server_def server_of_def sample_worker_def

definition row_claimed_db :: "command_config \<Rightarrow> command_claim \<Rightarrow> (string \<times> string) option \<Rightarrow> command_db \<Rightarrow> command_db" where
  "row_claimed_db cf q reclaimed db =
     (let r = hd (cd_commands db); e = next_command_id cf db in
      db\<lparr>cd_commands := [row_claimed cf q e r],
         cd_events := cd_events db @ [claimed_event cf q (row_ticket 7 r) reclaimed e], cd_drawn := cd_drawn db + 1\<rparr>)"

definition claim_at :: "int \<Rightarrow> string \<Rightarrow> server_action" where
  "claim_at now w = ClaimCommand (sample_command_config now) empty_claim_cache no_outage 7 (sample_worker w)"

definition once_claimed :: command_db where
  "once_claimed = row_claimed_db (sample_command_config 0) (sample_worker ''w1'') None sample_command_db"

lemmas run_eval = claim_eval sample_eval row_claimed_db_def once_claimed_def strip_def lower_def claim_at_def act_on_def

lemma first_claim_written: "act_on sample_command_db (claim_at 0 ''w1'') = once_claimed"
  by (simp add: run_eval)

lemma early_claim: "act_on once_claimed (claim_at 60000000 ''w2'') = once_claimed"
  by (simp add: run_eval)

lemma late_claim:
  "act_on once_claimed (claim_at 120000000 ''w2'')
     = row_claimed_db (sample_command_config 120000000) (sample_worker ''w2'') (Some (''w1'', ''lease_expired'')) once_claimed"
  by (simp add: run_eval)

definition sample_claims :: "server_action list" where
  "sample_claims = [claim_at 0 ''w1'', claim_at 60000000 ''w2'', claim_at 120000000 ''w2'']"

lemma sample_grants: "grants sample_command_db sample_claims = [(7, ''w1'', 0), (7, ''w2'', 120000000)]"
proof -
  have g: "granted db (claim_at now w)
      = (if length (cd_events db) < length (cd_events (act_on db (claim_at now w))) then [(7, w, now)] else [])" for db now w
    by (simp add: granted_def claim_at_def sample_worker_def sample_command_config_def)
  show ?thesis
    by (simp add: sample_claims_def g first_claim_written early_claim late_claim)
      (simp add: once_claimed_def row_claimed_db_def Let_def)
qed

lemma sample_valid:
  "wf_commands sample_command_db" "list_all (table_action sample_limits (map fst (command_keys sample_command_db))) sample_claims"
  "cl_lease sample_limits \<le> cl_hard_timeout sample_limits" "0 \<le> cl_lease sample_limits"
  by (simp_all add: wf_commands_def command_keys_def sample_eval sample_claims_def claim_at_def table_action_def)


definition ended_db :: command_db where
  "ended_db = sample_command_db\<lparr>cd_commands :=
     [row_ended (sample_command_config 50000000) 200 ''COMPLETED'' [] None sample_command]\<rparr>"

theorem ended_command_stays_witness: "row_at (foldl act_on ended_db sample_claims) 7 row_over"
proof (rule ended_command_stays [OF _ _ sample_valid(3,4)])
  show "wf_commands ended_db" and "row_at ended_db 7 row_over"
    and "list_all (table_action sample_limits (map fst (command_keys ended_db))) sample_claims"
    by (simp_all add: ended_db_def row_ended_def wf_commands_def command_keys_def row_at_def row_over_def
        terminal_statuses_of_commands_def sample_eval sample_claims_def claim_at_def table_action_def)
qed

section \<open>Reports that fail\<close>

text \<open>The claim of a command that another worker holds, a conflict, is answered 500.\<close>

definition claim_of_w1 :: command_event where
  "claim_of_w1 = sample_issued_event\<lparr>ce_event_id := 8, ce_event_type := ''command.claimed'', ce_worker_id := Some ''w1''\<rparr>"

definition claimed_log_server :: command_server where
  "claimed_log_server = sample_server\<lparr>sv_db := sample_command_db\<lparr>cd_events := [sample_issued_event, claim_of_w1]\<rparr>\<rparr>"

lemma conflict_is_no_outage: "\<not> is_db_unavailable_error ''409: Command already claimed by w1''"
  by code_simp

lemma report_command: "extract_command_id_from_payload (eq_payload (sample_report n w)) [] = Some 5"
  by (simp add: sample_report_def extract_command_id_from_payload_def as_command_id_def py_get_def)

lemma report_valid: "validate_reference_only_payload (eq_payload (sample_report n w)) = Inr ()"
  by (simp add: sample_report_def validate_reference_only_payload_def strict_payload_forbidden_keys_def py_get_def)

lemma report_execution: "request_execution (sample_report n w) = Inr 1"
  by (simp add: sample_report_def request_execution_def lift_res_def) code_simp

lemma report_fields [simp]:
  "eq_name (sample_report n w) = n" "eq_step (sample_report n w) = ''s''" "eq_worker_id (sample_report n w) = Some w" "eq_meta (sample_report n w) = []"
  by (simp_all add: sample_report_def)

lemma sample_config_simps [simp]:
  "cm_connection (sample_command_config t) = Connected" "cm_locked (sample_command_config t) i = False"
  "cm_now (sample_command_config t) = t" "\<not> cm_mirror (sample_command_config t)"
  by (simp_all add: sample_command_config_def)

lemma no_outage_open: "raise_if_db_short_circuit_enabled g now op no_outage = Inr () \<or> now < 0"
  by (auto simp: raise_if_db_short_circuit_enabled_def db_unavailable_retry_after_def no_outage_def)

lemma conflict_answered_500:
  "intake_event (sample_command_config 0) (sample_report ''command.claimed'' ''w2'') claimed_log_server
     = (Inl (Http 500 (VStr ''409: Command already claimed by w1'')), claimed_log_server)"
proof -
  let ?cf = "sample_command_config 0" and ?q = "sample_report ''command.claimed'' ''w2''"
  have l: "claims_in_log (sv_db claimed_log_server) 1 5 = Some claim_of_w1"
    by (simp add: claims_in_log_def newest_event_def claimed_log_server_def claim_of_w1_def sample_eval)
  have w: "ce_worker_id claim_of_w1 = Some ''w1''" by (simp add: claim_of_w1_def)
  have "log_claim ?cf ?q 5 claimed_log_server
      = (Inl (Http 409 (VStr ''Command already claimed by w1'')), claimed_log_server)"
    using l w by (simp add: log_claim_def Let_def report_execution enc_str_def py_or_def)
  then have b: "intake_body ?cf ?q claimed_log_server
      = (Inl (Http 409 (VStr ''Command already claimed by w1'')), claimed_log_server)"
    by (simp add: intake_body_def report_valid report_command lift_res_def connected_def)
  have f: "failure_text (Http 409 (VStr ''Command already claimed by w1'')) = ''409: Command already claimed by w1''"
    by (simp add: failure_text_def) code_simp
  have o1: "sv_outage claimed_log_server = no_outage" by (simp add: claimed_log_server_def sample_server_def server_of_def)
  have e: "event_failure ?cf (Http 409 (VStr ''Command already claimed by w1'')) claimed_log_server
      = (Http 500 (VStr ''409: Command already claimed by w1''), claimed_log_server)"
    by (simp add: event_failure_def f record_db_unavailable_failure_def conflict_is_no_outage)
  have "cm_monotonic ?cf = 0" by (simp add: sample_command_config_def)
  then show ?thesis using b e no_outage_open [of "cm_outage ?cf" 0] by (simp add: intake_event_def o1)
qed


text \<open>While the server holds an outage to go on, a report is answered 500 and not 503.\<close>

lemma short_circuit_text_is_no_outage:
  "\<not> is_db_unavailable_error (failure_text (HttpRetry 503 (VDict [(''code'', VStr ''db_unavailable''),
      (''message'', VStr (''Database temporarily unavailable during '' @ ''handle_event'' @ ''; retry shortly''))]) s))"
  unfolding failure_text_def by (simp only: http_failure.case) code_simp

lemma outage_answered_500:
  assumes "og_short_circuit (cm_outage cf)" and "cm_monotonic cf < og_until (sv_outage sv)"
  shows "\<exists>d. intake_event cf q sv = (Inl (Http 500 d), sv)"
proof -
  define t where "t = show_int (max 1 (ceil_seconds (og_until (sv_outage sv) - cm_monotonic cf)))"
  define e where "e = HttpRetry 503 (VDict [(''code'', VStr ''db_unavailable''),
      (''message'', VStr (''Database temporarily unavailable during '' @ ''handle_event'' @ ''; retry shortly''))]) t"
  have r: "raise_if_db_short_circuit_enabled (cm_outage cf) (cm_monotonic cf) ''handle_event'' (sv_outage sv) = Inl e"
    using assms by (simp add: raise_if_db_short_circuit_enabled_def db_unavailable_retry_after_def Let_def t_def e_def)
  have "\<not> is_db_unavailable_error (failure_text e)" unfolding e_def by (rule short_circuit_text_is_no_outage)
  then have "event_failure cf e sv = (Http 500 (VStr (failure_text e)), sv)"
    by (simp add: event_failure_def record_db_unavailable_failure_def)
  then show ?thesis using r by (simp add: intake_event_def)
qed

section \<open>Runs that go wrong\<close>

text \<open>
  Claims that overlap: both workers have read the row before either has taken the lock. The lock comes
  free with the first commit, the second decides on the row it has read, and both are told \<open>ok\<close>.
\<close>

lemma two_workers_claim_one_command:
  "\<exists>t1 s1 t2 s2 r1 s3 r2 s4.
     claim_read (sample_command_config 0) 7 (sample_worker ''w1'') sample_server = (Inr t1, s1) \<and>
     claim_read (sample_command_config 0) 7 (sample_worker ''w2'') s1 = (Inr t2, s2) \<and>
     claim_finish (sample_command_config 0) (sample_worker ''w1'') t1 s2 = (Inr r1, s3) \<and>
     claim_finish (sample_command_config 0) (sample_worker ''w2'') t2 s3 = (Inr r2, s4) \<and>
     length (cd_events (sv_db s4)) = 3"
  by (simp add: claim_eval sample_eval)

text \<open>
  A claim that overlaps the end: the row is read as pending, the command is completed, and the claim
  makes the completed row a claimed one.
\<close>

lemma late_claim_reopens:
  "\<exists>t s1 r s2.
     claim_read (sample_command_config 0) 7 (sample_worker ''w1'') sample_server = (Inr t, s1) \<and>
     claim_finish (sample_command_config 0) (sample_worker ''w1'') t
       (s1\<lparr>sv_db := update_command 5 (row_ended (sample_command_config 0) 200 ''COMPLETED'' [] None) (sv_db s1)\<rparr>)
       = (Inr r, s2) \<and>
     map (\<lambda>r. (co_status r, co_completed_at r)) (cd_commands (sv_db s2)) = [(''CLAIMED'', Some 0)]"
  by (simp add: claim_eval sample_eval row_ended_def)

text \<open>What the endpoint logs is no duplicate to it: a completion that is delivered twice is logged twice.\<close>

lemma completion_logged_twice:
  assumes "log_event cf q e x st res m w err c db = Inr db'"
  shows "find_duplicate db' x q c' = find_duplicate db x q c'"
  using log_event_blind(1) [OF assms] by (simp add: find_duplicate_def split: option.split)

end
