(* ===== verification/Spec2Isabelle.thy ===== *)
theory Spec2Isabelle
  imports Replay_Theorems Replay_Reader Replay_Payloads Event_Store Projector Caches Engine_Loops
    Loop_Cache_Theorems Task_Sequence_Theorems Redaction Resource_Locator
    Engine_Commands_Theorems Routing_Theorems Lifecycle_Theorems Event_Theorems
    Cursor_Worker_Theorems Lease_Network Command_Examples
begin

text \<open>
  A verification development of NoETL (\<^verbatim>\<open>src/noetl\<close>), a workflow engine that records every step
  of an execution as an event. A server appends events to a log, mirrors them to NATS through an
  outbox, folds them into projections, and keeps for each execution a state out of which it decides
  which commands to issue; workers run the commands and answer with events. What follows says which
  theory models which part, how its state and operations correspond to the code, what is proved,
  and what is left out. Source files are named without \<^verbatim>\<open>src/noetl/\<close>.

  \<^bold>\<open>Foundations.\<close>
  \<^item> \<open>Noetl_Prelude\<close>: exceptions as values (\<open>py_error\<close>, results \<open>py_error + 'a\<close> with \<open>rbind\<close>), ordered
    dictionaries as association lists, and the lemma collections the other theories share.
  \<^item> \<open>PyValue\<close>, \<open>PyText\<close>: the dynamic values of events and playbooks (\<open>pyval\<close>), truth, equality,
    \<open>get\<close>, the text forms \<open>str\<close> and \<open>repr\<close> and the readings of \<open>int(x)\<close>. Integers are unbounded, as
    in Python; floats appear only where a component needs them and are then said to be rationals or
    integers; text is ASCII.
  \<^item> \<open>Canonical_Json\<close>: canonical JSON and SHA-256, the base of every checksum.

  \<^bold>\<open>Event log and replay.\<close>
  \<^item> \<open>Event_Store\<close> (\<^verbatim>\<open>core/event_store/\<close>): records, append with optimistic concurrency under the
    advisory lock of a stream, and interleaved transactions as a step relation. Stream versions
    are consecutive under every interleaving, and a stale writer is refused.
  \<^item> \<open>Outbox\<close> (\<^verbatim>\<open>core/outbox.py\<close>): enqueue, claim, marks, retry delay and a publishing pass. A pass
    hands each claimed row to the publisher once and settles it; a row left in flight is stranded.
  \<^item> \<open>Projection_Store\<close>, \<open>Projector\<close> (\<^verbatim>\<open>core/projection_store/\<close>, \<^verbatim>\<open>core/projector/\<close>): guarded upserts,
    grouping, folding, sharding. The newest projection survives whatever the order of its saves.
  \<^item> \<open>Upcasters\<close> (\<^verbatim>\<open>core/replay/upcasters.py\<close>): the upcasting loop runs on fuel, the number of
    registered upcasters, which is proved to be enough when they keep the schema name.
  \<^item> \<open>Replay_Fold\<close>, \<open>Replay_Rows\<close>, \<open>Replay_State\<close>, \<open>Replay_Invariants\<close>, \<open>Replay_Parity\<close>,
    \<open>Replay_Theorems\<close> (\<^verbatim>\<open>server/api/replay/service.py\<close>): the fold of an execution's events into stages,
    frames, commands, business objects and loops, the rows compared with the live tables and their
    checksums. Incremental replay equals full replay, delivery order does not matter, the folded
    state is well formed, and live rows that hold the folded records have its checksums.
  \<^item> \<open>Replay_Payloads\<close>, \<open>Replay_Reader\<close>: payload references and their resolution, the reader over an
    explicit event table, snapshot seeds, and the service. A compatible snapshot only accelerates.

  \<^bold>\<open>Engine\<close> (\<^verbatim>\<open>core/dsl/engine/\<close>).
  \<^item> \<open>Playbook_Model\<close>, \<open>Planner\<close> (\<^verbatim>\<open>models/\<close>, \<^verbatim>\<open>planner.py\<close>): the parsed playbook with its validators and
    the static planner of fan-outs and their reduce steps.
  \<^item> \<open>Caches\<close>, \<open>Engine_Common\<close> (\<^verbatim>\<open>executor/common.py\<close>): the bounded caches, size estimates, compaction,
    hydration and scoped mutations. \<open>Credential_Refs\<close> (\<^verbatim>\<open>core/credential_refs.py\<close>): keychain references.
  \<^item> \<open>Engine_State\<close>, \<open>Engine_Loops\<close> (\<^verbatim>\<open>executor/state.py\<close>): \<open>exec_state\<close> is the class
    \<open>ExecutionState\<close>, field by field; its loops hand out every item once and account for every
    result, and its persisted form is stable.
  \<^item> \<open>Template_Eval\<close>, \<open>Loop_Recovery\<close> (\<^verbatim>\<open>executor/rendering.py\<close>, \<^verbatim>\<open>core/dsl/render.py\<close>): the paths around Jinja2, which is
    a parameter, and recovery of a loop's state, which never shrinks its collection.
  \<^item> \<open>Engine_World\<close> (\<^verbatim>\<open>executor/lifecycle.py\<close>, \<^verbatim>\<open>executor/queries.py\<close>): an engine call takes a \<open>world\<close>, the state
    together with the event, command and stage tables, the distributed loop state and the supply of
    ids and times, to a value or an exception and the world it leaves. A cascade of events written
    as one batch leaves what writing them one by one would.
  \<^item> \<open>Engine_Commands\<close>, \<open>Engine_Commands_Theorems\<close> (\<^verbatim>\<open>executor/commands.py\<close>): the whole of
    \<open>_create_command_for_step\<close>, one definition per stage. A loop's command is for a scheduled index of its
    collection, and no command carries a resolved secret.
  \<^item> \<open>Cursor_Loops\<close>, \<open>Routing\<close>, \<open>Then_Actions\<close>, \<open>State_Frame\<close>, \<open>Routing_Theorems\<close>
    (\<^verbatim>\<open>executor/transitions.py\<close>): cursor loops, arcs, then blocks, pagination, deferred transitions. Routing
    issues commands only for known targets not in flight and leaves them pending; an exclusive router takes the
    first eligible arc; deferred transitions fire once; pagination is bounded. \<open>State_Frame\<close> states
    as locales what a call leaves alone and interprets them on the model's own calls.
  \<^item> \<open>State_Store\<close>, \<open>State_Store_Theorems\<close> (\<^verbatim>\<open>executor/store.py\<close>): the playbook cache, the row of an
    execution, saving, loading, and rebuilding a state from the logs. What is saved is what is
    loaded, an ended row stays ended, and the flags of a rebuilt state follow the log.
  \<^item> \<open>Lifecycle\<close>, \<open>Lifecycle_Theorems\<close> (\<^verbatim>\<open>executor/lifecycle.py\<close>, \<^verbatim>\<open>executor/base.py\<close>): starting an
    execution, which logs its beginning before its commands, and ending an abandoned one, once.
  \<^item> \<open>Event_Intake\<close>, \<open>Event_Loops\<close>, \<open>Event_Handler\<close> (\<^verbatim>\<open>executor/events.py\<close>): \<open>handle_event\<close>, one
    definition for each stage of \<open>_handle_event_inner\<close>, in its order.
  \<^item> \<open>Handler_Frame\<close>, \<open>Event_Theorems\<close>: what the stages of the handler leave alone, as locales over every
    call it makes, interpreted on the relation that allows one end of the workflow. Over any
    sequence of events the workflow ends at most once, an ended execution is inert, duplicates are
    ignored, and a terminal step with nothing pending completes the execution.

  \<^bold>\<open>Distributed counters.\<close>
  \<^item> \<open>Kv_Store\<close>, \<open>Loop_Cache\<close>, \<open>Loop_Cache_Theorems\<close> (\<^verbatim>\<open>core/cache/nats_kv.py\<close>): the NATS bucket with revisions, and
    every method as a program of its requests; calls of several servers interleave at each request.
    Indexes are claimed once, iterations in flight are bounded, loop.done is claimed once, and a
    loop whose items complete reaches it.

  \<^bold>\<open>Worker and shared code.\<close>
  \<^item> \<open>Error_Info\<close>, \<open>Task_Sequence\<close>, \<open>Task_Sequence_Theorems\<close> (\<^verbatim>\<open>core/errors.py\<close>,
    \<^verbatim>\<open>worker/task_sequence_executor.py\<close>): error classification and the executor of task pipelines.
    The executor's loop may not end (a rule may jump for ever), so it runs on fuel, and sequences
    that do not jump are proved to end for all fuel above a bound.
  \<^item> \<open>Redaction\<close>, \<open>Resource_Locator\<close> (\<^verbatim>\<open>core/status.py\<close>, \<^verbatim>\<open>core/sanitize.py\<close>, \<^verbatim>\<open>core/resource_locator.py\<close>): status
    values, the sanitizers, whose recursion is bounded by the code's own depth limit, and locators,
    which parse and print back.

  \<^bold>\<open>Frames of cursor loops.\<close> A cursor worker claims rows from a driver and leases each frame of rows from the
  server, which keeps the table \<^verbatim>\<open>noetl.frame\<close> and logs the life of every frame.
  \<^item> \<open>Topology\<close> (\<^verbatim>\<open>core/runtime/topology.py\<close>): worker localities, locators and distances.
  \<^item> \<open>Frame_Leases\<close>, \<open>Frame_Endpoints\<close>, \<open>Frame_Theorems\<close> (\<^verbatim>\<open>server/api/frames\<close>): the frame table, the events and the
    endpoints that claim, extend and commit a frame, each a transaction. A frame is committed at most
    once, terminal frames are final, live leases are kept, repeated claims renew; counterexamples
    show stolen leases, heartbeats that end or reopen a frame, and freed claim keys.
  \<^item> \<open>Cursor_Worker\<close>, \<open>Cursor_Worker_Theorems\<close> (\<^verbatim>\<open>worker/cursor_worker.py\<close>): the worker's loop over an arbitrary driver,
    executor, store and server. Its fuel is one more than its limit of rows: each round runs at least
    one row, so the loop ends within it; over a queue it runs every row once, in order.
  \<^item> \<open>Lease_Network\<close>: the worker's retries against the server over a network that loses messages, through the
    locale \<open>repeatable_call\<close>, interpreted on the endpoint.

  \<^bold>\<open>Commands and events over HTTP.\<close> Workers claim commands and report events over HTTP; each server has a
  cache of its own, and the tables are shared.
  \<^item> \<open>Http_Answers\<close>: the answers of the endpoints of frames and commands, values or failures with a status.
  \<^item> \<open>Claim_Policy\<close> (\<^verbatim>\<open>claim_policy.py\<close>, \<^verbatim>\<open>server/api/core/db.py\<close>): when a claimed command may be handed to another
    worker, in one line, and the backoff after a failure of the database, bounded by its maximum.
  \<^item> \<open>Claim_Cache\<close> (\<^verbatim>\<open>server/api/core/cache.py\<close>): the cache of active claims, whose two dictionaries agree and stay
    within their size whatever is done with them.
  \<^item> \<open>Event_Payloads\<close> (\<^verbatim>\<open>events.py\<close>, \<^verbatim>\<open>commands.py\<close>, \<^verbatim>\<open>utils.py\<close> of \<^verbatim>\<open>server/api/core\<close>): the checks of a payload and the
    compact result stored for it, which the constraint of the event table accepts.
  \<^item> \<open>Command_Claims\<close>, \<open>Command_Events\<close> (\<^verbatim>\<open>commands.py\<close>, \<^verbatim>\<open>events.py\<close>): \<open>claim_command\<close>, as its read and its write, and
    \<open>handle_event\<close> up to the engine, over the tables of commands, events and workers.
  \<^item> \<open>Command_Theorems\<close>, \<open>Command_Examples\<close>: when calls do not overlap, claims of a command are a lease apart and an
    ended command stays ended, whatever the caches hold; failed reports are answered 500 or 503. The
    examples show that overlapping claims both succeed and can reopen a completed command.

  \<^bold>\<open>Parameters.\<close> Jinja2, the database's failures, NATS, object stores, tools, clocks and id generators are
  arguments of the definitions, gathered in records such as \<open>host\<close>; a theorem that needs a property
  of one of them states it as a hypothesis and has a witness with a concrete instance.
  \<^bold>\<open>Not modelled.\<close> The other HTTP endpoints, the tools, the credential, catalog and storage services, the
  worker's process around a command, and the command line: they are network and database clients
  around the parts above. Logging, metrics and tracing are left out everywhere. In the
  components that are modelled, what is left out is said at the head of their theories.
\<close>

end
